(* ===== verification/Prelude.thy ===== *)
theory Prelude
  imports Complex_Main "HOL-Library.AList"
begin

text \<open>
  What every component shares: Go's fixed-width integers, instants and durations, Go maps,
  the string functions of the standard library that the sources call, and the two fact
  collections \<open>gomap_simps\<close> and \<open>gotime_simps\<close> that carry the component proofs.
\<close>

named_theorems gomap_simps \<open>lookup, length and well-formedness of Go maps\<close>
named_theorems gotime_simps \<open>instants and durations\<close>

section \<open>Fixed-width integers\<close>

text \<open>
  A Go \<^verbatim>\<open>int32\<close> or \<^verbatim>\<open>int64\<close> is the integer it denotes; where an operation can leave
  the range the model wraps the result. Go's \<^verbatim>\<open>int\<close> is 64 bits wide.
\<close>

definition i32 :: "int \<Rightarrow> int" where
  "i32 x = (x + 2 ^ 31) mod 2 ^ 32 - 2 ^ 31"

definition i64 :: "int \<Rightarrow> int" where
  "i64 x = (x + 2 ^ 63) mod 2 ^ 64 - 2 ^ 63"

lemma i32_id: "- (2 ^ 31) \<le> x \<Longrightarrow> x < 2 ^ 31 \<Longrightarrow> i32 x = x"
  by (simp add: i32_def)

lemma i64_id: "- (2 ^ 63) \<le> x \<Longrightarrow> x < 2 ^ 63 \<Longrightarrow> i64 x = x"
  by (simp add: i64_def)

lemma i32_range: "- (2 ^ 31) \<le> i32 x \<and> i32 x < 2 ^ 31"
  by (simp add: i32_def)

lemma i64_range: "- (2 ^ 63) \<le> i64 x \<and> i64 x < 2 ^ 63"
  by (simp add: i64_def)

section \<open>Instants and durations\<close>

text \<open>
  A \<^verbatim>\<open>time.Time\<close> is its number of nanoseconds since the Unix epoch; the zero
  \<^verbatim>\<open>time.Time\<close> is the first instant of year 1. A \<^verbatim>\<open>time.Duration\<close> is an \<^verbatim>\<open>int64\<close>
  number of nanoseconds, and \<^verbatim>\<open>Sub\<close> saturates at its ends. The clock is an argument
  (\<open>now\<close>) of every operation that reads it.
\<close>

type_synonym time = int
type_synonym duration = int

abbreviation Second :: duration where "Second \<equiv> 1000000000"
abbreviation Minute :: duration where "Minute \<equiv> 60 * Second"
abbreviation Hour :: duration where "Hour \<equiv> 60 * Minute"

definition zeroTime :: time where "zeroTime = - 62135596800 * Second"

definition IsZero :: "time \<Rightarrow> bool" where "IsZero t \<longleftrightarrow> t = zeroTime"
definition After :: "time \<Rightarrow> time \<Rightarrow> bool" where "After t u \<longleftrightarrow> u < t"
definition Before :: "time \<Rightarrow> time \<Rightarrow> bool" where "Before t u \<longleftrightarrow> t < u"
definition Add :: "time \<Rightarrow> duration \<Rightarrow> time" where "Add t d = t + d"
definition Sub :: "time \<Rightarrow> time \<Rightarrow> duration" where
  "Sub t u = max (- (2 ^ 63)) (min (2 ^ 63 - 1) (t - u))"

declare IsZero_def [gotime_simps] After_def [gotime_simps] Before_def [gotime_simps]
  Add_def [gotime_simps]

lemma Sub_id [gotime_simps]:
  "- (2 ^ 63) \<le> t - u \<Longrightarrow> t - u < 2 ^ 63 \<Longrightarrow> Sub t u = t - u"
  by (simp add: Sub_def)

lemma Sub_greater: "0 \<le> d \<Longrightarrow> d < 2 ^ 63 - 1 \<Longrightarrow> d < Sub t u \<longleftrightarrow> d < t - u"
  by (auto simp: Sub_def)

section \<open>Strings\<close>

text \<open>A Go string is its bytes.\<close>

definition HasPrefix :: "string \<Rightarrow> string \<Rightarrow> bool" where
  "HasPrefix s p \<longleftrightarrow> length p \<le> length s \<and> take (length p) s = p"

definition HasSuffix :: "string \<Rightarrow> string \<Rightarrow> bool" where
  "HasSuffix s p \<longleftrightarrow> length p \<le> length s \<and> drop (length s - length p) s = p"

lemma HasPrefix_iff: "HasPrefix s p \<longleftrightarrow> (\<exists>t. s = p @ t)"
  by (metis HasPrefix_def append_eq_conv_conj append_take_drop_id le_add1 length_append)

lemma HasSuffix_iff: "HasSuffix s p \<longleftrightarrow> (\<exists>t. s = t @ p)"
  by (metis HasSuffix_def append_eq_conv_conj append_take_drop_id diff_add_inverse2 le_add2 length_append)

section \<open>Go maps\<close>

text \<open>
  A Go map is a list of pairs with distinct keys. The order of the list stands for the order
  in which \<^verbatim>\<open>range\<close> visits the map, which Go leaves open: a statement about every list is
  a statement about every order.
\<close>

type_synonym ('k, 'v) gomap = "('k \<times> 'v) list"

definition gget :: "('k, 'v) gomap \<Rightarrow> 'k \<Rightarrow> 'v option" where "gget m k = map_of m k"
definition gput :: "('k, 'v) gomap \<Rightarrow> 'k \<Rightarrow> 'v \<Rightarrow> ('k, 'v) gomap" where
  "gput m k v = AList.update k v m"
definition gdel :: "('k, 'v) gomap \<Rightarrow> 'k \<Rightarrow> ('k, 'v) gomap" where
  "gdel m k = AList.delete k m"
definition gfilter :: "('k \<Rightarrow> 'v \<Rightarrow> bool) \<Rightarrow> ('k, 'v) gomap \<Rightarrow> ('k, 'v) gomap" where
  "gfilter p m = filter (\<lambda>(k, v). p k v) m"
definition gwf :: "('k, 'v) gomap \<Rightarrow> bool" where "gwf m \<longleftrightarrow> distinct (map fst m)"

lemma gget_Nil [simp]: "gget [] k = None"
  by (simp add: gget_def)

lemma gget_Cons [gomap_simps]: "gget ((j, v) # m) k = (if j = k then Some v else gget m k)"
  by (simp add: gget_def)

lemma gget_gput [gomap_simps]: "gget (gput m k v) j = (if j = k then Some v else gget m j)"
  by (simp add: gget_def gput_def update_conv')

lemma gget_gdel [gomap_simps]: "gget (gdel m k) j = (if j = k then None else gget m j)"
  by (simp add: gget_def gdel_def delete_conv')

lemma gwf_Nil [simp]: "gwf []"
  by (simp add: gwf_def)

lemma gwf_gput [gomap_simps, intro]: "gwf m \<Longrightarrow> gwf (gput m k v)"
  by (simp add: gwf_def gput_def distinct_update)

lemma gwf_gdel [gomap_simps, intro]: "gwf m \<Longrightarrow> gwf (gdel m k)"
  by (simp add: gwf_def gdel_def distinct_delete)

lemma gwf_gfilter [gomap_simps, intro]: "gwf m \<Longrightarrow> gwf (gfilter p m)"
  by (auto simp: gwf_def gfilter_def distinct_map inj_on_def)

lemma gget_gfilter [gomap_simps]:
  "gwf m \<Longrightarrow> gget (gfilter p m) k = (case gget m k of None \<Rightarrow> None | Some v \<Rightarrow> if p k v then Some v else None)"
proof (induction m)
  case (Cons a m)
  obtain j v where a: "a = (j, v)" by force
  have "gget m j = None" using Cons.prems by (auto simp: gwf_def gget_def a map_of_eq_None_iff)
  then show ?case using Cons by (auto simp: gfilter_def gget_Cons gwf_def a split: option.splits)
qed (simp add: gfilter_def)

lemma gget_mem: "gwf m \<Longrightarrow> (k, v) \<in> set m \<longleftrightarrow> gget m k = Some v"
  by (simp add: gwf_def gget_def)

lemma gget_None_iff: "gget m k = None \<longleftrightarrow> k \<notin> fst ` set m"
  by (simp add: gget_def map_of_eq_None_iff)

lemma length_gput [gomap_simps]:
  "length (gput m k v) = (if gget m k = None then Suc (length m) else length m)"
  by (induction m) (auto simp: gput_def gget_def)

lemma gput_same: "gget m k = Some v \<Longrightarrow> gput m k v = m"
  by (induction m) (auto simp: gput_def gget_def split: if_splits)

lemma gput_gput: "gput (gput m k v) k w = gput m k w"
  by (induction m) (auto simp: gput_def)

lemma length_gdel_less: "gget m k \<noteq> None \<Longrightarrow> length (gdel m k) < length m"
  by (induction m) (auto simp: gdel_def gget_def AList.delete_eq length_filter_le less_Suc_eq_le split: if_splits)

lemma length_gdel_le: "length (gdel m k) \<le> length m"
  by (simp add: gdel_def AList.delete_eq)

lemma length_gdel [gomap_simps]:
  "gwf m \<Longrightarrow> length (gdel m k) = (if gget m k = None then length m else length m - 1)"
proof (induction m)
  case (Cons a m)
  obtain j v where a: "a = (j, v)" by force
  have j: "gget m j = None" using Cons.prems by (auto simp: gwf_def gget_def a map_of_eq_None_iff)
  then have "gdel m j = m" by (simp add: gdel_def gget_None_iff delete_idem)
  moreover have "gget m k \<noteq> None \<Longrightarrow> 0 < length m" by (cases m) auto
  ultimately show ?case using Cons by (auto simp: gdel_def gget_Cons gwf_def a)
qed (simp add: gdel_def)


text \<open>
  The interface the components rely on when they keep records under a key: what a lookup
  returns after a store and after a removal, and that both keep the map well-formed.
\<close>

locale keyed_store =
  fixes look :: "'m \<Rightarrow> 'k \<Rightarrow> 'v option"
    and put :: "'m \<Rightarrow> 'k \<Rightarrow> 'v \<Rightarrow> 'm"
    and del :: "'m \<Rightarrow> 'k \<Rightarrow> 'm"
    and wf :: "'m \<Rightarrow> bool"
  assumes look_put: "look (put m k v) j = (if j = k then Some v else look m j)"
    and look_del: "look (del m k) j = (if j = k then None else look m j)"
    and wf_put: "wf m \<Longrightarrow> wf (put m k v)"
    and wf_del: "wf m \<Longrightarrow> wf (del m k)"
begin

text \<open>Storing several pairs one after the other: the last one for a key wins.\<close>

lemma look_puts: "look (fold (\<lambda>(k, v) m. put m k v) kvs m) j =
    (case map_of (rev kvs) j of Some v \<Rightarrow> Some v | None \<Rightarrow> look m j)"
  by (induction kvs rule: rev_induct) (auto simp: look_put split: option.splits)

lemma wf_puts: "wf m \<Longrightarrow> wf (fold (\<lambda>(k, v) m. put m k v) kvs m)"
  by (induction kvs rule: rev_induct) (auto intro: wf_put)

lemma look_dels: "look (fold (\<lambda>k m. del m k) ks m) j = (if j \<in> set ks then None else look m j)"
  by (induction ks rule: rev_induct) (auto simp: look_del)

lemma wf_dels: "wf m \<Longrightarrow> wf (fold (\<lambda>k m. del m k) ks m)"
  by (induction ks rule: rev_induct) (auto intro: wf_del)

end

interpretation gm: keyed_store gget gput gdel gwf
  by unfold_locales (auto simp: gomap_simps)

section \<open>Pages of a list\<close>

lemma take_pages: "concat (map (\<lambda>k. take l (drop (k * l) xs)) [0..<n]) = take (n * l) xs"
proof (induction n)
  case (Suc n)
  have "take (n * l) xs @ take l (drop (n * l) xs) = take (n * l + l) xs" by (simp add: take_add)
  then show ?case using Suc by (simp add: add.commute)
qed simp

end
