(* ===== verification/Float64.thy ===== *)
theory Float64
  imports Prelude "HOL-Library.Log_Nat"
begin

text \<open>
  Go's \<^verbatim>\<open>float64\<close>. A finite double is the rational number it denotes; every
  arithmetic operation computes exactly and then rounds with \<open>fl\<close>: nearest, ties to
  even, 53 bits of precision, subnormals on the grid of \<open>2 ^ -1074\<close>. Overflow to an
  infinity and NaN do not occur in the modelled code (all values are scores, rates and
  durations far below the range limit, and every division is guarded), and the sign of zero is
  not represented. A decimal literal of the source is \<open>fl\<close> of its value, as the compiler
  rounds it. Multiply and add are rounded separately, as the compiler does on amd64.

  The facts the components use are stated once in the locale \<open>rounding\<close> (monotone, exact
  on small integers) and reach them through its interpretation on \<open>fl\<close>.
\<close>

type_synonym float64 = rat

definition pow2 :: "int \<Rightarrow> rat" where
  "pow2 e = (if 0 \<le> e then 2 ^ nat e else 1 / 2 ^ nat (- e))"

definition ilog2 :: "rat \<Rightarrow> int" where
  "ilog2 x =
     (let (p, q) = quotient_of x; e = int (nat (bitlen p)) - int (nat (bitlen q))
      in if pow2 e \<le> x then e else e - 1)"

definition rne :: "rat \<Rightarrow> int" where
  "rne x =
     (let f = \<lfloor>x\<rfloor>; d = x - of_int f
      in if d < 1 / 2 then f else if 1 / 2 < d then f + 1
         else if even f then f else f + 1)"

definition ulp_exp :: "rat \<Rightarrow> int" where
  "ulp_exp x = max (-1074) (ilog2 \<bar>x\<bar> - 52)"

definition fl :: "rat \<Rightarrow> rat" where
  "fl x = (if x = 0 then 0 else of_int (rne (x / pow2 (ulp_exp x))) * pow2 (ulp_exp x))"

lemma pow2_pos [simp]: "0 < pow2 e"
  by (simp add: pow2_def)

lemma pow2_powi: "pow2 e = 2 powi e"
  by (auto simp: pow2_def power_int_def field_simps)

lemma pow2_add: "pow2 (a + b) = pow2 a * pow2 b"
  by (simp add: pow2_powi power_int_add)


lemma pow2_nonneg [simp]: "0 \<le> pow2 e"
  using pow2_pos [of e] by linarith

lemma pow2_nonzero [simp]: "pow2 e \<noteq> 0"
  using pow2_pos [of e] by linarith

lemma pow2_strict_mono: "a < b \<Longrightarrow> pow2 a < pow2 b"
proof -
  assume "a < b"
  then have "1 < pow2 (b - a)" by (simp add: pow2_def one_less_power)
  then have "pow2 a * 1 < pow2 a * pow2 (b - a)" by (simp only: mult_less_cancel_left_pos pow2_pos)
  then show ?thesis by (simp flip: pow2_add)
qed

lemma pow2_less_iff [simp]: "pow2 a < pow2 b \<longleftrightarrow> a < b"
  by (metis linorder_less_linear order_less_asym pow2_strict_mono)

lemma pow2_le_iff [simp]: "pow2 a \<le> pow2 b \<longleftrightarrow> a \<le> b"
  by (meson linorder_not_less pow2_less_iff)

lemma pow2_bitlen_bounds:
  assumes "0 < (p::int)"
  shows "pow2 (int (nat (bitlen p)) - 1) \<le> of_int p" and "of_int p < pow2 (int (nat (bitlen p)))"
proof -
  have b: "0 < bitlen p" "2 ^ nat (bitlen p - 1) \<le> p" "p < 2 ^ nat (bitlen p)"
    using bitlen_bounds [of p] assms bitlen_nonneg [of p] bitlen_eq_zero_iff [of p] by auto
  show "pow2 (int (nat (bitlen p)) - 1) \<le> of_int p"
  proof -
    have "(of_int (2 ^ nat (bitlen p - 1)) :: rat) \<le> of_int p" using b by (simp only: of_int_le_iff)
    then show ?thesis using b(1) by (simp add: pow2_def)
  qed
  have "(of_int p :: rat) < of_int (2 ^ nat (bitlen p))" using b by (simp only: of_int_less_iff)
  then show "of_int p < pow2 (int (nat (bitlen p)))" by (simp add: pow2_def bitlen_nonneg)
qed

lemma ilog2_bounds:
  assumes "0 < x"
  shows "pow2 (ilog2 x) \<le> x" and "x < pow2 (ilog2 x + 1)"
proof -
  obtain p q where pq: "quotient_of x = (p, q)" by force
  have q: "0 < q" using quotient_of_denom_pos [OF pq] .
  have x: "x = of_int p / of_int q" using quotient_of_div [OF pq] .
  have p: "0 < p" using assms q unfolding x by (simp add: zero_less_divide_iff)
  let ?a = "int (nat (bitlen p))" and ?b = "int (nat (bitlen q))"
  note P = pow2_bitlen_bounds [OF p] and Q = pow2_bitlen_bounds [OF q]
  have up: "x < pow2 (?a - ?b + 1)"
  proof -
    have "of_int p < pow2 (?a - ?b + 1) * pow2 (?b - 1)" using P(2) by (simp flip: pow2_add)
    also have "\<dots> \<le> pow2 (?a - ?b + 1) * of_int q" using Q(1) by (simp add: less_imp_le)
    finally show ?thesis using q unfolding x by (simp add: divide_less_eq)
  qed
  have lo: "pow2 (?a - ?b - 1) \<le> x"
  proof -
    have "pow2 (?a - ?b - 1) * of_int q \<le> pow2 (?a - ?b - 1) * pow2 ?b"
      using Q(2) by (simp add: less_imp_le)
    also have "\<dots> = pow2 (?a - 1)" by (simp flip: pow2_add)
    also have "\<dots> \<le> of_int p" using P(1) .
    finally show ?thesis using q unfolding x by (simp add: le_divide_eq)
  qed
  show "pow2 (ilog2 x) \<le> x" "x < pow2 (ilog2 x + 1)"
    using up lo by (auto simp: ilog2_def pq Let_def)
qed

lemma ilog2_unique: "pow2 e \<le> x \<Longrightarrow> x < pow2 (e + 1) \<Longrightarrow> ilog2 x = e"
proof -
  assume a: "pow2 e \<le> x" "x < pow2 (e + 1)"
  then have x: "0 < x" using pow2_pos [of e] by linarith
  have "pow2 e < pow2 (ilog2 x + 1)" "pow2 (ilog2 x) < pow2 (e + 1)"
    using a ilog2_bounds [OF x] by linarith+
  then show ?thesis by simp
qed

lemma ilog2_mono: "0 < x \<Longrightarrow> x \<le> y \<Longrightarrow> ilog2 x \<le> ilog2 y"
proof -
  assume a: "0 < x" "x \<le> y"
  then have "pow2 (ilog2 x) < pow2 (ilog2 y + 1)"
    using ilog2_bounds(1) [of x] ilog2_bounds(2) [of y] by linarith
  then show ?thesis by simp
qed

lemma rne_mono: "x \<le> y \<Longrightarrow> rne x \<le> rne y"
proof -
  assume le: "x \<le> y"
  then have f: "\<lfloor>x\<rfloor> \<le> \<lfloor>y\<rfloor>" by (rule floor_mono)
  show ?thesis
  proof (cases "\<lfloor>x\<rfloor> = \<lfloor>y\<rfloor>")
    case True
    then show ?thesis using le by (auto simp: rne_def Let_def)
  next
    case False
    then have "\<lfloor>x\<rfloor> + 1 \<le> \<lfloor>y\<rfloor>" using f by simp
    then show ?thesis by (auto simp: rne_def Let_def)
  qed
qed

lemma rne_of_int [simp]: "rne (of_int n) = n"
  by (simp add: rne_def)

lemma rne_uminus: "rne (- x) = - rne x"
proof (cases "x = of_int \<lfloor>x\<rfloor>")
  case True
  then have "- x = of_int (- \<lfloor>x\<rfloor>)" by simp
  then show ?thesis by (metis True rne_of_int)
next
  case False
  have "\<lfloor>- x\<rfloor> = - \<lfloor>x\<rfloor> - 1" using False by linarith
  then show ?thesis by (auto simp: rne_def Let_def)
qed

lemma fl_0 [simp]: "fl 0 = 0"
  by (simp add: fl_def)

lemma fl_uminus: "fl (- x) = - fl x"
  by (simp add: fl_def ulp_exp_def rne_uminus)

lemma fl_nonneg: "0 \<le> x \<Longrightarrow> 0 \<le> fl x"
proof -
  assume "0 \<le> x"
  then have "0 \<le> x / pow2 (ulp_exp x)" by simp
  then have "rne 0 \<le> rne (x / pow2 (ulp_exp x))" by (rule rne_mono)
  moreover have "rne 0 = 0" using rne_of_int [of 0] by simp
  ultimately show ?thesis by (simp add: fl_def)
qed

lemma fl_mono_pos:
  assumes "0 < x" and "x \<le> y"
  shows "fl x \<le> fl y"
proof -
  let ?k = "ulp_exp x" and ?l = "ulp_exp y"
  have y: "0 < y" using assms by simp
  have kl: "?k \<le> ?l" using ilog2_mono [OF assms] assms by (simp add: ulp_exp_def)
  show ?thesis
  proof (cases "?k = ?l")
    case True
    have "x / pow2 ?k \<le> y / pow2 ?k" using assms by (simp add: divide_right_mono)
    then have "rne (x / pow2 ?k) \<le> rne (y / pow2 ?k)" by (rule rne_mono)
    then show ?thesis using assms True by (simp add: fl_def)
  next
    case False
    then have less: "?k < ?l" using kl by simp
    then have l: "?l = ilog2 y - 52" using y by (auto simp: ulp_exp_def)
    have "x < pow2 (?k + 53)"
      using ilog2_bounds(2) [OF assms(1)] assms
      by (auto simp: ulp_exp_def intro: less_le_trans)
    then have "x / pow2 ?k \<le> of_int (2 ^ 53)"
      by (simp add: pow2_add divide_le_eq) (simp add: pow2_def)
    then have "rne (x / pow2 ?k) \<le> 2 ^ 53" using rne_mono [of _ "of_int (2 ^ 53)"] by (simp only: rne_of_int)
    then have "(of_int (rne (x / pow2 ?k)) :: rat) \<le> of_int (2 ^ 53)" by (simp only: of_int_le_iff)
    then have "fl x \<le> of_int (2 ^ 53) * pow2 ?k" using assms by (simp add: fl_def)
    also have "\<dots> = pow2 (?k + 53)" by (simp add: pow2_add) (simp add: pow2_def)
    also have "\<dots> \<le> pow2 (?l + 52)" using less by simp
    also have "\<dots> = of_int (2 ^ 52) * pow2 ?l" by (simp add: pow2_add) (simp add: pow2_def)
    also have "\<dots> \<le> fl y"
    proof -
      have "pow2 (?l + 52) \<le> y" using ilog2_bounds(1) [OF y] l by simp
      then have "of_int (2 ^ 52) \<le> y / pow2 ?l"
        by (simp add: pow2_add le_divide_eq) (simp add: pow2_def)
      then have "2 ^ 52 \<le> rne (y / pow2 ?l)" using rne_mono [of "of_int (2 ^ 52)"] by (simp only: rne_of_int)
      then have "(of_int (2 ^ 52) :: rat) \<le> of_int (rne (y / pow2 ?l))" by (simp only: of_int_le_iff)
      then show ?thesis using y by (simp add: fl_def)
    qed
    finally show ?thesis .
  qed
qed

lemma fl_mono: "x \<le> y \<Longrightarrow> fl x \<le> fl y"
proof -
  assume le: "x \<le> y"
  consider "0 < x" | "x \<le> 0" "0 \<le> y" | "y < 0" by linarith
  then show ?thesis
  proof cases
    case 1 then show ?thesis using le by (rule fl_mono_pos)
  next
    case 2
    then have "0 \<le> fl (- x)" "0 \<le> fl y" by (simp_all add: fl_nonneg)
    then show ?thesis by (simp add: fl_uminus)
  next
    case 3
    then have "fl (- y) \<le> fl (- x)" using le by (intro fl_mono_pos) auto
    then show ?thesis by (simp add: fl_uminus)
  qed
qed

lemma fl_representable:
  assumes "\<bar>m\<bar> \<le> 2 ^ 53" and "-1074 \<le> k"
  shows "fl (of_int m * pow2 k) = of_int m * pow2 k"
proof (cases "m = 0")
  case False
  define x where "x = of_int m * pow2 k"
  have x0: "x \<noteq> 0" using False by (simp add: x_def)
  have ax: "0 < \<bar>x\<bar>" using x0 by simp
  have "\<bar>x\<bar> = of_int \<bar>m\<bar> * pow2 k" by (simp add: x_def abs_mult)
  also have "\<dots> \<le> of_int (2 ^ 53) * pow2 k" using assms(1) by (intro mult_right_mono) (simp_all only: of_int_le_iff pow2_nonneg)
  also have "\<dots> = pow2 (k + 53)" by (simp add: pow2_add) (simp add: pow2_def)
  finally have "\<bar>x\<bar> \<le> pow2 (k + 53)" .
  show ?thesis
  proof (cases "\<bar>x\<bar> = pow2 (k + 53)")
    case True
    have "ilog2 \<bar>x\<bar> = k + 53" by (rule ilog2_unique) (simp_all add: True)
    then have u: "ulp_exp x = k + 1" using assms(2) by (simp add: ulp_exp_def)
    have m: "\<bar>m\<bar> = 2 ^ 53"
    proof -
      have "(of_int \<bar>m\<bar> :: rat) * pow2 k = of_int (2 ^ 53) * pow2 k"
        using True by (simp add: x_def abs_mult pow2_add) (simp add: pow2_def)
      then show ?thesis by (simp only: mult_cancel_right of_int_eq_iff pow2_nonzero simp_thms)
    qed
    then obtain n where n: "m = 2 * n" by (metis abs_if dvdE even_minus even_power even_numeral zero_less_numeral)
    have "x / pow2 (k + 1) = of_int n" by (simp add: x_def n pow2_add) (simp add: pow2_def)
    then show ?thesis using x0 u by (simp add: fl_def flip: x_def) (metis nonzero_divide_eq_eq pow2_nonzero)
  next
    case False
    then have "\<bar>x\<bar> < pow2 (k + 53)" using \<open>\<bar>x\<bar> \<le> _\<close> by simp
    then have "pow2 (ilog2 \<bar>x\<bar>) < pow2 (k + 53)" using ilog2_bounds(1) [OF ax] by linarith
    then have uk: "ulp_exp x \<le> k" using assms(2) by (simp add: ulp_exp_def)
    have "x / pow2 (ulp_exp x) = of_int m * pow2 (k - ulp_exp x)"
      by (simp add: x_def field_simps flip: pow2_add)
    also have "\<dots> = of_int (m * 2 ^ nat (k - ulp_exp x))" using uk by (simp add: pow2_def)
    finally have e: "x / pow2 (ulp_exp x) = of_int (m * 2 ^ nat (k - ulp_exp x))" .
    then have "of_int (rne (x / pow2 (ulp_exp x))) = x / pow2 (ulp_exp x)" by (simp only: rne_of_int)
    then show ?thesis using x0 by (simp add: fl_def flip: x_def)
  qed
qed simp

lemma fl_of_int: "\<bar>m\<bar> \<le> 2 ^ 53 \<Longrightarrow> fl (of_int m) = of_int m"
  using fl_representable [of m 0] by (simp add: pow2_def)

lemma fl_1 [simp]: "fl 1 = 1"
  using fl_of_int [of 1] by simp


subsection \<open>Arithmetic, conversions\<close>

definition fadd :: "float64 \<Rightarrow> float64 \<Rightarrow> float64" where "fadd x y = fl (x + y)"
definition fsub :: "float64 \<Rightarrow> float64 \<Rightarrow> float64" where "fsub x y = fl (x - y)"
definition fmul :: "float64 \<Rightarrow> float64 \<Rightarrow> float64" where "fmul x y = fl (x * y)"
definition fdiv :: "float64 \<Rightarrow> float64 \<Rightarrow> float64" where "fdiv x y = fl (x / y)"

text \<open>\<^verbatim>\<open>float64(n)\<close> of an integer, and \<^verbatim>\<open>int(f)\<close>, which truncates towards zero.\<close>

definition ffromint :: "int \<Rightarrow> float64" where "ffromint n = fl (of_int n)"
definition ftrunc :: "float64 \<Rightarrow> int" where
  "ftrunc x = (if 0 \<le> x then \<lfloor>x\<rfloor> else - \<lfloor>- x\<rfloor>)"

text \<open>The decimal literal \<open>n / d\<close>, rounded as the compiler does.\<close>

definition lit :: "int \<Rightarrow> int \<Rightarrow> float64" where "lit n d = fl (of_int n / of_int d)"

lemmas float_ops = fadd_def fsub_def fmul_def fdiv_def ffromint_def

subsection \<open>The laws of rounding the components rely on\<close>

locale rounding =
  fixes rnd :: "rat \<Rightarrow> rat"
  assumes rnd_mono: "x \<le> y \<Longrightarrow> rnd x \<le> rnd y"
    and rnd_int: "\<bar>m\<bar> \<le> 2 ^ 53 \<Longrightarrow> rnd (of_int m) = of_int m"
begin

lemma rnd_zero: "rnd 0 = 0"
  using rnd_int [of 0] by simp

lemma rnd_one: "rnd 1 = 1"
  using rnd_int [of 1] by simp

lemma rnd_nonneg: "0 \<le> x \<Longrightarrow> 0 \<le> rnd x"
  using rnd_mono [of 0 x] by (simp add: rnd_zero)

lemma rnd_le_one: "x \<le> 1 \<Longrightarrow> rnd x \<le> 1"
  using rnd_mono [of x 1] by (simp add: rnd_one)

lemma rnd_unit: "0 \<le> x \<Longrightarrow> x \<le> 1 \<Longrightarrow> 0 \<le> rnd x \<and> rnd x \<le> 1"
  by (simp add: rnd_nonneg rnd_le_one)

text \<open>A rate: a count over a total that is at least as large, both exactly representable.\<close>

lemma rnd_rate:
  assumes "0 \<le> a" and "a \<le> b" and "b \<le> 2 ^ 53"
  shows "0 \<le> rnd (rnd (of_int a) / rnd (of_int b)) \<and> rnd (rnd (of_int a) / rnd (of_int b)) \<le> 1"
proof -
  have "rnd (of_int a) = of_int a" "rnd (of_int b) = of_int b" using assms by (auto intro: rnd_int)
  then show ?thesis using assms by (cases "b = 0") (auto intro!: rnd_unit simp: divide_le_eq_1)
qed

end

interpretation f64: rounding fl
  by unfold_locales (auto intro: fl_mono fl_of_int)

lemma rate_unit:
  "0 \<le> a \<Longrightarrow> a \<le> b \<Longrightarrow> b \<le> 2 ^ 53 \<Longrightarrow>
     0 \<le> fdiv (ffromint a) (ffromint b) \<and> fdiv (ffromint a) (ffromint b) \<le> 1"
  unfolding fdiv_def ffromint_def by (rule f64.rnd_rate)


subsection \<open>The error of one rounding\<close>

lemma rne_error: "\<bar>of_int (rne x) - x\<bar> \<le> 1 / 2"
proof -
  define d where "d = x - of_int \<lfloor>x\<rfloor>"
  have "0 \<le> d" "d < 1" unfolding d_def using floor_correct [of x] by linarith+
  moreover have "x = of_int \<lfloor>x\<rfloor> + d" by (simp add: d_def)
  then have "of_int (rne x) - x = (if d < 1 / 2 then - d else if 1 / 2 < d then 1 - d
      else if even \<lfloor>x\<rfloor> then - d else 1 - d)"
    unfolding rne_def Let_def d_def by simp
  ultimately show ?thesis by (simp add: abs_if)
qed

lemma fl_error:
  assumes "pow2 (-1022) \<le> \<bar>x\<bar>"
  shows "\<bar>fl x - x\<bar> \<le> \<bar>x\<bar> * pow2 (-53)"
proof -
  have x: "0 < \<bar>x\<bar>" using assms pow2_pos [of "-1022"] by linarith
  have "pow2 (-1022) < pow2 (ilog2 \<bar>x\<bar> + 1)" using assms ilog2_bounds(2) [OF x] by linarith
  then have k: "ulp_exp x = ilog2 \<bar>x\<bar> - 52" by (simp add: ulp_exp_def)
  let ?u = "pow2 (ulp_exp x)"
  have "fl x - x = (of_int (rne (x / ?u)) - x / ?u) * ?u" using x by (auto simp: fl_def field_simps)
  then have "\<bar>fl x - x\<bar> = \<bar>of_int (rne (x / ?u)) - x / ?u\<bar> * ?u" by (simp add: abs_mult)
  also have "\<dots> \<le> 1 / 2 * ?u" by (rule mult_right_mono [OF rne_error]) simp
  also have "\<dots> = pow2 (ilog2 \<bar>x\<bar>) * pow2 (-53)"
  proof -
    have "?u = pow2 (ilog2 \<bar>x\<bar> + -53) * pow2 1" unfolding k by (simp flip: pow2_add)
    moreover have "pow2 1 = 2" by (simp add: pow2_def)
    ultimately show ?thesis by (simp only: pow2_add)
  qed
  also have "\<dots> \<le> \<bar>x\<bar> * pow2 (-53)" by (rule mult_right_mono [OF ilog2_bounds(1) [OF x]]) simp
  finally show ?thesis .
qed

lemma fl_lower: "pow2 (-1022) \<le> x \<Longrightarrow> x * (1 - pow2 (-53)) \<le> fl x"
proof -
  assume a: "pow2 (-1022) \<le> x"
  then have "0 \<le> x" using pow2_nonneg [of "-1022"] by linarith
  then have "\<bar>fl x - x\<bar> \<le> x * pow2 (-53)" using fl_error [of x] a by simp
  then have "x - fl x \<le> x * pow2 (-53)" by linarith
  then show ?thesis by (simp add: algebra_simps)
qed

end
