(* ===== verification/Breaker.thy ===== *)
theory Breaker
  imports Prelude
begin

text \<open>
  The circuit breaker of \<^verbatim>\<open>internal/circuitbreaker/breaker.go\<close>. A breaker is a record of
  its atomics; each method is a function from the clock and the record to its result and the
  new record. The state-change callback is modelled by the list of the calls made to it. The
  atomics are read and written one after the other, so that \<open>Allow_env\<close> lets another
  goroutine act between the transition of \<^verbatim>\<open>Allow\<close> and its re-check; \<open>Allow\<close> is the case
  where none does. Counters are \<^verbatim>\<open>int32\<close>.
\<close>

section \<open>Data\<close>

text \<open>An \<^verbatim>\<open>int32\<close> other than the three constants takes the default branches.\<close>

datatype State = StateClosed | StateOpen | StateHalfOpen | StateOther int

fun State_String :: "State \<Rightarrow> string" where
  "State_String StateClosed = ''closed''"
| "State_String StateOpen = ''open''"
| "State_String StateHalfOpen = ''half-open''"
| "State_String (StateOther _) = ''unknown''"

datatype 'e breaker_error = ErrCircuitOpen | FnErr 'e

record Config =
  cName :: string
  cFailureThreshold :: int
  cSuccessThreshold :: int
  cTimeout :: duration
  cHalfOpenMax :: int

record Breaker =
  bName :: string
  failureThreshold :: int
  successThreshold :: int
  timeout :: duration
  halfOpenMax :: int
  state :: State
  failures :: int
  successes :: int
  lastFailureTime :: time
  onStateChange :: bool
  notified :: "(string \<times> State \<times> State) list"

definition DefaultConfig :: "string \<Rightarrow> Config" where
  "DefaultConfig name =
     \<lparr>cName = name, cFailureThreshold = 5, cSuccessThreshold = 3,
      cTimeout = 30 * Second, cHalfOpenMax = 1\<rparr>"

definition New :: "Config \<Rightarrow> Breaker" where
  "New c =
     (let ft = (if cFailureThreshold c \<le> 0 then 5 else cFailureThreshold c);
          st = (if cSuccessThreshold c \<le> 0 then 3 else cSuccessThreshold c);
          to = (if cTimeout c \<le> 0 then 30 * Second else cTimeout c);
          hm = (if cHalfOpenMax c \<le> 0 then 1 else cHalfOpenMax c)
      in \<lparr>bName = cName c, failureThreshold = i32 ft, successThreshold = i32 st,
          timeout = to, halfOpenMax = i32 hm, state = StateClosed, failures = 0,
          successes = 0, lastFailureTime = 0, onStateChange = False, notified = []\<rparr>)"

definition StateChangeHandler :: "Breaker \<Rightarrow> Breaker" where
  "StateChangeHandler b = b\<lparr>onStateChange := True\<rparr>"

section \<open>Transitions\<close>

definition LoadState :: "Breaker \<Rightarrow> State" where "LoadState b = state b"
definition StoreState :: "State \<Rightarrow> Breaker \<Rightarrow> Breaker" where "StoreState s b = b\<lparr>state := s\<rparr>"

definition onStateChangeUnsafe :: "State \<Rightarrow> State \<Rightarrow> Breaker \<Rightarrow> Breaker" where
  "onStateChangeUnsafe from to b =
     (if onStateChange b then b\<lparr>notified := notified b @ [(bName b, from, to)]\<rparr> else b)"

definition toState :: "State \<Rightarrow> Breaker \<Rightarrow> Breaker" where
  "toState new b =
     (let old = LoadState b; b' = StoreState new b
      in if old \<noteq> new then onStateChangeUnsafe old new b' else b')"

section \<open>Admission and recording\<close>

definition Allow_env ::
  "(Breaker \<Rightarrow> Breaker) \<Rightarrow> time \<Rightarrow> Breaker \<Rightarrow> 'e breaker_error option \<times> Breaker" where
  "Allow_env env now b =
     (case LoadState b of
        StateClosed \<Rightarrow> (None, b)
      | StateOpen \<Rightarrow>
          (if Sub now (lastFailureTime b) > timeout b then
             let b' = env (toState StateHalfOpen b)
             in (if LoadState b' \<noteq> StateHalfOpen then Some ErrCircuitOpen else None, b')
           else (Some ErrCircuitOpen, b))
      | StateHalfOpen \<Rightarrow>
          (if successes b < halfOpenMax b then None else Some ErrCircuitOpen, b)
      | StateOther _ \<Rightarrow> (Some ErrCircuitOpen, b))"

definition Allow :: "time \<Rightarrow> Breaker \<Rightarrow> 'e breaker_error option \<times> Breaker" where
  "Allow = Allow_env (\<lambda>b. b)"

definition RecordSuccess :: "Breaker \<Rightarrow> Breaker" where
  "RecordSuccess b =
     (case LoadState b of
        StateClosed \<Rightarrow> b\<lparr>failures := 0\<rparr>
      | StateHalfOpen \<Rightarrow>
          (let s = i32 (successes b + 1); b' = b\<lparr>successes := s\<rparr>
           in if s \<ge> successThreshold b then toState StateClosed (b'\<lparr>successes := 0\<rparr>) else b')
      | StateOpen \<Rightarrow> b
      | StateOther _ \<Rightarrow> b)"

definition RecordFailure :: "time \<Rightarrow> Breaker \<Rightarrow> Breaker" where
  "RecordFailure now b =
     (case LoadState b of
        StateClosed \<Rightarrow>
          (let f = i32 (failures b + 1); b' = b\<lparr>failures := f\<rparr>
           in if f \<ge> failureThreshold b
              then toState StateOpen (b'\<lparr>lastFailureTime := now\<rparr>) else b')
      | StateHalfOpen \<Rightarrow> toState StateOpen (b\<lparr>lastFailureTime := now\<rparr>)
      | StateOpen \<Rightarrow> b\<lparr>lastFailureTime := now\<rparr>
      | StateOther _ \<Rightarrow> b)"

text \<open>
  \<open>Do\<close> admits at \<open>now\<close>, runs the function (whose error, if any, is \<open>fn\<close>) and records its
  outcome at \<open>later\<close>.
\<close>

definition Do ::
  "time \<Rightarrow> time \<Rightarrow> 'e option \<Rightarrow> Breaker \<Rightarrow> 'e breaker_error option \<times> Breaker" where
  "Do now later fn b =
     (case Allow now b of
        (Some err, b') \<Rightarrow> (Some err, b')
      | (None, b') \<Rightarrow>
          (case fn of
             Some e \<Rightarrow> (Some (FnErr e), RecordFailure later b')
           | None \<Rightarrow> (None, RecordSuccess b')))"

definition DoWithResult ::
  "time \<Rightarrow> time \<Rightarrow> 'a option \<times> 'e option \<Rightarrow> Breaker \<Rightarrow>
     ('a option \<times> 'e breaker_error option) \<times> Breaker" where
  "DoWithResult now later fn b =
     (case Allow now b of
        (Some err, b') \<Rightarrow> ((None, Some err), b')
      | (None, b') \<Rightarrow>
          (case snd fn of
             Some e \<Rightarrow> ((fst fn, Some (FnErr e)), RecordFailure later b')
           | None \<Rightarrow> ((fst fn, None), RecordSuccess b')))"

section \<open>Statistics, and the manager of many breakers\<close>

record Stats =
  sName :: string
  sState :: string
  sFailures :: int
  sSuccesses :: int
  sThreshold :: int
  sLastFailure :: time

definition Breaker_Stats :: "Breaker \<Rightarrow> Stats" where
  "Breaker_Stats b =
     \<lparr>sName = bName b, sState = State_String (LoadState b), sFailures = failures b,
      sSuccesses = successes b, sThreshold = failureThreshold b,
      sLastFailure = lastFailureTime b\<rparr>"

text \<open>The breakers are shared by pointer: the manager's map is the store, a name the pointer.\<close>

record MultiBreaker =
  breakers :: "(string, Breaker) gomap"
  defaults :: Config

definition NewMulti :: "Config \<Rightarrow> MultiBreaker" where
  "NewMulti d = \<lparr>breakers = [], defaults = d\<rparr>"

definition Multi_Get :: "string \<Rightarrow> MultiBreaker \<Rightarrow> Breaker \<times> MultiBreaker" where
  "Multi_Get name m =
     (case gget (breakers m) name of
        Some b \<Rightarrow> (b, m)
      | None \<Rightarrow>
          (let b = New ((defaults m)\<lparr>cName := name\<rparr>)
           in (b, m\<lparr>breakers := gput (breakers m) name b\<rparr>)))"

definition Multi_Stats :: "MultiBreaker \<Rightarrow> (string, Stats) gomap" where
  "Multi_Stats m = map (\<lambda>(name, b). (name, Breaker_Stats b)) (breakers m)"

text \<open>A call on the breaker a name points to.\<close>

definition Multi_call :: "string \<Rightarrow> (Breaker \<Rightarrow> Breaker) \<Rightarrow> MultiBreaker \<Rightarrow> MultiBreaker" where
  "Multi_call name f m =
     (let (b, m') = Multi_Get name m in m'\<lparr>breakers := gput (breakers m') name (f b)\<rparr>)"

section \<open>Step relation\<close>

text \<open>
  The calls a client makes, and the breaker's behaviour under any sequence of them. The calls
  are atomic here; a callback is installed at most once before the run.
\<close>

datatype call = CAllow time | CSuccess | CFailure time

fun call_step :: "call \<Rightarrow> Breaker \<Rightarrow> Breaker" where
  "call_step (CAllow now) b = snd (Allow now b :: unit breaker_error option \<times> Breaker)"
| "call_step CSuccess b = RecordSuccess b"
| "call_step (CFailure now) b = RecordFailure now b"

definition run :: "call list \<Rightarrow> Breaker \<Rightarrow> Breaker" where
  "run cs b = fold call_step cs b"

inductive edge :: "State \<Rightarrow> State \<Rightarrow> bool" where
  trip: "edge StateClosed StateOpen"
| probe: "edge StateOpen StateHalfOpen"
| recover: "edge StateHalfOpen StateClosed"
| relapse: "edge StateHalfOpen StateOpen"

code_pred edge .

inductive_simps edge_simps: "edge a b"

inductive reaches :: "Breaker \<Rightarrow> Breaker \<Rightarrow> bool" where
  refl: "reaches b b"
| step: "reaches b c \<Longrightarrow> reaches b (call_step x c)"

lemmas breaker_defs = toState_def StoreState_def LoadState_def onStateChangeUnsafe_def Let_def
  Allow_def Allow_env_def RecordSuccess_def RecordFailure_def


section \<open>One call at a time\<close>

text \<open>No method writes the configuration.\<close>

definition config_of :: "Breaker \<Rightarrow> string \<times> int \<times> int \<times> duration \<times> int \<times> bool" where
  "config_of b = (bName b, failureThreshold b, successThreshold b, timeout b, halfOpenMax b,
     onStateChange b)"

lemma config_of_call_step [simp]: "config_of (call_step x b) = config_of b"
  by (cases x) (auto simp: config_of_def breaker_defs split: State.splits)

lemma run_Nil [simp]: "run [] b = b"
  by (simp add: run_def)

lemma run_Cons [simp]: "run (x # cs) b = run cs (call_step x b)"
  by (simp add: run_def)

lemma run_append: "run (cs @ ds) b = run ds (run cs b)"
  by (simp add: run_def)

lemma config_of_run [simp]: "config_of (run cs b) = config_of b"
  by (induction cs arbitrary: b) auto

lemma reaches_run: "reaches b (run cs b)"
proof (induction cs rule: rev_induct)
  case (snoc x cs)
  then show ?case by (auto simp: run_append intro: reaches.step)
qed (auto intro: reaches.refl)

text \<open>
  Every call leaves the state as it is or moves it along one of the four edges of the
  circuit-breaker diagram: closed to open, open to half-open, half-open to closed or open. In
  particular a closed breaker never turns half-open, and an open one never closes directly.
\<close>

theorem call_step_edge: "state (call_step x b) = state b \<or> edge (state b) (state (call_step x b))"
  by (cases x) (auto simp: breaker_defs edge_simps split: State.splits)

section \<open>The callback sees the whole history\<close>

text \<open>The calls \<open>es\<close> made to the handler lead from state \<open>s\<close> to state \<open>t\<close>.\<close>

fun chain :: "string \<Rightarrow> State \<Rightarrow> (string \<times> State \<times> State) list \<Rightarrow> State \<Rightarrow> bool" where
  "chain n s [] t = (s = t)"
| "chain n s ((m, u, v) # es) t = (m = n \<and> u = s \<and> edge u v \<and> chain n v es t)"

lemma chain_append: "chain n s es t \<Longrightarrow> chain n t fs u \<Longrightarrow> chain n s (es @ fs) u"
  by (induction es arbitrary: s) auto

lemma call_step_notified:
  assumes "onStateChange b"
  shows "\<exists>es. notified (call_step x b) = notified b @ es \<and>
           chain (bName b) (state b) es (state (call_step x b))"
  using assms by (cases x) (auto simp: breaker_defs edge_simps split: State.splits)

text \<open>
  A handler installed before a run is told of every change of state, in order and without
  gaps: the calls made to it during the run form a chain of edges from the state at the start to
  the state at the end, each with the breaker's name.
\<close>

theorem run_notified:
  assumes "onStateChange b"
  shows "\<exists>es. notified (run cs b) = notified b @ es \<and>
           chain (bName b) (state b) es (state (run cs b))"
  using assms
proof (induction cs arbitrary: b)
  case (Cons x cs)
  let ?c = "call_step x b"
  have c: "onStateChange ?c" "bName ?c = bName b"
    using Cons.prems config_of_call_step [of x b] by (auto simp: config_of_def)
  obtain es where es: "notified ?c = notified b @ es" "chain (bName b) (state b) es (state ?c)"
    using call_step_notified [OF Cons.prems] by blast
  obtain fs where "notified (run cs ?c) = notified ?c @ fs"
      "chain (bName b) (state ?c) fs (state (run cs ?c))"
    using Cons.IH [OF c(1)] c(2) by auto
  then have "notified (run (x # cs) b) = notified b @ (es @ fs) \<and>
      chain (bName b) (state b) (es @ fs) (state (run (x # cs) b))"
    using es chain_append by fastforce
  then show ?case by blast
qed auto

theorem run_notified_witness:
  "\<exists>es. notified (run [CFailure 1, CFailure 2, CFailure 3] (StateChangeHandler
      (New \<lparr>cName = ''a'', cFailureThreshold = 2, cSuccessThreshold = 1, cTimeout = 5, cHalfOpenMax = 1\<rparr>)))
      = [] @ es \<and> chain ''a'' StateClosed es StateOpen"
  using run_notified [of "StateChangeHandler (New \<lparr>cName = ''a'', cFailureThreshold = 2,
      cSuccessThreshold = 1, cTimeout = 5, cHalfOpenMax = 1\<rparr>)" "[CFailure 1, CFailure 2, CFailure 3]"]
  by (simp add: StateChangeHandler_def New_def breaker_defs i32_def)

section \<open>Tripping: the failure threshold counts consecutive failures\<close>

text \<open>
  Outcomes of calls on a closed breaker: \<open>None\<close> is a success, \<open>Some t\<close> a failure at \<open>t\<close>.
\<close>

fun outcome :: "time option \<Rightarrow> call" where
  "outcome None = CSuccess"
| "outcome (Some t) = CFailure t"

definition consecutive :: "nat \<Rightarrow> time option list \<Rightarrow> bool" where
  "consecutive n os \<longleftrightarrow> (\<exists>xs ts ys. os = xs @ map Some ts @ ys \<and> length ts = n)"

fun trips :: "nat \<Rightarrow> nat \<Rightarrow> time option list \<Rightarrow> bool" where
  "trips n f [] = False"
| "trips n f (None # os) = trips n 0 os"
| "trips n f (Some t # os) = (n \<le> Suc f \<or> trips n (Suc f) os)"

lemma run_outcome_open:
  "state b = StateOpen \<Longrightarrow> state (run (map outcome os) b) = StateOpen"
proof (induction os arbitrary: b)
  case (Cons a os)
  then show ?case by (cases a) (auto simp: breaker_defs)
qed auto

lemma run_outcome_trips:
  assumes "state b = StateClosed" and "failures b = int f" and "f < n"
    and "failureThreshold b = int n" and "int n < 2 ^ 31"
  shows "state (run (map outcome os) b) = (if trips n f os then StateOpen else StateClosed)"
  using assms
proof (induction os arbitrary: b f)
  case (Cons a os)
  show ?case
  proof (cases a)
    case None
    have "state (run (map outcome os) (RecordSuccess b)) = (if trips n 0 os then StateOpen else StateClosed)"
      by (rule Cons.IH) (use Cons.prems in \<open>auto simp: breaker_defs\<close>)
    then show ?thesis using None by simp
  next
    case (Some t)
    have w: "i32 (int f + 1) = int f + 1" using Cons.prems by (intro i32_id) auto
    show ?thesis
    proof (cases "n \<le> Suc f")
      case True
      then have "state (RecordFailure t b) = StateOpen" using Cons.prems w by (auto simp: breaker_defs)
      then show ?thesis using Some True by (simp add: run_outcome_open)
    next
      case False
      have "state (run (map outcome os) (RecordFailure t b)) = (if trips n (Suc f) os then StateOpen else StateClosed)"
        by (rule Cons.IH) (use Cons.prems False w in \<open>auto simp: breaker_defs\<close>)
      then show ?thesis using Some False by simp
    qed
  qed
qed auto

lemma trips_prefix: "n \<le> f + length ts \<Longrightarrow> f < n \<Longrightarrow> trips n f (map Some ts @ ys)"
proof (induction ts arbitrary: f)
  case (Cons t ts)
  then show ?case using Cons.IH [of "Suc f"] by (cases "n \<le> Suc f") auto
qed auto

lemma trips_mono: "trips n f os \<Longrightarrow> f \<le> g \<Longrightarrow> trips n g os"
  by (induction n f os arbitrary: g rule: trips.induct) auto

lemma trips_append: "trips n 0 os \<Longrightarrow> trips n f (xs @ os)"
proof (induction xs arbitrary: f)
  case Nil
  then show ?case using trips_mono by auto
next
  case (Cons a xs)
  then show ?case by (cases a) auto
qed

lemma trips_consecutive: "trips n (length us) os \<Longrightarrow> consecutive n (map Some us @ os)"
proof (induction os arbitrary: us)
  case (Cons a os)
  show ?case
  proof (cases a)
    case None
    then obtain xs ts ys where "os = xs @ map Some ts @ ys" "length ts = n"
      using Cons.IH [of "[]"] Cons.prems by (auto simp: consecutive_def)
    then have "map Some us @ a # os = (map Some us @ a # xs) @ map Some ts @ ys \<and> length ts = n"
      by simp
    then show ?thesis unfolding consecutive_def by blast
  next
    case (Some t)
    show ?thesis
    proof (cases "n \<le> Suc (length us)")
      case True
      let ?k = "Suc (length us) - n"
      have "map Some us @ a # os = map Some (take ?k (us @ [t]) @ drop ?k (us @ [t])) @ os"
        by (simp only: append_take_drop_id Some) simp
      then have "map Some us @ a # os = map Some (take ?k (us @ [t])) @ map Some (drop ?k (us @ [t])) @ os"
        by (simp only: map_append append_assoc)
      moreover have "length (drop ?k (us @ [t])) = n" using True by simp
      ultimately show ?thesis unfolding consecutive_def by blast
    next
      case False
      then show ?thesis using Cons.IH [of "us @ [t]"] Cons.prems Some by simp
    qed
  qed
qed auto

lemma trips_iff: "0 < n \<Longrightarrow> trips n 0 os \<longleftrightarrow> consecutive n os"
proof
  assume "0 < n" and "consecutive n os"
  then obtain xs ts ys where "os = xs @ map Some ts @ ys" and "length ts = n"
    by (auto simp: consecutive_def)
  then show "trips n 0 os" using \<open>0 < n\<close> by (auto intro!: trips_append [OF trips_prefix])
qed (use trips_consecutive [of n "[]" os] in simp)

text \<open>
  C12. A new breaker with failure threshold \<open>n\<close> that records the outcomes of calls trips exactly
  when \<open>n\<close> failures in a row occur among them; until then it is closed. A success in between
  starts the count anew.
\<close>

theorem opens_iff_consecutive_failures:
  assumes "0 < cFailureThreshold c" and "cFailureThreshold c < 2 ^ 31"
  shows "state (run (map outcome os) (New c)) =
    (if consecutive (nat (cFailureThreshold c)) os then StateOpen else StateClosed)"
proof -
  have "state (run (map outcome os) (New c)) =
      (if trips (nat (cFailureThreshold c)) 0 os then StateOpen else StateClosed)"
    by (rule run_outcome_trips) (use assms i32_id [of "cFailureThreshold c"] in \<open>auto simp: New_def Let_def\<close>)
  then show ?thesis using assms by (simp add: trips_iff)
qed

theorem opens_iff_consecutive_failures_witness:
  "state (run (map outcome [Some 1, None, Some 2, Some 3]) (New \<lparr>cName = ''x'', cFailureThreshold = 2,
     cSuccessThreshold = 1, cTimeout = 9, cHalfOpenMax = 1\<rparr>)) = StateOpen"
proof -
  have "consecutive 2 [Some 1, None, Some 2, Some 3]"
    unfolding consecutive_def
    by (intro exI [of _ "[Some 1, None]"] exI [of _ "[2, 3]"] exI [of _ "[]"]) simp
  then show ?thesis
    using opens_iff_consecutive_failures [of "\<lparr>cName = ''x'', cFailureThreshold = 2,
     cSuccessThreshold = 1, cTimeout = 9, cHalfOpenMax = 1\<rparr>" "[Some 1, None, Some 2, Some 3]"] by simp
qed

section \<open>Open: nothing gets through before the timeout\<close>

definition allowed :: "time \<Rightarrow> Breaker \<Rightarrow> bool" where
  "allowed now b \<longleftrightarrow> fst (Allow now b :: unit breaker_error option \<times> Breaker) = None"

fun before_deadline :: "duration \<Rightarrow> time \<Rightarrow> call list \<Rightarrow> bool" where
  "before_deadline d t [] = True"
| "before_deadline d t (CAllow now # cs) = (now - t \<le> d \<and> before_deadline d t cs)"
| "before_deadline d t (CSuccess # cs) = before_deadline d t cs"
| "before_deadline d t (CFailure now # cs) = before_deadline d now cs"

lemma open_run:
  assumes "state b = StateOpen" and "before_deadline (timeout b) (lastFailureTime b) cs"
    and "0 \<le> timeout b" and "timeout b < 2 ^ 63 - 1"
  shows "state (run cs b) = StateOpen"
  using assms
proof (induction cs arbitrary: b)
  case (Cons x cs)
  then show ?case by (cases x) (auto simp: breaker_defs Sub_greater)
qed auto

text \<open>
  Once open, the breaker stays open and lets no call through as long as every request comes
  at most \<open>timeout\<close> after the last failure, whatever results are still recorded in between
  (late failures only move the deadline); the first request after that is let through and finds
  the breaker half-open.
\<close>

theorem open_until_timeout:
  assumes "state b = StateOpen" and "before_deadline (timeout b) (lastFailureTime b) cs"
    and "0 \<le> timeout b" and "timeout b < 2 ^ 63 - 1"
  shows "state (run cs b) = StateOpen
    \<and> (\<forall>now. allowed now (run cs b) = (timeout b < now - lastFailureTime (run cs b)))
    \<and> (\<forall>now. timeout b < now - lastFailureTime (run cs b)
          \<longrightarrow> state (call_step (CAllow now) (run cs b)) = StateHalfOpen)"
proof -
  have o: "state (run cs b) = StateOpen" by (rule open_run [OF assms])
  have t: "timeout (run cs b) = timeout b" using config_of_run [of cs b] by (simp add: config_of_def)
  show ?thesis using o t assms(3,4)
    by (auto simp: allowed_def breaker_defs Sub_greater)
qed

theorem open_until_timeout_witness:
  "state (run [CAllow 30, CFailure 40, CAllow 60]
     (New (DefaultConfig ''ffprobe''))\<lparr>state := StateOpen, lastFailureTime := 10\<rparr>) = StateOpen"
  using open_until_timeout [of "(New (DefaultConfig ''ffprobe''))\<lparr>state := StateOpen, lastFailureTime := 10\<rparr>"
      "[CAllow 30, CFailure 40, CAllow 60]"]
  by (simp add: New_def DefaultConfig_def Let_def)

section \<open>Half-open: starvation under the default configuration\<close>

text \<open>The results of a sequence of \<open>Do\<close> calls, and the breaker after them.\<close>

fun Do_run ::
  "(time \<times> time \<times> 'e option) list \<Rightarrow> Breaker \<Rightarrow> 'e breaker_error option list \<times> Breaker" where
  "Do_run [] b = ([], b)"
| "Do_run ((now, later, fn) # ds) b =
     (let (r, b') = Do now later fn b; (rs, b'') = Do_run ds b' in (r # rs, b''))"

lemma Do_run_append:
  "Do_run (ds @ es) b = (let (rs, b') = Do_run ds b; (ts, b'') = Do_run es b' in (rs @ ts, b''))"
  by (induction ds arbitrary: b) (auto split: prod.splits)

lemma Do_run_starved:
  "state b = StateHalfOpen \<Longrightarrow> halfOpenMax b \<le> successes b \<Longrightarrow>
     Do_run ds b = (replicate (length ds) (Some ErrCircuitOpen), b)"
  by (induction ds) (auto simp: Do_def breaker_defs)

text \<open>
  C8. The default configuration asks for three successes to close but admits a half-open call
  only while fewer than one success is counted. So a breaker that tripped and let its first
  trial call through successfully rejects every later \<open>Do\<close>, at any time and whatever the
  function would have returned: it never closes again.
\<close>

theorem default_half_open_starves:
  assumes "30 * Second < now - t" and "now - t < 2 ^ 63"
  shows "\<exists>b. Do_run (replicate 5 (t, t, Some e) @ [(now, later, None)] @ ds) (New (DefaultConfig name)) =
      (replicate 5 (Some (FnErr e)) @ [None] @ replicate (length ds) (Some ErrCircuitOpen), b)
    \<and> state b = StateHalfOpen"
proof -
  define b1 where "b1 = (New (DefaultConfig name))\<lparr>state := StateOpen, failures := 5, lastFailureTime := t\<rparr>"
  have c: "Do_run (replicate 5 (t, t, Some e)) (New (DefaultConfig name)) =
      (replicate 5 (Some (FnErr e)), b1)"
    by (simp add: b1_def numeral_eq_Suc New_def DefaultConfig_def Do_def breaker_defs i32_def)
  have h: "Do_run [(now, later, None)] b1 = ([None], b1\<lparr>state := StateHalfOpen, successes := 1\<rparr>)"
    using assms by (simp add: b1_def New_def DefaultConfig_def Do_def breaker_defs i32_def Sub_id)
  have s: "Do_run ds (b1\<lparr>state := StateHalfOpen, successes := 1\<rparr>) =
      (replicate (length ds) (Some ErrCircuitOpen), b1\<lparr>state := StateHalfOpen, successes := 1\<rparr>)"
    by (rule Do_run_starved) (simp_all add: b1_def New_def DefaultConfig_def i32_def)
  show ?thesis by (simp only: Do_run_append c h s prod.case Let_def) simp
qed

theorem default_half_open_starves_witness:
  "\<exists>b. Do_run (replicate 5 (0, 0, Some ''e'') @ [(40 * Second, 41 * Second, None)]
        @ [(90 * Second, 91 * Second, None), (500 * Second, 501 * Second, None)]) (New (DefaultConfig ''ffmpeg'')) =
      (replicate 5 (Some (FnErr ''e'')) @ [None] @ replicate 2 (Some ErrCircuitOpen), b)
    \<and> state b = StateHalfOpen"
  using default_half_open_starves [of "40 * Second" 0 "''e''" "41 * Second"
      "[(90 * Second, 91 * Second, None), (500 * Second, 501 * Second, None)]" "''ffmpeg''"] by (simp add: numeral_eq_Suc)

section \<open>Recovery keeps the old failure count\<close>

lemma reaches_failures:
  assumes "reaches (New c) b"
  shows "state b \<in> {StateOpen, StateHalfOpen} \<longrightarrow> failureThreshold b \<le> failures b"
  using assms
proof (induction "New c" b rule: reaches.induct)
  case refl
  then show ?case by (simp add: New_def Let_def)
next
  case (step b x)
  then show ?case by (cases x) (auto simp: breaker_defs split: State.splits)
qed

text \<open>
  Closing from half-open does not reset the failure count, which is still at the threshold
  that tripped the breaker: in every reachable half-open state whose next success closes the
  breaker, one failure right after that trips it again, whatever the threshold.
\<close>

theorem recovered_breaker_trips_at_once:
  assumes "reaches (New c) b" and "state b = StateHalfOpen"
    and "successThreshold b \<le> successes b + 1" and "0 \<le> successes b" and "successes b < 2 ^ 31 - 1"
    and "0 \<le> failureThreshold b" and "failures b < 2 ^ 31 - 1"
  shows "state (RecordSuccess b) = StateClosed \<and> state (RecordFailure now (RecordSuccess b)) = StateOpen"
proof -
  have "failureThreshold b \<le> failures b" using reaches_failures [OF assms(1)] assms(2) by simp
  moreover have "i32 (failures b + 1) = failures b + 1" "i32 (successes b + 1) = successes b + 1"
    using assms calculation by (auto intro!: i32_id)
  ultimately show ?thesis using assms(2-) by (auto simp: breaker_defs)
qed

theorem recovered_breaker_trips_at_once_witness:
  "let c = \<lparr>cName = ''x'', cFailureThreshold = 2, cSuccessThreshold = 1, cTimeout = 5, cHalfOpenMax = 1\<rparr>;
       b = run [CFailure 1, CFailure 2, CAllow 9] (New c)
   in state (RecordSuccess b) = StateClosed \<and> state (RecordFailure 10 (RecordSuccess b)) = StateOpen"
proof -
  define c where "c = \<lparr>cName = ''x'', cFailureThreshold = 2, cSuccessThreshold = 1, cTimeout = 5, cHalfOpenMax = 1\<rparr>"
  define b where "b = run [CFailure 1, CFailure 2, CAllow 9] (New c)"
  have b: "state b = StateHalfOpen \<and> successes b = 0 \<and> failures b = 2 \<and> failureThreshold b = 2 \<and> successThreshold b = 1"
    by (simp add: b_def c_def New_def breaker_defs i32_def Sub_id)
  have "reaches (New c) b" unfolding b_def by (rule reaches_run)
  then show ?thesis
    using recovered_breaker_trips_at_once [of c b 10] b unfolding b_def c_def by simp
qed

section \<open>Many breakers\<close>

text \<open>
  The manager keeps the breakers of different names apart: a call on the breaker of one
  name changes no other, and the first call on a name acts on a new closed breaker with the
  manager's defaults and that name.
\<close>

theorem Multi_call_isolated:
  "gget (breakers (Multi_call n f m)) k =
     (if k = n
      then Some (f (case gget (breakers m) n of Some b \<Rightarrow> b | None \<Rightarrow> New ((defaults m)\<lparr>cName := n\<rparr>)))
      else gget (breakers m) k)"
  by (auto simp: Multi_call_def Multi_Get_def Let_def gomap_simps split: option.splits)

end
