(* ===== verification/Caching.thy ===== *)
theory Caching
  imports Prelude
begin

text \<open>
  The contract of a cache whose entries expire, stated once and interpreted on the three caches
  of the program (transcoded segments, device capabilities, trust scores). \<open>rep s k\<close> is what
  the state holds for a key: the value and the last instant at which it may be served. A cache
  may drop entries of its own accord (eviction, expiry), so the laws for other keys say
  ``unchanged or gone'', and may refuse keys that are not \<open>valid\<close>.
\<close>

datatype ('k, 'v) cache_op = CPut time 'k 'v | CDel 'k | CGet time 'k

fun cache_step ::
  "(time \<Rightarrow> 'k \<Rightarrow> 'v \<Rightarrow> 's \<Rightarrow> 's) \<Rightarrow> ('k \<Rightarrow> 's \<Rightarrow> 's) \<Rightarrow> (time \<Rightarrow> 'k \<Rightarrow> 's \<Rightarrow> 'v option \<times> 's) \<Rightarrow>
     ('k, 'v) cache_op \<Rightarrow> 's \<Rightarrow> 's" where
  "cache_step put del get (CPut t k v) s = put t k v s"
| "cache_step put del get (CDel k) s = del k s"
| "cache_step put del get (CGet t k) s = snd (get t k s)"

text \<open>The specification: the last value written for a key and not deleted since, and when.\<close>

fun write_step :: "('k, 'v) cache_op \<Rightarrow> ('k \<Rightarrow> ('v \<times> time) option) \<Rightarrow> 'k \<Rightarrow> ('v \<times> time) option" where
  "write_step (CPut t k v) w = w(k := Some (v, t))"
| "write_step (CDel k) w = w(k := None)"
| "write_step (CGet t k) w = w"

definition written :: "('k, 'v) cache_op list \<Rightarrow> 'k \<Rightarrow> ('v \<times> time) option" where
  "written os = fold write_step os (\<lambda>_. None)"

locale ttl_cache =
  fixes rep :: "'s \<Rightarrow> 'k \<Rightarrow> ('v \<times> time) option"
    and put :: "time \<Rightarrow> 'k \<Rightarrow> 'v \<Rightarrow> 's \<Rightarrow> 's"
    and del :: "'k \<Rightarrow> 's \<Rightarrow> 's"
    and get :: "time \<Rightarrow> 'k \<Rightarrow> 's \<Rightarrow> 'v option \<times> 's"
    and ttl :: "'s \<Rightarrow> duration"
    and inv :: "'s \<Rightarrow> bool"
    and valid :: "'k \<Rightarrow> bool"
  assumes get_hit: "inv s \<Longrightarrow> rep s k = Some (v, e) \<Longrightarrow> now \<le> e \<Longrightarrow> fst (get now k s) = Some v"
    and get_miss: "inv s \<Longrightarrow> (\<And>v e. rep s k = Some (v, e) \<Longrightarrow> e < now) \<Longrightarrow> fst (get now k s) = None"
    and rep_get: "inv s \<Longrightarrow> rep (snd (get now k s)) j = rep s j \<or> rep (snd (get now k s)) j = None"
    and rep_put_same: "inv s \<Longrightarrow> rep (put now k v s) k = (if valid k then Some (v, now + ttl s) else None)"
    and rep_put_other: "inv s \<Longrightarrow> j \<noteq> k \<Longrightarrow> rep (put now k v s) j = rep s j \<or> rep (put now k v s) j = None"
    and rep_del_same: "inv s \<Longrightarrow> rep (del k s) k = None"
    and rep_del_other: "inv s \<Longrightarrow> rep (del k s) j = rep s j \<or> rep (del k s) j = None"
    and inv_get: "inv s \<Longrightarrow> inv (snd (get now k s))"
    and inv_put: "inv s \<Longrightarrow> inv (put now k v s)"
    and inv_del: "inv s \<Longrightarrow> inv (del k s)"
    and ttl_get: "ttl (snd (get now k s)) = ttl s"
    and ttl_put: "ttl (put now k v s) = ttl s"
    and ttl_del: "ttl (del k s) = ttl s"
begin

lemma inv_step: "inv s \<Longrightarrow> inv (cache_step put del get x s)"
  by (cases x) (auto intro: inv_get inv_put inv_del)

lemma ttl_step: "ttl (cache_step put del get x s) = ttl s"
  by (cases x) (auto simp: ttl_get ttl_put ttl_del)

lemma inv_run: "inv s \<Longrightarrow> inv (fold (cache_step put del get) os s)"
  by (induction os arbitrary: s) (auto intro: inv_step)

lemma ttl_run: "ttl (fold (cache_step put del get) os s) = ttl s"
  by (induction os arbitrary: s) (auto simp: ttl_step)

lemma read_your_write:
  "inv s \<Longrightarrow> valid k \<Longrightarrow> now' \<le> now + ttl s \<Longrightarrow> fst (get now' k (put now k v s)) = Some v"
  by (rule get_hit [OF inv_put]) (simp_all add: rep_put_same)

lemma deleted_is_gone: "inv s \<Longrightarrow> fst (get now k (del k s)) = None"
  by (rule get_miss) (auto simp: rep_del_same intro: inv_del)

text \<open>What the state holds was written last for that key, and expires one lifetime later.\<close>

lemma rep_run:
  assumes "inv s" and "\<And>k. rep s k = None"
    and "rep (fold (cache_step put del get) os s) k = Some (v, e)"
  shows "\<exists>t. written os k = Some (v, t) \<and> e = t + ttl s"
  using assms(3)
proof (induction os arbitrary: k v e rule: rev_induct)
  case Nil
  then show ?case using assms(2) by simp
next
  case (snoc x os)
  let ?s = "fold (cache_step put del get) os s"
  have inv: "inv ?s" using inv_run [OF assms(1)] .
  have old: "rep ?s k = Some (v, e) \<Longrightarrow> \<exists>t. written os k = Some (v, t) \<and> e = t + ttl s"
    by (rule snoc.IH)
  show ?case
  proof (cases x)
    case (CPut t j u)
    show ?thesis
    proof (cases "k = j")
      case True
      then show ?thesis using snoc.prems CPut rep_put_same [OF inv, of t j u] by (auto simp: written_def ttl_run split: if_splits)
    next
      case False
      then show ?thesis using snoc.prems CPut rep_put_other [OF inv False, of t u] old by (auto simp: written_def)
    qed
  next
    case (CDel j)
    then show ?thesis using snoc.prems rep_del_same [OF inv, of j] rep_del_other [OF inv, of j k] old
      by (cases "k = j") (auto simp: written_def)
  next
    case (CGet t j)
    then show ?thesis using snoc.prems rep_get [OF inv, of t j k] old by (auto simp: written_def)
  qed
qed

text \<open>So a hit is never stale: it is the last value written, at most one lifetime ago.\<close>

lemma get_run:
  assumes "inv s" and "\<And>k. rep s k = None"
    and "fst (get now k (fold (cache_step put del get) os s)) = Some v"
  shows "\<exists>t. written os k = Some (v, t) \<and> now \<le> t + ttl s"
proof -
  let ?s = "fold (cache_step put del get) os s"
  have inv: "inv ?s" using inv_run [OF assms(1)] .
  have "\<exists>u e. rep ?s k = Some (u, e) \<and> now \<le> e"
    using get_miss [OF inv, of k now] assms(3) by force
  then obtain u e where u: "rep ?s k = Some (u, e)" "now \<le> e" by blast
  then have "u = v" using get_hit [OF inv u] assms(3) by simp
  then show ?thesis using rep_run [OF assms(1,2) u(1)] u(2) by auto
qed

end

end
