(* ===== verification/SegmentCache.thy ===== *)
theory SegmentCache
  imports Caching "HOL-Library.List_Lexorder" "HOL-Library.Char_ord"
begin

text \<open>
  The two-level cache of transcoded segments, \<^verbatim>\<open>internal/metrics/segment_cache.go\<close>. An entry
  of the memory level is shared by the key map and the LRU list, so entries live in a store
  indexed by their address: \<open>l1\<close> maps a key to an address, \<open>l1List\<close> lists addresses (most
  recent first), and an entry's list element is its address. Segment keys hash the triple of
  names; the hash (SHA-256, its first 16 hex digits) is the parameter \<open>sha\<close>. The disk level is
  a flat directory of files with contents and modification times (\<open>NewSegmentCache\<close> starts it
  empty, \<open>OpenSegmentCache\<close> with what is there); a read of an existing file
  succeeds, a write may fail (the flags of \<open>setL2\<close>). Each operation reads the clock once.
\<close>

section \<open>Data\<close>

record L1Entry =
  Key :: string
  Data :: string
  Size :: int
  ExpiresAt :: time
  AccessCount :: int

record diskfile =
  content :: string
  ModTime :: time

record SegmentCacheConfig =
  MemoryCacheSize :: int
  MemoryMaxItems :: int
  DiskCacheDir :: string
  DiskCacheSize :: int
  DefaultTTL :: duration

record SegmentCache =
  l1 :: "(string, nat) gomap"
  heap :: "nat \<Rightarrow> L1Entry"
  fresh :: nat
  l1List :: "nat list"
  l1MaxSize :: int
  l1MaxItems :: int
  l1Size :: int
  l2Dir :: string
  files :: "(string, diskfile) gomap"
  l2MaxSize :: int
  l2Size :: int
  defaultTTL :: duration
  onEvict :: bool
  evicted :: "(string \<times> string) list"
  closed :: bool
  cacheHits :: int
  cacheMisses :: int
  cacheSize :: int

datatype seg_error = SegmentWriteFailed | MetaWriteFailed | SegmentReadFailed | MkdirFailed

record SegmentCacheStats =
  L1Count :: int
  L1Size :: int
  L1Max :: int
  L2Count :: int
  L2Size :: int
  L2Max :: int

definition NewSegmentCache :: "SegmentCacheConfig \<Rightarrow> SegmentCache" where
  "NewSegmentCache c =
     \<lparr>l1 = [], heap = (\<lambda>_. \<lparr>Key = [], Data = [], Size = 0, ExpiresAt = zeroTime, AccessCount = 0\<rparr>),
      fresh = 0, l1List = [],
      l1MaxSize = (if MemoryCacheSize c = 0 then 100 * 2 ^ 20 else MemoryCacheSize c),
      l1MaxItems = (if MemoryMaxItems c = 0 then 1000 else MemoryMaxItems c),
      l1Size = 0, l2Dir = DiskCacheDir c, files = [],
      l2MaxSize = (if DiskCacheSize c = 0 then 10 * 2 ^ 30 else DiskCacheSize c), l2Size = 0,
      defaultTTL = (if DefaultTTL c = 0 then Hour else DefaultTTL c),
      onEvict = False, evicted = [], closed = False, cacheHits = 0, cacheMisses = 0, cacheSize = 0\<rparr>"

text \<open>
  The constructor proper: creating the cache directory may fail, and the directory may hold
  files of an earlier run, which the byte counter does not know of.
\<close>

definition OpenSegmentCache ::
  "bool \<Rightarrow> (string, diskfile) gomap \<Rightarrow> SegmentCacheConfig \<Rightarrow> seg_error + SegmentCache" where
  "OpenSegmentCache mkdir_ok disk c =
     (if DiskCacheDir c \<noteq> [] \<and> \<not> mkdir_ok then Inl MkdirFailed
      else Inr ((NewSegmentCache c)\<lparr>files := disk\<rparr>))"

section \<open>Memory level\<close>

definition MoveToFront :: "nat \<Rightarrow> nat list \<Rightarrow> nat list" where
  "MoveToFront i xs = (if i \<in> set xs then i # remove1 i xs else xs)"

definition deleteL1 :: "string \<Rightarrow> SegmentCache \<Rightarrow> SegmentCache" where
  "deleteL1 key sc =
     (case gget (l1 sc) key of
        None \<Rightarrow> sc
      | Some i \<Rightarrow> sc\<lparr>l1Size := l1Size sc - Size (heap sc i), l1List := remove1 i (l1List sc),
                    l1 := gdel (l1 sc) key\<rparr>)"

definition getL1 :: "time \<Rightarrow> string \<Rightarrow> SegmentCache \<Rightarrow> string option \<times> SegmentCache" where
  "getL1 now key sc =
     (case gget (l1 sc) key of
        None \<Rightarrow> (None, sc)
      | Some i \<Rightarrow>
          let e = heap sc i
          in if After now (ExpiresAt e) then (None, deleteL1 key sc)
             else (Some (Data e),
                   sc\<lparr>l1List := MoveToFront i (l1List sc),
                      heap := (heap sc)(i := e\<lparr>AccessCount := AccessCount e + 1\<rparr>)\<rparr>))"

definition evictL1 :: "SegmentCache \<Rightarrow> SegmentCache" where
  "evictL1 sc =
     (if l1List sc = [] then sc
      else let i = last (l1List sc); e = heap sc i
           in sc\<lparr>l1Size := l1Size sc - Size e, l1 := gdel (l1 sc) (Key e),
                 l1List := butlast (l1List sc),
                 evicted := (if onEvict sc then evicted sc @ [(Key e, Data e)] else evicted sc)\<rparr>)"

definition needs_room :: "int \<Rightarrow> SegmentCache \<Rightarrow> bool" where
  "needs_room sz sc \<longleftrightarrow>
     l1Size sc + sz > l1MaxSize sc \<or> int (length (l1 sc)) \<ge> l1MaxItems sc"

function make_room :: "int \<Rightarrow> SegmentCache \<Rightarrow> SegmentCache" where
  "make_room sz sc =
     (if needs_room sz sc \<and> l1List sc \<noteq> [] then make_room sz (evictL1 sc) else sc)"
  by pat_completeness auto
termination
  by (relation "measure (\<lambda>(sz, sc). length (l1List sc))") (auto simp: evictL1_def Let_def)

declare make_room.simps [simp del]

definition setL1 :: "time \<Rightarrow> string \<Rightarrow> string \<Rightarrow> SegmentCache \<Rightarrow> SegmentCache" where
  "setL1 now key dat sc0 =
     (let sz = int (length dat); sc = make_room sz sc0
      in case gget (l1 sc) key of
           Some i \<Rightarrow>
             let e = heap sc i
             in sc\<lparr>l1Size := l1Size sc - Size e + sz,
                   heap := (heap sc)(i := e\<lparr>Data := dat, Size := sz,
                     ExpiresAt := Add now (defaultTTL sc), AccessCount := AccessCount e + 1\<rparr>),
                   l1List := MoveToFront i (l1List sc)\<rparr>
         | None \<Rightarrow>
             let i = fresh sc
             in sc\<lparr>heap := (heap sc)(i := \<lparr>Key = key, Data = dat, Size = sz,
                     ExpiresAt = Add now (defaultTTL sc), AccessCount = 1\<rparr>),
                   fresh := Suc i, l1List := i # l1List sc, l1 := gput (l1 sc) key i,
                   l1Size := l1Size sc + sz\<rparr>)"

section \<open>Disk level\<close>

definition l2Path :: "string \<Rightarrow> string" where "l2Path key = key @ ''.seg''"

definition getL2 :: "time \<Rightarrow> string \<Rightarrow> SegmentCache \<Rightarrow> string option \<times> SegmentCache" where
  "getL2 now key sc =
     (if l2Dir sc = [] then (None, sc)
      else case gget (files sc) (l2Path key) of
             None \<Rightarrow> (None, sc)
           | Some f \<Rightarrow>
               (case gget (files sc) (l2Path key @ ''.meta'') of
                  Some m \<Rightarrow>
                    if After now (Add (ModTime m) (defaultTTL sc))
                    then (None, sc\<lparr>files := gdel (gdel (files sc) (l2Path key)) (l2Path key @ ''.meta'')\<rparr>)
                    else (Some (content f), sc)
                | None \<Rightarrow> (Some (content f), sc)))"

definition removeFile :: "string \<Rightarrow> SegmentCache \<Rightarrow> SegmentCache" where
  "removeFile name sc = sc\<lparr>files := gdel (files sc) name\<rparr>"

text \<open>\<^verbatim>\<open>os.Stat\<close>, subtract the size if the file is there, and remove it.\<close>

definition discard :: "string \<Rightarrow> SegmentCache \<Rightarrow> SegmentCache" where
  "discard name sc =
     (let sc' = (case gget (files sc) name of
                   Some f \<Rightarrow> sc\<lparr>l2Size := l2Size sc - int (length (content f))\<rparr>
                 | None \<Rightarrow> sc)
      in removeFile name sc')"

definition deleteL2 :: "string \<Rightarrow> SegmentCache \<Rightarrow> SegmentCache" where
  "deleteL2 key sc =
     (if l2Dir sc = [] then sc
      else removeFile (l2Path key @ ''.meta'') (discard (l2Path key) sc))"

text \<open>The scan for the oldest meta file, over the directory listing (sorted by name).\<close>

definition oldest_step :: "(string, diskfile) gomap \<Rightarrow> string \<Rightarrow> (string \<times> time) \<Rightarrow> string \<times> time" where
  "oldest_step fs name acc =
     (if \<not> HasSuffix name ''.meta'' then acc
      else case gget fs name of
             None \<Rightarrow> acc
           | Some f \<Rightarrow> if IsZero (snd acc) \<or> Before (ModTime f) (snd acc) then (name, ModTime f) else acc)"

definition oldestMeta :: "(string, diskfile) gomap \<Rightarrow> string" where
  "oldestMeta fs = fst (fold (oldest_step fs) (sort (map fst fs)) ([], zeroTime))"

definition evictL2 :: "SegmentCache \<Rightarrow> bool \<times> SegmentCache" where
  "evictL2 sc =
     (if l2Dir sc = [] \<or> files sc = [] then (False, sc)
      else let oldest = oldestMeta (files sc)
           in if oldest = [] then (False, sc)
              else let seg = take (length oldest - 5) oldest
                   in (True, removeFile oldest (discard seg sc)))"


lemma oldest_step_set: "fst (oldest_step fs name acc) \<in> {fst acc, name}"
  by (auto simp: oldest_step_def split: option.splits)

lemma oldest_step_present:
  "fst acc \<noteq> [] \<Longrightarrow> gget fs (fst acc) \<noteq> None \<Longrightarrow> gget fs (fst (oldest_step fs name acc)) \<noteq> None"
  by (auto simp: oldest_step_def split: option.splits)

lemma oldestMeta_present:
  assumes "oldestMeta fs \<noteq> []"
  shows "gget fs (oldestMeta fs) \<noteq> None \<and> HasSuffix (oldestMeta fs) ''.meta''"
proof -
  have "fst (fold (oldest_step fs) ns acc) = [] \<or>
      gget fs (fst (fold (oldest_step fs) ns acc)) \<noteq> None \<and> HasSuffix (fst (fold (oldest_step fs) ns acc)) ''.meta''"
    if "fst acc = [] \<or> gget fs (fst acc) \<noteq> None \<and> HasSuffix (fst acc) ''.meta''" for ns acc
    using that
  proof (induction ns arbitrary: acc)
    case (Cons n ns)
    have "fst (oldest_step fs n acc) = [] \<or>
        gget fs (fst (oldest_step fs n acc)) \<noteq> None \<and> HasSuffix (fst (oldest_step fs n acc)) ''.meta''"
      using Cons.prems by (auto simp: oldest_step_def split: option.splits)
    then show ?case using Cons.IH by simp
  qed simp
  from this [of "([], zeroTime)" "sort (map fst fs)"] show ?thesis
    using assms by (simp only: oldestMeta_def fst_conv) blast
qed

lemma evictL2_progress:
  assumes "evictL2 sc = (True, sc')"
  shows "length (files sc') < length (files sc)"
proof -
  let ?o = "oldestMeta (files sc)"
  have o: "?o \<noteq> []" and sc': "sc' = removeFile ?o (discard (take (length ?o - 5) ?o) sc)"
    using assms by (auto simp: evictL2_def Let_def split: if_splits)
  have "length (take (length ?o - 5) ?o) < length ?o" using o by simp
  then have ne: "take (length ?o - 5) ?o \<noteq> ?o" by (metis less_irrefl)
  have "files sc' = gdel (gdel (files sc) (take (length ?o - 5) ?o)) ?o"
    by (auto simp: sc' removeFile_def discard_def Let_def split: option.splits)
  moreover have "gget (gdel (files sc) (take (length ?o - 5) ?o)) ?o \<noteq> None"
    using oldestMeta_present [OF o] ne [symmetric] by (simp add: gget_gdel)
  ultimately show ?thesis using length_gdel_less length_gdel_le by (metis order_less_le_trans)
qed

function make_room_L2 :: "int \<Rightarrow> SegmentCache \<Rightarrow> SegmentCache" where
  "make_room_L2 n sc =
     (if l2Size sc + n > l2MaxSize sc
      then case evictL2 sc of (True, sc') \<Rightarrow> make_room_L2 n sc' | (False, sc') \<Rightarrow> sc'
      else sc)"
  by pat_completeness auto
termination
  by (relation "measure (\<lambda>(n, sc). length (files sc))") (auto dest: evictL2_progress [OF sym])

declare make_room_L2.simps [simp del]

text \<open>
  \<open>seg_ok\<close> and \<open>meta_ok\<close> say whether the two \<^verbatim>\<open>os.WriteFile\<close> calls succeed; a failed write
  leaves the directory as it was.
\<close>

definition setL2 ::
  "bool \<Rightarrow> bool \<Rightarrow> time \<Rightarrow> string \<Rightarrow> string \<Rightarrow> SegmentCache \<Rightarrow> seg_error option \<times> SegmentCache" where
  "setL2 seg_ok meta_ok now key dat sc0 =
     (if l2Dir sc0 = [] then (None, sc0)
      else let sc = make_room_L2 (int (length dat)) sc0
           in if \<not> seg_ok then (Some SegmentWriteFailed, sc)
              else let sc1 = sc\<lparr>files := gput (files sc) (l2Path key) \<lparr>content = dat, ModTime = now\<rparr>\<rparr>
                   in if \<not> meta_ok then (Some MetaWriteFailed, removeFile (l2Path key) sc1)
                      else (None, sc1\<lparr>files := gput (files sc1) (l2Path key @ ''.meta'')
                              \<lparr>content = ''expiry'', ModTime = now\<rparr>,
                              l2Size := l2Size sc1 + int (length dat)\<rparr>))"

section \<open>The cache\<close>

definition makeKey :: "(string \<Rightarrow> string) \<Rightarrow> string \<Rightarrow> string \<Rightarrow> string \<Rightarrow> string" where
  "makeKey sha mediaID variant segmentID =
     mediaID @ '':'' @ sha (mediaID @ '':'' @ variant @ '':'' @ segmentID)"

definition RecordCacheHit :: "SegmentCache \<Rightarrow> SegmentCache" where
  "RecordCacheHit sc = sc\<lparr>cacheHits := cacheHits sc + 1\<rparr>"
definition RecordCacheMiss :: "SegmentCache \<Rightarrow> SegmentCache" where
  "RecordCacheMiss sc = sc\<lparr>cacheMisses := cacheMisses sc + 1\<rparr>"

definition Get ::
  "(string \<Rightarrow> string) \<Rightarrow> time \<Rightarrow> string \<Rightarrow> string \<Rightarrow> string \<Rightarrow> SegmentCache \<Rightarrow> string option \<times> SegmentCache" where
  "Get sha now mediaID variant segmentID sc =
     (let key = makeKey sha mediaID variant segmentID
      in case getL1 now key sc of
           (Some d, sc1) \<Rightarrow> (Some d, RecordCacheHit sc1)
         | (None, sc1) \<Rightarrow>
             (case getL2 now key sc1 of
                (Some d, sc2) \<Rightarrow> (Some d, RecordCacheHit (setL1 now key d sc2))
              | (None, sc2) \<Rightarrow> (None, RecordCacheMiss sc2)))"

definition Set ::
  "(string \<Rightarrow> string) \<Rightarrow> bool \<Rightarrow> bool \<Rightarrow> time \<Rightarrow> string \<Rightarrow> string \<Rightarrow> string \<Rightarrow> string \<Rightarrow> SegmentCache \<Rightarrow>
     seg_error option \<times> SegmentCache" where
  "Set sha seg_ok meta_ok now mediaID variant segmentID dat sc =
     (let key = makeKey sha mediaID variant segmentID; sc1 = setL1 now key dat sc
      in if l2Dir sc1 \<noteq> [] then setL2 seg_ok meta_ok now key dat sc1 else (None, sc1))"

definition Invalidate :: "(string \<Rightarrow> string) \<Rightarrow> string \<Rightarrow> string \<Rightarrow> string \<Rightarrow> SegmentCache \<Rightarrow> SegmentCache" where
  "Invalidate sha mediaID variant segmentID sc =
     (let key = makeKey sha mediaID variant segmentID in deleteL2 key (deleteL1 key sc))"

definition InvalidateMedia :: "string \<Rightarrow> SegmentCache \<Rightarrow> SegmentCache" where
  "InvalidateMedia mediaID sc =
     sc\<lparr>l1 := gfilter (\<lambda>key _. \<not> HasPrefix key (mediaID @ '':'')) (l1 sc)\<rparr>"

definition expireL1 :: "time \<Rightarrow> string \<times> nat \<Rightarrow> SegmentCache \<Rightarrow> SegmentCache" where
  "expireL1 now = (\<lambda>(key, i) sc.
     if After now (ExpiresAt (heap sc i))
     then sc\<lparr>l1Size := l1Size sc - Size (heap sc i), l1List := remove1 i (l1List sc), l1 := gdel (l1 sc) key\<rparr>
     else sc)"

definition expireL2 :: "time \<Rightarrow> string \<Rightarrow> SegmentCache \<Rightarrow> SegmentCache" where
  "expireL2 now name sc =
     (if \<not> HasSuffix name ''.meta'' then sc
      else case gget (files sc) name of
             None \<Rightarrow> sc
           | Some f \<Rightarrow>
               if Before (Add (ModTime f) (defaultTTL sc)) now
               then removeFile name (discard (take (length name - 5) name) sc)
               else sc)"

definition cleanupExpired :: "time \<Rightarrow> SegmentCache \<Rightarrow> SegmentCache" where
  "cleanupExpired now sc =
     (let sc1 = fold (expireL1 now) (l1 sc) sc
      in if l2Dir sc1 = [] then sc1
         else let sc2 = fold (expireL2 now) (sort (map fst (files sc1))) sc1
              in sc2\<lparr>cacheSize := l1Size sc2 + l2Size sc2\<rparr>)"

definition SegmentCache_Stats :: "SegmentCache \<Rightarrow> SegmentCacheStats" where
  "SegmentCache_Stats sc =
     \<lparr>L1Count = int (length (l1 sc)), L1Size = l1Size sc, L1Max = l1MaxSize sc,
      L2Count = 0, L2Size = l2Size sc, L2Max = l2MaxSize sc\<rparr>"

definition Close :: "SegmentCache \<Rightarrow> SegmentCache" where
  "Close sc = sc\<lparr>closed := True, l1 := [], l1Size := 0, l1List := []\<rparr>"

definition SetOnEvict :: "SegmentCache \<Rightarrow> SegmentCache" where
  "SetOnEvict sc = sc\<lparr>onEvict := True\<rparr>"

text \<open>The reader is the result of reading all of it: the bytes, or \<open>None\<close> for an error.\<close>

definition StreamToCache ::
  "(string \<Rightarrow> string) \<Rightarrow> bool \<Rightarrow> bool \<Rightarrow> time \<Rightarrow> string \<Rightarrow> string \<Rightarrow> string \<Rightarrow> string option \<Rightarrow> SegmentCache \<Rightarrow>
     seg_error option \<times> SegmentCache" where
  "StreamToCache sha seg_ok meta_ok now mediaID variant segmentID reader sc =
     (case reader of
        None \<Rightarrow> (Some SegmentReadFailed, sc)
      | Some dat \<Rightarrow> Set sha seg_ok meta_ok now mediaID variant segmentID dat sc)"


section \<open>Invariant of the memory level\<close>

text \<open>
  The key map points into the LRU list, each address it points to holds an entry filed under
  that key, and the byte counter is the sum of the sizes of the listed entries. The list may
  hold entries that no key points to: \<open>InvalidateMedia\<close> leaves them there.
\<close>

definition l1_total :: "SegmentCache \<Rightarrow> int" where
  "l1_total sc = (\<Sum>i\<in>set (l1List sc). Size (heap sc i))"

definition seg_inv :: "SegmentCache \<Rightarrow> bool" where
  "seg_inv sc \<longleftrightarrow> gwf (l1 sc) \<and> distinct (l1List sc) \<and>
     (\<forall>k i. gget (l1 sc) k = Some i \<longrightarrow> i \<in> set (l1List sc) \<and> Key (heap sc i) = k) \<and>
     (\<forall>i\<in>set (l1List sc). i < fresh sc \<and> Size (heap sc i) = int (length (Data (heap sc i)))) \<and>
     l1Size sc = l1_total sc"

definition seg_cap :: "SegmentCache \<Rightarrow> bool" where
  "seg_cap sc \<longleftrightarrow> (l1Size sc \<le> l1MaxSize sc \<or> length (l1List sc) \<le> 1) \<and>
     int (length (l1 sc)) \<le> max 1 (l1MaxItems sc)"

text \<open>The fields of the memory level, which the disk operations leave alone.\<close>

definition l1_part where
  "l1_part sc = (l1 sc, heap sc, fresh sc, l1List sc, l1Size sc, l1MaxSize sc, l1MaxItems sc, defaultTTL sc)"

lemma l1_part_inv: "l1_part sc' = l1_part sc \<Longrightarrow> seg_inv sc' = seg_inv sc \<and> seg_cap sc' = seg_cap sc"
  by (simp add: l1_part_def seg_inv_def seg_cap_def l1_total_def)

lemma discard_l1 [simp]: "l1_part (discard n sc) = l1_part sc"
  by (auto simp: l1_part_def discard_def removeFile_def Let_def split: option.splits)

lemma removeFile_l1 [simp]: "l1_part (removeFile n sc) = l1_part sc"
  by (simp add: l1_part_def removeFile_def)

lemma evictL2_l1 [simp]: "l1_part (snd (evictL2 sc)) = l1_part sc"
  by (simp add: evictL2_def Let_def)

lemma make_room_L2_l1 [simp]: "l1_part (make_room_L2 n sc) = l1_part sc"
proof (induction n sc rule: make_room_L2.induct)
  case (1 n sc)
  obtain r sc' where e: "evictL2 sc = (r, sc')" by force
  then have "l1_part sc' = l1_part sc" using evictL2_l1 [of sc] by simp
  then show ?case using 1 e by (subst make_room_L2.simps) (cases r; simp)
qed

lemma l1_part_files [simp]: "l1_part (sc\<lparr>files := f\<rparr>) = l1_part sc"
  by (simp add: l1_part_def)

lemma l1_part_l2Size [simp]: "l1_part (sc\<lparr>l2Size := f\<rparr>) = l1_part sc"
  by (simp add: l1_part_def)

lemma setL2_l1 [simp]: "l1_part (snd (setL2 a b now k d sc)) = l1_part sc"
  by (simp add: setL2_def Let_def)

lemma getL2_l1 [simp]: "l1_part (snd (getL2 now k sc)) = l1_part sc"
  by (auto simp: getL2_def split: option.splits)

lemma deleteL2_l1 [simp]: "l1_part (deleteL2 k sc) = l1_part sc"
  by (simp add: deleteL2_def)

lemma expireL2_l1 [simp]: "l1_part (expireL2 now n sc) = l1_part sc"
  by (auto simp: expireL2_def split: option.splits)

lemma expireL2s_l1 [simp]: "l1_part (fold (expireL2 now) ns sc) = l1_part sc"
  by (induction ns arbitrary: sc) auto

lemma set_MoveToFront [simp]: "distinct xs \<Longrightarrow> set (MoveToFront i xs) = set xs"
  by (auto simp: MoveToFront_def)

lemma distinct_MoveToFront [simp]: "distinct xs \<Longrightarrow> distinct (MoveToFront i xs)"
  by (auto simp: MoveToFront_def)

lemma length_MoveToFront [simp]: "length (MoveToFront i xs) = length xs"
  by (auto simp: MoveToFront_def length_remove1) (metis Suc_pred length_pos_if_in_set)

lemma seg_inv_entry:
  "seg_inv sc \<Longrightarrow> gget (l1 sc) k = Some i \<Longrightarrow>
     i \<in> set (l1List sc) \<and> Key (heap sc i) = k \<and> i < fresh sc"
  by (auto simp: seg_inv_def)

lemma seg_size_nonneg: "seg_inv sc \<Longrightarrow> i \<in> set (l1List sc) \<Longrightarrow> 0 \<le> Size (heap sc i)"
  by (auto simp: seg_inv_def)

text \<open>Dropping one listed address, and whatever key pointed to it.\<close>

lemma seg_inv_drop:
  assumes "seg_inv sc" and "i \<in> set (l1List sc)" and "xs = remove1 i (l1List sc)"
    and "l1 sc' = gdel (l1 sc) (Key (heap sc i))" and "l1List sc' = xs" and "heap sc' = heap sc"
    and "fresh sc' = fresh sc" and "l1Size sc' = l1Size sc - Size (heap sc i)"
  shows "seg_inv sc'"
proof -
  have s: "set xs = set (l1List sc) - {i}" "distinct xs"
    using assms(1,3) by (simp_all add: seg_inv_def)
  have "l1_total sc = Size (heap sc i) + (\<Sum>j\<in>set xs. Size (heap sc j))"
    unfolding l1_total_def s(1) using assms(2) by (intro sum.remove) auto
  then show ?thesis using assms s
    by (auto simp: seg_inv_def l1_total_def gomap_simps)
qed

lemma seg_cap_drop:
  assumes "seg_inv sc" and "seg_cap sc" and "i \<in> set (l1List sc)" and "xs = remove1 i (l1List sc)"
    and "length (l1 sc') \<le> length (l1 sc)" and "l1List sc' = xs"
    and "l1Size sc' = l1Size sc - Size (heap sc i)"
    and "l1MaxSize sc' = l1MaxSize sc" and "l1MaxItems sc' = l1MaxItems sc"
  shows "seg_cap sc'"
  using assms seg_size_nonneg [OF assms(1,3)]
  by (auto simp: seg_cap_def length_remove1)

lemma deleteL1_drop:
  assumes "seg_inv sc"
  shows "seg_inv (deleteL1 k sc)" and "seg_cap sc \<Longrightarrow> seg_cap (deleteL1 k sc)"
proof -
  show "seg_inv (deleteL1 k sc)"
  proof (cases "gget (l1 sc) k")
    case (Some i)
    note e = seg_inv_entry [OF assms Some]
    show ?thesis by (rule seg_inv_drop [OF assms, of i]) (use e Some in \<open>auto simp: deleteL1_def\<close>)
  qed (use assms in \<open>simp add: deleteL1_def\<close>)
  assume c: "seg_cap sc"
  show "seg_cap (deleteL1 k sc)"
  proof (cases "gget (l1 sc) k")
    case (Some i)
    note e = seg_inv_entry [OF assms Some]
    show ?thesis by (rule seg_cap_drop [OF assms c, of i]) (use e Some in \<open>auto simp: deleteL1_def length_gdel_le\<close>)
  qed (use c in \<open>simp add: deleteL1_def\<close>)
qed

lemma remove1_last: "distinct xs \<Longrightarrow> xs \<noteq> [] \<Longrightarrow> remove1 (last xs) xs = butlast xs"
  by (induction xs) auto

lemma evictL1_drop:
  assumes "seg_inv sc"
  shows "seg_inv (evictL1 sc)"
proof (cases "l1List sc = []")
  case False
  have "remove1 (last (l1List sc)) (l1List sc) = butlast (l1List sc)"
    using False assms by (simp add: seg_inv_def remove1_last)
  then show ?thesis
    using False by (intro seg_inv_drop [OF assms, of "last (l1List sc)"]) (auto simp: evictL1_def Let_def)
qed (use assms in \<open>simp add: evictL1_def\<close>)


lemma evictL1_config [simp]:
  "l1MaxSize (evictL1 sc) = l1MaxSize sc" "l1MaxItems (evictL1 sc) = l1MaxItems sc"
  "defaultTTL (evictL1 sc) = defaultTTL sc" "heap (evictL1 sc) = heap sc" "fresh (evictL1 sc) = fresh sc"
  by (simp_all add: evictL1_def Let_def)

text \<open>Making room keeps the invariant, only drops keys, and ends with room or an empty list.\<close>

lemma make_room_spec:
  assumes "seg_inv sc"
  shows "seg_inv (make_room n sc)
    \<and> (\<not> needs_room n (make_room n sc) \<or> l1List (make_room n sc) = [])
    \<and> (\<forall>k. gget (l1 (make_room n sc)) k = gget (l1 sc) k \<or> gget (l1 (make_room n sc)) k = None)
    \<and> l1MaxSize (make_room n sc) = l1MaxSize sc \<and> l1MaxItems (make_room n sc) = l1MaxItems sc
    \<and> defaultTTL (make_room n sc) = defaultTTL sc \<and> heap (make_room n sc) = heap sc
    \<and> fresh (make_room n sc) = fresh sc"
  using assms
proof (induction n sc rule: make_room.induct)
  case (1 n sc)
  show ?case
  proof (cases "needs_room n sc \<and> l1List sc \<noteq> []")
    case True
    then have e: "make_room n sc = make_room n (evictL1 sc)" by (simp add: make_room.simps [of n sc])
    have "gget (l1 (evictL1 sc)) k = gget (l1 sc) k \<or> gget (l1 (evictL1 sc)) k = None" for k
      by (auto simp: evictL1_def Let_def gomap_simps)
    then show ?thesis using "1.IH" [OF True evictL1_drop [OF "1.prems"]] unfolding e by simp metis
  next
    case False
    then have "make_room n sc = sc" by (subst make_room.simps) auto
    then show ?thesis using "1.prems" False by auto
  qed
qed

lemma seg_inv_empty: "seg_inv sc \<Longrightarrow> l1List sc = [] \<Longrightarrow> l1Size sc = 0 \<and> l1 sc = []"
proof -
  assume a: "seg_inv sc" "l1List sc = []"
  have none: "gget (l1 sc) k = None" for k using a by (cases "gget (l1 sc) k") (auto simp: seg_inv_def)
  have "l1 sc = []"
  proof (cases "l1 sc")
    case (Cons p xs)
    then have "gget (l1 sc) (fst p) \<noteq> None" by (cases p) (simp add: gget_Cons)
    then show ?thesis using none [of "fst p"] by simp
  qed
  then show ?thesis using a by (simp add: seg_inv_def l1_total_def)
qed

lemma make_room_config [simp]:
  "defaultTTL (make_room n sc) = defaultTTL sc \<and> l1MaxSize (make_room n sc) = l1MaxSize sc \<and>
   l1MaxItems (make_room n sc) = l1MaxItems sc"
proof (induction n sc rule: make_room.induct)
  case (1 n sc)
  then show ?case by (subst (1 2 3) make_room.simps) auto
qed

lemma setL1_config [simp]:
  "defaultTTL (setL1 now k d sc) = defaultTTL sc" "l1MaxSize (setL1 now k d sc) = l1MaxSize sc"
  "l1MaxItems (setL1 now k d sc) = l1MaxItems sc"
  by (auto simp: setL1_def Let_def split: option.splits)

lemma getL1_config [simp]:
  "defaultTTL (snd (getL1 now k sc)) = defaultTTL sc"
  by (auto simp: getL1_def Let_def deleteL1_def split: option.splits)

definition l1_rep :: "SegmentCache \<Rightarrow> string \<Rightarrow> (string \<times> time) option" where
  "l1_rep sc k =
     (case gget (l1 sc) k of None \<Rightarrow> None | Some i \<Rightarrow> Some (Data (heap sc i), ExpiresAt (heap sc i)))"

lemma l1_rep_part: "l1_part sc' = l1_part sc \<Longrightarrow> l1_rep sc' = l1_rep sc"
  by (rule ext) (auto simp: l1_part_def l1_rep_def split: option.splits)

text \<open>Overwriting the entry of a key, and adding one at a fresh address.\<close>

lemma seg_inv_overwrite:
  assumes "seg_inv sc" and "gget (l1 sc) k = Some i"
    and "l1 sc' = l1 sc" and "l1List sc' = MoveToFront i (l1List sc)" and "fresh sc' = fresh sc"
    and "heap sc' = (heap sc)(i := e)" and "Key e = k" and "Size e = int (length (Data e))"
    and "l1Size sc' = l1Size sc - Size (heap sc i) + Size e"
  shows "seg_inv sc'"
proof -
  let ?S = "set (l1List sc)"
  have i: "i \<in> ?S" and d: "distinct (l1List sc)" using assms(1,2) by (auto simp: seg_inv_def)
  have "(\<Sum>j\<in>?S. Size (heap sc j)) = Size (heap sc i) + (\<Sum>j\<in>?S - {i}. Size (heap sc j))"
    using i by (intro sum.remove) auto
  moreover have "(\<Sum>j\<in>?S. Size (heap sc' j)) = Size e + (\<Sum>j\<in>?S - {i}. Size (heap sc' j))"
    using i assms(6) by (subst sum.remove [of _ i]) auto
  moreover have "(\<Sum>j\<in>?S - {i}. Size (heap sc' j)) = (\<Sum>j\<in>?S - {i}. Size (heap sc j))"
    using assms(6) by (intro sum.cong) auto
  ultimately have "l1Size sc' = l1_total sc'"
    using assms(1,4,9) d by (simp add: seg_inv_def l1_total_def)
  moreover have "j \<in> ?S \<and> Key (heap sc' j) = ka" if "gget (l1 sc) ka = Some j" for ka j
    using seg_inv_entry [OF assms(1) that] seg_inv_entry [OF assms(1,2)] assms(6,7) by auto
  moreover have "j < fresh sc \<and> Size (heap sc' j) = int (length (Data (heap sc' j)))" if "j \<in> ?S" for j
    using that assms(1,6,8) by (simp add: seg_inv_def)
  moreover have "gwf (l1 sc')" using assms(1,3) by (simp add: seg_inv_def)
  ultimately show ?thesis using assms(3-5) d by (simp add: seg_inv_def)
qed

lemma seg_inv_insert:
  assumes "seg_inv sc" and "gget (l1 sc) k = None"
    and "l1 sc' = gput (l1 sc) k (fresh sc)" and "l1List sc' = fresh sc # l1List sc" and "fresh sc' = Suc (fresh sc)"
    and "heap sc' = (heap sc)(fresh sc := e)" and "Key e = k" and "Size e = int (length (Data e))"
    and "l1Size sc' = l1Size sc + Size e"
  shows "seg_inv sc'"
proof -
  have f: "fresh sc \<notin> set (l1List sc)" using assms(1) by (auto simp: seg_inv_def)
  then have "(\<Sum>j\<in>set (l1List sc). Size (heap sc' j)) = (\<Sum>j\<in>set (l1List sc). Size (heap sc j))"
    using assms(6) by (intro sum.cong) auto
  then have "l1_total sc' = l1_total sc + Size e" using assms(4,6) f by (simp add: l1_total_def)
  moreover have "j \<in> set (l1List sc') \<and> Key (heap sc' j) = ka" if "gget (l1 sc') ka = Some j" for ka j
  proof (cases "ka = k")
    case False
    then have "gget (l1 sc) ka = Some j" using that assms(3) by (simp add: gget_gput)
    then show ?thesis using seg_inv_entry [OF assms(1)] assms(4,6) f by fastforce
  qed (use that assms(3,4,6,7) in \<open>simp add: gget_gput\<close>)
  moreover have "j < fresh sc' \<and> Size (heap sc' j) = int (length (Data (heap sc' j)))" if "j \<in> set (l1List sc')" for j
    using that assms(1,4,5,6,8) by (auto simp: seg_inv_def less_SucI)
  moreover have "gwf (l1 sc')" "distinct (l1List sc')"
    using assms(1,3,4) f by (simp_all add: seg_inv_def gwf_gput)
  moreover have "l1Size sc = l1_total sc" using assms(1) by (simp add: seg_inv_def)
  ultimately show ?thesis using assms(9) by (simp add: seg_inv_def)
qed

lemma setL1_over:
  assumes "gget (l1 (make_room (int (length d)) sc)) k = Some i"
  shows "setL1 now k d sc = (let m = make_room (int (length d)) sc in
    m\<lparr>l1Size := l1Size m - Size (heap m i) + int (length d),
      heap := (heap m)(i := (heap m i)\<lparr>Data := d, Size := int (length d),
        ExpiresAt := now + defaultTTL sc, AccessCount := AccessCount (heap m i) + 1\<rparr>),
      l1List := MoveToFront i (l1List m)\<rparr>)"
  using assms by (simp add: setL1_def Let_def Add_def)

lemma setL1_new:
  assumes "gget (l1 (make_room (int (length d)) sc)) k = None"
  shows "setL1 now k d sc = (let m = make_room (int (length d)) sc in
    m\<lparr>heap := (heap m)(fresh m := \<lparr>Key = k, Data = d, Size = int (length d),
        ExpiresAt = now + defaultTTL sc, AccessCount = 1\<rparr>),
      fresh := Suc (fresh m), l1List := fresh m # l1List m, l1 := gput (l1 m) k (fresh m),
      l1Size := l1Size m + int (length d)\<rparr>)"
  using assms by (simp add: setL1_def Let_def Add_def)

lemma setL1_spec:
  assumes inv: "seg_inv sc"
  shows "seg_inv (setL1 now k d sc) \<and> seg_cap (setL1 now k d sc)
    \<and> l1_rep (setL1 now k d sc) k = Some (d, now + defaultTTL sc)
    \<and> (\<forall>j. j \<noteq> k \<longrightarrow> l1_rep (setL1 now k d sc) j = l1_rep sc j \<or> l1_rep (setL1 now k d sc) j = None)"
proof -
  define m where "m = make_room (int (length d)) sc"
  define sc' where "sc' = setL1 now k d sc"
  note M = make_room_spec [OF inv, of "int (length d)", folded m_def]
  have mi: "seg_inv m" and h: "heap m = heap sc" and cfg: "l1MaxSize m = l1MaxSize sc" "l1MaxItems m = l1MaxItems sc"
    using M by auto
  have room: "\<not> needs_room (int (length d)) m \<or> l1List m = [] \<and> l1Size m = 0 \<and> l1 m = []"
    using M seg_inv_empty [OF mi] by blast
  have old: "l1_rep m j = l1_rep sc j \<or> l1_rep m j = None" for j
  proof -
    have "gget (l1 m) j = gget (l1 sc) j \<or> gget (l1 m) j = None" using M by simp
    then show ?thesis using h by (auto simp: l1_rep_def split: option.splits)
  qed
  have "seg_inv sc' \<and> seg_cap sc' \<and> l1_rep sc' k = Some (d, now + defaultTTL sc)
    \<and> (\<forall>j. j \<noteq> k \<longrightarrow> l1_rep sc' j = l1_rep m j)"
  proof (cases "gget (l1 m) k")
    case (Some i)
    note e = seg_inv_entry [OF mi Some]
    note eq = setL1_over [of d sc k i now, folded m_def sc'_def, OF Some, unfolded Let_def]
    have "seg_inv sc'" unfolding eq
      by (rule seg_inv_overwrite [OF mi Some, where e = "(heap m i)\<lparr>Data := d, Size := int (length d),
            ExpiresAt := now + defaultTTL sc, AccessCount := AccessCount (heap m i) + 1\<rparr>"])
        (use e in simp_all)
    moreover have "seg_cap sc'"
      using room seg_size_nonneg [OF mi, of i] e unfolding eq seg_cap_def needs_room_def by auto
    moreover have "l1_rep sc' j = l1_rep m j" if "j \<noteq> k" for j
    proof (cases "gget (l1 m) j")
      case (Some i')
      then have "i' \<noteq> i" using seg_inv_entry [OF mi Some] e that by auto
      then show ?thesis using Some by (simp add: eq l1_rep_def)
    qed (simp add: eq l1_rep_def)
    ultimately show ?thesis using Some by (simp add: eq l1_rep_def)
  next
    case None
    note eq = setL1_new [of d sc k now, folded m_def sc'_def, OF None, unfolded Let_def]
    have "seg_inv sc'" unfolding eq
      by (rule seg_inv_insert [OF mi None, where e = "\<lparr>Key = k, Data = d, Size = int (length d),
            ExpiresAt = now + defaultTTL sc, AccessCount = 1\<rparr>"]) simp_all
    moreover have "seg_cap sc'"
      using room None unfolding eq seg_cap_def needs_room_def by (auto simp: length_gput)
    moreover have "l1_rep sc' j = l1_rep m j" if "j \<noteq> k" for j
    proof (cases "gget (l1 m) j")
      case (Some i')
      then show ?thesis using seg_inv_entry [OF mi Some] that by (simp add: eq l1_rep_def gget_gput)
    qed (use that in \<open>simp add: eq l1_rep_def gget_gput\<close>)
    ultimately show ?thesis by (simp add: eq l1_rep_def gget_gput)
  qed
  then show ?thesis using old unfolding sc'_def by metis
qed

lemma getL1_spec:
  assumes inv: "seg_inv sc"
  shows "seg_inv (snd (getL1 now k sc))" and "seg_cap sc \<Longrightarrow> seg_cap (snd (getL1 now k sc))"
    and "l1_rep (snd (getL1 now k sc)) j = l1_rep sc j \<or> l1_rep (snd (getL1 now k sc)) j = None"
    and "fst (getL1 now k sc) = (case l1_rep sc k of Some (d, e) \<Rightarrow> if now \<le> e then Some d else None | None \<Rightarrow> None)"
proof -
  have d: "distinct (l1List sc)" using inv by (simp add: seg_inv_def)
  consider "gget (l1 sc) k = None"
    | i where "gget (l1 sc) k = Some i" "ExpiresAt (heap sc i) < now"
    | i where "gget (l1 sc) k = Some i" "\<not> ExpiresAt (heap sc i) < now"
    by (cases "gget (l1 sc) k") auto
  then have "seg_inv (snd (getL1 now k sc)) \<and> (seg_cap sc \<longrightarrow> seg_cap (snd (getL1 now k sc)))
     \<and> (l1_rep (snd (getL1 now k sc)) j = l1_rep sc j \<or> l1_rep (snd (getL1 now k sc)) j = None)"
  proof cases
    case 1
    then show ?thesis using inv by (simp add: getL1_def)
  next
    case 2
    have "l1_rep (deleteL1 k sc) j = l1_rep sc j \<or> l1_rep (deleteL1 k sc) j = None"
      using 2(1) by (auto simp: deleteL1_def l1_rep_def gomap_simps split: option.splits)
    then show ?thesis using 2 deleteL1_drop [OF inv, of k] by (simp add: getL1_def Let_def gotime_simps)
  next
    case 3
    note e = seg_inv_entry [OF inv 3(1)]
    have "seg_inv (snd (getL1 now k sc))"
      by (rule seg_inv_overwrite [OF inv 3(1)]) (use e 3 inv in \<open>auto simp: getL1_def Let_def gotime_simps seg_inv_def\<close>)
    then show ?thesis using 3 d
      by (auto simp: getL1_def Let_def gotime_simps seg_cap_def l1_rep_def split: option.splits)
  qed
  then show "seg_inv (snd (getL1 now k sc))" "seg_cap sc \<Longrightarrow> seg_cap (snd (getL1 now k sc))"
    "l1_rep (snd (getL1 now k sc)) j = l1_rep sc j \<or> l1_rep (snd (getL1 now k sc)) j = None" by auto
  show "fst (getL1 now k sc) = (case l1_rep sc k of Some (d, e) \<Rightarrow> if now \<le> e then Some d else None | None \<Rightarrow> None)"
    by (auto simp: getL1_def Let_def l1_rep_def gotime_simps split: option.splits)
qed

lemma deleteL1_rep:
  "l1_rep (deleteL1 k sc) j = (if j = k then None else l1_rep sc j)" "defaultTTL (deleteL1 k sc) = defaultTTL sc"
  by (auto simp: deleteL1_def l1_rep_def gomap_simps split: option.splits)

interpretation seg: ttl_cache l1_rep setL1 deleteL1 getL1 defaultTTL seg_inv "\<lambda>_. True"
  by unfold_locales
    (auto simp: getL1_spec setL1_spec deleteL1_rep intro: deleteL1_drop split: option.splits)


section \<open>Every operation keeps the memory level sound\<close>

definition seg_sound :: "SegmentCache \<Rightarrow> bool" where
  "seg_sound sc \<longleftrightarrow> seg_inv sc \<and> seg_cap sc"

lemma seg_sound_part: "l1_part sc' = l1_part sc \<Longrightarrow> seg_sound sc' = seg_sound sc"
  using l1_part_inv [of sc' sc] by (simp add: seg_sound_def)

lemma seg_sound_setL1: "seg_sound sc \<Longrightarrow> seg_sound (setL1 now k d sc)"
  using setL1_spec [of sc now k d] by (simp add: seg_sound_def)

lemma seg_sound_getL1: "seg_sound sc \<Longrightarrow> seg_sound (snd (getL1 now k sc))"
  using getL1_spec(1,2) [of sc now k] by (simp add: seg_sound_def)

lemma seg_sound_deleteL1: "seg_sound sc \<Longrightarrow> seg_sound (deleteL1 k sc)"
  using deleteL1_drop [of sc k] by (simp add: seg_sound_def)

lemma l1_part_metrics [simp]:
  "l1_part (RecordCacheHit sc) = l1_part sc" "l1_part (RecordCacheMiss sc) = l1_part sc"
  "l1_part (sc\<lparr>cacheSize := n\<rparr>) = l1_part sc" "l1_part (SetOnEvict sc) = l1_part sc"
  by (simp_all add: RecordCacheHit_def RecordCacheMiss_def SetOnEvict_def l1_part_def)

lemma seg_sound_Get: "seg_sound sc \<Longrightarrow> seg_sound (snd (Get sha now a b c sc))"
proof -
  assume s: "seg_sound sc"
  let ?k = "makeKey sha a b c"
  obtain r sc1 where g1: "getL1 now ?k sc = (r, sc1)" by force
  obtain q sc2 where g2: "getL2 now ?k sc1 = (q, sc2)" by force
  have "seg_sound sc1" using seg_sound_getL1 [OF s, of now ?k] g1 by simp
  moreover have "seg_sound sc2" using seg_sound_part [of sc2 sc1] getL2_l1 [of now ?k sc1] g2 calculation by simp
  ultimately show ?thesis using g1 g2
    by (auto simp: Get_def Let_def seg_sound_setL1 seg_sound_part [OF l1_part_metrics(1)]
      seg_sound_part [OF l1_part_metrics(2)] split: option.splits)
qed

lemma seg_sound_Set: "seg_sound sc \<Longrightarrow> seg_sound (snd (Set sha p q now a b c d sc))"
  using seg_sound_setL1 [of sc now "makeKey sha a b c" d]
  by (simp add: Set_def Let_def seg_sound_part [OF setL2_l1])

lemma seg_sound_Invalidate: "seg_sound sc \<Longrightarrow> seg_sound (Invalidate sha a b c sc)"
  by (simp add: Invalidate_def Let_def seg_sound_part [OF deleteL2_l1] seg_sound_deleteL1)

lemma length_gfilter_le: "length (gfilter P m) \<le> length m"
  by (simp add: gfilter_def)

lemma seg_sound_InvalidateMedia: "seg_sound sc \<Longrightarrow> seg_sound (InvalidateMedia a sc)"
  using length_gfilter_le [of "\<lambda>key _. \<not> HasPrefix key (a @ '':'')" "l1 sc"]
  by (auto simp: seg_sound_def seg_inv_def seg_cap_def InvalidateMedia_def l1_total_def gomap_simps
    split: option.splits if_splits)

lemma seg_sound_Close: "seg_sound sc \<Longrightarrow> seg_sound (Close sc)"
  by (auto simp: seg_sound_def seg_inv_def seg_cap_def Close_def l1_total_def)

lemma seg_sound_expireL1:
  assumes "seg_sound sc" and "gget (l1 sc) k = Some i"
  shows "seg_sound (expireL1 now (k, i) sc)"
proof -
  have "expireL1 now (k, i) sc = (if ExpiresAt (heap sc i) < now then deleteL1 k sc else sc)"
    using assms(2) by (simp add: expireL1_def deleteL1_def gotime_simps)
  then show ?thesis using assms(1) seg_sound_deleteL1 by simp
qed

lemma expireL1_other:
  "j \<noteq> k \<Longrightarrow> gget (l1 (expireL1 now (k, i) sc)) j = gget (l1 sc) j"
  by (simp add: expireL1_def gomap_simps)

lemma seg_sound_expireL1s:
  assumes "seg_sound sc" and "distinct (map fst ps)" and "\<forall>(k, i)\<in>set ps. gget (l1 sc) k = Some i"
  shows "seg_sound (fold (expireL1 now) ps sc)"
  using assms
proof (induction ps arbitrary: sc)
  case (Cons p ps)
  obtain k i where p: "p = (k, i)" by force
  have "seg_sound (expireL1 now (k, i) sc)" using Cons.prems p by (auto intro: seg_sound_expireL1)
  moreover have "\<forall>(j, i')\<in>set ps. gget (l1 (expireL1 now (k, i) sc)) j = Some i'"
  proof clarify
    fix j i' assume m: "(j, i') \<in> set ps"
    then have "j \<in> set (map fst ps)" by force
    then have "j \<noteq> k" using Cons.prems(2) p by auto
    then show "gget (l1 (expireL1 now (k, i) sc)) j = Some i'"
      using Cons.prems(3) m by (auto simp: expireL1_other)
  qed
  ultimately show ?case using Cons.IH Cons.prems(2) p by simp
qed simp

lemma seg_sound_cleanup: "seg_sound sc \<Longrightarrow> seg_sound (cleanupExpired now sc)"
proof -
  assume s: "seg_sound sc"
  have wf: "gwf (l1 sc)" using s by (simp add: seg_sound_def seg_inv_def)
  have "seg_sound (fold (expireL1 now) (l1 sc) sc)"
    by (rule seg_sound_expireL1s [OF s]) (use wf gget_mem [OF wf] in \<open>auto simp: gwf_def\<close>)
  then show ?thesis
    by (simp add: cleanupExpired_def Let_def seg_sound_part [OF l1_part_metrics(3)] seg_sound_part [OF expireL2s_l1])
qed

datatype seg_call =
    SGet time string string string
  | SSet bool bool time string string string string
  | SInvalidate string string string
  | SInvalidateMedia string
  | SCleanup time
  | SClose
  | SOnEvict

fun seg_step :: "(string \<Rightarrow> string) \<Rightarrow> seg_call \<Rightarrow> SegmentCache \<Rightarrow> SegmentCache" where
  "seg_step sha (SGet now a b c) sc = snd (Get sha now a b c sc)"
| "seg_step sha (SSet p q now a b c d) sc = snd (Set sha p q now a b c d sc)"
| "seg_step sha (SInvalidate a b c) sc = Invalidate sha a b c sc"
| "seg_step sha (SInvalidateMedia a) sc = InvalidateMedia a sc"
| "seg_step sha (SCleanup now) sc = cleanupExpired now sc"
| "seg_step sha SClose sc = Close sc"
| "seg_step sha SOnEvict sc = SetOnEvict sc"

lemmas seg_sound_ops = seg_sound_Get seg_sound_Set seg_sound_Invalidate seg_sound_InvalidateMedia
  seg_sound_cleanup seg_sound_Close

lemma seg_sound_step: "seg_sound sc \<Longrightarrow> seg_sound (seg_step sha x sc)"
  by (cases x) (simp_all add: seg_sound_ops seg_sound_part [OF l1_part_metrics(4)])

lemma seg_sound_run: "seg_sound (fold (seg_step sha) cs (NewSegmentCache c))"
proof -
  have "seg_sound (NewSegmentCache c)"
    by (auto simp: NewSegmentCache_def seg_sound_def seg_inv_def seg_cap_def l1_total_def)
  moreover have "seg_sound sc \<Longrightarrow> seg_sound (fold (seg_step sha) cs sc)" for sc
    by (induction cs arbitrary: sc) (auto intro: seg_sound_step)
  ultimately show ?thesis by blast
qed

lemma l1MaxSize_expireL1s [simp]:
  "l1MaxSize (fold (expireL1 now) ps sc) = l1MaxSize sc \<and> l1MaxItems (fold (expireL1 now) ps sc) = l1MaxItems sc"
  by (induction ps arbitrary: sc) (auto simp: expireL1_def)

text \<open>
  C17. Whatever sequence of lookups, stores, invalidations and cleanups runs on a new segment
  cache, its memory level stays coherent: every key points to a listed entry filed under that
  key, no address is listed twice, the byte counter is exactly the total size of the listed
  entries, it exceeds the configured maximum only when a single entry does, and the number of
  keys stays within the configured maximum (or one).
\<close>

theorem memory_level_coherent:
  "let sc = fold (seg_step sha) cs (NewSegmentCache c) in
     distinct (l1List sc) \<and> gwf (l1 sc)
     \<and> (\<forall>k. case gget (l1 sc) k of Some i \<Rightarrow> i \<in> set (l1List sc) \<and> Key (heap sc i) = k | None \<Rightarrow> True)
     \<and> l1Size sc = (\<Sum>i\<leftarrow>l1List sc. int (length (Data (heap sc i))))
     \<and> (l1Size sc \<le> l1MaxSize sc \<or> length (l1List sc) \<le> 1)
     \<and> int (length (l1 sc)) \<le> max 1 (l1MaxItems sc)"
proof -
  define sc where "sc = fold (seg_step sha) cs (NewSegmentCache c)"
  have s: "seg_inv sc" "seg_cap sc" using seg_sound_run [of sha cs c] by (simp_all add: seg_sound_def sc_def)
  then have d: "distinct (l1List sc)" by (simp add: seg_inv_def)
  have "l1Size sc = (\<Sum>i\<in>set (l1List sc). int (length (Data (heap sc i))))"
    using s(1) unfolding seg_inv_def l1_total_def by (metis (no_types, lifting) sum.cong)
  also have "\<dots> = (\<Sum>i\<leftarrow>l1List sc. int (length (Data (heap sc i))))"
    using d by (simp add: sum_list_distinct_conv_sum_set)
  finally show ?thesis using s unfolding sc_def [symmetric] Let_def
    by (auto simp: seg_inv_def seg_cap_def split: option.splits)
qed

text \<open>
  C29. A lookup in the memory level never returns stale data: after any sequence of stores,
  deletions and lookups on a new cache, a hit for a key is the last segment stored under it and
  not deleted since, and was stored no longer ago than the time to live. A lookup right after a
  store returns what was stored.
\<close>

theorem memory_hits_are_current:
  "(\<forall>d. fst (getL1 now k (fold (cache_step setL1 deleteL1 getL1) os (NewSegmentCache c))) = Some d
       \<longrightarrow> (\<exists>t. written os k = Some (d, t) \<and> now \<le> t + defaultTTL (NewSegmentCache c)))
   \<and> (now' \<le> now + defaultTTL (NewSegmentCache c) \<longrightarrow>
        fst (getL1 now' k (setL1 now k d (fold (cache_step setL1 deleteL1 getL1) os (NewSegmentCache c)))) = Some d)"
proof -
  have inv: "seg_inv (NewSegmentCache c)" and rep: "\<And>k. l1_rep (NewSegmentCache c) k = None"
    by (auto simp: NewSegmentCache_def seg_inv_def l1_total_def l1_rep_def)
  show ?thesis
    using seg.get_run [OF inv rep, of now k os] seg.read_your_write [OF seg.inv_run [OF inv, of os], of now' now k d]
    by (simp add: seg.ttl_run)
qed

theorem memory_hits_are_current_witness:
  "fst (getL1 20 ''m:1'' (setL1 10 ''m:1'' ''data'' (fold (cache_step setL1 deleteL1 getL1) []
     (NewSegmentCache \<lparr>MemoryCacheSize = 100, MemoryMaxItems = 2, DiskCacheDir = [], DiskCacheSize = 0, DefaultTTL = 60\<rparr>)))) = Some ''data''"
  using memory_hits_are_current [of 0 "''m:1''" "[]" "\<lparr>MemoryCacheSize = 100, MemoryMaxItems = 2,
    DiskCacheDir = [], DiskCacheSize = 0, DefaultTTL = 60\<rparr>"] memory_hits_are_current [of 10 "''m:1''" "[]" "\<lparr>MemoryCacheSize = 100, MemoryMaxItems = 2,
    DiskCacheDir = [], DiskCacheSize = 0, DefaultTTL = 60\<rparr>" 20 "''data''"] by (simp add: NewSegmentCache_def)


section \<open>Invalidating a media item leaks its entries\<close>

lemma make_room_skip: "\<not> needs_room n sc \<Longrightarrow> make_room n sc = sc"
  by (subst make_room.simps) simp

text \<open>A cache of \<open>m\<close> bytes and three items at most, no disk level.\<close>

definition small_cache :: "int \<Rightarrow> duration \<Rightarrow> SegmentCacheConfig" where
  "small_cache m t = \<lparr>MemoryCacheSize = m, MemoryMaxItems = 3, DiskCacheDir = [], DiskCacheSize = 1, DefaultTTL = t\<rparr>"

text \<open>
  \<open>InvalidateMedia\<close> removes the keys of a media item but neither their list elements nor
  their bytes. So a segment stored again after the invalidation can be thrown out although it is
  fresh, recently used and fits: when room is needed, the leftover element is evicted first, by
  key, which removes the new entry under that key from the map.
\<close>

theorem invalidate_media_leaks:
  fixes t :: time and k m k2 a b c :: string and ttl M :: int
  assumes "HasPrefix k (m @ '':'')" and "k2 \<noteq> k" and "0 < ttl"
    and "0 < length a" and "int (length a + length b) \<le> M" and "int (length b + length c) \<le> M"
    and "M < int (length a + length b + length c)"
  defines "s1 \<equiv> setL1 t k a (NewSegmentCache (small_cache M ttl))"
  defines "s2 \<equiv> InvalidateMedia m s1"
  defines "s3 \<equiv> setL1 t k b s2"
  defines "s4 \<equiv> setL1 t k2 c s3"
  shows "gget (l1 s2) k = None \<and> l1Size s2 = int (length a) \<and> length (l1List s2) = 1
    \<and> fst (getL1 t k s3) = Some b \<and> fst (getL1 t k s4) = None \<and> l1Size s4 = int (length b + length c)"
proof -
  have M: "M \<noteq> 0" using assms(4,5) by linarith
  let ?E = "\<lambda>k d. \<lparr>Key = k, Data = d, Size = int (length d), ExpiresAt = t + ttl, AccessCount = 1\<rparr>"
  define s0 where "s0 = NewSegmentCache (small_cache M ttl)"
  have s0: "l1 s0 = []" "l1List s0 = []" "l1Size s0 = 0" "fresh s0 = 0" "l1MaxSize s0 = M" "l1MaxItems s0 = 3"
    "defaultTTL s0 = ttl" "onEvict s0 = False"
    using M assms(3) by (simp_all add: s0_def NewSegmentCache_def small_cache_def)
  have "make_room (int (length a)) s0 = s0"
    by (rule make_room_skip) (use s0 assms(5) in \<open>simp add: needs_room_def\<close>)
  then have s1: "s1 = s0\<lparr>heap := (heap s0)(0 := ?E k a), fresh := 1, l1List := [0], l1 := [(k, 0)], l1Size := int (length a)\<rparr>"
    by (simp add: s1_def s0_def [symmetric] setL1_def s0 Let_def Add_def gput_def)
  have s2: "s2 = s1\<lparr>l1 := []\<rparr>" using assms(1) by (simp add: s2_def s1 InvalidateMedia_def gfilter_def)
  have "make_room (int (length b)) s2 = s2"
    by (rule make_room_skip) (use s0 assms(5) in \<open>simp add: needs_room_def s2 s1\<close>)
  then have s3: "s3 = s2\<lparr>heap := (heap s2)(1 := ?E k b), fresh := 2, l1List := [1, 0], l1 := [(k, 1)],
      l1Size := int (length a) + int (length b)\<rparr>"
    by (simp add: s3_def setL1_def s2 s1 s0 Let_def Add_def gput_def)
  have e: "evictL1 s3 = s3\<lparr>l1Size := int (length b), l1 := [], l1List := [1]\<rparr>"
    by (simp add: evictL1_def s3 s2 s1 s0 gdel_def)
  have mr: "make_room (int (length c)) s3 = evictL1 s3"
    using assms(6,7) e by (subst make_room.simps) (auto simp: make_room_skip needs_room_def s3 s2 s1 s0)
  have s4: "s4 = (evictL1 s3)\<lparr>heap := (heap s3)(2 := ?E k2 c), fresh := 3, l1List := [2, 1], l1 := [(k2, 2)],
      l1Size := int (length b) + int (length c)\<rparr>"
    unfolding s4_def setL1_def mr Let_def e using assms(2) by (simp add: s3 s2 s1 s0 Add_def gput_def)
  show ?thesis using assms(2,3)
    by (simp add: getL1_def s4 e s3 s2 s1 s0 Let_def gget_Cons gotime_simps)
qed

theorem invalidate_media_leaks_witness:
  "fst (getL1 5 ''m:1'' (setL1 5 ''m:2'' ''cc'' (setL1 5 ''m:1'' ''bb'' (InvalidateMedia ''m''
     (setL1 5 ''m:1'' ''aa'' (NewSegmentCache (small_cache 4 60))))))) = None"
  using invalidate_media_leaks [of "''m:1''" "''m''" "''m:2''" 60 "''aa''" "''bb''" 4 "''cc''" 5]
  by (simp add: HasPrefix_def)

section \<open>The disk level\<close>

lemma make_room_L2_dir: "l2Dir (make_room_L2 n sc) = l2Dir sc \<and> l2MaxSize (make_room_L2 n sc) = l2MaxSize sc
   \<and> defaultTTL (make_room_L2 n sc) = defaultTTL sc"
proof (induction n sc rule: make_room_L2.induct)
  case (1 n sc)
  obtain r sc' where e: "evictL2 sc = (r, sc')" by force
  have f: "l2Dir sc' = l2Dir sc \<and> l2MaxSize sc' = l2MaxSize sc \<and> defaultTTL sc' = defaultTTL sc"
    using e by (auto simp: evictL2_def removeFile_def discard_def Let_def split: if_splits option.splits)
  have "make_room_L2 n sc = (if l2Size sc + n > l2MaxSize sc then if r then make_room_L2 n sc' else sc' else sc)"
    using e by (subst make_room_L2.simps) (cases r; simp)
  then show ?case using 1 e f by (cases r) auto
qed

lemma meta_name_neq: "l2Path key @ ''.meta'' \<noteq> l2Path key"
  by simp

lemma setL2_files:
  assumes "l2Dir sc \<noteq> []"
  shows "snd (setL2 True True now key d sc) = (let m = make_room_L2 (int (length d)) sc in
    m\<lparr>files := gput (gput (files m) (l2Path key) \<lparr>content = d, ModTime = now\<rparr>)
         (l2Path key @ ''.meta'') \<lparr>content = ''expiry'', ModTime = now\<rparr>,
      l2Size := l2Size m + int (length d)\<rparr>)"
  using assms by (simp add: setL2_def Let_def)

text \<open>
  A segment written to the disk level is read back unchanged until its time to live has
  passed since the write, whatever had to be evicted for it; after that a read finds nothing and
  removes both of its files.
\<close>

theorem disk_roundtrip:
  fixes now now' :: time and key d :: string
  assumes "l2Dir sc \<noteq> []"
  defines "sc' \<equiv> snd (setL2 True True now key d sc)"
  shows "fst (getL2 now' key sc') = (if now' \<le> now + defaultTTL sc then Some d else None)
    \<and> (now + defaultTTL sc < now' \<longrightarrow>
         gget (files (snd (getL2 now' key sc'))) (l2Path key) = None
         \<and> gget (files (snd (getL2 now' key sc'))) (l2Path key @ ''.meta'') = None)"
proof -
  have c: "l2Dir sc' = l2Dir sc" "defaultTTL sc' = defaultTTL sc"
    "gget (files sc') (l2Path key) = Some \<lparr>content = d, ModTime = now\<rparr>"
    "gget (files sc') (l2Path key @ ''.meta'') = Some \<lparr>content = ''expiry'', ModTime = now\<rparr>"
    using make_room_L2_dir [of "int (length d)" sc] assms(1)
    by (simp_all add: sc'_def setL2_files Let_def gget_gput)
  show ?thesis using assms(1) by (auto simp: getL2_def c gotime_simps gget_gdel)
qed

theorem disk_roundtrip_witness:
  "fst (getL2 40 ''k'' (snd (setL2 True True 10 ''k'' ''data'' (NewSegmentCache \<lparr>MemoryCacheSize = 0,
     MemoryMaxItems = 0, DiskCacheDir = ''/c'', DiskCacheSize = 9, DefaultTTL = 60\<rparr>)))) = Some ''data''"
  using disk_roundtrip [of "NewSegmentCache \<lparr>MemoryCacheSize = 0,
     MemoryMaxItems = 0, DiskCacheDir = ''/c'', DiskCacheSize = 9, DefaultTTL = 60\<rparr>" 40 "''k''" 10 "''data''"]
  by (simp add: NewSegmentCache_def)

text \<open>
  The disk byte counter drifts: storing the same segment again leaves the directory's
  contents as they are but counts its bytes a second time.
\<close>

theorem disk_size_counts_overwrites:
  fixes t t' :: time and key d :: string
  assumes "l2Dir sc \<noteq> []" and "l2Size sc + 2 * int (length d) \<le> l2MaxSize sc"
  defines "s1 \<equiv> snd (setL2 True True t key d sc)"
  defines "s2 \<equiv> snd (setL2 True True t' key d s1)"
  shows "l2Size s2 = l2Size s1 + int (length d)
    \<and> (\<forall>n. map_option content (gget (files s2) n) = map_option content (gget (files s1) n))"
proof -
  have m: "make_room_L2 (int (length d)) sc = sc"
    using assms(2) by (subst make_room_L2.simps) simp
  have s1: "s1 = sc\<lparr>files := gput (gput (files sc) (l2Path key) \<lparr>content = d, ModTime = t\<rparr>)
         (l2Path key @ ''.meta'') \<lparr>content = ''expiry'', ModTime = t\<rparr>, l2Size := l2Size sc + int (length d)\<rparr>"
    unfolding s1_def setL2_files [OF assms(1)] m by (simp add: Let_def)
  have m': "make_room_L2 (int (length d)) s1 = s1"
    using assms(2) by (subst make_room_L2.simps) (simp add: s1)
  have dir: "l2Dir s1 \<noteq> []" using assms(1) by (simp add: s1)
  show ?thesis unfolding s2_def setL2_files [OF dir] m' by (simp add: s1 Let_def gget_gput)
qed

theorem disk_size_counts_overwrites_witness:
  "let s1 = snd (setL2 True True 10 ''k'' ''data'' (NewSegmentCache \<lparr>MemoryCacheSize = 0,
       MemoryMaxItems = 0, DiskCacheDir = ''/c'', DiskCacheSize = 9, DefaultTTL = 60\<rparr>));
       s2 = snd (setL2 True True 20 ''k'' ''data'' s1)
   in l2Size s2 = l2Size s1 + 4"
  using disk_size_counts_overwrites [where t = 10 and t' = 20 and key = "''k''" and d = "''data''"
     and sc = "NewSegmentCache \<lparr>MemoryCacheSize = 0,
     MemoryMaxItems = 0, DiskCacheDir = ''/c'', DiskCacheSize = 9, DefaultTTL = 60\<rparr>"]
  by (simp add: NewSegmentCache_def Let_def)

end
