(* ===== verification/Strings.thy ===== *)
theory Strings
  imports Prelude "HOL-Library.Char_ord"
begin

text \<open>
  The functions of Go's \<^verbatim>\<open>strings\<close> and \<^verbatim>\<open>strconv\<close> packages that the sources call, on
  byte strings. Case mapping and white space are those of ASCII: the identifiers the program
  compares (codec and container names, platforms, profiles) are ASCII, and bytes from 128 on are
  left as they are.
\<close>

named_theorems string_simps \<open>laws of the string functions\<close>

definition lower_char :: "char \<Rightarrow> char" where
  "lower_char c = (if 65 \<le> (of_char c :: nat) \<and> (of_char c :: nat) \<le> 90 then char_of (of_char c + 32 :: nat) else c)"

definition upper_char :: "char \<Rightarrow> char" where
  "upper_char c = (if 97 \<le> (of_char c :: nat) \<and> (of_char c :: nat) \<le> 122 then char_of (of_char c - 32 :: nat) else c)"

definition ToLower :: "string \<Rightarrow> string" where "ToLower s = map lower_char s"
definition ToUpper :: "string \<Rightarrow> string" where "ToUpper s = map upper_char s"

definition EqualFold :: "string \<Rightarrow> string \<Rightarrow> bool" where
  "EqualFold s t \<longleftrightarrow> ToLower s = ToLower t"

definition is_space :: "char \<Rightarrow> bool" where
  "is_space c \<longleftrightarrow> (9 \<le> (of_char c :: nat) \<and> (of_char c :: nat) \<le> 13) \<or> c = CHR '' ''"

definition TrimSpace :: "string \<Rightarrow> string" where
  "TrimSpace s = rev (dropWhile is_space (rev (dropWhile is_space s)))"

fun Contains :: "string \<Rightarrow> string \<Rightarrow> bool" where
  "Contains [] p \<longleftrightarrow> p = []"
| "Contains (c # s) p \<longleftrightarrow> HasPrefix (c # s) p \<or> Contains s p"

fun Join :: "string list \<Rightarrow> string \<Rightarrow> string" where
  "Join [] sep = []"
| "Join [x] sep = x"
| "Join (x # y # xs) sep = x @ sep @ Join (y # xs) sep"

text \<open>\<^verbatim>\<open>strings.Split\<close> at a one-byte separator: always at least one piece.\<close>

fun SplitAt :: "char \<Rightarrow> string \<Rightarrow> string list" where
  "SplitAt sep [] = [[]]"
| "SplitAt sep (c # s) =
     (if c = sep then [] # SplitAt sep s
      else case SplitAt sep s of [] \<Rightarrow> [[c]] | p # ps \<Rightarrow> (c # p) # ps)"

definition TrimPrefix :: "string \<Rightarrow> string \<Rightarrow> string" where
  "TrimPrefix s p = (if HasPrefix s p then drop (length p) s else s)"

definition TrimSuffix :: "string \<Rightarrow> string \<Rightarrow> string" where
  "TrimSuffix s p = (if HasSuffix s p then take (length s - length p) s else s)"

text \<open>Decimal notation (\<^verbatim>\<open>strconv.Itoa\<close>, the verb \<^verbatim>\<open>%d\<close>).\<close>

definition digit_char :: "nat \<Rightarrow> char" where "digit_char d = char_of (48 + d)"

fun digits :: "nat \<Rightarrow> string" where
  "digits n = (if n < 10 then [digit_char n] else digits (n div 10) @ [digit_char (n mod 10)])"

declare digits.simps [simp del]

definition Itoa :: "int \<Rightarrow> string" where
  "Itoa n = (if n < 0 then CHR ''-'' # digits (nat (- n)) else digits (nat n))"

definition is_digit :: "char \<Rightarrow> bool" where
  "is_digit c \<longleftrightarrow> 48 \<le> (of_char c :: nat) \<and> (of_char c :: nat) \<le> 57"

definition digit_val :: "char \<Rightarrow> nat" where "digit_val c = of_char c - 48"

definition digits_val :: "string \<Rightarrow> nat" where
  "digits_val s = foldl (\<lambda>a c. 10 * a + digit_val c) 0 s"

text \<open>\<^verbatim>\<open>strconv.Atoi\<close>: an optional sign and digits, in the 64-bit range.\<close>

definition Atoi :: "string \<Rightarrow> int option" where
  "Atoi s =
     (let (neg, t) = (case s of [] \<Rightarrow> (False, s)
                      | c # u \<Rightarrow> if c = CHR ''-'' then (True, u) else if c = CHR ''+'' then (False, u) else (False, s));
          n = (if neg then - int (digits_val t) else int (digits_val t))
      in if t = [] \<or> \<not> list_all is_digit t then None
         else if - (2 ^ 63) \<le> n \<and> n < 2 ^ 63 then Some n else None)"

section \<open>Laws\<close>

lemma lower_char_idem [simp]: "lower_char (lower_char c) = lower_char c"
  by (auto simp: lower_char_def)

lemma ToLower_idem [simp, string_simps]: "ToLower (ToLower s) = ToLower s"
  by (simp add: ToLower_def)

lemma length_ToLower [simp]: "length (ToLower s) = length s"
  by (simp add: ToLower_def)

lemma ToLower_Nil [simp]: "ToLower [] = []" "ToLower s = [] \<longleftrightarrow> s = []"
  by (simp_all add: ToLower_def)

lemma EqualFold_refl [simp]: "EqualFold s s"
  by (simp add: EqualFold_def)

lemma EqualFold_sym: "EqualFold s t \<longleftrightarrow> EqualFold t s"
  by (auto simp: EqualFold_def)

lemma EqualFold_trans: "EqualFold s t \<Longrightarrow> EqualFold t u \<Longrightarrow> EqualFold s u"
  by (simp add: EqualFold_def)

lemma Contains_iff: "Contains s p \<longleftrightarrow> (\<exists>u v. s = u @ p @ v)"
proof (induction s)
  case (Cons c s)
  have "(\<exists>u v. c # s = u @ p @ v) \<longleftrightarrow> (\<exists>v. c # s = p @ v) \<or> (\<exists>u v. s = u @ p @ v)"
  proof
    assume "\<exists>u v. c # s = u @ p @ v"
    then obtain u v where e: "c # s = u @ p @ v" by blast
    then show "(\<exists>v. c # s = p @ v) \<or> (\<exists>u v. s = u @ p @ v)" by (cases u) auto
  next
    assume "(\<exists>v. c # s = p @ v) \<or> (\<exists>u v. s = u @ p @ v)"
    then show "\<exists>u v. c # s = u @ p @ v" by (metis append_Cons append_Nil)
  qed
  then show ?case using Cons by (simp add: HasPrefix_iff)
qed simp

lemma digits_nonempty [simp]: "digits n \<noteq> []"
  by (subst digits.simps) auto

lemma digit_char_of: "d < 10 \<Longrightarrow> digit_val (digit_char d) = d \<and> is_digit (digit_char d)"
  by (simp add: digit_val_def digit_char_def is_digit_def)

lemma digits_ok: "list_all is_digit (digits n) \<and> digits_val (digits n) = n"
proof (induction n rule: digits.induct)
  case (1 n)
  show ?case
  proof (cases "n < 10")
    case True
    then show ?thesis using digit_char_of [of n] by (subst (1 2) digits.simps) (simp add: digits_val_def)
  next
    case False
    then have "digits n = digits (n div 10) @ [digit_char (n mod 10)]" by (subst digits.simps) simp
    then show ?thesis using 1 [OF False] digit_char_of [of "n mod 10"] by (simp add: digits_val_def)
  qed
qed

text \<open>Printing an integer and reading it back.\<close>

lemma Atoi_Itoa: "- (2 ^ 63) \<le> n \<Longrightarrow> n < 2 ^ 63 \<Longrightarrow> Atoi (Itoa n) = Some n"
proof -
  assume r: "- (2 ^ 63) \<le> n" "n < 2 ^ 63"
  obtain c u where cu: "digits (nat n) = c # u" by (cases "digits (nat n)") auto
  then have "is_digit c" using digits_ok [of "nat n"] by simp
  then have "c \<noteq> CHR ''-''" "c \<noteq> CHR ''+''" by (auto simp: is_digit_def)
  then show ?thesis using r digits_ok [of "nat n"] digits_ok [of "nat (- n)"] cu
    by (auto simp: Atoi_def Itoa_def Let_def)
qed

end
