(* ===== verification/DeviceTypes.thy ===== *)
theory DeviceTypes
  imports Float64 Strings
begin

text \<open>
  The data a device reports about itself: \<^verbatim>\<open>internal/probes/types.go\<close>, the DRM records of
  \<^verbatim>\<open>drm.go\<close>, the direct-play and transcoding preferences of \<^verbatim>\<open>parser.go\<close> and the
  trust levels of \<^verbatim>\<open>trust.go\<close>. A Go pointer to a record is an option; a slice is a
  list. Field names that several records share carry a prefix in all but one of them.
\<close>

section \<open>Trust levels\<close>

datatype TrustLevel =
    TrustLevelUnknown | TrustLevelUntrusted | TrustLevelLow | TrustLevelMedium
  | TrustLevelHigh | TrustLevelTrusted | TrustLevelVerified

fun trust_rank :: "TrustLevel \<Rightarrow> int" where
  "trust_rank TrustLevelUnknown = 0"
| "trust_rank TrustLevelUntrusted = 1"
| "trust_rank TrustLevelLow = 2"
| "trust_rank TrustLevelMedium = 3"
| "trust_rank TrustLevelHigh = 4"
| "trust_rank TrustLevelTrusted = 5"
| "trust_rank TrustLevelVerified = 6"

fun TrustLevel_String :: "TrustLevel \<Rightarrow> string" where
  "TrustLevel_String TrustLevelUnknown = ''unknown''"
| "TrustLevel_String TrustLevelUntrusted = ''untrusted''"
| "TrustLevel_String TrustLevelLow = ''low''"
| "TrustLevel_String TrustLevelMedium = ''medium''"
| "TrustLevel_String TrustLevelHigh = ''high''"
| "TrustLevel_String TrustLevelTrusted = ''trusted''"
| "TrustLevel_String TrustLevelVerified = ''verified''"

text \<open>The integer order of the constants.\<close>

instantiation TrustLevel :: linorder
begin

definition less_eq_TrustLevel :: "TrustLevel \<Rightarrow> TrustLevel \<Rightarrow> bool" where
  "less_eq_TrustLevel a b \<longleftrightarrow> trust_rank a \<le> trust_rank b"

definition less_TrustLevel :: "TrustLevel \<Rightarrow> TrustLevel \<Rightarrow> bool" where
  "less_TrustLevel a b \<longleftrightarrow> trust_rank a < trust_rank b"

instance
proof
  fix x y :: TrustLevel
  assume "x \<le> y" "y \<le> x"
  then show "x = y" by (cases x; cases y) (simp_all add: less_eq_TrustLevel_def)
qed (auto simp: less_eq_TrustLevel_def less_TrustLevel_def)

end

section \<open>Formatting\<close>

text \<open>The verb \<^verbatim>\<open>%.2f\<close>: the exact value to two decimals, ties to even.\<close>

definition Fmt2 :: "float64 \<Rightarrow> string" where
  "Fmt2 x =
     (let n = nat (rne (\<bar>x\<bar> * 100))
      in (if x < 0 then ''-'' else []) @ digits (n div 100) @ ''.'' @ [digit_char (n div 10 mod 10), digit_char (n mod 10)])"

section \<open>DRM\<close>

record DRMSystemDetail =
  System :: string
  ds_Supported :: bool
  LicenseURL :: string
  OfflineLicense :: bool
  MaxResolution :: string
  SecurityLevel :: string

record DRMSupported =
  Supported :: bool
  Systems :: "string list"
  Details :: "DRMSystemDetail list"

section \<open>Devices\<close>

record DevicePlatform =
  dp_Type :: string
  dp_Name :: string
  dp_OS :: string
  dp_OSVersion :: string
  WebBrowser :: string
  BrowserVer :: string

record DeviceIdentity =
  id_DeviceID :: string
  id_Name :: string
  id_Model :: string
  id_Manufacturer :: string
  id_Platform :: DevicePlatform
  id_IPAddress :: string
  id_UserAgent :: string

record TrustedCodecSupport =
  ts_VideoCodecs :: "string list"
  ts_AudioCodecs :: "string list"
  ts_SubtitleFormats :: "string list"
  ts_ContainerFormats :: "string list"
  ts_MaxWidth :: int
  ts_MaxHeight :: int
  ts_MaxBitrate :: int
  ts_SupportsHDR :: bool
  ts_SupportsDV :: bool
  ts_SupportsAtmos :: bool
  ts_SupportsDTS :: bool
  ts_Source :: string

record ScenarioSupport =
  ScenarioID :: string
  ss_Supported :: bool
  ss_DirectPlay :: bool
  TranscodeVideo :: bool
  TranscodeAudio :: bool
  TranscodeAll :: bool
  ss_MaxBitrate :: int
  ss_VideoCodec :: string
  ss_AudioCodec :: string
  ss_Container :: string

record DirectPlaySupport =
  VideoContainers :: "string list"
  AudioContainers :: "string list"
  dps_SubtitleFormats :: "string list"
  MaxVideoBitrate :: int
  MaxAudioBitrate :: int

record TranscodingPrefs =
  PreferredVideoCodec :: string
  PreferredAudioCodec :: string
  PreferredContainer :: string
  MaxTranscodeBitrate :: int
  PreferHardwareEncoding :: bool

record DeviceCapabilities =
  DeviceID :: string
  DeviceName :: string
  Platform :: string
  OSVersion :: string
  AppVersion :: string
  Model :: string
  Manufacturer :: string
  UserAgent :: string
  Identity :: DeviceIdentity
  TrustedSupport :: "TrustedCodecSupport option"
  dc_ScenarioSupport :: "ScenarioSupport list"
  VideoCodecs :: "string list"
  AudioCodecs :: "string list"
  SubtitleFormats :: "string list"
  ContainerFormats :: "string list"
  MaxWidth :: int
  MaxHeight :: int
  MaxBitrate :: int
  SupportsHDR :: bool
  Supports10Bit :: bool
  SupportsDolbyVision :: bool
  SupportsDolbyAtmos :: bool
  SupportsDTS :: bool
  DRMSupport :: "DRMSupported option"
  dc_DirectPlaySupport :: "DirectPlaySupport option"
  TranscodingPreferences :: "TranscodingPrefs option"
  dc_TrustLevel :: TrustLevel
  dc_TrustScore :: float64
  LastUpdated :: string
  Timestamp :: string
  ProbedAt :: time
  ProbeDurationMS :: int

record ScenarioResult =
  sr_ScenarioID :: string
  Passed :: bool
  sr_DirectPlay :: bool
  sr_Bitrate :: int
  sr_DurationMs :: int
  sr_Errors :: "string list"

record ProbeReport =
  pr_DeviceCapabilities :: DeviceCapabilities
  ScenariosRun :: "ScenarioResult list"
  pr_Errors :: "string list"
  pr_Warnings :: "string list"
  pr_DurationMs :: int
  pr_Timestamp :: string

text \<open>The zero values of Go: what a declared variable and an unset field hold.\<close>

definition zeroPlatform :: DevicePlatform where
  "zeroPlatform = \<lparr>dp_Type = [], dp_Name = [], dp_OS = [], dp_OSVersion = [], WebBrowser = [], BrowserVer = []\<rparr>"

definition zeroIdentity :: DeviceIdentity where
  "zeroIdentity = \<lparr>id_DeviceID = [], id_Name = [], id_Model = [], id_Manufacturer = [],
     id_Platform = zeroPlatform, id_IPAddress = [], id_UserAgent = []\<rparr>"

definition zeroCapabilities :: DeviceCapabilities where
  "zeroCapabilities = \<lparr>DeviceID = [], DeviceName = [], Platform = [], OSVersion = [], AppVersion = [],
     Model = [], Manufacturer = [], UserAgent = [], Identity = zeroIdentity, TrustedSupport = None,
     dc_ScenarioSupport = [], VideoCodecs = [], AudioCodecs = [], SubtitleFormats = [],
     ContainerFormats = [], MaxWidth = 0, MaxHeight = 0, MaxBitrate = 0, SupportsHDR = False,
     Supports10Bit = False, SupportsDolbyVision = False, SupportsDolbyAtmos = False,
     SupportsDTS = False, DRMSupport = None, dc_DirectPlaySupport = None,
     TranscodingPreferences = None, dc_TrustLevel = TrustLevelUnknown, dc_TrustScore = 0,
     LastUpdated = [], Timestamp = [], ProbedAt = zeroTime, ProbeDurationMS = 0\<rparr>"

definition FormatResolution :: "DeviceCapabilities \<Rightarrow> string" where
  "FormatResolution c =
     (if MaxWidth c > 0 \<and> MaxHeight c > 0 then Itoa (MaxWidth c) @ ''x'' @ Itoa (MaxHeight c)
      else ''unknown'')"

definition DC_MaxResolution :: "DeviceCapabilities \<Rightarrow> string" where
  "DC_MaxResolution c = FormatResolution c"

end
