(* ===== verification/CapabilityCache.thy ===== *)
theory CapabilityCache
  imports Caching DeviceTypes "HOL-Library.Multiset"
begin

text \<open>
  The cache of device capabilities, \<^verbatim>\<open>internal/probes/cache.go\<close>: a memory level bounded by a
  number of entries, over an SQLite table. The table is a map from device ids to rows; the SQL
  statements of the source are written out on it. SQLite's \<^verbatim>\<open>datetime('now')\<close> has a resolution
  of one second, so row times are whole seconds. The JSON column holds the capabilities it
  encodes, or \<open>None\<close> when it does not decode. Whether a statement succeeds is the argument
  \<open>ok\<close> of the operation that runs it; on a closed handle none does.
\<close>

section \<open>State\<close>

record CachedCapability =
  Capabilities :: DeviceCapabilities
  CreatedAt :: time
  ExpiresAt :: time
  AccessCount :: int
  LastAccessed :: time
  cc_Source :: string

record sqlrow =
  capabilities :: "DeviceCapabilities option"
  source :: string
  platform :: string
  created_at :: int
  expires_at :: int
  access_count :: int
  last_accessed :: int

datatype dbhandle = NoDB | OpenDB | ClosedDB

record CacheStats =
  Hits :: int
  Misses :: int
  MemorySize :: int
  SQLiteSize :: int
  Evictions :: int

record CacheConfig =
  MemoryTTL :: duration
  SQLiteTTL :: duration
  EnableSQLite :: bool
  MaxMemoryItems :: int

record CapabilityCache =
  memoryCache :: "(string, CachedCapability) gomap"
  db :: dbhandle
  rows :: "(string, sqlrow) gomap"
  memoryTTL :: duration
  sqliteTTL :: duration
  enableSQLite :: bool
  maxMemoryItems :: int
  stats :: CacheStats

datatype cache_error = InitFailed | InvalidArguments | SQLiteDisabled | QueryFailed

definition defaultCacheConfig :: CacheConfig where
  "defaultCacheConfig = \<lparr>MemoryTTL = 24 * Hour, SQLiteTTL = 720 * Hour, EnableSQLite = False,
     MaxMemoryItems = 10000\<rparr>"

definition NewCapabilityCache ::
  "bool \<Rightarrow> (string, sqlrow) gomap \<Rightarrow> CacheConfig option \<Rightarrow> cache_error + CapabilityCache" where
  "NewCapabilityCache init_ok table config =
     (let cfg = (case config of None \<Rightarrow> defaultCacheConfig | Some c \<Rightarrow> c);
          memTTL = (if MemoryTTL cfg = 0 then 24 * Hour else MemoryTTL cfg);
          maxItems = (if MaxMemoryItems cfg = 0 then 10000 else MaxMemoryItems cfg);
          cache = \<lparr>memoryCache = [], db = NoDB, rows = table, memoryTTL = memTTL,
                   sqliteTTL = SQLiteTTL cfg, enableSQLite = EnableSQLite cfg,
                   maxMemoryItems = maxItems,
                   stats = \<lparr>Hits = 0, Misses = 0, MemorySize = 0, SQLiteSize = 0, Evictions = 0\<rparr>\<rparr>
      in if EnableSQLite cfg then (if init_ok then Inr (cache\<lparr>db := OpenDB\<rparr>) else Inl InitFailed)
         else Inr cache)"

section \<open>Operations\<close>

definition uses_db :: "CapabilityCache \<Rightarrow> bool" where
  "uses_db c \<longleftrightarrow> enableSQLite c \<and> db c \<noteq> NoDB"

definition exec_ok :: "bool \<Rightarrow> CapabilityCache \<Rightarrow> bool" where
  "exec_ok ok c \<longleftrightarrow> ok \<and> db c = OpenDB"

definition sql_now :: "time \<Rightarrow> int" where "sql_now now = now div Second"

definition isExpired :: "time \<Rightarrow> CachedCapability \<Rightarrow> bool" where
  "isExpired now cached \<longleftrightarrow> After now (ExpiresAt cached)"

definition recordHit :: "CapabilityCache \<Rightarrow> CapabilityCache" where
  "recordHit c = c\<lparr>stats := (stats c)\<lparr>Hits := Hits (stats c) + 1\<rparr>\<rparr>"

definition recordMiss :: "CapabilityCache \<Rightarrow> CapabilityCache" where
  "recordMiss c = c\<lparr>stats := (stats c)\<lparr>Misses := Misses (stats c) + 1\<rparr>\<rparr>"

definition getFromSQLiteWithContext ::
  "bool \<Rightarrow> time \<Rightarrow> string \<Rightarrow> CapabilityCache \<Rightarrow> DeviceCapabilities option \<times> CapabilityCache" where
  "getFromSQLiteWithContext ok now deviceID c =
     (if db c = NoDB then (None, c)
      else if \<not> exec_ok ok c then (None, c)
      else case gget (rows c) deviceID of
             None \<Rightarrow> (None, recordMiss c)
           | Some r \<Rightarrow>
               if \<not> expires_at r > sql_now now then (None, recordMiss c)
               else case capabilities r of
                      None \<Rightarrow> (None, c)
                    | Some caps \<Rightarrow>
                        let cached = \<lparr>Capabilities = caps, CreatedAt = created_at r * Second,
                              ExpiresAt = Add now (memoryTTL c), AccessCount = access_count r,
                              LastAccessed = last_accessed r * Second, cc_Source = source r\<rparr>
                        in (Some caps,
                            recordHit (c\<lparr>memoryCache := gput (memoryCache c) deviceID cached\<rparr>)))"

text \<open>\<open>cancelled\<close>: the context is done when the call starts.\<close>

definition GetWithContext ::
  "bool \<Rightarrow> bool \<Rightarrow> time \<Rightarrow> string \<Rightarrow> CapabilityCache \<Rightarrow> DeviceCapabilities option \<times> CapabilityCache" where
  "GetWithContext cancelled ok now deviceID c =
     (if deviceID = [] then (None, c)
      else if cancelled then (None, c)
      else let fallback = (if uses_db c then getFromSQLiteWithContext ok now deviceID c
                           else (None, recordMiss c))
           in case gget (memoryCache c) deviceID of
                None \<Rightarrow> fallback
              | Some cached \<Rightarrow>
                  if \<not> isExpired now cached
                  then (Some (Capabilities cached),
                        recordHit (c\<lparr>memoryCache := gput (memoryCache c) deviceID
                          (cached\<lparr>AccessCount := AccessCount cached + 1, LastAccessed := now\<rparr>)\<rparr>))
                  else fallback)"

definition CC_Get :: "bool \<Rightarrow> time \<Rightarrow> string \<Rightarrow> CapabilityCache \<Rightarrow> DeviceCapabilities option \<times> CapabilityCache" where
  "CC_Get ok now deviceID c = GetWithContext False ok now deviceID c"

text \<open>
  The entries sorted by last access, oldest first; \<^verbatim>\<open>sort.Slice\<close> is not stable and the map
  order is open, so which of several entries of one age comes first is left to the list order.
\<close>

definition eviction_order :: "(string, CachedCapability) gomap \<Rightarrow> string list" where
  "eviction_order m = map fst (sort_key (\<lambda>(k, e). LastAccessed e) m)"

definition evict_count :: "nat \<Rightarrow> nat" where
  "evict_count n = min n (max 1 (n div 10))"

definition evictOldest :: "CapabilityCache \<Rightarrow> CapabilityCache" where
  "evictOldest c =
     (let ks = take (evict_count (length (memoryCache c))) (eviction_order (memoryCache c))
      in c\<lparr>memoryCache := fold (\<lambda>k m. gdel m k) ks (memoryCache c),
           stats := (stats c)\<lparr>Evictions := Evictions (stats c) + int (length ks)\<rparr>\<rparr>)"

text \<open>
  \<^verbatim>\<open>int(c.sqliteTTL.Seconds())\<close>. A negative number makes the modifier of \<^verbatim>\<open>datetime\<close>
  malformed, its value \<^verbatim>\<open>NULL\<close>, and the insertion fails on the column's constraint.
\<close>

definition ttl_seconds :: "duration \<Rightarrow> int" where
  "ttl_seconds d = ftrunc (fadd (ffromint (sgn d * (\<bar>d\<bar> div Second))) (fdiv (ffromint (sgn d * (\<bar>d\<bar> mod Second))) (ffromint Second)))"

definition saveToSQLite :: "bool \<Rightarrow> time \<Rightarrow> string \<Rightarrow> CachedCapability \<Rightarrow> CapabilityCache \<Rightarrow> CapabilityCache" where
  "saveToSQLite ok now deviceID cached c =
     (if exec_ok ok c \<and> 0 \<le> ttl_seconds (sqliteTTL c)
      then c\<lparr>rows := gput (rows c) deviceID
        \<lparr>capabilities = Some (Capabilities cached), source = cc_Source cached,
         platform = Platform (Capabilities cached), created_at = sql_now now,
         expires_at = sql_now now + ttl_seconds (sqliteTTL c), access_count = 0,
         last_accessed = sql_now now\<rparr>\<rparr>
      else c)"

definition CC_Set ::
  "bool \<Rightarrow> time \<Rightarrow> string \<Rightarrow> DeviceCapabilities option \<Rightarrow> string \<Rightarrow> CapabilityCache \<Rightarrow>
     cache_error option \<times> CapabilityCache" where
  "CC_Set ok now deviceID caps src c0 =
     (case caps of
        None \<Rightarrow> (Some InvalidArguments, c0)
      | Some cap \<Rightarrow>
          if deviceID = [] then (Some InvalidArguments, c0)
          else let cached = \<lparr>Capabilities = cap, CreatedAt = now, ExpiresAt = Add now (memoryTTL c0),
                     AccessCount = 0, LastAccessed = now, cc_Source = src\<rparr>;
                   c1 = (if int (length (memoryCache c0)) \<ge> maxMemoryItems c0 then evictOldest c0 else c0);
                   c2 = c1\<lparr>memoryCache := gput (memoryCache c1) deviceID cached\<rparr>
               in (None, if uses_db c2 then saveToSQLite ok now deviceID cached c2 else c2))"

definition CC_Delete :: "bool \<Rightarrow> string \<Rightarrow> CapabilityCache \<Rightarrow> CapabilityCache" where
  "CC_Delete ok deviceID c0 =
     (let c = c0\<lparr>memoryCache := gdel (memoryCache c0) deviceID\<rparr>
      in if uses_db c \<and> exec_ok ok c then c\<lparr>rows := gdel (rows c) deviceID\<rparr> else c)"

definition DeleteExpired :: "bool \<Rightarrow> time \<Rightarrow> CapabilityCache \<Rightarrow> int \<times> CapabilityCache" where
  "DeleteExpired ok now c0 =
     (let m = gfilter (\<lambda>_ e. \<not> isExpired now e) (memoryCache c0);
          d1 = int (length (memoryCache c0)) - int (length m);
          c1 = c0\<lparr>memoryCache := m\<rparr>;
          t = gfilter (\<lambda>_ r. \<not> expires_at r < sql_now now) (rows c1);
          (d2, c2) = (if uses_db c1 \<and> exec_ok ok c1
                      then (int (length (rows c1)) - int (length t), c1\<lparr>rows := t\<rparr>)
                      else (0, c1))
      in (d1 + d2, c2\<lparr>stats := (stats c2)\<lparr>Evictions := Evictions (stats c2) + (d1 + d2)\<rparr>\<rparr>))"

definition CC_GetStats :: "bool \<Rightarrow> CapabilityCache \<Rightarrow> CacheStats" where
  "CC_GetStats ok c =
     (let s = (stats c)\<lparr>MemorySize := int (length (memoryCache c))\<rparr>
      in if uses_db c \<and> exec_ok ok c then s\<lparr>SQLiteSize := int (length (rows c))\<rparr> else s)"

definition GetMemorySize :: "CapabilityCache \<Rightarrow> int" where
  "GetMemorySize c = int (length (memoryCache c))"

definition CC_Clear :: "bool \<Rightarrow> CapabilityCache \<Rightarrow> CapabilityCache" where
  "CC_Clear ok c0 =
     (let c = c0\<lparr>memoryCache := []\<rparr>;
          c' = (if uses_db c \<and> exec_ok ok c then c\<lparr>rows := []\<rparr> else c)
      in c'\<lparr>stats := \<lparr>Hits = 0, Misses = 0, MemorySize = 0, SQLiteSize = 0, Evictions = 0\<rparr>\<rparr>)"

definition CC_Close :: "CapabilityCache \<Rightarrow> CapabilityCache" where
  "CC_Close c = (if db c \<noteq> NoDB then c\<lparr>db := ClosedDB\<rparr> else c)"

text \<open>The batch operations visit the entries in map order; a failure stops the store there.\<close>

fun BatchSet ::
  "bool \<Rightarrow> time \<Rightarrow> (string, DeviceCapabilities option) gomap \<Rightarrow> string \<Rightarrow> CapabilityCache \<Rightarrow>
     cache_error option \<times> CapabilityCache" where
  "BatchSet ok now [] src c = (None, c)"
| "BatchSet ok now ((deviceID, caps) # es) src c =
     (case CC_Set ok now deviceID caps src c of
        (Some e, c') \<Rightarrow> (Some e, c')
      | (None, c') \<Rightarrow> BatchSet ok now es src c')"

fun BatchGet ::
  "bool \<Rightarrow> time \<Rightarrow> string list \<Rightarrow> CapabilityCache \<Rightarrow> (string, DeviceCapabilities) gomap \<Rightarrow>
     (string, DeviceCapabilities) gomap \<times> CapabilityCache" where
  "BatchGet ok now [] c results = (results, c)"
| "BatchGet ok now (d # ds) c results =
     (case CC_Get ok now d c of
        (Some caps, c') \<Rightarrow> BatchGet ok now ds c' (gput results d caps)
      | (None, c') \<Rightarrow> BatchGet ok now ds c' results)"

definition UpdateAccessCount :: "bool \<Rightarrow> time \<Rightarrow> string \<Rightarrow> CapabilityCache \<Rightarrow> cache_error option \<times> CapabilityCache" where
  "UpdateAccessCount ok now deviceID c =
     (if \<not> uses_db c then (Some SQLiteDisabled, c)
      else if \<not> exec_ok ok c then (Some QueryFailed, c)
      else (None, c\<lparr>rows := map (\<lambda>(k, r). (k, if k = deviceID
              then r\<lparr>access_count := access_count r + 1, last_accessed := sql_now now\<rparr> else r)) (rows c)\<rparr>))"

text \<open>\<^verbatim>\<open>ORDER BY access_count DESC LIMIT n\<close>; a negative limit is none. Rows that do not decode are skipped.\<close>

definition GetMostAccessed :: "bool \<Rightarrow> time \<Rightarrow> int \<Rightarrow> CapabilityCache \<Rightarrow> cache_error + CachedCapability list" where
  "GetMostAccessed ok now limit c =
     (if \<not> uses_db c then Inl SQLiteDisabled
      else if \<not> exec_ok ok c then Inl QueryFailed
      else let live = filter (\<lambda>(k, r). expires_at r > sql_now now) (rows c);
               sorted = sort_key (\<lambda>(k, r). - access_count r) live;
               chosen = (if limit < 0 then sorted else take (nat limit) sorted)
           in Inr (List.map_filter (\<lambda>(k, r). case capabilities r of
                None \<Rightarrow> None
              | Some caps \<Rightarrow> Some \<lparr>Capabilities = caps, CreatedAt = created_at r * Second,
                  ExpiresAt = zeroTime, AccessCount = access_count r,
                  LastAccessed = last_accessed r * Second, cc_Source = source r\<rparr>) chosen))"

section \<open>Frame and eviction\<close>

text \<open>What no operation but \<open>CC_Close\<close> changes.\<close>

definition config where
  "config c = (memoryTTL c, sqliteTTL c, enableSQLite c, db c, maxMemoryItems c)"

lemma config_ops [simp]:
  "config (recordHit c) = config c" "config (recordMiss c) = config c"
  "config (evictOldest c) = config c" "config (saveToSQLite ok now k e c) = config c"
  "config (CC_Delete ok k c) = config c" "config (CC_Clear ok c) = config c"
  "config (memoryCache_update f c) = config c" "config (rows_update g c) = config c"
  by (simp_all add: config_def recordHit_def recordMiss_def evictOldest_def saveToSQLite_def
      CC_Delete_def CC_Clear_def Let_def)

lemma config_calls [simp]:
  "config (snd (getFromSQLiteWithContext ok now k c)) = config c"
  "config (snd (GetWithContext x ok now k c)) = config c"
  "config (snd (CC_Set ok now k v s c)) = config c"
  "config (snd (DeleteExpired ok now c)) = config c"
  "config (snd (UpdateAccessCount ok now k c)) = config c"
  by (simp_all add: getFromSQLiteWithContext_def GetWithContext_def CC_Set_def DeleteExpired_def
      UpdateAccessCount_def Let_def split: option.splits prod.splits)
    (simp_all add: config_def split: if_splits)

lemma config_eqD: "config a = config b \<Longrightarrow> uses_db a = uses_db b \<and> memoryTTL a = memoryTTL b
    \<and> sqliteTTL a = sqliteTTL b \<and> maxMemoryItems a = maxMemoryItems b \<and> db a = db b"
  by (simp add: config_def uses_db_def)

lemma uses_db_upd [simp]:
  "uses_db (memoryCache_update f c) = uses_db c" "uses_db (rows_update g c) = uses_db c"
  "uses_db (recordHit c) = uses_db c" "uses_db (recordMiss c) = uses_db c" "uses_db (evictOldest c) = uses_db c"
  by (simp_all add: uses_db_def recordHit_def recordMiss_def evictOldest_def Let_def)

definition victims :: "CapabilityCache \<Rightarrow> string list" where
  "victims c = take (evict_count (length (memoryCache c))) (eviction_order (memoryCache c))"

lemma memory_evictOldest: "memoryCache (evictOldest c) = fold (\<lambda>k m. gdel m k) (victims c) (memoryCache c)"
  by (simp add: evictOldest_def victims_def Let_def)

lemma gget_evictOldest:
  "gget (memoryCache (evictOldest c)) k = (if k \<in> set (victims c) then None else gget (memoryCache c) k)"
  by (simp add: memory_evictOldest gm.look_dels)

lemma gwf_evictOldest: "gwf (memoryCache c) \<Longrightarrow> gwf (memoryCache (evictOldest c))"
  by (simp add: memory_evictOldest gm.wf_dels)

lemma eviction_order_perm: "mset (eviction_order m) = mset (map fst m)"
  unfolding eviction_order_def mset_map mset_sort ..

lemma eviction_order_props:
  "length (eviction_order m) = length m" "set (eviction_order m) = fst ` set m"
  "gwf m \<Longrightarrow> distinct (eviction_order m)"
  using eviction_order_perm [of m] arg_cong [OF eviction_order_perm [of m], of size, unfolded size_mset]
    mset_eq_setD [OF eviction_order_perm [of m]] mset_eq_imp_distinct_iff [OF eviction_order_perm [of m]]
  by (simp_all add: gwf_def)

lemma length_dels:
  "gwf m \<Longrightarrow> distinct ks \<Longrightarrow> set ks \<subseteq> fst ` set m \<Longrightarrow> length (fold (\<lambda>k m. gdel m k) ks m) = length m - length ks"
proof (induction ks arbitrary: m)
  case (Cons k ks)
  have "gget m k \<noteq> None" using Cons.prems(3) by (simp add: gget_None_iff)
  moreover have "set ks \<subseteq> fst ` set (gdel m k)"
  proof
    fix j assume j: "j \<in> set ks"
    then have "gget m j \<noteq> None" "j \<noteq> k" using Cons.prems(2,3) by (auto simp: gget_None_iff)
    then show "j \<in> fst ` set (gdel m k)" using gget_None_iff [of "gdel m k" j] by (metis gget_gdel)
  qed
  ultimately show ?case using Cons by (auto simp: length_gdel gwf_gdel)
qed simp

lemma length_evictOldest:
  assumes "gwf (memoryCache c)"
  shows "length (memoryCache (evictOldest c)) = length (memoryCache c) - evict_count (length (memoryCache c))"
proof -
  have "distinct (victims c)" "set (victims c) \<subseteq> fst ` set (memoryCache c)"
    using eviction_order_props [of "memoryCache c"] assms set_take_subset by (fastforce simp: victims_def)+
  moreover have "length (victims c) = evict_count (length (memoryCache c))"
    by (simp add: victims_def eviction_order_props evict_count_def)
  ultimately show ?thesis using assms by (simp add: memory_evictOldest length_dels)
qed

text \<open>Whatever is evicted was last accessed no later than anything that stays.\<close>

lemma eviction_oldest_first:
  assumes "gwf (memoryCache c)" and "k \<in> set (victims c)" and "j \<notin> set (victims c)"
    and "gget (memoryCache c) k = Some e" and "gget (memoryCache c) j = Some f"
  shows "LastAccessed e \<le> LastAccessed f"
proof -
  let ?m = "memoryCache c" and ?key = "\<lambda>(k :: string, e). LastAccessed e"
  let ?s = "sort_key ?key ?m" and ?n = "evict_count (length (memoryCache c))"
  have s: "sorted (map ?key (take ?n ?s @ drop ?n ?s))" by simp
  have v: "victims c = map fst (take ?n ?s)" by (simp add: victims_def eviction_order_def take_map)
  have uniq: "x \<in> set ?s \<Longrightarrow> gget ?m (fst x) = Some (snd x)" for x
    using assms(1) gget_mem [OF assms(1), of "fst x" "snd x"] by simp
  have "(k, e) \<in> set (take ?n ?s)"
  proof -
    obtain x where x: "x \<in> set (take ?n ?s)" "fst x = k" using assms(2) v by auto
    then have "gget ?m k = Some (snd x)" using uniq [of x] in_set_takeD by metis
    then show ?thesis using x assms(4) by (cases x) simp
  qed
  moreover have "(j, f) \<in> set (drop ?n ?s)"
  proof -
    have "(j, f) \<in> set ?s" using assms(1,5) gget_mem [OF assms(1), of j f] by simp
    then have "(j, f) \<in> set (take ?n ?s @ drop ?n ?s)" by simp
    moreover have "(j, f) \<notin> set (take ?n ?s)"
    proof
      assume "(j, f) \<in> set (take ?n ?s)"
      then have "fst (j, f) \<in> set (victims c)" unfolding v set_map by (rule imageI)
      then show False using assms(3) by simp
    qed
    ultimately show ?thesis unfolding set_append by blast
  qed
  ultimately show ?thesis using s unfolding map_append sorted_append by fastforce
qed


section \<open>Hits are what was stored last\<close>

datatype cap_call =
    CapSet time string "DeviceCapabilities option" string
  | CapDelete string
  | CapGet bool bool time string
  | CapDeleteExpired bool time
  | CapClear
  | CapTouch bool time string

text \<open>Writes to the database succeed; reads and clean-ups may fail.\<close>

fun cap_step :: "cap_call \<Rightarrow> CapabilityCache \<Rightarrow> CapabilityCache" where
  "cap_step (CapSet now k v s) c = snd (CC_Set True now k v s c)"
| "cap_step (CapDelete k) c = CC_Delete True k c"
| "cap_step (CapGet cancelled ok now k) c = snd (GetWithContext cancelled ok now k c)"
| "cap_step (CapDeleteExpired ok now) c = snd (DeleteExpired ok now c)"
| "cap_step CapClear c = CC_Clear True c"
| "cap_step (CapTouch ok now k) c = snd (UpdateAccessCount ok now k c)"

fun stored_step ::
  "cap_call \<Rightarrow> (string \<Rightarrow> (DeviceCapabilities \<times> time) option) \<Rightarrow> string \<Rightarrow> (DeviceCapabilities \<times> time) option" where
  "stored_step (CapSet now k v s) w =
     (case v of None \<Rightarrow> w | Some caps \<Rightarrow> if k = [] then w else w(k := Some (caps, now)))"
| "stored_step (CapDelete k) w = w(k := None)"
| "stored_step CapClear w = (\<lambda>_. None)"
| "stored_step (CapGet x ok now k) w = w"
| "stored_step (CapDeleteExpired ok now) w = w"
| "stored_step (CapTouch ok now k) w = w"

definition stored :: "cap_call list \<Rightarrow> string \<Rightarrow> (DeviceCapabilities \<times> time) option" where
  "stored cs = fold stored_step cs (\<lambda>_. None)"

text \<open>How long after a store its value may still be served.\<close>

definition max_age :: "CapabilityCache \<Rightarrow> duration" where
  "max_age c = max 0 (memoryTTL c) + (if uses_db c then ttl_seconds (sqliteTTL c) * Second else 0)"

definition fresh_mem :: "(string \<Rightarrow> (DeviceCapabilities \<times> time) option) \<Rightarrow> CapabilityCache \<Rightarrow> bool" where
  "fresh_mem w c \<longleftrightarrow> (\<forall>k e. gget (memoryCache c) k = Some e \<longrightarrow>
     (\<exists>t. w k = Some (Capabilities e, t) \<and> ExpiresAt e \<le> t + max_age c))"

definition fresh_rows :: "(string \<Rightarrow> (DeviceCapabilities \<times> time) option) \<Rightarrow> CapabilityCache \<Rightarrow> bool" where
  "fresh_rows w c \<longleftrightarrow> (\<forall>k r v. gget (rows c) k = Some r \<longrightarrow> capabilities r = Some v \<longrightarrow>
     (\<exists>t. w k = Some (v, t) \<and> expires_at r \<le> sql_now t + ttl_seconds (sqliteTTL c)))"

definition cap_inv :: "(string \<Rightarrow> (DeviceCapabilities \<times> time) option) \<Rightarrow> CapabilityCache \<Rightarrow> bool" where
  "cap_inv w c \<longleftrightarrow> gwf (memoryCache c) \<and> gwf (rows c) \<and> fresh_mem w c \<and> fresh_rows w c
     \<and> (if uses_db c then db c = OpenDB \<and> 0 \<le> ttl_seconds (sqliteTTL c) else rows c = [])"

lemma max_age_config: "config a = config b \<Longrightarrow> max_age a = max_age b"
  by (auto simp: max_age_def dest: config_eqD)

text \<open>A row that is still live at \<open>now\<close> was stored less than its lifetime ago.\<close>

lemma live_row: "sql_now now < sql_now t + n \<Longrightarrow> now < t + n * Second"
  unfolding sql_now_def by linarith


lemma fresh_mem_put:
  assumes "fresh_mem w c" and "max_age c' = max_age c"
    and "memoryCache c' = gput (memoryCache c) k e" and "\<exists>t. w k = Some (Capabilities e, t) \<and> ExpiresAt e \<le> t + max_age c"
  shows "fresh_mem w c'"
  using assms by (auto simp: fresh_mem_def gget_gput)

lemma fresh_mem_sub:
  assumes "fresh_mem w c" and "max_age c' = max_age c"
    and "\<And>k e. gget (memoryCache c') k = Some e \<Longrightarrow> gget (memoryCache c) k = Some e"
  shows "fresh_mem w c'"
  using assms by (auto simp: fresh_mem_def)

lemma fresh_rowsD:
  "fresh_rows w c \<Longrightarrow> gget (rows c) k = Some r \<Longrightarrow> capabilities r = Some v \<Longrightarrow>
     \<exists>t. w k = Some (v, t) \<and> expires_at r \<le> sql_now t + ttl_seconds (sqliteTTL c)"
  by (simp add: fresh_rows_def)

lemma fresh_rows_sub:
  assumes "fresh_rows w c" and "sqliteTTL c' = sqliteTTL c"
    and "\<And>k r. gget (rows c') k = Some r \<Longrightarrow> \<exists>r'. gget (rows c) k = Some r' \<and> capabilities r' = capabilities r \<and> expires_at r' = expires_at r"
  shows "fresh_rows w c'"
  unfolding fresh_rows_def
proof (intro allI impI)
  fix k r v assume r: "gget (rows c') k = Some r" "capabilities r = Some v"
  then obtain r' where "gget (rows c) k = Some r'" "capabilities r' = Some v" "expires_at r' = expires_at r"
    using assms(3) by force
  then show "\<exists>t. w k = Some (v, t) \<and> expires_at r \<le> sql_now t + ttl_seconds (sqliteTTL c')"
    using fresh_rowsD [OF assms(1), of k r' v] assms(2) by simp
qed

lemma cap_inv_config:
  assumes "cap_inv w c" and "config c' = config c" and "gwf (memoryCache c')" and "gwf (rows c')"
    and "fresh_mem w' c'" and "fresh_rows w' c'" and "\<not> uses_db c \<Longrightarrow> rows c' = []"
  shows "cap_inv w' c'"
  using assms config_eqD [OF assms(2)] by (auto simp: cap_inv_def)

lemma cap_parts [simp]:
  "memoryCache (recordHit c) = memoryCache c" "rows (recordHit c) = rows c"
  "memoryCache (recordMiss c) = memoryCache c" "rows (recordMiss c) = rows c"
  "rows (evictOldest c) = rows c" "max_age (recordHit c) = max_age c" "max_age (recordMiss c) = max_age c"
  by (simp_all add: recordHit_def recordMiss_def evictOldest_def Let_def max_age_def uses_db_def)

lemma cap_inv_counters [simp]: "cap_inv w (recordHit c) = cap_inv w c" "cap_inv w (recordMiss c) = cap_inv w c"
  by (simp_all add: cap_inv_def fresh_mem_def fresh_rows_def)
    (simp_all add: recordHit_def recordMiss_def)

lemma cap_inv_sqlite:
  assumes inv: "cap_inv w c" and db: "uses_db c"
  shows "cap_inv w (snd (getFromSQLiteWithContext ok now k c))"
    and "fst (getFromSQLiteWithContext ok now k c) = Some v \<Longrightarrow> \<exists>t. w k = Some (v, t) \<and> now \<le> t + max_age c"
proof -
  have live: "\<exists>t. w k = Some (v, t) \<and> now + max 0 (memoryTTL c) < t + max_age c"
    if r: "gget (rows c) k = Some r" "capabilities r = Some v" "expires_at r > sql_now now" for r v
  proof -
    obtain t where t: "w k = Some (v, t)" "expires_at r \<le> sql_now t + ttl_seconds (sqliteTTL c)"
      using inv r fresh_rowsD [of w c k r v] by (auto simp: cap_inv_def)
    then show ?thesis using live_row [of now t "ttl_seconds (sqliteTTL c)"] r(3) db by (auto simp: max_age_def)
  qed
  show "cap_inv w (snd (getFromSQLiteWithContext ok now k c))"
  proof (cases "\<exists>r v. exec_ok ok c \<and> gget (rows c) k = Some r \<and> expires_at r > sql_now now \<and> capabilities r = Some v")
    case False
    then show ?thesis using inv by (auto simp: getFromSQLiteWithContext_def split: option.splits)
  next
    case True
    then obtain r v where r: "exec_ok ok c" "gget (rows c) k = Some r" "expires_at r > sql_now now" "capabilities r = Some v"
      by blast
    define c' where "c' = c\<lparr>memoryCache := gput (memoryCache c) k \<lparr>Capabilities = v, CreatedAt = created_at r * Second,
       ExpiresAt = Add now (memoryTTL c), AccessCount = access_count r, LastAccessed = last_accessed r * Second, cc_Source = source r\<rparr>\<rparr>"
    have "config c' = config c" by (simp add: c'_def)
    moreover have "fresh_mem w c'"
      by (rule fresh_mem_put [of w c])
        (use inv live [OF r(2,4,3)] max_age_config [OF calculation] in \<open>auto simp: cap_inv_def c'_def Add_def\<close>)
    moreover have "fresh_rows w c'" using inv by (auto simp: cap_inv_def fresh_rows_def c'_def)
    ultimately have "cap_inv w c'" by (rule_tac cap_inv_config [OF inv]) (use inv db in \<open>auto simp: cap_inv_def c'_def\<close>)
    then show ?thesis using r by (simp add: getFromSQLiteWithContext_def exec_ok_def c'_def)
  qed
  assume "fst (getFromSQLiteWithContext ok now k c) = Some v"
  then obtain r where "gget (rows c) k = Some r" "capabilities r = Some v" "expires_at r > sql_now now"
    by (auto simp: getFromSQLiteWithContext_def Let_def split: if_splits option.splits)
  from live [OF this] obtain t where "w k = Some (v, t)" "now + max 0 (memoryTTL c) < t + max_age c" by blast
  moreover have "0 \<le> max 0 (memoryTTL c)" by simp
  ultimately show "\<exists>t. w k = Some (v, t) \<and> now \<le> t + max_age c" by (intro exI [of _ t] conjI) linarith+
qed

lemma cap_inv_get:
  assumes inv: "cap_inv w c"
  shows "cap_inv w (snd (GetWithContext x ok now k c))"
    and "fst (GetWithContext x ok now k c) = Some v \<Longrightarrow> \<exists>t. w k = Some (v, t) \<and> now \<le> t + max_age c"
proof -
  have mem: "cap_inv w (c\<lparr>memoryCache := gput (memoryCache c) k (e\<lparr>AccessCount := n, LastAccessed := now\<rparr>)\<rparr>)"
    if "gget (memoryCache c) k = Some e" for e n
  proof -
    let ?c = "c\<lparr>memoryCache := gput (memoryCache c) k (e\<lparr>AccessCount := n, LastAccessed := now\<rparr>)\<rparr>"
    have g: "config ?c = config c" by simp
    have "fresh_mem w ?c" by (rule fresh_mem_put [of w c])
        (use inv that max_age_config [OF g] in \<open>auto simp: cap_inv_def fresh_mem_def\<close>)
    moreover have "fresh_rows w ?c" by (rule fresh_rows_sub [of w c]) (use inv in \<open>auto simp: cap_inv_def\<close>)
    ultimately show ?thesis by (rule_tac cap_inv_config [OF inv g]) (use inv in \<open>auto simp: cap_inv_def\<close>)
  qed
  show "cap_inv w (snd (GetWithContext x ok now k c))"
  proof (cases "k \<noteq> [] \<and> \<not> x \<and> (\<exists>e. gget (memoryCache c) k = Some e \<and> \<not> isExpired now e)")
    case True
    then obtain e where "gget (memoryCache c) k = Some e" "\<not> isExpired now e" by blast
    then show ?thesis using True mem by (simp add: GetWithContext_def)
  next
    case False
    then have "snd (GetWithContext x ok now k c) \<in>
        {c, recordMiss c} \<union> (if uses_db c then {snd (getFromSQLiteWithContext ok now k c)} else {})"
      by (cases "gget (memoryCache c) k") (auto simp: GetWithContext_def)
    then show ?thesis using inv cap_inv_sqlite(1) [OF inv] by (auto split: if_splits)
  qed
  assume h: "fst (GetWithContext x ok now k c) = Some v"
  show "\<exists>t. w k = Some (v, t) \<and> now \<le> t + max_age c"
  proof (cases "\<exists>e. gget (memoryCache c) k = Some e \<and> \<not> isExpired now e")
    case True
    then obtain e where e: "gget (memoryCache c) k = Some e" "now \<le> ExpiresAt e"
      by (auto simp: isExpired_def After_def)
    then have "v = Capabilities e" using h
      by (auto simp: GetWithContext_def isExpired_def After_def Let_def split: if_splits)
    moreover obtain t where "w k = Some (Capabilities e, t)" "ExpiresAt e \<le> t + max_age c"
      using inv e(1) unfolding cap_inv_def fresh_mem_def by blast
    ultimately show ?thesis using e(2) by auto
  next
    case False
    then have "uses_db c" "fst (getFromSQLiteWithContext ok now k c) = Some v" using h
      by (auto simp: GetWithContext_def Let_def split: if_splits option.splits)
    then show ?thesis by (rule cap_inv_sqlite(2) [OF inv])
  qed
qed

lemma fresh_add:
  assumes "fresh_mem w c" and "max_age c' = max_age c"
    and "\<And>j e. gget (memoryCache c') j = Some e \<Longrightarrow> j \<noteq> k \<Longrightarrow> gget (memoryCache c) j = Some e"
    and "\<And>e. gget (memoryCache c') k = Some e \<Longrightarrow> Capabilities e = v \<and> ExpiresAt e \<le> now + max_age c"
  shows "fresh_mem (w(k := Some (v, now))) c'"
  using assms by (auto simp: fresh_mem_def)

lemma max_age_ge: "cap_inv w c \<Longrightarrow> memoryTTL c \<le> max_age c"
  by (auto simp: max_age_def cap_inv_def split: if_splits)

lemma cap_inv_set:
  assumes inv: "cap_inv w c"
  shows "cap_inv (stored_step (CapSet now k v s) w) (snd (CC_Set True now k v s c))"
proof (cases "v = None \<or> k = []")
  case True
  then show ?thesis using inv by (auto simp: CC_Set_def split: option.splits)
next
  case False
  then obtain cap where v: "v = Some cap" "k \<noteq> []" by auto
  let ?w = "w(k := Some (cap, now))"
  let ?e = "\<lparr>Capabilities = cap, CreatedAt = now, ExpiresAt = Add now (memoryTTL c), AccessCount = 0, LastAccessed = now, cc_Source = s\<rparr>"
  define c1 where "c1 = (if int (length (memoryCache c)) \<ge> maxMemoryItems c then evictOldest c else c)"
  define c2 where "c2 = c1\<lparr>memoryCache := gput (memoryCache c1) k ?e\<rparr>"
  define c3 where "c3 = (if uses_db c2 then saveToSQLite True now k ?e c2 else c2)"
  have c3: "snd (CC_Set True now k v s c) = c3"
    using v by (simp add: CC_Set_def Let_def c1_def c2_def c3_def)
  have g: "config c1 = config c" "config c2 = config c" "config c3 = config c"
    by (simp_all add: c1_def c2_def c3_def)
  have sub: "gget (memoryCache c1) j = Some e \<Longrightarrow> gget (memoryCache c) j = Some e" for j e
    by (auto simp: c1_def gget_evictOldest split: if_splits)
  have m: "memoryCache c3 = gput (memoryCache c1) k ?e" by (simp add: c3_def c2_def saveToSQLite_def)
  have wf: "gwf (memoryCache c3)" unfolding m
    by (rule gwf_gput) (use inv in \<open>auto simp: c1_def cap_inv_def gwf_evictOldest\<close>)
  have fm: "fresh_mem ?w c3"
    by (rule fresh_add [of w c])
      (use inv sub max_age_config [OF g(3)] max_age_ge [OF inv] in \<open>auto simp: m gget_gput cap_inv_def Add_def split: if_splits\<close>)
  have r2: "rows c2 = rows c" by (simp add: c2_def c1_def)
  have r3: "rows c3 = (if uses_db c then gput (rows c) k
        \<lparr>capabilities = Some cap, source = s, platform = Platform cap, created_at = sql_now now,
         expires_at = sql_now now + ttl_seconds (sqliteTTL c), access_count = 0,
         last_accessed = sql_now now\<rparr> else rows c)"
    using inv config_eqD [OF g(2)] by (auto simp: c3_def saveToSQLite_def exec_ok_def cap_inv_def r2)
  have fr: "fresh_rows ?w c3"
    using inv config_eqD [OF g(3)] by (auto simp: fresh_rows_def cap_inv_def r3 gget_gput)
  have "cap_inv ?w c3"
    by (rule cap_inv_config [OF inv g(3) wf _ fm fr]) (use inv in \<open>auto simp: cap_inv_def r3\<close>)
  then show ?thesis unfolding c3 using v by simp
qed

lemma cap_inv_delete: "cap_inv w c \<Longrightarrow> cap_inv (w(k := None)) (CC_Delete True k c)"
proof -
  assume inv: "cap_inv w c"
  let ?c = "CC_Delete True k c"
  have g: "config ?c = config c" by simp
  have m: "memoryCache ?c = gdel (memoryCache c) k" by (simp add: CC_Delete_def Let_def)
  have r: "rows ?c = (if uses_db c then gdel (rows c) k else rows c)"
    using inv by (auto simp: CC_Delete_def Let_def exec_ok_def cap_inv_def)
  have "fresh_mem (w(k := None)) ?c" using inv max_age_config [OF g] by (auto simp: fresh_mem_def m gget_gdel cap_inv_def)
  moreover have "fresh_rows (w(k := None)) ?c"
    using inv config_eqD [OF g] by (auto simp: fresh_rows_def r gget_gdel cap_inv_def)
  ultimately show ?thesis
    by (rule_tac cap_inv_config [OF inv g]) (use inv in \<open>auto simp: cap_inv_def m r\<close>)
qed


lemma cap_inv_DeleteExpired: "cap_inv w c \<Longrightarrow> cap_inv w (snd (DeleteExpired ok now c))"
proof -
  assume inv: "cap_inv w c"
  let ?c = "snd (DeleteExpired ok now c)"
  have g: "config ?c = config c" by simp
  have m: "memoryCache ?c = gfilter (\<lambda>_ e. \<not> isExpired now e) (memoryCache c)"
    by (simp add: DeleteExpired_def Let_def split: prod.splits)
  have r: "rows ?c = (if uses_db c \<and> exec_ok ok c then gfilter (\<lambda>_ r. \<not> expires_at r < sql_now now) (rows c) else rows c)"
    by (auto simp: DeleteExpired_def Let_def exec_ok_def split: prod.splits if_splits)
  have w: "gwf (memoryCache c)" "gwf (rows c)" using inv by (simp_all add: cap_inv_def)
  have "fresh_mem w ?c"
    by (rule fresh_mem_sub [of w c])
      (use inv max_age_config [OF g] w in \<open>auto simp: m gget_gfilter cap_inv_def split: option.splits if_splits\<close>)
  moreover have "fresh_rows w ?c"
    by (rule fresh_rows_sub [of w c])
      (use inv config_eqD [OF g] w in \<open>auto simp: r gget_gfilter cap_inv_def split: option.splits if_splits\<close>)
  ultimately show ?thesis
    by (rule_tac cap_inv_config [OF inv g]) (use inv w in \<open>auto simp: cap_inv_def m r\<close>)
qed

lemma gget_map_rows: "gget (map (\<lambda>(j, r). (j, if j = k then f r else r)) m) j =
    (if j = k then map_option f (gget m j) else gget m j)"
  by (induction m) (auto simp: gget_def)

lemma gwf_map_rows: "gwf (map (\<lambda>(j, r). (j, if j = k then f r else r)) m) = gwf m"
  by (simp add: gwf_def comp_def case_prod_unfold)

lemma cap_inv_touch: "cap_inv w c \<Longrightarrow> cap_inv w (snd (UpdateAccessCount ok now k c))"
proof -
  assume inv: "cap_inv w c"
  let ?c = "snd (UpdateAccessCount ok now k c)"
  let ?f = "\<lambda>j r. if j = k then r\<lparr>access_count := access_count r + 1, last_accessed := sql_now now\<rparr> else r"
  have g: "config ?c = config c" by simp
  have m: "memoryCache ?c = memoryCache c" by (simp add: UpdateAccessCount_def)
  have r: "rows ?c = (if uses_db c \<and> exec_ok ok c then map (\<lambda>(j, r). (j, ?f j r)) (rows c) else rows c)"
    by (auto simp: UpdateAccessCount_def)
  have "fresh_mem w ?c"
    by (rule fresh_mem_sub [of w c]) (use inv max_age_config [OF g] in \<open>auto simp: m cap_inv_def\<close>)
  moreover have "fresh_rows w ?c"
  proof (rule fresh_rows_sub [of w c])
    show "fresh_rows w c" "sqliteTTL ?c = sqliteTTL c" using inv config_eqD [OF g] by (auto simp: cap_inv_def)
    show "\<exists>r'. gget (rows c) j = Some r' \<and> capabilities r' = capabilities x \<and> expires_at r' = expires_at x"
      if "gget (rows ?c) j = Some x" for j x
      using that unfolding r by (auto simp: gget_map_rows split: if_splits)
  qed
  moreover have "gwf (rows ?c)" using inv by (simp add: r cap_inv_def gwf_map_rows)
  ultimately show ?thesis
    by (rule_tac cap_inv_config [OF inv g]) (use inv in \<open>auto simp: cap_inv_def m r\<close>)
qed

lemma cap_inv_clear: "cap_inv w c \<Longrightarrow> cap_inv (\<lambda>_. None) (CC_Clear True c)"
proof -
  assume inv: "cap_inv w c"
  have g: "config (CC_Clear True c) = config c" by simp
  have "memoryCache (CC_Clear True c) = []" "rows (CC_Clear True c) = []"
    using inv by (auto simp: CC_Clear_def Let_def cap_inv_def exec_ok_def)
  then show ?thesis
    by (rule_tac cap_inv_config [OF inv g]) (use inv in \<open>auto simp: cap_inv_def fresh_mem_def fresh_rows_def\<close>)
qed

lemma cap_inv_step: "cap_inv w c \<Longrightarrow> cap_inv (stored_step x w) (cap_step x c)"
  using cap_inv_set cap_inv_delete cap_inv_get(1) cap_inv_DeleteExpired cap_inv_touch cap_inv_clear
  by (cases x) simp_all

lemma config_step: "config (cap_step x c) = config c"
  by (cases x) simp_all

lemma cap_inv_run: "cap_inv w c \<Longrightarrow> cap_inv (fold stored_step cs w) (fold cap_step cs c)"
  by (induction cs arbitrary: w c) (auto intro: cap_inv_step)

lemma config_run: "config (fold cap_step cs c) = config c"
  by (induction cs arbitrary: c) (auto simp: config_step)

text \<open>
  A lookup in the capability cache returns the capabilities stored last for that device
  and not deleted or cleared since, whatever evictions, expiries, clean-ups and reloads from
  SQLite happened in between; and a value is served at most for the lifetime of its row plus one
  further memory lifetime (a reload restarts the memory lifetime).
\<close>

theorem capabilities_are_last_stored:
  assumes "NewCapabilityCache True [] cfg = Inr c"
    and "enableSQLite c \<Longrightarrow> 0 \<le> ttl_seconds (sqliteTTL c)"
    and "fst (GetWithContext cancelled ok now k (fold cap_step cs c)) = Some v"
  shows "\<exists>t. stored cs k = Some (v, t)
    \<and> now \<le> t + max 0 (memoryTTL c) + (if enableSQLite c then ttl_seconds (sqliteTTL c) * Second else 0)"
proof -
  have c: "memoryCache c = []" "rows c = []" "db c = (if enableSQLite c then OpenDB else NoDB)"
    using assms(1) by (auto simp: NewCapabilityCache_def Let_def split: if_splits)
  then have "cap_inv (\<lambda>_. None) c" using assms(2) by (auto simp: cap_inv_def fresh_mem_def fresh_rows_def uses_db_def)
  from cap_inv_get(2) [OF cap_inv_run [OF this] assms(3)]
  obtain t where "stored cs k = Some (v, t)" "now \<le> t + max_age (fold cap_step cs c)" by (auto simp: stored_def)
  moreover have "max_age (fold cap_step cs c) = max_age c" by (rule max_age_config [OF config_run])
  ultimately show ?thesis using c(3) by (auto simp: max_age_def uses_db_def)
qed


theorem capabilities_are_last_stored_witness:
  "fst (GetWithContext False True 5 ''tv'' (fold cap_step
      [CapSet 1 ''tv'' (Some (zeroCapabilities\<lparr>DeviceID := ''tv''\<rparr>)) ''probe'']
      \<lparr>memoryCache = [], db = NoDB, rows = [], memoryTTL = 24 * Hour, sqliteTTL = 720 * Hour,
       enableSQLite = False, maxMemoryItems = 10000,
       stats = \<lparr>Hits = 0, Misses = 0, MemorySize = 0, SQLiteSize = 0, Evictions = 0\<rparr>\<rparr>)) =
     Some (zeroCapabilities\<lparr>DeviceID := ''tv''\<rparr>)
   \<and> (\<exists>t. stored [CapSet 1 ''tv'' (Some (zeroCapabilities\<lparr>DeviceID := ''tv''\<rparr>)) ''probe''] ''tv'' =
         Some (zeroCapabilities\<lparr>DeviceID := ''tv''\<rparr>, t) \<and> 5 \<le> t + 24 * Hour)"
proof -
  let ?c = "\<lparr>memoryCache = [], db = NoDB, rows = [], memoryTTL = 24 * Hour, sqliteTTL = 720 * Hour,
       enableSQLite = False, maxMemoryItems = 10000,
       stats = \<lparr>Hits = 0, Misses = 0, MemorySize = 0, SQLiteSize = 0, Evictions = 0\<rparr>\<rparr>"
  let ?v = "zeroCapabilities\<lparr>DeviceID := ''tv''\<rparr>" and ?cs = "[CapSet 1 ''tv'' (Some (zeroCapabilities\<lparr>DeviceID := ''tv''\<rparr>)) ''probe'']"
  have n: "NewCapabilityCache True [] None = Inr ?c"
    by (simp add: NewCapabilityCache_def defaultCacheConfig_def)
  have h: "fst (GetWithContext False True 5 ''tv'' (fold cap_step ?cs ?c)) = Some ?v"
    by (simp add: CC_Set_def uses_db_def GetWithContext_def gget_gput isExpired_def gotime_simps)
  show ?thesis using capabilities_are_last_stored [OF n _ h] h by simp
qed

section \<open>Bounds\<close>

lemma memory_sizes:
  "length (memoryCache (snd (CC_Set ok now k v s c))) \<le>
     (if int (length (memoryCache c)) \<ge> maxMemoryItems c then max 1 (length (memoryCache c)) else Suc (length (memoryCache c)))"
  if "gwf (memoryCache c)"
proof -
  have "length (memoryCache (evictOldest c)) \<le> length (memoryCache c) - 1 \<or> memoryCache c = []"
    using length_evictOldest [OF that] by (cases "memoryCache c") (auto simp: evict_count_def)
  moreover have "memoryCache c = [] \<Longrightarrow> memoryCache (evictOldest c) = []"
    using length_evictOldest [OF that] by simp
  ultimately show ?thesis
    by (auto simp: CC_Set_def saveToSQLite_def Let_def length_gput split: option.splits)
qed

lemma cap_gwf_step: "gwf (memoryCache c) \<Longrightarrow> gwf (memoryCache (cap_step x c))"
  by (cases x) (auto simp: CC_Set_def saveToSQLite_def CC_Delete_def GetWithContext_def getFromSQLiteWithContext_def
      DeleteExpired_def CC_Clear_def UpdateAccessCount_def Let_def gwf_evictOldest gomap_simps split: option.splits prod.splits if_splits)


lemma memory_step:
  assumes "gwf (memoryCache c)" and "\<not> uses_db c" and "0 < maxMemoryItems c"
    and "int (length (memoryCache c)) \<le> maxMemoryItems c"
  shows "int (length (memoryCache (cap_step x c))) \<le> maxMemoryItems c"
proof (cases x)
  case (CapSet now k v s)
  then show ?thesis using assms memory_sizes [OF assms(1), of True now k v s]
    by (cases "memoryCache c") (auto split: if_splits)
next
  case (CapGet y ok now k)
  then show ?thesis using assms by (auto simp: GetWithContext_def Let_def length_gput split: option.splits)
next
  case (CapDelete k)
  then show ?thesis using assms length_gdel_le [of "memoryCache c" k] by (simp add: CC_Delete_def Let_def)
next
  case (CapDeleteExpired ok now)
  then show ?thesis using assms
    by (simp add: DeleteExpired_def Let_def gfilter_def split: prod.splits)
      (meson length_filter_le of_nat_mono order_trans)
qed (use assms in \<open>auto simp: CC_Clear_def UpdateAccessCount_def Let_def\<close>)

text \<open>
  Without SQLite the memory level never holds more entries than configured, whatever
  sequence of stores, lookups, deletions and clean-ups runs on a new cache.
\<close>

theorem capability_memory_bounded:
  assumes "NewCapabilityCache True table cfg = Inr c" and "\<not> enableSQLite c" and "0 < maxMemoryItems c"
  shows "int (length (memoryCache (fold cap_step cs c))) \<le> maxMemoryItems c"
proof -
  have c: "memoryCache c = []" "\<not> uses_db c"
    using assms(1,2) by (auto simp: NewCapabilityCache_def Let_def uses_db_def split: if_splits)
  have "gwf (memoryCache (fold cap_step cs d)) \<and> int (length (memoryCache (fold cap_step cs d))) \<le> maxMemoryItems d"
    if "gwf (memoryCache d)" "\<not> uses_db d" "0 < maxMemoryItems d" "int (length (memoryCache d)) \<le> maxMemoryItems d" for d
    using that
  proof (induction cs arbitrary: d)
    case (Cons x cs)
    have g: "config (cap_step x d) = config d" by (rule config_step)
    show ?case using Cons.IH [of "cap_step x d"] Cons.prems cap_gwf_step memory_step config_eqD [OF g] by simp
  qed simp
  from this [of c] show ?thesis using c assms(3) by simp
qed

theorem capability_memory_bounded_witness:
  "int (length (memoryCache (fold cap_step [CapSet 1 ''a'' (Some zeroCapabilities) ''probe'', CapSet 2 ''b'' (Some zeroCapabilities) ''probe'']
     \<lparr>memoryCache = [], db = NoDB, rows = [], memoryTTL = 24 * Hour, sqliteTTL = 0,
       enableSQLite = False, maxMemoryItems = 1,
       stats = \<lparr>Hits = 0, Misses = 0, MemorySize = 0, SQLiteSize = 0, Evictions = 0\<rparr>\<rparr>))) \<le> 1"
  using capability_memory_bounded [of "[]" "Some \<lparr>MemoryTTL = 0, SQLiteTTL = 0, EnableSQLite = False, MaxMemoryItems = 1\<rparr>"
     "\<lparr>memoryCache = [], db = NoDB, rows = [], memoryTTL = 24 * Hour, sqliteTTL = 0,
       enableSQLite = False, maxMemoryItems = 1,
       stats = \<lparr>Hits = 0, Misses = 0, MemorySize = 0, SQLiteSize = 0, Evictions = 0\<rparr>\<rparr>"
     "[CapSet 1 ''a'' (Some zeroCapabilities) ''probe'', CapSet 2 ''b'' (Some zeroCapabilities) ''probe'']"]
  by (simp add: NewCapabilityCache_def)

text \<open>
  Making room removes a tenth of the entries (at least one), and those that were accessed
  least recently: nothing that stays was last accessed before anything that goes.
\<close>

theorem eviction_removes_least_recent:
  assumes "gwf (memoryCache c)"
  defines "c' \<equiv> evictOldest c"
  shows "length (memoryCache c') = length (memoryCache c) - min (length (memoryCache c)) (max 1 (length (memoryCache c) div 10))
    \<and> (\<forall>k e. gget (memoryCache c') k = Some e \<longrightarrow> gget (memoryCache c) k = Some e
          \<and> (\<forall>j f. gget (memoryCache c) j = Some f \<longrightarrow> gget (memoryCache c') j = None \<longrightarrow> LastAccessed f \<le> LastAccessed e))"
  using length_evictOldest [OF assms(1)] eviction_oldest_first [OF assms(1)]
  by (auto simp: c'_def evict_count_def gget_evictOldest split: if_splits)

theorem eviction_removes_least_recent_witness:
  "let e = (\<lambda>t. \<lparr>Capabilities = zeroCapabilities, CreatedAt = 0, ExpiresAt = 9, AccessCount = 0, LastAccessed = t, cc_Source = ''probe''\<rparr>);
       c = \<lparr>memoryCache = [(''a'', e 5), (''b'', e 2)], db = NoDB, rows = [], memoryTTL = 24 * Hour, sqliteTTL = 0,
       enableSQLite = False, maxMemoryItems = 1,
       stats = \<lparr>Hits = 0, Misses = 0, MemorySize = 0, SQLiteSize = 0, Evictions = 0\<rparr>\<rparr>
   in length (memoryCache (evictOldest c)) = 1"
  unfolding Let_def by (subst eviction_removes_least_recent [THEN conjunct1]) (simp_all add: gwf_def)

text \<open>
  When a row cannot be written, the error is swallowed and the old row stays: once the
  newer value has expired from memory, a lookup serves the older value again.
\<close>

theorem failed_save_serves_stale:
  fixes t1 t2 now :: time and k s :: string and v1 v2 :: DeviceCapabilities
  assumes "uses_db c" and "db c = OpenDB" and "k \<noteq> []" and "0 < n" and "n = ttl_seconds (sqliteTTL c)"
    and "0 \<le> memoryTTL c" and "t2 + memoryTTL c < now" and "sql_now now < sql_now t1 + n"
    and "int (length (memoryCache c)) + 1 < maxMemoryItems c"
  defines "c1 \<equiv> snd (CC_Set True t1 k (Some v1) s c)"
  defines "c2 \<equiv> snd (CC_Set False t2 k (Some v2) s c1)"
  shows "fst (CC_Set False t2 k (Some v2) s c1) = None \<and> fst (CC_Get True now k c2) = Some v1"
proof -
  have r1: "rows c1 = gput (rows c) k \<lparr>capabilities = Some v1, source = s, platform = Platform v1,
       created_at = sql_now t1, expires_at = sql_now t1 + n, access_count = 0, last_accessed = sql_now t1\<rparr>"
    using assms by (auto simp: CC_Set_def Let_def saveToSQLite_def exec_ok_def)
  have m1: "config c1 = config c" "length (memoryCache c1) \<le> Suc (length (memoryCache c))"
    using assms by (simp_all add: c1_def) (auto simp: CC_Set_def Let_def saveToSQLite_def length_gput)
  note g = config_eqD [OF m1(1)]
  have c2: "c2 = c1\<lparr>memoryCache := gput (memoryCache c1) k \<lparr>Capabilities = v2, CreatedAt = t2,
       ExpiresAt = t2 + memoryTTL c, AccessCount = 0, LastAccessed = t2, cc_Source = s\<rparr>\<rparr>"
    using assms(3,9) m1(2) g by (simp add: c2_def CC_Set_def Let_def saveToSQLite_def exec_ok_def Add_def)
  have "fst (getFromSQLiteWithContext True now k c2) = Some v1"
    using assms(2,8) g r1 by (simp add: getFromSQLiteWithContext_def exec_ok_def c2 gget_gput Let_def)
  moreover have "uses_db c2" using assms(1) g by (simp add: c2)
  ultimately show ?thesis using assms(3,7)
    by (simp add: CC_Get_def GetWithContext_def c2 gget_gput isExpired_def After_def CC_Set_def Let_def)
qed


lemma ttl_seconds_10: "ttl_seconds (10 * Second) = 10"
  by code_simp

theorem failed_save_serves_stale_witness:
  "let c = \<lparr>memoryCache = [], db = OpenDB, rows = [], memoryTTL = Second, sqliteTTL = 10 * Second,
       enableSQLite = True, maxMemoryItems = 5,
       stats = \<lparr>Hits = 0, Misses = 0, MemorySize = 0, SQLiteSize = 0, Evictions = 0\<rparr>\<rparr>
   in fst (CC_Get True (3 * Second) ''tv'' (snd (CC_Set False Second ''tv'' (Some (zeroCapabilities\<lparr>MaxWidth := 7\<rparr>)) ''probe''
        (snd (CC_Set True 0 ''tv'' (Some zeroCapabilities) ''probe'' c))))) = Some zeroCapabilities"
  using failed_save_serves_stale [where c = "\<lparr>memoryCache = [], db = OpenDB, rows = [], memoryTTL = Second,
       sqliteTTL = 10 * Second, enableSQLite = True, maxMemoryItems = 5,
       stats = \<lparr>Hits = 0, Misses = 0, MemorySize = 0, SQLiteSize = 0, Evictions = 0\<rparr>\<rparr>" and k = "''tv''"
     and n = 10 and ?t1.0 = 0 and ?t2.0 = Second and now = "3 * Second" and s = "''probe''" and ?v1.0 = zeroCapabilities
     and ?v2.0 = "zeroCapabilities\<lparr>MaxWidth := 7\<rparr>"] ttl_seconds_10
  by (simp add: uses_db_def sql_now_def Let_def)

text \<open>A row loaded from SQLite enters the memory level without the check for room.\<close>

lemma reload_ignores_limit:
  assumes "uses_db c" and "db c = OpenDB" and "k \<noteq> []" and "gget (memoryCache c) k = None"
    and "gget (rows c) k = Some r" and "capabilities r = Some v" and "sql_now now < expires_at r"
  shows "length (memoryCache (snd (CC_Get True now k c))) = Suc (length (memoryCache c))"
  using assms by (simp add: CC_Get_def GetWithContext_def getFromSQLiteWithContext_def exec_ok_def Let_def length_gput)

text \<open>
  A zero SQLite lifetime is not replaced by a default, as the zero memory lifetime is: a row is
  expired as soon as it is written.
\<close>

lemma zero_sqlite_ttl_never_hits:
  assumes "sqliteTTL c = 0" and "gwf (rows c)" and "gget (rows (saveToSQLite True t k e c)) k = Some r"
    and "exec_ok True c" and "t \<le> now"
  shows "\<not> expires_at r > sql_now now"
proof -
  have "ttl_seconds 0 = 0" by code_simp
  then have "expires_at r = sql_now t" using assms by (auto simp: saveToSQLite_def gget_gput)
  then show ?thesis using assms(5) by (simp add: sql_now_def zdiv_mono1)
qed

section \<open>The contract of the memory level\<close>

definition mem_rep :: "CapabilityCache \<Rightarrow> string \<Rightarrow> (DeviceCapabilities \<times> time) option" where
  "mem_rep c k = map_option (\<lambda>e. (Capabilities e, ExpiresAt e)) (gget (memoryCache c) k)"

definition mem_put :: "time \<Rightarrow> string \<Rightarrow> DeviceCapabilities \<Rightarrow> CapabilityCache \<Rightarrow> CapabilityCache" where
  "mem_put now k v c = snd (CC_Set True now k (Some v) ''probe'' c)"

definition mem_inv :: "CapabilityCache \<Rightarrow> bool" where
  "mem_inv c \<longleftrightarrow> \<not> uses_db c \<and> gget (memoryCache c) [] = None"

lemma mem_put_props:
  assumes "mem_inv c"
  shows "mem_rep (mem_put now k v c) k = (if k \<noteq> [] then Some (v, now + memoryTTL c) else None)"
    and "j \<noteq> k \<Longrightarrow> mem_rep (mem_put now k v c) j = mem_rep c j \<or> mem_rep (mem_put now k v c) j = None"
    and "mem_inv (mem_put now k v c)"
  using assms
  by (auto simp: mem_inv_def mem_rep_def mem_put_def CC_Set_def Let_def gget_gput Add_def gget_evictOldest)

lemma mem_get_props:
  assumes "mem_inv c"
  shows "mem_rep c k = Some (v, e) \<Longrightarrow> now \<le> e \<Longrightarrow> fst (CC_Get True now k c) = Some v"
    and "(\<And>v e. mem_rep c k = Some (v, e) \<Longrightarrow> e < now) \<Longrightarrow> fst (CC_Get True now k c) = None"
    and "mem_rep (snd (CC_Get True now k c)) j = mem_rep c j"
    and "mem_inv (snd (CC_Get True now k c))"
proof -
  show "(\<And>v e. mem_rep c k = Some (v, e) \<Longrightarrow> e < now) \<Longrightarrow> fst (CC_Get True now k c) = None"
    using assms by (cases "gget (memoryCache c) k")
      (auto simp: mem_inv_def mem_rep_def CC_Get_def GetWithContext_def Let_def isExpired_def After_def)
qed (use assms in \<open>auto simp: mem_inv_def mem_rep_def CC_Get_def GetWithContext_def Let_def gget_gput
    isExpired_def After_def split: option.splits\<close>)

lemma mem_del_props:
  "mem_rep (CC_Delete True k c) j = (if j = k then None else mem_rep c j)"
  "mem_inv c \<Longrightarrow> mem_inv (CC_Delete True k c)"
  by (auto simp: mem_rep_def mem_inv_def CC_Delete_def Let_def gget_gdel)

lemma mem_ttl:
  "memoryTTL (snd (CC_Get True now k c)) = memoryTTL c" "memoryTTL (mem_put now k v c) = memoryTTL c"
  "memoryTTL (CC_Delete True k c) = memoryTTL c"
  using config_eqD [of "snd (CC_Get True now k c)" c] config_eqD [of "mem_put now k v c" c]
    config_eqD [of "CC_Delete True k c" c]
  by (simp_all add: mem_put_def CC_Get_def)

interpretation caps: ttl_cache mem_rep mem_put "CC_Delete True" "CC_Get True" memoryTTL mem_inv "\<lambda>k. k \<noteq> []"
  by unfold_locales (simp_all add: mem_get_props mem_put_props mem_del_props mem_ttl)

end
