(* ===== verification/Trust.thy ===== *)
theory Trust
  imports Caching DeviceTypes
begin

text \<open>
  The trust resolver, \<^verbatim>\<open>internal/probes/trust.go\<close>: five weighted component scores, two
  bonuses, the normalised and clamped total with its level, and the cache of computed scores.
  Scores are doubles (theory Float64); the fingerprint's hash (SHA-256 in hexadecimal) is the
  parameter \<open>sha\<close>. A missing record (\<^verbatim>\<open>nil\<close>) is \<open>None\<close>.
\<close>

section \<open>Data\<close>

record TrustComponent =
  tc_Name :: string
  tc_Score :: float64
  Weight :: float64
  tc_Reason :: string

record TrustScore =
  t_DeviceID :: string
  Score :: float64
  Level :: TrustLevel
  Components :: "TrustComponent list"
  LastCalculated :: time
  Reason :: string

record DeviceTrustData =
  td_DeviceID :: string
  td_UserAgent :: string
  td_Platform :: string
  td_OSVersion :: string
  td_AppVersion :: string
  td_Model :: string
  td_Manufacturer :: string
  td_VideoCodecs :: "string list"
  td_AudioCodecs :: "string list"
  td_ContainerFormats :: "string list"
  td_DRMSupport :: "DRMSupported option"
  FirstSeen :: time
  LastSeen :: time
  ProbeCount :: int
  ConsistentProbes :: int
  AnomalyCount :: int
  IsVerified :: bool
  IsCurated :: bool
  td_Source :: string
  VotesUp :: int
  VotesDown :: int

record TrustResolver =
  MaxScore :: float64
  MinScore :: float64
  DecayRate :: float64
  VerificationBonus :: float64
  CurationBonus :: float64
  ConsistencyBonus :: float64
  scoreCache :: "(string, TrustScore) gomap"
  cacheTTL :: duration
  knownDevices :: "(string, bool) gomap"

definition NewTrustResolver :: TrustResolver where
  "NewTrustResolver = \<lparr>MaxScore = 1, MinScore = 0, DecayRate = lit 1 100,
     VerificationBonus = lit 2 10, CurationBonus = lit 15 100, ConsistencyBonus = lit 1 10,
     scoreCache = [], cacheTTL = 24 * Hour, knownDevices = []\<rparr>"

section \<open>Component scores\<close>

definition generateFingerprint :: "(string \<Rightarrow> string) \<Rightarrow> DeviceTrustData \<Rightarrow> string" where
  "generateFingerprint sha d = sha (td_Platform d @ td_Manufacturer d @ td_Model d @ td_UserAgent d)"

definition validPlatforms :: "string list" where
  "validPlatforms = [''android'', ''ios'', ''tvos'', ''web'', ''chromecast'', ''roku'', ''firetv'',
     ''apple_tv'', ''xbox'', ''playstation'', ''nintendo'', ''windows'', ''macos'', ''linux'']"

definition evaluateFingerprint :: "(string \<Rightarrow> string) \<Rightarrow> TrustResolver \<Rightarrow> DeviceTrustData \<Rightarrow> float64 \<times> string" where
  "evaluateFingerprint sha tr d =
     (if gget (knownDevices tr) (generateFingerprint sha d) = Some True
      then (lit 8 10, ''Recognized device fingerprint'')
      else if td_Platform d \<in> set validPlatforms
      then if td_Manufacturer d \<noteq> [] then (lit 6 10, ''Valid platform with manufacturer'')
           else (lit 5 10, ''Valid platform'')
      else (lit 3 10, ''Unknown or invalid platform''))"

text \<open>The verb \<^verbatim>\<open>%.0f\<close> prints the nearest integer, ties to even.\<close>

definition percent :: "float64 \<Rightarrow> string" where
  "percent r = Itoa (rne (fmul r 100)) @ ''%''"

definition evaluateConsistency :: "DeviceTrustData \<Rightarrow> float64 \<times> string" where
  "evaluateConsistency d =
     (let ratio = fdiv (ffromint (AnomalyCount d)) (ffromint (ProbeCount d))
      in if ProbeCount d = 0 then (lit 5 10, ''No probe history'')
         else if AnomalyCount d > 0 \<and> ratio > lit 5 10
         then (lit 2 10, ''High anomaly rate: '' @ percent ratio)
         else if AnomalyCount d > 0 \<and> ratio > lit 2 10
         then (lit 5 10, ''Moderate anomaly rate: '' @ percent ratio)
         else if ConsistentProbes d \<ge> ProbeCount d then (1, ''All probes consistent'')
         else if ProbeCount d > 10 \<and> ConsistentProbes d \<ge> ftrunc (fmul (ffromint (ProbeCount d)) (lit 8 10))
         then (lit 9 10, ''High consistency across probes'')
         else if ProbeCount d > 5 \<and> ConsistentProbes d \<ge> ftrunc (fmul (ffromint (ProbeCount d)) (lit 6 10))
         then (lit 7 10, ''Good consistency'')
         else (lit 5 10, ''Limited probe history''))"

definition validSystems :: "string list" where
  "validSystems = [''widevine'', ''playready'', ''fairplay'']"

definition evaluateDRMSupport :: "DeviceTrustData \<Rightarrow> float64 \<times> string" where
  "evaluateDRMSupport d =
     (case td_DRMSupport d of
        None \<Rightarrow> (lit 5 10, ''No DRM information available'')
      | Some drm \<Rightarrow>
          if \<not> Supported drm
          then if td_Platform d = ''web'' \<or> td_Platform d = ''linux''
               then (lit 7 10, ''No DRM (expected for platform)'')
               else (lit 3 10, ''No DRM support'')
          else let n = int (length (filter (\<lambda>s. ds_Supported s \<and> ToLower (System s) \<in> set validSystems) (Details drm)))
               in if n \<ge> 2 then (1, ''Multiple valid DRM systems: '' @ Itoa n)
                  else if n = 1 then (lit 8 10, ''Single valid DRM system'')
                  else (lit 5 10, ''Limited DRM support''))"

definition evaluatePlatform :: "DeviceTrustData \<Rightarrow> float64 \<times> string" where
  "evaluatePlatform d =
     (if td_Platform d \<notin> set validPlatforms then (lit 2 10, ''Unknown platform: '' @ td_Platform d)
      else if td_OSVersion d \<noteq> [] \<and> length (td_OSVersion d) < 3
      then (lit 6 10, ''Platform valid but version suspicious'')
      else if td_AppVersion d \<noteq> [] \<and> length (td_AppVersion d) < 3
      then (lit 7 10, ''Platform valid but app version suspicious'')
      else (lit 9 10, ''Valid platform with versions''))"

definition evaluateBehavior :: "time \<Rightarrow> DeviceTrustData \<Rightarrow> float64 \<times> string" where
  "evaluateBehavior now d =
     (let age = Sub now (FirstSeen d); lastActivity = Sub now (LastSeen d)
      in if age < Hour then (lit 3 10, ''New device (less than 1 hour old)'')
         else if age < 24 * Hour then (lit 5 10, ''New device (less than 1 day old)'')
         else if age < 7 * 24 * Hour then (lit 7 10, ''Established device'')
         else if lastActivity > 30 * 24 * Hour then (lit 4 10, ''Inactive device (30+ days)'')
         else if lastActivity > 7 * 24 * Hour then (lit 6 10, ''Moderately active device'')
         else if ProbeCount d > 100 then (lit 9 10, ''Highly active device'')
         else if ProbeCount d > 20 then (lit 8 10, ''Active device'')
         else if ProbeCount d > 5 then (lit 7 10, ''Moderately active device'')
         else (lit 5 10, ''Limited activity''))"

section \<open>The score\<close>

definition TrustLevelFromScore :: "float64 \<Rightarrow> TrustLevel" where
  "TrustLevelFromScore s =
     (if s \<ge> lit 9 10 then TrustLevelVerified
      else if s \<ge> lit 8 10 then TrustLevelTrusted
      else if s \<ge> lit 7 10 then TrustLevelHigh
      else if s \<ge> lit 5 10 then TrustLevelMedium
      else if s \<ge> lit 3 10 then TrustLevelLow
      else if s \<ge> lit 1 10 then TrustLevelUntrusted
      else TrustLevelUnknown)"

definition scoreToLevel :: "TrustResolver \<Rightarrow> float64 \<Rightarrow> TrustLevel" where
  "scoreToLevel tr s = TrustLevelFromScore s"

definition clamp :: "float64 \<Rightarrow> float64 \<Rightarrow> float64 \<Rightarrow> float64" where
  "clamp v lo hi = (if v < lo then lo else if v > hi then hi else v)"

definition cacheScore :: "TrustScore \<Rightarrow> TrustResolver \<Rightarrow> TrustResolver" where
  "cacheScore sc tr = tr\<lparr>scoreCache := gput (scoreCache tr) (t_DeviceID sc) sc\<rparr>"

text \<open>The running total and weight after adding one component.\<close>

definition add_component :: "float64 \<Rightarrow> float64 \<Rightarrow> float64 \<times> float64 \<Rightarrow> float64 \<times> float64" where
  "add_component s w = (\<lambda>(totalScore, totalWeight). (fadd totalScore (fmul s w), fadd totalWeight w))"

definition components ::
  "(string \<Rightarrow> string) \<Rightarrow> time \<Rightarrow> TrustResolver \<Rightarrow> DeviceTrustData \<Rightarrow> TrustComponent list" where
  "components sha now tr d =
     (let c = (\<lambda>name (s, r) w. \<lparr>tc_Name = name, tc_Score = s, Weight = w, tc_Reason = r\<rparr>)
      in [c ''fingerprint'' (evaluateFingerprint sha tr d) (lit 25 100),
          c ''consistency'' (evaluateConsistency d) (lit 20 100),
          c ''drm_support'' (evaluateDRMSupport d) (lit 15 100),
          c ''platform'' (evaluatePlatform d) (lit 15 100),
          c ''behavior'' (evaluateBehavior now d) (lit 15 100)])"

definition total :: "TrustComponent list \<Rightarrow> bool \<Rightarrow> bool \<Rightarrow> float64" where
  "total cs verified curated =
     (let acc = fold (\<lambda>c. add_component (tc_Score c) (Weight c)) cs (0, 0);
          acc1 = (if verified then add_component 1 (lit 10 100) acc else acc);
          (totalScore, totalWeight) = (if curated then add_component 1 (lit 10 100) acc1 else acc1)
      in if totalWeight > 0 then fdiv totalScore totalWeight else totalScore)"

definition CalculateTrustScore ::
  "(string \<Rightarrow> string) \<Rightarrow> time \<Rightarrow> TrustResolver \<Rightarrow> DeviceTrustData option \<Rightarrow> TrustScore \<times> TrustResolver" where
  "CalculateTrustScore sha now tr data =
     (case data of
        None \<Rightarrow> (\<lparr>t_DeviceID = [], Score = 0, Level = TrustLevelUntrusted, Components = [],
                  LastCalculated = zeroTime, Reason = ''No device data provided''\<rparr>, tr)
      | Some d \<Rightarrow>
          let cs = components sha now tr d;
              s = clamp (total cs (IsVerified d) (IsCurated d)) (MinScore tr) (MaxScore tr);
              score = \<lparr>t_DeviceID = td_DeviceID d, Score = s, Level = scoreToLevel tr s, Components = cs,
                LastCalculated = now,
                Reason = ''Base trust score'' @ (if IsVerified d then ''; verified device bonus'' else [])
                  @ (if IsCurated d then ''; curated device bonus'' else [])\<rparr>
          in (score, cacheScore score tr))"

section \<open>Cache, known devices, plausibility\<close>

definition GetCachedScore :: "time \<Rightarrow> string \<Rightarrow> TrustResolver \<Rightarrow> TrustScore option \<times> TrustResolver" where
  "GetCachedScore now deviceID tr =
     (case gget (scoreCache tr) deviceID of
        None \<Rightarrow> (None, tr)
      | Some sc \<Rightarrow>
          if Sub now (LastCalculated sc) > cacheTTL tr
          then (None, tr\<lparr>scoreCache := gdel (scoreCache tr) deviceID\<rparr>)
          else (Some sc, tr))"

definition InvalidateCache :: "string \<Rightarrow> TrustResolver \<Rightarrow> TrustResolver" where
  "InvalidateCache deviceID tr = tr\<lparr>scoreCache := gdel (scoreCache tr) deviceID\<rparr>"

definition CleanCache :: "time \<Rightarrow> TrustResolver \<Rightarrow> TrustResolver" where
  "CleanCache now tr =
     tr\<lparr>scoreCache := gfilter (\<lambda>_ sc. \<not> Sub now (LastCalculated sc) > cacheTTL tr) (scoreCache tr)\<rparr>"

definition RegisterKnownDevice :: "string \<Rightarrow> TrustResolver \<Rightarrow> TrustResolver" where
  "RegisterKnownDevice fingerprint tr = tr\<lparr>knownDevices := gput (knownDevices tr) fingerprint True\<rparr>"

definition GetTrustLevelForDevice :: "time \<Rightarrow> string \<Rightarrow> TrustResolver \<Rightarrow> TrustLevel \<times> TrustResolver" where
  "GetTrustLevelForDevice now deviceID tr =
     (case GetCachedScore now deviceID tr of
        (None, tr') \<Rightarrow> (TrustLevelUnknown, tr')
      | (Some sc, tr') \<Rightarrow> (Level sc, tr'))"

definition ValidateCapabilities :: "string list \<Rightarrow> string list \<Rightarrow> string list \<Rightarrow> bool \<times> string list" where
  "ValidateCapabilities videoCodecs audioCodecs containers =
     (let video = set (map ToLower videoCodecs); audio = set (map ToLower audioCodecs);
          cont = set (map ToLower containers);
          warnings =
            (if length videoCodecs > 10 then [''Unusually high number of video codecs reported''] else [])
            @ (if ''av1'' \<in> video \<and> ''vp9'' \<notin> video \<and> length videoCodecs > 2
               then [''AV1 without VP9 is unusual for this platform''] else [])
            @ (if ''aac'' \<notin> audio \<and> ''mp3'' \<notin> audio then [''Missing common audio codecs (AAC/MP3)''] else [])
            @ (if ''mp4'' \<notin> cont \<and> ''mkv'' \<notin> cont then [''Missing common container formats''] else [])
      in (warnings = [], warnings))"

text \<open>Unstable in the source; components of equal score keep their order here.\<close>

definition SortComponents :: "TrustScore \<Rightarrow> TrustScore" where
  "SortComponents t = t\<lparr>Components := sort_key (\<lambda>c. - tc_Score c) (Components t)\<rparr>"


section \<open>The weighted total\<close>

text \<open>The five steps of the running total, and the (constant) total weight.\<close>

definition sum5 :: "float64 \<Rightarrow> float64 \<Rightarrow> float64 \<Rightarrow> float64 \<Rightarrow> float64 \<Rightarrow> float64" where
  "sum5 a b c d e = fadd (fadd (fadd (fadd (fadd 0 (fmul a (lit 25 100))) (fmul b (lit 20 100)))
     (fmul c (lit 15 100))) (fmul d (lit 15 100))) (fmul e (lit 15 100))"

lemma weights:
  "fadd (fadd (fadd (fadd (fadd 0 (lit 25 100)) (lit 20 100)) (lit 15 100)) (lit 15 100)) (lit 15 100)
     = 8106479329266893 / 9007199254740992"
  by code_simp

lemma bonus_weight: "lit 10 100 = 3602879701896397 / 36028797018963968"
  "fmul 1 (3602879701896397 / 36028797018963968) = 3602879701896397 / 36028797018963968"
  by code_simp+

lemma weight_sums:
  "fadd (8106479329266893 / 9007199254740992) (3602879701896397 / 36028797018963968) = 1"
  "fadd 1 (3602879701896397 / 36028797018963968) = 2476979795053773 / 2251799813685248"
  by code_simp+

lemma fmono: "x \<le> y \<Longrightarrow> fl x \<le> fl y"
  by (rule f64.rnd_mono)

lemma fadd_mono: "x \<le> x' \<Longrightarrow> y \<le> y' \<Longrightarrow> fadd x y \<le> fadd x' y'"
  unfolding fadd_def by (rule fmono) simp

lemma lit_mono: "a * d \<le> c * b \<Longrightarrow> 0 < b \<Longrightarrow> 0 < d \<Longrightarrow> lit a b \<le> lit c d"
proof -
  assume a: "a * d \<le> c * b" "0 < b" "0 < d"
  have "(of_int (a * d) :: rat) \<le> of_int (c * b)" using a(1) by (simp only: of_int_le_iff)
  then show ?thesis unfolding lit_def using a(2,3) by (intro fmono) (simp add: field_simps)
qed

lemma lit_unit: "0 \<le> a \<Longrightarrow> a \<le> b \<Longrightarrow> 0 < b \<Longrightarrow> 0 \<le> lit a b \<and> lit a b \<le> 1"
  unfolding lit_def by (intro f64.rnd_unit) simp_all

lemma fmul_mono: "x \<le> x' \<Longrightarrow> 0 \<le> w \<Longrightarrow> fmul x w \<le> fmul x' w"
  unfolding fmul_def by (intro fmono mult_right_mono)

lemma sum5_mono: "a \<le> a' \<Longrightarrow> b \<le> b' \<Longrightarrow> c \<le> c' \<Longrightarrow> d \<le> d' \<Longrightarrow> e \<le> e' \<Longrightarrow> sum5 a b c d e \<le> sum5 a' b' c' d' e'"
  unfolding sum5_def by (intro fadd_mono fmul_mono order_refl) (simp_all add: lit_unit)

lemma lit_values:
  "lit 25 100 = 1 / 4"
  "lit 20 100 = 3602879701896397 / 18014398509481984"
  "lit 15 100 = 5404319552844595 / 36028797018963968"
  "lit 3 10 = 5404319552844595 / 18014398509481984"
  "lit 2 10 = 3602879701896397 / 18014398509481984"
  "lit 8 10 = 3602879701896397 / 4503599627370496"
  "lit 9 10 = 8106479329266893 / 9007199254740992"
  by code_simp+

lemma sum_steps:
  "fmul (5404319552844595 / 18014398509481984) (1 / 4) = 5404319552844595 / 72057594037927936"
  "fadd 0 (5404319552844595 / 72057594037927936) = 5404319552844595 / 72057594037927936"
  "fmul (3602879701896397 / 18014398509481984) (3602879701896397 / 18014398509481984) = 1441151880758559 / 36028797018963968"
  "fadd (5404319552844595 / 72057594037927936) (1441151880758559 / 36028797018963968) = 8286623314361713 / 72057594037927936"
  "fmul (5404319552844595 / 18014398509481984) (5404319552844595 / 36028797018963968) = 3242591731706757 / 72057594037927936"
  "fadd (8286623314361713 / 72057594037927936) (3242591731706757 / 72057594037927936) = 5764607523034235 / 36028797018963968"
  "fmul (3602879701896397 / 18014398509481984) (5404319552844595 / 36028797018963968) = 1080863910568919 / 36028797018963968"
  "fadd (5764607523034235 / 36028797018963968) (1080863910568919 / 36028797018963968) = 3422735716801577 / 18014398509481984"
  "fadd (3422735716801577 / 18014398509481984) (3242591731706757 / 72057594037927936) = 2116691824864133 / 9007199254740992"
  "fmul (3602879701896397 / 4503599627370496) (1 / 4) = 3602879701896397 / 18014398509481984"
  "fadd 0 (3602879701896397 / 18014398509481984) = 3602879701896397 / 18014398509481984"
  "fmul 1 (3602879701896397 / 18014398509481984) = 3602879701896397 / 18014398509481984"
  "fadd (3602879701896397 / 18014398509481984) (3602879701896397 / 18014398509481984) = 3602879701896397 / 9007199254740992"
  "fmul 1 (5404319552844595 / 36028797018963968) = 5404319552844595 / 36028797018963968"
  "fadd (3602879701896397 / 9007199254740992) (5404319552844595 / 36028797018963968) = 2476979795053773 / 4503599627370496"
  "fmul (8106479329266893 / 9007199254740992) (5404319552844595 / 36028797018963968) = 607985949695017 / 4503599627370496"
  "fadd (2476979795053773 / 4503599627370496) (607985949695017 / 4503599627370496) = 1542482872374395 / 2251799813685248"
  "fadd (1542482872374395 / 2251799813685248) (607985949695017 / 4503599627370496) = 3692951694443807 / 4503599627370496"
  by code_simp+

lemma sum5_ends:
  "sum5 (lit 3 10) (lit 2 10) (lit 3 10) (lit 2 10) (lit 3 10) = 2116691824864133 / 9007199254740992"
  "sum5 (lit 8 10) 1 1 (lit 9 10) (lit 9 10) = 3692951694443807 / 4503599627370496"
  unfolding sum5_def lit_values by (simp_all only: sum_steps)

lemma lit_tenths [simp]: "a \<le> b \<Longrightarrow> lit a 10 \<le> lit b 10" "a \<le> 10 \<Longrightarrow> lit a 10 \<le> 1"
  unfolding lit_def by (rule fmono, simp) (rule f64.rnd_le_one, simp)

lemma fingerprint_bounds:
  "lit 3 10 \<le> fst (evaluateFingerprint sha tr x) \<and> fst (evaluateFingerprint sha tr x) \<le> lit 8 10"
  by (simp add: evaluateFingerprint_def)

lemma consistency_bounds: "lit 2 10 \<le> fst (evaluateConsistency x) \<and> fst (evaluateConsistency x) \<le> 1"
  by (simp add: evaluateConsistency_def Let_def)

lemma drm_bounds: "lit 3 10 \<le> fst (evaluateDRMSupport x) \<and> fst (evaluateDRMSupport x) \<le> 1"
  by (simp add: evaluateDRMSupport_def Let_def split: option.splits)

lemma platform_bounds: "lit 2 10 \<le> fst (evaluatePlatform x) \<and> fst (evaluatePlatform x) \<le> lit 9 10"
  by (simp add: evaluatePlatform_def)

lemma behavior_bounds:
  "lit 3 10 \<le> fst (evaluateBehavior now x) \<and> fst (evaluateBehavior now x) \<le> lit 9 10"
  by (simp add: evaluateBehavior_def Let_def)

lemmas score_bounds = fingerprint_bounds consistency_bounds drm_bounds platform_bounds behavior_bounds

definition base_total :: "(string \<Rightarrow> string) \<Rightarrow> time \<Rightarrow> TrustResolver \<Rightarrow> DeviceTrustData \<Rightarrow> float64" where
  "base_total sha now tr d = sum5 (fst (evaluateFingerprint sha tr d)) (fst (evaluateConsistency d))
     (fst (evaluateDRMSupport d)) (fst (evaluatePlatform d)) (fst (evaluateBehavior now d))"

lemma base_total_bounds:
  "2116691824864133 / 9007199254740992 \<le> base_total sha now tr d"
  "base_total sha now tr d \<le> 3692951694443807 / 4503599627370496"
  unfolding sum5_ends [symmetric] base_total_def by (intro sum5_mono; simp add: score_bounds)+

lemma total_components:
  "total (components sha now tr d) v c =
     (let s = base_total sha now tr d; w0 = 8106479329266893 / 9007199254740992;
          b = 3602879701896397 / 36028797018963968; w2 = 2476979795053773 / 2251799813685248
      in if v \<and> c then fdiv (fadd (fadd s b) b) w2
         else if v \<or> c then fdiv (fadd s b) 1 else fdiv s w0)"
  unfolding total_def components_def Let_def add_component_def base_total_def sum5_def case_prod_unfold
  by (cases v; cases c; simp add: weights bonus_weight weight_sums)

lemma bonus_step:
  assumes "1 / 5 \<le> s" and "s \<le> 94 / 100 * w" and "8 / 10 \<le> w" and "w \<le> 11 / 10" and "9 / 100 \<le> b" and "b \<le> 11 / 100"
    and "W \<le> (w + b) * (1 + pow2 (-53))" and "0 < W"
  shows "fdiv s w \<le> fdiv (fadd s b) W"
proof -
  let ?e = "pow2 (-53)"
  have e: "?e \<le> 1 / 1000000" "0 < ?e" by (simp_all add: pow2_def)
  have "(s + b) * (1 - ?e) \<le> fadd s b" unfolding fadd_def
    by (rule fl_lower) (use assms(1,5) in \<open>simp add: pow2_def\<close>)
  moreover have "s * W \<le> w * ((s + b) * (1 - ?e))"
  proof -
    have "s * W \<le> s * ((w + b) * (1 + ?e))" using assms(1,7) by (intro mult_left_mono) simp_all
    also have "\<dots> \<le> w * ((s + b) * (1 - ?e))"
    proof -
      have m: "s * (w + b) + w * (s + b) \<le> 4"
      proof -
        have "s * (w + b) \<le> (104/100) * (121/100)" "w * (s + b) \<le> (11/10) * (115/100)"
          by (intro mult_mono; use assms in linarith)+
        then show ?thesis by simp
      qed
      have "(s * (w + b) + w * (s + b)) * ?e \<le> 4 * (1 / 1000000)"
        using m e by (intro mult_mono) (use assms in simp_all)
      also have "\<dots> \<le> (9 / 100) * (6 / 100 * (8 / 10))" by simp
      also have "\<dots> \<le> b * (w - s)" using assms by (intro mult_mono; linarith)
      finally show ?thesis by (simp add: algebra_simps)
    qed
    finally show ?thesis .
  qed
  ultimately have "s * W \<le> w * fadd s b"
    using assms(3) mult_left_mono [of "(s + b) * (1 - ?e)" "fadd s b" w] by linarith
  then have "s / w \<le> fadd s b / W" using assms(3,8) by (simp add: field_simps)
  then show ?thesis unfolding fdiv_def by (rule fmono)
qed


lemma clamp_mono: "lo \<le> hi \<Longrightarrow> x \<le> y \<Longrightarrow> clamp x lo hi \<le> clamp y lo hi"
  by (auto simp: clamp_def)

lemma clamp_range: "lo \<le> hi \<Longrightarrow> lo \<le> clamp x lo hi \<and> clamp x lo hi \<le> hi"
  by (auto simp: clamp_def)

lemma level_mono: "x \<le> y \<Longrightarrow> TrustLevelFromScore x \<le> TrustLevelFromScore y"
  by (auto simp: TrustLevelFromScore_def less_eq_TrustLevel_def)

abbreviation trust_total where
  "trust_total sha now tr d v c \<equiv> total (components sha now tr d) v c"

lemma bonus_values:
  assumes "2116691824864133 / 9007199254740992 \<le> s" and "s \<le> 3692951694443807 / 4503599627370496"
  shows "fdiv s (8106479329266893 / 9007199254740992) \<le> fdiv (fadd s (3602879701896397 / 36028797018963968)) 1"
    and "fdiv (fadd s (3602879701896397 / 36028797018963968)) 1
      \<le> fdiv (fadd (fadd s (3602879701896397 / 36028797018963968)) (3602879701896397 / 36028797018963968))
          (2476979795053773 / 2251799813685248)"
proof -
  let ?b = "3602879701896397 / 36028797018963968 :: rat"
  show "fdiv s (8106479329266893 / 9007199254740992) \<le> fdiv (fadd s ?b) 1"
    by (rule bonus_step) (use assms in \<open>simp_all add: pow2_def\<close>)
  have "fl (s + ?b) \<le> fl (93 / 100)" "fl (3 / 10) \<le> fl (s + ?b)" using assms by (intro fmono; simp)+
  moreover have "fl (93 / 100) \<le> 94 / 100" "1 / 5 \<le> fl (3 / 10)" by code_simp+
  ultimately have "1 / 5 \<le> fadd s ?b" "fadd s ?b \<le> 94 / 100" by (simp_all add: fadd_def)
  then show "fdiv (fadd s ?b) 1 \<le> fdiv (fadd (fadd s ?b) ?b) (2476979795053773 / 2251799813685248)"
    by (intro bonus_step) (simp_all add: pow2_def)
qed

text \<open>The components do not look at the two marks.\<close>

lemma consistency_upd:
  "evaluateConsistency (d\<lparr>IsVerified := v\<rparr>) = evaluateConsistency d"
  "evaluateConsistency (d\<lparr>IsCurated := v\<rparr>) = evaluateConsistency d"
  by (cases d, hypsubst, unfold evaluateConsistency_def DeviceTrustData.simps, rule refl)+

lemma behavior_upd:
  "evaluateBehavior now (d\<lparr>IsVerified := v\<rparr>) = evaluateBehavior now d"
  "evaluateBehavior now (d\<lparr>IsCurated := v\<rparr>) = evaluateBehavior now d"
  by (cases d, hypsubst, unfold evaluateBehavior_def DeviceTrustData.simps, rule refl)+

lemma components_upd:
  "components sha now tr (d\<lparr>IsVerified := v\<rparr>) = components sha now tr d"
  "components sha now tr (d\<lparr>IsCurated := v\<rparr>) = components sha now tr d"
  unfolding components_def consistency_upd behavior_upd
  by (simp_all add: evaluateFingerprint_def generateFingerprint_def evaluateDRMSupport_def evaluatePlatform_def)

text \<open>
  Verification and curation never cost a device anything: for every device data, marking
  the device as verified, or as curated, does not lower its trust score, nor its trust level,
  all the rounding of the computation included.
\<close>

theorem bonuses_never_lower_trust:
  fixes sha :: "string \<Rightarrow> string" and now :: time
  assumes "MinScore tr \<le> MaxScore tr"
  defines "score \<equiv> \<lambda>d. fst (CalculateTrustScore sha now tr (Some d))"
  shows "Score (score (d\<lparr>IsVerified := False\<rparr>)) \<le> Score (score (d\<lparr>IsVerified := True\<rparr>))
    \<and> Score (score (d\<lparr>IsCurated := False\<rparr>)) \<le> Score (score (d\<lparr>IsCurated := True\<rparr>))
    \<and> Level (score (d\<lparr>IsVerified := False\<rparr>)) \<le> Level (score (d\<lparr>IsVerified := True\<rparr>))
    \<and> Level (score (d\<lparr>IsCurated := False\<rparr>)) \<le> Level (score (d\<lparr>IsCurated := True\<rparr>))"
proof -
  let ?s = "base_total sha now tr d"
  note b = bonus_values [OF base_total_bounds, of sha now tr d]
  have up: "trust_total sha now tr d False c \<le> trust_total sha now tr d True c"
    "trust_total sha now tr d c False \<le> trust_total sha now tr d c True" for c
    using b by (cases c; simp add: total_components Let_def)+
  show ?thesis
    using up clamp_mono [OF assms(1)]
    by (simp add: score_def CalculateTrustScore_def Let_def components_upd scoreToLevel_def level_mono)
qed

theorem bonuses_never_lower_trust_witness:
  "\<exists>d. IsVerified d \<and> td_Platform d = ''web''
     \<and> Score (fst (CalculateTrustScore id 0 NewTrustResolver (Some (d\<lparr>IsVerified := False\<rparr>))))
        \<le> Score (fst (CalculateTrustScore id 0 NewTrustResolver (Some (d\<lparr>IsVerified := True\<rparr>))))"
  by (rule exI [of _ "\<lparr>td_DeviceID = ''x'', td_UserAgent = [], td_Platform = ''web'', td_OSVersion = [],
      td_AppVersion = [], td_Model = [], td_Manufacturer = [], td_VideoCodecs = [], td_AudioCodecs = [],
      td_ContainerFormats = [], td_DRMSupport = None, FirstSeen = 0, LastSeen = 0, ProbeCount = 0,
      ConsistentProbes = 0, AnomalyCount = 0, IsVerified = True, IsCurated = False, td_Source = [],
      VotesUp = 0, VotesDown = 0\<rparr>"], intro conjI bonuses_never_lower_trust [THEN conjunct1])
    (simp_all add: NewTrustResolver_def)

text \<open>
  With the default resolver every device data gives a score between 0.26 and 1, so the
  level is never \<^verbatim>\<open>unknown\<close>; the level is the one the score thresholds define; and the score
  is cached: until the cache lifetime has passed a lookup returns it, afterwards nothing, and the
  device's level is then unknown.
\<close>

theorem trust_score_range_and_cache:
  fixes sha :: "string \<Rightarrow> string" and now now' :: time and d :: DeviceTrustData and tr :: TrustResolver
  assumes "now' - now < 2 ^ 63" and "- (2 ^ 63) \<le> now' - now"
  defines "r \<equiv> CalculateTrustScore sha now tr (Some d)"
  assumes "MinScore tr = 0" and "MaxScore tr = 1" and "cacheTTL tr = 24 * Hour"
  shows "26 / 100 < Score (fst r) \<and> Score (fst r) \<le> 1 \<and> TrustLevelUntrusted \<le> Level (fst r)
    \<and> Level (fst r) = TrustLevelFromScore (Score (fst r))
    \<and> fst (GetCachedScore now' (td_DeviceID d) (snd r)) = (if now' - now \<le> 24 * Hour then Some (fst r) else None)
    \<and> fst (GetTrustLevelForDevice now' (td_DeviceID d) (snd r)) =
        (if now' - now \<le> 24 * Hour then Level (fst r) else TrustLevelUnknown)"
proof -
  let ?s = "base_total sha now tr d" and ?b = "3602879701896397 / 36028797018963968 :: rat"
  note b = bonus_values [OF base_total_bounds, of sha now tr d]
  have "fdiv (2116691824864133 / 9007199254740992) (8106479329266893 / 9007199254740992) \<le>
      fdiv ?s (8106479329266893 / 9007199254740992)"
    unfolding fdiv_def by (rule fmono) (use base_total_bounds(1) [of sha now tr d] in simp)
  moreover have "26 / 100 < fdiv (2116691824864133 / 9007199254740992) (8106479329266893 / 9007199254740992)"
    "fl (1 / 10) \<le> 26 / 100" by code_simp+
  ultimately have lo: "26 / 100 < trust_total sha now tr d v c" for v c
    using b by (cases v; cases c; simp add: total_components Let_def)
  have s: "Score (fst r) = min 1 (trust_total sha now tr d (IsVerified d) (IsCurated d))"
    using lo [of "IsVerified d" "IsCurated d"] assms(4,5)
    by (auto simp: r_def CalculateTrustScore_def Let_def clamp_def)
  have lv: "Level (fst r) = TrustLevelFromScore (Score (fst r))"
    by (simp add: r_def CalculateTrustScore_def Let_def scoreToLevel_def)
  have l: "26 / 100 < Score (fst r)" using s lo by simp
  then have "TrustLevelFromScore (26 / 100) \<le> Level (fst r)" unfolding lv by (intro level_mono) simp
  moreover have "TrustLevelFromScore (26 / 100) = TrustLevelUntrusted" by code_simp
  ultimately have "TrustLevelUntrusted \<le> Level (fst r)" by simp
  moreover have "fst (GetCachedScore now' (td_DeviceID d) (snd r)) = (if now' - now \<le> 24 * Hour then Some (fst r) else None)"
    using assms(1,2,6) by (auto simp: r_def CalculateTrustScore_def Let_def GetCachedScore_def cacheScore_def gget_gput Sub_id)
  ultimately show ?thesis using l s lv
    by (auto simp: GetTrustLevelForDevice_def split: prod.splits option.splits)
qed


text \<open>A device data record that the witnesses use.\<close>

definition webDevice :: DeviceTrustData where
  "webDevice = \<lparr>td_DeviceID = ''x'', td_UserAgent = [], td_Platform = ''web'', td_OSVersion = [],
      td_AppVersion = [], td_Model = [], td_Manufacturer = [], td_VideoCodecs = [], td_AudioCodecs = [],
      td_ContainerFormats = [], td_DRMSupport = None, FirstSeen = 0, LastSeen = 0, ProbeCount = 0,
      ConsistentProbes = 0, AnomalyCount = 0, IsVerified = True, IsCurated = False, td_Source = [],
      VotesUp = 0, VotesDown = 0\<rparr>"

theorem trust_score_range_and_cache_witness:
  "let r = CalculateTrustScore id 0 NewTrustResolver (Some webDevice)
   in 26 / 100 < Score (fst r) \<and> fst (GetTrustLevelForDevice 5 ''x'' (snd r)) = Level (fst r)"
  using trust_score_range_and_cache [where now = 0 and now' = 5 and tr = NewTrustResolver and d = webDevice and sha = id]
  by (simp add: NewTrustResolver_def Let_def webDevice_def)

text \<open>
  The fingerprint hashes the concatenation of platform, manufacturer, model and user agent
  without separators. So once a device is registered as known, any device whose four fields
  concatenate to the same text is recognised as that device, also one of an unknown platform
  with other values in every field.
\<close>

theorem fingerprint_ignores_field_boundaries:
  assumes "td_Platform a @ td_Manufacturer a @ td_Model a @ td_UserAgent a =
      td_Platform b @ td_Manufacturer b @ td_Model b @ td_UserAgent b"
  shows "evaluateFingerprint sha (RegisterKnownDevice (generateFingerprint sha a) tr) b =
      (lit 8 10, ''Recognized device fingerprint'')"
  using assms by (simp add: evaluateFingerprint_def RegisterKnownDevice_def generateFingerprint_def gget_gput)

theorem fingerprint_ignores_field_boundaries_witness:
  "evaluateFingerprint (take 64) (RegisterKnownDevice
      (generateFingerprint (take 64) (webDevice\<lparr>td_Manufacturer := ''LG'', td_Model := ''C2''\<rparr>)) NewTrustResolver)
      (webDevice\<lparr>td_Platform := ''webL'', td_Manufacturer := ''GC'', td_Model := ''2''\<rparr>) =
      (lit 8 10, ''Recognized device fingerprint'')"
  using fingerprint_ignores_field_boundaries [of "webDevice\<lparr>td_Manufacturer := ''LG'', td_Model := ''C2''\<rparr>"
      "webDevice\<lparr>td_Platform := ''webL'', td_Manufacturer := ''GC'', td_Model := ''2''\<rparr>" "take 64" NewTrustResolver]
  by (simp add: webDevice_def)

section \<open>The score cache keeps the contract\<close>

definition score_rep :: "TrustResolver \<Rightarrow> string \<Rightarrow> ((float64 \<times> TrustLevel) \<times> time) option" where
  "score_rep tr k = map_option (\<lambda>sc. ((Score sc, Level sc), LastCalculated sc + cacheTTL tr)) (gget (scoreCache tr) k)"

definition put_score :: "time \<Rightarrow> string \<Rightarrow> float64 \<times> TrustLevel \<Rightarrow> TrustResolver \<Rightarrow> TrustResolver" where
  "put_score now k v = cacheScore \<lparr>t_DeviceID = k, Score = fst v, Level = snd v, Components = [],
     LastCalculated = now, Reason = []\<rparr>"

definition get_score :: "time \<Rightarrow> string \<Rightarrow> TrustResolver \<Rightarrow> (float64 \<times> TrustLevel) option \<times> TrustResolver" where
  "get_score now k tr = map_prod (map_option (\<lambda>sc. (Score sc, Level sc))) id (GetCachedScore now k tr)"

definition score_inv :: "TrustResolver \<Rightarrow> bool" where
  "score_inv tr \<longleftrightarrow> 0 \<le> cacheTTL tr \<and> cacheTTL tr < 2 ^ 63 - 1"

lemma get_score_spec:
  "score_inv tr \<Longrightarrow> get_score now k tr =
     (case score_rep tr k of
        None \<Rightarrow> (None, tr)
      | Some (v, e) \<Rightarrow> if e < now then (None, InvalidateCache k tr) else (Some v, tr))"
  using Sub_greater [of "cacheTTL tr" now]
  by (auto simp: get_score_def GetCachedScore_def score_rep_def score_inv_def InvalidateCache_def split: option.splits)

lemma score_rep_upd:
  "score_rep (InvalidateCache k tr) j = (if j = k then None else score_rep tr j)"
  "score_rep (put_score now k v tr) j = (if j = k then Some (v, now + cacheTTL tr) else score_rep tr j)"
  by (auto simp: score_rep_def InvalidateCache_def put_score_def cacheScore_def gomap_simps)

lemma score_inv_upd:
  "score_inv (InvalidateCache k tr) = score_inv tr" "score_inv (put_score now k v tr) = score_inv tr"
  "cacheTTL (InvalidateCache k tr) = cacheTTL tr" "cacheTTL (put_score now k v tr) = cacheTTL tr"
  "cacheTTL (snd (get_score now k tr)) = cacheTTL tr"
  by (auto simp: score_inv_def InvalidateCache_def put_score_def cacheScore_def get_score_def GetCachedScore_def
      split: option.splits)

lemma get_score_laws:
  assumes "score_inv s"
  shows "score_rep s k = Some (v, e) \<Longrightarrow> now \<le> e \<Longrightarrow> fst (get_score now k s) = Some v"
    and "(\<And>v e. score_rep s k = Some (v, e) \<Longrightarrow> e < now) \<Longrightarrow> fst (get_score now k s) = None"
    and "score_rep (snd (get_score now k s)) j = score_rep s j \<or> score_rep (snd (get_score now k s)) j = None"
    and "score_inv (snd (get_score now k s))"
proof -
  show "(\<And>v e. score_rep s k = Some (v, e) \<Longrightarrow> e < now) \<Longrightarrow> fst (get_score now k s) = None"
    by (cases "score_rep s k") (auto simp: get_score_spec [OF assms])
qed (use assms in \<open>auto simp: get_score_spec [OF assms] score_rep_upd score_inv_upd split: option.splits\<close>)

interpretation scores: ttl_cache score_rep put_score InvalidateCache get_score cacheTTL score_inv "\<lambda>_. True"
  by unfold_locales (simp_all add: get_score_laws score_rep_upd score_inv_upd)

end
