(* ===== verification/Feedback.thy ===== *)
theory Feedback
  imports Float64 Strings
begin

text \<open>
  The playback feedback manager, \<^verbatim>\<open>internal/probes/feedback.go\<close>: per-device event lists and
  statistics, the trust adjustment derived from the outcomes, and the decision when a device has
  to be probed again. A \<^verbatim>\<open>PlaybackOutcome\<close> outside the declared constants behaves in every
  operation as \<open>OutcomeUnknown\<close>, which stands for it. Counters are integers (an \<^verbatim>\<open>int64\<close>
  would need 2^63 playbacks to wrap). Callbacks run in goroutines of their own; an operation
  returns the calls it starts. Each operation reads the clock once.
\<close>

section \<open>Data\<close>

datatype PlaybackOutcome =
    OutcomeUnknown | OutcomeSuccess | OutcomeNetworkError | OutcomeCodecError | OutcomeDecodingFailed
  | OutcomeRendererCrash | OutcomeUnsupportedFormat | OutcomeTimeout | OutcomeBuffering

fun Outcome_String :: "PlaybackOutcome \<Rightarrow> string" where
  "Outcome_String OutcomeUnknown = ''unknown''"
| "Outcome_String OutcomeSuccess = ''success''"
| "Outcome_String OutcomeNetworkError = ''network_error''"
| "Outcome_String OutcomeCodecError = ''codec_error''"
| "Outcome_String OutcomeDecodingFailed = ''decoding_failed''"
| "Outcome_String OutcomeRendererCrash = ''renderer_crash''"
| "Outcome_String OutcomeUnsupportedFormat = ''unsupported_format''"
| "Outcome_String OutcomeTimeout = ''timeout''"
| "Outcome_String OutcomeBuffering = ''buffering''"

definition ParseOutcomeFromString :: "string \<Rightarrow> PlaybackOutcome" where
  "ParseOutcomeFromString s =
     (if s = ''success'' then OutcomeSuccess
      else if s = ''network_error'' then OutcomeNetworkError
      else if s = ''codec_error'' then OutcomeCodecError
      else if s = ''decoding_failed'' then OutcomeDecodingFailed
      else if s = ''renderer_crash'' then OutcomeRendererCrash
      else if s = ''unsupported_format'' then OutcomeUnsupportedFormat
      else if s = ''timeout'' then OutcomeTimeout
      else if s = ''buffering'' then OutcomeBuffering
      else OutcomeUnknown)"

record PlaybackFeedback =
  fb_DeviceID :: string
  MediaID :: string
  Outcome :: PlaybackOutcome
  ErrorCode :: string
  ErrorMessage :: string
  fb_Timestamp :: time
  fb_Duration :: duration
  BufferDuration :: duration
  NetworkQuality :: string
  VideoCodec :: string
  AudioCodec :: string
  fb_Container :: string
  fb_Resolution :: string
  fb_Bitrate :: int

record PlaybackEvent =
  ev_Feedback :: PlaybackFeedback
  TrustDelta :: float64
  ev_Timestamp :: time
  IsRecent :: bool

record CodecStats =
  Attempts :: int
  Successes :: int
  Failures :: int
  cs_SuccessRate :: float64

record DevicePlaybackStats =
  ps_DeviceID :: string
  TotalPlaybacks :: int
  SuccessfulPlaybacks :: int
  FailedPlaybacks :: int
  SuccessRate :: float64
  ConsecutiveSuccesses :: int
  ConsecutiveFailures :: int
  OutcomeCounts :: "(string, int) gomap"
  ps_CodecStats :: "(string, CodecStats) gomap"
  ps_FirstSeen :: time
  LastPlayback :: time
  LastSuccess :: time
  LastFailure :: time
  CurrentTrustDelta :: float64
  NeedsReProbe :: bool
  ReProbeReason :: string

record TrustAdjustmentConfig =
  SuccessBonus :: float64
  NetworkErrorPenalty :: float64
  CodecErrorPenalty :: float64
  DecodingFailedPenalty :: float64
  RendererCrashPenalty :: float64
  MaxTrust :: float64
  MinTrust :: float64
  FailureWindowSize :: int
  SuccessStreakBonus :: float64
  SuccessStreakThreshold :: int

record FeedbackManager =
  events :: "(string, PlaybackEvent list) gomap"
  maxEvents :: int
  windowDuration :: duration
  fm_stats :: "(string, DevicePlaybackStats) gomap"
  trustConfig :: TrustAdjustmentConfig
  onTrustChange :: bool
  onReProbeRequired :: bool

datatype notification =
    ReProbeRequired string string
  | TrustChange string float64 float64

definition DefaultTrustAdjustmentConfig :: TrustAdjustmentConfig where
  "DefaultTrustAdjustmentConfig = \<lparr>SuccessBonus = lit 1 100, NetworkErrorPenalty = lit 5 100,
     CodecErrorPenalty = lit 15 100, DecodingFailedPenalty = lit 25 100, RendererCrashPenalty = lit 30 100,
     MaxTrust = 1, MinTrust = 0, FailureWindowSize = 3, SuccessStreakBonus = lit 5 100,
     SuccessStreakThreshold = 10\<rparr>"

definition NewFeedbackManager :: FeedbackManager where
  "NewFeedbackManager = \<lparr>events = [], maxEvents = 1000, windowDuration = 24 * Hour, fm_stats = [],
     trustConfig = DefaultTrustAdjustmentConfig, onTrustChange = False, onReProbeRequired = False\<rparr>"

definition SetTrustConfig :: "TrustAdjustmentConfig \<Rightarrow> FeedbackManager \<Rightarrow> FeedbackManager" where
  "SetTrustConfig c fm = fm\<lparr>trustConfig := c\<rparr>"
definition SetOnTrustChange :: "FeedbackManager \<Rightarrow> FeedbackManager" where
  "SetOnTrustChange fm = fm\<lparr>onTrustChange := True\<rparr>"
definition SetOnReProbeRequired :: "FeedbackManager \<Rightarrow> FeedbackManager" where
  "SetOnReProbeRequired fm = fm\<lparr>onReProbeRequired := True\<rparr>"

section \<open>Statistics\<close>

fun calculateTrustDeltaFromConfig :: "TrustAdjustmentConfig \<Rightarrow> PlaybackOutcome \<Rightarrow> float64" where
  "calculateTrustDeltaFromConfig c OutcomeSuccess = SuccessBonus c"
| "calculateTrustDeltaFromConfig c OutcomeNetworkError = - NetworkErrorPenalty c"
| "calculateTrustDeltaFromConfig c OutcomeCodecError = - CodecErrorPenalty c"
| "calculateTrustDeltaFromConfig c OutcomeDecodingFailed = - DecodingFailedPenalty c"
| "calculateTrustDeltaFromConfig c OutcomeRendererCrash = - RendererCrashPenalty c"
| "calculateTrustDeltaFromConfig c OutcomeUnsupportedFormat = - CodecErrorPenalty c"
| "calculateTrustDeltaFromConfig c OutcomeTimeout = - NetworkErrorPenalty c"
| "calculateTrustDeltaFromConfig c OutcomeBuffering = fmul (- NetworkErrorPenalty c) (lit 5 10)"
| "calculateTrustDeltaFromConfig c OutcomeUnknown = 0"

definition CalculateTrustDelta :: "PlaybackOutcome \<Rightarrow> FeedbackManager \<Rightarrow> float64" where
  "CalculateTrustDelta x fm = calculateTrustDeltaFromConfig (trustConfig fm) x"

definition zeroCodecStats :: CodecStats where
  "zeroCodecStats = \<lparr>Attempts = 0, Successes = 0, Failures = 0, cs_SuccessRate = 0\<rparr>"

text \<open>A lookup in a Go map of a key that is not there gives the zero value.\<close>

definition getz :: "'v \<Rightarrow> ('k, 'v) gomap \<Rightarrow> 'k \<Rightarrow> 'v" where
  "getz z m k = (case gget m k of None \<Rightarrow> z | Some v \<Rightarrow> v)"

text \<open>The global counters: both codec branches update them in the same way.\<close>

definition count_global :: "time \<Rightarrow> bool \<Rightarrow> DevicePlaybackStats \<Rightarrow> DevicePlaybackStats" where
  "count_global now ok st =
     (if ok then st\<lparr>SuccessfulPlaybacks := SuccessfulPlaybacks st + 1, LastSuccess := now,
              ConsecutiveSuccesses := ConsecutiveSuccesses st + 1, ConsecutiveFailures := 0\<rparr>
      else st\<lparr>FailedPlaybacks := FailedPlaybacks st + 1, LastFailure := now,
              ConsecutiveFailures := ConsecutiveFailures st + 1, ConsecutiveSuccesses := 0\<rparr>)"

definition count_codec :: "string \<Rightarrow> bool \<Rightarrow> DevicePlaybackStats \<Rightarrow> DevicePlaybackStats" where
  "count_codec codecKey ok st =
     (let c0 = getz zeroCodecStats (ps_CodecStats st) codecKey;
          c1 = c0\<lparr>Attempts := Attempts c0 + 1\<rparr>;
          c2 = (if ok then c1\<lparr>Successes := Successes c1 + 1\<rparr> else c1\<lparr>Failures := Failures c1 + 1\<rparr>);
          c3 = c2\<lparr>cs_SuccessRate := fdiv (ffromint (Successes c2)) (ffromint (Attempts c2))\<rparr>
      in st\<lparr>ps_CodecStats := gput (ps_CodecStats st) codecKey c3\<rparr>)"

definition clamp_delta :: "TrustAdjustmentConfig \<Rightarrow> float64 \<Rightarrow> float64" where
  "clamp_delta c x =
     (let y = (if x > MaxTrust c then MaxTrust c else x) in if y < MinTrust c then MinTrust c else y)"

definition apply_delta :: "TrustAdjustmentConfig \<Rightarrow> float64 \<Rightarrow> DevicePlaybackStats \<Rightarrow> DevicePlaybackStats" where
  "apply_delta c delta st =
     (let st1 = st\<lparr>CurrentTrustDelta := clamp_delta c (fadd (CurrentTrustDelta st) delta)\<rparr>
      in if ConsecutiveSuccesses st1 \<ge> SuccessStreakThreshold c
         then st1\<lparr>CurrentTrustDelta := clamp_delta c (fadd (CurrentTrustDelta st1) (SuccessStreakBonus c))\<rparr>
         else st1)"

definition updateStats ::
  "time \<Rightarrow> TrustAdjustmentConfig \<Rightarrow> PlaybackFeedback \<Rightarrow> float64 \<Rightarrow> DevicePlaybackStats \<Rightarrow> DevicePlaybackStats" where
  "updateStats now c f delta st0 =
     (let ok = (Outcome f = OutcomeSuccess);
          s = Outcome_String (Outcome f);
          st1 = st0\<lparr>TotalPlaybacks := TotalPlaybacks st0 + 1, LastPlayback := now,
                  OutcomeCounts := gput (OutcomeCounts st0) s (getz 0 (OutcomeCounts st0) s + 1)\<rparr>;
          st2 = (if VideoCodec f \<noteq> [] then count_codec (''video:'' @ VideoCodec f) ok (count_global now ok st1) else st1);
          st3 = (if AudioCodec f \<noteq> []
                 then count_codec (''audio:'' @ AudioCodec f) ok (if VideoCodec f = [] then count_global now ok st2 else st2)
                 else st2);
          st4 = (if TotalPlaybacks st3 > 0
                 then st3\<lparr>SuccessRate := fdiv (ffromint (SuccessfulPlaybacks st3)) (ffromint (TotalPlaybacks st3))\<rparr>
                 else st3)
      in apply_delta c delta st4)"

definition failureRate :: "DevicePlaybackStats \<Rightarrow> float64" where
  "failureRate st = fdiv (ffromint (FailedPlaybacks st)) (ffromint (TotalPlaybacks st))"

definition FM_shouldReProbe :: "TrustAdjustmentConfig \<Rightarrow> DevicePlaybackStats \<Rightarrow> bool" where
  "FM_shouldReProbe c st \<longleftrightarrow>
     ConsecutiveFailures st \<ge> FailureWindowSize c
     \<or> (TotalPlaybacks st \<ge> 10 \<and> failureRate st > lit 5 10)"

text \<open>The verb \<^verbatim>\<open>%.1f\<close> of a non-negative double.\<close>

definition fixed1 :: "float64 \<Rightarrow> string" where
  "fixed1 x = (let n = rne (10 * x) in Itoa (n div 10) @ ''.'' @ Itoa (n mod 10))"

definition getReProbeReason :: "TrustAdjustmentConfig \<Rightarrow> DevicePlaybackStats \<Rightarrow> string" where
  "getReProbeReason c st =
     (if ConsecutiveFailures st \<ge> FailureWindowSize c then Itoa (ConsecutiveFailures st) @ '' consecutive failures''
      else if TotalPlaybacks st \<ge> 10 \<and> failureRate st > lit 5 10
      then ''high failure rate: '' @ fixed1 (fmul (failureRate st) 100) @ ''%''
      else ''unknown'')"

section \<open>Recording\<close>

definition newStats :: "string \<Rightarrow> time \<Rightarrow> DevicePlaybackStats" where
  "newStats deviceID firstSeen = \<lparr>ps_DeviceID = deviceID, TotalPlaybacks = 0, SuccessfulPlaybacks = 0,
     FailedPlaybacks = 0, SuccessRate = 0, ConsecutiveSuccesses = 0, ConsecutiveFailures = 0,
     OutcomeCounts = [], ps_CodecStats = [], ps_FirstSeen = firstSeen, LastPlayback = zeroTime,
     LastSuccess = zeroTime, LastFailure = zeroTime, CurrentTrustDelta = 0, NeedsReProbe = False,
     ReProbeReason = []\<rparr>"

definition trim_events :: "int \<Rightarrow> PlaybackEvent list \<Rightarrow> PlaybackEvent list" where
  "trim_events m es = (if int (length es) > m then drop (nat (int (length es) - m)) es else es)"

definition recordFeedback ::
  "time \<Rightarrow> PlaybackFeedback \<Rightarrow> FeedbackManager \<Rightarrow> notification list \<times> FeedbackManager" where
  "recordFeedback now feedback fm0 =
     (let f = feedback\<lparr>fb_Timestamp := now\<rparr>; d = fb_DeviceID f;
          fm = (if gget (events fm0) d = None
                then fm0\<lparr>events := gput (events fm0) d [], fm_stats := gput (fm_stats fm0) d (newStats d now)\<rparr>
                else fm0);
          delta = calculateTrustDeltaFromConfig (trustConfig fm) (Outcome f);
          event = \<lparr>ev_Feedback = f, TrustDelta = delta, ev_Timestamp = now, IsRecent = True\<rparr>;
          es = trim_events (maxEvents fm) (getz [] (events fm) d @ [event]);
          st0 = getz (newStats d now) (fm_stats fm) d;
          st1 = updateStats now (trustConfig fm) f delta st0;
          need = FM_shouldReProbe (trustConfig fm) st1;
          reason = getReProbeReason (trustConfig fm) st1;
          st2 = (if need then st1\<lparr>NeedsReProbe := True, ReProbeReason := reason\<rparr> else st1)
      in ((if need \<and> onReProbeRequired fm then [ReProbeRequired d reason] else [])
            @ (if onTrustChange fm then [TrustChange d (CurrentTrustDelta st0) (CurrentTrustDelta st2)] else []),
          fm\<lparr>events := gput (events fm) d es, fm_stats := gput (fm_stats fm) d st2\<rparr>))"

definition FM_RecordSuccess where
  "FM_RecordSuccess now feedback fm = recordFeedback now (feedback\<lparr>Outcome := OutcomeSuccess\<rparr>) fm"

definition FM_RecordFailure where
  "FM_RecordFailure now feedback fm = recordFeedback now feedback fm"

section \<open>Queries and maintenance\<close>

definition ShouldReProbe :: "string \<Rightarrow> FeedbackManager \<Rightarrow> bool \<times> string" where
  "ShouldReProbe d fm =
     (case gget (fm_stats fm) d of
        None \<Rightarrow> (False, [])
      | Some st \<Rightarrow> if FM_shouldReProbe (trustConfig fm) st then (True, ReProbeReason st) else (False, []))"

definition GetPlaybackStats :: "string \<Rightarrow> FeedbackManager \<Rightarrow> DevicePlaybackStats" where
  "GetPlaybackStats d fm = getz (newStats d zeroTime) (fm_stats fm) d"

definition GetReliableCodecs :: "string \<Rightarrow> float64 \<Rightarrow> FeedbackManager \<Rightarrow> string list" where
  "GetReliableCodecs d minSuccessRate fm =
     (case gget (fm_stats fm) d of
        None \<Rightarrow> []
      | Some st \<Rightarrow> map fst (filter (\<lambda>(k, cs). Attempts cs \<ge> 3 \<and> cs_SuccessRate cs \<ge> minSuccessRate) (ps_CodecStats st)))"

definition GetAllStats :: "FeedbackManager \<Rightarrow> (string, DevicePlaybackStats) gomap" where
  "GetAllStats fm = fm_stats fm"

definition ExpireOldEvents :: "time \<Rightarrow> FeedbackManager \<Rightarrow> int \<times> FeedbackManager" where
  "ExpireOldEvents now fm =
     (let cutoff = Add now (- windowDuration fm);
          recent = filter (\<lambda>e. After (ev_Timestamp e) cutoff)
      in (\<Sum>(d, es)\<leftarrow>events fm. int (length es) - int (length (recent es)),
          fm\<lparr>events := map (\<lambda>(d, es). (d, if length (recent es) < length es then recent es else es)) (events fm)\<rparr>))"

text \<open>\<open>None\<close> is the panic of \<^verbatim>\<open>make\<close> with a negative capacity.\<close>

definition GetRecentEvents :: "string \<Rightarrow> int \<Rightarrow> FeedbackManager \<Rightarrow> PlaybackFeedback list option" where
  "GetRecentEvents d limit fm =
     (case gget (events fm) d of
        None \<Rightarrow> Some []
      | Some es \<Rightarrow>
          if limit < 0 then None
          else Some (map ev_Feedback (drop (nat (int (length es) - limit)) es)))"

definition GetTrustAdjustment :: "string \<Rightarrow> FeedbackManager \<Rightarrow> float64" where
  "GetTrustAdjustment d fm = (case gget (fm_stats fm) d of None \<Rightarrow> 0 | Some st \<Rightarrow> CurrentTrustDelta st)"

definition update_stats_of ::
  "string \<Rightarrow> (DevicePlaybackStats \<Rightarrow> DevicePlaybackStats) \<Rightarrow> FeedbackManager \<Rightarrow> FeedbackManager" where
  "update_stats_of d f fm =
     (case gget (fm_stats fm) d of None \<Rightarrow> fm | Some st \<Rightarrow> fm\<lparr>fm_stats := gput (fm_stats fm) d (f st)\<rparr>)"

definition setTrustDelta :: "string \<Rightarrow> float64 \<Rightarrow> FeedbackManager \<Rightarrow> FeedbackManager" where
  "setTrustDelta d delta = update_stats_of d (\<lambda>st. st\<lparr>CurrentTrustDelta := delta\<rparr>)"

definition ResetTrustAdjustment :: "string \<Rightarrow> FeedbackManager \<Rightarrow> FeedbackManager" where
  "ResetTrustAdjustment d = update_stats_of d (\<lambda>st. st\<lparr>CurrentTrustDelta := 0, ConsecutiveSuccesses := 0,
     ConsecutiveFailures := 0, NeedsReProbe := False, ReProbeReason := []\<rparr>)"

definition ClearDeviceData :: "string \<Rightarrow> FeedbackManager \<Rightarrow> FeedbackManager" where
  "ClearDeviceData d fm = fm\<lparr>events := gdel (events fm) d, fm_stats := gdel (fm_stats fm) d\<rparr>"

record GlobalStats =
  total_devices :: int
  total_playbacks :: int
  total_successes :: int
  total_failures :: int
  global_success_rate :: float64
  devices_needing_reprobe :: int
  outcome_totals :: "(string, int) gomap"

definition GetGlobalStats :: "FeedbackManager \<Rightarrow> GlobalStats" where
  "GetGlobalStats fm =
     (let sts = map snd (fm_stats fm);
          tp = sum_list (map TotalPlaybacks sts); ts = sum_list (map SuccessfulPlaybacks sts)
      in \<lparr>total_devices = int (length (fm_stats fm)), total_playbacks = tp, total_successes = ts,
          total_failures = sum_list (map FailedPlaybacks sts),
          global_success_rate = (if tp > 0 then fdiv (ffromint ts) (ffromint tp) else 0),
          devices_needing_reprobe = int (length (filter NeedsReProbe sts)),
          outcome_totals = fold (\<lambda>(x, n) m. gput m x (getz 0 m x + n)) (concat (map OutcomeCounts sts)) []\<rparr>)"

definition SortCodecStatsBySuccessRate :: "(string, CodecStats) gomap \<Rightarrow> (string \<times> CodecStats) list" where
  "SortCodecStatsBySuccessRate m = sort_key (\<lambda>(k, cs). - cs_SuccessRate cs) m"

definition CalculateBufferHealth :: "duration \<Rightarrow> duration \<Rightarrow> float64" where
  "CalculateBufferHealth bufferDuration totalDuration =
     (if totalDuration = 0 then 0
      else min 1 (max 0 (fdiv (ffromint bufferDuration) (ffromint totalDuration))))"


section \<open>Invariant of a device's statistics\<close>

lemma getz_gput [gomap_simps]: "getz z (gput m k v) j = (if j = k then v else getz z m j)"
  by (simp add: getz_def gget_gput)

lemma sum_counts_gput:
  "sum_list (map snd (gput m k (getz 0 m k + n))) = sum_list (map snd m) + (n :: int)"
proof (induction m)
  case (Cons a m)
  obtain j v where a: "a = (j, v)" by force
  show ?case
  proof (cases "j = k")
    case False
    have "getz 0 (a # m) k = getz 0 m k" using False by (simp add: a getz_def gget_Cons)
    then show ?thesis using Cons False by (simp add: a gput_def)
  qed (simp add: a gput_def getz_def gget_Cons)
qed (simp add: gput_def getz_def)

lemma ratio_unit:
  assumes "0 \<le> a" and "a \<le> b"
  shows "0 \<le> fdiv (ffromint a) (ffromint b) \<and> fdiv (ffromint a) (ffromint b) \<le> 1"
proof -
  have "0 \<le> ffromint a" unfolding ffromint_def using assms by (intro f64.rnd_nonneg) simp
  moreover have "ffromint a \<le> ffromint b" unfolding ffromint_def using assms by (intro f64.rnd_mono) simp
  ultimately show ?thesis unfolding fdiv_def
    by (intro f64.rnd_unit) (auto simp: divide_le_eq_1)
qed

definition codec_ok :: "CodecStats \<Rightarrow> bool" where
  "codec_ok cs \<longleftrightarrow> 0 \<le> Successes cs \<and> 0 \<le> Failures cs \<and> Attempts cs = Successes cs + Failures cs
     \<and> 0 \<le> cs_SuccessRate cs \<and> cs_SuccessRate cs \<le> 1"

definition counts_ok :: "DevicePlaybackStats \<Rightarrow> bool" where
  "counts_ok st \<longleftrightarrow> 0 \<le> SuccessfulPlaybacks st \<and> 0 \<le> FailedPlaybacks st
     \<and> SuccessfulPlaybacks st + FailedPlaybacks st \<le> TotalPlaybacks st
     \<and> TotalPlaybacks st = sum_list (map snd (OutcomeCounts st))
     \<and> (ConsecutiveSuccesses st = 0 \<or> ConsecutiveFailures st = 0)
     \<and> 0 \<le> ConsecutiveSuccesses st \<and> ConsecutiveSuccesses st \<le> SuccessfulPlaybacks st
     \<and> 0 \<le> ConsecutiveFailures st \<and> ConsecutiveFailures st \<le> FailedPlaybacks st
     \<and> (\<forall>k cs. gget (ps_CodecStats st) k = Some cs \<longrightarrow> codec_ok cs)"

definition stats_ok :: "TrustAdjustmentConfig \<Rightarrow> DevicePlaybackStats \<Rightarrow> bool" where
  "stats_ok c st \<longleftrightarrow> counts_ok st \<and> 0 \<le> SuccessRate st \<and> SuccessRate st \<le> 1
     \<and> MinTrust c \<le> CurrentTrustDelta st \<and> CurrentTrustDelta st \<le> MaxTrust c"

lemma clamp_delta_range: "MinTrust c \<le> MaxTrust c \<Longrightarrow> MinTrust c \<le> clamp_delta c x \<and> clamp_delta c x \<le> MaxTrust c"
  by (auto simp: clamp_delta_def Let_def)

lemma apply_delta_fields:
  "counts_ok (apply_delta c x st) = counts_ok st" "SuccessRate (apply_delta c x st) = SuccessRate st"
  "ConsecutiveFailures (apply_delta c x st) = ConsecutiveFailures st"
  "ConsecutiveSuccesses (apply_delta c x st) = ConsecutiveSuccesses st"
  "SuccessfulPlaybacks (apply_delta c x st) = SuccessfulPlaybacks st"
  "FailedPlaybacks (apply_delta c x st) = FailedPlaybacks st"
  "ps_DeviceID (apply_delta c x st) = ps_DeviceID st"
  by (simp_all add: apply_delta_def Let_def counts_ok_def)

lemma apply_delta_range:
  "MinTrust c \<le> MaxTrust c \<Longrightarrow>
     MinTrust c \<le> CurrentTrustDelta (apply_delta c x st) \<and> CurrentTrustDelta (apply_delta c x st) \<le> MaxTrust c"
  using clamp_delta_range by (simp add: apply_delta_def Let_def)

lemma count_codec_ok:
  "counts_ok st \<Longrightarrow> counts_ok (count_codec k ok st)"
proof -
  assume a: "counts_ok st"
  let ?c = "getz zeroCodecStats (ps_CodecStats st) k"
  have "codec_ok ?c" using a
    by (auto simp: getz_def counts_ok_def zeroCodecStats_def codec_ok_def split: option.splits)
  then have "codec_ok (if ok then ?c\<lparr>Attempts := Attempts ?c + 1, Successes := Successes ?c + 1,
        cs_SuccessRate := fdiv (ffromint (Successes ?c + 1)) (ffromint (Attempts ?c + 1))\<rparr>
      else ?c\<lparr>Attempts := Attempts ?c + 1, Failures := Failures ?c + 1,
        cs_SuccessRate := fdiv (ffromint (Successes ?c)) (ffromint (Attempts ?c + 1))\<rparr>)"
    by (auto simp: codec_ok_def ratio_unit)
  then show ?thesis using a
    by (auto simp: counts_ok_def count_codec_def Let_def gget_gput split: if_splits)
qed

lemma count_codec_fields:
  "ConsecutiveFailures (count_codec k ok st) = ConsecutiveFailures st"
  "ConsecutiveSuccesses (count_codec k ok st) = ConsecutiveSuccesses st"
  "SuccessfulPlaybacks (count_codec k ok st) = SuccessfulPlaybacks st"
  "FailedPlaybacks (count_codec k ok st) = FailedPlaybacks st"
  "TotalPlaybacks (count_codec k ok st) = TotalPlaybacks st"
  "SuccessRate (count_codec k ok st) = SuccessRate st"
  "CurrentTrustDelta (count_codec k ok st) = CurrentTrustDelta st"
  "ps_DeviceID (count_codec k ok st) = ps_DeviceID st"
  by (simp_all add: count_codec_def Let_def)

text \<open>Counting one playback globally, after the total has been raised.\<close>

lemma count_global_ok:
  assumes "counts_ok st" and "t = st\<lparr>TotalPlaybacks := TotalPlaybacks st + 1, LastPlayback := now,
      OutcomeCounts := gput (OutcomeCounts st) k (getz 0 (OutcomeCounts st) k + 1)\<rparr>"
  shows "counts_ok t" and "counts_ok (count_global now ok t)"
  using assms sum_counts_gput [of "OutcomeCounts st" k 1]
  by (auto simp: counts_ok_def count_global_def)

lemma updateStats_ok:
  assumes "counts_ok st" and "MinTrust c \<le> MaxTrust c"
  shows "stats_ok c (updateStats now c f x st)"
proof -
  let ?ok = "Outcome f = OutcomeSuccess" and ?k = "Outcome_String (Outcome f)"
  define t where "t = st\<lparr>TotalPlaybacks := TotalPlaybacks st + 1, LastPlayback := now,
      OutcomeCounts := gput (OutcomeCounts st) ?k (getz 0 (OutcomeCounts st) ?k + 1)\<rparr>"
  note g = count_global_ok [OF assms(1) t_def]
  define u where "u = (if VideoCodec f \<noteq> [] then count_codec (''video:'' @ VideoCodec f) ?ok (count_global now ?ok t) else t)"
  have u: "counts_ok u" using g by (auto simp: u_def intro: count_codec_ok)
  define v where "v = (if AudioCodec f \<noteq> []
      then count_codec (''audio:'' @ AudioCodec f) ?ok (if VideoCodec f = [] then count_global now ?ok u else u) else u)"
  have v: "counts_ok v" using g u by (auto simp: v_def u_def intro!: count_codec_ok)
  have tot: "0 < TotalPlaybacks v"
    using assms(1) by (auto simp: v_def u_def t_def count_codec_fields count_global_def counts_ok_def)
  define w where "w = v\<lparr>SuccessRate := fdiv (ffromint (SuccessfulPlaybacks v)) (ffromint (TotalPlaybacks v))\<rparr>"
  have w: "counts_ok w" "0 \<le> SuccessRate w" "SuccessRate w \<le> 1"
    using v ratio_unit [of "SuccessfulPlaybacks v" "TotalPlaybacks v"] by (auto simp: w_def counts_ok_def)
  have "updateStats now c f x st = apply_delta c x w"
    unfolding updateStats_def Let_def t_def [symmetric] u_def [symmetric] v_def [symmetric] w_def using tot by simp
  then show ?thesis using w apply_delta_range [OF assms(2)]
    by (simp add: stats_ok_def apply_delta_fields)
qed

section \<open>Invariant of the manager\<close>

definition fm_inv :: "FeedbackManager \<Rightarrow> bool" where
  "fm_inv fm \<longleftrightarrow> gwf (events fm) \<and> gwf (fm_stats fm)
     \<and> (\<forall>d. gget (events fm) d = None \<longleftrightarrow> gget (fm_stats fm) d = None)
     \<and> (\<forall>d es. gget (events fm) d = Some es \<longrightarrow> int (length es) \<le> maxEvents fm)
     \<and> (\<forall>d st. gget (fm_stats fm) d = Some st \<longrightarrow> ps_DeviceID st = d \<and> stats_ok (trustConfig fm) st)"

definition config_ok :: "FeedbackManager \<Rightarrow> bool" where
  "config_ok fm \<longleftrightarrow> MinTrust (trustConfig fm) \<le> 0 \<and> 0 \<le> MaxTrust (trustConfig fm) \<and> 0 \<le> maxEvents fm"

datatype feedback_call =
    Record time PlaybackFeedback
  | Expire time
  | Reset string
  | Clear string

fun feedback_step :: "feedback_call \<Rightarrow> FeedbackManager \<Rightarrow> FeedbackManager" where
  "feedback_step (Record now f) fm = snd (recordFeedback now f fm)"
| "feedback_step (Expire now) fm = snd (ExpireOldEvents now fm)"
| "feedback_step (Reset d) fm = ResetTrustAdjustment d fm"
| "feedback_step (Clear d) fm = ClearDeviceData d fm"


text \<open>What a recording does to the manager, in one equation per component.\<close>

definition old_stats :: "time \<Rightarrow> string \<Rightarrow> FeedbackManager \<Rightarrow> DevicePlaybackStats" where
  "old_stats now d fm = (if gget (events fm) d = None then newStats d now else getz (newStats d now) (fm_stats fm) d)"

definition new_stats :: "time \<Rightarrow> PlaybackFeedback \<Rightarrow> FeedbackManager \<Rightarrow> DevicePlaybackStats" where
  "new_stats now f fm =
     (let c = trustConfig fm;
          st = updateStats now c (f\<lparr>fb_Timestamp := now\<rparr>) (calculateTrustDeltaFromConfig c (Outcome f)) (old_stats now (fb_DeviceID f) fm)
      in if FM_shouldReProbe c st then st\<lparr>NeedsReProbe := True, ReProbeReason := getReProbeReason c st\<rparr> else st)"

lemma recordFeedback_parts:
  "trustConfig (snd (recordFeedback now f fm)) = trustConfig fm"
  "maxEvents (snd (recordFeedback now f fm)) = maxEvents fm"
  "gget (fm_stats (snd (recordFeedback now f fm))) j =
     (if j = fb_DeviceID f then Some (new_stats now f fm) else gget (fm_stats fm) j)"
  by (auto simp: recordFeedback_def new_stats_def old_stats_def Let_def gomap_simps getz_gput)

lemma recordFeedback_events:
  assumes "0 \<le> maxEvents fm"
  shows "\<exists>es. gget (events (snd (recordFeedback now f fm))) = (gget (events fm))(fb_DeviceID f := Some es) \<and> int (length es) \<le> maxEvents fm"
proof -
  have "int (length (trim_events (maxEvents fm) es)) \<le> maxEvents fm" for es
    using assms by (auto simp: trim_events_def)
  then show ?thesis by (auto simp: recordFeedback_def Let_def gget_gput fun_eq_iff)
qed

lemma recordFeedback_gwf:
  "gwf (events fm) \<Longrightarrow> gwf (events (snd (recordFeedback now f fm)))"
  "gwf (fm_stats fm) \<Longrightarrow> gwf (fm_stats (snd (recordFeedback now f fm)))"
  by (auto simp: recordFeedback_def Let_def)

lemma counts_ok_new: "counts_ok (newStats d now)"
  by (simp add: counts_ok_def newStats_def)

lemma stats_ok_flags: "stats_ok c (st\<lparr>NeedsReProbe := b, ReProbeReason := r\<rparr>) = stats_ok c st"
  by (simp add: stats_ok_def counts_ok_def)

lemma old_stats_ok: "fm_inv fm \<Longrightarrow> counts_ok (old_stats now d fm) \<and> ps_DeviceID (old_stats now d fm) = d"
  using counts_ok_new by (auto simp: old_stats_def getz_def fm_inv_def stats_ok_def newStats_def split: option.splits)

lemma updateStats_id: "ps_DeviceID (updateStats now c f x st) = ps_DeviceID st"
  by (simp add: updateStats_def Let_def apply_delta_fields count_codec_fields count_global_def)

lemma fm_inv_record:
  assumes inv: "fm_inv fm" and c: "config_ok fm"
  shows "fm_inv (snd (recordFeedback now f fm))"
proof -
  let ?fm = "snd (recordFeedback now f fm)"
  have range: "MinTrust (trustConfig fm) \<le> MaxTrust (trustConfig fm)" using c by (simp add: config_ok_def)
  have st: "stats_ok (trustConfig fm) (new_stats now f fm)" "ps_DeviceID (new_stats now f fm) = fb_DeviceID f"
    using updateStats_ok [OF _ range] old_stats_ok [OF inv]
    by (simp_all add: new_stats_def Let_def stats_ok_flags updateStats_id)
  obtain es where es: "gget (events ?fm) = (gget (events fm))(fb_DeviceID f := Some es)" "int (length es) \<le> maxEvents fm"
    using recordFeedback_events [of fm now f] c by (auto simp: config_ok_def)
  show ?thesis using inv st es(2) recordFeedback_gwf [of fm now f]
    by (auto simp: fm_inv_def recordFeedback_parts es(1) split: if_splits)
qed

lemma gget_map_snd: "gget (map (\<lambda>(d, x). (d, f x)) m) k = map_option f (gget m k)"
  by (induction m) (auto simp: gget_def)

lemma gwf_map_snd: "gwf (map (\<lambda>(d, x). (d, f x)) m) = gwf m"
  by (simp add: gwf_def comp_def case_prod_unfold)

lemma fm_inv_expire: "fm_inv fm \<Longrightarrow> fm_inv (snd (ExpireOldEvents now fm))"
  unfolding fm_inv_def ExpireOldEvents_def Let_def
  by (auto simp: gget_map_snd gwf_map_snd split: if_splits) fastforce

lemma stats_ok_reset:
  "stats_ok c st \<Longrightarrow> MinTrust c \<le> 0 \<Longrightarrow> 0 \<le> MaxTrust c \<Longrightarrow>
     stats_ok c (st\<lparr>CurrentTrustDelta := 0, ConsecutiveSuccesses := 0, ConsecutiveFailures := 0, NeedsReProbe := b, ReProbeReason := r\<rparr>)"
  by (simp add: stats_ok_def counts_ok_def)

lemma fm_inv_reset: "fm_inv fm \<Longrightarrow> config_ok fm \<Longrightarrow> fm_inv (ResetTrustAdjustment d fm)"
  by (auto simp: fm_inv_def config_ok_def ResetTrustAdjustment_def update_stats_of_def gomap_simps stats_ok_reset
      split: option.splits if_splits)

lemma fm_inv_clear: "fm_inv fm \<Longrightarrow> fm_inv (ClearDeviceData d fm)"
  by (auto simp: fm_inv_def ClearDeviceData_def gomap_simps split: if_splits)

lemma feedback_config: "trustConfig (feedback_step x fm) = trustConfig fm \<and> maxEvents (feedback_step x fm) = maxEvents fm"
  by (cases x) (auto simp: recordFeedback_parts ExpireOldEvents_def Let_def ResetTrustAdjustment_def update_stats_of_def
      ClearDeviceData_def split: option.splits)

lemma fm_inv_run:
  "fm_inv fm \<Longrightarrow> config_ok fm \<Longrightarrow> fm_inv (fold feedback_step cs fm) \<and> trustConfig (fold feedback_step cs fm) = trustConfig fm"
proof (induction cs arbitrary: fm)
  case (Cons x cs)
  have "fm_inv (feedback_step x fm)" using Cons.prems fm_inv_record fm_inv_expire fm_inv_reset fm_inv_clear by (cases x) auto
  moreover have "config_ok (feedback_step x fm)" using Cons.prems(2) feedback_config [of x fm] by (simp add: config_ok_def)
  ultimately show ?case using Cons.IH feedback_config [of x fm] by simp
qed simp

text \<open>
  Whatever feedback arrives for whatever devices, and whatever is expired, reset or cleared
  in between, the statistics of every device add up: successes and failures are at most the total,
  the total is the sum of the outcome counters, at most one of the two streaks is running and none
  exceeds its total, every codec's attempts are its successes plus its failures, all rates lie
  between 0 and 1, and the trust adjustment stays within its configured limits.
\<close>

theorem feedback_statistics_add_up:
  assumes "MinTrust c \<le> 0" and "0 \<le> MaxTrust c"
    and "gget (fm_stats (fold feedback_step cs (SetTrustConfig c NewFeedbackManager))) d = Some st"
  shows "0 \<le> SuccessfulPlaybacks st \<and> 0 \<le> FailedPlaybacks st
    \<and> SuccessfulPlaybacks st + FailedPlaybacks st \<le> TotalPlaybacks st
    \<and> TotalPlaybacks st = sum_list (map snd (OutcomeCounts st))
    \<and> (ConsecutiveSuccesses st = 0 \<or> ConsecutiveFailures st = 0)
    \<and> ConsecutiveSuccesses st \<le> SuccessfulPlaybacks st \<and> ConsecutiveFailures st \<le> FailedPlaybacks st
    \<and> (\<forall>k cs. gget (ps_CodecStats st) k = Some cs \<longrightarrow>
          Attempts cs = Successes cs + Failures cs \<and> 0 \<le> cs_SuccessRate cs \<and> cs_SuccessRate cs \<le> 1)
    \<and> 0 \<le> SuccessRate st \<and> SuccessRate st \<le> 1
    \<and> MinTrust c \<le> CurrentTrustDelta st \<and> CurrentTrustDelta st \<le> MaxTrust c"
proof -
  let ?fm = "SetTrustConfig c NewFeedbackManager"
  have "fm_inv ?fm" "config_ok ?fm" using assms(1,2)
    by (simp_all add: fm_inv_def config_ok_def SetTrustConfig_def NewFeedbackManager_def)
  from fm_inv_run [OF this, of cs]
  have i: "fm_inv (fold feedback_step cs ?fm)" "trustConfig (fold feedback_step cs ?fm) = c"
    by (simp_all add: SetTrustConfig_def)
  then have "stats_ok c st" using assms(3) unfolding fm_inv_def by metis
  then show ?thesis by (auto simp: stats_ok_def counts_ok_def codec_ok_def)
qed


theorem feedback_statistics_add_up_witness:
  "\<exists>st. gget (fm_stats (fold feedback_step
       [Record 5 \<lparr>fb_DeviceID = ''tv'', MediaID = ''m'', Outcome = OutcomeCodecError, ErrorCode = [], ErrorMessage = [],
          fb_Timestamp = 0, fb_Duration = 0, BufferDuration = 0, NetworkQuality = [], VideoCodec = ''hevc'',
          AudioCodec = ''aac'', fb_Container = [], fb_Resolution = [], fb_Bitrate = 0\<rparr>]
       (SetTrustConfig DefaultTrustAdjustmentConfig NewFeedbackManager))) ''tv'' = Some st
     \<and> SuccessfulPlaybacks st + FailedPlaybacks st \<le> TotalPlaybacks st"
proof -
  let ?f = "\<lparr>fb_DeviceID = ''tv'', MediaID = ''m'', Outcome = OutcomeCodecError, ErrorCode = [], ErrorMessage = [],
          fb_Timestamp = 0, fb_Duration = 0, BufferDuration = 0, NetworkQuality = [], VideoCodec = ''hevc'',
          AudioCodec = ''aac'', fb_Container = [], fb_Resolution = [], fb_Bitrate = 0\<rparr>"
  let ?fm = "SetTrustConfig DefaultTrustAdjustmentConfig NewFeedbackManager"
  have g: "gget (fm_stats (fold feedback_step [Record 5 ?f] ?fm)) ''tv'' = Some (new_stats 5 ?f ?fm)"
    by (simp add: recordFeedback_parts)
  show ?thesis using feedback_statistics_add_up [OF _ _ g] g by (auto simp: DefaultTrustAdjustmentConfig_def)
qed

section \<open>Failures\<close>

lemma failure_delta:
  assumes "x \<noteq> OutcomeSuccess" and "0 \<le> NetworkErrorPenalty c" and "0 \<le> CodecErrorPenalty c"
    and "0 \<le> DecodingFailedPenalty c" and "0 \<le> RendererCrashPenalty c"
  shows "calculateTrustDeltaFromConfig c x \<le> 0"
proof -
  have "fmul (- NetworkErrorPenalty c) (lit 5 10) \<le> fl 0" unfolding fmul_def
  proof (rule f64.rnd_mono)
    have "0 \<le> lit 5 10" unfolding lit_def by (rule f64.rnd_nonneg) simp
    then show "- NetworkErrorPenalty c * lit 5 10 \<le> 0" using assms(2) by (simp add: mult_nonpos_nonneg)
  qed
  then show ?thesis using assms by (cases x) auto
qed

lemma default_penalties:
  "0 \<le> NetworkErrorPenalty DefaultTrustAdjustmentConfig" "0 \<le> CodecErrorPenalty DefaultTrustAdjustmentConfig"
  "0 \<le> DecodingFailedPenalty DefaultTrustAdjustmentConfig" "0 \<le> RendererCrashPenalty DefaultTrustAdjustmentConfig"
  by (auto simp: DefaultTrustAdjustmentConfig_def lit_def intro!: f64.rnd_nonneg)

text \<open>The streaks and the adjustment after an update.\<close>

lemma updateStats_streaks:
  "ConsecutiveFailures (updateStats now c f x st) =
     (if VideoCodec f = [] \<and> AudioCodec f = [] then ConsecutiveFailures st
      else if Outcome f = OutcomeSuccess then 0 else ConsecutiveFailures st + 1)"
  "ConsecutiveSuccesses (updateStats now c f x st) =
     (if VideoCodec f = [] \<and> AudioCodec f = [] then ConsecutiveSuccesses st
      else if Outcome f = OutcomeSuccess then ConsecutiveSuccesses st + 1 else 0)"
  by (simp_all add: updateStats_def Let_def apply_delta_fields count_codec_fields count_global_def)

lemma updateStats_totals:
  "SuccessfulPlaybacks (updateStats now c f x st) = SuccessfulPlaybacks st +
     (if (VideoCodec f \<noteq> [] \<or> AudioCodec f \<noteq> []) \<and> Outcome f = OutcomeSuccess then 1 else 0)"
  "FailedPlaybacks (updateStats now c f x st) = FailedPlaybacks st +
     (if (VideoCodec f \<noteq> [] \<or> AudioCodec f \<noteq> []) \<and> Outcome f \<noteq> OutcomeSuccess then 1 else 0)"
  "TotalPlaybacks (updateStats now c f x st) = TotalPlaybacks st + 1"
  by (simp_all add: updateStats_def Let_def apply_delta_def count_codec_fields count_global_def)

lemma apply_delta_below:
  assumes "CurrentTrustDelta st = 0" and "x \<le> 0" and "MinTrust c = 0" and "0 \<le> MaxTrust c"
    and "ConsecutiveSuccesses st < SuccessStreakThreshold c"
  shows "CurrentTrustDelta (apply_delta c x st) = 0"
proof -
  have "fadd 0 x \<le> fl 0" unfolding fadd_def by (rule f64.rnd_mono) (use assms(2) in simp)
  then show ?thesis using assms by (simp add: apply_delta_def Let_def clamp_delta_def)
qed

lemma updateStats_delta:
  assumes "CurrentTrustDelta st = 0" and "ConsecutiveSuccesses st = 0" and "Outcome f \<noteq> OutcomeSuccess" and "x \<le> 0"
    and "MinTrust c = 0" and "0 \<le> MaxTrust c" and "0 < SuccessStreakThreshold c"
  shows "CurrentTrustDelta (updateStats now c f x st) = 0 \<and> ConsecutiveSuccesses (updateStats now c f x st) = 0"
proof -
  have "ConsecutiveSuccesses (updateStats now c f x st) = 0" using assms(2,3) by (simp add: updateStats_streaks)
  moreover have "CurrentTrustDelta (updateStats now c f x st) = 0"
    unfolding updateStats_def Let_def using assms
    by (intro apply_delta_below) (auto simp: count_codec_fields count_global_def)
  ultimately show ?thesis by blast
qed

text \<open>
  With the default limits a penalty alone changes nothing: however many playbacks fail and
  in whatever way, a device that never succeeded keeps the trust adjustment 0, because the
  adjustment is clamped at the lower limit of a trust score, 0, after every step.
\<close>

theorem failures_never_lower_the_adjustment:
  assumes "\<forall>(now, f) \<in> set fs. Outcome f \<noteq> OutcomeSuccess"
  shows "GetTrustAdjustment d (fold (\<lambda>(now, f) fm. snd (FM_RecordFailure now f fm)) fs NewFeedbackManager) = 0"
proof -
  let ?c = "DefaultTrustAdjustmentConfig"
  have c: "MinTrust ?c = 0" "0 \<le> MaxTrust ?c" "0 < SuccessStreakThreshold ?c"
    by (simp_all add: DefaultTrustAdjustmentConfig_def)
  define good where "good fm \<longleftrightarrow> trustConfig fm = ?c \<and> (\<forall>d st. gget (fm_stats fm) d = Some st \<longrightarrow>
      CurrentTrustDelta st = 0 \<and> ConsecutiveSuccesses st = 0)" for fm :: FeedbackManager
  have "good (snd (recordFeedback now f fm))" if "good fm" "Outcome f \<noteq> OutcomeSuccess" for now f fm
  proof -
    have "CurrentTrustDelta (old_stats now (fb_DeviceID f) fm) = 0" "ConsecutiveSuccesses (old_stats now (fb_DeviceID f) fm) = 0"
      using that(1) by (auto simp: good_def old_stats_def getz_def newStats_def split: option.splits)
    then have "CurrentTrustDelta (new_stats now f fm) = 0 \<and> ConsecutiveSuccesses (new_stats now f fm) = 0"
      using updateStats_delta [of _ "f\<lparr>fb_Timestamp := now\<rparr>" _ ?c] failure_delta [OF that(2) default_penalties] that c
      by (auto simp: new_stats_def Let_def good_def)
    then show ?thesis using that(1) by (auto simp: good_def recordFeedback_parts)
  qed
  then have "good fm \<Longrightarrow> \<forall>(now, f) \<in> set fs. Outcome f \<noteq> OutcomeSuccess \<Longrightarrow>
      good (fold (\<lambda>(now, f) fm. snd (FM_RecordFailure now f fm)) fs fm)" for fm fs
    by (induction fs arbitrary: fm) (auto simp: FM_RecordFailure_def)
  moreover have "good NewFeedbackManager" by (simp add: good_def NewFeedbackManager_def)
  ultimately have "good (fold (\<lambda>(now, f) fm. snd (FM_RecordFailure now f fm)) fs NewFeedbackManager)" using assms by blast
  then show ?thesis by (auto simp: good_def GetTrustAdjustment_def split: option.splits)
qed


text \<open>A feedback record for the witnesses: one failing playback of an HEVC stream.\<close>

definition sample_feedback :: "PlaybackOutcome \<Rightarrow> string \<Rightarrow> PlaybackFeedback" where
  "sample_feedback x codec = \<lparr>fb_DeviceID = ''tv'', MediaID = ''m'', Outcome = x, ErrorCode = [], ErrorMessage = [],
     fb_Timestamp = 0, fb_Duration = 0, BufferDuration = 0, NetworkQuality = [], VideoCodec = codec,
     AudioCodec = [], fb_Container = [], fb_Resolution = [], fb_Bitrate = 0\<rparr>"

theorem failures_never_lower_the_adjustment_witness:
  "GetTrustAdjustment ''tv'' (snd (FM_RecordFailure 5 (sample_feedback OutcomeRendererCrash ''hevc'') NewFeedbackManager)) = 0"
  using failures_never_lower_the_adjustment [of "[(5, sample_feedback OutcomeRendererCrash ''hevc'')]" "''tv''"]
  by (simp add: sample_feedback_def)

definition streak :: "string \<Rightarrow> FeedbackManager \<Rightarrow> int" where
  "streak d fm = ConsecutiveFailures (getz (newStats d 0) (fm_stats fm) d)"

lemma streak_record:
  fixes now :: time
  assumes "gget (events fm) d = None \<longleftrightarrow> gget (fm_stats fm) d = None"
    and "fb_DeviceID f = d" and "Outcome f \<noteq> OutcomeSuccess" and "VideoCodec f \<noteq> [] \<or> AudioCodec f \<noteq> []"
  defines "fm' \<equiv> snd (recordFeedback now f fm)"
  shows "streak d fm' = streak d fm + 1" and "gget (events fm') d \<noteq> None \<and> gget (fm_stats fm') d \<noteq> None"
    and "trustConfig fm' = trustConfig fm" and "onReProbeRequired fm' = onReProbeRequired fm"
proof -
  have "ConsecutiveFailures (old_stats now d fm) = streak d fm"
    using assms(1) by (auto simp: old_stats_def streak_def getz_def newStats_def split: option.splits)
  then show "streak d fm' = streak d fm + 1"
    using assms(2-4) by (auto simp: fm'_def streak_def getz_def recordFeedback_parts new_stats_def Let_def updateStats_streaks)
  show "gget (events fm') d \<noteq> None \<and> gget (fm_stats fm') d \<noteq> None"
    and "trustConfig fm' = trustConfig fm" and "onReProbeRequired fm' = onReProbeRequired fm"
    using assms(2) by (auto simp: fm'_def recordFeedback_def Let_def gget_gput)
qed

text \<open>The calls a recording starts.\<close>

lemma recordFeedback_calls:
  "let c = trustConfig fm; d = fb_DeviceID f; o0 = old_stats now d fm;
       st = updateStats now c (f\<lparr>fb_Timestamp := now\<rparr>) (calculateTrustDeltaFromConfig c (Outcome f)) o0
   in fst (recordFeedback now f fm) =
        (if FM_shouldReProbe c st \<and> onReProbeRequired fm then [ReProbeRequired d (getReProbeReason c st)] else [])
        @ (if onTrustChange fm then [TrustChange d (CurrentTrustDelta o0) (CurrentTrustDelta (new_stats now f fm))] else [])"
  unfolding recordFeedback_def new_stats_def old_stats_def Let_def
  by (cases "gget (events fm) (fb_DeviceID f)") (simp_all add: getz_gput)

lemma streak_run:
  assumes "\<forall>(now, f) \<in> set fs. fb_DeviceID f = d \<and> Outcome f \<noteq> OutcomeSuccess \<and> (VideoCodec f \<noteq> [] \<or> AudioCodec f \<noteq> [])"
    and "gget (events fm) d = None \<longleftrightarrow> gget (fm_stats fm) d = None"
  defines "fm' \<equiv> fold (\<lambda>(now, f) fm. snd (FM_RecordFailure now f fm)) fs fm"
  shows "streak d fm' = streak d fm + int (length fs) \<and> (gget (events fm') d = None \<longleftrightarrow> gget (fm_stats fm') d = None)
    \<and> trustConfig fm' = trustConfig fm \<and> onReProbeRequired fm' = onReProbeRequired fm"
  using assms(1,2) unfolding fm'_def
proof (induction fs arbitrary: fm)
  case (Cons p fs)
  obtain now f where p: "p = (now, f)" by force
  have h: "fb_DeviceID f = d" "Outcome f \<noteq> OutcomeSuccess" "VideoCodec f \<noteq> [] \<or> AudioCodec f \<noteq> []"
    using Cons.prems(1) by (auto simp: p)
  note s = streak_record [OF Cons.prems(2) h, of now]
  show ?case using Cons.IH [of "snd (recordFeedback now f fm)"] Cons.prems(1) s by (auto simp: p FM_RecordFailure_def)
qed simp

text \<open>
  A device needs a new probe after \<open>FailureWindowSize\<close> failed playbacks in a row: then
  \<open>ShouldReProbe\<close> holds, and the recording that completes the row marks the device and calls
  the registered callback.
\<close>

theorem reprobe_after_failures:
  fixes fm :: FeedbackManager
  assumes "fm_inv fm" and "onReProbeRequired fm" and "fs \<noteq> []"
    and "FailureWindowSize (trustConfig fm) \<le> int (length fs)"
    and "\<forall>(now, f) \<in> set fs. fb_DeviceID f = d \<and> Outcome f \<noteq> OutcomeSuccess \<and> (VideoCodec f \<noteq> [] \<or> AudioCodec f \<noteq> [])"
  defines "before \<equiv> fold (\<lambda>(now, f) fm. snd (FM_RecordFailure now f fm)) (butlast fs) fm"
  defines "r \<equiv> FM_RecordFailure (fst (last fs)) (snd (last fs)) before"
  shows "fst (ShouldReProbe d (snd r)) \<and> NeedsReProbe (GetPlaybackStats d (snd r))
    \<and> (\<exists>reason. ReProbeRequired d reason \<in> set (fst r))"
proof -
  obtain now f where l: "last fs = (now, f)" by force
  have f: "fb_DeviceID f = d" "Outcome f \<noteq> OutcomeSuccess" "VideoCodec f \<noteq> [] \<or> AudioCodec f \<noteq> []"
    using assms(5) last_in_set [OF assms(3)] l by auto
  have b: "\<forall>(now, f) \<in> set (butlast fs). fb_DeviceID f = d \<and> Outcome f \<noteq> OutcomeSuccess \<and> (VideoCodec f \<noteq> [] \<or> AudioCodec f \<noteq> [])"
    using assms(5) in_set_butlastD by fastforce
  have sync: "gget (events fm) d = None \<longleftrightarrow> gget (fm_stats fm) d = None" using assms(1) by (simp add: fm_inv_def)
  note B = streak_run [OF b sync, folded before_def]
  then have sb: "gget (events before) d = None \<longleftrightarrow> gget (fm_stats before) d = None" by blast
  note R = streak_record [OF sb f, of now]
  have "0 \<le> streak d fm"
    using assms(1) by (auto simp: streak_def getz_def newStats_def fm_inv_def stats_ok_def counts_ok_def split: option.splits)
  moreover have "length fs = Suc (length (butlast fs))" using assms(3) by simp
  ultimately have big: "FailureWindowSize (trustConfig fm) \<le> streak d (snd r)"
    using assms(4) B R(1) by (simp add: r_def l FM_RecordFailure_def)
  have st: "gget (fm_stats (snd r)) d = Some (new_stats now f before)"
    using f(1) by (simp add: r_def l FM_RecordFailure_def recordFeedback_parts)
  define u where "u = updateStats now (trustConfig before) (f\<lparr>fb_Timestamp := now\<rparr>)
      (calculateTrustDeltaFromConfig (trustConfig before) (Outcome f)) (old_stats now d before)"
  have cu: "ConsecutiveFailures u = streak d (snd r)"
    using st f(1) by (simp add: streak_def getz_def new_stats_def u_def Let_def)
  have need: "FM_shouldReProbe (trustConfig before) u" using big cu B by (simp add: FM_shouldReProbe_def)
  have cfg: "trustConfig (snd r) = trustConfig fm" using B R(3) by (simp add: r_def l FM_RecordFailure_def)
  have "FM_shouldReProbe (trustConfig (snd r)) (new_stats now f before)"
    using big st cfg by (simp add: FM_shouldReProbe_def streak_def getz_def)
  moreover have "NeedsReProbe (new_stats now f before)"
    using need f(1) by (simp add: new_stats_def u_def Let_def)
  moreover have "ReProbeRequired d (getReProbeReason (trustConfig before) u) \<in> set (fst r)"
    using recordFeedback_calls [of before f now] need B assms(2)
    by (simp add: r_def l FM_RecordFailure_def f(1) u_def Let_def)
  ultimately show ?thesis using st by (auto simp: ShouldReProbe_def GetPlaybackStats_def getz_def)
qed


theorem reprobe_after_failures_witness:
  "let fm = SetOnReProbeRequired NewFeedbackManager; f = sample_feedback OutcomeCodecError ''hevc'';
       b = snd (FM_RecordFailure 2 f (snd (FM_RecordFailure 1 f fm)))
   in NeedsReProbe (GetPlaybackStats ''tv'' (snd (FM_RecordFailure 3 f b)))"
  using reprobe_after_failures [of "SetOnReProbeRequired NewFeedbackManager"
      "[(1, sample_feedback OutcomeCodecError ''hevc''), (2, sample_feedback OutcomeCodecError ''hevc''),
        (3, sample_feedback OutcomeCodecError ''hevc'')]" "''tv''"]
  by (simp add: fm_inv_def SetOnReProbeRequired_def NewFeedbackManager_def DefaultTrustAdjustmentConfig_def
      sample_feedback_def Let_def)

text \<open>
  Feedback that names neither a video nor an audio codec counts towards the total only: any
  number of such failures leaves a new device with no failure, no failure streak and no need for a
  new probe; and any number of such successes leaves its success rate at 0.
\<close>

theorem feedback_without_codecs_is_not_judged:
  assumes "\<forall>(now, f) \<in> set fs. fb_DeviceID f = d \<and> VideoCodec f = [] \<and> AudioCodec f = []"
    and "fs \<noteq> []"
  defines "fm \<equiv> fold (\<lambda>(now, f) fm. snd (recordFeedback now f fm)) fs NewFeedbackManager"
  shows "\<not> fst (ShouldReProbe d fm) \<and> FailedPlaybacks (GetPlaybackStats d fm) = 0
    \<and> SuccessRate (GetPlaybackStats d fm) = 0 \<and> TotalPlaybacks (GetPlaybackStats d fm) = int (length fs)"
proof -
  define good where "good n fm \<longleftrightarrow> trustConfig fm = DefaultTrustAdjustmentConfig
    \<and> (\<forall>d. gget (events fm) d = None \<longleftrightarrow> gget (fm_stats fm) d = None)
    \<and> (n = 0 \<and> gget (fm_stats fm) d = None \<or> (\<exists>st. gget (fm_stats fm) d = Some st \<and> FailedPlaybacks st = 0 \<and> SuccessfulPlaybacks st = 0
      \<and> ConsecutiveFailures st = 0 \<and> SuccessRate st = 0 \<and> TotalPlaybacks st = int n))" for n and fm :: FeedbackManager
  have zero: "fdiv (ffromint 0) (ffromint n) = 0" for n by (simp add: float_ops)
  have step: "good (Suc n) (snd (recordFeedback now f fm))"
    if "good n fm" "fb_DeviceID f = d" "VideoCodec f = []" "AudioCodec f = []" for n now f fm
  proof -
    let ?o = "old_stats now d fm" and ?n = "new_stats now f fm"
    have o0: "FailedPlaybacks ?o = 0 \<and> SuccessfulPlaybacks ?o = 0 \<and> ConsecutiveFailures ?o = 0 \<and> TotalPlaybacks ?o = int n"
      using that(1) by (auto simp: good_def old_stats_def getz_def newStats_def split: option.splits)
    define u where "u = updateStats now (trustConfig fm) (f\<lparr>fb_Timestamp := now\<rparr>)
      (calculateTrustDeltaFromConfig (trustConfig fm) (Outcome f)) ?o"
    have u: "FailedPlaybacks u = 0" "SuccessfulPlaybacks u = 0" "ConsecutiveFailures u = 0" "TotalPlaybacks u = int n + 1"
      using o0 that by (simp_all add: u_def updateStats_totals updateStats_streaks)
    have "SuccessRate u = 0"
      using o0 that by (simp add: u_def updateStats_def Let_def apply_delta_fields zero)
    moreover have "\<not> FM_shouldReProbe (trustConfig fm) u"
      using u that(1) zero by (simp add: FM_shouldReProbe_def good_def DefaultTrustAdjustmentConfig_def failureRate_def
          lit_def f64.rnd_nonneg not_less)
    ultimately have "?n = u" and g: "gget (fm_stats (snd (recordFeedback now f fm))) d = Some u"
      using that(2) by (simp_all add: new_stats_def u_def Let_def recordFeedback_parts)
    moreover have "gget (events (snd (recordFeedback now f fm))) j = None \<longleftrightarrow> gget (fm_stats (snd (recordFeedback now f fm))) j = None" for j
      using that(1) by (auto simp: good_def recordFeedback_def Let_def gget_gput)
    ultimately show ?thesis using u \<open>SuccessRate u = 0\<close> that(1) by (auto simp: good_def recordFeedback_parts)
  qed
  have "good n fm \<Longrightarrow> \<forall>(now, f) \<in> set fs. fb_DeviceID f = d \<and> VideoCodec f = [] \<and> AudioCodec f = [] \<Longrightarrow>
      good (n + length fs) (fold (\<lambda>(now, f) fm. snd (recordFeedback now f fm)) fs fm)" for n fs fm
  proof (induction fs arbitrary: n fm)
    case (Cons p fs)
    then show ?case using step [of n fm] Cons.IH [of "Suc n"] by (cases p) auto
  qed simp
  from this [of 0 NewFeedbackManager fs] assms(1) have "good (length fs) fm"
    by (simp add: fm_def good_def NewFeedbackManager_def)
  then obtain st where "gget (fm_stats fm) d = Some st" "FailedPlaybacks st = 0" "ConsecutiveFailures st = 0"
      "SuccessRate st = 0" "TotalPlaybacks st = int (length fs)" "trustConfig fm = DefaultTrustAdjustmentConfig"
    using assms(2) by (auto simp: good_def)
  then show ?thesis
    by (simp add: ShouldReProbe_def GetPlaybackStats_def getz_def FM_shouldReProbe_def failureRate_def zero
        DefaultTrustAdjustmentConfig_def lit_def f64.rnd_nonneg not_less)
qed

theorem feedback_without_codecs_is_not_judged_witness:
  "\<not> fst (ShouldReProbe ''tv'' (snd (recordFeedback 1 (sample_feedback OutcomeCodecError []) NewFeedbackManager)))"
  using feedback_without_codecs_is_not_judged [of "[(1, sample_feedback OutcomeCodecError [])]" "''tv''"]
  by (simp add: sample_feedback_def)

text \<open>Names of outcomes are read back.\<close>

lemma outcome_roundtrip: "ParseOutcomeFromString (Outcome_String x) = x"
  by (cases x) (simp_all add: ParseOutcomeFromString_def)

text \<open>Expiry keeps exactly the events inside the window.\<close>

lemma expire_keeps_window:
  "gget (events (snd (ExpireOldEvents now fm))) d =
     map_option (filter (\<lambda>e. now - windowDuration fm < ev_Timestamp e)) (gget (events fm) d)"
proof -
  have k: "\<not> length (filter p es) < length es \<Longrightarrow> es = filter p es" for p and es :: "PlaybackEvent list"
    by (metis filter_id_conv length_filter_less)
  show ?thesis unfolding ExpireOldEvents_def Let_def
    using k by (auto simp: gget_map_snd After_def Add_def intro!: arg_cong2 [of _ _ _ _ map_option] ext)
qed

lemma buffer_health_unit: "0 \<le> CalculateBufferHealth b t \<and> CalculateBufferHealth b t \<le> 1"
  by (simp add: CalculateBufferHealth_def)

end
