(* ===== verification/Codec.thy ===== *)
theory Codec
  imports Strings
begin

text \<open>
  The codec and container database and the MIME functions, package \<^verbatim>\<open>pkg/codec\<close>. The maps of
  the source are Go maps in source order; a function that ranges over one is given the order as
  the list it visits. A lookup that fails is \<open>None\<close>, an error message is kept as it is.
\<close>

section \<open>Codecs and containers (database.go)\<close>

datatype CodecType = CodecTypeVideo | CodecTypeAudio | CodecTypeSubtitle

fun CodecType_String :: "CodecType \<Rightarrow> string" where
  "CodecType_String CodecTypeVideo = ''video''"
| "CodecType_String CodecTypeAudio = ''audio''"
| "CodecType_String CodecTypeSubtitle = ''subtitle''"

datatype ProfileType =
    ProfileTypeOriginal | ProfileTypeUltraHD | ProfileTypeFullHD | ProfileTypeHD | ProfileTypeSD | ProfileTypeMobile

fun ProfileType_String :: "ProfileType \<Rightarrow> string" where
  "ProfileType_String ProfileTypeOriginal = ''original''"
| "ProfileType_String ProfileTypeUltraHD = ''ultra_hd''"
| "ProfileType_String ProfileTypeFullHD = ''full_hd''"
| "ProfileType_String ProfileTypeHD = ''hd''"
| "ProfileType_String ProfileTypeSD = ''sd''"
| "ProfileType_String ProfileTypeMobile = ''mobile''"

record Codec =
  c_Name :: string
  c_Type :: CodecType
  Description :: string
  c_Container :: "string list"
  c_Profiles :: "string list"
  Bandwidth :: int
  c_MaxWidth :: int
  c_MaxHeight :: int
  MaxFramerate :: int
  c_BitDepth :: int
  HDRSupport :: bool
  License :: string

record Container =
  ct_Name :: string
  Extensions :: "string list"
  MimeTypes :: "string list"
  SupportedCodecs :: "string list"
  Limitations :: "string list"

definition Equal :: "string \<Rightarrow> string \<Rightarrow> bool" where
  "Equal a b \<longleftrightarrow> EqualFold (TrimSpace a) (TrimSpace b)"

definition codecs :: "(string, Codec) gomap" where
  "codecs = [
  (''h264'', \<lparr>c_Name = ''H.264'', c_Type = CodecTypeVideo, Description = ''Advanced Video Coding (AVC)'',
     c_Container = [''mp4'', ''mkv'', ''ts'', ''mov'', ''webm''], c_Profiles = [''baseline'', ''main'', ''high''], Bandwidth = 8000000,
     c_MaxWidth = 3840, c_MaxHeight = 2160, MaxFramerate = 60, c_BitDepth = 8,
     HDRSupport = False, License = ''patent''\<rparr>),
  (''hevc'', \<lparr>c_Name = ''HEVC'', c_Type = CodecTypeVideo, Description = ''High Efficiency Video Coding (H.265)'',
     c_Container = [''mp4'', ''mkv'', ''ts'', ''mov''], c_Profiles = [''main'', ''main10''], Bandwidth = 15000000,
     c_MaxWidth = 7680, c_MaxHeight = 4320, MaxFramerate = 120, c_BitDepth = 10,
     HDRSupport = True, License = ''patent''\<rparr>),
  (''vp9'', \<lparr>c_Name = ''VP9'', c_Type = CodecTypeVideo, Description = ''VP9 video codec'',
     c_Container = [''webm'', ''mkv'', ''mp4''], c_Profiles = [''0'', ''2''], Bandwidth = 12000000,
     c_MaxWidth = 7680, c_MaxHeight = 4320, MaxFramerate = 60, c_BitDepth = 10,
     HDRSupport = True, License = ''open''\<rparr>),
  (''av1'', \<lparr>c_Name = ''AV1'', c_Type = CodecTypeVideo, Description = ''AOMedia Video 1'',
     c_Container = [''webm'', ''mkv'', ''mp4''], c_Profiles = [''main'', ''high''], Bandwidth = 20000000,
     c_MaxWidth = 7680, c_MaxHeight = 4320, MaxFramerate = 120, c_BitDepth = 10,
     HDRSupport = True, License = ''open''\<rparr>),
  (''mpeg2'', \<lparr>c_Name = ''MPEG-2'', c_Type = CodecTypeVideo, Description = ''MPEG-2 Part 2'',
     c_Container = [''ts'', ''mpg'', ''mpeg''], c_Profiles = [''main''], Bandwidth = 15000000,
     c_MaxWidth = 1920, c_MaxHeight = 1080, MaxFramerate = 60, c_BitDepth = 8,
     HDRSupport = False, License = ''patent''\<rparr>),
  (''mpeg4'', \<lparr>c_Name = ''MPEG-4 Part 2'', c_Type = CodecTypeVideo, Description = ''MPEG-4 Part 2 Visual'',
     c_Container = [''avi'', ''mp4'', ''mkv''], c_Profiles = [''simple'', ''advanced''], Bandwidth = 4000000,
     c_MaxWidth = 1920, c_MaxHeight = 1080, MaxFramerate = 30, c_BitDepth = 8,
     HDRSupport = False, License = ''patent''\<rparr>),
  (''vc1'', \<lparr>c_Name = ''VC-1'', c_Type = CodecTypeVideo, Description = ''SMPTE 421M (Windows Media Video 9)'',
     c_Container = [''wmv'', ''asf'', ''mp4''], c_Profiles = [''simple'', ''main'', ''advanced''], Bandwidth = 10000000,
     c_MaxWidth = 1920, c_MaxHeight = 1080, MaxFramerate = 30, c_BitDepth = 8,
     HDRSupport = False, License = ''patent''\<rparr>),
  (''vp8'', \<lparr>c_Name = ''VP8'', c_Type = CodecTypeVideo, Description = ''VP8 video codec'',
     c_Container = [''webm'', ''mkv''], c_Profiles = [''main''], Bandwidth = 6000000,
     c_MaxWidth = 1920, c_MaxHeight = 1080, MaxFramerate = 60, c_BitDepth = 8,
     HDRSupport = False, License = ''open''\<rparr>),
  (''aac'', \<lparr>c_Name = ''AAC'', c_Type = CodecTypeAudio, Description = ''Advanced Audio Coding'',
     c_Container = [''mp4'', ''m4a'', ''ts'', ''mkv''], c_Profiles = [''lc'', ''he'', ''he_v2''], Bandwidth = 320000,
     c_MaxWidth = 0, c_MaxHeight = 0, MaxFramerate = 0, c_BitDepth = 0,
     HDRSupport = False, License = ''patent''\<rparr>),
  (''mp3'', \<lparr>c_Name = ''MP3'', c_Type = CodecTypeAudio, Description = ''MPEG-1 Audio Layer III'',
     c_Container = [''mp3'', ''mp4'', ''mkv''], c_Profiles = [], Bandwidth = 320000,
     c_MaxWidth = 0, c_MaxHeight = 0, MaxFramerate = 0, c_BitDepth = 0,
     HDRSupport = False, License = ''patent''\<rparr>),
  (''flac'', \<lparr>c_Name = ''FLAC'', c_Type = CodecTypeAudio, Description = ''Free Lossless Audio Codec'',
     c_Container = [''flac'', ''mkv'', ''ogg''], c_Profiles = [], Bandwidth = 1411200,
     c_MaxWidth = 0, c_MaxHeight = 0, MaxFramerate = 0, c_BitDepth = 0,
     HDRSupport = False, License = ''open''\<rparr>),
  (''alac'', \<lparr>c_Name = ''ALAC'', c_Type = CodecTypeAudio, Description = ''Apple Lossless Audio Codec'',
     c_Container = [''m4a'', ''mkv''], c_Profiles = [], Bandwidth = 1411200,
     c_MaxWidth = 0, c_MaxHeight = 0, MaxFramerate = 0, c_BitDepth = 0,
     HDRSupport = False, License = ''open''\<rparr>),
  (''opus'', \<lparr>c_Name = ''Opus'', c_Type = CodecTypeAudio, Description = ''Opus interactive audio codec'',
     c_Container = [''ogg'', ''opus'', ''webm'', ''mkv''], c_Profiles = [], Bandwidth = 510000,
     c_MaxWidth = 0, c_MaxHeight = 0, MaxFramerate = 0, c_BitDepth = 0,
     HDRSupport = False, License = ''open''\<rparr>),
  (''ac3'', \<lparr>c_Name = ''AC-3'', c_Type = CodecTypeAudio, Description = ''Dolby Digital'',
     c_Container = [''mp4'', ''ts'', ''mkv'', ''avi''], c_Profiles = [], Bandwidth = 640000,
     c_MaxWidth = 0, c_MaxHeight = 0, MaxFramerate = 0, c_BitDepth = 0,
     HDRSupport = False, License = ''patent''\<rparr>),
  (''eac3'', \<lparr>c_Name = ''E-AC-3'', c_Type = CodecTypeAudio, Description = ''Dolby Digital Plus'',
     c_Container = [''mp4'', ''ts'', ''mkv''], c_Profiles = [], Bandwidth = 1536000,
     c_MaxWidth = 0, c_MaxHeight = 0, MaxFramerate = 0, c_BitDepth = 0,
     HDRSupport = False, License = ''patent''\<rparr>),
  (''dts'', \<lparr>c_Name = ''DTS'', c_Type = CodecTypeAudio, Description = ''DTS Coherent Acoustics'',
     c_Container = [''mkv'', ''ts'', ''mp4''], c_Profiles = [], Bandwidth = 1536000,
     c_MaxWidth = 0, c_MaxHeight = 0, MaxFramerate = 0, c_BitDepth = 0,
     HDRSupport = False, License = ''patent''\<rparr>),
  (''truehd'', \<lparr>c_Name = ''TrueHD'', c_Type = CodecTypeAudio, Description = ''Dolby TrueHD'',
     c_Container = [''mkv'', ''mp4'', ''ts''], c_Profiles = [], Bandwidth = 18000000,
     c_MaxWidth = 0, c_MaxHeight = 0, MaxFramerate = 0, c_BitDepth = 0,
     HDRSupport = False, License = ''patent''\<rparr>),
  (''aac_low'', \<lparr>c_Name = ''AAC-LC'', c_Type = CodecTypeAudio, Description = ''AAC Low Complexity'',
     c_Container = [''mp4'', ''m4a'', ''ts''], c_Profiles = [], Bandwidth = 256000,
     c_MaxWidth = 0, c_MaxHeight = 0, MaxFramerate = 0, c_BitDepth = 0,
     HDRSupport = False, License = ''patent''\<rparr>),
  (''aac_he'', \<lparr>c_Name = ''AAC-HE'', c_Type = CodecTypeAudio, Description = ''AAC High Efficiency'',
     c_Container = [''mp4'', ''m4a'', ''ts''], c_Profiles = [], Bandwidth = 128000,
     c_MaxWidth = 0, c_MaxHeight = 0, MaxFramerate = 0, c_BitDepth = 0,
     HDRSupport = False, License = ''patent''\<rparr>),
  (''aac_he_v2'', \<lparr>c_Name = ''AAC-HEv2'', c_Type = CodecTypeAudio, Description = ''AAC High Efficiency v2'',
     c_Container = [''mp4'', ''m4a'', ''ts''], c_Profiles = [], Bandwidth = 96000,
     c_MaxWidth = 0, c_MaxHeight = 0, MaxFramerate = 0, c_BitDepth = 0,
     HDRSupport = False, License = ''patent''\<rparr>)]"

definition containers :: "(string, Container) gomap" where
  "containers = [
  (''mp4'', \<lparr>ct_Name = ''MPEG-4 Part 14'', Extensions = [''.mp4'', ''.m4a'', ''.m4v''], MimeTypes = [''video/mp4'', ''audio/mp4''],
     SupportedCodecs = [''h264'', ''hevc'', ''vp9'', ''aac'', ''mp3'', ''flac'', ''alac''], Limitations = []\<rparr>),
  (''mkv'', \<lparr>ct_Name = ''Matroska'', Extensions = [''.mkv'', ''.mka'', ''.mks''], MimeTypes = [''video/x-matroska'', ''audio/x-matroska''],
     SupportedCodecs = [''h264'', ''hevc'', ''vp9'', ''av1'', ''mpeg2'', ''aac'', ''mp3'', ''flac'', ''alac'', ''opus'', ''ac3'', ''eac3'', ''dts'', ''truehd''], Limitations = []\<rparr>),
  (''ts'', \<lparr>ct_Name = ''MPEG Transport Stream'', Extensions = [''.ts'', ''.m2ts'', ''.mts''], MimeTypes = [''video/mp2t''],
     SupportedCodecs = [''h264'', ''hevc'', ''mpeg2'', ''aac'', ''mp3'', ''ac3'', ''eac3'', ''dts''], Limitations = []\<rparr>),
  (''webm'', \<lparr>ct_Name = ''WebM'', Extensions = [''.webm''], MimeTypes = [''video/webm'', ''audio/webm''],
     SupportedCodecs = [''vp8'', ''vp9'', ''av1'', ''opus'', ''aac'', ''flac''], Limitations = [''Limited browser support for some codecs'']\<rparr>),
  (''mov'', \<lparr>ct_Name = ''QuickTime File Format'', Extensions = [''.mov'', ''.qt''], MimeTypes = [''video/quicktime''],
     SupportedCodecs = [''h264'', ''hevc'', ''aac'', ''mp3''], Limitations = []\<rparr>),
  (''avi'', \<lparr>ct_Name = ''Audio Video Interleave'', Extensions = [''.avi''], MimeTypes = [''video/x-msvideo''],
     SupportedCodecs = [''h264'', ''mpeg4'', ''mp3'', ''aac''], Limitations = [''Limited codec support'', ''Large file size'']\<rparr>),
  (''flv'', \<lparr>ct_Name = ''Flash Video'', Extensions = [''.flv''], MimeTypes = [''video/x-flv''],
     SupportedCodecs = [''h264'', ''vp6'', ''aac'', ''mp3''], Limitations = [''Legacy format'', ''Limited codec support'']\<rparr>)]"

definition GetByName :: "string \<Rightarrow> Codec option" where "GetByName name = gget codecs name"

definition GetVideoCodecs :: "Codec list" where
  "GetVideoCodecs = filter (\<lambda>c. c_Type c = CodecTypeVideo) (map snd codecs)"

definition GetAudioCodecs :: "Codec list" where
  "GetAudioCodecs = filter (\<lambda>c. c_Type c = CodecTypeAudio) (map snd codecs)"

definition GetContainer :: "string \<Rightarrow> Container option" where "GetContainer name = gget containers name"

definition GetSupportedContainers :: "Container list" where "GetSupportedContainers = map snd containers"

definition IsVideoCodec :: "string \<Rightarrow> bool" where
  "IsVideoCodec name \<longleftrightarrow> (case gget codecs name of None \<Rightarrow> False | Some c \<Rightarrow> c_Type c = CodecTypeVideo)"

definition IsAudioCodec :: "string \<Rightarrow> bool" where
  "IsAudioCodec name \<longleftrightarrow> (case gget codecs name of None \<Rightarrow> False | Some c \<Rightarrow> c_Type c = CodecTypeAudio)"

definition CanContainerContain :: "string \<Rightarrow> string \<Rightarrow> bool" where
  "CanContainerContain container codec \<longleftrightarrow>
     (case gget containers container of None \<Rightarrow> False | Some c \<Rightarrow> codec \<in> set (SupportedCodecs c))"

section \<open>MIME types (mime.go)\<close>

record MIMEType =
  mt_Type :: string
  Subtype :: string
  mt_Codec :: string
  Parameters :: "string list"
  IsVideo :: bool
  IsAudio :: bool
  IsSubtitle :: bool

datatype mime_error = EmptyMIME | InvalidMIME string | NoCodec string

definition MIME_String :: "MIMEType \<Rightarrow> string" where
  "MIME_String m = mt_Type m @ ''/'' @ Subtype m @ (if mt_Codec m \<noteq> [] then ''; codecs='' @ mt_Codec m else [])"

definition VideoMIMEs :: "(string, string) gomap" where
  "VideoMIMEs =
    [(''h264'', ''video/mp4; codecs=\"avc1\"''),
     (''hevc'', ''video/mp4; codecs=\"hvc1\"''),
     (''vp9'', ''video/webm; codecs=\"vp9\"''),
     (''av1'', ''video/webm; codecs=\"av01\"''),
     (''vp8'', ''video/webm; codecs=\"vp8\"''),
     (''mpeg2'', ''video/mpeg''),
     (''mpeg4'', ''video/mp4; codecs=\"mp4v\"''),
     (''vc1'', ''video/vc1'')]"

definition AudioMIMEs :: "(string, string) gomap" where
  "AudioMIMEs =
    [(''aac'', ''audio/mp4; codecs=\"mp4a\"''),
     (''mp3'', ''audio/mpeg''),
     (''flac'', ''audio/flac''),
     (''alac'', ''audio/alac''),
     (''opus'', ''audio/opus''),
     (''ac3'', ''audio/ac3''),
     (''eac3'', ''audio/eac3''),
     (''dts'', ''audio/vnd.dts''),
     (''truehd'', ''audio/vnd.dolby.dd-truehd''),
     (''aac_low'', ''audio/mp4; codecs=\"mp4a.40.2\"''),
     (''aac_he'', ''audio/mp4; codecs=\"mp4a.40.5\"''),
     (''aac_he_v2'', ''audio/mp4; codecs=\"mp4a.40.29\"'')]"

definition SubtitleMIMEs :: "(string, string) gomap" where
  "SubtitleMIMEs =
    [(''vtt'', ''text/vtt''),
     (''ssa'', ''text/x-ssa''),
     (''ass'', ''text/x-ssa''),
     (''srt'', ''application/x-subrip''),
     (''sub'', ''video/x-sub''),
     (''pgs'', ''video/x-hdmv-subpicture''),
     (''dvb'', ''video/x-dvb-subtitle''),
     (''dvd'', ''video/x-dvd-subtitle'')]"

definition ContainerMIMEs :: "(string, string) gomap" where
  "ContainerMIMEs =
    [(''mp4'', ''video/mp4''),
     (''mkv'', ''video/x-matroska''),
     (''ts'', ''video/mp2t''),
     (''webm'', ''video/webm''),
     (''mov'', ''video/quicktime''),
     (''avi'', ''video/x-msvideo''),
     (''flv'', ''video/x-flv''),
     (''mpg'', ''video/mpeg''),
     (''mpeg'', ''video/mpeg''),
     (''wmv'', ''video/x-ms-wmv'')]"

definition GetVideoMIME :: "string \<Rightarrow> string" where
  "GetVideoMIME codec = (case gget VideoMIMEs codec of Some m \<Rightarrow> m | None \<Rightarrow> ''video/mp4'')"

definition GetAudioMIME :: "string \<Rightarrow> string" where
  "GetAudioMIME codec = (case gget AudioMIMEs codec of Some m \<Rightarrow> m | None \<Rightarrow> ''audio/mp4'')"

definition GetSubtitleMIME :: "string \<Rightarrow> string" where
  "GetSubtitleMIME format = (case gget SubtitleMIMEs format of Some m \<Rightarrow> m | None \<Rightarrow> ''text/vtt'')"

definition GetContainerMIME :: "string \<Rightarrow> string" where
  "GetContainerMIME container = (case gget ContainerMIMEs container of Some m \<Rightarrow> m | None \<Rightarrow> ''application/octet-stream'')"

text \<open>\<^verbatim>\<open>strings.SplitN(s, sep, 2)\<close> at a one-byte separator.\<close>

definition SplitN2 :: "char \<Rightarrow> string \<Rightarrow> string list" where
  "SplitN2 sep s =
     (case dropWhile (\<lambda>c. c \<noteq> sep) s of
        [] \<Rightarrow> [s]
      | _ # rest \<Rightarrow> [takeWhile (\<lambda>c. c \<noteq> sep) s, rest])"

definition trim_quotes :: "string \<Rightarrow> string" where
  "trim_quotes s = rev (dropWhile (\<lambda>c. c = CHR 0x22) (rev (dropWhile (\<lambda>c. c = CHR 0x22) s)))"

definition parse_param :: "string \<Rightarrow> MIMEType \<Rightarrow> MIMEType" where
  "parse_param p0 m =
     (let p = TrimSpace p0
      in if HasPrefix p ''codecs='' then m\<lparr>mt_Codec := trim_quotes (TrimPrefix p ''codecs='')\<rparr>
         else if p \<noteq> [] then m\<lparr>Parameters := Parameters m @ [p]\<rparr>
         else m)"

definition ParseMIME :: "string \<Rightarrow> mime_error + MIMEType" where
  "ParseMIME mime =
     (let parts = SplitN2 CHR '';'' mime
      in if hd parts = [] then Inl EmptyMIME
         else case SplitN2 CHR ''/'' (hd parts) of
                [t, s] \<Rightarrow>
                  let ty = TrimSpace t;
                      m = \<lparr>mt_Type = ty, Subtype = TrimSpace s, mt_Codec = [], Parameters = [],
                           IsVideo = (ty = ''video''), IsAudio = (ty = ''audio''), IsSubtitle = (ty = ''text'')\<rparr>
                  in Inr (case parts of [_, ps] \<Rightarrow> fold parse_param (SplitAt CHR '','' ps) m | _ \<Rightarrow> m)
              | _ \<Rightarrow> Inl (InvalidMIME mime))"

definition codecMap :: "(string, string) gomap" where
  "codecMap =
    [(''avc1'', ''h264''),
     (''hvc1'', ''hevc''),
     (''vp09'', ''vp9''),
     (''av01'', ''av1''),
     (''vp8'', ''vp8''),
     (''mp4a'', ''aac''),
     (''mp4a.40.2'', ''aac_low''),
     (''mp4a.40.5'', ''aac_he''),
     (''mp4a.40.29'', ''aac_he_v2''),
     (''mp4a.69'', ''aac_he''),
     (''mp4a.6B'', ''aac_he_v2''),
     (''mp3'', ''mp3''),
     (''ac-3'', ''ac3''),
     (''ec-3'', ''eac3''),
     (''dtsc'', ''dts''),
     (''dtsh'', ''dts''),
     (''dtse'', ''dts''),
     (''dtshd'', ''dts'')]"

definition GetCodecFromMIME :: "string \<Rightarrow> mime_error + string" where
  "GetCodecFromMIME mime =
     (case ParseMIME mime of
        Inl e \<Rightarrow> Inl e
      | Inr parsed \<Rightarrow>
          if mt_Codec parsed \<noteq> []
          then let codec = ToLower (mt_Codec parsed)
               in case gget codecMap codec of
                    Some mapped \<Rightarrow> Inr mapped
                  | None \<Rightarrow> Inr codec
          else Inl (NoCodec mime))"

text \<open>
  The extension of a MIME type: the first entry that matches in the order the maps are visited
  (\<open>cms\<close>, \<open>vms\<close> and \<open>ams\<close> stand for the three maps in some order).
\<close>

definition container_extension :: "string \<Rightarrow> string option" where
  "container_extension ext =
     (if ext \<in> {''mp4'', ''mkv'', ''ts'', ''webm'', ''mov'', ''avi'', ''flv'', ''wmv''} then Some (CHR ''.'' # ext)
      else if ext = ''mpg'' \<or> ext = ''mpeg'' then Some ''.mpg'' else None)"

definition GetExtensionFromMIME ::
  "(string, string) gomap \<Rightarrow> (string, string) gomap \<Rightarrow> (string, string) gomap \<Rightarrow> string \<Rightarrow> string" where
  "GetExtensionFromMIME cms vms ams mime =
     (let hits = (\<lambda>m. filter (\<lambda>(k, v). HasPrefix mime v) m);
          ext = List.map_filter (\<lambda>(k, v). container_extension k) (hits cms)
      in if ext \<noteq> [] then hd ext
         else case hits vms of
                (k, v) # _ \<Rightarrow> if k = ''hevc'' \<or> k = ''h264'' then ''.mp4'' else ''.webm''
              | [] \<Rightarrow>
                  (case hits ams of
                     (k, v) # _ \<Rightarrow> if k = ''mp3'' then ''.mp3'' else if k = ''flac'' then ''.flac''
                                    else if k = ''opus'' then ''.opus'' else ''.m4a''
                   | [] \<Rightarrow> []))"

definition IsSupportedMIME :: "string \<Rightarrow> bool" where
  "IsSupportedMIME mime =
     (case ParseMIME mime of
        Inl _ \<Rightarrow> False
      | Inr parsed \<Rightarrow>
          IsVideo parsed \<or> IsAudio parsed \<or> IsSubtitle parsed
          \<or> list_ex (\<lambda>(k, v). HasPrefix mime v) VideoMIMEs
          \<or> list_ex (\<lambda>(k, v). HasPrefix mime v) AudioMIMEs
          \<or> list_ex (\<lambda>(k, v). HasPrefix mime v) SubtitleMIMEs
          \<or> list_ex (\<lambda>(k, v). HasPrefix mime v) ContainerMIMEs)"

section \<open>Laws\<close>

lemma Equal_refl [simp]: "Equal a a"
  by (simp add: Equal_def)

lemma Equal_sym: "Equal a b \<longleftrightarrow> Equal b a"
  by (auto simp: Equal_def EqualFold_sym)

lemma Equal_trans: "Equal a b \<Longrightarrow> Equal b c \<Longrightarrow> Equal a c"
  unfolding Equal_def by (rule EqualFold_trans)

lemma CanContainerContain_known: "CanContainerContain c k \<Longrightarrow> gget containers c \<noteq> None"
  by (simp add: CanContainerContain_def split: option.splits)

lemma takeWhile_append_sep: "sep \<notin> set s \<Longrightarrow> takeWhile (\<lambda>c. c \<noteq> sep) (s @ sep # t) = s"
  by (induction s) auto

lemma SplitN2_sep: "sep \<notin> set s \<Longrightarrow> SplitN2 sep (s @ sep # t) = [s, t]"
proof -
  assume a: "sep \<notin> set s"
  then have "dropWhile (\<lambda>c. c \<noteq> sep) (s @ sep # t) = sep # t" by (induction s) auto
  then show ?thesis using takeWhile_append_sep [OF a] by (simp add: SplitN2_def)
qed

lemma SplitN2_no_sep: "sep \<notin> set s \<Longrightarrow> SplitN2 sep s = [s]"
proof -
  assume "sep \<notin> set s"
  then have "dropWhile (\<lambda>c. c \<noteq> sep) s = []" by (simp add: dropWhile_eq_Nil_conv) metis
  then show ?thesis by (simp only: SplitN2_def list.case)
qed

lemma SplitAt_no_sep: "sep \<notin> set s \<Longrightarrow> SplitAt sep s = [s]"
  by (induction s) auto

lemma TrimSpace_fixed: "TrimSpace s = s \<longleftrightarrow> s = [] \<or> (\<not> is_space (hd s) \<and> \<not> is_space (last s))"
proof
  assume t: "TrimSpace s = s"
  have "length (TrimSpace s) \<le> length (dropWhile is_space s)"
    unfolding TrimSpace_def length_rev using length_dropWhile_le [of is_space "rev (dropWhile is_space s)"] by simp
  then have "\<not> length (dropWhile is_space s) < length s" using t by simp
  then have d: "s = [] \<or> \<not> is_space (hd s)"
    by (cases s) (auto simp: less_Suc_eq_le length_dropWhile_le split: if_splits)
  then have "dropWhile is_space s = s" by (cases s) auto
  then have "dropWhile is_space (rev s) = rev s" using t unfolding TrimSpace_def by (metis rev_rev_ident)
  then have "s = [] \<or> \<not> is_space (last s)"
  proof (cases s rule: rev_cases)
    case (snoc ys y)
    then show ?thesis using \<open>dropWhile is_space (rev s) = rev s\<close> length_dropWhile_le [of is_space "rev ys"]
      by (auto split: if_splits)
  qed simp
  then show "s = [] \<or> (\<not> is_space (hd s) \<and> \<not> is_space (last s))" using d by blast
next
  assume a: "s = [] \<or> (\<not> is_space (hd s) \<and> \<not> is_space (last s))"
  then have "dropWhile is_space s = s" by (cases s) auto
  moreover have "dropWhile is_space (rev s) = rev s" using a by (cases s rule: rev_cases) auto
  ultimately show "TrimSpace s = s" by (simp add: TrimSpace_def)
qed


text \<open>A codec text as \<open>MIME_String\<close> prints it and \<open>ParseMIME\<close> reads it back.\<close>

definition plain :: "string \<Rightarrow> bool" where
  "plain s \<longleftrightarrow> TrimSpace s = s \<and> CHR '';'' \<notin> set s"

lemma space_chars [simp]: "is_space CHR '' ''" "\<not> is_space CHR ''c''"
  by (simp_all add: is_space_def)

text \<open>
  Printing a MIME type and parsing it gives the type back: type, subtype and codec list
  are those printed, and the video, audio and subtitle flags are those of the type.
\<close>

theorem mime_roundtrip:
  assumes "plain t" and "t \<noteq> []" and "CHR ''/'' \<notin> set t" and "plain s"
    and "TrimSpace c = c" and "CHR '','' \<notin> set c" and "c \<noteq> [] \<Longrightarrow> hd c \<noteq> CHR 0x22 \<and> last c \<noteq> CHR 0x22"
  defines "m \<equiv> \<lparr>mt_Type = t, Subtype = s, mt_Codec = c, Parameters = [],
     IsVideo = (t = ''video''), IsAudio = (t = ''audio''), IsSubtitle = (t = ''text'')\<rparr>"
  shows "ParseMIME (MIME_String m) = Inr m"
proof -
  have ts: "SplitN2 CHR ''/'' (t @ CHR ''/'' # s) = [t, s]" by (rule SplitN2_sep [OF assms(3)])
  have semi: "CHR '';'' \<notin> set (t @ CHR ''/'' # s)" using assms(1,4) by (simp add: plain_def)
  have trim: "TrimSpace t = t" "TrimSpace s = s" using assms(1,4) by (simp_all add: plain_def)
  show ?thesis
  proof (cases "c = []")
    case True
    then have "MIME_String m = t @ CHR ''/'' # s" by (simp add: MIME_String_def m_def)
    then show ?thesis using True by (simp add: ParseMIME_def SplitN2_no_sep [OF semi] ts trim m_def)
  next
    case False
    have e: "MIME_String m = (t @ CHR ''/'' # s) @ CHR '';'' # ('' codecs='' @ c)"
      using False by (simp add: MIME_String_def m_def)
    have p: "SplitN2 CHR '';'' (MIME_String m) = [t @ CHR ''/'' # s, '' codecs='' @ c]"
      unfolding e by (rule SplitN2_sep [OF semi])
    have "SplitAt CHR '','' ('' codecs='' @ c) = ['' codecs='' @ c]"
      by (rule SplitAt_no_sep) (use assms(6) in simp)
    moreover have "TrimSpace ('' codecs='' @ c) = ''codecs='' @ c"
    proof -
      have "TrimSpace (''codecs='' @ c) = ''codecs='' @ c"
        using assms(5) False unfolding TrimSpace_fixed by simp
      then show ?thesis by (simp add: TrimSpace_def)
    qed
    moreover have "trim_quotes c = c"
    proof -
      have "dropWhile (\<lambda>x. x = CHR 0x22) c = c" using assms(7) [OF False] by (cases c) auto
      moreover have "dropWhile (\<lambda>x. x = CHR 0x22) (rev c) = rev c"
        using assms(7) [OF False] by (cases c rule: rev_cases) auto
      ultimately show ?thesis by (simp add: trim_quotes_def)
    qed
    moreover have "HasPrefix (''codecs='' @ c) ''codecs=''" by (simp add: HasPrefix_iff)
    ultimately have "fold parse_param (SplitAt CHR '','' ('' codecs='' @ c)) m0 = m0\<lparr>mt_Codec := c\<rparr>" for m0
      by (simp add: parse_param_def TrimPrefix_def)
    then show ?thesis using assms(2)
      unfolding ParseMIME_def Let_def p by (simp add: ts trim) (simp add: m_def)
  qed
qed

theorem mime_roundtrip_witness:
  "ParseMIME ''video/mp4; codecs=avc1'' = Inr \<lparr>mt_Type = ''video'', Subtype = ''mp4'', mt_Codec = ''avc1'', Parameters = [],
     IsVideo = True, IsAudio = False, IsSubtitle = False\<rparr>"
  using mime_roundtrip [of "''video''" "''mp4''" "''avc1''"]
  by (simp add: plain_def TrimSpace_fixed is_space_def MIME_String_def)

text \<open>
  The two tables of the package contradict each other: these are exactly the pairs of a
  container and a codec that names it as its container while the container's own list, which
  \<open>CanContainerContain\<close> consults, does not name the codec.
\<close>

theorem container_tables_disagree:
  "[(ct, k). (k, c) \<leftarrow> codecs, ct \<leftarrow> c_Container c, gget containers ct \<noteq> None, \<not> CanContainerContain ct k] =
     [(''webm'', ''h264''), (''mp4'', ''av1''), (''mp4'', ''mpeg4''), (''mkv'', ''mpeg4''), (''mp4'', ''vc1''),
      (''mkv'', ''vp8''), (''mp4'', ''ac3''), (''avi'', ''ac3''), (''mp4'', ''eac3''), (''mp4'', ''dts''),
      (''mp4'', ''truehd''), (''ts'', ''truehd''), (''mp4'', ''aac_low''), (''ts'', ''aac_low''),
      (''mp4'', ''aac_he''), (''ts'', ''aac_he''), (''mp4'', ''aac_he_v2''), (''ts'', ''aac_he_v2'')]"
  by code_simp

text \<open>
  The MIME types of the video and audio tables that name a codec map back to their key, but for
  that of MPEG-4 video.
\<close>

lemma mime_tables_read_back:
  "list_all (\<lambda>(c, m). case GetCodecFromMIME m of Inr d \<Rightarrow> d = (if c = ''mpeg4'' then ''mp4v'' else c) | Inl e \<Rightarrow> e = NoCodec m)
     (VideoMIMEs @ AudioMIMEs)"
  by code_simp

end
