(* ===== verification/Server.thy ===== *)
theory Server
  imports Codec
begin

text \<open>
  What the server can encode, package \<^verbatim>\<open>internal/server\<close>: discovery of ffmpeg's encoders and of
  the hardware that drives them (\<^verbatim>\<open>inventory.go\<close>) and the choice of an encoder
  (\<^verbatim>\<open>encoder.go\<close>). The environment is a parameter: \<open>run\<close> gives the standard output of a
  command with its arguments, or \<open>None\<close> when it fails, \<open>look_path\<close> finds a binary and
  \<open>device\<close> says which device files exist. The regular expressions of the source are written
  out as scanners; \<open>re_space\<close> is their class \<^verbatim>\<open>\s\<close>.
\<close>

section \<open>Data\<close>

datatype HWAccelType =
    HWAccelNone | HWAccelNVENC | HWAccelQSV | HWAccelVAAPI | HWAccelVideoToolbox | HWAccelAMF | HWAccelV4L2

fun HWAccel_String :: "HWAccelType \<Rightarrow> string" where
  "HWAccel_String HWAccelNVENC = ''nvenc''"
| "HWAccel_String HWAccelQSV = ''qsv''"
| "HWAccel_String HWAccelVAAPI = ''vaapi''"
| "HWAccel_String HWAccelVideoToolbox = ''videotoolbox''"
| "HWAccel_String HWAccelAMF = ''amf''"
| "HWAccel_String HWAccelV4L2 = ''v4l2''"
| "HWAccel_String HWAccelNone = ''none''"

record HardwareAcceleration =
  hw_Type :: HWAccelType
  hw_DeviceName :: string
  hw_SupportedCodecs :: "string list"
  hw_SupportsHDR :: bool
  hw_Supports10Bit :: bool
  MaxConcurrentSessions :: int

record PerformanceEstimate =
  RealtimeAt1080p :: bool
  RealtimeAt4K :: bool
  SpeedRank :: int

record EncoderCapability =
  e_Codec :: string
  EncoderName :: string
  IsHardware :: bool
  e_HWAccelType :: HWAccelType
  e_Supports10Bit :: bool
  SupportsHDRPassthrough :: bool
  SupportedProfiles :: "string list"
  SupportedPixelFormats :: "string list"
  Performance :: PerformanceEstimate

record ServerCapabilities =
  FFmpegVersion :: string
  FFmpegPath :: string
  AvailableEncoders :: "string list"
  AvailableDecoders :: "string list"
  HWAccel :: "HardwareAcceleration list"
  EncoderDetails :: "EncoderCapability list"

definition CanEncode :: "ServerCapabilities \<Rightarrow> string \<Rightarrow> bool" where
  "CanEncode sc codecName \<longleftrightarrow> list_ex (\<lambda>enc. Equal (e_Codec enc) codecName) (EncoderDetails sc)"

definition GetEncoders :: "ServerCapabilities \<Rightarrow> string \<Rightarrow> EncoderCapability list" where
  "GetEncoders sc codecName = filter (\<lambda>enc. Equal (e_Codec enc) codecName) (EncoderDetails sc)"

definition HasHWAccel :: "ServerCapabilities \<Rightarrow> bool" where
  "HasHWAccel sc \<longleftrightarrow> HWAccel sc \<noteq> []"

section \<open>Discovery\<close>

type_synonym runner = "string \<Rightarrow> string list \<Rightarrow> string option"

definition re_space :: "char \<Rightarrow> bool" where
  "re_space c \<longleftrightarrow> c = CHR '' '' \<or> c = CHR 0x09 \<or> c = CHR 0x0A \<or> c = CHR 0x0C \<or> c = CHR 0x0D"

text \<open>The line format \<^verbatim>\<open>^\s+[VAS][F.][S.][X.][B.][D.]\s+(\S+)\<close> and its capture.\<close>

definition codec_line :: "string \<Rightarrow> string option" where
  "codec_line line =
     (let s = dropWhile re_space line; flags = take 6 s; t = drop 6 s; name = takeWhile (\<lambda>c. \<not> re_space c) (dropWhile re_space t)
      in if length s < length line \<and> length flags = 6
            \<and> flags ! 0 \<in> set ''VAS'' \<and> flags ! 1 \<in> set ''F.'' \<and> flags ! 2 \<in> set ''S.''
            \<and> flags ! 3 \<in> set ''X.'' \<and> flags ! 4 \<in> set ''B.'' \<and> flags ! 5 \<in> set ''D.''
            \<and> length (dropWhile re_space t) < length t \<and> name \<noteq> []
         then Some name else None)"

definition parseFFmpegCodecList :: "string \<Rightarrow> string list" where
  "parseFFmpegCodecList output =
     filter (\<lambda>name. name \<noteq> ''='') (List.map_filter codec_line (SplitAt CHR 0x0A output))"

text \<open>The capture of \<^verbatim>\<open>ffmpeg version (\S+)\<close>: after the leftmost match.\<close>

fun find_version :: "string \<Rightarrow> string option" where
  "find_version [] = None"
| "find_version (c # s) =
     (if HasPrefix (c # s) ''ffmpeg version ''
      then let v = takeWhile (\<lambda>x. \<not> re_space x) (drop 15 (c # s)) in if v \<noteq> [] then Some v else find_version s
      else find_version s)"

definition getFFmpegVersion :: "runner \<Rightarrow> string \<Rightarrow> string" where
  "getFFmpegVersion run ffmpeg =
     (case run ffmpeg [''-version''] of
        None \<Rightarrow> ''unknown''
      | Some out \<Rightarrow>
          let line = hd (SplitAt CHR 0x0A out)
          in case find_version line of Some v \<Rightarrow> v | None \<Rightarrow> line)"

definition getAvailableEncoders :: "runner \<Rightarrow> string \<Rightarrow> string list" where
  "getAvailableEncoders run ffmpeg =
     (case run ffmpeg [''-encoders''] of None \<Rightarrow> [] | Some out \<Rightarrow> parseFFmpegCodecList out)"

definition getAvailableDecoders :: "runner \<Rightarrow> string \<Rightarrow> string list" where
  "getAvailableDecoders run ffmpeg =
     (case run ffmpeg [''-decoders''] of None \<Rightarrow> [] | Some out \<Rightarrow> parseFFmpegCodecList out)"

definition null_output :: "string list" where
  "null_output = [''-f'', ''lavfi'', ''-i'', ''nullsrc=s=1x1:d=0.01'', ''-f'', ''null'', ''-'']"

definition init_hw :: "runner \<Rightarrow> string \<Rightarrow> string \<Rightarrow> bool" where
  "init_hw run ffmpeg dev \<longleftrightarrow> run ffmpeg ([''-init_hw_device'', dev] @ null_output) \<noteq> None"

definition detect :: "(string, string) gomap \<Rightarrow> string list \<Rightarrow> string list" where
  "detect m availableEncoders = List.map_filter (gget m) availableEncoders"

definition detectNVENCCodecs :: "string list \<Rightarrow> string list" where
  "detectNVENCCodecs = detect [(''h264_nvenc'', ''h264''), (''hevc_nvenc'', ''hevc''), (''av1_nvenc'', ''av1'')]"
definition detectVAAPICodecs :: "string list \<Rightarrow> string list" where
  "detectVAAPICodecs = detect [(''h264_vaapi'', ''h264''), (''hevc_vaapi'', ''hevc''), (''vp9_vaapi'', ''vp9''), (''av1_vaapi'', ''av1'')]"
definition detectQSVCodecs :: "string list \<Rightarrow> string list" where
  "detectQSVCodecs = detect [(''h264_qsv'', ''h264''), (''hevc_qsv'', ''hevc''), (''vp9_qsv'', ''vp9''), (''av1_qsv'', ''av1'')]"
definition detectVideoToolboxCodecs :: "string list \<Rightarrow> string list" where
  "detectVideoToolboxCodecs = detect [(''h264_videotoolbox'', ''h264''), (''hevc_videotoolbox'', ''hevc'')]"
definition detectAMFCodecs :: "string list \<Rightarrow> string list" where
  "detectAMFCodecs = detect [(''h264_amf'', ''h264''), (''hevc_amf'', ''hevc''), (''av1_amf'', ''av1'')]"

definition checkNVENC10Bit :: "runner \<Rightarrow> string \<Rightarrow> bool" where
  "checkNVENC10Bit run ffmpeg \<longleftrightarrow>
     (case run ffmpeg [''-h'', ''encoder=hevc_nvenc''] of None \<Rightarrow> False | Some out \<Rightarrow> Contains out ''p010le'')"

definition probeNVENC :: "runner \<Rightarrow> string \<Rightarrow> string list \<Rightarrow> HardwareAcceleration option" where
  "probeNVENC run ffmpeg encs =
     (case run ''nvidia-smi'' [''--query-gpu=name'', ''--format=csv,noheader''] of
        None \<Rightarrow> None
      | Some out \<Rightarrow>
          if TrimSpace out = [] then None
          else if \<not> init_hw run ffmpeg ''cuda=cu'' then None
          else let b = checkNVENC10Bit run ffmpeg
               in Some \<lparr>hw_Type = HWAccelNVENC, hw_DeviceName = TrimSpace out, hw_SupportedCodecs = detectNVENCCodecs encs,
                    hw_SupportsHDR = b, hw_Supports10Bit = b, MaxConcurrentSessions = 5\<rparr>)"

text \<open>
  The capture of \<^verbatim>\<open>(?i)vainfo:\s+Driver version:\s+(.+)\<close>, trimmed: the rest of the line after the
  leftmost match. The white space before it is taken as far as it goes; when nothing but white space
  follows, the captured rest trims to the empty text.
\<close>

fun vainfo_driver :: "string \<Rightarrow> string option" where
  "vainfo_driver [] = None"
| "vainfo_driver (c # s) =
     (let t = drop 7 (c # s); u = dropWhile re_space t; v = drop 15 u; w = dropWhile re_space v
      in if ToLower (take 7 (c # s)) = ''vainfo:'' \<and> length u < length t
            \<and> ToLower (take 15 u) = ''driver version:'' \<and> length w < length v
         then Some (TrimSpace (takeWhile (\<lambda>x. x \<noteq> CHR 0x0A) w))
         else vainfo_driver s)"

definition parseVAAPIDeviceName :: "string \<Rightarrow> string" where
  "parseVAAPIDeviceName out = (case vainfo_driver out of Some n \<Rightarrow> n | None \<Rightarrow> [])"

definition probeVAAPI :: "runner \<Rightarrow> (string \<Rightarrow> bool) \<Rightarrow> string \<Rightarrow> string list \<Rightarrow> HardwareAcceleration option" where
  "probeVAAPI run device ffmpeg encs =
     (if \<not> device ''/dev/dri/renderD128'' then None
      else if \<not> init_hw run ffmpeg ''vaapi=va:/dev/dri/renderD128'' then None
      else let n = (case run ''vainfo'' [''--display'', ''drm'', ''--device'', ''/dev/dri/renderD128''] of
                      None \<Rightarrow> [] | Some out \<Rightarrow> parseVAAPIDeviceName out)
           in Some \<lparr>hw_Type = HWAccelVAAPI, hw_DeviceName = (if n = [] then ''VAAPI'' else n),
                hw_SupportedCodecs = detectVAAPICodecs encs, hw_SupportsHDR = True, hw_Supports10Bit = True,
                MaxConcurrentSessions = 0\<rparr>)"

definition simple_accel :: "HWAccelType \<Rightarrow> string \<Rightarrow> bool \<Rightarrow> string list \<Rightarrow> HardwareAcceleration option" where
  "simple_accel ty name ok cs =
     (if \<not> ok then None else if cs = [] then None
      else Some \<lparr>hw_Type = ty, hw_DeviceName = name, hw_SupportedCodecs = cs, hw_SupportsHDR = True,
             hw_Supports10Bit = True, MaxConcurrentSessions = 0\<rparr>)"

definition probeQSV :: "runner \<Rightarrow> string \<Rightarrow> string list \<Rightarrow> HardwareAcceleration option" where
  "probeQSV run ffmpeg encs =
     simple_accel HWAccelQSV ''Intel Quick Sync Video'' (init_hw run ffmpeg ''qsv=qs'') (detectQSVCodecs encs)"

definition probeVideoToolbox :: "runner \<Rightarrow> string \<Rightarrow> string list \<Rightarrow> HardwareAcceleration option" where
  "probeVideoToolbox run ffmpeg encs =
     simple_accel HWAccelVideoToolbox ''Apple VideoToolbox'' (init_hw run ffmpeg ''videotoolbox=vt'') (detectVideoToolboxCodecs encs)"

definition probeAMF :: "runner \<Rightarrow> string \<Rightarrow> string list \<Rightarrow> HardwareAcceleration option" where
  "probeAMF run ffmpeg encs =
     simple_accel HWAccelAMF ''AMD AMF'' (init_hw run ffmpeg ''amf=amf'') (detectAMFCodecs encs)"

definition probeV4L2 :: "(string \<Rightarrow> bool) \<Rightarrow> HardwareAcceleration option" where
  "probeV4L2 device =
     (if \<not> device ''/dev/video10'' \<and> \<not> device ''/dev/video11'' then None
      else Some \<lparr>hw_Type = HWAccelV4L2, hw_DeviceName = ''V4L2 M2M'', hw_SupportedCodecs = [''h264''],
             hw_SupportsHDR = False, hw_Supports10Bit = False, MaxConcurrentSessions = 0\<rparr>)"

definition opt_list :: "'a option \<Rightarrow> 'a list" where
  "opt_list x = (case x of None \<Rightarrow> [] | Some a \<Rightarrow> [a])"

definition probeHardwareAcceleration ::
  "runner \<Rightarrow> (string \<Rightarrow> bool) \<Rightarrow> string \<Rightarrow> string \<Rightarrow> string list \<Rightarrow> HardwareAcceleration list" where
  "probeHardwareAcceleration run device goos ffmpeg encs =
     (if goos = ''linux''
      then opt_list (probeNVENC run ffmpeg encs) @ opt_list (probeVAAPI run device ffmpeg encs)
             @ opt_list (probeQSV run ffmpeg encs) @ opt_list (probeV4L2 device)
      else if goos = ''darwin'' then opt_list (probeVideoToolbox run ffmpeg encs)
      else if goos = ''windows''
      then opt_list (probeNVENC run ffmpeg encs) @ opt_list (probeQSV run ffmpeg encs) @ opt_list (probeAMF run ffmpeg encs)
      else [])"

section \<open>Encoder details\<close>

definition encoderInfo :: "(string, string \<times> HWAccelType \<times> bool) gomap" where
  "encoderInfo =
    [(''libx264'', ''h264'', HWAccelNone, False),
     (''libx265'', ''hevc'', HWAccelNone, False),
     (''libsvtav1'', ''av1'', HWAccelNone, False),
     (''libvpx-vp9'', ''vp9'', HWAccelNone, False),
     (''libvpx'', ''vp8'', HWAccelNone, False),
     (''h264_nvenc'', ''h264'', HWAccelNVENC, True),
     (''hevc_nvenc'', ''hevc'', HWAccelNVENC, True),
     (''av1_nvenc'', ''av1'', HWAccelNVENC, True),
     (''h264_qsv'', ''h264'', HWAccelQSV, True),
     (''hevc_qsv'', ''hevc'', HWAccelQSV, True),
     (''vp9_qsv'', ''vp9'', HWAccelQSV, True),
     (''av1_qsv'', ''av1'', HWAccelQSV, True),
     (''h264_vaapi'', ''h264'', HWAccelVAAPI, True),
     (''hevc_vaapi'', ''hevc'', HWAccelVAAPI, True),
     (''vp9_vaapi'', ''vp9'', HWAccelVAAPI, True),
     (''av1_vaapi'', ''av1'', HWAccelVAAPI, True),
     (''h264_videotoolbox'', ''h264'', HWAccelVideoToolbox, True),
     (''hevc_videotoolbox'', ''hevc'', HWAccelVideoToolbox, True),
     (''h264_amf'', ''h264'', HWAccelAMF, True),
     (''hevc_amf'', ''hevc'', HWAccelAMF, True),
     (''av1_amf'', ''av1'', HWAccelAMF, True),
     (''aac'', ''aac'', HWAccelNone, False),
     (''libfdk_aac'', ''aac'', HWAccelNone, False),
     (''eac3'', ''eac3'', HWAccelNone, False),
     (''ac3'', ''ac3'', HWAccelNone, False),
     (''libopus'', ''opus'', HWAccelNone, False),
     (''flac'', ''flac'', HWAccelNone, False),
     (''libmp3lame'', ''mp3'', HWAccelNone, False),
     (''truehd'', ''truehd'', HWAccelNone, False),
     (''dca'', ''dts'', HWAccelNone, False),
     (''libvorbis'', ''vorbis'', HWAccelNone, False),
     (''alac'', ''alac'', HWAccelNone, False)]"

text \<open>What is known of each encoder, and the acceleration whose limits it takes over.\<close>

definition encoderProps :: "(string \<times> (EncoderCapability \<Rightarrow> EncoderCapability) \<times> HWAccelType option) list" where
  "encoderProps = [
  (''libx264'', (\<lambda>cap. cap\<lparr>SupportedProfiles := [''Baseline'', ''Main'', ''High''],
      SupportedPixelFormats := [''yuv420p'', ''yuv422p'', ''yuv444p''],
      Performance := \<lparr>RealtimeAt1080p = True, RealtimeAt4K = False, SpeedRank = 30\<rparr>\<rparr>), None),
  (''libx265'', (\<lambda>cap. cap\<lparr>e_Supports10Bit := True,
      SupportsHDRPassthrough := True,
      SupportedProfiles := [''Main'', ''Main 10''],
      SupportedPixelFormats := [''yuv420p'', ''yuv420p10le''],
      Performance := \<lparr>RealtimeAt1080p = True, RealtimeAt4K = False, SpeedRank = 10\<rparr>\<rparr>), None),
  (''libsvtav1'', (\<lambda>cap. cap\<lparr>e_Supports10Bit := True,
      SupportsHDRPassthrough := True,
      SupportedProfiles := [''Main''],
      SupportedPixelFormats := [''yuv420p'', ''yuv420p10le''],
      Performance := \<lparr>RealtimeAt1080p = False, RealtimeAt4K = False, SpeedRank = 5\<rparr>\<rparr>), None),
  (''libvpx-vp9'', (\<lambda>cap. cap\<lparr>e_Supports10Bit := True,
      SupportedProfiles := [''0'', ''2''],
      SupportedPixelFormats := [''yuv420p'', ''yuv420p10le''],
      Performance := \<lparr>RealtimeAt1080p = False, RealtimeAt4K = False, SpeedRank = 8\<rparr>\<rparr>), None),
  (''h264_nvenc'', (\<lambda>cap. cap\<lparr>SupportedProfiles := [''Baseline'', ''Main'', ''High''],
      SupportedPixelFormats := [''yuv420p'', ''nv12''],
      Performance := \<lparr>RealtimeAt1080p = True, RealtimeAt4K = True, SpeedRank = 90\<rparr>\<rparr>), None),
  (''hevc_nvenc'', (\<lambda>cap. cap\<lparr>SupportedProfiles := [''Main'', ''Main 10''],
      SupportedPixelFormats := [''yuv420p'', ''p010le'', ''nv12''],
      Performance := \<lparr>RealtimeAt1080p = True, RealtimeAt4K = True, SpeedRank = 85\<rparr>\<rparr>), Some HWAccelNVENC),
  (''av1_nvenc'', (\<lambda>cap. cap\<lparr>SupportedProfiles := [''Main''],
      SupportedPixelFormats := [''yuv420p'', ''p010le'', ''nv12''],
      Performance := \<lparr>RealtimeAt1080p = True, RealtimeAt4K = True, SpeedRank = 80\<rparr>\<rparr>), Some HWAccelNVENC),
  (''h264_qsv'', (\<lambda>cap. cap\<lparr>SupportedProfiles := [''Baseline'', ''Main'', ''High''],
      SupportedPixelFormats := [''nv12'', ''qsv''],
      Performance := \<lparr>RealtimeAt1080p = True, RealtimeAt4K = True, SpeedRank = 80\<rparr>\<rparr>), None),
  (''hevc_qsv'', (\<lambda>cap. cap\<lparr>SupportedProfiles := [''Main'', ''Main 10''],
      SupportedPixelFormats := [''nv12'', ''p010le'', ''qsv''],
      Performance := \<lparr>RealtimeAt1080p = True, RealtimeAt4K = True, SpeedRank = 75\<rparr>\<rparr>), Some HWAccelQSV),
  (''vp9_qsv'', (\<lambda>cap. cap\<lparr>SupportedProfiles := [''0'', ''2''],
      SupportedPixelFormats := [''nv12'', ''p010le'', ''qsv''],
      Performance := \<lparr>RealtimeAt1080p = True, RealtimeAt4K = False, SpeedRank = 65\<rparr>\<rparr>), Some HWAccelQSV),
  (''av1_qsv'', (\<lambda>cap. cap\<lparr>SupportedProfiles := [''Main''],
      SupportedPixelFormats := [''nv12'', ''p010le'', ''qsv''],
      Performance := \<lparr>RealtimeAt1080p = True, RealtimeAt4K = False, SpeedRank = 60\<rparr>\<rparr>), Some HWAccelQSV),
  (''h264_vaapi'', (\<lambda>cap. cap\<lparr>SupportedProfiles := [''Main'', ''High''],
      SupportedPixelFormats := [''vaapi''],
      Performance := \<lparr>RealtimeAt1080p = True, RealtimeAt4K = True, SpeedRank = 75\<rparr>\<rparr>), None),
  (''hevc_vaapi'', (\<lambda>cap. cap\<lparr>SupportedProfiles := [''Main'', ''Main 10''],
      SupportedPixelFormats := [''vaapi''],
      Performance := \<lparr>RealtimeAt1080p = True, RealtimeAt4K = True, SpeedRank = 70\<rparr>\<rparr>), Some HWAccelVAAPI),
  (''vp9_vaapi'', (\<lambda>cap. cap\<lparr>SupportedProfiles := [''0'', ''2''],
      SupportedPixelFormats := [''vaapi''],
      Performance := \<lparr>RealtimeAt1080p = True, RealtimeAt4K = False, SpeedRank = 60\<rparr>\<rparr>), None),
  (''av1_vaapi'', (\<lambda>cap. cap\<lparr>SupportedProfiles := [''Main''],
      SupportedPixelFormats := [''vaapi''],
      Performance := \<lparr>RealtimeAt1080p = True, RealtimeAt4K = False, SpeedRank = 55\<rparr>\<rparr>), Some HWAccelVAAPI),
  (''h264_videotoolbox'', (\<lambda>cap. cap\<lparr>SupportedProfiles := [''Baseline'', ''Main'', ''High''],
      SupportedPixelFormats := [''nv12'', ''videotoolbox_vld''],
      Performance := \<lparr>RealtimeAt1080p = True, RealtimeAt4K = True, SpeedRank = 85\<rparr>\<rparr>), None),
  (''hevc_videotoolbox'', (\<lambda>cap. cap\<lparr>SupportedProfiles := [''Main'', ''Main 10''],
      SupportedPixelFormats := [''nv12'', ''p010le'', ''videotoolbox_vld''],
      Performance := \<lparr>RealtimeAt1080p = True, RealtimeAt4K = True, SpeedRank = 80\<rparr>\<rparr>), Some HWAccelVideoToolbox),
  (''h264_amf'', (\<lambda>cap. cap\<lparr>SupportedProfiles := [''Main'', ''High''],
      SupportedPixelFormats := [''nv12'', ''d3d11''],
      Performance := \<lparr>RealtimeAt1080p = True, RealtimeAt4K = True, SpeedRank = 75\<rparr>\<rparr>), None),
  (''hevc_amf'', (\<lambda>cap. cap\<lparr>SupportedProfiles := [''Main'', ''Main 10''],
      SupportedPixelFormats := [''nv12'', ''p010le'', ''d3d11''],
      Performance := \<lparr>RealtimeAt1080p = True, RealtimeAt4K = True, SpeedRank = 70\<rparr>\<rparr>), Some HWAccelAMF),
  (''av1_amf'', (\<lambda>cap. cap\<lparr>SupportedProfiles := [''Main''],
      SupportedPixelFormats := [''nv12'', ''p010le'', ''d3d11''],
      Performance := \<lparr>RealtimeAt1080p = True, RealtimeAt4K = False, SpeedRank = 60\<rparr>\<rparr>), Some HWAccelAMF)]"

definition applyHWCapsFromAccel :: "EncoderCapability \<Rightarrow> HardwareAcceleration list \<Rightarrow> HWAccelType \<Rightarrow> EncoderCapability" where
  "applyHWCapsFromAccel cap hwAccels ty =
     (case find (\<lambda>hw. hw_Type hw = ty) hwAccels of
        None \<Rightarrow> cap
      | Some hw \<Rightarrow> cap\<lparr>e_Supports10Bit := hw_Supports10Bit hw,
          SupportsHDRPassthrough := hw_SupportsHDR hw \<and> hw_Supports10Bit hw\<rparr>)"

definition populateEncoderCapability :: "EncoderCapability \<Rightarrow> HardwareAcceleration list \<Rightarrow> EncoderCapability" where
  "populateEncoderCapability cap hwAccels =
     (case map_of encoderProps (EncoderName cap) of
        None \<Rightarrow> cap
      | Some (f, None) \<Rightarrow> f cap
      | Some (f, Some ty) \<Rightarrow> applyHWCapsFromAccel (f cap) hwAccels ty)"

definition newCapability :: "string \<Rightarrow> string \<Rightarrow> bool \<Rightarrow> HWAccelType \<Rightarrow> EncoderCapability" where
  "newCapability codec name hw ty = \<lparr>e_Codec = codec, EncoderName = name, IsHardware = hw, e_HWAccelType = ty,
     e_Supports10Bit = False, SupportsHDRPassthrough = False, SupportedProfiles = [], SupportedPixelFormats = [],
     Performance = \<lparr>RealtimeAt1080p = False, RealtimeAt4K = False, SpeedRank = 0\<rparr>\<rparr>"

definition buildEncoderDetails :: "string list \<Rightarrow> HardwareAcceleration list \<Rightarrow> EncoderCapability list" where
  "buildEncoderDetails availableEncoders hwAccels =
     List.map_filter (\<lambda>encName.
       case gget encoderInfo encName of
         None \<Rightarrow> None
       | Some (codec, ty, isHW) \<Rightarrow>
           if isHW \<and> \<not> list_ex (\<lambda>hw. hw_Type hw = ty) hwAccels then None
           else Some (populateEncoderCapability (newCapability codec encName isHW ty) hwAccels)) availableEncoders"

text \<open>The inventory keeps the last capabilities discovered; \<open>None\<close>: ffmpeg was not found, nothing changes.\<close>

record Inventory =
  inv_caps :: "ServerCapabilities option"

definition NewInventory :: Inventory where "NewInventory = \<lparr>inv_caps = None\<rparr>"

definition Discover ::
  "(string \<Rightarrow> string option) \<Rightarrow> runner \<Rightarrow> (string \<Rightarrow> bool) \<Rightarrow> string \<Rightarrow> Inventory \<Rightarrow> ServerCapabilities option \<times> Inventory" where
  "Discover look_path run device goos iv =
     (case look_path ''ffmpeg'' of
        None \<Rightarrow> (None, iv)
      | Some ffmpeg \<Rightarrow>
          let encs = getAvailableEncoders run ffmpeg;
              accels = probeHardwareAcceleration run device goos ffmpeg encs;
              sc = \<lparr>FFmpegVersion = getFFmpegVersion run ffmpeg, FFmpegPath = ffmpeg, AvailableEncoders = encs,
                 AvailableDecoders = getAvailableDecoders run ffmpeg, HWAccel = accels,
                 EncoderDetails = buildEncoderDetails encs accels\<rparr>
          in (Some sc, iv\<lparr>inv_caps := Some sc\<rparr>))"

definition GetCurrent :: "Inventory \<Rightarrow> ServerCapabilities option" where "GetCurrent iv = inv_caps iv"

section \<open>Choice of an encoder (encoder.go)\<close>

definition CanEncodeCodec :: "ServerCapabilities \<Rightarrow> string \<Rightarrow> bool" where
  "CanEncodeCodec sc codecName \<longleftrightarrow> list_ex (\<lambda>enc. Equal (e_Codec enc) codecName) (EncoderDetails sc)"

definition encoderScore :: "EncoderCapability \<Rightarrow> int" where
  "encoderScore enc = SpeedRank (Performance enc)
     + (if IsHardware enc then 100 else 0)
     + (if SupportsHDRPassthrough enc then 20 else 0)
     + (if e_Supports10Bit enc then 10 else 0)
     + (if RealtimeAt4K (Performance enc) then 15 else 0)
     + (if RealtimeAt1080p (Performance enc) then 5 else 0)"

text \<open>Which of several encoders of equal score comes first is open in the source (an unstable sort,
  which for up to twelve entries is an insertion sort and keeps their order).\<close>

definition SelectEncoder :: "ServerCapabilities \<Rightarrow> string \<Rightarrow> bool \<Rightarrow> bool \<Rightarrow> EncoderCapability option" where
  "SelectEncoder sc targetCodec needsHDR needs10Bit =
     (let candidates = GetEncoders sc targetCodec
      in if candidates = [] then None
         else let f1 = filter (\<lambda>e. \<not> (needsHDR \<and> \<not> SupportsHDRPassthrough e) \<and> \<not> (needs10Bit \<and> \<not> e_Supports10Bit e)) candidates;
                  f2 = (if f1 = [] \<and> needsHDR then filter (\<lambda>e. \<not> (needs10Bit \<and> \<not> e_Supports10Bit e)) candidates else f1);
                  f3 = (if f2 = [] then candidates else f2)
              in Some (hd (sort_key (\<lambda>e. - encoderScore e) f3)))"

definition SelectEncoderForCodec :: "ServerCapabilities \<Rightarrow> string \<Rightarrow> EncoderCapability option" where
  "SelectEncoderForCodec sc codecName = SelectEncoder sc codecName False False"


section \<open>What discovery and selection guarantee\<close>

lemma map_filter_mem: "y \<in> set (List.map_filter f xs) \<longleftrightarrow> (\<exists>x \<in> set xs. f x = Some y)"
  by (force simp: List.map_filter_def)

definition keeps_identity :: "(EncoderCapability \<Rightarrow> EncoderCapability) \<Rightarrow> bool" where
  "keeps_identity f \<longleftrightarrow> (\<forall>c. e_Codec (f c) = e_Codec c \<and> EncoderName (f c) = EncoderName c
     \<and> IsHardware (f c) = IsHardware c \<and> e_HWAccelType (f c) = e_HWAccelType c
     \<and> (SupportsHDRPassthrough (f c) \<longrightarrow> SupportsHDRPassthrough c \<or> e_Supports10Bit (f c)))"

lemma encoderProps_keep: "list_all (\<lambda>(n, f, t). keeps_identity f) encoderProps"
  unfolding encoderProps_def list.pred_inject prod.case by (intro conjI; simp add: keeps_identity_def)

lemma populate_fixed: "map_of encoderProps n = Some (f, t) \<Longrightarrow> keeps_identity f"
  using encoderProps_keep by (auto simp: list_all_iff dest!: map_of_SomeD)

lemma populate_props:
  "e_Codec (populateEncoderCapability c hs) = e_Codec c" "EncoderName (populateEncoderCapability c hs) = EncoderName c"
  "IsHardware (populateEncoderCapability c hs) = IsHardware c" "e_HWAccelType (populateEncoderCapability c hs) = e_HWAccelType c"
  using populate_fixed [of "EncoderName c"]
  by (auto simp: populateEncoderCapability_def applyHWCapsFromAccel_def keeps_identity_def split: option.splits)

lemma populate_hdr:
  "\<not> SupportsHDRPassthrough c \<Longrightarrow> SupportsHDRPassthrough (populateEncoderCapability c hs) \<Longrightarrow> e_Supports10Bit (populateEncoderCapability c hs)"
  using populate_fixed [of "EncoderName c"]
  by (auto simp: populateEncoderCapability_def applyHWCapsFromAccel_def keeps_identity_def split: option.splits)

lemma encoderInfo_no_v4l2: "gget encoderInfo n = Some (c, ty, hw) \<Longrightarrow> ty \<noteq> HWAccelV4L2"
  unfolding gget_def by (drule map_of_SomeD) (auto simp: encoderInfo_def)

text \<open>
  Every encoder the inventory lists is one that ffmpeg reports, of the codec known for it; a
  hardware encoder is listed only when its hardware was detected; and an encoder that passes HDR
  through also encodes 10 bit. No listed encoder drives V4L2 hardware, so detecting that hardware
  never makes an encoder available.
\<close>

theorem encoder_details_sound:
  assumes "enc \<in> set (buildEncoderDetails encs accels)"
  shows "EncoderName enc \<in> set encs
    \<and> gget encoderInfo (EncoderName enc) = Some (e_Codec enc, e_HWAccelType enc, IsHardware enc)
    \<and> (IsHardware enc \<longrightarrow> (\<exists>hw \<in> set accels. hw_Type hw = e_HWAccelType enc))
    \<and> (SupportsHDRPassthrough enc \<longrightarrow> e_Supports10Bit enc) \<and> e_HWAccelType enc \<noteq> HWAccelV4L2"
proof -
  obtain n where m: "n \<in> set encs" "(case gget encoderInfo n of None \<Rightarrow> None
      | Some (codec, ty, isHW) \<Rightarrow> if isHW \<and> \<not> list_ex (\<lambda>hw. hw_Type hw = ty) accels then None
          else Some (populateEncoderCapability (newCapability codec n isHW ty) accels)) = Some enc"
    using assms unfolding buildEncoderDetails_def map_filter_mem by blast
  then obtain codec ty hw where n: "n \<in> set encs" "gget encoderInfo n = Some (codec, ty, hw)"
      "\<not> (hw \<and> \<not> list_ex (\<lambda>h. hw_Type h = ty) accels)"
      "enc = populateEncoderCapability (newCapability codec n hw ty) accels"
    by (cases "gget encoderInfo n") (auto split: if_splits)
  then show ?thesis
    using populate_hdr [of "newCapability codec n hw ty" accels] encoderInfo_no_v4l2 [OF n(2)]
    by (auto simp: populate_props newCapability_def list_ex_iff)
qed

theorem encoder_details_sound_witness:
  "\<exists>enc. enc \<in> set (buildEncoderDetails [''libx265''] []) \<and> EncoderName enc \<in> {''libx265''}"
proof -
  let ?e = "populateEncoderCapability (newCapability ''hevc'' ''libx265'' False HWAccelNone) []"
  have "?e \<in> set (buildEncoderDetails [''libx265''] [])"
    by (simp add: buildEncoderDetails_def encoderInfo_def gget_Cons List.map_filter_def)
  then show ?thesis using encoder_details_sound [of ?e "[''libx265'']" "[]"] by auto
qed

lemma hd_sort_key:
  assumes "xs \<noteq> []"
  shows "hd (sort_key f xs) \<in> set xs" and "x \<in> set xs \<Longrightarrow> f (hd (sort_key f xs)) \<le> f x"
proof -
  obtain y ys where y: "sort_key f xs = y # ys" using assms by (metis neq_Nil_conv length_sort length_0_conv)
  then have "set xs = set (y # ys)" by (metis set_sort)
  moreover have "sorted (map f (y # ys))" using y by (metis sorted_sort_key)
  ultimately show "hd (sort_key f xs) \<in> set xs" "x \<in> set xs \<Longrightarrow> f (hd (sort_key f xs)) \<le> f x" using y by auto
qed

definition meets :: "bool \<Rightarrow> bool \<Rightarrow> EncoderCapability \<Rightarrow> bool" where
  "meets needsHDR needs10Bit e \<longleftrightarrow> (needsHDR \<longrightarrow> SupportsHDRPassthrough e) \<and> (needs10Bit \<longrightarrow> e_Supports10Bit e)"

lemma GetEncoders_iff: "x \<in> set (GetEncoders sc codec) \<longleftrightarrow> x \<in> set (EncoderDetails sc) \<and> Equal (e_Codec x) codec"
  by (auto simp: GetEncoders_def)

lemma GetEncoders_Nil: "GetEncoders sc codec = [] \<longleftrightarrow> \<not> CanEncodeCodec sc codec"
  by (auto simp: GetEncoders_def CanEncodeCodec_def filter_empty_conv list_ex_iff)

text \<open>The candidates that are sorted: a non-empty part of the encoders, all that meet the needs if there are any.\<close>

lemma SelectEncoder_candidates:
  assumes "SelectEncoder sc codec needsHDR needs10Bit = Some e"
  obtains f where "f \<noteq> []" and "set f \<subseteq> set (GetEncoders sc codec)" and "e = hd (sort_key (\<lambda>e. - encoderScore e) f)"
    and "\<And>x. x \<in> set (GetEncoders sc codec) \<Longrightarrow> meets needsHDR needs10Bit x \<Longrightarrow> f = filter (meets needsHDR needs10Bit) (GetEncoders sc codec)"
proof -
  define cand where "cand = GetEncoders sc codec"
  define ok where "ok = meets needsHDR needs10Bit"
  define f2 where "f2 = (if filter ok cand = [] \<and> needsHDR then filter (\<lambda>e. \<not> (needs10Bit \<and> \<not> e_Supports10Bit e)) cand else filter ok cand)"
  define f3 where "f3 = (if f2 = [] then cand else f2)"
  have ok: "(\<lambda>e. \<not> (needsHDR \<and> \<not> SupportsHDRPassthrough e) \<and> \<not> (needs10Bit \<and> \<not> e_Supports10Bit e)) = ok"
    by (auto simp: ok_def meets_def)
  have "SelectEncoder sc codec needsHDR needs10Bit = (if cand = [] then None else Some (hd (sort_key (\<lambda>e. - encoderScore e) f3)))"
    unfolding SelectEncoder_def Let_def ok cand_def [symmetric] f2_def [symmetric] f3_def [symmetric] ..
  then have "cand \<noteq> []" "e = hd (sort_key (\<lambda>e. - encoderScore e) f3)" using assms by (auto split: if_splits)
  moreover have "f3 = filter ok cand" if "x \<in> set cand" "ok x" for x
  proof -
    have "filter ok cand \<noteq> []" using that by (auto simp: filter_empty_conv)
    then show ?thesis by (auto simp: f3_def f2_def)
  qed
  moreover have "set f3 \<subseteq> set cand" by (auto simp: f3_def f2_def)
  moreover have "f3 \<noteq> []" using calculation(1) by (auto simp: f3_def)
  ultimately show ?thesis using that [of f3] unfolding cand_def ok_def by blast
qed

lemma SelectEncoder_None: "SelectEncoder sc codec needsHDR needs10Bit = None \<longleftrightarrow> \<not> CanEncodeCodec sc codec"
  by (auto simp: SelectEncoder_def Let_def GetEncoders_Nil)

lemma SelectEncoder_mem:
  assumes "SelectEncoder sc codec needsHDR needs10Bit = Some e"
  shows "e \<in> set (EncoderDetails sc)" and "Equal (e_Codec e) codec"
proof -
  obtain f where "f \<noteq> []" "set f \<subseteq> set (GetEncoders sc codec)" "e = hd (sort_key (\<lambda>e. - encoderScore e) f)"
    by (rule SelectEncoder_candidates [OF assms])
  then have "e \<in> set (GetEncoders sc codec)" using hd_sort_key(1) [of f "\<lambda>e. - encoderScore e"] by blast
  then show "e \<in> set (EncoderDetails sc)" "Equal (e_Codec e) codec" by (simp_all add: GetEncoders_iff)
qed

lemma SelectEncoder_meets:
  assumes "SelectEncoder sc codec needsHDR needs10Bit = Some e" and "x \<in> set (EncoderDetails sc)" and "Equal (e_Codec x) codec"
    and "meets needsHDR needs10Bit x"
  shows "meets needsHDR needs10Bit e" and "encoderScore x \<le> encoderScore e"
proof -
  have x: "x \<in> set (GetEncoders sc codec)" using assms(2,3) by (simp add: GetEncoders_iff)
  obtain f where f: "f \<noteq> []" "e = hd (sort_key (\<lambda>e. - encoderScore e) f)"
      "f = filter (meets needsHDR needs10Bit) (GetEncoders sc codec)"
    by (rule SelectEncoder_candidates [OF assms(1)]) (use x assms(4) in blast)
  note h = hd_sort_key [OF f(1), where f = "\<lambda>e. - encoderScore e", folded f(2)]
  show "meets needsHDR needs10Bit e" using h(1) unfolding f(3) by simp
  have "x \<in> set f" using x assms(4) unfolding f(3) by simp
  from h(2) [OF this] show "encoderScore x \<le> encoderScore e" by simp
qed

text \<open>
  Selecting an encoder fails exactly when the server cannot encode the codec. The encoder
  selected encodes the codec; if some encoder meets the HDR and 10-bit requirements the selected
  one meets them too and no encoder meeting them scores higher; and without requirements no encoder
  of the codec scores higher.
\<close>

theorem select_encoder_best:
  "(SelectEncoder sc codec needsHDR needs10Bit = None \<longleftrightarrow> \<not> CanEncodeCodec sc codec)
   \<and> (\<forall>e. SelectEncoder sc codec needsHDR needs10Bit = Some e \<longrightarrow>
        e \<in> set (EncoderDetails sc) \<and> Equal (e_Codec e) codec
        \<and> (\<forall>x \<in> set (EncoderDetails sc). Equal (e_Codec x) codec \<longrightarrow>
             (needsHDR \<longrightarrow> SupportsHDRPassthrough x) \<longrightarrow> (needs10Bit \<longrightarrow> e_Supports10Bit x) \<longrightarrow>
             (needsHDR \<longrightarrow> SupportsHDRPassthrough e) \<and> (needs10Bit \<longrightarrow> e_Supports10Bit e) \<and> encoderScore x \<le> encoderScore e))"
proof (intro conjI allI impI ballI)
  show "SelectEncoder sc codec needsHDR needs10Bit = None \<longleftrightarrow> \<not> CanEncodeCodec sc codec" by (rule SelectEncoder_None)
  fix e assume e: "SelectEncoder sc codec needsHDR needs10Bit = Some e"
  show "e \<in> set (EncoderDetails sc)" "Equal (e_Codec e) codec" by (rule SelectEncoder_mem [OF e])+
  fix x assume x: "x \<in> set (EncoderDetails sc)" "Equal (e_Codec x) codec"
    and r: "needsHDR \<longrightarrow> SupportsHDRPassthrough x" "needs10Bit \<longrightarrow> e_Supports10Bit x"
  have "meets needsHDR needs10Bit x" using r by (simp add: meets_def)
  note m = SelectEncoder_meets [OF e x this]
  show "encoderScore x \<le> encoderScore e" by (rule m(2))
  show "needsHDR \<Longrightarrow> SupportsHDRPassthrough e" "needs10Bit \<Longrightarrow> e_Supports10Bit e" using m(1) by (simp_all add: meets_def)
qed

text \<open>A server with the two software encoders of H.264 and HEVC.\<close>

definition software_server :: ServerCapabilities where
  "software_server = \<lparr>FFmpegVersion = ''6.0'', FFmpegPath = ''/usr/bin/ffmpeg'', AvailableEncoders = [''libx264'', ''libx265''],
     AvailableDecoders = [], HWAccel = [], EncoderDetails = buildEncoderDetails [''libx264'', ''libx265''] []\<rparr>"

theorem select_encoder_best_witness:
  "\<exists>e. SelectEncoder software_server ''HEVC'' True True = Some e \<and> Equal (e_Codec e) ''HEVC'' \<and> e_Supports10Bit e"
proof -
  note best = select_encoder_best [of software_server "''HEVC''" True True]
  have can: "CanEncodeCodec software_server ''HEVC''" by code_simp
  have "SelectEncoder software_server ''HEVC'' True True \<noteq> None" using conjunct1 [OF best] can by simp
  then obtain e where e: "SelectEncoder software_server ''HEVC'' True True = Some e" by (simp only: not_None_eq) (elim exE)
  have "list_ex (\<lambda>x. Equal (e_Codec x) ''HEVC'' \<and> SupportsHDRPassthrough x \<and> e_Supports10Bit x) (EncoderDetails software_server)"
    by code_simp
  then obtain x where "x \<in> set (EncoderDetails software_server)" "Equal (e_Codec x) ''HEVC''"
      "SupportsHDRPassthrough x" "e_Supports10Bit x" unfolding list_ex_iff by blast
  then show ?thesis using conjunct2 [OF best, rule_format, OF e] e by blast
qed

end
