(* ===== verification/Transcode.thy ===== *)
theory Transcode
  imports Server Breaker DeviceTypes
begin

text \<open>
  The transcode orchestrator, package \<^verbatim>\<open>internal/transcode\<close>: codec ladders
  (\<^verbatim>\<open>codec_ladder.go\<close>), quality policies (\<^verbatim>\<open>quality.go\<close>), device matching
  (\<^verbatim>\<open>matcher.go\<close>), subtitles (\<^verbatim>\<open>subtitle.go\<close>), legacy content (\<^verbatim>\<open>legacy.go\<close>) and the
  decision itself (\<^verbatim>\<open>orchestrator.go\<close>). A decision is the record the source fills in step
  by step; the steps of \<open>buildTranscode\<close> are functions of their own. The time a decision takes
  is the argument \<open>ms\<close>; the event that \<open>Decide\<close> publishes and the item it may correct are
  part of its result.
\<close>

section \<open>Codec ladders\<close>

definition videoCodecLadder :: "(string, string list) gomap" where
  "videoCodecLadder =
     [(''av1'', [''hevc'', ''vp9'', ''h264'']), (''hevc'', [''hevc'', ''vp9'', ''h264'']),
      (''vp9'', [''hevc'', ''vp9'', ''h264'']), (''h264'', [''h264'']), (''mpeg2'', [''h264'']),
      (''mpeg4'', [''h264'']), (''vc1'', [''h264'']), (''vp8'', [''vp9'', ''h264''])]"

definition GetVideoCodecLadder :: "string \<Rightarrow> string list" where
  "GetVideoCodecLadder sourceCodec =
     (case gget videoCodecLadder sourceCodec of Some l \<Rightarrow> l | None \<Rightarrow> [''h264''])"

record audioTarget =
  at_Codec :: string
  MaxChannels :: int

definition target :: "string \<Rightarrow> int \<Rightarrow> audioTarget" where
  "target c n = \<lparr>at_Codec = c, MaxChannels = n\<rparr>"

definition audioCodecLadder :: "(string, audioTarget list) gomap" where
  "audioCodecLadder =
     [(''truehd'', [target ''truehd'' 8, target ''eac3'' 8, target ''eac3'' 6, target ''ac3'' 6, target ''aac'' 6, target ''aac'' 2]),
      (''dts'', [target ''dts'' 8, target ''eac3'' 8, target ''eac3'' 6, target ''ac3'' 6, target ''aac'' 6, target ''aac'' 2]),
      (''eac3'', [target ''eac3'' 8, target ''eac3'' 6, target ''ac3'' 6, target ''aac'' 6, target ''aac'' 2]),
      (''ac3'', [target ''ac3'' 6, target ''aac'' 6, target ''aac'' 2]),
      (''flac'', [target ''flac'' 8, target ''aac'' 6, target ''aac'' 2]),
      (''alac'', [target ''alac'' 8, target ''aac'' 6, target ''aac'' 2]),
      (''opus'', [target ''opus'' 8, target ''aac'' 6, target ''aac'' 2]),
      (''aac'', [target ''aac'' 6, target ''aac'' 2]),
      (''mp3'', [target ''mp3'' 2, target ''aac'' 2])]"

definition GetAudioCodecLadder :: "string \<Rightarrow> audioTarget list" where
  "GetAudioCodecLadder sourceCodec =
     (case gget audioCodecLadder sourceCodec of Some l \<Rightarrow> l | None \<Rightarrow> [target ''aac'' 2])"

section \<open>Quality policies\<close>

datatype HdrPolicy = HdrBestForDevice | HdrAlwaysToneMap | HdrNeverToneMap

fun HdrPolicy_String :: "HdrPolicy \<Rightarrow> string" where
  "HdrPolicy_String HdrBestForDevice = ''best_for_device''"
| "HdrPolicy_String HdrAlwaysToneMap = ''always_tonemap''"
| "HdrPolicy_String HdrNeverToneMap = ''never_tonemap''"

datatype ToneMappingQuality = ToneMappingHigh | ToneMappingMedium | ToneMappingFast

fun ToneMappingQuality_String :: "ToneMappingQuality \<Rightarrow> string" where
  "ToneMappingQuality_String ToneMappingHigh = ''high''"
| "ToneMappingQuality_String ToneMappingMedium = ''medium''"
| "ToneMappingQuality_String ToneMappingFast = ''fast''"

datatype AudioChannelPolicy = AudioPreserveChannels | AudioAllowDownmix
datatype BitDepthPolicy = BitDepthPreserveWhenPossible | BitDepthAllow8Bit
datatype ResolutionPolicy = ResolutionMaintainOriginal | ResolutionAllowBandwidthReduce

record QualityPreservationPolicy =
  qp_HdrPolicy :: HdrPolicy
  qp_ToneMappingQuality :: ToneMappingQuality
  qp_AudioChannelPolicy :: AudioChannelPolicy
  qp_BitDepthPolicy :: BitDepthPolicy
  qp_ResolutionPolicy :: ResolutionPolicy
  MinTrustForDirectPlay :: float64

definition DefaultQualityPolicy :: QualityPreservationPolicy where
  "DefaultQualityPolicy =
     \<lparr>qp_HdrPolicy = HdrBestForDevice, qp_ToneMappingQuality = ToneMappingHigh,
      qp_AudioChannelPolicy = AudioPreserveChannels, qp_BitDepthPolicy = BitDepthPreserveWhenPossible,
      qp_ResolutionPolicy = ResolutionMaintainOriginal, MinTrustForDirectPlay = lit 6 10\<rparr>"

section \<open>Subtitles\<close>

datatype SubtitleType = SubtitleText | SubtitleStyledText | SubtitleGraphical | SubtitleNone
datatype SubtitleAction = SubtitlePassthrough | SubtitleConvertToVTT | SubtitleBurnIn | SubtitleDrop

fun SubtitleAction_String :: "SubtitleAction \<Rightarrow> string" where
  "SubtitleAction_String SubtitlePassthrough = ''passthrough''"
| "SubtitleAction_String SubtitleConvertToVTT = ''convert_to_vtt''"
| "SubtitleAction_String SubtitleBurnIn = ''burn_in''"
| "SubtitleAction_String SubtitleDrop = ''drop''"

record SubtitleDecision =
  sd_Type :: SubtitleType
  SourceFormat :: string
  Action :: SubtitleAction
  OutputFormat :: string
  ForcesBurnIn :: bool
  streamIndex :: int

record SubtitleConfig =
  BurnInStyledText :: bool

definition zeroSubtitle :: SubtitleDecision where
  "zeroSubtitle = \<lparr>sd_Type = SubtitleText, SourceFormat = [], Action = SubtitlePassthrough,
     OutputFormat = [], ForcesBurnIn = False, streamIndex = 0\<rparr>"

definition ClassifySubtitle :: "string \<Rightarrow> SubtitleType" where
  "ClassifySubtitle f =
     (if Equal f ''srt'' \<or> Equal f ''vtt'' \<or> Equal f ''subrip'' then SubtitleText
      else if Equal f ''ass'' \<or> Equal f ''ssa'' then SubtitleStyledText
      else if Equal f ''pgs'' \<or> Equal f ''hdmv_pgs_subtitle'' \<or> Equal f ''vobsub'' \<or> Equal f ''dvbsub''
              \<or> Equal f ''dvb_subtitle'' \<or> Equal f ''dvdsub'' then SubtitleGraphical
      else SubtitleNone)"

definition DecideSubtitle :: "string \<Rightarrow> bool \<Rightarrow> SubtitleConfig \<Rightarrow> SubtitleDecision" where
  "DecideSubtitle subFormat deviceSupportsFormat config =
     (if subFormat = [] then zeroSubtitle\<lparr>sd_Type := SubtitleNone, Action := SubtitleDrop\<rparr>
      else case ClassifySubtitle subFormat of
        SubtitleText \<Rightarrow> zeroSubtitle\<lparr>sd_Type := SubtitleText, SourceFormat := subFormat,
            Action := SubtitlePassthrough, OutputFormat := ''vtt''\<rparr>
      | SubtitleStyledText \<Rightarrow>
          (if BurnInStyledText config
           then zeroSubtitle\<lparr>sd_Type := SubtitleStyledText, SourceFormat := subFormat,
                  Action := SubtitleBurnIn, ForcesBurnIn := True\<rparr>
           else zeroSubtitle\<lparr>sd_Type := SubtitleStyledText, SourceFormat := subFormat,
                  Action := SubtitleConvertToVTT, OutputFormat := ''vtt''\<rparr>)
      | SubtitleGraphical \<Rightarrow>
          (if deviceSupportsFormat
           then zeroSubtitle\<lparr>sd_Type := SubtitleGraphical, SourceFormat := subFormat, Action := SubtitlePassthrough\<rparr>
           else zeroSubtitle\<lparr>sd_Type := SubtitleGraphical, SourceFormat := subFormat,
                  Action := SubtitleBurnIn, ForcesBurnIn := True\<rparr>)
      | SubtitleNone \<Rightarrow> zeroSubtitle\<lparr>sd_Type := SubtitleNone, Action := SubtitleDrop\<rparr>)"

section \<open>Media items and device matching\<close>

record MediaItem =
  mi_ID :: string
  mi_Title :: string
  VideoCodec :: string
  AudioCodec :: string
  mi_Container :: string
  Width :: int
  Height :: int
  Bitrate :: int
  Framerate :: float64
  AudioChannels :: int
  AudioBitrate :: int
  mi_BitDepth :: int
  IsHDR :: bool
  HDRType :: string
  IsDolbyVision :: bool
  DolbyVisionProfile :: string
  IsDolbyAtmos :: bool
  Interlaced :: bool
  PixelAspectRatio :: float64
  SubtitleFormat :: string
  SubtitleIndex :: int
  mi_Duration :: duration

definition containsCodec :: "string list \<Rightarrow> string \<Rightarrow> bool" where
  "containsCodec list name \<longleftrightarrow> list_ex (\<lambda>item. Equal item name) list"

definition CanDirectPlayVideo :: "QualityPreservationPolicy \<Rightarrow> DeviceCapabilities \<Rightarrow> MediaItem \<Rightarrow> bool" where
  "CanDirectPlayVideo policy caps item \<longleftrightarrow>
     \<not> dc_TrustScore caps < MinTrustForDirectPlay policy
     \<and> containsCodec (VideoCodecs caps) (VideoCodec item)
     \<and> \<not> (MaxWidth caps > 0 \<and> Width item > MaxWidth caps)
     \<and> \<not> (MaxHeight caps > 0 \<and> Height item > MaxHeight caps)
     \<and> \<not> (MaxBitrate caps > 0 \<and> Bitrate item > MaxBitrate caps)
     \<and> \<not> (IsHDR item \<and> \<not> SupportsHDR caps)
     \<and> \<not> (IsDolbyVision item \<and> \<not> SupportsDolbyVision caps)"

definition CanDirectPlayAudio :: "DeviceCapabilities \<Rightarrow> MediaItem \<Rightarrow> bool" where
  "CanDirectPlayAudio caps item \<longleftrightarrow>
     containsCodec (AudioCodecs caps) (AudioCodec item)
     \<and> \<not> ((Equal (AudioCodec item) ''dts'' \<or> Equal (AudioCodec item) ''dts-hd'') \<and> \<not> SupportsDTS caps)
     \<and> \<not> (IsDolbyAtmos item \<and> \<not> SupportsDolbyAtmos caps)"

definition CanDirectPlayContainer :: "DeviceCapabilities \<Rightarrow> string \<Rightarrow> bool" where
  "CanDirectPlayContainer caps container \<longleftrightarrow> containsCodec (ContainerFormats caps) container"

definition SupportsCodec :: "DeviceCapabilities \<Rightarrow> string \<Rightarrow> bool" where
  "SupportsCodec caps codecName \<longleftrightarrow> containsCodec (VideoCodecs caps) codecName"

definition SupportsAudioCodec :: "DeviceCapabilities \<Rightarrow> string \<Rightarrow> bool" where
  "SupportsAudioCodec caps codecName \<longleftrightarrow> containsCodec (AudioCodecs caps) codecName"

section \<open>Legacy content\<close>

record LegacyContentFlags =
  IsInterlaced :: bool
  IsAnamorphic :: bool
  IsSD :: bool
  lc_PixelAspectRatio :: float64
  ColorSpace :: string

definition DetectLegacyContent :: "MediaItem \<Rightarrow> LegacyContentFlags" where
  "DetectLegacyContent item =
     (let sd = Height item \<le> 576;
          ana = PixelAspectRatio item > 0 \<and> \<bar>fl (PixelAspectRatio item - 1)\<bar> > lit 1 1000
      in \<lparr>IsInterlaced = Interlaced item, IsAnamorphic = ana, IsSD = sd,
          lc_PixelAspectRatio = (if ana then PixelAspectRatio item else 0),
          ColorSpace = (if sd then ''bt601'' else ''bt709'')\<rparr>)"

definition BuildLegacyFilterArgs :: "LegacyContentFlags \<Rightarrow> string list" where
  "BuildLegacyFilterArgs flags =
     (if IsInterlaced flags then [''bwdif=mode=send_frame:parity=auto:deint=all''] else [])
     @ (if IsAnamorphic flags \<and> lc_PixelAspectRatio flags > 0 then [''setsar=1''] else [])"

section \<open>Decisions\<close>

datatype DecisionType = DecisionDirectPlay | DecisionRemux | DecisionTranscode | DecisionFallback

fun DecisionType_String :: "DecisionType \<Rightarrow> string" where
  "DecisionType_String DecisionDirectPlay = ''direct_play''"
| "DecisionType_String DecisionRemux = ''remux''"
| "DecisionType_String DecisionTranscode = ''transcode''"
| "DecisionType_String DecisionFallback = ''fallback''"

record PlaybackDecision =
  d_Type :: DecisionType
  Reasons :: "string list"
  SourceVideoCodec :: string
  SourceAudioCodec :: string
  SourceContainer :: string
  SourceWidth :: int
  SourceHeight :: int
  SourceBitrate :: int
  SourceIsHDR :: bool
  SourceInterlaced :: bool
  SourcePixelAspectRatio :: float64
  TargetVideoCodec :: string
  TargetAudioCodec :: string
  TargetContainer :: string
  TargetAudioChannels :: int
  NeedsVideoTranscode :: bool
  NeedsAudioTranscode :: bool
  NeedsRemux :: bool
  HDRPreserved :: bool
  ToneMapped :: bool
  BitDepthPreserved :: bool
  AudioChannelsPreserved :: bool
  EncoderUsed :: string
  HardwareAccelUsed :: bool
  d_SubtitleDecision :: SubtitleDecision
  DeviceCapabilityTrust :: float64
  CapabilitySources :: "string list"
  DecisionDurationMs :: int

definition newDecision :: "MediaItem \<Rightarrow> DeviceCapabilities \<Rightarrow> PlaybackDecision" where
  "newDecision item caps =
     \<lparr>d_Type = DecisionDirectPlay, Reasons = [], SourceVideoCodec = VideoCodec item,
      SourceAudioCodec = AudioCodec item, SourceContainer = mi_Container item, SourceWidth = Width item,
      SourceHeight = Height item, SourceBitrate = Bitrate item, SourceIsHDR = IsHDR item,
      SourceInterlaced = Interlaced item, SourcePixelAspectRatio = PixelAspectRatio item,
      TargetVideoCodec = [], TargetAudioCodec = [], TargetContainer = [], TargetAudioChannels = 0,
      NeedsVideoTranscode = False, NeedsAudioTranscode = False, NeedsRemux = False,
      HDRPreserved = False, ToneMapped = False, BitDepthPreserved = False, AudioChannelsPreserved = False,
      EncoderUsed = [], HardwareAccelUsed = False, d_SubtitleDecision = zeroSubtitle,
      DeviceCapabilityTrust = dc_TrustScore caps, CapabilitySources = [], DecisionDurationMs = 0\<rparr>"

definition add_reasons :: "string list \<Rightarrow> PlaybackDecision \<Rightarrow> PlaybackDecision" where
  "add_reasons rs d = d\<lparr>Reasons := Reasons d @ rs\<rparr>"

record Orchestrator =
  inventory :: Inventory
  policy :: QualityPreservationPolicy
  subConfig :: SubtitleConfig
  transcodeBreaker :: Breaker

definition NewOrchestrator :: "Inventory \<Rightarrow> QualityPreservationPolicy \<Rightarrow> SubtitleConfig \<Rightarrow> Orchestrator" where
  "NewOrchestrator iv pol sub = \<lparr>inventory = iv, policy = pol, subConfig = sub,
     transcodeBreaker = StateChangeHandler (New (DefaultConfig ''transcode''))\<rparr>"

definition IsTranscodeAvailable :: "Orchestrator \<Rightarrow> bool" where
  "IsTranscodeAvailable o' \<longleftrightarrow> LoadState (transcodeBreaker o') \<noteq> StateOpen"

definition RecordTranscodeResult :: "bool \<Rightarrow> time \<Rightarrow> Orchestrator \<Rightarrow> Orchestrator" where
  "RecordTranscodeResult success now o' =
     o'\<lparr>transcodeBreaker := (if success then RecordSuccess (transcodeBreaker o')
          else RecordFailure now (transcodeBreaker o'))\<rparr>"

section \<open>Direct play and remux\<close>

text \<open>The policy check for HDR that direct play and remux share: the reason to refuse, if any.\<close>

definition hdr_refusal :: "QualityPreservationPolicy \<Rightarrow> DeviceCapabilities \<Rightarrow> MediaItem \<Rightarrow> string option" where
  "hdr_refusal pol caps item =
     (if IsHDR item then
        (case qp_HdrPolicy pol of
           HdrAlwaysToneMap \<Rightarrow> Some ''HDR always tone-map policy''
         | HdrBestForDevice \<Rightarrow>
             if \<not> SupportsHDR caps then Some ''device does not support HDR, need tone-map'' else None
         | HdrNeverToneMap \<Rightarrow> None)
      else None)"

definition tryDirectPlay ::
  "Orchestrator \<Rightarrow> MediaItem \<Rightarrow> DeviceCapabilities \<Rightarrow> PlaybackDecision \<Rightarrow> bool \<times> PlaybackDecision" where
  "tryDirectPlay o' item caps d =
     (if \<not> CanDirectPlayVideo (policy o') caps item
      then (False, add_reasons [''video codec '' @ VideoCodec item @ '' not direct-playable (trust='' @ Fmt2 (dc_TrustScore caps) @ '')''] d)
      else if \<not> CanDirectPlayAudio caps item
      then (False, add_reasons [''audio codec '' @ AudioCodec item @ '' not supported''] d)
      else if \<not> CanDirectPlayContainer caps (mi_Container item)
      then (False, add_reasons [''container '' @ mi_Container item @ '' not supported''] d)
      else case hdr_refusal (policy o') caps item of
        Some r \<Rightarrow> (False, add_reasons [r] d)
      | None \<Rightarrow>
          (True, add_reasons [''all codecs and container compatible'']
             (d\<lparr>d_Type := DecisionDirectPlay, TargetVideoCodec := VideoCodec item,
                TargetAudioCodec := AudioCodec item, TargetContainer := mi_Container item,
                TargetAudioChannels := AudioChannels item, HDRPreserved := IsHDR item,
                BitDepthPreserved := True, AudioChannelsPreserved := True\<rparr>)))"

definition findCompatibleContainer :: "DeviceCapabilities \<Rightarrow> string \<Rightarrow> string \<Rightarrow> string" where
  "findCompatibleContainer caps videoCodec audioCodec =
     (case find (\<lambda>c. CanContainerContain c videoCodec \<and> CanContainerContain c audioCodec) (ContainerFormats caps) of
        Some c \<Rightarrow> c | None \<Rightarrow> [])"

definition tryRemux ::
  "Orchestrator \<Rightarrow> MediaItem \<Rightarrow> DeviceCapabilities \<Rightarrow> PlaybackDecision \<Rightarrow> bool \<times> PlaybackDecision" where
  "tryRemux o' item caps d =
     (if \<not> CanDirectPlayVideo (policy o') caps item then (False, d)
      else if \<not> CanDirectPlayAudio caps item then (False, d)
      else if IsHDR item \<and> qp_HdrPolicy (policy o') = HdrAlwaysToneMap then (False, d)
      else if IsHDR item \<and> qp_HdrPolicy (policy o') = HdrBestForDevice \<and> \<not> SupportsHDR caps then (False, d)
      else let targetContainer = findCompatibleContainer caps (VideoCodec item) (AudioCodec item)
           in if targetContainer = [] then (False, d)
              else (True, add_reasons [''remux from '' @ mi_Container item @ '' to '' @ targetContainer]
                (d\<lparr>d_Type := DecisionRemux, NeedsRemux := True, TargetVideoCodec := VideoCodec item,
                   TargetAudioCodec := AudioCodec item, TargetContainer := targetContainer,
                   TargetAudioChannels := AudioChannels item, HDRPreserved := IsHDR item,
                   BitDepthPreserved := True, AudioChannelsPreserved := True\<rparr>)))"

section \<open>Transcoding\<close>

definition absoluteFallback :: "string \<Rightarrow> PlaybackDecision \<Rightarrow> PlaybackDecision" where
  "absoluteFallback reason d =
     add_reasons [''absolute fallback: '' @ reason]
       (d\<lparr>d_Type := DecisionFallback, NeedsVideoTranscode := True, NeedsAudioTranscode := True,
          TargetVideoCodec := ''h264'', TargetAudioCodec := ''aac'', TargetContainer := ''mp4'',
          TargetAudioChannels := 2\<rparr>)"

fun walk_video :: "DeviceCapabilities \<Rightarrow> ServerCapabilities \<Rightarrow> string list \<Rightarrow> string option \<times> string list" where
  "walk_video caps sc [] = (None, [])"
| "walk_video caps sc (c # cs) =
     (if \<not> SupportsCodec caps c
      then (let (r, rs) = walk_video caps sc cs in (r, (''device doesn't support '' @ c) # rs))
      else if \<not> CanEncodeCodec sc c
      then (let (r, rs) = walk_video caps sc cs in (r, (''server can't encode '' @ c) # rs))
      else (Some c, [''selected video codec '' @ c]))"

definition selectVideoTarget :: "MediaItem \<Rightarrow> DeviceCapabilities \<Rightarrow> ServerCapabilities \<Rightarrow> string \<times> string list" where
  "selectVideoTarget item caps sc =
     (case walk_video caps sc (GetVideoCodecLadder (VideoCodec item)) of
        (Some c, rs) \<Rightarrow> (c, rs)
      | (None, rs) \<Rightarrow>
          if CanEncodeCodec sc ''h264'' then (''h264'', rs @ [''fallback to h264''])
          else ([], rs @ [''no usable video encoder found, including h264'']))"

definition audio_usable :: "MediaItem \<Rightarrow> DeviceCapabilities \<Rightarrow> ServerCapabilities \<Rightarrow> audioTarget \<Rightarrow> bool" where
  "audio_usable item caps sc candidate \<longleftrightarrow>
     SupportsAudioCodec caps (at_Codec candidate)
     \<and> \<not> (\<not> CanEncodeCodec sc (at_Codec candidate) \<and> \<not> Equal (at_Codec candidate) (AudioCodec item))"

definition selectAudioTarget :: "MediaItem \<Rightarrow> DeviceCapabilities \<Rightarrow> ServerCapabilities \<Rightarrow> string \<times> int \<times> string list" where
  "selectAudioTarget item caps sc =
     (case find (audio_usable item caps sc) (GetAudioCodecLadder (AudioCodec item)) of
        Some candidate \<Rightarrow>
          let channels = (if MaxChannels candidate > AudioChannels item then AudioChannels item else MaxChannels candidate)
          in (at_Codec candidate, channels, [''selected audio '' @ at_Codec candidate @ '' '' @ Itoa channels @ ''ch''])
      | None \<Rightarrow> (''aac'', 2, [''fallback to aac stereo'']))"

definition container_ok :: "DeviceCapabilities \<Rightarrow> string \<Rightarrow> string \<Rightarrow> string \<Rightarrow> bool" where
  "container_ok caps videoCodec audioCodec c \<longleftrightarrow>
     containsCodec (ContainerFormats caps) c \<and> CanContainerContain c videoCodec \<and> CanContainerContain c audioCodec"

definition selectContainer :: "string \<Rightarrow> string \<Rightarrow> DeviceCapabilities \<Rightarrow> string" where
  "selectContainer videoCodec audioCodec caps =
     (case find (container_ok caps videoCodec audioCodec) [''mp4'', ''mkv'', ''ts'', ''webm''] of
        Some c \<Rightarrow> c
      | None \<Rightarrow>
          if container_ok caps videoCodec audioCodec ''mp4'' then ''mp4''
          else if CanContainerContain ''ts'' videoCodec \<and> CanContainerContain ''ts'' audioCodec then ''ts''
          else ''mp4'')"

text \<open>The steps of \<open>buildTranscode\<close>; a pair of booleans is \<open>needsHDR\<close>, \<open>needsToneMap\<close>.\<close>

definition hdr_needs :: "HdrPolicy \<Rightarrow> MediaItem \<Rightarrow> DeviceCapabilities \<Rightarrow> bool \<times> bool" where
  "hdr_needs pol item caps =
     (if IsHDR item then
        (case pol of
           HdrBestForDevice \<Rightarrow> if SupportsHDR caps then (True, False) else (False, True)
         | HdrAlwaysToneMap \<Rightarrow> (False, True)
         | HdrNeverToneMap \<Rightarrow> (True, False))
      else (False, False))"

definition dv_fallback :: "MediaItem \<Rightarrow> DeviceCapabilities \<Rightarrow> bool \<times> bool \<Rightarrow> string list \<times> bool \<times> bool" where
  "dv_fallback item caps needs =
     (if IsDolbyVision item \<and> \<not> SupportsDolbyVision caps
         \<and> (DolbyVisionProfile item = ''7'' \<or> DolbyVisionProfile item = ''8'')
      then ([''DolbyVision P'' @ DolbyVisionProfile item @ '' -> HDR10 base layer fallback''],
            if \<not> SupportsHDR caps then (False, True) else needs)
      else ([], needs))"

definition hdr_outcome :: "bool \<Rightarrow> bool \<Rightarrow> PlaybackDecision \<Rightarrow> PlaybackDecision" where
  "hdr_outcome needsHDR needsToneMap d =
     (if needsHDR
      then add_reasons [''HDR preserved (device has HDR display)''] (d\<lparr>HDRPreserved := True, BitDepthPreserved := True\<rparr>)
      else if needsToneMap
      then add_reasons [''HDR -> SDR tone mapping (no HDR display)'']
             (d\<lparr>ToneMapped := True, HDRPreserved := False, BitDepthPreserved := False\<rparr>)
      else d\<lparr>BitDepthPreserved := True\<rparr>)"

definition encode_video :: "ServerCapabilities \<Rightarrow> string \<Rightarrow> bool \<times> bool \<Rightarrow> PlaybackDecision \<Rightarrow> PlaybackDecision" where
  "encode_video sc videoCodec needs d0 =
     (let (needsHDR, needsToneMap) = needs; d = d0\<lparr>NeedsVideoTranscode := True, TargetVideoCodec := videoCodec\<rparr>
      in case SelectEncoder sc videoCodec needsHDR needsHDR of
           None \<Rightarrow> hdr_outcome needsHDR needsToneMap d
         | Some encoder \<Rightarrow>
             (let d1 = d\<lparr>EncoderUsed := EncoderName encoder, HardwareAccelUsed := IsHardware encoder\<rparr>
              in if needsHDR \<and> \<not> SupportsHDRPassthrough encoder
                 then hdr_outcome False True
                   (add_reasons [''encoder '' @ EncoderName encoder @ '' lacks HDR passthrough, falling back to tone mapping''] d1)
                 else hdr_outcome needsHDR needsToneMap d1))"

definition choose_video ::
  "Orchestrator \<Rightarrow> MediaItem \<Rightarrow> DeviceCapabilities \<Rightarrow> ServerCapabilities \<Rightarrow> string \<Rightarrow> bool \<times> bool \<Rightarrow> PlaybackDecision \<Rightarrow> PlaybackDecision" where
  "choose_video o' item caps sc videoCodec needs d =
     (if CanDirectPlayVideo (policy o') caps item \<and> \<not> snd needs \<and> \<not> ForcesBurnIn (d_SubtitleDecision d)
      then d\<lparr>NeedsVideoTranscode := False, TargetVideoCodec := VideoCodec item,
             HDRPreserved := IsHDR item, BitDepthPreserved := True\<rparr>
      else encode_video sc videoCodec needs d)"

definition choose_audio :: "MediaItem \<Rightarrow> DeviceCapabilities \<Rightarrow> ServerCapabilities \<Rightarrow> PlaybackDecision \<Rightarrow> PlaybackDecision" where
  "choose_audio item caps sc d0 =
     (let (audioCodec, audioChannels, audioReasons) = selectAudioTarget item caps sc; d = add_reasons audioReasons d0
      in if Equal audioCodec (AudioCodec item) \<and> audioChannels \<ge> AudioChannels item
         then d\<lparr>NeedsAudioTranscode := False, TargetAudioCodec := AudioCodec item,
                TargetAudioChannels := AudioChannels item, AudioChannelsPreserved := True\<rparr>
         else d\<lparr>NeedsAudioTranscode := True, TargetAudioCodec := audioCodec,
                TargetAudioChannels := audioChannels,
                AudioChannelsPreserved := (audioChannels \<ge> AudioChannels item)\<rparr>)"

definition choose_container :: "DeviceCapabilities \<Rightarrow> PlaybackDecision \<Rightarrow> PlaybackDecision" where
  "choose_container caps d0 =
     (let d = d0\<lparr>TargetContainer := selectContainer (TargetVideoCodec d0) (TargetAudioCodec d0) caps\<rparr>
      in if NeedsVideoTranscode d \<or> NeedsAudioTranscode d then d\<lparr>d_Type := DecisionTranscode\<rparr>
         else d\<lparr>d_Type := DecisionRemux, NeedsRemux := True\<rparr>)"

definition buildTranscode :: "Orchestrator \<Rightarrow> MediaItem \<Rightarrow> DeviceCapabilities \<Rightarrow> PlaybackDecision \<Rightarrow> PlaybackDecision" where
  "buildTranscode o' item caps d =
     (case GetCurrent (inventory o') of
        None \<Rightarrow> absoluteFallback ''server capabilities not available'' d
      | Some sc \<Rightarrow>
          (let (videoCodec, videoReasons) = selectVideoTarget item caps sc; d1 = add_reasons videoReasons d
           in if videoCodec = [] then absoluteFallback ''no usable video encoder found on server'' d1
              else let (dvReasons, needs) = dv_fallback item caps (hdr_needs (qp_HdrPolicy (policy o')) item caps)
                   in choose_container caps (choose_audio item caps sc
                        (choose_video o' item caps sc videoCodec needs (add_reasons dvReasons d1)))))"

section \<open>The decision\<close>

record TranscodePayload =
  tp_MediaItemID :: string
  tp_MediaTitle :: string
  tp_SourceCodec :: string
  tp_TargetCodec :: string
  tp_Status :: string

definition stamp :: "int \<Rightarrow> PlaybackDecision \<Rightarrow> PlaybackDecision" where
  "stamp ms d = d\<lparr>DecisionDurationMs := ms\<rparr>"

definition check_subtitle_index :: "MediaItem \<Rightarrow> PlaybackDecision \<Rightarrow> MediaItem \<times> PlaybackDecision" where
  "check_subtitle_index item d =
     (if SubtitleIndex item < -1
      then (item\<lparr>SubtitleIndex := -1, SubtitleFormat := []\<rparr>,
            add_reasons [''invalid subtitle index '' @ Itoa (SubtitleIndex item) @ '', ignoring subtitles''] d)
      else (item, d))"

definition decide_subtitle :: "Orchestrator \<Rightarrow> DeviceCapabilities \<Rightarrow> MediaItem \<Rightarrow> SubtitleDecision" where
  "decide_subtitle o' caps item =
     (DecideSubtitle (SubtitleFormat item) (containsCodec (SubtitleFormats caps) (SubtitleFormat item)) (subConfig o'))
       \<lparr>streamIndex := SubtitleIndex item\<rparr>"

definition Decide ::
  "int \<Rightarrow> Orchestrator \<Rightarrow> MediaItem \<Rightarrow> DeviceCapabilities \<Rightarrow> PlaybackDecision \<times> MediaItem \<times> TranscodePayload option" where
  "Decide ms o' item0 caps =
     (if \<not> IsTranscodeAvailable o'
      then (stamp ms (snd (tryDirectPlay o' item0 caps
              (add_reasons [''transcode circuit breaker open - direct play only''] (newDecision item0 caps)))), item0, None)
      else
        let (item, d0) = check_subtitle_index item0 (newDecision item0 caps);
            sub = decide_subtitle o' caps item;
            d1 = d0\<lparr>d_SubtitleDecision := sub\<rparr>;
            (direct, d2) = (if \<not> ForcesBurnIn sub then tryDirectPlay o' item caps d1 else (False, d1))
        in if direct then (stamp ms d2, item, None)
           else let (remux, d3) = (if \<not> ForcesBurnIn sub then tryRemux o' item caps d2 else (False, d2))
                in if remux then (stamp ms d3, item, None)
                   else let d4 = stamp ms (buildTranscode o' item caps d3)
                        in (d4, item,
                            if NeedsVideoTranscode d4 \<or> NeedsAudioTranscode d4
                            then Some \<lparr>tp_MediaItemID = mi_ID item, tp_MediaTitle = mi_Title item,
                                   tp_SourceCodec = VideoCodec item, tp_TargetCodec = TargetVideoCodec d4,
                                   tp_Status = ''started''\<rparr>
                            else None))"

end
