(* ===== verification/Strategy.thy ===== *)
theory Strategy
  imports Transcode
begin

text \<open>
  What the decisions of theory \<open>Transcode\<close> are: the abstract strategy that \<open>Decide\<close> implements,
  what a transcode targets, how HDR is handled, and what the circuit breaker does to decisions.
\<close>

section \<open>What each step leaves alone\<close>

lemma add_reasons_frame [simp]:
  "d_Type (add_reasons rs d) = d_Type d" "SourceVideoCodec (add_reasons rs d) = SourceVideoCodec d"
  "SourceAudioCodec (add_reasons rs d) = SourceAudioCodec d" "SourceContainer (add_reasons rs d) = SourceContainer d"
  "SourceIsHDR (add_reasons rs d) = SourceIsHDR d" "TargetVideoCodec (add_reasons rs d) = TargetVideoCodec d"
  "TargetAudioCodec (add_reasons rs d) = TargetAudioCodec d" "TargetContainer (add_reasons rs d) = TargetContainer d"
  "TargetAudioChannels (add_reasons rs d) = TargetAudioChannels d" "NeedsVideoTranscode (add_reasons rs d) = NeedsVideoTranscode d"
  "NeedsAudioTranscode (add_reasons rs d) = NeedsAudioTranscode d" "NeedsRemux (add_reasons rs d) = NeedsRemux d"
  "HDRPreserved (add_reasons rs d) = HDRPreserved d" "ToneMapped (add_reasons rs d) = ToneMapped d"
  "BitDepthPreserved (add_reasons rs d) = BitDepthPreserved d" "AudioChannelsPreserved (add_reasons rs d) = AudioChannelsPreserved d"
  "EncoderUsed (add_reasons rs d) = EncoderUsed d" "HardwareAccelUsed (add_reasons rs d) = HardwareAccelUsed d"
  "d_SubtitleDecision (add_reasons rs d) = d_SubtitleDecision d"
  by (simp_all add: add_reasons_def)

lemma add_reasons_Nil [simp]: "add_reasons [] d = d"
  by (simp add: add_reasons_def)

lemma add_reasons_twice [simp]: "add_reasons rs (add_reasons qs d) = add_reasons (qs @ rs) d"
  by (simp add: add_reasons_def)

lemma stamp_frame [simp]:
  "d_Type (stamp ms d) = d_Type d" "Reasons (stamp ms d) = Reasons d" "SourceVideoCodec (stamp ms d) = SourceVideoCodec d"
  "SourceAudioCodec (stamp ms d) = SourceAudioCodec d" "SourceContainer (stamp ms d) = SourceContainer d" "SourceIsHDR (stamp ms d) = SourceIsHDR d"
  "TargetVideoCodec (stamp ms d) = TargetVideoCodec d" "TargetAudioCodec (stamp ms d) = TargetAudioCodec d"
  "TargetContainer (stamp ms d) = TargetContainer d" "TargetAudioChannels (stamp ms d) = TargetAudioChannels d"
  "NeedsVideoTranscode (stamp ms d) = NeedsVideoTranscode d" "NeedsAudioTranscode (stamp ms d) = NeedsAudioTranscode d"
  "NeedsRemux (stamp ms d) = NeedsRemux d" "HDRPreserved (stamp ms d) = HDRPreserved d" "ToneMapped (stamp ms d) = ToneMapped d"
  "BitDepthPreserved (stamp ms d) = BitDepthPreserved d" "AudioChannelsPreserved (stamp ms d) = AudioChannelsPreserved d"
  "EncoderUsed (stamp ms d) = EncoderUsed d" "HardwareAccelUsed (stamp ms d) = HardwareAccelUsed d"
  "d_SubtitleDecision (stamp ms d) = d_SubtitleDecision d"
  by (simp_all add: stamp_def)

lemma choose_container_frame [simp]:
  "Reasons (choose_container caps d) = Reasons d" "SourceVideoCodec (choose_container caps d) = SourceVideoCodec d"
  "SourceAudioCodec (choose_container caps d) = SourceAudioCodec d" "SourceContainer (choose_container caps d) = SourceContainer d"
  "SourceIsHDR (choose_container caps d) = SourceIsHDR d" "TargetVideoCodec (choose_container caps d) = TargetVideoCodec d"
  "TargetAudioCodec (choose_container caps d) = TargetAudioCodec d" "TargetAudioChannels (choose_container caps d) = TargetAudioChannels d"
  "NeedsVideoTranscode (choose_container caps d) = NeedsVideoTranscode d" "NeedsAudioTranscode (choose_container caps d) = NeedsAudioTranscode d"
  "HDRPreserved (choose_container caps d) = HDRPreserved d" "ToneMapped (choose_container caps d) = ToneMapped d"
  "BitDepthPreserved (choose_container caps d) = BitDepthPreserved d" "AudioChannelsPreserved (choose_container caps d) = AudioChannelsPreserved d"
  "EncoderUsed (choose_container caps d) = EncoderUsed d" "HardwareAccelUsed (choose_container caps d) = HardwareAccelUsed d"
  "d_SubtitleDecision (choose_container caps d) = d_SubtitleDecision d"
  by (simp_all add: choose_container_def Let_def)

lemma choose_audio_frame [simp]:
  "d_Type (choose_audio item caps sc d) = d_Type d" "SourceVideoCodec (choose_audio item caps sc d) = SourceVideoCodec d"
  "SourceAudioCodec (choose_audio item caps sc d) = SourceAudioCodec d" "SourceContainer (choose_audio item caps sc d) = SourceContainer d"
  "SourceIsHDR (choose_audio item caps sc d) = SourceIsHDR d" "TargetVideoCodec (choose_audio item caps sc d) = TargetVideoCodec d"
  "TargetContainer (choose_audio item caps sc d) = TargetContainer d" "NeedsVideoTranscode (choose_audio item caps sc d) = NeedsVideoTranscode d"
  "NeedsRemux (choose_audio item caps sc d) = NeedsRemux d" "HDRPreserved (choose_audio item caps sc d) = HDRPreserved d"
  "ToneMapped (choose_audio item caps sc d) = ToneMapped d" "BitDepthPreserved (choose_audio item caps sc d) = BitDepthPreserved d"
  "EncoderUsed (choose_audio item caps sc d) = EncoderUsed d" "HardwareAccelUsed (choose_audio item caps sc d) = HardwareAccelUsed d"
  "d_SubtitleDecision (choose_audio item caps sc d) = d_SubtitleDecision d"
  by (simp_all add: choose_audio_def Let_def split: prod.split)

lemma hdr_outcome_frame [simp]:
  "d_Type (hdr_outcome h t d) = d_Type d" "SourceVideoCodec (hdr_outcome h t d) = SourceVideoCodec d"
  "SourceAudioCodec (hdr_outcome h t d) = SourceAudioCodec d" "SourceContainer (hdr_outcome h t d) = SourceContainer d"
  "SourceIsHDR (hdr_outcome h t d) = SourceIsHDR d" "TargetVideoCodec (hdr_outcome h t d) = TargetVideoCodec d"
  "TargetAudioCodec (hdr_outcome h t d) = TargetAudioCodec d" "TargetContainer (hdr_outcome h t d) = TargetContainer d"
  "TargetAudioChannels (hdr_outcome h t d) = TargetAudioChannels d" "NeedsVideoTranscode (hdr_outcome h t d) = NeedsVideoTranscode d"
  "NeedsAudioTranscode (hdr_outcome h t d) = NeedsAudioTranscode d" "NeedsRemux (hdr_outcome h t d) = NeedsRemux d"
  "AudioChannelsPreserved (hdr_outcome h t d) = AudioChannelsPreserved d" "EncoderUsed (hdr_outcome h t d) = EncoderUsed d"
  "HardwareAccelUsed (hdr_outcome h t d) = HardwareAccelUsed d" "d_SubtitleDecision (hdr_outcome h t d) = d_SubtitleDecision d"
  by (simp_all add: hdr_outcome_def)

lemma encode_video_frame [simp]:
  "d_Type (encode_video sc v needs d) = d_Type d" "SourceVideoCodec (encode_video sc v needs d) = SourceVideoCodec d"
  "SourceAudioCodec (encode_video sc v needs d) = SourceAudioCodec d" "SourceContainer (encode_video sc v needs d) = SourceContainer d"
  "SourceIsHDR (encode_video sc v needs d) = SourceIsHDR d" "TargetAudioCodec (encode_video sc v needs d) = TargetAudioCodec d"
  "TargetContainer (encode_video sc v needs d) = TargetContainer d" "TargetAudioChannels (encode_video sc v needs d) = TargetAudioChannels d"
  "NeedsAudioTranscode (encode_video sc v needs d) = NeedsAudioTranscode d" "NeedsRemux (encode_video sc v needs d) = NeedsRemux d"
  "AudioChannelsPreserved (encode_video sc v needs d) = AudioChannelsPreserved d"
  "d_SubtitleDecision (encode_video sc v needs d) = d_SubtitleDecision d"
  by (simp_all add: encode_video_def Let_def split: prod.split option.split)

lemma choose_video_frame [simp]:
  "d_Type (choose_video o' item caps sc v needs d) = d_Type d" "SourceVideoCodec (choose_video o' item caps sc v needs d) = SourceVideoCodec d"
  "SourceAudioCodec (choose_video o' item caps sc v needs d) = SourceAudioCodec d"
  "SourceContainer (choose_video o' item caps sc v needs d) = SourceContainer d"
  "SourceIsHDR (choose_video o' item caps sc v needs d) = SourceIsHDR d"
  "TargetAudioCodec (choose_video o' item caps sc v needs d) = TargetAudioCodec d"
  "TargetContainer (choose_video o' item caps sc v needs d) = TargetContainer d"
  "TargetAudioChannels (choose_video o' item caps sc v needs d) = TargetAudioChannels d"
  "NeedsAudioTranscode (choose_video o' item caps sc v needs d) = NeedsAudioTranscode d"
  "NeedsRemux (choose_video o' item caps sc v needs d) = NeedsRemux d"
  "AudioChannelsPreserved (choose_video o' item caps sc v needs d) = AudioChannelsPreserved d"
  "d_SubtitleDecision (choose_video o' item caps sc v needs d) = d_SubtitleDecision d"
  by (simp_all add: choose_video_def)



section \<open>The strategy a decision follows\<close>

text \<open>
  The specification: whether the device plays the item as it is, whether it plays its codecs in
  another of its containers, which video codec the server would encode to, and which streams a
  transcode copies.
\<close>

definition clean_item :: "MediaItem \<Rightarrow> MediaItem" where
  "clean_item item = fst (check_subtitle_index item undefined)"

definition burns_in :: "Orchestrator \<Rightarrow> DeviceCapabilities \<Rightarrow> MediaItem \<Rightarrow> bool" where
  "burns_in o' caps item \<longleftrightarrow> ForcesBurnIn (decide_subtitle o' caps (clean_item item))"

definition plays_codecs :: "Orchestrator \<Rightarrow> DeviceCapabilities \<Rightarrow> MediaItem \<Rightarrow> bool" where
  "plays_codecs o' caps item \<longleftrightarrow> CanDirectPlayVideo (policy o') caps item \<and> CanDirectPlayAudio caps item
     \<and> \<not> (IsHDR item \<and> qp_HdrPolicy (policy o') = HdrAlwaysToneMap)"

definition copies_video :: "Orchestrator \<Rightarrow> DeviceCapabilities \<Rightarrow> MediaItem \<Rightarrow> bool" where
  "copies_video o' caps item \<longleftrightarrow> CanDirectPlayVideo (policy o') caps item \<and> \<not> burns_in o' caps item
     \<and> \<not> (IsHDR item \<and> qp_HdrPolicy (policy o') = HdrAlwaysToneMap)"

definition copies_audio :: "DeviceCapabilities \<Rightarrow> ServerCapabilities \<Rightarrow> MediaItem \<Rightarrow> bool" where
  "copies_audio caps sc item \<longleftrightarrow>
     (case selectAudioTarget item caps sc of (c, n, _) \<Rightarrow> Equal c (AudioCodec item) \<and> AudioChannels item \<le> n)"

definition strategy :: "Orchestrator \<Rightarrow> MediaItem \<Rightarrow> DeviceCapabilities \<Rightarrow> DecisionType" where
  "strategy o' item caps =
     (if \<not> burns_in o' caps item \<and> plays_codecs o' caps item \<and> CanDirectPlayContainer caps (mi_Container item)
      then DecisionDirectPlay
      else if \<not> burns_in o' caps item \<and> plays_codecs o' caps item
              \<and> findCompatibleContainer caps (VideoCodec item) (AudioCodec item) \<noteq> []
      then DecisionRemux
      else case inv_caps (inventory o') of
             None \<Rightarrow> DecisionFallback
           | Some sc \<Rightarrow>
               if fst (selectVideoTarget item caps sc) = [] then DecisionFallback
               else if copies_video o' caps item \<and> copies_audio caps sc item then DecisionRemux
               else DecisionTranscode)"

lemma clean_fields [simp]:
  "VideoCodec (clean_item i) = VideoCodec i" "AudioCodec (clean_item i) = AudioCodec i" "mi_Container (clean_item i) = mi_Container i"
  "Width (clean_item i) = Width i" "Height (clean_item i) = Height i" "Bitrate (clean_item i) = Bitrate i"
  "AudioChannels (clean_item i) = AudioChannels i" "IsHDR (clean_item i) = IsHDR i" "IsDolbyVision (clean_item i) = IsDolbyVision i"
  "DolbyVisionProfile (clean_item i) = DolbyVisionProfile i" "IsDolbyAtmos (clean_item i) = IsDolbyAtmos i"
  "mi_ID (clean_item i) = mi_ID i" "mi_Title (clean_item i) = mi_Title i"
  by (simp_all add: clean_item_def check_subtitle_index_def)

lemma check_subtitle_index_eq:
  "check_subtitle_index item d = (clean_item item, add_reasons (if SubtitleIndex item < -1
     then [''invalid subtitle index '' @ Itoa (SubtitleIndex item) @ '', ignoring subtitles''] else []) d)"
  by (simp add: clean_item_def check_subtitle_index_def)

lemma select_clean [simp]:
  "CanDirectPlayVideo pol caps (clean_item i) = CanDirectPlayVideo pol caps i"
  "CanDirectPlayAudio caps (clean_item i) = CanDirectPlayAudio caps i"
  "selectVideoTarget (clean_item i) caps sc = selectVideoTarget i caps sc"
  "hdr_needs h (clean_item i) caps = hdr_needs h i caps"
  "dv_fallback (clean_item i) caps n = dv_fallback i caps n"
  by (simp_all add: CanDirectPlayVideo_def CanDirectPlayAudio_def selectVideoTarget_def
    hdr_needs_def dv_fallback_def)

lemma select_audio_clean [simp]: "selectAudioTarget (clean_item i) caps sc = selectAudioTarget i caps sc"
proof -
  have "audio_usable (clean_item i) caps sc = audio_usable i caps sc" by (rule ext) (simp add: audio_usable_def)
  then show ?thesis by (simp only: selectAudioTarget_def clean_fields)
qed

text \<open>The first two steps: accepted exactly when the specification says so, else only a reason is added.\<close>

lemma hdr_refusal_none:
  "CanDirectPlayVideo pol caps item \<Longrightarrow> hdr_refusal pol caps item = None \<longleftrightarrow> \<not> (IsHDR item \<and> qp_HdrPolicy pol = HdrAlwaysToneMap)"
  by (auto simp: hdr_refusal_def CanDirectPlayVideo_def split: HdrPolicy.splits)

definition as_source :: "MediaItem \<Rightarrow> PlaybackDecision \<Rightarrow> bool" where
  "as_source item d \<longleftrightarrow> TargetVideoCodec d = VideoCodec item \<and> TargetAudioCodec d = AudioCodec item
     \<and> TargetAudioChannels d = AudioChannels item \<and> HDRPreserved d = IsHDR item \<and> BitDepthPreserved d
     \<and> AudioChannelsPreserved d \<and> \<not> NeedsVideoTranscode d \<and> \<not> NeedsAudioTranscode d"

definition undecided :: "PlaybackDecision \<Rightarrow> bool" where
  "undecided d \<longleftrightarrow> d_Type d = DecisionDirectPlay \<and> \<not> NeedsVideoTranscode d \<and> \<not> NeedsAudioTranscode d \<and> \<not> NeedsRemux d
     \<and> \<not> HDRPreserved d \<and> \<not> ToneMapped d \<and> EncoderUsed d = [] \<and> \<not> HardwareAccelUsed d
     \<and> TargetVideoCodec d = [] \<and> TargetAudioCodec d = [] \<and> TargetContainer d = []"

lemma tryDirectPlay_refuses:
  assumes "\<not> (plays_codecs o' caps item \<and> CanDirectPlayContainer caps (mi_Container item))"
  obtains rs where "tryDirectPlay o' item caps d = (False, add_reasons rs d)"
proof (cases "CanDirectPlayVideo (policy o') caps item")
  case v: True
  then show ?thesis
  proof (cases "hdr_refusal (policy o') caps item")
    case None
    then have "\<not> (CanDirectPlayAudio caps item \<and> CanDirectPlayContainer caps (mi_Container item))"
      using assms hdr_refusal_none [OF v] v by (auto simp: plays_codecs_def)
    then consider "\<not> CanDirectPlayAudio caps item"
      | "CanDirectPlayAudio caps item" "\<not> CanDirectPlayContainer caps (mi_Container item)" by blast
    then show ?thesis by cases (rule that, simp add: tryDirectPlay_def v)+
  next
    case (Some r)
    then consider "\<not> CanDirectPlayAudio caps item"
      | "CanDirectPlayAudio caps item" "\<not> CanDirectPlayContainer caps (mi_Container item)"
      | "CanDirectPlayAudio caps item" "CanDirectPlayContainer caps (mi_Container item)" by blast
    then show ?thesis by cases (rule that, simp add: tryDirectPlay_def v Some)+
  qed
next
  case False
  then show ?thesis by (intro that) (simp add: tryDirectPlay_def)
qed

lemma tryDirectPlay_accepts:
  assumes "plays_codecs o' caps item" and "CanDirectPlayContainer caps (mi_Container item)"
  shows "tryDirectPlay o' item caps d =
    (True, add_reasons [''all codecs and container compatible'']
             (d\<lparr>d_Type := DecisionDirectPlay, TargetVideoCodec := VideoCodec item,
                TargetAudioCodec := AudioCodec item, TargetContainer := mi_Container item,
                TargetAudioChannels := AudioChannels item, HDRPreserved := IsHDR item,
                BitDepthPreserved := True, AudioChannelsPreserved := True\<rparr>))"
proof -
  have v: "CanDirectPlayVideo (policy o') caps item" "CanDirectPlayAudio caps item" using assms(1) by (simp_all add: plays_codecs_def)
  then have "hdr_refusal (policy o') caps item = None" using hdr_refusal_none [OF v(1)] assms(1) by (simp add: plays_codecs_def)
  then show ?thesis using v assms(2) unfolding tryDirectPlay_def by simp
qed

lemma tryRemux_eq:
  "tryRemux o' item caps d =
     (if plays_codecs o' caps item \<and> findCompatibleContainer caps (VideoCodec item) (AudioCodec item) \<noteq> []
      then (True, add_reasons [''remux from '' @ mi_Container item @ '' to '' @ findCompatibleContainer caps (VideoCodec item) (AudioCodec item)]
                (d\<lparr>d_Type := DecisionRemux, NeedsRemux := True, TargetVideoCodec := VideoCodec item,
                   TargetAudioCodec := AudioCodec item,
                   TargetContainer := findCompatibleContainer caps (VideoCodec item) (AudioCodec item),
                   TargetAudioChannels := AudioChannels item, HDRPreserved := IsHDR item,
                   BitDepthPreserved := True, AudioChannelsPreserved := True\<rparr>))
      else (False, d))"
proof (cases "CanDirectPlayVideo (policy o') caps item")
  case True
  then have "\<not> (IsHDR item \<and> \<not> SupportsHDR caps)" by (simp add: CanDirectPlayVideo_def)
  then show ?thesis using True unfolding tryRemux_def plays_codecs_def Let_def
    by (cases "CanDirectPlayAudio caps item"; cases "IsHDR item \<and> qp_HdrPolicy (policy o') = HdrAlwaysToneMap";
        cases "findCompatibleContainer caps (VideoCodec item) (AudioCodec item) = []") simp_all
qed (simp add: tryRemux_def plays_codecs_def)

lemma plays_codecs_clean [simp]: "plays_codecs o' caps (clean_item i) = plays_codecs o' caps i"
  by (simp add: plays_codecs_def)


text \<open>\<open>Decide\<close> by cases.\<close>

definition start_decision :: "Orchestrator \<Rightarrow> DeviceCapabilities \<Rightarrow> MediaItem \<Rightarrow> PlaybackDecision" where
  "start_decision o' caps item = (newDecision item caps)\<lparr>d_SubtitleDecision := decide_subtitle o' caps (clean_item item)\<rparr>"

lemma start_decision_fields [simp]:
  "d_Type (start_decision o' caps item) = DecisionDirectPlay" "\<not> NeedsVideoTranscode (start_decision o' caps item)"
  "\<not> NeedsAudioTranscode (start_decision o' caps item)" "\<not> NeedsRemux (start_decision o' caps item)"
  "\<not> HDRPreserved (start_decision o' caps item)" "\<not> ToneMapped (start_decision o' caps item)"
  "EncoderUsed (start_decision o' caps item) = []" "\<not> HardwareAccelUsed (start_decision o' caps item)"
  "d_SubtitleDecision (start_decision o' caps item) = decide_subtitle o' caps (clean_item item)"
  "SourceVideoCodec (start_decision o' caps item) = VideoCodec item" "SourceAudioCodec (start_decision o' caps item) = AudioCodec item"
  "SourceContainer (start_decision o' caps item) = mi_Container item" "SourceIsHDR (start_decision o' caps item) = IsHDR item"
  by (simp_all add: start_decision_def newDecision_def)

lemma add_reasons_subtitle: "(add_reasons rs d)\<lparr>d_SubtitleDecision := s\<rparr> = add_reasons rs (d\<lparr>d_SubtitleDecision := s\<rparr>)"
  by (simp add: add_reasons_def)

lemma Decide_available:
  assumes "IsTranscodeAvailable o'"
  obtains rs where "Decide ms o' item caps =
    (let (direct, d2) = (if burns_in o' caps item then (False, add_reasons rs (start_decision o' caps item))
                         else tryDirectPlay o' (clean_item item) caps (add_reasons rs (start_decision o' caps item)))
     in if direct then (stamp ms d2, clean_item item, None)
        else let (remux, d3) = (if burns_in o' caps item then (False, d2) else tryRemux o' (clean_item item) caps d2)
             in if remux then (stamp ms d3, clean_item item, None)
                else let d4 = stamp ms (buildTranscode o' (clean_item item) caps d3)
                     in (d4, clean_item item,
                         if NeedsVideoTranscode d4 \<or> NeedsAudioTranscode d4
                         then Some \<lparr>tp_MediaItemID = mi_ID item, tp_MediaTitle = mi_Title item,
                                tp_SourceCodec = VideoCodec item, tp_TargetCodec = TargetVideoCodec d4,
                                tp_Status = ''started''\<rparr>
                         else None))"
proof -
  define rs where "rs = (if SubtitleIndex item < -1
     then [''invalid subtitle index '' @ Itoa (SubtitleIndex item) @ '', ignoring subtitles''] else [])"
  show ?thesis
    by (rule that [of rs], unfold Decide_def check_subtitle_index_eq rs_def [symmetric] Let_def prod.case
        add_reasons_subtitle start_decision_def [symmetric] burns_in_def [symmetric] clean_fields)
      (cases "ForcesBurnIn (decide_subtitle o' caps (clean_item item))";
       simp only: assms burns_in_def not_True_eq_False not_False_eq_True if_True if_False Let_def prod.case)
qed


definition event_of :: "MediaItem \<Rightarrow> PlaybackDecision \<Rightarrow> TranscodePayload option" where
  "event_of item d =
     (if NeedsVideoTranscode d \<or> NeedsAudioTranscode d
      then Some \<lparr>tp_MediaItemID = mi_ID item, tp_MediaTitle = mi_Title item, tp_SourceCodec = VideoCodec item,
             tp_TargetCodec = TargetVideoCodec d, tp_Status = ''started''\<rparr>
      else None)"

text \<open>
  A decision that plays or remuxes the source's own streams, and one that \<open>buildTranscode\<close> made
  from the start decision.
\<close>

lemma Decide_shape:
  assumes "IsTranscodeAvailable o'"
  obtains rs where "Decide ms o' item caps =
    (let (direct, d2) = (if burns_in o' caps item then (False, add_reasons rs (start_decision o' caps item))
                         else tryDirectPlay o' (clean_item item) caps (add_reasons rs (start_decision o' caps item)))
     in if direct then (stamp ms d2, clean_item item, None)
        else let (remux, d3) = (if burns_in o' caps item then (False, d2) else tryRemux o' (clean_item item) caps d2)
             in if remux then (stamp ms d3, clean_item item, None)
                else (stamp ms (buildTranscode o' (clean_item item) caps d3), clean_item item,
                      event_of item (stamp ms (buildTranscode o' (clean_item item) caps d3))))"
  using Decide_available [OF assms(1), of ms item caps] unfolding event_of_def [symmetric] Let_def by blast

lemma Decide_direct:
  assumes "IsTranscodeAvailable o'" and "\<not> burns_in o' caps item" and "plays_codecs o' caps item"
    and "CanDirectPlayContainer caps (mi_Container item)" and "Decide ms o' item caps = (d, item', ev)"
  shows "d_Type d = DecisionDirectPlay \<and> TargetContainer d = mi_Container item \<and> \<not> NeedsRemux d \<and> as_source item d
    \<and> \<not> ToneMapped d \<and> ev = None"
proof -
  obtain rs where e: "Decide ms o' item caps =
     (stamp ms (snd (tryDirectPlay o' (clean_item item) caps (add_reasons rs (start_decision o' caps item)))), clean_item item, None)"
    using Decide_shape [OF assms(1), of ms item caps] assms(2-4)
    by (auto simp: tryDirectPlay_accepts [of o' caps "clean_item item"])
  show ?thesis using e assms(3-5) by (auto simp: as_source_def tryDirectPlay_accepts [of o' caps "clean_item item"])
qed

lemma Decide_remux:
  assumes "IsTranscodeAvailable o'" and "\<not> burns_in o' caps item" and "plays_codecs o' caps item"
    and "\<not> CanDirectPlayContainer caps (mi_Container item)"
    and "findCompatibleContainer caps (VideoCodec item) (AudioCodec item) \<noteq> []" and "Decide ms o' item caps = (d, item', ev)"
  shows "d_Type d = DecisionRemux \<and> TargetContainer d = findCompatibleContainer caps (VideoCodec item) (AudioCodec item)
    \<and> NeedsRemux d \<and> as_source item d \<and> \<not> ToneMapped d \<and> ev = None"
proof -
  obtain rs where e: "Decide ms o' item caps =
    (let (direct, d2) = tryDirectPlay o' (clean_item item) caps (add_reasons rs (start_decision o' caps item))
     in if direct then (stamp ms d2, clean_item item, None)
        else let (remux, d3) = tryRemux o' (clean_item item) caps d2
             in if remux then (stamp ms d3, clean_item item, None)
                else (stamp ms (buildTranscode o' (clean_item item) caps d3), clean_item item,
                      event_of item (stamp ms (buildTranscode o' (clean_item item) caps d3))))"
    by (rule Decide_shape [OF assms(1), of ms item caps], unfold if_not_P [OF assms(2)])
  have n: "\<not> (plays_codecs o' caps (clean_item item) \<and> CanDirectPlayContainer caps (mi_Container (clean_item item)))"
    using assms(4) by simp
  obtain rs' where p: "tryDirectPlay o' (clean_item item) caps (add_reasons rs (start_decision o' caps item)) =
      (False, add_reasons rs' (add_reasons rs (start_decision o' caps item)))"
    using tryDirectPlay_refuses [OF n] by metis
  show ?thesis using e assms(3,5,6) unfolding p by (auto simp: as_source_def tryRemux_eq)
qed

lemma Decide_transcode:
  assumes "IsTranscodeAvailable o'"
    and "burns_in o' caps item \<or> \<not> (plays_codecs o' caps item \<and> (CanDirectPlayContainer caps (mi_Container item)
           \<or> findCompatibleContainer caps (VideoCodec item) (AudioCodec item) \<noteq> []))"
    and "Decide ms o' item caps = (d, item', ev)"
  obtains rs where "d = stamp ms (buildTranscode o' (clean_item item) caps (add_reasons rs (start_decision o' caps item)))"
    and "ev = event_of item d"
proof -
  obtain rs where e: "Decide ms o' item caps =
    (let (direct, d2) = (if burns_in o' caps item then (False, add_reasons rs (start_decision o' caps item))
                         else tryDirectPlay o' (clean_item item) caps (add_reasons rs (start_decision o' caps item)))
     in if direct then (stamp ms d2, clean_item item, None)
        else let (remux, d3) = (if burns_in o' caps item then (False, d2) else tryRemux o' (clean_item item) caps d2)
             in if remux then (stamp ms d3, clean_item item, None)
                else (stamp ms (buildTranscode o' (clean_item item) caps d3), clean_item item,
                      event_of item (stamp ms (buildTranscode o' (clean_item item) caps d3))))"
    by (rule Decide_shape [OF assms(1), of ms item caps])
  show ?thesis
  proof (cases "burns_in o' caps item")
    case True
    then show ?thesis using e assms(3) that [of rs] by simp
  next
    case False
    then have n: "\<not> (plays_codecs o' caps (clean_item item) \<and> CanDirectPlayContainer caps (mi_Container (clean_item item)))"
      and r: "\<not> (plays_codecs o' caps item \<and> findCompatibleContainer caps (VideoCodec item) (AudioCodec item) \<noteq> [])"
      using assms(2) by auto
    obtain rs' where p: "tryDirectPlay o' (clean_item item) caps (add_reasons rs (start_decision o' caps item)) =
        (False, add_reasons (rs @ rs') (start_decision o' caps item))"
      using tryDirectPlay_refuses [OF n] by (metis add_reasons_twice)
    show ?thesis using e assms(3) False r that [of "rs @ rs'"] unfolding p by (auto simp: tryRemux_eq)
  qed
qed


text \<open>\<open>buildTranscode\<close> by cases.\<close>

definition needs_of :: "Orchestrator \<Rightarrow> MediaItem \<Rightarrow> DeviceCapabilities \<Rightarrow> bool \<times> bool" where
  "needs_of o' item caps = snd (dv_fallback item caps (hdr_needs (qp_HdrPolicy (policy o')) item caps))"

lemma build_fallback:
  assumes "case inv_caps (inventory o') of None \<Rightarrow> True | Some sc \<Rightarrow> fst (selectVideoTarget item caps sc) = []"
  obtains r rs where "buildTranscode o' item caps d = absoluteFallback r (add_reasons rs d)"
proof (cases "inv_caps (inventory o')")
  case None
  then have "buildTranscode o' item caps d = absoluteFallback ''server capabilities not available'' (add_reasons [] d)"
    by (simp add: buildTranscode_def GetCurrent_def)
  then show ?thesis by (rule that)
next
  case (Some sc)
  obtain v rs where v: "selectVideoTarget item caps sc = (v, rs)" by force
  then show ?thesis using assms Some that [of "''no usable video encoder found on server''" rs]
    by (simp add: buildTranscode_def GetCurrent_def)
qed

lemma build_steps:
  assumes "inv_caps (inventory o') = Some sc" and "fst (selectVideoTarget item caps sc) = v" and "v \<noteq> []"
  obtains rs where "buildTranscode o' item caps d =
    choose_container caps (choose_audio item caps sc (choose_video o' item caps sc v (needs_of o' item caps) (add_reasons rs d)))"
proof -
  obtain vs where v: "selectVideoTarget item caps sc = (v, vs)" using assms(2) by (metis prod.collapse)
  obtain ds n where n: "dv_fallback item caps (hdr_needs (qp_HdrPolicy (policy o')) item caps) = (ds, n)"
    by (cases "dv_fallback item caps (hdr_needs (qp_HdrPolicy (policy o')) item caps)")
  show ?thesis using assms(1,3) that [of "vs @ ds"]
    by (simp add: buildTranscode_def GetCurrent_def v n needs_of_def)
qed

lemma choose_video_copy:
  assumes "CanDirectPlayVideo (policy o') caps item" and "\<not> snd n" and "\<not> ForcesBurnIn (d_SubtitleDecision d)"
  shows "\<not> NeedsVideoTranscode (choose_video o' item caps sc v n d) \<and> TargetVideoCodec (choose_video o' item caps sc v n d) = VideoCodec item
    \<and> HDRPreserved (choose_video o' item caps sc v n d) = IsHDR item \<and> BitDepthPreserved (choose_video o' item caps sc v n d)
    \<and> ToneMapped (choose_video o' item caps sc v n d) = ToneMapped d \<and> EncoderUsed (choose_video o' item caps sc v n d) = EncoderUsed d"
  using assms by (simp add: choose_video_def)

lemma choose_video_encode:
  assumes "\<not> (CanDirectPlayVideo (policy o') caps item \<and> \<not> snd n \<and> \<not> ForcesBurnIn (d_SubtitleDecision d))"
  shows "choose_video o' item caps sc v n d = encode_video sc v n d"
  using assms by (simp only: choose_video_def if_False)

lemma encode_video_targets [simp]:
  "NeedsVideoTranscode (encode_video sc v n d)" "TargetVideoCodec (encode_video sc v n d) = v"
  by (simp_all add: encode_video_def Let_def split: prod.split option.split)

lemma copies_video_iff:
  "copies_video o' caps item \<longleftrightarrow> CanDirectPlayVideo (policy o') caps item \<and> \<not> snd (needs_of o' item caps)
     \<and> \<not> ForcesBurnIn (decide_subtitle o' caps (clean_item item))"
proof (cases "CanDirectPlayVideo (policy o') caps item")
  case True
  then have "IsHDR item \<Longrightarrow> SupportsHDR caps" "IsDolbyVision item \<Longrightarrow> SupportsDolbyVision caps"
    by (auto simp: CanDirectPlayVideo_def)
  then show ?thesis using True
    by (auto simp: copies_video_def burns_in_def needs_of_def dv_fallback_def hdr_needs_def split: HdrPolicy.splits)
qed (simp add: copies_video_def)

lemma choose_audio_fields:
  "NeedsAudioTranscode (choose_audio item caps sc d) \<longleftrightarrow> \<not> copies_audio caps sc item"
  "TargetAudioCodec (choose_audio item caps sc d) =
     (if copies_audio caps sc item then AudioCodec item else fst (selectAudioTarget item caps sc))"
  "TargetAudioChannels (choose_audio item caps sc d) =
     (if copies_audio caps sc item then AudioChannels item else fst (snd (selectAudioTarget item caps sc)))"
  "AudioChannelsPreserved (choose_audio item caps sc d) \<longleftrightarrow>
     copies_audio caps sc item \<or> AudioChannels item \<le> fst (snd (selectAudioTarget item caps sc))"
  by (cases "selectAudioTarget item caps sc"; auto simp: choose_audio_def copies_audio_def Let_def)+

lemma choose_container_fields:
  "d_Type (choose_container caps d) = (if NeedsVideoTranscode d \<or> NeedsAudioTranscode d then DecisionTranscode else DecisionRemux)"
  "NeedsRemux (choose_container caps d) = (if NeedsVideoTranscode d \<or> NeedsAudioTranscode d then NeedsRemux d else True)"
  "TargetContainer (choose_container caps d) = selectContainer (TargetVideoCodec d) (TargetAudioCodec d) caps"
  by (simp_all add: choose_container_def Let_def)

text \<open>The result of \<open>buildTranscode\<close> on a start decision.\<close>

lemma needs_clean [simp]: "needs_of o' (clean_item item) caps = needs_of o' item caps"
  by (simp add: needs_of_def)

lemma choose_audio_clean [simp]: "choose_audio (clean_item item) caps sc d = choose_audio item caps sc d"
  by (simp only: choose_audio_def select_audio_clean clean_fields)

lemma choose_video_clean [simp]: "choose_video o' (clean_item item) caps sc v n d = choose_video o' item caps sc v n d"
  by (simp only: choose_video_def select_clean clean_fields)

lemma built_fallback:
  fixes ms rs
  assumes "case inv_caps (inventory o') of None \<Rightarrow> True | Some sc \<Rightarrow> fst (selectVideoTarget item caps sc) = []"
  defines "d \<equiv> stamp ms (buildTranscode o' (clean_item item) caps (add_reasons rs (start_decision o' caps item)))"
  shows "d_Type d = DecisionFallback \<and> NeedsVideoTranscode d \<and> NeedsAudioTranscode d \<and> \<not> NeedsRemux d
    \<and> TargetVideoCodec d = ''h264'' \<and> TargetAudioCodec d = ''aac'' \<and> TargetContainer d = ''mp4'' \<and> TargetAudioChannels d = 2
    \<and> \<not> HDRPreserved d \<and> \<not> ToneMapped d \<and> EncoderUsed d = []"
proof -
  have "case inv_caps (inventory o') of None \<Rightarrow> True | Some sc \<Rightarrow> fst (selectVideoTarget (clean_item item) caps sc) = []"
    using assms(1) by (simp cong: option.case_cong)
  from build_fallback [OF this, of "add_reasons rs (start_decision o' caps item)"] obtain r qs where
    "buildTranscode o' (clean_item item) caps (add_reasons rs (start_decision o' caps item)) =
       absoluteFallback r (add_reasons qs (add_reasons rs (start_decision o' caps item)))" .
  then show ?thesis by (simp add: d_def absoluteFallback_def)
qed

lemma built_steps:
  fixes ms rs
  assumes "inv_caps (inventory o') = Some sc" and "fst (selectVideoTarget item caps sc) = v" and "v \<noteq> []"
  defines "d \<equiv> stamp ms (buildTranscode o' (clean_item item) caps (add_reasons rs (start_decision o' caps item)))"
  obtains qs where "d = stamp ms (choose_container caps (choose_audio item caps sc
    (choose_video o' item caps sc v (needs_of o' item caps) (add_reasons qs (start_decision o' caps item)))))"
proof -
  have v: "fst (selectVideoTarget (clean_item item) caps sc) = v" using assms(2) by simp
  show ?thesis by (rule build_steps [OF assms(1) v assms(3), of "add_reasons rs (start_decision o' caps item)"])
    (rule that, simp add: d_def)
qed

lemma choose_video_fields:
  fixes n d sc v
  assumes "n = needs_of o' item caps" and "d_SubtitleDecision d = decide_subtitle o' caps (clean_item item)"
    and "\<not> ToneMapped d" and "EncoderUsed d = []"
  defines "c \<equiv> choose_video o' item caps sc v n d"
  shows "NeedsVideoTranscode c \<longleftrightarrow> \<not> copies_video o' caps item"
    and "TargetVideoCodec c = (if copies_video o' caps item then VideoCodec item else v)"
    and "copies_video o' caps item \<Longrightarrow> HDRPreserved c = IsHDR item \<and> BitDepthPreserved c \<and> \<not> ToneMapped c \<and> EncoderUsed c = []"
    and "\<not> copies_video o' caps item \<Longrightarrow> c = encode_video sc v n d"
proof -
  have enc: "c = encode_video sc v n d" if "\<not> copies_video o' caps item"
    unfolding c_def using that unfolding copies_video_iff assms(1) [symmetric] assms(2) [symmetric] by (rule choose_video_encode)
  have cp: "\<not> NeedsVideoTranscode c \<and> TargetVideoCodec c = VideoCodec item \<and> HDRPreserved c = IsHDR item \<and> BitDepthPreserved c
      \<and> \<not> ToneMapped c \<and> EncoderUsed c = []" if "copies_video o' caps item"
  proof -
    have "CanDirectPlayVideo (policy o') caps item" "\<not> snd n" "\<not> ForcesBurnIn (d_SubtitleDecision d)"
      using that unfolding copies_video_iff assms(1,2) by simp_all
    from choose_video_copy [OF this] show ?thesis using assms(3,4) by (simp only: c_def simp_thms)
  qed
  show "NeedsVideoTranscode c \<longleftrightarrow> \<not> copies_video o' caps item"
    "TargetVideoCodec c = (if copies_video o' caps item then VideoCodec item else v)"
    "copies_video o' caps item \<Longrightarrow> HDRPreserved c = IsHDR item \<and> BitDepthPreserved c \<and> \<not> ToneMapped c \<and> EncoderUsed c = []"
    using enc cp by (metis encode_video_targets)+
  show "\<not> copies_video o' caps item \<Longrightarrow> c = encode_video sc v n d" by (rule enc)
qed

lemma built_fields:
  fixes ms rs
  assumes "inv_caps (inventory o') = Some sc" and "fst (selectVideoTarget item caps sc) = v" and "v \<noteq> []"
  defines "d \<equiv> stamp ms (buildTranscode o' (clean_item item) caps (add_reasons rs (start_decision o' caps item)))"
  shows "NeedsVideoTranscode d \<longleftrightarrow> \<not> copies_video o' caps item" and "NeedsAudioTranscode d \<longleftrightarrow> \<not> copies_audio caps sc item"
    and "d_Type d = (if copies_video o' caps item \<and> copies_audio caps sc item then DecisionRemux else DecisionTranscode)"
    and "NeedsRemux d \<longleftrightarrow> copies_video o' caps item \<and> copies_audio caps sc item"
    and "TargetVideoCodec d = (if copies_video o' caps item then VideoCodec item else v)"
    and "TargetAudioCodec d = (if copies_audio caps sc item then AudioCodec item else fst (selectAudioTarget item caps sc))"
    and "TargetAudioChannels d = (if copies_audio caps sc item then AudioChannels item else fst (snd (selectAudioTarget item caps sc)))"
    and "TargetContainer d = selectContainer (TargetVideoCodec d) (TargetAudioCodec d) caps"
    and "copies_video o' caps item \<Longrightarrow> HDRPreserved d = IsHDR item \<and> BitDepthPreserved d \<and> \<not> ToneMapped d \<and> EncoderUsed d = []"
    and "AudioChannelsPreserved d \<longleftrightarrow> copies_audio caps sc item \<or> AudioChannels item \<le> fst (snd (selectAudioTarget item caps sc))"
proof -
  obtain qs where e: "d = stamp ms (choose_container caps (choose_audio item caps sc
      (choose_video o' item caps sc v (needs_of o' item caps) (add_reasons qs (start_decision o' caps item)))))"
    unfolding d_def by (rule built_steps [OF assms(1-3)])
  let ?c = "choose_video o' item caps sc v (needs_of o' item caps) (add_reasons qs (start_decision o' caps item))"
  have v: "NeedsVideoTranscode ?c \<longleftrightarrow> \<not> copies_video o' caps item"
      "TargetVideoCodec ?c = (if copies_video o' caps item then VideoCodec item else v)"
      "copies_video o' caps item \<Longrightarrow> HDRPreserved ?c = IsHDR item \<and> BitDepthPreserved ?c \<and> \<not> ToneMapped ?c \<and> EncoderUsed ?c = []"
    using choose_video_fields(1-3) [OF HOL.refl, where d = "add_reasons qs (start_decision o' caps item)" and o' = o' and item = item
      and caps = caps and sc = sc and v = v] by simp_all
  show "NeedsVideoTranscode d \<longleftrightarrow> \<not> copies_video o' caps item" unfolding e using v(1) by simp
  moreover show "NeedsAudioTranscode d \<longleftrightarrow> \<not> copies_audio caps sc item" unfolding e by (simp add: choose_audio_fields)
  ultimately show
    "d_Type d = (if copies_video o' caps item \<and> copies_audio caps sc item then DecisionRemux else DecisionTranscode)"
    "NeedsRemux d \<longleftrightarrow> copies_video o' caps item \<and> copies_audio caps sc item"
    unfolding e by (simp_all add: choose_container_fields)
  show "TargetVideoCodec d = (if copies_video o' caps item then VideoCodec item else v)" unfolding e using v(2) by simp
  show "TargetAudioCodec d = (if copies_audio caps sc item then AudioCodec item else fst (selectAudioTarget item caps sc))"
    "TargetAudioChannels d = (if copies_audio caps sc item then AudioChannels item else fst (snd (selectAudioTarget item caps sc)))"
    "AudioChannelsPreserved d \<longleftrightarrow> copies_audio caps sc item \<or> AudioChannels item \<le> fst (snd (selectAudioTarget item caps sc))"
    "TargetContainer d = selectContainer (TargetVideoCodec d) (TargetAudioCodec d) caps"
    unfolding e by (simp_all add: choose_container_fields choose_audio_fields)
  show "HDRPreserved d = IsHDR item \<and> BitDepthPreserved d \<and> \<not> ToneMapped d \<and> EncoderUsed d = []" if "copies_video o' caps item"
    unfolding e using v(3) [OF that] by simp
qed


section \<open>What is decided\<close>

text \<open>Every decision made while the circuit is closed is one of four.\<close>

lemma Decide_outcomes:
  assumes "IsTranscodeAvailable o'" and "Decide ms o' item caps = (d, item', ev)"
  obtains
    (direct) "strategy o' item caps = DecisionDirectPlay" "plays_codecs o' caps item" "CanDirectPlayContainer caps (mi_Container item)"
       "\<not> burns_in o' caps item" "d_Type d = DecisionDirectPlay"
       "TargetContainer d = mi_Container item" "\<not> NeedsRemux d" "as_source item d" "\<not> ToneMapped d" "ev = None"
  | (remux) "strategy o' item caps = DecisionRemux" "plays_codecs o' caps item" "\<not> burns_in o' caps item" "d_Type d = DecisionRemux"
       "TargetContainer d = findCompatibleContainer caps (VideoCodec item) (AudioCodec item)"
       "NeedsRemux d" "as_source item d" "\<not> ToneMapped d" "ev = None"
  | (fallback) rs where "strategy o' item caps = DecisionFallback"
       "d = stamp ms (buildTranscode o' (clean_item item) caps (add_reasons rs (start_decision o' caps item)))" "ev = event_of item d"
       "case inv_caps (inventory o') of None \<Rightarrow> True | Some sc \<Rightarrow> fst (selectVideoTarget item caps sc) = []"
  | (built) sc v rs where "inv_caps (inventory o') = Some sc" "fst (selectVideoTarget item caps sc) = v" "v \<noteq> []"
       "strategy o' item caps = (if copies_video o' caps item \<and> copies_audio caps sc item then DecisionRemux else DecisionTranscode)"
       "d = stamp ms (buildTranscode o' (clean_item item) caps (add_reasons rs (start_decision o' caps item)))" "ev = event_of item d"
proof -
  let ?fc = "findCompatibleContainer caps (VideoCodec item) (AudioCodec item)"
  consider (1) "\<not> burns_in o' caps item" "plays_codecs o' caps item" "CanDirectPlayContainer caps (mi_Container item)"
    | (2) "\<not> burns_in o' caps item" "plays_codecs o' caps item" "\<not> CanDirectPlayContainer caps (mi_Container item)" "?fc \<noteq> []"
    | (3) "burns_in o' caps item \<or> \<not> (plays_codecs o' caps item \<and> (CanDirectPlayContainer caps (mi_Container item) \<or> ?fc \<noteq> []))"
    by blast
  then show ?thesis
  proof cases
    case 1
    then show ?thesis using Decide_direct [OF assms(1) 1 assms(2)] by (intro direct) (simp_all add: strategy_def)
  next
    case 2
    then show ?thesis using Decide_remux [OF assms(1) 2 assms(2)] by (intro remux) (simp_all add: strategy_def)
  next
    case 3
    obtain rs where d: "d = stamp ms (buildTranscode o' (clean_item item) caps (add_reasons rs (start_decision o' caps item)))"
        "ev = event_of item d" by (rule Decide_transcode [OF assms(1) 3 assms(2)])
    have st: "strategy o' item caps = (case inv_caps (inventory o') of None \<Rightarrow> DecisionFallback
        | Some sc \<Rightarrow> if fst (selectVideoTarget item caps sc) = [] then DecisionFallback
            else if copies_video o' caps item \<and> copies_audio caps sc item then DecisionRemux else DecisionTranscode)"
      using 3 by (auto simp: strategy_def)
    show ?thesis
    proof (cases "case inv_caps (inventory o') of None \<Rightarrow> True | Some sc \<Rightarrow> fst (selectVideoTarget item caps sc) = []")
      case True
      then show ?thesis using d st by (intro fallback) (auto split: option.splits)
    next
      case False
      then obtain sc where "inv_caps (inventory o') = Some sc" "fst (selectVideoTarget item caps sc) \<noteq> []"
        by (cases "inv_caps (inventory o')") auto
      then show ?thesis using d st by (intro built [of sc "fst (selectVideoTarget item caps sc)" rs]) simp_all
    qed
  qed
qed

text \<open>
  C1. Strategy. While the circuit breaker lets transcodes through, \<open>Decide\<close> chooses exactly what the
  specification says: direct play when the device plays codecs and container and no subtitle is
  burned in, a remux when one of its containers fits or both streams can be copied, the fallback
  when the server has no encoder to offer, else a transcode. The flags agree with the type: streams
  are re-encoded exactly in transcodes and fallbacks, an event is published exactly then, and direct
  play and remux deliver the source's own codecs, channels and dynamic range.
\<close>

theorem decide_follows_strategy:
  assumes "IsTranscodeAvailable o'" and "Decide ms o' item caps = (d, item', ev)"
  shows "d_Type d = strategy o' item caps
    \<and> (NeedsVideoTranscode d \<or> NeedsAudioTranscode d \<longleftrightarrow> d_Type d \<in> {DecisionTranscode, DecisionFallback})
    \<and> (NeedsRemux d \<longleftrightarrow> d_Type d = DecisionRemux) \<and> ev = event_of item d
    \<and> (d_Type d \<in> {DecisionDirectPlay, DecisionRemux} \<longrightarrow> as_source item d)
    \<and> (d_Type d = DecisionDirectPlay \<longrightarrow> TargetContainer d = mi_Container item)"
  using assms
proof (cases rule: Decide_outcomes)
  case (fallback rs)
  then show ?thesis using built_fallback [OF fallback(4), of ms rs] by simp
next
  case (built sc v rs)
  note f = built_fields [OF built(1-3), of ms rs, folded built(5)]
  show ?thesis
  proof (cases "copies_video o' caps item \<and> copies_audio caps sc item")
    case True
    then show ?thesis using f built(4,6) by (simp add: as_source_def)
  next
    case False
    then show ?thesis using f(1-4) built(4,6) by auto
  qed
qed (simp_all add: event_of_def as_source_def)



text \<open>A server, an orchestrator and a television to evaluate decisions on.\<close>

definition sample_orchestrator :: Orchestrator where
  "sample_orchestrator = NewOrchestrator \<lparr>inv_caps = Some software_server\<rparr> DefaultQualityPolicy \<lparr>BurnInStyledText = False\<rparr>"

definition sample_tv :: DeviceCapabilities where
  "sample_tv = zeroCapabilities\<lparr>VideoCodecs := [''h264''], AudioCodecs := [''aac''], ContainerFormats := [''mp4''],
     SupportsHDR := False, dc_TrustScore := 1\<rparr>"

definition sample_movie :: MediaItem where
  "sample_movie = \<lparr>mi_ID = ''m1'', mi_Title = ''Film'', VideoCodec = ''hevc'', AudioCodec = ''eac3'', mi_Container = ''mkv'',
     Width = 3840, Height = 2160, Bitrate = 20000000, Framerate = 24, AudioChannels = 6, AudioBitrate = 640000,
     mi_BitDepth = 10, IsHDR = True, HDRType = ''hdr10'', IsDolbyVision = False, DolbyVisionProfile = [],
     IsDolbyAtmos = False, Interlaced = False, PixelAspectRatio = 1, SubtitleFormat = [], SubtitleIndex = -1, mi_Duration = 0\<rparr>"

lemma sample_available: "IsTranscodeAvailable sample_orchestrator"
  by (simp add: IsTranscodeAvailable_def sample_orchestrator_def NewOrchestrator_def LoadState_def StateChangeHandler_def New_def Let_def)

lemma sample_strategy: "strategy sample_orchestrator sample_movie sample_tv = DecisionTranscode"
  by code_simp

theorem decide_follows_strategy_witness:
  "d_Type (fst (Decide 3 sample_orchestrator sample_movie sample_tv)) = DecisionTranscode"
proof -
  obtain d i e where d: "Decide 3 sample_orchestrator sample_movie sample_tv = (d, i, e)" by (rule prod_cases3)
  from decide_follows_strategy [OF sample_available d] show ?thesis by (simp add: d sample_strategy)
qed

section \<open>What a transcode targets\<close>

lemma sample_decision:
  "let d = fst (Decide 3 sample_orchestrator sample_movie sample_tv) in d_Type d = DecisionTranscode \<and> NeedsVideoTranscode d"
  by code_simp

lemma walk_video_some:
  "walk_video caps sc cs = (Some c, rs) \<Longrightarrow> c \<in> set cs \<and> SupportsCodec caps c \<and> CanEncodeCodec sc c"
  by (induction cs arbitrary: rs) (auto split: if_splits prod.splits)

lemma selectVideoTarget_usable:
  assumes "fst (selectVideoTarget item caps sc) = v" and "v \<noteq> []"
  shows "CanEncodeCodec sc v" and "v = ''h264'' \<or> v \<in> set (GetVideoCodecLadder (VideoCodec item)) \<and> SupportsCodec caps v"
  using assms walk_video_some [of caps sc "GetVideoCodecLadder (VideoCodec item)"]
  by (auto simp: selectVideoTarget_def split: prod.splits option.splits if_splits)

lemma selectAudioTarget_usable:
  assumes "selectAudioTarget item caps sc = (c, n, rs)"
  shows "c = ''aac'' \<and> n = 2 \<and> \<not> list_ex (audio_usable item caps sc) (GetAudioCodecLadder (AudioCodec item))
    \<or> SupportsAudioCodec caps c \<and> n \<le> AudioChannels item \<and> (CanEncodeCodec sc c \<or> Equal c (AudioCodec item))"
proof (cases "find (audio_usable item caps sc) (GetAudioCodecLadder (AudioCodec item))")
  case None
  then have "\<not> list_ex (audio_usable item caps sc) (GetAudioCodecLadder (AudioCodec item))" by (auto simp: find_None_iff list_ex_iff)
  then show ?thesis using assms None by (simp add: selectAudioTarget_def)
next
  case (Some t)
  then have "audio_usable item caps sc t" by (auto simp: find_Some_iff)
  then show ?thesis using assms Some by (auto simp: selectAudioTarget_def audio_usable_def Let_def split: if_splits)
qed

text \<open>Re-encoding the video: the encoder used and what becomes of the dynamic range.\<close>

lemma hdr_outcome_fields:
  "HDRPreserved (hdr_outcome h t d) \<longleftrightarrow> h \<or> \<not> t \<and> HDRPreserved d" "ToneMapped (hdr_outcome h t d) \<longleftrightarrow> ToneMapped d \<or> \<not> h \<and> t"
  by (simp_all add: hdr_outcome_def)

lemma encode_video_with:
  assumes "SelectEncoder sc v (fst n) (fst n) = Some e"
  shows "EncoderUsed (encode_video sc v n d) = EncoderName e" and "HardwareAccelUsed (encode_video sc v n d) = IsHardware e"
    and "HDRPreserved (encode_video sc v n d) \<longleftrightarrow> (if fst n then SupportsHDRPassthrough e else \<not> snd n \<and> HDRPreserved d)"
    and "ToneMapped (encode_video sc v n d) \<longleftrightarrow> ToneMapped d \<or> (if fst n then \<not> SupportsHDRPassthrough e else snd n)"
  using assms by (cases n; cases "fst n"; cases "SupportsHDRPassthrough e"; simp add: encode_video_def hdr_outcome_fields)+

lemma built_encoder:
  fixes ms rs
  assumes "inv_caps (inventory o') = Some sc" and "fst (selectVideoTarget item caps sc) = v" and "v \<noteq> []"
    and "\<not> copies_video o' caps item"
  defines "d \<equiv> stamp ms (buildTranscode o' (clean_item item) caps (add_reasons rs (start_decision o' caps item)))"
    and "n \<equiv> needs_of o' item caps"
  obtains e where "SelectEncoder sc v (fst n) (fst n) = Some e" and "EncoderUsed d = EncoderName e"
    and "HardwareAccelUsed d = IsHardware e" and "HDRPreserved d \<longleftrightarrow> fst n \<and> SupportsHDRPassthrough e"
    and "ToneMapped d \<longleftrightarrow> (if fst n then \<not> SupportsHDRPassthrough e else snd n)"
proof -
  obtain qs where d: "d = stamp ms (choose_container caps (choose_audio item caps sc
      (choose_video o' item caps sc v n (add_reasons qs (start_decision o' caps item)))))"
    unfolding d_def n_def by (rule built_steps [OF assms(1-3)])
  have c: "choose_video o' item caps sc v n (add_reasons qs (start_decision o' caps item)) =
      encode_video sc v n (add_reasons qs (start_decision o' caps item))"
    unfolding n_def by (rule choose_video_fields(4) [OF HOL.refl _ _ _ assms(4)]) simp_all
  have "SelectEncoder sc v (fst n) (fst n) \<noteq> None"
    using selectVideoTarget_usable(1) [OF assms(2,3)] by (simp add: SelectEncoder_None)
  then obtain e where e: "SelectEncoder sc v (fst n) (fst n) = Some e" by auto
  show ?thesis using encode_video_with [OF e, of "add_reasons qs (start_decision o' caps item)"]
    by (intro that [OF e]) (simp_all add: d c)
qed

text \<open>
  C3. Targets of a transcode. When the video is re-encoded, the encoder used is one the server
  listed for the target codec, and the target is on the ladder of the source's codec and played by
  the device, or it is H.264. Audio that is copied keeps its codec and channels. Audio that is re-encoded gets a codec that
  the device lists and the server encodes (or the source's own) and no more channels than the source has; only when no
  codec of the source's ladder is usable it becomes AAC with two channels, also from a source with a single one. Channels
  count as preserved only when none is lost.
\<close>

theorem transcode_targets_are_usable:
  assumes "IsTranscodeAvailable o'" and "Decide ms o' item caps = (d, item', ev)" and "d_Type d = DecisionTranscode"
  shows "\<exists>sc. inv_caps (inventory o') = Some sc
    \<and> (NeedsVideoTranscode d \<longrightarrow>
         (\<exists>e \<in> set (EncoderDetails sc). EncoderUsed d = EncoderName e \<and> HardwareAccelUsed d = IsHardware e
            \<and> Equal (e_Codec e) (TargetVideoCodec d))
         \<and> (TargetVideoCodec d = ''h264''
            \<or> TargetVideoCodec d \<in> set (GetVideoCodecLadder (VideoCodec item)) \<and> SupportsCodec caps (TargetVideoCodec d)))
    \<and> (\<not> NeedsAudioTranscode d \<longrightarrow> TargetAudioCodec d = AudioCodec item \<and> TargetAudioChannels d = AudioChannels item)
    \<and> (NeedsAudioTranscode d \<longrightarrow>
         (TargetAudioCodec d = ''aac'' \<and> TargetAudioChannels d = 2
            \<and> \<not> list_ex (audio_usable item caps sc) (GetAudioCodecLadder (AudioCodec item)))
         \<or> (SupportsAudioCodec caps (TargetAudioCodec d) \<and> TargetAudioChannels d \<le> AudioChannels item
            \<and> (CanEncodeCodec sc (TargetAudioCodec d) \<or> Equal (TargetAudioCodec d) (AudioCodec item))))
    \<and> (AudioChannelsPreserved d \<longleftrightarrow> AudioChannels item \<le> TargetAudioChannels d)"
  using assms(1,2)
proof (cases rule: Decide_outcomes)
  case (built sc v rs)
  note f = built_fields [OF built(1-3), of ms rs, folded built(5)]
  obtain c n qs where a: "selectAudioTarget item caps sc = (c, n, qs)" by (rule prod_cases3)
  have video: "(\<exists>e \<in> set (EncoderDetails sc). EncoderUsed d = EncoderName e \<and> HardwareAccelUsed d = IsHardware e
        \<and> Equal (e_Codec e) (TargetVideoCodec d))
      \<and> (TargetVideoCodec d = ''h264'' \<or> TargetVideoCodec d \<in> set (GetVideoCodecLadder (VideoCodec item)) \<and> SupportsCodec caps (TargetVideoCodec d))"
    if "NeedsVideoTranscode d"
  proof -
    have n: "\<not> copies_video o' caps item" using that f(1) by simp
    obtain e where e: "SelectEncoder sc v (fst (needs_of o' item caps)) (fst (needs_of o' item caps)) = Some e"
        "EncoderUsed d = EncoderName e" "HardwareAccelUsed d = IsHardware e"
      unfolding built(5) by (rule built_encoder [OF built(1-3) n])
    show ?thesis using SelectEncoder_mem [OF e(1)] e(2,3) selectVideoTarget_usable(2) [OF built(2,3)] f(5) n by auto
  qed
  show ?thesis
    using built(1) video f(2,6,7,10) a selectAudioTarget_usable [OF a] by (cases "copies_audio caps sc item") auto
qed (use assms(3) built_fallback in simp_all)

theorem transcode_targets_are_usable_witness:
  "TargetVideoCodec (fst (Decide 3 sample_orchestrator sample_movie sample_tv)) \<in> {''h264'', ''hevc'', ''vp9''}"
proof -
  obtain d i e where d: "Decide 3 sample_orchestrator sample_movie sample_tv = (d, i, e)" by (rule prod_cases3)
  have t: "d_Type d = DecisionTranscode \<and> NeedsVideoTranscode d" using sample_decision by (simp only: d fst_conv Let_def)
  have l: "GetVideoCodecLadder (VideoCodec sample_movie) = [''hevc'', ''vp9'', ''h264'']" by code_simp
  from transcode_targets_are_usable [OF sample_available d conjunct1 [OF t]] t show ?thesis by (auto simp: d l)
qed


text \<open>
  C4. Dynamic range. A decision never preserves HDR and tone-maps at once, claims HDR only for an
  HDR source, and when it re-encodes claims it only with an encoder that passes HDR through. When
  the policy always tone-maps, or the device has no HDR display under the default policy, an HDR
  source is tone-mapped by every decision but the fallback.
\<close>

theorem hdr_is_preserved_or_tone_mapped:
  assumes "IsTranscodeAvailable o'" and "Decide ms o' item caps = (d, item', ev)"
  shows "(HDRPreserved d \<longrightarrow> IsHDR item \<and> \<not> ToneMapped d
       \<and> (NeedsVideoTranscode d \<longrightarrow> (\<exists>sc e. inv_caps (inventory o') = Some sc \<and> e \<in> set (EncoderDetails sc)
            \<and> EncoderUsed d = EncoderName e \<and> SupportsHDRPassthrough e)))
    \<and> (IsHDR item \<and> (qp_HdrPolicy (policy o') = HdrAlwaysToneMap
          \<or> qp_HdrPolicy (policy o') = HdrBestForDevice \<and> \<not> SupportsHDR caps) \<longrightarrow>
       d_Type d = DecisionFallback \<or> d_Type d = DecisionTranscode \<and> ToneMapped d)"
  using assms
proof (cases rule: Decide_outcomes)
  case direct
  then show ?thesis by (auto simp: plays_codecs_def CanDirectPlayVideo_def as_source_def)
next
  case remux
  then show ?thesis by (auto simp: plays_codecs_def CanDirectPlayVideo_def as_source_def)
next
  case (fallback rs)
  then show ?thesis using built_fallback [OF fallback(4), of ms rs] by simp
next
  case (built sc v rs)
  note f = built_fields [OF built(1-3), of ms rs, folded built(5)]
  show ?thesis
  proof (cases "copies_video o' caps item")
    case True
    then have "\<not> (IsHDR item \<and> (qp_HdrPolicy (policy o') = HdrAlwaysToneMap
        \<or> qp_HdrPolicy (policy o') = HdrBestForDevice \<and> \<not> SupportsHDR caps))"
      by (auto simp: copies_video_def CanDirectPlayVideo_def)
    then show ?thesis using True f(1,9) by auto
  next
    case False
    obtain e where e: "SelectEncoder sc v (fst (needs_of o' item caps)) (fst (needs_of o' item caps)) = Some e"
        "EncoderUsed d = EncoderName e" "HDRPreserved d \<longleftrightarrow> fst (needs_of o' item caps) \<and> SupportsHDRPassthrough e"
        "ToneMapped d \<longleftrightarrow> (if fst (needs_of o' item caps) then \<not> SupportsHDRPassthrough e else snd (needs_of o' item caps))"
      unfolding built(5) by (rule built_encoder [OF built(1-3) False])
    have n: "fst (needs_of o' item caps) \<Longrightarrow> IsHDR item"
      by (auto simp: needs_of_def dv_fallback_def hdr_needs_def split: if_splits)
    have tm: "\<not> fst (needs_of o' item caps) \<and> snd (needs_of o' item caps)"
      if "IsHDR item" "qp_HdrPolicy (policy o') = HdrAlwaysToneMap \<or> qp_HdrPolicy (policy o') = HdrBestForDevice \<and> \<not> SupportsHDR caps"
      using that by (auto simp: needs_of_def dv_fallback_def hdr_needs_def)
    have "d_Type d = DecisionTranscode" using f(3) False by simp
    then show ?thesis using e n tm SelectEncoder_mem(1) [OF e(1)] built(1) by auto
  qed
qed

theorem hdr_is_preserved_or_tone_mapped_witness:
  "ToneMapped (fst (Decide 3 sample_orchestrator sample_movie sample_tv))"
proof -
  obtain d i e where d: "Decide 3 sample_orchestrator sample_movie sample_tv = (d, i, e)" by (rule prod_cases3)
  have t: "d_Type d = DecisionTranscode" using sample_decision by (simp only: d fst_conv Let_def)
  have p: "IsHDR sample_movie \<and> qp_HdrPolicy (policy sample_orchestrator) = HdrBestForDevice \<and> \<not> SupportsHDR sample_tv" by code_simp
  from conjunct2 [OF hdr_is_preserved_or_tone_mapped [OF sample_available d]] p t show ?thesis by (simp add: d)
qed

text \<open>
  Even the policy that never tone-maps tone-maps: when an HDR source is re-encoded and no
  encoder of the target codec passes HDR through, the decision is to tone-map.
\<close>

theorem never_tone_map_is_overridden:
  assumes "IsTranscodeAvailable o'" and "Decide ms o' item caps = (d, item', ev)"
    and "qp_HdrPolicy (policy o') = HdrNeverToneMap" and "IsHDR item" and "d_Type d = DecisionTranscode" and "NeedsVideoTranscode d"
    and "inv_caps (inventory o') = Some sc"
    and "\<forall>e \<in> set (EncoderDetails sc). Equal (e_Codec e) (TargetVideoCodec d) \<longrightarrow> \<not> SupportsHDRPassthrough e"
  shows "ToneMapped d \<and> \<not> HDRPreserved d"
  using assms(1,2)
proof (cases rule: Decide_outcomes)
  case (built sc' v rs)
  note f = built_fields [OF built(1-3), of ms rs, folded built(5)]
  have n: "\<not> copies_video o' caps item" using assms(6) f(1) by simp
  obtain e where e: "SelectEncoder sc' v (fst (needs_of o' item caps)) (fst (needs_of o' item caps)) = Some e"
      "HDRPreserved d \<longleftrightarrow> fst (needs_of o' item caps) \<and> SupportsHDRPassthrough e"
      "ToneMapped d \<longleftrightarrow> (if fst (needs_of o' item caps) then \<not> SupportsHDRPassthrough e else snd (needs_of o' item caps))"
    unfolding built(5) by (rule built_encoder [OF built(1-3) n])
  have "sc' = sc" "TargetVideoCodec d = v" using built(1) assms(7) f(5) n by simp_all
  then have "\<not> SupportsHDRPassthrough e" using SelectEncoder_mem [OF e(1)] assms(8) by auto
  moreover have "fst (needs_of o' item caps) \<or> snd (needs_of o' item caps)"
    using assms(3,4) by (simp add: needs_of_def dv_fallback_def hdr_needs_def)
  ultimately show ?thesis using e(2,3) by auto
qed (use assms(5) built_fallback in simp_all)

definition passthrough_orchestrator :: Orchestrator where
  "passthrough_orchestrator = sample_orchestrator\<lparr>policy := DefaultQualityPolicy\<lparr>qp_HdrPolicy := HdrNeverToneMap\<rparr>\<rparr>"

theorem never_tone_map_is_overridden_witness:
  "ToneMapped (fst (Decide 3 passthrough_orchestrator sample_movie sample_tv))"
proof -
  obtain d i e where d: "Decide 3 passthrough_orchestrator sample_movie sample_tv = (d, i, e)" by (rule prod_cases3)
  have a: "IsTranscodeAvailable passthrough_orchestrator"
    using sample_available by (simp add: passthrough_orchestrator_def IsTranscodeAvailable_def)
  have t: "d_Type d = DecisionTranscode \<and> NeedsVideoTranscode d \<and> TargetVideoCodec d = ''h264''"
  proof -
    have "let d = fst (Decide 3 passthrough_orchestrator sample_movie sample_tv)
      in d_Type d = DecisionTranscode \<and> NeedsVideoTranscode d \<and> TargetVideoCodec d = ''h264''" by code_simp
    then show ?thesis by (simp only: d fst_conv Let_def)
  qed
  have p: "qp_HdrPolicy (policy passthrough_orchestrator) = HdrNeverToneMap" "IsHDR sample_movie"
    "inv_caps (inventory passthrough_orchestrator) = Some software_server"
    by (simp_all add: passthrough_orchestrator_def sample_orchestrator_def NewOrchestrator_def sample_movie_def)
  have "list_all (\<lambda>e. Equal (e_Codec e) ''h264'' \<longrightarrow> \<not> SupportsHDRPassthrough e) (EncoderDetails software_server)" by code_simp
  then have n: "\<forall>e \<in> set (EncoderDetails software_server). Equal (e_Codec e) (TargetVideoCodec d) \<longrightarrow> \<not> SupportsHDRPassthrough e"
    using t by (simp add: list_all_iff)
  from never_tone_map_is_overridden [OF a d p(1,2) _ _ p(3) n] t show ?thesis by (simp add: d)
qed


text \<open>
  The fallback asks for what the server cannot do: when the server's capabilities are known, a
  fallback decision is made exactly because no encoder for H.264 is listed, and it still asks for
  the video to be re-encoded to H.264 with no encoder named, also when the device could play the
  source's video as it is.
\<close>

theorem fallback_is_not_encodable:
  assumes "IsTranscodeAvailable o'" and "Decide ms o' item caps = (d, item', ev)"
    and "inv_caps (inventory o') = Some sc" and "d_Type d = DecisionFallback"
  shows "\<not> CanEncodeCodec sc ''h264'' \<and> NeedsVideoTranscode d \<and> TargetVideoCodec d = ''h264'' \<and> EncoderUsed d = []"
  using assms(1,2)
proof (cases rule: Decide_outcomes)
  case (fallback rs)
  have "[] \<notin> set (GetVideoCodecLadder c)" for c
    by (auto simp: GetVideoCodecLadder_def videoCodecLadder_def gget_Cons)
  then have "\<not> CanEncodeCodec sc ''h264''"
    using fallback(4) assms(3) walk_video_some [of caps sc "GetVideoCodecLadder (VideoCodec item)" "[]"]
    by (auto simp: selectVideoTarget_def split: prod.splits option.splits if_splits)
  then show ?thesis using built_fallback [OF fallback(4), of ms rs] by (simp add: fallback(2))
next
  case (built sc' v rs)
  then show ?thesis using built_fields(3) [OF built(1-3), of ms rs] assms(4) by (simp split: if_splits)
qed (use assms(4) in simp_all)

definition audio_server :: ServerCapabilities where
  "audio_server = software_server\<lparr>EncoderDetails := buildEncoderDetails [''aac''] []\<rparr>"

definition audio_orchestrator :: Orchestrator where
  "audio_orchestrator = sample_orchestrator\<lparr>inventory := \<lparr>inv_caps = Some audio_server\<rparr>\<rparr>"

definition sample_clip :: MediaItem where
  "sample_clip = sample_movie\<lparr>VideoCodec := ''h264'', AudioCodec := ''dts'', IsHDR := False\<rparr>"

theorem fallback_is_not_encodable_witness:
  "CanDirectPlayVideo DefaultQualityPolicy sample_tv sample_clip
   \<and> NeedsVideoTranscode (fst (Decide 3 audio_orchestrator sample_clip sample_tv)) \<and> \<not> CanEncodeCodec audio_server ''h264''"
proof -
  obtain d i e where d: "Decide 3 audio_orchestrator sample_clip sample_tv = (d, i, e)" by (rule prod_cases3)
  have a: "IsTranscodeAvailable audio_orchestrator"
    using sample_available by (simp add: audio_orchestrator_def IsTranscodeAvailable_def)
  have t: "d_Type d = DecisionFallback"
  proof -
    have "d_Type (fst (Decide 3 audio_orchestrator sample_clip sample_tv)) = DecisionFallback" by code_simp
    then show ?thesis by (simp only: d fst_conv)
  qed
  have p: "CanDirectPlayVideo DefaultQualityPolicy sample_tv sample_clip" by code_simp
  have k: "inv_caps (inventory audio_orchestrator) = Some audio_server" by (simp add: audio_orchestrator_def)
  show ?thesis using fallback_is_not_encodable [OF a d k t] p by (simp add: d)
qed

text \<open>
  DTS is delivered to devices that do not decode it. A device that lists the codec but reports
  no DTS support is never given direct play of a DTS item; every other decision but the fallback
  nevertheless copies the DTS track unchanged.
\<close>

theorem refused_dts_is_copied:
  assumes "IsTranscodeAvailable o'" and "Decide ms o' item caps = (d, item', ev)"
    and "AudioCodec item = ''dts''" and "AudioChannels item \<le> 8" and "containsCodec (AudioCodecs caps) ''dts''"
    and "\<not> SupportsDTS caps"
  shows "d_Type d = DecisionFallback
    \<or> d_Type d \<in> {DecisionRemux, DecisionTranscode} \<and> \<not> NeedsAudioTranscode d \<and> TargetAudioCodec d = ''dts''"
  using assms(1,2)
proof (cases rule: Decide_outcomes)
  case (built sc v rs)
  note f = built_fields [OF built(1-3), of ms rs, folded built(5)]
  have l: "GetAudioCodecLadder ''dts'' = target ''dts'' 8 # tl (GetAudioCodecLadder ''dts'')"
    by (simp add: GetAudioCodecLadder_def audioCodecLadder_def gget_Cons)
  have "audio_usable item caps sc (target ''dts'' 8)"
    using assms(3,5) by (simp add: audio_usable_def SupportsAudioCodec_def target_def)
  then have "find (audio_usable item caps sc) (GetAudioCodecLadder (AudioCodec item)) = Some (target ''dts'' 8)"
    unfolding assms(3) by (subst l) simp
  then have "copies_audio caps sc item" using assms(3,4) by (simp add: copies_audio_def selectAudioTarget_def target_def Let_def)
  then show ?thesis using f(2,3,6) assms(3) by simp
qed (use assms(3,6) built_fallback in \<open>auto simp: plays_codecs_def CanDirectPlayAudio_def\<close>)

definition dts_tv :: DeviceCapabilities where
  "dts_tv = sample_tv\<lparr>AudioCodecs := [''aac'', ''dts'']\<rparr>"

theorem refused_dts_is_copied_witness:
  "TargetAudioCodec (fst (Decide 3 sample_orchestrator sample_clip dts_tv)) = ''dts'' \<and> \<not> SupportsDTS dts_tv"
proof -
  obtain d i e where d: "Decide 3 sample_orchestrator sample_clip dts_tv = (d, i, e)" by (rule prod_cases3)
  have t: "d_Type d = DecisionRemux"
  proof -
    have "d_Type (fst (Decide 3 sample_orchestrator sample_clip dts_tv)) = DecisionRemux" by code_simp
    then show ?thesis by (simp only: d fst_conv)
  qed
  have p: "AudioCodec sample_clip = ''dts''" "AudioChannels sample_clip \<le> 8" "containsCodec (AudioCodecs dts_tv) ''dts''" "\<not> SupportsDTS dts_tv"
    by code_simp+
  show ?thesis using refused_dts_is_copied [OF sample_available d p] p(4) by (simp add: d t)
qed

lemma Decide_burns:
  assumes "IsTranscodeAvailable o'" and "Decide ms o' item caps = (d, item', ev)" and b: "burns_in o' caps item"
  shows "d_SubtitleDecision d = decide_subtitle o' caps (clean_item item) \<and> NeedsVideoTranscode d
    \<and> d_Type d \<in> {DecisionTranscode, DecisionFallback} \<and> ev \<noteq> None"
  using assms(1,2)
proof (cases rule: Decide_outcomes)
  case (fallback rs)
  obtain r qs where e: "buildTranscode o' (clean_item item) caps (add_reasons rs (start_decision o' caps item)) =
      absoluteFallback r (add_reasons qs (add_reasons rs (start_decision o' caps item)))"
    by (rule build_fallback [where o' = o' and item = "clean_item item" and caps = caps])
      (use fallback(4) in \<open>simp cong: option.case_cong\<close>)
  show ?thesis unfolding fallback(3) event_of_def fallback(2) e by (simp add: absoluteFallback_def)
next
  case (built sc v rs)
  note f = built_fields [OF built(1-3), of ms rs, folded built(5)]
  obtain qs where e: "d = stamp ms (choose_container caps (choose_audio item caps sc
      (choose_video o' item caps sc v (needs_of o' item caps) (add_reasons qs (start_decision o' caps item)))))"
    unfolding built(5) by (rule built_steps [OF built(1-3)])
  have "\<not> copies_video o' caps item" using b by (simp add: copies_video_def)
  then have "NeedsVideoTranscode d" "d_Type d = DecisionTranscode" using f(1,3) by simp_all
  moreover have "d_SubtitleDecision d = decide_subtitle o' caps (clean_item item)" by (simp add: e)
  ultimately show ?thesis using built(6) by (simp add: event_of_def)
qed (use b in simp_all)

text \<open>A subtitle burned in keeps its index: the item needs no correction.\<close>

lemma burns_in_iff:
  "burns_in o' caps item \<longleftrightarrow> SubtitleIndex item \<ge> -1 \<and> SubtitleFormat item \<noteq> []
     \<and> (ClassifySubtitle (SubtitleFormat item) = SubtitleStyledText \<and> BurnInStyledText (subConfig o')
      \<or> ClassifySubtitle (SubtitleFormat item) = SubtitleGraphical \<and> \<not> containsCodec (SubtitleFormats caps) (SubtitleFormat item))"
  by (auto simp: burns_in_def decide_subtitle_def clean_item_def check_subtitle_index_def DecideSubtitle_def zeroSubtitle_def
    split: SubtitleType.splits)

lemma burn_in_action: "Action (decide_subtitle o' caps item) = SubtitleBurnIn \<longleftrightarrow> ForcesBurnIn (decide_subtitle o' caps item)"
  by (simp add: decide_subtitle_def DecideSubtitle_def zeroSubtitle_def split: SubtitleType.split)

lemma burns_in_subtitle:
  "burns_in o' caps item \<Longrightarrow> Action (decide_subtitle o' caps (clean_item item)) = SubtitleBurnIn
     \<and> streamIndex (decide_subtitle o' caps (clean_item item)) = SubtitleIndex item"
  by (auto simp: burns_in_iff decide_subtitle_def clean_item_def check_subtitle_index_def DecideSubtitle_def)

text \<open>What is decided about the subtitle stays.\<close>

lemma try_subtitle [simp]:
  "d_SubtitleDecision (snd (tryDirectPlay o' item caps d)) = d_SubtitleDecision d"
  "d_SubtitleDecision (snd (tryRemux o' item caps d)) = d_SubtitleDecision d"
  by (simp_all add: tryDirectPlay_def tryRemux_def Let_def split: option.split)

lemma build_subtitle [simp]: "d_SubtitleDecision (buildTranscode o' item caps d) = d_SubtitleDecision d"
proof (cases "case inv_caps (inventory o') of None \<Rightarrow> True | Some sc \<Rightarrow> fst (selectVideoTarget item caps sc) = []")
  case True
  then show ?thesis by (rule build_fallback [where d = d]) (simp add: absoluteFallback_def)
next
  case False
  then obtain sc where sc: "inv_caps (inventory o') = Some sc" "fst (selectVideoTarget item caps sc) \<noteq> []"
    by (cases "inv_caps (inventory o')") auto
  show ?thesis by (rule build_steps [OF sc(1) HOL.refl sc(2), of d]) simp
qed

lemma Decide_subtitle:
  assumes "IsTranscodeAvailable o'" and "Decide ms o' item caps = (d, item', ev)"
  shows "d_SubtitleDecision d = decide_subtitle o' caps (clean_item item)"
proof -
  obtain rs where "Decide ms o' item caps =
    (let (direct, d2) = (if burns_in o' caps item then (False, add_reasons rs (start_decision o' caps item))
                         else tryDirectPlay o' (clean_item item) caps (add_reasons rs (start_decision o' caps item)))
     in if direct then (stamp ms d2, clean_item item, None)
        else let (remux, d3) = (if burns_in o' caps item then (False, d2) else tryRemux o' (clean_item item) caps d2)
             in if remux then (stamp ms d3, clean_item item, None)
                else (stamp ms (buildTranscode o' (clean_item item) caps d3), clean_item item,
                      event_of item (stamp ms (buildTranscode o' (clean_item item) caps d3))))"
    by (rule Decide_shape [OF assms(1)])
  then show ?thesis using assms(2) by (auto simp: case_prod_beta Let_def split: if_splits)
qed

text \<open>Whether the video is re-encoded, and that nothing but a burn-in depends on the subtitle.\<close>

lemma Decide_flags:
  assumes "IsTranscodeAvailable o'" and "Decide ms o' item caps = (d, item', ev)"
  shows "d_Type d = strategy o' item caps
    \<and> (NeedsVideoTranscode d \<longleftrightarrow> strategy o' item caps = DecisionFallback
      \<or> strategy o' item caps = DecisionTranscode \<and> \<not> copies_video o' caps item)
    \<and> (NeedsAudioTranscode d \<longleftrightarrow> strategy o' item caps = DecisionFallback
      \<or> strategy o' item caps = DecisionTranscode \<and> \<not> copies_audio caps (the (inv_caps (inventory o'))) item)"
  using assms
proof (cases rule: Decide_outcomes)
  case (fallback rs)
  then show ?thesis using built_fallback [OF fallback(4), of ms rs] by simp
next
  case (built sc v rs)
  then show ?thesis using built_fields(1-3) [OF built(1-3), of ms rs, folded built(5)] by auto
qed (simp_all add: as_source_def)

lemma format_irrelevant [simp]:
  "CanDirectPlayVideo pol caps (i\<lparr>SubtitleFormat := f\<rparr>) = CanDirectPlayVideo pol caps i"
  "CanDirectPlayAudio caps (i\<lparr>SubtitleFormat := f\<rparr>) = CanDirectPlayAudio caps i"
  "selectVideoTarget (i\<lparr>SubtitleFormat := f\<rparr>) caps sc = selectVideoTarget i caps sc"
  "selectAudioTarget (i\<lparr>SubtitleFormat := f\<rparr>) caps sc = selectAudioTarget i caps sc"
  "plays_codecs o' caps (i\<lparr>SubtitleFormat := f\<rparr>) = plays_codecs o' caps i"
  "copies_audio caps sc (i\<lparr>SubtitleFormat := f\<rparr>) = copies_audio caps sc i"
proof -
  show v: "CanDirectPlayVideo pol caps (i\<lparr>SubtitleFormat := f\<rparr>) = CanDirectPlayVideo pol caps i" for pol
    by (simp add: CanDirectPlayVideo_def)
  show a: "CanDirectPlayAudio caps (i\<lparr>SubtitleFormat := f\<rparr>) = CanDirectPlayAudio caps i" by (simp add: CanDirectPlayAudio_def)
  show "selectVideoTarget (i\<lparr>SubtitleFormat := f\<rparr>) caps sc = selectVideoTarget i caps sc" by (simp add: selectVideoTarget_def)
  have "audio_usable (i\<lparr>SubtitleFormat := f\<rparr>) caps sc = audio_usable i caps sc" by (rule ext) (simp add: audio_usable_def)
  then show s: "selectAudioTarget (i\<lparr>SubtitleFormat := f\<rparr>) caps sc = selectAudioTarget i caps sc" by (simp add: selectAudioTarget_def cong: option.case_cong if_cong)
  show "plays_codecs o' caps (i\<lparr>SubtitleFormat := f\<rparr>) = plays_codecs o' caps i" by (simp add: plays_codecs_def v a)
  show "copies_audio caps sc (i\<lparr>SubtitleFormat := f\<rparr>) = copies_audio caps sc i" by (simp add: copies_audio_def s)
qed

lemma strategy_without_subtitle:
  assumes "\<not> burns_in o' caps item"
  shows "strategy o' (item\<lparr>SubtitleFormat := []\<rparr>) caps = strategy o' item caps"
    and "copies_video o' caps (item\<lparr>SubtitleFormat := []\<rparr>) = copies_video o' caps item"
proof -
  have b: "\<not> burns_in o' caps (item\<lparr>SubtitleFormat := []\<rparr>)" by (simp add: burns_in_iff)
  show c: "copies_video o' caps (item\<lparr>SubtitleFormat := []\<rparr>) = copies_video o' caps item"
    using assms b by (simp add: copies_video_def)
  show "strategy o' (item\<lparr>SubtitleFormat := []\<rparr>) caps = strategy o' item caps"
    unfolding strategy_def using assms b c by (simp cong: option.case_cong if_cong)
qed

text \<open>
  C6. Exactly the subtitles that must be burned in are, and they re-encode the video. They are the styled
  formats when the server is configured so and the graphical ones the device does not list; such an item is never
  direct-played or remuxed, its video is re-encoded and the event of the transcode is published. Any other subtitle
  is not burned in and has no part in the strategy: without it the decision is of the same type and re-encodes the video or not alike.
\<close>

theorem burn_in_forces_transcode:
  assumes "IsTranscodeAvailable o'" and "Decide ms o' item caps = (d, item', ev)"
    and "Decide ms o' (item\<lparr>SubtitleFormat := []\<rparr>) caps = (d0, item0, ev0)"
  shows "if SubtitleIndex item \<ge> -1 \<and> SubtitleFormat item \<noteq> []
      \<and> (ClassifySubtitle (SubtitleFormat item) = SubtitleStyledText \<and> BurnInStyledText (subConfig o')
       \<or> ClassifySubtitle (SubtitleFormat item) = SubtitleGraphical \<and> \<not> containsCodec (SubtitleFormats caps) (SubtitleFormat item))
    then Action (d_SubtitleDecision d) = SubtitleBurnIn \<and> streamIndex (d_SubtitleDecision d) = SubtitleIndex item
      \<and> NeedsVideoTranscode d \<and> d_Type d \<in> {DecisionTranscode, DecisionFallback} \<and> ev \<noteq> None
    else Action (d_SubtitleDecision d) \<noteq> SubtitleBurnIn
      \<and> d_Type d = d_Type d0 \<and> NeedsVideoTranscode d = NeedsVideoTranscode d0 \<and> NeedsAudioTranscode d = NeedsAudioTranscode d0"
proof (cases "burns_in o' caps item")
  case True
  from Decide_burns [OF assms(1,2) True] burns_in_subtitle [OF True] True show ?thesis by (simp add: burns_in_iff)
next
  case False
  then have a: "Action (d_SubtitleDecision d) \<noteq> SubtitleBurnIn"
    using Decide_subtitle [OF assms(1,2)] by (simp add: burn_in_action burns_in_def)
  note s = strategy_without_subtitle [OF False]
  have "d_Type d = d_Type d0 \<and> NeedsVideoTranscode d = NeedsVideoTranscode d0 \<and> NeedsAudioTranscode d = NeedsAudioTranscode d0"
    using Decide_flags [OF assms(1,2)] Decide_flags [OF assms(1,3)] s by simp
  then show ?thesis using a False unfolding burns_in_iff by (simp only: if_False simp_thms)
qed

theorem burn_in_forces_transcode_witness:
  "NeedsVideoTranscode (fst (Decide 3 sample_orchestrator (sample_clip\<lparr>SubtitleFormat := ''PGS'', SubtitleIndex := 2\<rparr>) sample_tv))"
proof -
  let ?item = "sample_clip\<lparr>SubtitleFormat := ''PGS'', SubtitleIndex := 2\<rparr>"
  obtain d i e where d: "Decide 3 sample_orchestrator ?item sample_tv = (d, i, e)" by (rule prod_cases3)
  obtain d0 i0 e0 where d0: "Decide 3 sample_orchestrator (?item\<lparr>SubtitleFormat := []\<rparr>) sample_tv = (d0, i0, e0)" by (rule prod_cases3)
  have p: "SubtitleIndex ?item \<ge> -1" "SubtitleFormat ?item \<noteq> []"
    "ClassifySubtitle (SubtitleFormat ?item) = SubtitleGraphical \<and> \<not> containsCodec (SubtitleFormats sample_tv) (SubtitleFormat ?item)"
    by code_simp+
  show ?thesis using burn_in_forces_transcode [OF sample_available d d0] p by (simp add: d)
qed

section \<open>Decisions and the circuit breaker\<close>

text \<open>Results reported to the orchestrator, each with its time.\<close>

definition report :: "(bool \<times> time) list \<Rightarrow> Orchestrator \<Rightarrow> Orchestrator" where
  "report rs o' = fold (\<lambda>(ok, now). RecordTranscodeResult ok now) rs o'"

lemma report_open:
  "\<not> IsTranscodeAvailable o' \<Longrightarrow> \<not> IsTranscodeAvailable (report rs o') \<and> policy (report rs o') = policy o'"
proof (induction rs arbitrary: o')
  case (Cons r rs)
  have "\<not> IsTranscodeAvailable (RecordTranscodeResult (fst r) (snd r) o')
      \<and> policy (RecordTranscodeResult (fst r) (snd r) o') = policy o'"
    using Cons.prems by (simp add: IsTranscodeAvailable_def RecordTranscodeResult_def RecordSuccess_def RecordFailure_def LoadState_def)
  then show ?case using Cons.IH by (cases r) (simp add: report_def)
qed (simp add: report_def)

text \<open>
  C5. An open circuit never closes again. The orchestrator reads the breaker's state and records
  results, but never asks it for admission, which alone would move it to half-open: once it is open,
  no reports, successes included, make transcoding available, and every later decision has the type
  of a direct play, with no target at all when the device cannot play the item.
\<close>

theorem open_circuit_stays_open:
  assumes "\<not> IsTranscodeAvailable o'" and "Decide ms (report rs o') item caps = (d, item', ev)"
  shows "\<not> IsTranscodeAvailable (report rs o') \<and> d_Type d = DecisionDirectPlay \<and> \<not> NeedsVideoTranscode d
    \<and> \<not> NeedsAudioTranscode d \<and> ev = None
    \<and> (if plays_codecs o' caps item \<and> CanDirectPlayContainer caps (mi_Container item)
       then as_source item d \<and> TargetContainer d = mi_Container item
       else TargetVideoCodec d = [] \<and> TargetAudioCodec d = [] \<and> TargetContainer d = [])"
proof -
  note o = report_open [OF assms(1), of rs]
  let ?d = "add_reasons [''transcode circuit breaker open - direct play only''] (newDecision item caps)"
  have d: "d = stamp ms (snd (tryDirectPlay (report rs o') item caps ?d))" "ev = None"
    using assms(2) o by (auto simp: Decide_def)
  have p: "plays_codecs (report rs o') caps item = plays_codecs o' caps item" using o by (simp add: plays_codecs_def)
  show ?thesis
  proof (cases "plays_codecs o' caps item \<and> CanDirectPlayContainer caps (mi_Container item)")
    case True
    then show ?thesis using o tryDirectPlay_accepts [of "report rs o'" caps item ?d] p
      by (simp add: d as_source_def newDecision_def)
  next
    case False
    then obtain qs where "tryDirectPlay (report rs o') item caps ?d = (False, add_reasons qs ?d)"
      using tryDirectPlay_refuses [of "report rs o'" caps item ?d] p by metis
    then show ?thesis using o unfolding if_not_P [OF False] by (simp add: d newDecision_def)
  qed
qed

theorem open_circuit_stays_open_witness:
  "d_Type (fst (Decide 3 (report [(True, 900), (True, 901), (True, 902)] (report (replicate 5 (False, 1)) sample_orchestrator))
     sample_movie sample_tv)) = DecisionDirectPlay"
proof -
  let ?o = "report (replicate 5 (False, 1)) sample_orchestrator"
  have "\<not> IsTranscodeAvailable ?o" by code_simp
  moreover obtain d i e where d: "Decide 3 (report [(True, 900), (True, 901), (True, 902)] ?o) sample_movie sample_tv = (d, i, e)"
    by (rule prod_cases3)
  ultimately show ?thesis using open_circuit_stays_open [of ?o 3 "[(True, 900), (True, 901), (True, 902)]" sample_movie sample_tv d i e]
    unfolding d fst_conv by blast
qed

end
