(* ===== verification/FFmpeg.thy ===== *)
theory FFmpeg
  imports Strategy
begin

text \<open>
  The ffmpeg command line of a decision, \<^verbatim>\<open>internal/transcode/ffmpeg.go\<close>. A missing encoder
  (\<^verbatim>\<open>nil\<close>) is \<open>None\<close>; \<open>BuildFFmpegArgs\<close> gives an error, or no arguments when none are needed.
\<close>

section \<open>Arguments\<close>

record FFmpegArgs =
  Input :: "string list"
  VideoFilters :: "string list"
  VideoEncoder :: string
  VideoArgs :: "string list"
  AudioEncoder :: string
  AudioArgs :: "string list"
  OutputFormat :: string
  OutputArgs :: "string list"
  SubtitleArgs :: "string list"

definition noArgs :: FFmpegArgs where
  "noArgs = \<lparr>Input = [], VideoFilters = [], VideoEncoder = [], VideoArgs = [], AudioEncoder = [], AudioArgs = [],
     OutputFormat = [], OutputArgs = [], SubtitleArgs = []\<rparr>"

definition Build :: "FFmpegArgs \<Rightarrow> string \<Rightarrow> string \<Rightarrow> string list" where
  "Build a inputPath outputPath =
     Input a @ [''-i'', inputPath]
     @ (if VideoEncoder a \<noteq> []
        then [''-c:v'', VideoEncoder a]
             @ (if VideoFilters a \<noteq> [] then [''-vf'', Join (VideoFilters a) '',''] else []) @ VideoArgs a
        else [''-c:v'', ''copy''])
     @ (if AudioEncoder a \<noteq> [] then [''-c:a'', AudioEncoder a] @ AudioArgs a else [''-c:a'', ''copy''])
     @ SubtitleArgs a
     @ (if OutputFormat a \<noteq> [] then [''-f'', OutputFormat a] else [])
     @ OutputArgs a @ [outputPath]"

definition add_filters :: "string list \<Rightarrow> FFmpegArgs \<Rightarrow> FFmpegArgs" where
  "add_filters fs a = a\<lparr>VideoFilters := VideoFilters a @ fs\<rparr>"

definition add_video :: "string list \<Rightarrow> FFmpegArgs \<Rightarrow> FFmpegArgs" where
  "add_video xs a = a\<lparr>VideoArgs := VideoArgs a @ xs\<rparr>"

definition add_audio :: "string list \<Rightarrow> FFmpegArgs \<Rightarrow> FFmpegArgs" where
  "add_audio xs a = a\<lparr>AudioArgs := AudioArgs a @ xs\<rparr>"

section \<open>Video\<close>

definition buildHDRPassthroughArgs :: "EncoderCapability option \<Rightarrow> FFmpegArgs \<Rightarrow> FFmpegArgs" where
  "buildHDRPassthroughArgs encoder a =
     add_video ([''-color_primaries'', ''bt2020'', ''-color_trc'', ''smpte2084'', ''-colorspace'', ''bt2020nc'']
       @ (case encoder of
            None \<Rightarrow> []
          | Some e \<Rightarrow>
              if \<not> IsHardware e then []
              else if Contains (EncoderName e) ''nvenc'' then [''-rc'', ''constqp'']
              else if Contains (EncoderName e) ''vaapi'' then []
              else if Contains (EncoderName e) ''videotoolbox'' then [''-allow_sw'', ''1'']
              else [])) a"

fun tone_map_filter :: "ToneMappingQuality \<Rightarrow> string" where
  "tone_map_filter ToneMappingHigh =
     ''libplacebo=tonemapping=bt.2390:colorspace=bt709:color_primaries=bt709:color_trc=bt709:format=yuv420p''"
| "tone_map_filter ToneMappingMedium =
     ''zscale=t=linear:npl=100,format=gbrpf32le,zscale=p=bt709,tonemap=hable:desat=0,zscale=t=bt709:m=bt709:r=tv,format=yuv420p''"
| "tone_map_filter ToneMappingFast =
     ''zscale=t=linear:npl=100,format=gbrpf32le,zscale=p=bt709,tonemap=reinhard:desat=0,zscale=t=bt709:m=bt709:r=tv,format=yuv420p''"

definition buildToneMappingArgs :: "QualityPreservationPolicy \<Rightarrow> FFmpegArgs \<Rightarrow> FFmpegArgs" where
  "buildToneMappingArgs pol a =
     add_video [''-color_primaries'', ''bt709'', ''-color_trc'', ''bt709'', ''-colorspace'', ''bt709'']
       (add_filters [tone_map_filter (qp_ToneMappingQuality pol)] a)"

definition addEncoderPreset :: "EncoderCapability option \<Rightarrow> FFmpegArgs \<Rightarrow> FFmpegArgs" where
  "addEncoderPreset encoder a =
     add_video (case encoder of
         None \<Rightarrow> [''-preset'', ''fast'']
       | Some e \<Rightarrow>
           let n = EncoderName e
           in if Contains n ''nvenc'' then [''-preset'', ''p4'', ''-tune'', ''hq'']
              else if Contains n ''qsv'' then [''-preset'', ''faster'']
              else if Contains n ''vaapi'' then []
              else if Contains n ''videotoolbox'' then [''-realtime'', ''1'']
              else if n = ''libx264'' then [''-preset'', ''fast'', ''-crf'', ''23'']
              else if n = ''libx265'' then [''-preset'', ''fast'', ''-crf'', ''28'']
              else if n = ''libsvtav1'' then [''-preset'', ''8'', ''-crf'', ''30'']
              else []) a"

text \<open>The item whose legacy content is looked at: only the fields the source sets.\<close>

definition legacy_item :: "PlaybackDecision \<Rightarrow> MediaItem" where
  "legacy_item d = \<lparr>mi_ID = [], mi_Title = [], VideoCodec = [], AudioCodec = [], mi_Container = [],
     Width = SourceWidth d, Height = SourceHeight d, Bitrate = 0, Framerate = 0, AudioChannels = 0, AudioBitrate = 0,
     mi_BitDepth = 0, IsHDR = False, HDRType = [], IsDolbyVision = False, DolbyVisionProfile = [], IsDolbyAtmos = False,
     Interlaced = SourceInterlaced d, PixelAspectRatio = SourcePixelAspectRatio d, SubtitleFormat = [],
     SubtitleIndex = 0, mi_Duration = 0\<rparr>"

definition buildVideoArgs ::
  "PlaybackDecision \<Rightarrow> EncoderCapability option \<Rightarrow> QualityPreservationPolicy \<Rightarrow> FFmpegArgs \<Rightarrow> FFmpegArgs" where
  "buildVideoArgs d encoder pol a0 =
     (if \<not> NeedsVideoTranscode d then a0
      else
        let a1 = a0\<lparr>VideoEncoder := (case encoder of None \<Rightarrow> ''libx264'' | Some e \<Rightarrow> EncoderName e)\<rparr>;
            a2 = add_filters (BuildLegacyFilterArgs (DetectLegacyContent (legacy_item d))) a1;
            a3 = (if SourceIsHDR d
                  then (if HDRPreserved d then buildHDRPassthroughArgs encoder a2
                        else if ToneMapped d then buildToneMappingArgs pol a2 else a2)
                  else a2);
            a4 = add_video [''-pix_fmt'', if HDRPreserved d then ''p010le'' else ''yuv420p''] a3
        in addEncoderPreset encoder a4)"

section \<open>Audio and subtitles\<close>

definition audioBitrateForChannels :: "int \<Rightarrow> string" where
  "audioBitrateForChannels channels = (if channels \<ge> 8 then ''512k'' else if channels \<ge> 6 then ''384k'' else ''256k'')"

definition audioBitrateForEAC3 :: "int \<Rightarrow> string" where
  "audioBitrateForEAC3 channels = (if channels \<ge> 8 then ''1024k'' else if channels \<ge> 6 then ''640k'' else ''384k'')"

text \<open>The encoder of a target codec and its arguments.\<close>

definition audio_encoder :: "string \<Rightarrow> int \<Rightarrow> string \<times> string list" where
  "audio_encoder codec channels =
     (if codec = ''aac'' then (''aac'', [''-b:a'', audioBitrateForChannels channels])
      else if codec = ''eac3'' then (''eac3'', [''-b:a'', audioBitrateForEAC3 channels])
      else if codec = ''ac3'' then (''ac3'', [''-b:a'', ''640k''])
      else if codec = ''opus'' then (''libopus'', [''-b:a'', ''256k''])
      else if codec = ''flac'' then (''flac'', [])
      else if codec = ''mp3'' then (''libmp3lame'', [''-b:a'', ''320k''])
      else (''aac'', [''-b:a'', ''256k'']))"

definition buildAudioArgs :: "PlaybackDecision \<Rightarrow> FFmpegArgs \<Rightarrow> FFmpegArgs" where
  "buildAudioArgs d a =
     (if \<not> NeedsAudioTranscode d then a
      else let (enc, xs) = audio_encoder (TargetAudioCodec d) (TargetAudioChannels d)
           in add_audio (xs @ (if TargetAudioChannels d > 0 then [''-ac'', Itoa (TargetAudioChannels d)] else []))
                (a\<lparr>AudioEncoder := enc\<rparr>))"

datatype ffmpeg_error = InvalidStreamIndex int

definition buildSubtitleArgs :: "PlaybackDecision \<Rightarrow> FFmpegArgs \<Rightarrow> ffmpeg_error + FFmpegArgs" where
  "buildSubtitleArgs d a =
     (let sub = d_SubtitleDecision d
      in if Action sub = SubtitleBurnIn
         then (if streamIndex sub < 0 then Inl (InvalidStreamIndex (streamIndex sub))
               else let f = ''subtitles=si='' @ Itoa (streamIndex sub);
                        a' = (case sd_Type sub of
                                SubtitleGraphical \<Rightarrow> add_filters [f] a
                              | SubtitleStyledText \<Rightarrow> add_filters [f] a
                              | _ \<Rightarrow> a)
                    in Inr (a'\<lparr>SubtitleArgs := SubtitleArgs a' @ [''-sn'']\<rparr>))
         else Inr (a\<lparr>SubtitleArgs := SubtitleArgs a @ [''-sn'']\<rparr>))"

definition mapContainerToFFmpegFormat :: "string \<Rightarrow> string" where
  "mapContainerToFFmpegFormat c =
     (if c = ''mp4'' then ''mp4'' else if c = ''mkv'' then ''matroska'' else if c = ''ts'' then ''mpegts''
      else if c = ''webm'' then ''webm'' else if c = ''mov'' then ''mov'' else ''mp4'')"

definition BuildFFmpegArgs ::
  "PlaybackDecision \<Rightarrow> EncoderCapability option \<Rightarrow> QualityPreservationPolicy \<Rightarrow> ffmpeg_error + FFmpegArgs option" where
  "BuildFFmpegArgs d encoder pol =
     (if d_Type d = DecisionDirectPlay then Inr None
      else if d_Type d = DecisionRemux then Inr (Some (noArgs\<lparr>OutputFormat := TargetContainer d\<rparr>))
      else case buildSubtitleArgs d (buildAudioArgs d (buildVideoArgs d encoder pol noArgs)) of
             Inl e \<Rightarrow> Inl e
           | Inr a \<Rightarrow> Inr (Some (a\<lparr>OutputFormat := mapContainerToFFmpegFormat (TargetContainer d)\<rparr>)))"


section \<open>What the command line does\<close>

text \<open>The reference: the whole command, read off the decision from left to right.\<close>

definition filter_chain :: "PlaybackDecision \<Rightarrow> QualityPreservationPolicy \<Rightarrow> string list" where
  "filter_chain d pol =
     BuildLegacyFilterArgs (DetectLegacyContent (legacy_item d))
     @ (if SourceIsHDR d \<and> \<not> HDRPreserved d \<and> ToneMapped d then [tone_map_filter (qp_ToneMappingQuality pol)] else [])
     @ (if Action (d_SubtitleDecision d) = SubtitleBurnIn
           \<and> sd_Type (d_SubtitleDecision d) \<in> {SubtitleGraphical, SubtitleStyledText}
        then [''subtitles=si='' @ Itoa (streamIndex (d_SubtitleDecision d))] else [])"

definition hardware_hdr_options :: "EncoderCapability option \<Rightarrow> string list" where
  "hardware_hdr_options encoder =
     (case encoder of
        None \<Rightarrow> []
      | Some e \<Rightarrow> if IsHardware e \<and> Contains (EncoderName e) ''nvenc'' then [''-rc'', ''constqp'']
          else if IsHardware e \<and> \<not> Contains (EncoderName e) ''vaapi'' \<and> Contains (EncoderName e) ''videotoolbox''
          then [''-allow_sw'', ''1''] else [])"

definition colour_options :: "PlaybackDecision \<Rightarrow> EncoderCapability option \<Rightarrow> string list" where
  "colour_options d encoder =
     (if SourceIsHDR d \<and> HDRPreserved d
      then [''-color_primaries'', ''bt2020'', ''-color_trc'', ''smpte2084'', ''-colorspace'', ''bt2020nc''] @ hardware_hdr_options encoder
      else if SourceIsHDR d \<and> ToneMapped d
      then [''-color_primaries'', ''bt709'', ''-color_trc'', ''bt709'', ''-colorspace'', ''bt709''] else [])
     @ [''-pix_fmt'', if HDRPreserved d then ''p010le'' else ''yuv420p'']"

definition preset_options :: "EncoderCapability option \<Rightarrow> string list" where
  "preset_options encoder = VideoArgs (addEncoderPreset encoder noArgs)"

definition video_options :: "PlaybackDecision \<Rightarrow> EncoderCapability option \<Rightarrow> QualityPreservationPolicy \<Rightarrow> string list" where
  "video_options d encoder pol =
     (if NeedsVideoTranscode d
      then [''-c:v'', case encoder of None \<Rightarrow> ''libx264'' | Some e \<Rightarrow> EncoderName e]
        @ (if filter_chain d pol = [] then [] else [''-vf'', Join (filter_chain d pol) '',''])
        @ colour_options d encoder @ preset_options encoder
      else [''-c:v'', ''copy''])"

definition audio_options :: "PlaybackDecision \<Rightarrow> string list" where
  "audio_options d =
     (if NeedsAudioTranscode d
      then [''-c:a'', fst (audio_encoder (TargetAudioCodec d) (TargetAudioChannels d))]
        @ snd (audio_encoder (TargetAudioCodec d) (TargetAudioChannels d))
        @ (if TargetAudioChannels d > 0 then [''-ac'', Itoa (TargetAudioChannels d)] else [])
      else [''-c:a'', ''copy''])"

definition output_options :: "PlaybackDecision \<Rightarrow> string list" where
  "output_options d =
     (if d_Type d = DecisionRemux then if TargetContainer d = [] then [] else [''-f'', TargetContainer d]
      else [''-sn'', ''-f'', mapContainerToFFmpegFormat (TargetContainer d)])"

definition command_of ::
  "PlaybackDecision \<Rightarrow> EncoderCapability option \<Rightarrow> QualityPreservationPolicy \<Rightarrow> string \<Rightarrow> string \<Rightarrow> string list" where
  "command_of d encoder pol inp out =
     [''-i'', inp] @ video_options d encoder pol @ audio_options d @ output_options d @ [out]"

text \<open>The fields that the steps of the builder leave.\<close>

lemma add_frame [simp]:
  "add_filters fs a = a\<lparr>VideoFilters := VideoFilters a @ fs\<rparr>" "add_video xs a = a\<lparr>VideoArgs := VideoArgs a @ xs\<rparr>"
  "add_audio ys a = a\<lparr>AudioArgs := AudioArgs a @ ys\<rparr>"
  by (simp_all add: add_filters_def add_video_def add_audio_def)

lemma preset_eq: "addEncoderPreset encoder a = a\<lparr>VideoArgs := VideoArgs a @ preset_options encoder\<rparr>"
  by (simp add: preset_options_def addEncoderPreset_def noArgs_def)

lemma passthrough_eq:
  "buildHDRPassthroughArgs encoder a = a\<lparr>VideoArgs := VideoArgs a
     @ [''-color_primaries'', ''bt2020'', ''-color_trc'', ''smpte2084'', ''-colorspace'', ''bt2020nc''] @ hardware_hdr_options encoder\<rparr>"
  by (simp add: buildHDRPassthroughArgs_def hardware_hdr_options_def split: option.split)

text \<open>The filters of the video alone.\<close>

definition picture_filters :: "PlaybackDecision \<Rightarrow> QualityPreservationPolicy \<Rightarrow> string list" where
  "picture_filters d pol = BuildLegacyFilterArgs (DetectLegacyContent (legacy_item d))
     @ (if SourceIsHDR d \<and> \<not> HDRPreserved d \<and> ToneMapped d then [tone_map_filter (qp_ToneMappingQuality pol)] else [])"

lemma buildVideoArgs_eq:
  "buildVideoArgs d encoder pol noArgs =
     (if NeedsVideoTranscode d
      then noArgs\<lparr>VideoEncoder := (case encoder of None \<Rightarrow> ''libx264'' | Some e \<Rightarrow> EncoderName e),
        VideoFilters := picture_filters d pol, VideoArgs := colour_options d encoder @ preset_options encoder\<rparr>
      else noArgs)"
  by (simp add: buildVideoArgs_def Let_def preset_eq passthrough_eq buildToneMappingArgs_def picture_filters_def colour_options_def
    noArgs_def)

lemma audio_encoder_nonempty [simp]: "fst (audio_encoder c n) \<noteq> []"
  by (simp add: audio_encoder_def)

lemma buildAudioArgs_eq:
  "AudioArgs a = [] \<Longrightarrow> buildAudioArgs d a =
     (if NeedsAudioTranscode d
      then a\<lparr>AudioEncoder := fst (audio_encoder (TargetAudioCodec d) (TargetAudioChannels d)),
        AudioArgs := snd (audio_encoder (TargetAudioCodec d) (TargetAudioChannels d))
          @ (if TargetAudioChannels d > 0 then [''-ac'', Itoa (TargetAudioChannels d)] else [])\<rparr>
      else a)"
  by (simp add: buildAudioArgs_def case_prod_beta)

lemma buildSubtitleArgs_error:
  "buildSubtitleArgs d a = Inl e \<longleftrightarrow> Action (d_SubtitleDecision d) = SubtitleBurnIn
     \<and> streamIndex (d_SubtitleDecision d) < 0 \<and> e = InvalidStreamIndex (streamIndex (d_SubtitleDecision d))"
  by (auto simp: buildSubtitleArgs_def Let_def)

lemma buildSubtitleArgs_eq:
  "buildSubtitleArgs d a = Inr b \<Longrightarrow>
     b = a\<lparr>VideoFilters := VideoFilters a
         @ (if Action (d_SubtitleDecision d) = SubtitleBurnIn \<and> sd_Type (d_SubtitleDecision d) \<in> {SubtitleGraphical, SubtitleStyledText}
            then [''subtitles=si='' @ Itoa (streamIndex (d_SubtitleDecision d))] else []),
       SubtitleArgs := SubtitleArgs a @ [''-sn'']\<rparr>"
  by (auto simp: buildSubtitleArgs_def Let_def split: if_splits SubtitleType.splits)

text \<open>
  C38. The command line is the one read off the decision, argument by argument: the input; the encoder of the video with
  its filters (deinterlacing and square pixels of legacy content, tone mapping, then the burned-in subtitle), colours, pixel format and
  preset, or a copy; the encoder of the audio with its bitrate and channels, or a copy; the format and the output. It is
  refused exactly for a subtitle burned in from no stream, and a direct play needs none.
\<close>

theorem command_follows_decision:
  assumes "d_Type d = DecisionRemux \<longrightarrow> \<not> NeedsVideoTranscode d \<and> \<not> NeedsAudioTranscode d"
    and "\<forall>e. encoder = Some e \<longrightarrow> EncoderName e \<noteq> []"
  shows "case BuildFFmpegArgs d encoder pol of
      Inl e \<Rightarrow> d_Type d \<in> {DecisionTranscode, DecisionFallback} \<and> Action (d_SubtitleDecision d) = SubtitleBurnIn
        \<and> streamIndex (d_SubtitleDecision d) < 0 \<and> e = InvalidStreamIndex (streamIndex (d_SubtitleDecision d))
    | Inr None \<Rightarrow> d_Type d = DecisionDirectPlay
    | Inr (Some a) \<Rightarrow> d_Type d \<noteq> DecisionDirectPlay \<and> Build a inp out = command_of d encoder pol inp out"
proof (cases "d_Type d \<in> {DecisionDirectPlay, DecisionRemux}")
  case True
  then show ?thesis using assms(1)
    by (auto simp: BuildFFmpegArgs_def Build_def noArgs_def command_of_def video_options_def audio_options_def output_options_def)
next
  case False
  let ?a = "buildAudioArgs d (buildVideoArgs d encoder pol noArgs)"
  have t: "d_Type d \<in> {DecisionTranscode, DecisionFallback}" using False by (cases "d_Type d") auto
  show ?thesis
  proof (cases "buildSubtitleArgs d ?a")
    case (Inl e)
    then have "BuildFFmpegArgs d encoder pol = Inl e" using False by (simp add: BuildFFmpegArgs_def)
    then show ?thesis using Inl t unfolding buildSubtitleArgs_error by simp
  next
    case (Inr b)
    have m: "mapContainerToFFmpegFormat c \<noteq> []" for c by (simp add: mapContainerToFFmpegFormat_def)
    have n: "(case encoder of None \<Rightarrow> ''libx264'' | Some e \<Rightarrow> EncoderName e) \<noteq> []" using assms(2) by (simp split: option.split)
    have "AudioArgs (buildVideoArgs d encoder pol noArgs) = []" unfolding buildVideoArgs_eq by (simp add: noArgs_def)
    note a = buildAudioArgs_eq [OF this, unfolded buildVideoArgs_eq]
    have "Build (b\<lparr>OutputFormat := mapContainerToFFmpegFormat (TargetContainer d)\<rparr>) inp out = command_of d encoder pol inp out"
      using False n m unfolding buildSubtitleArgs_eq [OF Inr] buildVideoArgs_eq a
      by (cases "NeedsVideoTranscode d"; cases "NeedsAudioTranscode d")
        (simp_all add: noArgs_def Build_def command_of_def video_options_def audio_options_def
        output_options_def filter_chain_def picture_filters_def)
    then show ?thesis using False Inr by (simp add: BuildFFmpegArgs_def)
  qed
qed

definition burn_decision :: PlaybackDecision where
  "burn_decision = (newDecision sample_clip sample_tv)\<lparr>d_Type := DecisionTranscode, NeedsVideoTranscode := True,
     TargetContainer := ''mkv'',
     d_SubtitleDecision := zeroSubtitle\<lparr>sd_Type := SubtitleGraphical, Action := SubtitleBurnIn, streamIndex := 2\<rparr>\<rparr>"

theorem command_follows_decision_witness:
  "case BuildFFmpegArgs burn_decision None DefaultQualityPolicy of
      Inr (Some a) \<Rightarrow> Build a ''in'' ''out'' = [''-i'', ''in'', ''-c:v'', ''libx264'', ''-vf'', ''subtitles=si=2'', ''-pix_fmt'', ''yuv420p'',
        ''-preset'', ''fast'', ''-c:a'', ''copy'', ''-sn'', ''-f'', ''matroska'', ''out'']
    | _ \<Rightarrow> False"
proof -
  have c: "command_of burn_decision None DefaultQualityPolicy ''in'' ''out'' = [''-i'', ''in'', ''-c:v'', ''libx264'', ''-vf'', ''subtitles=si=2'',
      ''-pix_fmt'', ''yuv420p'', ''-preset'', ''fast'', ''-c:a'', ''copy'', ''-sn'', ''-f'', ''matroska'', ''out'']" by code_simp
  have s: "streamIndex (d_SubtitleDecision burn_decision) = 2" "d_Type burn_decision = DecisionTranscode"
    by (simp_all add: burn_decision_def)
  then show ?thesis using command_follows_decision [where d = burn_decision and encoder = None and pol = DefaultQualityPolicy
      and inp = "''in''" and out = "''out''"] c
    by (auto split: sum.splits option.splits)
qed

text \<open>
  A graphical subtitle without a selected stream cannot be played. \<open>Decide\<close> accepts the index
  -1, no subtitle selected, and still lets a graphical format the device does not list force a
  transcode with the subtitle burned in; building the command line of that decision then always
  fails with the error of an invalid stream index.
\<close>

theorem unselected_subtitle_fails:
  assumes "IsTranscodeAvailable o'" and "SubtitleIndex item = -1"
    and "ClassifySubtitle (SubtitleFormat item) = SubtitleGraphical" and "SubtitleFormat item \<noteq> []"
    and "\<not> containsCodec (SubtitleFormats caps) (SubtitleFormat item)"
  shows "BuildFFmpegArgs (fst (Decide ms o' item caps)) encoder pol = Inl (InvalidStreamIndex (-1))"
proof -
  obtain d i ev where d: "Decide ms o' item caps = (d, i, ev)" by (rule prod_cases3)
  have b: "burns_in o' caps item" using assms(2-5) by (simp add: burns_in_iff)
  note D = Decide_burns [OF assms(1) d b] and S = burns_in_subtitle [OF b]
  then have "buildSubtitleArgs d a = Inl (InvalidStreamIndex (-1))" for a
    using assms(2) by (simp add: buildSubtitleArgs_error)
  then show ?thesis using D by (auto simp: d BuildFFmpegArgs_def)
qed

theorem unselected_subtitle_fails_witness:
  "BuildFFmpegArgs (fst (Decide 3 sample_orchestrator (sample_clip\<lparr>SubtitleFormat := ''pgs''\<rparr>) sample_tv)) None DefaultQualityPolicy
     = Inl (InvalidStreamIndex (-1))"
proof -
  have p: "SubtitleIndex (sample_clip\<lparr>SubtitleFormat := ''pgs''\<rparr>) = -1"
    "ClassifySubtitle (SubtitleFormat (sample_clip\<lparr>SubtitleFormat := ''pgs''\<rparr>)) = SubtitleGraphical"
    "SubtitleFormat (sample_clip\<lparr>SubtitleFormat := ''pgs''\<rparr>) \<noteq> []"
    "\<not> containsCodec (SubtitleFormats sample_tv) (SubtitleFormat (sample_clip\<lparr>SubtitleFormat := ''pgs''\<rparr>))"
    by code_simp+
  show ?thesis by (rule unselected_subtitle_fails [OF sample_available p])
qed

text \<open>
  A remux names the container where ffmpeg expects its format: the command of a remux passes
  the container's name on unchanged, and for Matroska and transport streams that is not the name
  the command of a transcode uses for the same container.
\<close>

theorem remux_format_unmapped:
  "BuildFFmpegArgs (d\<lparr>d_Type := DecisionRemux, TargetContainer := c\<rparr>) encoder pol = Inr (Some (noArgs\<lparr>OutputFormat := c\<rparr>))
   \<and> (c \<in> set [''mp4'', ''mkv'', ''ts'', ''webm'', ''mov''] \<and> mapContainerToFFmpegFormat c \<noteq> c \<longleftrightarrow> c = ''mkv'' \<or> c = ''ts'')"
  by (auto simp: BuildFFmpegArgs_def mapContainerToFFmpegFormat_def)

end
