(* ===== verification/BruteForce.thy ===== *)
theory BruteForce
  imports Prelude
begin

text \<open>
  Login brute-force protection, \<^verbatim>\<open>internal/api/auth/ratelimit.go\<close>: per-address failure
  records, progressive delays, lockout and the periodic cleanup. Every method takes the clock
  reading \<open>now\<close>; \<^verbatim>\<open>RecordFailure\<close> reads the clock a second time (\<open>now'\<close>) when it reports
  the rest of a lockout. The callbacks run on goroutines of their own and are modelled by the
  lists of the calls made to them. \<^verbatim>\<open>GetClientIP\<close> is in Accounts.
\<close>

section \<open>Data\<close>

record failureRecord =
  IP :: string
  Attempts :: int
  FirstAttempt :: time
  LastAttempt :: time
  LockedUntil :: time

record BruteForceConfig =
  MaxAttempts :: int
  LockoutMinutes :: int
  CleanupMinutes :: int

record BruteForceProtector =
  bfFailures :: "(string, failureRecord) gomap"
  maxAttempts :: int
  lockoutDuration :: duration
  cleanupInterval :: duration
  onLockout :: bool
  onUnlock :: bool
  lockoutCalls :: "(string \<times> time) list"
  unlockCalls :: "string list"

record BruteForceStatus =
  stIP :: string
  stAttempts :: int
  stFirstAttempt :: time
  stLastAttempt :: time
  stLocked :: bool
  stLockedUntil :: time
  stAttemptsLeft :: int

definition DefaultBruteForceConfig :: BruteForceConfig where
  "DefaultBruteForceConfig = \<lparr>MaxAttempts = 10, LockoutMinutes = 15, CleanupMinutes = 5\<rparr>"

definition NewBruteForceProtector :: "BruteForceConfig \<Rightarrow> BruteForceProtector" where
  "NewBruteForceProtector cfg =
     (let ma = (if MaxAttempts cfg \<le> 0 then 10 else MaxAttempts cfg);
          lm = (if LockoutMinutes cfg \<le> 0 then 15 else LockoutMinutes cfg);
          cm = (if CleanupMinutes cfg \<le> 0 then 5 else CleanupMinutes cfg)
      in \<lparr>bfFailures = [], maxAttempts = ma, lockoutDuration = i64 (lm * Minute),
          cleanupInterval = i64 (cm * Minute), onLockout = False, onUnlock = False,
          lockoutCalls = [], unlockCalls = []\<rparr>)"

section \<open>Queries\<close>

definition IsLocked :: "time \<Rightarrow> string \<Rightarrow> BruteForceProtector \<Rightarrow> bool" where
  "IsLocked now ip p =
     (case gget (bfFailures p) ip of None \<Rightarrow> False | Some r \<Rightarrow> After (LockedUntil r) now)"

definition GetLockoutRemaining :: "time \<Rightarrow> string \<Rightarrow> BruteForceProtector \<Rightarrow> duration" where
  "GetLockoutRemaining now ip p =
     (case gget (bfFailures p) ip of
        None \<Rightarrow> 0
      | Some r \<Rightarrow>
          if IsZero (LockedUntil r) then 0
          else let remaining = Sub (LockedUntil r) now in if remaining < 0 then 0 else remaining)"

definition GetAttempts :: "string \<Rightarrow> BruteForceProtector \<Rightarrow> int" where
  "GetAttempts ip p = (case gget (bfFailures p) ip of None \<Rightarrow> 0 | Some r \<Rightarrow> Attempts r)"

definition GetStatus :: "time \<Rightarrow> string \<Rightarrow> BruteForceProtector \<Rightarrow> BruteForceStatus" where
  "GetStatus now ip p =
     (case gget (bfFailures p) ip of
        None \<Rightarrow> \<lparr>stIP = ip, stAttempts = 0, stFirstAttempt = zeroTime, stLastAttempt = zeroTime,
                 stLocked = False, stLockedUntil = zeroTime, stAttemptsLeft = maxAttempts p\<rparr>
      | Some r \<Rightarrow>
          let left = maxAttempts p - Attempts r
          in \<lparr>stIP = ip, stAttempts = Attempts r, stFirstAttempt = FirstAttempt r,
              stLastAttempt = LastAttempt r, stLocked = After (LockedUntil r) now,
              stLockedUntil = LockedUntil r, stAttemptsLeft = (if left < 0 then 0 else left)\<rparr>)"

section \<open>Updates\<close>

text \<open>
  \<^verbatim>\<open>time.Duration(1<<uint(attempts-1)) * time.Second\<close>: the shift is on 64 bits and drops
  what leaves them, and the product wraps; only then is the result capped at 16 seconds.
\<close>

definition progressive_delay :: "int \<Rightarrow> duration" where
  "progressive_delay attempts =
     (let d = i64 (i64 (2 ^ nat (attempts - 1)) * Second) in if d > 16 * Second then 16 * Second else d)"

text \<open>The record of an address, or the new one the first failure creates.\<close>

definition record_for :: "time \<Rightarrow> string \<Rightarrow> BruteForceProtector \<Rightarrow> failureRecord" where
  "record_for now ip p =
     (case gget (bfFailures p) ip of
        Some r \<Rightarrow> r
      | None \<Rightarrow> \<lparr>IP = ip, Attempts = 0, FirstAttempt = now, LastAttempt = zeroTime,
                 LockedUntil = zeroTime\<rparr>)"

definition BF_RecordFailure ::
  "time \<Rightarrow> time \<Rightarrow> string \<Rightarrow> BruteForceProtector \<Rightarrow> (bool \<times> duration) \<times> BruteForceProtector" where
  "BF_RecordFailure now now' ip p =
     (let r = record_for now ip p;
          p1 = p\<lparr>bfFailures := gput (bfFailures p) ip r\<rparr>
      in if After (LockedUntil r) now then ((True, Sub (LockedUntil r) now'), p1)
         else let r2 = r\<lparr>Attempts := Attempts r + 1, LastAttempt := now\<rparr>
              in if Attempts r2 \<ge> maxAttempts p
                 then let r3 = r2\<lparr>LockedUntil := Add now (lockoutDuration p)\<rparr>
                      in ((True, lockoutDuration p),
                          p1\<lparr>bfFailures := gput (bfFailures p1) ip r3,
                             lockoutCalls := (if onLockout p
                               then lockoutCalls p @ [(ip, LockedUntil r3)] else lockoutCalls p)\<rparr>)
                 else ((False, progressive_delay (Attempts r2)),
                       p1\<lparr>bfFailures := gput (bfFailures p1) ip r2\<rparr>))"

definition BF_RecordSuccess :: "string \<Rightarrow> BruteForceProtector \<Rightarrow> BruteForceProtector" where
  "BF_RecordSuccess ip p = p\<lparr>bfFailures := gdel (bfFailures p) ip\<rparr>"

definition OnLockout :: "BruteForceProtector \<Rightarrow> BruteForceProtector" where
  "OnLockout p = p\<lparr>onLockout := True\<rparr>"

definition OnUnlock :: "BruteForceProtector \<Rightarrow> BruteForceProtector" where
  "OnUnlock p = p\<lparr>onUnlock := True\<rparr>"

definition stale :: "time \<Rightarrow> failureRecord \<Rightarrow> bool" where
  "stale now r \<longleftrightarrow> IsZero (LockedUntil r) \<and> Sub now (LastAttempt r) > 24 * Hour"

definition lockout_over :: "time \<Rightarrow> failureRecord \<Rightarrow> bool" where
  "lockout_over now r \<longleftrightarrow> \<not> IsZero (LockedUntil r) \<and> After now (LockedUntil r)"

definition cleanup :: "time \<Rightarrow> BruteForceProtector \<Rightarrow> BruteForceProtector" where
  "cleanup now p =
     p\<lparr>bfFailures := gfilter (\<lambda>ip r. \<not> stale now r \<and> \<not> lockout_over now r) (bfFailures p),
       unlockCalls := (if onUnlock p
         then unlockCalls p @ map fst (filter (\<lambda>(ip, r). \<not> stale now r \<and> lockout_over now r) (bfFailures p))
         else unlockCalls p)\<rparr>"

lemmas bf_defs = BF_RecordFailure_def BF_RecordSuccess_def cleanup_def Let_def

section \<open>Invariant\<close>

text \<open>
  Each record is filed under its own address, counts at least one attempt, and carries a
  lockout instant exactly when the count has reached the limit.
\<close>

definition record_ok :: "int \<Rightarrow> string \<Rightarrow> failureRecord \<Rightarrow> bool" where
  "record_ok m ip r \<longleftrightarrow> IP r = ip \<and> 1 \<le> Attempts r \<and> (IsZero (LockedUntil r) \<longleftrightarrow> Attempts r < m)"

definition bf_inv :: "BruteForceProtector \<Rightarrow> bool" where
  "bf_inv p \<longleftrightarrow> gwf (bfFailures p) \<and>
     (\<forall>ip r. gget (bfFailures p) ip = Some r \<longrightarrow> record_ok (maxAttempts p) ip r)"

datatype bf_call = BFail time time string | BSucceed string | BClean time

fun bf_step :: "bf_call \<Rightarrow> BruteForceProtector \<Rightarrow> BruteForceProtector" where
  "bf_step (BFail now now' ip) p = snd (BF_RecordFailure now now' ip p)"
| "bf_step (BSucceed ip) p = BF_RecordSuccess ip p"
| "bf_step (BClean now) p = cleanup now p"

fun bf_time_ok :: "bf_call \<Rightarrow> bool" where
  "bf_time_ok (BFail now _ _) = (0 \<le> now)"
| "bf_time_ok _ = True"

lemma zeroTime_neg: "0 \<le> t \<Longrightarrow> t \<noteq> zeroTime \<and> zeroTime < t"
  by (simp add: zeroTime_def)

lemma bf_step_config [simp]:
  "maxAttempts (bf_step c p) = maxAttempts p" "lockoutDuration (bf_step c p) = lockoutDuration p"
  by (cases c; auto simp: bf_defs)+

lemma bf_invD: "bf_inv p \<Longrightarrow> gget (bfFailures p) ip = Some r \<Longrightarrow> record_ok (maxAttempts p) ip r"
  by (simp add: bf_inv_def)

lemma bf_inv_put:
  "bf_inv p \<Longrightarrow> record_ok (maxAttempts p) ip r \<Longrightarrow> bfFailures q = gput (bfFailures p) ip r \<Longrightarrow>
     maxAttempts q = maxAttempts p \<Longrightarrow> bf_inv q"
  by (auto simp: bf_inv_def gomap_simps)

text \<open>The three outcomes of a failed attempt: already locked, locking now, counted only.\<close>

lemma BF_RecordFailure_locked:
  "gget (bfFailures p) ip = Some r \<Longrightarrow> now < LockedUntil r \<Longrightarrow>
     BF_RecordFailure now now' ip p = ((True, Sub (LockedUntil r) now'), p)"
  by (simp add: bf_defs record_for_def gotime_simps gput_same)

lemma BF_RecordFailure_unlocked:
  assumes "\<not> now < LockedUntil (record_for now ip p)"
  shows "\<exists>q. BF_RecordFailure now now' ip p =
      (if maxAttempts p \<le> Attempts (record_for now ip p) + 1 then (True, lockoutDuration p)
       else (False, progressive_delay (Attempts (record_for now ip p) + 1)), q) \<and>
    maxAttempts q = maxAttempts p \<and> lockoutDuration q = lockoutDuration p \<and>
    bfFailures q = gput (bfFailures p) ip
      ((record_for now ip p)\<lparr>Attempts := Attempts (record_for now ip p) + 1, LastAttempt := now,
         LockedUntil := (if maxAttempts p \<le> Attempts (record_for now ip p) + 1
                         then now + lockoutDuration p else LockedUntil (record_for now ip p))\<rparr>)"
  using assms by (auto simp: bf_defs gotime_simps gput_gput)

lemma record_for_ok:
  "bf_inv p \<Longrightarrow> IP (record_for now ip p) = ip \<and> 0 \<le> Attempts (record_for now ip p)
     \<and> (gget (bfFailures p) ip \<noteq> None \<longrightarrow> record_ok (maxAttempts p) ip (record_for now ip p))
     \<and> (gget (bfFailures p) ip = None \<longrightarrow> Attempts (record_for now ip p) = 0 \<and> LockedUntil (record_for now ip p) = zeroTime)"
  by (cases "gget (bfFailures p) ip") (auto simp: record_for_def record_ok_def dest: bf_invD)

lemma bf_step_inv:
  assumes "bf_inv p" and "bf_time_ok c" and "0 \<le> lockoutDuration p" and "1 \<le> maxAttempts p"
  shows "bf_inv (bf_step c p)"
proof (cases c)
  case (BFail now now' ip)
  let ?r = "record_for now ip p"
  have z: "now + lockoutDuration p \<noteq> zeroTime" using assms(2,3) BFail zeroTime_neg by simp
  note r = record_for_ok [OF assms(1), of now ip]
  show ?thesis
  proof (cases "now < LockedUntil ?r")
    case True
    then have "gget (bfFailures p) ip = Some ?r"
      using assms(2) BFail zeroTime_neg [of now] by (auto simp: record_for_def split: option.splits)
    then show ?thesis using BF_RecordFailure_locked True assms(1) BFail by simp
  next
    case False
    then obtain q where q: "bf_step c p = q" "maxAttempts q = maxAttempts p"
      "bfFailures q = gput (bfFailures p) ip (?r\<lparr>Attempts := Attempts ?r + 1, LastAttempt := now,
         LockedUntil := (if maxAttempts p \<le> Attempts ?r + 1
                         then now + lockoutDuration p else LockedUntil ?r)\<rparr>)"
      using BF_RecordFailure_unlocked [OF False, of now'] BFail by auto
    show ?thesis unfolding q(1)
      by (rule bf_inv_put [OF assms(1) _ q(3,2)])
        (use r z assms(4) in \<open>cases "gget (bfFailures p) ip"; auto simp: record_ok_def IsZero_def\<close>)
  qed
qed (use assms(1) in \<open>auto simp: bf_inv_def bf_defs gomap_simps split: if_splits option.splits\<close>)


text \<open>
  Whatever attempts, logins and cleanups happen, in any order and at any times from 1970
  on, the failure records stay well-formed: distinct addresses, each record filed under its own
  address with at least one attempt, and a lockout instant set exactly when the attempts have
  reached the limit.
\<close>

theorem bf_run_inv:
  assumes "0 \<le> lockoutDuration (NewBruteForceProtector cfg)" and "list_all bf_time_ok cs"
  shows "bf_inv (fold bf_step cs (NewBruteForceProtector cfg))"
proof -
  have new: "bf_inv (NewBruteForceProtector cfg)" "1 \<le> maxAttempts (NewBruteForceProtector cfg)"
    by (simp_all add: NewBruteForceProtector_def bf_inv_def Let_def)
  have "bf_inv p \<Longrightarrow> 0 \<le> lockoutDuration p \<Longrightarrow> 1 \<le> maxAttempts p \<Longrightarrow> bf_inv (fold bf_step cs p)" for p
    using assms(2)
  proof (induction cs arbitrary: p)
    case (Cons c cs)
    then show ?case using bf_step_inv [of p c] by simp
  qed simp
  then show ?thesis using new assms(1) by blast
qed

theorem bf_run_inv_witness:
  "bf_inv (fold bf_step [BFail 10 10 ''a'', BFail 20 20 ''b'', BSucceed ''a'', BClean 30]
     (NewBruteForceProtector DefaultBruteForceConfig))"
  by (rule bf_run_inv) (simp_all add: NewBruteForceProtector_def DefaultBruteForceConfig_def i64_def)

section \<open>Lockout\<close>

text \<open>The failed attempts of one address at the instants \<open>ts\<close>.\<close>

definition fails :: "time list \<Rightarrow> string \<Rightarrow> BruteForceProtector \<Rightarrow> BruteForceProtector" where
  "fails ts ip p = fold (\<lambda>t p. snd (BF_RecordFailure t t ip p)) ts p"

lemma fails_config [simp]:
  "maxAttempts (fails ts ip p) = maxAttempts p" "lockoutDuration (fails ts ip p) = lockoutDuration p"
  unfolding fails_def by (induction ts rule: rev_induct; auto simp: bf_defs)+

lemma fails_snoc: "fails (ts @ [t]) ip p = snd (BF_RecordFailure t t ip (fails ts ip p))"
  by (simp add: fails_def)

lemma fails_count:
  assumes "gget (bfFailures p) ip = None" and "\<forall>t\<in>set ts. 0 \<le> t" and "int (length ts) < maxAttempts p"
  shows "Attempts (record_for now ip (fails ts ip p)) = int (length ts) \<and>
    LockedUntil (record_for now ip (fails ts ip p)) = zeroTime \<and>
    (gget (bfFailures (fails ts ip p)) ip = None \<longleftrightarrow> ts = [])"
  using assms
proof (induction ts arbitrary: now rule: rev_induct)
  case Nil
  then show ?case by (simp add: fails_def record_for_def)
next
  case (snoc t ts)
  let ?p = "fails ts ip p"
  have IH: "Attempts (record_for t ip ?p) = int (length ts)" "LockedUntil (record_for t ip ?p) = zeroTime"
    using snoc.IH [of t] snoc.prems by auto
  have "\<not> t < LockedUntil (record_for t ip ?p)" using IH(2) snoc.prems zeroTime_neg [of t] by auto
  then obtain q where "BF_RecordFailure t t ip ?p = ((False, progressive_delay (Attempts (record_for t ip ?p) + 1)), q)"
      "bfFailures q = gput (bfFailures ?p) ip ((record_for t ip ?p)\<lparr>Attempts := int (length ts) + 1, LastAttempt := t, LockedUntil := zeroTime\<rparr>)"
    using BF_RecordFailure_unlocked [of t ip ?p t] IH snoc.prems(3) by auto
  then show ?case using IH by (simp add: fails_snoc record_for_def [of now] gomap_simps)
qed

lemma lockout_free:
  assumes "gget (bfFailures p) ip = None" and "\<forall>t\<in>set ts. 0 \<le> t" and "0 \<le> now" and "int (length ts) < maxAttempts p"
  shows "\<not> IsLocked now ip (fails ts ip p)"
  using fails_count [OF assms(1,2,4), of now] zeroTime_neg [OF assms(3)]
  by (auto simp: IsLocked_def record_for_def gotime_simps split: option.splits)

lemma fails_lock:
  assumes "gget (bfFailures p) ip = None" and "\<forall>t\<in>set ts. 0 \<le> t" and "0 \<le> t" and "int (length ts) + 1 = maxAttempts p"
  shows "IsLocked now ip (fails (ts @ [t]) ip p) = (now < t + lockoutDuration p)"
proof -
  let ?p = "fails ts ip p"
  have r: "Attempts (record_for u ip ?p) = int (length ts)" "LockedUntil (record_for u ip ?p) = zeroTime" for u
    using fails_count [OF assms(1,2)] assms(4) by auto
  have "\<not> t < LockedUntil (record_for t ip ?p)" using r(2) assms(3) zeroTime_neg [of t] by auto
  then obtain q where "BF_RecordFailure t t ip ?p = ((True, lockoutDuration p), q)"
      "bfFailures q = gput (bfFailures ?p) ip ((record_for t ip ?p)\<lparr>Attempts := int (length ts) + 1,
         LastAttempt := t, LockedUntil := t + lockoutDuration p\<rparr>)"
    using BF_RecordFailure_unlocked [of t ip ?p t] r assms(4) by auto
  then show ?thesis by (simp add: fails_snoc IsLocked_def gomap_simps gotime_simps)
qed

lemma fails_other: "a \<noteq> ip \<Longrightarrow> gget (bfFailures (fails ts ip p)) a = gget (bfFailures p) a"
  by (induction ts rule: rev_induct) (auto simp: fails_def bf_defs gomap_simps)

text \<open>
  C21. An address is locked out exactly at its \<open>maxAttempts\<close>-th failed attempt: before that no
  number of failures locks it, and from then on it is locked until \<open>lockoutDuration\<close> has
  passed since that attempt.
\<close>

theorem lockout_at_max_attempts:
  assumes "gget (bfFailures p) ip = None" and "\<forall>t\<in>set ts. 0 \<le> t" and "0 \<le> t" and "0 \<le> now"
    and "int (length ts) < maxAttempts p"
  shows "\<not> IsLocked now ip (fails ts ip p)
    \<and> (int (length ts) + 1 = maxAttempts p \<longrightarrow>
         IsLocked now ip (fails (ts @ [t]) ip p) = (now < t + lockoutDuration p))"
  using lockout_free [OF assms(1,2,4,5)] fails_lock [OF assms(1,2,3)] by blast

theorem lockout_at_max_attempts_witness:
  "\<not> IsLocked 5 ''10.0.0.1'' (fails [1, 2] ''10.0.0.1'' (NewBruteForceProtector \<lparr>MaxAttempts = 3, LockoutMinutes = 1, CleanupMinutes = 1\<rparr>))
   \<and> IsLocked 5 ''10.0.0.1'' (fails ([1, 2] @ [4]) ''10.0.0.1'' (NewBruteForceProtector \<lparr>MaxAttempts = 3, LockoutMinutes = 1, CleanupMinutes = 1\<rparr>))"
proof -
  define p where "p = NewBruteForceProtector \<lparr>MaxAttempts = 3, LockoutMinutes = 1, CleanupMinutes = 1\<rparr>"
  have p: "bfFailures p = []" "maxAttempts p = 3" "lockoutDuration p = Minute"
    by (simp_all add: p_def NewBruteForceProtector_def i64_def)
  show ?thesis
    using lockout_at_max_attempts [of p "''10.0.0.1''" "[1, 2]" 4 5] p by (simp flip: p_def)
qed

text \<open>
  The lockout does not clear the count, and only the cleanup drops an expired record: if an
  address fails again after its lockout has run out but before the next cleanup, that single
  failure locks it again for the full duration.
\<close>

theorem relocks_after_one_failure:
  assumes "bf_inv p" and "gget (bfFailures p) ip = Some r" and "maxAttempts p \<le> Attempts r"
    and "LockedUntil r \<le> now"
  shows "fst (BF_RecordFailure now now' ip p) = (True, lockoutDuration p)
    \<and> (\<forall>u. IsLocked u ip (snd (BF_RecordFailure now now' ip p)) = (u < now + lockoutDuration p))"
proof -
  have r: "record_for now ip p = r" using assms(2) by (simp add: record_for_def)
  obtain q where "BF_RecordFailure now now' ip p = ((True, lockoutDuration p), q)"
    "bfFailures q = gput (bfFailures p) ip (r\<lparr>Attempts := Attempts r + 1, LastAttempt := now,
       LockedUntil := now + lockoutDuration p\<rparr>)"
    using BF_RecordFailure_unlocked [of now ip p now'] assms(3,4) r by auto
  then show ?thesis by (simp add: IsLocked_def gomap_simps gotime_simps)
qed

theorem relocks_after_one_failure_witness:
  "fst (BF_RecordFailure 100 100 ''a'' (fails [1] ''a'' \<lparr>bfFailures = [], maxAttempts = 1, lockoutDuration = 50,
     cleanupInterval = 500, onLockout = False, onUnlock = False, lockoutCalls = [], unlockCalls = []\<rparr>)) = (True, 50)"
proof -
  define p where "p = fails [1] ''a'' \<lparr>bfFailures = [], maxAttempts = 1, lockoutDuration = 50,
     cleanupInterval = 500, onLockout = False, onUnlock = False, lockoutCalls = [], unlockCalls = []\<rparr>"
  have f: "bfFailures p = [(''a'', \<lparr>IP = ''a'', Attempts = 1, FirstAttempt = 1, LastAttempt = 1, LockedUntil = 51\<rparr>)]"
    by (simp add: p_def fails_def bf_defs record_for_def gotime_simps zeroTime_def gput_def)
  have m: "maxAttempts p = 1" "lockoutDuration p = 50" by (simp_all add: p_def)
  have "bf_inv p" by (auto simp: bf_inv_def f m gget_Cons gwf_def record_ok_def IsZero_def zeroTime_def split: if_splits)
  then show ?thesis using relocks_after_one_failure [of p "''a''" _ 100 100] f m
    by (simp add: gget_Cons p_def)
qed

section \<open>Delays\<close>

lemma i64_multiple: "2 ^ 64 dvd x \<Longrightarrow> i64 x = 0"
proof -
  assume "2 ^ 64 dvd x"
  then obtain k where "x = 2 ^ 64 * k" by (rule dvdE)
  then show ?thesis by (simp add: i64_def mult.commute)
qed

lemma progressive_delay_small:
  assumes "1 \<le> n" and "n \<le> 34"
  shows "progressive_delay n = min (2 ^ nat (n - 1)) 16 * Second"
proof -
  have le: "(2::int) ^ nat (n - 1) \<le> 2 ^ 33" using assms by (intro power_increasing) auto
  have small: "0 \<le> x \<Longrightarrow> x \<le> 2 ^ 33 * Second \<Longrightarrow> i64 x = x" for x
    by (rule i64_id) simp_all
  have "i64 (2 ^ nat (n - 1)) = 2 ^ nat (n - 1)"
    by (rule small) (use le in simp_all)
  moreover have "i64 (2 ^ nat (n - 1) * Second) = 2 ^ nat (n - 1) * Second"
    by (rule small) (use le in simp_all)
  ultimately have "i64 (2 ^ nat (n - 1)) = 2 ^ nat (n - 1)"
    "i64 (2 ^ nat (n - 1) * Second) = 2 ^ nat (n - 1) * Second" by simp_all
  then show ?thesis by (auto simp: progressive_delay_def Let_def min_def)
qed

lemma progressive_delay_large:
  assumes "56 \<le> n"
  shows "progressive_delay n = 0"
proof -
  let ?m = "nat (n - 1)"
  have "i64 (i64 (2 ^ ?m) * Second) = 0"
  proof (cases "64 \<le> ?m")
    case True
    then have "i64 (2 ^ ?m) = 0" by (intro i64_multiple le_imp_power_dvd)
    then show ?thesis by (simp add: i64_def)
  next
    case False
    then have "?m = 55 \<or> ?m = 56 \<or> ?m = 57 \<or> ?m = 58 \<or> ?m = 59 \<or> ?m = 60 \<or> ?m = 61 \<or> ?m = 62 \<or> ?m = 63"
      using assms by arith
    then show ?thesis by (auto simp: i64_def)
  qed
  then show ?thesis by (simp add: progressive_delay_def)
qed

text \<open>
  The delay reported for the \<open>n\<close>-th failed attempt is \<open>2 ^ (n - 1)\<close> seconds capped at 16
  seconds, for up to 34 attempts. With a configured limit above 35 the 64-bit product overflows
  before the cap is applied: the 35th attempt is given a negative delay, and from the 56th on
  there is no delay at all.
\<close>

theorem progressive_delay_spec:
  "(1 \<le> n \<and> n \<le> 34 \<longrightarrow> progressive_delay n = min (2 ^ nat (n - 1)) 16 * Second)
   \<and> progressive_delay 35 < 0 \<and> (56 \<le> n \<longrightarrow> progressive_delay n = 0)"
  using progressive_delay_small progressive_delay_large
  by (auto simp: progressive_delay_def i64_def)

theorem progressive_delay_spec_witness:
  "progressive_delay 4 = 8 * Second \<and> progressive_delay 60 = 0"
  using progressive_delay_spec [of 4] progressive_delay_spec [of 60] by simp

section \<open>Cleanup and isolation\<close>

text \<open>
  The cleanup never lifts a running lockout and never changes whether an address counts as
  locked; a record below the limit is kept for 24 hours after its last attempt.
\<close>

theorem cleanup_keeps_lockouts:
  assumes "bf_inv p" and "0 \<le> now"
  shows "IsLocked now ip (cleanup now p) = IsLocked now ip p
    \<and> (\<forall>r. gget (bfFailures p) ip = Some r \<and> Attempts r < maxAttempts p \<and> now - LastAttempt r \<le> 24 * Hour
          \<longrightarrow> gget (bfFailures (cleanup now p)) ip = Some r)"
proof (intro conjI allI impI)
  have wf: "gwf (bfFailures p)" using assms by (simp add: bf_inv_def)
  note get = gget_gfilter [OF wf]
  show "IsLocked now ip (cleanup now p) = IsLocked now ip p"
  proof (cases "gget (bfFailures p) ip")
    case (Some r)
    then show ?thesis
      using zeroTime_neg [OF assms(2)]
      by (auto simp: IsLocked_def cleanup_def get stale_def lockout_over_def IsZero_def After_def)
  qed (simp add: IsLocked_def cleanup_def get)
  fix r
  assume r: "gget (bfFailures p) ip = Some r \<and> Attempts r < maxAttempts p \<and> now - LastAttempt r \<le> 24 * Hour"
  then have "LockedUntil r = zeroTime" using bf_invD [OF assms(1)] by (auto simp: record_ok_def IsZero_def)
  moreover have "\<not> Sub now (LastAttempt r) > 24 * Hour" using r by (auto simp: Sub_def)
  ultimately show "gget (bfFailures (cleanup now p)) ip = Some r"
    using r by (simp add: cleanup_def get stale_def lockout_over_def IsZero_def)
qed


theorem cleanup_keeps_lockouts_witness:
  "IsLocked 40 ''a'' (cleanup 40 (fails [1] ''a'' (NewBruteForceProtector \<lparr>MaxAttempts = 1, LockoutMinutes = 1, CleanupMinutes = 1\<rparr>)))"
proof -
  define p where "p = fails [1] ''a'' (NewBruteForceProtector \<lparr>MaxAttempts = 1, LockoutMinutes = 1, CleanupMinutes = 1\<rparr>)"
  have f: "bfFailures p = [(''a'', \<lparr>IP = ''a'', Attempts = 1, FirstAttempt = 1, LastAttempt = 1, LockedUntil = 1 + Minute\<rparr>)]"
    by (simp add: p_def fails_def bf_defs record_for_def gotime_simps zeroTime_def gput_def NewBruteForceProtector_def i64_def)
  have m: "maxAttempts p = 1" by (simp add: p_def NewBruteForceProtector_def)
  have inv: "bf_inv p" by (auto simp: bf_inv_def f m gget_Cons gwf_def record_ok_def IsZero_def zeroTime_def split: if_splits)
  have "IsLocked 40 ''a'' p" by (simp add: IsLocked_def f gget_Cons gotime_simps)
  then show ?thesis using cleanup_keeps_lockouts [OF inv, of 40 "''a''"] by (simp add: p_def)
qed

text \<open>
  Failed attempts and logins of one address change nothing about another: its attempts,
  lockout and remaining lockout time are what they were.
\<close>

theorem addresses_are_independent:
  assumes "other \<noteq> ip"
  shows "gget (bfFailures (snd (BF_RecordFailure now now' ip p))) other = gget (bfFailures p) other
    \<and> gget (bfFailures (BF_RecordSuccess ip p)) other = gget (bfFailures p) other
    \<and> GetAttempts ip (BF_RecordSuccess ip p) = 0 \<and> \<not> IsLocked now ip (BF_RecordSuccess ip p)"
  using assms by (auto simp: bf_defs gomap_simps GetAttempts_def IsLocked_def)

theorem addresses_are_independent_witness:
  "gget (bfFailures (snd (BF_RecordFailure 1 1 ''a'' (NewBruteForceProtector DefaultBruteForceConfig)))) ''b'' = None"
  using addresses_are_independent [of "''b''" "''a''" 1 1 "NewBruteForceProtector DefaultBruteForceConfig"]
  by (simp add: NewBruteForceProtector_def Let_def)

end
