(* ===== verification/PasswordPolicy.thy ===== *)
theory PasswordPolicy
  imports Strings
begin

text \<open>
  Password rules, \<^verbatim>\<open>internal/api/auth/password_policy.go\<close>. A password is its bytes; the classes
  of its characters come from Go's Unicode tables and are the parameter \<open>classes\<close>
  (\<open>ascii_classes\<close> is the part of it that ASCII text needs).
\<close>

section \<open>Policies\<close>

record PasswordPolicy =
  MinLength :: int
  MaxLength :: int
  RequireUpper :: bool
  RequireLower :: bool
  RequireDigit :: bool
  RequireSpecial :: bool
  CheckCommon :: bool

definition DefaultPasswordPolicy :: PasswordPolicy where
  "DefaultPasswordPolicy = \<lparr>MinLength = 8, MaxLength = 128, RequireUpper = True, RequireLower = True,
     RequireDigit = True, RequireSpecial = False, CheckCommon = True\<rparr>"

definition StrictPasswordPolicy :: PasswordPolicy where
  "StrictPasswordPolicy = \<lparr>MinLength = 12, MaxLength = 128, RequireUpper = True, RequireLower = True,
     RequireDigit = True, RequireSpecial = True, CheckCommon = True\<rparr>"

section \<open>Characters\<close>

datatype char_class = Upper | Lower | Digit | Special | OtherChar

type_synonym classifier = "string \<Rightarrow> char_class list"

definition ascii_class :: "char \<Rightarrow> char_class" where
  "ascii_class c =
     (let n = of_char c :: nat
      in if 65 \<le> n \<and> n \<le> 90 then Upper else if 97 \<le> n \<and> n \<le> 122 then Lower
         else if 48 \<le> n \<and> n \<le> 57 then Digit
         else if 33 \<le> n \<and> n \<le> 126 then Special else OtherChar)"

definition ascii_classes :: classifier where "ascii_classes s = map ascii_class s"

text \<open>Runs of one byte, counted from the left.\<close>

fun repeats_from :: "int \<Rightarrow> int \<Rightarrow> char \<Rightarrow> string \<Rightarrow> bool" where
  "repeats_from maxRepeat count prev [] = False"
| "repeats_from maxRepeat count prev (c # s) =
     (if c = prev
      then (if count + 1 \<ge> maxRepeat then True else repeats_from maxRepeat (count + 1) c s)
      else repeats_from maxRepeat 1 c s)"

definition hasRepeatedChars :: "string \<Rightarrow> int \<Rightarrow> bool" where
  "hasRepeatedChars password maxRepeat =
     (if int (length password) < maxRepeat then False
      else case password of [] \<Rightarrow> False | c # s \<Rightarrow> repeats_from maxRepeat 1 c s)"

text \<open>The next or the previous byte, on eight bits.\<close>

definition neighbours :: "char \<Rightarrow> char \<Rightarrow> bool" where
  "neighbours a b \<longleftrightarrow> (of_char b :: nat) = (of_char a + 1) mod 256 \<or> (of_char b :: nat) = (of_char a + 255) mod 256"

fun seq_run :: "char \<Rightarrow> string \<Rightarrow> nat \<Rightarrow> nat" where
  "seq_run a s 0 = 0"
| "seq_run a [] (Suc n) = 0"
| "seq_run a (b # s) (Suc n) = (if neighbours a b then Suc (seq_run b s n) else 0)"

definition hasSequentialChars :: "string \<Rightarrow> nat \<Rightarrow> bool" where
  "hasSequentialChars password maxSeq =
     (if length password < maxSeq then False
      else list_ex (\<lambda>i. case drop i password of [] \<Rightarrow> maxSeq \<le> 1 | a # s \<Rightarrow> 1 + seq_run a s (maxSeq - 1) \<ge> maxSeq)
             [0..<length password - maxSeq + 1])"

definition commonPasswords :: "string list" where
  "commonPasswords = [
    ''123456'', ''password'', ''12345678'', ''qwerty'', ''123456789'', ''12345'', ''1234'', ''111111'', ''1234567'', ''dragon'',
    ''123123'', ''baseball'', ''iloveyou'', ''trustno1'', ''sunshine'', ''master'', ''welcome'', ''shadow'', ''ashley'',
    ''football'', ''jesus'', ''michael'', ''ninja'', ''mustang'', ''password1'', ''password123'', ''letmein'', ''abc123'',
    ''monkey'', ''master123'', ''admin'', ''admin123'', ''root'', ''root123'', ''pass'', ''pass123'', ''test'', ''test123'',
    ''guest'', ''changeme'', ''default'', ''welcome1'', ''welcome123'', ''letmein123'', ''qwerty123'', ''hello'', ''hello123'',
    ''secret'', ''secret123'', ''access'', ''access123'', ''login'', ''login123'', ''passw0rd'', ''p@ssw0rd'', ''p@ssword'',
    ''password!'', ''Password1'', ''Password123'', ''Welcome1'', ''Summer2024'', ''Winter2024'', ''Spring2024'', ''Fall2024'',
    ''January'', ''February'', ''March'', ''April'', ''May'', ''June'', ''July'', ''August'', ''September'', ''October'',
    ''November'', ''December'']"

definition TrimRightDigits :: "string \<Rightarrow> string" where
  "TrimRightDigits s = rev (dropWhile is_digit (rev s))"

definition IsCommonPassword :: "string \<Rightarrow> bool" where
  "IsCommonPassword password =
     (if ToLower password \<in> set commonPasswords then True
      else let base = TrimRightDigits password in base \<noteq> [] \<and> ToLower base \<in> set commonPasswords)"

section \<open>Validation and strength\<close>

definition Validate :: "classifier \<Rightarrow> PasswordPolicy \<Rightarrow> string \<Rightarrow> bool \<times> string list" where
  "Validate classes p password =
     (let n = int (length password);
          i1 = (if n < MinLength p then [''password must be at least 8 characters''] else [])
             @ (if MaxLength p > 0 \<and> n > MaxLength p then [''password must be no more than 128 characters''] else [])
      in if n = 0 then (False, i1 @ [''password cannot be empty''])
         else
           let cs = classes password;
               issues = i1
                 @ (if RequireUpper p \<and> Upper \<notin> set cs then [''password must contain at least one uppercase letter''] else [])
                 @ (if RequireLower p \<and> Lower \<notin> set cs then [''password must contain at least one lowercase letter''] else [])
                 @ (if RequireDigit p \<and> Digit \<notin> set cs then [''password must contain at least one digit''] else [])
                 @ (if RequireSpecial p \<and> Special \<notin> set cs then [''password must contain at least one special character''] else [])
                 @ (if CheckCommon p \<and> IsCommonPassword password then [''password is too common, please choose a stronger password''] else [])
                 @ (if hasRepeatedChars password 4 then [''password contains too many repeated characters''] else [])
                 @ (if hasSequentialChars password 4 then [''password contains too many sequential characters''] else [])
           in (issues = [], issues))"

definition length_score :: "int \<Rightarrow> int" where
  "length_score n = (if n \<ge> 16 then 30 else if n \<ge> 12 then 25 else if n \<ge> 10 then 20 else if n \<ge> 8 then 15
     else if n \<ge> 6 then 10 else 5)"

definition variety_score :: "char_class list \<Rightarrow> int" where
  "variety_score cs =
     (let u = Upper \<in> set cs; l = Lower \<in> set cs; d = Digit \<in> set cs; s = Special \<in> set cs;
          typeCount = (if u then 1 else 0) + (if l then 1 else 0) + (if d then 1 else 0) + (if s then 1 else 0) :: int
      in (if u then 15 else 0) + (if l then 15 else 0) + (if d then 15 else 0) + (if s then 20 else 0)
         + (if typeCount = 4 then 5 else if typeCount = 3 then 3 else 0))"

definition PasswordStrength :: "classifier \<Rightarrow> string \<Rightarrow> int" where
  "PasswordStrength classes password =
     (if password = [] then 0
      else let s0 = length_score (int (length password)) + variety_score (classes password);
               s1 = (if IsCommonPassword password then s0 div 4 else s0);
               s2 = (if hasRepeatedChars password 3 then s1 - 10 else s1);
               s3 = (if hasSequentialChars password 4 then s2 - 10 else s2)
           in (if (if s3 < 0 then 0 else s3) > 100 then 100 else if s3 < 0 then 0 else s3))"

definition StrengthDescription :: "int \<Rightarrow> string" where
  "StrengthDescription score = (if score \<ge> 80 then ''strong'' else if score \<ge> 60 then ''good''
     else if score \<ge> 40 then ''fair'' else if score \<ge> 20 then ''weak'' else ''very weak'')"

section \<open>What the checks find\<close>

text \<open>A run of \<open>n\<close> equal bytes, somewhere.\<close>

definition equal_run :: "nat \<Rightarrow> string \<Rightarrow> bool" where
  "equal_run n s \<longleftrightarrow> (\<exists>u c v. s = u @ replicate n c @ v)"

lemma equal_run_Cons: "0 < n \<Longrightarrow> equal_run n (c # s) \<longleftrightarrow> (\<exists>v. c # s = replicate n c @ v) \<or> equal_run n s"
proof
  assume n: "0 < n" and "equal_run n (c # s)"
  then obtain u d v where e: "c # s = u @ replicate n d @ v" by (auto simp: equal_run_def)
  show "(\<exists>v. c # s = replicate n c @ v) \<or> equal_run n s"
  proof (cases u)
    case Nil
    then have "d = c" using e n by (cases n) auto
    then show ?thesis using e Nil by auto
  next
    case (Cons a u')
    then show ?thesis using e by (auto simp: equal_run_def)
  qed
next
  assume "0 < n" and "(\<exists>v. c # s = replicate n c @ v) \<or> equal_run n s"
  then show "equal_run n (c # s)"
    unfolding equal_run_def by (metis append_Cons append_Nil)
qed

lemma repeats_from_iff:
  assumes "1 \<le> k" and "k < n"
  shows "repeats_from (int n) (int k) c s \<longleftrightarrow> (\<exists>v. s = replicate (n - k) c @ v) \<or> equal_run n s"
  using assms
proof (induction s arbitrary: k c)
  case Nil
  then show ?case by (auto simp: equal_run_def)
next
  case (Cons d s)
  show ?case
  proof (cases "d = c")
    case True
    show ?thesis
    proof (cases "n \<le> k + 1")
      case True
      then have "n - k = 1" using Cons.prems by simp
      then show ?thesis using True \<open>d = c\<close> by simp
    next
      case False
      have "n - k = Suc (n - Suc k)" using Cons.prems by simp
      then have e: "(\<exists>v. d # s = replicate (n - k) c @ v) \<longleftrightarrow> (\<exists>v. s = replicate (n - Suc k) c @ v)" using \<open>d = c\<close> by simp
      have "equal_run n (d # s) \<longleftrightarrow> (\<exists>v. d # s = replicate n d @ v) \<or> equal_run n s" using Cons.prems by (simp add: equal_run_Cons)
      moreover have "(\<exists>v. s = replicate (n - Suc k) c @ v)" if "\<exists>v. d # s = replicate n d @ v"
      proof -
        from that obtain v where "d # s = replicate n d @ v" by blast
        moreover have "n = Suc (n - Suc k + k)" using Cons.prems False by simp
        ultimately have "s = replicate (n - Suc k) c @ (replicate k c @ v)"
          using \<open>d = c\<close> by (metis append_assoc append_Cons list.inject replicate_Suc replicate_add)
        then show ?thesis by blast
      qed
      moreover have "repeats_from (int n) (int k) c (d # s) \<longleftrightarrow> repeats_from (int n) (int (Suc k)) c s"
        using False \<open>d = c\<close> by (simp add: add.commute)
      ultimately show ?thesis using Cons.IH [of "Suc k" c] False e by auto
    qed
  next
    case False
    have "\<not> (\<exists>v. d # s = replicate (n - k) c @ v)" using False Cons.prems by (cases "n - k") auto
    moreover have "equal_run n (d # s) \<longleftrightarrow> (\<exists>v. s = replicate (n - 1) d @ v) \<or> equal_run n s"
      using Cons.prems by (cases n) (auto simp: equal_run_Cons)
    moreover have "repeats_from (int n) (int k) c (d # s) \<longleftrightarrow> repeats_from (int n) (int 1) d s" using False by simp
    ultimately show ?thesis using Cons.IH [of 1 d] Cons.prems by auto
  qed
qed

text \<open>
  The check for repeated characters is exact: for a limit \<open>n\<close> of at least two it reports a
  password exactly when some byte stands \<open>n\<close> times in a row.
\<close>

theorem repeated_chars_exact:
  assumes "2 \<le> n"
  shows "hasRepeatedChars s (int n) \<longleftrightarrow> (\<exists>u c v. s = u @ replicate n c @ v)"
proof (cases s)
  case Nil
  then show ?thesis using assms by (auto simp: hasRepeatedChars_def)
next
  case (Cons c t)
  have "equal_run n (c # t) \<longleftrightarrow> repeats_from (int n) (int 1) c t"
    using repeats_from_iff [of 1 n c t] assms by (cases n) (auto simp: equal_run_Cons)
  moreover have "equal_run n (c # t) \<Longrightarrow> n \<le> length (c # t)"
    unfolding equal_run_def by (elim exE) (drule arg_cong [where f = length], simp)
  ultimately show ?thesis using Cons unfolding equal_run_def by (auto simp: hasRepeatedChars_def)
qed

theorem repeated_chars_exact_witness: "hasRepeatedChars ''xaaaay'' 4"
  using repeated_chars_exact [of 4 "''xaaaay''"] by (auto intro: exI [of _ "''x''"] simp: numeral_eq_Suc)

text \<open>A run of neighbouring bytes, somewhere.\<close>

lemma seq_run_le: "seq_run a s n \<le> n"
  by (induction a s n rule: seq_run.induct) auto

lemma seq_run_full: "n \<le> length s \<Longrightarrow> seq_run a s n = n \<longleftrightarrow> (\<forall>i < n. neighbours ((a # s) ! i) (s ! i))"
proof (induction a s n rule: seq_run.induct)
  case (3 a b s n)
  have "seq_run a (b # s) (Suc n) = Suc n \<longleftrightarrow> neighbours a b \<and> seq_run b s n = n" by simp
  also have "\<dots> \<longleftrightarrow> neighbours a b \<and> (\<forall>i < n. neighbours ((b # s) ! i) (s ! i))" using 3 by auto
  also have "\<dots> \<longleftrightarrow> (\<forall>i < Suc n. neighbours ((a # b # s) ! i) ((b # s) ! i))" by (simp add: All_less_Suc2)
  finally show ?case .
qed auto

text \<open>
  The check for sequential characters is exact: it reports a password exactly when
  \<open>n\<close> consecutive bytes each differ by one from the one before. The direction is free at every step,
  so zigzags such as 1212 count as sequences.
\<close>

theorem sequential_chars_exact:
  "hasSequentialChars s (Suc n) \<longleftrightarrow> (\<exists>i. i + n < length s \<and> (\<forall>j < n. neighbours (s ! (i + j)) (s ! (i + j + 1))))"
proof -
  have step: "(case drop i s of [] \<Rightarrow> Suc n \<le> 1 | a # t \<Rightarrow> 1 + seq_run a t (Suc n - 1) \<ge> Suc n)
      \<longleftrightarrow> (\<forall>j < n. neighbours (s ! (i + j)) (s ! (i + j + 1)))" if "i + n < length s" for i
  proof -
    have d: "drop i s = s ! i # drop (Suc i) s" using that by (simp add: Cons_nth_drop_Suc)
    have "Suc n \<le> 1 + seq_run (s ! i) (drop (Suc i) s) n \<longleftrightarrow> seq_run (s ! i) (drop (Suc i) s) n = n"
      using seq_run_le [of "s ! i" "drop (Suc i) s" n] by auto
    also have "\<dots> \<longleftrightarrow> (\<forall>j < n. neighbours ((s ! i # drop (Suc i) s) ! j) (drop (Suc i) s ! j))"
      by (rule seq_run_full) (use that in simp)
    also have "\<dots> \<longleftrightarrow> (\<forall>j < n. neighbours (s ! (i + j)) (s ! (i + j + 1)))"
      unfolding d [symmetric] using that by (intro all_cong imp_cong) simp_all
    finally show ?thesis by (simp add: d)
  qed
  show ?thesis
  proof (cases "length s < Suc n")
    case True
    then show ?thesis by (simp add: hasSequentialChars_def)
  next
    case False
    then have "set [0..<length s - Suc n + 1] = {i. i + n < length s}" by auto
    then show ?thesis using False step by (auto simp: hasSequentialChars_def list_ex_iff)
  qed
qed

theorem sequential_chars_exact_witness: "hasSequentialChars ''ab1212'' 4"
proof -
  have "list_all (\<lambda>j. neighbours (''ab1212'' ! (2 + j)) (''ab1212'' ! (2 + j + 1))) [0..<3]" by code_simp
  then have "\<forall>j < 3. neighbours (''ab1212'' ! (2 + j)) (''ab1212'' ! (2 + j + 1))" unfolding list_all_iff by auto
  moreover have "2 + 3 < length ''ab1212''" by simp
  ultimately have "hasSequentialChars ''ab1212'' (Suc 3)" using sequential_chars_exact [of "''ab1212''" 3] by blast
  then show ?thesis by simp
qed

text \<open>
  A password that the default policy accepts is never too weak: its strength is at least 53
  of 100. The handlers' second check, for a strength below 40, therefore never refuses one.
\<close>

theorem valid_passwords_are_strong:
  assumes "fst (Validate classes DefaultPasswordPolicy password)"
  shows "53 \<le> PasswordStrength classes password \<and> PasswordStrength classes password \<le> 100"
proof -
  let ?cs = "classes password"
  have ne: "password \<noteq> []" using assms by (auto simp: Validate_def Let_def)
  then have p: "8 \<le> length password" "Upper \<in> set ?cs" "Lower \<in> set ?cs" "Digit \<in> set ?cs"
      "\<not> IsCommonPassword password" "\<not> hasSequentialChars password 4"
    using assms by (auto simp: Validate_def DefaultPasswordPolicy_def Let_def split: if_splits)
  have l: "15 \<le> length_score (int (length password)) \<and> length_score (int (length password)) \<le> 30"
    using p(1) by (simp add: length_score_def)
  have v: "48 \<le> variety_score ?cs \<and> variety_score ?cs \<le> 70" using p(2-4) by (simp add: variety_score_def Let_def)
  show ?thesis using l v p(5,6) ne by (auto simp: PasswordStrength_def Let_def)
qed

theorem valid_passwords_are_strong_witness: "53 \<le> PasswordStrength ascii_classes ''Tr0ubador''"
proof -
  have "fst (Validate ascii_classes DefaultPasswordPolicy ''Tr0ubador'')" by code_simp
  from valid_passwords_are_strong [OF this] show ?thesis by simp
qed

text \<open>
  The list of common passwords holds entries that the check never reports: it looks up the
  password in lower case, so these capitalised entries are only found through another entry, and
  exactly the listed ones are not found at all.
\<close>

theorem common_entries_never_found:
  "filter (\<lambda>k. \<not> IsCommonPassword k) commonPasswords =
     [''Summer2024'', ''Winter2024'', ''Spring2024'', ''Fall2024'', ''January'', ''February'', ''March'', ''April'', ''May'',
      ''June'', ''July'', ''August'', ''September'', ''October'', ''November'', ''December'']"
  by code_simp

end
