(* ===== verification/Accounts.thy ===== *)
theory Accounts
  imports BruteForce PasswordPolicy "HOL-Library.Word"
begin

text \<open>
  Accounts and sessions: the login handlers (\<^verbatim>\<open>internal/api/auth.go\<close>), user management
  (\<^verbatim>\<open>users.go\<close>), the audit records (\<^verbatim>\<open>auth/audit.go\<close>), the client address
  (\<^verbatim>\<open>auth/ratelimit.go\<close>) and the middlewares (\<^verbatim>\<open>middleware.go\<close>, \<^verbatim>\<open>router.go\<close>).

  A handler maps a request and the state to a response and the new state. The users table is the
  list of its rows; \<open>accepts\<close> says which statements the database engine executes, every other one
  fails. Hashing, tokens, address parsing and the Unicode tables are third-party code or system
  libraries and form the parameter record \<open>ext\<close>. A handler reads the clock once, as \<open>now\<close>.
\<close>

section \<open>The users table\<close>

record UserRow =
  row_id :: string
  row_username :: string
  row_email :: "string option"
  row_password_hash :: string
  row_role :: string
  row_status :: string
  row_locked_until :: "time option"
  row_last_login :: "time option"
  row_login_attempts :: int
  row_created_at :: time
  row_updated_at :: time
  row_password_changed_at :: "time option"

text \<open>The statements of the handlers, and the columns of the table each of them names.\<close>

datatype stmt =
    CountUsers | ByUsername | ByID | InsertAdmin | ListRows | UsernameExists | InsertUser | ProfileByID
  | UpdateProfile bool bool | NameByID | DeleteRow | UpdatePassword | LockRow | UnlockRow

fun columns :: "stmt \<Rightarrow> string list" where
  "columns CountUsers = []"
| "columns ByUsername = [''id'', ''username'', ''password_hash'', ''role'']"
| "columns ByID = [''id'', ''username'', ''password_hash'', ''role'']"
| "columns InsertAdmin = [''id'', ''username'', ''password_hash'', ''role'', ''created_at'', ''updated_at'']"
| "columns ListRows = [''id'', ''username'', ''email'', ''role'', ''status'', ''created_at'', ''updated_at'', ''last_login'']"
| "columns UsernameExists = [''username'']"
| "columns InsertUser = [''id'', ''username'', ''email'', ''password_hash'', ''role'', ''status'', ''created_at'', ''updated_at'']"
| "columns ProfileByID = [''id'', ''username'', ''email'', ''role'', ''status'', ''created_at'', ''updated_at'', ''last_login'',
     ''login_attempts'', ''password_changed_at'']"
| "columns (UpdateProfile email role) =
     (if email then [''email''] else []) @ (if role then [''role''] else []) @ [''updated_at'', ''id'']"
| "columns NameByID = [''username'', ''id'']"
| "columns DeleteRow = [''id'']"
| "columns UpdatePassword = [''password_hash'', ''updated_at'', ''password_changed_at'', ''id'']"
| "columns LockRow = [''status'', ''locked_until'', ''updated_at'', ''id'']"
| "columns UnlockRow = [''status'', ''locked_until'', ''updated_at'', ''login_attempts'', ''id'']"

text \<open>The columns that the migrations create (\<^verbatim>\<open>20260322120000_init.sql\<close>).\<close>

definition users_columns :: "string list" where
  "users_columns = [''id'', ''username'', ''email'', ''password_hash'', ''display_name'', ''avatar_url'', ''role'',
     ''is_active'', ''last_login'', ''created_at'', ''updated_at'']"

record database =
  rows :: "UserRow list"
  accepts :: "stmt \<Rightarrow> bool"

definition on_rows :: "(UserRow \<Rightarrow> bool) \<Rightarrow> (UserRow \<Rightarrow> UserRow) \<Rightarrow> database \<Rightarrow> database" where
  "on_rows p f db = db\<lparr>rows := map (\<lambda>r. if p r then f r else r) (rows db)\<rparr>"

text \<open>Identifiers, user names and addresses that are set are unique; roles are checked.\<close>

definition insert_row :: "UserRow \<Rightarrow> database \<Rightarrow> database option" where
  "insert_row r db =
     (if list_ex (\<lambda>q. row_id q = row_id r \<or> row_username q = row_username r
           \<or> (row_email r \<noteq> None \<and> row_email q = row_email r)) (rows db)
         \<or> row_role r \<notin> set [''admin'', ''user'', ''viewer'']
      then None else Some (db\<lparr>rows := rows db @ [r]\<rparr>))"

section \<open>Requests, responses and what is outside the program\<close>

record User =
  u_ID :: string
  u_Username :: string
  u_PasswordHash :: string
  u_Role :: string

record 'b request =
  remoteAddr :: string
  header :: "string \<Rightarrow> string"
  body :: "'b option"
  ctxUser :: "User option"

record Claims =
  cl_UserID :: string
  cl_Username :: string
  cl_Role :: string
  ExpiresAt :: time
  IssuedAt :: time
  Subject :: string

record UserProfile =
  up_ID :: string
  up_Username :: string
  up_Email :: string
  up_Role :: string
  up_Status :: string
  up_CreatedAt :: time
  up_UpdatedAt :: time
  up_LastLogin :: time
  up_PasswordHash :: string

datatype resp_body =
    NoBody
  | ErrorText string
  | WeakPassword string
  | RetryIn duration
  | Tokens string string int User
  | AccessToken string
  | Identity string string string
  | Profiles "UserProfile list" int
  | Profile "UserProfile option"
  | Message string
  | LockedMessage string time
  | PasswordReport bool "string list" int string
  | LockStatus BruteForceStatus
  | Refusal string string

type_synonym response = "int \<times> resp_body"

record ext =
  bcrypt_ok :: "string \<Rightarrow> string \<Rightarrow> bool"
  bcrypt_hash :: "string \<Rightarrow> string option"
  sign_token :: "string \<Rightarrow> Claims \<Rightarrow> string option"
  parse_token :: "time \<Rightarrow> string \<Rightarrow> string \<Rightarrow> Claims option"
  parse_ip :: "string \<Rightarrow> string option"
  split_host :: "string \<Rightarrow> string option"
  uclasses :: classifier
  time_string :: "time \<Rightarrow> string"

definition normalizeIP :: "ext \<Rightarrow> string \<Rightarrow> string" where
  "normalizeIP x ip = (case parse_ip x ip of None \<Rightarrow> ip | Some s \<Rightarrow> s)"

definition GetClientIP :: "ext \<Rightarrow> 'b request \<Rightarrow> string" where
  "GetClientIP x r =
     (let xff = TrimSpace (takeWhile (\<lambda>c. c \<noteq> CHR '','') (header r ''X-Forwarded-For'')); xri = header r ''X-Real-IP''
      in if xff \<noteq> [] then normalizeIP x xff
         else if xri \<noteq> [] then normalizeIP x xri
         else case split_host x (remoteAddr r) of None \<Rightarrow> remoteAddr r | Some ip \<Rightarrow> normalizeIP x ip)"

section \<open>Audit records\<close>

record AuditEvent =
  ae_EventType :: string
  ae_IPAddress :: string
  ae_UserAgent :: string
  ae_Username :: string
  ae_UserID :: string
  ae_Success :: bool
  ae_FailureReason :: string
  ae_Metadata :: "(string \<times> string) list"
  ae_Timestamp :: time

definition audit_event :: "string \<Rightarrow> string \<Rightarrow> AuditEvent" where
  "audit_event ty ip = \<lparr>ae_EventType = ty, ae_IPAddress = ip, ae_UserAgent = [], ae_Username = [], ae_UserID = [],
     ae_Success = False, ae_FailureReason = [], ae_Metadata = [], ae_Timestamp = 0\<rparr>"

record AuthHandler =
  db :: database
  jwtSecret :: string
  jwtExpiry :: duration
  bruteForce :: BruteForceProtector
  audit :: "AuditEvent list"
  passwordPolicy :: PasswordPolicy

definition NewAuthHandler :: "database \<Rightarrow> string \<Rightarrow> AuthHandler" where
  "NewAuthHandler d secret = \<lparr>db = d, jwtSecret = secret, jwtExpiry = 24 * Hour,
     bruteForce = OnLockout (NewBruteForceProtector DefaultBruteForceConfig), audit = [],
     passwordPolicy = DefaultPasswordPolicy\<rparr>"

definition Log :: "time \<Rightarrow> AuditEvent \<Rightarrow> AuthHandler \<Rightarrow> AuthHandler" where
  "Log now e h = h\<lparr>audit := audit h @ [e\<lparr>ae_Timestamp := now\<rparr>]\<rparr>"

definition LogLoginSuccess :: "time \<Rightarrow> string \<Rightarrow> string \<Rightarrow> string \<Rightarrow> string \<Rightarrow> AuthHandler \<Rightarrow> AuthHandler" where
  "LogLoginSuccess now ip ua username userID =
     Log now ((audit_event ''login_success'' ip)\<lparr>ae_UserAgent := ua, ae_Username := username, ae_UserID := userID, ae_Success := True\<rparr>)"

definition LogLoginFailure :: "time \<Rightarrow> string \<Rightarrow> string \<Rightarrow> string \<Rightarrow> string \<Rightarrow> AuthHandler \<Rightarrow> AuthHandler" where
  "LogLoginFailure now ip ua username reason =
     Log now ((audit_event ''login_failure'' ip)\<lparr>ae_UserAgent := ua, ae_Username := username, ae_FailureReason := reason\<rparr>)"

definition LogAccountLocked :: "time \<Rightarrow> string \<Rightarrow> string \<Rightarrow> AuthHandler \<Rightarrow> AuthHandler" where
  "LogAccountLocked now ip username =
     Log now ((audit_event ''account_locked'' ip)\<lparr>ae_Username := username, ae_Metadata := [(''reason'', ''brute_force_protection'')]\<rparr>)"

definition LogBruteForceAttempt :: "time \<Rightarrow> string \<Rightarrow> int \<Rightarrow> AuthHandler \<Rightarrow> AuthHandler" where
  "LogBruteForceAttempt now ip attempts =
     Log now ((audit_event ''brute_force_attempt'' ip)\<lparr>ae_Metadata := [(''attempts'', Itoa attempts)]\<rparr>)"

definition LogLogout :: "time \<Rightarrow> string \<Rightarrow> string \<Rightarrow> string \<Rightarrow> string \<Rightarrow> AuthHandler \<Rightarrow> AuthHandler" where
  "LogLogout now ip ua username userID =
     Log now ((audit_event ''logout'' ip)\<lparr>ae_UserAgent := ua, ae_Username := username, ae_UserID := userID, ae_Success := True\<rparr>)"

definition LogTokenRefresh :: "time \<Rightarrow> string \<Rightarrow> string \<Rightarrow> string \<Rightarrow> string \<Rightarrow> AuthHandler \<Rightarrow> AuthHandler" where
  "LogTokenRefresh now ip ua username userID =
     Log now ((audit_event ''token_refresh'' ip)\<lparr>ae_UserAgent := ua, ae_Username := username, ae_UserID := userID, ae_Success := True\<rparr>)"

section \<open>Tokens and identifiers\<close>

definition user_of_row :: "UserRow \<Rightarrow> User" where
  "user_of_row r = \<lparr>u_ID = row_id r, u_Username = row_username r, u_PasswordHash = row_password_hash r, u_Role = row_role r\<rparr>"

text \<open>\<open>Inl ()\<close>: the database failed.\<close>

definition getUserByUsername :: "string \<Rightarrow> AuthHandler \<Rightarrow> unit + User option" where
  "getUserByUsername username h =
     (if \<not> accepts (db h) ByUsername then Inl ()
      else Inr (map_option user_of_row (find (\<lambda>r. row_username r = username) (rows (db h)))))"

definition getUserByID :: "string \<Rightarrow> AuthHandler \<Rightarrow> unit + User option" where
  "getUserByID i h =
     (if \<not> accepts (db h) ByID then Inl ()
      else Inr (map_option user_of_row (find (\<lambda>r. row_id r = i) (rows (db h)))))"

text \<open>A \<^verbatim>\<open>NumericDate\<close> holds whole seconds.\<close>

definition numeric_date :: "time \<Rightarrow> time" where "numeric_date t = t div Second * Second"

definition generateToken :: "ext \<Rightarrow> time \<Rightarrow> User \<Rightarrow> duration \<Rightarrow> AuthHandler \<Rightarrow> string option" where
  "generateToken x now user expiry h =
     sign_token x (jwtSecret h) \<lparr>cl_UserID = u_ID user, cl_Username = u_Username user, cl_Role = u_Role user,
       ExpiresAt = numeric_date (Add now expiry), IssuedAt = numeric_date now, Subject = u_ID user\<rparr>"

definition validateToken :: "ext \<Rightarrow> time \<Rightarrow> string \<Rightarrow> AuthHandler \<Rightarrow> Claims option" where
  "validateToken x now token h = parse_token x now (jwtSecret h) token"

definition hex_digit :: "nat \<Rightarrow> char" where "hex_digit d = (if d < 10 then char_of (48 + d) else char_of (87 + d))"

definition generateID :: "string \<Rightarrow> string" where
  "generateID input =
     (let h = fold (\<lambda>(i, c) h. h * 31 + of_nat (of_char c) + of_nat i) (enumerate 0 input) (0 :: 64 word)
      in map (\<lambda>k. hex_digit (unat (drop_bit (4 * k) h) mod 16)) (rev [0..<16]))"

section \<open>Login and sessions\<close>

text \<open>\<^verbatim>\<open>Round\<close> to a multiple of \<open>m\<close>, halves away from zero, for durations that are not negative.\<close>

definition Round :: "duration \<Rightarrow> duration \<Rightarrow> duration" where
  "Round d m = (d + m div 2) div m * m"

definition respond_tokens :: "ext \<Rightarrow> time \<Rightarrow> int \<Rightarrow> string \<Rightarrow> int \<Rightarrow> User \<Rightarrow> AuthHandler \<Rightarrow> response" where
  "respond_tokens x now code accessError expiresIn user h =
     (case generateToken x now user (jwtExpiry h) h of
        None \<Rightarrow> (500, ErrorText accessError)
      | Some access \<Rightarrow>
          (case generateToken x now user (7 * 24 * Hour) h of
             None \<Rightarrow> (500, ErrorText ''Failed to generate refresh token'')
           | Some refresh \<Rightarrow> (code, Tokens access refresh expiresIn (user\<lparr>u_PasswordHash := []\<rparr>))))"

text \<open>A refused attempt: counted, logged, delayed.\<close>

definition login_failed :: "time \<Rightarrow> string \<Rightarrow> string \<Rightarrow> string \<Rightarrow> string \<Rightarrow> bool \<Rightarrow> AuthHandler \<Rightarrow> (response \<times> duration) \<times> AuthHandler" where
  "login_failed now ip ua username reason known h =
     (case BF_RecordFailure now now ip (bruteForce h) of
        ((locked, delay), bf) \<Rightarrow>
          (let h1 = LogLoginFailure now ip ua username reason (h\<lparr>bruteForce := bf\<rparr>);
               h2 = (if locked \<and> known then LogAccountLocked now ip username h1 else h1);
               h3 = (if locked then LogBruteForceAttempt now ip (GetAttempts ip bf) h2 else h2)
           in (((401, ErrorText ''Invalid credentials''), if delay > 0 then delay else 0), h3)))"

definition Login :: "ext \<Rightarrow> time \<Rightarrow> (string \<times> string) request \<Rightarrow> AuthHandler \<Rightarrow> (response \<times> duration) \<times> AuthHandler" where
  "Login x now r h =
     (let ip = GetClientIP x r; ua = header r ''User-Agent''
      in if IsLocked now ip (bruteForce h)
         then (((429, RetryIn (Round (GetLockoutRemaining now ip (bruteForce h)) Second)), 0),
               LogLoginFailure now ip ua [] ''account_locked'' h)
         else case body r of
           None \<Rightarrow> (((400, ErrorText ''Invalid request body''), 0), h)
         | Some (username0, password) \<Rightarrow>
             if username0 = [] \<or> password = [] then (((400, ErrorText ''Username and password required''), 0), h)
             else
               let username = TrimSpace username0
               in case getUserByUsername username h of
                    Inl _ \<Rightarrow> (((500, ErrorText ''Database error''), 0), h)
                  | Inr None \<Rightarrow> login_failed now ip ua username ''user_not_found'' False h
                  | Inr (Some user) \<Rightarrow>
                      if \<not> bcrypt_ok x (u_PasswordHash user) password
                      then login_failed now ip ua username ''invalid_password'' True h
                      else
                        let h1 = LogLoginSuccess now ip ua username (u_ID user)
                                   (h\<lparr>bruteForce := BF_RecordSuccess ip (bruteForce h)\<rparr>)
                        in ((respond_tokens x now 200 ''Failed to generate token'' (jwtExpiry h1 div Second) user h1, 0), h1))"

definition Refresh :: "ext \<Rightarrow> time \<Rightarrow> string request \<Rightarrow> AuthHandler \<Rightarrow> response \<times> AuthHandler" where
  "Refresh x now r h =
     (case body r of
        None \<Rightarrow> ((400, ErrorText ''Invalid request''), h)
      | Some refreshToken \<Rightarrow>
          (case validateToken x now refreshToken h of
             None \<Rightarrow> ((401, ErrorText ''Invalid refresh token''), h)
           | Some claims \<Rightarrow>
               (case getUserByID (cl_UserID claims) h of
                  Inr (Some user) \<Rightarrow>
                    (let h1 = LogTokenRefresh now (GetClientIP x r) (header r ''User-Agent'') (u_Username user) (u_ID user) h
                     in case generateToken x now user (jwtExpiry h1) h1 of
                          None \<Rightarrow> ((500, ErrorText ''Failed to generate token''), h1)
                        | Some t \<Rightarrow> ((200, AccessToken t), h1))
                | _ \<Rightarrow> ((401, ErrorText ''User not found''), h))))"

definition Logout :: "ext \<Rightarrow> time \<Rightarrow> 'b request \<Rightarrow> AuthHandler \<Rightarrow> response \<times> AuthHandler" where
  "Logout x now r h =
     ((204, NoBody),
      case ctxUser r of
        None \<Rightarrow> h
      | Some u \<Rightarrow> LogLogout now (GetClientIP x r) (header r ''User-Agent'') (u_Username u) (u_ID u) h)"

text \<open>What \<open>FirstRun\<close> and user management ask of a new password: the reason to refuse it, if any.\<close>

definition password_refusal :: "ext \<Rightarrow> PasswordPolicy \<Rightarrow> string \<Rightarrow> resp_body option" where
  "password_refusal x pol password =
     (case Validate (uclasses x) pol password of
        (False, issues) \<Rightarrow> Some (ErrorText (''Password validation failed: '' @ Join issues ''; ''))
      | (True, _) \<Rightarrow>
          let strength = PasswordStrength (uclasses x) password
          in if strength < 40 then Some (WeakPassword (StrengthDescription strength)) else None)"

definition FirstRun :: "ext \<Rightarrow> time \<Rightarrow> (string \<times> string) request \<Rightarrow> AuthHandler \<Rightarrow> response \<times> AuthHandler" where
  "FirstRun x now r h =
     (if \<not> accepts (db h) CountUsers then ((500, ErrorText ''Database error''), h)
      else if rows (db h) \<noteq> [] then ((400, ErrorText ''System already configured''), h)
      else case body r of
        None \<Rightarrow> ((400, ErrorText ''Invalid request body''), h)
      | Some (username, password) \<Rightarrow>
          if username = [] \<or> password = [] then ((400, ErrorText ''Username and password required''), h)
          else case password_refusal x (passwordPolicy h) password of
            Some why \<Rightarrow> ((400, why), h)
          | None \<Rightarrow>
              (case bcrypt_hash x password of
                 None \<Rightarrow> ((500, ErrorText ''Failed to hash password''), h)
               | Some hash \<Rightarrow>
                   let i = generateID (username @ time_string x now);
                       new = \<lparr>row_id = i, row_username = username, row_email = None, row_password_hash = hash,
                              row_role = ''admin'', row_status = [], row_locked_until = None, row_last_login = None,
                              row_login_attempts = 0, row_created_at = now, row_updated_at = now,
                              row_password_changed_at = None\<rparr>
                   in case (if accepts (db h) InsertAdmin then insert_row new (db h) else None) of
                        None \<Rightarrow> ((500, ErrorText ''Failed to create user''), h)
                      | Some d \<Rightarrow>
                          let h1 = Log now ((audit_event ''first_run'' (GetClientIP x r))\<lparr>ae_UserAgent := header r ''User-Agent'',
                                     ae_Username := username, ae_UserID := i, ae_Success := True\<rparr>) (h\<lparr>db := d\<rparr>)
                          in (respond_tokens x now 201 ''Failed to generate access token'' 0
                                \<lparr>u_ID = i, u_Username = username, u_PasswordHash = [], u_Role = ''admin''\<rparr> h1, h1)))"

definition ValidatePassword :: "ext \<Rightarrow> string request \<Rightarrow> AuthHandler \<Rightarrow> response" where
  "ValidatePassword x r h =
     (case body r of
        None \<Rightarrow> (400, ErrorText ''Invalid request'')
      | Some password \<Rightarrow>
          (case Validate (uclasses x) (passwordPolicy h) password of
             (valid, issues) \<Rightarrow>
               let strength = PasswordStrength (uclasses x) password
               in (200, PasswordReport valid issues strength (StrengthDescription strength))))"

definition GetCurrentUser :: "'b request \<Rightarrow> response" where
  "GetCurrentUser r =
     (case ctxUser r of
        None \<Rightarrow> (401, ErrorText ''Not authenticated'')
      | Some u \<Rightarrow> (200, Identity (u_ID u) (u_Username u) (u_Role u)))"

definition GetBruteForceStatus :: "ext \<Rightarrow> time \<Rightarrow> 'b request \<Rightarrow> AuthHandler \<Rightarrow> response" where
  "GetBruteForceStatus x now r h = (200, LockStatus (GetStatus now (GetClientIP x r) (bruteForce h)))"

definition SetPasswordPolicy :: "PasswordPolicy \<Rightarrow> AuthHandler \<Rightarrow> AuthHandler" where
  "SetPasswordPolicy pol h = h\<lparr>passwordPolicy := pol\<rparr>"

section \<open>Login and lockout\<close>

lemma Log_sel [simp]:
  "db (Log now e h) = db h" "jwtSecret (Log now e h) = jwtSecret h" "jwtExpiry (Log now e h) = jwtExpiry h"
  "bruteForce (Log now e h) = bruteForce h" "passwordPolicy (Log now e h) = passwordPolicy h"
  by (simp_all add: Log_def)

lemmas audit_defs = LogLoginSuccess_def LogLoginFailure_def LogAccountLocked_def LogBruteForceAttempt_def
  LogLogout_def LogTokenRefresh_def

lemma login_failed_state:
  "bruteForce (snd (login_failed now ip ua u why k h)) = snd (BF_RecordFailure now now ip (bruteForce h))
   \<and> db (snd (login_failed now ip ua u why k h)) = db h
   \<and> jwtSecret (snd (login_failed now ip ua u why k h)) = jwtSecret h
   \<and> jwtExpiry (snd (login_failed now ip ua u why k h)) = jwtExpiry h
   \<and> fst (fst (login_failed now ip ua u why k h)) = (401, ErrorText ''Invalid credentials'')"
  by (simp add: login_failed_def audit_defs Let_def split: prod.splits)

text \<open>Whether the table holds an account with this name whose hash matches the password.\<close>

definition known_credentials :: "ext \<Rightarrow> string \<times> string \<Rightarrow> database \<Rightarrow> bool" where
  "known_credentials x c d = (case find (\<lambda>r. row_username r = TrimSpace (fst c)) (rows d) of
     None \<Rightarrow> False | Some r \<Rightarrow> bcrypt_ok x (row_password_hash r) (snd c))"

definition wrong_login :: "ext \<Rightarrow> string \<Rightarrow> database \<Rightarrow> (string \<times> string) request \<Rightarrow> bool" where
  "wrong_login x ip d r = (GetClientIP x r = ip \<and> accepts d ByUsername \<and>
     (case body r of None \<Rightarrow> False | Some c \<Rightarrow> fst c \<noteq> [] \<and> snd c \<noteq> [] \<and> \<not> known_credentials x c d))"

lemma Login_wrong:
  assumes "wrong_login x ip (db h) r" and "\<not> IsLocked now ip (bruteForce h)"
  shows "fst (fst (Login x now r h)) = (401, ErrorText ''Invalid credentials'')
    \<and> bruteForce (snd (Login x now r h)) = snd (BF_RecordFailure now now ip (bruteForce h))
    \<and> db (snd (Login x now r h)) = db h \<and> jwtSecret (snd (Login x now r h)) = jwtSecret h
    \<and> jwtExpiry (snd (Login x now r h)) = jwtExpiry h"
  using assms login_failed_state
  by (auto simp: wrong_login_def known_credentials_def Login_def Let_def getUserByUsername_def user_of_row_def
      split: option.splits)

lemma Login_right:
  assumes "\<not> IsLocked now (GetClientIP x r) (bruteForce h)" and "body r = Some c" and "fst c \<noteq> []" and "snd c \<noteq> []"
    and "accepts (db h) ByUsername" and "known_credentials x c (db h)"
    and "\<And>cl. sign_token x (jwtSecret h) cl \<noteq> None"
  shows "fst (fst (fst (Login x now r h))) = 200"
proof -
  define tok where "tok cl = the (sign_token x (jwtSecret h) cl)" for cl
  have signed: "sign_token x (jwtSecret h) cl = Some (tok cl)" for cl using assms(7) [of cl] by (simp add: tok_def)
  have "fst (respond_tokens x now 200 e n u k) = 200" if "jwtSecret k = jwtSecret h" for e n u k
    using signed that by (simp add: respond_tokens_def generateToken_def)
  then show ?thesis
    using assms(1-6)
    by (auto simp: Login_def Let_def getUserByUsername_def known_credentials_def user_of_row_def audit_defs
        split: option.splits prod.splits)
qed

text \<open>An answer depends on the failures of the client's own address only.\<close>

lemma Login_cong:
  assumes "gget (bfFailures (bruteForce g)) (GetClientIP x r) = gget (bfFailures (bruteForce h)) (GetClientIP x r)"
    and "maxAttempts (bruteForce g) = maxAttempts (bruteForce h)" "lockoutDuration (bruteForce g) = lockoutDuration (bruteForce h)"
    and "db g = db h" "jwtSecret g = jwtSecret h" "jwtExpiry g = jwtExpiry h"
  shows "fst (Login x now r g) = fst (Login x now r h)"
proof -
  let ?ip = "GetClientIP x r"
  have 1: "IsLocked now ?ip (bruteForce g) = IsLocked now ?ip (bruteForce h)"
    "GetLockoutRemaining now ?ip (bruteForce g) = GetLockoutRemaining now ?ip (bruteForce h)"
    using assms(1) by (simp_all add: IsLocked_def GetLockoutRemaining_def)
  have "record_for now ?ip (bruteForce g) = record_for now ?ip (bruteForce h)"
    using assms(1) by (simp add: record_for_def)
  then have 2: "fst (BF_RecordFailure now now ?ip (bruteForce g)) = fst (BF_RecordFailure now now ?ip (bruteForce h))"
    using assms(2,3) by (simp add: bf_defs)
  have 3: "fst (login_failed now ?ip ua u why k g) = fst (login_failed now ?ip ua u why k h)" for ua u why k
    using 2 by (auto simp: login_failed_def Let_def split: prod.splits)
  show ?thesis
    using 1 3 assms(4-6)
    by (auto simp: Login_def Let_def getUserByUsername_def respond_tokens_def generateToken_def audit_defs split: option.splits)
qed

text \<open>It depends on the table through the row of the named account only.\<close>

lemma Login_same_lookup:
  assumes "\<And>u. getUserByUsername u g = getUserByUsername u h"
    and "bruteForce g = bruteForce h" "jwtSecret g = jwtSecret h" "jwtExpiry g = jwtExpiry h"
  shows "fst (Login x now r g) = fst (Login x now r h)"
proof -
  have "fst (login_failed now ip ua u why k g) = fst (login_failed now ip ua u why k h)" for ip ua u why k
    using assms(2) by (auto simp: login_failed_def Let_def split: prod.splits)
  then show ?thesis
    using assms by (auto simp: Login_def Let_def respond_tokens_def generateToken_def audit_defs split: option.splits sum.splits)
qed

definition logins :: "ext \<Rightarrow> (time \<times> (string \<times> string) request) list \<Rightarrow> AuthHandler \<Rightarrow> AuthHandler" where
  "logins x rs h = fold (\<lambda>(t, r) h. snd (Login x t r h)) rs h"

lemma logins_wrong:
  assumes "gget (bfFailures (bruteForce h)) ip = None"
    and "\<forall>(t, r)\<in>set rs. 0 \<le> t \<and> wrong_login x ip (db h) r" and "int (length rs) \<le> maxAttempts (bruteForce h)"
  shows "bruteForce (logins x rs h) = fails (map fst rs) ip (bruteForce h) \<and> db (logins x rs h) = db h
    \<and> jwtSecret (logins x rs h) = jwtSecret h \<and> jwtExpiry (logins x rs h) = jwtExpiry h"
  using assms(2,3)
proof (induction rs rule: rev_induct)
  case Nil
  then show ?case by (simp add: logins_def fails_def)
next
  case (snoc tr rs)
  obtain t r where tr: "tr = (t, r)" by (cases tr)
  have IH: "bruteForce (logins x rs h) = fails (map fst rs) ip (bruteForce h)" "db (logins x rs h) = db h"
    "jwtSecret (logins x rs h) = jwtSecret h" "jwtExpiry (logins x rs h) = jwtExpiry h"
    using snoc by auto
  have "\<not> IsLocked t ip (fails (map fst rs) ip (bruteForce h))"
    by (rule lockout_free [OF assms(1)]) (use snoc.prems tr in \<open>auto simp: case_prod_unfold\<close>)
  then have "\<not> IsLocked t ip (bruteForce (logins x rs h))" using IH by simp
  moreover have "wrong_login x ip (db (logins x rs h)) r" using snoc.prems tr IH by auto
  ultimately show ?case
    using Login_wrong [of x ip "logins x rs h" r t] IH tr
    by (simp add: logins_def fails_def)
qed

text \<open>
  Concrete libraries for the witnesses: a hash is its password after a dollar sign, a token its user's identifier, an address
  itself, and characters are classified as ASCII.
\<close>

definition plain_ext :: ext where
  "plain_ext = \<lparr>bcrypt_ok = (\<lambda>hash p. hash = CHR ''$'' # p), bcrypt_hash = (\<lambda>p. Some (CHR ''$'' # p)), sign_token = (\<lambda>_ c. Some (cl_UserID c)),
     parse_token = (\<lambda>_ _ _. None), parse_ip = Some, split_host = Some, uclasses = ascii_classes, time_string = (\<lambda>_. ''now'')\<rparr>"

definition plain_row :: "string \<Rightarrow> string \<Rightarrow> string \<Rightarrow> string \<Rightarrow> UserRow" where
  "plain_row i u hash role = \<lparr>row_id = i, row_username = u, row_email = None, row_password_hash = hash, row_role = role,
     row_status = ''active'', row_locked_until = None, row_last_login = None, row_login_attempts = 0,
     row_created_at = 0, row_updated_at = 0, row_password_changed_at = None\<rparr>"

definition plain_login :: "string \<Rightarrow> string \<Rightarrow> string \<Rightarrow> (string \<times> string) request" where
  "plain_login ip u p = \<lparr>remoteAddr = ''10.0.0.1'', header = (\<lambda>k. if k = ''X-Forwarded-For'' then ip else []),
     body = Some (u, p), ctxUser = None\<rparr>"

definition two_tries :: AuthHandler where
  "two_tries = (NewAuthHandler \<lparr>rows = [plain_row ''1'' ''a'' ''$b'' ''user''], accepts = \<lambda>_. True\<rparr> ''secret'')
     \<lparr>bruteForce := NewBruteForceProtector \<lparr>MaxAttempts = 2, LockoutMinutes = 1, CleanupMinutes = 1\<rparr>\<rparr>"

text \<open>
  C9. Once an address has sent \<open>maxAttempts\<close> logins with credentials that match no account, every
  further login from it is answered 429 until the lockout duration has passed since the last of them,
  even one with right credentials; requests from other addresses get the answers they got before. Since
  the address is the one the request names in \<^verbatim>\<open>X-Forwarded-For\<close>, right credentials sent with another
  value of that header log in at once.
\<close>

theorem wrong_logins_lock_the_address:
  assumes "gget (bfFailures (bruteForce h)) ip = None"
    and "\<forall>(t, r)\<in>set (rs @ [(t, r)]). 0 \<le> t \<and> wrong_login x ip (db h) r"
    and "int (length rs) + 1 = maxAttempts (bruteForce h)" and "0 \<le> now" and "now < t + lockoutDuration (bruteForce h)"
  shows "(GetClientIP x q = ip \<longrightarrow> fst (fst (fst (Login x now q (logins x (rs @ [(t, r)]) h)))) = 429)
    \<and> (GetClientIP x q \<noteq> ip \<longrightarrow>
         fst (Login x now q (logins x (rs @ [(t, r)]) h)) = fst (Login x now q h))"
proof (intro conjI impI)
  have s: "bruteForce (logins x (rs @ [(t, r)]) h) = fails (map fst rs @ [t]) ip (bruteForce h)"
    "db (logins x (rs @ [(t, r)]) h) = db h" "jwtSecret (logins x (rs @ [(t, r)]) h) = jwtSecret h"
    "jwtExpiry (logins x (rs @ [(t, r)]) h) = jwtExpiry h"
    using logins_wrong [OF assms(1,2)] assms(3) by auto
  {
    assume q: "GetClientIP x q = ip"
    have "IsLocked now ip (fails (map fst rs @ [t]) ip (bruteForce h))"
      by (subst fails_lock [OF assms(1)]) (use assms in \<open>auto simp: case_prod_unfold\<close>)
    then show "fst (fst (fst (Login x now q (logins x (rs @ [(t, r)]) h)))) = 429"
      using q s by (simp add: Login_def)
  next
    assume "GetClientIP x q \<noteq> ip"
    then show "fst (Login x now q (logins x (rs @ [(t, r)]) h)) = fst (Login x now q h)"
      by (intro Login_cong) (simp_all add: s fails_other)
  }
qed

theorem wrong_logins_lock_the_address_witness:
  "fst (fst (fst (Login plain_ext 100 (plain_login ''10.0.0.1'' ''a'' ''b'')
       (logins plain_ext ([(1, plain_login ''10.0.0.1'' ''a'' ''x'')] @ [(2, plain_login ''10.0.0.1'' ''z'' ''b'')]) two_tries)))) = 429
   \<and> fst (fst (fst (Login plain_ext 100 (plain_login ''10.0.0.2'' ''a'' ''b'')
       (logins plain_ext ([(1, plain_login ''10.0.0.1'' ''a'' ''x'')] @ [(2, plain_login ''10.0.0.1'' ''z'' ''b'')]) two_tries)))) = 200"
proof -
  have h: "gget (bfFailures (bruteForce two_tries)) ''10.0.0.1'' = None" "maxAttempts (bruteForce two_tries) = 2"
    "lockoutDuration (bruteForce two_tries) = Minute"
    by code_simp+
  have w: "wrong_login plain_ext ''10.0.0.1'' (db two_tries) (plain_login ''10.0.0.1'' ''a'' ''x'')"
    "wrong_login plain_ext ''10.0.0.1'' (db two_tries) (plain_login ''10.0.0.1'' ''z'' ''b'')" by code_simp+
  have g: "GetClientIP plain_ext (plain_login ''10.0.0.1'' ''a'' ''b'') = ''10.0.0.1''"
    "GetClientIP plain_ext (plain_login ''10.0.0.2'' ''a'' ''b'') = ''10.0.0.2''" by code_simp+
  have ok: "fst (fst (fst (Login plain_ext 100 (plain_login ''10.0.0.2'' ''a'' ''b'') two_tries))) = 200"
    by code_simp
  show ?thesis
    using wrong_logins_lock_the_address [of two_tries "''10.0.0.1''" "[(1, plain_login ''10.0.0.1'' ''a'' ''x'')]" 2
        "plain_login ''10.0.0.1'' ''z'' ''b''" plain_ext 100 "plain_login ''10.0.0.1'' ''a'' ''b''"]
      wrong_logins_lock_the_address [of two_tries "''10.0.0.1''" "[(1, plain_login ''10.0.0.1'' ''a'' ''x'')]" 2
        "plain_login ''10.0.0.1'' ''z'' ''b''" plain_ext 100 "plain_login ''10.0.0.2'' ''a'' ''b''"]
      h w g ok
    by simp
qed

section \<open>The first account\<close>

lemma FirstRun_created:
  assumes "fst (fst (FirstRun x now r h)) = 201"
  obtains u p hash i where "body r = Some (u, p)" "bcrypt_hash x p = Some hash" "p \<noteq> []" "u \<noteq> []"
    "password_refusal x (passwordPolicy h) p = None"
    "rows (db h) = []" "accepts (db (snd (FirstRun x now r h))) = accepts (db h)"
    "rows (db (snd (FirstRun x now r h))) = [\<lparr>row_id = i, row_username = u, row_email = None, row_password_hash = hash,
       row_role = ''admin'', row_status = [], row_locked_until = None, row_last_login = None, row_login_attempts = 0,
       row_created_at = now, row_updated_at = now, row_password_changed_at = None\<rparr>]"
    "bruteForce (snd (FirstRun x now r h)) = bruteForce h" "jwtSecret (snd (FirstRun x now r h)) = jwtSecret h"
  using assms
  by (auto simp: FirstRun_def Let_def insert_row_def split: if_splits option.splits prod.splits)

text \<open>
  C22. The first run creates exactly one account, an administrator with the password's hash, and only if the
  password satisfies the policy; from then on a first run is refused and changes nothing. The created
  administrator can log in from any address that is not locked out if and only if its user name has no
  surrounding white space, because the login trims the name and the first run does not.
\<close>

theorem first_admin_login:
  assumes "fst (fst (FirstRun x now r h)) = 201" and "body r = Some (u, p)"
    and "\<forall>p hash. bcrypt_hash x p = Some hash \<longrightarrow> bcrypt_ok x hash p"
    and "\<forall>cl. sign_token x (jwtSecret h) cl \<noteq> None" and "accepts (db h) ByUsername"
    and "body q = Some (u, p)" and "\<not> IsLocked later (GetClientIP x q) (bruteForce h)"
  shows "map (\<lambda>a. (row_username a, row_role a)) (rows (db (snd (FirstRun x now r h)))) = [(u, ''admin'')]
    \<and> fst (Validate (uclasses x) (passwordPolicy h) p)
    \<and> FirstRun x t r' (snd (FirstRun x now r h)) =
        (if accepts (db h) CountUsers then (400, ErrorText ''System already configured'') else (500, ErrorText ''Database error''),
         snd (FirstRun x now r h))
    \<and> fst (fst (fst (Login x later q (snd (FirstRun x now r h))))) = (if TrimSpace u = u then 200 else 401)"
proof -
  define h1 where "h1 = snd (FirstRun x now r h)"
  obtain hash i where up: "bcrypt_hash x p = Some hash" "p \<noteq> []" "u \<noteq> []" "password_refusal x (passwordPolicy h) p = None"
    and row: "rows (db h1) = [\<lparr>row_id = i, row_username = u, row_email = None, row_password_hash = hash,
       row_role = ''admin'', row_status = [], row_locked_until = None, row_last_login = None, row_login_attempts = 0,
       row_created_at = now, row_updated_at = now, row_password_changed_at = None\<rparr>]"
    and h1: "accepts (db h1) = accepts (db h)" "bruteForce h1 = bruteForce h" "jwtSecret h1 = jwtSecret h"
    using FirstRun_created [OF assms(1)] assms(2) unfolding h1_def by (metis option.inject prod.inject)
  have ok: "bcrypt_ok x hash p" using up(1) assms(3) by blast
  have valid: "fst (Validate (uclasses x) (passwordPolicy h) p)"
    using up(4) by (auto simp: password_refusal_def split: prod.splits bool.splits)
  have again: "FirstRun x t r' h1 =
        (if accepts (db h) CountUsers then (400, ErrorText ''System already configured'') else (500, ErrorText ''Database error''), h1)"
    using row h1 by (simp add: FirstRun_def)
  have "fst (fst (fst (Login x later q h1))) = (if TrimSpace u = u then 200 else 401)"
  proof (cases "TrimSpace u = u")
    case True
    have "fst (fst (fst (Login x later q h1))) = 200"
      by (rule Login_right [where c = "(u, p)"])
        (use assms(4-7) h1 up row True ok in \<open>simp_all add: known_credentials_def\<close>)
    then show ?thesis using True by simp
  next
    case False
    have "wrong_login x (GetClientIP x q) (db h1) q"
      using False assms(5,6) h1 row up by (auto simp: wrong_login_def known_credentials_def)
    then show ?thesis using False Login_wrong [of x _ h1 q later] assms(7) h1 by simp
  qed
  then show ?thesis using row valid again by (simp flip: h1_def)
qed

lemma plain_bcrypt: "bcrypt_hash plain_ext p = Some (CHR ''$'' # p)" "sign_token plain_ext k c = Some (cl_UserID c)"
  by (simp_all add: plain_ext_def)

theorem first_admin_login_witness:
  "\<exists>h q. fst (fst (fst (Login plain_ext 9 q (snd (FirstRun plain_ext 5 q h))))) = 200"
proof -
  define h where "h = NewAuthHandler \<lparr>rows = [], accepts = \<lambda>_. True\<rparr> ''secret''"
  define q where "q = plain_login ''10.0.0.1'' ''root'' ''Tr0ubador''"
  have p: "password_refusal plain_ext DefaultPasswordPolicy ''Tr0ubador'' = None" by code_simp
  have 1: "fst (fst (FirstRun plain_ext 5 q h)) = 201"
    by (simp add: FirstRun_def h_def q_def plain_login_def NewAuthHandler_def p insert_row_def respond_tokens_def
        generateToken_def Let_def plain_bcrypt)
  have b: "body q = Some (''root'', ''Tr0ubador'')" by (simp add: q_def plain_login_def)
  have "fst (fst (fst (Login plain_ext 9 q (snd (FirstRun plain_ext 5 q h))))) = (if TrimSpace ''root'' = ''root'' then 200 else 401)"
    by (rule first_admin_login [OF 1 b _ _ _ b, THEN conjunct2, THEN conjunct2, THEN conjunct2])
      (simp_all add: plain_ext_def h_def NewAuthHandler_def IsLocked_def NewBruteForceProtector_def OnLockout_def Let_def)
  moreover have "TrimSpace ''root'' = ''root''" by code_simp
  ultimately show ?thesis by auto
qed

end
