(* ===== verification/Users.thy ===== *)
theory Users
  imports Accounts
begin

text \<open>
  User management (\<^verbatim>\<open>internal/api/users.go\<close>) and the middlewares that stand before it
  (\<^verbatim>\<open>internal/api/middleware.go\<close>, \<^verbatim>\<open>internal/api/router.go\<close>).

  The handler keeps the login handler, whose database it shares, and a password policy of its own. The
  identifier in the path is an argument of the handlers. A middleware maps a handler to a handler.
\<close>

section \<open>User management\<close>

record UserHandler =
  authHandler :: AuthHandler
  userPolicy :: PasswordPolicy

definition NewUserHandler :: "AuthHandler \<Rightarrow> UserHandler" where
  "NewUserHandler h = \<lparr>authHandler = h, userPolicy = DefaultPasswordPolicy\<rparr>"

abbreviation users :: "UserHandler \<Rightarrow> database" where "users h \<equiv> db (authHandler h)"

definition set_users :: "database \<Rightarrow> UserHandler \<Rightarrow> UserHandler" where
  "set_users d h = h\<lparr>authHandler := (authHandler h)\<lparr>db := d\<rparr>\<rparr>"

text \<open>The audit record that a handler writes when it has done its work.\<close>

definition audit_user :: "ext \<Rightarrow> time \<Rightarrow> 'b request \<Rightarrow> string \<Rightarrow> string \<Rightarrow> string \<Rightarrow> (string \<times> string) list \<Rightarrow> UserHandler \<Rightarrow> UserHandler" where
  "audit_user x now r ty username i metadata h = h\<lparr>authHandler := Log now ((audit_event ty (GetClientIP x r))
     \<lparr>ae_UserAgent := header r ''User-Agent'', ae_Username := username, ae_UserID := i, ae_Success := True,
      ae_Metadata := metadata\<rparr>) (authHandler h)\<rparr>"

definition profile_of_row :: "UserRow \<Rightarrow> UserProfile" where
  "profile_of_row r = \<lparr>up_ID = row_id r, up_Username = row_username r, up_Email = (case row_email r of None \<Rightarrow> [] | Some e \<Rightarrow> e),
     up_Role = row_role r, up_Status = row_status r, up_CreatedAt = row_created_at r, up_UpdatedAt = row_updated_at r,
     up_LastLogin = (case row_last_login r of None \<Rightarrow> zeroTime | Some t \<Rightarrow> t), up_PasswordHash = []\<rparr>"

definition profileByID :: "string \<Rightarrow> UserHandler \<Rightarrow> unit + UserProfile option" where
  "profileByID i h =
     (if \<not> accepts (users h) ProfileByID then Inl ()
      else Inr (map_option profile_of_row (find (\<lambda>r. row_id r = i) (rows (users h)))))"

definition nullString :: "string \<Rightarrow> string option" where
  "nullString s = (if s = [] then None else Some s)"

text \<open>The newest first; rows of the same instant keep their order.\<close>

definition ListUsers :: "UserHandler \<Rightarrow> response" where
  "ListUsers h =
     (if \<not> accepts (users h) ListRows then (500, ErrorText ''Failed to fetch users'')
      else let us = map profile_of_row (sort_key (\<lambda>r. - row_created_at r) (rows (users h)))
           in (200, Profiles us (int (length us))))"

record NewUser =
  nu_Username :: string
  nu_Password :: string
  nu_Email :: string
  nu_Role :: string

definition valid_role :: "string \<Rightarrow> bool" where
  "valid_role role \<longleftrightarrow> role = ''admin'' \<or> role = ''user'' \<or> role = ''viewer''"

definition CreateUser :: "ext \<Rightarrow> time \<Rightarrow> NewUser request \<Rightarrow> UserHandler \<Rightarrow> response \<times> UserHandler" where
  "CreateUser x now r h =
     (case body r of
        None \<Rightarrow> ((400, ErrorText ''Invalid request body''), h)
      | Some req \<Rightarrow>
          let username = TrimSpace (nu_Username req); role = (if nu_Role req = [] then ''user'' else nu_Role req)
          in if username = [] then ((400, ErrorText ''Username is required''), h)
             else if length username < 3 \<or> 32 < length username then ((400, ErrorText ''Username must be 3-32 characters''), h)
             else if \<not> valid_role role then ((400, ErrorText ''Invalid role''), h)
             else case password_refusal x (userPolicy h) (nu_Password req) of
               Some why \<Rightarrow> ((400, why), h)
             | None \<Rightarrow>
                 if accepts (users h) UsernameExists \<and> list_ex (\<lambda>q. row_username q = username) (rows (users h))
                 then ((409, ErrorText ''Username already exists''), h)
                 else case bcrypt_hash x (nu_Password req) of
                   None \<Rightarrow> ((500, ErrorText ''Failed to hash password''), h)
                 | Some hash \<Rightarrow>
                     let i = generateID (username @ time_string x now);
                         new = \<lparr>row_id = i, row_username = username, row_email = nullString (nu_Email req),
                                row_password_hash = hash, row_role = role, row_status = ''active'', row_locked_until = None,
                                row_last_login = None, row_login_attempts = 0, row_created_at = now, row_updated_at = now,
                                row_password_changed_at = None\<rparr>
                     in case (if accepts (users h) InsertUser then insert_row new (users h) else None) of
                          None \<Rightarrow> ((500, ErrorText ''Failed to create user''), h)
                        | Some d \<Rightarrow>
                            ((201, Profile (Some \<lparr>up_ID = i, up_Username = username, up_Email = nu_Email req, up_Role = role,
                                up_Status = ''active'', up_CreatedAt = now, up_UpdatedAt = now, up_LastLogin = zeroTime,
                                up_PasswordHash = []\<rparr>)),
                             audit_user x now r ''user_created'' username i [] (set_users d h)))"

definition GetUser :: "string \<Rightarrow> 'b request \<Rightarrow> UserHandler \<Rightarrow> response" where
  "GetUser userID r h =
     (if userID = [] then (400, ErrorText ''User ID is required'')
      else case profileByID userID h of
        Inl _ \<Rightarrow> (500, ErrorText ''Failed to fetch user'')
      | Inr None \<Rightarrow> (404, ErrorText ''User not found'')
      | Inr (Some user) \<Rightarrow>
          (case ctxUser r of
             Some cur \<Rightarrow> if u_Role cur \<noteq> ''admin'' \<and> u_ID cur \<noteq> up_ID user
                         then (403, ErrorText (''Cannot view other users'' @ [CHR 0x27] @ '' profiles''))
                         else (200, Profile (Some user))
           | None \<Rightarrow> (200, Profile (Some user))))"

definition apply_update :: "time \<Rightarrow> string \<Rightarrow> bool \<Rightarrow> string \<Rightarrow> bool \<Rightarrow> string \<Rightarrow> database \<Rightarrow> database option" where
  "apply_update now userID setEmail email setRole role d =
     (if \<not> accepts d (UpdateProfile setEmail setRole)
         \<or> (setEmail \<and> list_ex (\<lambda>r. row_id r = userID) (rows d)
              \<and> list_ex (\<lambda>r. row_id r \<noteq> userID \<and> row_email r = Some email) (rows d))
      then None
      else Some (on_rows (\<lambda>r. row_id r = userID)
             (\<lambda>r. r\<lparr>row_email := (if setEmail then Some email else row_email r),
                    row_role := (if setRole then role else row_role r), row_updated_at := now\<rparr>) d))"

definition UpdateUser :: "ext \<Rightarrow> time \<Rightarrow> string \<Rightarrow> (string \<times> string) request \<Rightarrow> UserHandler \<Rightarrow> response \<times> UserHandler" where
  "UpdateUser x now userID r h =
     (if userID = [] then ((400, ErrorText ''User ID is required''), h)
      else case ctxUser r of
        None \<Rightarrow> ((401, ErrorText ''Not authenticated''), h)
      | Some cur \<Rightarrow>
          if u_Role cur \<noteq> ''admin'' \<and> u_ID cur \<noteq> userID
          then ((403, ErrorText (''Cannot update other users'' @ [CHR 0x27] @ '' profiles'')), h)
          else case body r of
            None \<Rightarrow> ((400, ErrorText ''Invalid request body''), h)
          | Some (email, role) \<Rightarrow>
              let setRole = (role \<noteq> [] \<and> u_Role cur = ''admin'')
              in if setRole \<and> \<not> valid_role role then ((400, ErrorText ''Invalid role''), h)
                 else if email = [] \<and> \<not> setRole then ((400, ErrorText ''No fields to update''), h)
                 else case apply_update now userID (email \<noteq> []) email setRole role (users h) of
                   None \<Rightarrow> ((500, ErrorText ''Failed to update user''), h)
                 | Some d \<Rightarrow>
                     let h1 = audit_user x now r ''user_updated'' [] userID [] (set_users d h)
                     in ((200, Profile (case profileByID userID h1 of Inr p \<Rightarrow> p | Inl _ \<Rightarrow> None)), h1))"

text \<open>Only a missing row stops the deletion: when the lookup of the name fails, the name is empty.\<close>

definition DeleteUser :: "ext \<Rightarrow> time \<Rightarrow> string \<Rightarrow> 'b request \<Rightarrow> UserHandler \<Rightarrow> response \<times> UserHandler" where
  "DeleteUser x now userID r h =
     (if userID = [] then ((400, ErrorText ''User ID is required''), h)
      else if map_option u_ID (ctxUser r) = Some userID then ((400, ErrorText ''Cannot delete your own account''), h)
      else let found = find (\<lambda>q. row_id q = userID) (rows (users h))
           in if accepts (users h) NameByID \<and> found = None then ((404, ErrorText ''User not found''), h)
              else if \<not> accepts (users h) DeleteRow then ((500, ErrorText ''Failed to delete user''), h)
              else
                let username = (if accepts (users h) NameByID then row_username (the found) else [])
                in ((204, NoBody),
                    audit_user x now r ''user_deleted'' username userID []
                      (set_users ((users h)\<lparr>rows := filter (\<lambda>q. row_id q \<noteq> userID) (rows (users h))\<rparr>) h)))"

definition ChangePassword :: "ext \<Rightarrow> time \<Rightarrow> string \<Rightarrow> (string \<times> string) request \<Rightarrow> UserHandler \<Rightarrow> response \<times> UserHandler" where
  "ChangePassword x now userID r h =
     (if userID = [] then ((400, ErrorText ''User ID is required''), h)
      else case ctxUser r of
        None \<Rightarrow> ((401, ErrorText ''Not authenticated''), h)
      | Some cur \<Rightarrow>
          if u_Role cur \<noteq> ''admin'' \<and> u_ID cur \<noteq> userID
          then ((403, ErrorText (''Cannot change other users'' @ [CHR 0x27] @ '' passwords'')), h)
          else case body r of
            None \<Rightarrow> ((400, ErrorText ''Invalid request body''), h)
          | Some (current, new) \<Rightarrow>
              (case profileByID userID h of
                 Inr (Some user) \<Rightarrow>
                   let own = (u_ID cur = userID \<or> u_Role cur \<noteq> ''admin'')
                   in if own \<and> current = [] then ((400, ErrorText ''Current password is required''), h)
                      else if own \<and> \<not> bcrypt_ok x (up_PasswordHash user) current
                      then ((401, ErrorText ''Current password is incorrect''), h)
                      else (case password_refusal x (userPolicy h) new of
                        Some why \<Rightarrow> ((400, why), h)
                      | None \<Rightarrow>
                          (case bcrypt_hash x new of
                             None \<Rightarrow> ((500, ErrorText ''Failed to hash password''), h)
                           | Some hash \<Rightarrow>
                               if \<not> accepts (users h) UpdatePassword then ((500, ErrorText ''Failed to update password''), h)
                               else ((200, Message ''Password updated successfully''),
                                     audit_user x now r ''password_change'' [] userID []
                                       (set_users (on_rows (\<lambda>q. row_id q = userID)
                                          (\<lambda>q. q\<lparr>row_password_hash := hash, row_updated_at := now,
                                                 row_password_changed_at := Some now\<rparr>) (users h)) h))))
               | _ \<Rightarrow> ((404, ErrorText ''User not found''), h)))"

text \<open>The rows that an update of the status touches.\<close>

definition locked_row :: "string \<Rightarrow> UserRow \<Rightarrow> bool" where
  "locked_row userID r \<longleftrightarrow> row_id r = userID \<and> row_status r = ''locked''"

definition unlocked_row :: "string \<Rightarrow> UserRow \<Rightarrow> bool" where
  "unlocked_row userID r \<longleftrightarrow> row_id r = userID \<and> row_status r \<noteq> ''locked''"

definition LockUser :: "ext \<Rightarrow> time \<Rightarrow> string \<Rightarrow> 'b request \<Rightarrow> UserHandler \<Rightarrow> response \<times> UserHandler" where
  "LockUser x now userID r h =
     (if userID = [] then ((400, ErrorText ''User ID is required''), h)
      else if map_option u_ID (ctxUser r) = Some userID then ((400, ErrorText ''Cannot lock your own account''), h)
      else if \<not> accepts (users h) LockRow then ((500, ErrorText ''Failed to lock user''), h)
      else if filter (unlocked_row userID) (rows (users h)) = [] then ((404, ErrorText ''User not found or already locked''), h)
      else let til = Add now (24 * Hour)
           in ((200, LockedMessage ''User locked successfully'' til),
               audit_user x now r ''account_locked'' [] userID [(''reason'', ''admin_action'')]
                 (set_users (on_rows (unlocked_row userID)
                    (\<lambda>q. q\<lparr>row_status := ''locked'', row_locked_until := Some til, row_updated_at := now\<rparr>) (users h)) h)))"

definition UnlockUser :: "ext \<Rightarrow> time \<Rightarrow> string \<Rightarrow> 'b request \<Rightarrow> UserHandler \<Rightarrow> response \<times> UserHandler" where
  "UnlockUser x now userID r h =
     (if userID = [] then ((400, ErrorText ''User ID is required''), h)
      else if \<not> accepts (users h) UnlockRow then ((500, ErrorText ''Failed to unlock user''), h)
      else if filter (locked_row userID) (rows (users h)) = [] then ((404, ErrorText ''User not found or not locked''), h)
      else ((200, Message ''User unlocked successfully''),
            audit_user x now r ''account_unlocked'' [] userID []
              (set_users (on_rows (locked_row userID)
                 (\<lambda>q. q\<lparr>row_status := ''active'', row_locked_until := None, row_updated_at := now, row_login_attempts := 0\<rparr>)
                 (users h)) h)))"

definition GetCurrentUserProfile :: "'b request \<Rightarrow> UserHandler \<Rightarrow> response" where
  "GetCurrentUserProfile r h =
     (case ctxUser r of
        None \<Rightarrow> (401, ErrorText ''Not authenticated'')
      | Some cur \<Rightarrow>
          (case profileByID (u_ID cur) h of
             Inr (Some user) \<Rightarrow> (200, Profile (Some user))
           | _ \<Rightarrow> (404, ErrorText ''User not found'')))"

section \<open>Middlewares\<close>

type_synonym ('b, 's) handler = "'b request \<Rightarrow> 's \<Rightarrow> response \<times> 's"

text \<open>\<^verbatim>\<open>authMiddleware\<close> and \<^verbatim>\<open>adminOnlyMiddleware\<close> of the router.\<close>

record AuthConfig =
  APIKey :: string
  APIKeyHeader :: string
  JWTSecret :: string

definition hasJWT :: "string \<Rightarrow> bool" where
  "hasJWT authHeader \<longleftrightarrow> length authHeader > 7 \<and> take 7 authHeader = ''Bearer ''"

definition authMiddleware :: "AuthConfig \<Rightarrow> ('b, 's) handler \<Rightarrow> ('b, 's) handler" where
  "authMiddleware cfg next r s =
     (let apiKey = header r (if APIKeyHeader cfg = [] then ''X-API-Key'' else APIKeyHeader cfg);
          jwt = hasJWT (header r ''Authorization'')
      in if apiKey = [] \<and> \<not> jwt then ((401, Refusal ''authentication_required'' ''Authentication required''), s)
         else if apiKey \<noteq> [] then
           if APIKey cfg = [] then ((401, Refusal ''api_key_not_configured'' ''API key authentication is not configured''), s)
           else if apiKey \<noteq> APIKey cfg then ((401, Refusal ''invalid_api_key'' ''Invalid API key''), s)
           else next (r\<lparr>ctxUser := Some \<lparr>u_ID = ''api-key-user'', u_Username = ''api-key-user'', u_PasswordHash = [],
                        u_Role = ''admin''\<rparr>\<rparr>) s
         else if JWTSecret cfg \<noteq> [] then
           next (r\<lparr>ctxUser := Some \<lparr>u_ID = ''jwt-user'', u_Username = ''jwt-user'', u_PasswordHash = [], u_Role = ''user''\<rparr>\<rparr>) s
         else ((401, Refusal ''authentication_failed'' ''Authentication failed''), s))"

text \<open>
  The router's user record is set together with the context user, with \<open>IsAdmin\<close> for the API key only,
  so the check reads the role that \<open>authMiddleware\<close> has set.
\<close>

definition adminOnlyMiddleware :: "('b, 's) handler \<Rightarrow> ('b, 's) handler" where
  "adminOnlyMiddleware next r s =
     (case ctxUser r of
        None \<Rightarrow> ((401, Refusal ''authentication_required'' ''Authentication required''), s)
      | Some u \<Rightarrow> if u_Role u \<noteq> ''admin'' then ((403, Refusal ''forbidden'' ''Admin access required''), s) else next r s)"

text \<open>\<^verbatim>\<open>AuthMiddleware\<close>, \<^verbatim>\<open>AdminMiddleware\<close> and \<^verbatim>\<open>OptionalAuthMiddleware\<close> check the token; no route uses them.\<close>

definition bearer_token :: "string \<Rightarrow> string option" where
  "bearer_token authHeader =
     (let scheme = takeWhile (\<lambda>c. c \<noteq> CHR '' '') authHeader; rest = dropWhile (\<lambda>c. c \<noteq> CHR '' '') authHeader
      in if rest = [] \<or> ToLower scheme \<noteq> ''bearer'' then None else Some (tl rest))"

definition user_of_claims :: "Claims \<Rightarrow> User" where
  "user_of_claims c = \<lparr>u_ID = cl_UserID c, u_Username = cl_Username c, u_PasswordHash = [], u_Role = cl_Role c\<rparr>"

definition AuthMiddleware :: "ext \<Rightarrow> time \<Rightarrow> string \<Rightarrow> ('b, 's) handler \<Rightarrow> ('b, 's) handler" where
  "AuthMiddleware x now secret next r s =
     (if header r ''Authorization'' = [] then ((401, ErrorText ''Authorization required''), s)
      else case bearer_token (header r ''Authorization'') of
        None \<Rightarrow> ((401, ErrorText ''Invalid authorization header''), s)
      | Some token \<Rightarrow>
          (case parse_token x now secret token of
             None \<Rightarrow> ((401, ErrorText ''Invalid token''), s)
           | Some claims \<Rightarrow> next (r\<lparr>ctxUser := Some (user_of_claims claims)\<rparr>) s))"

definition AdminMiddleware :: "('b, 's) handler \<Rightarrow> ('b, 's) handler" where
  "AdminMiddleware next r s =
     (case ctxUser r of
        None \<Rightarrow> ((403, ErrorText ''Admin access required''), s)
      | Some u \<Rightarrow> if u_Role u \<noteq> ''admin'' then ((403, ErrorText ''Admin access required''), s) else next r s)"

definition OptionalAuthMiddleware :: "ext \<Rightarrow> time \<Rightarrow> string \<Rightarrow> ('b, 's) handler \<Rightarrow> ('b, 's) handler" where
  "OptionalAuthMiddleware x now secret next r s =
     (if header r ''Authorization'' = [] then next r s
      else case bearer_token (header r ''Authorization'') of
        None \<Rightarrow> next r s
      | Some token \<Rightarrow>
          (case parse_token x now secret token of
             None \<Rightarrow> next r s
           | Some claims \<Rightarrow> next (r\<lparr>ctxUser := Some (user_of_claims claims)\<rparr>) s))"

text \<open>
  \<^verbatim>\<open>bodySizeLimitMiddleware\<close>: a declared length above the limit is refused; with no declared length the
  reader is cut at the limit, which a decoder that needs more \<open>bytes\<close> sees as an error.
\<close>

definition bodySizeLimitMiddleware :: "int \<Rightarrow> int \<Rightarrow> int \<Rightarrow> ('b, 's) handler \<Rightarrow> ('b, 's) handler" where
  "bodySizeLimitMiddleware maxBytes contentLength bytes next r s =
     (if contentLength > maxBytes
      then ((413, ErrorText (''request body too large: '' @ Itoa contentLength @ '' bytes (max: '' @ Itoa maxBytes @ '')'')), s)
      else next (if contentLength = -1 \<and> bytes > maxBytes then r\<lparr>body := None\<rparr> else r) s)"

section \<open>What the handlers do to the table\<close>

lemma audit_user_sel [simp]:
  "users (audit_user x now r ty u i m h) = users h" "userPolicy (audit_user x now r ty u i m h) = userPolicy h"
  "jwtSecret (authHandler (audit_user x now r ty u i m h)) = jwtSecret (authHandler h)"
  "jwtExpiry (authHandler (audit_user x now r ty u i m h)) = jwtExpiry (authHandler h)"
  "bruteForce (authHandler (audit_user x now r ty u i m h)) = bruteForce (authHandler h)"
  by (simp_all add: audit_user_def)

lemma set_users_sel [simp]:
  "users (set_users d h) = d" "userPolicy (set_users d h) = userPolicy h"
  "jwtSecret (authHandler (set_users d h)) = jwtSecret (authHandler h)"
  "jwtExpiry (authHandler (set_users d h)) = jwtExpiry (authHandler h)"
  "bruteForce (authHandler (set_users d h)) = bruteForce (authHandler h)"
  by (simp_all add: set_users_def)

lemma on_rows_sel [simp]:
  "accepts (on_rows p f d) = accepts d" "rows (on_rows p f d) = map (\<lambda>r. if p r then f r else r) (rows d)"
  by (simp_all add: on_rows_def)

text \<open>
  C13. Every request whose \<^verbatim>\<open>Authorization\<close> header is \<^verbatim>\<open>Bearer\<close> and at least one more character passes the
  router's authentication, whatever the token, and the handler that deletes accounts does not look at the
  role: any account can be deleted without credentials. The same handler behind the administrators'
  middleware refuses the request and changes nothing.
\<close>

theorem any_bearer_deletes_accounts:
  assumes "JWTSecret cfg \<noteq> []" and "header r (if APIKeyHeader cfg = [] then ''X-API-Key'' else APIKeyHeader cfg) = []"
    and "header r ''Authorization'' = ''Bearer '' @ token" and "token \<noteq> []"
    and "accepts (users h) DeleteRow" and "userID \<in> row_id ` set (rows (users h))" and "userID \<noteq> []" and "userID \<noteq> ''jwt-user''"
  shows "fst (authMiddleware cfg (DeleteUser x now userID) r h) = (204, NoBody)
    \<and> rows (users (snd (authMiddleware cfg (DeleteUser x now userID) r h))) = filter (\<lambda>a. row_id a \<noteq> userID) (rows (users h))
    \<and> authMiddleware cfg (adminOnlyMiddleware (DeleteUser x now userID)) r h = ((403, Refusal ''forbidden'' ''Admin access required''), h)"
proof -
  have jwt: "hasJWT (header r ''Authorization'')" using assms(3,4) by (cases token) (simp_all add: hasJWT_def)
  have found: "find (\<lambda>q. row_id q = userID) (rows (users h)) \<noteq> None"
    using assms(6) by (auto simp: find_None_iff)
  show ?thesis
    using jwt found assms(1,2,5,7,8)
    by (simp add: authMiddleware_def adminOnlyMiddleware_def DeleteUser_def Let_def)
qed

definition two_users :: UserHandler where
  "two_users = NewUserHandler ((NewAuthHandler \<lparr>rows = [plain_row ''1'' ''admin'' ''$a'' ''admin'', plain_row ''2'' ''bob'' ''$b'' ''user''],
     accepts = \<lambda>_. True\<rparr> ''secret''))"

definition user_request :: "(string \<Rightarrow> string) \<Rightarrow> 'b \<Rightarrow> string \<Rightarrow> 'b request" where
  "user_request hs b i = \<lparr>remoteAddr = ''10.0.0.1'', header = hs, body = Some b,
     ctxUser = Some \<lparr>u_ID = i, u_Username = ''bob'', u_PasswordHash = [], u_Role = ''user''\<rparr>\<rparr>"

theorem any_bearer_deletes_accounts_witness:
  "map row_username (rows (users (snd (authMiddleware \<lparr>APIKey = ''k'', APIKeyHeader = [], JWTSecret = ''secret''\<rparr>
     (DeleteUser plain_ext 5 ''1'') (user_request ((\<lambda>_. [])(''Authorization'' := ''Bearer x'')) () []) two_users)))) = [''bob'']"
  by (subst any_bearer_deletes_accounts [where token = "''x''", THEN conjunct2, THEN conjunct1])
    (simp_all add: two_users_def user_request_def NewUserHandler_def NewAuthHandler_def plain_row_def)

text \<open>
  C31. Locking an account does not lock anybody out: whatever an administrator locks, every login, right or
  wrong, gets the answer it got before. The lock only changes a status that the login never reads.
\<close>

theorem locking_does_not_stop_logins:
  "fst (Login x t q (authHandler (snd (LockUser x now userID r h)))) = fst (Login x t q (authHandler h))"
proof (cases "snd (LockUser x now userID r h) = h")
  case False
  define h1 where "h1 = snd (LockUser x now userID r h)"
  have h1: "users h1 = on_rows (unlocked_row userID)
      (\<lambda>a. a\<lparr>row_status := ''locked'', row_locked_until := Some (Add now (24 * Hour)), row_updated_at := now\<rparr>) (users h)"
    "jwtSecret (authHandler h1) = jwtSecret (authHandler h)" "jwtExpiry (authHandler h1) = jwtExpiry (authHandler h)"
    "bruteForce (authHandler h1) = bruteForce (authHandler h)"
    using False by (auto simp: LockUser_def h1_def Let_def split: if_splits)
  have find_map: "map_option user_of_row (find p (map (\<lambda>a. if f a then g a else a) as)) = map_option user_of_row (find p as)"
    if "\<And>a. p (g a) = p a" "\<And>a. user_of_row (g a) = user_of_row a" for p f g as
    using that by (induction as) auto
  have "getUserByUsername u (authHandler h1) = getUserByUsername u (authHandler h)" for u
    unfolding getUserByUsername_def h1(1) on_rows_sel
    by (subst find_map) (simp_all add: user_of_row_def)
  then have "fst (Login x t q (authHandler h1)) = fst (Login x t q (authHandler h))"
    by (rule Login_same_lookup) (simp_all add: h1)
  then show ?thesis by (simp flip: h1_def)
qed simp

text \<open>
  C32. Nobody can change their own password: \<open>ChangePassword\<close> compares the current password with the hash of
  a profile that was read without its hash. As long as no password matches an empty hash, every request of a
  user for the own account, and every request of somebody who is not an administrator, is refused and
  changes nothing.
\<close>

theorem own_password_cannot_be_changed:
  assumes "\<forall>p. \<not> bcrypt_ok x [] p" and "ctxUser r = Some cur" and "u_ID cur = userID \<or> u_Role cur \<noteq> ''admin''"
  shows "fst (fst (ChangePassword x now userID r h)) \<in> {400, 401, 403, 404} \<and> snd (ChangePassword x now userID r h) = h"
  using assms
  by (auto simp: ChangePassword_def Let_def profileByID_def profile_of_row_def split: option.splits)

theorem own_password_cannot_be_changed_witness:
  "snd (ChangePassword plain_ext 5 ''2'' (user_request (\<lambda>_. []) (''b'', ''Tr0ubador'') ''2'') two_users) = two_users"
  by (rule own_password_cannot_be_changed [THEN conjunct2]) (auto simp: plain_ext_def user_request_def)

text \<open>The row is the same but for the e-mail address and the time of the update, and only the row of \<open>i\<close> differs.\<close>

definition mail_only :: "string \<Rightarrow> UserRow \<Rightarrow> UserRow \<Rightarrow> bool" where
  "mail_only i a b \<longleftrightarrow> b = (if row_id a = i then a\<lparr>row_email := row_email b, row_updated_at := row_updated_at b\<rparr> else a)"

lemma mail_only_role: "mail_only i a b \<Longrightarrow> row_role b = row_role a"
  unfolding mail_only_def by (drule arg_cong [where f = row_role]) (simp split: if_splits)

text \<open>
  An update by somebody who is not an administrator is confined: it changes at most the e-mail address
  and the time of the update of the own row, never a role, a password or another account.
\<close>

theorem users_update_only_themselves:
  assumes "ctxUser r = Some cur" and "u_Role cur \<noteq> ''admin''"
  shows "list_all2 (mail_only (u_ID cur)) (rows (users h)) (rows (users (snd (UpdateUser x now userID r h))))"
proof -
  have same: "list_all2 (mail_only i) as as" for i as by (rule list.rel_refl) (simp add: mail_only_def)
  have upd: "list_all2 (mail_only i) as
      (map (\<lambda>a. if row_id a = i then a\<lparr>row_email := e a, row_updated_at := now\<rparr> else a) as)"
    for as e i by (simp add: list.rel_map list.rel_refl mail_only_def)
  show ?thesis
    using assms same upd
    by (auto simp: UpdateUser_def Let_def apply_update_def split: option.splits prod.splits if_splits)
qed

theorem users_update_only_themselves_witness:
  "map row_role (rows (users (snd (UpdateUser plain_ext 5 ''2'' (user_request (\<lambda>_. []) (''b@x'', ''admin'') ''2'') two_users)))) = [''admin'', ''user'']"
proof -
  have "list_all2 (mail_only ''2'') (rows (users two_users))
      (rows (users (snd (UpdateUser plain_ext 5 ''2'' (user_request (\<lambda>_. []) (''b@x'', ''admin'') ''2'') two_users))))"
    using users_update_only_themselves [of "user_request (\<lambda>_. []) (''b@x'', ''admin'') ''2''" _ two_users plain_ext 5 "''2''"]
    by (simp add: user_request_def)
  then have "list_all2 (\<lambda>a b. row_role b = row_role a) (rows (users two_users))
      (rows (users (snd (UpdateUser plain_ext 5 ''2'' (user_request (\<lambda>_. []) (''b@x'', ''admin'') ''2'') two_users))))"
    by (rule list_all2_mono) (rule mail_only_role)
  then show ?thesis
    by (auto simp: two_users_def NewUserHandler_def NewAuthHandler_def plain_row_def list_all2_Cons1)
qed

text \<open>
  The handlers name columns that no migration creates. On an engine that rejects such statements users
  cannot be listed, created, viewed, locked or unlocked and no password can be changed: each of these
  requests is answered with an error and changes nothing. An update that succeeds answers with no profile.
\<close>

theorem unmigrated_columns_fail:
  assumes "\<forall>s. accepts (users h) s \<longleftrightarrow> set (columns s) \<subseteq> set users_columns"
  shows "fst (ListUsers h) = 500 \<and> snd (CreateUser x now n h) = h \<and> 400 \<le> fst (fst (CreateUser x now n h))
    \<and> 400 \<le> fst (GetUser userID r h) \<and> snd (ChangePassword x now userID c h) = h
    \<and> snd (LockUser x now userID r h) = h \<and> 400 \<le> fst (fst (LockUser x now userID r h))
    \<and> snd (UnlockUser x now userID r h) = h \<and> 400 \<le> fst (fst (UnlockUser x now userID r h))
    \<and> (fst (fst (UpdateUser x now userID c h)) = 200 \<longrightarrow> snd (fst (UpdateUser x now userID c h)) = Profile None)"
proof -
  have no: "\<not> accepts (users h) ListRows" "\<not> accepts (users h) InsertUser" "\<not> accepts (users h) ProfileByID"
    "\<not> accepts (users h) LockRow" "\<not> accepts (users h) UnlockRow"
    by (simp_all add: assms users_columns_def)
  have acc: "accepts d = accepts (users h)" if "apply_update t i se e sr ro (users h) = Some d" for t i se e sr ro d
    using that by (auto simp: apply_update_def split: if_splits)
  have "fst (ListUsers h) = 500" using no by (simp add: ListUsers_def)
  moreover have "snd (CreateUser x now n h) = h \<and> 400 \<le> fst (fst (CreateUser x now n h))"
    using no by (auto simp: CreateUser_def Let_def split: option.splits)
  moreover have "400 \<le> fst (GetUser userID r h)" using no by (simp add: GetUser_def profileByID_def)
  moreover have "snd (ChangePassword x now userID c h) = h"
    using no by (auto simp: ChangePassword_def profileByID_def split: option.splits)
  moreover have "snd (LockUser x now userID r h) = h \<and> 400 \<le> fst (fst (LockUser x now userID r h))"
    "snd (UnlockUser x now userID r h) = h \<and> 400 \<le> fst (fst (UnlockUser x now userID r h))"
    using no by (simp_all add: LockUser_def UnlockUser_def)
  moreover have "fst (fst (UpdateUser x now userID c h)) = 200 \<longrightarrow> snd (fst (UpdateUser x now userID c h)) = Profile None"
    using no acc by (auto simp: UpdateUser_def Let_def profileByID_def split: option.splits prod.splits)
  ultimately show ?thesis by blast
qed

theorem unmigrated_columns_fail_witness:
  "fst (ListUsers (NewUserHandler (NewAuthHandler
     \<lparr>rows = [], accepts = \<lambda>s. set (columns s) \<subseteq> set users_columns\<rparr> ''secret''))) = 500"
  by (rule unmigrated_columns_fail [THEN conjunct1]) (simp add: NewUserHandler_def NewAuthHandler_def)

end
