(* ===== verification/RateLimit.thy ===== *)
theory RateLimit
  imports Prelude
begin

text \<open>
  The rate limiter of the public endpoints (\<^verbatim>\<open>rateLimiter\<close> in \<^verbatim>\<open>internal/api/router.go\<close>):
  admission per client over a sliding window, the periodic cleanup and the middleware that picks
  the client's key. The clock is the argument \<open>now\<close>; a header that is not set is the empty text.
\<close>

section \<open>The limiter\<close>

record rateLimiter =
  requests :: "(string, time list) gomap"
  limit :: int
  window :: duration

definition newRateLimiter :: "int \<Rightarrow> duration \<Rightarrow> rateLimiter" where
  "newRateLimiter cap win = \<lparr>requests = [], limit = cap, window = win\<rparr>"

text \<open>The instants of a key, none when the map has no entry.\<close>

definition instants :: "string \<Rightarrow> rateLimiter \<Rightarrow> time list" where
  "instants key rl = (case gget (requests rl) key of None \<Rightarrow> [] | Some ts \<Rightarrow> ts)"

definition recent :: "time \<Rightarrow> rateLimiter \<Rightarrow> time list \<Rightarrow> time list" where
  "recent now rl ts = filter (\<lambda>t. After t (Add now (- window rl))) ts"

definition rl_Allow :: "time \<Rightarrow> string \<Rightarrow> rateLimiter \<Rightarrow> bool \<times> rateLimiter" where
  "rl_Allow now key rl =
     (let validRequests = recent now rl (instants key rl)
      in if int (length validRequests) \<ge> limit rl
         then (False, rl\<lparr>requests := gput (requests rl) key validRequests\<rparr>)
         else (True, rl\<lparr>requests := gput (requests rl) key (validRequests @ [now])\<rparr>))"

definition rl_cleanup :: "time \<Rightarrow> rateLimiter \<Rightarrow> rateLimiter" where
  "rl_cleanup now rl =
     rl\<lparr>requests := gfilter (\<lambda>key ts. ts \<noteq> []) (map (\<lambda>(key, ts). (key, recent now rl ts)) (requests rl))\<rparr>"

definition client_key :: "string \<Rightarrow> string \<Rightarrow> string" where
  "client_key remoteAddr forwardedFor = (if forwardedFor \<noteq> [] then forwardedFor else remoteAddr)"

text \<open>\<open>None\<close>: the request is passed on; otherwise the status of the refusal.\<close>

definition rateLimitMiddleware :: "time \<Rightarrow> string \<Rightarrow> string \<Rightarrow> rateLimiter \<Rightarrow> int option \<times> rateLimiter" where
  "rateLimitMiddleware now remoteAddr forwardedFor rl =
     (case rl_Allow now (client_key remoteAddr forwardedFor) rl of
        (True, rl') \<Rightarrow> (None, rl')
      | (False, rl') \<Rightarrow> (Some 429, rl'))"

section \<open>A sliding window\<close>

datatype rl_call = RAllow time string | RClean time

fun rl_time :: "rl_call \<Rightarrow> time" where
  "rl_time (RAllow now key) = now"
| "rl_time (RClean now) = now"

text \<open>The admissions of a run, and those of the reference: fewer than \<open>cap\<close> in the window before.\<close>

fun admissions :: "rl_call list \<Rightarrow> rateLimiter \<Rightarrow> (string \<times> time) list" where
  "admissions [] rl = []"
| "admissions (RAllow now key # cs) rl =
     (case rl_Allow now key rl of (ok, rl') \<Rightarrow> (if ok then [(key, now)] else []) @ admissions cs rl')"
| "admissions (RClean now # cs) rl = admissions cs (rl_cleanup now rl)"

definition times_of :: "string \<Rightarrow> (string \<times> time) list \<Rightarrow> time list" where
  "times_of key h = map snd (filter (\<lambda>(k, t). k = key) h)"

definition in_window :: "duration \<Rightarrow> (string \<times> time) list \<Rightarrow> time \<Rightarrow> string \<Rightarrow> int" where
  "in_window win h now key = int (length (filter (\<lambda>t. now - win < t) (times_of key h)))"

fun sliding :: "int \<Rightarrow> duration \<Rightarrow> (string \<times> time) list \<Rightarrow> rl_call list \<Rightarrow> (string \<times> time) list" where
  "sliding cap win h [] = []"
| "sliding cap win h (RAllow now key # cs) =
     (if in_window win h now key < cap then (key, now) # sliding cap win (h @ [(key, now)]) cs
      else sliding cap win h cs)"
| "sliding cap win h (RClean now # cs) = sliding cap win h cs"

text \<open>What the map remembers of a history: from \<open>seen\<close> on it answers every window the same.\<close>

definition remembers :: "rateLimiter \<Rightarrow> (string \<times> time) list \<Rightarrow> time \<Rightarrow> bool" where
  "remembers rl h seen \<longleftrightarrow> gwf (requests rl) \<and>
     (\<forall>key now. seen \<le> now \<longrightarrow> recent now rl (instants key rl) = recent now rl (times_of key h))"

lemma recent_recent: "now \<le> now' \<Longrightarrow> recent now' rl (recent now rl ts) = recent now' rl ts"
  unfolding recent_def filter_filter by (rule filter_cong) (auto simp: gotime_simps)

lemma times_of_snoc: "times_of k (h @ [(key, now)]) = times_of k h @ (if k = key then [now] else [])"
  by (simp add: times_of_def)

lemma instants_put: "instants k (rl\<lparr>requests := gput (requests rl) key ts\<rparr>) = (if k = key then ts else instants k rl)"
  by (simp add: instants_def gomap_simps)

lemma recent_upd [simp]: "recent now (rl\<lparr>requests := m\<rparr>) ts = recent now rl ts"
  by (simp add: recent_def)

lemma recent_Nil [simp]: "recent now rl [] = []"
  by (simp add: recent_def)

lemma recent_append: "recent now rl (xs @ ys) = recent now rl xs @ recent now rl ys"
  by (simp add: recent_def)

lemma remembers_put:
  assumes r: "remembers rl h seen" and "seen \<le> now" and "ts = recent now rl (instants key rl)"
  shows "remembers (rl\<lparr>requests := gput (requests rl) key ts\<rparr>) h now"
    and "remembers (rl\<lparr>requests := gput (requests rl) key (ts @ [now])\<rparr>) (h @ [(key, now)]) now"
proof -
  have w: "gwf (requests rl)" and a: "\<And>k u. seen \<le> u \<Longrightarrow> recent u rl (instants k rl) = recent u rl (times_of k h)"
    using r by (simp_all add: remembers_def)
  have t: "recent u rl ts = recent u rl (times_of key h)" if "now \<le> u" for u
    unfolding assms(3) recent_recent [OF that] using a [of u key] assms(2) that by simp
  show "remembers (rl\<lparr>requests := gput (requests rl) key ts\<rparr>) h now"
    unfolding remembers_def instants_put using w a t assms(2) by (auto intro: gwf_gput)
  show "remembers (rl\<lparr>requests := gput (requests rl) key (ts @ [now])\<rparr>) (h @ [(key, now)]) now"
    unfolding remembers_def instants_put times_of_snoc using w a t assms(2) by (auto intro: gwf_gput simp: recent_append)
qed

lemma gget_map_values: "gget (map (\<lambda>(k, v). (k, f v)) m) key = map_option f (gget m key)"
  by (induction m) (auto simp: gomap_simps)

lemma remembers_cleanup:
  assumes "remembers rl h seen" and "seen \<le> now"
  shows "remembers (rl_cleanup now rl) h now"
proof -
  let ?m = "map (\<lambda>(key, ts). (key, recent now rl ts)) (requests rl)"
  have "map fst (map (\<lambda>(key, ts). (key, recent now rl ts)) m) = map fst m" for m :: "(string, time list) gomap"
    by (induction m) auto
  then have w: "gwf ?m" using assms(1) by (simp only: remembers_def gwf_def)
  have i: "instants key (rl_cleanup now rl) = recent now rl (instants key rl)" for key
  proof -
    have "gget (requests (rl_cleanup now rl)) key =
        (case gget ?m key of None \<Rightarrow> None | Some ts \<Rightarrow> if ts \<noteq> [] then Some ts else None)"
      unfolding rl_cleanup_def by (simp add: gget_gfilter [OF w])
    also have "gget ?m key = map_option (recent now rl) (gget (requests rl) key)" by (rule gget_map_values)
    finally show ?thesis unfolding instants_def by (cases "gget (requests rl) key") (auto simp: recent_def)
  qed
  have "gwf (requests (rl_cleanup now rl))" unfolding rl_cleanup_def using gwf_gfilter [OF w] by simp
  moreover have "recent u (rl_cleanup now rl) ts = recent u rl ts" for u ts by (simp add: rl_cleanup_def)
  ultimately show ?thesis using assms unfolding remembers_def i by (auto simp: recent_recent)
qed

lemma limiter_config [simp]:
  "limit (snd (rl_Allow now key rl)) = limit rl" "window (snd (rl_Allow now key rl)) = window rl"
  "limit (rl_cleanup now rl) = limit rl" "window (rl_cleanup now rl) = window rl"
  by (simp_all add: rl_Allow_def rl_cleanup_def Let_def)

lemma in_window_recent: "in_window (window rl) h now key = int (length (recent now rl (times_of key h)))"
  by (simp add: in_window_def recent_def gotime_simps)

lemma admissions_sliding:
  assumes "remembers rl h seen" and "sorted (seen # map rl_time cs)"
  shows "admissions cs rl = sliding (limit rl) (window rl) h cs"
  using assms
proof (induction cs arbitrary: rl h seen)
  case (Cons c cs)
  show ?case
  proof (cases c)
    case (RAllow now key)
    then have n: "seen \<le> now" "sorted (now # map rl_time cs)" using Cons.prems(2) by auto
    have e: "recent now rl (instants key rl) = recent now rl (times_of key h)"
      using Cons.prems(1) n(1) by (simp add: remembers_def)
    note p = remembers_put [OF Cons.prems(1) n(1), of "recent now rl (instants key rl)" key, OF HOL.refl]
    note q = Cons.IH [OF p(1) n(2)] Cons.IH [OF p(2) n(2)]
    show ?thesis using q RAllow by (simp add: rl_Allow_def Let_def in_window_recent e)
  next
    case (RClean now)
    then have n: "seen \<le> now" "sorted (now # map rl_time cs)" using Cons.prems(2) by auto
    show ?thesis using Cons.IH [OF remembers_cleanup [OF Cons.prems(1) n(1)] n(2)] RClean by simp
  qed
qed simp

text \<open>
  The limiter is a sliding window: for calls and cleanups in the order of the clock it admits
  exactly the calls that find fewer than \<open>cap\<close> admissions of their key in the window before them.
  Cleanups have no effect on admission.
\<close>

theorem limiter_is_sliding_window:
  assumes "sorted (map rl_time cs)"
  shows "admissions cs (newRateLimiter cap win) = sliding cap win [] cs"
proof (cases cs)
  case (Cons c cs')
  have "remembers (newRateLimiter cap win) [] (rl_time c)"
    by (simp add: remembers_def newRateLimiter_def instants_def times_of_def)
  then show ?thesis
    using admissions_sliding [of "newRateLimiter cap win" "[]" "rl_time c" cs] assms Cons by (simp add: newRateLimiter_def)
qed simp

theorem limiter_is_sliding_window_witness:
  "admissions [RAllow 0 ''a'', RAllow 1 ''a'', RAllow 2 ''a'', RClean 5, RAllow 10 ''a''] (newRateLimiter 2 10) =
     [(''a'', 0), (''a'', 1), (''a'', 10)]"
proof -
  have "sorted (map rl_time [RAllow 0 ''a'', RAllow 1 ''a'', RAllow 2 ''a'', RClean 5, RAllow 10 ''a''])" by simp
  from limiter_is_sliding_window [OF this, of 2 10] show ?thesis by (simp add: in_window_def times_of_def)
qed

section \<open>The bound, and how to evade it\<close>

definition window_bounded :: "int \<Rightarrow> duration \<Rightarrow> (string \<times> time) list \<Rightarrow> bool" where
  "window_bounded cap win h \<longleftrightarrow>
     (\<forall>key t. int (length (filter (\<lambda>u. t - win < u \<and> u \<le> t) (times_of key h))) \<le> cap)"

lemma window_bounded_snoc:
  assumes "window_bounded cap win h" and "\<forall>(k, t) \<in> set h. t \<le> now" and "in_window win h now key < cap"
  shows "window_bounded cap win (h @ [(key, now)])"
  unfolding window_bounded_def
proof (intro allI)
  fix k t
  show "int (length (filter (\<lambda>u. t - win < u \<and> u \<le> t) (times_of k (h @ [(key, now)])))) \<le> cap"
  proof (cases "k = key \<and> t - win < now \<and> now \<le> t")
    case True
    have "filter (\<lambda>u. t - win < u \<and> u \<le> t) (times_of key h) = filter (\<lambda>u. t - win < u \<and> u \<le> t) (filter (\<lambda>u. now - win < u) (times_of key h))"
      unfolding filter_filter by (rule filter_cong) (use True in auto)
    then have "length (filter (\<lambda>u. t - win < u \<and> u \<le> t) (times_of key h)) \<le> length (filter (\<lambda>u. now - win < u) (times_of key h))"
      by (metis length_filter_le)
    then show ?thesis using True assms(3) by (simp add: times_of_snoc in_window_def)
  next
    case False
    then have "filter (\<lambda>u. t - win < u \<and> u \<le> t) (times_of k (h @ [(key, now)])) = filter (\<lambda>u. t - win < u \<and> u \<le> t) (times_of k h)"
      by (auto simp: times_of_snoc)
    then show ?thesis using assms(1) by (simp add: window_bounded_def)
  qed
qed

lemma sliding_bounded:
  assumes "window_bounded cap win h" and "\<forall>(k, t) \<in> set h. t \<le> seen" and "sorted (seen # map rl_time cs)"
  shows "window_bounded cap win (h @ sliding cap win h cs)"
  using assms
proof (induction cs arbitrary: h seen)
  case (Cons c cs)
  show ?case
  proof (cases c)
    case (RAllow now key)
    then have n: "seen \<le> now" "sorted (now # map rl_time cs)" using Cons.prems(3) by auto
    have b: "\<forall>(k, t) \<in> set h. t \<le> now" using Cons.prems(2) n(1) by auto
    show ?thesis
    proof (cases "in_window win h now key < cap")
      case True
      have "\<forall>(k, t) \<in> set (h @ [(key, now)]). t \<le> now" using b by auto
      from Cons.IH [OF window_bounded_snoc [OF Cons.prems(1) b True] this n(2)] show ?thesis using True RAllow by simp
    next
      case False
      then show ?thesis using Cons.IH [OF Cons.prems(1) b n(2)] RAllow by simp
    qed
  next
    case (RClean now)
    then have "sorted (seen # map rl_time cs)" using Cons.prems(3) by auto
    then show ?thesis using Cons.IH [OF Cons.prems(1,2)] RClean by simp
  qed
qed simp

text \<open>
  No client key is admitted more than \<open>cap\<close> times within any window of the configured length,
  whatever calls and cleanups happen in the order of the clock.
\<close>

theorem window_never_exceeded:
  assumes "sorted (map rl_time cs)" and "0 \<le> cap"
  shows "int (length (filter (\<lambda>u. t - win < u \<and> u \<le> t) (times_of key (admissions cs (newRateLimiter cap win))))) \<le> cap"
proof (cases cs)
  case (Cons c cs')
  have "window_bounded cap win []" using assms(2) by (simp add: window_bounded_def times_of_def)
  then have "window_bounded cap win ([] @ sliding cap win [] cs)"
    by (rule sliding_bounded [of _ _ _ "rl_time c"]) (use assms(1) Cons in auto)
  moreover have "admissions cs (newRateLimiter cap win) = sliding cap win [] cs"
    using admissions_sliding [of "newRateLimiter cap win" "[]" "rl_time c" cs] assms(1) Cons
    by (simp add: newRateLimiter_def remembers_def instants_def times_of_def)
  ultimately show ?thesis by (simp add: window_bounded_def)
qed (simp add: times_of_def assms(2))

theorem window_never_exceeded_witness:
  "int (length (filter (\<lambda>u. (12 - 10 < u \<and> u \<le> (12 :: int))) (times_of ''a''
     (admissions [RAllow 0 ''a'', RAllow 4 ''a'', RAllow 5 ''a'', RAllow 12 ''a''] (newRateLimiter 2 10))))) \<le> 2"
  using window_never_exceeded [of "[RAllow 0 ''a'', RAllow 4 ''a'', RAllow 5 ''a'', RAllow 12 ''a'']" 2 12 10 "''a''"] by simp

text \<open>One client at one address sends requests with the given forwarding headers at one instant.\<close>

fun flood :: "time \<Rightarrow> string \<Rightarrow> string list \<Rightarrow> rateLimiter \<Rightarrow> int option list" where
  "flood now addr [] rl = []"
| "flood now addr (x # xs) rl =
     (case rateLimitMiddleware now addr x rl of (r, rl') \<Rightarrow> r # flood now addr xs rl')"

text \<open>
  The limit does not bind a client that chooses its key: requests of one address that carry
  pairwise different forwarding headers are all passed on, however many they are.
\<close>

theorem forwarded_header_evades_limit:
  assumes "1 \<le> limit rl" and "distinct xs" and "[] \<notin> set xs" and "\<forall>x \<in> set xs. gget (requests rl) x = None"
  shows "flood now addr xs rl = replicate (length xs) None"
  using assms
proof (induction xs arbitrary: rl)
  case (Cons x xs)
  have a: "rateLimitMiddleware now addr x rl = (None, rl\<lparr>requests := gput (requests rl) x [now]\<rparr>)"
    using Cons.prems by (auto simp: rateLimitMiddleware_def rl_Allow_def client_key_def instants_def recent_def)
  have "flood now addr xs (rl\<lparr>requests := gput (requests rl) x [now]\<rparr>) = replicate (length xs) None"
    by (rule Cons.IH) (use Cons.prems in \<open>auto simp: gomap_simps\<close>)
  then show ?case by (simp add: a)
qed simp

theorem forwarded_header_evades_limit_witness:
  "flood 7 ''10.0.0.1'' [''1'', ''2'', ''3''] (newRateLimiter 1 60) = [None, None, None]"
  using forwarded_header_evades_limit [of "newRateLimiter 1 60" "[''1'', ''2'', ''3'']" 7 "''10.0.0.1''"]
  by (simp add: newRateLimiter_def numeral_eq_Suc)

end
