(* ===== verification/Curated.thy ===== *)
theory Curated
  imports DeviceTypes "HOL-Library.Product_Lexorder" "HOL-Library.Multiset"
begin

text \<open>
  The curated device database: \<^verbatim>\<open>internal/probes/curated.go\<close> (its vendor rules are in the theory
  VendorRules) and the loader of the embedded bundles, \<^verbatim>\<open>internal/probes/embedded.go\<close>.

  The devices are a map from identifiers and three indexes map a hash, a platform and a video codec
  to lists of identifiers. Reading the directory and parsing JSON are outside the model: a load gets the
  devices of each file. A device pointer is the record it points to, and the database the only holder of
  the devices it stores. An operation reads the clock once, as \<open>now\<close>.
\<close>

section \<open>Devices and indexes\<close>

record KnownIssue =
  ki_ID :: string
  Title :: string
  Description :: string
  Severity :: string
  ki_Codecs :: "string list"
  ki_Containers :: "string list"
  Workaround :: string
  Resolved :: bool

record CuratedDevice =
  cd_ID :: string
  DeviceHash :: string
  cd_Name :: string
  cd_Manufacturer :: string
  cd_Model :: string
  cd_Platform :: string
  DeviceClass :: string
  Year :: int
  SoC :: string
  SoCAliases :: "string list"
  OSVersions :: "string list"
  Capabilities :: "DeviceCapabilities option"
  RecommendedProfile :: string
  KnownIssues :: "KnownIssue list"
  cd_Source :: string
  VotesUp :: int
  VotesDown :: int
  Verified :: bool
  Notes :: string
  cd_LastUpdated :: time
  CreatedAt :: time

record DatabaseStats =
  TotalDevices :: int
  VerifiedDevices :: int
  CommunityDevices :: int
  OfficialDevices :: int
  CuratedDevices :: int
  PlatformsCount :: int

type_synonym index = "(string, string list) gomap"

record CuratedDatabase =
  devices :: "(string, CuratedDevice) gomap"
  hashIndex :: index
  platformIndex :: index
  codecIndex :: index
  stats :: DatabaseStats

definition NewCuratedDatabase :: CuratedDatabase where
  "NewCuratedDatabase = \<lparr>devices = [], hashIndex = [], platformIndex = [], codecIndex = [],
     stats = \<lparr>TotalDevices = 0, VerifiedDevices = 0, CommunityDevices = 0, OfficialDevices = 0, CuratedDevices = 0,
              PlatformsCount = 0\<rparr>\<rparr>"

definition ids :: "index \<Rightarrow> string \<Rightarrow> string list" where
  "ids ix k = (case gget ix k of None \<Rightarrow> [] | Some l \<Rightarrow> l)"

definition index_add :: "string \<Rightarrow> string \<Rightarrow> index \<Rightarrow> index" where
  "index_add i k ix = gput ix k (ids ix k @ [i])"

definition index_remove :: "string \<Rightarrow> string \<Rightarrow> index \<Rightarrow> index" where
  "index_remove i k ix = (if i \<in> set (ids ix k) then gput ix k (remove1 i (ids ix k)) else ix)"

definition updateIndexes :: "CuratedDevice \<Rightarrow> CuratedDatabase \<Rightarrow> CuratedDatabase" where
  "updateIndexes d db = db\<lparr>
     hashIndex := (if DeviceHash d \<noteq> [] then index_add (cd_ID d) (DeviceHash d) (hashIndex db) else hashIndex db),
     platformIndex := index_add (cd_ID d) (ToLower (cd_Platform d)) (platformIndex db),
     codecIndex := (case Capabilities d of
         None \<Rightarrow> codecIndex db
       | Some c \<Rightarrow> fold (\<lambda>codec. index_add (cd_ID d) (ToLower codec)) (VideoCodecs c) (codecIndex db))\<rparr>"

definition generateDeviceID :: "time \<Rightarrow> CuratedDevice \<Rightarrow> string" where
  "generateDeviceID now d = ToLower (cd_Manufacturer d) @ ''-'' @ ToLower (cd_Model d) @ ''-'' @ ToLower (cd_Platform d)
     @ ''-'' @ Itoa now"

definition generateDeviceHash :: "CuratedDevice \<Rightarrow> string" where
  "generateDeviceHash d = Join ([ToLower (cd_Platform d), ToLower (cd_Manufacturer d), ToLower (cd_Model d)]
     @ (case Capabilities d of
          None \<Rightarrow> []
        | Some c \<Rightarrow> map (\<lambda>vc. ''v:'' @ vc) (VideoCodecs c) @ map (\<lambda>ac. ''a:'' @ ac) (AudioCodecs c))) ''|''"

section \<open>Statistics\<close>

definition countd :: "(CuratedDevice \<Rightarrow> bool) \<Rightarrow> CuratedDevice list \<Rightarrow> int" where
  "countd p ds = int (length (filter p ds))"

definition calculateStats :: "CuratedDatabase \<Rightarrow> CuratedDatabase" where
  "calculateStats db =
     (let ds = map snd (devices db)
      in db\<lparr>stats := \<lparr>TotalDevices = int (length (devices db)), VerifiedDevices = countd Verified ds,
         CommunityDevices = countd (\<lambda>d. ToLower (cd_Source d) = ''community'') ds,
         OfficialDevices = countd (\<lambda>d. ToLower (cd_Source d) = ''official'') ds,
         CuratedDevices = countd (\<lambda>d. ToLower (cd_Source d) = ''curated'') ds,
         PlatformsCount = int (length (remdups (map (\<lambda>d. ToLower (cd_Platform d)) ds)))\<rparr>\<rparr>)"

abbreviation GetStats :: "CuratedDatabase \<Rightarrow> DatabaseStats" where "GetStats db \<equiv> stats db"

section \<open>Changing the database\<close>

text \<open>What \<^verbatim>\<open>addDevice\<close> fills in.\<close>

definition complete :: "time \<Rightarrow> CuratedDevice \<Rightarrow> CuratedDevice" where
  "complete now d0 =
     (let d1 = (if cd_ID d0 = [] then d0\<lparr>cd_ID := generateDeviceID now d0\<rparr> else d0);
          d2 = (if DeviceHash d1 = [] then d1\<lparr>DeviceHash := generateDeviceHash d1\<rparr> else d1);
          d3 = (if IsZero (CreatedAt d2) then d2\<lparr>CreatedAt := now\<rparr> else d2)
      in if IsZero (cd_LastUpdated d3) then d3\<lparr>cd_LastUpdated := now\<rparr> else d3)"

definition store :: "CuratedDevice \<Rightarrow> CuratedDatabase \<Rightarrow> CuratedDatabase" where
  "store d db = updateIndexes d (db\<lparr>devices := gput (devices db) (cd_ID d) d\<rparr>)"

text \<open>The device that a new one with the same hash is compared with.\<close>

definition same_hash :: "string \<Rightarrow> CuratedDatabase \<Rightarrow> CuratedDevice option" where
  "same_hash h db = (case ids (hashIndex db) h of [] \<Rightarrow> None | i # _ \<Rightarrow> gget (devices db) i)"

definition add_device :: "time \<Rightarrow> CuratedDevice \<Rightarrow> CuratedDatabase \<Rightarrow> CuratedDatabase" where
  "add_device now d0 db =
     (let d = complete now d0
      in case same_hash (DeviceHash d) db of
           Some e \<Rightarrow>
             if Verified d \<or> VotesUp d > VotesUp e
             then store (d\<lparr>cd_ID := cd_ID e, CreatedAt := CreatedAt e, VotesUp := VotesUp e, VotesDown := VotesDown e,
                           Verified := Verified e \<or> Verified d\<rparr>) db
             else db
         | None \<Rightarrow> store d db)"

definition Load :: "time \<Rightarrow> CuratedDevice list list option \<Rightarrow> CuratedDatabase \<Rightarrow> CuratedDatabase" where
  "Load now files db = (case files of None \<Rightarrow> db | Some fs \<Rightarrow> calculateStats (fold (add_device now) (concat fs) db))"

definition AddDevice :: "time \<Rightarrow> CuratedDevice \<Rightarrow> CuratedDatabase \<Rightarrow> CuratedDatabase" where
  "AddDevice now d0 db =
     (let d1 = d0\<lparr>cd_ID := generateDeviceID now d0\<rparr>;
          d = d1\<lparr>DeviceHash := generateDeviceHash d1, CreatedAt := now, cd_LastUpdated := now\<rparr>
      in calculateStats (store d db))"

definition UpdateDevice :: "time \<Rightarrow> CuratedDevice \<Rightarrow> CuratedDatabase \<Rightarrow> string option \<times> CuratedDatabase" where
  "UpdateDevice now d db =
     (if cd_ID d = [] then (Some ''invalid device'', db)
      else if gget (devices db) (cd_ID d) = None then (Some (''device not found: '' @ cd_ID d), db)
      else (None, db\<lparr>devices := gput (devices db) (cd_ID d) (d\<lparr>cd_LastUpdated := now\<rparr>)\<rparr>))"

definition RemoveDevice :: "string \<Rightarrow> CuratedDatabase \<Rightarrow> string option \<times> CuratedDatabase" where
  "RemoveDevice i db =
     (case gget (devices db) i of
        None \<Rightarrow> (Some (''device not found: '' @ i), db)
      | Some d \<Rightarrow>
          (None, calculateStats (db\<lparr>
             hashIndex := (if DeviceHash d \<noteq> [] then index_remove i (DeviceHash d) (hashIndex db) else hashIndex db),
             platformIndex := index_remove i (ToLower (cd_Platform d)) (platformIndex db),
             devices := gdel (devices db) i\<rparr>)))"

definition Vote :: "time \<Rightarrow> string \<Rightarrow> bool \<Rightarrow> CuratedDatabase \<Rightarrow> string option \<times> CuratedDatabase" where
  "Vote now i up db =
     (case gget (devices db) i of
        None \<Rightarrow> (Some (''device not found: '' @ i), db)
      | Some d \<Rightarrow>
          let d1 = (if up then d\<lparr>VotesUp := VotesUp d + 1\<rparr> else d\<lparr>VotesDown := VotesDown d + 1\<rparr>)
          in (None, db\<lparr>devices := gput (devices db) i (d1\<lparr>cd_LastUpdated := now\<rparr>)\<rparr>))"

definition MarkVerified :: "time \<Rightarrow> string \<Rightarrow> CuratedDatabase \<Rightarrow> string option \<times> CuratedDatabase" where
  "MarkVerified now i db =
     (case gget (devices db) i of
        None \<Rightarrow> (Some (''device not found: '' @ i), db)
      | Some d \<Rightarrow> (None, db\<lparr>devices := gput (devices db) i (d\<lparr>Verified := True, cd_LastUpdated := now\<rparr>)\<rparr>))"

text \<open>The platform index gets the platform as it is spelt.\<close>

definition load_embedded :: "CuratedDevice \<Rightarrow> CuratedDatabase \<Rightarrow> CuratedDatabase" where
  "load_embedded d db =
     (let s = stats db
      in db\<lparr>devices := gput (devices db) (cd_ID d) d,
         hashIndex := (if DeviceHash d \<noteq> [] then index_add (cd_ID d) (DeviceHash d) (hashIndex db) else hashIndex db),
         platformIndex := (if cd_Platform d \<noteq> [] then index_add (cd_ID d) (cd_Platform d) (platformIndex db) else platformIndex db),
         stats := s\<lparr>TotalDevices := TotalDevices s + 1,
                    VerifiedDevices := VerifiedDevices s + (if Verified d then 1 else 0)\<rparr>\<rparr>)"

definition LoadFromEmbedded :: "CuratedDevice list \<Rightarrow> CuratedDatabase \<Rightarrow> CuratedDatabase" where
  "LoadFromEmbedded ds db0 =
     (let db = fold load_embedded ds db0 in db\<lparr>stats := (stats db)\<lparr>PlatformsCount := int (length (platformIndex db))\<rparr>\<rparr>)"

section \<open>Reading the database\<close>

definition GetByID :: "string \<Rightarrow> CuratedDatabase \<Rightarrow> CuratedDevice option" where
  "GetByID i db = gget (devices db) i"

definition GetByDeviceHash :: "string \<Rightarrow> CuratedDatabase \<Rightarrow> CuratedDevice option" where
  "GetByDeviceHash h db = (case ids (hashIndex db) h of [] \<Rightarrow> None | i # _ \<Rightarrow> gget (devices db) i)"

definition GetByPlatform :: "string \<Rightarrow> CuratedDatabase \<Rightarrow> CuratedDevice list" where
  "GetByPlatform p db = List.map_filter (gget (devices db)) (ids (platformIndex db) (ToLower p))"

definition GetByCodec :: "string \<Rightarrow> CuratedDatabase \<Rightarrow> CuratedDevice list" where
  "GetByCodec c db = List.map_filter (gget (devices db)) (ids (codecIndex db) (ToLower c))"

text \<open>Verified devices first, then by votes. Go's sort leaves the order of equals open; here they keep theirs.\<close>

definition rank :: "CuratedDevice \<Rightarrow> bool \<times> int" where
  "rank d = (\<not> Verified d, - (VotesUp d - VotesDown d))"

definition sortDevices :: "CuratedDevice list \<Rightarrow> CuratedDevice list" where
  "sortDevices ds = sort_key rank ds"

definition GetAll :: "CuratedDatabase \<Rightarrow> CuratedDevice list" where
  "GetAll db = sortDevices (map snd (devices db))"

definition Count :: "CuratedDatabase \<Rightarrow> int" where
  "Count db = int (length (devices db))"

record SearchCriteria =
  sc_Platform :: string
  sc_Manufacturer :: string
  sc_Model :: string
  sc_VideoCodec :: string
  sc_AudioCodec :: string
  HasHDR :: "bool option"
  HasDV :: "bool option"
  VerifiedOnly :: bool
  sc_Source :: string

text \<open>What a criterion reads of a device without capabilities is a nil dereference: no result at all.\<close>

definition matchesCriteria :: "CuratedDevice \<Rightarrow> SearchCriteria \<Rightarrow> bool option" where
  "matchesCriteria d c =
     (if sc_Platform c \<noteq> [] \<and> \<not> EqualFold (cd_Platform d) (sc_Platform c) then Some False
      else if sc_Manufacturer c \<noteq> [] \<and> \<not> EqualFold (cd_Manufacturer d) (sc_Manufacturer c) then Some False
      else if sc_Model c \<noteq> [] \<and> \<not> Contains (ToLower (cd_Model d)) (ToLower (sc_Model c)) then Some False
      else let rest = (\<not> (VerifiedOnly c \<and> \<not> Verified d) \<and> \<not> (sc_Source c \<noteq> [] \<and> \<not> EqualFold (cd_Source d) (sc_Source c)))
           in if sc_VideoCodec c = [] \<and> sc_AudioCodec c = [] \<and> HasHDR c = None \<and> HasDV c = None then Some rest
              else case Capabilities d of
                None \<Rightarrow> None
              | Some caps \<Rightarrow>
                  Some ((sc_VideoCodec c \<noteq> [] \<longrightarrow> list_ex (\<lambda>v. EqualFold v (sc_VideoCodec c)) (VideoCodecs caps))
                    \<and> (sc_AudioCodec c \<noteq> [] \<longrightarrow> list_ex (\<lambda>a. EqualFold a (sc_AudioCodec c)) (AudioCodecs caps))
                    \<and> (case HasHDR c of None \<Rightarrow> True | Some b \<Rightarrow> b = SupportsHDR caps)
                    \<and> (case HasDV c of None \<Rightarrow> True | Some b \<Rightarrow> b = SupportsDolbyVision caps) \<and> rest))"

definition Search :: "SearchCriteria \<Rightarrow> CuratedDatabase \<Rightarrow> CuratedDevice list option" where
  "Search c db =
     (let ds = map snd (devices db)
      in if list_ex (\<lambda>d. matchesCriteria d c = None) ds then None
         else Some (sortDevices (filter (\<lambda>d. matchesCriteria d c = Some True) ds)))"

definition GetRecommendedProfile :: "CuratedDevice \<Rightarrow> string" where
  "GetRecommendedProfile d =
     (case Capabilities d of
        None \<Rightarrow> []
      | Some c \<Rightarrow>
          if RecommendedProfile d \<noteq> [] then RecommendedProfile d
          else if MaxWidth c \<ge> 3840 \<and> MaxHeight c \<ge> 2160
          then (if SupportsHDR c \<or> SupportsDolbyVision c then ''ultra_hd_hdr'' else ''ultra_hd'')
          else if MaxWidth c \<ge> 1920 \<and> MaxHeight c \<ge> 1080 then (if SupportsHDR c then ''full_hd_hdr'' else ''full_hd'')
          else if MaxWidth c \<ge> 1280 \<and> MaxHeight c \<ge> 720 then ''hd'' else ''sd'')"

definition GetKnownIssues :: "CuratedDevice option \<Rightarrow> KnownIssue list" where
  "GetKnownIssues d = (case d of None \<Rightarrow> [] | Some d \<Rightarrow> KnownIssues d)"

definition HasKnownIssues :: "CuratedDevice option \<Rightarrow> bool" where
  "HasKnownIssues d \<longleftrightarrow> GetKnownIssues d \<noteq> []"

definition GetWorkaround :: "CuratedDevice option \<Rightarrow> string \<Rightarrow> string" where
  "GetWorkaround d code = (case find (\<lambda>i. ki_ID i = code) (GetKnownIssues d) of None \<Rightarrow> [] | Some i \<Rightarrow> Workaround i)"

section \<open>The indexes find every device\<close>

definition indexed :: "CuratedDatabase \<Rightarrow> CuratedDevice \<Rightarrow> bool" where
  "indexed db d \<longleftrightarrow> cd_ID d \<in> set (ids (platformIndex db) (ToLower (cd_Platform d)))
     \<and> (DeviceHash d \<noteq> [] \<longrightarrow> cd_ID d \<in> set (ids (hashIndex db) (DeviceHash d)))
     \<and> (\<forall>c. Capabilities d = Some c \<longrightarrow> (\<forall>v\<in>set (VideoCodecs c). cd_ID d \<in> set (ids (codecIndex db) (ToLower v))))"

definition db_inv :: "CuratedDatabase \<Rightarrow> bool" where
  "db_inv db \<longleftrightarrow> gwf (devices db) \<and> (\<forall>i d. gget (devices db) i = Some d \<longrightarrow> cd_ID d = i \<and> indexed db d)"

lemma ids_add [simp]: "ids (index_add i k ix) j = (if j = k then ids ix k @ [i] else ids ix j)"
  by (auto simp: ids_def index_add_def gomap_simps)

lemma ids_remove [simp]: "ids (index_remove i k ix) j = (if j = k then remove1 i (ids ix k) else ids ix j)"
  by (auto simp: ids_def index_remove_def gomap_simps remove1_idem)

lemma ids_adds: "set (ids (fold (\<lambda>c. index_add i (f c)) cs ix) j) = set (ids ix j) \<union> (if j \<in> f ` set cs then {i} else {})"
  by (induction cs arbitrary: ix) auto

lemma indexed_mono:
  assumes "indexed db d" and "\<And>k. set (ids (platformIndex db) k) \<inter> {cd_ID d} \<subseteq> set (ids (platformIndex db') k)"
    and "\<And>k. set (ids (hashIndex db) k) \<inter> {cd_ID d} \<subseteq> set (ids (hashIndex db') k)"
    and "\<And>k. set (ids (codecIndex db) k) \<inter> {cd_ID d} \<subseteq> set (ids (codecIndex db') k)"
  shows "indexed db' d"
  using assms unfolding indexed_def by blast

lemma updateIndexes_devices [simp]: "devices (updateIndexes d db) = devices db" "stats (updateIndexes d db) = stats db"
  by (simp_all add: updateIndexes_def)

lemma updateIndexes_grows:
  "set (ids (platformIndex db) k) \<subseteq> set (ids (platformIndex (updateIndexes d db)) k)"
  "set (ids (hashIndex db) k) \<subseteq> set (ids (hashIndex (updateIndexes d db)) k)"
  "set (ids (codecIndex db) k) \<subseteq> set (ids (codecIndex (updateIndexes d db)) k)"
  by (auto simp: updateIndexes_def ids_adds split: option.splits)

lemma updateIndexes_indexed: "indexed (updateIndexes d db) d"
  by (auto simp: indexed_def updateIndexes_def ids_adds split: option.splits)

lemma indexed_keep:
  "indexed db e \<Longrightarrow> platformIndex db' = platformIndex db \<Longrightarrow> hashIndex db' = hashIndex db \<Longrightarrow> codecIndex db' = codecIndex db
    \<Longrightarrow> indexed db' e"
  by (simp add: indexed_def)

lemma indexed_updateIndexes: "indexed db e \<Longrightarrow> indexed (updateIndexes d db) e"
  by (rule indexed_mono) (use updateIndexes_grows in blast)+

lemma db_inv_store:
  assumes "db_inv db"
  shows "db_inv (store d db)"
proof -
  have ok: "cd_ID e = i \<and> indexed (store d db) e" if "gget (devices (store d db)) i = Some e" for i e
  proof (cases "i = cd_ID d")
    case True
    then show ?thesis using that by (simp add: store_def gomap_simps updateIndexes_indexed)
  next
    case False
    then have "gget (devices db) i = Some e" using that by (simp add: store_def gomap_simps)
    then have "cd_ID e = i" "indexed db e" using assms by (auto simp: db_inv_def)
    moreover from this(2) have "indexed (store d db) e"
      unfolding store_def by (intro indexed_updateIndexes) (simp add: indexed_def)
    ultimately show ?thesis by simp
  qed
  have "gwf (devices (store d db))" using assms by (simp add: db_inv_def store_def gomap_simps)
  then show ?thesis unfolding db_inv_def using ok by blast
qed

lemma db_inv_stats: "db_inv (db\<lparr>stats := s\<rparr>) = db_inv db"
  by (simp add: db_inv_def indexed_def)

lemma db_inv_calculateStats [simp]: "db_inv (calculateStats db) = db_inv db"
  by (simp add: calculateStats_def db_inv_stats Let_def)

lemma db_inv_add_device: "db_inv db \<Longrightarrow> db_inv (add_device now d db)"
  by (auto simp: add_device_def Let_def db_inv_store split: option.splits)

text \<open>A change of a stored device that the indexes do not depend on.\<close>

lemma db_inv_touch:
  assumes "db_inv db" and "gget (devices db) i = Some d" and "cd_ID e = cd_ID d" "cd_Platform e = cd_Platform d"
    "DeviceHash e = DeviceHash d" "Capabilities e = Capabilities d"
  shows "db_inv (db\<lparr>devices := gput (devices db) i e\<rparr>)"
proof -
  have "cd_ID d = i" "indexed db d" using assms(1,2) by (auto simp: db_inv_def)
  then have "cd_ID e = i" "indexed (db\<lparr>devices := gput (devices db) i e\<rparr>) e" using assms(3-6) by (simp_all add: indexed_def)
  moreover have "indexed (db\<lparr>devices := gput (devices db) i e\<rparr>) x" if "indexed db x" for x
    using that by (simp add: indexed_def)
  ultimately show ?thesis using assms(1) by (auto simp: db_inv_def gomap_simps)
qed

lemma db_inv_remove:
  assumes "db_inv db"
  shows "db_inv (snd (RemoveDevice i db))"
proof (cases "gget (devices db) i")
  case (Some d)
  have "cd_ID e = j \<and> indexed (snd (RemoveDevice i db)) e" if "gget (devices db) j = Some e" "j \<noteq> i" for j e
  proof -
    have e: "cd_ID e = j" "indexed db e" using that assms by (auto simp: db_inv_def)
    have "indexed (snd (RemoveDevice i db)) e"
      by (rule indexed_mono [OF e(2)]) (use e(1) that(2) in \<open>auto simp: RemoveDevice_def Some calculateStats_def Let_def\<close>)
    then show ?thesis using e(1) by simp
  qed
  then show ?thesis using assms
    by (auto simp: RemoveDevice_def Some db_inv_def gomap_simps calculateStats_def Let_def)
qed (use assms in \<open>simp add: RemoveDevice_def\<close>)

datatype db_call =
    CLoad time "CuratedDevice list list option" | CAdd time CuratedDevice | CRemove string | CVote time string bool
  | CVerify time string

fun db_step :: "db_call \<Rightarrow> CuratedDatabase \<Rightarrow> CuratedDatabase" where
  "db_step (CLoad now files) db = Load now files db"
| "db_step (CAdd now d) db = AddDevice now d db"
| "db_step (CRemove i) db = snd (RemoveDevice i db)"
| "db_step (CVote now i up) db = snd (Vote now i up db)"
| "db_step (CVerify now i) db = snd (MarkVerified now i db)"

lemma db_inv_step:
  assumes "db_inv db"
  shows "db_inv (db_step c db)"
proof (cases c)
  case (CLoad now files)
  have "db_inv (fold (add_device now) ds db)" for ds
    using assms by (induction ds arbitrary: db) (auto intro: db_inv_add_device)
  then show ?thesis using assms CLoad by (simp add: Load_def split: option.splits)
next
  case (CAdd now d)
  then show ?thesis using assms by (simp add: AddDevice_def Let_def db_inv_store)
next
  case (CRemove i)
  then show ?thesis using assms db_inv_remove by simp
next
  case (CVote now i up)
  then show ?thesis using assms by (auto simp: Vote_def Let_def split: option.splits intro!: db_inv_touch)
next
  case (CVerify now i)
  then show ?thesis using assms by (auto simp: MarkVerified_def split: option.splits intro!: db_inv_touch)
qed

lemma db_inv_run: "db_inv (fold db_step cs NewCuratedDatabase)"
proof (induction cs rule: rev_induct)
  case Nil
  show ?case by (simp add: db_inv_def NewCuratedDatabase_def)
qed (simp add: db_inv_step)

lemma mem_map_filter: "x \<in> set (List.map_filter f xs) \<longleftrightarrow> (\<exists>y\<in>set xs. f y = Some x)"
  by (induction xs) (auto simp: List.map_filter_simps split: option.splits)

lemma map_filter_append: "List.map_filter f (xs @ ys) = List.map_filter f xs @ List.map_filter f ys"
  by (simp add: List.map_filter_def)

text \<open>
  Whatever is loaded, added, removed, voted on and verified, in any order, no device is lost to the
  indexed lookups: a stored device is found under its identifier, under its platform and under each of its
  video codecs, in any spelling of their case, and lookups return stored devices only.
\<close>

theorem lookups_are_complete:
  assumes "gget (devices db) i = Some d" and "db = fold db_step cs NewCuratedDatabase"
  shows "GetByID (cd_ID d) db = Some d \<and> (\<forall>p. EqualFold p (cd_Platform d) \<longrightarrow> d \<in> set (GetByPlatform p db))
    \<and> (\<forall>c v v'. Capabilities d = Some c \<and> v \<in> set (VideoCodecs c) \<and> EqualFold v v' \<longrightarrow> d \<in> set (GetByCodec v' db))
    \<and> (\<forall>p e. e \<in> set (GetByPlatform p db) \<longrightarrow> GetByID (cd_ID e) db = Some e)"
proof -
  have inv: "db_inv db" using assms(2) db_inv_run by simp
  have i: "cd_ID d = i" "indexed db d" using inv assms(1) by (auto simp: db_inv_def)
  have again: "gget (devices db) (cd_ID e) = Some e" if "gget (devices db) j = Some e" for j e
    using inv that by (auto simp: db_inv_def)
  have codec: "cd_ID d \<in> set (ids (codecIndex db) (ToLower v'))"
    if "Capabilities d = Some c" "v \<in> set (VideoCodecs c)" "ToLower v = ToLower v'" for c v v'
    using i(2) that unfolding indexed_def by metis
  show ?thesis
    using i assms(1) again codec
    by (auto simp: GetByID_def GetByPlatform_def GetByCodec_def mem_map_filter indexed_def EqualFold_def)
qed

definition blank_device :: CuratedDevice where
  "blank_device = \<lparr>cd_ID = [], DeviceHash = [], cd_Name = [], cd_Manufacturer = [], cd_Model = [], cd_Platform = [],
     DeviceClass = [], Year = 0, SoC = [], SoCAliases = [], OSVersions = [], Capabilities = None, RecommendedProfile = [],
     KnownIssues = [], cd_Source = [], VotesUp = 0, VotesDown = 0, Verified = False, Notes = [], cd_LastUpdated = zeroTime,
     CreatedAt = zeroTime\<rparr>"

definition sample_device :: CuratedDevice where
  "sample_device = blank_device\<lparr>cd_ID := ''tv1'', DeviceHash := ''h'', cd_Platform := ''Tizen'', Verified := True,
     Capabilities := Some (zeroCapabilities\<lparr>VideoCodecs := [''H264'']\<rparr>)\<rparr>"

theorem lookups_are_complete_witness:
  "\<exists>db d. GetByPlatform ''TIZEN'' db \<noteq> [] \<and> d \<in> set (GetByPlatform ''TIZEN'' db) \<and> d \<in> set (GetByCodec ''h264'' db)"
proof -
  define db where "db = fold db_step [CLoad 5 (Some [[sample_device]])] NewCuratedDatabase"
  have "gget (devices db) ''tv1'' \<noteq> None" unfolding db_def by code_simp
  then obtain d where d: "gget (devices db) ''tv1'' = Some d" by blast
  have p: "EqualFold ''TIZEN'' (cd_Platform (the (gget (devices db) ''tv1'')))"
    "Capabilities (the (gget (devices db) ''tv1'')) = Some (zeroCapabilities\<lparr>VideoCodecs := [''H264'']\<rparr>)"
    unfolding db_def by code_simp+
  have "EqualFold ''H264'' ''h264''" by code_simp
  then have "d \<in> set (GetByPlatform ''TIZEN'' db) \<and> d \<in> set (GetByCodec ''h264'' db)"
    using lookups_are_complete [OF d db_def] p d by auto
  then show ?thesis by (metis empty_iff empty_set)
qed

lemma map_filter_gput:
  assumes "\<And>j e. gget m j = Some e \<Longrightarrow> cd_ID e = j" and "gget m (cd_ID d) \<noteq> None"
  shows "map cd_ID (List.map_filter (gget (gput m (cd_ID d) d)) l) = map cd_ID (List.map_filter (gget m) l)"
  using assms by (induction l) (auto simp: List.map_filter_simps gomap_simps split: option.splits)

text \<open>
  An update replaces the stored device and nothing else: no lookup by platform, codec or hash finds
  other identifiers than before it, so a device whose platform or codecs change is still found under the old
  ones and not under the new.
\<close>

theorem update_leaves_the_indexes:
  assumes "db = fold db_step cs NewCuratedDatabase" and "UpdateDevice now d db = (None, db')"
  shows "GetByID (cd_ID d) db' = Some (d\<lparr>cd_LastUpdated := now\<rparr>)
    \<and> map cd_ID (GetByPlatform p db') = map cd_ID (GetByPlatform p db)
    \<and> map cd_ID (GetByCodec c db') = map cd_ID (GetByCodec c db)
    \<and> map_option cd_ID (GetByDeviceHash h db') = map_option cd_ID (GetByDeviceHash h db)"
proof -
  define e where "e = d\<lparr>cd_LastUpdated := now\<rparr>"
  have db': "db' = db\<lparr>devices := gput (devices db) (cd_ID e) e\<rparr>" "gget (devices db) (cd_ID e) \<noteq> None" "cd_ID e = cd_ID d"
    using assms(2) by (auto simp: UpdateDevice_def e_def split: if_splits)
  have keyed: "cd_ID x = j" if "gget (devices db) j = Some x" for j x
    using that db_inv_run assms(1) unfolding db_inv_def by blast
  note ids = map_filter_gput [of "devices db" e, OF keyed db'(2)]
  have "map_option cd_ID (gget (gput (devices db) (cd_ID e) e) i) = map_option cd_ID (gget (devices db) i)" for i
    using keyed db'(2) by (auto simp: gomap_simps)
  then show ?thesis
    using ids db' by (simp add: GetByID_def GetByPlatform_def GetByCodec_def GetByDeviceHash_def gomap_simps e_def split: list.splits)
qed

theorem update_leaves_the_indexes_witness:
  "map cd_ID (GetByPlatform ''tizen'' (snd (UpdateDevice 9 (sample_device\<lparr>cd_Platform := ''Roku''\<rparr>)
     (fold db_step [CLoad 5 (Some [[sample_device]])] NewCuratedDatabase)))) = [''tv1'']"
proof -
  define db where "db = fold db_step [CLoad 5 (Some [[sample_device]])] NewCuratedDatabase"
  define d where "d = sample_device\<lparr>cd_Platform := ''Roku''\<rparr>"
  have "fst (UpdateDevice 9 d db) = None" unfolding db_def d_def by code_simp
  then obtain db' where u: "UpdateDevice 9 d db = (None, db')" by (metis prod.collapse)
  have "map cd_ID (GetByPlatform ''tizen'' db) = [''tv1'']" unfolding db_def by code_simp
  then have "map cd_ID (GetByPlatform ''tizen'' db') = [''tv1'']"
    using update_leaves_the_indexes [OF db_def u] by simp
  then show ?thesis unfolding db_def [symmetric] d_def [symmetric] u snd_conv .
qed

text \<open>
  Loading a device again with better votes or verified appends its identifier to the indexes once more:
  lookups by platform return it twice, and once it is removed, the leftover entry hides every device that is
  loaded later with the same hash.
\<close>

theorem reloaded_devices_are_indexed_twice:
  assumes "db = fold db_step cs NewCuratedDatabase" and "ids (hashIndex db) (DeviceHash (complete now d)) = [i]"
    and "gget (devices db) i = Some e" and "Verified d \<or> VotesUp e < VotesUp d"
    and "ToLower (cd_Platform d) = ToLower p" and "DeviceHash (complete now d) \<noteq> []"
    and "DeviceHash (complete t x) = DeviceHash (complete now d)" and "cd_ID (complete t x) \<noteq> i"
  shows "map cd_ID (GetByPlatform p (add_device now d db)) = map cd_ID (GetByPlatform p db) @ [i]
    \<and> GetByID (cd_ID (complete t x)) (add_device t x (snd (RemoveDevice i (add_device now d db)))) = Some (complete t x)
    \<and> GetByDeviceHash (DeviceHash (complete now d)) (add_device t x (snd (RemoveDevice i (add_device now d db)))) = None"
proof -
  have keyed: "cd_ID y = j" if "gget (devices db) j = Some y" for j y
    using that db_inv_run assms(1) unfolding db_inv_def by blast
  define c where "c = complete now d"
  define n where "n = c\<lparr>cd_ID := cd_ID e, CreatedAt := CreatedAt e, VotesUp := VotesUp e, VotesDown := VotesDown e,
                           Verified := Verified e \<or> Verified c\<rparr>"
  have c: "Verified c = Verified d" "VotesUp c = VotesUp d" "cd_Platform c = cd_Platform d"
    by (simp_all add: c_def complete_def Let_def)
  have n: "cd_ID n = i" "DeviceHash n = DeviceHash c" "ToLower (cd_Platform n) = ToLower p"
    using keyed [OF assms(3)] c assms(5) by (simp_all add: n_def)
  have "same_hash (DeviceHash c) db = Some e" using assms(2,3) by (simp add: same_hash_def c_def)
  then have add: "add_device now d db = store n db" using assms(4) c by (simp add: add_device_def n_def flip: c_def)
  define r where "r = snd (RemoveDevice i (store n db))"
  have "gget (devices (store n db)) i = Some n" using n by (simp add: store_def gomap_simps)
  then have r: "ids (hashIndex r) (DeviceHash c) = [i]" "gget (devices r) i = None"
    using n assms(2,6) by (simp_all add: r_def RemoveDevice_def calculateStats_def Let_def store_def updateIndexes_def gomap_simps flip: c_def)
  have x: "add_device t x r = store (complete t x) r"
    using r assms(7) by (simp add: add_device_def same_hash_def Let_def flip: c_def)
  have "gget (devices (store (complete t x) r)) i = None" "ids (hashIndex (store (complete t x) r)) (DeviceHash c) = [i, cd_ID (complete t x)]"
    using r assms(6,7,8) by (simp_all add: store_def updateIndexes_def gomap_simps flip: c_def)
  then have hidden: "GetByDeviceHash (DeviceHash c) (store (complete t x) r) = None" by (simp add: GetByDeviceHash_def)
  have "GetByID (cd_ID (complete t x)) (store (complete t x) r) = Some (complete t x)"
    by (simp add: GetByID_def store_def gomap_simps)
  moreover have "map cd_ID (GetByPlatform p (store n db)) = map cd_ID (GetByPlatform p db) @ [i]"
    using n keyed map_filter_gput [of "devices db" n] assms(3)
    by (simp add: GetByPlatform_def store_def updateIndexes_def map_filter_append List.map_filter_simps gomap_simps)
  ultimately show ?thesis using hidden add x unfolding c_def [symmetric] by (simp flip: r_def)
qed

theorem reloaded_devices_are_indexed_twice_witness:
  "map cd_ID (GetByPlatform ''tizen'' (add_device 6 sample_device (fold db_step [CLoad 5 (Some [[sample_device]])] NewCuratedDatabase)))
   = [''tv1'', ''tv1'']"
proof -
  define db where "db = fold db_step [CLoad 5 (Some [[sample_device]])] NewCuratedDatabase"
  have 1: "ids (hashIndex db) (DeviceHash (complete 6 sample_device)) = [''tv1'']" "gget (devices db) ''tv1'' \<noteq> None"
    "map cd_ID (GetByPlatform ''tizen'' db) = [''tv1'']"
    unfolding db_def by code_simp+
  then obtain e where e: "gget (devices db) ''tv1'' = Some e" by blast
  have 2: "Verified sample_device" "ToLower (cd_Platform sample_device) = ToLower ''tizen''" "DeviceHash (complete 6 sample_device) \<noteq> []"
    "DeviceHash (complete 7 (sample_device\<lparr>cd_ID := ''tv2''\<rparr>)) = DeviceHash (complete 6 sample_device)"
    "cd_ID (complete 7 (sample_device\<lparr>cd_ID := ''tv2''\<rparr>)) \<noteq> ''tv1''"
    by code_simp+
  show ?thesis
    using reloaded_devices_are_indexed_twice [OF db_def 1(1) e disjI1 [OF 2(1)] 2(2-5)] 1(3) unfolding db_def by simp
qed

section \<open>Search\<close>

lemma matchesCriteria_None:
  "matchesCriteria d c = None \<longleftrightarrow> Capabilities d = None
     \<and> (sc_VideoCodec c \<noteq> [] \<or> sc_AudioCodec c \<noteq> [] \<or> HasHDR c \<noteq> None \<or> HasDV c \<noteq> None)
     \<and> (sc_Platform c \<noteq> [] \<longrightarrow> EqualFold (cd_Platform d) (sc_Platform c))
     \<and> (sc_Manufacturer c \<noteq> [] \<longrightarrow> EqualFold (cd_Manufacturer d) (sc_Manufacturer c))
     \<and> (sc_Model c \<noteq> [] \<longrightarrow> Contains (ToLower (cd_Model d)) (ToLower (sc_Model c)))"
  by (auto simp: matchesCriteria_def Let_def split: option.splits)

text \<open>
  A search returns exactly the stored devices that match, each once, verified ones first and within
  each group the ones with the better vote score first. It returns nothing at all, the nil dereference, exactly
  when a criterion on codecs, HDR or Dolby Vision is set and a device without capabilities passes the criteria
  on platform, manufacturer and model.
\<close>

theorem search_is_exact_and_ranked:
  "(Search c db = None \<longleftrightarrow>
      (\<exists>d \<in> snd ` set (devices db). Capabilities d = None
         \<and> (sc_VideoCodec c \<noteq> [] \<or> sc_AudioCodec c \<noteq> [] \<or> HasHDR c \<noteq> None \<or> HasDV c \<noteq> None)
         \<and> (sc_Platform c \<noteq> [] \<longrightarrow> EqualFold (cd_Platform d) (sc_Platform c))
         \<and> (sc_Manufacturer c \<noteq> [] \<longrightarrow> EqualFold (cd_Manufacturer d) (sc_Manufacturer c))
         \<and> (sc_Model c \<noteq> [] \<longrightarrow> Contains (ToLower (cd_Model d)) (ToLower (sc_Model c)))))
   \<and> (\<forall>ds. Search c db = Some ds \<longrightarrow>
         mset ds = mset (filter (\<lambda>d. matchesCriteria d c = Some True) (map snd (devices db)))
         \<and> sorted_wrt (\<lambda>a b. (Verified b \<longrightarrow> Verified a)
              \<and> (Verified a = Verified b \<longrightarrow> VotesUp b - VotesDown b \<le> VotesUp a - VotesDown a)) ds)"
proof (intro conjI allI impI)
  show "Search c db = None \<longleftrightarrow>
      (\<exists>d \<in> snd ` set (devices db). Capabilities d = None
         \<and> (sc_VideoCodec c \<noteq> [] \<or> sc_AudioCodec c \<noteq> [] \<or> HasHDR c \<noteq> None \<or> HasDV c \<noteq> None)
         \<and> (sc_Platform c \<noteq> [] \<longrightarrow> EqualFold (cd_Platform d) (sc_Platform c))
         \<and> (sc_Manufacturer c \<noteq> [] \<longrightarrow> EqualFold (cd_Manufacturer d) (sc_Manufacturer c))
         \<and> (sc_Model c \<noteq> [] \<longrightarrow> Contains (ToLower (cd_Model d)) (ToLower (sc_Model c))))"
    unfolding matchesCriteria_None [symmetric] by (auto simp: Search_def Let_def list_ex_iff)
next
  fix ds
  assume s: "Search c db = Some ds"
  then show "mset ds = mset (filter (\<lambda>d. matchesCriteria d c = Some True) (map snd (devices db)))"
    by (auto simp: Search_def Let_def sortDevices_def split: if_splits)
  have "sorted (map rank ds)" using s by (auto simp: Search_def Let_def sortDevices_def split: if_splits)
  then have "sorted_wrt (\<lambda>a b. rank a \<le> rank b) ds" by (simp add: sorted_map)
  then show "sorted_wrt (\<lambda>a b. (Verified b \<longrightarrow> Verified a)
              \<and> (Verified a = Verified b \<longrightarrow> VotesUp b - VotesDown b \<le> VotesUp a - VotesDown a)) ds"
    by (rule sorted_wrt_mono_rel [rotated]) (auto simp: rank_def less_eq_prod_def)
qed

definition any_device :: SearchCriteria where
  "any_device = \<lparr>sc_Platform = [], sc_Manufacturer = [], sc_Model = [], sc_VideoCodec = [], sc_AudioCodec = [], HasHDR = None,
     HasDV = None, VerifiedOnly = False, sc_Source = []\<rparr>"

theorem search_is_exact_and_ranked_witness:
  "Search (any_device\<lparr>sc_VideoCodec := ''h264''\<rparr>) (AddDevice 5 blank_device NewCuratedDatabase) = None
   \<and> Search any_device (AddDevice 5 blank_device NewCuratedDatabase) \<noteq> None"
proof -
  have d: "\<exists>d \<in> snd ` set (devices (AddDevice 5 blank_device NewCuratedDatabase)). Capabilities d = None"
    by (simp add: AddDevice_def Let_def calculateStats_def store_def NewCuratedDatabase_def gput_def blank_device_def)
  then show ?thesis
    using search_is_exact_and_ranked [of "any_device\<lparr>sc_VideoCodec := ''h264''\<rparr>" "AddDevice 5 blank_device NewCuratedDatabase"]
      search_is_exact_and_ranked [of any_device "AddDevice 5 blank_device NewCuratedDatabase"]
    by (simp add: any_device_def)
qed

section \<open>Embedded bundles\<close>

record BundleMetadata =
  bm_Platform :: string
  bm_Manufacturer :: string
  Version :: string
  bm_LastUpdated :: string
  bm_Source :: string
  bm_Description :: string
  DeviceCount :: int

record EmbeddedDeviceBundle =
  Devices :: "CuratedDevice list"
  Metadata :: BundleMetadata

record EmbeddedLoader =
  platforms :: "(string, EmbeddedDeviceBundle) gomap"
  loadedAt :: time
  version :: string

definition NewEmbeddedLoader :: EmbeddedLoader where
  "NewEmbeddedLoader = \<lparr>platforms = [], loadedAt = zeroTime, version = []\<rparr>"

text \<open>\<open>bundles\<close> gives what the file of a platform parses to, if it exists and does.\<close>

definition loadPlatform :: "(string \<Rightarrow> EmbeddedDeviceBundle option) \<Rightarrow> string \<Rightarrow> EmbeddedLoader \<Rightarrow> EmbeddedLoader" where
  "loadPlatform bundles p el =
     (case bundles p of
        None \<Rightarrow> el
      | Some b \<Rightarrow>
          let m = Metadata b; m1 = (if bm_Platform m = [] then m\<lparr>bm_Platform := p\<rparr> else m)
          in el\<lparr>platforms := gput (platforms el) p (b\<lparr>Metadata := m1\<lparr>DeviceCount := int (length (Devices b))\<rparr>\<rparr>)\<rparr>)"

definition LoadAll :: "(string \<Rightarrow> EmbeddedDeviceBundle option) \<Rightarrow> time \<Rightarrow> EmbeddedLoader \<Rightarrow> EmbeddedLoader" where
  "LoadAll bundles now el =
     (fold (loadPlatform bundles) [''samsung_tizen'', ''lg_webos'', ''roku'', ''android_tv'', ''amazon_fire_tv'', ''apple_tvos'',
        ''philips_android_tv'', ''sony_android_tv'', ''hisense_smart_tv'', ''xiaomi_mi_tv'', ''tablets_smartphones'', ''generic_tv_boxes''] el)
     \<lparr>loadedAt := now, version := ''1.1.0''\<rparr>"

definition GetPlatforms :: "EmbeddedLoader \<Rightarrow> string list" where "GetPlatforms el = map fst (platforms el)"

definition GetDevices :: "string \<Rightarrow> EmbeddedLoader \<Rightarrow> CuratedDevice list" where
  "GetDevices p el = (case gget (platforms el) p of None \<Rightarrow> [] | Some b \<Rightarrow> Devices b)"

definition GetDevice :: "string \<Rightarrow> string \<Rightarrow> EmbeddedLoader \<Rightarrow> CuratedDevice option" where
  "GetDevice p i el = (case gget (platforms el) p of None \<Rightarrow> None | Some b \<Rightarrow> find (\<lambda>d. cd_ID d = i) (Devices b))"

definition GetMetadata :: "string \<Rightarrow> EmbeddedLoader \<Rightarrow> BundleMetadata option" where
  "GetMetadata p el = map_option Metadata (gget (platforms el) p)"

definition GetAllDevices :: "EmbeddedLoader \<Rightarrow> CuratedDevice list" where
  "GetAllDevices el = concat (map (Devices \<circ> snd) (platforms el))"

definition GetTotalCount :: "EmbeddedLoader \<Rightarrow> int" where
  "GetTotalCount el = sum_list (map (\<lambda>(_, b). int (length (Devices b))) (platforms el))"

definition IsLoaded :: "EmbeddedLoader \<Rightarrow> bool" where "IsLoaded el \<longleftrightarrow> \<not> IsZero (loadedAt el)"

definition with_platform :: "string \<Rightarrow> CuratedDevice \<Rightarrow> CuratedDevice" where
  "with_platform p d = (if cd_Platform d = [] then d\<lparr>cd_Platform := p\<rparr> else d)"

text \<open>The pointers are shared with the loader, so what the database fills in shows there too; that is left out.\<close>

definition LoadIntoCuratedDB :: "time \<Rightarrow> EmbeddedLoader \<Rightarrow> CuratedDatabase \<Rightarrow> CuratedDatabase" where
  "LoadIntoCuratedDB now el db =
     fold (\<lambda>(p, b) db. fold (add_device now) (map (with_platform p) (Devices b)) db) (platforms el) db"

end
