(* ===== verification/VendorRules.thy ===== *)
theory VendorRules
  imports Curated
begin

text \<open>
  The vendor rules of \<^verbatim>\<open>internal/probes/curated.go\<close>: what is known of a manufacturer's devices and
  overrides what a device reports about itself.
\<close>

section \<open>The rules\<close>

record VendorRule =
  Condition :: string
  HasDTS :: bool
  NoDTS :: bool
  HasDolbyVision :: bool
  NoDolbyVision :: bool
  HasHDR10Plus :: bool
  NoHDR10Plus :: bool
  HasAV1 :: bool
  HasTrueHD :: bool
  HasSSA :: bool
  HasTTML :: bool
  HasWebM :: bool
  vr_Workaround :: string

definition rule :: "string \<Rightarrow> VendorRule" where
  "rule c = \<lparr>Condition = c, HasDTS = False, NoDTS = False, HasDolbyVision = False, NoDolbyVision = False,
     HasHDR10Plus = False, NoHDR10Plus = False, HasAV1 = False, HasTrueHD = False, HasSSA = False, HasTTML = False,
     HasWebM = False, vr_Workaround = []\<rparr>"

text \<open>The condition that the model contains a text in single quotes.\<close>

definition quoted :: "string \<Rightarrow> string" where "quoted s = ''model contains '' @ [CHR 0x27] @ s @ [CHR 0x27]"

definition vendorRules :: "(string, VendorRule list) gomap" where
  "vendorRules = [
     (''samsung'', [
       (rule ''always'')\<lparr>NoDTS := True, vr_Workaround := ''Transcode DTS to AC-3 or E-AC-3''\<rparr>,
       (rule ''always'')\<lparr>NoDolbyVision := True, vr_Workaround := ''Use HDR10 or HDR10+ instead''\<rparr>,
       (rule ''year >= 2022'')\<lparr>HasHDR10Plus := True\<rparr>,
       (rule ''year >= 2022'')\<lparr>HasAV1 := True\<rparr>,
       (rule ''always'')\<lparr>HasSSA := True\<rparr>,
       (rule ''always'')\<lparr>HasTTML := True\<rparr>,
       (rule ''always'')\<lparr>NoHDR10Plus := False\<rparr>]),
     (''lg'', [
       (rule ''always'')\<lparr>HasDolbyVision := True\<rparr>,
       (rule ''always'')\<lparr>NoHDR10Plus := True, vr_Workaround := ''Use HDR10 or DV instead''\<rparr>,
       (rule ''year >= 2022'')\<lparr>HasAV1 := True\<rparr>,
       (rule ''always'')\<lparr>HasSSA := True\<rparr>,
       (rule ''always'')\<lparr>HasTTML := True\<rparr>]),
     (''roku'', [
       (rule ''always'')\<lparr>NoDTS := False\<rparr>,
       (rule ''always'')\<lparr>HasDolbyVision := False\<rparr>,
       (rule (quoted (''TCL'' @ [CHR 0x27] @ '' or model contains '' @ [CHR 0x27] @ ''Roku TV'')))\<lparr>HasDolbyVision := True\<rparr>]),
     (''amazon'', [
       (rule ''always'')\<lparr>NoDTS := True, vr_Workaround := ''Transcode DTS to AC-3 or E-AC-3''\<rparr>,
       (rule ''always'')\<lparr>HasDolbyVision := True\<rparr>,
       (rule ''year >= 2022'')\<lparr>HasAV1 := True\<rparr>,
       (rule ''always'')\<lparr>NoHDR10Plus := True\<rparr>,
       (rule ''always'')\<lparr>HasTTML := False\<rparr>]),
     (''apple'', [
       (rule ''always'')\<lparr>NoDTS := True, vr_Workaround := ''Apple doesn't support DTS passthrough''\<rparr>,
       (rule ''always'')\<lparr>HasDolbyVision := True\<rparr>,
       (rule ''year >= 2024'')\<lparr>HasHDR10Plus := True\<rparr>,
       (rule ''always'')\<lparr>HasSSA := True, HasTTML := True\<rparr>,
       (rule ''always'')\<lparr>HasWebM := True\<rparr>]),
     (''sony'', [
       (rule ''always'')\<lparr>HasDolbyVision := True\<rparr>,
       (rule ''year >= 2021'')\<lparr>HasAV1 := True\<rparr>,
       (rule ''always'')\<lparr>HasTrueHD := True\<rparr>,
       (rule ''always'')\<lparr>HasSSA := True, HasTTML := True\<rparr>]),
     (''nvidia'', [
       (rule ''always'')\<lparr>HasDolbyVision := True\<rparr>,
       (rule ''always'')\<lparr>HasAV1 := True\<rparr>,
       (rule ''always'')\<lparr>HasTrueHD := True, NoDTS := False\<rparr>,
       (rule ''always'')\<lparr>HasSSA := True, HasTTML := True, HasWebM := True\<rparr>]),
     (''xiaomi'', [
       (rule ''always'')\<lparr>HasDolbyVision := True\<rparr>,
       (rule ''year >= 2022'')\<lparr>HasAV1 := True\<rparr>,
       (rule (quoted ''Mi Box S''))\<lparr>HasTrueHD := False\<rparr>,
       (rule (quoted ''Mi Box S''))\<lparr>HasSSA := False\<rparr>]),
     (''philips'', [
       (rule ''always'')\<lparr>HasDolbyVision := True\<rparr>,
       (rule ''year >= 2022'')\<lparr>HasAV1 := True\<rparr>,
       (rule (quoted ''Saphi''))\<lparr>HasDolbyVision := False\<rparr>,
       (rule (quoted ''Saphi''))\<lparr>NoDTS := True\<rparr>]),
     (''hisense'', [
       (rule (quoted ''Android''))\<lparr>HasDolbyVision := True\<rparr>,
       (rule (''not '' @ quoted ''Android''))\<lparr>NoDolbyVision := True\<rparr>,
       (rule (''not '' @ quoted ''Android''))\<lparr>NoDTS := True\<rparr>,
       (rule ''year >= 2022'')\<lparr>HasAV1 := True\<rparr>])]"

definition GetVendorRules :: "string \<Rightarrow> VendorRule list" where
  "GetVendorRules manufacturer = (case gget vendorRules (ToLower manufacturer) of None \<Rightarrow> [] | Some rs \<Rightarrow> rs)"

section \<open>Conditions\<close>

definition strip_quotes :: "string \<Rightarrow> string" where
  "strip_quotes s = (let q = (\<lambda>c. c = CHR 0x27 \<or> c = CHR 0x22) in rev (dropWhile q (rev (dropWhile q s))))"

text \<open>\<^verbatim>\<open>Sscanf\<close> with \<^verbatim>\<open>%d\<close>: the digits at the beginning, 0 when there are none.\<close>

definition scan_digits :: "string \<Rightarrow> int" where
  "scan_digits s = int (digits_val (takeWhile is_digit s))"

text \<open>Each \<^verbatim>\<open>not\<close> is taken off before the rest is looked at, so the recursion ends.\<close>

function matchesRuleCondition :: "string \<Rightarrow> string \<Rightarrow> int \<Rightarrow> bool" where
  "matchesRuleCondition cond model year =
     (if cond = ''always'' then True
      else if HasPrefix cond ''year >= '' then year \<ge> scan_digits (drop 8 cond)
      else if HasPrefix cond ''not '' then \<not> matchesRuleCondition (TrimPrefix cond ''not '') model year
      else if Contains cond ''model contains ''
      then Contains (ToLower model) (ToLower (strip_quotes (TrimPrefix cond ''model contains '')))
      else False)"
  by pat_completeness auto

termination
  by (relation "measure (\<lambda>(c, _, _). length c)") (auto simp: TrimPrefix_def HasPrefix_def)

declare matchesRuleCondition.simps [simp del]

text \<open>
  The model year tables are Go maps: \<open>visit\<close> is the order in which a range over a map sees its entries.
\<close>

definition samsungYears :: "(string, int) gomap" where
  "samsungYears = [(''qn90'', 2022), (''qn85'', 2021), (''qn80'', 2022), (''qn70'', 2022), (''q90'', 2019), (''q80'', 2020),
     (''q70'', 2019), (''q60'', 2020), (''ls03'', 2022), (''au80'', 2021), (''ru71'', 2019), (''tu80'', 2020)]"

definition lgYears :: "(string, int) gomap" where
  "lgYears = [(''c2'', 2022), (''c1'', 2021), (''c3'', 2023), (''g2'', 2022), (''g1'', 2021), (''a1'', 2021), (''b1'', 2021),
     (''a2'', 2022), (''u1'', 2021)]"

definition sonyYears :: "(string, int) gomap" where
  "sonyYears = [(''a95k'', 2022), (''a90k'', 2022), (''a80k'', 2022), (''x95k'', 2022), (''a9g'', 2019), (''z9g'', 2019),
     (''x900h'', 2020), (''x90j'', 2021), (''a80j'', 2021), (''x90k'', 2022)]"

definition inferYearFromModel :: "((string, int) gomap \<Rightarrow> (string, int) gomap) \<Rightarrow> string \<Rightarrow> int" where
  "inferYearFromModel visit model =
     (case find (\<lambda>(p, _). Contains (ToLower model) p) (visit samsungYears @ visit lgYears @ visit sonyYears) of
        None \<Rightarrow> 0 | Some (_, y) \<Rightarrow> y)"

section \<open>Applying the rules\<close>

definition removeString :: "string list \<Rightarrow> string \<Rightarrow> string list" where
  "removeString xs s = filter (\<lambda>v. v \<noteq> s) xs"

definition ensure :: "string \<Rightarrow> string list \<Rightarrow> string list" where
  "ensure s xs = (if s \<in> set xs then xs else xs @ [s])"

definition apply_rule :: "VendorRule \<Rightarrow> DeviceCapabilities \<Rightarrow> DeviceCapabilities" where
  "apply_rule r c = c\<lparr>
     SupportsDTS := (if NoDTS r then False else if HasDTS r then True else SupportsDTS c),
     AudioCodecs :=
       (let a1 = (if NoDTS r then removeString (removeString (AudioCodecs c) ''dts'') ''dtshd'' else AudioCodecs c);
            a2 = (if HasDTS r \<and> \<not> NoDTS r then ensure ''dts'' a1 else a1)
        in if HasTrueHD r then ensure ''flac'' (ensure ''truehd'' a2) else a2),
     SupportsDolbyVision := (if NoDolbyVision r then False else if HasDolbyVision r then True else SupportsDolbyVision c),
     VideoCodecs := (if HasAV1 r then ensure ''av1'' (VideoCodecs c) else VideoCodecs c),
     SubtitleFormats :=
       (let s1 = (if HasSSA r then ensure ''ass'' (ensure ''ssa'' (SubtitleFormats c)) else SubtitleFormats c)
        in if HasTTML r then ensure ''ttml'' s1 else s1),
     ContainerFormats := (if HasWebM r then ensure ''webm'' (ContainerFormats c) else ContainerFormats c)\<rparr>"

definition rule_year :: "((string, int) gomap \<Rightarrow> (string, int) gomap) \<Rightarrow> CuratedDevice \<Rightarrow> int" where
  "rule_year visit d = (if Year d = 0 then inferYearFromModel visit (cd_Model d) else Year d)"

definition matching_rules :: "((string, int) gomap \<Rightarrow> (string, int) gomap) \<Rightarrow> CuratedDevice \<Rightarrow> VendorRule list" where
  "matching_rules visit d =
     filter (\<lambda>r. matchesRuleCondition (Condition r) (cd_Model d) (rule_year visit d)) (GetVendorRules (cd_Manufacturer d))"

definition ApplyVendorRules :: "((string, int) gomap \<Rightarrow> (string, int) gomap) \<Rightarrow> CuratedDevice \<Rightarrow> CuratedDevice" where
  "ApplyVendorRules visit d =
     (case Capabilities d of
        None \<Rightarrow> d
      | Some c \<Rightarrow> d\<lparr>Capabilities := Some (fold apply_rule (matching_rules visit d) c)\<rparr>)"

definition GetVendorWorkaround :: "string \<Rightarrow> string \<Rightarrow> string" where
  "GetVendorWorkaround manufacturer limitation =
     (case find (\<lambda>r. (limitation = ''dts'' \<and> NoDTS r) \<or> (limitation = ''dolby_vision'' \<and> NoDolbyVision r))
             (GetVendorRules manufacturer) of
        None \<Rightarrow> [] | Some r \<Rightarrow> vr_Workaround r)"

definition GetKnownLimitations :: "string \<Rightarrow> string list" where
  "GetKnownLimitations manufacturer =
     concat (map (\<lambda>r. (if NoDTS r then [''No DTS passthrough''] else [])
       @ (if NoDolbyVision r then [''No Dolby Vision support''] else [])
       @ (if NoHDR10Plus r then [''No HDR10+ support''] else [])) (GetVendorRules manufacturer))"

section \<open>Devices satisfy the rules\<close>

text \<open>What a rule demands of the capabilities.\<close>

definition rule_holds :: "VendorRule \<Rightarrow> DeviceCapabilities \<Rightarrow> bool" where
  "rule_holds r c \<longleftrightarrow>
     (NoDTS r \<longrightarrow> \<not> SupportsDTS c \<and> ''dts'' \<notin> set (AudioCodecs c) \<and> ''dtshd'' \<notin> set (AudioCodecs c))
     \<and> (HasDTS r \<and> \<not> NoDTS r \<longrightarrow> SupportsDTS c \<and> ''dts'' \<in> set (AudioCodecs c))
     \<and> (NoDolbyVision r \<longrightarrow> \<not> SupportsDolbyVision c) \<and> (HasDolbyVision r \<and> \<not> NoDolbyVision r \<longrightarrow> SupportsDolbyVision c)
     \<and> (HasAV1 r \<longrightarrow> ''av1'' \<in> set (VideoCodecs c))
     \<and> (HasTrueHD r \<longrightarrow> {''truehd'', ''flac''} \<subseteq> set (AudioCodecs c))
     \<and> (HasSSA r \<longrightarrow> {''ssa'', ''ass''} \<subseteq> set (SubtitleFormats c))
     \<and> (HasTTML r \<longrightarrow> ''ttml'' \<in> set (SubtitleFormats c)) \<and> (HasWebM r \<longrightarrow> ''webm'' \<in> set (ContainerFormats c))"

definition compatible :: "VendorRule \<Rightarrow> VendorRule \<Rightarrow> bool" where
  "compatible r q \<longleftrightarrow> \<not> (NoDTS r \<and> HasDTS q) \<and> \<not> (HasDTS r \<and> NoDTS q)
     \<and> \<not> (NoDolbyVision r \<and> HasDolbyVision q) \<and> \<not> (HasDolbyVision r \<and> NoDolbyVision q)"

lemma set_ensure [simp]: "set (ensure s xs) = insert s (set xs)"
  by (auto simp: ensure_def)

lemma set_removeString [simp]: "set (removeString xs s) = set xs - {s}"
  by (auto simp: removeString_def)

lemma apply_rule_holds: "rule_holds r (apply_rule r c)"
  by (simp add: rule_holds_def apply_rule_def Let_def)

lemma apply_rule_keeps: "rule_holds r c \<Longrightarrow> compatible r q \<Longrightarrow> rule_holds r (apply_rule q c)"
  by (auto simp: rule_holds_def apply_rule_def compatible_def Let_def)

lemma apply_rule_done:
  assumes "rule_holds r c"
  shows "apply_rule r c = c"
proof -
  have "removeString xs s = xs" if "s \<notin> set xs" for xs s using that by (auto simp: removeString_def filter_id_conv)
  moreover have "ensure s xs = xs" if "s \<in> set xs" for xs s using that by (simp add: ensure_def)
  ultimately show ?thesis using assms unfolding apply_rule_def rule_holds_def by (auto simp: Let_def)
qed

lemma rules_hold:
  assumes "\<forall>r\<in>set rs. \<forall>q\<in>set rs. compatible r q"
  shows "\<forall>r\<in>set rs. rule_holds r (fold apply_rule rs c)"
  using assms
proof (induction rs rule: rev_induct)
  case (snoc q rs)
  then show ?case by (auto intro: apply_rule_holds apply_rule_keeps)
qed simp

lemma rules_done: "\<forall>r\<in>set rs. rule_holds r c \<Longrightarrow> fold apply_rule rs c = c"
  by (induction rs) (simp_all add: apply_rule_done)

lemma matches_not [simp]:
  "matchesRuleCondition (CHR ''n'' # CHR ''o'' # CHR ''t'' # CHR '' '' # c) model year = (\<not> matchesRuleCondition c model year)"
  by (subst matchesRuleCondition.simps) (simp add: HasPrefix_def TrimPrefix_def)

text \<open>The table contradicts itself only under a condition and its negation.\<close>

definition consistent_table :: bool where
  "consistent_table \<longleftrightarrow> list_all (\<lambda>(_, rs). list_all (\<lambda>r. \<not> HasDTS r \<and> list_all (\<lambda>q. NoDolbyVision r \<and> HasDolbyVision q \<longrightarrow>
     Condition r = ''not '' @ Condition q) rs) rs) vendorRules"

lemma table_consistent: "consistent_table"
  by code_simp

lemma matching_compatible: "\<forall>r\<in>set (matching_rules visit d). \<forall>q\<in>set (matching_rules visit d). compatible r q"
proof (intro ballI)
  fix r q
  assume r: "r \<in> set (matching_rules visit d)" and q: "q \<in> set (matching_rules visit d)"
  then obtain rs where "gget vendorRules (ToLower (cd_Manufacturer d)) = Some rs" "r \<in> set rs" "q \<in> set rs"
    by (cases "gget vendorRules (ToLower (cd_Manufacturer d))") (auto simp: matching_rules_def GetVendorRules_def)
  then have "(ToLower (cd_Manufacturer d), rs) \<in> set vendorRules" by (simp add: gget_def map_of_SomeD)
  then have c: "\<not> HasDTS r" "\<not> HasDTS q" "NoDolbyVision r \<and> HasDolbyVision q \<Longrightarrow> Condition r = ''not '' @ Condition q"
      "NoDolbyVision q \<and> HasDolbyVision r \<Longrightarrow> Condition q = ''not '' @ Condition r"
    using table_consistent \<open>r \<in> set rs\<close> \<open>q \<in> set rs\<close> unfolding consistent_table_def list_all_iff by fast+
  then show "compatible r q" using r q by (auto simp: compatible_def matching_rules_def)
qed

lemma matching_ApplyVendorRules [simp]: "matching_rules visit (ApplyVendorRules visit d) = matching_rules visit d"
  by (simp add: ApplyVendorRules_def matching_rules_def rule_year_def split: option.splits)

text \<open>
  After the vendor rules are applied, every rule whose condition the device meets holds at once: no later
  rule of the table undoes an earlier one. So a second application changes nothing, and a Samsung device never
  ends up with DTS or Dolby Vision.
\<close>

theorem vendor_rules_hold:
  assumes "Capabilities d = Some c"
  shows "\<exists>c'. Capabilities (ApplyVendorRules visit d) = Some c' \<and> (\<forall>r\<in>set (matching_rules visit d). rule_holds r c')
    \<and> ApplyVendorRules visit (ApplyVendorRules visit d) = ApplyVendorRules visit d
    \<and> (EqualFold (cd_Manufacturer d) ''Samsung'' \<longrightarrow>
         \<not> SupportsDTS c' \<and> ''dts'' \<notin> set (AudioCodecs c') \<and> \<not> SupportsDolbyVision c')"
proof -
  define c' where "c' = fold apply_rule (matching_rules visit d) c"
  have c': "Capabilities (ApplyVendorRules visit d) = Some c'" using assms by (simp add: ApplyVendorRules_def c'_def)
  have holds: "\<forall>r\<in>set (matching_rules visit d). rule_holds r c'"
    unfolding c'_def by (rule rules_hold) (rule matching_compatible)
  have twice: "ApplyVendorRules visit (ApplyVendorRules visit d) = ApplyVendorRules visit d"
    using c' rules_done [OF holds] by (subst ApplyVendorRules_def) simp
  have "\<not> SupportsDTS c' \<and> ''dts'' \<notin> set (AudioCodecs c') \<and> \<not> SupportsDolbyVision c'"
    if "EqualFold (cd_Manufacturer d) ''Samsung''"
  proof -
    have "ToLower ''Samsung'' = ''samsung''" by code_simp
    then have "ToLower (cd_Manufacturer d) = ''samsung''" using that by (simp add: EqualFold_def)
    then have "GetVendorRules (cd_Manufacturer d) = the (gget vendorRules ''samsung'')"
      by (simp add: GetVendorRules_def vendorRules_def gget_Cons)
    moreover have "take 2 (the (gget vendorRules ''samsung'')) =
        [(rule ''always'')\<lparr>NoDTS := True, vr_Workaround := ''Transcode DTS to AC-3 or E-AC-3''\<rparr>,
         (rule ''always'')\<lparr>NoDolbyVision := True, vr_Workaround := ''Use HDR10 or HDR10+ instead''\<rparr>]"
      by (simp add: vendorRules_def gget_Cons)
    ultimately have "(rule ''always'')\<lparr>NoDTS := True, vr_Workaround := ''Transcode DTS to AC-3 or E-AC-3''\<rparr> \<in> set (GetVendorRules (cd_Manufacturer d))"
        "(rule ''always'')\<lparr>NoDolbyVision := True, vr_Workaround := ''Use HDR10 or HDR10+ instead''\<rparr> \<in> set (GetVendorRules (cd_Manufacturer d))"
      by (metis in_set_takeD list.set_intros)+
    then have "(rule ''always'')\<lparr>NoDTS := True, vr_Workaround := ''Transcode DTS to AC-3 or E-AC-3''\<rparr> \<in> set (matching_rules visit d)"
        "(rule ''always'')\<lparr>NoDolbyVision := True, vr_Workaround := ''Use HDR10 or HDR10+ instead''\<rparr> \<in> set (matching_rules visit d)"
      by (simp_all add: matching_rules_def rule_def matchesRuleCondition.simps [of "''always''"])
    then have "rule_holds ((rule ''always'')\<lparr>NoDTS := True, vr_Workaround := ''Transcode DTS to AC-3 or E-AC-3''\<rparr>) c'"
        "rule_holds ((rule ''always'')\<lparr>NoDolbyVision := True, vr_Workaround := ''Use HDR10 or HDR10+ instead''\<rparr>) c'"
      using holds by blast+
    then show ?thesis by (simp add: rule_holds_def)
  qed
  then show ?thesis using c' holds twice by blast
qed

definition samsung_tv :: CuratedDevice where
  "samsung_tv = blank_device\<lparr>cd_Manufacturer := ''SAMSUNG'', Capabilities := Some (zeroCapabilities\<lparr>SupportsDTS := True,
     AudioCodecs := [''aac'', ''dts'']\<rparr>)\<rparr>"

theorem vendor_rules_hold_witness:
  "\<exists>c'. Capabilities (ApplyVendorRules (\<lambda>m. m) samsung_tv) = Some c' \<and> \<not> SupportsDTS c'"
proof -
  have "Capabilities samsung_tv = Some (zeroCapabilities\<lparr>SupportsDTS := True, AudioCodecs := [''aac'', ''dts'']\<rparr>)"
    by (simp add: samsung_tv_def)
  moreover have "EqualFold (cd_Manufacturer samsung_tv) ''Samsung''" by code_simp
  ultimately show ?thesis using vendor_rules_hold [of samsung_tv _ "\<lambda>m. m"] by blast
qed

lemma lower_quote: "lower_char c = CHR 0x27 \<Longrightarrow> c = CHR 0x27"
proof -
  assume a: "lower_char c = CHR 0x27"
  show "c = CHR 0x27"
  proof (cases "65 \<le> (of_char c :: nat) \<and> (of_char c :: nat) \<le> 90")
    case True
    then have "(of_char (lower_char c) :: nat) = of_char c + 32" by (simp add: lower_char_def)
    then show ?thesis using a True by simp
  next
    case False
    then show ?thesis using a unfolding lower_char_def if_not_P [OF False] by simp
  qed
qed

text \<open>
  The rule that gives Dolby Vision to the premium Roku TVs is dead: its condition joins two tests with
  \<^verbatim>\<open>or\<close>, which the matcher does not know, and so looks for the whole rest of the text, apostrophes included,
  in the model. For every Roku device whose model has no apostrophe the rules change nothing.
\<close>

theorem roku_rule_is_dead:
  assumes "EqualFold (cd_Manufacturer d) ''Roku''" and "CHR 0x27 \<notin> set (cd_Model d)"
  shows "ApplyVendorRules visit d = d"
proof -
  define dead where "dead = quoted (''TCL'' @ [CHR 0x27] @ '' or model contains '' @ [CHR 0x27] @ ''Roku TV'')"
  have "ToLower ''Roku'' = ''roku''" by code_simp
  then have "ToLower (cd_Manufacturer d) = ''roku''" using assms(1) by (simp add: EqualFold_def)
  then have rules: "GetVendorRules (cd_Manufacturer d) =
      [(rule ''always'')\<lparr>NoDTS := False\<rparr>, (rule ''always'')\<lparr>HasDolbyVision := False\<rparr>, (rule dead)\<lparr>HasDolbyVision := True\<rparr>]"
    by (simp add: GetVendorRules_def vendorRules_def gget_Cons dead_def)
  have cond: "matchesRuleCondition dead m y =
      Contains (ToLower m) (ToLower (''TCL'' @ [CHR 0x27] @ '' or model contains '' @ [CHR 0x27] @ ''Roku TV''))" for m y
  proof -
    have "dead \<noteq> ''always''" "\<not> HasPrefix dead ''year >= ''" "\<not> HasPrefix dead ''not ''" "Contains dead ''model contains ''"
      "strip_quotes (TrimPrefix dead ''model contains '') = ''TCL'' @ [CHR 0x27] @ '' or model contains '' @ [CHR 0x27] @ ''Roku TV''"
      unfolding dead_def by code_simp+
    then show ?thesis by (subst matchesRuleCondition.simps) simp
  qed
  have "CHR 0x27 \<notin> set (ToLower (cd_Model d))" using assms(2) by (auto simp: ToLower_def dest!: lower_quote [OF sym])
  moreover have "CHR 0x27 \<in> set (ToLower (''TCL'' @ [CHR 0x27] @ '' or model contains '' @ [CHR 0x27] @ ''Roku TV''))" by code_simp
  ultimately have no: "\<not> matchesRuleCondition dead (cd_Model d) y" for y
    unfolding cond Contains_iff by auto
  have "apply_rule ((rule ''always'')\<lparr>NoDTS := False\<rparr>) c = c" "apply_rule ((rule ''always'')\<lparr>HasDolbyVision := False\<rparr>) c = c" for c
    by (simp_all add: apply_rule_def rule_def)
  then show ?thesis
    using no by (simp add: ApplyVendorRules_def matching_rules_def rules split: option.splits) (simp add: rule_def)
qed

theorem roku_rule_is_dead_witness:
  "ApplyVendorRules (\<lambda>m. m) (blank_device\<lparr>cd_Manufacturer := ''Roku'', cd_Model := ''TCL 6-Series Roku TV'',
     Capabilities := Some zeroCapabilities\<rparr>)
   = blank_device\<lparr>cd_Manufacturer := ''Roku'', cd_Model := ''TCL 6-Series Roku TV'', Capabilities := Some zeroCapabilities\<rparr>"
  by (rule roku_rule_is_dead) (simp_all add: EqualFold_def)

end
