(* ===== verification/Probe.thy ===== *)
theory Probe
  imports DeviceTypes
begin

text \<open>
  What a probe reports and how it is read: \<^verbatim>\<open>internal/probes/parser.go\<close> and \<^verbatim>\<open>internal/probes/drm.go\<close>.
  JSON text and RFC 3339 time stamps are parsed by the standard library: \<open>json\<close> is a parsed value, and
  \<open>parse_time\<close> the time parser. A set of codecs built as a Go map is listed in the order \<open>visit\<close> gives it.
\<close>

section \<open>Probe results\<close>

record VideoCodecInfo =
  vi_Name :: string
  vi_Profile :: string
  vi_Level :: string
  vi_BitDepth :: int
  vi_MaxWidth :: int
  vi_MaxHeight :: int
  MaxFramerate :: int
  vi_Supports10bit :: bool
  vi_SupportsHDR :: bool
  vi_SupportsDolbyVision :: bool

record AudioCodecInfo =
  ai_Name :: string
  Channels :: int
  SampleRates :: "int list"
  ai_Bitrate :: int
  SupportsSurround :: bool
  SupportsAtmos :: bool
  SupportsTrueHD :: bool
  ai_SupportsDTS :: bool

record CodecProbeResult =
  cp_DeviceID :: string
  cp_DeviceName :: string
  cp_Platform :: string
  cp_OSVersion :: string
  cp_AppVersion :: string
  cp_Model :: string
  cp_Manufacturer :: string
  cp_UserAgent :: string
  cp_VideoCodecs :: "VideoCodecInfo list"
  cp_AudioCodecs :: "AudioCodecInfo list"
  cp_SubtitleFormats :: "string list"
  cp_ContainerFormats :: "string list"
  cp_DRMSupport :: "DRMSupported option"
  cp_MaxResolution :: string
  cp_MaxBitrate :: int
  cp_SupportsHDR :: bool
  cp_SupportsDolbyVision :: bool
  cp_SupportsDolbyAtmos :: bool
  cp_SupportsDTS :: bool
  cp_DirectPlaySupport :: "DirectPlaySupport option"
  cp_TranscodingPreferences :: "TranscodingPrefs option"
  cp_ProbedAt :: string
  cp_ProbeDurationMS :: int

definition MaxProbeSize :: int where "MaxProbeSize = 2 ^ 20"
definition MaxCuratedSize :: int where "MaxCuratedSize = 5 * 2 ^ 20"
definition MaxFeedbackSize :: int where "MaxFeedbackSize = 100 * 2 ^ 10"

definition ValidateJSONSize :: "string \<Rightarrow> int \<Rightarrow> string \<Rightarrow> string option" where
  "ValidateJSONSize data maxSize dataType =
     (if int (length data) > maxSize
      then Some (dataType @ '' exceeds maximum size: '' @ Itoa (int (length data)) @ '' bytes (max: '' @ Itoa maxSize @ '')'')
      else None)"

definition parseResolution :: "string \<Rightarrow> (int \<times> int) option" where
  "parseResolution res =
     (case SplitAt (CHR ''x'') res of
        [w, h] \<Rightarrow>
          (case Atoi (TrimSpace w) of
             None \<Rightarrow> None
           | Some width \<Rightarrow> (case Atoi (TrimSpace h) of None \<Rightarrow> None | Some height \<Rightarrow> Some (width, height)))
      | _ \<Rightarrow> None)"

definition codec_set :: "(string list \<Rightarrow> string list) \<Rightarrow> string list \<Rightarrow> string list" where
  "codec_set visit names = visit (remdups (map ToLower names))"

definition larger :: "int \<Rightarrow> int \<Rightarrow> int" where "larger x m = (if x > m then x else m)"

definition ParseCodecProbeResult ::
  "(string list \<Rightarrow> string list) \<Rightarrow> (string \<Rightarrow> time option) \<Rightarrow> time \<Rightarrow> CodecProbeResult \<Rightarrow> DeviceCapabilities" where
  "ParseCodecProbeResult visit parse_time now p =
     (let w0 = fold (\<lambda>vc. larger (vi_MaxWidth vc)) (cp_VideoCodecs p) 0;
          h0 = fold (\<lambda>vc. larger (vi_MaxHeight vc)) (cp_VideoCodecs p) 0;
          (w, h) = (case (if cp_MaxResolution p = [] then None else parseResolution (cp_MaxResolution p)) of
                      None \<Rightarrow> (w0, h0) | Some (width, height) \<Rightarrow> (larger width w0, larger height h0))
      in zeroCapabilities\<lparr>DeviceID := cp_DeviceID p, DeviceName := cp_DeviceName p, Platform := cp_Platform p,
           OSVersion := cp_OSVersion p, AppVersion := cp_AppVersion p, Model := cp_Model p,
           Manufacturer := cp_Manufacturer p, UserAgent := cp_UserAgent p, DRMSupport := cp_DRMSupport p,
           MaxBitrate := cp_MaxBitrate p, SupportsHDR := cp_SupportsHDR p, SupportsDolbyVision := cp_SupportsDolbyVision p,
           SupportsDolbyAtmos := cp_SupportsDolbyAtmos p, SupportsDTS := cp_SupportsDTS p,
           dc_DirectPlaySupport := cp_DirectPlaySupport p, TranscodingPreferences := cp_TranscodingPreferences p,
           VideoCodecs := codec_set visit (map vi_Name (cp_VideoCodecs p)),
           Supports10Bit := list_ex (\<lambda>vc. vi_Supports10bit vc \<or> vi_BitDepth vc \<ge> 10) (cp_VideoCodecs p),
           AudioCodecs := codec_set visit (map ai_Name (cp_AudioCodecs p)),
           SubtitleFormats := cp_SubtitleFormats p, ContainerFormats := cp_ContainerFormats p,
           MaxWidth := w, MaxHeight := h,
           ProbedAt := (if cp_ProbedAt p = [] then now else case parse_time (cp_ProbedAt p) of None \<Rightarrow> zeroTime | Some t \<Rightarrow> t),
           ProbeDurationMS := cp_ProbeDurationMS p\<rparr>)"

definition ParseCodecProbe ::
  "(string \<Rightarrow> CodecProbeResult option) \<Rightarrow> (string list \<Rightarrow> string list) \<Rightarrow> (string \<Rightarrow> time option) \<Rightarrow> time \<Rightarrow> string
    \<Rightarrow> string + DeviceCapabilities" where
  "ParseCodecProbe unmarshal visit parse_time now probeJSON =
     (case ValidateJSONSize probeJSON MaxProbeSize ''probe JSON'' of
        Some e \<Rightarrow> Inl e
      | None \<Rightarrow>
          (case unmarshal probeJSON of
             None \<Rightarrow> Inl ''failed to parse probe JSON''
           | Some p \<Rightarrow> Inr (ParseCodecProbeResult visit parse_time now p)))"

lemma SplitAt_one: "c \<notin> set a \<Longrightarrow> c \<notin> set b \<Longrightarrow> SplitAt c (a @ c # b) = [a, b]"
proof (induction a)
  case Nil
  have "c \<notin> set b \<Longrightarrow> SplitAt c b = [b]" for b by (induction b) auto
  then show ?case using Nil by simp
qed auto

lemma TrimSpace_inside: "\<forall>c\<in>set s. \<not> is_space c \<Longrightarrow> \<forall>c\<in>set a \<union> set b. is_space c \<Longrightarrow> TrimSpace (a @ s @ b) = s"
proof -
  assume s: "\<forall>c\<in>set s. \<not> is_space c" and ab: "\<forall>c\<in>set a \<union> set b. is_space c"
  have drop: "dropWhile is_space (u @ t) = t" if "\<forall>c\<in>set u. is_space c" "\<forall>c\<in>set t. \<not> is_space c" for u t
    using that by (induction u) (cases t; simp)+
  show ?thesis
  proof (cases s)
    case Nil
    then have "dropWhile is_space (a @ s @ b) = []"
      unfolding Nil dropWhile_eq_Nil_conv using ab by (auto dest: set_dropWhileD)
    then show ?thesis using Nil by (simp only: TrimSpace_def rev.simps dropWhile.simps)
  next
    case (Cons c cs)
    have "dropWhile is_space (a @ s @ b) = s @ b" using ab s Cons by (induction a) auto
    then show ?thesis using drop [of "rev b" "rev s"] ab s by (simp add: TrimSpace_def)
  qed
qed

lemma digits_chars: "c \<in> set (digits n) \<Longrightarrow> \<not> is_space c \<and> c \<noteq> CHR ''x''"
  using digits_ok [of n] by (auto simp: list_all_iff is_digit_def is_space_def)

text \<open>
  Reading back a resolution that the program wrote: for a device with a positive width and height within
  64 bits the parsed form of the formatted resolution is that width and height, also with white space before,
  after and around the \<^verbatim>\<open>x\<close>; what is written without them is refused.
\<close>

theorem resolution_roundtrip:
  assumes "MaxWidth c < 2 ^ 63" and "MaxHeight c < 2 ^ 63"
    and "\<forall>b \<in> set s1 \<union> set s2 \<union> set s3 \<union> set s4. is_space b"
  shows "parseResolution (FormatResolution c) =
      (if 0 < MaxWidth c \<and> 0 < MaxHeight c then Some (MaxWidth c, MaxHeight c) else None)
    \<and> (0 < MaxWidth c \<and> 0 < MaxHeight c \<longrightarrow>
        parseResolution (s1 @ Itoa (MaxWidth c) @ s2 @ ''x'' @ s3 @ Itoa (MaxHeight c) @ s4) = Some (MaxWidth c, MaxHeight c))"
proof -
  have spaced: "parseResolution (a @ Itoa w @ b @ ''x'' @ d @ Itoa h @ e) = Some (w, h)"
    if "0 < w" "w < 2 ^ 63" "0 < h" "h < 2 ^ 63" and sp: "\<forall>z \<in> set a \<union> set b \<union> set d \<union> set e. is_space z" for a b d e w h
  proof -
    have "\<not> is_space (CHR ''x'')" by (simp add: is_space_def)
    then have x: "CHR ''x'' \<notin> set a \<union> set b \<union> set d \<union> set e" using sp by blast
    have "SplitAt (CHR ''x'') ((a @ Itoa w @ b) @ CHR ''x'' # (d @ Itoa h @ e)) = [a @ Itoa w @ b, d @ Itoa h @ e]"
      by (rule SplitAt_one) (use x that digits_chars in \<open>auto simp: Itoa_def\<close>)
    moreover have "TrimSpace (a @ Itoa w @ b) = Itoa w" "TrimSpace (d @ Itoa h @ e) = Itoa h"
      by (rule TrimSpace_inside; use sp that digits_chars in \<open>auto simp: Itoa_def\<close>)+
    ultimately show ?thesis using Atoi_Itoa [of w] Atoi_Itoa [of h] that by (simp add: parseResolution_def)
  qed
  have "parseResolution ''unknown'' = None" by (simp add: parseResolution_def)
  then have "parseResolution (FormatResolution c) =
      (if 0 < MaxWidth c \<and> 0 < MaxHeight c then Some (MaxWidth c, MaxHeight c) else None)"
    using spaced [of "MaxWidth c" "MaxHeight c" "[]" "[]" "[]" "[]"] assms by (simp add: FormatResolution_def)
  then show ?thesis using spaced [of "MaxWidth c" "MaxHeight c" s1 s2 s3 s4] assms by simp
qed

theorem resolution_roundtrip_witness:
  "parseResolution '' 1920 x 1080'' = Some (1920, 1080)"
proof -
  have "parseResolution ('' '' @ Itoa 1920 @ '' '' @ ''x'' @ '' '' @ Itoa 1080 @ []) = Some (1920, 1080)"
    using resolution_roundtrip [of "zeroCapabilities\<lparr>MaxWidth := 1920, MaxHeight := 1080\<rparr>" "'' ''" "'' ''" "'' ''" "[]"]
    by (simp add: is_space_def)
  moreover have "'' '' @ Itoa 1920 @ '' '' @ ''x'' @ '' '' @ Itoa 1080 @ [] = '' 1920 x 1080''" by code_simp
  ultimately show ?thesis by simp
qed

lemma larger_fold:
  "m \<le> fold (\<lambda>v. larger (f v)) vs m \<and> (\<forall>v\<in>set vs. f v \<le> fold (\<lambda>v. larger (f v)) vs m)
    \<and> (fold (\<lambda>v. larger (f v)) vs m = m \<or> fold (\<lambda>v. larger (f v)) vs m \<in> f ` set vs)"
proof (induction vs arbitrary: m)
  case (Cons v vs)
  have "m \<le> larger (f v) m" "f v \<le> larger (f v) m" "larger (f v) m = m \<or> larger (f v) m = f v"
    by (simp_all add: larger_def)
  then show ?case using Cons [of "larger (f v) m"] by auto
qed simp

section \<open>DRM\<close>

datatype json = JNull | JBool bool | JNum float64 | JStr string | JArr "json list" | JObj "(string \<times> json) list"

record DRMSystem =
  drm_Name :: string
  drm_Type :: string
  drm_Description :: string
  SchemeIDURI :: string
  KeySystem :: string
  MimeTypes :: "string list"
  SupportedProfiles :: "string list"
  drm_MaxResolution :: string
  RequiresSecureDecoder :: bool

definition mime :: "string \<Rightarrow> string \<Rightarrow> string" where
  "mime t c = t @ ''; codecs='' @ [CHR 0x22] @ c @ [CHR 0x22]"

definition Widevine :: DRMSystem where
  "Widevine = \<lparr>drm_Name = ''Widevine'', drm_Type = ''widevine'', drm_Description = ''Google Widevine Content Decryption Module'',
     SchemeIDURI = ''urn:uuid:edef8ba9-79d6-4ace-a3c8-27dcd51d21ed'', KeySystem = ''com.widevine.alpha'',
     MimeTypes = [mime ''video/mp4'' ''avc1'', mime ''video/mp4'' ''avc3'', mime ''video/mp4'' ''hevc'', mime ''video/mp4'' ''vp9'',
       mime ''video/mp4'' ''av01'', mime ''audio/mp4'' ''mp4a'', mime ''audio/webm'' ''opus'', mime ''audio/webm'' ''vorbis''],
     SupportedProfiles = [''SD'', ''HD'', ''UHD'', ''UHD-1'', ''UHD-2''], drm_MaxResolution = ''3840x2160'', RequiresSecureDecoder = True\<rparr>"

definition PlayReady :: DRMSystem where
  "PlayReady = \<lparr>drm_Name = ''PlayReady'', drm_Type = ''playready'', drm_Description = ''Microsoft PlayReady DRM'',
     SchemeIDURI = ''urn:uuid:9a04f079-9840-4286-ab92-e65be0885f95'', KeySystem = ''com.microsoft.playready'',
     MimeTypes = [mime ''video/mp4'' ''avc1'', mime ''video/mp4'' ''hevc'', mime ''audio/mp4'' ''mp4a'', mime ''audio/mp4'' ''ac-3'',
       mime ''audio/mp4'' ''ec-3''],
     SupportedProfiles = [''SD'', ''HD'', ''UHD''], drm_MaxResolution = ''3840x2160'', RequiresSecureDecoder = True\<rparr>"

definition FairPlay :: DRMSystem where
  "FairPlay = \<lparr>drm_Name = ''FairPlay'', drm_Type = ''fairplay'', drm_Description = ''Apple FairPlay Streaming'',
     SchemeIDURI = ''urn:uuid:8974dbce-7be7-4c51-83f6-4007584f3c74'', KeySystem = ''com.apple.fps'',
     MimeTypes = [mime ''video/mp4'' ''avc1'', mime ''video/mp4'' ''hevc'', mime ''audio/mp4'' ''mp4a'', mime ''audio/mp4'' ''ac-3'',
       mime ''audio/mp4'' ''ec-3''],
     SupportedProfiles = [''SD'', ''HD'', ''UHD'', ''HDR''], drm_MaxResolution = ''3840x2160'', RequiresSecureDecoder = True\<rparr>"

definition GetDRMSystemByName :: "string \<Rightarrow> DRMSystem option" where
  "GetDRMSystemByName name =
     (let n = ToLower name
      in if n = ''widevine'' \<or> n = ''widevine cdm'' then Some Widevine
         else if n = ''playready'' \<or> n = ''playready drm'' then Some PlayReady
         else if n = ''fairplay'' \<or> n = ''fairplay streaming'' then Some FairPlay else None)"

definition GetAllDRMSystems :: "DRMSystem list" where "GetAllDRMSystems = [Widevine, PlayReady, FairPlay]"

definition GetDRMKeySystem :: "string \<Rightarrow> string" where
  "GetDRMKeySystem drmType =
     (let t = ToLower drmType
      in if t = ''widevine'' then ''com.widevine.alpha'' else if t = ''playready'' then ''com.microsoft.playready''
         else if t = ''fairplay'' then ''com.apple.fps'' else [])"

definition GetDRMTypeFromKeySystem :: "string \<Rightarrow> string" where
  "GetDRMTypeFromKeySystem k =
     (if k = ''com.widevine.alpha'' then ''widevine'' else if k = ''com.microsoft.playready'' then ''playready''
      else if k = ''com.apple.fps'' then ''fairplay'' else [])"

definition IsDRMSupported :: "DRMSupported option \<Rightarrow> string \<Rightarrow> bool" where
  "IsDRMSupported s drmType =
     (case s of None \<Rightarrow> False
      | Some d \<Rightarrow> list_ex (\<lambda>n. EqualFold n drmType) (Systems d)
          \<or> list_ex (\<lambda>e. EqualFold (System e) drmType \<and> ds_Supported e) (Details d))"

text \<open>Reading a member with a type assertion: the value, if there is one of that type. The last duplicate wins.\<close>

definition member :: "string \<Rightarrow> json \<Rightarrow> json option" where
  "member k j = (case j of JObj ms \<Rightarrow> map_of (rev ms) k | _ \<Rightarrow> None)"

definition str_member :: "string \<Rightarrow> json \<Rightarrow> string option" where
  "str_member k j = (case member k j of Some (JStr s) \<Rightarrow> Some s | _ \<Rightarrow> None)"

definition bool_member :: "string \<Rightarrow> json \<Rightarrow> bool option" where
  "bool_member k j = (case member k j of Some (JBool b) \<Rightarrow> Some b | _ \<Rightarrow> None)"

definition or_default :: "'a \<Rightarrow> 'a option \<Rightarrow> 'a" where
  "or_default d x = (case x of None \<Rightarrow> d | Some v \<Rightarrow> v)"

definition is_object :: "json \<Rightarrow> bool" where "is_object j = (case j of JObj _ \<Rightarrow> True | _ \<Rightarrow> False)"

definition add_system :: "json \<Rightarrow> DRMSupported \<Rightarrow> DRMSupported" where
  "add_system sys s =
     (if \<not> is_object sys then s
      else s\<lparr>Systems := Systems s @ (case str_member ''name'' sys of None \<Rightarrow> [] | Some n \<Rightarrow> [n]),
             Supported := (Supported s \<or> bool_member ''supported'' sys = Some True)\<rparr>)"

definition add_detail :: "string \<Rightarrow> string \<Rightarrow> json \<Rightarrow> DRMSupported \<Rightarrow> DRMSupported" where
  "add_detail key name eme s =
     (case member key eme of
        None \<Rightarrow> s
      | Some d \<Rightarrow>
          if \<not> is_object d then s
          else s\<lparr>Supported := (Supported s \<or> bool_member ''supported'' d = Some True),
                 Details := Details s @ [\<lparr>System = name, ds_Supported = or_default False (bool_member ''supported'' d),
                   LicenseURL = or_default [] (str_member ''license_url'' d),
                   OfflineLicense = or_default False (bool_member ''offline_license'' d),
                   MaxResolution = or_default [] (str_member ''max_resolution'' d),
                   SecurityLevel = or_default [] (str_member ''security_level'' d)\<rparr>]\<rparr>)"

definition CheckDRMSupport :: "json option \<Rightarrow> DRMSupported option" where
  "CheckDRMSupport parsed =
     (let none = \<lparr>Supported = False, Systems = [], Details = []\<rparr>
      in case parsed of
        None \<Rightarrow> None
      | Some j \<Rightarrow>
          if \<not> is_object j \<and> j \<noteq> JNull then None
          else (case (case member ''eme'' j of Some e \<Rightarrow> Some e
                      | None \<Rightarrow> (case member ''encrypted_media'' j of Some e \<Rightarrow> Some e | None \<Rightarrow> member ''drm'' j)) of
                  None \<Rightarrow> Some none
                | Some eme \<Rightarrow>
                    if \<not> is_object eme then Some none
                    else Some (add_detail ''fairplay'' ''FairPlay'' eme (add_detail ''playready'' ''PlayReady'' eme
                      (add_detail ''widevine'' ''Widevine'' eme
                        (case member ''systems'' eme of Some (JArr l) \<Rightarrow> fold add_system l none | _ \<Rightarrow> none))))))"

lemma fold_add_system:
  "Systems (fold add_system l s) = Systems s @ concat (map (\<lambda>y. if is_object y then (case str_member ''name'' y of None \<Rightarrow> [] | Some n \<Rightarrow> [n]) else []) l)
   \<and> Supported (fold add_system l s) = (Supported s \<or> list_ex (\<lambda>y. is_object y \<and> bool_member ''supported'' y = Some True) l)"
  by (induction l arbitrary: s) (auto simp: add_system_def)

lemma add_detail_keeps: "set (Systems s) \<subseteq> set (Systems (add_detail k n e s))"
  by (auto simp: add_detail_def split: option.splits)

text \<open>
  A DRM system that a probe merely names counts as supported: every name in the list of systems, also one
  whose own entry says it is not supported, is reported as supported, while the summary flag stays false.
\<close>

theorem named_drm_systems_count:
  assumes "is_object j" and "member ''eme'' j = Some eme" and "is_object eme" and "member ''systems'' eme = Some (JArr l)"
    and "y \<in> set l" and "is_object y" and "str_member ''name'' y = Some n"
  shows "\<exists>s. CheckDRMSupport (Some j) = Some s \<and> IsDRMSupported (Some s) n
    \<and> (Supported s \<longleftrightarrow> (\<exists>z\<in>set l. is_object z \<and> bool_member ''supported'' z = Some True)
         \<or> (\<exists>k\<in>{''widevine'', ''playready'', ''fairplay''}. \<exists>d. member k eme = Some d \<and> is_object d \<and> bool_member ''supported'' d = Some True))"
proof -
  define s0 where "s0 = fold add_system l \<lparr>Supported = False, Systems = [], Details = []\<rparr>"
  define s where "s = add_detail ''fairplay'' ''FairPlay'' eme (add_detail ''playready'' ''PlayReady'' eme (add_detail ''widevine'' ''Widevine'' eme s0))"
  have s: "CheckDRMSupport (Some j) = Some s" using assms by (simp add: CheckDRMSupport_def s_def s0_def Let_def)
  have "n \<in> set (Systems s0)" using assms(5-7) fold_add_system [of l] unfolding s0_def by force
  then have "n \<in> set (Systems s)" using add_detail_keeps unfolding s_def by blast
  then have "IsDRMSupported (Some s) n" by (auto simp: IsDRMSupported_def list_ex_iff intro: bexI [of _ n])
  moreover have "Supported (add_detail k m eme t) \<longleftrightarrow> Supported t \<or>
      (\<exists>d. member k eme = Some d \<and> is_object d \<and> bool_member ''supported'' d = Some True)" for k m t
    by (auto simp: add_detail_def split: option.splits)
  moreover have "Supported s0 \<longleftrightarrow> (\<exists>z\<in>set l. is_object z \<and> bool_member ''supported'' z = Some True)"
    using fold_add_system [of l] by (auto simp: s0_def list_ex_iff)
  ultimately show ?thesis using s by (auto simp: s_def)
qed

theorem named_drm_systems_count_witness:
  "\<exists>s. CheckDRMSupport (Some (JObj [(''eme'', JObj [(''systems'', JArr [JObj [(''name'', JStr ''widevine''), (''supported'', JBool False)]])])])) = Some s
     \<and> IsDRMSupported (Some s) ''widevine'' \<and> \<not> Supported s"
proof -
  define y where "y = JObj [(''name'', JStr ''widevine''), (''supported'', JBool False)]"
  define eme where "eme = JObj [(''systems'', JArr [y])]"
  define j where "j = JObj [(''eme'', eme)]"
  have 1: "is_object j" "member ''eme'' j = Some eme" "is_object eme" "member ''systems'' eme = Some (JArr [y])" "y \<in> set [y]"
    "is_object y" "str_member ''name'' y = Some ''widevine''"
    by (simp_all add: member_def is_object_def str_member_def j_def eme_def y_def)
  have 2: "bool_member ''supported'' y = Some False" "member ''widevine'' eme = None" "member ''playready'' eme = None" "member ''fairplay'' eme = None"
    by (simp_all add: member_def bool_member_def eme_def y_def)
  have "\<exists>s. CheckDRMSupport (Some j) = Some s \<and> IsDRMSupported (Some s) ''widevine'' \<and> \<not> Supported s"
    using named_drm_systems_count [OF 1] 2 by auto
  then show ?thesis unfolding j_def eme_def y_def .
qed

end
