(* ===== verification/Validator.thy ===== *)
theory Validator
  imports Probe Codec
begin

text \<open>
  The validation of reported capabilities: \<^verbatim>\<open>internal/probes/validator.go\<close>.

  Each check maps the result so far to the result with its errors and warnings appended. The history of
  anomalies is part of the validator. \<^verbatim>\<open>checkAnomalies\<close> counts over a slice it read before it records the new
  anomalies; how much of the recording that slice shows depends on its spare capacity, so what it shows is a
  parameter \<open>view\<close> of the records before and after. \<open>showd\<close> prints a duration.
\<close>

section \<open>Results and constraints\<close>

record ValidationError =
  ve_Code :: string
  ve_Message :: string
  ve_Severity :: string
  ve_Field :: string

record ValidationWarning =
  vw_Code :: string
  vw_Message :: string
  vw_Field :: string

record ValidationResult =
  IsValid :: bool
  Score :: float64
  Errors :: "ValidationError list"
  Warnings :: "ValidationWarning list"
  AnomalyDetected :: bool
  AnomalyReason :: string

record AnomalyRecord =
  an_DeviceID :: string
  AnomalyType :: string
  an_Description :: string
  an_Severity :: string
  FirstSeen :: time
  LastSeen :: time
  an_Count :: int

record PlatformConstraints =
  AllowedVideoCodecs :: "string list"
  AllowedAudioCodecs :: "string list"
  AllowedContainers :: "string list"
  MaxVideoCodecs :: int
  MaxAudioCodecs :: int
  MinVideoCodecs :: int
  RequiresH264 :: bool
  RequiresAAC :: bool
  pc_MaxBitrate :: int

record Validator =
  constraints :: "(string, PlatformConstraints) gomap"
  anomalyHistory :: "(string, AnomalyRecord list) gomap"
  StrictMode :: bool
  MaxAnomalies :: int
  AnomalyWindow :: duration

definition initPlatformConstraints :: "(string, PlatformConstraints) gomap" where
  "initPlatformConstraints = [
     (''ios'', \<lparr>AllowedVideoCodecs = [''h264'', ''hevc'', ''mpeg4'', ''mpeg2'', ''vc1''],
        AllowedAudioCodecs = [''aac'', ''mp3'', ''flac'', ''alac'', ''ac3'', ''eac3'', ''truehd''],
        AllowedContainers = [''mp4'', ''mov'', ''mkv'', ''ts''],
        MaxVideoCodecs = 8, MaxAudioCodecs = 10, MinVideoCodecs = 2, RequiresH264 = True, RequiresAAC = False, pc_MaxBitrate = 100000000\<rparr>),
     (''tvos'', \<lparr>AllowedVideoCodecs = [''h264'', ''hevc'', ''vp9'', ''av1''],
        AllowedAudioCodecs = [''aac'', ''mp3'', ''flac'', ''alac'', ''ac3'', ''eac3'', ''truehd'', ''opus''],
        AllowedContainers = [''mp4'', ''mov'', ''mkv'', ''webm''],
        MaxVideoCodecs = 10, MaxAudioCodecs = 12, MinVideoCodecs = 0, RequiresH264 = True, RequiresAAC = False, pc_MaxBitrate = 100000000\<rparr>),
     (''android'', \<lparr>AllowedVideoCodecs = [''h264'', ''hevc'', ''vp9'', ''av1'', ''vp8'', ''mpeg4'', ''mpeg2''],
        AllowedAudioCodecs = [''aac'', ''mp3'', ''flac'', ''opus'', ''ac3'', ''eac3'', ''dts''],
        AllowedContainers = [''mp4'', ''mkv'', ''webm'', ''3gp''],
        MaxVideoCodecs = 12, MaxAudioCodecs = 12, MinVideoCodecs = 2, RequiresH264 = True, RequiresAAC = False, pc_MaxBitrate = 100000000\<rparr>),
     (''web'', \<lparr>AllowedVideoCodecs = [''h264'', ''hevc'', ''vp9'', ''av1'', ''vp8''],
        AllowedAudioCodecs = [''aac'', ''mp3'', ''flac'', ''opus'', ''ac3'', ''eac3''],
        AllowedContainers = [''mp4'', ''mkv'', ''webm'', ''ogg''],
        MaxVideoCodecs = 8, MaxAudioCodecs = 8, MinVideoCodecs = 0, RequiresH264 = True, RequiresAAC = False, pc_MaxBitrate = 50000000\<rparr>),
     (''chromecast'', \<lparr>AllowedVideoCodecs = [''h264'', ''hevc'', ''vp9'', ''av1''],
        AllowedAudioCodecs = [''aac'', ''mp3'', ''flac'', ''opus'', ''ac3'', ''eac3''],
        AllowedContainers = [''mp4'', ''mkv'', ''webm''],
        MaxVideoCodecs = 6, MaxAudioCodecs = 0, MinVideoCodecs = 0, RequiresH264 = True, RequiresAAC = False, pc_MaxBitrate = 25000000\<rparr>),
     (''roku'', \<lparr>AllowedVideoCodecs = [''h264'', ''hevc'', ''mpeg4'', ''mpeg2'', ''vp8''],
        AllowedAudioCodecs = [''aac'', ''mp3'', ''ac3'', ''eac3'', ''flac''],
        AllowedContainers = [''mp4'', ''mkv'', ''mov'', ''ts''],
        MaxVideoCodecs = 8, MaxAudioCodecs = 8, MinVideoCodecs = 0, RequiresH264 = True, RequiresAAC = False, pc_MaxBitrate = 30000000\<rparr>),
     (''firetv'', \<lparr>AllowedVideoCodecs = [''h264'', ''hevc'', ''vp9'', ''av1'', ''mpeg4''],
        AllowedAudioCodecs = [''aac'', ''mp3'', ''flac'', ''opus'', ''ac3'', ''eac3'', ''dts''],
        AllowedContainers = [''mp4'', ''mkv'', ''webm''],
        MaxVideoCodecs = 8, MaxAudioCodecs = 10, MinVideoCodecs = 0, RequiresH264 = True, RequiresAAC = False, pc_MaxBitrate = 40000000\<rparr>),
     (''xbox'', \<lparr>AllowedVideoCodecs = [''h264'', ''hevc'', ''vp9'', ''mpeg2'', ''mpeg4'', ''vc1''],
        AllowedAudioCodecs = [''aac'', ''mp3'', ''flac'', ''alac'', ''ac3'', ''eac3'', ''truehd'', ''dts''],
        AllowedContainers = [''mp4'', ''mkv'', ''mov'', ''avi'', ''ts''],
        MaxVideoCodecs = 10, MaxAudioCodecs = 12, MinVideoCodecs = 0, RequiresH264 = True, RequiresAAC = False, pc_MaxBitrate = 100000000\<rparr>),
     (''playstation'', \<lparr>AllowedVideoCodecs = [''h264'', ''hevc'', ''mpeg2'', ''mpeg4''],
        AllowedAudioCodecs = [''aac'', ''mp3'', ''flac'', ''ac3'', ''eac3'', ''dts'', ''truehd''],
        AllowedContainers = [''mp4'', ''mkv'', ''avi'', ''ts''],
        MaxVideoCodecs = 6, MaxAudioCodecs = 8, MinVideoCodecs = 0, RequiresH264 = True, RequiresAAC = False, pc_MaxBitrate = 80000000\<rparr>),
     (''apple_tv'', \<lparr>AllowedVideoCodecs = [''h264'', ''hevc'', ''vp9'', ''av1''],
        AllowedAudioCodecs = [''aac'', ''mp3'', ''flac'', ''alac'', ''ac3'', ''eac3'', ''truehd''],
        AllowedContainers = [''mp4'', ''mov'', ''mkv''],
        MaxVideoCodecs = 6, MaxAudioCodecs = 8, MinVideoCodecs = 0, RequiresH264 = True, RequiresAAC = False, pc_MaxBitrate = 100000000\<rparr>),
     (''windows'', \<lparr>AllowedVideoCodecs = [''h264'', ''hevc'', ''vp9'', ''av1'', ''vp8'', ''mpeg2'', ''mpeg4'', ''vc1''],
        AllowedAudioCodecs = [''aac'', ''mp3'', ''flac'', ''alac'', ''opus'', ''ac3'', ''eac3'', ''dts'', ''truehd''],
        AllowedContainers = [''mp4'', ''mkv'', ''avi'', ''mov'', ''ts'', ''wmv'', ''flv''],
        MaxVideoCodecs = 15, MaxAudioCodecs = 15, MinVideoCodecs = 0, RequiresH264 = False, RequiresAAC = False, pc_MaxBitrate = 100000000\<rparr>),
     (''macos'', \<lparr>AllowedVideoCodecs = [''h264'', ''hevc'', ''vp9'', ''av1'', ''mpeg2'', ''mpeg4''],
        AllowedAudioCodecs = [''aac'', ''mp3'', ''flac'', ''alac'', ''opus'', ''ac3'', ''eac3''],
        AllowedContainers = [''mp4'', ''mov'', ''mkv'', ''webm'', ''avi''],
        MaxVideoCodecs = 10, MaxAudioCodecs = 10, MinVideoCodecs = 0, RequiresH264 = True, RequiresAAC = False, pc_MaxBitrate = 100000000\<rparr>),
     (''linux'', \<lparr>AllowedVideoCodecs = [''h264'', ''hevc'', ''vp9'', ''av1'', ''vp8'', ''mpeg2'', ''mpeg4''],
        AllowedAudioCodecs = [''aac'', ''mp3'', ''flac'', ''opus'', ''ac3'', ''eac3'', ''dts''],
        AllowedContainers = [''mp4'', ''mkv'', ''webm'', ''avi'', ''ts'', ''ogv''],
        MaxVideoCodecs = 12, MaxAudioCodecs = 12, MinVideoCodecs = 0, RequiresH264 = False, RequiresAAC = False, pc_MaxBitrate = 100000000\<rparr>)]"

definition NewValidator :: Validator where
  "NewValidator = \<lparr>constraints = initPlatformConstraints, anomalyHistory = [], StrictMode = False, MaxAnomalies = 10,
     AnomalyWindow = 24 * Hour\<rparr>"

definition err :: "string \<Rightarrow> string \<Rightarrow> string \<Rightarrow> string \<Rightarrow> ValidationResult \<Rightarrow> ValidationResult" where
  "err code msg severity field r =
     r\<lparr>Errors := Errors r @ [\<lparr>ve_Code = code, ve_Message = msg, ve_Severity = severity, ve_Field = field\<rparr>]\<rparr>"

definition warn :: "string \<Rightarrow> string \<Rightarrow> string \<Rightarrow> ValidationResult \<Rightarrow> ValidationResult" where
  "warn code msg field r = r\<lparr>Warnings := Warnings r @ [\<lparr>vw_Code = code, vw_Message = msg, vw_Field = field\<rparr>]\<rparr>"

definition warn_if :: "bool \<Rightarrow> string \<Rightarrow> string \<Rightarrow> string \<Rightarrow> ValidationResult \<Rightarrow> ValidationResult" where
  "warn_if b code msg field r = (if b then warn code msg field r else r)"

section \<open>The checks\<close>

definition platformPatterns :: "(string, string list) gomap" where
  "platformPatterns = [(''ios'', [''iphone'', ''ipad'', ''ipod'']), (''android'', [''android'']), (''macos'', [''mac os'', ''macintosh'']),
     (''windows'', [''windows'']), (''linux'', [''linux'']), (''chromecast'', [''crkey'', ''chromecast'']), (''roku'', [''roku'']),
     (''firetv'', [''fire tv'', ''firetv'']), (''xbox'', [''xbox'']), (''playstation'', [''playstation''])]"

definition checkUserAgentConsistency :: "string \<Rightarrow> string \<Rightarrow> ValidationResult \<Rightarrow> ValidationResult" where
  "checkUserAgentConsistency platform userAgent r =
     (case gget platformPatterns platform of
        None \<Rightarrow> r
      | Some alternatives \<Rightarrow>
          warn_if (\<not> list_ex (Contains (ToLower userAgent)) alternatives) ''UA_PLATFORM_MISMATCH''
            (''User agent doesn't match platform: '' @ platform) ''user_agent'' r)"

definition underscores :: "string \<Rightarrow> string" where
  "underscores s = map (\<lambda>c. if c = CHR '' '' \<or> c = CHR ''-'' then CHR ''_'' else c) s"

definition validatePlatform :: "Validator \<Rightarrow> DeviceCapabilities \<Rightarrow> ValidationResult \<Rightarrow> ValidationResult" where
  "validatePlatform v caps r =
     (if Platform caps = [] then err ''MISSING_PLATFORM'' ''Platform is required'' ''critical'' ''platform'' r
      else
        let platform = underscores (ToLower (Platform caps));
            r1 = (if gget (constraints v) platform = None
                  then let w = warn ''UNKNOWN_PLATFORM'' (''Unknown platform: '' @ Platform caps) ''platform'' r
                       in w\<lparr>Score := fsub (Score w) (lit 1 10)\<rparr>
                  else r)
        in if UserAgent caps \<noteq> [] then checkUserAgentConsistency platform (UserAgent caps) r1 else r1)"

definition unknown_codec :: "string \<Rightarrow> ValidationResult \<Rightarrow> ValidationResult" where
  "unknown_codec vc = warn_if (\<not> IsVideoCodec vc) ''UNKNOWN_VIDEO_CODEC'' (''Unknown or invalid video codec: '' @ vc) ''video_codecs''"

definition validateVideoCodecs :: "Validator \<Rightarrow> DeviceCapabilities \<Rightarrow> ValidationResult \<Rightarrow> ValidationResult" where
  "validateVideoCodecs v caps r =
     (case gget (constraints v) (Platform caps) of
        None \<Rightarrow> r
      | Some k \<Rightarrow>
          if VideoCodecs caps = [] then err ''NO_VIDEO_CODECS'' ''No video codecs reported'' ''error'' ''video_codecs'' r
          else
            let n = int (length (VideoCodecs caps));
                r1 = warn_if (MinVideoCodecs k > 0 \<and> n < MinVideoCodecs k) ''LOW_VIDEO_CODECS''
                       (''Fewer video codecs than expected: '' @ Itoa n @ '' (expected >= '' @ Itoa (MinVideoCodecs k) @ '')'') ''video_codecs'' r;
                r2 = (if n > MaxVideoCodecs k
                      then (warn ''EXCESSIVE_VIDEO_CODECS'' (''Unusually high number of video codecs: '' @ Itoa n @ '' (max: ''
                              @ Itoa (MaxVideoCodecs k) @ '')'') ''video_codecs'' r1)
                           \<lparr>AnomalyDetected := True, AnomalyReason := ''Excessive video codec count''\<rparr>
                      else r1);
                r3 = fold unknown_codec (VideoCodecs caps) r2
            in warn_if (RequiresH264 k \<and> ''h264'' \<notin> set (VideoCodecs caps)) ''MISSING_H264''
                 ''H.264 codec not reported (usually required)'' ''video_codecs'' r3)"

definition validateAudioCodecs :: "DeviceCapabilities \<Rightarrow> ValidationResult \<Rightarrow> ValidationResult" where
  "validateAudioCodecs caps r =
     (if AudioCodecs caps = [] then warn ''NO_AUDIO_CODECS'' ''No audio codecs reported'' ''audio_codecs'' r
      else
        let r1 = warn_if (\<not> list_ex (\<lambda>a. a = ''aac'' \<or> a = ''mp3'') (AudioCodecs caps)) ''MISSING_COMMON_AUDIO''
                   ''No common audio codecs (AAC/MP3) reported'' ''audio_codecs'' r;
            hasDolbyAtmos = (list_ex (\<lambda>a. a = ''ac3'' \<or> a = ''eac3'') (AudioCodecs caps) \<and> SupportsDolbyAtmos caps)
        in warn_if (SupportsDolbyAtmos caps \<and> \<not> hasDolbyAtmos) ''ATMOS_WITHOUT_BASE''
             ''Dolby Atmos reported without AC3/EAC3 support'' ''audio_codecs'' r1)"

definition validateContainers :: "DeviceCapabilities \<Rightarrow> ValidationResult \<Rightarrow> ValidationResult" where
  "validateContainers caps r =
     (if ContainerFormats caps = [] then warn ''NO_CONTAINERS'' ''No container formats reported'' ''container_formats'' r
      else warn_if (\<not> list_ex (\<lambda>c. ToLower c = ''mp4'' \<or> ToLower c = ''mkv'') (ContainerFormats caps)) ''MISSING_COMMON_CONTAINERS''
             ''No common container formats (MP4/MKV) reported'' ''container_formats'' r)"

definition standardRatios :: "float64 list" where "standardRatios = [lit 4 3, lit 16 9, lit 21 9, 1]"

definition validateResolution :: "DeviceCapabilities \<Rightarrow> ValidationResult \<Rightarrow> ValidationResult" where
  "validateResolution caps r =
     (if MaxWidth caps \<le> 0 \<and> MaxHeight caps \<le> 0 then warn ''NO_RESOLUTION'' ''No maximum resolution reported'' ''max_resolution'' r
      else
        let r1 = (if MaxWidth caps > 16384 \<or> MaxHeight caps > 16384
                  then err ''IMPOSSIBLE_RESOLUTION'' (''Unrealistic resolution: '' @ Itoa (MaxWidth caps) @ ''x'' @ Itoa (MaxHeight caps))
                         ''error'' ''max_resolution'' r
                  else r);
            ratio = fdiv (ffromint (MaxWidth caps)) (ffromint (MaxHeight caps))
        in warn_if (MaxWidth caps > 0 \<and> MaxHeight caps > 0 \<and> \<not> list_ex (\<lambda>sr. \<bar>fsub ratio sr\<bar> < lit 1 20) standardRatios)
             ''UNUSUAL_ASPECT_RATIO'' (''Unusual aspect ratio: '' @ Fmt2 ratio) ''max_resolution'' r1)"

definition validateBitrate :: "DeviceCapabilities \<Rightarrow> ValidationResult \<Rightarrow> ValidationResult" where
  "validateBitrate caps r =
     (if MaxBitrate caps \<le> 0 then warn ''NO_BITRATE'' ''No maximum bitrate reported'' ''max_bitrate'' r
      else if MaxBitrate caps > 1000000000
      then err ''IMPOSSIBLE_BITRATE'' (''Unrealistic bitrate: '' @ Itoa (MaxBitrate caps) @ '' bps'') ''error'' ''max_bitrate'' r
      else r)"

definition validateFeatureFlags :: "DeviceCapabilities \<Rightarrow> ValidationResult \<Rightarrow> ValidationResult" where
  "validateFeatureFlags caps r =
     (let r1 = warn_if (SupportsHDR caps \<and> \<not> Supports10Bit caps) ''HDR_WITHOUT_10BIT''
                 ''HDR support reported without 10-bit support'' ''supports_hdr'' r;
          r2 = warn_if (SupportsDolbyVision caps \<and> ''hevc'' \<notin> set (VideoCodecs caps) \<and> ''h264'' \<notin> set (VideoCodecs caps))
                 ''DOLBY_VISION_WITHOUT_CODEC'' ''Dolby Vision reported without HEVC or H.264 support'' ''supports_dolby_vision'' r1;
          r3 = warn_if (SupportsDolbyAtmos caps \<and> ''ac3'' \<notin> set (AudioCodecs caps) \<and> ''eac3'' \<notin> set (AudioCodecs caps))
                 ''ATMOS_WITHOUT_AC3'' ''Dolby Atmos reported without AC3/EAC3 support'' ''supports_dolby_atmos'' r2
      in warn_if (SupportsDTS caps \<and> ''dts'' \<notin> set (AudioCodecs caps)) ''DTS_FLAG_WITHOUT_CODEC''
           ''DTS support flag set without DTS codec'' ''supports_dts'' r3)"

definition validateDRMConsistency :: "DeviceCapabilities \<Rightarrow> ValidationResult \<Rightarrow> ValidationResult" where
  "validateDRMConsistency caps r =
     (let p = ToLower (Platform caps)
      in if DRMSupport caps = None then r
         else if p \<in> set [''ios'', ''tvos'', ''apple_tv'', ''macos'']
         then warn_if (\<not> IsDRMSupported (DRMSupport caps) ''fairplay'') ''APPLE_WITHOUT_FAIRPLAY''
                ''Apple platform without FairPlay DRM support'' ''drm_support'' r
         else if p \<in> set [''android'', ''chromecast'', ''firetv'']
         then warn_if (\<not> IsDRMSupported (DRMSupport caps) ''widevine'') ''ANDROID_WITHOUT_WIDEVINE''
                ''Android platform without Widevine DRM support'' ''drm_support'' r
         else if p \<in> set [''xbox'', ''windows'']
         then warn_if (\<not> IsDRMSupported (DRMSupport caps) ''playready'') ''WINDOWS_WITHOUT_PLAYREADY''
                ''Windows platform without PlayReady DRM support'' ''drm_support'' r
         else r)"

section \<open>Anomalies\<close>

fun bump :: "time \<Rightarrow> string \<Rightarrow> AnomalyRecord list \<Rightarrow> AnomalyRecord list option" where
  "bump now ty [] = None"
| "bump now ty (a # as) =
     (if AnomalyType a = ty then Some (a\<lparr>an_Count := an_Count a + 1, LastSeen := now\<rparr> # as)
      else map_option (Cons a) (bump now ty as))"

definition history :: "string \<Rightarrow> Validator \<Rightarrow> AnomalyRecord list" where
  "history i v = (case gget (anomalyHistory v) i of None \<Rightarrow> [] | Some as \<Rightarrow> as)"

definition recordAnomaly :: "time \<Rightarrow> string \<Rightarrow> string \<Rightarrow> string \<Rightarrow> string \<Rightarrow> Validator \<Rightarrow> Validator" where
  "recordAnomaly now i ty desc severity v =
     v\<lparr>anomalyHistory := gput (anomalyHistory v) i
        (case bump now ty (history i v) of
           Some as \<Rightarrow> as
         | None \<Rightarrow> history i v @ [\<lparr>an_DeviceID = i, AnomalyType = ty, an_Description = desc, an_Severity = severity,
                     FirstSeen = now, LastSeen = now, an_Count = 1\<rparr>])\<rparr>"

text \<open>The errors and warnings of a result that are recorded: code, message and severity.\<close>

definition anomalies :: "ValidationResult \<Rightarrow> (string \<times> string \<times> string) list" where
  "anomalies r =
     map (\<lambda>e. (ve_Code e, ve_Message e, ve_Severity e)) (filter (\<lambda>e. ve_Severity e = ''critical'' \<or> ve_Severity e = ''error'') (Errors r))
     @ map (\<lambda>w. (vw_Code w, vw_Message w, ''warning''))
         (filter (\<lambda>w. vw_Code w = ''EXCESSIVE_VIDEO_CODECS'' \<or> vw_Code w = ''UA_PLATFORM_MISMATCH'') (Warnings r))"

type_synonym slice_view = "AnomalyRecord list \<Rightarrow> AnomalyRecord list \<Rightarrow> AnomalyRecord list"

definition checkAnomalies ::
  "slice_view \<Rightarrow> (duration \<Rightarrow> string) \<Rightarrow> time \<Rightarrow> DeviceCapabilities \<Rightarrow> ValidationResult \<Rightarrow> Validator \<Rightarrow> ValidationResult \<times> Validator" where
  "checkAnomalies view showd now caps r v =
     (let v1 = fold (\<lambda>(c, m, s). recordAnomaly now (DeviceID caps) c m s) (anomalies r) v;
          seen = view (history (DeviceID caps) v) (history (DeviceID caps) v1);
          n = sum_list (map an_Count (filter (\<lambda>a. Sub now (FirstSeen a) < AnomalyWindow v) seen))
      in (if n > MaxAnomalies v
          then r\<lparr>AnomalyDetected := True,
                 AnomalyReason := ''High anomaly count: '' @ Itoa n @ '' in '' @ showd (AnomalyWindow v),
                 Score := fsub (Score r) (lit 1 5)\<rparr>
          else r, v1))"

definition severity_cost :: "string \<Rightarrow> float64" where
  "severity_cost s = (if s = ''critical'' then lit 3 10 else if s = ''error'' then lit 3 20 else if s = ''warning'' then lit 1 20 else 0)"

definition calculateScore :: "ValidationResult \<Rightarrow> float64" where
  "calculateScore r =
     (let s1 = fold (\<lambda>e s. if ve_Severity e \<in> set [''critical'', ''error'', ''warning''] then fsub s (severity_cost (ve_Severity e)) else s)
                 (Errors r) 1;
          s2 = fold (\<lambda>_ s. fsub s (lit 1 50)) (Warnings r) s1;
          s3 = (if AnomalyDetected r then fsub s2 (lit 1 10) else s2);
          s4 = (if s3 < 0 then 0 else s3)
      in if s4 > 1 then 1 else s4)"

definition emptyResult :: ValidationResult where
  "emptyResult = \<lparr>IsValid = True, Score = 1, Errors = [], Warnings = [], AnomalyDetected = False, AnomalyReason = []\<rparr>"

definition run_checks :: "Validator \<Rightarrow> DeviceCapabilities \<Rightarrow> ValidationResult" where
  "run_checks v caps =
     validateDRMConsistency caps (validateFeatureFlags caps (validateBitrate caps (validateResolution caps
       (validateContainers caps (validateAudioCodecs caps (validateVideoCodecs v caps (validatePlatform v caps emptyResult)))))))"

definition ValidateCapabilities ::
  "slice_view \<Rightarrow> (duration \<Rightarrow> string) \<Rightarrow> time \<Rightarrow> DeviceCapabilities option \<Rightarrow> Validator \<Rightarrow> ValidationResult \<times> Validator" where
  "ValidateCapabilities view showd now caps v =
     (case caps of
        None \<Rightarrow> ((err ''EMPTY_DATA'' ''No capabilities data provided'' ''critical'' [] emptyResult)\<lparr>IsValid := False, Score := 0\<rparr>, v)
      | Some c \<Rightarrow>
          (let (r, v1) = checkAnomalies view showd now c (run_checks v c) v; r1 = r\<lparr>Score := calculateScore r\<rparr>
           in (if Errors r1 \<noteq> [] then r1\<lparr>IsValid := False\<rparr> else r1, v1)))"

definition GetAnomalyHistory :: "string \<Rightarrow> Validator \<Rightarrow> AnomalyRecord list" where
  "GetAnomalyHistory i v = history i v"

definition ClearAnomalyHistory :: "string \<Rightarrow> Validator \<Rightarrow> Validator" where
  "ClearAnomalyHistory i v = v\<lparr>anomalyHistory := gdel (anomalyHistory v) i\<rparr>"

definition CleanOldAnomalies :: "time \<Rightarrow> Validator \<Rightarrow> Validator" where
  "CleanOldAnomalies now v =
     v\<lparr>anomalyHistory := filter (\<lambda>(_, as). as \<noteq> [])
        (map (\<lambda>(i, as). (i, filter (\<lambda>a. Sub now (FirstSeen a) < AnomalyWindow v * 2) as)) (anomalyHistory v))\<rparr>"

definition severityOrder :: "string \<Rightarrow> int" where
  "severityOrder s = (if s = ''critical'' then 0 else if s = ''error'' then 1 else if s = ''warning'' then 2 else 0)"

definition SortErrors :: "ValidationResult \<Rightarrow> ValidationResult" where
  "SortErrors r = r\<lparr>Errors := sort_key (severityOrder \<circ> ve_Severity) (Errors r)\<rparr>"

section \<open>Validity\<close>

lemma warn_if_errors [simp]: "Errors (warn_if b c m f r) = Errors r" "Errors (warn c m f r) = Errors r"
  by (simp_all add: warn_if_def warn_def)

lemma warn_if_valid [simp]: "IsValid (warn_if b c m f r) = IsValid r" "IsValid (warn c m f r) = IsValid r" "IsValid (err c m s f r) = IsValid r"
  by (simp_all add: warn_if_def warn_def err_def)

lemma err_nonempty [simp]: "Errors (err c m s f r) \<noteq> []"
  by (simp add: err_def)

lemma fold_unknown [simp]: "Errors (fold unknown_codec cs r) = Errors r" "IsValid (fold unknown_codec cs r) = IsValid r"
  by (induction cs arbitrary: r) (simp_all add: unknown_codec_def)

lemma check_errors:
  "Errors (validatePlatform v caps r) = [] \<longleftrightarrow> Errors r = [] \<and> Platform caps \<noteq> []"
  "Errors (validateVideoCodecs v caps r) = [] \<longleftrightarrow> Errors r = [] \<and> (gget (constraints v) (Platform caps) \<noteq> None \<longrightarrow> VideoCodecs caps \<noteq> [])"
  "Errors (validateAudioCodecs caps r) = Errors r" "Errors (validateContainers caps r) = Errors r"
  "Errors (validateResolution caps r) = [] \<longleftrightarrow> Errors r = [] \<and>
     (MaxWidth caps > 16384 \<or> MaxHeight caps > 16384 \<longrightarrow> MaxWidth caps \<le> 0 \<and> MaxHeight caps \<le> 0)"
  "Errors (validateBitrate caps r) = [] \<longleftrightarrow> Errors r = [] \<and> MaxBitrate caps \<le> 1000000000"
  "Errors (validateFeatureFlags caps r) = Errors r" "Errors (validateDRMConsistency caps r) = Errors r"
  by (auto simp: validatePlatform_def validateVideoCodecs_def validateAudioCodecs_def validateContainers_def validateResolution_def
      validateBitrate_def validateFeatureFlags_def validateDRMConsistency_def checkUserAgentConsistency_def Let_def split: option.splits)

lemma checkAnomalies_errors: "Errors (fst (checkAnomalies view showd now c r v)) = Errors r"
  by (simp add: checkAnomalies_def Let_def)

lemma checkAnomalies_valid: "IsValid (fst (checkAnomalies view showd now c r v)) = IsValid r"
  by (simp add: checkAnomalies_def Let_def)

lemma check_valid:
  "IsValid (validatePlatform v caps r) = IsValid r" "IsValid (validateVideoCodecs v caps r) = IsValid r"
  "IsValid (validateAudioCodecs caps r) = IsValid r" "IsValid (validateContainers caps r) = IsValid r"
  "IsValid (validateResolution caps r) = IsValid r" "IsValid (validateBitrate caps r) = IsValid r"
  "IsValid (validateFeatureFlags caps r) = IsValid r" "IsValid (validateDRMConsistency caps r) = IsValid r"
  by (auto simp: validatePlatform_def validateVideoCodecs_def validateAudioCodecs_def validateContainers_def validateResolution_def
      validateBitrate_def validateFeatureFlags_def validateDRMConsistency_def checkUserAgentConsistency_def Let_def split: option.splits)

lemma run_checks_valid: "IsValid (run_checks v c)"
  unfolding run_checks_def check_valid by (simp add: emptyResult_def)

lemma checkAnomalies_history:
  "snd (checkAnomalies view showd now c r v) = fold (\<lambda>(k, m, s). recordAnomaly now (DeviceID c) k m s) (anomalies r) v"
  "Warnings (fst (checkAnomalies view showd now c r v)) = Warnings r"
  unfolding checkAnomalies_def Let_def by simp_all

lemma ValidateCapabilities_history:
  "snd (ValidateCapabilities view showd now (Some c) v)
     = fold (\<lambda>(k, m, s). recordAnomaly now (DeviceID c) k m s) (anomalies (run_checks v c)) v"
  "anomalies (fst (ValidateCapabilities view showd now (Some c) v)) = anomalies (run_checks v c)"
proof -
  obtain r v1 where e: "checkAnomalies view showd now c (run_checks v c) v = (r, v1)" by fastforce
  note h = checkAnomalies_history [where r = "run_checks v c" and v = v and view = view and showd = showd and now = now and c = c, unfolded e fst_conv snd_conv]
  have x: "Errors r = Errors (run_checks v c)" using checkAnomalies_errors [of view showd now c "run_checks v c" v] by (simp add: e)
  show "snd (ValidateCapabilities view showd now (Some c) v)
      = fold (\<lambda>(k, m, s). recordAnomaly now (DeviceID c) k m s) (anomalies (run_checks v c)) v"
    unfolding ValidateCapabilities_def h(1) [symmetric] by (simp add: e Let_def)
  show "anomalies (fst (ValidateCapabilities view showd now (Some c) v)) = anomalies (run_checks v c)"
    unfolding ValidateCapabilities_def anomalies_def h(2) [symmetric] x [symmetric] by (simp add: e Let_def)
qed

lemma validity_iff:
  "IsValid (fst (ValidateCapabilities view showd now (Some c) v)) \<longleftrightarrow>
     Platform c \<noteq> [] \<and> (gget (constraints v) (Platform c) \<noteq> None \<longrightarrow> VideoCodecs c \<noteq> [])
     \<and> (MaxWidth c > 16384 \<or> MaxHeight c > 16384 \<longrightarrow> MaxWidth c \<le> 0 \<and> MaxHeight c \<le> 0) \<and> MaxBitrate c \<le> 1000000000"
proof -
  obtain r v1 where r: "checkAnomalies view showd now c (run_checks v c) v = (r, v1)" by fastforce
  then have e: "Errors r = Errors (run_checks v c)" "IsValid r"
    using checkAnomalies_errors [of view showd now c "run_checks v c" v]
      checkAnomalies_valid [of view showd now c "run_checks v c" v] run_checks_valid by simp_all
  have "IsValid (fst (ValidateCapabilities view showd now (Some c) v)) \<longleftrightarrow> Errors r = []"
    using e(2) by (simp add: ValidateCapabilities_def r Let_def)
  also have "\<dots> \<longleftrightarrow> Platform c \<noteq> [] \<and> (gget (constraints v) (Platform c) \<noteq> None \<longrightarrow> VideoCodecs c \<noteq> [])
     \<and> (MaxWidth c > 16384 \<or> MaxHeight c > 16384 \<longrightarrow> MaxWidth c \<le> 0 \<and> MaxHeight c \<le> 0) \<and> MaxBitrate c \<le> 1000000000"
    unfolding e(1) run_checks_def check_errors by (simp add: emptyResult_def)
  finally show ?thesis .
qed

lemma larger_le: "larger x m \<le> b \<longleftrightarrow> x \<le> b \<and> m \<le> b"
  by (auto simp: larger_def)

lemma fold_larger_le: "fold (\<lambda>v. larger (f v)) vs m \<le> b \<longleftrightarrow> m \<le> b \<and> (\<forall>v\<in>set vs. f v \<le> b)"
  by (induction vs arbitrary: m) (auto simp: larger_le)

text \<open>
  From probe to verdict: the capabilities parsed from a probe are valid exactly when the probe names a
  platform, lists a video codec if the platform's name is spelt like a known one, no codec and no readable
  resolution exceeds 16384 in either direction, and the bitrate is at most a gigabit. Nothing else is an
  error; in particular a known platform in another spelling goes through without any video codec.
\<close>

theorem probe_verdict:
  assumes "\<forall>xs. set (visit xs) = set xs"
  shows "IsValid (fst (ValidateCapabilities view showd now (Some (ParseCodecProbeResult visit parse_time now p)) v)) \<longleftrightarrow>
     cp_Platform p \<noteq> [] \<and> (gget (constraints v) (cp_Platform p) \<noteq> None \<longrightarrow> cp_VideoCodecs p \<noteq> [])
     \<and> (\<forall>vc \<in> set (cp_VideoCodecs p). vi_MaxWidth vc \<le> 16384 \<and> vi_MaxHeight vc \<le> 16384)
     \<and> (case parseResolution (cp_MaxResolution p) of None \<Rightarrow> True | Some (w, h) \<Rightarrow> w \<le> 16384 \<and> h \<le> 16384)
     \<and> cp_MaxBitrate p \<le> 1000000000"
proof -
  define c where "c = ParseCodecProbeResult visit parse_time now p"
  have empty: "parseResolution [] = None" by (simp add: parseResolution_def)
  have none: "VideoCodecs c = [] \<longleftrightarrow> cp_VideoCodecs p = []"
  proof -
    have "set (VideoCodecs c) = ToLower ` vi_Name ` set (cp_VideoCodecs p)"
      using assms by (simp add: c_def ParseCodecProbeResult_def codec_set_def Let_def image_image split: prod.split)
    then show ?thesis by (metis image_is_empty set_empty)
  qed
  have size: "0 \<le> MaxWidth c \<and> 0 \<le> MaxHeight c \<and> (MaxWidth c \<le> 16384 \<and> MaxHeight c \<le> 16384 \<longleftrightarrow>
      (\<forall>vc \<in> set (cp_VideoCodecs p). vi_MaxWidth vc \<le> 16384 \<and> vi_MaxHeight vc \<le> 16384)
     \<and> (case parseResolution (cp_MaxResolution p) of None \<Rightarrow> True | Some (w, h) \<Rightarrow> w \<le> 16384 \<and> h \<le> 16384))"
  proof -
    define w0 h0 where "w0 = fold (\<lambda>vc. larger (vi_MaxWidth vc)) (cp_VideoCodecs p) 0" "h0 = fold (\<lambda>vc. larger (vi_MaxHeight vc)) (cp_VideoCodecs p) 0"
    have pos: "0 \<le> w0" "0 \<le> h0" 
      using larger_fold [of 0 vi_MaxWidth "cp_VideoCodecs p"] larger_fold [of 0 vi_MaxHeight "cp_VideoCodecs p"]
      by (simp_all add: w0_h0_def)
    have le: "w0 \<le> 16384 \<longleftrightarrow> (\<forall>vc \<in> set (cp_VideoCodecs p). vi_MaxWidth vc \<le> 16384)"
      "h0 \<le> 16384 \<longleftrightarrow> (\<forall>vc \<in> set (cp_VideoCodecs p). vi_MaxHeight vc \<le> 16384)"
      by (simp_all add: w0_h0_def fold_larger_le)
    have "(MaxWidth c, MaxHeight c) = (case parseResolution (cp_MaxResolution p) of None \<Rightarrow> (w0, h0) | Some (w, h) \<Rightarrow> (larger w w0, larger h h0))"
      using empty by (auto simp: c_def ParseCodecProbeResult_def Let_def w0_h0_def split: option.split prod.split)
    then show ?thesis
      using pos le larger_le by (cases "parseResolution (cp_MaxResolution p)") (auto simp: larger_def)
  qed
  have other: "Platform c = cp_Platform p" "MaxBitrate c = cp_MaxBitrate p"
    by (simp_all add: c_def ParseCodecProbeResult_def Let_def split: prod.split)
  have "IsValid (fst (ValidateCapabilities view showd now (Some c) v)) \<longleftrightarrow>
      Platform c \<noteq> [] \<and> (gget (constraints v) (Platform c) \<noteq> None \<longrightarrow> VideoCodecs c \<noteq> [])
      \<and> (MaxWidth c \<le> 16384 \<and> MaxHeight c \<le> 16384) \<and> MaxBitrate c \<le> 1000000000"
    unfolding validity_iff using size by auto
  then show ?thesis using size none other unfolding c_def by simp
qed

definition blank_probe :: CodecProbeResult where
  "blank_probe = \<lparr>cp_DeviceID = [], cp_DeviceName = [], cp_Platform = [], cp_OSVersion = [], cp_AppVersion = [], cp_Model = [],
     cp_Manufacturer = [], cp_UserAgent = [], cp_VideoCodecs = [], cp_AudioCodecs = [], cp_SubtitleFormats = [], cp_ContainerFormats = [],
     cp_DRMSupport = None, cp_MaxResolution = [], cp_MaxBitrate = 0, cp_SupportsHDR = False, cp_SupportsDolbyVision = False,
     cp_SupportsDolbyAtmos = False, cp_SupportsDTS = False, cp_DirectPlaySupport = None, cp_TranscodingPreferences = None,
     cp_ProbedAt = [], cp_ProbeDurationMS = 0\<rparr>"

theorem probe_verdict_witness:
  "IsValid (fst (ValidateCapabilities (\<lambda>a b. a) (\<lambda>_. []) 5
       (Some (ParseCodecProbeResult (\<lambda>xs. xs) (\<lambda>_. None) 5 (blank_probe\<lparr>cp_Platform := ''Android''\<rparr>))) NewValidator))
   \<and> \<not> IsValid (fst (ValidateCapabilities (\<lambda>a b. a) (\<lambda>_. []) 5
       (Some (ParseCodecProbeResult (\<lambda>xs. xs) (\<lambda>_. None) 5 (blank_probe\<lparr>cp_Platform := ''android''\<rparr>))) NewValidator))"
proof -
  have "gget (constraints NewValidator) ''Android'' = None" "gget (constraints NewValidator) ''android'' \<noteq> None" by code_simp+
  then show ?thesis
    using probe_verdict [of "\<lambda>xs. xs" "\<lambda>a b. a" "\<lambda>_. []" 5 "\<lambda>_. None" "blank_probe\<lparr>cp_Platform := ''Android''\<rparr>" NewValidator]
      probe_verdict [of "\<lambda>xs. xs" "\<lambda>a b. a" "\<lambda>_. []" 5 "\<lambda>_. None" "blank_probe\<lparr>cp_Platform := ''android''\<rparr>" NewValidator]
    by (simp add: blank_probe_def parseResolution_def)
qed

section \<open>The anomaly history\<close>

definition history_ok :: "string \<Rightarrow> Validator \<Rightarrow> bool" where
  "history_ok i v \<longleftrightarrow> distinct (map AnomalyType (history i v)) \<and> (\<forall>a \<in> set (history i v). an_DeviceID a = i \<and> 1 \<le> an_Count a)"

definition total_count :: "string \<Rightarrow> Validator \<Rightarrow> int" where
  "total_count i v = sum_list (map an_Count (history i v))"

lemma bump_None: "bump now ty as = None \<longleftrightarrow> ty \<notin> AnomalyType ` set as"
  by (induction as) auto

lemma bump_Some:
  "bump now ty as = Some bs \<Longrightarrow> map AnomalyType bs = map AnomalyType as \<and> map an_DeviceID bs = map an_DeviceID as
    \<and> sum_list (map an_Count bs) = sum_list (map an_Count as) + 1 \<and> list_all2 (\<lambda>a b. an_Count a \<le> an_Count b) as bs"
proof (induction as arbitrary: bs)
  case (Cons a as)
  then show ?case by (auto split: if_splits intro: list.rel_refl)
qed simp

lemma bump_total: "bump now ty as = Some bs \<Longrightarrow> sum_list (map an_Count bs) = sum_list (map an_Count as) + 1"
  by (rule bump_Some [THEN conjunct2, THEN conjunct2, THEN conjunct1])

lemma recordAnomaly_bumped:
  "bump now ty (history i v) = Some bs \<Longrightarrow> recordAnomaly now i ty d s v = v\<lparr>anomalyHistory := gput (anomalyHistory v) i bs\<rparr>"
  by (simp only: recordAnomaly_def option.case)

lemma recordAnomaly_new:
  "bump now ty (history i v) = None \<Longrightarrow> recordAnomaly now i ty d s v = v\<lparr>anomalyHistory := gput (anomalyHistory v) i
     (history i v @ [\<lparr>an_DeviceID = i, AnomalyType = ty, an_Description = d, an_Severity = s, FirstSeen = now, LastSeen = now, an_Count = 1\<rparr>])\<rparr>"
  by (simp only: recordAnomaly_def option.case)

lemma history_set [simp]: "history j (v\<lparr>anomalyHistory := gput (anomalyHistory v) i bs\<rparr>) = (if j = i then bs else history j v)"
  by (simp add: history_def gomap_simps)

lemma recordAnomaly_other: "j \<noteq> i \<Longrightarrow> history j (recordAnomaly now i ty d s v) = history j v"
  by (cases "bump now ty (history i v)") (simp_all add: recordAnomaly_bumped recordAnomaly_new)

lemma recordAnomaly_count: "total_count i (recordAnomaly now i ty d s v) = total_count i v + 1"
proof (cases "bump now ty (history i v)")
  case None
  show ?thesis unfolding recordAnomaly_new [OF None] total_count_def by simp
next
  case (Some bs)
  show ?thesis unfolding recordAnomaly_bumped [OF Some] total_count_def by (simp add: bump_total [OF Some])
qed

lemmas recordAnomaly_history = recordAnomaly_other recordAnomaly_count

lemma bump_ok:
  "bump now ty as = Some bs \<Longrightarrow> \<forall>a \<in> set as. an_DeviceID a = i \<and> 1 \<le> an_Count a \<Longrightarrow>
    map AnomalyType bs = map AnomalyType as \<and> (\<forall>b \<in> set bs. an_DeviceID b = i \<and> 1 \<le> an_Count b)"
proof (induction as arbitrary: bs)
  case (Cons a as)
  then show ?case by (auto split: if_splits)
qed simp

lemma recordAnomaly_ok:
  assumes "history_ok i v"
  shows "history_ok i (recordAnomaly now i ty d s v)"
proof (cases "bump now ty (history i v)")
  case None
  show ?thesis using assms None[unfolded bump_None]
    unfolding history_ok_def recordAnomaly_new [OF None] history_set by simp
next
  case (Some bs)
  have "\<forall>a \<in> set (history i v). an_DeviceID a = i \<and> 1 \<le> an_Count a" using assms unfolding history_ok_def by blast
  note b = bump_ok [OF Some this]
  show ?thesis using assms b unfolding history_ok_def recordAnomaly_bumped [OF Some] history_set by simp
qed

text \<open>
  A validation adds one to the device's anomaly counts for each of its serious errors and suspicious
  warnings, keeps one record per kind of anomaly, with its count at least one, and leaves the history of every
  other device alone.
\<close>

theorem anomalies_are_counted:
  assumes "history_ok (DeviceID c) v" and "ValidateCapabilities view showd now (Some c) v = (r, v')"
  shows "history_ok (DeviceID c) v' \<and> total_count (DeviceID c) v' = total_count (DeviceID c) v + int (length (anomalies r))
    \<and> (\<forall>j. j \<noteq> DeviceID c \<longrightarrow> history j v' = history j v)"
proof -
  have fold: "history_ok i (fold (\<lambda>(c, m, s). recordAnomaly now i c m s) as v)
      \<and> total_count i (fold (\<lambda>(c, m, s). recordAnomaly now i c m s) as v) = total_count i v + int (length as)
      \<and> (\<forall>j. j \<noteq> i \<longrightarrow> history j (fold (\<lambda>(c, m, s). recordAnomaly now i c m s) as v) = history j v)"
    if "history_ok i v" for i as v
    using that by (induction as arbitrary: v) (auto simp: recordAnomaly_history recordAnomaly_ok)
  have "v' = fold (\<lambda>(k, m, s). recordAnomaly now (DeviceID c) k m s) (anomalies (run_checks v c)) v"
    using ValidateCapabilities_history(1) [of view showd now c v] assms(2) by simp
  moreover have "anomalies r = anomalies (run_checks v c)"
    using ValidateCapabilities_history(2) [of view showd now c v] assms(2) by simp
  ultimately show ?thesis using fold [OF assms(1)] by simp
qed

theorem anomalies_are_counted_witness:
  "total_count [] (snd (ValidateCapabilities (\<lambda>a b. a) (\<lambda>_. []) 5 (Some zeroCapabilities) NewValidator)) = 1"
proof -
  obtain r v' where v: "ValidateCapabilities (\<lambda>a b. a) (\<lambda>_. []) 5 (Some zeroCapabilities) NewValidator = (r, v')" by fastforce
  have 1: "history_ok (DeviceID zeroCapabilities) NewValidator" "total_count (DeviceID zeroCapabilities) NewValidator = 0" "DeviceID zeroCapabilities = []"
    by (simp_all add: history_ok_def history_def NewValidator_def total_count_def zeroCapabilities_def)
  have "length (anomalies (fst (ValidateCapabilities (\<lambda>a b. a) (\<lambda>_. []) 5 (Some zeroCapabilities) NewValidator))) = 1" by code_simp
  then show ?thesis using anomalies_are_counted [OF 1(1) v] 1(2,3) by (simp add: v)
qed

end
