(* ===== verification/Events.thy ===== *)
theory Events
  imports Strings
begin

text \<open>
  The event bus of \<^verbatim>\<open>internal/events/bus.go\<close> with the event types of \<^verbatim>\<open>types.go\<close>, and the websocket
  hub of \<^verbatim>\<open>websocket.go\<close>. A Go channel is its capacity, what is queued in it and whether it is open; an
  unbuffered channel with a receiver waiting is one of capacity one. Each loop over subscribers or clients
  visits a Go map, hence in any order. Sending on a closed channel panics, which is the result \<open>None\<close>.
\<close>

section \<open>Channels\<close>

record 'm chan =
  ch_cap :: nat
  ch_queue :: "'m list"
  ch_open :: bool

text \<open>A send in a \<^verbatim>\<open>select\<close> with an empty default: what does not fit is dropped.\<close>

definition offer :: "'m \<Rightarrow> 'm chan \<Rightarrow> 'm chan option" where
  "offer m ch =
     (if \<not> ch_open ch then None
      else Some (if length (ch_queue ch) < ch_cap ch then ch\<lparr>ch_queue := ch_queue ch @ [m]\<rparr> else ch))"

section \<open>Events\<close>

type_synonym EventType = string

definition EventLibraryScanStarted :: EventType where "EventLibraryScanStarted = ''library.scan.started''"
definition EventLibraryScanProgress :: EventType where "EventLibraryScanProgress = ''library.scan.progress''"
definition EventLibraryScanComplete :: EventType where "EventLibraryScanComplete = ''library.scan.complete''"
definition EventLibraryScanError :: EventType where "EventLibraryScanError = ''library.scan.error''"
definition EventStreamStarted :: EventType where "EventStreamStarted = ''stream.started''"
definition EventStreamEnded :: EventType where "EventStreamEnded = ''stream.ended''"
definition EventStreamError :: EventType where "EventStreamError = ''stream.error''"
definition TopicLibraries :: string where "TopicLibraries = ''libraries''"
definition TopicStreams :: string where "TopicStreams = ''streams''"
definition TopicAll :: string where "TopicAll = ''all''"

record 'p Event =
  ev_Type :: EventType
  ev_Topic :: string
  ev_Payload :: 'p
  ev_Timestamp :: time
  ev_ID :: string

record StreamPayload =
  sp_StreamID :: string
  sp_SessionID :: string
  sp_MediaItemID :: string
  sp_MediaTitle :: string
  sp_Variant :: string
  sp_BytesServed :: int

record LibraryScanPayload =
  lp_LibraryID :: string
  lp_LibraryName :: string
  lp_TotalFiles :: int
  lp_Processed :: int
  lp_CurrentFile :: string
  lp_Status :: string
  lp_Error :: string

definition hex_char :: "nat \<Rightarrow> char" where "hex_char d = (if d < 10 then char_of (48 + d) else char_of (87 + d))"

definition hex_bytes :: "nat list \<Rightarrow> string" where
  "hex_bytes bs = concat (map (\<lambda>b. [hex_char (b div 16 mod 16), hex_char (b mod 16)]) bs)"

fun hex_digits :: "nat \<Rightarrow> string" where
  "hex_digits n = (if n < 16 then [hex_char n] else hex_digits (n div 16) @ [hex_char (n mod 16)])"

declare hex_digits.simps [simp del]

text \<open>The random bytes (\<open>None\<close>: the source of randomness failed) and the clock are arguments.\<close>

definition randomString :: "nat list option \<Rightarrow> time \<Rightarrow> nat \<Rightarrow> string" where
  "randomString rnd now n = take n (case rnd of None \<Rightarrow> hex_digits (nat now) | Some bs \<Rightarrow> hex_bytes bs)"

definition generateEventID :: "nat list option \<Rightarrow> time \<Rightarrow> string" where
  "generateEventID rnd now = Itoa now @ ''-'' @ randomString rnd now 8"

definition NewEvent :: "nat list option \<Rightarrow> time \<Rightarrow> EventType \<Rightarrow> string \<Rightarrow> 'p \<Rightarrow> 'p Event" where
  "NewEvent rnd now ty topic payload =
     \<lparr>ev_Type = ty, ev_Topic = topic, ev_Payload = payload, ev_Timestamp = now, ev_ID = generateEventID rnd now\<rparr>"

section \<open>The bus\<close>

text \<open>Channels are named by identifiers of type \<open>'c\<close>; the contents of all channels are the second state.\<close>

record 'c EventBus =
  subscribers :: "(string, ('c, bool) gomap) gomap"

definition NewEventBus :: "'c EventBus" where "NewEventBus = \<lparr>subscribers = []\<rparr>"

definition subs_of :: "string \<Rightarrow> 'c EventBus \<Rightarrow> ('c, bool) gomap" where
  "subs_of topic b = (case gget (subscribers b) topic of None \<Rightarrow> [] | Some s \<Rightarrow> s)"

definition Subscribe :: "string \<Rightarrow> 'c \<Rightarrow> 'c EventBus \<Rightarrow> 'c EventBus" where
  "Subscribe topic ch b = b\<lparr>subscribers := gput (subscribers b) topic (gput (subs_of topic b) ch True)\<rparr>"

definition Unsubscribe :: "string \<Rightarrow> 'c \<Rightarrow> 'c EventBus \<Rightarrow> 'c EventBus" where
  "Unsubscribe topic ch b =
     (case gget (subscribers b) topic of
        None \<Rightarrow> b
      | Some s \<Rightarrow>
          let s' = gdel s ch
          in b\<lparr>subscribers := (if s' = [] then gdel (subscribers b) topic else gput (subscribers b) topic s')\<rparr>)"

fun send_all :: "'m \<Rightarrow> 'c list \<Rightarrow> ('c \<Rightarrow> 'm chan) \<Rightarrow> ('c \<Rightarrow> 'm chan) option" where
  "send_all m [] s = Some s"
| "send_all m (c # cs) s = (case offer m (s c) of None \<Rightarrow> None | Some ch \<Rightarrow> send_all m cs (s(c := ch)))"

definition Publish :: "'p Event \<Rightarrow> 'c EventBus \<Rightarrow> ('c \<Rightarrow> 'p Event chan) \<Rightarrow> ('c \<Rightarrow> 'p Event chan) option" where
  "Publish e b s =
     (case send_all e (map fst (subs_of (ev_Topic e) b)) s of
        None \<Rightarrow> None
      | Some s1 \<Rightarrow> if ev_Topic e \<noteq> TopicAll then send_all e (map fst (subs_of TopicAll b)) s1 else Some s1)"

definition PublishToTopic ::
  "nat list option \<Rightarrow> time \<Rightarrow> string \<Rightarrow> 'p \<Rightarrow> 'c EventBus \<Rightarrow> ('c \<Rightarrow> 'p Event chan) \<Rightarrow> ('c \<Rightarrow> 'p Event chan) option" where
  "PublishToTopic rnd now topic payload b s =
     Publish \<lparr>ev_Type = ''event.'' @ topic, ev_Topic = topic, ev_Payload = payload, ev_Timestamp = now,
       ev_ID = generateEventID rnd now\<rparr> b s"

definition PublishEvent ::
  "nat list option \<Rightarrow> time \<Rightarrow> EventType \<Rightarrow> string \<Rightarrow> 'p \<Rightarrow> 'c EventBus \<Rightarrow> ('c \<Rightarrow> 'p Event chan) \<Rightarrow> ('c \<Rightarrow> 'p Event chan) option" where
  "PublishEvent rnd now ty topic payload b s = Publish (NewEvent rnd now ty topic payload) b s"

definition SubscriberCount :: "string \<Rightarrow> 'c EventBus \<Rightarrow> nat" where "SubscriberCount topic b = length (subs_of topic b)"

definition Bus_Close :: "'c EventBus \<Rightarrow> 'c EventBus" where "Bus_Close b = b\<lparr>subscribers := []\<rparr>"

subsection \<open>What the bus promises\<close>

definition bus_ok :: "'c EventBus \<Rightarrow> bool" where
  "bus_ok b \<longleftrightarrow> gwf (subscribers b) \<and> (\<forall>t s. gget (subscribers b) t = Some s \<longrightarrow> gwf s \<and> s \<noteq> [])"

definition listens :: "string \<Rightarrow> 'c EventBus \<Rightarrow> 'c \<Rightarrow> bool" where
  "listens t b c \<longleftrightarrow> c \<in> set (map fst (subs_of t b))"

lemma gput_nonempty [simp]: "gput m k v \<noteq> []"
  using gget_gput [of m k v k] by (metis gget_Nil option.distinct(1))

lemma gget_gput_bool: "c \<in> set (map fst (gput m k v)) \<longleftrightarrow> c = k \<or> c \<in> set (map fst m)"
proof -
  have "gget (gput m k v) c \<noteq> None \<longleftrightarrow> c = k \<or> gget m c \<noteq> None" by (simp add: gomap_simps)
  then show ?thesis unfolding gget_None_iff by simp
qed

lemma gget_gdel_bool: "c \<in> set (map fst (gdel m k)) \<longleftrightarrow> c \<noteq> k \<and> c \<in> set (map fst m)"
proof -
  have "gget (gdel m k) c \<noteq> None \<longleftrightarrow> c \<noteq> k \<and> gget m c \<noteq> None" by (simp add: gomap_simps)
  then show ?thesis unfolding gget_None_iff by simp
qed

lemma bus_ok_subs: "bus_ok b \<Longrightarrow> gwf (subs_of t b)"
  by (auto simp: bus_ok_def subs_of_def split: option.split)

lemma bus_ok_ops:
  "bus_ok NewEventBus" "bus_ok b \<Longrightarrow> bus_ok (Subscribe t c b)" "bus_ok b \<Longrightarrow> bus_ok (Unsubscribe t c b)" "bus_ok (Bus_Close b)"
  using bus_ok_subs [of b t]
  by (auto simp: bus_ok_def NewEventBus_def Bus_Close_def Subscribe_def Unsubscribe_def Let_def gomap_simps split: option.splits if_splits)

lemma gdel_Nil [simp]: "gdel [] k = []"
  by (simp add: gdel_def)

lemma listens_ops:
  "\<not> listens t NewEventBus c"
  "listens u (Subscribe t c b) d \<longleftrightarrow> (u = t \<and> d = c) \<or> listens u b d"
  "listens u (Unsubscribe t c b) d \<longleftrightarrow> \<not> (u = t \<and> d = c) \<and> listens u b d"
  "\<not> listens u (Bus_Close b) d"
proof -
  show "\<not> listens t NewEventBus c" "\<not> listens u (Bus_Close b) d"
    by (simp_all add: listens_def subs_of_def NewEventBus_def Bus_Close_def)
  have "subs_of u (Subscribe t c b) = (if u = t then gput (subs_of t b) c True else subs_of u b)"
    by (simp add: Subscribe_def subs_of_def gomap_simps)
  then show "listens u (Subscribe t c b) d \<longleftrightarrow> (u = t \<and> d = c) \<or> listens u b d"
    unfolding listens_def using gget_gput_bool [of d "subs_of t b" c True] by auto
  have "subs_of u (Unsubscribe t c b) = (if u = t then gdel (subs_of t b) c else subs_of u b)"
    by (auto simp: Unsubscribe_def subs_of_def Let_def gomap_simps split: option.split)
  then show "listens u (Unsubscribe t c b) d \<longleftrightarrow> \<not> (u = t \<and> d = c) \<and> listens u b d"
    unfolding listens_def using gget_gdel_bool [of d "subs_of t b" c] by auto
qed

lemma send_all_closed: "send_all m cs s = None \<longleftrightarrow> (\<exists>c \<in> set cs. \<not> ch_open (s c))"
proof (induction cs arbitrary: s)
  case (Cons c cs)
  have "(\<exists>d \<in> set cs. \<not> ch_open ((s(c := ch)) d)) \<longleftrightarrow> (\<exists>d \<in> set cs. \<not> ch_open (s d))" if "ch_open ch" "ch_open (s c)" for ch
    using that by auto
  then show ?case using Cons.IH by (auto simp: offer_def)
qed simp

lemma send_all_Some:
  "distinct cs \<Longrightarrow> \<forall>c \<in> set cs. ch_open (s c) \<Longrightarrow>
    send_all m cs s = Some (\<lambda>c. if c \<in> set cs then the (offer m (s c)) else s c)"
proof (induction cs arbitrary: s)
  case (Cons c cs)
  have "send_all m cs (s(c := the (offer m (s c)))) = Some (\<lambda>d. if d \<in> set cs then the (offer m ((s(c := the (offer m (s c)))) d))
      else (s(c := the (offer m (s c)))) d)"
    using Cons by (intro Cons.IH) auto
  then show ?case using Cons.prems by (auto simp: offer_def fun_eq_iff)
qed auto

definition copies :: "string \<Rightarrow> 'c EventBus \<Rightarrow> 'c \<Rightarrow> nat" where
  "copies t b c = (if listens t b c then 1 else 0) + (if t \<noteq> TopicAll \<and> listens TopicAll b c then 1 else 0)"

text \<open>A channel after up to \<open>n\<close> copies of an event, as many as fit.\<close>

definition push :: "nat \<Rightarrow> 'm \<Rightarrow> 'm chan \<Rightarrow> 'm chan" where
  "push n m ch = ch\<lparr>ch_queue := ch_queue ch @ replicate (min (ch_cap ch - length (ch_queue ch)) n) m\<rparr>"

lemma push_0 [simp]: "push 0 m ch = ch"
  by (simp add: push_def)

lemma offer_open: "ch_open ch \<Longrightarrow> offer m ch = Some (push 1 m ch)"
  by (cases "ch_cap ch - length (ch_queue ch)") (auto simp: offer_def push_def)

lemma push_open [simp]: "ch_open (push n m ch) = ch_open ch"
  by (simp add: push_def)

lemma push_push: "push j m (push i m ch) = push (i + j) m ch"
proof -
  have "min (k - min k i) j + min k i = min k (i + j)" for k :: nat by auto
  then show ?thesis unfolding push_def by (simp add: replicate_add [symmetric] add.commute)
qed

lemma send_all_push:
  assumes "distinct cs" "\<forall>c \<in> set cs. ch_open (s c)"
  shows "send_all m cs s = Some (\<lambda>c. push (if c \<in> set cs then 1 else 0) m (s c))"
  unfolding send_all_Some [OF assms] using assms(2) by (auto simp: fun_eq_iff offer_open)

text \<open>
  Publishing panics exactly when a channel subscribed to the topic or to all topics is closed. Otherwise every
  subscriber gets the event once for its topic and once more when it also listens to all topics, as far as its
  buffer has room, and no other channel is touched.
\<close>

theorem publish_exact:
  assumes "bus_ok b"
  shows "Publish e b s =
    (if \<exists>c. (listens (ev_Topic e) b c \<or> listens TopicAll b c) \<and> \<not> ch_open (s c) then None
     else Some (\<lambda>c. push (copies (ev_Topic e) b c) e (s c)))"
proof -
  let ?L = "\<lambda>t. map fst (subs_of t b)"
  have d: "distinct (?L t)" for t using bus_ok_subs [OF assms] by (simp add: gwf_def)
  have none: "send_all e (?L t) s' = None \<longleftrightarrow> (\<exists>c. listens t b c \<and> \<not> ch_open (s' c))" for t s'
    unfolding send_all_closed by (auto simp: listens_def)
  have some: "send_all e (?L t) s' = Some (\<lambda>c. push (if listens t b c then 1 else 0) e (s' c))"
    if "\<not> (\<exists>c. listens t b c \<and> \<not> ch_open (s' c))" for t s'
    unfolding listens_def using that by (intro send_all_push [OF d]) (auto simp: listens_def)
  show ?thesis
  proof (cases "\<exists>c. listens (ev_Topic e) b c \<and> \<not> ch_open (s c)")
    case True
    then have "send_all e (?L (ev_Topic e)) s = None" using none by blast
    then show ?thesis using True by (auto simp: Publish_def)
  next
    case False
    define s1 where "s1 = (\<lambda>c. push (if listens (ev_Topic e) b c then 1 else 0) e (s c))"
    have 1: "Publish e b s = (if ev_Topic e \<noteq> TopicAll then send_all e (?L TopicAll) s1 else Some s1)"
      unfolding Publish_def some [OF False] s1_def by simp
    have o1: "ch_open (s1 c) = ch_open (s c)" for c by (simp add: s1_def)
    show ?thesis
    proof (cases "ev_Topic e = TopicAll \<or> (\<exists>c. listens TopicAll b c \<and> \<not> ch_open (s c))")
      case True
      then show ?thesis using False none [of TopicAll s1] by (auto simp: 1 o1 s1_def copies_def)
    next
      case other: False
      then have "send_all e (?L TopicAll) s1 = Some (\<lambda>c. push (if listens TopicAll b c then 1 else 0) e (s1 c))"
        by (intro some) (simp add: o1)
      moreover have "push (if listens TopicAll b c then 1 else 0) e (s1 c) = push (copies (ev_Topic e) b c) e (s c)" for c
        using other by (simp add: s1_def push_push copies_def del: push_0)
      ultimately show ?thesis using False other by (auto simp: 1)
    qed
  qed
qed

definition demo_bus :: "nat EventBus" where
  "demo_bus = Subscribe TopicAll 7 (Subscribe TopicStreams 8 (Subscribe TopicStreams 7 NewEventBus))"

theorem publish_exact_witness:
  "map_option (\<lambda>s. (length (ch_queue (s 7)), length (ch_queue (s 8)), length (ch_queue (s 9))))
     (Publish \<lparr>ev_Type = EventStreamEnded, ev_Topic = TopicStreams, ev_Payload = (), ev_Timestamp = 1, ev_ID = []\<rparr> demo_bus
       (\<lambda>_. \<lparr>ch_cap = 5, ch_queue = [], ch_open = True\<rparr>)) = Some (2, 1, 0)"
proof -
  have ok: "bus_ok demo_bus" unfolding demo_bus_def by (intro bus_ok_ops)
  have c: "copies TopicStreams demo_bus 7 = 2" "copies TopicStreams demo_bus 8 = 1" "copies TopicStreams demo_bus 9 = 0"
    by (simp_all add: copies_def demo_bus_def listens_ops TopicStreams_def TopicAll_def)
  show ?thesis by (simp add: publish_exact [OF ok] c push_def)
qed

end
