(* ===== verification/WebSocketHub.thy ===== *)
theory WebSocketHub
  imports Events
begin

text \<open>
  The websocket hub of \<^verbatim>\<open>internal/events/websocket.go\<close>: the registered clients, their outbound buffers and
  subscriptions, the broadcasts and the two goroutines of a client. JSON is outside: an event can be encoded
  or not (\<open>encodable\<close>), a message comes in decoded. Regular expressions are outside too: \<open>compile\<close> gives the
  test of a pattern, if it is well-formed.
\<close>

section \<open>Data\<close>

datatype reply = RSubscribed "string list" | RUnsubscribed "string list" | RPong

datatype 'p frame = FEvent "'p Event" | FReply reply | FRaw string

record WSMessage =
  ws_Action :: string
  ws_Topics :: "string list"

text \<open>A client, with the goroutines that still run for it.\<close>

record 'p Client =
  c_send :: "'p frame chan"
  c_subs :: "(string, bool) gomap"
  c_reading :: bool
  c_writing :: bool

record ('k, 'p) Hub =
  h_clients :: "('k, bool) gomap"
  h_peer :: "'k \<Rightarrow> 'p Client"
  h_origins :: "(string \<Rightarrow> bool) list"

definition glob :: "string \<Rightarrow> string" where
  "glob pattern = ''^'' @ concat (map (\<lambda>c. if c = CHR ''*'' then ''.*'' else [c]) pattern) @ ''$''"

definition originPatterns :: "(string \<Rightarrow> (string \<Rightarrow> bool) option) \<Rightarrow> string list \<Rightarrow> (string \<Rightarrow> bool) list" where
  "originPatterns compile allowed = concat (map (\<lambda>p. case compile (glob p) of None \<Rightarrow> [] | Some re \<Rightarrow> [re]) allowed)"

definition no_client :: "'p Client" where
  "no_client = \<lparr>c_send = \<lparr>ch_cap = 0, ch_queue = [], ch_open = False\<rparr>, c_subs = [], c_reading = False, c_writing = False\<rparr>"

definition NewWebSocketHub :: "(string \<Rightarrow> (string \<Rightarrow> bool) option) \<Rightarrow> string list \<Rightarrow> ('k, 'p) Hub" where
  "NewWebSocketHub compile allowed = \<lparr>h_clients = [], h_peer = (\<lambda>_. no_client), h_origins = originPatterns compile allowed\<rparr>"

definition CheckOrigin :: "string \<Rightarrow> ('k, 'p) Hub \<Rightarrow> bool" where
  "CheckOrigin origin h =
     (if origin = [] then True else if h_origins h = [] then False else list_ex (\<lambda>p. p origin) (h_origins h))"

section \<open>Operations\<close>

definition set_peer :: "'k \<Rightarrow> 'p Client \<Rightarrow> ('k, 'p) Hub \<Rightarrow> ('k, 'p) Hub" where
  "set_peer k c h = h\<lparr>h_peer := (h_peer h)(k := c)\<rparr>"

definition close_send :: "'p Client \<Rightarrow> 'p Client" where
  "close_send c = c\<lparr>c_send := (c_send c)\<lparr>ch_open := False\<rparr>\<rparr>"

definition Run_subscribe :: "'k \<Rightarrow> ('k, 'p) Hub \<Rightarrow> ('k, 'p) Hub" where
  "Run_subscribe k h = h\<lparr>h_clients := gput (h_clients h) k True\<rparr>"

definition Run_unsubscribe :: "'k \<Rightarrow> ('k, 'p) Hub \<Rightarrow> ('k, 'p) Hub" where
  "Run_unsubscribe k h =
     (case gget (h_clients h) k of
        None \<Rightarrow> h
      | Some _ \<Rightarrow> set_peer k (close_send (h_peer h k)) (h\<lparr>h_clients := gdel (h_clients h) k\<rparr>))"

definition deliver :: "'k list \<Rightarrow> 'p frame \<Rightarrow> ('k, 'p) Hub \<Rightarrow> ('k, 'p) Hub option" where
  "deliver ks m h =
     map_option (\<lambda>s. h\<lparr>h_peer := (\<lambda>k. (h_peer h k)\<lparr>c_send := s k\<rparr>)\<rparr>) (send_all m ks (\<lambda>k. c_send (h_peer h k)))"

definition Run_broadcast :: "string \<Rightarrow> ('k, 'p) Hub \<Rightarrow> ('k, 'p) Hub option" where
  "Run_broadcast message h = deliver (map fst (h_clients h)) (FRaw message) h"

definition HandleWebSocket :: "'k \<Rightarrow> ('k, 'p) Hub \<Rightarrow> ('k, 'p) Hub" where
  "HandleWebSocket k h =
     Run_subscribe k (set_peer k \<lparr>c_send = \<lparr>ch_cap = 256, ch_queue = [], ch_open = True\<rparr>, c_subs = [],
       c_reading = True, c_writing = True\<rparr> h)"

definition subscribed :: "string \<Rightarrow> 'p Client \<Rightarrow> bool" where
  "subscribed topic c \<longleftrightarrow> gget (c_subs c) topic = Some True \<or> gget (c_subs c) TopicAll = Some True"

definition BroadcastEventToTopic :: "('p Event \<Rightarrow> bool) \<Rightarrow> string \<Rightarrow> 'p Event \<Rightarrow> ('k, 'p) Hub \<Rightarrow> ('k, 'p) Hub option" where
  "BroadcastEventToTopic encodable topic e h =
     (if \<not> encodable e then Some h
      else deliver (filter (\<lambda>k. subscribed topic (h_peer h k)) (map fst (h_clients h))) (FEvent e) h)"

definition BroadcastEvent :: "('p Event \<Rightarrow> bool) \<Rightarrow> 'p Event \<Rightarrow> ('k, 'p) Hub \<Rightarrow> ('k, 'p) Hub option" where
  "BroadcastEvent encodable e h =
     (if \<not> encodable e then Some h
      else deliver (filter (\<lambda>k. subscribed (ev_Topic e) (h_peer h k)) (map fst (h_clients h))) (FEvent e) h)"

definition ClientCount :: "('k, 'p) Hub \<Rightarrow> nat" where "ClientCount h = length (h_clients h)"

definition sendJSON :: "reply \<Rightarrow> 'p Client \<Rightarrow> 'p Client option" where
  "sendJSON v c = map_option (\<lambda>ch. c\<lparr>c_send := ch\<rparr>) (offer (FReply v) (c_send c))"

definition handleMessage :: "WSMessage option \<Rightarrow> 'p Client \<Rightarrow> 'p Client option" where
  "handleMessage msg c =
     (case msg of
        None \<Rightarrow> Some c
      | Some m \<Rightarrow>
          if ws_Action m = ''subscribe'' then
            sendJSON (RSubscribed (ws_Topics m)) (c\<lparr>c_subs := fold (\<lambda>t s. gput s t True) (ws_Topics m) (c_subs c)\<rparr>)
          else if ws_Action m = ''unsubscribe'' then
            sendJSON (RUnsubscribed (ws_Topics m)) (c\<lparr>c_subs := fold (\<lambda>t s. gdel s t) (ws_Topics m) (c_subs c)\<rparr>)
          else if ws_Action m = ''ping'' then sendJSON RPong c
          else Some c)"

text \<open>The end of the reading and of the writing goroutine: their deferred functions.\<close>

definition read_end :: "'k \<Rightarrow> ('k, 'p) Hub \<Rightarrow> ('k, 'p) Hub" where
  "read_end k h = Run_unsubscribe k (set_peer k ((h_peer h k)\<lparr>c_reading := False\<rparr>) h)"

definition write_end :: "'k \<Rightarrow> ('k, 'p) Hub \<Rightarrow> ('k, 'p) Hub" where
  "write_end k h = Run_unsubscribe k (set_peer k ((h_peer h k)\<lparr>c_writing := False\<rparr>) h)"

text \<open>One message read: a panic ends the reading goroutine.\<close>

definition read_message :: "WSMessage option \<Rightarrow> 'k \<Rightarrow> ('k, 'p) Hub \<Rightarrow> ('k, 'p) Hub" where
  "read_message msg k h = (case handleMessage msg (h_peer h k) of None \<Rightarrow> read_end k h | Some c \<Rightarrow> set_peer k c h)"

text \<open>The writing goroutine takes what is queued and sends it in one frame.\<close>

definition write_queued :: "'k \<Rightarrow> ('k, 'p) Hub \<Rightarrow> ('k, 'p) Hub" where
  "write_queued k h = set_peer k ((h_peer h k)\<lparr>c_send := (c_send (h_peer h k))\<lparr>ch_queue := []\<rparr>\<rparr>) h"

section \<open>The hub at work\<close>

text \<open>A step of one of the goroutines; a broadcast that panics would end the program and has no step.\<close>

inductive hub_step :: "('p Event \<Rightarrow> bool) \<Rightarrow> ('k, 'p) Hub \<Rightarrow> ('k, 'p) Hub \<Rightarrow> bool" for encodable where
  connect: "h_peer h k = no_client \<Longrightarrow> hub_step encodable h (HandleWebSocket k h)"
| message: "c_reading (h_peer h k) \<Longrightarrow> hub_step encodable h (read_message msg k h)"
| reader_ends: "c_reading (h_peer h k) \<Longrightarrow> hub_step encodable h (read_end k h)"
| writes: "c_writing (h_peer h k) \<Longrightarrow> hub_step encodable h (write_queued k h)"
| writer_ends: "c_writing (h_peer h k) \<Longrightarrow> hub_step encodable h (write_end k h)"
| event: "BroadcastEvent encodable e h = Some h' \<Longrightarrow> hub_step encodable h h'"
| event_to: "BroadcastEventToTopic encodable t e h = Some h' \<Longrightarrow> hub_step encodable h h'"
| raw: "Run_broadcast m h = Some h' \<Longrightarrow> hub_step encodable h h'"

inductive hub_reachable :: "('p Event \<Rightarrow> bool) \<Rightarrow> ('k, 'p) Hub \<Rightarrow> bool" for encodable where
  start: "hub_reachable encodable (NewWebSocketHub compile allowed)"
| step: "hub_reachable encodable h \<Longrightarrow> hub_step encodable h h' \<Longrightarrow> hub_reachable encodable h'"

definition registered :: "('k, 'p) Hub \<Rightarrow> 'k \<Rightarrow> bool" where "registered h k \<longleftrightarrow> gget (h_clients h) k \<noteq> None"

definition client_ok :: "bool \<Rightarrow> 'p Client \<Rightarrow> bool" where
  "client_ok reg c \<longleftrightarrow> ch_open (c_send c) = reg \<and> length (ch_queue (c_send c)) \<le> ch_cap (c_send c) \<and> ch_cap (c_send c) \<le> 256
     \<and> (reg \<longrightarrow> c_reading c \<and> c_writing c \<and> ch_cap (c_send c) = 256)"

definition hub_ok :: "('k, 'p) Hub \<Rightarrow> bool" where
  "hub_ok h \<longleftrightarrow> gwf (h_clients h) \<and> (\<forall>k. client_ok (registered h k) (h_peer h k))"

lemma registered_simps [simp]:
  "registered (set_peer k c h) j = registered h j"
  "registered (Run_subscribe k h) j \<longleftrightarrow> j = k \<or> registered h j"
  "registered (Run_unsubscribe k h) j \<longleftrightarrow> j \<noteq> k \<and> registered h j"
  by (auto simp: registered_def set_peer_def Run_subscribe_def Run_unsubscribe_def gomap_simps split: option.split)

lemma peer_simps [simp]:
  "h_peer (set_peer k c h) j = (if j = k then c else h_peer h j)"
  "h_peer (Run_subscribe k h) j = h_peer h j"
  "h_peer (Run_unsubscribe k h) j = (if j = k \<and> registered h k then close_send (h_peer h k) else h_peer h j)"
  by (auto simp: registered_def set_peer_def Run_subscribe_def Run_unsubscribe_def split: option.split)

lemma wf_simps:
  "gwf (h_clients h) \<Longrightarrow> gwf (h_clients (set_peer k c h)) \<and> gwf (h_clients (Run_subscribe k h)) \<and> gwf (h_clients (Run_unsubscribe k h))"
  by (auto simp: set_peer_def Run_subscribe_def Run_unsubscribe_def gomap_simps split: option.split)

lemma client_ok_closed: "client_ok b c \<Longrightarrow> client_ok False (close_send c)"
  by (auto simp: client_ok_def close_send_def)

lemma offer_ok: "offer m ch = Some ch' \<Longrightarrow> length (ch_queue ch) \<le> ch_cap ch \<Longrightarrow>
    ch_open ch' = ch_open ch \<and> ch_cap ch' = ch_cap ch \<and> length (ch_queue ch') \<le> ch_cap ch'"
  by (auto simp: offer_def split: if_splits)

lemma sendJSON_ok: "sendJSON v c = Some c' \<Longrightarrow> client_ok b c \<Longrightarrow> client_ok b c'"
  by (auto simp: sendJSON_def client_ok_def dest: offer_ok)

lemma handleMessage_ok: "handleMessage msg c = Some c' \<Longrightarrow> client_ok b c \<Longrightarrow> client_ok b c'"
  by (auto simp: handleMessage_def split: option.splits if_splits elim!: sendJSON_ok) (auto simp: client_ok_def)

lemma deliver_exact:
  assumes "hub_ok h" "distinct ks" "\<forall>k \<in> set ks. registered h k"
  shows "deliver ks m h = Some (h\<lparr>h_peer := (\<lambda>k. (h_peer h k)\<lparr>c_send := push (if k \<in> set ks then 1 else 0) m (c_send (h_peer h k))\<rparr>)\<rparr>)"
proof -
  have "\<forall>k \<in> set ks. ch_open (c_send (h_peer h k))" using assms by (auto simp: hub_ok_def client_ok_def)
  then show ?thesis by (simp add: deliver_def send_all_push [OF assms(2)])
qed

lemma push_ok: "client_ok b c \<Longrightarrow> client_ok b (c\<lparr>c_send := push n m (c_send c)\<rparr>)"
  by (auto simp: client_ok_def push_def)

lemma deliver_ok: "hub_ok h \<Longrightarrow> distinct ks \<Longrightarrow> \<forall>k \<in> set ks. registered h k \<Longrightarrow> deliver ks m h = Some h' \<Longrightarrow> hub_ok h'"
proof -
  assume ok: "hub_ok h" and d: "distinct ks" "\<forall>k \<in> set ks. registered h k" and h': "deliver ks m h = Some h'"
  have "client_ok (registered h k) ((h_peer h k)\<lparr>c_send := push n m (c_send (h_peer h k))\<rparr>)" for n k
    using ok by (intro push_ok) (simp add: hub_ok_def)
  moreover have "registered h' = registered h" "h_clients h' = h_clients h"
    using h' unfolding deliver_exact [OF ok d] by (auto simp: registered_def fun_eq_iff)
  ultimately show "hub_ok h'" using ok h' unfolding deliver_exact [OF ok d] by (auto simp: hub_ok_def)
qed

lemma known_clients: "hub_ok h \<Longrightarrow> distinct (filter P (map fst (h_clients h))) \<and> (\<forall>k \<in> set (filter P (map fst (h_clients h))). registered h k)"
  by (auto simp: hub_ok_def gwf_def registered_def gget_None_iff image_iff)

lemma deliver_some_ok: "hub_ok h \<Longrightarrow> deliver (filter P (map fst (h_clients h))) m h = Some h' \<Longrightarrow> hub_ok h'"
  using known_clients [of h P] by (blast intro: deliver_ok)

lemma end_ok:
  assumes "hub_ok h"
  shows "hub_ok (read_end k h)" "hub_ok (write_end k h)"
  using assms by (auto simp: hub_ok_def read_end_def write_end_def wf_simps client_ok_def close_send_def)

lemma hub_step_ok: "hub_step encodable h h' \<Longrightarrow> hub_ok h \<Longrightarrow> hub_ok h'"
proof (induction rule: hub_step.induct)
  case (connect h k)
  then show ?case by (auto simp: hub_ok_def HandleWebSocket_def wf_simps client_ok_def)
next
  case (message h k msg)
  show ?case
  proof (cases "handleMessage msg (h_peer h k)")
    case None
    then show ?thesis using end_ok message by (simp add: read_message_def)
  next
    case (Some c)
    have "client_ok (registered h k) c" using message handleMessage_ok [OF Some] by (simp add: hub_ok_def)
    then show ?thesis using message Some by (auto simp: read_message_def hub_ok_def wf_simps)
  qed
next
  case (writes h k)
  then show ?case by (auto simp: hub_ok_def write_queued_def wf_simps client_ok_def)
next
  case (event e h h')
  then show ?case by (auto simp: BroadcastEvent_def intro: deliver_some_ok split: if_splits)
next
  case (event_to t e h h')
  then show ?case by (auto simp: BroadcastEventToTopic_def intro: deliver_some_ok split: if_splits)
next
  case (raw m h h')
  then show ?case using deliver_some_ok [of h "\<lambda>_. True"] by (simp add: Run_broadcast_def)
qed (simp_all add: end_ok)

lemma hub_reachable_ok: "hub_reachable encodable h \<Longrightarrow> hub_ok h"
proof (induction rule: hub_reachable.induct)
  case (start compile allowed)
  then show ?case by (simp add: hub_ok_def NewWebSocketHub_def registered_def client_ok_def no_client_def)
qed (rule hub_step_ok)

text \<open>
  However clients come, subscribe, fail and go, a broadcast never panics: each registered client that
  subscribed to the topic or to all topics gets the event exactly once, if its buffer of 256 has room, and
  nothing else changes. The goroutines of a registered client both run.
\<close>

theorem broadcast_reaches_subscribers:
  assumes "hub_reachable encodable h" and "encodable e"
  shows "BroadcastEvent encodable e h = Some (h\<lparr>h_peer := (\<lambda>k. (h_peer h k)\<lparr>c_send :=
      push (if registered h k \<and> subscribed (ev_Topic e) (h_peer h k) then 1 else 0) (FEvent e) (c_send (h_peer h k))\<rparr>)\<rparr>)
    \<and> (\<forall>k. registered h k \<longrightarrow> c_reading (h_peer h k) \<and> c_writing (h_peer h k) \<and> length (ch_queue (c_send (h_peer h k))) \<le> 256)"
proof -
  have ok: "hub_ok h" using assms(1) by (rule hub_reachable_ok)
  let ?ks = "filter (\<lambda>k. subscribed (ev_Topic e) (h_peer h k)) (map fst (h_clients h))"
  have "k \<in> set ?ks \<longleftrightarrow> registered h k \<and> subscribed (ev_Topic e) (h_peer h k)" for k
    by (auto simp: registered_def gget_None_iff image_iff)
  then show ?thesis using deliver_exact [OF ok, of ?ks "FEvent e"] known_clients [OF ok] ok assms(2)
    by (auto simp: BroadcastEvent_def hub_ok_def client_ok_def)
qed

text \<open>
  A client whose writing goroutine has ended is unregistered and its channel closed, while the reading one goes
  on: the next request it answers panics and only the recovery in the reading goroutine keeps the server up.
\<close>

theorem reply_after_writer_panics:
  assumes "hub_reachable encodable h" and "c_reading (h_peer h k)" and "c_writing (h_peer h k)"
    and "ws_Action m = ''ping'' \<or> ws_Action m = ''subscribe'' \<or> ws_Action m = ''unsubscribe''"
  shows "c_reading (h_peer (write_end k h) k) \<and> \<not> registered (write_end k h) k
    \<and> handleMessage (Some m) (h_peer (write_end k h) k) = None
    \<and> \<not> c_reading (h_peer (read_message (Some m) k (write_end k h)) k)"
proof -
  have "client_ok (registered h k) (h_peer h k)" using hub_reachable_ok [OF assms(1)] by (simp add: hub_ok_def)
  then have "\<not> ch_open (c_send (h_peer (write_end k h) k))" "c_reading (h_peer (write_end k h) k)"
    using assms(2) by (auto simp: write_end_def close_send_def client_ok_def)
  moreover from this have "handleMessage (Some m) (h_peer (write_end k h) k) = None"
    using assms(4) by (auto simp: handleMessage_def sendJSON_def offer_def)
  ultimately show ?thesis by (auto simp: read_message_def read_end_def write_end_def close_send_def)
qed

definition demo_hub :: "(nat, unit) Hub" where
  "demo_hub = read_message (Some \<lparr>ws_Action = ''subscribe'', ws_Topics = [''streams'']\<rparr>) 7 (HandleWebSocket 7 (NewWebSocketHub (\<lambda>_. None) []))"

lemma demo_hub_reachable: "hub_reachable (\<lambda>_. True) demo_hub"
  unfolding demo_hub_def
  by (intro hub_reachable.step [OF hub_reachable.step [OF hub_reachable.start hub_step.connect] hub_step.message])
    (simp_all add: NewWebSocketHub_def HandleWebSocket_def)

theorem broadcast_reaches_subscribers_witness:
  "\<exists>h'. BroadcastEvent (\<lambda>_. True) \<lparr>ev_Type = EventStreamEnded, ev_Topic = ''streams'', ev_Payload = (), ev_Timestamp = 1, ev_ID = ''x''\<rparr> demo_hub = Some h'"
  using broadcast_reaches_subscribers [OF demo_hub_reachable] by blast

theorem reply_after_writer_panics_witness:
  "handleMessage (Some \<lparr>ws_Action = ''ping'', ws_Topics = []\<rparr>) (h_peer (write_end 7 demo_hub) 7) = None"
proof -
  have "c_reading (h_peer demo_hub 7)" "c_writing (h_peer demo_hub 7)" by code_simp+
  then show ?thesis using reply_after_writer_panics [OF demo_hub_reachable, of 7 "\<lparr>ws_Action = ''ping'', ws_Topics = []\<rparr>"] by simp
qed

end
