(* ===== verification/Files.thy ===== *)
theory Files
  imports Strings
begin

text \<open>
  The functions of Go's \<^verbatim>\<open>path/filepath\<close> and \<^verbatim>\<open>os\<close> packages that the streaming code calls, for
  Unix paths. A disk is a map from the paths that exist to what stands there. Removing a tree that exists
  succeeds: the code only logs a failure.
\<close>

section \<open>Paths\<close>

text \<open>One element of a path read by \<^verbatim>\<open>filepath.Clean\<close>; the elements kept so far are in reverse order.\<close>

definition clean_elem :: "bool \<Rightarrow> string \<Rightarrow> string list \<Rightarrow> string list" where
  "clean_elem rooted e kept =
     (if e = [] \<or> e = ''.'' then kept
      else if e \<noteq> ''..'' then e # kept
      else case kept of
        [] \<Rightarrow> if rooted then [] else [''..'']
      | k # ks \<Rightarrow> if k = ''..'' then ''..'' # kept else ks)"

definition PathClean :: "string \<Rightarrow> string" where
  "PathClean p =
     (if p = [] then ''.''
      else
        let rooted = (hd p = CHR ''/'');
            body = Join (rev (fold (clean_elem rooted) (SplitAt (CHR ''/'') p) [])) ''/''
        in if rooted then CHR ''/'' # body else if body = [] then ''.'' else body)"

definition PathJoin :: "string \<Rightarrow> string \<Rightarrow> string" where
  "PathJoin a b = (if a = [] \<and> b = [] then [] else if a = [] then PathClean b else PathClean (a @ ''/'' @ b))"

definition PathDir :: "string \<Rightarrow> string" where
  "PathDir p = PathClean (rev (dropWhile (\<lambda>c. c \<noteq> CHR ''/'') (rev p)))"

definition PathExt :: "string \<Rightarrow> string" where
  "PathExt p =
     (let r = rev p; t = takeWhile (\<lambda>c. c \<noteq> CHR ''.'' \<and> c \<noteq> CHR ''/'') r; rest = drop (length t) r
      in case rest of [] \<Rightarrow> [] | c # _ \<Rightarrow> if c = CHR ''.'' then CHR ''.'' # rev t else [])"

definition PathAbs :: "string \<Rightarrow> string \<Rightarrow> string" where
  "PathAbs cwd p = (if p \<noteq> [] \<and> hd p = CHR ''/'' then PathClean p else PathJoin cwd p)"

text \<open>A path inside another one, or that path itself.\<close>

definition under :: "string \<Rightarrow> string \<Rightarrow> bool" where
  "under dir p \<longleftrightarrow> p = dir \<or> HasPrefix p (if dir = ''/'' then dir else dir @ ''/'')"

section \<open>Disks\<close>

record Entry =
  isDir :: bool
  modTime :: time

type_synonym disk = "(string, Entry) gomap"

definition exists_path :: "disk \<Rightarrow> string \<Rightarrow> bool" where "exists_path d p \<longleftrightarrow> gget d p \<noteq> None"

text \<open>\<^verbatim>\<open>os.RemoveAll\<close>: nothing happens for the empty path and for one that ends in a dot element.\<close>

definition RemoveAll :: "string \<Rightarrow> disk \<Rightarrow> disk" where
  "RemoveAll p d = (if p = [] \<or> p = ''.'' \<or> HasSuffix p ''/.'' then d else gfilter (\<lambda>q _. \<not> under p q) d)"

definition create :: "bool \<Rightarrow> time \<Rightarrow> string \<Rightarrow> disk \<Rightarrow> disk" where
  "create dir now p d = (case gget d p of None \<Rightarrow> gput d p \<lparr>isDir = dir, modTime = now\<rparr> | Some _ \<Rightarrow> d)"

text \<open>The directories above a path and the path itself, outermost first.\<close>

definition ancestors :: "string \<Rightarrow> string list" where
  "ancestors p = map (\<lambda>n. take n p) (filter (\<lambda>n. 0 < n \<and> (n = length p \<or> p ! n = CHR ''/'')) [0..<Suc (length p)])"

definition MkdirAll :: "time \<Rightarrow> string \<Rightarrow> disk \<Rightarrow> disk" where
  "MkdirAll now p d = fold (create True now) (ancestors p) d"

definition WriteFile :: "time \<Rightarrow> string \<Rightarrow> disk \<Rightarrow> disk" where
  "WriteFile now p d = gput d p \<lparr>isDir = False, modTime = now\<rparr>"

section \<open>Laws\<close>

definition plain :: "string \<Rightarrow> bool" where
  "plain e \<longleftrightarrow> e \<noteq> [] \<and> e \<noteq> ''.'' \<and> e \<noteq> ''..'' \<and> CHR ''/'' \<notin> set e"

definition abs_path :: "string list \<Rightarrow> string" where "abs_path es = concat (map (Cons (CHR ''/'')) es)"

lemma abs_path_simps [simp]:
  "abs_path [] = []" "abs_path (e # es) = CHR ''/'' # e @ abs_path es" "abs_path (es @ fs) = abs_path es @ abs_path fs"
  by (simp_all add: abs_path_def)

lemma SplitAt_none: "c \<notin> set s \<Longrightarrow> SplitAt c s = [s]"
  by (induction s) auto

lemma SplitAt_append: "c \<notin> set s \<Longrightarrow> SplitAt c (s @ c # t) = s # SplitAt c t"
  by (induction s) auto

lemma SplitAt_abs: "CHR ''/'' \<notin> set e \<Longrightarrow> list_all plain es \<Longrightarrow> SplitAt (CHR ''/'') (e @ abs_path es) = e # es"
proof (induction es arbitrary: e)
  case (Cons f es)
  have "SplitAt (CHR ''/'') (e @ CHR ''/'' # f @ abs_path es) = e # SplitAt (CHR ''/'') (f @ abs_path es)"
    using SplitAt_append [OF Cons.prems(1)] .
  then show ?case using Cons by (simp add: plain_def)
qed (simp add: SplitAt_none)

lemma SplitAt_abs_slash:
  "CHR ''/'' \<notin> set e \<Longrightarrow> list_all plain es \<Longrightarrow> SplitAt (CHR ''/'') (e @ abs_path es @ ''/'') = e # es @ [[]]"
proof (induction es arbitrary: e)
  case (Cons f es)
  have "SplitAt (CHR ''/'') (e @ CHR ''/'' # f @ abs_path es @ ''/'') = e # SplitAt (CHR ''/'') (f @ abs_path es @ ''/'')"
    using SplitAt_append [OF Cons.prems(1)] .
  then show ?case using Cons by (simp add: plain_def)
next
  case Nil
  then show ?case using SplitAt_append [of "CHR ''/''" e "[]"] by simp
qed

lemma clean_plain: "list_all plain es \<Longrightarrow> fold (clean_elem r) es ks = rev es @ ks"
  by (induction es arbitrary: ks) (auto simp: clean_elem_def plain_def)

lemma Join_abs: "Join (e # es) ''/'' = e @ abs_path es"
  by (induction es arbitrary: e) auto

lemma PathClean_abs:
  assumes "list_all plain es" "es \<noteq> []"
  shows "PathClean (abs_path es) = abs_path es" "PathClean (abs_path es @ ''/'') = abs_path es"
proof -
  obtain e fs where es: "es = e # fs" using assms(2) by (cases es) auto
  have e: "CHR ''/'' \<notin> set e" "list_all plain fs" "list_all plain (e # fs)" using assms(1) by (auto simp: es plain_def)
  have s: "SplitAt (CHR ''/'') (e @ abs_path fs) = e # fs" "SplitAt (CHR ''/'') (e @ abs_path fs @ ''/'') = e # fs @ [[]]"
    using SplitAt_abs [OF e(1,2)] SplitAt_abs_slash [OF e(1,2)] .
  have c: "fold (clean_elem True) (e # fs) [] = rev (e # fs)" "fold (clean_elem True) (e # fs @ [[]]) [] = rev (e # fs)"
    using clean_plain [OF e(3), of True "[]"] by (simp_all add: clean_elem_def)
  show "PathClean (abs_path es) = abs_path es"
    using s(1) c(1) Join_abs [of e fs] by (simp add: PathClean_def es Let_def clean_elem_def)
  show "PathClean (abs_path es @ ''/'') = abs_path es"
    using s(2) c(2) Join_abs [of e fs] by (simp add: PathClean_def es Let_def clean_elem_def)
qed

lemma PathJoin_abs:
  assumes "list_all plain es" "es \<noteq> []" "plain e"
  shows "PathJoin (abs_path es) e = abs_path (es @ [e])"
proof -
  have "abs_path es \<noteq> []" using assms(2) by (cases es) auto
  moreover have "abs_path es @ ''/'' @ e = abs_path (es @ [e])" by simp
  ultimately show ?thesis using PathClean_abs(1) [of "es @ [e]"] assms by (simp add: PathJoin_def)
qed

lemma PathDir_abs:
  assumes "list_all plain es" "es \<noteq> []" "CHR ''/'' \<notin> set e"
  shows "PathDir (abs_path es @ CHR ''/'' # e) = abs_path es"
proof -
  have "dropWhile (\<lambda>c. c \<noteq> CHR ''/'') (rev e @ CHR ''/'' # rev (abs_path es)) = CHR ''/'' # rev (abs_path es)"
    using assms(3) by (induction e rule: rev_induct) auto
  then show ?thesis using PathClean_abs(2) [OF assms(1,2)] by (simp add: PathDir_def)
qed

lemma under_refl [simp]: "under p p" by (simp add: under_def)

lemma under_append: "p \<noteq> ''/'' \<Longrightarrow> under p (p @ CHR ''/'' # s)"
  by (auto simp: under_def HasPrefix_iff)

lemma RemoveAll_get:
  assumes "gwf d" "p \<noteq> []" "p \<noteq> ''.''" "\<not> HasSuffix p ''/.''"
  shows "gget (RemoveAll p d) q = (if under p q then None else gget d q)"
  using assms by (simp add: RemoveAll_def gomap_simps split: option.split)

lemma RemoveAll_wf [intro]: "gwf d \<Longrightarrow> gwf (RemoveAll p d)"
  by (simp add: RemoveAll_def gomap_simps)

lemma RemoveAll_outside: "gwf d \<Longrightarrow> \<not> under p q \<Longrightarrow> gget (RemoveAll p d) q = gget d q"
  by (simp add: RemoveAll_def gomap_simps split: option.split)

lemma abs_not_dot: 
  assumes "list_all plain es" "es \<noteq> []"
  shows "abs_path es \<noteq> []" "abs_path es \<noteq> ''.''" "\<not> HasSuffix (abs_path es) ''/.''" "abs_path es \<noteq> ''/''"
proof -
  obtain fs e where es: "es = fs @ [e]" using assms(2) by (cases es rule: rev_cases) auto
  have e: "plain e" using assms(1) es by simp
  then show "abs_path es \<noteq> []" "abs_path es \<noteq> ''.''" "abs_path es \<noteq> ''/''"
    using assms by (cases es; auto simp: plain_def)+
  obtain s c where c: "e = s @ [c]" using e by (cases e rule: rev_cases) (auto simp: plain_def)
  show "\<not> HasSuffix (abs_path es) ''/.''"
  proof
    assume "HasSuffix (abs_path es) ''/.''"
    then obtain t where t: "abs_path fs @ CHR ''/'' # s @ [c] = t @ ''/.''" by (auto simp: HasSuffix_iff es c)
    then have "rev (s @ [c]) @ CHR ''/'' # rev (abs_path fs) = CHR ''.'' # CHR ''/'' # rev t"
      by (metis rev.simps(2) rev_append append_Cons append_Nil append_assoc rev_swap rev_singleton_conv)
    then show False using e c by (cases s rule: rev_cases) (auto simp: plain_def)
  qed
qed

lemma gwf_create [intro]: "gwf d \<Longrightarrow> gwf (create b now p d)"
  by (auto simp: create_def gomap_simps split: option.split)

lemma gwf_MkdirAll [intro]: "gwf d \<Longrightarrow> gwf (MkdirAll now p d)"
proof -
  have "gwf d \<Longrightarrow> gwf (fold (create True now) ps d)" for ps by (induction ps arbitrary: d) auto
  then show "gwf d \<Longrightarrow> ?thesis" by (simp add: MkdirAll_def)
qed

lemma create_get: "gget (create b now p d) q = (if p = q \<and> gget d q = None then Some \<lparr>isDir = b, modTime = now\<rparr> else gget d q)"
  by (auto simp: create_def gomap_simps split: option.split)

lemma creates_get:
  "gget (fold (create True now) ps d) q
    = (if q \<in> set ps \<and> gget d q = None then Some \<lparr>isDir = True, modTime = now\<rparr> else gget d q)"
  by (induction ps arbitrary: d) (auto simp: create_get)

lemma MkdirAll_get:
  "gget (MkdirAll now p d) q = (if q \<in> set (ancestors p) \<and> gget d q = None then Some \<lparr>isDir = True, modTime = now\<rparr> else gget d q)"
  by (simp add: MkdirAll_def creates_get)

lemma ancestors_mem: "q \<in> set (ancestors p) \<longleftrightarrow> (\<exists>n \<le> length p. q = take n p \<and> 0 < n \<and> (n = length p \<or> p ! n = CHR ''/''))"
  unfolding ancestors_def by (auto simp del: upt_Suc simp: less_Suc_eq_le)

lemma ancestors_iff: "q \<in> set (ancestors p) \<longleftrightarrow> q \<noteq> [] \<and> (q = p \<or> (\<exists>s. p = q @ CHR ''/'' # s))"
proof
  assume "q \<in> set (ancestors p)"
  then obtain n where n: "n \<le> length p" "q = take n p" "0 < n" "n = length p \<or> p ! n = CHR ''/''"
    unfolding ancestors_mem by blast
  show "q \<noteq> [] \<and> (q = p \<or> (\<exists>s. p = q @ CHR ''/'' # s))"
  proof (cases "n = length p")
    case False
    then have "drop n p = CHR ''/'' # drop (Suc n) p" using n by (simp add: Cons_nth_drop_Suc [symmetric])
    then have "p = q @ CHR ''/'' # drop (Suc n) p" using n(2) append_take_drop_id [of n p] by simp
    then show ?thesis using n by auto
  qed (use n in auto)
next
  assume "q \<noteq> [] \<and> (q = p \<or> (\<exists>s. p = q @ CHR ''/'' # s))"
  then show "q \<in> set (ancestors p)" unfolding ancestors_mem by (intro exI [of _ "length q"]) auto
qed

end
