(* ===== verification/Media.thy ===== *)
theory Media
  imports Files Float64 "HOL-Library.List_Lexorder" "HOL-Library.Multiset"
begin

text \<open>
  The media library of \<^verbatim>\<open>internal/media\<close>: the data of \<^verbatim>\<open>models.go\<close>, reading a file's streams from
  what ffprobe prints (\<^verbatim>\<open>probe.go\<close>) and the two tables of \<^verbatim>\<open>store.go\<close>. Running ffprobe, decoding its
  JSON and the file's status are parameters. The tables have the keys that the migrations declare: an item's
  path is unique, and its library exists if the connection enforces foreign keys.
\<close>

section \<open>Data\<close>

definition LibraryTypeMovie :: string where "LibraryTypeMovie = ''movie''"
definition LibraryTypeTV :: string where "LibraryTypeTV = ''tv''"
definition LibraryTypeMusic :: string where "LibraryTypeMusic = ''music''"

record Library =
  lib_ID :: string
  lib_Name :: string
  lib_Path :: string
  lib_LibraryType :: string
  lib_Enabled :: bool
  lib_RefreshIntervalMinutes :: int
  lib_CreatedAt :: time
  lib_UpdatedAt :: time
  lib_LastScanAt :: "time option"

record VideoStream =
  vs_Index :: int
  vs_Codec :: string
  vs_Profile :: string
  vs_Level :: string
  vs_Width :: int
  vs_Height :: int
  vs_Framerate :: float64
  vs_BitDepth :: int
  vs_HDRType :: string
  vs_IsInterlaced :: bool
  vs_Bitrate :: int

record AudioStream =
  as_Index :: int
  as_Codec :: string
  as_Language :: string
  as_Channels :: int
  as_SampleRate :: int
  as_Bitrate :: int
  as_Title :: string
  as_IsDefault :: bool

record SubtitleStream =
  st_Index :: int
  st_Format :: string
  st_Language :: string
  st_Title :: string
  st_IsForced :: bool
  st_IsExternal :: bool
  st_ExternalPath :: string

record MediaItem =
  mi_ID :: string
  mi_LibraryID :: string
  mi_Path :: string
  mi_Title :: string
  mi_Year :: int
  mi_Overview :: string
  mi_PosterPath :: string
  mi_VideoStream :: "VideoStream option"
  mi_AudioStreams :: "AudioStream list"
  mi_SubtitleStreams :: "SubtitleStream list"
  mi_Container :: string
  mi_Duration :: float64
  mi_FileSize :: int
  mi_FileModifiedAt :: time
  mi_FileHash :: string
  mi_CreatedAt :: time
  mi_UpdatedAt :: time
  mi_MetadataFetchedAt :: "time option"

definition zeroItem :: MediaItem where
  "zeroItem = \<lparr>mi_ID = [], mi_LibraryID = [], mi_Path = [], mi_Title = [], mi_Year = 0, mi_Overview = [], mi_PosterPath = [],
     mi_VideoStream = None, mi_AudioStreams = [], mi_SubtitleStreams = [], mi_Container = [], mi_Duration = 0, mi_FileSize = 0,
     mi_FileModifiedAt = zeroTime, mi_FileHash = [], mi_CreatedAt = zeroTime, mi_UpdatedAt = zeroTime, mi_MetadataFetchedAt = None\<rparr>"

section \<open>Identifiers\<close>

text \<open>The runes of a string with the positions they start at, as \<^verbatim>\<open>range\<close> visits them.\<close>

definition cont :: "nat \<Rightarrow> bool" where "cont b \<longleftrightarrow> 128 \<le> b \<and> b < 192"

definition rune_len :: "nat list \<Rightarrow> nat" where
  "rune_len s =
     (case s of
        [] \<Rightarrow> 1
      | b # u \<Rightarrow>
          if 194 \<le> b \<and> b < 224 \<and> u \<noteq> [] \<and> cont (u ! 0) then 2
          else if 224 \<le> b \<and> b < 240 \<and> 2 \<le> length u \<and> cont (u ! 0) \<and> cont (u ! 1)
             \<and> (b = 224 \<longrightarrow> 160 \<le> u ! 0) \<and> (b = 237 \<longrightarrow> u ! 0 < 160) then 3
          else if 240 \<le> b \<and> b < 245 \<and> 3 \<le> length u \<and> cont (u ! 0) \<and> cont (u ! 1) \<and> cont (u ! 2)
             \<and> (b = 240 \<longrightarrow> 144 \<le> u ! 0) \<and> (b = 244 \<longrightarrow> u ! 0 < 144) then 4
          else 1)"

definition rune :: "nat list \<Rightarrow> nat" where
  "rune s =
     (let n = rune_len s; b = s ! 0
      in if n = 2 then (b - 192) * 64 + (s ! 1 - 128)
         else if n = 3 then (b - 224) * 4096 + (s ! 1 - 128) * 64 + (s ! 2 - 128)
         else if n = 4 then (b - 240) * 262144 + (s ! 1 - 128) * 4096 + (s ! 2 - 128) * 64 + (s ! 3 - 128)
         else if b < 128 then b else 65533)"

lemma rune_len_pos: "0 < rune_len s"
  by (simp add: rune_len_def split: list.split)

function hash_runes :: "nat \<Rightarrow> nat list \<Rightarrow> nat \<Rightarrow> nat" where
  "hash_runes i [] h = h"
| "hash_runes i (b # s) h =
     hash_runes (i + rune_len (b # s)) (drop (rune_len (b # s)) (b # s)) ((h * 31 + rune (b # s) + i) mod 2 ^ 64)"
  by pat_completeness auto
termination
  by (relation "measure (\<lambda>(i, s, h). length s)") (auto simp: rune_len_pos)

definition hex16 :: "nat \<Rightarrow> string" where
  "hex16 h = map (\<lambda>k. (let d = h div 16 ^ k mod 16 in if d < 10 then char_of (48 + d) else char_of (87 + d))) (rev [0..<16])"

definition generateID :: "string \<Rightarrow> string" where
  "generateID path = hex16 (hash_runes 0 (map of_char path) 0)"

section \<open>Reading ffprobe's output\<close>

record ffprobeFormat =
  ff_Duration :: string
  ff_Size :: string

record ffprobeStream =
  fs_Index :: int
  fs_CodecType :: string
  fs_CodecName :: string
  fs_Profile :: string
  fs_Level :: int
  fs_Width :: int
  fs_Height :: int
  fs_AvgFrameRate :: string
  fs_BitRate :: string
  fs_BitsPerRawSample :: string
  fs_PixelFormat :: string
  fs_ColorTransfer :: string
  fs_SampleRate :: string
  fs_Channels :: int
  fs_ChannelLayout :: string
  fs_Tags :: "(string, string) gomap"
  fs_Disposition :: int
  fs_FieldOrder :: string

record ffprobeOutput =
  fo_Format :: ffprobeFormat
  fo_Streams :: "ffprobeStream list"

text \<open>
  \<^verbatim>\<open>ParseInt\<close> with its error ignored: zero if there is no number, the nearest bound if it does not fit; and the
  value of plain decimal notation, the form ffprobe prints durations and frame rates in.
\<close>

definition ParseInt :: "string \<Rightarrow> int" where
  "ParseInt s =
     (let (neg, t) = (case s of [] \<Rightarrow> (False, s)
                      | c # u \<Rightarrow> if c = CHR ''-'' then (True, u) else if c = CHR ''+'' then (False, u) else (False, s));
          n = (if neg then - int (digits_val t) else int (digits_val t))
      in if t = [] \<or> \<not> list_all is_digit t then 0 else max (- (2 ^ 63)) (min (2 ^ 63 - 1) n))"

definition decimal :: "string \<Rightarrow> float64" where
  "decimal s =
     (let whole = takeWhile is_digit s; rest = drop (length whole) s;
          frac = (case rest of [] \<Rightarrow> [] | c # u \<Rightarrow> if c = CHR ''.'' then takeWhile is_digit u else [])
      in fl (of_int (int (digits_val (whole @ frac))) / 10 ^ length frac))"

definition ParseFloat :: "string \<Rightarrow> float64" where
  "ParseFloat s =
     (let whole = takeWhile is_digit s; rest = drop (length whole) s
      in if (whole \<noteq> [] \<and> rest = []) \<or> (\<exists>u. rest = CHR ''.'' # u \<and> list_all is_digit u \<and> (whole \<noteq> [] \<or> u \<noteq> []))
         then decimal s else 0)"

lemma ParseFloat_code [code]:
  "ParseFloat s =
     (let whole = takeWhile is_digit s; rest = drop (length whole) s
      in if (whole \<noteq> [] \<and> rest = [])
           \<or> (case rest of [] \<Rightarrow> False | c # u \<Rightarrow> c = CHR ''.'' \<and> list_all is_digit u \<and> (whole \<noteq> [] \<or> u \<noteq> []))
         then decimal s else 0)"
  by (auto simp: ParseFloat_def Let_def split: list.split)

definition Fmt1 :: "float64 \<Rightarrow> string" where
  "Fmt1 x = (let n = nat (rne (x * 10)) in digits (n div 10) @ ''.'' @ [digit_char (n mod 10)])"

definition detectHDR :: "string \<Rightarrow> string \<Rightarrow> string" where
  "detectHDR colorTransfer pixelFormat =
     (if colorTransfer = ''smpte2084'' then (if Contains pixelFormat ''dolby'' then ''dolby_vision'' else ''hdr10'')
      else if colorTransfer = ''smpte2086'' then ''hdr10+''
      else if colorTransfer = ''hlg'' then ''hlg'' else [])"

definition tag :: "(string, string) gomap \<Rightarrow> string \<Rightarrow> string" where
  "tag tags k = (case gget tags k of None \<Rightarrow> [] | Some v \<Rightarrow> v)"

definition getLanguage :: "(string, string) gomap \<Rightarrow> string" where "getLanguage tags = tag tags ''language''"

definition channelLayoutToChannels :: "string \<Rightarrow> int" where
  "channelLayoutToChannels layout =
     (let l = ToLower layout
      in if l = ''mono'' then 1 else if l = ''stereo'' then 2
         else if l = ''5.1'' \<or> l = ''5.1(side)'' then 6 else if l = ''7.1'' \<or> l = ''7.1(side)'' then 8 else 2)"

definition codecToSubtitleFormat :: "string \<Rightarrow> string" where
  "codecToSubtitleFormat codec =
     (if codec = ''subrip'' then ''srt'' else if codec = ''ass'' \<or> codec = ''ssa'' then codec
      else if codec = ''hdmv_pgs_subtitle'' then ''pgs'' else if codec = ''dvd_subtitle'' then ''vobsub''
      else if codec = ''webvtt'' then ''webvtt'' else if codec = ''mov_text'' then ''mov_text'' else codec)"

definition parseVideoStream :: "ffprobeStream \<Rightarrow> VideoStream" where
  "parseVideoStream s =
     \<lparr>vs_Index = fs_Index s, vs_Codec = fs_CodecName s, vs_Profile = fs_Profile s,
      vs_Level = (if fs_Level s > 0 then Fmt1 (fdiv (ffromint (fs_Level s)) 10) else []),
      vs_Width = fs_Width s, vs_Height = fs_Height s,
      vs_Framerate = (case SplitAt (CHR ''/'') (fs_AvgFrameRate s) of
                        [num, den] \<Rightarrow> if decimal den > 0 then fdiv (decimal num) (decimal den) else 0
                      | _ \<Rightarrow> 0),
      vs_BitDepth = (if fs_BitsPerRawSample s \<noteq> [] then ParseInt (fs_BitsPerRawSample s) else 0),
      vs_HDRType = detectHDR (fs_ColorTransfer s) (fs_PixelFormat s),
      vs_IsInterlaced = (fs_FieldOrder s \<noteq> [] \<and> fs_FieldOrder s \<noteq> ''progressive''),
      vs_Bitrate = (if fs_BitRate s \<noteq> [] then ParseInt (fs_BitRate s) else 0)\<rparr>"

definition parseAudioStream :: "ffprobeStream \<Rightarrow> AudioStream" where
  "parseAudioStream s =
     \<lparr>as_Index = fs_Index s, as_Codec = fs_CodecName s, as_Language = getLanguage (fs_Tags s),
      as_Channels = (if fs_Channels s > 0 then fs_Channels s
                     else if fs_ChannelLayout s \<noteq> [] then channelLayoutToChannels (fs_ChannelLayout s) else 0),
      as_SampleRate = (if fs_SampleRate s \<noteq> [] then ParseInt (fs_SampleRate s) else 0),
      as_Bitrate = (if fs_BitRate s \<noteq> [] then ParseInt (fs_BitRate s) else 0),
      as_Title = tag (fs_Tags s) ''title'', as_IsDefault = odd (fs_Disposition s)\<rparr>"

definition parseSubtitleStream :: "ffprobeStream \<Rightarrow> SubtitleStream" where
  "parseSubtitleStream s =
     \<lparr>st_Index = fs_Index s, st_Format = codecToSubtitleFormat (fs_CodecName s), st_Language = getLanguage (fs_Tags s),
      st_Title = tag (fs_Tags s) ''title'', st_IsForced = odd (fs_Disposition s div 2), st_IsExternal = False, st_ExternalPath = []\<rparr>"

definition PathBase :: "string \<Rightarrow> string" where
  "PathBase p =
     (let q = rev (dropWhile (\<lambda>c. c = CHR ''/'') (rev p)); b = rev (takeWhile (\<lambda>c. c \<noteq> CHR ''/'') (rev q))
      in if p = [] then ''.'' else if b = [] then ''/'' else b)"

definition cleanFilename :: "string \<Rightarrow> string" where
  "cleanFilename f =
     fold (\<lambda>p s. TrimSuffix s p) [''-GROUP'', ''_GROUP'', ''-RG'', ''_RG'', ''-SiMPLE'', ''_SiMPLE'', ''-SPARKS'', ''_SPARKS'',
       ''-GHOST'', ''_GHOST'', ''- flux'', ''_flux''] f"

definition extractTitle :: "string \<Rightarrow> string" where
  "extractTitle path =
     TrimSpace (map (\<lambda>c. if c = CHR ''.'' \<or> c = CHR ''_'' then CHR '' '' else c)
       (cleanFilename (TrimSuffix (PathBase path) (PathExt (PathBase path)))))"

definition add_stream :: "ffprobeStream \<Rightarrow> MediaItem \<Rightarrow> MediaItem" where
  "add_stream s item =
     (if fs_CodecType s = ''video'' then item\<lparr>mi_VideoStream := Some (parseVideoStream s)\<rparr>
      else if fs_CodecType s = ''audio'' then item\<lparr>mi_AudioStreams := mi_AudioStreams item @ [parseAudioStream s]\<rparr>
      else if fs_CodecType s = ''subtitle'' then item\<lparr>mi_SubtitleStreams := mi_SubtitleStreams item @ [parseSubtitleStream s]\<rparr>
      else item)"

definition convertToMediaItem :: "(string \<Rightarrow> time option) \<Rightarrow> string \<Rightarrow> ffprobeOutput \<Rightarrow> MediaItem" where
  "convertToMediaItem mtime path result =
     (fold add_stream (fo_Streams result)
       (zeroItem\<lparr>mi_Path := path,
          mi_Duration := (if ff_Duration (fo_Format result) \<noteq> [] then ParseFloat (ff_Duration (fo_Format result)) else 0),
          mi_FileSize := (if ff_Size (fo_Format result) \<noteq> [] then ParseInt (ff_Size (fo_Format result)) else 0),
          mi_FileModifiedAt := (case mtime path of None \<Rightarrow> zeroTime | Some t \<Rightarrow> t)\<rparr>))
       \<lparr>mi_Container := TrimPrefix (PathExt path) ''.'', mi_Title := extractTitle path, mi_ID := generateID path\<rparr>"

definition FFprobe_Probe ::
  "string \<Rightarrow> (string list \<Rightarrow> string + string) \<Rightarrow> (string \<Rightarrow> ffprobeOutput option) \<Rightarrow> (string \<Rightarrow> time option) \<Rightarrow> string
     \<Rightarrow> string + MediaItem" where
  "FFprobe_Probe ffprobe run unmarshal mtime path =
     (case run [ffprobe, ''-v'', ''quiet'', ''-print_format'', ''json'', ''-show_format'', ''-show_streams'', path] of
        Inl e \<Rightarrow> Inl (''ffprobe failed: '' @ e)
      | Inr out \<Rightarrow> (case unmarshal out of
          None \<Rightarrow> Inl ''parse ffprobe output'' | Some r \<Rightarrow> Inr (convertToMediaItem mtime path r)))"

section \<open>The tables\<close>

record Store =
  media_items :: "(string, MediaItem) gomap"
  libraries :: "(string, Library) gomap"
  foreign_keys :: bool

datatype store_error = UniqueViolation | ForeignKeyViolation | CheckViolation

text \<open>\<open>stamped\<close> sets the timestamps of the item that the caller keeps.\<close>

definition stamped :: "time \<Rightarrow> MediaItem \<Rightarrow> MediaItem" where
  "stamped now item = item\<lparr>mi_CreatedAt := (if IsZero (mi_CreatedAt item) then now else mi_CreatedAt item), mi_UpdatedAt := now\<rparr>"

definition SaveMediaItem :: "time \<Rightarrow> MediaItem \<Rightarrow> Store \<Rightarrow> store_error option \<times> Store" where
  "SaveMediaItem now item0 s =
     (let item = stamped now item0
      in case gget (media_items s) (mi_ID item) of
        Some old \<Rightarrow>
          (None, s\<lparr>media_items := gput (media_items s) (mi_ID item)
             (item\<lparr>mi_LibraryID := mi_LibraryID old, mi_Path := mi_Path old, mi_CreatedAt := mi_CreatedAt old,
                   mi_MetadataFetchedAt := mi_MetadataFetchedAt old\<rparr>)\<rparr>)
      | None \<Rightarrow>
          if list_ex (\<lambda>(_, i). mi_Path i = mi_Path item) (media_items s) then (Some UniqueViolation, s)
          else if foreign_keys s \<and> gget (libraries s) (mi_LibraryID item) = None then (Some ForeignKeyViolation, s)
          else (None, s\<lparr>media_items := gput (media_items s) (mi_ID item) (item\<lparr>mi_MetadataFetchedAt := None\<rparr>)\<rparr>))"

definition GetMediaItem :: "string \<Rightarrow> Store \<Rightarrow> MediaItem option" where "GetMediaItem i s = gget (media_items s) i"

definition page_limit :: "int \<Rightarrow> int" where
  "page_limit limit = (let l = (if limit \<le> 0 then 50 else limit) in if l > 200 then 200 else l)"

text \<open>The rows of a library in the order of their titles; rows with the same title come in table order.\<close>

definition library_rows :: "string \<Rightarrow> Store \<Rightarrow> MediaItem list" where
  "library_rows lib s = sort_key mi_Title (filter (\<lambda>i. mi_LibraryID i = lib) (map snd (media_items s)))"

definition GetLibraryItems :: "string \<Rightarrow> int \<Rightarrow> int \<Rightarrow> Store \<Rightarrow> MediaItem list \<times> int" where
  "GetLibraryItems lib offset limit s =
     (map (\<lambda>i. i\<lparr>mi_MetadataFetchedAt := None\<rparr>) (take (nat (page_limit limit)) (drop (nat (if offset < 0 then 0 else offset)) (library_rows lib s))),
      int (length (library_rows lib s)))"

definition SaveLibrary :: "time \<Rightarrow> Library \<Rightarrow> Store \<Rightarrow> store_error option \<times> Store" where
  "SaveLibrary now lib0 s =
     (let lib = lib0\<lparr>lib_CreatedAt := (if IsZero (lib_CreatedAt lib0) then now else lib_CreatedAt lib0), lib_UpdatedAt := now\<rparr>
      in if lib_LibraryType lib \<notin> set [LibraryTypeMovie, LibraryTypeTV, LibraryTypeMusic] then (Some CheckViolation, s)
         else if list_ex (\<lambda>(i, l). i \<noteq> lib_ID lib \<and> lib_Path l = lib_Path lib) (libraries s) then (Some UniqueViolation, s)
         else case gget (libraries s) (lib_ID lib) of
           Some old \<Rightarrow> (None, s\<lparr>libraries := gput (libraries s) (lib_ID lib) (lib\<lparr>lib_CreatedAt := lib_CreatedAt old\<rparr>)\<rparr>)
         | None \<Rightarrow> (None, s\<lparr>libraries := gput (libraries s) (lib_ID lib) lib\<rparr>))"

definition GetLibrary :: "string \<Rightarrow> Store \<Rightarrow> Library option" where "GetLibrary i s = gget (libraries s) i"

definition GetAllLibraries :: "Store \<Rightarrow> Library list" where "GetAllLibraries s = sort_key lib_Name (map snd (libraries s))"

definition DeleteMediaItem :: "string \<Rightarrow> Store \<Rightarrow> Store" where "DeleteMediaItem i s = s\<lparr>media_items := gdel (media_items s) i\<rparr>"

definition DeleteLibrary :: "string \<Rightarrow> Store \<Rightarrow> Store" where
  "DeleteLibrary i s =
     s\<lparr>libraries := gdel (libraries s) i,
       media_items := (if foreign_keys s then gfilter (\<lambda>_ m. mi_LibraryID m \<noteq> i) (media_items s) else media_items s)\<rparr>"

definition UpdateLibraryScanTime :: "string \<Rightarrow> time \<Rightarrow> Store \<Rightarrow> Store" where
  "UpdateLibraryScanTime i t s =
     (case gget (libraries s) i of None \<Rightarrow> s | Some l \<Rightarrow> s\<lparr>libraries := gput (libraries s) i (l\<lparr>lib_LastScanAt := Some t\<rparr>)\<rparr>)"

section \<open>The tables stay well-formed\<close>

definition store_ok :: "Store \<Rightarrow> bool" where
  "store_ok s \<longleftrightarrow> gwf (media_items s) \<and> gwf (libraries s)
     \<and> (\<forall>k i. gget (media_items s) k = Some i \<longrightarrow> mi_ID i = k \<and> gget (libraries s) (mi_LibraryID i) \<noteq> None)
     \<and> (\<forall>j k a b. gget (media_items s) j = Some a \<longrightarrow> gget (media_items s) k = Some b \<longrightarrow> mi_Path a = mi_Path b \<longrightarrow> j = k)
     \<and> (\<forall>k l. gget (libraries s) k = Some l \<longrightarrow> lib_ID l = k \<and> lib_LibraryType l \<in> {LibraryTypeMovie, LibraryTypeTV, LibraryTypeMusic})
     \<and> (\<forall>j k a b. gget (libraries s) j = Some a \<longrightarrow> gget (libraries s) k = Some b \<longrightarrow> lib_Path a = lib_Path b \<longrightarrow> j = k)"

datatype store_op = OpSaveItem time MediaItem | OpSaveLibrary time Library | OpDeleteItem string | OpDeleteLibrary string
  | OpScanTime string time

fun apply_op :: "store_op \<Rightarrow> Store \<Rightarrow> Store" where
  "apply_op (OpSaveItem now i) s = snd (SaveMediaItem now i s)"
| "apply_op (OpSaveLibrary now l) s = snd (SaveLibrary now l s)"
| "apply_op (OpDeleteItem i) s = DeleteMediaItem i s"
| "apply_op (OpDeleteLibrary i) s = DeleteLibrary i s"
| "apply_op (OpScanTime i t) s = UpdateLibraryScanTime i t s"

lemma ex_row: "gwf m \<Longrightarrow> list_ex (\<lambda>(k, v). P k v) m \<longleftrightarrow> (\<exists>k v. gget m k = Some v \<and> P k v)"
  by (auto simp: list_ex_iff gget_mem [symmetric])

lemma foreign_keys_kept: "foreign_keys (apply_op p s) = foreign_keys s"
  by (cases p) (auto simp: SaveMediaItem_def SaveLibrary_def DeleteMediaItem_def DeleteLibrary_def UpdateLibraryScanTime_def Let_def
    split: option.split)

lemma stamped_keeps [simp]: "mi_ID (stamped now i) = mi_ID i" "mi_Path (stamped now i) = mi_Path i" "mi_LibraryID (stamped now i) = mi_LibraryID i"
  by (simp_all add: stamped_def)

lemma SaveMediaItem_update:
  "gget (media_items s) (mi_ID i) = Some old \<Longrightarrow> SaveMediaItem now i s = (None, s\<lparr>media_items := gput (media_items s) (mi_ID i)
     ((stamped now i)\<lparr>mi_LibraryID := mi_LibraryID old, mi_Path := mi_Path old, mi_CreatedAt := mi_CreatedAt old,
       mi_MetadataFetchedAt := mi_MetadataFetchedAt old\<rparr>)\<rparr>)"
  by (simp add: SaveMediaItem_def Let_def)

lemma SaveMediaItem_ok: "store_ok s \<Longrightarrow> foreign_keys s \<Longrightarrow> store_ok (snd (SaveMediaItem now i s))"
proof -
  assume ok: "store_ok s" and fk: "foreign_keys s"
  note row = ex_row [of "media_items s" "\<lambda>_ v. mi_Path v = mi_Path i"]
  show ?thesis
  proof (cases "gget (media_items s) (mi_ID i)")
    case (Some old)
    then show ?thesis using ok unfolding store_ok_def by (simp add: SaveMediaItem_def Let_def gomap_simps) blast
  next
    case None
    show ?thesis
    proof (cases "list_ex (\<lambda>(_, v). mi_Path v = mi_Path i) (media_items s) \<or> gget (libraries s) (mi_LibraryID i) = None")
      case True
      then show ?thesis using ok None fk by (auto simp: SaveMediaItem_def Let_def)
    next
      case False
      have "\<forall>k v. gget (media_items s) k = Some v \<longrightarrow> mi_Path v \<noteq> mi_Path i" using False row ok by (simp add: store_ok_def)
      then have no: "\<forall>k v. gget (media_items s) k = Some v \<longrightarrow> mi_Path v \<noteq> mi_Path i \<and> mi_Path i \<noteq> mi_Path v" by metis
      have s: "snd (SaveMediaItem now i s) = s\<lparr>media_items := gput (media_items s) (mi_ID i) ((stamped now i)\<lparr>mi_MetadataFetchedAt := None\<rparr>)\<rparr>"
        using None False by (auto simp: SaveMediaItem_def Let_def)
      show ?thesis using ok False no unfolding store_ok_def s by (auto simp: gomap_simps split: if_splits)
    qed
  qed
qed

lemma SaveLibrary_ok: "store_ok s \<Longrightarrow> store_ok (snd (SaveLibrary now l s))"
proof -
  assume ok: "store_ok s"
  note row = ex_row [of "libraries s" "\<lambda>k v. k \<noteq> lib_ID l \<and> lib_Path v = lib_Path l"]
  show ?thesis
  proof (cases "lib_LibraryType l \<notin> set [LibraryTypeMovie, LibraryTypeTV, LibraryTypeMusic]
      \<or> list_ex (\<lambda>(k, v). k \<noteq> lib_ID l \<and> lib_Path v = lib_Path l) (libraries s)")
    case True
    then show ?thesis using ok by (auto simp: SaveLibrary_def Let_def)
  next
    case False
    have "\<forall>k v. gget (libraries s) k = Some v \<longrightarrow> k \<noteq> lib_ID l \<longrightarrow> lib_Path v \<noteq> lib_Path l" using False row ok unfolding store_ok_def by blast
    then have no: "\<forall>k v. gget (libraries s) k = Some v \<longrightarrow> k \<noteq> lib_ID l \<longrightarrow> lib_Path v \<noteq> lib_Path l \<and> lib_Path l \<noteq> lib_Path v" by metis
    define l0 where "l0 = l\<lparr>lib_CreatedAt := (if IsZero (lib_CreatedAt l) then now else lib_CreatedAt l), lib_UpdatedAt := now\<rparr>"
    define l' where "l' = (case gget (libraries s) (lib_ID l) of None \<Rightarrow> l0 | Some old \<Rightarrow> l0\<lparr>lib_CreatedAt := lib_CreatedAt old\<rparr>)"
    have l': "lib_ID l' = lib_ID l" "lib_Path l' = lib_Path l" "lib_LibraryType l' = lib_LibraryType l"
      "snd (SaveLibrary now l s) = s\<lparr>libraries := gput (libraries s) (lib_ID l) l'\<rparr>"
      using False by (auto simp: SaveLibrary_def Let_def l0_def l'_def split: option.split)
    show ?thesis using ok False no l'(1-3) unfolding store_ok_def l'(4) by (auto simp: gomap_simps split: if_splits)
  qed
qed

lemma deletes_ok:
  assumes "store_ok s" "foreign_keys s"
  shows "store_ok (DeleteMediaItem i s)" "store_ok (DeleteLibrary i s)" "store_ok (UpdateLibraryScanTime i t s)"
proof -
  show "store_ok (DeleteMediaItem i s)" "store_ok (DeleteLibrary i s)"
    using assms unfolding store_ok_def DeleteMediaItem_def DeleteLibrary_def
    by (auto simp: gomap_simps split: if_splits option.splits)
  show "store_ok (UpdateLibraryScanTime i t s)"
  proof (cases "gget (libraries s) i")
    case (Some l)
    then show ?thesis using assms(1) unfolding store_ok_def UpdateLibraryScanTime_def
      by (auto simp: gomap_simps split: if_splits)
  qed (use assms in \<open>simp add: UpdateLibraryScanTime_def\<close>)
qed


definition demo_library :: Library where
  "demo_library = \<lparr>lib_ID = ''L'', lib_Name = ''Films'', lib_Path = ''/m'', lib_LibraryType = ''movie'', lib_Enabled = True,
     lib_RefreshIntervalMinutes = 60, lib_CreatedAt = 1, lib_UpdatedAt = 1, lib_LastScanAt = None\<rparr>"

definition demo_store :: Store where
  "demo_store = \<lparr>media_items = [], libraries = [(''L'', demo_library)], foreign_keys = True\<rparr>"

lemma demo_store_ok: "store_ok demo_store" "foreign_keys demo_store"
  by (simp_all add: store_ok_def demo_store_def demo_library_def gget_def gwf_def LibraryTypeMovie_def)


section \<open>Pages\<close>

text \<open>
  Reading a library page by page gives each of its items exactly once in the order of the titles, and every
  page reports the number of all items.
\<close>

theorem pages_cover_library:
  assumes "1 \<le> l" and "l \<le> 200" and "length (library_rows lib s) \<le> n * l"
  shows "concat (map (\<lambda>k. fst (GetLibraryItems lib (int (k * l)) (int l) s)) [0..<n])
      = map (\<lambda>i. i\<lparr>mi_MetadataFetchedAt := None\<rparr>) (library_rows lib s)
    \<and> sorted (map mi_Title (library_rows lib s))
    \<and> mset (library_rows lib s) = mset (filter (\<lambda>i. mi_LibraryID i = lib) (map snd (media_items s)))
    \<and> (\<forall>k. snd (GetLibraryItems lib (int (k * l)) (int l) s) = int (length (library_rows lib s)))"
proof -
  let ?strip = "\<lambda>i. i\<lparr>mi_MetadataFetchedAt := None\<rparr>"
  have l: "nat (page_limit (int l)) = l" using assms by (simp add: page_limit_def Let_def)
  have p: "fst (GetLibraryItems lib (int (k * l)) (int l) s) = take l (drop (k * l) (map ?strip (library_rows lib s)))" for k
  proof -
    have "\<not> int k * int l < 0" by (simp add: not_less)
    then show ?thesis unfolding GetLibraryItems_def l by (simp add: take_map drop_map nat_mult_distrib)
  qed
  have "concat (map (\<lambda>k. fst (GetLibraryItems lib (int (k * l)) (int l) s)) [0..<n]) = map ?strip (library_rows lib s)"
    unfolding p take_pages using assms(3) by simp
  then show ?thesis by (simp add: GetLibraryItems_def library_rows_def)
qed

theorem pages_cover_library_witness:
  "concat (map (\<lambda>k. fst (GetLibraryItems ''L'' (int (k * 2)) (int 2) demo_store)) [0..<3])
    = map (\<lambda>i. i\<lparr>mi_MetadataFetchedAt := None\<rparr>) (library_rows ''L'' demo_store)"
  using pages_cover_library [of 2 "''L''" demo_store 3] by (simp add: library_rows_def demo_store_def)

section \<open>Two files under one identifier\<close>

definition ascii :: "string \<Rightarrow> bool" where "ascii s \<longleftrightarrow> (\<forall>c \<in> set s. (of_char c :: nat) < 128)"

lemma hash_ascii: "b < 128 \<Longrightarrow> hash_runes i (b # s) h = hash_runes (Suc i) s ((h * 31 + b + i) mod 2 ^ 64)"
  by (simp add: rune_len_def rune_def Let_def)

lemma hash_prefix: "\<exists>h'. \<forall>t. ascii u \<longrightarrow> hash_runes i (map of_char u @ t) h = hash_runes (i + length u) t h'"
proof (induction u arbitrary: i h)
  case (Cons c u)
  obtain h' where "\<forall>t. ascii u \<longrightarrow> hash_runes (Suc i) (map of_char u @ t) ((h * 31 + of_char c + i) mod 2 ^ 64) = hash_runes (Suc i + length u) t h'"
    using Cons by blast
  then show ?case by (intro exI [of _ h']) (simp add: ascii_def hash_ascii del: hash_runes.simps)
qed (auto intro: exI [of _ h])

lemma mod_step: "(((a :: nat) mod m) * 31 + b) mod m = (a * 31 + b) mod m"
  by (metis mod_add_left_eq mod_mult_left_eq)

lemma ids_collide:
  assumes "ascii u"
  shows "generateID (u @ ''Aa'' @ v) = generateID (u @ ''BB'' @ v)"
proof -
  obtain h where h: "\<And>t. hash_runes 0 (map of_char u @ t) 0 = hash_runes (length u) t h"
    using hash_prefix [of u 0 0] assms by auto
  have "hash_runes (length u) (65 # 97 # t) h = hash_runes (length u) (66 # 66 # t) h" for t
  proof -
    let ?n = "length u"
    have "(((h * 31 + a + ?n) mod 2 ^ 64) * 31 + b + Suc ?n) mod 2 ^ 64 = ((h * 31 + a + ?n) * 31 + b + Suc ?n) mod 2 ^ 64" for a b
      using mod_step [of "h * 31 + a + ?n" "2 ^ 64" "b + Suc ?n"] by (simp only: add.assoc)
    moreover have "(h * 31 + 65 + ?n) * 31 + 97 + Suc ?n = (h * 31 + 66 + ?n) * 31 + 66 + Suc ?n" by simp
    ultimately have "(((h * 31 + 65 + ?n) mod 2 ^ 64) * 31 + 97 + Suc ?n) mod 2 ^ 64 = (((h * 31 + 66 + ?n) mod 2 ^ 64) * 31 + 66 + Suc ?n) mod 2 ^ 64"
      by (simp only:)
    then show ?thesis using hash_ascii [of 65] hash_ascii [of 97] hash_ascii [of 66] by (simp del: hash_runes.simps)
  qed
  then show ?thesis by (simp add: generateID_def h del: hash_runes.simps)
qed

text \<open>
  Files under one identifier: two paths that differ in \<^verbatim>\<open>Aa\<close> and \<^verbatim>\<open>BB\<close> after an ASCII prefix share their
  identifier. Once both are saved there is one row, with the path of the first file and the title and streams of
  the second; the path of the second file is in no row.
\<close>

theorem colliding_files_share_a_row:
  assumes "ascii u" and "mi_Path a = u @ ''Aa'' @ v" and "mi_Path b = u @ ''BB'' @ v"
    and "mi_ID a = generateID (mi_Path a)" and "mi_ID b = generateID (mi_Path b)"
    and "GetMediaItem (mi_ID a) s = None" and "\<forall>k r. GetMediaItem k s = Some r \<longrightarrow> mi_Path r \<noteq> mi_Path b"
    and "SaveMediaItem t a s = (None, s1)" and "SaveMediaItem t' b s1 = (e, s2)"
  shows "e = None \<and> (\<exists>row. GetMediaItem (mi_ID b) s2 = Some row \<and> mi_Path row = mi_Path a \<and> mi_Title row = mi_Title b
      \<and> mi_VideoStream row = mi_VideoStream b)
    \<and> (\<forall>k r. GetMediaItem k s2 = Some r \<longrightarrow> mi_Path r \<noteq> mi_Path b)"
proof -
  have id: "mi_ID b = mi_ID a" using ids_collide [OF assms(1), of v] assms(2-5) by simp
  have p: "mi_Path a \<noteq> mi_Path b" using assms(2,3) by simp
  have s1: "s1 = s\<lparr>media_items := gput (media_items s) (mi_ID a) ((stamped t a)\<lparr>mi_MetadataFetchedAt := None\<rparr>)\<rparr>"
    using assms(6,8) by (auto simp: SaveMediaItem_def Let_def GetMediaItem_def split: if_splits)
  let ?old = "(stamped t a)\<lparr>mi_MetadataFetchedAt := None\<rparr>"
  let ?row = "(stamped t' b)\<lparr>mi_LibraryID := mi_LibraryID ?old, mi_Path := mi_Path ?old, mi_CreatedAt := mi_CreatedAt ?old,
    mi_MetadataFetchedAt := mi_MetadataFetchedAt ?old\<rparr>"
  have "gget (media_items s1) (mi_ID b) = Some ?old" by (simp add: s1 id gomap_simps)
  from SaveMediaItem_update [OF this, of t'] assms(9)
  have s2: "e = None" "s2 = s1\<lparr>media_items := gput (media_items s1) (mi_ID b) ?row\<rparr>" by simp_all
  have row: "mi_Path ?row = mi_Path a" "mi_Title ?row = mi_Title b" "mi_VideoStream ?row = mi_VideoStream b"
    by (simp_all add: stamped_def)
  have "GetMediaItem k s2 = (if k = mi_ID b then Some ?row else GetMediaItem k s)" for k
    by (simp add: GetMediaItem_def s2(2) s1 id gomap_simps)
  then show ?thesis using p assms(7) s2(1) row by auto
qed

theorem colliding_files_share_a_row_witness:
  "mi_Path (the (GetMediaItem (generateID ''/m/BB.mkv'') (snd (SaveMediaItem 6
      (zeroItem\<lparr>mi_ID := generateID ''/m/BB.mkv'', mi_Path := ''/m/BB.mkv'', mi_LibraryID := ''L''\<rparr>)
      (snd (SaveMediaItem 5 (zeroItem\<lparr>mi_ID := generateID ''/m/Aa.mkv'', mi_Path := ''/m/Aa.mkv'', mi_LibraryID := ''L''\<rparr>) demo_store))))))
    = ''/m/Aa.mkv''"
proof -
  let ?a = "zeroItem\<lparr>mi_ID := generateID ''/m/Aa.mkv'', mi_Path := ''/m/Aa.mkv'', mi_LibraryID := ''L''\<rparr>"
  let ?b = "zeroItem\<lparr>mi_ID := generateID ''/m/BB.mkv'', mi_Path := ''/m/BB.mkv'', mi_LibraryID := ''L''\<rparr>"
  obtain s1 where s1: "SaveMediaItem 5 ?a demo_store = (None, s1)"
    by (auto simp: SaveMediaItem_def demo_store_def Let_def gget_def)
  obtain e s2 where s2: "SaveMediaItem 6 ?b s1 = (e, s2)" by fastforce
  have "ascii ''/m/''" by code_simp
  then show ?thesis
    using colliding_files_share_a_row [of "''/m/''" ?a "''.mkv''" ?b demo_store 5 s1 6 e s2] s1 s2
    by (auto simp: GetMediaItem_def demo_store_def)
qed

end
