(* ===== verification/Scanner.thy ===== *)
theory Scanner
  imports Media Breaker Events
begin

text \<open>
  The library scanner of \<^verbatim>\<open>internal/media/scanner.go\<close>: which files a scan takes, how each is probed behind
  the circuit breaker, what is stored and reported. The walk over the directory, symbolic links, file status,
  ffprobe and the clock are the parameter of a scan. \<^verbatim>\<open>filepath.Walk\<close> is given a function that never returns
  an error and so never returns one itself; the branch for it is dead.
\<close>

section \<open>Data\<close>

definition ScanStatusIdle :: string where "ScanStatusIdle = ''idle''"
definition ScanStatusScanning :: string where "ScanStatusScanning = ''scanning''"
definition ScanStatusCompleted :: string where "ScanStatusCompleted = ''completed''"
definition ScanStatusError :: string where "ScanStatusError = ''error''"

record LibraryScanStatus =
  sts_LibraryID :: string
  sts_Status :: string
  sts_TotalFiles :: int
  sts_Processed :: int
  sts_CurrentFile :: string
  sts_StartedAt :: "time option"
  sts_Error :: string

record Scanner =
  ffprobeBreaker :: Breaker
  scanStatus :: "(string, LibraryScanStatus) gomap"
  media_store :: Store
  scan_events :: "(EventType \<times> string \<times> LibraryScanPayload) list"

text \<open>What the world answers during a scan. The index of a file counts the files from zero.\<close>

record ScanEnv =
  se_walk :: "string \<Rightarrow> (string \<times> bool) list"
  se_resolve :: "string \<Rightarrow> string option"
  se_isDir :: "string \<Rightarrow> bool option"
  se_run :: "string list \<Rightarrow> string + string"
  se_unmarshal :: "string \<Rightarrow> ffprobeOutput option"
  se_mtime :: "string \<Rightarrow> time option"
  se_cancelled :: "nat \<Rightarrow> string option"
  se_allow :: "nat \<Rightarrow> time"
  se_done :: "nat \<Rightarrow> time"
  se_again :: "nat \<Rightarrow> time"
  se_save :: "nat \<Rightarrow> time"

definition NewScanner :: "Store \<Rightarrow> Scanner" where
  "NewScanner st = \<lparr>ffprobeBreaker = StateChangeHandler (New (DefaultConfig ''ffprobe'')), scanStatus = [], media_store = st, scan_events = []\<rparr>"

section \<open>Which files are scanned\<close>

definition MediaExtensions :: "string list" where
  "MediaExtensions = [''.mkv'', ''.mp4'', ''.m4v'', ''.avi'', ''.mov'', ''.wmv'', ''.webm'', ''.ts'', ''.m2ts'', ''.flv'', ''.mpg'',
     ''.mpeg'', ''.3gp'']"

definition SkipPatterns :: "string list" where
  "SkipPatterns = [''sample'', ''samples'', ''extras'', ''bonus'', ''trailers'', ''.AppleDouble'', ''.DS_Store'', ''.tmp'', ''.cache'']"

definition isPathComponentSkipped :: "string \<Rightarrow> bool" where
  "isPathComponentSkipped path = list_ex (\<lambda>part. list_ex (EqualFold part) SkipPatterns) (SplitAt (CHR ''/'') path)"

definition validatePathForScanning :: "ScanEnv \<Rightarrow> string \<Rightarrow> bool" where
  "validatePathForScanning env path =
     (if path = [] then False
      else if CHR 0x00 \<in> set path then False
      else case se_resolve env path of
        None \<Rightarrow> False
      | Some resolved \<Rightarrow> if Contains resolved ''..'' then False else se_isDir env resolved = Some False)"

definition scannable :: "ScanEnv \<Rightarrow> string \<times> bool \<Rightarrow> bool" where
  "scannable env f =
     (case f of (path, dir) \<Rightarrow>
        \<not> dir \<and> \<not> isPathComponentSkipped path \<and> validatePathForScanning env path \<and> ToLower (PathExt path) \<in> set MediaExtensions)"

definition files_of :: "ScanEnv \<Rightarrow> Library \<Rightarrow> string list" where
  "files_of env lib = map fst (filter (scannable env) (se_walk env (lib_Path lib)))"

section \<open>Scanning\<close>

definition payload :: "Library \<Rightarrow> int \<Rightarrow> int \<Rightarrow> string \<Rightarrow> string \<Rightarrow> LibraryScanPayload" where
  "payload lib all processed current status =
     \<lparr>lp_LibraryID = lib_ID lib, lp_LibraryName = lib_Name lib, lp_TotalFiles = all, lp_Processed = processed,
      lp_CurrentFile = current, lp_Status = status, lp_Error = []\<rparr>"

definition publish :: "EventType \<Rightarrow> LibraryScanPayload \<Rightarrow> Scanner \<Rightarrow> Scanner" where
  "publish ty p s = s\<lparr>scan_events := scan_events s @ [(ty, TopicLibraries, p)]\<rparr>"

definition updateStatus :: "string \<Rightarrow> LibraryScanStatus \<Rightarrow> Scanner \<Rightarrow> Scanner" where
  "updateStatus i st s = s\<lparr>scanStatus := gput (scanStatus s) i st\<rparr>"

definition GetStatus :: "string \<Rightarrow> Scanner \<Rightarrow> LibraryScanStatus option" where "GetStatus i s = gget (scanStatus s) i"

definition status_of :: "Library \<Rightarrow> string \<Rightarrow> int \<Rightarrow> int \<Rightarrow> string \<Rightarrow> LibraryScanStatus" where
  "status_of lib status all processed current =
     \<lparr>sts_LibraryID = lib_ID lib, sts_Status = status, sts_TotalFiles = all, sts_Processed = processed, sts_CurrentFile = current,
      sts_StartedAt = None, sts_Error = []\<rparr>"

text \<open>The event that the state-change handler of the breaker publishes.\<close>

definition breaker_event :: "string \<times> State \<times> State \<Rightarrow> EventType \<times> string \<times> LibraryScanPayload" where
  "breaker_event n =
     (case n of (name, from, to) \<Rightarrow>
        (EventLibraryScanError, TopicLibraries,
         \<lparr>lp_LibraryID = [], lp_LibraryName = ''ffprobe'', lp_TotalFiles = 0, lp_Processed = 0, lp_CurrentFile = [],
          lp_Status = ScanStatusError,
          lp_Error = ''circuit_breaker:'' @ name @ '':'' @ State_String from @ ''->'' @ State_String to\<rparr>))"

definition set_breaker :: "Breaker \<Rightarrow> Scanner \<Rightarrow> Scanner" where
  "set_breaker b s =
     s\<lparr>ffprobeBreaker := b,
       scan_events := scan_events s @ map breaker_event (drop (length (notified (ffprobeBreaker s))) (notified b))\<rparr>"

definition probe :: "ScanEnv \<Rightarrow> string \<Rightarrow> string + MediaItem" where
  "probe env path = FFprobe_Probe ''ffprobe'' (se_run env) (se_unmarshal env) (se_mtime env) path"

definition minimal :: "string \<Rightarrow> string \<Rightarrow> MediaItem" where
  "minimal path lib = zeroItem\<lparr>mi_ID := generateID path, mi_Path := path, mi_LibraryID := lib, mi_Title := PathBase path\<rparr>"

text \<open>
  One file behind the breaker: \<^verbatim>\<open>Do\<close> runs the probe if it admits it and records the outcome, and the scanner
  records the outcome once more. A probe that was not admitted counts as failed.
\<close>

definition probe_file :: "ScanEnv \<Rightarrow> string \<Rightarrow> nat \<Rightarrow> string \<Rightarrow> Breaker \<Rightarrow> MediaItem \<times> Breaker" where
  "probe_file env lib i path b =
     (let (err, b1) = Do (se_allow env i) (se_done env i) (case probe env path of Inl e \<Rightarrow> Some e | Inr _ \<Rightarrow> None) b
      in case (err, probe env path) of
        (None, Inr item) \<Rightarrow> (item\<lparr>mi_LibraryID := lib\<rparr>, RecordSuccess b1)
      | _ \<Rightarrow> (minimal path lib, RecordFailure (se_again env i) b1))"

definition process_file :: "ScanEnv \<Rightarrow> Library \<Rightarrow> int \<Rightarrow> nat \<Rightarrow> string \<Rightarrow> Scanner \<Rightarrow> Scanner" where
  "process_file env lib all i path s =
     (let (item, b) = probe_file env (lib_ID lib) i path (ffprobeBreaker s);
          (err, st) = SaveMediaItem (se_save env i) item (media_store s);
          s1 = (set_breaker b s)\<lparr>media_store := st\<rparr>;
          n = int i + 1
      in if err \<noteq> None then s1
         else
           let s2 = updateStatus (lib_ID lib) (status_of lib ScanStatusScanning all n path) s1
           in if n mod 10 = 0 \<or> n = all
              then publish EventLibraryScanProgress (payload lib all n path ScanStatusScanning) s2 else s2)"

fun process_files :: "ScanEnv \<Rightarrow> Library \<Rightarrow> int \<Rightarrow> nat \<Rightarrow> string list \<Rightarrow> Scanner \<Rightarrow> string option \<times> Scanner" where
  "process_files env lib all i [] s = (None, s)"
| "process_files env lib all i (path # paths) s =
     (case se_cancelled env i of
        Some e \<Rightarrow> (Some e, s)
      | None \<Rightarrow> process_files env lib all (Suc i) paths (process_file env lib all i path s))"

definition scan_start :: "time \<Rightarrow> Library \<Rightarrow> int \<Rightarrow> Scanner \<Rightarrow> Scanner" where
  "scan_start now lib all s =
     updateStatus (lib_ID lib) (status_of lib ScanStatusScanning all 0 [])
       (publish EventLibraryScanStarted (payload lib 0 0 [] ScanStatusScanning)
         (updateStatus (lib_ID lib) ((status_of lib ScanStatusScanning 0 0 [])\<lparr>sts_StartedAt := Some now\<rparr>) s))"

definition ScanLibrary :: "ScanEnv \<Rightarrow> time \<Rightarrow> Library \<Rightarrow> Scanner \<Rightarrow> string option \<times> Scanner" where
  "ScanLibrary env now lib s =
     (let files = files_of env lib; all = int (length files);
          (err, s1) = process_files env lib all 0 files (scan_start now lib all s)
      in case err of
        Some e \<Rightarrow> (Some e, s1)
      | None \<Rightarrow>
          (None, publish EventLibraryScanComplete (payload lib all all [] ScanStatusCompleted)
             (updateStatus (lib_ID lib) (status_of lib ScanStatusCompleted all all []) s1)))"

section \<open>The status of a scan\<close>

lemma process_file_other: "j \<noteq> lib_ID lib \<Longrightarrow> gget (scanStatus (process_file env lib all i path s)) j = gget (scanStatus s) j"
  by (auto simp: process_file_def Let_def split_def set_breaker_def updateStatus_def publish_def gomap_simps)

lemma process_file_status:
  assumes "\<exists>st. GetStatus (lib_ID lib) s = Some st \<and> sts_Status st = ScanStatusScanning"
  shows "\<exists>st. GetStatus (lib_ID lib) (process_file env lib all i path s) = Some st \<and> sts_Status st = ScanStatusScanning"
  using assms by (auto simp: process_file_def Let_def split_def set_breaker_def updateStatus_def publish_def GetStatus_def status_of_def gomap_simps)

lemma process_files_status:
  assumes "\<exists>st. GetStatus (lib_ID lib) s = Some st \<and> sts_Status st = ScanStatusScanning"
  shows "\<exists>st. GetStatus (lib_ID lib) (snd (process_files env lib all i paths s)) = Some st \<and> sts_Status st = ScanStatusScanning"
  using assms
proof (induction paths arbitrary: i s)
  case (Cons p ps)
  then show ?case using process_file_status [OF Cons.prems] by (simp split: option.split)
qed simp

lemma process_files_other: "j \<noteq> lib_ID lib \<Longrightarrow> gget (scanStatus (snd (process_files env lib all i paths s))) j = gget (scanStatus s) j"
  by (induction paths arbitrary: i s) (simp_all add: process_file_other split: option.split)

lemma process_files_error:
  "fst (process_files env lib all i paths s) = None \<longleftrightarrow> (\<forall>j < length paths. se_cancelled env (i + j) = None)"
proof (induction paths arbitrary: i s)
  case (Cons p ps)
  show ?case
  proof (cases "se_cancelled env i")
    case None
    have "(\<forall>j < Suc (length ps). se_cancelled env (i + j) = None) \<longleftrightarrow> (\<forall>j < length ps. se_cancelled env (Suc i + j) = None)"
      using None by (auto simp: less_Suc_eq_0_disj)
    then show ?thesis using Cons [of "Suc i"] None by simp
  qed auto
qed simp

text \<open>
  A scan fails exactly when its context is cancelled before one of its files, and then the library is reported as
  being scanned for good, as nothing resets the status. Otherwise it is reported as completed with all its
  files processed, whether or not they could be probed and saved. Other libraries keep their status.
\<close>

theorem scan_outcome:
  "let (err, s') = ScanLibrary env now lib s; n = int (length (files_of env lib)) in
    (err = None \<longleftrightarrow> (\<forall>i < length (files_of env lib). se_cancelled env i = None))
    \<and> (if err = None then GetStatus (lib_ID lib) s' = Some (status_of lib ScanStatusCompleted n n [])
       else map_option sts_Status (GetStatus (lib_ID lib) s') = Some ScanStatusScanning)
    \<and> (\<forall>j. j \<noteq> lib_ID lib \<longrightarrow> GetStatus j s' = GetStatus j s)"
proof -
  let ?n = "int (length (files_of env lib))" and ?s = "scan_start now lib (int (length (files_of env lib))) s"
  obtain err s1 where p: "process_files env lib ?n 0 (files_of env lib) ?s = (err, s1)" by fastforce
  have e: "err = None \<longleftrightarrow> (\<forall>i < length (files_of env lib). se_cancelled env i = None)"
    using process_files_error [of env lib ?n 0 "files_of env lib" ?s] p by simp
  have st: "\<exists>st. GetStatus (lib_ID lib) s1 = Some st \<and> sts_Status st = ScanStatusScanning"
    using process_files_status [of lib ?s env ?n 0 "files_of env lib"] p
    by (simp add: scan_start_def updateStatus_def publish_def GetStatus_def status_of_def gomap_simps)
  have o1: "gget (scanStatus s1) j = gget (scanStatus s) j" if "j \<noteq> lib_ID lib" for j
    using process_files_other [OF that, of env ?n 0 "files_of env lib" ?s] p that
    by (simp add: scan_start_def updateStatus_def publish_def gomap_simps)
  show ?thesis
  proof (cases err)
    case None
    then show ?thesis using p e o1
      by (simp add: ScanLibrary_def Let_def GetStatus_def updateStatus_def publish_def gomap_simps)
  next
    case (Some x)
    then show ?thesis using p e o1 st by (auto simp: ScanLibrary_def Let_def GetStatus_def)
  qed
qed

definition demo_env :: ScanEnv where
  "demo_env = \<lparr>se_walk = (\<lambda>_. [(''/m'', True), (''/m/a.mkv'', False), (''/m/b.mkv'', False), (''/m/c.mkv'', False), (''/m/d.mkv'', False)]),
     se_resolve = Some, se_isDir = (\<lambda>_. Some False),
     se_run = (\<lambda>args. if last args = ''/m/d.mkv'' then Inr [] else Inl ''exit status 1''),
     se_unmarshal = (\<lambda>_. Some \<lparr>fo_Format = \<lparr>ff_Duration = ''5400.5'', ff_Size = ''7''\<rparr>, fo_Streams = []\<rparr>), se_mtime = (\<lambda>_. None),
     se_cancelled = (\<lambda>_. None), se_allow = (\<lambda>i. int i * Second), se_done = (\<lambda>i. int i * Second), se_again = (\<lambda>i. int i * Second),
     se_save = (\<lambda>i. int i * Second)\<rparr>"

lemma demo_files: "files_of demo_env demo_library = [''/m/a.mkv'', ''/m/b.mkv'', ''/m/c.mkv'', ''/m/d.mkv'']"
  by code_simp

theorem scan_outcome_witness:
  "GetStatus ''L'' (snd (ScanLibrary demo_env 0 demo_library (NewScanner demo_store)))
    = Some (status_of demo_library ScanStatusCompleted 4 4 [])"
proof -
  obtain err s' where r: "ScanLibrary demo_env 0 demo_library (NewScanner demo_store) = (err, s')" by fastforce
  have l: "lib_ID demo_library = ''L''" "length (files_of demo_env demo_library) = 4" "\<forall>i. se_cancelled demo_env i = None"
    unfolding demo_files by (simp_all add: demo_library_def demo_env_def)
  show ?thesis using scan_outcome [of demo_env 0 demo_library "NewScanner demo_store"] unfolding r Let_def by (auto simp: l)
qed

section \<open>Three unreadable files\<close>

definition stripped :: "MediaItem \<Rightarrow> bool" where
  "stripped r \<longleftrightarrow> mi_VideoStream r = None \<and> mi_AudioStreams r = [] \<and> mi_SubtitleStreams r = [] \<and> mi_Container r = [] \<and> mi_Duration r = 0"

lemma SaveMediaItem_row:
  "GetMediaItem k (snd (SaveMediaItem now i s)) =
     (if k = mi_ID i \<and> fst (SaveMediaItem now i s) = None then GetMediaItem k (snd (SaveMediaItem now i s)) else GetMediaItem k s)"
  by (auto simp: SaveMediaItem_def Let_def GetMediaItem_def gomap_simps split: option.split)

lemma save_stripped:
  assumes "stripped i" "GetMediaItem (mi_ID i) (snd (SaveMediaItem now i s)) = Some r"
  shows "stripped r"
  using assms
  by (auto simp: SaveMediaItem_def Let_def GetMediaItem_def stripped_def stamped_def gomap_simps split: option.splits if_splits)

lemma save_keeps_rows: "GetMediaItem k s \<noteq> None \<Longrightarrow> GetMediaItem k (snd (SaveMediaItem now i s)) \<noteq> None"
  by (auto simp: SaveMediaItem_def Let_def GetMediaItem_def gomap_simps split: option.splits)

lemma process_store: "media_store (process_file env lib n i path s)
    = snd (SaveMediaItem (se_save env i) (fst (probe_file env (lib_ID lib) i path (ffprobeBreaker s))) (media_store s))"
  by (simp add: process_file_def Let_def split_def updateStatus_def publish_def)

lemma process_breaker: "ffprobeBreaker (process_file env lib n i path s) = snd (probe_file env (lib_ID lib) i path (ffprobeBreaker s))"
  by (simp add: process_file_def Let_def split_def updateStatus_def publish_def set_breaker_def)

lemma minimal_stripped: "stripped (minimal path lib)" "mi_ID (minimal path lib) = generateID path"
  by (simp_all add: stripped_def minimal_def zeroItem_def)

text \<open>A failed probe of a closed breaker counts twice.\<close>

definition counting :: "int \<Rightarrow> Breaker \<Rightarrow> bool" where
  "counting f b \<longleftrightarrow> state b = StateClosed \<and> failures b = f \<and> failureThreshold b = 5 \<and> timeout b = 30 * Second"

definition tripped :: "time \<Rightarrow> Breaker \<Rightarrow> bool" where
  "tripped t b \<longleftrightarrow> state b = StateOpen \<and> lastFailureTime b = t \<and> timeout b = 30 * Second"

lemma toState_fields: "state (toState n b) = n" "lastFailureTime (toState n b) = lastFailureTime b" "timeout (toState n b) = timeout b"
  by (auto simp: toState_def Let_def StoreState_def onStateChangeUnsafe_def LoadState_def)

lemma failed_probe_counts_twice:
  assumes "probe env path = Inl e"
  shows "fst (probe_file env lib i path b) = minimal path lib"
    and "counting f b \<Longrightarrow> 0 \<le> f \<Longrightarrow> f \<le> 2 \<Longrightarrow> counting (f + 2) (snd (probe_file env lib i path b))"
    and "counting 4 b \<Longrightarrow> tripped (se_again env i) (snd (probe_file env lib i path b))"
proof -
  have Do: "Do (se_allow env i) (se_done env i) (Some e) b =
      (if Allow (se_allow env i) b = (None :: string breaker_error option, b) then (Some (FnErr e), RecordFailure (se_done env i) b) else Do (se_allow env i) (se_done env i) (Some e) b)"
    by (simp add: Do_def)
  have m: "probe_file env lib i path b = (minimal path lib, RecordFailure (se_again env i) (snd (Do (se_allow env i) (se_done env i) (Some e) b)))"
    using assms by (simp add: probe_file_def split_def Let_def split: option.split)
  show "fst (probe_file env lib i path b) = minimal path lib" by (simp add: m)
  have c: "snd (probe_file env lib i path b) = RecordFailure (se_again env i) (RecordFailure (se_done env i) b)" if "state b = StateClosed"
    using that by (simp add: m Do_def Allow_def Allow_env_def LoadState_def)
  show "counting (f + 2) (snd (probe_file env lib i path b))" if "counting f b" "0 \<le> f" "f \<le> 2"
    using that by (simp add: c counting_def RecordFailure_def LoadState_def Let_def i32_id)
  show "tripped (se_again env i) (snd (probe_file env lib i path b))" if "counting 4 b"
    using that by (simp add: c counting_def tripped_def RecordFailure_def LoadState_def Let_def i32_id toState_fields)
qed

lemma tripped_blind:
  assumes "tripped t b" "Sub (se_allow env i) t \<le> 30 * Second"
  shows "fst (probe_file env lib i path b) = minimal path lib \<and> tripped (se_again env i) (snd (probe_file env lib i path b))"
proof -
  have "Do (se_allow env i) (se_done env i) fn b = (Some ErrCircuitOpen, b)" for fn :: "string option"
    using assms by (simp add: Do_def Allow_def Allow_env_def LoadState_def tripped_def)
  then show ?thesis using assms(1) by (auto simp: probe_file_def Let_def tripped_def RecordFailure_def LoadState_def)
qed

text \<open>What a run of files leaves when each of them is saved as a minimal item.\<close>

definition erased :: "string list \<Rightarrow> Store \<Rightarrow> Store \<Rightarrow> bool" where
  "erased ps st st' \<longleftrightarrow> (\<forall>k r. GetMediaItem k st' = Some r \<longrightarrow> k \<in> generateID ` set ps \<longrightarrow> stripped r)
     \<and> (\<forall>k. GetMediaItem k st \<noteq> None \<longrightarrow> GetMediaItem k st' \<noteq> None)"

lemma erased_step:
  assumes "erased ps st (media_store s)" "fst (probe_file env (lib_ID lib) i path (ffprobeBreaker s)) = minimal path (lib_ID lib)"
  shows "erased (path # ps) st (media_store (process_file env lib n i path s))"
  unfolding erased_def
proof (intro conjI allI impI)
  fix k r
  assume r: "GetMediaItem k (media_store (process_file env lib n i path s)) = Some r" "k \<in> generateID ` set (path # ps)"
  let ?i = "minimal path (lib_ID lib)"
  have s': "media_store (process_file env lib n i path s) = snd (SaveMediaItem (se_save env i) ?i (media_store s))"
    by (simp add: process_store assms(2))
  show "stripped r"
  proof (cases "k = mi_ID ?i")
    case True
    then show ?thesis using save_stripped [OF minimal_stripped(1)] r(1) s' by simp
  next
    case False
    then have "GetMediaItem k (media_store s) = Some r" using r(1) s' SaveMediaItem_row [of k "se_save env i" ?i "media_store s"] by simp
    then show ?thesis using assms(1) r(2) False by (auto simp: erased_def minimal_stripped)
  qed
next
  fix k
  assume "GetMediaItem k st \<noteq> None"
  then have "GetMediaItem k (media_store s) \<noteq> None" using assms(1) by (simp add: erased_def)
  then show "GetMediaItem k (media_store (process_file env lib n i path s)) \<noteq> None"
    unfolding process_store by (rule save_keeps_rows)
qed

lemma blind_files:
  assumes "tripped t (ffprobeBreaker s)" "erased ps st (media_store s)" "\<forall>j. se_cancelled env j = None"
    and "Sub (se_allow env i) t \<le> 30 * Second" "\<forall>j. Sub (se_allow env (Suc j)) (se_again env j) \<le> 30 * Second"
  shows "erased (rev qs @ ps) st (media_store (snd (process_files env lib n i qs s)))"
  using assms
proof (induction qs arbitrary: i t s ps)
  case (Cons q qs)
  note b = tripped_blind [OF Cons.prems(1,4), of "lib_ID lib" q]
  have "tripped (se_again env i) (ffprobeBreaker (process_file env lib n i q s))" using b by (simp add: process_breaker)
  then have "erased (rev qs @ q # ps) st (media_store (snd (process_files env lib n (Suc i) qs (process_file env lib n i q s))))"
    using Cons.prems b by (intro Cons.IH) (auto intro: erased_step)
  then show ?case using Cons.prems(3) by simp
qed simp

text \<open>
  C7. Three unreadable files erase the metadata of a library: if the first three files of a new scanner's scan cannot
  be probed, the breaker is open, as each failure is recorded twice; every later file that comes within thirty
  seconds of the one before is not probed at all but saved as a minimal item, and that pushes the end of the
  timeout on. After the scan each row of each scanned file has lost its streams, container and duration, also
  the rows that earlier scans had filled, and no row is gone.
\<close>

theorem three_bad_files_erase_metadata:
  assumes "files_of env lib = [p, q, r] @ rest" and "\<forall>x \<in> {p, q, r}. \<exists>e. probe env x = Inl e"
    and "\<forall>i. se_cancelled env i = None" and "\<forall>i. Sub (se_allow env (Suc i)) (se_again env i) \<le> 30 * Second"
    and "ScanLibrary env now lib (NewScanner st) = (err, s')"
  shows "(\<forall>path \<in> set (files_of env lib). \<forall>row. GetMediaItem (generateID path) (media_store s') = Some row \<longrightarrow> stripped row)
    \<and> (\<forall>k. GetMediaItem k st \<noteq> None \<longrightarrow> GetMediaItem k (media_store s') \<noteq> None)"
proof -
  let ?n = "int (length (files_of env lib))"
  let ?p = "\<lambda>i path s. process_file env lib ?n i path s"
  define s0 where "s0 = scan_start now lib ?n (NewScanner st)"
  have s0: "ffprobeBreaker s0 = ffprobeBreaker (NewScanner st)" "media_store s0 = st"
    by (simp_all add: s0_def scan_start_def updateStatus_def publish_def NewScanner_def)
  have "counting 0 (ffprobeBreaker s0)"
    unfolding s0 by (simp add: counting_def NewScanner_def StateChangeHandler_def New_def DefaultConfig_def Let_def i32_id)
  obtain e1 e2 e3 where e: "probe env p = Inl e1" "probe env q = Inl e2" "probe env r = Inl e3" using assms(2) by auto
  note m = failed_probe_counts_twice(1) [OF e(1)] failed_probe_counts_twice(1) [OF e(2)] failed_probe_counts_twice(1) [OF e(3)]
  have "counting 2 (ffprobeBreaker (?p 0 p s0))"
    unfolding process_breaker using failed_probe_counts_twice(2) [OF e(1) \<open>counting 0 _\<close>] by simp
  then have "counting 4 (ffprobeBreaker (?p 1 q (?p 0 p s0)))"
    unfolding process_breaker [of _ _ _ 1] using failed_probe_counts_twice(2) [OF e(2), of 2] by simp
  then have t: "tripped (se_again env 2) (ffprobeBreaker (?p 2 r (?p 1 q (?p 0 p s0))))"
    unfolding process_breaker [of _ _ _ 2] by (rule failed_probe_counts_twice(3) [OF e(3)])
  have "erased [r, q, p] st (media_store (?p 2 r (?p 1 q (?p 0 p s0))))"
    by (intro erased_step m) (simp add: erased_def s0)
  note b = blind_files [OF t this assms(3), where i = 3 and lib = lib and qs = rest and n = ?n]
  have "erased (rev rest @ [r, q, p]) st (media_store (snd (process_files env lib ?n 3 rest (?p 2 r (?p 1 q (?p 0 p s0))))))"
    using b assms(4) [THEN spec, of 2] assms(4) by (simp add: eval_nat_numeral)
  moreover have "snd (process_files env lib ?n 3 rest (?p 2 r (?p 1 q (?p 0 p s0)))) = snd (process_files env lib ?n 0 (files_of env lib) s0)"
    using assms(3) unfolding assms(1) by (simp add: eval_nat_numeral)
  moreover have "media_store s' = media_store (snd (process_files env lib ?n 0 (files_of env lib) s0))"
    using assms(5) by (auto simp: ScanLibrary_def Let_def s0_def split_def updateStatus_def publish_def split: option.splits)
  ultimately have "erased (rev rest @ [r, q, p]) st (media_store s')" by simp
  then show ?thesis using assms(1) by (auto simp: erased_def)
qed

text \<open>The same scan over a library in which the fourth file, which can be probed, has its metadata.\<close>

definition probed_row :: MediaItem where
  "probed_row = (minimal ''/m/d.mkv'' ''L'')\<lparr>mi_Container := ''mkv'', mi_Duration := 5400\<rparr>"

definition probed_store :: Store where
  "probed_store = demo_store\<lparr>media_items := [(generateID ''/m/d.mkv'', probed_row)]\<rparr>"

theorem three_bad_files_erase_metadata_witness:
  "GetMediaItem (generateID ''/m/d.mkv'') probed_store = Some probed_row \<and> \<not> stripped probed_row \<and>
   (\<exists>row. GetMediaItem (generateID ''/m/d.mkv'')
       (media_store (snd (ScanLibrary demo_env 0 demo_library (NewScanner probed_store)))) = Some row \<and> stripped row)"
proof -
  obtain err s' where r: "ScanLibrary demo_env 0 demo_library (NewScanner probed_store) = (err, s')" by fastforce
  have e: "\<forall>x \<in> {''/m/a.mkv'', ''/m/b.mkv'', ''/m/c.mkv''}. \<exists>e. probe demo_env x = Inl e"
    by (simp add: probe_def FFprobe_Probe_def demo_env_def)
  have t: "\<forall>i. se_cancelled demo_env i = None" "\<forall>i. Sub (se_allow demo_env (Suc i)) (se_again demo_env i) \<le> 30 * Second"
    by (simp_all add: demo_env_def Sub_def)
  have g: "GetMediaItem (generateID ''/m/d.mkv'') probed_store = Some probed_row"
    by (simp add: GetMediaItem_def probed_store_def gget_def)
  have f: "files_of demo_env demo_library = [''/m/a.mkv'', ''/m/b.mkv'', ''/m/c.mkv''] @ [''/m/d.mkv'']"
    unfolding demo_files by simp
  note x = three_bad_files_erase_metadata [OF f e t r]
  have "''/m/d.mkv'' \<in> set (files_of demo_env demo_library)" unfolding f by simp
  moreover obtain row where "GetMediaItem (generateID ''/m/d.mkv'') (media_store s') = Some row" using x g by blast
  ultimately show ?thesis using x g unfolding r by (auto simp: probed_row_def stripped_def)
qed

end
