(* ===== verification/Segmenter.thy ===== *)
theory Segmenter
  imports Media
begin

text \<open>
  HLS generation: \<^verbatim>\<open>internal/stream/segmenter.go\<close> with its data of \<^verbatim>\<open>models.go\<close>. Running ffmpeg, the
  request's context and the order in which the concurrent variants finish are the parameter of one
  generation. A variant that is still running when another one has failed may write after the session's
  directory is removed; the parameter says which do.
\<close>

section \<open>Data\<close>

record Variant =
  v_Name :: string
  v_Width :: int
  v_Height :: int
  v_Bitrate :: int
  v_AudioBitrate :: int

record HLSOptions =
  o_SegmentDuration :: int
  o_PlaylistSize :: int
  o_StartNumber :: int
  o_TempDir :: string
  o_IncludeAudio :: bool

record VariantPlaylist =
  vp_Name :: string
  vp_Playlist :: string
  vp_SegmentsDir :: string

record HLSManifest =
  hm_MasterPlaylist :: string
  hm_Variants :: "VariantPlaylist list"
  hm_TempDir :: string
  hm_CreatedAt :: time

record Segmenter =
  sg_ffmpegPath :: string
  sg_ffprobePath :: string
  sg_tempDir :: string

definition NewSegmenter :: "string \<Rightarrow> string \<Rightarrow> Segmenter" where
  "NewSegmenter ffmpeg ffprobe =
     \<lparr>sg_ffmpegPath = (if ffmpeg = [] then ''ffmpeg'' else ffmpeg), sg_ffprobePath = (if ffprobe = [] then ''ffprobe'' else ffprobe),
      sg_tempDir = []\<rparr>"

definition SetTempDir :: "string \<Rightarrow> Segmenter \<Rightarrow> Segmenter" where "SetTempDir dir s = s\<lparr>sg_tempDir := dir\<rparr>"

definition DefaultVariants :: "Variant list" where
  "DefaultVariants =
     [\<lparr>v_Name = ''4k'', v_Width = 3840, v_Height = 2160, v_Bitrate = 45000000, v_AudioBitrate = 320000\<rparr>,
      \<lparr>v_Name = ''1080p'', v_Width = 1920, v_Height = 1080, v_Bitrate = 8000000, v_AudioBitrate = 192000\<rparr>,
      \<lparr>v_Name = ''720p'', v_Width = 1280, v_Height = 720, v_Bitrate = 4000000, v_AudioBitrate = 128000\<rparr>,
      \<lparr>v_Name = ''480p'', v_Width = 854, v_Height = 480, v_Bitrate = 2500000, v_AudioBitrate = 128000\<rparr>,
      \<lparr>v_Name = ''360p'', v_Width = 640, v_Height = 360, v_Bitrate = 1000000, v_AudioBitrate = 96000\<rparr>]"

section \<open>The ffmpeg command\<close>

definition is_alnum :: "char \<Rightarrow> bool" where
  "is_alnum c \<longleftrightarrow> is_digit c \<or> (97 \<le> (of_char c :: nat) \<and> (of_char c :: nat) \<le> 122) \<or> (65 \<le> (of_char c :: nat) \<and> (of_char c :: nat) \<le> 90)"

definition validVariantName :: "string \<Rightarrow> bool" where "validVariantName n \<longleftrightarrow> n \<noteq> [] \<and> list_all is_alnum n"

definition buildHLSArgs :: "Segmenter \<Rightarrow> string \<Rightarrow> Variant \<Rightarrow> string \<Rightarrow> HLSOptions \<Rightarrow> string list" where
  "buildHLSArgs s inputPath v outputPath opts =
     [sg_ffmpegPath s, ''-i'', inputPath, ''-map'', ''0:v'']
     @ (if o_IncludeAudio opts then [''-map'', ''0:a:0''] else [])
     @ (if v_Height v > 0
        then [''-vf'', ''scale='' @ Itoa (v_Width v) @ '':'' @ Itoa (v_Height v) @ '':force_original_aspect_ratio=decrease,pad=''
                @ Itoa (v_Width v) @ '':'' @ Itoa (v_Height v) @ '':(ow-iw)/2:(oh-ih)/2'']
        else [])
     @ [''-c:v'', ''libx264'', ''-preset'', ''medium'', ''-b:v'', Itoa (v_Bitrate v),
        ''-maxrate'', Itoa (ftrunc (fmul (ffromint (v_Bitrate v)) (lit 3 2))), ''-bufsize'', Itoa (i64 (v_Bitrate v * 2))]
     @ (if o_IncludeAudio opts then [''-c:a'', ''aac'', ''-b:a'', Itoa (v_AudioBitrate v)] else [])
     @ [''-f'', ''hls'', ''-hls_time'', Itoa (o_SegmentDuration opts), ''-hls_list_size'', Itoa (o_PlaylistSize opts),
        ''-hls_segment_filename'', PathJoin (PathDir outputPath) ''segment_%03d.ts'', ''-start_number'', Itoa (o_StartNumber opts),
        outputPath]"

section \<open>The master playlist\<close>

definition estimateBandwidth :: "string \<Rightarrow> int" where
  "estimateBandwidth name =
     (if name = ''4k'' then 45000000 else if name = ''1080p'' then 8000000 else if name = ''720p'' then 4000000
      else if name = ''480p'' then 2500000 else if name = ''360p'' then 1000000 else 4000000)"

definition getResolution :: "string \<Rightarrow> string" where
  "getResolution name =
     (if name = ''4k'' then ''3840x2160'' else if name = ''1080p'' then ''1920x1080'' else if name = ''720p'' then ''1280x720''
      else if name = ''480p'' then ''854x480'' else if name = ''360p'' then ''640x360'' else ''1280x720'')"

text \<open>\<^verbatim>\<open>url.PathEscape\<close>.\<close>

definition upper_hex :: "nat \<Rightarrow> char" where "upper_hex d = (if d < 10 then char_of (48 + d) else char_of (55 + d))"

definition PathEscape :: "string \<Rightarrow> string" where
  "PathEscape s =
     concat (map (\<lambda>c. if is_alnum c \<or> c \<in> set ''-_.~$&+:=@'' then [c]
                      else [CHR ''%'', upper_hex (of_char c div 16), upper_hex (of_char c mod 16)]) s)"

definition NL :: string where "NL = [CHR 0x0A]"

definition stream_inf :: "string \<Rightarrow> string" where
  "stream_inf name =
     ''#EXT-X-STREAM-INF:BANDWIDTH='' @ Itoa (estimateBandwidth name) @ '',RESOLUTION='' @ getResolution name @ NL
     @ PathEscape name @ ''/playlist.m3u8'' @ NL"

text \<open>The text, or the name that is refused.\<close>

definition master_text :: "HLSManifest \<Rightarrow> string + string" where
  "master_text m =
     (case filter (\<lambda>v. \<not> validVariantName (vp_Name v)) (hm_Variants m) of
        v # _ \<Rightarrow> Inl (vp_Name v)
      | [] \<Rightarrow> Inr (''#EXTM3U'' @ NL @ ''#EXT-X-VERSION:3'' @ NL @ concat (map (stream_inf \<circ> vp_Name) (hm_Variants m))))"

section \<open>Generation\<close>

text \<open>What the world answers during one generation.\<close>

record GenEnv =
  ge_now :: time
  ge_mkSession :: "string option"
  ge_cancelled :: "Variant \<Rightarrow> string option"
  ge_mkVariant :: "Variant \<Rightarrow> string option"
  ge_ffmpeg :: "string list \<Rightarrow> string option"
  ge_produces :: "string list \<Rightarrow> string list"
  ge_arrival :: "Variant list \<Rightarrow> Variant list"
  ge_late :: "Variant \<Rightarrow> bool"
  ge_writeMaster :: "string option"

definition with_defaults :: "string \<Rightarrow> Segmenter \<Rightarrow> HLSOptions \<Rightarrow> HLSOptions" where
  "with_defaults sysTemp s opts =
     (let o1 = (if o_SegmentDuration opts = 0 then opts\<lparr>o_SegmentDuration := 6\<rparr> else opts);
          o2 = (if o_TempDir o1 = [] then o1\<lparr>o_TempDir := sg_tempDir s\<rparr> else o1)
      in if o_TempDir o2 = [] then o2\<lparr>o_TempDir := sysTemp\<rparr> else o2)"

definition session_dir :: "GenEnv \<Rightarrow> HLSOptions \<Rightarrow> string" where
  "session_dir env opts = PathJoin (o_TempDir opts) (''hls_'' @ Itoa (ge_now env))"

definition variant_dir :: "string \<Rightarrow> Variant \<Rightarrow> string" where "variant_dir sessionDir v = PathJoin sessionDir (v_Name v)"

text \<open>The goroutine of a variant: its result and what it leaves on the disk.\<close>

definition run_variant ::
  "GenEnv \<Rightarrow> Segmenter \<Rightarrow> string \<Rightarrow> string \<Rightarrow> HLSOptions \<Rightarrow> Variant \<Rightarrow> disk \<Rightarrow> (string + VariantPlaylist) \<times> disk" where
  "run_variant env s inputPath sessionDir opts v d =
     (case ge_cancelled env v of
        Some e \<Rightarrow> (Inl e, d)
      | None \<Rightarrow>
          if \<not> validVariantName (v_Name v) then (Inl (''invalid variant name: '' @ v_Name v), d)
          else case ge_mkVariant env v of
            Some e \<Rightarrow> (Inl (''create variant dir: '' @ e), d)
          | None \<Rightarrow>
              let dir = variant_dir sessionDir v; playlist = PathJoin dir ''playlist.m3u8'';
                  args = buildHLSArgs s inputPath v playlist opts;
                  d' = fold (WriteFile (ge_now env)) (ge_produces env args) (MkdirAll (ge_now env) dir d)
              in case ge_ffmpeg env args of
                   Some e \<Rightarrow> (Inl (''ffmpeg hls for '' @ v_Name v @ '': '' @ e), d')
                 | None \<Rightarrow> (Inr \<lparr>vp_Name = v_Name v, vp_Playlist = playlist, vp_SegmentsDir = dir\<rparr>, d'))"

fun collect ::
  "GenEnv \<Rightarrow> (Variant \<Rightarrow> disk \<Rightarrow> (string + VariantPlaylist) \<times> disk) \<Rightarrow> string \<Rightarrow> Variant list \<Rightarrow> VariantPlaylist list \<Rightarrow> disk
     \<Rightarrow> (string + VariantPlaylist list) \<times> disk" where
  "collect env work sessionDir [] acc d = (Inr acc, d)"
| "collect env work sessionDir (v # vs) acc d =
     (case work v d of
        (Inl e, d') \<Rightarrow>
          (let run = fold (\<lambda>w d. snd (work w d))
           in (Inl e, run (filter (ge_late env) vs) (RemoveAll sessionDir (run (filter (\<lambda>w. \<not> ge_late env w) vs) d'))))
      | (Inr p, d') \<Rightarrow> collect env work sessionDir vs (acc @ [p]) d')"

definition GenerateHLS ::
  "GenEnv \<Rightarrow> string \<Rightarrow> Segmenter \<Rightarrow> string \<Rightarrow> Variant list \<Rightarrow> HLSOptions \<Rightarrow> disk \<Rightarrow> (string + HLSManifest) \<times> disk" where
  "GenerateHLS env sysTemp s inputPath variants0 opts0 d =
     (let variants = (if variants0 = [] then DefaultVariants else variants0);
          opts = with_defaults sysTemp s opts0;
          sessionDir = session_dir env opts
      in case ge_mkSession env of
        Some e \<Rightarrow> (Inl (''create session dir: '' @ e), d)
      | None \<Rightarrow>
          (case collect env (run_variant env s inputPath sessionDir opts) sessionDir (ge_arrival env variants) []
                  (MkdirAll (ge_now env) sessionDir d) of
             (Inl e, d1) \<Rightarrow> (Inl e, d1)
           | (Inr ps, d1) \<Rightarrow>
               let m = \<lparr>hm_MasterPlaylist = PathJoin sessionDir ''master.m3u8'', hm_Variants = ps, hm_TempDir = sessionDir,
                        hm_CreatedAt = ge_now env\<rparr>
               in case master_text m of
                    Inl n \<Rightarrow> (Inl (''write master playlist: invalid variant name in manifest: '' @ n), RemoveAll sessionDir d1)
                  | Inr _ \<Rightarrow>
                      (case ge_writeMaster env of
                         Some e \<Rightarrow> (Inl (''write master playlist: '' @ e), RemoveAll sessionDir d1)
                       | None \<Rightarrow> (Inr m, WriteFile (ge_now env) (hm_MasterPlaylist m) d1))))"

definition Cleanup :: "HLSManifest option \<Rightarrow> disk \<Rightarrow> disk" where
  "Cleanup m d = (case m of None \<Rightarrow> d | Some m \<Rightarrow> if hm_TempDir m \<noteq> [] then RemoveAll (hm_TempDir m) d else d)"

section \<open>What a generation leaves\<close>

text \<open>The disk \<open>d'\<close> differs from \<open>d\<close> only below a directory and in the directories above it.\<close>

definition confined :: "string \<Rightarrow> disk \<Rightarrow> disk \<Rightarrow> bool" where
  "confined dir d d' \<longleftrightarrow> gwf d' \<and> (\<forall>q. \<not> under dir q \<longrightarrow> q \<notin> set (ancestors dir) \<longrightarrow> gget d' q = gget d q)
     \<and> (\<forall>q. gget d q \<noteq> None \<longrightarrow> \<not> under dir q \<longrightarrow> gget d' q = gget d q)"

lemma confined_refl: "gwf d \<Longrightarrow> confined dir d d"
  by (simp add: confined_def)

lemma confined_trans: "confined dir d d1 \<Longrightarrow> confined dir d1 d2 \<Longrightarrow> confined dir d d2"
  unfolding confined_def by metis

lemma under_child: "dir \<noteq> ''/'' \<Longrightarrow> dir \<noteq> [] \<Longrightarrow> under (dir @ CHR ''/'' # s) q \<Longrightarrow> under dir q"
  by (cases dir) (auto simp: under_def HasPrefix_iff split: if_splits)

lemma ancestors_child:
  assumes "q \<in> set (ancestors (dir @ CHR ''/'' # n))" "CHR ''/'' \<notin> set n" "dir \<noteq> ''/''" "dir \<noteq> []"
  shows "under dir q \<or> q \<in> set (ancestors dir)"
proof -
  have q: "q \<noteq> []" "q = dir @ CHR ''/'' # n \<or> (\<exists>s. dir @ CHR ''/'' # n = q @ CHR ''/'' # s)" using assms(1) unfolding ancestors_iff by auto
  from q(2) show ?thesis
  proof
    assume "\<exists>s. dir @ CHR ''/'' # n = q @ CHR ''/'' # s"
    then obtain s where s: "dir @ CHR ''/'' # n = q @ CHR ''/'' # s" by blast
    show ?thesis
    proof (cases "length q \<le> length dir")
      case True
      then obtain t where t: "dir = q @ t" using s by (metis append_eq_append_conv_if append_take_drop_id)
      then show ?thesis using s q(1) by (cases t) (auto simp: ancestors_iff)
    next
      case False
      then obtain t where "q = dir @ CHR ''/'' # t" "n = t @ CHR ''/'' # s"
        using s by (auto simp: append_eq_append_conv2 Cons_eq_append_conv)
      then show ?thesis using assms(2) by simp
    qed
  qed (use assms(3) under_append in auto)
qed

lemma confined_mkdir:
  assumes "gwf d" "under dir p" "\<forall>q \<in> set (ancestors p). under dir q \<or> q \<in> set (ancestors dir)"
  shows "confined dir d (MkdirAll now p d)"
  using assms by (auto simp: confined_def MkdirAll_get)

lemma WriteFile_get: "gget (WriteFile now p d) q = (if q = p then Some \<lparr>isDir = False, modTime = now\<rparr> else gget d q)"
  by (simp add: WriteFile_def gomap_simps)

lemma confined_writes: "gwf d \<Longrightarrow> \<forall>p \<in> set ps. under dir p \<Longrightarrow> confined dir d (fold (WriteFile now) ps d)"
proof (induction ps arbitrary: d)
  case (Cons p ps)
  have "confined dir d (WriteFile now p d)" using Cons.prems by (auto simp: confined_def WriteFile_get WriteFile_def gomap_simps)
  then show ?case using Cons confined_trans [of dir d "WriteFile now p d"] by (auto simp: WriteFile_def gomap_simps)
qed (simp add: confined_refl)

lemma Itoa_chars: "c \<in> set (Itoa n) \<Longrightarrow> is_digit c \<or> c = CHR ''-''"
proof -
  have "c \<in> set (digits k) \<Longrightarrow> is_digit c" for k using digits_ok [of k] by (auto simp: list_all_iff)
  then show "c \<in> set (Itoa n) \<Longrightarrow> ?thesis" by (auto simp: Itoa_def split: if_splits)
qed

lemma plain_session: "plain (''hls_'' @ Itoa n)"
proof -
  have "CHR ''/'' \<notin> set (Itoa n)" using Itoa_chars [of "CHR ''/''" n] by (auto simp: is_digit_def)
  then show ?thesis by (simp add: plain_def)
qed

lemma plain_variant: "validVariantName n \<Longrightarrow> plain n"
  by (auto simp: validVariantName_def plain_def is_alnum_def is_digit_def list_all_iff)

lemma plain_files [simp]: "plain ''playlist.m3u8''" "plain ''master.m3u8''"
  by (simp_all add: plain_def)

lemma session_dir_abs:
  assumes "list_all plain es" "es \<noteq> []" "o_TempDir opts = abs_path es"
  shows "session_dir env opts = abs_path (es @ [''hls_'' @ Itoa (ge_now env)])"
  unfolding session_dir_def assms(3) by (rule PathJoin_abs [OF assms(1,2) plain_session])

definition writes_below :: "GenEnv \<Rightarrow> bool" where
  "writes_below env \<longleftrightarrow> (\<forall>args. \<forall>p \<in> set (ge_produces env args). under (PathDir (last args)) p)"

lemma last_args: "last (buildHLSArgs s i v out opts) = out"
  by (simp add: buildHLSArgs_def)

lemma run_variant_confined:
  assumes "list_all plain es" "es \<noteq> []" "writes_below env" "gwf d"
  shows "confined (abs_path es) d (snd (run_variant env s input (abs_path es) opts v d))"
proof -
  let ?dir = "abs_path es"
  show ?thesis
  proof (cases "ge_cancelled env v = None \<and> validVariantName (v_Name v) \<and> ge_mkVariant env v = None")
    case False
    then show ?thesis using confined_refl [OF assms(4)] by (auto simp: run_variant_def split: option.split)
  next
    case True
    then have pv: "plain (v_Name v)" using plain_variant by blast
    have dir: "variant_dir ?dir v = ?dir @ CHR ''/'' # v_Name v" unfolding variant_dir_def using PathJoin_abs [OF assms(1,2) pv] by simp
    have vs: "list_all plain (es @ [v_Name v])" "es @ [v_Name v] \<noteq> []" using assms pv by simp_all
    have out: "PathJoin (variant_dir ?dir v) ''playlist.m3u8'' = abs_path (es @ [v_Name v]) @ CHR ''/'' # ''playlist.m3u8''"
      using PathJoin_abs [OF vs plain_files(1)] dir by simp
    have pd: "PathDir (PathJoin (variant_dir ?dir v) ''playlist.m3u8'') = ?dir @ CHR ''/'' # v_Name v"
      unfolding out using PathDir_abs [OF vs, of "''playlist.m3u8''"] by simp
    note nd = abs_not_dot [OF assms(1,2)]
    have mk: "confined ?dir d (MkdirAll now (variant_dir ?dir v) d)" for now
      unfolding dir using ancestors_child [of _ ?dir "v_Name v"] nd pv assms(4)
      by (intro confined_mkdir) (auto simp: under_append plain_def)
    have "under ?dir p" if "p \<in> set (ge_produces env args)" "last args = PathJoin (variant_dir ?dir v) ''playlist.m3u8''" for args p
    proof -
      have "under (PathDir (last args)) p" using assms(3) that(1) unfolding writes_below_def by blast
      then show ?thesis unfolding that(2) pd by (rule under_child [OF nd(4,1)])
    qed
    then have "confined ?dir d (fold (WriteFile now) (ge_produces env (buildHLSArgs s input v (PathJoin (variant_dir ?dir v) ''playlist.m3u8'') opts))
        (MkdirAll now (variant_dir ?dir v) d))" for now
      by (intro confined_trans [OF mk [of now]] confined_writes gwf_MkdirAll assms(4)) (simp add: last_args)
    then show ?thesis using True by (simp add: run_variant_def Let_def split: option.split)
  qed
qed

lemma collect_confined:
  assumes "list_all plain es" "es \<noteq> []" "writes_below env" "gwf d"
    and "collect env (run_variant env s input (abs_path es) opts) (abs_path es) vs acc d = (Inr ps, d')"
  shows "confined (abs_path es) d d'"
  using assms(4,5)
proof (induction vs arbitrary: acc d)
  case (Cons v vs)
  obtain r d1 where r: "run_variant env s input (abs_path es) opts v d = (r, d1)" by fastforce
  have w: "confined (abs_path es) d d1" using run_variant_confined [OF assms(1-3) Cons.prems(1), of s input opts v] r by simp
  then have "gwf d1" by (simp add: confined_def)
  then show ?case using Cons w r confined_trans [of "abs_path es" d d1] by (auto simp: Let_def split: sum.splits)
qed (auto simp: confined_refl)

lemma GenerateHLS_confined:
  assumes "list_all plain es" "es \<noteq> []" "o_TempDir (with_defaults sysTemp s opts) = abs_path es" "writes_below env" "gwf d"
    and "GenerateHLS env sysTemp s input vs opts d = (Inr m, d')"
  shows "hm_MasterPlaylist m = abs_path (es @ [''hls_'' @ Itoa (ge_now env)]) @ CHR ''/'' # ''master.m3u8''
    \<and> confined (abs_path (es @ [''hls_'' @ Itoa (ge_now env)])) d d' \<and> exists_path d' (hm_MasterPlaylist m)"
proof -
  let ?n = "''hls_'' @ Itoa (ge_now env)" and ?o = "with_defaults sysTemp s opts"
  let ?es = "es @ [?n]"
  note sd = session_dir_abs [OF assms(1-3), of env]
  have es: "list_all plain ?es" "?es \<noteq> []" using assms(1) plain_session by simp_all
  have dir: "abs_path ?es = abs_path es @ CHR ''/'' # ?n" by simp
  have no: "CHR ''/'' \<notin> set ?n" using plain_session [of "ge_now env"] by (simp add: plain_def)
  have mk: "confined (abs_path ?es) d (MkdirAll now (abs_path ?es) d)" for now
    using assms(5) by (intro confined_mkdir) auto
  obtain ps d1 where c: "collect env (run_variant env s input (abs_path ?es) ?o) (abs_path ?es)
        (ge_arrival env (if vs = [] then DefaultVariants else vs)) [] (MkdirAll (ge_now env) (abs_path ?es) d) = (Inr ps, d1)"
      and m: "m = \<lparr>hm_MasterPlaylist = PathJoin (abs_path ?es) ''master.m3u8'', hm_Variants = ps, hm_TempDir = abs_path ?es, hm_CreatedAt = ge_now env\<rparr>"
      and d': "d' = WriteFile (ge_now env) (hm_MasterPlaylist m) d1"
    using assms(6) unfolding GenerateHLS_def Let_def sd by (auto split: option.splits prod.splits sum.splits)
  have mp: "hm_MasterPlaylist m = abs_path ?es @ CHR ''/'' # ''master.m3u8''"
    unfolding m using PathJoin_abs [OF es plain_files(2)] by simp
  have w1: "confined (abs_path ?es) d d1"
    using confined_trans [OF mk collect_confined [OF es assms(4) _ c]] assms(5) gwf_MkdirAll by blast
  then have "gwf d1" by (simp add: confined_def)
  have "confined (abs_path ?es) d1 (fold (WriteFile (ge_now env)) [hm_MasterPlaylist m] d1)"
    using \<open>gwf d1\<close> under_append [OF abs_not_dot(4) [OF es]] by (intro confined_writes) (simp_all add: mp)
  then show ?thesis using mp confined_trans [OF w1] by (simp add: d' exists_path_def WriteFile_get)
qed

end
