(* ===== verification/Streaming.thy ===== *)
theory Streaming
  imports Segmenter Breaker Events
begin

text \<open>
  The streaming handler of \<^verbatim>\<open>internal/stream/handler.go\<close>, composed with the segmenter, the circuit breaker
  and the media store. The state of the handler includes the disk and the events it publishes. A session is
  shared by pointer; the map is the store and its identifier the pointer. The clock, random bytes and what the
  operating system answers are arguments.
\<close>

section \<open>Data\<close>

definition StreamTypeHLS :: string where "StreamTypeHLS = ''hls''"
definition StreamTypeDirect :: string where "StreamTypeDirect = ''direct''"

record StreamSession =
  ss_ID :: string
  ss_MediaItemID :: string
  ss_UserID :: string
  ss_DeviceID :: string
  ss_StreamType :: string
  ss_StartTime :: time
  ss_LastAccess :: time
  ss_BytesServed :: int
  ss_ManifestPath :: string
  ss_Variant :: string

record Handler =
  hd_segmenter :: Segmenter
  hd_sessionTTL :: duration
  hd_sessions :: "(string, StreamSession) gomap"
  hd_breaker :: Breaker
  hd_disk :: disk
  hd_published :: "(EventType \<times> StreamPayload) list"

datatype Response =
    HttpError string nat
  | ManifestJSON string string
  | ServeFile string string
  | StreamInfoJSON string float64 string string "Variant list"

definition NewHandler :: "disk \<Rightarrow> Handler" where
  "NewHandler d =
     \<lparr>hd_segmenter = NewSegmenter [] [], hd_sessionTTL = 4 * Hour, hd_sessions = [],
      hd_breaker = StateChangeHandler (New (DefaultConfig ''ffmpeg'')), hd_disk = d, hd_published = []\<rparr>"

definition noPayload :: StreamPayload where
  "noPayload = \<lparr>sp_StreamID = [], sp_SessionID = [], sp_MediaItemID = [], sp_MediaTitle = [], sp_Variant = [], sp_BytesServed = 0\<rparr>"

definition publish_stream :: "EventType \<Rightarrow> StreamPayload \<Rightarrow> Handler \<Rightarrow> Handler" where
  "publish_stream ty p h = h\<lparr>hd_published := hd_published h @ [(ty, p)]\<rparr>"

text \<open>The breaker after a call, with the events its state-change handler published.\<close>

definition circuit_event :: "string \<times> State \<times> State \<Rightarrow> EventType \<times> StreamPayload" where
  "circuit_event n =
     (case n of (name, from, to) \<Rightarrow>
        (EventStreamError, noPayload\<lparr>sp_MediaTitle := ''circuit_breaker:'' @ name @ '':'' @ State_String from @ ''->'' @ State_String to\<rparr>))"

definition after_call :: "Breaker \<Rightarrow> Handler \<Rightarrow> Handler" where
  "after_call b h =
     h\<lparr>hd_breaker := b,
       hd_published := hd_published h @ map circuit_event (drop (length (notified (hd_breaker h))) (notified b))\<rparr>"

section \<open>Sessions\<close>

definition session_id :: "nat list \<Rightarrow> string" where "session_id bs = ''session_'' @ hex_bytes bs"

definition StartSession ::
  "nat list option \<Rightarrow> time \<Rightarrow> string \<Rightarrow> string \<Rightarrow> string \<Rightarrow> string \<Rightarrow> string \<Rightarrow> Handler \<Rightarrow> StreamSession option \<times> Handler" where
  "StartSession rnd now mediaID userID deviceID variant streamType h =
     (case rnd of
        None \<Rightarrow> (None, h)
      | Some bs \<Rightarrow>
          let s = \<lparr>ss_ID = session_id bs, ss_MediaItemID = mediaID, ss_UserID = userID, ss_DeviceID = deviceID,
                   ss_StreamType = streamType, ss_StartTime = now, ss_LastAccess = now, ss_BytesServed = 0, ss_ManifestPath = [],
                   ss_Variant = variant\<rparr>
          in (Some s, h\<lparr>hd_sessions := gput (hd_sessions h) (ss_ID s) s\<rparr>))"

definition SetSessionManifest :: "string \<Rightarrow> string \<Rightarrow> Handler \<Rightarrow> Handler" where
  "SetSessionManifest i path h =
     (case gget (hd_sessions h) i of
        None \<Rightarrow> h | Some s \<Rightarrow> h\<lparr>hd_sessions := gput (hd_sessions h) i (s\<lparr>ss_ManifestPath := path\<rparr>)\<rparr>)"

definition GetSession :: "time \<Rightarrow> string \<Rightarrow> Handler \<Rightarrow> StreamSession option \<times> Handler" where
  "GetSession now i h =
     (case gget (hd_sessions h) i of
        None \<Rightarrow> (None, h)
      | Some s \<Rightarrow> let s' = s\<lparr>ss_LastAccess := now\<rparr> in (Some s', h\<lparr>hd_sessions := gput (hd_sessions h) i s'\<rparr>))"

definition remove_dir :: "string \<Rightarrow> disk \<Rightarrow> disk" where
  "remove_dir manifestPath d = (if manifestPath \<noteq> [] then RemoveAll (PathDir manifestPath) d else d)"

definition EndSession :: "string \<Rightarrow> Handler \<Rightarrow> Handler" where
  "EndSession i h =
     (case gget (hd_sessions h) i of
        None \<Rightarrow> h\<lparr>hd_sessions := gdel (hd_sessions h) i\<rparr>
      | Some s \<Rightarrow>
          publish_stream EventStreamEnded
            (noPayload\<lparr>sp_StreamID := ss_ID s, sp_SessionID := ss_ID s, sp_MediaItemID := ss_MediaItemID s, sp_Variant := ss_Variant s,
               sp_BytesServed := ss_BytesServed s\<rparr>)
            (h\<lparr>hd_sessions := gdel (hd_sessions h) i, hd_disk := remove_dir (ss_ManifestPath s) (hd_disk h)\<rparr>))"

definition UpdateBytesServed :: "string \<Rightarrow> int \<Rightarrow> Handler \<Rightarrow> Handler" where
  "UpdateBytesServed i n h =
     (case gget (hd_sessions h) i of
        None \<Rightarrow> h
      | Some s \<Rightarrow> h\<lparr>hd_sessions := gput (hd_sessions h) i (s\<lparr>ss_BytesServed := i64 (ss_BytesServed s + n)\<rparr>)\<rparr>)"

definition expired :: "time \<Rightarrow> Handler \<Rightarrow> StreamSession \<Rightarrow> bool" where
  "expired now h s \<longleftrightarrow> Before (ss_LastAccess s) (Add now (- hd_sessionTTL h))"

definition cleanupExpiredSessions :: "time \<Rightarrow> Handler \<Rightarrow> Handler" where
  "cleanupExpiredSessions now h =
     h\<lparr>hd_sessions := gfilter (\<lambda>_ s. \<not> expired now h s) (hd_sessions h),
       hd_disk := fold (\<lambda>(_, s). remove_dir (ss_ManifestPath s)) (filter (\<lambda>(_, s). expired now h s) (hd_sessions h)) (hd_disk h)\<rparr>"

section \<open>Orphaned segments and paths\<close>

definition isValidHLSName :: "string \<Rightarrow> bool" where
  "isValidHLSName name \<longleftrightarrow>
     HasPrefix name ''hls_'' \<and> CHR ''/'' \<notin> set name \<and> CHR 0x5C \<notin> set name \<and> \<not> Contains name ''..'' \<and> CHR 0x00 \<notin> set name
     \<and> length name \<le> 64 \<and> 5 \<le> length name"

definition isPathInDirectory :: "string \<Rightarrow> string \<Rightarrow> string \<Rightarrow> bool" where
  "isPathInDirectory cwd path dir =
     (let absDir = PathAbs cwd dir; absDir' = (if HasSuffix absDir ''/'' then absDir else absDir @ ''/'')
      in HasPrefix (PathAbs cwd path) absDir')"

definition ReadDir :: "string \<Rightarrow> disk \<Rightarrow> (string \<times> Entry) list" where
  "ReadDir dir d =
     concat (map (\<lambda>(p, e). let n = drop (length dir + 1) p
        in if HasPrefix p (dir @ ''/'') \<and> n \<noteq> [] \<and> CHR ''/'' \<notin> set n then [(n, e)] else []) d)"

definition orphaned :: "string \<Rightarrow> time \<Rightarrow> string \<Rightarrow> duration \<Rightarrow> string \<times> Entry \<Rightarrow> bool" where
  "orphaned cwd now tempDir ttl entry =
     (case entry of (name, e) \<Rightarrow>
        isDir e \<and> HasPrefix name ''hls_'' \<and> isValidHLSName name \<and> Before (modTime e) (Add now (- ttl))
        \<and> isPathInDirectory cwd (PathJoin tempDir name) tempDir)"

definition cleanupOrphanedSegments :: "string \<Rightarrow> time \<Rightarrow> string \<Rightarrow> Handler \<Rightarrow> Handler" where
  "cleanupOrphanedSegments cwd now tempDir h =
     h\<lparr>hd_disk := fold (\<lambda>(name, _). RemoveAll (PathJoin tempDir name))
        (filter (orphaned cwd now tempDir (hd_sessionTTL h)) (ReadDir tempDir (hd_disk h))) (hd_disk h)\<rparr>"

text \<open>One tick of the cleanup loop.\<close>

definition cleanup_tick :: "string \<Rightarrow> time \<Rightarrow> string \<Rightarrow> Handler \<Rightarrow> Handler" where
  "cleanup_tick cwd now tempDir h = cleanupOrphanedSegments cwd now tempDir (cleanupExpiredSessions now h)"

definition isPathAllowed :: "(string \<Rightarrow> string option) \<Rightarrow> string \<Rightarrow> string \<Rightarrow> disk \<Rightarrow> string \<Rightarrow> bool" where
  "isPathAllowed evalSymlinks cwd tempDir d path =
     (case evalSymlinks path of
        None \<Rightarrow> False
      | Some realPath \<Rightarrow> exists_path d realPath \<and> HasPrefix (PathAbs cwd realPath) tempDir)"

section \<open>Requests\<close>

definition selectVariants :: "string \<Rightarrow> Variant list" where
  "selectVariants requested =
     (if requested = [] then DefaultVariants
      else let higher = takeWhile (\<lambda>v. v_Name v \<noteq> requested) DefaultVariants
           in higher @ take 1 (drop (length higher) DefaultVariants))"

definition getAvailableVariants :: "MediaItem \<Rightarrow> Variant list" where
  "getAvailableVariants item =
     (let sourceHeight = (case mi_VideoStream item of None \<Rightarrow> 0 | Some v \<Rightarrow> vs_Height v)
      in filter (\<lambda>v. v_Height v \<le> sourceHeight) DefaultVariants)"

text \<open>What the world answers during one HLS request.\<close>

record ReqEnv =
  re_allow :: time
  re_done :: time
  re_session :: time
  re_rnd :: "nat list option"
  re_gen :: GenEnv
  re_sysTemp :: string

definition direct_type :: "string \<Rightarrow> string" where
  "direct_type ext = (if ext = ''.mkv'' then ''video/x-matroska'' else if ext = ''.webm'' then ''video/webm'' else ''video/mp4'')"

definition serveFallbackDirect :: "ReqEnv \<Rightarrow> MediaItem \<Rightarrow> string \<Rightarrow> Handler \<Rightarrow> Response \<times> Handler" where
  "serveFallbackDirect env item variant h0 =
     (let h = publish_stream EventStreamError
                (noPayload\<lparr>sp_MediaItemID := mi_ID item,
                   sp_MediaTitle := ''fallback:'' @ mi_Title item @ '':'' @ State_String (LoadState (hd_breaker h0)), sp_Variant := variant\<rparr>) h0;
          ext = ToLower (PathExt (mi_Path item))
      in if ext \<in> set [''.mp4'', ''.m4v'', ''.mkv'', ''.webm''] then
           (case StartSession (re_rnd env) (re_session env) (mi_ID item) [] [] variant StreamTypeDirect h of
              (None, h1) \<Rightarrow> (HttpError ''Failed to create stream session'' 500, h1)
            | (Some s, h1) \<Rightarrow>
                (ServeFile (mi_Path item) (direct_type ext),
                 publish_stream EventStreamStarted
                   (noPayload\<lparr>sp_StreamID := ss_ID s, sp_SessionID := ss_ID s, sp_MediaItemID := mi_ID item,
                      sp_MediaTitle := mi_Title item, sp_Variant := ''direct''\<rparr>)
                   (SetSessionManifest (ss_ID s) (mi_Path item) h1)))
         else (HttpError ''Transcoding unavailable and direct playback not supported for this format'' 503, h))"

definition hls_options :: "string \<Rightarrow> HLSOptions" where
  "hls_options sysTemp = \<lparr>o_SegmentDuration = 6, o_PlaylistSize = 0, o_StartNumber = 0, o_TempDir = sysTemp, o_IncludeAudio = True\<rparr>"

definition ServeHLS :: "ReqEnv \<Rightarrow> Store \<Rightarrow> string \<Rightarrow> string \<Rightarrow> Handler \<Rightarrow> Response \<times> Handler" where
  "ServeHLS env store mediaID variant h =
     (case GetMediaItem mediaID store of
        None \<Rightarrow> (HttpError ''Media not found'' 404, h)
      | Some item \<Rightarrow>
          if \<not> exists_path (hd_disk h) (mi_Path item) then (HttpError ''Media file not found'' 404, h)
          else
            let (g, d) = GenerateHLS (re_gen env) (re_sysTemp env) (hd_segmenter h) (mi_Path item) (selectVariants variant)
                           (hls_options (re_sysTemp env)) (hd_disk h);
                (err, b) = Do (re_allow env) (re_done env) (case g of Inl e \<Rightarrow> Some e | Inr _ \<Rightarrow> None) (hd_breaker h);
                h1 = after_call b h
            in if err = Some ErrCircuitOpen then serveFallbackDirect env item variant h1
               else
                 let h2 = h1\<lparr>hd_disk := d\<rparr>
                 in case g of
                   Inl e \<Rightarrow>
                     (HttpError ''Failed to generate stream'' 500,
                      publish_stream EventStreamError
                        (noPayload\<lparr>sp_MediaItemID := mediaID, sp_MediaTitle := mi_Title item, sp_Variant := variant\<rparr>) h2)
                 | Inr m \<Rightarrow>
                     (case StartSession (re_rnd env) (re_session env) mediaID [] [] variant StreamTypeHLS h2 of
                        (None, h3) \<Rightarrow> (HttpError ''Failed to create stream session'' 500, h3)
                      | (Some s, h3) \<Rightarrow>
                          (ManifestJSON (''/api/v1/stream/hls/playlist?path='' @ hm_MasterPlaylist m) (ss_ID s),
                           publish_stream EventStreamStarted
                             (noPayload\<lparr>sp_StreamID := ss_ID s, sp_SessionID := ss_ID s, sp_MediaItemID := mediaID,
                                sp_MediaTitle := mi_Title item, sp_Variant := variant\<rparr>)
                             (SetSessionManifest (ss_ID s) (hm_MasterPlaylist m) h3))))"

text \<open>\<^verbatim>\<open>url.QueryUnescape\<close>.\<close>

definition hex_val :: "char \<Rightarrow> nat option" where
  "hex_val c =
     (let n = (of_char c :: nat)
      in if is_digit c then Some (n - 48) else if 97 \<le> n \<and> n \<le> 102 then Some (n - 87)
         else if 65 \<le> n \<and> n \<le> 70 then Some (n - 55) else None)"

fun QueryUnescape :: "string \<Rightarrow> string option" where
  "QueryUnescape [] = Some []"
| "QueryUnescape (c # s) =
     (if c = CHR ''%'' then
        (case s of
           a # b # t \<Rightarrow>
             (case (hex_val a, hex_val b) of
                (Some i, Some j) \<Rightarrow> map_option (Cons (char_of (16 * i + j))) (QueryUnescape t)
              | _ \<Rightarrow> None)
         | _ \<Rightarrow> None)
      else map_option (Cons (if c = CHR ''+'' then CHR '' '' else c)) (QueryUnescape s))"

definition serve_path ::
  "(string \<Rightarrow> string option) \<Rightarrow> string \<Rightarrow> string \<Rightarrow> string \<Rightarrow> string \<Rightarrow> Handler \<Rightarrow> Response" where
  "serve_path evalSymlinks cwd tempDir missing path h =
     (if path = [] then HttpError missing 400
      else case QueryUnescape path of
        None \<Rightarrow> HttpError ''Invalid path encoding'' 400
      | Some p \<Rightarrow> if \<not> isPathAllowed evalSymlinks cwd tempDir (hd_disk h) p then HttpError ''Invalid path'' 403 else ServeFile p [])"

definition ServeHLSManifest ::
  "(string \<Rightarrow> string option) \<Rightarrow> string \<Rightarrow> string \<Rightarrow> time \<Rightarrow> string \<Rightarrow> string \<Rightarrow> Handler \<Rightarrow> Response \<times> Handler" where
  "ServeHLSManifest evalSymlinks cwd tempDir now sessionID path h =
     (if sessionID \<noteq> [] then
        (case GetSession now sessionID h of
           (None, h1) \<Rightarrow> (HttpError ''Session not found'' 404, h1)
         | (Some s, h1) \<Rightarrow>
             (if ss_ManifestPath s = [] then HttpError ''Session not found'' 404 else ServeFile (ss_ManifestPath s) [], h1))
      else (serve_path evalSymlinks cwd tempDir ''Missing path or session_id'' path h, h))"

definition ServeHLSSegment ::
  "(string \<Rightarrow> string option) \<Rightarrow> string \<Rightarrow> string \<Rightarrow> string \<Rightarrow> Handler \<Rightarrow> Response" where
  "ServeHLSSegment evalSymlinks cwd tempDir path h = serve_path evalSymlinks cwd tempDir ''Missing path'' path h"

definition StreamInfo :: "Store \<Rightarrow> string \<Rightarrow> Response" where
  "StreamInfo store mediaID =
     (case GetMediaItem mediaID store of
        None \<Rightarrow> HttpError ''Media not found'' 404
      | Some item \<Rightarrow>
          StreamInfoJSON mediaID (mi_Duration item) (mi_Container item)
            (case mi_VideoStream item of None \<Rightarrow> [] | Some v \<Rightarrow> vs_Codec v) (getAvailableVariants item))"

section \<open>A fallback session owns the directory of the library\<close>

lemma remove_dir_wf: "gwf d \<Longrightarrow> gwf (remove_dir p d)"
  by (auto simp: remove_dir_def)

lemma remove_dir_none: "gwf d \<Longrightarrow> gget d q = None \<Longrightarrow> gget (remove_dir p d) q = None"
  by (auto simp: remove_dir_def RemoveAll_def gomap_simps split: option.split)

lemma removes_none:
  "gwf d \<Longrightarrow> gget d q = None \<Longrightarrow> gget (fold (\<lambda>(_, s). remove_dir (ss_ManifestPath s)) xs d) q = None"
  by (induction xs arbitrary: d) (auto simp: remove_dir_wf remove_dir_none split_def)

lemma removes_member:
  assumes "gwf d" "(i, s) \<in> set xs" "\<And>d. gwf d \<Longrightarrow> gget (remove_dir (ss_ManifestPath s) d) q = None"
  shows "gget (fold (\<lambda>(_, s). remove_dir (ss_ManifestPath s)) xs d) q = None"
  using assms(1,2)
proof (induction xs arbitrary: d)
  case (Cons x xs)
  show ?case
  proof (cases "x = (i, s)")
    case True
    then show ?thesis using removes_none [OF remove_dir_wf assms(3)] Cons.prems(1) by simp
  qed (use Cons remove_dir_wf in \<open>auto simp: split_def\<close>)
qed simp

lemma remove_dir_abs:
  assumes "list_all plain es" "es \<noteq> []" "CHR ''/'' \<notin> set e" "gwf d"
  shows "gget (remove_dir (abs_path es @ CHR ''/'' # e) d) q = (if under (abs_path es) q then None else gget d q)"
  using abs_not_dot [OF assms(1,2)] by (simp add: remove_dir_def PathDir_abs [OF assms(1-3)] RemoveAll_get [OF assms(4)])

definition playable :: "MediaItem \<Rightarrow> bool" where
  "playable item \<longleftrightarrow> ToLower (PathExt (mi_Path item)) \<in> {''.mp4'', ''.m4v'', ''.mkv'', ''.webm''}"

lemma fallback_session:
  assumes "playable item" "re_rnd env = Some bs"
  shows "\<exists>s. ss_ManifestPath s = mi_Path item \<and> ss_LastAccess s = re_session env
      \<and> fst (serveFallbackDirect env item v h) = ServeFile (mi_Path item) (direct_type (ToLower (PathExt (mi_Path item))))
      \<and> hd_sessions (snd (serveFallbackDirect env item v h)) = gput (hd_sessions h) (session_id bs) s
      \<and> hd_disk (snd (serveFallbackDirect env item v h)) = hd_disk h
      \<and> hd_sessionTTL (snd (serveFallbackDirect env item v h)) = hd_sessionTTL h"
  using assms
  by (auto simp: serveFallbackDirect_def Let_def playable_def StartSession_def SetSessionManifest_def publish_stream_def gomap_simps gput_gput
    intro!: exI [of _ "\<lparr>ss_ID = session_id bs, ss_MediaItemID = mi_ID item, ss_UserID = [], ss_DeviceID = [], ss_StreamType = StreamTypeDirect,
      ss_StartTime = re_session env, ss_LastAccess = re_session env, ss_BytesServed = 0, ss_ManifestPath = mi_Path item, ss_Variant = v\<rparr>"])

lemma refused_call:
  assumes "LoadState b = StateOpen" "Sub now (lastFailureTime b) \<le> timeout b"
  shows "Do now later fn b = (Some ErrCircuitOpen, b)"
  using assms by (simp add: Do_def Allow_def Allow_env_def)

text \<open>
  C2. While the breaker for ffmpeg is open, a request for a playable file is answered with the file itself and a
  session whose manifest path is that file. When that session ends or has not been used for its time to live,
  the whole directory of the file, with every other film in it, is removed from the disk.
\<close>

theorem fallback_deletes_library:
  assumes "gwf (hd_disk h)" and "gwf (hd_sessions h)" and "GetMediaItem mid store = Some item"
    and "mi_Path item = abs_path es @ CHR ''/'' # e" and "list_all plain es" and "es \<noteq> []" and "CHR ''/'' \<notin> set e"
    and "playable item" and "exists_path (hd_disk h) (mi_Path item)"
    and "LoadState (hd_breaker h) = StateOpen" and "Sub (re_allow env) (lastFailureTime (hd_breaker h)) \<le> timeout (hd_breaker h)"
    and "re_rnd env = Some bs" and "ServeHLS env store mid v h = (resp, h1)" and "re_session env + hd_sessionTTL h < now"
  shows "resp = ServeFile (mi_Path item) (direct_type (ToLower (PathExt (mi_Path item)))) \<and> hd_disk h1 = hd_disk h
    \<and> (\<forall>q. under (abs_path es) q \<longrightarrow> \<not> exists_path (hd_disk (EndSession (session_id bs) h1)) q
        \<and> \<not> exists_path (hd_disk (cleanupExpiredSessions now h1)) q)"
proof -
  let ?i = "session_id bs"
  have "serveFallbackDirect env item v (after_call (hd_breaker h) h) = (resp, h1)"
    using assms(3,9,13) by (simp add: ServeHLS_def split_def Let_def refused_call [OF assms(10,11)])
  then have sv: "fst (serveFallbackDirect env item v (after_call (hd_breaker h) h)) = resp"
      "snd (serveFallbackDirect env item v (after_call (hd_breaker h) h)) = h1" by simp_all
  obtain s where s: "ss_ManifestPath s = mi_Path item" "ss_LastAccess s = re_session env"
      "fst (serveFallbackDirect env item v (after_call (hd_breaker h) h)) = ServeFile (mi_Path item) (direct_type (ToLower (PathExt (mi_Path item))))"
      "hd_sessions (snd (serveFallbackDirect env item v (after_call (hd_breaker h) h))) = gput (hd_sessions h) ?i s"
      "hd_disk (snd (serveFallbackDirect env item v (after_call (hd_breaker h) h))) = hd_disk h"
      "hd_sessionTTL (snd (serveFallbackDirect env item v (after_call (hd_breaker h) h))) = hd_sessionTTL h"
    using fallback_session [OF assms(8,12), of v "after_call (hd_breaker h) h"] by (auto simp: after_call_def)
  have r: "resp = ServeFile (mi_Path item) (direct_type (ToLower (PathExt (mi_Path item))))" "hd_disk h1 = hd_disk h"
      "hd_sessions h1 = gput (hd_sessions h) ?i s" "hd_sessionTTL h1 = hd_sessionTTL h"
    using s(3-6) unfolding sv by simp_all
  have gone: "gget (remove_dir (ss_ManifestPath s) d) q = None" if "under (abs_path es) q" "gwf d" for d q
    unfolding s(1) assms(4) remove_dir_abs [OF assms(5-7) that(2)] using that(1) by simp
  have mem: "(?i, s) \<in> set (filter (\<lambda>(_, s). expired now h1 s) (hd_sessions h1))"
    using assms(2,14) s(2) gget_mem [of "gput (hd_sessions h) ?i s" ?i s] by (simp add: r gomap_simps expired_def Before_def Add_def)
  have "\<not> exists_path (hd_disk (cleanupExpiredSessions now h1)) q" if "under (abs_path es) q" for q
    using removes_member [OF assms(1) mem, of q] gone [OF that] by (simp add: cleanupExpiredSessions_def exists_path_def r(2))
  moreover have "\<not> exists_path (hd_disk (EndSession ?i h1)) q" if "under (abs_path es) q" for q
    using gone [OF that assms(1)] by (simp add: EndSession_def r gomap_simps exists_path_def publish_stream_def)
  ultimately show ?thesis using r by blast
qed

section \<open>Abandoned requests open the breaker\<close>

definition abandoned :: "ReqEnv \<Rightarrow> string \<Rightarrow> bool" where
  "abandoned env path \<longleftrightarrow> ge_mkSession (re_gen env) = None \<and> (\<exists>e. \<forall>v. ge_cancelled (re_gen env) v = Some e)
     \<and> (\<forall>vs. mset (ge_arrival (re_gen env) vs) = mset vs)
     \<and> \<not> under (session_dir (re_gen env) (with_defaults (re_sysTemp env) (NewSegmenter [] []) (hls_options (re_sysTemp env)))) path"

lemma select_nonempty: "selectVariants v \<noteq> []"
  by (cases "selectVariants v") (auto simp: selectVariants_def DefaultVariants_def Let_def split: if_splits)

lemma abandoned_generation:
  assumes "abandoned env path" "gwf d"
  shows "\<exists>e d'. GenerateHLS (re_gen env) (re_sysTemp env) (NewSegmenter [] []) input (selectVariants v) (hls_options (re_sysTemp env)) d = (Inl e, d')
    \<and> gwf d' \<and> (exists_path d path \<longrightarrow> exists_path d' path)"
proof -
  let ?g = "re_gen env"
  let ?o = "with_defaults (re_sysTemp env) (NewSegmenter [] []) (hls_options (re_sysTemp env))"
  let ?sd = "session_dir ?g ?o"
  obtain e where e: "\<And>v. ge_cancelled ?g v = Some e" using assms(1) by (auto simp: abandoned_def)
  have "mset (ge_arrival ?g (selectVariants v)) = mset (selectVariants v)" using assms(1) by (simp add: abandoned_def)
  then obtain w ws where w: "ge_arrival ?g (selectVariants v) = w # ws"
    using select_nonempty [of v] by (cases "ge_arrival ?g (selectVariants v)") auto
  have run: "run_variant ?g s i sd o' v d = (Inl e, d)" for s i sd o' v d by (simp add: run_variant_def e)
  have id: "fold (\<lambda>w d. d) ws d = d" for ws :: "Variant list" and d :: disk by (induction ws) simp_all
  let ?d' = "RemoveAll ?sd (MkdirAll (ge_now ?g) ?sd d)"
  have g: "GenerateHLS ?g (re_sysTemp env) (NewSegmenter [] []) input (selectVariants v) (hls_options (re_sysTemp env)) d = (Inl e, ?d')"
    using assms(1) select_nonempty [of v] by (simp add: GenerateHLS_def Let_def abandoned_def w run id)
  have "gwf (MkdirAll (ge_now ?g) ?sd d)" using assms(2) by auto
  moreover from this have "exists_path ?d' path" if "exists_path d path"
    using that assms(1) by (auto simp: exists_path_def abandoned_def RemoveAll_outside MkdirAll_get)
  ultimately show ?thesis using g by blast
qed

definition armed :: "nat \<Rightarrow> string \<Rightarrow> Handler \<Rightarrow> bool" where
  "armed n path h \<longleftrightarrow> hd_segmenter h = NewSegmenter [] [] \<and> gwf (hd_disk h) \<and> exists_path (hd_disk h) path
     \<and> state (hd_breaker h) = StateClosed \<and> failures (hd_breaker h) = int n \<and> failureThreshold (hd_breaker h) = 5
     \<and> timeout (hd_breaker h) = 30 * Second"

lemma closed_failure:
  assumes "state b = StateClosed"
  shows "Do now later (Some e) b = (Some (FnErr e), RecordFailure later b)"
  using assms by (simp add: Do_def Allow_def Allow_env_def LoadState_def)

lemma abandoned_request:
  assumes "armed n (mi_Path item) h" "GetMediaItem mid store = Some item" "abandoned env (mi_Path item)"
  obtains d e where "ServeHLS env store mid v h = (HttpError ''Failed to generate stream'' 500,
      publish_stream EventStreamError (noPayload\<lparr>sp_MediaItemID := mid, sp_MediaTitle := mi_Title item, sp_Variant := v\<rparr>)
        ((after_call (RecordFailure (re_done env) (hd_breaker h)) h)\<lparr>hd_disk := d\<rparr>))"
    "gwf d" "exists_path d (mi_Path item)"
proof -
  have a: "hd_segmenter h = NewSegmenter [] []" "gwf (hd_disk h)" "exists_path (hd_disk h) (mi_Path item)" "state (hd_breaker h) = StateClosed"
    using assms(1) by (simp_all add: armed_def)
  obtain e d where g: "GenerateHLS (re_gen env) (re_sysTemp env) (NewSegmenter [] []) (mi_Path item) (selectVariants v) (hls_options (re_sysTemp env)) (hd_disk h) = (Inl e, d)"
      "gwf d" "exists_path d (mi_Path item)"
    using abandoned_generation [OF assms(3) a(2)] a(3) by blast
  show ?thesis
    by (rule that [of d]) (use a assms(2) g in \<open>simp_all add: ServeHLS_def split_def Let_def closed_failure\<close>)
qed

lemma abandoned_step:
  assumes "armed n (mi_Path item) h" "GetMediaItem mid store = Some item" "abandoned env (mi_Path item)" "n < 4"
  shows "armed (Suc n) (mi_Path item) (snd (ServeHLS env store mid v h))"
proof (rule abandoned_request [OF assms(1-3), of v])
  fix d
  assume "ServeHLS env store mid v h = (HttpError ''Failed to generate stream'' 500,
      publish_stream EventStreamError (noPayload\<lparr>sp_MediaItemID := mid, sp_MediaTitle := mi_Title item, sp_Variant := v\<rparr>)
        ((after_call (RecordFailure (re_done env) (hd_breaker h)) h)\<lparr>hd_disk := d\<rparr>))" "gwf d" "exists_path d (mi_Path item)"
  then show ?thesis using assms(1,4)
    by (simp add: armed_def publish_stream_def after_call_def RecordFailure_def LoadState_def Let_def i32_id)
qed

lemma abandoned_steps:
  assumes "GetMediaItem mid store = Some item"
  shows "armed n (mi_Path item) h \<Longrightarrow> \<forall>env \<in> set envs. abandoned env (mi_Path item) \<Longrightarrow> n + length envs \<le> 4 \<Longrightarrow>
    armed (n + length envs) (mi_Path item) (fold (\<lambda>env h. snd (ServeHLS env store mid v h)) envs h)"
proof (induction envs arbitrary: n h)
  case (Cons env envs)
  have "armed (Suc n) (mi_Path item) (snd (ServeHLS env store mid v h))"
    using Cons.prems by (intro abandoned_step [OF _ assms]) auto
  then show ?case using Cons.IH [of "Suc n"] Cons.prems by simp
qed simp

text \<open>
  C30. Five requests whose clients hang up open the breaker of a new handler for every client, because the
  cancellation counts as a failure of ffmpeg; the next request falls back to a direct session.
\<close>

theorem abandoned_requests_open_breaker:
  assumes "GetMediaItem mid store = Some item" and "gwf d" and "exists_path d (mi_Path item)"
    and "length envs = 4" and "\<forall>env \<in> set (envs @ [env]). abandoned env (mi_Path item)"
    and "h = fold (\<lambda>env h. snd (ServeHLS env store mid v h)) (envs @ [env]) (NewHandler d)"
  shows "LoadState (hd_breaker h) = StateOpen \<and> lastFailureTime (hd_breaker h) = re_done env
    \<and> timeout (hd_breaker h) = 30 * Second \<and> gwf (hd_disk h) \<and> exists_path (hd_disk h) (mi_Path item)"
proof -
  have "armed 0 (mi_Path item) (NewHandler d)"
    using assms(2,3) by (simp add: armed_def NewHandler_def StateChangeHandler_def New_def DefaultConfig_def Let_def i32_id)
  then have a: "armed 4 (mi_Path item) (fold (\<lambda>env h. snd (ServeHLS env store mid v h)) envs (NewHandler d))" (is "armed 4 _ ?h4")
    using abandoned_steps [OF assms(1), of 0 "NewHandler d" envs v] assms(4,5) by simp
  have e: "abandoned env (mi_Path item)" and h: "h = snd (ServeHLS env store mid v ?h4)" using assms(5,6) by simp_all
  show ?thesis unfolding h
  proof (rule abandoned_request [OF a assms(1) e, of v])
    fix d
    assume "ServeHLS env store mid v ?h4 = (HttpError ''Failed to generate stream'' 500,
      publish_stream EventStreamError (noPayload\<lparr>sp_MediaItemID := mid, sp_MediaTitle := mi_Title item, sp_Variant := v\<rparr>)
        ((after_call (RecordFailure (re_done env) (hd_breaker ?h4)) ?h4)\<lparr>hd_disk := d\<rparr>))" "gwf d" "exists_path d (mi_Path item)"
    then show "LoadState (hd_breaker (snd (ServeHLS env store mid v ?h4))) = StateOpen
      \<and> lastFailureTime (hd_breaker (snd (ServeHLS env store mid v ?h4))) = re_done env
      \<and> timeout (hd_breaker (snd (ServeHLS env store mid v ?h4))) = 30 * Second \<and> gwf (hd_disk (snd (ServeHLS env store mid v ?h4)))
      \<and> exists_path (hd_disk (snd (ServeHLS env store mid v ?h4))) (mi_Path item)"
      using a by (simp add: armed_def publish_stream_def after_call_def RecordFailure_def LoadState_def Let_def i32_id
        toState_def StoreState_def onStateChangeUnsafe_def)
  qed
qed

section \<open>A transcoded session owns its directory\<close>

text \<open>
  C28. A session of HLS segments leaves no trace: after a successful request the master playlist lies in a directory of
  its own; ending the session removes that directory with everything in it and takes the session out again,
  and no path outside has changed, apart from the directories above that were missing.
\<close>

theorem hls_session_cleans_up:
  assumes "GetMediaItem mid store = Some item" and "exists_path (hd_disk h) (mi_Path item)" and "gwf (hd_disk h)"
    and "re_sysTemp env = abs_path es" and "list_all plain es" and "es \<noteq> []" and "writes_below (re_gen env)"
    and "GenerateHLS (re_gen env) (re_sysTemp env) (hd_segmenter h) (mi_Path item) (selectVariants v) (hls_options (re_sysTemp env)) (hd_disk h) = (Inr m, d)"
    and "fst (Allow (re_allow env) (hd_breaker h) :: string breaker_error option \<times> Breaker) = None"
    and "re_rnd env = Some bs" and "gget (hd_sessions h) (session_id bs) = None"
    and "ServeHLS env store mid v h = (resp, h1)" and "dir = abs_path (es @ [''hls_'' @ Itoa (ge_now (re_gen env))])"
  shows "resp = ManifestJSON (''/api/v1/stream/hls/playlist?path='' @ dir @ ''/master.m3u8'') (session_id bs)
    \<and> exists_path (hd_disk h1) (dir @ ''/master.m3u8'')
    \<and> (\<forall>i. gget (hd_sessions (EndSession (session_id bs) h1)) i = gget (hd_sessions h) i)
    \<and> (\<forall>q. under dir q \<longrightarrow> \<not> exists_path (hd_disk (EndSession (session_id bs) h1)) q)
    \<and> (\<forall>q. \<not> under dir q \<longrightarrow> exists_path (hd_disk h) q \<or> q \<notin> set (ancestors dir) \<longrightarrow>
          gget (hd_disk (EndSession (session_id bs) h1)) q = gget (hd_disk h) q)"
proof -
  let ?i = "session_id bs"
  let ?es = "es @ [''hls_'' @ Itoa (ge_now (re_gen env))]"
  have es: "list_all plain ?es" "?es \<noteq> []" using assms(5) plain_session by simp_all
  have "o_TempDir (with_defaults (re_sysTemp env) (hd_segmenter h) (hls_options (re_sysTemp env))) = abs_path es"
    using abs_not_dot(1) [OF assms(5,6)] by (simp add: with_defaults_def hls_options_def Let_def assms(4))
  from GenerateHLS_confined [OF assms(5,6) this assms(7,3,8)]
  have m: "hm_MasterPlaylist m = dir @ CHR ''/'' # ''master.m3u8''" "confined dir (hd_disk h) d" "exists_path d (hm_MasterPlaylist m)"
    unfolding assms(13) by auto
  obtain b where Do: "Do (re_allow env) (re_done env) (None :: string option) (hd_breaker h) = (None, b)"
    using assms(9) by (cases "Allow (re_allow env) (hd_breaker h) :: string breaker_error option \<times> Breaker") (auto simp: Do_def)
  obtain s where s: "ss_ManifestPath s = hm_MasterPlaylist m" "hd_sessions h1 = gput (hd_sessions h) ?i s" "hd_disk h1 = d"
      "resp = ManifestJSON (''/api/v1/stream/hls/playlist?path='' @ hm_MasterPlaylist m) ?i"
  proof
    let ?s = "\<lparr>ss_ID = ?i, ss_MediaItemID = mid, ss_UserID = [], ss_DeviceID = [], ss_StreamType = StreamTypeHLS,
      ss_StartTime = re_session env, ss_LastAccess = re_session env, ss_BytesServed = 0, ss_ManifestPath = hm_MasterPlaylist m, ss_Variant = v\<rparr>"
    have "ServeHLS env store mid v h =
        (ManifestJSON (''/api/v1/stream/hls/playlist?path='' @ hm_MasterPlaylist m) ?i,
         publish_stream EventStreamStarted (noPayload\<lparr>sp_StreamID := ?i, sp_SessionID := ?i, sp_MediaItemID := mid, sp_MediaTitle := mi_Title item, sp_Variant := v\<rparr>)
           ((after_call b h)\<lparr>hd_disk := d, hd_sessions := gput (hd_sessions h) ?i ?s\<rparr>))"
      using assms(1,2,8,10) Do by (simp add: ServeHLS_def StartSession_def SetSessionManifest_def after_call_def gomap_simps gput_gput Let_def)
    then show "hd_sessions h1 = gput (hd_sessions h) ?i ?s" "hd_disk h1 = d"
        "resp = ManifestJSON (''/api/v1/stream/hls/playlist?path='' @ hm_MasterPlaylist m) ?i"
      using assms(12) by (simp_all add: publish_stream_def)
    show "ss_ManifestPath ?s = hm_MasterPlaylist m" by simp
  qed
  have gd: "gwf d" using m(2) by (simp add: confined_def)
  have e: "hd_disk (EndSession ?i h1) = remove_dir (dir @ CHR ''/'' # ''master.m3u8'') d" "hd_sessions (EndSession ?i h1) = gdel (gput (hd_sessions h) ?i s) ?i"
    using s(1) by (simp_all add: EndSession_def s(2,3) gomap_simps publish_stream_def m(1))
  have r: "gget (hd_disk (EndSession ?i h1)) q = (if under dir q then None else gget d q)" for q
    unfolding e(1) assms(13) by (rule remove_dir_abs [OF es _ gd]) simp
  have "gget (hd_sessions (EndSession ?i h1)) i = gget (hd_sessions h) i" for i
    using assms(11) by (simp add: e(2) gomap_simps)
  moreover have "\<not> under dir q \<longrightarrow> exists_path (hd_disk h) q \<or> q \<notin> set (ancestors dir) \<longrightarrow> gget d q = gget (hd_disk h) q" for q
    using m(2) by (auto simp: confined_def exists_path_def)
  ultimately show ?thesis using s(3,4) m r by (simp add: exists_path_def)
qed

section \<open>Variants and orphans\<close>

text \<open>
  A request for a variant transcodes that variant and all higher ones, where its comment promises the lower
  ones: whoever asks for 360p makes the server produce 4k.
\<close>

theorem requested_variant_includes_higher:
  assumes "v \<in> set DefaultVariants"
  shows "set (selectVariants (v_Name v)) = {w \<in> set DefaultVariants. v_Height v \<le> v_Height w}
    \<and> hd (selectVariants (v_Name v)) = hd DefaultVariants"
proof -
  have "list_all (\<lambda>v. selectVariants (v_Name v) = filter (\<lambda>w. v_Height v \<le> v_Height w) DefaultVariants
      \<and> hd (selectVariants (v_Name v)) = hd DefaultVariants) DefaultVariants"
    by code_simp
  then show ?thesis using assms by (auto simp: list_all_iff)
qed

theorem requested_variant_includes_higher_witness:
  "hd (selectVariants ''360p'') = hd DefaultVariants"
  using requested_variant_includes_higher [of "last DefaultVariants"] by (simp add: DefaultVariants_def)

lemma RemoveAlls_get:
  assumes "list_all plain es" "es \<noteq> []" "\<forall>(n, e) \<in> set xs. plain n" "gwf d"
  shows "gget (fold (\<lambda>(n, _). RemoveAll (PathJoin (abs_path es) n)) xs d) q
     = (if \<exists>(n, e) \<in> set xs. under (abs_path (es @ [n])) q then None else gget d q)"
  using assms(3,4)
proof (induction xs arbitrary: d)
  case (Cons x xs)
  obtain n e where x: "x = (n, e)" by force
  then have n: "plain n" "list_all plain (es @ [n])" "es @ [n] \<noteq> []" using Cons.prems assms by auto
  have "gget (RemoveAll (PathJoin (abs_path es) n) d) q = (if under (abs_path (es @ [n])) q then None else gget d q)" for q
    unfolding PathJoin_abs [OF assms(1,2) n(1)] by (rule RemoveAll_get [OF Cons.prems(2) abs_not_dot(1-3) [OF n(2,3)]])
  then show ?case using Cons x RemoveAll_wf by auto
qed simp

lemma valid_plain: "isValidHLSName n \<Longrightarrow> plain n"
  by (auto simp: isValidHLSName_def plain_def)

text \<open>
  The cleanup of orphaned segments removes exactly the old directories directly below the temporary directory
  whose names are valid names of HLS sessions, with what lies in them, and no other path.
\<close>

theorem orphan_cleanup_confined:
  assumes "list_all plain es" and "es \<noteq> []" and "gwf (hd_disk h)"
  shows "gget (hd_disk (cleanupOrphanedSegments cwd now (abs_path es) h)) q =
    (if \<exists>n e. (n, e) \<in> set (ReadDir (abs_path es) (hd_disk h)) \<and> isDir e \<and> isValidHLSName n
          \<and> modTime e < now - hd_sessionTTL h \<and> under (abs_path (es @ [n])) q
     then None else gget (hd_disk h) q)"
proof -
  let ?xs = "filter (orphaned cwd now (abs_path es) (hd_sessionTTL h)) (ReadDir (abs_path es) (hd_disk h))"
  have "isPathInDirectory cwd (PathJoin (abs_path es) n) (abs_path es)" if "plain n" for n
  proof -
    have rooted: "abs_path fs \<noteq> [] \<and> hd (abs_path fs) = CHR ''/''" if "fs \<noteq> []" for fs using that by (cases fs) auto
    have c: "PathAbs cwd (abs_path es) = abs_path es" "PathAbs cwd (abs_path (es @ [n])) = abs_path (es @ [n])"
      using PathClean_abs(1) [of es] PathClean_abs(1) [of "es @ [n]"] rooted [of es] rooted [of "es @ [n]"] assms(1,2) that
      by (simp_all add: PathAbs_def)
    have "PathAbs cwd (PathJoin (abs_path es) n) = abs_path es @ CHR ''/'' # n"
      using c(2) by (simp only: PathJoin_abs [OF assms(1,2) that]) simp
    then show ?thesis by (auto simp: isPathInDirectory_def Let_def c(1) HasPrefix_iff)
  qed
  then have o: "orphaned cwd now (abs_path es) (hd_sessionTTL h) (n, e) \<longleftrightarrow> isDir e \<and> isValidHLSName n \<and> modTime e < now - hd_sessionTTL h" for n e
    using valid_plain [of n] by (auto simp: orphaned_def isValidHLSName_def Before_def Add_def)
  have "\<forall>(n, e) \<in> set ?xs. plain n" using valid_plain by (auto simp: o)
  from RemoveAlls_get [OF assms(1,2) this assms(3), of q]
  show ?thesis unfolding cleanupOrphanedSegments_def by (auto simp: o)
qed

section \<open>Instances\<close>

definition film :: MediaItem where
  "film = zeroItem\<lparr>mi_ID := ''F'', mi_LibraryID := ''L'', mi_Path := ''/media/a.mkv'', mi_Title := ''A''\<rparr>"

definition film_store :: Store where
  "film_store = \<lparr>media_items = [(''F'', film)], libraries = [], foreign_keys = True\<rparr>"

definition film_disk :: disk where
  "film_disk = [(''/media'', \<lparr>isDir = True, modTime = 0\<rparr>), (''/media/a.mkv'', \<lparr>isDir = False, modTime = 0\<rparr>),
     (''/media/b.mkv'', \<lparr>isDir = False, modTime = 0\<rparr>)]"

definition film_gen :: "string option \<Rightarrow> GenEnv" where
  "film_gen cancelled = \<lparr>ge_now = 5, ge_mkSession = None, ge_cancelled = (\<lambda>_. cancelled), ge_mkVariant = (\<lambda>_. None), ge_ffmpeg = (\<lambda>_. None),
     ge_produces = (\<lambda>args. [PathDir (last args) @ ''/segment_000.ts'']), ge_arrival = rev, ge_late = (\<lambda>_. False), ge_writeMaster = None\<rparr>"

definition film_env :: "string option \<Rightarrow> ReqEnv" where
  "film_env cancelled = \<lparr>re_allow = 5, re_done = 5, re_session = 5, re_rnd = Some [1], re_gen = film_gen cancelled, re_sysTemp = ''/tmp''\<rparr>"

lemma film_path: "''/media/a.mkv'' = abs_path [''media''] @ CHR ''/'' # ''a.mkv''" "list_all plain [''media'']" "''/tmp'' = abs_path [''tmp'']"
    "list_all plain [''tmp'']"
  by (simp_all add: plain_def)

lemma film_found: "GetMediaItem ''F'' film_store = Some film" "mi_Path film = ''/media/a.mkv''" "exists_path film_disk ''/media/a.mkv''" "gwf film_disk"
  by (simp_all add: GetMediaItem_def film_store_def film_def film_disk_def exists_path_def gget_def gwf_def)

definition open_handler :: Handler where
  "open_handler = (NewHandler film_disk)\<lparr>hd_breaker := (New (DefaultConfig ''ffmpeg''))\<lparr>state := StateOpen, lastFailureTime := 5\<rparr>\<rparr>"

theorem fallback_deletes_library_witness:
  "\<not> exists_path (hd_disk (EndSession (session_id [1]) (snd (ServeHLS (film_env None) film_store ''F'' [] open_handler)))) ''/media/b.mkv''"
proof -
  obtain resp h1 where r: "ServeHLS (film_env None) film_store ''F'' [] open_handler = (resp, h1)" by fastforce
  have h: "hd_disk open_handler = film_disk" "hd_sessions open_handler = []" "hd_sessionTTL open_handler = 4 * Hour"
      "LoadState (hd_breaker open_handler) = StateOpen" "lastFailureTime (hd_breaker open_handler) = 5" "timeout (hd_breaker open_handler) = 30 * Second"
    by (simp_all add: open_handler_def NewHandler_def LoadState_def New_def DefaultConfig_def Let_def)
  have e: "re_allow (film_env None) = 5" "re_rnd (film_env None) = Some [1]" "re_session (film_env None) = 5"
    by (simp_all add: film_env_def)
  have p: "playable film" by code_simp
  have u: "under (abs_path [''media'']) ''/media/b.mkv''" by code_simp
  show ?thesis
    using fallback_deletes_library [OF _ _ film_found(1) _ film_path(2) _ _ p _ h(4) _ e(2) r, of "''a.mkv''" "5 * Hour"] u film_found(2-4)
    by (simp add: h e r Sub_def)
qed

theorem abandoned_requests_open_breaker_witness:
  "LoadState (hd_breaker (fold (\<lambda>env h. snd (ServeHLS env film_store ''F'' [] h)) (replicate 4 (film_env (Some ''context canceled'')) @ [film_env (Some ''context canceled'')])
     (NewHandler film_disk))) = StateOpen"
proof -
  have "\<not> under (session_dir (film_gen c) (with_defaults ''/tmp'' (NewSegmenter [] []) (hls_options ''/tmp''))) ''/media/a.mkv''" for c
  proof -
    have "o_TempDir (with_defaults ''/tmp'' (NewSegmenter [] []) (hls_options ''/tmp'')) = abs_path [''tmp'']"
      by (simp add: with_defaults_def hls_options_def)
    from session_dir_abs [OF film_path(4) _ this, of "film_gen c"]
    show ?thesis by (simp add: under_def HasPrefix_def)
  qed
  then have "abandoned (film_env (Some ''context canceled'')) (mi_Path film)"
    by (simp add: abandoned_def film_env_def film_found(2)) (simp add: film_gen_def)
  then have "\<forall>env \<in> set (replicate 4 (film_env (Some ''context canceled'')) @ [film_env (Some ''context canceled'')]). abandoned env (mi_Path film)"
    by simp
  from abandoned_requests_open_breaker [OF film_found(1,4) _ _ this HOL.refl] show ?thesis using film_found by simp
qed

lemma one_variant:
  "\<exists>p d'. run_variant (film_gen None) s i sd opts (hd DefaultVariants) d = (Inr p, d') \<and> validVariantName (vp_Name p)"
proof -
  have "validVariantName (v_Name (hd DefaultVariants))" by code_simp
  then show ?thesis by (simp add: run_variant_def film_gen_def Let_def del: ex_simps)
qed

lemma only_4k: "selectVariants ''4k'' = [hd DefaultVariants]"
  by code_simp

lemma film_generates: "\<exists>m d. GenerateHLS (film_gen None) tmp s i [hd DefaultVariants] opts0 d0 = (Inr m, d)"
proof -
  define opts where "opts = with_defaults tmp s opts0"
  define sd where "sd = session_dir (film_gen None) opts"
  obtain p d' where p: "run_variant (film_gen None) s i sd opts (hd DefaultVariants) (MkdirAll 5 sd d0) = (Inr p, d')" "validVariantName (vp_Name p)"
    using one_variant by blast
  have n: "ge_mkSession (film_gen None) = None" "ge_arrival (film_gen None) = rev" "ge_now (film_gen None) = 5" "ge_writeMaster (film_gen None) = None"
    by (simp_all add: film_gen_def)
  show ?thesis unfolding GenerateHLS_def Let_def opts_def [symmetric] sd_def [symmetric] n by (simp add: p master_text_def)
qed

lemma film_writes: "writes_below (film_gen None)"
proof -
  have "under p (p @ ''/segment_000.ts'')" for p
    by (cases "p = ''/''") (auto simp: under_append, simp add: under_def HasPrefix_def)
  then show ?thesis by (simp add: writes_below_def film_gen_def)
qed

lemma film_env_simps: "re_gen (film_env c) = film_gen c" "re_sysTemp (film_env c) = ''/tmp''" "re_rnd (film_env c) = Some [1]" "ge_now (film_gen c) = 5"
  by (simp_all add: film_env_def film_gen_def)

lemma new_handler_simps:
  "hd_disk (NewHandler d) = d" "hd_segmenter (NewHandler d) = NewSegmenter [] []" "hd_sessions (NewHandler d) = []"
  "fst (Allow now (hd_breaker (NewHandler d)) :: string breaker_error option \<times> Breaker) = None"
  by (simp_all add: NewHandler_def StateChangeHandler_def New_def DefaultConfig_def Let_def Allow_def Allow_env_def LoadState_def)

theorem hls_session_cleans_up_witness:
  "\<exists>h1. ServeHLS (film_env None) film_store ''F'' ''4k'' (NewHandler film_disk)
      = (ManifestJSON (''/api/v1/stream/hls/playlist?path='' @ ''/tmp/hls_5'' @ ''/master.m3u8'') (session_id [1]), h1)
    \<and> \<not> exists_path (hd_disk (EndSession (session_id [1]) h1)) ''/tmp/hls_5/master.m3u8''"
proof -
  obtain resp h1 where r: "ServeHLS (film_env None) film_store ''F'' ''4k'' (NewHandler film_disk) = (resp, h1)" by fastforce
  obtain m d where m: "GenerateHLS (re_gen (film_env None)) (re_sysTemp (film_env None)) (hd_segmenter (NewHandler film_disk)) (mi_Path film)
      (selectVariants ''4k'') (hls_options (re_sysTemp (film_env None))) (hd_disk (NewHandler film_disk)) = (Inr m, d)"
    unfolding film_env_simps only_4k using film_generates by blast
  have i: "Itoa 5 = ''5''" by code_simp
  have dir: "''/tmp/hls_5'' = abs_path ([''tmp''] @ [''hls_'' @ Itoa (ge_now (re_gen (film_env None)))])"
    by (simp add: film_env_simps i)
  have u: "under ''/tmp/hls_5'' ''/tmp/hls_5/master.m3u8''" by code_simp
  have "exists_path (hd_disk (NewHandler film_disk)) (mi_Path film)" "gwf (hd_disk (NewHandler film_disk))"
    "re_sysTemp (film_env None) = abs_path [''tmp'']" "[''tmp''] \<noteq> []" "writes_below (re_gen (film_env None))"
    "gget (hd_sessions (NewHandler film_disk)) (session_id [1]) = None"
    using film_found film_path(3) film_writes by (simp_all add: new_handler_simps film_env_simps)
  note c = hls_session_cleans_up [OF film_found(1) this(1-3) film_path(4) this(4,5) m new_handler_simps(4) film_env_simps(3) this(6) r dir]
  show ?thesis using c u r by blast
qed

end
