(* ===== verification/SoC.thy ===== *)
theory SoC
  imports Strings DeviceTypes "HOL-Library.Multiset"
begin

text \<open>
  Inferring a device's abilities from its system on a chip: \<^verbatim>\<open>internal/probes/soc_inference.go\<close>.
  The table and the aliases are Go maps; the lookup's last resort visits the table in an order that Go
  leaves open, which is an argument of the lookup. The Greek letter of the LG names is its two UTF-8
  bytes.
\<close>

record CodecCapabilities =
  soc_VideoCodecs :: "string list"
  HDR :: "string list"
  DolbyVision :: bool
  DTS :: bool
  TrueHD :: bool
  MaxRes :: int
  soc_MaxBitrate :: int

definition soc :: "string list \<Rightarrow> string list \<Rightarrow> bool \<Rightarrow> bool \<Rightarrow> bool \<Rightarrow> int \<Rightarrow> int \<Rightarrow> CodecCapabilities" where
  "soc v h dv dts th r b = \<lparr>soc_VideoCodecs = v, HDR = h, DolbyVision = dv, DTS = dts, TrueHD = th, MaxRes = r,
     soc_MaxBitrate = b\<rparr>"

definition alpha :: string where "alpha = [CHR 0xCE, CHR 0xB1]"

definition socCapabilityTable :: "(string, CodecCapabilities) gomap" where
  "socCapabilityTable = [
     (''Exynos M7'', soc [''h264'', ''hevc'', ''vp9'', ''av1''] [''hdr10'', ''hdr10+''] False False True 4320 200000000),
     (''Exynos M6'', soc [''h264'', ''hevc'', ''vp9'', ''av1''] [''hdr10'', ''hdr10+''] False False True 2160 125000000),
     (''Exynos M5'', soc [''h264'', ''hevc'', ''vp9''] [''hdr10'', ''hdr10+''] False False True 2160 100000000),
     (''Exynos M4'', soc [''h264'', ''hevc'', ''vp9''] [''hdr10''] False False True 2160 80000000),
     (alpha @ ''9 Gen 6'', soc [''h264'', ''hevc'', ''vp9'', ''av1''] [''hdr10'', ''hlg'', ''dolby_vision''] True True True 4320 200000000),
     (alpha @ ''9 Gen 5'', soc [''h264'', ''hevc'', ''vp9'', ''av1''] [''hdr10'', ''hlg'', ''dolby_vision''] True True True 2160 125000000),
     (alpha @ ''7 Gen 7'', soc [''h264'', ''hevc'', ''vp9'', ''av1''] [''hdr10'', ''hlg'', ''dolby_vision''] True True True 2160 100000000),
     (''Amlogic S905X4'', soc [''h264'', ''hevc'', ''av1''] [''hdr10'', ''dolby_vision''] True True False 2160 100000000),
     (''Amlogic S905X3'', soc [''h264'', ''hevc'', ''av1''] [''hdr10'', ''dolby_vision''] True True False 2160 80000000),
     (''Amlogic S905X2'', soc [''h264'', ''hevc''] [''hdr10''] False True False 2160 60000000),
     (''Amlogic S905W'', soc [''h264'', ''hevc''] [''hdr10''] False True False 2160 40000000),
     (''Tegra X1+'', soc [''h264'', ''hevc'', ''vp9'', ''av1''] [''hdr10'', ''dolby_vision''] True True True 2160 200000000),
     (''MediaTek MT8163'', soc [''h264'', ''hevc'', ''vp9''] [''hdr10'', ''dolby_vision''] True True False 2160 60000000),
     (''MediaTek MT7921'', soc [''h264'', ''hevc'', ''vp9'', ''av1''] [''hdr10'', ''dolby_vision''] True True True 2160 100000000),
     (''MediaTek MT8695'', soc [''h264'', ''hevc'', ''vp9'', ''av1''] [''hdr10'', ''dolby_vision''] True True True 2160 120000000),
     (''A15 Bionic'', soc [''h264'', ''hevc'', ''vp9'', ''av1''] [''hdr10'', ''dolby_vision'', ''hlg''] True False False 2160 100000000),
     (''A14 Bionic'', soc [''h264'', ''hevc'', ''vp9''] [''hdr10'', ''dolby_vision'', ''hlg''] True False False 2160 100000000),
     (''A12 Bionic'', soc [''h264'', ''hevc'', ''vp9''] [''hdr10'', ''dolby_vision'', ''hlg''] True False False 2160 80000000),
     (''Realtek RTD1295'', soc [''h264'', ''hevc'', ''vp9''] [''hdr10''] False True True 2160 100000000),
     (''Realtek RTD1319'', soc [''h264'', ''hevc'', ''vp9'', ''av1''] [''hdr10'', ''dolby_vision''] True True True 2160 120000000)]"

definition socAliases :: "(string, string) gomap" where
  "socAliases = [
     (''exynos_m7'', ''Exynos M7''), (''exynos_9'', ''Exynos M7''), (''exynos_m6'', ''Exynos M6''),
     (''exynos_m5'', ''Exynos M5''), (''exynos_m4'', ''Exynos M4''), (''exynos_9630'', ''Exynos M5''),
     (''exynos_9638'', ''Exynos M4''), (''alpha9'', alpha @ ''9 Gen 6''), (''alpha_9'', alpha @ ''9 Gen 6''),
     (''alpha_7'', alpha @ ''7 Gen 7''), (''a9gen6'', alpha @ ''9 Gen 6''), (''a9gen5'', alpha @ ''9 Gen 5''),
     (''a7gen7'', alpha @ ''7 Gen 7''), (''s905x4'', ''Amlogic S905X4''), (''s905x3'', ''Amlogic S905X3''),
     (''s905x2'', ''Amlogic S905X2''), (''s905w'', ''Amlogic S905W''), (''amlogic_t965'', ''Amlogic S905X4''),
     (''tegra_x1_plus'', ''Tegra X1+''), (''tegra_x1'', ''Tegra X1+''), (''mt8163'', ''MediaTek MT8163''),
     (''mt7921'', ''MediaTek MT7921''), (''mt8695'', ''MediaTek MT8695''), (''mt8581'', ''MediaTek MT8695''),
     (''a15'', ''A15 Bionic''), (''a14'', ''A14 Bionic''), (''a12'', ''A12 Bionic''),
     (''apple_tv_a15'', ''A15 Bionic''), (''rtd1295'', ''Realtek RTD1295''), (''rtd1319'', ''Realtek RTD1319''),
     (''realtek_rtd1295'', ''Realtek RTD1295''), (''realtek_rtd1319'', ''Realtek RTD1319'')]"

text \<open>\<open>order\<close> is the table as \<^verbatim>\<open>range\<close> visits it.\<close>

definition underscored :: "string \<Rightarrow> string" where
  "underscored s = map (\<lambda>c. if c = CHR '' '' then CHR ''_'' else c) s"

definition GetSoCCapabilities :: "(string, CodecCapabilities) gomap \<Rightarrow> string \<Rightarrow> CodecCapabilities option" where
  "GetSoCCapabilities order socName =
     (case gget socCapabilityTable socName of
        Some caps \<Rightarrow> Some caps
      | None \<Rightarrow>
          (case Option.bind (gget socAliases (ToLower (underscored socName))) (gget socCapabilityTable) of
             Some caps \<Rightarrow> Some caps
           | None \<Rightarrow> map_option snd (find (\<lambda>(key, caps). HasPrefix (ToLower socName) (ToLower key)) order)))"

definition InferCapabilitiesFromSoC ::
    "(string, CodecCapabilities) gomap \<Rightarrow> string \<Rightarrow> int \<Rightarrow> DeviceCapabilities option" where
  "InferCapabilitiesFromSoC order socName year =
     (case GetSoCCapabilities order socName of
        None \<Rightarrow> None
      | Some caps \<Rightarrow>
          (let maxHeight = MaxRes caps;
               maxWidth = (if maxHeight \<ge> 4320 then 7680
                           else if maxHeight \<ge> 2160 then 3840
                           else if maxHeight \<ge> 1080 then 1920
                           else maxHeight * 16 div 9);
               audio = [''aac'', ''ac3'', ''eac3'', ''opus'', ''mp3''];
               audio = (if TrueHD caps then audio @ [''truehd'', ''flac''] else audio);
               audio = (if DTS caps then audio @ [''dts'', ''dtshd''] else audio)
           in Some (zeroCapabilities
                \<lparr>VideoCodecs := soc_VideoCodecs caps, MaxWidth := maxWidth, MaxHeight := maxHeight,
                 MaxBitrate := soc_MaxBitrate caps, SupportsHDR := HDR caps \<noteq> [],
                 SupportsDolbyVision := DolbyVision caps, SupportsDTS := DTS caps,
                 AudioCodecs := audio, SubtitleFormats := [''srt'', ''vtt''],
                 ContainerFormats := [''mp4'', ''mkv'', ''ts'']\<rparr>)))"

definition InferDeviceClass :: "(string, CodecCapabilities) gomap \<Rightarrow> string \<Rightarrow> int \<Rightarrow> int \<Rightarrow> string" where
  "InferDeviceClass order socName year maxRes =
     (if GetSoCCapabilities order socName = None then ''D''
      else if maxRes \<ge> 4320 \<or> Contains (ToLower socName) ''m7''
              \<or> Contains (ToLower socName) (alpha @ ''9 gen 6'') \<or> Contains (ToLower socName) ''a15'' then ''A''
      else if maxRes \<ge> 2160 \<and> year \<ge> 2022 then ''B''
      else if maxRes \<ge> 2160 then ''C''
      else ''D'')"

section \<open>The lookup does not depend on the order of the table\<close>

lemma prefixes_comparable: "HasPrefix s p \<Longrightarrow> HasPrefix s q \<Longrightarrow> HasPrefix p q \<or> HasPrefix q p"
  unfolding HasPrefix_iff by (metis append_eq_append_conv2)

lemma find_unique:
  assumes "x \<in> set xs" "P x" "\<And>y. y \<in> set xs \<Longrightarrow> P y \<Longrightarrow> y = x"
  shows "find P xs = Some x"
proof (cases "find P xs")
  case None
  then show ?thesis using assms(1,2) by (auto simp: find_None_iff)
next
  case (Some z)
  then have "z \<in> set xs" "P z" by (auto simp: find_Some_iff)
  then show ?thesis using assms(3) Some by blast
qed

lemma find_permuted:
  assumes m: "mset xs = mset ys" and u: "\<And>x y. x \<in> set ys \<Longrightarrow> y \<in> set ys \<Longrightarrow> P x \<Longrightarrow> P y \<Longrightarrow> x = y"
  shows "find P xs = find P ys"
proof (cases "find P ys")
  case None
  then have "find P xs = None" using mset_eq_setD [OF m] by (auto simp: find_None_iff)
  then show ?thesis using None by simp
next
  case (Some y)
  then have y: "y \<in> set ys" "P y" by (auto simp: find_Some_iff)
  then have "find P xs = Some y" using mset_eq_setD [OF m] u by (intro find_unique) auto
  then show ?thesis using Some by simp
qed

text \<open>No name of the table is, in lower case, the beginning of another one.\<close>

fun prefix_free :: "string list \<Rightarrow> bool" where
  "prefix_free [] \<longleftrightarrow> True"
| "prefix_free (x # xs) \<longleftrightarrow> list_all (\<lambda>y. \<not> HasPrefix x y \<and> \<not> HasPrefix y x) xs \<and> prefix_free xs"

lemma table_names: "map (\<lambda>kv. ToLower (fst kv)) socCapabilityTable = [
  ''exynos m7'',
  ''exynos m6'',
  ''exynos m5'',
  ''exynos m4'',
  CHR 0xCE # CHR 0xB1 # ''9 gen 6'',
  CHR 0xCE # CHR 0xB1 # ''9 gen 5'',
  CHR 0xCE # CHR 0xB1 # ''7 gen 7'',
  ''amlogic s905x4'',
  ''amlogic s905x3'',
  ''amlogic s905x2'',
  ''amlogic s905w'',
  ''tegra x1+'',
  ''mediatek mt8163'',
  ''mediatek mt7921'',
  ''mediatek mt8695'',
  ''a15 bionic'',
  ''a14 bionic'',
  ''a12 bionic'',
  ''realtek rtd1295'',
  ''realtek rtd1319'']"
  by code_simp

lemma table_prefix_free: "prefix_free (map (\<lambda>kv. ToLower (fst kv)) socCapabilityTable)"
  unfolding table_names by code_simp

lemma prefix_free_unique:
  "prefix_free (map f xs) \<Longrightarrow> x \<in> set xs \<Longrightarrow> y \<in> set xs \<Longrightarrow> HasPrefix s (f x) \<Longrightarrow> HasPrefix s (f y) \<Longrightarrow> x = y"
proof (induction xs)
  case (Cons a xs)
  have "\<And>z. z \<in> set xs \<Longrightarrow> \<not> (HasPrefix s (f a) \<and> HasPrefix s (f z))"
    using Cons.prems(1) prefixes_comparable by (fastforce simp: list_all_iff)
  then show ?case using Cons by (auto simp: list_all_iff)
qed simp

lemma table_match_unique:
  "x \<in> set socCapabilityTable \<Longrightarrow> y \<in> set socCapabilityTable \<Longrightarrow> HasPrefix s (ToLower (fst x)) \<Longrightarrow>
   HasPrefix s (ToLower (fst y)) \<Longrightarrow> x = y"
  using prefix_free_unique [OF table_prefix_free] .

text \<open>
  The lookup of a system on a chip gives the same answer for every order in which Go may visit the table.
\<close>

theorem soc_lookup_ignores_map_order:
  assumes "mset order = mset socCapabilityTable"
  shows "GetSoCCapabilities order socName = GetSoCCapabilities socCapabilityTable socName"
proof -
  have "find (\<lambda>(key, caps). HasPrefix (ToLower socName) (ToLower key)) order
      = find (\<lambda>(key, caps). HasPrefix (ToLower socName) (ToLower key)) socCapabilityTable"
    by (rule find_permuted [OF assms]) (auto dest: table_match_unique)
  then show ?thesis unfolding GetSoCCapabilities_def by (rule arg_cong)
qed

definition pro_name :: string where "pro_name = ''exynos m6 pro''"

theorem soc_lookup_ignores_map_order_witness:
  "mset (rev socCapabilityTable) = mset socCapabilityTable \<and>
   GetSoCCapabilities (rev socCapabilityTable) pro_name = GetSoCCapabilities socCapabilityTable pro_name \<and>
   GetSoCCapabilities socCapabilityTable pro_name \<noteq> None"
proof -
  have "mset (rev socCapabilityTable) = mset socCapabilityTable" by simp
  note this soc_lookup_ignores_map_order [OF this, of pro_name]
  moreover have "GetSoCCapabilities socCapabilityTable pro_name \<noteq> None" by code_simp
  ultimately show ?thesis by blast
qed

section \<open>What is inferred\<close>

text \<open>Facts of every row, checked once over the whole table.\<close>

definition row_ok :: "CodecCapabilities \<Rightarrow> bool" where
  "row_ok c \<longleftrightarrow> (MaxRes c = 2160 \<or> MaxRes c = 4320) \<and> HDR c \<noteq> [] \<and> ''hdr10'' \<in> set (HDR c) \<and>
     (DolbyVision c \<longleftrightarrow> ''dolby_vision'' \<in> set (HDR c)) \<and>
     ''h264'' \<in> set (soc_VideoCodecs c) \<and> ''hevc'' \<in> set (soc_VideoCodecs c) \<and> 0 < soc_MaxBitrate c"

lemma table_rows_ok: "list_all (\<lambda>kv. row_ok (snd kv)) socCapabilityTable"
  by code_simp

lemma lookup_in_table:
  assumes "set order \<subseteq> set socCapabilityTable" "GetSoCCapabilities order s = Some c"
  shows "row_ok c"
proof -
  have t: "\<And>k. (k, c) \<in> set socCapabilityTable \<Longrightarrow> row_ok c" using table_rows_ok by (auto simp: list_all_iff)
  have g: "\<And>k c'. gget socCapabilityTable k = Some c' \<Longrightarrow> c' = c \<Longrightarrow> row_ok c"
    using t by (auto simp: gget_def dest: map_of_SomeD)
  show ?thesis using assms g t
    by (auto simp: GetSoCCapabilities_def find_Some_iff Option.bind_eq_Some_conv split: option.splits)
       (metis nth_mem subset_eq prod.collapse)+
qed

text \<open>
  Whatever chip is recognised, the inferred device has H.264, HEVC and HDR, a 16:9 picture of 3840x2160 or
  7680x4320, a positive bitrate, and lists DTS among its audio codecs exactly when it claims to support DTS.
\<close>

theorem inferred_capabilities_consistent:
  assumes "set order \<subseteq> set socCapabilityTable" and "InferCapabilitiesFromSoC order socName year = Some d"
  shows "''h264'' \<in> set (VideoCodecs d) \<and> ''hevc'' \<in> set (VideoCodecs d) \<and> SupportsHDR d \<and>
     (MaxWidth d, MaxHeight d) \<in> {(3840, 2160), (7680, 4320)} \<and> 0 < MaxBitrate d \<and>
     (''dts'' \<in> set (AudioCodecs d) \<longleftrightarrow> SupportsDTS d)"
proof -
  obtain c where c: "GetSoCCapabilities order socName = Some c"
    using assms(2) by (auto simp: InferCapabilitiesFromSoC_def split: option.splits)
  note r = lookup_in_table [OF assms(1) c, unfolded row_ok_def]
  show ?thesis using assms(2) r
    by (auto simp: InferCapabilitiesFromSoC_def c Let_def split: if_splits)
qed

theorem inferred_capabilities_consistent_witness:
  "InferCapabilitiesFromSoC socCapabilityTable ''a15'' 2023 \<noteq> None \<and>
   (\<forall>d. InferCapabilitiesFromSoC socCapabilityTable ''a15'' 2023 = Some d \<longrightarrow> SupportsHDR d)"
proof (intro conjI allI impI)
  show "InferCapabilitiesFromSoC socCapabilityTable ''a15'' 2023 \<noteq> None" by code_simp
next
  fix d assume "InferCapabilitiesFromSoC socCapabilityTable ''a15'' 2023 = Some d"
  from inferred_capabilities_consistent [OF _ this] show "SupportsHDR d" by simp
qed

text \<open>
  The class of a device depends on how its chip is written: the marketing name of LG's and Samsung's best
  chip gives class A, an alias of the same chip only class C.
\<close>

definition lg_name :: string where "lg_name = alpha @ ''9 Gen 6''"

theorem device_class_depends_on_spelling:
  "GetSoCCapabilities socCapabilityTable ''alpha9'' = GetSoCCapabilities socCapabilityTable lg_name \<and>
   InferDeviceClass socCapabilityTable lg_name 2021 2160 = ''A'' \<and>
   InferDeviceClass socCapabilityTable ''alpha9'' 2021 2160 = ''C'' \<and>
   GetSoCCapabilities socCapabilityTable ''exynos_9'' = GetSoCCapabilities socCapabilityTable ''Exynos M7'' \<and>
   InferDeviceClass socCapabilityTable ''Exynos M7'' 2021 2160 = ''A'' \<and>
   InferDeviceClass socCapabilityTable ''exynos_9'' 2021 2160 = ''C''"
  by code_simp

end
