(* ===== verification/Adapter.thy ===== *)
theory Adapter
  imports Trust
begin

text \<open>
  What the client adapters of \<^verbatim>\<open>internal/clients\<close> share: the request they read, the number parsing whose
  errors they ignore, the list membership test, and the trust score that starts from a base, grows by small
  steps and is capped. \<^verbatim>\<open>adapter.go\<close> declares the interface; the record \<open>ClientAdapter\<close> of theory Clients
  is its model.
\<close>

section \<open>Requests\<close>

text \<open>
  \<open>rq_Get\<close> is \<^verbatim>\<open>Header.Get\<close> (the empty string for a header that is absent); the body is what the JSON
  decoder would make of it, or nothing where it fails or there is no body.
\<close>

record 'r http_request =
  rq_Get :: "string \<Rightarrow> string"
  rq_ContentLength :: int
  rq_Body :: "'r option"

definition UserAgent_of :: "'r http_request \<Rightarrow> string" where "UserAgent_of r = rq_Get r ''User-Agent''"

definition device_id :: "'r http_request \<Rightarrow> string" where
  "device_id r = (if rq_Get r ''X-Device-ID'' = [] then rq_Get r ''X-DeviceId'' else rq_Get r ''X-Device-ID'')"

text \<open>The body is read when it is not empty and shorter than one megabyte.\<close>

definition has_body :: "'r http_request \<Rightarrow> bool" where
  "has_body r \<longleftrightarrow> 0 < rq_ContentLength r \<and> rq_ContentLength r < 2 ^ 20"

section \<open>Numbers whose errors are ignored\<close>

text \<open>
  The value that \<^verbatim>\<open>strconv.Atoi\<close> and \<^verbatim>\<open>ParseInt\<close> return, with or without an error: zero for
  text that is no number and the end of the 64-bit range for a number outside it.
\<close>

definition Atoi_value :: "string \<Rightarrow> int" where
  "Atoi_value s =
     (let (neg, t) = (case s of [] \<Rightarrow> (False, s)
                      | c # u \<Rightarrow> if c = CHR ''-'' then (True, u) else if c = CHR ''+'' then (False, u) else (False, s))
      in if t = [] \<or> \<not> list_all is_digit t then 0
         else max (- (2 ^ 63)) (min (2 ^ 63 - 1) (if neg then - int (digits_val t) else int (digits_val t))))"

lemma Atoi_value_ok: "Atoi s = Some n \<Longrightarrow> Atoi_value s = n"
  by (auto simp: Atoi_def Atoi_value_def Let_def split: list.splits if_splits prod.splits)

lemma Atoi_value_range: "- (2 ^ 63) \<le> Atoi_value s \<and> Atoi_value s < 2 ^ 63"
  by (auto simp: Atoi_value_def Let_def split: prod.splits)

section \<open>Lists\<close>

definition contains :: "string list \<Rightarrow> string \<Rightarrow> bool" where
  "contains slice val = list_ex (\<lambda>s. EqualFold s val) slice"

text \<open>Appending a value that is not there yet.\<close>

definition append_new :: "string list \<Rightarrow> string \<Rightarrow> string list" where
  "append_new xs v = (if contains xs v then xs else xs @ [v])"

definition folded_distinct :: "string list \<Rightarrow> bool" where
  "folded_distinct xs \<longleftrightarrow> distinct (map ToLower xs)"

lemma contains_iff: "contains xs v \<longleftrightarrow> ToLower v \<in> ToLower ` set xs"
  unfolding contains_def EqualFold_def list_ex_iff image_iff by metis

lemma append_new_distinct [intro]: "folded_distinct xs \<Longrightarrow> folded_distinct (append_new xs v)"
  by (auto simp: folded_distinct_def append_new_def contains_iff)

lemma append_new_contains [simp]: "contains (append_new xs v) w \<longleftrightarrow> contains xs w \<or> EqualFold v w"
  by (auto simp: append_new_def contains_iff EqualFold_def)

lemma append_new_nonempty [simp]: "append_new xs v \<noteq> []"
  by (auto simp: append_new_def contains_def)

lemma folded_distinct_Nil [simp]: "folded_distinct []"
  by (simp add: folded_distinct_def)

section \<open>Capped trust\<close>

definition step_up :: "bool \<Rightarrow> float64 \<Rightarrow> float64 \<Rightarrow> float64" where
  "step_up c d t = (if c then fadd t d else t)"

lemma fl_idem [simp]: "fl (fl x) = fl x"
proof (cases "x = 0")
  case False
  then have x: "0 < \<bar>x\<bar>" by simp
  let ?u = "ulp_exp x"
  have "\<bar>x\<bar> < pow2 (ilog2 \<bar>x\<bar> + 1)" using ilog2_bounds(2) [OF x] .
  also have "\<dots> \<le> pow2 (53 + ?u)" by (simp add: ulp_exp_def)
  finally have "\<bar>x\<bar> / pow2 ?u \<le> pow2 53" by (simp add: pow2_add divide_le_eq less_imp_le)
  then have "\<bar>x / pow2 ?u\<bar> \<le> of_int (2 ^ 53)" by (simp add: pow2_def abs_divide)
  then have "x / pow2 ?u \<le> of_int (2 ^ 53)" "of_int (- (2 ^ 53)) \<le> x / pow2 ?u"
    unfolding abs_le_iff of_int_minus by linarith+
  then have "rne (x / pow2 ?u) \<le> 2 ^ 53" "- (2 ^ 53) \<le> rne (x / pow2 ?u)"
    by (metis rne_mono rne_of_int)+
  then have "\<bar>rne (x / pow2 ?u)\<bar> \<le> 2 ^ 53" by simp
  then show ?thesis using fl_representable [of "rne (x / pow2 ?u)" ?u] False by (simp add: fl_def [of x] ulp_exp_def)
qed simp

lemma fl_lit [simp]: "fl (lit n d) = lit n d"
  by (simp add: lit_def)

text \<open>A trust score is a double and only grows from step to step.\<close>

definition grown :: "float64 \<Rightarrow> float64 \<Rightarrow> bool" where
  "grown t0 t \<longleftrightarrow> fl t = t \<and> t0 \<le> t"

lemma grown_start: "fl t = t \<Longrightarrow> grown t t"
  by (simp add: grown_def)

lemma grown_step:
  assumes "grown t0 t" "0 \<le> d"
  shows "grown t0 (step_up c d t)"
proof -
  have "fl t \<le> fl (t + d)" using assms(2) by (intro fl_mono) simp
  then show ?thesis using assms(1) by (auto simp: grown_def step_up_def fadd_def)
qed

lemma lit_nonneg: "0 \<le> n \<Longrightarrow> 0 < d \<Longrightarrow> 0 \<le> lit n d"
  by (simp add: lit_def fl_nonneg)

lemma lit_le: "0 < d \<Longrightarrow> m \<le> n \<Longrightarrow> lit m d \<le> lit n d"
  unfolding lit_def by (intro fl_mono divide_right_mono) simp_all

definition cap_at :: "float64 \<Rightarrow> float64 \<Rightarrow> float64" where "cap_at m t = (if t > m then m else t)"

lemma grown_capped: "grown t0 t \<Longrightarrow> t0 \<le> m \<Longrightarrow> t0 \<le> cap_at m t \<and> cap_at m t \<le> m"
  by (auto simp: grown_def cap_at_def)

end
