(* ===== verification/WebClient.thy ===== *)
theory WebClient
  imports Adapter
begin

text \<open>
  The web adapter: \<^verbatim>\<open>internal/clients/web.go\<close>. The three regular expressions it uses have the form of a
  fixed text, digits and a dot; they are written out as a search.
\<close>

section \<open>Browsers\<close>

text \<open>
  The leftmost place where the text (whatever its case) is followed by digits and a dot: the digits.
  The digits are matched greedily, and no fewer of them can be followed by a dot.
\<close>

fun version_after :: "string \<Rightarrow> string \<Rightarrow> string option" where
  "version_after p [] = None"
| "version_after p (c # s) =
     (let rest = drop (length p) (c # s); ds = takeWhile is_digit rest
      in if HasPrefix (ToLower (c # s)) (ToLower p) \<and> ds \<noteq> [] \<and> HasPrefix (drop (length ds) rest) ''.'' then Some ds
         else version_after p s)"

definition browser :: "string \<Rightarrow> string \<Rightarrow> DeviceCapabilities \<Rightarrow> DeviceCapabilities" where
  "browser platform name caps =
     caps\<lparr>Platform := platform,
       Identity := (Identity caps)\<lparr>id_Platform := (id_Platform (Identity caps))\<lparr>WebBrowser := name\<rparr>\<rparr>\<rparr>"

definition with_version :: "string \<Rightarrow> DeviceCapabilities \<Rightarrow> DeviceCapabilities" where
  "with_version v caps = (if Atoi_value v > 0 then caps\<lparr>OSVersion := v\<rparr> else caps)"

definition detectBrowser :: "'r http_request \<Rightarrow> DeviceCapabilities \<Rightarrow> DeviceCapabilities" where
  "detectBrowser r caps =
     (let ua = UserAgent_of r
      in case version_after ''Chrome/'' ua of
           Some v \<Rightarrow> with_version v (if Contains ua ''Edg/'' \<or> Contains ua ''Edge/'' then browser ''edge'' ''edge'' caps
                                     else browser ''chrome'' ''chrome'' caps)
         | None \<Rightarrow>
        (case version_after ''Firefox/'' ua of
           Some v \<Rightarrow> with_version v (browser ''firefox'' ''firefox'' caps)
         | None \<Rightarrow>
             if Contains ua ''Safari/'' \<and> \<not> Contains ua ''Chrome/'' then
               (case version_after ''Version/'' ua of
                  Some v \<Rightarrow> (browser ''safari'' ''safari'' caps)\<lparr>OSVersion := v\<rparr>
                | None \<Rightarrow> browser ''safari'' ''safari'' caps)
             else if Contains ua ''SamsungBrowser'' then browser ''samsung_browser'' ''samsung_browser'' caps
             else if Contains ua ''LG Browser'' \<or> Contains ua ''NetCast'' then browser ''webos'' ''lg_browser'' caps
             else if Contains ua ''Roku'' then browser ''roku'' ''roku_browser'' caps
             else browser ''web_browser'' ''unknown'' caps))"

section \<open>Headers and body\<close>

definition header_list :: "string \<Rightarrow> string list" where
  "header_list s = map TrimSpace (SplitAt CHR '','' (ToLower s))"

definition header_hdr :: "string \<Rightarrow> DeviceCapabilities \<Rightarrow> DeviceCapabilities" where
  "header_hdr hdr caps =
     (let h = ToLower hdr
      in caps\<lparr>SupportsHDR := (h = ''true'' \<or> Contains h ''hdr''), SupportsDolbyVision := (Contains h ''dolby'' \<or> Contains h ''dv'')\<rparr>)"

definition web_resolution :: "string \<Rightarrow> DeviceCapabilities \<Rightarrow> DeviceCapabilities" where
  "web_resolution res caps =
     (case SplitAt CHR ''x'' res of
        [a, b] \<Rightarrow>
          (let w = Atoi_value (TrimSpace a); h = Atoi_value (TrimSpace b);
               caps = (if w > 0 then caps\<lparr>MaxWidth := w\<rparr> else caps)
           in if h > 0 then caps\<lparr>MaxHeight := h\<rparr> else caps)
      | _ \<Rightarrow> caps)"

definition extractCodecHeaders :: "'r http_request \<Rightarrow> DeviceCapabilities \<Rightarrow> DeviceCapabilities" where
  "extractCodecHeaders r caps =
     (let get = rq_Get r;
          caps = (if get ''X-Codec-Video'' = [] then caps else caps\<lparr>VideoCodecs := header_list (get ''X-Codec-Video'')\<rparr>);
          caps = (if get ''X-Codec-Audio'' = [] then caps else caps\<lparr>AudioCodecs := header_list (get ''X-Codec-Audio'')\<rparr>);
          caps = (if get ''X-Container'' = [] then caps else caps\<lparr>ContainerFormats := header_list (get ''X-Container'')\<rparr>);
          caps = (if get ''X-HDR'' = [] then caps else header_hdr (get ''X-HDR'') caps);
          caps = (if get ''X-Resolution'' = [] then caps else web_resolution (get ''X-Resolution'') caps);
          caps = (case Atoi (get ''X-Max-Bitrate'') of None \<Rightarrow> caps | Some br \<Rightarrow> caps\<lparr>MaxBitrate := br\<rparr>);
          caps = (if get ''X-DRM'' = [] then caps
                  else caps\<lparr>DRMSupport := Some \<lparr>Supported = True, Systems = SplitAt CHR '','' (ToLower (get ''X-DRM'')), Details = []\<rparr>\<rparr>)
      in caps\<lparr>AppVersion := get ''X-App-Version'', DeviceName := get ''X-Device-Name''\<rparr>)"

text \<open>The body holds a probe report; a field that is set there wins over the headers.\<close>

definition extractProbeBody :: "ProbeReport option \<Rightarrow> DeviceCapabilities \<Rightarrow> DeviceCapabilities" where
  "extractProbeBody body caps =
     (case body of None \<Rightarrow> caps
      | Some report \<Rightarrow>
          (let d = pr_DeviceCapabilities report;
               caps = (if DeviceID d \<noteq> [] then caps\<lparr>DeviceID := DeviceID d\<rparr> else caps);
               caps = (if Platform d \<noteq> [] then caps\<lparr>Platform := Platform d\<rparr> else caps);
               caps = (if VideoCodecs d \<noteq> [] then caps\<lparr>VideoCodecs := VideoCodecs d\<rparr> else caps);
               caps = (if AudioCodecs d \<noteq> [] then caps\<lparr>AudioCodecs := AudioCodecs d\<rparr> else caps);
               caps = (if MaxWidth d > 0 then caps\<lparr>MaxWidth := MaxWidth d\<rparr> else caps);
               caps = (if MaxHeight d > 0 then caps\<lparr>MaxHeight := MaxHeight d\<rparr> else caps);
               caps = (if MaxBitrate d > 0 then caps\<lparr>MaxBitrate := MaxBitrate d\<rparr> else caps)
           in caps\<lparr>SupportsHDR := SupportsHDR caps \<or> SupportsHDR d,
                   SupportsDolbyVision := SupportsDolbyVision caps \<or> SupportsDolbyVision d\<rparr>))"

section \<open>Defaults and trust\<close>

definition applyBrowserDefaults :: "DeviceCapabilities \<Rightarrow> DeviceCapabilities" where
  "applyBrowserDefaults caps =
     (let b = (if WebBrowser (id_Platform (Identity caps)) = [] then Platform caps else WebBrowser (id_Platform (Identity caps)));
          caps = (if VideoCodecs caps \<noteq> [] then caps
                  else if b = ''chrome'' \<or> b = ''edge'' then caps\<lparr>VideoCodecs := [''h264'', ''vp8'', ''vp9'', ''av1''], AudioCodecs := [''opus'', ''vorbis'', ''aac'']\<rparr>
                  else if b = ''firefox'' then caps\<lparr>VideoCodecs := [''h264'', ''vp8'', ''vp9''], AudioCodecs := [''opus'', ''vorbis'', ''aac'']\<rparr>
                  else if b = ''safari'' then caps\<lparr>VideoCodecs := [''h264'', ''hevc''], AudioCodecs := [''aac'', ''alac'', ''opus'']\<rparr>
                  else caps\<lparr>VideoCodecs := [''h264''], AudioCodecs := [''aac'', ''mp3'']\<rparr>);
          caps = (if ContainerFormats caps = [] then caps\<lparr>ContainerFormats := [''mp4'', ''webm'']\<rparr> else caps);
          caps = (if SubtitleFormats caps = [] then caps\<lparr>SubtitleFormats := [''vtt'', ''srt'']\<rparr> else caps);
          caps = (if MaxWidth caps = 0 \<or> MaxHeight caps = 0 then caps\<lparr>MaxWidth := 1920, MaxHeight := 1080\<rparr> else caps)
      in if MaxBitrate caps = 0 then caps\<lparr>MaxBitrate := 20000000\<rparr> else caps)"

definition web_trust :: "float64 \<Rightarrow> DeviceCapabilities \<Rightarrow> float64" where
  "web_trust base caps =
     (let t = step_up (length (VideoCodecs caps) > 2) (lit 10 100) base;
          t = step_up (contains (VideoCodecs caps) ''av1'' \<or> contains (VideoCodecs caps) ''hevc'') (lit 5 100) t;
          t = step_up (SupportsHDR caps \<or> SupportsDolbyVision caps) (lit 5 100) t;
          t = (if MaxWidth caps \<ge> 3840 then fadd t (lit 5 100) else if MaxWidth caps \<ge> 1920 then fadd t (lit 2 100) else t);
          t = step_up (DRMSupport caps \<noteq> None) (lit 5 100) t
      in cap_at (lit 90 100) t)"

definition calculateTrustScore :: "float64 \<Rightarrow> DeviceCapabilities \<Rightarrow> DeviceCapabilities" where
  "calculateTrustScore base caps =
     (let t = web_trust base caps in caps\<lparr>dc_TrustScore := t, dc_TrustLevel := TrustLevelFromScore t\<rparr>)"

definition web_base :: float64 where "web_base = lit 60 100"

definition ExtractCapabilities :: "ProbeReport http_request \<Rightarrow> DeviceCapabilities" where
  "ExtractCapabilities r =
     (let caps = zeroCapabilities\<lparr>Platform := ''web_browser'', DeviceID := device_id r, UserAgent := UserAgent_of r\<rparr>;
          caps = extractCodecHeaders r (detectBrowser r caps);
          caps = (if has_body r then extractProbeBody (rq_Body r) caps else caps)
      in calculateTrustScore web_base (applyBrowserDefaults caps))"

section \<open>Trust is bounded\<close>

lemma web_trust_bounds: "web_base \<le> web_trust web_base caps \<and> web_trust web_base caps \<le> lit 90 100"
proof -
  have g: "grown web_base (if c then fadd t (lit 5 100) else if d then fadd t (lit 2 100) else t)" if "grown web_base t" for c d t
    using grown_step [OF that lit_nonneg, of 5 100 True] grown_step [OF that lit_nonneg, of 2 100 True] that by (simp add: step_up_def)
  show ?thesis unfolding web_trust_def Let_def
    by (intro grown_capped grown_step g grown_start lit_nonneg) (simp_all add: web_base_def lit_le)
qed

text \<open>
  Whatever a browser sends, its trust score lies between 0.60 and 0.90, so that what it claims is never trusted
  less than the level medium, and the level belongs to the score.
\<close>

theorem browser_trust_bounded:
  shows "let caps = ExtractCapabilities r in lit 60 100 \<le> dc_TrustScore caps \<and> dc_TrustScore caps \<le> lit 90 100 \<and>
     dc_TrustLevel caps = TrustLevelFromScore (dc_TrustScore caps) \<and> TrustLevelMedium \<le> dc_TrustLevel caps"
proof -
  obtain c where c: "ExtractCapabilities r = calculateTrustScore web_base c" by (simp add: ExtractCapabilities_def Let_def)
  have t: "lit 60 100 \<le> web_trust web_base c" "web_trust web_base c \<le> lit 90 100" using web_trust_bounds [of c] by (simp_all add: web_base_def)
  have "TrustLevelMedium = TrustLevelFromScore (lit 60 100)" by code_simp
  then have "TrustLevelMedium \<le> TrustLevelFromScore (web_trust web_base c)" using level_mono [OF t(1)] by simp
  then show ?thesis using t by (simp add: c calculateTrustScore_def Let_def)
qed

section \<open>Audio codecs that are thrown away\<close>

definition web_defaults :: "string list list" where
  "web_defaults = [[''opus'', ''vorbis'', ''aac''], [''aac'', ''alac'', ''opus''], [''aac'', ''mp3'']]"

lemma headers_lists:
  "VideoCodecs (extractCodecHeaders r caps) = (if rq_Get r ''X-Codec-Video'' = [] then VideoCodecs caps else header_list (rq_Get r ''X-Codec-Video''))"
proof -
  have b: "VideoCodecs (case o' of None \<Rightarrow> c | Some br \<Rightarrow> c\<lparr>MaxBitrate := br\<rparr>) = VideoCodecs c" for o' c by (simp split: option.split)
  have w: "VideoCodecs (web_resolution s c) = VideoCodecs c" for s c by (simp add: web_resolution_def Let_def split: list.split)
  show ?thesis by (simp add: extractCodecHeaders_def Let_def b w header_hdr_def)
qed

lemma detectBrowser_video [simp]: "VideoCodecs (detectBrowser r caps) = VideoCodecs caps"
  by (simp add: detectBrowser_def Let_def with_version_def browser_def split: option.split)

text \<open>
  A browser that sends its audio codecs but no video codecs loses them: the defaults for the missing video
  codecs overwrite the audio codecs too.
\<close>

theorem audio_header_is_overwritten:
  assumes "rq_Get r ''X-Codec-Video'' = []" and "\<not> has_body r"
  shows "AudioCodecs (ExtractCapabilities r) \<in> set web_defaults"
proof -
  let ?c = "extractCodecHeaders r (detectBrowser r (zeroCapabilities\<lparr>Platform := ''web_browser'', DeviceID := device_id r, UserAgent := UserAgent_of r\<rparr>))"
  have "VideoCodecs ?c = []" using assms(1) by (simp add: headers_lists zeroCapabilities_def)
  then have "AudioCodecs (applyBrowserDefaults ?c) \<in> set web_defaults"
    by (simp add: applyBrowserDefaults_def Let_def web_defaults_def)
  then show ?thesis using assms(2) by (simp add: ExtractCapabilities_def calculateTrustScore_def Let_def)
qed

definition audio_request :: "'r http_request" where
  "audio_request = \<lparr>rq_Get = (\<lambda>h. if h = ''X-Codec-Audio'' then ''flac,dts'' else []), rq_ContentLength = 0, rq_Body = None\<rparr>"

theorem audio_header_is_overwritten_witness:
  "rq_Get audio_request ''X-Codec-Audio'' = ''flac,dts'' \<and> AudioCodecs (ExtractCapabilities audio_request) \<in> set web_defaults"
proof
  show "rq_Get audio_request ''X-Codec-Audio'' = ''flac,dts''" by (simp add: audio_request_def)
  have "rq_Get (audio_request :: ProbeReport http_request) ''X-Codec-Video'' = []" "\<not> has_body (audio_request :: ProbeReport http_request)"
    by (simp_all add: audio_request_def has_body_def)
  then show "AudioCodecs (ExtractCapabilities audio_request) \<in> set web_defaults" by (rule audio_header_is_overwritten)
qed

end
