(* ===== verification/Android.thy ===== *)
theory Android
  imports Adapter
begin

text \<open>
  The Android adapter: \<^verbatim>\<open>internal/clients/android/android.go\<close> and \<^verbatim>\<open>codec_map.go\<close>.
  The tables are Go maps that are only looked up.
\<close>

section \<open>Names\<close>

definition androidVideoCodecs :: "(string, string) gomap" where
  "androidVideoCodecs = [
     (''video/avc'', ''h264''), (''video/h264'', ''h264''), (''avc'', ''h264''),
     (''avc1'', ''h264''), (''h264'', ''h264''), (''h264/mp4'', ''h264''),
     (''video/hevc'', ''hevc''), (''video/h265'', ''hevc''), (''hevc'', ''hevc''),
     (''hevc/mp4'', ''hevc''), (''video/x-vnd.on2.vp8'', ''vp8''), (''vp8'', ''vp8''),
     (''video/x-vnd.on2.vp9'', ''vp9''), (''vp9'', ''vp9''), (''video/av01'', ''av1''),
     (''av01'', ''av1''), (''av1'', ''av1''), (''av1c'', ''av1''),
     (''video/mpeg2'', ''mpeg2''), (''video/mpeg2video'', ''mpeg2''), (''mpeg2'', ''mpeg2''),
     (''video/mp4v-es'', ''mpeg4''), (''video/xvid'', ''mpeg4''), (''mpeg4'', ''mpeg4''),
     (''xvid'', ''mpeg4''), (''video/vp6'', ''vp6''), (''vp6'', ''vp6''),
     (''video/vc1'', ''vc1''), (''vc1'', ''vc1''), (''video/theora'', ''theora''),
     (''theora'', ''theora''), (''vp9.0'', ''vp9''), (''vp9.1'', ''vp9''),
     (''vp9.2'', ''vp9''), (''av1.0'', ''av1''), (''av1.1'', ''av1''),
     (''av1.2'', ''av1''), (''omx.google.h264.encoder'', ''h264''), (''omx.google.hevc.encoder'', ''hevc''),
     (''c2.android.avc.encoder'', ''h264''), (''c2.android.hevc.encoder'', ''hevc''), (''c2.android.av1.encoder'', ''av1'')]"

definition androidAudioCodecs :: "(string, string) gomap" where
  "androidAudioCodecs = [
     (''audio/mp4a-latm'', ''aac''), (''audio/mp4a'', ''aac''), (''audio/aac'', ''aac''),
     (''aac'', ''aac''), (''aac-lc'', ''aac''), (''mp4a-latm'', ''aac''),
     (''audio/he-aacv1'', ''aac_he''), (''audio/he-aacv2'', ''aac_he_v2''), (''aac_he'', ''aac_he''),
     (''aac_he_v2'', ''aac_he_v2''), (''audio/mpeg'', ''mp3''), (''audio/mp3'', ''mp3''),
     (''mp3'', ''mp3''), (''audio/flac'', ''flac''), (''flac'', ''flac''),
     (''audio/alac'', ''alac''), (''alac'', ''alac''), (''audio/opus'', ''opus''),
     (''opus'', ''opus''), (''audio/ac3'', ''ac3''), (''ac3'', ''ac3''),
     (''audio/ac3.0.1'', ''ac3''), (''audio/eac3'', ''eac3''), (''eac3'', ''eac3''),
     (''audio/eac3.0.1'', ''eac3''), (''audio/dts'', ''dts''), (''audio/vnd.dts'', ''dts''),
     (''dts'', ''dts''), (''audio/dtshd'', ''dts''), (''audio/truehd'', ''truehd''),
     (''truehd'', ''truehd''), (''audio/mlp'', ''truehd''), (''audio/vorbis'', ''vorbis''),
     (''vorbis'', ''vorbis''), (''audio/g711-alaw'', ''pcm_alaw''), (''audio/g711-mlaw'', ''pcm_mlaw''),
     (''pcm_alaw'', ''pcm_alaw''), (''pcm_mlaw'', ''pcm_mlaw''), (''audio/amr-wb'', ''amr_wb''),
     (''audio/amr-nb'', ''amr_nb''), (''amr_wb'', ''amr_wb''), (''amr_nb'', ''amr_nb''),
     (''audio/wav'', ''wav''), (''wav'', ''wav''), (''omx.google.aac.encoder'', ''aac''),
     (''c2.android.aac.encoder'', ''aac''), (''omx.google.mp3.encoder'', ''mp3'')]"

definition hdrTypeMapping :: "(string, bool \<times> bool \<times> bool) gomap" where
  "hdrTypeMapping = [
     (''hdr10'', (True, False, False)),
     (''hdr10plus'', (True, False, True)),
     (''dolby-vision'', (True, True, False)),
     (''dv'', (True, True, False)),
     (''dv-hevc'', (True, True, False)),
     (''dv-avc'', (True, True, False)),
     (''hlg'', (True, False, False)),
     (''hdr10plus-hevc'', (True, False, True))]"

definition containerMapping :: "(string, string) gomap" where
  "containerMapping = [
     (''video/mp4'', ''mp4''), (''video/x-m4v'', ''mp4''), (''video/mp4v-es'', ''mp4''),
     (''mp4'', ''mp4''), (''m4v'', ''mp4''), (''m4a'', ''m4a''),
     (''video/x-matroska'', ''mkv''), (''video/matroska'', ''mkv''), (''mkv'', ''mkv''),
     (''x-matroska'', ''mkv''), (''matroska'', ''mkv''), (''webm'', ''webm''),
     (''video/webm'', ''webm''), (''video/mp2t'', ''ts''), (''video/vnd.dlna.mpeg-tts'', ''ts''),
     (''video/ts'', ''ts''), (''ts'', ''ts''), (''m2ts'', ''m2ts''),
     (''video/avi'', ''avi''), (''video/x-msvideo'', ''avi''), (''avi'', ''avi''),
     (''video/quicktime'', ''mov''), (''mov'', ''mov''), (''video/x-flv'', ''flv''),
     (''flv'', ''flv''), (''video/3gpp'', ''3gp''), (''3gp'', ''3gp''),
     (''3gpp2'', ''3gpp2'')]"

definition drmSystemMapping :: "(string, string) gomap" where
  "drmSystemMapping = [
     (''widevine'', ''widevine''), (''playready'', ''playready''), (''clearkey'', ''clearkey''),
     (''fairplay'', ''fairplay''), (''android-drm'', ''widevine'')]"

text \<open>The codec families the code looks for in the part before the last, and anywhere in a video name.\<close>

definition family_of_part :: "string \<Rightarrow> string option" where
  "family_of_part second =
     (if second = ''avc'' \<or> second = ''avc1'' then Some ''h264''
      else if second = ''hevc'' \<or> second = ''h265'' then Some ''hevc''
      else if second = ''av1'' \<or> second = ''av01'' then Some ''av1''
      else if second = ''vp8'' \<or> second = ''vp9'' then Some second
      else if second = ''aac'' \<or> second = ''mp4a'' then Some ''aac''
      else if second = ''ac3'' \<or> second = ''eac3'' then Some second
      else None)"

definition video_family :: "string \<Rightarrow> string" where
  "video_family codec =
     (if Contains codec ''avc'' \<or> Contains codec ''h264'' then ''h264''
      else if Contains codec ''hevc'' \<or> Contains codec ''h265'' then ''hevc''
      else if Contains codec ''av01'' \<or> Contains codec ''av1'' then ''av1''
      else if Contains codec ''vp9'' then ''vp9''
      else if Contains codec ''vp8'' then ''vp8''
      else if Contains codec ''mpeg4'' \<or> Contains codec ''xvid'' then ''mpeg4''
      else if Contains codec ''mpeg2'' \<or> Contains codec ''mp2'' then ''mpeg2''
      else if Contains codec ''vc1'' then ''vc1''
      else [])"

definition codec_table :: "bool \<Rightarrow> (string, string) gomap" where
  "codec_table isVideo = (if isVideo then androidVideoCodecs else androidAudioCodecs)"

definition MapAndroidCodec :: "string \<Rightarrow> bool \<Rightarrow> string" where
  "MapAndroidCodec name isVideo =
     (let codec = ToLower name; parts = SplitAt CHR ''.'' codec
      in case gget (codec_table isVideo) codec of Some mapped \<Rightarrow> mapped
         | None \<Rightarrow>
        (case gget (codec_table isVideo) (last parts) of Some mapped \<Rightarrow> mapped
         | None \<Rightarrow>
        (case (if length parts > 1 then family_of_part (parts ! (length parts - 2)) else None) of Some f \<Rightarrow> f
         | None \<Rightarrow> if isVideo then video_family codec else [])))"

definition MapAndroidContainer :: "string \<Rightarrow> string" where
  "MapAndroidContainer name =
     (let container = ToLower name; parts = SplitAt CHR ''/'' container
      in case gget containerMapping container of Some mapped \<Rightarrow> mapped
         | None \<Rightarrow>
        (case (if length parts > 1 then gget containerMapping (last parts) else None) of Some mapped \<Rightarrow> mapped
         | None \<Rightarrow>
           (if container = ''mkv'' \<or> container = ''matroska'' then ''mkv''
            else if container = ''mp4'' \<or> container = ''m4v'' then ''mp4''
            else if container = ''webm'' then ''webm''
            else if container = ''ts'' \<or> container = ''m2ts'' then ''ts''
            else if container = ''avi'' then ''avi''
            else if container = ''mov'' then ''mov''
            else if container = ''flv'' then ''flv''
            else [])))"

definition MapAndroidDRM :: "string \<Rightarrow> string" where
  "MapAndroidDRM name = (case gget drmSystemMapping (ToLower name) of Some mapped \<Rightarrow> mapped | None \<Rightarrow> ToLower name)"

record HDRInfo =
  hi_SupportsHDR :: bool
  hi_SupportsDolbyVision :: bool
  hi_Supports10Bit :: bool
  hi_SupportsHLG :: bool

definition ParseHDRType :: "string \<Rightarrow> HDRInfo" where
  "ParseHDRType s =
     (let t = ToLower (TrimSpace s)
      in case gget hdrTypeMapping t of
           Some (h, dv, b) \<Rightarrow> \<lparr>hi_SupportsHDR = h, hi_SupportsDolbyVision = dv, hi_Supports10Bit = b, hi_SupportsHLG = (t = ''hlg'')\<rparr>
         | None \<Rightarrow>
             if HasPrefix t ''hdr10'' then \<lparr>hi_SupportsHDR = True, hi_SupportsDolbyVision = False, hi_Supports10Bit = (t = ''hdr10plus''), hi_SupportsHLG = False\<rparr>
             else if HasPrefix t ''dolby'' \<or> HasPrefix t ''dv'' then \<lparr>hi_SupportsHDR = True, hi_SupportsDolbyVision = True, hi_Supports10Bit = False, hi_SupportsHLG = False\<rparr>
             else if t = ''hlg'' then \<lparr>hi_SupportsHDR = True, hi_SupportsDolbyVision = False, hi_Supports10Bit = False, hi_SupportsHLG = True\<rparr>
             else \<lparr>hi_SupportsHDR = False, hi_SupportsDolbyVision = False, hi_Supports10Bit = False, hi_SupportsHLG = False\<rparr>)"

text \<open>The names of a comma-separated header: stripped of their MIME prefix, then mapped without repetition.\<close>

definition media_name :: "string \<Rightarrow> string \<Rightarrow> string list" where
  "media_name prefix raw =
     (let part = ToLower (TrimSpace raw)
      in if HasPrefix part prefix
         then (let codec = TrimSpace (TrimPrefix part prefix) in if codec = [] then [] else [codec])
         else [part])"

definition map_name :: "bool \<Rightarrow> string \<Rightarrow> string" where
  "map_name isVideo codec = (if MapAndroidCodec codec isVideo = [] then codec else MapAndroidCodec codec isVideo)"

definition parseMediaTypes :: "string \<Rightarrow> string \<Rightarrow> string list" where
  "parseMediaTypes input prefix =
     foldl (\<lambda>mapped codec. append_new mapped (map_name (prefix = ''video/'') codec)) []
       (concat (map (media_name prefix) (SplitAt CHR '','' input)))"

section \<open>Reports\<close>

record AndroidCodec =
  ac_Name :: string
  ac_Type :: string
  ac_Hardware :: bool
  ac_Secure :: bool

record AndroidDRMSystem =
  ad_Name :: string
  ad_Level :: string

record AndroidProbeReport =
  ar_VideoCodecs :: "AndroidCodec list"
  ar_AudioCodecs :: "AndroidCodec list"
  ar_HDRFeatures :: "string list"
  ar_DRMSystems :: "AndroidDRMSystem list"
  ar_Width :: int
  ar_Height :: int
  ar_MaxBitrate :: int
  ar_SupportedContainers :: "string list"

definition hdr_feature :: "string \<Rightarrow> DeviceCapabilities \<Rightarrow> DeviceCapabilities" where
  "hdr_feature h caps =
     (if h = ''hdr10'' then caps\<lparr>SupportsHDR := True\<rparr>
      else if h = ''dolby-vision'' \<or> h = ''dv'' then caps\<lparr>SupportsDolbyVision := True\<rparr>
      else if h = ''hdr10plus'' then caps\<lparr>Supports10Bit := True\<rparr>
      else if h = ''hlg'' then caps\<lparr>SupportsHDR := True\<rparr>
      else caps)"

definition header_resolution :: "string \<Rightarrow> DeviceCapabilities \<Rightarrow> DeviceCapabilities" where
  "header_resolution res caps =
     (case SplitAt CHR ''x'' res of
        [a, b] \<Rightarrow>
          (let w = Atoi_value (TrimSpace a); h = Atoi_value (TrimSpace b);
               caps = (if w > 0 then caps\<lparr>MaxWidth := w\<rparr> else caps)
           in if h > 0 then caps\<lparr>MaxHeight := h\<rparr> else caps)
      | _ \<Rightarrow> caps)"

definition drm_systems :: "string list \<Rightarrow> DRMSupported" where
  "drm_systems systems = \<lparr>Supported = True, Systems = systems, Details = []\<rparr>"

definition container_name :: "string \<Rightarrow> string" where
  "container_name c = (if MapAndroidContainer c = [] then c else MapAndroidContainer c)"

definition extractCodecHeaders :: "'r http_request \<Rightarrow> DeviceCapabilities \<Rightarrow> DeviceCapabilities" where
  "extractCodecHeaders r caps =
     (let get = rq_Get r;
          caps = (if get ''X-Android-Video-Codecs'' = [] then caps
                  else caps\<lparr>VideoCodecs := parseMediaTypes (get ''X-Android-Video-Codecs'') ''video/''\<rparr>);
          caps = (if get ''X-Android-Audio-Codecs'' = [] then caps
                  else caps\<lparr>AudioCodecs := parseMediaTypes (get ''X-Android-Audio-Codecs'') ''audio/''\<rparr>);
          caps = (if get ''X-Android-HDR'' = [] then caps
                  else foldl (\<lambda>caps h. hdr_feature (TrimSpace h) caps) caps (SplitAt CHR '','' (ToLower (get ''X-Android-HDR''))));
          caps = (if get ''X-Android-DRM'' = [] then caps
                  else caps\<lparr>DRMSupport := Some (drm_systems (SplitAt CHR '','' (ToLower (get ''X-Android-DRM''))))\<rparr>);
          caps = (if get ''X-Android-Resolution'' = [] then caps else header_resolution (get ''X-Android-Resolution'') caps);
          caps = (case Atoi (get ''X-Android-Max-Bitrate'') of None \<Rightarrow> caps | Some br \<Rightarrow> caps\<lparr>MaxBitrate := br\<rparr>)
      in if get ''X-Android-Containers'' = [] then caps
         else caps\<lparr>ContainerFormats := foldl (\<lambda>fs c. append_new fs (container_name c)) (ContainerFormats caps)
                     (parseMediaTypes (get ''X-Android-Containers'') ''video/'')\<rparr>)"

text \<open>A name that is not mapped is left out.\<close>

definition append_mapped :: "string list \<Rightarrow> string \<Rightarrow> string list" where
  "append_mapped xs m = (if m = [] then xs else append_new xs m)"

definition extractProbeBody :: "AndroidProbeReport option \<Rightarrow> DeviceCapabilities \<Rightarrow> DeviceCapabilities" where
  "extractProbeBody body caps =
     (case body of None \<Rightarrow> caps
      | Some report \<Rightarrow>
          (let caps = caps\<lparr>VideoCodecs := foldl (\<lambda>xs c. append_mapped xs (MapAndroidCodec (ac_Name c) True)) (VideoCodecs caps) (ar_VideoCodecs report)\<rparr>;
               caps = caps\<lparr>AudioCodecs := foldl (\<lambda>xs c. append_mapped xs (MapAndroidCodec (ac_Name c) False)) (AudioCodecs caps) (ar_AudioCodecs report)\<rparr>;
               caps = foldl (\<lambda>caps h. hdr_feature h caps) caps (ar_HDRFeatures report);
               caps = (if ar_DRMSystems report = [] then caps
                       else caps\<lparr>DRMSupport := Some (drm_systems (map (\<lambda>d. ToLower (ad_Name d)) (ar_DRMSystems report)))\<rparr>);
               caps = (if ar_Width report > 0 then caps\<lparr>MaxWidth := ar_Width report\<rparr> else caps);
               caps = (if ar_Height report > 0 then caps\<lparr>MaxHeight := ar_Height report\<rparr> else caps);
               caps = (if ar_MaxBitrate report > 0 then caps\<lparr>MaxBitrate := ar_MaxBitrate report\<rparr> else caps)
           in caps\<lparr>ContainerFormats := foldl (\<lambda>xs c. append_mapped xs (MapAndroidContainer c)) (ContainerFormats caps) (ar_SupportedContainers report)\<rparr>))"

definition applyAndroidDefaults :: "DeviceCapabilities \<Rightarrow> DeviceCapabilities" where
  "applyAndroidDefaults caps =
     (let caps = (if VideoCodecs caps = [] then caps\<lparr>VideoCodecs := [''h264'']\<rparr> else caps);
          caps = (if AudioCodecs caps = [] then caps\<lparr>AudioCodecs := [''aac'', ''ac3'', ''eac3'']\<rparr> else caps);
          caps = (if ContainerFormats caps = [] then caps\<lparr>ContainerFormats := [''mp4'', ''mkv'', ''webm'']\<rparr> else caps);
          caps = (if SubtitleFormats caps = [] then caps\<lparr>SubtitleFormats := [''srt'', ''vtt'', ''ssa'', ''ass'']\<rparr> else caps);
          caps = (if MaxWidth caps = 0 \<or> MaxHeight caps = 0 then caps\<lparr>MaxWidth := 1920, MaxHeight := 1080\<rparr> else caps)
      in if MaxBitrate caps = 0 then caps\<lparr>MaxBitrate := 50000000\<rparr> else caps)"

definition android_trust :: "float64 \<Rightarrow> DeviceCapabilities \<Rightarrow> float64" where
  "android_trust base caps =
     cap_at (lit 98 100)
       (step_up (MaxWidth caps \<ge> 3840) (lit 2 100)
       (step_up (\<exists>d \<in> set_option (DRMSupport caps). contains (Systems d) ''widevine'') (lit 5 100)
       (step_up (SupportsDolbyVision caps) (lit 5 100)
       (step_up (contains (VideoCodecs caps) ''av1'') (lit 5 100)
       (step_up (length (VideoCodecs caps) \<ge> 3) (lit 5 100) base)))))"

definition with_trust :: "float64 \<Rightarrow> DeviceCapabilities \<Rightarrow> DeviceCapabilities" where
  "with_trust t caps = caps\<lparr>dc_TrustScore := t, dc_TrustLevel := TrustLevelFromScore t\<rparr>"

definition calculateTrustScore :: "float64 \<Rightarrow> DeviceCapabilities \<Rightarrow> DeviceCapabilities" where
  "calculateTrustScore base caps = with_trust (android_trust base caps) caps"

definition android_base :: float64 where "android_base = lit 85 100"

definition android_identity :: "'r http_request \<Rightarrow> DeviceCapabilities" where
  "android_identity r =
     zeroCapabilities\<lparr>Platform := ''android'', DeviceID := device_id r, UserAgent := UserAgent_of r,
       Manufacturer := rq_Get r ''X-Android-Manufacturer'', Model := rq_Get r ''X-Android-Model'',
       OSVersion := rq_Get r ''X-Android-Version'', AppVersion := rq_Get r ''X-App-Version'',
       DeviceName := rq_Get r ''X-Device-Name'',
       Identity := zeroIdentity\<lparr>id_Platform := zeroPlatform\<lparr>dp_Type := ''mobile'', dp_Name := ''Android'', dp_OS := ''Android'',
           dp_OSVersion := rq_Get r ''X-Android-Version''\<rparr>,
         id_Manufacturer := rq_Get r ''X-Android-Manufacturer'', id_Model := rq_Get r ''X-Android-Model''\<rparr>\<rparr>"

definition ExtractCapabilities :: "AndroidProbeReport http_request \<Rightarrow> DeviceCapabilities" where
  "ExtractCapabilities r =
     (let caps = extractCodecHeaders r (android_identity r);
          caps = (if has_body r then extractProbeBody (rq_Body r) caps else caps)
      in calculateTrustScore android_base (applyAndroidDefaults caps))"

section \<open>What a report always holds\<close>

definition well_listed :: "DeviceCapabilities \<Rightarrow> bool" where
  "well_listed caps \<longleftrightarrow> folded_distinct (VideoCodecs caps) \<and> folded_distinct (AudioCodecs caps) \<and>
     folded_distinct (ContainerFormats caps) \<and> 0 \<le> MaxWidth caps \<and> 0 \<le> MaxHeight caps"

lemma foldl_append_new: "folded_distinct xs \<Longrightarrow> folded_distinct (foldl (\<lambda>xs c. append_new xs (f c)) xs cs)"
  by (induction cs arbitrary: xs) auto

lemma foldl_append_mapped: "folded_distinct xs \<Longrightarrow> folded_distinct (foldl (\<lambda>xs c. append_mapped xs (f c)) xs cs)"
  by (induction cs arbitrary: xs) (auto simp: append_mapped_def)

lemma parseMediaTypes_distinct [simp]: "folded_distinct (parseMediaTypes input prefix)"
  by (simp add: parseMediaTypes_def foldl_append_new)

lemma hdr_feature_lists [simp]:
  "VideoCodecs (hdr_feature h caps) = VideoCodecs caps" "AudioCodecs (hdr_feature h caps) = AudioCodecs caps"
  "ContainerFormats (hdr_feature h caps) = ContainerFormats caps" "MaxWidth (hdr_feature h caps) = MaxWidth caps"
  "MaxHeight (hdr_feature h caps) = MaxHeight caps"
  by (simp_all add: hdr_feature_def)

lemma well_listed_hdr: "well_listed caps \<Longrightarrow> well_listed (foldl (\<lambda>caps h. hdr_feature (f h) caps) caps hs)"
  by (induction hs arbitrary: caps) (simp_all add: well_listed_def)

lemma well_listed_resolution: "well_listed caps \<Longrightarrow> well_listed (header_resolution res caps)"
  by (auto simp: header_resolution_def well_listed_def Let_def split: list.splits)

lemma well_listed_updates:
  "well_listed caps \<Longrightarrow> folded_distinct xs \<Longrightarrow> well_listed (caps\<lparr>VideoCodecs := xs\<rparr>)"
  "well_listed caps \<Longrightarrow> folded_distinct xs \<Longrightarrow> well_listed (caps\<lparr>AudioCodecs := xs\<rparr>)"
  "well_listed caps \<Longrightarrow> folded_distinct xs \<Longrightarrow> well_listed (caps\<lparr>ContainerFormats := xs\<rparr>)"
  "well_listed caps \<Longrightarrow> well_listed (caps\<lparr>DRMSupport := d\<rparr>)"
  "well_listed caps \<Longrightarrow> well_listed (caps\<lparr>MaxBitrate := b\<rparr>)"
  "well_listed caps \<Longrightarrow> 0 \<le> n \<Longrightarrow> well_listed (caps\<lparr>MaxWidth := n\<rparr>)"
  "well_listed caps \<Longrightarrow> 0 \<le> n \<Longrightarrow> well_listed (caps\<lparr>MaxHeight := n\<rparr>)"
  by (simp_all add: well_listed_def)

lemma well_listed_if: "(c \<Longrightarrow> well_listed x) \<Longrightarrow> (\<not> c \<Longrightarrow> well_listed y) \<Longrightarrow> well_listed (if c then x else y)"
  by simp

lemma well_listed_fields:
  "well_listed caps \<Longrightarrow> folded_distinct (VideoCodecs caps)" "well_listed caps \<Longrightarrow> folded_distinct (AudioCodecs caps)"
  "well_listed caps \<Longrightarrow> folded_distinct (ContainerFormats caps)"
  by (simp_all add: well_listed_def)

lemma well_listed_headers:
  assumes "well_listed caps"
  shows "well_listed (extractCodecHeaders r caps)"
proof -
  have b: "\<And>caps o'. well_listed caps \<Longrightarrow> well_listed (case o' of None \<Rightarrow> caps | Some br \<Rightarrow> caps\<lparr>MaxBitrate := br\<rparr>)"
    by (auto intro: well_listed_updates split: option.split)
  show ?thesis unfolding extractCodecHeaders_def Let_def
    by (intro well_listed_if well_listed_updates foldl_append_new well_listed_fields b well_listed_resolution
        well_listed_hdr parseMediaTypes_distinct assms)
qed

lemma well_listed_body: "well_listed caps \<Longrightarrow> well_listed (extractProbeBody body caps)"
  unfolding extractProbeBody_def Let_def
  by (cases body) (auto intro!: well_listed_if well_listed_updates foldl_append_mapped well_listed_fields
      well_listed_hdr [where f = "\<lambda>h. h"])

lemma folded_distinct_defaults:
  "folded_distinct [''h264'']" "folded_distinct [''aac'', ''ac3'', ''eac3'']" "folded_distinct [''mp4'', ''mkv'', ''webm'']"
  by code_simp+

lemma well_listed_defaults:
  assumes "well_listed caps"
  shows "well_listed (applyAndroidDefaults caps) \<and> VideoCodecs (applyAndroidDefaults caps) \<noteq> [] \<and>
    AudioCodecs (applyAndroidDefaults caps) \<noteq> [] \<and> ContainerFormats (applyAndroidDefaults caps) \<noteq> [] \<and>
    SubtitleFormats (applyAndroidDefaults caps) \<noteq> [] \<and> 0 < MaxWidth (applyAndroidDefaults caps) \<and>
    0 < MaxHeight (applyAndroidDefaults caps) \<and> MaxBitrate (applyAndroidDefaults caps) \<noteq> 0"
  using assms folded_distinct_defaults by (simp add: applyAndroidDefaults_def well_listed_def Let_def)

lemma android_trust_bounds: "android_base \<le> android_trust android_base caps \<and> android_trust android_base caps \<le> lit 98 100"
  unfolding android_trust_def
  by (intro grown_capped grown_step grown_start lit_nonneg) (simp_all add: android_base_def lit_le)

lemma well_listed_start: "well_listed (android_identity r)"
  by (simp add: android_identity_def well_listed_def zeroCapabilities_def)

text \<open>
  Whatever an Android app sends, its record is complete and lists nothing twice, up to case; its picture is
  at least one pixel wide and high, its trust score lies between 0.85 and 0.98 and the level belongs to the score.
\<close>

theorem android_report_complete:
  shows "let caps = ExtractCapabilities r in
    VideoCodecs caps \<noteq> [] \<and> AudioCodecs caps \<noteq> [] \<and> ContainerFormats caps \<noteq> [] \<and> SubtitleFormats caps \<noteq> [] \<and>
    well_listed caps \<and> 0 < MaxWidth caps \<and> 0 < MaxHeight caps \<and> MaxBitrate caps \<noteq> 0 \<and>
    lit 85 100 \<le> dc_TrustScore caps \<and> dc_TrustScore caps \<le> lit 98 100 \<and>
    dc_TrustLevel caps = TrustLevelFromScore (dc_TrustScore caps)"
proof -
  define c where "c = (if has_body r then extractProbeBody (rq_Body r) (extractCodecHeaders r (android_identity r))
      else extractCodecHeaders r (android_identity r))"
  have "well_listed c" unfolding c_def by (intro well_listed_if well_listed_body well_listed_headers well_listed_start)
  note d = well_listed_defaults [OF this] and t = android_trust_bounds [of "applyAndroidDefaults c"]
  have e: "ExtractCapabilities r = calculateTrustScore android_base (applyAndroidDefaults c)"
    by (simp add: ExtractCapabilities_def c_def Let_def)
  show ?thesis unfolding e using d t
    by (simp add: calculateTrustScore_def with_trust_def well_listed_def android_base_def Let_def)
qed

section \<open>Reports that are misread\<close>

lemma hdr_fold_SDR:
  "SupportsHDR (foldl (\<lambda>caps h. hdr_feature (f h) caps) caps hs) \<longleftrightarrow>
     SupportsHDR caps \<or> (\<exists>h \<in> set hs. f h = ''hdr10'' \<or> f h = ''hlg'')"
  by (induction hs arbitrary: caps) (auto simp: hdr_feature_def)

lemma resolution_HDR [simp]: "SupportsHDR (header_resolution res caps) = SupportsHDR caps"
  by (simp add: header_resolution_def Let_def split: list.splits)

text \<open>
  A device reports HDR10+ or Dolby Vision, by the header: the table in \<^verbatim>\<open>codec_map.go\<close> says that both
  imply HDR, but the adapter does not use it, and unless HDR10 or HLG is listed as well the record says that the
  device has no HDR at all.
\<close>

theorem hdr10plus_is_not_hdr:
  assumes "\<not> has_body r" and "set (map TrimSpace (SplitAt CHR '','' (ToLower (rq_Get r ''X-Android-HDR'')))) \<subseteq> {''hdr10plus'', ''dolby-vision'', ''dv''}"
  shows "\<not> SupportsHDR (ExtractCapabilities r) \<and> (\<forall>h \<in> {''hdr10plus'', ''dolby-vision'', ''dv''}. hi_SupportsHDR (ParseHDRType h))"
proof
  have d: "SupportsHDR (applyAndroidDefaults caps) = SupportsHDR caps" for caps
    by (simp add: applyAndroidDefaults_def Let_def)
  have n: "\<not> (\<exists>h \<in> set (SplitAt CHR '','' (ToLower (rq_Get r ''X-Android-HDR''))). TrimSpace h = ''hdr10'' \<or> TrimSpace h = ''hlg'')"
    using assms(2) by fastforce
  have b: "SupportsHDR (case o' of None \<Rightarrow> caps | Some br \<Rightarrow> caps\<lparr>MaxBitrate := br\<rparr>) = SupportsHDR caps" for o' caps
    by (simp split: option.split)
  have i: "\<not> SupportsHDR (android_identity r)" by (simp add: android_identity_def zeroCapabilities_def)
  have "\<not> SupportsHDR (extractCodecHeaders r (android_identity r))"
    using n i by (simp add: extractCodecHeaders_def Let_def b hdr_fold_SDR)
  then show "\<not> SupportsHDR (ExtractCapabilities r)"
    using assms(1) by (simp add: ExtractCapabilities_def d calculateTrustScore_def with_trust_def Let_def)
  show "\<forall>h \<in> {''hdr10plus'', ''dolby-vision'', ''dv''}. hi_SupportsHDR (ParseHDRType h)" by code_simp
qed

definition app_request :: "string \<Rightarrow> string \<Rightarrow> 'r http_request" where
  "app_request name val = \<lparr>rq_Get = (\<lambda>h. if h = name then val else []), rq_ContentLength = 0, rq_Body = None\<rparr>"

theorem hdr10plus_is_not_hdr_witness:
  "\<not> SupportsHDR (ExtractCapabilities (app_request ''X-Android-HDR'' ''HDR10plus, dolby-vision''))"
proof -
  let ?r = "app_request ''X-Android-HDR'' ''HDR10plus, dolby-vision'' :: AndroidProbeReport http_request"
  have g: "rq_Get ?r ''X-Android-HDR'' = ''HDR10plus, dolby-vision''" "\<not> has_body ?r"
    by (simp_all add: app_request_def has_body_def)
  have "set (map TrimSpace (SplitAt CHR '','' (ToLower ''HDR10plus, dolby-vision''))) \<subseteq> {''hdr10plus'', ''dolby-vision'', ''dv''}"
    by code_simp
  then show ?thesis using hdr10plus_is_not_hdr [of ?r] g by simp
qed

text \<open>
  MPEG transport streams, by the header \<^verbatim>\<open>X-Android-Containers\<close>, are stored as a container called
  mpeg2, because the list goes through the table of video codecs first; the same name in a report's body is stored
  as ts.
\<close>

theorem transport_stream_header_becomes_codec:
  shows "map container_name (parseMediaTypes ''video/mp2t'' ''video/'') = [''mpeg2''] \<and> MapAndroidContainer ''video/mp2t'' = ''ts''"
  by code_simp

end
