(* ===== verification/Apple.thy ===== *)
theory Apple
  imports Adapter "HOL-Library.Multiset"
begin

text \<open>
  The Apple adapters: \<^verbatim>\<open>internal/clients/apple/apple.go\<close>, \<^verbatim>\<open>ios.go\<close>, \<^verbatim>\<open>tvos.go\<close> and
  \<^verbatim>\<open>codec_map.go\<close>. The video table is also searched for a key that the name begins with, in an order
  that Go leaves open; that order is the argument \<open>order\<close>.
\<close>

section \<open>Names\<close>

definition appleVideoCodecs :: "(string, string) gomap" where
  "appleVideoCodecs = [
     (''avc1'', ''h264''), (''avc1.'', ''h264''), (''hvc1'', ''hevc''),
     (''hev1'', ''hevc''), (''hev1.'', ''hevc''), (''hvc1.'', ''hevc''),
     (''av01'', ''av1''), (''av01.'', ''av1''), (''hvc1.1.6.L120.90'', ''hevc''),
     (''hvc1.1.6.L120.B0'', ''hevc''), (''hev1.1.6.L120.90'', ''hevc''), (''hev1.1.6.L120.B0'', ''hevc''),
     (''apch'', ''prores''), (''apcn'', ''prores''), (''apcs'', ''prores''),
     (''apco'', ''prores''), (''ap4h'', ''prores''), (''prores'', ''prores''),
     (''vp9'', ''vp9''), (''vp8'', ''vp8''), (''mpg2'', ''mpeg2''),
     (''mpv2'', ''mpeg2'')]"

definition appleAudioCodecs :: "(string, string) gomap" where
  "appleAudioCodecs = [
     (''aac'', ''aac''), (''aac-lc'', ''aac''), (''aac-he'', ''aac_he''),
     (''aac-he-v2'', ''aac_he_v2''), (''aacELD'', ''aac''), (''aaceld'', ''aac''),
     (''alac'', ''alac''), (''ac-3'', ''ac3''), (''ac3'', ''ac3''),
     (''ec-3'', ''eac3''), (''eac3'', ''eac3''), (''dts'', ''dts''),
     (''dtshd'', ''dts''), (''truehd'', ''truehd''), (''mlpa'', ''truehd''),
     (''mp3'', ''mp3''), (''mpeg'', ''mp3''), (''flac'', ''flac''),
     (''opus'', ''opus''), (''lpcm'', ''pcm''), (''in24'', ''pcm''),
     (''in32'', ''pcm''), (''fl32'', ''pcm''), (''fl64'', ''pcm'')]"

definition appleHDRMapping :: "(string, bool \<times> bool \<times> bool) gomap" where
  "appleHDRMapping = [
     (''hdr10'', (True, False, False)), (''hdr10plus'', (True, False, True)), (''dolby-vision'', (True, True, False)),
     (''dv'', (True, True, False)), (''hlg'', (True, False, False))]"

definition appleContainerMapping :: "(string, string) gomap" where
  "appleContainerMapping = [
     (''mov'', ''mov''), (''mp4'', ''mp4''), (''m4v'', ''m4v''), (''m4a'', ''m4a''),
     (''mkv'', ''mkv''), (''webm'', ''webm''), (''ts'', ''ts''), (''m2ts'', ''m2ts'')]"

definition apple_family :: "string \<Rightarrow> string" where
  "apple_family codec =
     (if Contains codec ''avc'' \<or> Contains codec ''h264'' then ''h264''
      else if Contains codec ''hevc'' \<or> Contains codec ''h265'' then ''hevc''
      else if Contains codec ''av01'' \<or> Contains codec ''av1'' then ''av1''
      else if Contains codec ''aac'' then ''aac''
      else if Contains codec ''alac'' then ''alac''
      else if Contains codec ''ac3'' \<or> Contains codec ''ec3'' then ''ac3''
      else if Contains codec ''eac3'' then ''eac3''
      else if Contains codec ''flac'' then ''flac''
      else if Contains codec ''opus'' then ''opus''
      else if Contains codec ''mp3'' \<or> Contains codec ''mpeg'' then ''mp3''
      else if Contains codec ''dts'' then ''dts''
      else if Contains codec ''truehd'' then ''truehd''
      else if Contains codec ''prores'' then ''prores''
      else [])"

definition apple_table :: "bool \<Rightarrow> (string, string) gomap" where
  "apple_table isVideo = (if isVideo then appleVideoCodecs else appleAudioCodecs)"

text \<open>The part before the first dot, for a name with a profile.\<close>

definition profile_base :: "string \<Rightarrow> string" where "profile_base codec = hd (SplitAt CHR ''.'' codec)"

definition MapAppleCodec :: "(string, string) gomap \<Rightarrow> string \<Rightarrow> bool \<Rightarrow> string" where
  "MapAppleCodec order name isVideo =
     (let codec = ToLower name
      in case gget (apple_table isVideo) codec of Some mapped \<Rightarrow> mapped
         | None \<Rightarrow>
        (case (if isVideo then map_option snd (find (\<lambda>(key, val). HasPrefix codec key) order) else None) of Some val \<Rightarrow> val
         | None \<Rightarrow>
        (case (if Contains codec ''.'' then gget (apple_table isVideo) (profile_base codec) else None) of Some mapped \<Rightarrow> mapped
         | None \<Rightarrow> apple_family codec)))"

definition MapAppleContainer :: "string \<Rightarrow> string" where
  "MapAppleContainer name =
     (case gget appleContainerMapping (ToLower name) of Some mapped \<Rightarrow> mapped | None \<Rightarrow> ToLower name)"

definition ParseAppleHDRType :: "string \<Rightarrow> bool \<times> bool \<times> bool" where
  "ParseAppleHDRType s =
     (let t = ToLower (TrimSpace s)
      in case gget appleHDRMapping t of Some flags \<Rightarrow> flags
         | None \<Rightarrow>
             (let dv = Contains t ''dolby'' \<or> Contains t ''dv''
              in (Contains t ''hdr10'' \<or> dv \<or> Contains t ''hlg'', dv, Contains t ''10'' \<or> Contains t ''10bit'')))"

text \<open>A comma-separated list: trimmed, empty parts left out, mapped, without repetition.\<close>

definition list_parts :: "string \<Rightarrow> string list" where
  "list_parts input = filter (\<lambda>p. p \<noteq> []) (map TrimSpace (SplitAt CHR '','' input))"

definition or_original :: "(string \<Rightarrow> string) \<Rightarrow> string \<Rightarrow> string" where
  "or_original f p = (if f p = [] then p else f p)"

definition parseCodecList :: "(string, string) gomap \<Rightarrow> string \<Rightarrow> bool \<Rightarrow> string list" where
  "parseCodecList order input isVideo =
     foldl (\<lambda>codecs part. append_new codecs (or_original (\<lambda>p. MapAppleCodec order p isVideo) part)) [] (list_parts input)"

definition parseContainerList :: "string \<Rightarrow> string list" where
  "parseContainerList input =
     foldl (\<lambda>containers part. append_new containers (or_original MapAppleContainer part)) [] (list_parts input)"

definition parseInt :: "string \<Rightarrow> int" where "parseInt s = Atoi_value (TrimSpace s)"
definition parseInt64 :: "string \<Rightarrow> int" where "parseInt64 s = Atoi_value (TrimSpace s)"

section \<open>Adapters\<close>

record BaseAppleAdapter =
  ba_platform :: string
  ba_baseTrust :: float64

definition NewIOSAdapter :: BaseAppleAdapter where "NewIOSAdapter = \<lparr>ba_platform = ''ios'', ba_baseTrust = lit 82 100\<rparr>"
definition NewTVOSAdapter :: BaseAppleAdapter where "NewTVOSAdapter = \<lparr>ba_platform = ''appletvos'', ba_baseTrust = lit 88 100\<rparr>"

definition getPlatformType :: "BaseAppleAdapter \<Rightarrow> string" where
  "getPlatformType a =
     (let p = ba_platform a
      in if p = ''ios'' \<or> p = ''tvos'' then ''mobile''
         else if p = ''appletvos'' then ''smart_tv'' else if p = ''macos'' then ''desktop'' else ''mobile'')"

definition getPlatformName :: "BaseAppleAdapter \<Rightarrow> string" where
  "getPlatformName a =
     (let p = ba_platform a
      in if p = ''ios'' then ''iOS'' else if p = ''tvos'' \<or> p = ''appletvos'' then ''Apple TV''
         else if p = ''macos'' then ''macOS'' else ''Apple'')"

definition getOSName :: "BaseAppleAdapter \<Rightarrow> string" where
  "getOSName a =
     (let p = ba_platform a
      in if p = ''ios'' then ''iOS'' else if p = ''tvos'' \<or> p = ''appletvos'' then ''tvOS''
         else if p = ''macos'' then ''macOS'' else ''iOS'')"

definition defaultVideoCodecs :: "BaseAppleAdapter \<Rightarrow> string list" where
  "defaultVideoCodecs a =
     (let p = ba_platform a
      in if p = ''ios'' then [''h264'', ''hevc''] else if p = ''tvos'' \<or> p = ''appletvos'' then [''h264'', ''hevc'']
         else if p = ''macos'' then [''h264'', ''hevc'', ''prores''] else [''h264''])"

definition defaultAudioCodecs :: "BaseAppleAdapter \<Rightarrow> string list" where
  "defaultAudioCodecs a =
     (let p = ba_platform a
      in if p = ''ios'' \<or> p = ''tvos'' \<or> p = ''appletvos'' then [''aac'', ''alac'', ''ac3'', ''eac3'']
         else if p = ''macos'' then [''aac'', ''alac'', ''mp3'', ''ac3'', ''eac3'', ''flac''] else [''aac'', ''alac''])"

definition defaultContainers :: "BaseAppleAdapter \<Rightarrow> string list" where
  "defaultContainers a = [''mov'', ''mp4'', ''m4v'']"

definition apple_feature :: "string \<Rightarrow> DeviceCapabilities \<Rightarrow> DeviceCapabilities" where
  "apple_feature h caps =
     (if h = ''hdr10'' then caps\<lparr>SupportsHDR := True\<rparr>
      else if h = ''dolby-vision'' \<or> h = ''dv'' then caps\<lparr>SupportsDolbyVision := True\<rparr>
      else if h = ''hdr10plus'' then caps\<lparr>Supports10Bit := True\<rparr>
      else caps)"

definition apple_resolution :: "string \<Rightarrow> DeviceCapabilities \<Rightarrow> DeviceCapabilities" where
  "apple_resolution res caps =
     (case SplitAt CHR ''x'' res of [a, b] \<Rightarrow> caps\<lparr>MaxWidth := parseInt a, MaxHeight := parseInt b\<rparr> | _ \<Rightarrow> caps)"

definition extractCodecHeaders :: "(string, string) gomap \<Rightarrow> 'r http_request \<Rightarrow> DeviceCapabilities \<Rightarrow> DeviceCapabilities" where
  "extractCodecHeaders order r caps =
     (let get = rq_Get r;
          caps = (if get ''X-Apple-Video-Codecs'' = [] then caps
                  else caps\<lparr>VideoCodecs := parseCodecList order (get ''X-Apple-Video-Codecs'') True\<rparr>);
          caps = (if get ''X-Apple-Audio-Codecs'' = [] then caps
                  else caps\<lparr>AudioCodecs := parseCodecList order (get ''X-Apple-Audio-Codecs'') False\<rparr>);
          caps = (if get ''X-Apple-HDR'' = [] then caps
                  else foldl (\<lambda>caps h. apple_feature (TrimSpace h) caps) caps (SplitAt CHR '','' (ToLower (get ''X-Apple-HDR''))));
          caps = (if get ''X-Apple-DRM'' = [] then caps
                  else caps\<lparr>DRMSupport := Some \<lparr>Supported = True,
                         Systems = map TrimSpace (SplitAt CHR '','' (ToLower (get ''X-Apple-DRM''))), Details = []\<rparr>\<rparr>);
          caps = (if get ''X-Apple-Resolution'' = [] then caps else apple_resolution (get ''X-Apple-Resolution'') caps);
          caps = (if get ''X-Apple-Max-Bitrate'' = [] then caps else caps\<lparr>MaxBitrate := parseInt64 (get ''X-Apple-Max-Bitrate'')\<rparr>)
      in if get ''X-Apple-Containers'' = [] then caps
         else caps\<lparr>ContainerFormats := parseContainerList (get ''X-Apple-Containers'')\<rparr>)"

definition applyPlatformDefaults :: "BaseAppleAdapter \<Rightarrow> DeviceCapabilities \<Rightarrow> DeviceCapabilities" where
  "applyPlatformDefaults a caps =
     (let caps = (if VideoCodecs caps = [] then caps\<lparr>VideoCodecs := defaultVideoCodecs a\<rparr> else caps);
          caps = (if AudioCodecs caps = [] then caps\<lparr>AudioCodecs := defaultAudioCodecs a\<rparr> else caps);
          caps = (if ContainerFormats caps = [] then caps\<lparr>ContainerFormats := defaultContainers a\<rparr> else caps);
          caps = (if SubtitleFormats caps = [] then caps\<lparr>SubtitleFormats := [''srt'', ''vtt'', ''ssa'', ''ass'']\<rparr> else caps);
          caps = (if MaxWidth caps = 0 \<or> MaxHeight caps = 0 then caps\<lparr>MaxWidth := 1920, MaxHeight := 1080\<rparr> else caps)
      in if MaxBitrate caps = 0 then caps\<lparr>MaxBitrate := 50000000\<rparr> else caps)"

definition apple_trust :: "float64 \<Rightarrow> DeviceCapabilities \<Rightarrow> float64" where
  "apple_trust base caps =
     cap_at (lit 98 100)
       (step_up (MaxWidth caps \<ge> 3840) (lit 2 100)
       (step_up (\<exists>d \<in> set_option (DRMSupport caps). contains (Systems d) ''fairplay'') (lit 5 100)
       (step_up (SupportsDolbyVision caps) (lit 5 100)
       (step_up (contains (VideoCodecs caps) ''hevc'') (lit 5 100)
       (step_up (length (VideoCodecs caps) \<ge> 2) (lit 5 100) base)))))"

definition calculateTrustScore :: "BaseAppleAdapter \<Rightarrow> DeviceCapabilities \<Rightarrow> DeviceCapabilities" where
  "calculateTrustScore a caps =
     (let t = apple_trust (ba_baseTrust a) caps in caps\<lparr>dc_TrustScore := t, dc_TrustLevel := TrustLevelFromScore t\<rparr>)"

text \<open>The body of a request is not read yet: \<^verbatim>\<open>extractProbeBody\<close> is empty.\<close>

definition apple_identity :: "BaseAppleAdapter \<Rightarrow> 'r http_request \<Rightarrow> DeviceCapabilities \<Rightarrow> DeviceCapabilities" where
  "apple_identity a r caps =
     caps\<lparr>DeviceID := device_id r, UserAgent := UserAgent_of r, Manufacturer := ''Apple'',
       Model := rq_Get r ''X-Apple-Model'', OSVersion := rq_Get r ''X-Apple-Version'',
       AppVersion := rq_Get r ''X-App-Version'', DeviceName := rq_Get r ''X-Device-Name'',
       Identity := (Identity caps)\<lparr>id_Platform := (id_Platform (Identity caps))\<lparr>dp_Type := getPlatformType a,
           dp_Name := getPlatformName a, dp_OS := getOSName a, dp_OSVersion := rq_Get r ''X-Apple-Version''\<rparr>,
         id_Manufacturer := ''Apple'', id_Model := rq_Get r ''X-Apple-Model''\<rparr>\<rparr>"

definition extractCommonCapabilities ::
    "(string, string) gomap \<Rightarrow> BaseAppleAdapter \<Rightarrow> 'r http_request \<Rightarrow> DeviceCapabilities \<Rightarrow> DeviceCapabilities" where
  "extractCommonCapabilities order a r caps =
     calculateTrustScore a (applyPlatformDefaults a (extractCodecHeaders order r (apple_identity a r caps)))"

definition IOS_ExtractCapabilities :: "(string, string) gomap \<Rightarrow> 'r http_request \<Rightarrow> DeviceCapabilities" where
  "IOS_ExtractCapabilities order r =
     (let caps = extractCommonCapabilities order NewIOSAdapter r (zeroCapabilities\<lparr>Platform := ''ios''\<rparr>);
          model = rq_Get r ''X-Apple-Model-ID''
      in if model = [] then caps else caps\<lparr>Model := model, Identity := (Identity caps)\<lparr>id_Model := model\<rparr>\<rparr>)"

definition TVOS_ExtractCapabilities :: "(string, string) gomap \<Rightarrow> 'r http_request \<Rightarrow> DeviceCapabilities" where
  "TVOS_ExtractCapabilities order r =
     (let caps = extractCommonCapabilities order NewTVOSAdapter r (zeroCapabilities\<lparr>Platform := ''appletvos''\<rparr>);
          caps = (if MaxWidth caps = 0 \<and> MaxHeight caps = 0 then caps\<lparr>MaxWidth := 1920, MaxHeight := 1080\<rparr> else caps);
          caps = (if SupportsDolbyVision caps then caps\<lparr>SupportsHDR := True\<rparr> else caps)
      in if MaxBitrate caps = 0 then caps\<lparr>MaxBitrate := 100000000\<rparr> else caps)"

section \<open>The order of the table does not matter\<close>

text \<open>Two keys of the video table of which one begins with the other name the same codec.\<close>

fun prefixes_agree :: "(string \<times> string) list \<Rightarrow> bool" where
  "prefixes_agree [] \<longleftrightarrow> True"
| "prefixes_agree ((k, v) # m) \<longleftrightarrow> list_all (\<lambda>(j, w). HasPrefix k j \<or> HasPrefix j k \<longrightarrow> v = w) m \<and> prefixes_agree m"

lemma video_prefixes_agree: "prefixes_agree appleVideoCodecs"
  by code_simp

lemma prefixes_agreeD:
  "prefixes_agree m \<Longrightarrow> (k, v) \<in> set m \<Longrightarrow> (j, w) \<in> set m \<Longrightarrow> HasPrefix s k \<Longrightarrow> HasPrefix s j \<Longrightarrow> v = w"
proof (induction m rule: prefixes_agree.induct)
  case (2 a b m)
  have "HasPrefix k j \<or> HasPrefix j k" using 2(5,6) unfolding HasPrefix_iff by (metis append_eq_append_conv2)
  then show ?case using 2 by (auto simp: list_all_iff)
qed simp

lemma find_value_permuted:
  assumes m: "mset xs = mset ys" and a: "prefixes_agree ys"
  shows "map_option snd (find (\<lambda>(key, val). HasPrefix s key) xs) = map_option snd (find (\<lambda>(key, val). HasPrefix s key) ys)"
proof -
  have e: "set xs = set ys" using mset_eq_setD [OF m] .
  have f: "(k, v) \<in> set zs \<and> HasPrefix s k" if "find (\<lambda>(key, val). HasPrefix s key) zs = Some (k, v)" for zs k v
    using that by (auto simp: find_Some_iff) (metis nth_mem)
  show ?thesis
  proof (cases "find (\<lambda>(key, val). HasPrefix s key) xs")
    case None
    then have "find (\<lambda>(key, val). HasPrefix s key) ys = None" using e by (auto simp: find_None_iff)
    then show ?thesis using None by simp
  next
    case (Some kv)
    moreover obtain k v where kv: "kv = (k, v)" by force
    ultimately have x: "(k, v) \<in> set ys" "HasPrefix s k" using f [of xs k v] e by auto
    then obtain jw where j: "find (\<lambda>(key, val). HasPrefix s key) ys = Some jw"
      by (cases "find (\<lambda>(key, val). HasPrefix s key) ys") (auto simp: find_None_iff)
    moreover obtain j w where jw: "jw = (j, w)" by force
    ultimately have "(j, w) \<in> set ys" "HasPrefix s j" using f [of ys j w] by auto
    then have "v = w" using prefixes_agreeD [OF a] x by blast
    then show ?thesis using Some j kv jw by simp
  qed
qed

text \<open>
  An Apple codec name is mapped to the same codec for every order in which Go may visit the video table, as
  keys that overlap agree.
\<close>

theorem apple_mapping_ignores_map_order:
  assumes "mset order = mset appleVideoCodecs"
  shows "MapAppleCodec order name isVideo = MapAppleCodec appleVideoCodecs name isVideo"
  unfolding MapAppleCodec_def find_value_permuted [OF assms video_prefixes_agree] by simp

definition profile_name :: string where "profile_name = ''hvc1.2.4.L153.B0''"

theorem apple_mapping_ignores_map_order_witness:
  "MapAppleCodec (rev appleVideoCodecs) profile_name True = ''hevc''"
proof -
  have "mset (rev appleVideoCodecs) = mset appleVideoCodecs" by simp
  then show ?thesis using apple_mapping_ignores_map_order [of "rev appleVideoCodecs" profile_name True]
    by (simp only:) code_simp
qed

section \<open>Defaults\<close>

lemma defaults_set:
  "MaxWidth (applyPlatformDefaults a caps) \<noteq> 0 \<and> MaxHeight (applyPlatformDefaults a caps) \<noteq> 0 \<and>
   MaxBitrate (applyPlatformDefaults a caps) \<noteq> 0"
  by (simp add: applyPlatformDefaults_def Let_def)

lemma trust_keeps [simp]:
  "MaxWidth (calculateTrustScore a caps) = MaxWidth caps" "MaxHeight (calculateTrustScore a caps) = MaxHeight caps"
  "MaxBitrate (calculateTrustScore a caps) = MaxBitrate caps"
  by (simp_all add: calculateTrustScore_def Let_def)

text \<open>
  The steps of the tvOS adapter that set a default resolution and the higher default bitrate for TV streaming
  never do anything: the common part has set both. An Apple TV that sends no bitrate gets 50 Mbps, not 100.
\<close>

theorem tvos_defaults_are_dead:
  shows "TVOS_ExtractCapabilities order r =
    (let caps = extractCommonCapabilities order NewTVOSAdapter r (zeroCapabilities\<lparr>Platform := ''appletvos''\<rparr>)
     in if SupportsDolbyVision caps then caps\<lparr>SupportsHDR := True\<rparr> else caps)"
proof -
  have "MaxWidth c \<noteq> 0 \<and> MaxHeight c \<noteq> 0 \<and> MaxBitrate c \<noteq> 0"
    if "c = extractCommonCapabilities order NewTVOSAdapter r (zeroCapabilities\<lparr>Platform := ''appletvos''\<rparr>)" for c
    unfolding that extractCommonCapabilities_def using defaults_set by simp
  then show ?thesis by (simp add: TVOS_ExtractCapabilities_def Let_def)
qed

text \<open>
  A resolution with a negative side is taken as it stands, where the web and the Android adapters only take
  positive ones.
\<close>

theorem negative_resolution_is_kept:
  assumes "rq_Get r ''X-Apple-Resolution'' = ''-1x1080''"
  shows "MaxWidth (IOS_ExtractCapabilities order r) = - 1"
proof -
  have p: "apple_resolution ''-1x1080'' caps = caps\<lparr>MaxWidth := - 1, MaxHeight := 1080\<rparr>" for caps
  proof -
    have "SplitAt CHR ''x'' ''-1x1080'' = [''-1'', ''1080'']" "parseInt ''-1'' = - 1" "parseInt ''1080'' = 1080" by code_simp+
    then show ?thesis by (simp add: apple_resolution_def)
  qed
  have "MaxWidth (extractCodecHeaders order r caps) = - 1 \<and> MaxHeight (extractCodecHeaders order r caps) = 1080" for caps
    by (simp add: extractCodecHeaders_def Let_def assms p)
  then have "MaxWidth (applyPlatformDefaults a (extractCodecHeaders order r caps)) = - 1" for a caps
    by (simp add: applyPlatformDefaults_def Let_def)
  then show ?thesis by (simp add: IOS_ExtractCapabilities_def extractCommonCapabilities_def Let_def)
qed

end
