(* ===== verification/Clients.thy ===== *)
theory Clients
  imports WebClient Android Apple
begin

text \<open>
  Which adapter reads a request: \<^verbatim>\<open>internal/clients/detect.go\<close>, \<^verbatim>\<open>clients.go\<close> and the interface
  of \<^verbatim>\<open>adapter.go\<close>. The regular expressions for the user agent are alternatives of texts, character
  ranges and \<^verbatim>\<open>.*\<close>, searched anywhere and without regard to case; they are data of the model, and
  the matcher is written out below.
\<close>

section \<open>User agent patterns\<close>

datatype item = Text string | Range char char | Any

type_synonym regex = "item list list"

fun match_here :: "item list \<Rightarrow> string \<Rightarrow> bool" where
  "match_here [] s \<longleftrightarrow> True"
| "match_here (Text p # r) s \<longleftrightarrow> EqualFold (take (length p) s) p \<and> match_here r (drop (length p) s)"
| "match_here (Range a b # r) s \<longleftrightarrow>
     (case s of [] \<Rightarrow> False | c # t \<Rightarrow> a \<le> lower_char c \<and> lower_char c \<le> b \<and> match_here r t)"
| "match_here (Any # r) [] \<longleftrightarrow> match_here r []"
| "match_here (Any # r) (c # t) \<longleftrightarrow> match_here r (c # t) \<or> c \<noteq> CHR 0x0A \<and> match_here (Any # r) t"

fun match_from :: "item list \<Rightarrow> string \<Rightarrow> bool" where
  "match_from p [] \<longleftrightarrow> match_here p []"
| "match_from p (c # s) \<longleftrightarrow> match_here p (c # s) \<or> match_from p s"

definition MatchString :: "regex \<Rightarrow> string \<Rightarrow> bool" where
  "MatchString re s \<longleftrightarrow> list_ex (\<lambda>p. match_from p s) re"

section \<open>The detector\<close>

record DetectionPattern =
  dp_Platform :: string
  dp_Headers :: "(string, string) gomap"
  dp_UserAgent :: "regex option"
  dp_Priority :: int

definition header_pattern :: "string \<Rightarrow> string \<Rightarrow> int \<Rightarrow> DetectionPattern" where
  "header_pattern platform val prio = \<lparr>dp_Platform = platform, dp_Headers = [(''X-Platform'', val)], dp_UserAgent = None, dp_Priority = prio\<rparr>"

definition agent_pattern :: "string \<Rightarrow> regex \<Rightarrow> int \<Rightarrow> DetectionPattern" where
  "agent_pattern platform re prio = \<lparr>dp_Platform = platform, dp_Headers = [], dp_UserAgent = Some re, dp_Priority = prio\<rparr>"

definition default_patterns :: "DetectionPattern list" where
  "default_patterns = [
     header_pattern ''appletvos'' ''appletvos'' 100,
     header_pattern ''tizen'' ''tizen'' 100,
     header_pattern ''webos'' ''webos'' 100,
     header_pattern ''roku'' ''roku'' 100,
     header_pattern ''firetv'' ''firetv'' 100,
     header_pattern ''android'' ''android'' 90,
     header_pattern ''ios'' ''ios'' 90,
     agent_pattern ''appletvos'' [[Text ''AppleTV''], [Text ''tvOS''], [Text ''atvxb'']] 80,
     agent_pattern ''tizen'' [[Text ''Tizen''], [Text ''Samsung''], [Text ''SAMSUNG'']] 80,
     agent_pattern ''webos'' [[Text ''WebOS''], [Text ''webOS''], [Text ''LG'']] 80,
     agent_pattern ''roku'' [[Text ''Roku''], [Text ''DVP''], [Text ''RokuOS'']] 80,
     agent_pattern ''firetv'' [[Text ''FireTV''], [Text ''Amazon Fire''], [Text ''AFT'', Range CHR ''a'' CHR ''z'']] 80,
     agent_pattern ''chromecast'' [[Text ''CrKey''], [Text ''Chromecast'']] 80,
     agent_pattern ''playstation'' [[Text ''PlayStation''], [Text ''PS'', Range CHR ''3'' CHR ''5''], [Text ''PlayStation '', Range CHR ''3'' CHR ''5'']] 80,
     agent_pattern ''xbox'' [[Text ''Xbox''], [Text ''NXPE''], [Text ''XboxOne'']] 80,
     agent_pattern ''android'' [[Text ''Android''], [Text ''Mobile; Android'']] 70,
     agent_pattern ''ios'' [[Text ''iPhone''], [Text ''iPad''], [Text ''iPod'', Any, Text ''OS''], [Text ''iOS'']] 70,
     agent_pattern ''edge'' [[Text ''Edg/'']] 65,
     agent_pattern ''chrome'' [[Text ''Chrome/'']] 60,
     agent_pattern ''firefox'' [[Text ''Firefox/'']] 60,
     agent_pattern ''safari'' [[Text ''Version/'', Any, Text ''Safari/'']] 60,
     agent_pattern ''web'' [[Text ''Chrome/''], [Text ''Firefox/''], [Text ''Safari/''], [Text ''Edge/''], [Text ''OPR/''], [Text ''Edg/'']] 50]"

datatype ClientAdapter = WebClientAdapter | AndroidAdapter | IOSAdapter | TVOSAdapter

fun ClientType :: "ClientAdapter \<Rightarrow> string" where
  "ClientType WebClientAdapter = ''web''"
| "ClientType AndroidAdapter = ''android''"
| "ClientType IOSAdapter = ''ios''"
| "ClientType TVOSAdapter = ''appletvos''"

fun SourceID :: "ClientAdapter \<Rightarrow> string" where
  "SourceID WebClientAdapter = ''tenkile:web-client''"
| "SourceID AndroidAdapter = ''android-mediacodec''"
| "SourceID IOSAdapter = ''ios-avfoundation''"
| "SourceID TVOSAdapter = ''tvos-avfoundation''"

fun adapter_trust :: "ClientAdapter \<Rightarrow> float64" where
  "adapter_trust WebClientAdapter = web_base"
| "adapter_trust AndroidAdapter = android_base"
| "adapter_trust IOSAdapter = ba_baseTrust NewIOSAdapter"
| "adapter_trust TVOSAdapter = ba_baseTrust NewTVOSAdapter"

text \<open>What an adapter extracts; \<open>dec\<close> holds the two JSON decoders and the visiting order of the Apple table.\<close>

record 'b decoders =
  dec_web :: "'b \<Rightarrow> ProbeReport option"
  dec_android :: "'b \<Rightarrow> AndroidProbeReport option"
  dec_order :: "(string, string) gomap"

definition decoded :: "('b \<Rightarrow> 'r option) \<Rightarrow> 'b http_request \<Rightarrow> 'r http_request" where
  "decoded f r = \<lparr>rq_Get = rq_Get r, rq_ContentLength = rq_ContentLength r, rq_Body = Option.bind (rq_Body r) f\<rparr>"

fun extract_with :: "'b decoders \<Rightarrow> ClientAdapter \<Rightarrow> 'b http_request \<Rightarrow> DeviceCapabilities" where
  "extract_with dec WebClientAdapter r = WebClient.ExtractCapabilities (decoded (dec_web dec) r)"
| "extract_with dec AndroidAdapter r = Android.ExtractCapabilities (decoded (dec_android dec) r)"
| "extract_with dec IOSAdapter r = IOS_ExtractCapabilities (dec_order dec) r"
| "extract_with dec TVOSAdapter r = TVOS_ExtractCapabilities (dec_order dec) r"

record Detector =
  d_adapters :: "(string, ClientAdapter) gomap"
  patterns :: "DetectionPattern list"

definition NewDetector :: Detector where "NewDetector = \<lparr>d_adapters = [], patterns = default_patterns\<rparr>"

definition Detector_RegisterAdapter :: "ClientAdapter \<Rightarrow> Detector \<Rightarrow> Detector" where
  "Detector_RegisterAdapter a d = d\<lparr>d_adapters := gput (d_adapters d) (ClientType a) a\<rparr>"

definition header_matches :: "'b http_request \<Rightarrow> DetectionPattern \<Rightarrow> bool" where
  "header_matches r p = list_ex (\<lambda>(h, v). rq_Get r h \<noteq> [] \<and> EqualFold (rq_Get r h) v) (dp_Headers p)"

definition agent_matches :: "string \<Rightarrow> DetectionPattern \<Rightarrow> bool" where
  "agent_matches ua p = (case dp_UserAgent p of None \<Rightarrow> False | Some re \<Rightarrow> MatchString re ua)"

text \<open>The loop over the patterns: the best platform so far and its priority.\<close>

definition better :: "string \<Rightarrow> string \<times> int \<Rightarrow> DetectionPattern \<Rightarrow> string \<times> int" where
  "better ua = (\<lambda>(best, prio) p. if agent_matches ua p \<and> dp_Priority p > prio then (dp_Platform p, dp_Priority p) else (best, prio))"

definition detectPlatform :: "'b http_request \<Rightarrow> Detector \<Rightarrow> string" where
  "detectPlatform r d =
     (case find (header_matches r) (patterns d) of
        Some p \<Rightarrow> dp_Platform p
      | None \<Rightarrow>
          (let ua = UserAgent_of r
           in if ua = [] then ''unknown''
              else (let (best, prio) = foldl (better ua) ([], 0) (patterns d)
                    in if best = [] then ''web'' else best)))"

definition Detect :: "'b http_request \<Rightarrow> Detector \<Rightarrow> ClientAdapter option" where
  "Detect r d =
     (case gget (d_adapters d) (detectPlatform r d) of
        Some a \<Rightarrow> Some a
      | None \<Rightarrow> gget (d_adapters d) ''web'')"

section \<open>The registry\<close>

record Registry =
  detector :: Detector
  adapters :: "(string, ClientAdapter) gomap"
  defaults :: "ClientAdapter list"

definition RegisterAdapter :: "ClientAdapter \<Rightarrow> Registry \<Rightarrow> Registry" where
  "RegisterAdapter a r =
     r\<lparr>adapters := gput (adapters r) (ClientType a) a, detector := Detector_RegisterAdapter a (detector r),
       defaults := defaults r @ [a]\<rparr>"

definition NewRegistry :: Registry where
  "NewRegistry =
     (let r = \<lparr>detector = NewDetector, adapters = [], defaults = []\<rparr>
      in RegisterAdapter TVOSAdapter (RegisterAdapter IOSAdapter (RegisterAdapter AndroidAdapter (RegisterAdapter WebClientAdapter r))))"

definition GetAdapter :: "string \<Rightarrow> Registry \<Rightarrow> ClientAdapter option" where "GetAdapter platform r = gget (adapters r) platform"
definition DetectClient :: "'b http_request \<Rightarrow> Registry \<Rightarrow> ClientAdapter option" where "DetectClient req r = Detect req (detector r)"
definition DetectPlatform :: "'b http_request \<Rightarrow> Registry \<Rightarrow> string" where "DetectPlatform req r = detectPlatform req (detector r)"
definition ListAdapters :: "Registry \<Rightarrow> ClientAdapter list" where "ListAdapters r = map snd (adapters r)"

record DetectorResult =
  dr_Adapter :: ClientAdapter
  dr_Platform :: string
  dr_SourceID :: string
  dr_Capabilities :: DeviceCapabilities
  dr_TrustScore :: float64

datatype detect_error = ErrNoAdapterFound

definition DetectAndExtract :: "'b decoders \<Rightarrow> 'b http_request \<Rightarrow> Registry \<Rightarrow> detect_error + DetectorResult" where
  "DetectAndExtract dec req r =
     (case DetectClient req r of
        None \<Rightarrow> Inl ErrNoAdapterFound
      | Some a \<Rightarrow> Inr \<lparr>dr_Adapter = a, dr_Platform = ClientType a, dr_SourceID = SourceID a,
                         dr_Capabilities = extract_with dec a req, dr_TrustScore = adapter_trust a\<rparr>)"

section \<open>The platform of a user agent\<close>

lemma better_fold:
  assumes "foldl (better ua) (b0, n0) ps = (best, prio)"
  shows "n0 \<le> prio \<and> (\<forall>p \<in> set ps. agent_matches ua p \<longrightarrow> dp_Priority p \<le> prio) \<and>
    ((best, prio) = (b0, n0) \<or> (\<exists>p \<in> set ps. agent_matches ua p \<and> dp_Platform p = best \<and> dp_Priority p = prio))"
  using assms
proof (induction ps arbitrary: b0 n0)
  case (Cons p ps)
  obtain b1 n1 where b: "better ua (b0, n0) p = (b1, n1)" by force
  then have "foldl (better ua) (b1, n1) ps = (best, prio)" using Cons.prems by simp
  note i = Cons.IH [OF this]
  have "n0 \<le> n1 \<and> (agent_matches ua p \<longrightarrow> dp_Priority p \<le> n1) \<and>
      ((b1, n1) = (b0, n0) \<or> agent_matches ua p \<and> dp_Platform p = b1 \<and> dp_Priority p = n1)"
    using b by (auto simp: better_def split: if_splits)
  then show ?case using i by (auto intro: order_trans)
qed simp

lemma fold_prefix: "EqualFold (take (length p) s) p \<longleftrightarrow> HasPrefix (ToLower s) (ToLower p)"
proof
  assume e: "EqualFold (take (length p) s) p"
  then have "length (ToLower (take (length p) s)) = length (ToLower p)" unfolding EqualFold_def by (rule arg_cong)
  then show "HasPrefix (ToLower s) (ToLower p)" using e
    by (simp add: HasPrefix_def EqualFold_def ToLower_def take_map min_def split: if_splits)
qed (simp add: HasPrefix_def EqualFold_def ToLower_def take_map)

lemma text_matches: "match_from [Text p] s \<longleftrightarrow> Contains (ToLower s) (ToLower p)"
proof (induction s)
  case Nil
  then show ?case by (simp add: EqualFold_def eq_commute [of "[]"])
next
  case (Cons c s)
  then show ?case using fold_prefix [of p "c # s"] by (simp add: ToLower_def)
qed

lemma fold_idle:
  "\<forall>p \<in> set ps. \<not> agent_matches ua p \<or> dp_Priority p \<le> n \<Longrightarrow> foldl (better ua) (b, n) ps = (b, n)"
  by (induction ps) (auto simp: better_def)

lemma patterns_named: "\<forall>p \<in> set default_patterns. dp_Platform p \<noteq> [] \<and> 0 < dp_Priority p"
  by (simp add: default_patterns_def header_pattern_def agent_pattern_def)

text \<open>
  For a request without the platform header, the platform is that of a pattern that matches the user agent, and
  no pattern that matches has a higher priority; it is web exactly when there is none or a web pattern wins.
\<close>

theorem platform_has_top_priority:
  assumes "find (header_matches r) default_patterns = None" and "UserAgent_of r \<noteq> []"
  shows "if \<exists>p \<in> set default_patterns. agent_matches (UserAgent_of r) p
     then \<exists>p \<in> set default_patterns. agent_matches (UserAgent_of r) p \<and> dp_Platform p = detectPlatform r NewDetector \<and>
            (\<forall>q \<in> set default_patterns. agent_matches (UserAgent_of r) q \<longrightarrow> dp_Priority q \<le> dp_Priority p)
     else detectPlatform r NewDetector = ''web''"
proof -
  let ?ua = "UserAgent_of r"
  obtain best prio where f: "foldl (better ?ua) ([], 0) default_patterns = (best, prio)" by force
  note b = better_fold [OF f]
  have d: "detectPlatform r NewDetector = (if best = [] then ''web'' else best)"
    using assms f by (simp add: detectPlatform_def NewDetector_def)
  show ?thesis
  proof (cases "\<exists>p \<in> set default_patterns. agent_matches ?ua p")
    case True
    then obtain q where q: "q \<in> set default_patterns" "agent_matches ?ua q" by blast
    then have "0 < prio" using b patterns_named by fastforce
    then obtain p where p: "p \<in> set default_patterns" "agent_matches ?ua p" "dp_Platform p = best" "dp_Priority p = prio"
      using b by auto
    then have "best \<noteq> []" using patterns_named by blast
    then show ?thesis using True p b d by auto
  next
    case False
    then have "best = []" using b by auto
    then show ?thesis using False d by simp
  qed
qed

definition agent :: "string \<Rightarrow> 'b http_request" where
  "agent ua = \<lparr>rq_Get = (\<lambda>h. if h = ''User-Agent'' then ua else []), rq_ContentLength = 0, rq_Body = None\<rparr>"

lemma agent_no_header: "find (header_matches (agent ua)) default_patterns = None"
  by (simp add: find_None_iff default_patterns_def header_pattern_def agent_pattern_def header_matches_def agent_def)

definition galaxy :: string where
  "galaxy = ''Mozilla/5.0 (Linux; Android 14; SM-S911B) SamsungBrowser/24.0''"

theorem platform_has_top_priority_witness:
  "\<exists>p \<in> set default_patterns. agent_matches ''Roku/DVP-9.10'' p \<and> dp_Platform p = detectPlatform (agent ''Roku/DVP-9.10'') NewDetector"
proof -
  have u: "UserAgent_of (agent ''Roku/DVP-9.10'') = ''Roku/DVP-9.10''" by (simp add: UserAgent_of_def agent_def)
  have p: "agent_pattern ''roku'' [[Text ''Roku''], [Text ''DVP''], [Text ''RokuOS'']] 80 \<in> set default_patterns"
    by (simp add: default_patterns_def)
  have "agent_matches ''Roku/DVP-9.10'' (agent_pattern ''roku'' [[Text ''Roku''], [Text ''DVP''], [Text ''RokuOS'']] 80)" by code_simp
  then have "\<exists>p \<in> set default_patterns. agent_matches ''Roku/DVP-9.10'' p" using p by blast
  then show ?thesis using platform_has_top_priority [OF agent_no_header, of "''Roku/DVP-9.10''"] unfolding u by auto
qed

text \<open>
  A Samsung phone is taken for a Samsung television: its browser names both Android and Samsung, and the
  television's pattern has the higher priority. There is no adapter for that platform, so that the web adapter reads
  the request.
\<close>

theorem samsung_phone_is_a_television:
  shows "DetectPlatform (agent galaxy) NewRegistry = ''tizen'' \<and> DetectClient (agent galaxy) NewRegistry = Some WebClientAdapter"
proof -
  have u: "UserAgent_of (agent galaxy) = galaxy" "galaxy \<noteq> []" by (simp_all add: UserAgent_of_def agent_def galaxy_def)
  let ?tv = "[[Text ''AppleTV''], [Text ''tvOS''], [Text ''atvxb'']]"
  let ?tz = "[[Text ''Tizen''], [Text ''Samsung''], [Text ''SAMSUNG'']]"
  have i: "default_patterns ! 7 = agent_pattern ''appletvos'' ?tv 80" "default_patterns ! 8 = agent_pattern ''tizen'' ?tz 80"
    by (simp_all add: default_patterns_def)
  have g: "ToLower galaxy = ''mozilla/5.0 (linux; android 14; sm-s911b) samsungbrowser/24.0''" "ToLower ''Samsung'' = ''samsung''"
    "ToLower ''AppleTV'' = ''appletv''" "ToLower ''tvOS'' = ''tvos''" "ToLower ''atvxb'' = ''atvxb''"
    by code_simp+
  have m: "\<not> MatchString ?tv galaxy" "MatchString ?tz galaxy" by (simp_all add: MatchString_def text_matches g HasPrefix_def)
  have a: "\<not> agent_matches galaxy (default_patterns ! 7)" "agent_matches galaxy (default_patterns ! 8)"
    "dp_Platform (default_patterns ! 8) = ''tizen''" "dp_Priority (default_patterns ! 8) = 80"
    unfolding i agent_matches_def using m by (simp_all add: agent_pattern_def)
  have b: "better galaxy ([], 0) (default_patterns ! 7) = ([], 0)" "better galaxy ([], 0) (default_patterns ! 8) = (''tizen'', 80)"
    using a by (simp_all add: better_def)
  have s: "default_patterns = take 7 default_patterns @ [default_patterns ! 7, default_patterns ! 8] @ drop 9 default_patterns"
    by (simp add: default_patterns_def)
  have h: "foldl (better galaxy) ([], 0) (take 7 default_patterns) = ([], 0)"
    by (rule fold_idle) (simp add: default_patterns_def header_pattern_def agent_matches_def)
  have l: "foldl (better galaxy) (''tizen'', 80) (drop 9 default_patterns) = (''tizen'', 80)"
    by (rule fold_idle) (simp add: default_patterns_def agent_pattern_def)
  have f: "foldl (better galaxy) ([], 0) default_patterns = (''tizen'', 80)"
    using h l b by (subst s) simp
  have p: "detectPlatform (agent galaxy) (d\<lparr>patterns := default_patterns\<rparr>) = ''tizen''" for d
    by (simp add: detectPlatform_def agent_no_header u f)
  have n: "detector NewRegistry = (detector NewRegistry)\<lparr>patterns := default_patterns\<rparr>"
    by (simp add: NewRegistry_def RegisterAdapter_def Detector_RegisterAdapter_def NewDetector_def Let_def)
  have t: "detectPlatform (agent galaxy) (detector NewRegistry) = ''tizen''" by (subst n) (rule p)
  have r: "gget (d_adapters (detector NewRegistry)) ''tizen'' = None" "gget (d_adapters (detector NewRegistry)) ''web'' = Some WebClientAdapter"
    by (simp_all add: NewRegistry_def RegisterAdapter_def Detector_RegisterAdapter_def NewDetector_def Let_def gomap_simps)
  show ?thesis by (simp add: DetectClient_def DetectPlatform_def Detect_def t r)
qed

section \<open>Every request is read by an adapter\<close>

lemma registered:
  "gget (d_adapters (detector NewRegistry)) k =
     (if k = ''web'' then Some WebClientAdapter else if k = ''android'' then Some AndroidAdapter
      else if k = ''ios'' then Some IOSAdapter else if k = ''appletvos'' then Some TVOSAdapter else None)"
  by (auto simp: NewRegistry_def RegisterAdapter_def Detector_RegisterAdapter_def NewDetector_def Let_def gomap_simps)

lemma apple_trust_bounds:
  "ba_baseTrust a \<le> lit 98 100 \<Longrightarrow> fl (ba_baseTrust a) = ba_baseTrust a \<Longrightarrow>
     ba_baseTrust a \<le> apple_trust (ba_baseTrust a) caps \<and> apple_trust (ba_baseTrust a) caps \<le> lit 98 100"
  unfolding apple_trust_def by (intro grown_capped grown_step grown_start lit_nonneg) simp_all

lemma common_trust:
  "dc_TrustScore (extractCommonCapabilities order a r caps) = apple_trust (ba_baseTrust a)
     (applyPlatformDefaults a (Apple.extractCodecHeaders order r (apple_identity a r caps)))"
  by (simp add: extractCommonCapabilities_def Apple.calculateTrustScore_def Let_def)

lemma apple_extract_trust:
  "dc_TrustScore (IOS_ExtractCapabilities order r) = dc_TrustScore (extractCommonCapabilities order NewIOSAdapter r (zeroCapabilities\<lparr>Platform := ''ios''\<rparr>))"
  "dc_TrustScore (TVOS_ExtractCapabilities order r) = dc_TrustScore (extractCommonCapabilities order NewTVOSAdapter r (zeroCapabilities\<lparr>Platform := ''appletvos''\<rparr>))"
  by (simp_all add: IOS_ExtractCapabilities_def TVOS_ExtractCapabilities_def Let_def)

lemma extract_trust:
  "adapter_trust a \<le> dc_TrustScore (extract_with dec a r) \<and> dc_TrustScore (extract_with dec a r) \<le> lit 98 100"
proof (cases a)
  case WebClientAdapter
  obtain c where c: "extract_with dec a r = WebClient.calculateTrustScore web_base c"
    by (simp add: WebClientAdapter WebClient.ExtractCapabilities_def Let_def)
  have "lit 90 100 \<le> lit 98 100" by (rule lit_le) simp_all
  then show ?thesis unfolding c using web_trust_bounds [of c] WebClientAdapter by (simp add: WebClient.calculateTrustScore_def Let_def)
next
  case AndroidAdapter
  obtain c where "extract_with dec a r = Android.calculateTrustScore android_base c"
    by (simp add: AndroidAdapter Android.ExtractCapabilities_def Let_def)
  note e = this
  show ?thesis unfolding e using android_trust_bounds [of c] AndroidAdapter by (simp add: Android.calculateTrustScore_def with_trust_def)
next
  case IOSAdapter
  then show ?thesis using apple_trust_bounds [of NewIOSAdapter] by (simp add: apple_extract_trust common_trust NewIOSAdapter_def lit_le)
next
  case TVOSAdapter
  then show ?thesis using apple_trust_bounds [of NewTVOSAdapter] by (simp add: apple_extract_trust common_trust NewTVOSAdapter_def lit_le)
qed

text \<open>
  Every request is read: the detection never fails. The adapter is the one of the detected platform where there is
  one and the web adapter otherwise, and the trust score of the result is at least the adapter's and at most 0.98.
\<close>

theorem every_request_is_read:
  shows "\<exists>res. DetectAndExtract dec req NewRegistry = Inr res \<and>
    dr_Platform res = (if DetectPlatform req NewRegistry \<in> {''android'', ''ios'', ''appletvos''} then DetectPlatform req NewRegistry else ''web'') \<and>
    dr_TrustScore res \<le> dc_TrustScore (dr_Capabilities res) \<and> dc_TrustScore (dr_Capabilities res) \<le> lit 98 100"
proof -
  let ?p = "DetectPlatform req NewRegistry"
  have "\<exists>a. DetectClient req NewRegistry = Some a \<and> ClientType a = (if ?p \<in> {''android'', ''ios'', ''appletvos''} then ?p else ''web'')"
    by (auto simp: DetectClient_def Detect_def DetectPlatform_def registered)
  then obtain a where "DetectClient req NewRegistry = Some a" "ClientType a = (if ?p \<in> {''android'', ''ios'', ''appletvos''} then ?p else ''web'')"
    by blast
  then show ?thesis using extract_trust [of a dec req] by (simp add: DetectAndExtract_def)
qed

end
