(* ===== verification/PlaybackMetrics.thy ===== *)
theory PlaybackMetrics
  imports Feedback "HOL-Library.Multiset"
begin

text \<open>
  The playback metrics of \<^verbatim>\<open>internal/probes/feedback_metrics.go\<close>: counters, gauges, the latency histogram and
  the two exports. The verb \<^verbatim>\<open>%g\<close> is an argument of the text export.
\<close>

record PlaybackMetrics =
  playbackTotal :: "(string, (string, int) gomap) gomap"
  reprobeTriggered :: "(string, (string, int) gomap) gomap"
  trustScores :: "(string, float64) gomap"
  feedbackLatencies :: "float64 list"
  globalPlaybackTotal :: "(string, int) gomap"
  totalReProbes :: int

definition NewPlaybackMetrics :: PlaybackMetrics where
  "NewPlaybackMetrics = \<lparr>playbackTotal = [], reprobeTriggered = [], trustScores = [], feedbackLatencies = [],
     globalPlaybackTotal = [], totalReProbes = 0\<rparr>"

text \<open>\<^verbatim>\<open>m[k]++\<close>, and the same in a map of maps whose inner map is made when it is missing.\<close>

definition incr :: "string \<Rightarrow> (string, int) gomap \<Rightarrow> (string, int) gomap" where
  "incr k m = gput m k (i64 (getz 0 m k + 1))"

definition incr2 :: "string \<Rightarrow> string \<Rightarrow> (string, (string, int) gomap) gomap \<Rightarrow> (string, (string, int) gomap) gomap" where
  "incr2 d k m = gput m d (incr k (getz [] m d))"

definition RecordPlayback :: "string \<Rightarrow> PlaybackOutcome \<Rightarrow> PlaybackMetrics \<Rightarrow> PlaybackMetrics" where
  "RecordPlayback d x m =
     m\<lparr>playbackTotal := incr2 d (Outcome_String x) (playbackTotal m),
       globalPlaybackTotal := incr (Outcome_String x) (globalPlaybackTotal m)\<rparr>"

definition RecordTrustScore :: "string \<Rightarrow> float64 \<Rightarrow> PlaybackMetrics \<Rightarrow> PlaybackMetrics" where
  "RecordTrustScore d score m = m\<lparr>trustScores := gput (trustScores m) d score\<rparr>"

definition RecordReProbe :: "string \<Rightarrow> string \<Rightarrow> PlaybackMetrics \<Rightarrow> PlaybackMetrics" where
  "RecordReProbe d reason m =
     m\<lparr>reprobeTriggered := incr2 d reason (reprobeTriggered m), totalReProbes := i64 (totalReProbes m + 1)\<rparr>"

text \<open>\<^verbatim>\<open>Duration.Seconds\<close>: whole seconds and the rest are converted apart; Go's division truncates.\<close>

definition Seconds :: "duration \<Rightarrow> float64" where
  "Seconds d = (let q = sgn d * (\<bar>d\<bar> div Second) in fadd (ffromint q) (fdiv (ffromint (d - q * Second)) (ffromint Second)))"

definition RecordFeedbackLatency :: "duration \<Rightarrow> PlaybackMetrics \<Rightarrow> PlaybackMetrics" where
  "RecordFeedbackLatency d m =
     (let ls = feedbackLatencies m @ [Seconds d]
      in m\<lparr>feedbackLatencies := (if length ls > 1000 then drop (length ls - 1000) ls else ls)\<rparr>)"

definition ResetMetrics :: "PlaybackMetrics \<Rightarrow> PlaybackMetrics" where
  "ResetMetrics m = m\<lparr>playbackTotal := [], reprobeTriggered := [], trustScores := [], feedbackLatencies := [],
     globalPlaybackTotal := [], totalReProbes := 0\<rparr>"

definition GetGlobalPlaybackTotals :: "PlaybackMetrics \<Rightarrow> (string, int) gomap" where
  "GetGlobalPlaybackTotals m = fold (\<lambda>(k, n) r. gput r k n) (globalPlaybackTotal m) []"

definition GetTotalReProbes :: "PlaybackMetrics \<Rightarrow> int" where "GetTotalReProbes m = totalReProbes m"

section \<open>The latency histogram\<close>

record LatencyHistogram =
  lh_Count :: int
  lh_Sum :: float64
  lh_Min :: float64
  lh_Max :: float64
  lh_Avg :: float64
  lh_P50 :: float64
  lh_P90 :: float64
  lh_P99 :: float64

definition fsum :: "float64 list \<Rightarrow> float64" where "fsum xs = foldl fadd 0 xs"

definition percentile :: "nat \<Rightarrow> float64 list \<Rightarrow> float64" where
  "percentile p xs = xs ! (length xs * p div 100)"

definition calculateLatencyHistogram :: "float64 list \<Rightarrow> LatencyHistogram" where
  "calculateLatencyHistogram ls =
     (case ls of
        [] \<Rightarrow> \<lparr>lh_Count = 0, lh_Sum = 0, lh_Min = 0, lh_Max = 0, lh_Avg = 0, lh_P50 = 0, lh_P90 = 0, lh_P99 = 0\<rparr>
      | l # _ \<Rightarrow>
          (let srt = sort ls
           in \<lparr>lh_Count = int (length ls), lh_Sum = fsum ls,
               lh_Min = foldl (\<lambda>m x. if x < m then x else m) l ls,
               lh_Max = foldl (\<lambda>m x. if x > m then x else m) l ls,
               lh_Avg = fdiv (fsum ls) (ffromint (int (length ls))),
               lh_P50 = percentile 50 srt, lh_P90 = percentile 90 srt, lh_P99 = percentile 99 srt\<rparr>))"

section \<open>Exports\<close>

record Export =
  ex_playback_total :: "(string \<times> string \<times> int) list"
  ex_trust_scores :: "(string \<times> float64) list"
  ex_reprobe_total :: "(string \<times> string \<times> int) list"
  ex_latency_histogram :: LatencyHistogram

definition counter_values :: "(string, (string, int) gomap) gomap \<Rightarrow> (string \<times> string \<times> int) list" where
  "counter_values m = concat (map (\<lambda>(d, inner). map (\<lambda>(k, n). (d, k, n)) inner) m)"

definition ExportMetrics :: "PlaybackMetrics \<Rightarrow> Export" where
  "ExportMetrics m = \<lparr>ex_playback_total = counter_values (playbackTotal m), ex_trust_scores = trustScores m,
     ex_reprobe_total = counter_values (reprobeTriggered m),
     ex_latency_histogram = calculateLatencyHistogram (feedbackLatencies m)\<rparr>"

datatype sample = FloatValue float64 | IntValue int

fun formatValue :: "(float64 \<Rightarrow> string) \<Rightarrow> sample \<Rightarrow> string" where
  "formatValue g (FloatValue x) = g x"
| "formatValue g (IntValue n) = Itoa n"

fun label_text :: "(string \<times> string) list \<Rightarrow> string" where
  "label_text [] = []"
| "label_text [(k, v)] = k @ [CHR ''='', CHR 0x22] @ v @ [CHR 0x22]"
| "label_text ((k, v) # l # ls) = k @ [CHR ''='', CHR 0x22] @ v @ [CHR 0x22] @ '','' @ label_text (l # ls)"

definition formatPrometheusLine :: "(float64 \<Rightarrow> string) \<Rightarrow> string \<Rightarrow> sample \<Rightarrow> (string \<times> string) list \<Rightarrow> string" where
  "formatPrometheusLine g name v labels =
     (if label_text labels \<noteq> [] then name @ ''{'' @ label_text labels @ ''} '' @ formatValue g v
      else name @ '' '' @ formatValue g v)"

definition buckets :: "float64 list" where
  "buckets = [lit 1 1000, lit 5 1000, lit 1 100, lit 25 1000, lit 5 100, lit 1 10, lit 25 100, lit 5 10, 1, lit 25 10, 5, 10]"

text \<open>Each latency counts in every bucket that holds it; then the counts are summed up from the left.\<close>

definition bucket_counts :: "float64 list \<Rightarrow> int list" where
  "bucket_counts ls = map (\<lambda>b. int (length (filter (\<lambda>l. l \<le> b) ls))) buckets"

fun cumulated :: "int \<Rightarrow> int list \<Rightarrow> int list" where
  "cumulated a [] = []"
| "cumulated a (c # cs) = (a + c) # cumulated (a + c) cs"

definition bucket_samples :: "float64 list \<Rightarrow> (float64 \<times> float64) list" where
  "bucket_samples ls = zip buckets (map ffromint (cumulated 0 (bucket_counts ls)))"

definition inf_sample :: "float64 list \<Rightarrow> float64" where "inf_sample ls = ffromint (int (length ls))"

definition latency_lines :: "(float64 \<Rightarrow> string) \<Rightarrow> float64 list \<Rightarrow> string list" where
  "latency_lines g ls =
     (if ls = [] then []
      else map (\<lambda>(b, v). formatPrometheusLine g ''tenkile_feedback_latency_seconds_bucket'' (FloatValue v) [(''le'', g b)]) (bucket_samples ls)
        @ [formatPrometheusLine g ''tenkile_feedback_latency_seconds_bucket'' (FloatValue (inf_sample ls)) [(''le'', ''+Inf'')],
           formatPrometheusLine g ''tenkile_feedback_latency_seconds_sum'' (FloatValue (fsum ls)) [],
           formatPrometheusLine g ''tenkile_feedback_latency_seconds_count'' (FloatValue (ffromint (int (length ls)))) []])"

definition joinLines :: "string list \<Rightarrow> string" where "joinLines ls = Join ls [CHR 0x0A]"

definition ExportPrometheusFormat :: "(float64 \<Rightarrow> string) \<Rightarrow> PlaybackMetrics \<Rightarrow> string" where
  "ExportPrometheusFormat g m = joinLines (
     [''# HELP tenkile_playback_total Total playback attempts by device and outcome'', ''# TYPE tenkile_playback_total counter'']
     @ map (\<lambda>(d, x, n). formatPrometheusLine g ''tenkile_playback_total'' (IntValue n) [(''device_id'', d), (''outcome'', x)])
         (counter_values (playbackTotal m))
     @ [[], ''# HELP tenkile_playback_trust_score Current trust score adjustment for device'', ''# TYPE tenkile_playback_trust_score gauge'']
     @ map (\<lambda>(d, s). formatPrometheusLine g ''tenkile_playback_trust_score'' (FloatValue s) [(''device_id'', d)]) (trustScores m)
     @ [[], ''# HELP tenkile_reprobe_triggered_total Total re-probe triggers by device and reason'', ''# TYPE tenkile_reprobe_triggered_total counter'']
     @ map (\<lambda>(d, x, n). formatPrometheusLine g ''tenkile_reprobe_triggered_total'' (IntValue n) [(''device_id'', d), (''reason'', x)])
         (counter_values (reprobeTriggered m))
     @ [[], ''# HELP tenkile_feedback_latency_seconds Feedback processing latency in seconds'', ''# TYPE tenkile_feedback_latency_seconds histogram'']
     @ latency_lines g (feedbackLatencies m))"

section \<open>The counters agree\<close>

datatype metric_op =
    Played string PlaybackOutcome | Scored string float64 | ReProbed string string | Latency duration | ResetAll

fun metric_step :: "PlaybackMetrics \<Rightarrow> metric_op \<Rightarrow> PlaybackMetrics" where
  "metric_step m (Played d x) = RecordPlayback d x m"
| "metric_step m (Scored d s) = RecordTrustScore d s m"
| "metric_step m (ReProbed d r) = RecordReProbe d r m"
| "metric_step m (Latency d) = RecordFeedbackLatency d m"
| "metric_step m ResetAll = ResetMetrics m"

definition outcome_sum :: "string \<Rightarrow> (string, (string, int) gomap) gomap \<Rightarrow> int" where
  "outcome_sum k m = sum_list (map (\<lambda>(d, inner). getz 0 inner k) m)"

definition all_sum :: "(string, (string, int) gomap) gomap \<Rightarrow> int" where
  "all_sum m = sum_list (map (\<lambda>(d, inner). sum_list (map snd inner)) m)"

definition counts_nonneg :: "(string, (string, int) gomap) gomap \<Rightarrow> bool" where
  "counts_nonneg m \<longleftrightarrow> (\<forall>d inner k n. gget m d = Some inner \<longrightarrow> gget inner k = Some n \<longrightarrow> 0 \<le> n) \<and> gwf m \<and>
     (\<forall>d inner. gget m d = Some inner \<longrightarrow> gwf inner)"

lemma sum_over_gput:
  fixes f :: "'a \<Rightarrow> int"
  shows "sum_list (map (\<lambda>(d, v). f v) (gput m k w)) =
    sum_list (map (\<lambda>(d, v). f v) m) + f w - (case gget m k of None \<Rightarrow> 0 | Some v \<Rightarrow> f v)"
  by (induction m) (auto simp: gput_def gget_def)

lemma member_le_sum_int:
  fixes xs :: "int list"
  assumes "\<forall>x \<in> set xs. 0 \<le> x"
  shows "0 \<le> sum_list xs" and "x \<in> set xs \<Longrightarrow> x \<le> sum_list xs"
proof -
  show n: "0 \<le> sum_list xs" using assms by (intro sum_list_nonneg) auto
  show "x \<le> sum_list xs" if "x \<in> set xs" using that assms
  proof (induction xs)
    case (Cons y ys)
    have "0 \<le> sum_list ys" using Cons.prems(2) by (intro sum_list_nonneg) auto
    then show ?case using Cons by auto
  qed simp
qed

lemma sum_ge_entry:
  fixes f :: "'a \<Rightarrow> int"
  assumes "gwf m" "\<And>d v. gget m d = Some v \<Longrightarrow> 0 \<le> f v"
  shows "0 \<le> sum_list (map (\<lambda>(d, v). f v) m)" and "gget m k = Some w \<Longrightarrow> f w \<le> sum_list (map (\<lambda>(d, v). f v) m)"
proof -
  have n: "\<forall>x \<in> set (map (\<lambda>(d, v). f v) m). 0 \<le> x" using assms by (auto simp: gget_mem)
  show "0 \<le> sum_list (map (\<lambda>(d, v). f v) m)" by (rule member_le_sum_int(1) [OF n])
  assume "gget m k = Some w"
  then have "(k, w) \<in> set m" using assms(1) by (simp add: gget_mem)
  then have "f w \<in> set (map (\<lambda>(d, v). f v) m)" by force
  then show "f w \<le> sum_list (map (\<lambda>(d, v). f v) m)" by (rule member_le_sum_int(2) [OF n])
qed

lemma getz_Nil [simp]: "getz z [] k = z"
  by (simp add: getz_def)

lemma getz_some: "getz z m k = v \<Longrightarrow> v \<noteq> z \<Longrightarrow> gget m k = Some v"
  by (auto simp: getz_def split: option.splits)

text \<open>The inner map of a device, and the values in it.\<close>

lemma nonneg_inner:
  assumes "counts_nonneg m"
  shows "gwf (getz [] m d)" and "0 \<le> getz 0 (getz [] m d) k" and "getz 0 (getz [] m d) k \<le> outcome_sum k m"
    and "0 \<le> sum_list (map snd (getz [] m d))" and "sum_list (map snd (getz [] m d)) \<le> all_sum m"
    and "getz 0 (getz [] m d) k \<le> sum_list (map snd (getz [] m d))"
proof -
  have w: "gwf m" using assms by (simp add: counts_nonneg_def)
  have v: "0 \<le> getz 0 inner k" "gwf inner" "0 \<le> sum_list (map snd inner)" "getz 0 inner k \<le> sum_list (map snd inner)"
    if "gget m d = Some inner" for d inner k
  proof -
    have n: "\<And>j n. gget inner j = Some n \<Longrightarrow> 0 \<le> n" and g: "gwf inner" using assms that by (auto simp: counts_nonneg_def)
    show "gwf inner" by (rule g)
    show "0 \<le> getz 0 inner k" using n by (auto simp: getz_def split: option.split)
    have e: "map snd inner = map (\<lambda>(d, v). v) inner" by (simp add: case_prod_unfold)
    have b: "0 \<le> sum_list (map (\<lambda>(d, v). v) inner)" "\<And>w. gget inner k = Some w \<Longrightarrow> w \<le> sum_list (map (\<lambda>(d, v). v) inner)"
      using sum_ge_entry [OF g, where f = "\<lambda>v. v"] n by auto
    then show "0 \<le> sum_list (map snd inner)" unfolding e by simp
    show "getz 0 inner k \<le> sum_list (map snd inner)" unfolding e using b by (auto simp: getz_def split: option.split)
  qed
  show "gwf (getz [] m d)" "0 \<le> getz 0 (getz [] m d) k" "0 \<le> sum_list (map snd (getz [] m d))"
    "getz 0 (getz [] m d) k \<le> sum_list (map snd (getz [] m d))"
    using v by (cases "gget m d"; simp add: getz_def)+
  show "getz 0 (getz [] m d) k \<le> outcome_sum k m"
    using sum_ge_entry [OF w, of "\<lambda>inner. getz 0 inner k"] v by (cases "gget m d") (auto simp: outcome_sum_def getz_def)
  show "sum_list (map snd (getz [] m d)) \<le> all_sum m"
    using sum_ge_entry [OF w, of "\<lambda>inner. sum_list (map snd inner)"] v by (cases "gget m d") (auto simp: all_sum_def getz_def)
qed

lemma incr2_counts:
  assumes "counts_nonneg m" "getz 0 (getz [] m d) j < 2 ^ 63 - 1"
  shows "counts_nonneg (incr2 d j m)" and "outcome_sum k (incr2 d j m) = outcome_sum k m + (if j = k then 1 else 0)"
    and "all_sum (incr2 d j m) = all_sum m + 1"
proof -
  note n = nonneg_inner [OF assms(1)]
  have i: "i64 (getz 0 (getz [] m d) j + 1) = getz 0 (getz [] m d) j + 1" using n(2) [of d j] assms(2) by (intro i64_id) auto
  have e: "incr2 d j m = gput m d (gput (getz [] m d) j (getz 0 (getz [] m d) j + 1))" by (simp add: incr2_def incr_def i)
  show "counts_nonneg (incr2 d j m)" using assms(1) n(1,2) unfolding e counts_nonneg_def
    by (auto simp: gomap_simps getz_def split: if_splits option.splits)
  have c: "(case gget m d of None \<Rightarrow> 0 | Some v \<Rightarrow> f v) = f (getz [] m d)" if "f [] = (0::int)" for f
    using that by (simp add: getz_def split: option.split)
  show "outcome_sum k (incr2 d j m) = outcome_sum k m + (if j = k then 1 else 0)"
    unfolding e outcome_sum_def sum_over_gput [of "\<lambda>inner. getz 0 inner k"] by (subst c) (auto simp: getz_gput)
  show "all_sum (incr2 d j m) = all_sum m + 1"
    unfolding e all_sum_def sum_over_gput [of "\<lambda>inner. sum_list (map snd inner)"] by (subst c) (simp_all add: sum_counts_gput)
qed

definition metrics_ok :: "int \<Rightarrow> PlaybackMetrics \<Rightarrow> bool" where
  "metrics_ok n m \<longleftrightarrow> counts_nonneg (playbackTotal m) \<and> counts_nonneg (reprobeTriggered m) \<and>
     (\<forall>k. getz 0 (globalPlaybackTotal m) k = outcome_sum k (playbackTotal m) \<and> outcome_sum k (playbackTotal m) \<le> n) \<and>
     totalReProbes m = all_sum (reprobeTriggered m) \<and> all_sum (reprobeTriggered m) \<le> n"

lemma metrics_ok_step:
  assumes "metrics_ok n m" "n < 2 ^ 63 - 1" "0 \<le> n"
  shows "metrics_ok (n + 1) (metric_step m op)"
proof (cases op)
  case (Played d x)
  let ?k = "Outcome_String x"
  have c: "counts_nonneg (playbackTotal m)" using assms(1) by (simp add: metrics_ok_def)
  have b: "outcome_sum ?k (playbackTotal m) \<le> n" "getz 0 (globalPlaybackTotal m) ?k = outcome_sum ?k (playbackTotal m)"
    using assms(1) by (auto simp: metrics_ok_def)
  note u = nonneg_inner(1-6) [OF c]
  have "getz 0 (getz [] (playbackTotal m) d) ?k < 2 ^ 63 - 1" using u(3) [of d ?k] b assms(2) by linarith
  note t = incr2_counts [OF c this]
  have "i64 (getz 0 (globalPlaybackTotal m) ?k + 1) = getz 0 (globalPlaybackTotal m) ?k + 1"
    using u(2) [of d ?k] u(3) [of d ?k] b assms(2) by (intro i64_id) linarith+
  then have "getz 0 (incr ?k (globalPlaybackTotal m)) k = outcome_sum k (playbackTotal m) + (if ?k = k then 1 else 0)" for k
    using assms(1) by (auto simp: incr_def getz_gput metrics_ok_def)
  moreover have "outcome_sum k (playbackTotal m) \<le> n" for k using assms(1) by (simp add: metrics_ok_def)
  ultimately show ?thesis using assms(1) t unfolding Played metric_step.simps
    by (auto simp: metrics_ok_def RecordPlayback_def) (smt (verit) assms(1) metrics_ok_def)+
next
  case (ReProbed d r)
  have c: "counts_nonneg (reprobeTriggered m)" and a: "all_sum (reprobeTriggered m) \<le> n" "totalReProbes m = all_sum (reprobeTriggered m)"
    using assms(1) by (auto simp: metrics_ok_def)
  note u = nonneg_inner(1-6) [OF c]
  have "getz 0 (getz [] (reprobeTriggered m) d) r < 2 ^ 63 - 1" using u(5) [of d] u(6) [of d r] a assms(2) by linarith
  note t = incr2_counts [OF c this]
  have "i64 (totalReProbes m + 1) = totalReProbes m + 1" using u(4) [of d] u(5) [of d] a assms(2) by (intro i64_id) linarith+
  then show ?thesis using assms(1) t(1,3) unfolding ReProbed metric_step.simps
    by (auto simp: metrics_ok_def RecordReProbe_def intro: order_trans)
next
  case ResetAll
  then show ?thesis using assms(3) by (simp add: metrics_ok_def ResetMetrics_def counts_nonneg_def outcome_sum_def all_sum_def getz_def)
qed (use assms in \<open>auto simp: metrics_ok_def RecordTrustScore_def RecordFeedbackLatency_def Let_def intro: order_trans\<close>)

lemma metrics_ok_run:
  "metrics_ok n m \<Longrightarrow> 0 \<le> n \<Longrightarrow> n + int (length ops) < 2 ^ 63 \<Longrightarrow> metrics_ok (n + int (length ops)) (foldl metric_step m ops)"
proof (induction ops arbitrary: n m)
  case (Cons op ops)
  then show ?case using Cons.IH [OF metrics_ok_step [OF Cons.prems(1)], of op] by (simp add: algebra_simps)
qed simp

text \<open>
  Whatever is recorded, the global counter of an outcome is the sum of the devices' counters for it, and the number
  of re-probes is the sum of the devices' counters over all reasons.
\<close>

theorem metrics_add_up:
  assumes "int (length ops) < 2 ^ 63"
  defines "m \<equiv> foldl metric_step NewPlaybackMetrics ops"
  shows "(\<forall>k. getz 0 (globalPlaybackTotal m) k = (\<Sum>(d, inner)\<leftarrow>playbackTotal m. getz 0 inner k)) \<and>
    GetTotalReProbes m = (\<Sum>(d, inner)\<leftarrow>reprobeTriggered m. sum_list (map snd inner))"
proof -
  have "metrics_ok 0 NewPlaybackMetrics"
    by (simp add: metrics_ok_def NewPlaybackMetrics_def counts_nonneg_def outcome_sum_def all_sum_def getz_def)
  from metrics_ok_run [OF this, of ops] assms(1) show ?thesis
    unfolding m_def by (simp add: metrics_ok_def outcome_sum_def all_sum_def GetTotalReProbes_def)
qed

theorem metrics_add_up_witness:
  "let m = foldl metric_step NewPlaybackMetrics [Played ''tv'' OutcomeSuccess, Played ''phone'' OutcomeSuccess, ReProbed ''tv'' ''x'']
   in getz 0 (globalPlaybackTotal m) ''success'' = (\<Sum>(d, inner)\<leftarrow>playbackTotal m. getz 0 inner ''success'')"
  using metrics_add_up [of "[Played ''tv'' OutcomeSuccess, Played ''phone'' OutcomeSuccess, ReProbed ''tv'' ''x'']"] by simp

section \<open>The histogram\<close>

lemma fold_min: "foldl (\<lambda>m x. if x < m then x else m) (a :: float64) xs \<le> a \<and> (\<forall>x \<in> set xs. foldl (\<lambda>m x. if x < m then x else m) a xs \<le> x)"
proof (induction xs arbitrary: a)
  case (Cons x xs)
  show ?case using Cons.IH [of x] Cons.IH [of a] by auto
qed simp

lemma fold_max: "a \<le> foldl (\<lambda>m x. if x > m then x else m) (a :: float64) xs \<and> (\<forall>x \<in> set xs. x \<le> foldl (\<lambda>m x. if x > m then x else m) a xs)"
proof (induction xs arbitrary: a)
  case (Cons x xs)
  show ?case using Cons.IH [of x] Cons.IH [of a] by auto
qed simp

lemma percentile_index: "0 < n \<Longrightarrow> p < 100 \<Longrightarrow> n * p div 100 < (n :: nat)"
  by (simp add: div_less_iff_less_mult)

text \<open>
  For every list of latencies the percentiles are entries of it, in order, and between the least and the greatest
  one; no index leaves the list.
\<close>

theorem histogram_ordered:
  assumes "ls \<noteq> []"
  defines "h \<equiv> calculateLatencyHistogram ls"
  shows "{lh_P50 h, lh_P90 h, lh_P99 h} \<subseteq> set ls \<and> lh_Min h \<le> lh_P50 h \<and> lh_P50 h \<le> lh_P90 h \<and> lh_P90 h \<le> lh_P99 h \<and>
    lh_P99 h \<le> lh_Max h \<and> lh_Count h = int (length ls)"
proof -
  let ?n = "length ls" and ?s = "sort ls"
  obtain l rest where l: "ls = l # rest" using assms(1) by (cases ls) auto
  have n: "0 < ?n" using assms(1) by simp
  have i: "?n * p div 100 < ?n" if "p < 100" for p using percentile_index [OF n that] .
  have m: "percentile p ?s \<in> set ls" if "p < 100" for p
    using i [OF that] nth_mem [of "?n * p div 100" ?s] by (simp add: percentile_def)
  have o: "percentile p ?s \<le> percentile q ?s" if "p \<le> q" "q < 100" for p q
    unfolding percentile_def using that i [OF that(2)] by (intro sorted_nth_mono) (auto intro: div_le_mono)
  have h: "lh_P50 h = percentile 50 ?s" "lh_P90 h = percentile 90 ?s" "lh_P99 h = percentile 99 ?s" "lh_Count h = int ?n"
    "lh_Min h = foldl (\<lambda>m x. if x < m then x else m) l ls" "lh_Max h = foldl (\<lambda>m x. if x > m then x else m) l ls"
    by (simp_all add: h_def calculateLatencyHistogram_def l Let_def)
  have "lh_Min h \<le> lh_P50 h" "lh_P99 h \<le> lh_Max h"
    unfolding h using fold_min [of l ls] fold_max [of l ls] m [of 50] m [of 99] by auto
  then show ?thesis using o [of 50 90] o [of 90 99] m unfolding h(1-4) by simp
qed

theorem histogram_ordered_witness:
  "lh_P50 (calculateLatencyHistogram [3, 1, 2]) \<le> lh_P90 (calculateLatencyHistogram [3, 1, 2])"
  using histogram_ordered [of "[3, 1, 2]"] by simp

lemma sum_list_below: "\<forall>c \<in> set cs. c \<le> m \<Longrightarrow> sum_list cs \<le> int (length cs) * m" for m :: int
  by (induction cs) (auto simp: algebra_simps)

lemma cumulated_last: "cs \<noteq> [] \<Longrightarrow> last (cumulated a cs) = a + sum_list cs"
proof (induction cs arbitrary: a)
  case (Cons c cs)
  show ?case
  proof (cases "cs = []")
    case False
    then have "cumulated (a + c) cs \<noteq> []" by (cases cs) simp_all
    then show ?thesis using Cons.IH [OF False, of "a + c"] by simp
  qed simp
qed simp

text \<open>
  The text export sums the buckets twice: a latency already counts in every bucket above it, and the counts are
  summed up once more. When every latency is at most ten seconds and one is at most five, the bucket of ten seconds
  claims more observations than the bucket of infinity, which holds them all.
\<close>

theorem buckets_exceed_total:
  assumes "\<forall>l \<in> set ls. l \<le> 10" and "l0 \<in> set ls" and "l0 \<le> 5" and "12 * length ls < 2 ^ 53"
  shows "fst (last (bucket_samples ls)) = 10 \<and> inf_sample ls < snd (last (bucket_samples ls))"
proof -
  let ?cs = "bucket_counts ls"
  let ?c = "\<lambda>b. int (length (filter (\<lambda>l. l \<le> b) ls))"
  have len: "length (cumulated a cs) = length cs" for a cs by (induction a cs rule: cumulated.induct) auto
  have ne: "?cs \<noteq> []" by (simp add: bucket_counts_def buckets_def)
  have lc: "length ?cs = length buckets" by (simp add: bucket_counts_def)
  have lst: "last (bucket_samples ls) = (last buckets, ffromint (sum_list ?cs))"
  proof -
    have c: "cumulated 0 ?cs \<noteq> []" using ne by (cases ?cs) simp_all
    then have "last (map ffromint (cumulated 0 ?cs)) = ffromint (sum_list ?cs)" using cumulated_last [OF ne, of 0] by (simp add: last_map)
    moreover have "last (bucket_samples ls) = (last buckets, last (map ffromint (cumulated 0 ?cs)))"
      unfolding bucket_samples_def using lc len [of 0 ?cs] c by (intro last_zip) (simp_all add: buckets_def)
    ultimately show ?thesis by simp
  qed
  have s: "sum_list ?cs = (\<Sum>b\<leftarrow>take 10 buckets. ?c b) + ?c 5 + ?c 10" by (simp add: bucket_counts_def buckets_def)
  have "filter (\<lambda>l. l \<le> 10) ls = ls" using assms(1) by (simp add: filter_id_conv)
  then have c10: "?c 10 = int (length ls)" by simp
  have "l0 \<in> set (filter (\<lambda>l. l \<le> 5) ls)" using assms(2,3) by simp
  then have c5: "1 \<le> ?c 5" by (metis One_nat_def Suc_leI length_pos_if_in_set of_nat_1 of_nat_le_iff)
  have "0 \<le> (\<Sum>b\<leftarrow>take 10 buckets. ?c b)" by (rule sum_list_nonneg) auto
  then have lo: "int (length ls) + 1 \<le> sum_list ?cs" using s c10 c5 by linarith
  have "\<forall>c \<in> set ?cs. c \<le> int (length ls)" by (auto simp: bucket_counts_def)
  then have "sum_list ?cs \<le> int (length ?cs) * int (length ls)" by (rule sum_list_below)
  then have hi: "sum_list ?cs < 2 ^ 53" using assms(4) lc by (simp add: buckets_def)
  have "ffromint (sum_list ?cs) = of_int (sum_list ?cs)" "inf_sample ls = of_int (int (length ls))"
    using lo hi fl_of_int [of "int (length ls)"] fl_of_int [of "sum_list ?cs"] by (simp_all add: ffromint_def inf_sample_def)
  then show ?thesis using lo lst by (simp add: buckets_def)
qed

theorem buckets_exceed_total_witness:
  "inf_sample [lit 2 1000] < snd (last (bucket_samples [lit 2 1000]))"
proof -
  have "lit 2 1000 \<le> 1" using fl_mono [of "2 / 1000" 1] by (simp add: lit_def)
  then show ?thesis using buckets_exceed_total [of "[lit 2 1000]" "lit 2 1000"] by simp
qed

end
