(* ===== verification/Integration.thy ===== *)
theory Integration
  imports PlaybackMetrics CapabilityCache Trust
begin

text \<open>
  Feedback, trust and the capability cache composed: \<^verbatim>\<open>internal/probes/feedback_integration.go\<close>. The feedback
  manager starts each callback in a goroutine of its own, and a re-probe waits for its delay; the goroutines that have
  not run yet are part of the state, and which one runs next is open. SQL outcomes, the clock and the hash are arguments.
\<close>

record IntegrationConfig =
  ic_Enabled :: bool
  TrustDecayEnabled :: bool
  GracePeriod :: duration
  MaxTrustAdjustment :: float64
  AdjustmentPeriod :: duration
  AutoReProbe :: bool
  ReProbeDelay :: duration

definition DefaultIntegrationConfig :: IntegrationConfig where
  "DefaultIntegrationConfig = \<lparr>ic_Enabled = True, TrustDecayEnabled = True, GracePeriod = Hour, MaxTrustAdjustment = lit 5 10,
     AdjustmentPeriod = 24 * Hour, AutoReProbe = True, ReProbeDelay = 5 * Minute\<rparr>"

datatype task =
    TrustTask string float64 float64
  | ReProbeTask string string
  | TimerTask string time

record FeedbackIntegration =
  feedbackManager :: FeedbackManager
  trustResolver :: TrustResolver
  fi_cache :: "CapabilityCache option"
  fi_config :: IntegrationConfig
  onTrustUpdate :: bool
  tasks :: "task list"
  updates :: "(string \<times> float64 \<times> float64) list"

definition setupCallbacks :: "FeedbackIntegration \<Rightarrow> FeedbackIntegration" where
  "setupCallbacks fi = fi\<lparr>feedbackManager := SetOnReProbeRequired (SetOnTrustChange (feedbackManager fi))\<rparr>"

definition NewFeedbackIntegration ::
    "FeedbackManager \<Rightarrow> TrustResolver \<Rightarrow> CapabilityCache option \<Rightarrow> FeedbackIntegration" where
  "NewFeedbackIntegration fm tr c =
     setupCallbacks \<lparr>feedbackManager = fm, trustResolver = tr, fi_cache = c, fi_config = DefaultIntegrationConfig,
       onTrustUpdate = False, tasks = [], updates = []\<rparr>"

definition SetOnTrustUpdate :: "FeedbackIntegration \<Rightarrow> FeedbackIntegration" where
  "SetOnTrustUpdate fi = fi\<lparr>onTrustUpdate := True\<rparr>"

section \<open>Callbacks and goroutines\<close>

fun task_of :: "notification \<Rightarrow> task" where
  "task_of (ReProbeRequired d reason) = ReProbeTask d reason"
| "task_of (TrustChange d oldScore newScore) = TrustTask d oldScore newScore"

definition record_playback :: "time \<Rightarrow> PlaybackFeedback \<Rightarrow> FeedbackIntegration \<Rightarrow> FeedbackIntegration" where
  "record_playback now f fi =
     (let (ns, fm) = recordFeedback now f (feedbackManager fi)
      in fi\<lparr>feedbackManager := fm, tasks := tasks fi @ map task_of ns\<rparr>)"

definition handleTrustChange :: "string \<Rightarrow> float64 \<Rightarrow> float64 \<Rightarrow> FeedbackIntegration \<Rightarrow> FeedbackIntegration" where
  "handleTrustChange d oldScore newScore fi =
     (if \<not> ic_Enabled (fi_config fi) then fi
      else fi\<lparr>trustResolver := InvalidateCache d (trustResolver fi),
              updates := updates fi @ (if onTrustUpdate fi then [(d, oldScore, newScore)] else [])\<rparr>)"

text \<open>A lookup in the cache also counts as a hit or a miss.\<close>

definition cache_get :: "bool \<Rightarrow> time \<Rightarrow> string \<Rightarrow> FeedbackIntegration \<Rightarrow> DeviceCapabilities option \<times> FeedbackIntegration" where
  "cache_get ok now d fi =
     (case fi_cache fi of None \<Rightarrow> (None, fi)
      | Some c \<Rightarrow> let (caps, c') = CC_Get ok now d c in (caps, fi\<lparr>fi_cache := Some c'\<rparr>))"

definition handleReProbeRequired :: "bool \<Rightarrow> time \<Rightarrow> string \<Rightarrow> string \<Rightarrow> FeedbackIntegration \<Rightarrow> FeedbackIntegration" where
  "handleReProbeRequired ok now d reason fi =
     (if \<not> ic_Enabled (fi_config fi) \<or> \<not> AutoReProbe (fi_config fi) then fi
      else case cache_get ok now d fi of
             (None, fi') \<Rightarrow> fi'
           | (Some caps, fi') \<Rightarrow> fi'\<lparr>tasks := tasks fi' @ [TimerTask d (Add now (ReProbeDelay (fi_config fi)))]\<rparr>)"

definition cache_delete :: "bool \<Rightarrow> string \<Rightarrow> FeedbackIntegration \<Rightarrow> FeedbackIntegration" where
  "cache_delete ok d fi = fi\<lparr>fi_cache := map_option (CC_Delete ok d) (fi_cache fi)\<rparr>"

text \<open>What \<^verbatim>\<open>triggerReProbe\<close> does when its timer has fired.\<close>

definition triggerReProbe :: "bool \<Rightarrow> string \<Rightarrow> FeedbackIntegration \<Rightarrow> FeedbackIntegration" where
  "triggerReProbe ok d fi =
     (let fi = cache_delete ok d fi in fi\<lparr>feedbackManager := ResetTrustAdjustment d (feedbackManager fi)\<rparr>)"

definition drop_task :: "nat \<Rightarrow> FeedbackIntegration \<Rightarrow> FeedbackIntegration" where
  "drop_task i fi = fi\<lparr>tasks := take i (tasks fi) @ drop (Suc i) (tasks fi)\<rparr>"

fun run_task :: "bool \<Rightarrow> time \<Rightarrow> task \<Rightarrow> FeedbackIntegration \<Rightarrow> FeedbackIntegration" where
  "run_task ok now (TrustTask d o' n) fi = handleTrustChange d o' n fi"
| "run_task ok now (ReProbeTask d r) fi = handleReProbeRequired ok now d r fi"
| "run_task ok now (TimerTask d due) fi = triggerReProbe ok d fi"

fun ready :: "time \<Rightarrow> task \<Rightarrow> bool" where
  "ready now (TimerTask d due) \<longleftrightarrow> due \<le> now"
| "ready now _ \<longleftrightarrow> True"

section \<open>Effective trust\<close>

definition trust_data :: "string \<Rightarrow> DeviceCapabilities \<Rightarrow> DevicePlaybackStats \<Rightarrow> DeviceTrustData" where
  "trust_data d caps st = \<lparr>td_DeviceID = d, td_UserAgent = UserAgent caps, td_Platform = Platform caps, td_OSVersion = OSVersion caps,
     td_AppVersion = AppVersion caps, td_Model = Model caps, td_Manufacturer = Manufacturer caps, td_VideoCodecs = VideoCodecs caps,
     td_AudioCodecs = AudioCodecs caps, td_ContainerFormats = ContainerFormats caps, td_DRMSupport = DRMSupport caps,
     FirstSeen = zeroTime, LastSeen = zeroTime, ProbeCount = TotalPlaybacks st, ConsistentProbes = 0,
     AnomalyCount = FailedPlaybacks st, IsVerified = False, IsCurated = False, td_Source = [], VotesUp = 0, VotesDown = 0\<rparr>"

definition getDeviceTrustData ::
    "bool \<Rightarrow> time \<Rightarrow> string \<Rightarrow> FeedbackIntegration \<Rightarrow> DeviceTrustData option \<times> FeedbackIntegration" where
  "getDeviceTrustData ok now d fi =
     (case cache_get ok now d fi of
        (None, fi') \<Rightarrow> (None, fi')
      | (Some caps, fi') \<Rightarrow> (Some (trust_data d caps (GetPlaybackStats d (feedbackManager fi'))), fi'))"

definition GetEffectiveTrustScore ::
    "(string \<Rightarrow> string) \<Rightarrow> bool \<Rightarrow> time \<Rightarrow> string \<Rightarrow> FeedbackIntegration \<Rightarrow> float64 \<times> FeedbackIntegration" where
  "GetEffectiveTrustScore sha ok now d fi =
     (if \<not> ic_Enabled (fi_config fi) then (1, fi)
      else case getDeviceTrustData ok now d fi of
             (None, fi') \<Rightarrow> (lit 5 10, fi')
           | (Some data, fi') \<Rightarrow>
               (let (base, tr) = CalculateTrustScore sha now (trustResolver fi') (Some data);
                    e = fadd (Score base) (GetTrustAdjustment d (feedbackManager fi'));
                    e = (if e > 1 then 1 else e);
                    e = (if e < 0 then 0 else e)
                in (e, fi'\<lparr>trustResolver := tr\<rparr>)))"

definition ShouldTranscodeForTrust ::
    "(string \<Rightarrow> string) \<Rightarrow> bool \<Rightarrow> time \<Rightarrow> string \<Rightarrow> string \<Rightarrow> FeedbackIntegration \<Rightarrow> (bool \<times> string) \<times> FeedbackIntegration" where
  "ShouldTranscodeForTrust sha ok now d codec fi =
     (if \<not> ic_Enabled (fi_config fi) then ((False, []), fi)
      else let (e, fi') = GetEffectiveTrustScore sha ok now d fi
           in ((if e < lit 3 10 then
                  if codec \<in> set (GetReliableCodecs d (lit 8 10) (feedbackManager fi')) then (False, [])
                  else (True, ''low_trust_'' @ Fmt2 e)
                else if e < lit 7 10 then
                  if codec \<in> set (GetReliableCodecs d (lit 9 10) (feedbackManager fi')) then (False, [])
                  else (True, ''medium_trust_codec_unreliable'')
                else (False, [])), fi'))"

datatype adjust_error = IntegrationDisabled

definition ApplyTrustAdjustment :: "string \<Rightarrow> float64 \<Rightarrow> FeedbackIntegration \<Rightarrow> adjust_error option \<times> FeedbackIntegration" where
  "ApplyTrustAdjustment d delta fi =
     (if \<not> ic_Enabled (fi_config fi) then (Some IntegrationDisabled, fi)
      else (None, fi\<lparr>trustResolver := InvalidateCache d (trustResolver fi)\<rparr>))"

record TrustReport =
  tr_effective :: float64
  tr_level :: string
  tr_adjustment :: float64
  tr_needs_reprobe :: bool
  tr_reliable :: "string list"
  tr_base :: "TrustScore option"

definition trust_level_name :: "float64 \<Rightarrow> string" where
  "trust_level_name e =
     (if e \<ge> lit 8 10 then ''very_high'' else if e \<ge> lit 7 10 then ''high'' else if e \<ge> lit 5 10 then ''medium'' else ''low'')"

definition GetTrustReport ::
    "(string \<Rightarrow> string) \<Rightarrow> bool \<Rightarrow> time \<Rightarrow> string \<Rightarrow> FeedbackIntegration \<Rightarrow> TrustReport \<times> FeedbackIntegration" where
  "GetTrustReport sha ok now d fi =
     (let (data, fi) = getDeviceTrustData ok now d fi;
          (base, fi) = (case data of None \<Rightarrow> (None, fi)
             | Some x \<Rightarrow> let (s, tr) = CalculateTrustScore sha now (trustResolver fi) (Some x) in (Some s, fi\<lparr>trustResolver := tr\<rparr>));
          fm = feedbackManager fi;
          (e, fi) = GetEffectiveTrustScore sha ok now d fi
      in (\<lparr>tr_effective = e, tr_level = trust_level_name e, tr_adjustment = GetTrustAdjustment d fm,
           tr_needs_reprobe = NeedsReProbe (GetPlaybackStats d fm), tr_reliable = GetReliableCodecs d (lit 8 10) fm,
           tr_base = base\<rparr>, fi))"

section \<open>Decay, grace period, reset\<close>

definition decayed :: "float64 \<Rightarrow> float64" where
  "decayed x =
     (let y = fmul x (fsub 1 (lit 1 10))
      in if x > 0 then if y < lit 1 100 then 0 else y
         else if y > - lit 1 100 then 0 else y)"

definition runDecay :: "FeedbackIntegration \<Rightarrow> FeedbackIntegration" where
  "runDecay fi =
     (if \<not> TrustDecayEnabled (fi_config fi) then fi
      else fi\<lparr>feedbackManager := fold (\<lambda>(d, st) fm. if CurrentTrustDelta st \<noteq> 0 \<and> decayed (CurrentTrustDelta st) \<noteq> CurrentTrustDelta st
                then setTrustDelta d (decayed (CurrentTrustDelta st)) fm else fm)
              (GetAllStats (feedbackManager fi)) (feedbackManager fi)\<rparr>)"

text \<open>The loop that the ticker drives: one run for every tick before the context is done.\<close>

definition StartDecayLoop :: "nat \<Rightarrow> FeedbackIntegration \<Rightarrow> FeedbackIntegration" where
  "StartDecayLoop ticks fi =
     (if \<not> ic_Enabled (fi_config fi) \<or> \<not> TrustDecayEnabled (fi_config fi) then fi else (runDecay ^^ ticks) fi)"

definition GracePeriodChecker :: "time \<Rightarrow> string \<Rightarrow> FeedbackIntegration \<Rightarrow> bool" where
  "GracePeriodChecker now d fi =
     (if \<not> ic_Enabled (fi_config fi) \<or> GracePeriod (fi_config fi) = 0 then False
      else let st = GetPlaybackStats d (feedbackManager fi)
           in TotalPlaybacks st = 0 \<or> Sub now (ps_FirstSeen st) < GracePeriod (fi_config fi))"

definition ResetDeviceTrust :: "bool \<Rightarrow> string \<Rightarrow> FeedbackIntegration \<Rightarrow> FeedbackIntegration" where
  "ResetDeviceTrust ok d fi =
     cache_delete ok d (fi\<lparr>feedbackManager := ClearDeviceData d (feedbackManager fi), trustResolver := InvalidateCache d (trustResolver fi)\<rparr>)"

record IntegrationStats =
  is_enabled :: bool
  is_decay :: bool
  is_grace :: duration
  is_max :: float64
  is_playback :: GlobalStats
  is_reprobes :: int

definition GetIntegrationStats :: "PlaybackMetrics \<Rightarrow> FeedbackIntegration \<Rightarrow> IntegrationStats" where
  "GetIntegrationStats m fi = \<lparr>is_enabled = ic_Enabled (fi_config fi), is_decay = TrustDecayEnabled (fi_config fi),
     is_grace = GracePeriod (fi_config fi), is_max = MaxTrustAdjustment (fi_config fi),
     is_playback = GetGlobalStats (feedbackManager fi), is_reprobes = GetTotalReProbes m\<rparr>"

section \<open>Reachable states\<close>

text \<open>
  The steps of a running server: a playback is reported, a goroutine that is ready runs, the ticker drives a decay,
  a device stores new capabilities, old events expire, a device is probed again on request, an administrator resets a
  device or adjusts its trust, a score is read.
\<close>

inductive fi_step :: "FeedbackIntegration \<Rightarrow> FeedbackIntegration \<Rightarrow> bool" where
  recorded: "fi_step fi (record_playback now f fi)"
| ran: "i < length (tasks fi) \<Longrightarrow> ready now (tasks fi ! i) \<Longrightarrow> fi_step fi (run_task ok now (tasks fi ! i) (drop_task i fi))"
| decayed_all: "fi_step fi (runDecay fi)"
| probed: "fi_cache fi = Some c \<Longrightarrow> fi_step fi (fi\<lparr>fi_cache := Some (snd (CC_Set ok now d caps src c))\<rparr>)"
| was_reset: "fi_step fi (ResetDeviceTrust ok d fi)"
| forced: "cache_get ok now d fi = (Some caps, fi') \<Longrightarrow> fi_step fi (triggerReProbe ok' d fi')"
| expired: "fi_step fi (fi\<lparr>feedbackManager := snd (ExpireOldEvents now (feedbackManager fi))\<rparr>)"
| adjusted: "fi_step fi (snd (ApplyTrustAdjustment d delta fi))"
| scored: "fi_step fi (snd (GetEffectiveTrustScore sha ok now d fi))"

inductive reachable :: "FeedbackIntegration \<Rightarrow> bool" where
  started: "reachable (NewFeedbackIntegration NewFeedbackManager NewTrustResolver c)"
| stepped: "reachable fi \<Longrightarrow> fi_step fi fi' \<Longrightarrow> reachable fi'"

inductive_cases fi_stepE: "fi_step fi fi'"

text \<open>What a step does to the feedback manager.\<close>

lemma cache_get_keeps:
  "feedbackManager (snd (cache_get ok now d fi)) = feedbackManager fi" "trustResolver (snd (cache_get ok now d fi)) = trustResolver fi"
  "fi_config (snd (cache_get ok now d fi)) = fi_config fi"
  by (simp_all add: cache_get_def split_def Let_def split: option.split)

lemma trust_data_keeps:
  "feedbackManager (snd (getDeviceTrustData ok now d fi)) = feedbackManager fi" "trustResolver (snd (getDeviceTrustData ok now d fi)) = trustResolver fi"
  "fi_config (snd (getDeviceTrustData ok now d fi)) = fi_config fi"
  using cache_get_keeps [of ok now d fi]
  by (cases "cache_get ok now d fi"; simp add: getDeviceTrustData_def split: option.split)+

lemma score_keeps:
  "feedbackManager (snd (GetEffectiveTrustScore sha ok now d fi)) = feedbackManager fi"
  "fi_config (snd (GetEffectiveTrustScore sha ok now d fi)) = fi_config fi"
  using trust_data_keeps [of ok now d fi]
  by (cases "getDeviceTrustData ok now d fi"; simp add: GetEffectiveTrustScore_def split_def Let_def split: option.split)+

lemma run_task_manager:
  "feedbackManager (run_task ok now t fi) =
     (case t of TimerTask d due \<Rightarrow> ResetTrustAdjustment d (feedbackManager fi) | _ \<Rightarrow> feedbackManager fi)"
proof (cases t)
  case (ReProbeTask d r)
  then show ?thesis using cache_get_keeps [of ok now d fi]
    by (cases "cache_get ok now d fi") (simp add: handleReProbeRequired_def split: option.split)
qed (simp_all add: handleTrustChange_def triggerReProbe_def cache_delete_def Let_def)

text \<open>An invariant of the manager that the manager's operations and a decay keep holds in every reachable state.\<close>

locale manager_invariant =
  fixes P :: "FeedbackManager \<Rightarrow> bool"
  assumes P_new: "P (SetOnReProbeRequired (SetOnTrustChange NewFeedbackManager))"
    and P_record: "P fm \<Longrightarrow> P (snd (recordFeedback now f fm))"
    and P_reset: "P fm \<Longrightarrow> P (ResetTrustAdjustment d fm)"
    and P_expire: "P fm \<Longrightarrow> P (snd (ExpireOldEvents now fm))"
    and P_clear: "P fm \<Longrightarrow> P (ClearDeviceData d fm)"
    and P_decay: "P fm \<Longrightarrow> gget (GetAllStats fm) d = Some st \<Longrightarrow> P (setTrustDelta d (decayed (CurrentTrustDelta st)) fm)"
    and P_wf: "P fm \<Longrightarrow> gwf (fm_stats fm)"
begin

lemma P_decays:
  "P fm \<Longrightarrow> distinct (map fst l) \<Longrightarrow> (\<And>d st. (d, st) \<in> set l \<Longrightarrow> gget (fm_stats fm) d = Some st) \<Longrightarrow>
   P (fold (\<lambda>(d, st) fm. if CurrentTrustDelta st \<noteq> 0 \<and> decayed (CurrentTrustDelta st) \<noteq> CurrentTrustDelta st
        then setTrustDelta d (decayed (CurrentTrustDelta st)) fm else fm) l fm)"
proof (induction l arbitrary: fm)
  case (Cons a l)
  obtain d st where a: "a = (d, st)" by force
  let ?fm = "if CurrentTrustDelta st \<noteq> 0 \<and> decayed (CurrentTrustDelta st) \<noteq> CurrentTrustDelta st
        then setTrustDelta d (decayed (CurrentTrustDelta st)) fm else fm"
  have g: "gget (fm_stats fm) d = Some st" using Cons.prems(3) a by simp
  have "P ?fm" using Cons.prems(1) P_decay g by (simp add: GetAllStats_def)
  moreover have "gget (fm_stats ?fm) e = Some u" if "(e, u) \<in> set l" for e u
  proof -
    have "e \<noteq> d" using that Cons.prems(2) a by force
    moreover have "gget (fm_stats fm) e = Some u" using that Cons.prems(3) by simp
    ultimately show ?thesis by (simp add: setTrustDelta_def update_stats_of_def g gget_gput)
  qed
  ultimately show ?case using Cons.IH [of ?fm] Cons.prems(2) a by simp
qed simp

lemma P_runDecay: "P (feedbackManager fi) \<Longrightarrow> P (feedbackManager (runDecay fi))"
  using P_decays [of "feedbackManager fi" "fm_stats (feedbackManager fi)"] P_wf [of "feedbackManager fi"]
  by (simp add: runDecay_def GetAllStats_def gwf_def gget_mem [symmetric])

lemma P_step: "fi_step fi fi' \<Longrightarrow> P (feedbackManager fi) \<Longrightarrow> P (feedbackManager fi')"
proof (induction rule: fi_step.induct)
  case (recorded fi now f)
  then show ?case using P_record [of "feedbackManager fi" now f] by (simp add: record_playback_def split_def Let_def)
next
  case (ran i fi now ok)
  then show ?case using P_reset by (simp add: run_task_manager drop_task_def split: task.split)
next
  case (decayed_all fi)
  then show ?case by (rule P_runDecay)
next
  case (forced ok now d fi caps fi' ok')
  then show ?case using P_reset cache_get_keeps(1) [of ok now d fi] by (simp add: triggerReProbe_def cache_delete_def Let_def)
next
  case (expired fi now)
  then show ?case using P_expire by simp
qed (auto simp: ResetDeviceTrust_def cache_delete_def P_clear ApplyTrustAdjustment_def score_keeps)

lemma P_reachable: "reachable fi \<Longrightarrow> P (feedbackManager fi)"
  by (induction rule: reachable.induct) (auto simp: NewFeedbackIntegration_def setupCallbacks_def P_new intro: P_step)

end

section \<open>Decay\<close>

lemma decayed_range: "0 \<le> x \<Longrightarrow> x \<le> 1 \<Longrightarrow> 0 \<le> decayed x \<and> decayed x \<le> 1"
proof -
  assume x: "0 \<le> x" "x \<le> 1"
  have c: "0 \<le> fsub 1 (lit 1 10)" "fsub 1 (lit 1 10) \<le> 1" by code_simp+
  then have "x * fsub 1 (lit 1 10) \<le> 1" "0 \<le> x * fsub 1 (lit 1 10)" using x by (auto intro: mult_le_one)
  then have "0 \<le> fmul x (fsub 1 (lit 1 10))" "fmul x (fsub 1 (lit 1 10)) \<le> 1" by (simp_all add: fmul_def f64.rnd_nonneg f64.rnd_le_one)
  moreover have "0 \<le> lit 1 100" by (rule lit_unit [THEN conjunct1]) simp_all
  ultimately show ?thesis using x by (auto simp: decayed_def Let_def)
qed

definition small_fm :: "FeedbackManager \<Rightarrow> bool" where
  "small_fm fm \<longleftrightarrow> fm_inv fm \<and> trustConfig fm = DefaultTrustAdjustmentConfig \<and> maxEvents fm = 1000"

lemma small_config: "small_fm fm \<Longrightarrow> config_ok fm"
  by (simp add: small_fm_def config_ok_def DefaultTrustAdjustmentConfig_def)

lemma small_decay:
  assumes "small_fm fm" "gget (GetAllStats fm) d = Some st"
  shows "small_fm (setTrustDelta d (decayed (CurrentTrustDelta st)) fm)"
proof -
  have g: "gget (fm_stats fm) d = Some st" using assms(2) by (simp add: GetAllStats_def)
  have "stats_ok DefaultTrustAdjustmentConfig st" using assms(1) g by (auto simp: small_fm_def fm_inv_def)
  then have "stats_ok DefaultTrustAdjustmentConfig (st\<lparr>CurrentTrustDelta := decayed (CurrentTrustDelta st)\<rparr>)"
    using decayed_range [of "CurrentTrustDelta st"]
    by (auto simp: stats_ok_def counts_ok_def DefaultTrustAdjustmentConfig_def)
  then show ?thesis using assms(1) g
    by (auto simp: small_fm_def fm_inv_def setTrustDelta_def update_stats_of_def gomap_simps split: if_splits)
qed

interpretation small: manager_invariant small_fm
proof
  show "small_fm (SetOnReProbeRequired (SetOnTrustChange NewFeedbackManager))"
    by (simp add: small_fm_def fm_inv_def SetOnReProbeRequired_def SetOnTrustChange_def NewFeedbackManager_def)
  fix fm now f d st
  assume p: "small_fm fm"
  note i = p [unfolded small_fm_def] and c = small_config [OF p]
  show "small_fm (snd (recordFeedback now f fm))" using i fm_inv_record [OF _ c, of now f] recordFeedback_parts(1,2) [of now f fm]
    by (simp add: small_fm_def)
  show "small_fm (ResetTrustAdjustment d fm)" using i fm_inv_reset [OF _ c, of d] feedback_config [of "Reset d" fm] by (simp add: small_fm_def)
  show "small_fm (snd (ExpireOldEvents now fm))" using i fm_inv_expire [of fm now] feedback_config [of "Expire now" fm] by (simp add: small_fm_def)
  show "small_fm (ClearDeviceData d fm)" using i fm_inv_clear [of fm d] feedback_config [of "Clear d" fm] by (simp add: small_fm_def)
  show "gwf (fm_stats fm)" using i by (simp add: fm_inv_def)
  show "gget (GetAllStats fm) d = Some st \<Longrightarrow> small_fm (setTrustDelta d (decayed (CurrentTrustDelta st)) fm)"
    using small_decay [OF p] .
qed

text \<open>The decay of one device's adjustment over several periods.\<close>

lemma decayed_fix [simp]: "decayed 0 = 0"
  by (simp add: decayed_def fmul_def f64.rnd_zero Let_def)

lemma decayed_shrinks:
  assumes "0 \<le> x"
  shows "0 \<le> decayed x" and "decayed x \<le> 91 / 100 * x"
proof -
  have c: "0 \<le> fsub 1 (lit 1 10)" "fsub 1 (lit 1 10) \<le> 905 / 1000" by code_simp+
  let ?y = "x * fsub 1 (lit 1 10)"
  have y: "0 \<le> ?y" "?y \<le> 905 / 1000 * x" using assms c mult_left_mono [OF c(2) assms] by (auto simp: field_simps)
  have n: "0 \<le> fmul x (fsub 1 (lit 1 10))" by (simp add: fmul_def f64.rnd_nonneg y(1))
  have l: "0 < lit 1 100" "pow2 (-1022) \<le> lit 1 200" by code_simp+
  show "0 \<le> decayed x" using n l(1) assms by (cases "x = 0") (simp_all add: decayed_def Let_def)
  show "decayed x \<le> 91 / 100 * x"
  proof (cases "pow2 (-1022) \<le> ?y")
    case True
    then have "\<bar>fl ?y - ?y\<bar> \<le> \<bar>?y\<bar> * pow2 (-53)" using y(1) by (intro fl_error) simp
    moreover have "pow2 (-53) \<le> 1 / 1000" by (simp add: pow2_def)
    ultimately have "fl ?y \<le> ?y + ?y * (1 / 1000)" using y(1) mult_left_mono [of "pow2 (-53)" "1 / 1000" ?y] by (simp add: abs_le_iff)
    then have "fmul x (fsub 1 (lit 1 10)) \<le> 91 / 100 * x" using y assms by (simp add: fmul_def)
    then show ?thesis using assms l(1) n by (cases "x = 0") (simp_all add: decayed_def Let_def)
  next
    case False
    then have "?y < lit 1 200" using l(2) by linarith
    then have "fl ?y \<le> fl (lit 1 200)" by (intro fl_mono) simp
    moreover have "fl (lit 1 200) < lit 1 100" by code_simp
    ultimately have "fmul x (fsub 1 (lit 1 10)) < lit 1 100" by (simp add: fmul_def)
    then show ?thesis using assms l(1) n by (cases "x = 0") (simp_all add: decayed_def Let_def)
  qed
qed

lemma decayed_zero_or_large: "0 \<le> x \<Longrightarrow> decayed x = 0 \<or> lit 1 100 \<le> decayed x"
  using decayed_shrinks(1) [of x] by (cases "x = 0") (auto simp: decayed_def Let_def)

lemma decayed_pow: "0 \<le> x \<Longrightarrow> x \<le> 1 \<Longrightarrow> 0 \<le> (decayed ^^ n) x \<and> (decayed ^^ n) x \<le> (91 / 100) ^ n"
proof (induction n)
  case (Suc n)
  then have i: "0 \<le> (decayed ^^ n) x" "(decayed ^^ n) x \<le> (91 / 100) ^ n" by auto
  have "decayed ((decayed ^^ n) x) \<le> 91 / 100 * (decayed ^^ n) x" by (rule decayed_shrinks(2) [OF i(1)])
  also have "\<dots> \<le> 91 / 100 * (91 / 100) ^ n" using i(2) by simp
  finally show ?case using decayed_shrinks(1) [OF i(1)] by simp
qed simp

lemma decayed_50: "0 \<le> x \<Longrightarrow> x \<le> 1 \<Longrightarrow> (decayed ^^ 50) x = 0"
proof -
  assume x: "0 \<le> x" "x \<le> 1"
  have e: "(decayed ^^ 50) x = decayed ((decayed ^^ 49) x)" by (simp add: numeral_eq_Suc)
  have "(decayed ^^ 50) x \<le> (91 / 100) ^ 50" "0 \<le> (decayed ^^ 49) x" using decayed_pow [OF x] by auto
  moreover have "(91 / 100) ^ 50 < (99 / 10000 :: rat)" by (simp add: power_divide divide_less_eq)
  moreover have "99 / 10000 < lit 1 100" by code_simp
  ultimately show ?thesis using decayed_zero_or_large [of "(decayed ^^ 49) x"] unfolding e by auto
qed

lemma set_deltas:
  "distinct (map fst l) \<Longrightarrow> (\<And>d st. (d, st) \<in> set l \<Longrightarrow> gget (fm_stats fm) d = Some st) \<Longrightarrow>
   GetTrustAdjustment d (fold (\<lambda>(d, st) fm. if CurrentTrustDelta st \<noteq> 0 \<and> decayed (CurrentTrustDelta st) \<noteq> CurrentTrustDelta st
        then setTrustDelta d (decayed (CurrentTrustDelta st)) fm else fm) l fm) =
   (if d \<in> fst ` set l then decayed (GetTrustAdjustment d fm) else GetTrustAdjustment d fm)"
proof (induction l arbitrary: fm)
  case (Cons a l)
  obtain e st where a: "a = (e, st)" by force
  let ?fm = "if CurrentTrustDelta st \<noteq> 0 \<and> decayed (CurrentTrustDelta st) \<noteq> CurrentTrustDelta st
        then setTrustDelta e (decayed (CurrentTrustDelta st)) fm else fm"
  have g: "gget (fm_stats fm) e = Some st" using Cons.prems(2) a by simp
  have t: "GetTrustAdjustment d ?fm = (if d = e then decayed (GetTrustAdjustment d fm) else GetTrustAdjustment d fm)"
    by (auto simp: GetTrustAdjustment_def setTrustDelta_def update_stats_of_def g gget_gput decayed_fix)
  have k: "gget (fm_stats ?fm) f = Some u" if "(f, u) \<in> set l" for f u
  proof -
    have "f \<noteq> e" using that Cons.prems(1) a by force
    moreover have "gget (fm_stats fm) f = Some u" using that Cons.prems(2) by simp
    ultimately show ?thesis by (simp add: setTrustDelta_def update_stats_of_def g gget_gput)
  qed
  have "e \<notin> fst ` set l" using Cons.prems(1) a by simp
  then show ?case using Cons.IH [of ?fm] Cons.prems(1) k t a by auto
qed simp

lemma decay_adjustment:
  assumes "small_fm (feedbackManager fi)" "TrustDecayEnabled (fi_config fi)"
  shows "GetTrustAdjustment d (feedbackManager (runDecay fi)) = decayed (GetTrustAdjustment d (feedbackManager fi))"
proof -
  let ?fm = "feedbackManager fi"
  have w: "gwf (fm_stats ?fm)" using assms(1) by (simp add: small_fm_def fm_inv_def)
  have "GetTrustAdjustment d (feedbackManager (runDecay fi)) =
      (if d \<in> fst ` set (fm_stats ?fm) then decayed (GetTrustAdjustment d ?fm) else GetTrustAdjustment d ?fm)"
    using set_deltas [of "fm_stats ?fm" ?fm d] w assms(2) by (simp add: runDecay_def GetAllStats_def gwf_def gget_mem [symmetric])
  moreover have "d \<notin> fst ` set (fm_stats ?fm) \<Longrightarrow> GetTrustAdjustment d ?fm = 0"
    by (simp add: GetTrustAdjustment_def gget_None_iff [symmetric])
  ultimately show ?thesis by (simp add: decayed_fix)
qed

lemma runDecay_config [simp]: "fi_config (runDecay fi) = fi_config fi"
  by (simp add: runDecay_def)

lemma decay_run:
  "small_fm (feedbackManager fi) \<Longrightarrow> TrustDecayEnabled (fi_config fi) \<Longrightarrow>
   GetTrustAdjustment d (feedbackManager ((runDecay ^^ n) fi)) = (decayed ^^ n) (GetTrustAdjustment d (feedbackManager fi)) \<and>
   small_fm (feedbackManager ((runDecay ^^ n) fi)) \<and> fi_config ((runDecay ^^ n) fi) = fi_config fi"
  by (induction n) (auto simp: decay_adjustment small.P_runDecay)

lemma reachable_config: "reachable fi \<Longrightarrow> fi_config fi = DefaultIntegrationConfig"
proof (induction rule: reachable.induct)
  case (stepped fi fi')
  have r: "fi_config (run_task ok now t fi) = fi_config fi" for ok now t and fi
    using cache_get_keeps(3) [of ok now _ fi]
    by (cases t) (simp_all add: handleTrustChange_def handleReProbeRequired_def triggerReProbe_def cache_delete_def Let_def split: option.split prod.split,
      metis snd_conv)
  have f: "cache_get ok now d fi = (Some caps, fi'') \<Longrightarrow> fi_config (triggerReProbe ok' d fi'') = fi_config fi" for ok now d caps fi'' ok'
    using cache_get_keeps(3) [of ok now d fi] by (simp add: triggerReProbe_def cache_delete_def Let_def)
  from stepped(2) show ?case using stepped(3)
    by (cases rule: fi_step.cases) (auto simp: record_playback_def split_def Let_def r f drop_task_def ResetDeviceTrust_def cache_delete_def
        ApplyTrustAdjustment_def score_keeps)
qed (simp add: NewFeedbackIntegration_def setupCallbacks_def)

text \<open>
  C33. Decay ends: in every reachable state, when no new feedback comes in, the trust adjustment of every device is zero
  after fifty periods of the decay loop.
\<close>

theorem decay_reaches_zero:
  assumes "reachable fi"
  shows "GetTrustAdjustment d (feedbackManager (StartDecayLoop 50 fi)) = 0"
proof -
  have s: "small_fm (feedbackManager fi)" by (rule small.P_reachable [OF assms])
  note c = reachable_config [OF assms]
  have "0 \<le> GetTrustAdjustment d (feedbackManager fi) \<and> GetTrustAdjustment d (feedbackManager fi) \<le> 1"
    using s by (auto simp: GetTrustAdjustment_def small_fm_def fm_inv_def stats_ok_def DefaultTrustAdjustmentConfig_def split: option.split)
  then have "(decayed ^^ 50) (GetTrustAdjustment d (feedbackManager fi)) = 0" by (intro decayed_50) simp_all
  then show ?thesis using decay_run [OF s, of d 50] c by (simp add: StartDecayLoop_def DefaultIntegrationConfig_def)
qed

theorem decay_reaches_zero_witness:
  "GetTrustAdjustment ''tv'' (feedbackManager (StartDecayLoop 50
     (record_playback 7 (sample_feedback OutcomeSuccess ''h264'') (NewFeedbackIntegration NewFeedbackManager NewTrustResolver None)))) = 0"
  by (rule decay_reaches_zero) (rule stepped [OF started recorded])

section \<open>Reliable codecs are not consulted\<close>

text \<open>The statistics are kept under names that begin with the kind of the codec.\<close>

definition tagged :: "string \<Rightarrow> bool" where
  "tagged k \<longleftrightarrow> HasPrefix k ''video:'' \<or> HasPrefix k ''audio:''"

definition tagged_stats :: "DevicePlaybackStats \<Rightarrow> bool" where
  "tagged_stats st \<longleftrightarrow> (\<forall>k. gget (ps_CodecStats st) k \<noteq> None \<longrightarrow> tagged k)"

definition tagged_fm :: "FeedbackManager \<Rightarrow> bool" where
  "tagged_fm fm \<longleftrightarrow> gwf (fm_stats fm) \<and> (\<forall>d st. gget (fm_stats fm) d = Some st \<longrightarrow> tagged_stats st)"

lemma tagged_count: "tagged_stats st \<Longrightarrow> tagged k \<Longrightarrow> tagged_stats (count_codec k ok st)"
  by (simp add: tagged_stats_def count_codec_def Let_def gget_gput)

lemma tagged_names: "tagged (''video:'' @ c)" "tagged (''audio:'' @ c)"
  by (simp_all add: tagged_def HasPrefix_def)

lemma tagged_global: "tagged_stats (count_global now ok st) = tagged_stats st"
  by (simp add: tagged_stats_def count_global_def)

lemma tagged_update: "tagged_stats st \<Longrightarrow> tagged_stats (updateStats now c f delta st)"
proof -
  assume "tagged_stats st"
  then have "tagged_stats (st\<lparr>TotalPlaybacks := n, LastPlayback := t, OutcomeCounts := m\<rparr>)" for n t m
    by (simp add: tagged_stats_def)
  note base = this
  have post: "tagged_stats (apply_delta c delta st') = tagged_stats st'" "tagged_stats (st'\<lparr>SuccessRate := r\<rparr>) = tagged_stats st'" for st' r
    by (simp_all add: tagged_stats_def apply_delta_def Let_def)
  show ?thesis unfolding updateStats_def Let_def post
    using tagged_names [of "VideoCodec f", simplified] tagged_names [of "AudioCodec f", simplified]
    by (simp add: post) (intro conjI impI tagged_count base [THEN tagged_global [THEN iffD2]] base | simp add: tagged_global base)+
qed

lemma tagged_new: "tagged_stats (newStats d now)"
  by (simp add: tagged_stats_def newStats_def)

lemma tagged_record: "tagged_fm fm \<Longrightarrow> tagged_fm (snd (recordFeedback now f fm))"
proof -
  assume t: "tagged_fm fm"
  have "tagged_stats (old_stats now (fb_DeviceID f) fm)"
    using t tagged_new by (auto simp: old_stats_def getz_def tagged_fm_def split: option.split)
  then have "tagged_stats (new_stats now f fm)" using tagged_update by (auto simp: new_stats_def Let_def tagged_stats_def)
  then show ?thesis using t recordFeedback_gwf(2) [of fm now f] by (auto simp: tagged_fm_def recordFeedback_parts split: if_splits)
qed

interpretation tagged: manager_invariant tagged_fm
proof
  show "tagged_fm (SetOnReProbeRequired (SetOnTrustChange NewFeedbackManager))"
    by (simp add: tagged_fm_def SetOnReProbeRequired_def SetOnTrustChange_def NewFeedbackManager_def)
  fix fm now f d st
  assume t: "tagged_fm fm"
  show "tagged_fm (snd (recordFeedback now f fm))" by (rule tagged_record [OF t])
  show "tagged_fm (ResetTrustAdjustment d fm)" "gget (GetAllStats fm) d = Some st \<Longrightarrow> tagged_fm (setTrustDelta d (decayed (CurrentTrustDelta st)) fm)"
    using t by (auto simp: tagged_fm_def ResetTrustAdjustment_def setTrustDelta_def update_stats_of_def gomap_simps tagged_stats_def
        split: option.splits if_splits)
  show "tagged_fm (snd (ExpireOldEvents now fm))" using t by (simp add: tagged_fm_def ExpireOldEvents_def Let_def)
  show "tagged_fm (ClearDeviceData d fm)" using t by (auto simp: tagged_fm_def ClearDeviceData_def gomap_simps split: if_splits)
  show "gwf (fm_stats fm)" using t by (simp add: tagged_fm_def)
qed

lemma reliable_tagged:
  assumes "tagged_fm fm" "k \<in> set (GetReliableCodecs d r fm)"
  shows "tagged k"
proof -
  obtain st cs where "gget (fm_stats fm) d = Some st" "(k, cs) \<in> set (ps_CodecStats st)"
    using assms(2) by (cases "gget (fm_stats fm) d") (auto simp: GetReliableCodecs_def)
  moreover from this have "gget (ps_CodecStats st) k \<noteq> None" by (metis fst_conv gget_None_iff image_eqI)
  ultimately show ?thesis using assms(1) by (auto simp: tagged_fm_def tagged_stats_def)
qed

text \<open>
  C19. The check of reliable codecs never finds one: the statistics are kept under names such as video:h264, and the
  caller asks for h264. In every reachable state the answer for a codec without such a prefix depends on the effective
  trust alone: below 0.7 everything is transcoded, however reliably the codec has played.
\<close>

theorem reliable_codecs_are_ignored:
  assumes "reachable fi" and "\<not> tagged codec"
  shows "fst (fst (ShouldTranscodeForTrust sha ok now d codec fi)) \<longleftrightarrow> fst (GetEffectiveTrustScore sha ok now d fi) < lit 7 10"
proof -
  let ?g = "GetEffectiveTrustScore sha ok now d fi"
  have e: "ic_Enabled (fi_config fi)" using reachable_config [OF assms(1)] by (simp add: DefaultIntegrationConfig_def)
  have "tagged_fm (feedbackManager (snd ?g))" unfolding score_keeps by (rule tagged.P_reachable [OF assms(1)])
  then have "codec \<notin> set (GetReliableCodecs d r (feedbackManager (snd ?g)))" for r using reliable_tagged assms(2) by blast
  moreover have "x < lit 3 10 \<Longrightarrow> x < lit 7 10" for x by (erule less_le_trans) (rule lit_mono; simp)
  ultimately show ?thesis using e by (auto simp: ShouldTranscodeForTrust_def split_def Let_def)
qed

definition played :: "nat \<Rightarrow> FeedbackIntegration" where
  "played n = ((\<lambda>fi. record_playback 7 (sample_feedback OutcomeSuccess ''h264'') fi) ^^ n)
     (NewFeedbackIntegration NewFeedbackManager NewTrustResolver None)"

lemma played_reachable: "reachable (played n)"
  by (induction n) (auto simp: played_def intro: started stepped recorded)

theorem reliable_codecs_are_ignored_witness:
  "fst (fst (ShouldTranscodeForTrust id True 9 ''tv'' ''h264'' (played 3)))"
proof -
  have "\<not> tagged ''h264''" by (simp add: tagged_def HasPrefix_def)
  moreover have "fi_cache (played 3) = None"
    by (simp add: played_def NewFeedbackIntegration_def setupCallbacks_def record_playback_def split_def Let_def numeral_3_eq_3)
  then have "fst (GetEffectiveTrustScore id True 9 ''tv'' (played 3)) = lit 5 10"
    using reachable_config [OF played_reachable, of 3]
    by (simp add: GetEffectiveTrustScore_def getDeviceTrustData_def cache_get_def DefaultIntegrationConfig_def)
  moreover have "lit 5 10 < lit 7 10" by code_simp
  ultimately show ?thesis using reliable_codecs_are_ignored [OF played_reachable, of "''h264''" id True 9 "''tv''" 3] by simp
qed

section \<open>Effective trust\<close>

text \<open>
  The effective trust score lies between 0 and 1, and a manual adjustment does not change it: it only drops a cached
  score that the calculation never reads.
\<close>

lemma calculate_ignores_cache:
  "fst (CalculateTrustScore sha now (InvalidateCache d tr) data) = fst (CalculateTrustScore sha now tr data)"
  by (cases data) (simp_all add: CalculateTrustScore_def InvalidateCache_def Let_def components_def evaluateFingerprint_def scoreToLevel_def)

lemma trust_data_upd:
  "fst (getDeviceTrustData ok now d (fi\<lparr>trustResolver := tr\<rparr>)) = fst (getDeviceTrustData ok now d fi)"
  by (cases "fi_cache fi") (auto simp: getDeviceTrustData_def cache_get_def split_def Let_def split: option.split)

lemma effective_score:
  "fst (GetEffectiveTrustScore sha ok now d fi) =
     (if \<not> ic_Enabled (fi_config fi) then 1
      else case fst (getDeviceTrustData ok now d fi) of None \<Rightarrow> lit 5 10
        | Some data \<Rightarrow> max 0 (min 1 (fadd (Score (fst (CalculateTrustScore sha now (trustResolver fi) (Some data))))
                                        (GetTrustAdjustment d (feedbackManager fi)))))"
  using trust_data_keeps [of ok now d fi]
  by (cases "getDeviceTrustData ok now d fi") (auto simp: GetEffectiveTrustScore_def split_def Let_def split: option.split)

theorem manual_adjustment_has_no_effect:
  shows "(let e = fst (GetEffectiveTrustScore sha ok now d fi) in 0 \<le> e \<and> e \<le> 1 \<and>
     fst (GetEffectiveTrustScore sha ok now d (snd (ApplyTrustAdjustment d' delta fi))) = e)"
proof -
  have h: "0 \<le> lit 5 10 \<and> lit 5 10 \<le> 1" by (rule lit_unit) simp_all
  have "fst (GetEffectiveTrustScore sha ok now d (snd (ApplyTrustAdjustment d' delta fi))) = fst (GetEffectiveTrustScore sha ok now d fi)"
    by (simp add: ApplyTrustAdjustment_def effective_score trust_data_upd calculate_ignores_cache split: option.split)
  then show ?thesis using h by (auto simp: Let_def effective_score split: option.split)
qed

section \<open>Late re-probes\<close>

text \<open>
  A scheduled re-probe deletes whatever the cache holds when its timer fires, also capabilities that the device has
  reported since: every failed playback beyond the threshold schedules one more, and each of them throws the fresh
  record away.
\<close>

theorem late_reprobe_deletes_fresh_capabilities:
  assumes "fi_cache fi = Some c" and "i < length (tasks fi)" and "tasks fi ! i = TimerTask d due" and "\<not> uses_db c"
  shows "let fresh = fi\<lparr>fi_cache := Some (snd (CC_Set True now d (Some caps) src c))\<rparr>
    in fst (cache_get True now' d (run_task True now' (tasks fresh ! i) (drop_task i fresh))) = None"
proof -
  let ?c = "snd (CC_Set True now d (Some caps) src c)"
  have u: "\<not> uses_db ?c" using assms(4) config_eqD [of ?c c] by simp
  then have "\<not> uses_db (CC_Delete True d ?c)" using config_eqD [of "CC_Delete True d ?c" ?c] by simp
  moreover have "gget (memoryCache (CC_Delete True d ?c)) d = None" by (simp add: CC_Delete_def Let_def gget_gdel)
  ultimately have "fst (CC_Get True now' d (CC_Delete True d ?c)) = None" by (simp add: CC_Get_def GetWithContext_def)
  then show ?thesis using assms(3)
    by (simp add: Let_def drop_task_def triggerReProbe_def cache_delete_def cache_get_def split_def)
qed

end
