(* ===== verification/Playback.thy ===== *)
theory Playback
  imports CapabilityCache Transcode Codec
begin

text \<open>
  The playback handlers, \<^verbatim>\<open>internal/api/playback.go\<close>, with the quality profile name of \<^verbatim>\<open>internal/api/devices.go\<close>.
  A request body that does not decode is \<open>None\<close>. A reply is a refusal with its status, code and message, the body of a
  200 answer, or a panic of the handler. The handlers change the capability cache, whose reads count and may load a row;
  the SQL outcome \<open>ok\<close>, the clock, the state of the request's context and the time of a decision are arguments.
  Bodies that only repeat constants (the list of profiles) are the constants.
\<close>

datatype 'b http_reply = Refused int string string | Replied 'b | Panicked

section \<open>Requests and responses\<close>

record ResolutionInfo =
  ri_Width :: int
  ri_Height :: int

record SubtitleTrack =
  st_Format :: string
  st_Codec :: string
  st_Language :: string
  st_Forced :: bool
  st_External :: bool

record VideoStream =
  vs_Codec :: string
  vs_Width :: int
  vs_Height :: int
  vs_Bitrate :: int
  vs_Framerate :: float64
  vs_Profile :: string
  vs_Level :: float64
  vs_HasHDR :: bool
  vs_ColorSpace :: string
  vs_BitDepth :: int

record AudioStream =
  as_Codec :: string
  as_Channels :: int
  as_Bitrate :: int
  as_SampleRate :: int
  as_Languages :: "string list"
  as_IsDefault :: bool
  as_IsForced :: bool

record SubtitleStream =
  ss_Format :: string
  ss_Codec :: string
  ss_Languages :: "string list"
  ss_IsDefault :: bool

record StreamInformation =
  VideoStreams :: "VideoStream list"
  AudioStreams :: "AudioStream list"
  SubtitleStreams :: "SubtitleStream list"
  si_Duration :: float64
  si_Size :: int

record PlaybackDecisionRequest =
  rq_DeviceID :: string
  rq_DeviceHash :: string
  rq_VideoCodec :: string
  rq_AudioCodec :: string
  rq_Container :: string
  rq_Resolution :: "ResolutionInfo option"
  rq_Bitrate :: int
  rq_HasHDR :: bool
  rq_HasDolbyVision :: bool
  rq_HasDolbyAtmos :: bool
  rq_HasDTS :: bool
  rq_SubtitleTracks :: "SubtitleTrack list"
  rq_StreamInfo :: "StreamInformation option"

record TranscodeOptions =
  to_VideoCodec :: string
  to_AudioCodec :: string
  to_Resolution :: string
  to_Bitrate :: int
  to_RemoveHDR :: bool
  to_SubtitleMethod :: string

record PlaybackDecisionResponse =
  rs_Decision :: string
  rs_Reason :: string
  rs_RecommendedProfile :: string
  rs_TranscodeOptions :: "TranscodeOptions option"
  rs_Warnings :: "string list"

record PlaybackFeedbackRequest =
  fr_DeviceID :: string
  fr_Decision :: string
  fr_ActualOutcome :: string
  fr_ErrorCode :: string
  fr_ErrorMessage :: string
  fr_Duration :: float64
  fr_StoppedAt :: float64
  fr_StreamInfo :: "StreamInformation option"
  fr_Timestamp :: time

record PlaybackHandlers =
  ph_cache :: CapabilityCache
  ph_orchestrator :: "Orchestrator option"

section \<open>Validation\<close>

definition ResolutionInfo_Validate :: "ResolutionInfo \<Rightarrow> string option" where
  "ResolutionInfo_Validate r =
     (if ri_Width r \<le> 0 \<or> ri_Width r > 16384 then Some ''invalid width: must be between 1 and 16384''
      else if ri_Height r \<le> 0 \<or> ri_Height r > 16384 then Some ''invalid height: must be between 1 and 16384''
      else None)"

definition PlaybackDecisionRequest_Validate :: "PlaybackDecisionRequest \<Rightarrow> string option" where
  "PlaybackDecisionRequest_Validate r =
     (if rq_VideoCodec r = [] then Some ''video_codec is required''
      else if rq_Bitrate r < 0 then Some ''bitrate must be non-negative''
      else if rq_Bitrate r > 100000000 then Some ''bitrate exceeds maximum allowed value (100 Mbps)''
      else case rq_Resolution r of None \<Rightarrow> None | Some res \<Rightarrow> ResolutionInfo_Validate res)"

section \<open>The decision\<close>

definition determineProfileName :: "DeviceCapabilities \<Rightarrow> string" where
  "determineProfileName caps =
     (if MaxWidth caps \<ge> 3840 \<and> SupportsHDR caps then ''ultra_hd_hdr''
      else if MaxWidth caps \<ge> 3840 then ''ultra_hd''
      else if MaxWidth caps \<ge> 1920 \<and> SupportsHDR caps then ''full_hd_hdr''
      else if MaxWidth caps \<ge> 1920 then ''full_hd''
      else if MaxWidth caps \<ge> 1280 then ''hd''
      else ''sd'')"

definition defaultOptions :: TranscodeOptions where
  "defaultOptions = \<lparr>to_VideoCodec = ''h264'', to_AudioCodec = ''aac'', to_Resolution = [], to_Bitrate = 0,
     to_RemoveHDR = False, to_SubtitleMethod = ''embed''\<rparr>"

definition media_item :: "PlaybackDecisionRequest \<Rightarrow> MediaItem" where
  "media_item req =
     (let size = rq_Resolution req;
          audio = (case rq_StreamInfo req of None \<Rightarrow> [] | Some i \<Rightarrow> AudioStreams i);
          subs = (case rq_StreamInfo req of None \<Rightarrow> [] | Some i \<Rightarrow> SubtitleStreams i)
      in \<lparr>mi_ID = rq_DeviceID req, mi_Title = [], VideoCodec = rq_VideoCodec req, AudioCodec = rq_AudioCodec req,
          mi_Container = rq_Container req,
          Width = (case size of None \<Rightarrow> 0 | Some r \<Rightarrow> ri_Width r),
          Height = (case size of None \<Rightarrow> 0 | Some r \<Rightarrow> ri_Height r),
          Bitrate = rq_Bitrate req, Framerate = 0,
          AudioChannels = (case audio of [] \<Rightarrow> 0 | a # _ \<Rightarrow> as_Channels a),
          AudioBitrate = (case audio of [] \<Rightarrow> 0 | a # _ \<Rightarrow> if as_Bitrate a > 0 then as_Bitrate a else 0),
          mi_BitDepth = 0, IsHDR = rq_HasHDR req, HDRType = [], IsDolbyVision = rq_HasDolbyVision req,
          DolbyVisionProfile = [], IsDolbyAtmos = rq_HasDolbyAtmos req, Interlaced = False, PixelAspectRatio = 0,
          SubtitleFormat = (case subs of [] \<Rightarrow> [] | s # _ \<Rightarrow> ss_Codec s),
          SubtitleIndex = 0, mi_Duration = 0\<rparr>)"

definition orchestrated ::
  "int \<Rightarrow> Orchestrator \<Rightarrow> DeviceCapabilities \<Rightarrow> PlaybackDecisionRequest \<Rightarrow> string \<times> string \<times> TranscodeOptions option" where
  "orchestrated ms orch caps req =
     (let decision = fst (Decide ms orch (media_item req) caps);
          reason = (case Reasons decision of [] \<Rightarrow> ''Orchestrator decision'' | r # _ \<Rightarrow> r);
          opts = \<lparr>to_VideoCodec = TargetVideoCodec decision, to_AudioCodec = TargetAudioCodec decision,
                  to_Resolution = [], to_Bitrate = 0,
                  to_RemoveHDR = (\<not> HDRPreserved decision \<and> NeedsVideoTranscode decision \<and> rq_HasHDR req),
                  to_SubtitleMethod = ''embed''\<rparr>
      in (DecisionType_String (d_Type decision), reason,
          if NeedsVideoTranscode decision \<or> NeedsAudioTranscode decision \<or> NeedsRemux decision then Some opts else None))"

text \<open>
  The loops over the preferred codecs: \<^verbatim>\<open>break\<close> leaves the inner loop, and the outer one goes on with the next target.
\<close>

fun pick_target :: "(string \<Rightarrow> string \<Rightarrow> bool) \<Rightarrow> string list \<Rightarrow> string list \<Rightarrow> string \<Rightarrow> string" where
  "pick_target same [] have chosen = chosen"
| "pick_target same (t # ts) have chosen =
     pick_target same ts have (if list_ex (\<lambda>c. same c t) have then t else chosen)"

definition videoTargets :: "string list" where "videoTargets = [''h264'', ''hevc'', ''vp9'', ''av1'']"

definition video_ok :: "DeviceCapabilities \<Rightarrow> PlaybackDecisionRequest \<Rightarrow> bool" where
  "video_ok caps req \<longleftrightarrow> list_ex (\<lambda>vc. Equal vc (rq_VideoCodec req)) (VideoCodecs caps)"

definition audio_ok :: "DeviceCapabilities \<Rightarrow> PlaybackDecisionRequest \<Rightarrow> bool" where
  "audio_ok caps req \<longleftrightarrow> rq_AudioCodec req = [] \<or> list_ex (\<lambda>ac. Equal ac (rq_AudioCodec req)) (AudioCodecs caps)"

definition resolution_ok :: "DeviceCapabilities \<Rightarrow> PlaybackDecisionRequest \<Rightarrow> bool" where
  "resolution_ok caps req \<longleftrightarrow>
     (case rq_Resolution req of
        None \<Rightarrow> True
      | Some r \<Rightarrow> \<not> (MaxWidth caps > 0 \<and> MaxHeight caps > 0 \<and> (ri_Width r > MaxWidth caps \<or> ri_Height r > MaxHeight caps)))"

definition hdr_ok :: "DeviceCapabilities \<Rightarrow> PlaybackDecisionRequest \<Rightarrow> bool" where
  "hdr_ok caps req \<longleftrightarrow> \<not> (rq_HasHDR req \<and> \<not> SupportsHDR caps) \<and> \<not> (rq_HasDolbyVision req \<and> \<not> SupportsDolbyVision caps)"

definition bitrate_ok :: "DeviceCapabilities \<Rightarrow> PlaybackDecisionRequest \<Rightarrow> bool" where
  "bitrate_ok caps req \<longleftrightarrow> \<not> (rq_Bitrate req > 0 \<and> MaxBitrate caps > 0 \<and> rq_Bitrate req > MaxBitrate caps)"

definition simple_decision ::
  "DeviceCapabilities \<Rightarrow> PlaybackDecisionRequest \<Rightarrow> string \<times> string \<times> TranscodeOptions option" where
  "simple_decision caps req =
     (let video = (VideoCodecs caps = [] \<or> video_ok caps req); audio = audio_ok caps req;
          size = resolution_ok caps req; hdr = hdr_ok caps req; bitrate = bitrate_ok caps req
      in if video \<and> audio \<and> size \<and> hdr \<and> bitrate
         then (''direct_play'', ''All stream parameters compatible with device'', None)
         else let o0 = defaultOptions;
                  o1 = (if \<not> video then o0\<lparr>to_VideoCodec := pick_target Equal videoTargets (VideoCodecs caps) (to_VideoCodec o0)\<rparr> else o0);
                  o2 = (if \<not> audio then o1\<lparr>to_AudioCodec := pick_target Equal [''aac'', ''mp3'', ''ac3'', ''opus''] (AudioCodecs caps) (to_AudioCodec o1)\<rparr> else o1);
                  o3 = (if \<not> hdr then o2\<lparr>to_RemoveHDR := True\<rparr> else o2);
                  o4 = (if \<not> bitrate \<and> MaxBitrate caps > 0 then o3\<lparr>to_Bitrate := MaxBitrate caps div 2\<rparr> else o3);
                  reason = (if \<not> video then ''Video codec not supported''
                            else if \<not> audio then ''Audio codec not supported''
                            else if \<not> size then ''Resolution exceeds device capability''
                            else if \<not> hdr then ''HDR format not supported''
                            else if \<not> bitrate then ''Bitrate exceeds device capability''
                            else ''Stream requires transcoding'')
              in (''transcode'', reason, Some o4))"

definition makeDecision ::
  "int \<Rightarrow> Orchestrator option \<Rightarrow> DeviceCapabilities option \<Rightarrow> PlaybackDecisionRequest \<Rightarrow>
     string \<times> string \<times> TranscodeOptions option" where
  "makeDecision ms orch caps req =
     (case caps of
        None \<Rightarrow> (''transcode'', ''Device capabilities unknown, transcoding recommended'',
                 Some (defaultOptions\<lparr>to_SubtitleMethod := []\<rparr>))
      | Some c \<Rightarrow> (case orch of Some o' \<Rightarrow> orchestrated ms o' c req | None \<Rightarrow> simple_decision c req))"

section \<open>The handlers\<close>

definition cached_caps ::
  "bool \<Rightarrow> time \<Rightarrow> string \<Rightarrow> PlaybackHandlers \<Rightarrow> DeviceCapabilities option \<times> PlaybackHandlers" where
  "cached_caps ok now deviceID h =
     (if deviceID \<noteq> [] then (let (caps, c) = CC_Get ok now deviceID (ph_cache h) in (caps, h\<lparr>ph_cache := c\<rparr>))
      else (None, h))"

text \<open>What the handler assumes of a device it does not know: that it supports what the request asks for.\<close>

definition assumed_caps :: "PlaybackDecisionRequest \<Rightarrow> DeviceCapabilities" where
  "assumed_caps req =
     (let c = zeroCapabilities\<lparr>DeviceID := rq_DeviceID req, VideoCodecs := [rq_VideoCodec req],
                AudioCodecs := [rq_AudioCodec req], ContainerFormats := [rq_Container req]\<rparr>;
          c' = (case rq_Resolution req of None \<Rightarrow> c | Some r \<Rightarrow> c\<lparr>MaxWidth := ri_Width r, MaxHeight := ri_Height r\<rparr>)
      in c'\<lparr>SupportsHDR := rq_HasHDR req, SupportsDolbyVision := rq_HasDolbyVision req,
            SupportsDolbyAtmos := rq_HasDolbyAtmos req, SupportsDTS := rq_HasDTS req\<rparr>)"

definition bad_body :: "'b http_reply" where
  "bad_body = Refused 400 ''invalid_request'' ''Failed to parse request body''"

definition handlePlaybackDecision ::
  "bool \<Rightarrow> bool \<Rightarrow> time \<Rightarrow> int \<Rightarrow> PlaybackDecisionRequest option \<Rightarrow> PlaybackHandlers \<Rightarrow>
     PlaybackDecisionResponse http_reply \<times> PlaybackHandlers" where
  "handlePlaybackDecision cancelled ok now ms bd h0 =
     (case bd of
        None \<Rightarrow> (bad_body, h0)
      | Some req \<Rightarrow>
          (case PlaybackDecisionRequest_Validate req of
             Some e \<Rightarrow> (Refused 400 ''invalid_request'' e, h0)
           | None \<Rightarrow>
               if cancelled then (Refused 408 ''timeout'' ''Request cancelled'', h0)
               else let (found, h) = cached_caps ok now (rq_DeviceID req) h0;
                        caps = (case found of Some c \<Rightarrow> c | None \<Rightarrow> assumed_caps req);
                        (d, reason, opts) = makeDecision ms (ph_orchestrator h) (Some caps) req
                    in (Replied \<lparr>rs_Decision = d, rs_Reason = reason, rs_RecommendedProfile = determineProfileName caps,
                          rs_TranscodeOptions = opts, rs_Warnings = []\<rparr>, h)))"

definition PB_handlePlaybackFeedback :: "PlaybackFeedbackRequest option \<Rightarrow> PlaybackHandlers \<Rightarrow> string http_reply \<times> PlaybackHandlers" where
  "PB_handlePlaybackFeedback bd h =
     (case bd of
        None \<Rightarrow> (bad_body, h)
      | Some req \<Rightarrow>
          if fr_DeviceID req = [] then (Refused 400 ''missing_device_id'' ''Device ID is required'', h)
          else if fr_ActualOutcome req = [] then (Refused 400 ''missing_outcome'' ''Actual outcome is required'', h)
          else (Replied ''Feedback recorded'', h))"

definition normalized :: "string list \<Rightarrow> string list" where
  "normalized cs = map (\<lambda>c. ToLower (TrimSpace c)) cs"

definition handleTranscodeRecommendation ::
  "bool \<Rightarrow> time \<Rightarrow> PlaybackDecisionRequest option \<Rightarrow> PlaybackHandlers \<Rightarrow>
     (string \<times> TranscodeOptions) http_reply \<times> PlaybackHandlers" where
  "handleTranscodeRecommendation ok now bd h0 =
     (case bd of
        None \<Rightarrow> (bad_body, h0)
      | Some req \<Rightarrow>
          let (found, h) = cached_caps ok now (rq_DeviceID req) h0
          in case found of
               None \<Rightarrow> (Refused 400 ''unknown_device'' ''Device capabilities not found'', h)
             | Some caps \<Rightarrow>
                 let o0 = defaultOptions;
                     o1 = o0\<lparr>to_VideoCodec := pick_target (=) videoTargets (normalized (VideoCodecs caps)) (to_VideoCodec o0)\<rparr>;
                     o2 = o1\<lparr>to_AudioCodec := pick_target (=) [''aac'', ''mp3'', ''ac3'', ''eac3'', ''opus'']
                            (normalized (AudioCodecs caps)) (to_AudioCodec o1)\<rparr>;
                     o3 = (if MaxBitrate caps > 0 then o2\<lparr>to_Bitrate := MaxBitrate caps div 2\<rparr> else o2);
                     o4 = (if MaxWidth caps > 0 \<and> MaxHeight caps > 0 then o3\<lparr>to_Resolution := FormatResolution caps\<rparr> else o3)
                 in (Replied (determineProfileName caps, o4), h))"

record QualityProfile =
  qp_name :: string
  qp_display_name :: string
  qp_max_resolution :: string
  qp_codecs :: "string list"
  qp_hdr :: bool
  qp_description :: string

definition handleGetProfiles :: "(QualityProfile list \<times> int) http_reply" where
  "handleGetProfiles =
     (let profiles =
       [\<lparr>qp_name = ''ultra_hd_hdr'', qp_display_name = ''Ultra HD HDR'', qp_max_resolution = ''3840x2160'',
         qp_codecs = [''hevc'', ''h264''], qp_hdr = True, qp_description = ''4K resolution with HDR support''\<rparr>,
        \<lparr>qp_name = ''ultra_hd'', qp_display_name = ''Ultra HD'', qp_max_resolution = ''3840x2160'',
         qp_codecs = [''hevc'', ''h264''], qp_hdr = False, qp_description = ''4K resolution without HDR''\<rparr>,
        \<lparr>qp_name = ''full_hd_hdr'', qp_display_name = ''Full HD HDR'', qp_max_resolution = ''1920x1080'',
         qp_codecs = [''h264'', ''hevc''], qp_hdr = True, qp_description = ''1080p resolution with HDR support''\<rparr>,
        \<lparr>qp_name = ''full_hd'', qp_display_name = ''Full HD'', qp_max_resolution = ''1920x1080'',
         qp_codecs = [''h264''], qp_hdr = False, qp_description = ''1080p resolution''\<rparr>,
        \<lparr>qp_name = ''hd'', qp_display_name = ''HD'', qp_max_resolution = ''1280x720'',
         qp_codecs = [''h264''], qp_hdr = False, qp_description = ''720p resolution''\<rparr>,
        \<lparr>qp_name = ''sd'', qp_display_name = ''SD'', qp_max_resolution = ''854x480'',
         qp_codecs = [''h264''], qp_hdr = False, qp_description = ''480p resolution''\<rparr>]
      in Replied (profiles, int (length profiles)))"

record StreamReport =
  sv_valid :: bool
  sv_video :: bool
  sv_audio :: bool
  sv_resolution :: bool
  sv_hdr :: bool
  sv_warnings :: "string list"

definition handleValidateStream ::
  "bool \<Rightarrow> time \<Rightarrow> PlaybackDecisionRequest option \<Rightarrow> PlaybackHandlers \<Rightarrow> StreamReport http_reply \<times> PlaybackHandlers" where
  "handleValidateStream ok now bd h0 =
     (case bd of
        None \<Rightarrow> (bad_body, h0)
      | Some req \<Rightarrow>
          let (found, h) = cached_caps ok now (rq_DeviceID req) h0
          in case found of
               None \<Rightarrow> (Refused 404 ''device_not_found'' ''Device capabilities not found'', h)
             | Some caps \<Rightarrow>
                 let video = video_ok caps req; audio = audio_ok caps req; size = resolution_ok caps req;
                     hdr = (\<not> (rq_HasHDR req \<and> \<not> SupportsHDR caps));
                     w = (if \<not> video then [''Video codec not supported: '' @ rq_VideoCodec req] else [])
                       @ (if \<not> audio \<and> rq_AudioCodec req \<noteq> [] then [''Audio codec not supported: '' @ rq_AudioCodec req] else [])
                       @ (if \<not> size then [''Resolution exceeds device capability''] else [])
                       @ (if \<not> hdr then [''HDR format not supported''] else [])
                 in (Replied \<lparr>sv_valid = (video \<and> audio \<and> size \<and> hdr), sv_video = video, sv_audio = audio,
                       sv_resolution = size, sv_hdr = hdr, sv_warnings = w\<rparr>, h))"

section \<open>The preferred codecs\<close>

definition supported :: "string list \<Rightarrow> string list \<Rightarrow> string list" where
  "supported have ts = filter (\<lambda>t. list_ex (\<lambda>c. Equal c t) have) ts"

lemma pick_target_last:
  "pick_target same ts have chosen =
     (let s = filter (\<lambda>t. list_ex (\<lambda>c. same c t) have) ts in if s = [] then chosen else last s)"
  by (induction ts arbitrary: chosen) (auto simp: Let_def)

lemma pick_Equal: "pick_target Equal ts have chosen = (if supported have ts = [] then chosen else last (supported have ts))"
  by (simp add: pick_target_last supported_def Let_def)

text \<open>A codec name that is trimmed and in lower case is found by both comparisons alike.\<close>

definition canonical :: "string \<Rightarrow> bool" where "canonical t \<longleftrightarrow> ToLower (TrimSpace t) = t"

lemma canonical_targets [simp]:
  "list_all canonical videoTargets"
  unfolding videoTargets_def by code_simp

lemma Equal_canonical: "canonical t \<Longrightarrow> Equal c t \<longleftrightarrow> ToLower (TrimSpace c) = t"
  by (simp add: canonical_def Equal_def EqualFold_def)

lemma normalized_canonical: "canonical t \<Longrightarrow> list_ex (\<lambda>c. c = t) (normalized have) = list_ex (\<lambda>c. Equal c t) have"
  by (auto simp: normalized_def list_ex_iff Equal_canonical image_iff)

lemma pick_normalized:
  assumes "list_all canonical ts"
  shows "pick_target (=) ts (normalized have) chosen = pick_target Equal ts have chosen"
  using assms by (induction ts arbitrary: chosen) (auto simp: normalized_canonical)

section \<open>The handlers on a valid request\<close>

lemma assumed_caps_ok:
  "video_ok (assumed_caps req) req" "audio_ok (assumed_caps req) req" "resolution_ok (assumed_caps req) req"
  "hdr_ok (assumed_caps req) req" "bitrate_ok (assumed_caps req) req"
  by (auto simp: assumed_caps_def video_ok_def audio_ok_def resolution_ok_def hdr_ok_def bitrate_ok_def zeroCapabilities_def
    Let_def split: option.splits)

lemma handler_decision:
  assumes "PlaybackDecisionRequest_Validate req = None" "cached_caps ok now (rq_DeviceID req) h = (found, h')"
  shows "handlePlaybackDecision False ok now ms (Some req) h =
    (let caps = (case found of Some c \<Rightarrow> c | None \<Rightarrow> assumed_caps req);
         (d, reason, opts) = makeDecision ms (ph_orchestrator h') (Some caps) req
     in (Replied \<lparr>rs_Decision = d, rs_Reason = reason, rs_RecommendedProfile = determineProfileName caps,
           rs_TranscodeOptions = opts, rs_Warnings = []\<rparr>, h'))"
  using assms by (simp add: handlePlaybackDecision_def)

lemma cached_orchestrator [simp]:
  "cached_caps ok now d h = (found, h') \<Longrightarrow> ph_orchestrator h' = ph_orchestrator h"
  by (auto simp: cached_caps_def Let_def split: if_splits prod.splits)

lemma makeDecision_simple [simp]: "makeDecision ms None (Some caps) req = simple_decision caps req"
  by (simp add: makeDecision_def)

lemma simple_direct_iff:
  "fst (simple_decision caps req) = ''direct_play'' \<longleftrightarrow>
     (VideoCodecs caps = [] \<or> video_ok caps req) \<and> audio_ok caps req \<and> resolution_ok caps req \<and> hdr_ok caps req
     \<and> bitrate_ok caps req"
  by (simp add: simple_decision_def Let_def)

lemmas handler_parts = handler_decision handleValidateStream_def simple_direct_iff

text \<open>
  C23. Without an orchestrator, a device that is not in the cache is told to play any valid request directly, whatever the
  device can play: the handler takes the request for the device's capabilities and compares it with itself.
\<close>

theorem unknown_device_plays_directly:
  assumes "PlaybackDecisionRequest_Validate req = None" "ph_orchestrator h = None"
    "cached_caps ok now (rq_DeviceID req) h = (None, h')"
  shows "\<exists>profile. handlePlaybackDecision False ok now ms (Some req) h =
    (Replied \<lparr>rs_Decision = ''direct_play'', rs_Reason = ''All stream parameters compatible with device'',
       rs_RecommendedProfile = profile, rs_TranscodeOptions = None, rs_Warnings = []\<rparr>, h')"
  using assms by (simp add: handler_decision simple_decision_def assumed_caps_ok)

definition plain_request :: "string \<Rightarrow> string \<Rightarrow> PlaybackDecisionRequest" where
  "plain_request d v = \<lparr>rq_DeviceID = d, rq_DeviceHash = [], rq_VideoCodec = v, rq_AudioCodec = ''dts'',
     rq_Container = ''mkv'', rq_Resolution = Some \<lparr>ri_Width = 7680, ri_Height = 4320\<rparr>, rq_Bitrate = 90000000,
     rq_HasHDR = True, rq_HasDolbyVision = True, rq_HasDolbyAtmos = False, rq_HasDTS = True, rq_SubtitleTracks = [],
     rq_StreamInfo = None\<rparr>"

lemma plain_request_valid: "v \<noteq> [] \<Longrightarrow> PlaybackDecisionRequest_Validate (plain_request d v) = None"
  by (simp add: plain_request_def PlaybackDecisionRequest_Validate_def ResolutionInfo_Validate_def)

definition no_devices :: PlaybackHandlers where
  "no_devices = \<lparr>ph_cache = \<lparr>memoryCache = [], db = NoDB, rows = [], memoryTTL = Hour, sqliteTTL = Hour,
     enableSQLite = False, maxMemoryItems = 10,
     stats = \<lparr>Hits = 0, Misses = 0, MemorySize = 0, SQLiteSize = 0, Evictions = 0\<rparr>\<rparr>, ph_orchestrator = None\<rparr>"

theorem unknown_device_plays_directly_witness:
  "\<exists>profile. fst (handlePlaybackDecision False True 0 0 (Some (plain_request ''tv'' ''av1'')) no_devices) =
    Replied \<lparr>rs_Decision = ''direct_play'', rs_Reason = ''All stream parameters compatible with device'',
       rs_RecommendedProfile = profile, rs_TranscodeOptions = None, rs_Warnings = []\<rparr>"
proof -
  have "fst (cached_caps True 0 (rq_DeviceID (plain_request ''tv'' ''av1'')) no_devices) = None"
    by (simp add: cached_caps_def no_devices_def plain_request_def CC_Get_def GetWithContext_def uses_db_def recordMiss_def)
  then obtain h' where "cached_caps True 0 (rq_DeviceID (plain_request ''tv'' ''av1'')) no_devices = (None, h')"
    by (metis prod.collapse)
  from unknown_device_plays_directly [OF plain_request_valid _ this, of 0] show ?thesis
    by (simp add: no_devices_def) fastforce
qed

text \<open>
  For a cached device with a list of video codecs, and a request without Dolby Vision whose bit rate the device can take,
  the two handlers agree: the decision is direct play exactly when the validation calls the stream valid.
\<close>

theorem decision_agrees_with_validation:
  assumes "PlaybackDecisionRequest_Validate req = None" "ph_orchestrator h = None"
    "cached_caps ok now (rq_DeviceID req) h = (Some caps, h')"
    "VideoCodecs caps \<noteq> []" "\<not> rq_HasDolbyVision req" "bitrate_ok caps req"
  shows "\<exists>resp rep. handlePlaybackDecision False ok now ms (Some req) h = (Replied resp, h')
    \<and> handleValidateStream ok now (Some req) h = (Replied rep, h')
    \<and> (rs_Decision resp = ''direct_play'' \<longleftrightarrow> sv_valid rep)"
  using assms by (auto simp: handler_parts hdr_ok_def Let_def split: prod.split)
    (auto simp: simple_decision_def Let_def hdr_ok_def split: if_splits)

definition one_device :: "string list \<Rightarrow> PlaybackHandlers" where
  "one_device vcs = no_devices\<lparr>ph_cache := (ph_cache no_devices)\<lparr>memoryCache :=
     [(''tv'', \<lparr>Capabilities = zeroCapabilities\<lparr>VideoCodecs := vcs, MaxWidth := 1920, MaxHeight := 1080\<rparr>,
        CreatedAt = 0, ExpiresAt = 100, AccessCount = 0, LastAccessed = 0, cc_Source = ''probe''\<rparr>)]\<rparr>\<rparr>"

definition sd_request :: "string \<Rightarrow> PlaybackDecisionRequest" where
  "sd_request v = (plain_request ''tv'' v)\<lparr>rq_AudioCodec := [], rq_HasHDR := False, rq_HasDolbyVision := False\<rparr>"

lemma sd_request_valid: "v \<noteq> [] \<Longrightarrow> PlaybackDecisionRequest_Validate (sd_request v) = None"
  by (simp add: sd_request_def plain_request_def PlaybackDecisionRequest_Validate_def ResolutionInfo_Validate_def)

lemma one_device_cached:
  "\<exists>h'. cached_caps True 0 (rq_DeviceID (sd_request v)) (one_device vcs) =
     (Some (zeroCapabilities\<lparr>VideoCodecs := vcs, MaxWidth := 1920, MaxHeight := 1080\<rparr>), h')"
  by (simp add: cached_caps_def one_device_def no_devices_def sd_request_def plain_request_def CC_Get_def GetWithContext_def
    uses_db_def isExpired_def After_def gget_def recordHit_def)

lemma one_device_simple [simp]: "ph_orchestrator (one_device vcs) = None"
  by (simp add: one_device_def no_devices_def)

lemma sd_request_bits: "\<not> rq_HasDolbyVision (sd_request v)" "rq_VideoCodec (sd_request v) = v"
  "bitrate_ok (zeroCapabilities\<lparr>VideoCodecs := vcs, MaxWidth := 1920, MaxHeight := 1080\<rparr>) (sd_request v)"
  by (simp_all add: sd_request_def plain_request_def bitrate_ok_def zeroCapabilities_def)

theorem decision_agrees_with_validation_witness:
  "\<exists>resp rep. fst (handlePlaybackDecision False True 0 0 (Some (sd_request ''hevc'')) (one_device [''h264''])) = Replied resp
    \<and> fst (handleValidateStream True 0 (Some (sd_request ''hevc'')) (one_device [''h264''])) = Replied rep
    \<and> (rs_Decision resp = ''direct_play'' \<longleftrightarrow> sv_valid rep)"
proof -
  obtain h' where "cached_caps True 0 (rq_DeviceID (sd_request ''hevc'')) (one_device [''h264'']) =
      (Some (zeroCapabilities\<lparr>VideoCodecs := [''h264''], MaxWidth := 1920, MaxHeight := 1080\<rparr>), h')"
    using one_device_cached by blast
  from decision_agrees_with_validation [OF sd_request_valid one_device_simple this _ sd_request_bits(1) sd_request_bits(3), of 0]
  show ?thesis by fastforce
qed

text \<open>
  When a cached device cannot play the codec, the two handlers that name a target codec agree, and the target is the
  \<^emph>\<open>last\<close> of the preferred codecs that the device supports: \<^verbatim>\<open>break\<close> leaves the inner loop only, so the order of
  preference is reversed.
\<close>

theorem last_preference_chosen:
  assumes "PlaybackDecisionRequest_Validate req = None" "ph_orchestrator h = None"
    "cached_caps ok now (rq_DeviceID req) h = (Some caps, h')"
    "VideoCodecs caps \<noteq> []" "\<not> video_ok caps req"
  shows "\<exists>resp opts rec. fst (handlePlaybackDecision False ok now ms (Some req) h) = Replied resp
    \<and> rs_TranscodeOptions resp = Some opts
    \<and> fst (handleTranscodeRecommendation ok now (Some req) h) = Replied rec
    \<and> to_VideoCodec (snd rec) = to_VideoCodec opts
    \<and> to_VideoCodec opts = last (''h264'' # supported (VideoCodecs caps) videoTargets)"
proof -
  have pick: "pick_target (=) videoTargets (normalized (VideoCodecs caps)) ''h264'' =
      last (''h264'' # supported (VideoCodecs caps) videoTargets)"
    "pick_target Equal videoTargets (VideoCodecs caps) ''h264'' =
      last (''h264'' # supported (VideoCodecs caps) videoTargets)"
    by (simp_all add: pick_normalized pick_Equal)
  show ?thesis
    using assms
    by (simp add: handler_decision handleTranscodeRecommendation_def simple_decision_def Let_def defaultOptions_def pick)
qed

lemma supported_av1: "supported [''h264'', ''av1''] videoTargets = [''h264'', ''av1'']"
  unfolding supported_def videoTargets_def by code_simp

lemma vp9_missing: "\<not> video_ok (zeroCapabilities\<lparr>VideoCodecs := [''h264'', ''av1''], MaxWidth := 1920, MaxHeight := 1080\<rparr>) (sd_request ''vp9'')"
proof -
  have "\<not> list_ex (\<lambda>vc. Equal vc ''vp9'') [''h264'', ''av1'']" by code_simp
  then show ?thesis by (simp add: video_ok_def sd_request_bits)
qed

theorem last_preference_chosen_witness:
  "\<exists>resp opts. fst (handlePlaybackDecision False True 0 0 (Some (sd_request ''vp9'')) (one_device [''h264'', ''av1''])) = Replied resp
    \<and> rs_TranscodeOptions resp = Some opts \<and> to_VideoCodec opts = ''av1''"
proof -
  obtain h' where "cached_caps True 0 (rq_DeviceID (sd_request ''vp9'')) (one_device [''h264'', ''av1'']) =
      (Some (zeroCapabilities\<lparr>VideoCodecs := [''h264'', ''av1''], MaxWidth := 1920, MaxHeight := 1080\<rparr>), h')"
    using one_device_cached by blast
  from last_preference_chosen [OF sd_request_valid one_device_simple this _ vp9_missing, of 0]
  show ?thesis by (auto simp: supported_av1)
qed

text \<open>No decision, with or without an orchestrator, ever asks for a smaller picture, not even one made because the picture is too large.\<close>

theorem resolution_never_scaled:
  "case snd (snd (makeDecision ms orch caps req)) of None \<Rightarrow> True | Some opts \<Rightarrow> to_Resolution opts = []"
  by (simp add: makeDecision_def orchestrated_def simple_decision_def defaultOptions_def Let_def split: option.split)

end
