(* ===== verification/CacheQueries.thy ===== *)
theory CacheQueries
  imports CapabilityCache Strings
begin

text \<open>
  The two searches of the capability cache through the text of its table, \<^verbatim>\<open>internal/probes/cache.go\<close>
  (\<^verbatim>\<open>GetCapabilitiesByPlatform\<close>, \<^verbatim>\<open>GetCapabilitiesByCodec\<close>). SQLite's \<^verbatim>\<open>LIKE\<close> is modelled as documented: a
  percent sign matches any text, an underscore any character, a letter itself in either case. The text of a row's
  \<^verbatim>\<open>capabilities\<close> column, written by \<^verbatim>\<open>encoding/json\<close>, is the argument \<open>column\<close>; the rows come in table order, since
  the query asks for none.
\<close>

fun like :: "string \<Rightarrow> string \<Rightarrow> bool" where
  "like [] s \<longleftrightarrow> s = []"
| "like (p # ps) [] \<longleftrightarrow> p = CHR ''%'' \<and> like ps []"
| "like (p # ps) (c # s) \<longleftrightarrow>
     (if p = CHR ''%'' then like ps (c # s) \<or> like (p # ps) s
      else (p = CHR ''_'' \<or> lower_char p = lower_char c) \<and> like ps s)"

definition search_rows ::
  "(sqlrow \<Rightarrow> string) \<Rightarrow> bool \<Rightarrow> time \<Rightarrow> string \<Rightarrow> CapabilityCache \<Rightarrow> cache_error + DeviceCapabilities list" where
  "search_rows column ok now pattern c =
     (if \<not> uses_db c then Inl SQLiteDisabled
      else if \<not> exec_ok ok c then Inl QueryFailed
      else let found = take 100 (filter (\<lambda>(k, r). expires_at r > sql_now now \<and> like pattern (column r)) (rows c))
           in Inr (List.map_filter (\<lambda>(k, r). capabilities r) found))"

definition GetCapabilitiesByPlatform ::
  "(sqlrow \<Rightarrow> string) \<Rightarrow> bool \<Rightarrow> time \<Rightarrow> string \<Rightarrow> CapabilityCache \<Rightarrow> cache_error + DeviceCapabilities list" where
  "GetCapabilitiesByPlatform column ok now pform c =
     search_rows column ok now (''%\"platform\": \"'' @ pform @ ''\"%'') c"

definition GetCapabilitiesByCodec ::
  "(sqlrow \<Rightarrow> string) \<Rightarrow> bool \<Rightarrow> time \<Rightarrow> string \<Rightarrow> CapabilityCache \<Rightarrow> cache_error + DeviceCapabilities list" where
  "GetCapabilitiesByCodec column ok now codec c =
     search_rows column ok now (''%\"video_codecs\": [%\"'' @ codec @ ''\"%]%'') c"

section \<open>The pattern language\<close>

lemma like_skip: "like ps s \<Longrightarrow> like (CHR ''%'' # ps) s"
  by (cases s) simp_all

lemma split_cons: "(\<exists>a b. c # s = a @ b \<and> P a \<and> Q b) \<longleftrightarrow> P [] \<and> Q (c # s) \<or> (\<exists>a b. s = a @ b \<and> P (c # a) \<and> Q b)"
  unfolding Cons_eq_append_conv by blast

lemma like_append: "like (p @ q) s \<longleftrightarrow> (\<exists>a b. s = a @ b \<and> like p a \<and> like q b)"
proof (induction p s rule: like.induct)
  case (1 s)
  then show ?case by simp
next
  case (2 p ps)
  then show ?case by auto
next
  case (3 p ps c s)
  show ?case
  proof (cases "p = CHR ''%''")
    case True
    have "like ((p # ps) @ q) (c # s) \<longleftrightarrow> like (ps @ q) (c # s) \<or> like ((p # ps) @ q) s"
      using True by simp
    then show ?thesis
      unfolding 3(1) [OF True] 3(2) [OF True] split_cons [of c s "like ps"] split_cons [of c s "like (p # ps)"]
      using True by (auto simp: like_skip)
  next
    case False
    then show ?thesis
      unfolding split_cons [of c s "like (p # ps)"] using 3(3) by auto
  qed
qed

text \<open>A text without wildcards matches what differs from it in the case of letters only.\<close>

lemma like_literal:
  "\<lbrakk>CHR ''%'' \<notin> set p; CHR ''_'' \<notin> set p\<rbrakk> \<Longrightarrow> like p s \<longleftrightarrow> map lower_char s = map lower_char p"
  by (induction p s rule: like.induct) auto

lemma like_infix:
  assumes "like (p @ l @ q) s" "CHR ''%'' \<notin> set l" "CHR ''_'' \<notin> set l"
  shows "\<exists>a t b. s = a @ t @ b \<and> map lower_char t = map lower_char l"
  using assms by (auto simp: like_append like_literal)

lemma like_percent [simp]: "like (CHR ''%'' # p) s \<longleftrightarrow> (\<exists>a b. s = a @ b \<and> like p b)"
  by (induction s) (auto simp: Cons_eq_append_conv)

section \<open>What the searches find\<close>

text \<open>
  A JSON text without white space between its tokens, as \<^verbatim>\<open>json.Marshal\<close> writes it: a quotation mark that closes a
  name or a string whose last character is a letter is never followed by a colon and a space.
\<close>

definition is_letter :: "char \<Rightarrow> bool" where
  "is_letter ch \<longleftrightarrow> lower_char ch \<in> set ''abcdefghijklmnopqrstuvwxyz''"

definition compact :: "string \<Rightarrow> bool" where
  "compact s \<longleftrightarrow> (\<forall>a ch b. s = a @ ch # ''\": '' @ b \<longrightarrow> \<not> is_letter ch)"

lemma lower_code: "(of_char (lower_char ch) :: nat) = (let n = of_char ch in if 65 \<le> n \<and> n \<le> 90 then n + 32 else n)"
  by (simp add: lower_char_def Let_def)

lemma code_eq: "ch = d \<longleftrightarrow> (of_char ch :: nat) = of_char d"
  by (metis char_of_char)

lemma lower_id: "lower_char ch = CHR 0x22 \<longleftrightarrow> ch = CHR 0x22" "lower_char ch = CHR '':'' \<longleftrightarrow> ch = CHR '':''"
  "lower_char ch = CHR '' '' \<longleftrightarrow> ch = CHR '' ''"
  by (simp_all add: code_eq lower_code Let_def)

text \<open>So no pattern with such a name, colon and space in it matches such a text.\<close>

lemma no_match:
  assumes "like (p @ (e # ''\": '') @ q) s" "is_letter e" "compact s"
  shows False
proof -
  have "e \<noteq> CHR ''%''" "e \<noteq> CHR ''_''"
    using \<open>is_letter e\<close> by (auto simp: is_letter_def lower_char_def)
  then have "\<exists>a t b. s = a @ t @ b \<and> map lower_char t = map lower_char (e # ''\": '')"
    by (intro like_infix [OF assms(1)]) simp_all
  then obtain a t b where s: "s = a @ t @ b" and t: "map lower_char t = map lower_char (e # ''\": '')"
    by blast
  obtain ch where ch: "t = ch # ''\": ''" "lower_char ch = lower_char e"
    using t by (auto simp: map_eq_Cons_conv lower_id lower_char_def [of "CHR 0x22"] lower_char_def [of "CHR '':''"] lower_char_def [of "CHR '' ''"])
  have "s = a @ ch # ''\": '' @ b"
    using s ch(1) by simp
  then have "\<not> is_letter ch"
    using \<open>compact s\<close> unfolding compact_def by blast
  moreover have "is_letter ch"
    using \<open>is_letter e\<close> by (simp only: is_letter_def ch(2))
  ultimately show False by simp
qed

lemma search_finds_nothing:
  assumes "pattern = p @ (e # ''\": '') @ q" "is_letter e" "\<forall>r. compact (column r)"
  shows "search_rows column ok now pattern c \<in> {Inl SQLiteDisabled, Inl QueryFailed, Inr []}"
proof -
  have "\<not> like pattern (column r)" for r
    using no_match [of p e q "column r"] assms by auto
  then show ?thesis by (simp add: search_rows_def List.map_filter_def)
qed

text \<open>What the driver answers when nothing is wrong: the error, if any, does not depend on the pattern.\<close>

lemma by_platform_empty:
  assumes "\<forall>r. compact (column r)" "uses_db c" "exec_ok ok c"
  shows "GetCapabilitiesByPlatform column ok now pform c = Inr []"
proof -
  have "search_rows column ok now (''%\"platform\": \"'' @ pform @ ''\"%'') c \<in> {Inl SQLiteDisabled, Inl QueryFailed, Inr []}"
    by (rule search_finds_nothing [where p = "''%\"platfor''" and e = "CHR ''m''" and q = "''\"'' @ pform @ ''\"%''"])
      (use assms in \<open>simp_all add: is_letter_def lower_char_def\<close>)
  then show ?thesis using assms(2,3) by (auto simp: GetCapabilitiesByPlatform_def search_rows_def Let_def)
qed

lemma by_codec_empty:
  assumes "\<forall>r. compact (column r)"
  shows "GetCapabilitiesByCodec column ok now codec c \<in> {Inl SQLiteDisabled, Inl QueryFailed, Inr []}"
  unfolding GetCapabilitiesByCodec_def
  by (rule search_finds_nothing [where p = "''%\"video_codec''" and e = "CHR ''s''" and q = "''[%\"'' @ codec @ ''\"%]%''"])
    (use assms in \<open>simp_all add: is_letter_def lower_char_def\<close>)

end
