(* ===== verification/Devices.thy ===== *)
theory Devices
  imports Playback CacheQueries Curated Validator PlaybackMetrics
begin

text \<open>
  The device handlers, \<^verbatim>\<open>internal/api/devices.go\<close>, with the identifier check of \<^verbatim>\<open>internal/api/router.go\<close>. The state
  is the handler's validator, capability cache, curated database and feedback manager (which may be missing) and the
  process-wide playback metrics. Query and path parameters are strings, empty when missing; a body that does not decode
  is \<open>None\<close>. The SQL outcomes of the calls, the clock, the text of a time and of a row, and \<^verbatim>\<open>strconv.ParseFloat\<close>
  are arguments; the goroutines of the feedback callbacks that a handler starts are part of its result.
\<close>

section \<open>Requests and responses\<close>

record DeviceHandlers =
  dh_validator :: Validator
  dh_cache :: CapabilityCache
  curatedDB :: CuratedDatabase
  feedbackManager :: "FeedbackManager option"
  globalMetrics :: PlaybackMetrics

record ProbeReportRequest =
  pq_Capabilities :: "DeviceCapabilities option"
  pq_Source :: string
  pq_Version :: string

record ProbeReportResponse =
  pq_Success :: bool
  pq_DeviceID :: string
  pq_CacheHit :: bool
  pq_Validation :: ValidationResult
  pq_Message :: string

record CapabilitiesResponse =
  cr_Found :: bool
  cr_Capabilities :: "DeviceCapabilities option"
  cr_Cached :: bool
  cr_Source :: string
  cr_LastUpdated :: string

record DeviceProfile =
  pf_DeviceID :: string
  pf_ProfileName :: string
  pf_MaxResolution :: string
  pf_RecommendedCodecs :: "string list"
  pf_TranscodeRequired :: bool
  pf_Notes :: string

record DevicePlaybackFeedbackRequest =
  df_MediaID :: string
  df_Outcome :: string
  df_ErrorCode :: string
  df_ErrorMessage :: string
  df_Duration :: float64
  df_BufferDuration :: float64
  df_NetworkQuality :: string
  df_VideoCodec :: string
  df_AudioCodec :: string
  df_Container :: string
  df_Resolution :: string
  df_Bitrate :: int

record PlaybackFeedbackResponse =
  fp_Success :: bool
  fp_Recorded :: bool
  fp_TrustDelta :: float64
  fp_NeedsReProbe :: bool
  fp_ReProbeReason :: string
  fp_Message :: string

definition NewDeviceHandlers :: "Validator \<Rightarrow> CapabilityCache \<Rightarrow> CuratedDatabase \<Rightarrow> PlaybackMetrics \<Rightarrow> DeviceHandlers" where
  "NewDeviceHandlers v c d m =
     \<lparr>dh_validator = v, dh_cache = c, curatedDB = d, feedbackManager = None, globalMetrics = m\<rparr>"

definition SetFeedbackManager :: "FeedbackManager option \<Rightarrow> DeviceHandlers \<Rightarrow> DeviceHandlers" where
  "SetFeedbackManager fm h = h\<lparr>feedbackManager := fm\<rparr>"

section \<open>Identifiers\<close>

definition id_char :: "char \<Rightarrow> bool" where
  "id_char ch \<longleftrightarrow> ch \<in> set ''abcdefghijklmnopqrstuvwxyzABCDEFGHIJKLMNOPQRSTUVWXYZ0123456789''"

definition isValidDeviceID :: "string \<Rightarrow> bool" where
  "isValidDeviceID ident \<longleftrightarrow>
     (case ident of [] \<Rightarrow> False
      | ch # rest \<Rightarrow> length ident \<le> 64 \<and> id_char ch \<and> list_all (\<lambda>x. id_char x \<or> x = CHR ''_'' \<or> x = CHR ''-'') rest)"

definition isValidNumericField :: "int \<Rightarrow> int \<Rightarrow> int \<Rightarrow> bool" where
  "isValidNumericField v lo hi \<longleftrightarrow> v \<ge> lo \<and> v \<le> hi"

section \<open>Capabilities\<close>

definition handleProbeReport ::
  "slice_view \<Rightarrow> (duration \<Rightarrow> string) \<Rightarrow> (time \<Rightarrow> string) \<Rightarrow> bool \<Rightarrow> bool \<Rightarrow> time \<Rightarrow> ProbeReportRequest option \<Rightarrow>
     DeviceHandlers \<Rightarrow> ProbeReportResponse http_reply \<times> DeviceHandlers" where
  "handleProbeReport view showd rfc3339 ok1 ok2 now bd h =
     (case bd of
        None \<Rightarrow> (bad_body, h)
      | Some req \<Rightarrow>
          (case pq_Capabilities req of
             None \<Rightarrow> (Refused 400 ''missing_capabilities'' ''Capabilities are required'', h)
           | Some c0 \<Rightarrow>
               let c = (if Timestamp c0 = [] then c0\<lparr>Timestamp := rfc3339 now\<rparr> else c0);
                   (v, val) = ValidateCapabilities view showd now (Some c) (dh_validator h);
                   (found, ca1) = CC_Get ok1 now (DeviceID c) (dh_cache h);
                   src = (if pq_Source req = [] then ''probe'' else pq_Source req);
                   (_, ca2) = CC_Set ok2 now (DeviceID c) (Some c) src ca1;
                   msg = (if \<not> IsValid v then ''Capabilities have validation errors''
                          else if AnomalyDetected v then ''Anomaly detected in capabilities''
                          else ''Capabilities recorded successfully'')
               in (Replied \<lparr>pq_Success = IsValid v, pq_DeviceID = DeviceID c, pq_CacheHit = (found \<noteq> None),
                     pq_Validation = v, pq_Message = msg\<rparr>,
                   h\<lparr>dh_validator := val, dh_cache := ca2\<rparr>)))"

text \<open>The capabilities of a curated device may be nil: the inner option.\<close>

definition handleGetCapabilities ::
  "bool \<Rightarrow> bool \<Rightarrow> time \<Rightarrow> string \<Rightarrow> string \<Rightarrow> DeviceHandlers \<Rightarrow> CapabilitiesResponse http_reply \<times> DeviceHandlers" where
  "handleGetCapabilities ok1 ok2 now deviceID deviceHash h =
     (if deviceID = [] \<and> deviceHash = []
      then (Refused 400 ''missing_identifier'' ''device_id or device_hash is required'', h)
      else if deviceID \<noteq> [] \<and> \<not> isValidDeviceID deviceID
      then (Refused 400 ''invalid_device_id'' ''Device ID format is invalid'', h)
      else let (cached, ca1) = (if deviceID \<noteq> [] then CC_Get ok1 now deviceID (dh_cache h) else (None, dh_cache h));
               by_hash = (if deviceHash \<noteq> [] then GetByDeviceHash deviceHash (curatedDB h) else None);
               by_id = (if deviceID \<noteq> [] then GetByID deviceID (curatedDB h) else None);
               found = (case cached of Some c \<Rightarrow> Some (Some c)
                 | None \<Rightarrow> (case by_hash of Some d \<Rightarrow> Some (CuratedDevice.Capabilities d)
                   | None \<Rightarrow> map_option CuratedDevice.Capabilities by_id));
               h1 = h\<lparr>dh_cache := ca1\<rparr>
           in case found of
                None \<Rightarrow> (Refused 404 ''not_found'' ''No capabilities found for the specified device'', h1)
              | Some caps \<Rightarrow>
                  (Replied \<lparr>cr_Found = True, cr_Capabilities = caps, cr_Cached = (cached \<noteq> None), cr_Source = ''cache'',
                     cr_LastUpdated = []\<rparr>,
                   if cached \<noteq> None then h1\<lparr>dh_cache := snd (UpdateAccessCount ok2 now deviceID ca1)\<rparr> else h1))"

definition handleValidateCapabilities ::
  "slice_view \<Rightarrow> (duration \<Rightarrow> string) \<Rightarrow> time \<Rightarrow> DeviceCapabilities option option \<Rightarrow> DeviceHandlers \<Rightarrow>
     ValidationResult http_reply \<times> DeviceHandlers" where
  "handleValidateCapabilities view showd now bd h =
     (case bd of
        None \<Rightarrow> (bad_body, h)
      | Some None \<Rightarrow> (Refused 400 ''missing_capabilities'' ''Capabilities are required'', h)
      | Some (Some c) \<Rightarrow>
          let (v, val) = ValidateCapabilities view showd now (Some c) (dh_validator h)
          in (Replied (SortErrors v), h\<lparr>dh_validator := val\<rparr>))"

definition handleGetDeviceProfile ::
  "bool \<Rightarrow> time \<Rightarrow> string \<Rightarrow> DeviceHandlers \<Rightarrow> DeviceProfile http_reply \<times> DeviceHandlers" where
  "handleGetDeviceProfile ok now deviceID h =
     (if deviceID = [] then (Refused 400 ''missing_device_id'' ''Device ID is required'', h)
      else let (cached, ca) = CC_Get ok now deviceID (dh_cache h); h1 = h\<lparr>dh_cache := ca\<rparr>;
               found = (case cached of Some c \<Rightarrow> Some (Some c)
                 | None \<Rightarrow> map_option CuratedDevice.Capabilities (GetByID deviceID (curatedDB h)))
           in case found of
                None \<Rightarrow> (Refused 404 ''not_found'' ''Device not found'', h1)
              | Some None \<Rightarrow> (Panicked, h1)
              | Some (Some caps) \<Rightarrow>
                  (Replied \<lparr>pf_DeviceID = deviceID, pf_ProfileName = determineProfileName caps,
                     pf_MaxResolution = DC_MaxResolution caps, pf_RecommendedCodecs = VideoCodecs caps,
                     pf_TranscodeRequired = (VideoCodecs caps = []), pf_Notes = []\<rparr>, h1))"

section \<open>Curated devices\<close>

definition handleSearchDevices ::
  "string \<Rightarrow> string \<Rightarrow> string \<Rightarrow> string \<Rightarrow> string \<Rightarrow> string \<Rightarrow> DeviceHandlers \<Rightarrow> (int \<times> int \<times> CuratedDevice list) http_reply" where
  "handleSearchDevices pform manufacturer model videoCodec audioCodec verified h =
     (let criteria = \<lparr>sc_Platform = pform, sc_Manufacturer = manufacturer, sc_Model = model, sc_VideoCodec = videoCodec,
            sc_AudioCodec = audioCodec, HasHDR = None, HasDV = None, VerifiedOnly = (verified = ''true''), sc_Source = []\<rparr>
      in case Search criteria (curatedDB h) of
           None \<Rightarrow> Panicked
         | Some results \<Rightarrow> let r = take 100 results in Replied (int (length r), 100, r))"

record CuratedReply =
  ct_count :: int
  ct_platform :: "string option"
  ct_limit :: "int option"
  ct_devices :: "CuratedDevice list"
  ct_stats :: "DatabaseStats option"

definition handleGetCuratedDevices :: "string \<Rightarrow> DeviceHandlers \<Rightarrow> CuratedReply http_reply" where
  "handleGetCuratedDevices pform h =
     (if pform \<noteq> []
      then let ds = take 50 (GetByPlatform pform (curatedDB h))
           in Replied \<lparr>ct_count = int (length ds), ct_platform = Some pform, ct_limit = None, ct_devices = ds, ct_stats = None\<rparr>
      else let st = CuratedDatabase.stats (curatedDB h)
           in Replied \<lparr>ct_count = TotalDevices st, ct_platform = None, ct_limit = Some 50,
                ct_devices = take 50 (GetAll (curatedDB h)), ct_stats = Some st\<rparr>)"

definition handleGetDevicesByPlatform :: "string \<Rightarrow> DeviceHandlers \<Rightarrow> (string \<times> int \<times> CuratedDevice list) http_reply" where
  "handleGetDevicesByPlatform pform h =
     (if pform = [] then Refused 400 ''missing_platform'' ''Platform is required''
      else if \<not> isValidDeviceID pform then Refused 400 ''invalid_platform'' ''Platform format is invalid''
      else let ds = GetByPlatform pform (curatedDB h) in Replied (pform, int (length ds), ds))"

definition handleGetDevicesByCodec ::
  "(sqlrow \<Rightarrow> string) \<Rightarrow> bool \<Rightarrow> time \<Rightarrow> string \<Rightarrow> DeviceHandlers \<Rightarrow> (string \<times> int \<times> DeviceCapabilities list) http_reply" where
  "handleGetDevicesByCodec column ok now codecName h =
     (if codecName = [] then Refused 400 ''missing_codec'' ''Codec is required''
      else if \<not> IsVideoCodec codecName \<and> \<not> IsAudioCodec codecName then Refused 400 ''invalid_codec'' ''Invalid codec name''
      else let caps = (case GetCapabilitiesByCodec column ok now codecName (dh_cache h) of Inl _ \<Rightarrow> [] | Inr cs \<Rightarrow> cs)
           in Replied (codecName, int (length caps), caps))"

section \<open>Playback feedback\<close>

definition seconds_of :: "float64 \<Rightarrow> duration" where
  "seconds_of x = (if x > 0 then ftrunc (fmul x (ffromint Second)) else 0)"

definition feedback_of :: "time \<Rightarrow> string \<Rightarrow> DevicePlaybackFeedbackRequest \<Rightarrow> PlaybackFeedback" where
  "feedback_of now deviceID req =
     \<lparr>fb_DeviceID = deviceID, MediaID = df_MediaID req, Outcome = ParseOutcomeFromString (df_Outcome req),
      ErrorCode = df_ErrorCode req, ErrorMessage = df_ErrorMessage req, fb_Timestamp = now,
      fb_Duration = seconds_of (df_Duration req), BufferDuration = seconds_of (df_BufferDuration req),
      NetworkQuality = df_NetworkQuality req, VideoCodec = df_VideoCodec req, AudioCodec = df_AudioCodec req,
      fb_Container = df_Container req, fb_Resolution = df_Resolution req, fb_Bitrate = df_Bitrate req\<rparr>"

definition handlePlaybackFeedback ::
  "time \<Rightarrow> string \<Rightarrow> DevicePlaybackFeedbackRequest option \<Rightarrow> DeviceHandlers \<Rightarrow>
     PlaybackFeedbackResponse http_reply \<times> notification list \<times> DeviceHandlers" where
  "handlePlaybackFeedback now deviceID bd h =
     (if deviceID = [] then (Refused 400 ''missing_device_id'' ''Device ID is required'', [], h)
      else if \<not> isValidDeviceID deviceID then (Refused 400 ''invalid_device_id'' ''Device ID format is invalid'', [], h)
      else case feedbackManager h of
        None \<Rightarrow> (Refused 503 ''feedback_not_enabled'' ''Playback feedback is not enabled'', [], h)
      | Some fm \<Rightarrow> (case bd of
          None \<Rightarrow> (bad_body, [], h)
        | Some req \<Rightarrow>
            let x = ParseOutcomeFromString (df_Outcome req)
            in if x = OutcomeUnknown \<and> df_Outcome req \<noteq> [] \<and> df_Outcome req \<noteq> ''unknown''
               then (Refused 400 ''invalid_outcome'' (''Invalid outcome value. Valid values: success, network_error, ''
                  @ ''codec_error, decoding_failed, renderer_crash, unsupported_format, timeout, buffering''), [], h)
               else let f = feedback_of now deviceID req;
                        delta = CalculateTrustDelta x fm;
                        (ns, fm1) = (if x = OutcomeSuccess then FM_RecordSuccess now f fm else FM_RecordFailure now f fm);
                        (need, reason) = ShouldReProbe deviceID fm1;
                        m1 = RecordFeedbackLatency 0 (RecordPlayback deviceID x (globalMetrics h));
                        m2 = (if delta \<noteq> 0 then RecordTrustScore deviceID (GetTrustAdjustment deviceID fm1) m1 else m1);
                        m3 = (if need then RecordReProbe deviceID reason m2 else m2)
                    in (Replied \<lparr>fp_Success = True, fp_Recorded = True, fp_TrustDelta = delta, fp_NeedsReProbe = need,
                          fp_ReProbeReason = reason, fp_Message = ''Feedback recorded successfully''\<rparr>, ns,
                        h\<lparr>feedbackManager := Some fm1, globalMetrics := m3\<rparr>)))"

text \<open>The guards of the three handlers that read a device's feedback.\<close>

definition with_feedback :: "string \<Rightarrow> DeviceHandlers \<Rightarrow> (FeedbackManager \<Rightarrow> 'b) \<Rightarrow> 'b http_reply" where
  "with_feedback deviceID h reply =
     (if deviceID = [] then Refused 400 ''missing_device_id'' ''Device ID is required''
      else case feedbackManager h of
        None \<Rightarrow> Refused 503 ''feedback_not_enabled'' ''Playback feedback is not enabled''
      | Some fm \<Rightarrow> Replied (reply fm))"

definition handleGetPlaybackStats :: "string \<Rightarrow> DeviceHandlers \<Rightarrow> (string \<times> DevicePlaybackStats) http_reply" where
  "handleGetPlaybackStats deviceID h = with_feedback deviceID h (\<lambda>fm. (deviceID, GetPlaybackStats deviceID fm))"

definition handleGetReliableCodecs ::
  "(string \<Rightarrow> float64 option) \<Rightarrow> string \<Rightarrow> string \<Rightarrow> DeviceHandlers \<Rightarrow>
     (string \<times> string list \<times> float64 \<times> (string, CodecStats) gomap) http_reply" where
  "handleGetReliableCodecs parseFloat deviceID rate h = with_feedback deviceID h (\<lambda>fm.
     let low = (if rate \<noteq> [] then (case parseFloat rate of Some f \<Rightarrow> f | None \<Rightarrow> lit 8 10) else lit 8 10)
     in (deviceID, GetReliableCodecs deviceID low fm, low, ps_CodecStats (GetPlaybackStats deviceID fm)))"

definition handleReProbeDevice ::
  "bool \<Rightarrow> bool \<Rightarrow> time \<Rightarrow> string \<Rightarrow> DeviceHandlers \<Rightarrow>
     (string \<times> string \<times> string \<times> string \<times> string list \<times> string list) http_reply \<times> DeviceHandlers" where
  "handleReProbeDevice ok1 ok2 now deviceID h =
     (if deviceID = [] then (Refused 400 ''missing_device_id'' ''Device ID is required'', h)
      else let (cached, ca) = CC_Get ok1 now deviceID (dh_cache h)
           in case cached of
                None \<Rightarrow> (Refused 404 ''device_not_found'' ''Device not found in cache'', h\<lparr>dh_cache := ca\<rparr>)
              | Some caps \<Rightarrow>
                  (Replied (deviceID, Platform caps, Manufacturer caps, Model caps, VideoCodecs caps, AudioCodecs caps),
                   h\<lparr>dh_cache := CC_Delete ok2 deviceID ca,
                     feedbackManager := map_option (ResetTrustAdjustment deviceID) (feedbackManager h),
                     globalMetrics := RecordReProbe deviceID ''manual_trigger'' (globalMetrics h)\<rparr>))"

datatype metrics_reply =
    PrometheusText string
  | OneDevice string DevicePlaybackStats float64
  | AllDevices Export GlobalStats

definition handleGetFeedbackMetrics ::
  "(float64 \<Rightarrow> string) \<Rightarrow> string \<Rightarrow> string \<Rightarrow> DeviceHandlers \<Rightarrow> metrics_reply http_reply" where
  "handleGetFeedbackMetrics g deviceID fmt h =
     (case feedbackManager h of
        None \<Rightarrow> Refused 503 ''feedback_not_enabled'' ''Playback feedback is not enabled''
      | Some fm \<Rightarrow>
          Replied (if fmt = ''prometheus'' then PrometheusText (ExportPrometheusFormat g (globalMetrics h))
            else if deviceID \<noteq> [] then OneDevice deviceID (GetPlaybackStats deviceID fm) (GetTrustAdjustment deviceID fm)
            else AllDevices (ExportMetrics (globalMetrics h)) (GetGlobalStats fm)))"

record DeviceTrustReport =
  tr_device_id :: string
  tr_effective_trust :: float64
  tr_trust_level :: string
  tr_feedback_adjustment :: float64
  tr_needs_reprobe :: bool
  tr_reprobe_reason :: string
  tr_reliable_codecs :: "string list"
  tr_playback_stats :: DevicePlaybackStats

definition handleGetTrustReport :: "string \<Rightarrow> DeviceHandlers \<Rightarrow> DeviceTrustReport http_reply" where
  "handleGetTrustReport deviceID h = with_feedback deviceID h (\<lambda>fm.
     let st = GetPlaybackStats deviceID fm; adjustment = GetTrustAdjustment deviceID fm;
         level = (if adjustment \<ge> lit 8 10 then ''very_high'' else if adjustment \<ge> lit 7 10 then ''high''
                  else if adjustment \<ge> lit 5 10 then ''medium'' else ''low'')
     in \<lparr>tr_device_id = deviceID, tr_effective_trust = adjustment, tr_trust_level = level,
         tr_feedback_adjustment = adjustment, tr_needs_reprobe = NeedsReProbe st, tr_reprobe_reason = ReProbeReason st,
         tr_reliable_codecs = GetReliableCodecs deviceID (lit 8 10) fm, tr_playback_stats = st\<rparr>)"

section \<open>What the cache answers after a handler\<close>

lemma memory_TTL_Get [simp]: "memoryTTL (snd (CC_Get ok now d c)) = memoryTTL c"
  using config_eqD [of "snd (CC_Get ok now d c)" c] by (simp add: CC_Get_def)

lemma db_after_Get:
  "uses_db (snd (CC_Get ok now d c)) = uses_db c" "db (snd (CC_Get ok now d c)) = db c"
  using config_eqD [of "snd (CC_Get ok now d c)" c] by (simp_all add: CC_Get_def)

lemma stored_is_read:
  assumes "d \<noteq> []" "t \<le> now + memoryTTL c"
  shows "fst (CC_Get ok' t d (snd (CC_Set ok now d (Some cap) src c))) = Some cap"
  using assms
  by (simp add: CC_Set_def CC_Get_def GetWithContext_def Let_def saveToSQLite_def gget_gput isExpired_def After_def Add_def)

lemma deleted_is_not_read:
  assumes "uses_db c \<longrightarrow> exec_ok ok c"
  shows "fst (CC_Get ok' t d (CC_Delete ok d c)) = None"
  using assms
  by (auto simp: CC_Delete_def CC_Get_def GetWithContext_def getFromSQLiteWithContext_def Let_def gget_gdel uses_db_def
    exec_ok_def)

text \<open>
  C18. A probe report replaces what the cache holds of its device whether or not the capabilities are valid: an invalid
  report is answered with its errors, and from then on, until the entry expires, the device has the reported
  capabilities, the trust score that the report claims for itself included.
\<close>

theorem invalid_report_is_stored:
  assumes "pq_Capabilities req = Some c" "DeviceID c \<noteq> []" "t \<le> now + memoryTTL (dh_cache h)"
  shows "\<exists>resp h'. handleProbeReport view showd rfc3339 ok1 ok2 now (Some req) h = (Replied resp, h')
    \<and> pq_Validation resp = fst (ValidateCapabilities view showd now
          (Some (if Timestamp c = [] then c\<lparr>Timestamp := rfc3339 now\<rparr> else c)) (dh_validator h))
    \<and> pq_Success resp = IsValid (pq_Validation resp)
    \<and> fst (CC_Get ok t (DeviceID c) (dh_cache h')) = Some (if Timestamp c = [] then c\<lparr>Timestamp := rfc3339 now\<rparr> else c)"
proof -
  define c' where "c' = (if Timestamp c = [] then c\<lparr>Timestamp := rfc3339 now\<rparr> else c)"
  define v where "v = fst (ValidateCapabilities view showd now (Some c') (dh_validator h))"
  let ?ca = "snd (CC_Get ok1 now (DeviceID c') (dh_cache h))"
  have id: "DeviceID c' = DeviceID c" by (simp add: c'_def)
  have "\<exists>resp h'. handleProbeReport view showd rfc3339 ok1 ok2 now (Some req) h = (Replied resp, h')
      \<and> pq_Validation resp = v \<and> pq_Success resp = IsValid v
      \<and> dh_cache h' = snd (CC_Set ok2 now (DeviceID c') (Some c') (if pq_Source req = [] then ''probe'' else pq_Source req) ?ca)"
    unfolding handleProbeReport_def option.case assms(1) Let_def case_prod_beta c'_def [symmetric] v_def [symmetric]
    by (simp del: memory_TTL_Get split del: if_split)
  moreover have "fst (CC_Get ok t (DeviceID c') (snd (CC_Set ok2 now (DeviceID c') (Some c') src ?ca))) = Some c'" for src
    using assms(2,3) by (intro stored_is_read) (simp_all add: id)
  ultimately show ?thesis
    unfolding c'_def [symmetric] v_def [symmetric] id [symmetric] by metis
qed

lemma trust_reset: "GetTrustAdjustment d (ResetTrustAdjustment d fm) = 0"
  by (auto simp: ResetTrustAdjustment_def update_stats_of_def GetTrustAdjustment_def gget_gput split: option.split)

definition empty_cache :: CapabilityCache where
  "empty_cache = \<lparr>memoryCache = [], db = NoDB, rows = [], memoryTTL = Hour, sqliteTTL = Hour, enableSQLite = False,
     maxMemoryItems = 10, stats = \<lparr>Hits = 0, Misses = 0, MemorySize = 0, SQLiteSize = 0, Evictions = 0\<rparr>\<rparr>"

definition fresh_handlers :: DeviceHandlers where
  "fresh_handlers = SetFeedbackManager (Some NewFeedbackManager)
     (NewDeviceHandlers NewValidator empty_cache NewCuratedDatabase NewPlaybackMetrics)"

text \<open>A report without a single codec that claims full trust.\<close>

definition boasting :: ProbeReportRequest where
  "boasting = \<lparr>pq_Capabilities = Some (zeroCapabilities\<lparr>DeviceID := ''tv'', Timestamp := ''now'', dc_TrustScore := 1\<rparr>),
     pq_Source = [], pq_Version = []\<rparr>"

theorem invalid_report_is_stored_witness:
  "\<exists>resp h'. handleProbeReport (\<lambda>a b. a) (\<lambda>d. []) (\<lambda>t. []) True True 0 (Some boasting) fresh_handlers = (Replied resp, h')
    \<and> map_option dc_TrustScore (fst (CC_Get True Second ''tv'' (dh_cache h'))) = Some 1"
proof -
  let ?c = "zeroCapabilities\<lparr>DeviceID := ''tv'', Timestamp := ''now'', dc_TrustScore := 1\<rparr>"
  have "pq_Capabilities boasting = Some ?c" "DeviceID ?c \<noteq> []" "Second \<le> 0 + memoryTTL (dh_cache fresh_handlers)"
    by (simp_all add: boasting_def fresh_handlers_def SetFeedbackManager_def NewDeviceHandlers_def empty_cache_def)
  from invalid_report_is_stored [OF this, of "\<lambda>a b. a" "\<lambda>d. []" "\<lambda>t. []" True True True]
  show ?thesis by fastforce
qed

text \<open>
  After a successful request to probe a device again the cache does not know the device, at no time and whatever SQL
  answers, and its trust adjustment is zero, provided the statement that deletes the row did not fail.
\<close>

theorem reprobe_forgets_device:
  assumes "handleReProbeDevice ok1 ok2 now d h = (Replied r, h')"
    "uses_db (dh_cache h) \<longrightarrow> exec_ok ok2 (dh_cache h)"
  shows "fst (CC_Get ok t d (dh_cache h')) = None
    \<and> (case feedbackManager h' of None \<Rightarrow> True | Some fm \<Rightarrow> GetTrustAdjustment d fm = 0)"
proof -
  obtain cached ca where g: "CC_Get ok1 now d (dh_cache h) = (cached, ca)" by fastforce
  then have "uses_db ca = uses_db (dh_cache h)" "db ca = db (dh_cache h)"
    using db_after_Get [of ok1 now d "dh_cache h"] by simp_all
  then have ca: "uses_db ca \<longrightarrow> exec_ok ok2 ca" using assms(2) by (simp add: exec_ok_def)
  have "dh_cache h' = CC_Delete ok2 d ca"
    "feedbackManager h' = map_option (ResetTrustAdjustment d) (feedbackManager h)"
    using assms(1) g by (auto simp: handleReProbeDevice_def Let_def split: if_splits option.splits)
  then show ?thesis
    using deleted_is_not_read [OF ca, of ok t d] trust_reset
    by (cases "feedbackManager h") simp_all
qed

theorem reprobe_forgets_device_witness:
  "\<exists>r h'. handleReProbeDevice True True 1 ''tv'' (fresh_handlers\<lparr>dh_cache := snd (CC_Set True 0 ''tv'' (Some zeroCapabilities) ''probe'' empty_cache)\<rparr>)
      = (Replied r, h')
    \<and> fst (CC_Get True 2 ''tv'' (dh_cache h')) = None \<and> (\<exists>fm. feedbackManager h' = Some fm \<and> GetTrustAdjustment ''tv'' fm = 0)"
proof -
  let ?h = "fresh_handlers\<lparr>dh_cache := snd (CC_Set True 0 ''tv'' (Some zeroCapabilities) ''probe'' empty_cache)\<rparr>"
  have f: "fst (CC_Get True 1 ''tv'' (dh_cache ?h)) = Some zeroCapabilities"
    using stored_is_read [of "''tv''" 1 0 empty_cache True True zeroCapabilities "''probe''"] by (simp add: empty_cache_def)
  then obtain r h' where e: "handleReProbeDevice True True 1 ''tv'' ?h = (Replied r, h')" and fm: "feedbackManager h' \<noteq> None"
    by (simp add: handleReProbeDevice_def case_prod_beta fresh_handlers_def SetFeedbackManager_def)
  have "uses_db (dh_cache ?h) \<longrightarrow> exec_ok True (dh_cache ?h)"
    by (simp add: uses_db_def CC_Set_def Let_def empty_cache_def evictOldest_def)
  from reprobe_forgets_device [OF e this, of True 2] e fm show ?thesis by fastforce
qed

section \<open>The search by codec\<close>

text \<open>
  C25. No device is ever found by a codec, whatever the cache holds: the pattern expects a space after the colon of
  \<^verbatim>\<open>"video_codecs"\<close>, and the encoder that writes the column puts none there.
\<close>

theorem codec_search_finds_nothing:
  assumes "\<forall>r. compact (column r)" "handleGetDevicesByCodec column ok now codecName h = Replied r"
  shows "r = (codecName, 0, [])"
  using assms by_codec_empty [OF assms(1), of ok now codecName "dh_cache h"]
  by (auto simp: handleGetDevicesByCodec_def Let_def split: if_splits)

lemma no_space_compact: "CHR '' '' \<notin> set s \<Longrightarrow> compact s"
  by (auto simp: compact_def)

lemma compact_example: "compact ''{\"device_id\":\"tv\",\"video_codecs\":[\"h264\"]}''"
  by (rule no_space_compact) simp

theorem codec_search_finds_nothing_witness:
  "handleGetDevicesByCodec (\<lambda>r. ''{\"device_id\":\"tv\",\"video_codecs\":[\"h264\"]}'') True 0 ''h264''
      (fresh_handlers\<lparr>dh_cache := empty_cache\<lparr>db := OpenDB, enableSQLite := True,
         rows := [(''tv'', \<lparr>capabilities = Some (zeroCapabilities\<lparr>VideoCodecs := [''h264'']\<rparr>), source = [], platform = [],
           created_at = 0, expires_at = 10, access_count = 0, last_accessed = 0\<rparr>)]\<rparr>\<rparr>) = Replied (''h264'', 0, [])"
proof -
  have "IsVideoCodec ''h264''" unfolding IsVideoCodec_def by code_simp
  then obtain r where r: "handleGetDevicesByCodec (\<lambda>r. ''{\"device_id\":\"tv\",\"video_codecs\":[\"h264\"]}'') True 0 ''h264''
      (fresh_handlers\<lparr>dh_cache := empty_cache\<lparr>db := OpenDB, enableSQLite := True,
         rows := [(''tv'', \<lparr>capabilities = Some (zeroCapabilities\<lparr>VideoCodecs := [''h264'']\<rparr>), source = [], platform = [],
           created_at = 0, expires_at = 10, access_count = 0, last_accessed = 0\<rparr>)]\<rparr>\<rparr>) = Replied r"
    by (simp add: handleGetDevicesByCodec_def Let_def)
  with codec_search_finds_nothing [OF _ r] show ?thesis by (simp add: compact_example)
qed

section \<open>The two sets of counters\<close>

definition submit :: "time \<times> string \<times> DevicePlaybackFeedbackRequest option \<Rightarrow> DeviceHandlers \<Rightarrow> DeviceHandlers" where
  "submit call h = (case call of (now, d, bd) \<Rightarrow> snd (snd (handlePlaybackFeedback now d bd h)))"

lemma updateStats_outcomes:
  "OutcomeCounts (updateStats now c f x st) =
     (let s = Outcome_String (Outcome f) in gput (OutcomeCounts st) s (getz 0 (OutcomeCounts st) s + 1))"
  by (simp add: updateStats_def Let_def count_global_def count_codec_def apply_delta_def)

lemma new_stats_outcomes:
  "OutcomeCounts (new_stats now f fm) =
     (let s = Outcome_String (Outcome f); old = OutcomeCounts (old_stats now (fb_DeviceID f) fm) in gput old s (getz 0 old s + 1))"
  by (simp add: new_stats_def Let_def updateStats_outcomes)

lemma metrics_after:
  "playbackTotal (RecordFeedbackLatency z m) = playbackTotal m" "playbackTotal (RecordTrustScore d s m) = playbackTotal m"
  "playbackTotal (RecordReProbe d q m) = playbackTotal m"
  "playbackTotal (RecordPlayback d x m) = incr2 d (Outcome_String x) (playbackTotal m)"
  by (simp_all add: RecordFeedbackLatency_def RecordTrustScore_def RecordReProbe_def RecordPlayback_def Let_def)

lemma recorded:
  "(if Outcome f = OutcomeSuccess then FM_RecordSuccess now f fm else FM_RecordFailure now f fm) = recordFeedback now f fm"
  by (cases f) (simp add: FM_RecordSuccess_def FM_RecordFailure_def)

text \<open>What an accepted report does to the state.\<close>

lemma submit_accepted:
  assumes "feedbackManager h = Some fm" "d \<noteq> []" "isValidDeviceID d" "f = feedback_of now d req"
    "\<not> (Outcome f = OutcomeUnknown \<and> df_Outcome req \<noteq> [] \<and> df_Outcome req \<noteq> ''unknown'')"
  shows "feedbackManager (submit (now, d, Some req) h) = Some (snd (recordFeedback now f fm))"
    "playbackTotal (globalMetrics (submit (now, d, Some req) h)) = incr2 d (Outcome_String (Outcome f)) (playbackTotal (globalMetrics h))"
proof -
  have x: "ParseOutcomeFromString (df_Outcome req) = Outcome f" by (simp add: assms(4) feedback_of_def)
  have e: "submit (now, d, Some req) h = h\<lparr>feedbackManager := Some (snd (recordFeedback now f fm)),
      globalMetrics := globalMetrics (submit (now, d, Some req) h)\<rparr>"
    "\<exists>m. globalMetrics (submit (now, d, Some req) h) = m
      \<and> playbackTotal m = incr2 d (Outcome_String (Outcome f)) (playbackTotal (globalMetrics h))"
    unfolding submit_def prod.case
    unfolding handlePlaybackFeedback_def assms(1) option.case Let_def x if_not_P [OF assms(2)]
      if_not_P [OF assms(5)] assms(4) [symmetric] recorded case_prod_beta
    using assms(3) by (simp_all add: metrics_after)
  show "feedbackManager (submit (now, d, Some req) h) = Some (snd (recordFeedback now f fm))"
    by (subst e(1)) simp
  show "playbackTotal (globalMetrics (submit (now, d, Some req) h)) = incr2 d (Outcome_String (Outcome f)) (playbackTotal (globalMetrics h))"
    using e(2) by simp
qed

lemma submit_cases:
  obtains "submit (now, d, bd) h = h"
  | f fm where "feedbackManager h = Some fm" "fb_DeviceID f = d"
    "feedbackManager (submit (now, d, bd) h) = Some (snd (recordFeedback now f fm))"
    "playbackTotal (globalMetrics (submit (now, d, bd) h)) = incr2 d (Outcome_String (Outcome f)) (playbackTotal (globalMetrics h))"
proof (cases "submit (now, d, bd) h = h")
  case False
  then obtain fm req where fm: "feedbackManager h = Some fm" and req: "bd = Some req"
    and ok: "d \<noteq> []" "isValidDeviceID d" "\<not> (ParseOutcomeFromString (df_Outcome req) = OutcomeUnknown
        \<and> df_Outcome req \<noteq> [] \<and> df_Outcome req \<noteq> ''unknown'')"
    by (auto simp: submit_def handlePlaybackFeedback_def Let_def split: if_splits option.splits)
  define f where "f = feedback_of now d req"
  then have "\<not> (Outcome f = OutcomeUnknown \<and> df_Outcome req \<noteq> [] \<and> df_Outcome req \<noteq> ''unknown'')" "fb_DeviceID f = d"
    using ok(3) by (simp_all add: feedback_of_def)
  with submit_accepted [OF fm ok(1,2) f_def] show ?thesis
    using that(2) [OF fm] req by blast
qed (rule that(1))

text \<open>Each outcome is counted once on both sides, as long as the 64-bit counters do not wrap.\<close>

definition agree :: "int \<Rightarrow> DeviceHandlers \<Rightarrow> bool" where
  "agree n h \<longleftrightarrow> (\<exists>fm. feedbackManager h = Some fm
     \<and> (\<forall>d. gget (events fm) d = None \<longleftrightarrow> gget (fm_stats fm) d = None)
     \<and> (\<forall>d k. getz 0 (OutcomeCounts (GetPlaybackStats d fm)) k = getz 0 (getz [] (playbackTotal (globalMetrics h)) d) k
         \<and> 0 \<le> getz 0 (OutcomeCounts (GetPlaybackStats d fm)) k \<and> getz 0 (OutcomeCounts (GetPlaybackStats d fm)) k \<le> n))"

lemma agreeD:
  assumes "agree n h" "feedbackManager h = Some fm"
  shows "gget (events fm) d = None \<longleftrightarrow> gget (fm_stats fm) d = None"
    "getz 0 (getz [] (playbackTotal (globalMetrics h)) d) k = getz 0 (OutcomeCounts (GetPlaybackStats d fm)) k"
    "0 \<le> getz 0 (OutcomeCounts (GetPlaybackStats d fm)) k \<and> getz 0 (OutcomeCounts (GetPlaybackStats d fm)) k \<le> n"
proof -
  have "(\<forall>d. gget (events fm) d = None \<longleftrightarrow> gget (fm_stats fm) d = None)
     \<and> (\<forall>d k. getz 0 (OutcomeCounts (GetPlaybackStats d fm)) k = getz 0 (getz [] (playbackTotal (globalMetrics h)) d) k
         \<and> 0 \<le> getz 0 (OutcomeCounts (GetPlaybackStats d fm)) k \<and> getz 0 (OutcomeCounts (GetPlaybackStats d fm)) k \<le> n)"
    using assms unfolding agree_def by (metis option.inject)
  then show "gget (events fm) d = None \<longleftrightarrow> gget (fm_stats fm) d = None"
    "getz 0 (getz [] (playbackTotal (globalMetrics h)) d) k = getz 0 (OutcomeCounts (GetPlaybackStats d fm)) k"
    "0 \<le> getz 0 (OutcomeCounts (GetPlaybackStats d fm)) k \<and> getz 0 (OutcomeCounts (GetPlaybackStats d fm)) k \<le> n"
    by metis+
qed

lemma agreeI:
  assumes "feedbackManager h = Some fm" "\<And>d. gget (events fm) d = None \<longleftrightarrow> gget (fm_stats fm) d = None"
    "\<And>d k. getz 0 (OutcomeCounts (GetPlaybackStats d fm)) k = getz 0 (getz [] (playbackTotal (globalMetrics h)) d) k"
    "\<And>d k. 0 \<le> getz 0 (OutcomeCounts (GetPlaybackStats d fm)) k \<and> getz 0 (OutcomeCounts (GetPlaybackStats d fm)) k \<le> n"
  shows "agree n h"
  unfolding agree_def using assms by blast

lemma agree_mono: "agree n h \<Longrightarrow> agree (n + 1) h"
  unfolding agree_def by (elim exE conjE, intro exI conjI, assumption+) (meson add_increasing2 zero_le_one)

lemma old_is_read:
  "(\<And>d. gget (events fm) d = None \<longleftrightarrow> gget (fm_stats fm) d = None) \<Longrightarrow>
     OutcomeCounts (old_stats now d fm) = OutcomeCounts (GetPlaybackStats d fm)"
  by (auto simp: old_stats_def GetPlaybackStats_def getz_def newStats_def split: option.split)

lemma record_sync:
  "(\<And>d. gget (events fm) d = None \<longleftrightarrow> gget (fm_stats fm) d = None) \<Longrightarrow>
     gget (events (snd (recordFeedback now f fm))) d = None \<longleftrightarrow> gget (fm_stats (snd (recordFeedback now f fm))) d = None"
  by (auto simp: recordFeedback_def Let_def gget_gput)

lemma agree_submit:
  assumes "agree n h" "n < 2 ^ 63 - 1" "0 \<le> n"
  shows "agree (n + 1) (submit call h)"
proof (cases call)
  case (fields now d bd)
  show ?thesis
  proof (cases rule: submit_cases [of now d bd h])
    case 1
    then show ?thesis unfolding fields by (simp only: agree_mono [OF assms(1)])
  next
    case (2 f fm)
    let ?x = "Outcome_String (Outcome f)" and ?fm = "snd (recordFeedback now f fm)"
      and ?o = "\<lambda>j. OutcomeCounts (GetPlaybackStats j fm)" and ?t = "playbackTotal (globalMetrics h)"
    have sync: "\<And>d. gget (events fm) d = None \<longleftrightarrow> gget (fm_stats fm) d = None"
      and c: "\<And>j k. getz 0 (getz [] ?t j) k = getz 0 (?o j) k"
      and b: "\<And>j k. 0 \<le> getz 0 (?o j) k \<and> getz 0 (?o j) k \<le> n"
      using agreeD [OF assms(1) 2(1)] by blast+
    have "OutcomeCounts (GetPlaybackStats d ?fm) = gput (?o d) ?x (getz 0 (?o d) ?x + 1)"
      using 2(2) old_is_read [OF sync, of now d] by (simp add: GetPlaybackStats_def [of _ ?fm] getz_def [of "newStats _ _"]
        recordFeedback_parts(3) new_stats_outcomes Let_def)
    moreover have "j \<noteq> d \<Longrightarrow> OutcomeCounts (GetPlaybackStats j ?fm) = ?o j" for j
      using 2(2) by (simp add: GetPlaybackStats_def getz_def [of "newStats _ _"] recordFeedback_parts(3))
    ultimately have new: "getz 0 (OutcomeCounts (GetPlaybackStats j ?fm)) k
        = getz 0 (?o j) k + (if j = d \<and> k = ?x then 1 else 0)" for j k
      by (cases "j = d") (simp_all add: getz_gput)
    have "i64 (getz 0 (?o d) ?x + 1) = getz 0 (?o d) ?x + 1"
      using assms(2) b [of d ?x] by (intro i64_id) linarith+
    then have "getz 0 (getz [] (incr2 d ?x ?t) j) k = getz 0 (OutcomeCounts (GetPlaybackStats j ?fm)) k" for j k
      unfolding new by (simp add: incr2_def incr_def getz_gput c)
    moreover have "0 \<le> getz 0 (OutcomeCounts (GetPlaybackStats j ?fm)) k \<and> getz 0 (OutcomeCounts (GetPlaybackStats j ?fm)) k \<le> n + 1" for j k
      unfolding new using b [of j k] by auto
    ultimately show ?thesis
      unfolding fields by (intro agreeI [OF 2(3)] record_sync [OF sync]) (simp_all only: 2(4))
  qed
qed

lemma agree_run:
  "agree n h \<Longrightarrow> 0 \<le> n \<Longrightarrow> n + int (length calls) < 2 ^ 63 \<Longrightarrow> agree (n + int (length calls)) (fold submit calls h)"
proof (induction calls arbitrary: n h)
  case (Cons x calls)
  have "agree (n + 1) (submit x h)" using Cons.prems by (intro agree_submit) auto
  from Cons.IH [OF this] show ?case using Cons.prems by (simp add: algebra_simps)
qed simp

text \<open>
  After any sequence of feedback reports, refused ones among them, the manager and the exported metrics have counted
  the same outcomes for every device.
\<close>

theorem feedback_counts_agree:
  assumes "int (length calls) < 2 ^ 63" "feedbackManager h = Some NewFeedbackManager" "globalMetrics h = NewPlaybackMetrics"
  shows "\<exists>fm. feedbackManager (fold submit calls h) = Some fm \<and>
    (\<forall>d k. getz 0 (OutcomeCounts (GetPlaybackStats d fm)) k
         = getz 0 (getz [] (playbackTotal (globalMetrics (fold submit calls h))) d) k)"
proof -
  have "agree 0 h"
    using assms(2,3) by (simp add: agree_def NewFeedbackManager_def NewPlaybackMetrics_def GetPlaybackStats_def newStats_def getz_def gget_def)
  from agree_run [OF this, of calls] show ?thesis using assms(1) by (auto simp: agree_def)
qed

definition sample_report :: "string \<Rightarrow> DevicePlaybackFeedbackRequest" where
  "sample_report x = \<lparr>df_MediaID = [], df_Outcome = x, df_ErrorCode = [], df_ErrorMessage = [], df_Duration = 0,
     df_BufferDuration = 0, df_NetworkQuality = [], df_VideoCodec = ''h264'', df_AudioCodec = [], df_Container = [],
     df_Resolution = [], df_Bitrate = 0\<rparr>"

theorem feedback_counts_agree_witness:
  "\<exists>fm. feedbackManager (fold submit [(0, ''tv'', Some (sample_report ''timeout'')), (1, ''??'', None)] fresh_handlers) = Some fm \<and>
    (\<forall>d k. getz 0 (OutcomeCounts (GetPlaybackStats d fm)) k = getz 0 (getz [] (playbackTotal (globalMetrics
        (fold submit [(0, ''tv'', Some (sample_report ''timeout'')), (1, ''??'', None)] fresh_handlers))) d) k)"
  by (rule feedback_counts_agree)
    (simp_all add: fresh_handlers_def SetFeedbackManager_def NewDeviceHandlers_def)

text \<open>A refused report, of a probe or of a playback, changes nothing.\<close>

theorem refused_reports_change_nothing:
  "(case handleProbeReport view showd rfc3339 ok1 ok2 now bd h of (Refused st e m, h') \<Rightarrow> h' = h | _ \<Rightarrow> True) \<and>
   (case handlePlaybackFeedback now d fbd h of (Refused st e m, ns, h') \<Rightarrow> h' = h \<and> ns = [] | _ \<Rightarrow> True)"
proof
  show "case handleProbeReport view showd rfc3339 ok1 ok2 now bd h of (Refused st e m, h') \<Rightarrow> h' = h | _ \<Rightarrow> True"
    unfolding handleProbeReport_def Let_def case_prod_beta by (simp add: bad_body_def split: option.split)
  show "case handlePlaybackFeedback now d fbd h of (Refused st e m, ns, h') \<Rightarrow> h' = h \<and> ns = [] | _ \<Rightarrow> True"
    unfolding handlePlaybackFeedback_def Let_def case_prod_beta by (simp add: bad_body_def split: option.split)
qed

end
