(* ===== verification/Fuzzy.thy ===== *)
theory Fuzzy
  imports Curated Float64
begin

text \<open>
  Fuzzy matching of device names against the curated database, \<^verbatim>\<open>internal/probes/curated_fuzzy.go\<close>. Texts are ASCII.
  Each regular expression is a function that tries it at the front of a text and gives the length of the match and its
  first group; with greedy, leftmost-first matching none of them ever has to give back a character it took. The library
  \<^verbatim>\<open>sahilm/fuzzy\<close> is the argument \<open>fuzzyFind\<close> (index and score of each match, best first), and the order in which Go
  visits the map of abbreviations is the argument \<open>abbrs\<close>. Go's sort leaves the order of equals open; here they keep theirs.
\<close>

section \<open>Regular expressions\<close>

type_synonym matcher = "string \<Rightarrow> (nat \<times> string) option"

fun find_match :: "matcher \<Rightarrow> string \<Rightarrow> string option" where
  "find_match m [] = None"
| "find_match m (c # s) = (case m (c # s) of Some (_, g) \<Rightarrow> Some g | None \<Rightarrow> find_match m s)"

text \<open>\<^verbatim>\<open>ReplaceAllString\<close>: no pattern here matches the empty text.\<close>

function replace_all :: "matcher \<Rightarrow> string \<Rightarrow> string \<Rightarrow> string" where
  "replace_all m rep [] = []"
| "replace_all m rep (c # s) =
     (case m (c # s) of
        Some (n, _) \<Rightarrow> rep @ replace_all m rep (drop (max 1 n) (c # s))
      | None \<Rightarrow> c # replace_all m rep s)"
  by pat_completeness auto
termination by (relation "measure (\<lambda>(m, rep, s). length s)") auto

definition blank_char :: "char \<Rightarrow> bool" where
  "blank_char c \<longleftrightarrow> c \<in> {CHR '' '', CHR 0x09, CHR 0x0A, CHR 0x0C, CHR 0x0D}"

definition letter :: "char \<Rightarrow> bool" where
  "letter c \<longleftrightarrow> (let n = of_char c :: nat in (65 \<le> n \<and> n \<le> 90) \<or> (97 \<le> n \<and> n \<le> 122))"

definition run_of :: "(char \<Rightarrow> bool) \<Rightarrow> matcher" where
  "run_of p s = (case takeWhile p s of [] \<Rightarrow> None | g \<Rightarrow> Some (length g, []))"

definition is_year :: "string \<Rightarrow> bool" where
  "is_year s \<longleftrightarrow> (HasPrefix s ''19'' \<or> HasPrefix s ''20'') \<and> length s \<ge> 4 \<and> is_digit (s ! 2) \<and> is_digit (s ! 3)"

definition yearPattern1 :: matcher where
  "yearPattern1 s =
     (let s1 = (case s of [] \<Rightarrow> [] | c # t \<Rightarrow> if c = CHR ''('' then t else s);
          s2 = dropWhile blank_char s1
      in if is_year s2
         then let s3 = dropWhile blank_char (drop 4 s2);
                  s4 = (case s3 of [] \<Rightarrow> [] | c # t \<Rightarrow> if c = CHR '')'' then t else s3)
              in Some (length s - length s4, take 4 s2)
         else None)"

text \<open>A word in either case, then what leads to a year.\<close>

definition after_word :: "(string \<Rightarrow> string) \<Rightarrow> string list \<Rightarrow> matcher" where
  "after_word gap ws s =
     (case List.find (\<lambda>w. HasPrefix (ToLower s) w \<and> is_year (gap (drop (length w) s))) ws of
        None \<Rightarrow> None
      | Some w \<Rightarrow> let r = gap (drop (length w) s) in Some (length s - length r + 4, take 4 r))"

definition dash_gap :: "string \<Rightarrow> string" where
  "dash_gap s = (let s1 = dropWhile blank_char s;
                     s2 = (case s1 of [] \<Rightarrow> [] | c # t \<Rightarrow> if c = CHR ''-'' \<or> c = CHR ''_'' then t else s1)
                 in dropWhile blank_char s2)"

definition yearPattern2 :: matcher where
  "yearPattern2 = after_word dash_gap [''model'', ''series'', ''gen'', ''generation'']"

definition yearPattern3 :: matcher where
  "yearPattern3 = after_word (dropWhile blank_char) [''early'', ''late'']"

definition variantPattern :: matcher where
  "variantPattern s =
     (let ls = takeWhile letter s; r = dropWhile letter s; ds = takeWhile is_digit r; k = min 3 (length ds);
          opt = (case drop k r of [] \<Rightarrow> [] | c # _ \<Rightarrow> if letter c then [c] else []);
          g = ls @ take k r @ opt
      in if 1 \<le> length ls \<and> length ls \<le> 3 \<and> 2 \<le> length ds then Some (length g, g) else None)"

definition numericSuffixPattern :: matcher where
  "numericSuffixPattern s =
     (let ds = takeWhile is_digit s; r = dropWhile is_digit s;
          r1 = (case r of [] \<Rightarrow> [] | c # t \<Rightarrow> if c = CHR 0x22 then t else r)
      in if 2 \<le> length ds \<and> length ds \<le> 4 \<and> list_all blank_char r1 then Some (length s, ds) else None)"

section \<open>Names\<close>

definition NormalizeDeviceName :: "string \<Rightarrow> string" where
  "NormalizeDeviceName name =
     TrimSpace (replace_all (run_of blank_char) '' ''
       (replace_all (run_of (\<lambda>c. c = CHR ''-'' \<or> c = CHR ''_'')) '' '' (ToLower name)))"

definition ExtractDeviceComponents :: "string \<Rightarrow> string \<times> string \<times> string" where
  "ExtractDeviceComponents name =
     (let year = (case List.map_filter (\<lambda>p. find_match p name) [yearPattern1, yearPattern2, yearPattern3] of
                    [] \<Rightarrow> [] | y # _ \<Rightarrow> y);
          variant = (case find_match variantPattern name of None \<Rightarrow> [] | Some v \<Rightarrow> ToUpper v);
          b1 = replace_all yearPattern1 [] name;
          b2 = replace_all variantPattern [] b1;
          b3 = replace_all numericSuffixPattern [] b2
      in (TrimSpace (replace_all (run_of blank_char) '' '' b3), year, variant))"

definition manufacturerAbbreviations :: "(string, string) gomap" where
  "manufacturerAbbreviations =
     [(''ss'', ''samsung''), (''sm'', ''samsung''), (''lg'', ''lg''), (''sony'', ''sony''), (''son'', ''sony''),
      (''vizio'', ''vizio''), (''viz'', ''vizio''), (''tcl'', ''tcl''), (''hisense'', ''hisense''), (''his'', ''hisense''),
      (''philips'', ''philips''), (''panasonic'', ''panasonic''), (''pan'', ''panasonic''), (''sharp'', ''sharp''),
      (''shp'', ''sharp''), (''toshiba'', ''toshiba''), (''tos'', ''toshiba''), (''roku'', ''roku''),
      (''atv'', ''android tv''), (''androidtv'', ''android tv'')]"

definition extractManufacturer :: "(string, string) gomap \<Rightarrow> string \<Rightarrow> string" where
  "extractManufacturer abbrs name =
     (let n = NormalizeDeviceName name
      in case List.find (Contains n) [''samsung'', ''lg'', ''sony'', ''vizio'', ''tcl'', ''hisense'', ''philips'',
             ''panasonic'', ''sharp'', ''toshiba'', ''roku'', ''insignia'', ''onida'', ''sanyo'', ''element'', ''westinghouse''] of
           Some mfr \<Rightarrow> mfr
         | None \<Rightarrow> (case List.find (\<lambda>(abbr, _). Contains n abbr) abbrs of Some (_, full) \<Rightarrow> full | None \<Rightarrow> []))"

section \<open>Similarity\<close>

fun bigrams :: "string \<Rightarrow> string list" where
  "bigrams (a # b # s) = [a, b] # bigrams (b # s)"
| "bigrams s = []"

definition tally :: "string list \<Rightarrow> (string, int) gomap" where
  "tally bs = fold (\<lambda>b m. gput m b ((case gget m b of None \<Rightarrow> 0 | Some n \<Rightarrow> n) + 1)) bs []"

definition calculateStringSimilarity :: "string \<Rightarrow> string \<Rightarrow> float64" where
  "calculateStringSimilarity a b =
     (if a = [] \<or> b = [] then 0
      else let A = tally (bigrams a); B = tally (bigrams b);
               common = (\<Sum>(bg, n)\<leftarrow>A. case gget B bg of None \<Rightarrow> 0 | Some c \<Rightarrow> min n c)
           in if length A + length B = 0 then 0
              else fdiv (fmul 2 (ffromint common)) (ffromint (int (length A + length B))))"

section \<open>Matching\<close>

record FuzzyMatchResult =
  fz_Device :: CuratedDevice
  fz_Score :: float64
  MatchedOn :: "string list"
  MatchType :: string
  YearDetected :: string

record VersionMatchResult =
  Original :: string
  BestMatch :: "CuratedDevice option"
  AllMatches :: "FuzzyMatchResult list"
  BaseModel :: string
  vm_Year :: string
  Variant :: string
  Confidence :: string

type_synonym fuzzy_find = "string \<Rightarrow> string list \<Rightarrow> (nat \<times> int) list"

text \<open>A score and the fields it comes from, in the order they are added.\<close>

definition award :: "bool \<Rightarrow> float64 \<Rightarrow> string \<Rightarrow> float64 \<times> string list \<Rightarrow> float64 \<times> string list" where
  "award b x field sf = (if b then (fadd (fst sf) x, snd sf @ [field]) else sf)"

definition variant_award :: "string \<Rightarrow> string \<Rightarrow> float64 \<times> string list \<Rightarrow> float64 \<times> string list" where
  "variant_award inputVariant deviceVariant sf =
     (if inputVariant = [] \<or> deviceVariant = [] then sf
      else if inputVariant = deviceVariant then award True 25 ''variant'' sf
      else award (HasPrefix inputVariant deviceVariant \<or> HasPrefix deviceVariant inputVariant) 15 ''variant_prefix'' sf)"

definition year_award :: "string \<Rightarrow> string \<Rightarrow> string \<Rightarrow> string \<Rightarrow> float64 \<times> string list \<Rightarrow> float64 \<times> string list" where
  "year_award inputYear deviceYear deviceBase normalizedBase sf =
     (if inputYear = [] then sf
      else if deviceYear \<noteq> []
           then (if inputYear = deviceYear then award True 20 ''year'' sf else award True 10 ''year_approx'' sf)
      else award (deviceBase = normalizedBase) 5 ''base_model_only'' sf)"

definition fuzzy_award :: "fuzzy_find \<Rightarrow> string \<Rightarrow> string \<Rightarrow> string \<Rightarrow> float64 \<times> string list \<Rightarrow> float64 \<times> string list" where
  "fuzzy_award fuzzyFind input name ch sf =
     (case fuzzyFind input [ch] of
        [] \<Rightarrow> sf
      | (_, sc) # _ \<Rightarrow>
          if sc > 0
          then let x = fdiv (ffromint sc) (ffromint (int (length name + length input)));
                   s = fadd (fst sf) (fmul x 15)
               in (s, if x > lit 1 2 then snd sf @ [''fuzzy''] else snd sf)
          else sf)"

definition calculateVersionMatch ::
  "fuzzy_find \<Rightarrow> (string, string) gomap \<Rightarrow> string \<Rightarrow> CuratedDevice \<Rightarrow> string \<Rightarrow> string \<Rightarrow> string \<Rightarrow> string \<Rightarrow>
     float64 \<times> string \<times> string list" where
  "calculateVersionMatch fuzzyFind abbrs input d normalizedInput normalizedBase inputYear inputVariant =
     (let name = NormalizeDeviceName (cd_Name d); model = NormalizeDeviceName (cd_Model d);
          mfr = ToLower (cd_Manufacturer d);
          (deviceBase, deviceYear, deviceVariant) = ExtractDeviceComponents (cd_Name d);
          s1 = award (Contains mfr (extractManufacturer abbrs input) \<or> Contains (ToLower input) mfr) 20 ''manufacturer'' (0, []);
          sim = calculateStringSimilarity normalizedBase model;
          s2 = award (sim > lit 7 10) (fmul sim 30) ''model_similarity'' s1;
          s3 = variant_award inputVariant deviceVariant s2;
          s4 = year_award inputYear deviceYear deviceBase normalizedBase s3;
          s5 = fuzzy_award fuzzyFind normalizedInput name name s4;
          s6 = fuzzy_award fuzzyFind normalizedInput name model s5;
          score = (if fst s6 > 100 then 100 else fst s6);
          kind = (if score \<ge> 80 then ''version'' else if score \<ge> 50 then ''fuzzy''
                  else if score \<ge> 30 then ''partial'' else ''fuzzy'')
      in (score, kind, snd s6))"

definition match_one ::
  "fuzzy_find \<Rightarrow> (string, string) gomap \<Rightarrow> string \<Rightarrow> CuratedDevice \<Rightarrow> FuzzyMatchResult option" where
  "match_one fuzzyFind abbrs deviceName d =
     (let normalized = NormalizeDeviceName deviceName;
          (baseModel, year, variant) = ExtractDeviceComponents deviceName;
          normalizedBase = NormalizeDeviceName baseModel;
          name = NormalizeDeviceName (cd_Name d); model = NormalizeDeviceName (cd_Model d);
          (score, kind, fields) =
            (if name = normalized then (100, ''exact'', [''name''])
             else if model = normalized then (95, ''exact'', [''model''])
             else if normalizedBase = model \<or> normalizedBase = name then (90, ''exact'', [''base_model''])
             else calculateVersionMatch fuzzyFind abbrs deviceName d normalized normalizedBase year variant)
      in if score > 0
         then Some \<lparr>fz_Device = d, fz_Score = (if score > 100 then 100 else score), MatchedOn = fields, MatchType = kind,
                YearDetected = year\<rparr>
         else None)"

definition match_rank :: "FuzzyMatchResult \<Rightarrow> float64" where
  "match_rank r = - (if Verified (fz_Device r) then fadd (fz_Score r) 1 else fz_Score r)"

definition candidates :: "string \<Rightarrow> CuratedDatabase \<Rightarrow> CuratedDevice list" where
  "candidates pform db =
     (if pform \<noteq> [] then List.map_filter (gget (devices db)) (ids (platformIndex db) (ToLower pform))
      else map snd (devices db))"

definition MatchDevice ::
  "fuzzy_find \<Rightarrow> (string, string) gomap \<Rightarrow> string \<Rightarrow> string \<Rightarrow> int \<Rightarrow> CuratedDatabase \<Rightarrow> FuzzyMatchResult list" where
  "MatchDevice fuzzyFind abbrs deviceName pform limit db =
     (let n = (if limit \<le> 0 then 10 else limit);
          results = sort_key match_rank (List.map_filter (match_one fuzzyFind abbrs deviceName) (candidates pform db))
      in if int (length results) > n then take (nat n) results else results)"

definition FindBestMatch ::
  "fuzzy_find \<Rightarrow> (string, string) gomap \<Rightarrow> string \<Rightarrow> string \<Rightarrow> CuratedDatabase \<Rightarrow> CuratedDevice option \<times> string" where
  "FindBestMatch fuzzyFind abbrs deviceName pform db =
     (case MatchDevice fuzzyFind abbrs deviceName pform 1 db of
        [] \<Rightarrow> (None, ''none'')
      | r # _ \<Rightarrow>
          if fz_Score r \<ge> 50
          then (Some (fz_Device r), if fz_Score r \<ge> 80 then ''high'' else if fz_Score r \<ge> 60 then ''medium'' else ''low'')
          else (None, ''none''))"

definition VersionAwareMatch ::
  "fuzzy_find \<Rightarrow> (string, string) gomap \<Rightarrow> string \<Rightarrow> string \<Rightarrow> CuratedDatabase \<Rightarrow> VersionMatchResult" where
  "VersionAwareMatch fuzzyFind abbrs deviceName pform db =
     (let ms = MatchDevice fuzzyFind abbrs deviceName pform 5 db;
          (baseModel, year, variant) = ExtractDeviceComponents deviceName;
          r = \<lparr>Original = deviceName, BestMatch = None, AllMatches = ms, BaseModel = baseModel, vm_Year = year,
               Variant = variant, Confidence = ''none''\<rparr>
      in case ms of
           [] \<Rightarrow> r
         | m # _ \<Rightarrow> r\<lparr>BestMatch := Some (fz_Device m),
             Confidence := (if fz_Score m \<ge> 80 then ''high'' else if fz_Score m \<ge> 60 then ''medium''
                            else if fz_Score m \<ge> 40 then ''low'' else ''none'')\<rparr>)"

definition search_text :: "CuratedDevice \<Rightarrow> string" where
  "search_text d = NormalizeDeviceName (Join [cd_Name d, cd_Model d, cd_Manufacturer d, cd_Platform d] '' '')"

definition SearchWithFuzzy ::
  "fuzzy_find \<Rightarrow> string \<Rightarrow> string \<Rightarrow> int \<Rightarrow> CuratedDatabase \<Rightarrow> CuratedDevice list" where
  "SearchWithFuzzy fuzzyFind query pform limit db =
     (let n = (if limit \<le> 0 then 20 else limit); q = NormalizeDeviceName query;
          corpus = filter (\<lambda>d. \<not> (pform \<noteq> [] \<and> \<not> EqualFold (cd_Platform d) pform)) (map snd (devices db));
          found = List.map_filter (\<lambda>(i, sc). if i < length corpus then Some (corpus ! i, sc) else None)
                    (fuzzyFind q (map search_text corpus));
          scored = fold (\<lambda>d sd. if Contains (search_text d) q \<and> \<not> list_ex (\<lambda>s. cd_ID (fst s) = cd_ID d) sd
                               then sd @ [(d, int (length q) * 2)] else sd) corpus found
      in map fst (take (nat n) (sort_key (\<lambda>s. - snd s) scored)))"

section \<open>Normal names\<close>

lemma run_of_Cons: "run_of p (c # s) = (if p c then Some (Suc (length (takeWhile p s)), []) else None)"
  by (simp add: run_of_def)

lemma collapse_Cons:
  "replace_all (run_of p) rep (c # s) = (if p c then rep @ replace_all (run_of p) rep (dropWhile p s) else c # replace_all (run_of p) rep s)"
  by (simp add: run_of_Cons dropWhile_eq_drop)

lemma collapse_id: "(\<And>c. c \<in> set s \<Longrightarrow> \<not> p c) \<Longrightarrow> replace_all (run_of p) rep s = s"
  by (induction s) (simp_all add: collapse_Cons del: replace_all.simps(2))

lemma collapse_set: "set (replace_all (run_of p) rep s) \<subseteq> set rep \<union> {c \<in> set s. \<not> p c}"
proof (induction s rule: length_induct)
  case (1 s)
  show ?case
  proof (cases s)
    case (Cons c t)
    have "length (dropWhile p t) < length s" "length t < length s"
      using Cons length_dropWhile_le [of p t] by simp_all
    then have "set (replace_all (run_of p) rep (dropWhile p t)) \<subseteq> set rep \<union> {c \<in> set (dropWhile p t). \<not> p c}"
      "set (replace_all (run_of p) rep t) \<subseteq> set rep \<union> {c \<in> set t. \<not> p c}" using 1 by blast+
    then show ?thesis unfolding Cons collapse_Cons by (auto dest: set_dropWhileD)
  qed simp
qed

text \<open>No two spaces in a row.\<close>

fun single :: "string \<Rightarrow> bool" where
  "single (a # b # s) \<longleftrightarrow> \<not> (blank_char a \<and> blank_char b) \<and> single (b # s)"
| "single s \<longleftrightarrow> True"

lemma single_append: "single (u @ v) \<Longrightarrow> single u \<and> single v"
  by (induction u rule: single.induct) (auto elim: single.elims)

lemma single_Cons: "single (c # s) \<longleftrightarrow> (blank_char c \<longrightarrow> (case s of [] \<Rightarrow> True | d # _ \<Rightarrow> \<not> blank_char d)) \<and> single s"
  by (cases s) auto

lemma collapse_hd: "\<not> blank_char c \<Longrightarrow> (case replace_all (run_of blank_char) '' '' (c # s) of [] \<Rightarrow> True | d # _ \<Rightarrow> \<not> blank_char d)"
  by (simp add: collapse_Cons del: replace_all.simps(2))

lemma collapse_single: "single (replace_all (run_of blank_char) '' '' s)"
proof (induction s rule: length_induct)
  case (1 s)
  show ?case
  proof (cases s)
    case (Cons c t)
    show ?thesis
    proof (cases "blank_char c")
      case True
      let ?u = "dropWhile blank_char t"
      have "length ?u < length s" using Cons length_dropWhile_le [of blank_char t] by simp
      then have "single (replace_all (run_of blank_char) '' '' ?u)" using 1 by blast
      moreover have "case replace_all (run_of blank_char) '' '' ?u of [] \<Rightarrow> True | d # _ \<Rightarrow> \<not> blank_char d"
      proof (cases ?u)
        case (Cons d v)
        then have "\<not> blank_char d" by (metis dropWhile_eq_Cons_conv)
        then show ?thesis unfolding Cons by (rule collapse_hd)
      next
        case Nil
        then show ?thesis by (simp only: replace_all.simps(1) list.case)
      qed
      ultimately show ?thesis using True unfolding Cons collapse_Cons by (simp add: single_Cons)
    next
      case False
      have "single (replace_all (run_of blank_char) '' '' t)" using 1 Cons by simp
      then show ?thesis using False unfolding Cons collapse_Cons by (simp add: single_Cons)
    qed
  qed simp
qed

lemma collapse_space_id:
  "single s \<Longrightarrow> (\<And>c. c \<in> set s \<Longrightarrow> blank_char c \<Longrightarrow> c = CHR '' '') \<Longrightarrow> replace_all (run_of blank_char) '' '' s = s"
proof (induction s)
  case (Cons c s)
  have "dropWhile blank_char s = s" if "blank_char c"
    using Cons.prems(1) that by (cases s) (auto simp: single_Cons)
  moreover have "c = CHR '' ''" if "blank_char c" using Cons.prems(2) [of c] that by simp
  moreover have "replace_all (run_of blank_char) '' '' s = s" using Cons by (simp add: single_Cons)
  ultimately show ?case by (auto simp: collapse_Cons simp del: replace_all.simps(2))
qed simp

lemma Trim_block: "\<exists>u v. s = u @ TrimSpace s @ v"
proof -
  let ?t = "dropWhile is_space s"
  have "s = takeWhile is_space s @ ?t" by simp
  also have "?t = rev (dropWhile is_space (rev ?t)) @ rev (takeWhile is_space (rev ?t))"
    by (metis rev_append rev_rev_ident takeWhile_dropWhile_id)
  finally show ?thesis unfolding TrimSpace_def by blast
qed

lemma dropWhile_idem: "dropWhile p (dropWhile p s) = dropWhile p s"
  by (induction s) simp_all

lemma Trim_idem: "TrimSpace (TrimSpace s) = TrimSpace s"
proof -
  let ?t = "dropWhile is_space s"
  let ?r = "rev (dropWhile is_space (rev ?t))"
  have "dropWhile is_space ?r = ?r"
  proof (cases ?r)
    case (Cons c u)
    obtain v where "?t = ?r @ v" by (metis rev_append rev_rev_ident takeWhile_dropWhile_id)
    then have "hd ?t = c" "?t \<noteq> []" using Cons by (metis append_Cons list.sel(1), metis append_Cons list.distinct(1))
    then have "\<not> is_space c" using hd_dropWhile by metis
    then show ?thesis unfolding Cons by simp
  next
    case Nil
    then show ?thesis by (simp only: dropWhile.simps(1))
  qed
  then show ?thesis unfolding TrimSpace_def by (simp add: dropWhile_idem)
qed

definition normal :: "string \<Rightarrow> bool" where
  "normal s \<longleftrightarrow> ToLower s = s \<and> CHR ''-'' \<notin> set s \<and> CHR ''_'' \<notin> set s \<and> single s
     \<and> (\<forall>c \<in> set s. blank_char c \<longrightarrow> c = CHR '' '') \<and> TrimSpace s = s"

lemma ToLower_set: "ToLower s = s \<longleftrightarrow> (\<forall>c \<in> set s. lower_char c = c)"
  by (simp add: ToLower_def map_idI list_eq_iff_nth_eq) (metis in_set_conv_nth)

lemma normal_Normalize: "normal (NormalizeDeviceName s)"
proof -
  let ?a = "replace_all (run_of (\<lambda>c. c = CHR ''-'' \<or> c = CHR ''_'')) '' '' (ToLower s)"
  let ?b = "replace_all (run_of blank_char) '' '' ?a"
  have a: "set ?a \<subseteq> {CHR '' ''} \<union> {c \<in> set (ToLower s). \<not> (c = CHR ''-'' \<or> c = CHR ''_'')}"
    using collapse_set [of "\<lambda>c. c = CHR ''-'' \<or> c = CHR ''_''" "'' ''" "ToLower s"] by simp
  have b: "set ?b \<subseteq> {CHR '' ''} \<union> {c \<in> set ?a. \<not> blank_char c}"
    using collapse_set [of blank_char "'' ''" ?a] by simp
  obtain u v where block: "?b = u @ TrimSpace ?b @ v" using Trim_block by blast
  have c: "set (TrimSpace ?b) \<subseteq> set ?b" by (subst (2) block) auto
  have "single (TrimSpace ?b)"
    using collapse_single [of ?a] single_append [of u "TrimSpace ?b @ v"] single_append [of "TrimSpace ?b" v] block by metis
  moreover have "\<forall>c \<in> set (TrimSpace ?b). lower_char c = c"
  proof
    fix x assume "x \<in> set (TrimSpace ?b)"
    then have "x = CHR '' '' \<or> x \<in> set (ToLower s)" using a b c by auto
    then show "lower_char x = x" by (auto simp: ToLower_def lower_char_def [of "CHR '' ''"])
  qed
  ultimately show ?thesis
    using a b c unfolding normal_def NormalizeDeviceName_def ToLower_set Trim_idem by auto
qed

lemma Normalize_normal: "normal s \<Longrightarrow> NormalizeDeviceName s = s"
proof -
  assume n: "normal s"
  have "replace_all (run_of (\<lambda>c. c = CHR ''-'' \<or> c = CHR ''_'')) '' '' s = s"
    using n by (intro collapse_id) (auto simp: normal_def)
  moreover have "replace_all (run_of blank_char) '' '' s = s"
    using n by (intro collapse_space_id) (auto simp: normal_def)
  ultimately show ?thesis using n by (simp add: NormalizeDeviceName_def normal_def)
qed

text \<open>Normalising is idempotent, and what it gives has no hyphen, underscore, capital letter or run of spaces.\<close>

theorem normal_names: "NormalizeDeviceName (NormalizeDeviceName s) = NormalizeDeviceName s \<and> normal (NormalizeDeviceName s)"
  by (simp add: Normalize_normal normal_Normalize)

section \<open>Years\<close>

definition has_year :: "string \<Rightarrow> bool" where
  "has_year s \<longleftrightarrow> (\<exists>p t. s = p @ t \<and> is_year t)"

lemma has_year_append: "has_year t \<Longrightarrow> has_year (p @ t)"
  unfolding has_year_def by (metis append_assoc)

lemma find_match_suffix: "find_match m s = Some g \<Longrightarrow> \<exists>p t n. s = p @ t \<and> m t = Some (n, g)"
proof (induction s)
  case (Cons c s)
  show ?case
  proof (cases "m (c # s)")
    case None
    then show ?thesis using Cons by simp (metis append_Cons)
  next
    case (Some ng)
    then show ?thesis using Cons.prems by (cases ng) (auto intro: exI [of _ "[]"])
  qed
qed simp

lemma year_not_Nil: "is_year t \<Longrightarrow> t \<noteq> []"
  by (auto simp: is_year_def)

lemma year_front: "is_year (c # s) \<Longrightarrow> yearPattern1 (c # s) \<noteq> None"
proof -
  assume y: "is_year (c # s)"
  then have "c \<noteq> CHR ''(''" "\<not> blank_char c" by (auto simp: is_year_def HasPrefix_def blank_char_def)
  then show ?thesis using y by (simp add: yearPattern1_def Let_def)
qed

lemma year_found: "has_year s \<Longrightarrow> find_match yearPattern1 s \<noteq> None"
proof (induction s)
  case (Cons c s)
  show ?case
  proof (cases "is_year (c # s)")
    case True
    then obtain ng where "yearPattern1 (c # s) = Some ng" using year_front by blast
    then show ?thesis by (cases ng) simp
  next
    case False
    then have "has_year s" using Cons.prems unfolding has_year_def by (metis append_Nil append_eq_Cons_conv)
    then show ?thesis using Cons.IH by (simp split: option.split)
  qed
qed (auto simp: has_year_def is_year_def)

lemma dropWhile_suffix: "\<exists>p. s = p @ dropWhile q s"
  by (rule exI [of _ "takeWhile q s"]) simp

lemma dash_suffix: "\<exists>p. s = p @ dash_gap s"
proof -
  define t where "t = dropWhile blank_char s"
  define u where "u = (case t of [] \<Rightarrow> [] | c # v \<Rightarrow> if c = CHR ''-'' \<or> c = CHR ''_'' then v else t)"
  have "\<exists>q. t = q @ u" unfolding u_def by (cases t) auto
  moreover have "\<exists>p. s = p @ t" unfolding t_def by (rule dropWhile_suffix)
  moreover have "\<exists>r. u = r @ dropWhile blank_char u" by (rule dropWhile_suffix)
  ultimately obtain p q r where "s = p @ t" "t = q @ u" "u = r @ dropWhile blank_char u" by blast
  then have "s = (p @ q @ r) @ dropWhile blank_char u" by simp
  moreover have "dash_gap s = dropWhile blank_char u" unfolding dash_gap_def Let_def u_def t_def by (rule HOL.refl)
  ultimately show ?thesis by metis
qed

lemma after_word_year:
  assumes "\<And>s. \<exists>p. s = p @ gap s" "after_word gap ws s = Some ng"
  shows "has_year s"
proof -
  obtain w where "List.find (\<lambda>w. HasPrefix (ToLower s) w \<and> is_year (gap (drop (length w) s))) ws = Some w"
    using assms(2) by (auto simp: after_word_def split: option.splits)
  then have "is_year (gap (drop (length w) s))" by (auto simp: find_Some_iff)
  moreover obtain p where "drop (length w) s = p @ gap (drop (length w) s)" using assms(1) by blast
  ultimately have "has_year (drop (length w) s)" unfolding has_year_def by blast
  then show ?thesis using has_year_append [of "drop (length w) s" "take (length w) s"] by simp
qed

lemma later_pattern_year:
  assumes "find_match yearPattern2 s \<noteq> None \<or> find_match yearPattern3 s \<noteq> None"
  shows "has_year s"
proof -
  have "has_year s" if m: "find_match m s \<noteq> None" and w: "m = after_word gap ws" and g: "\<And>s. \<exists>p. s = p @ gap s" for m gap ws
  proof -
    obtain p t n g where "s = p @ t" "after_word gap ws t = Some (n, g)"
      using m find_match_suffix unfolding w by blast
    then show ?thesis using after_word_year [OF g] has_year_append by metis
  qed
  then show ?thesis using assms yearPattern2_def yearPattern3_def dash_suffix dropWhile_suffix by metis
qed

text \<open>
  C37. The second and the third pattern for a year never matter: whatever they match holds a year that the first one finds.
  So the year of a name is the first number from 1900 to 2099 in it, a screen size or a part of a longer number included.
\<close>

theorem only_the_first_year_pattern_matters:
  "fst (snd (ExtractDeviceComponents name)) = (case find_match yearPattern1 name of None \<Rightarrow> [] | Some y \<Rightarrow> y)"
proof (cases "find_match yearPattern1 name")
  case None
  then have "find_match yearPattern2 name = None" "find_match yearPattern3 name = None"
    using year_found later_pattern_year by blast+
  then show ?thesis using None by (simp add: ExtractDeviceComponents_def Let_def List.map_filter_def)
qed (simp add: ExtractDeviceComponents_def Let_def List.map_filter_def)

section \<open>Scores\<close>

lemma fadd_ge:
  assumes "of_int m \<le> x" "0 \<le> y" "\<bar>m\<bar> \<le> 2 ^ 53"
  shows "of_int m \<le> fadd x y"
  using f64.rnd_mono [of "of_int m" "x + y"] f64.rnd_int [OF assms(3)] assms(1,2) by (simp add: fadd_def)

lemma fmul_nonneg: "0 \<le> x \<Longrightarrow> 0 \<le> y \<Longrightarrow> 0 \<le> fmul x y"
  by (simp add: fmul_def f64.rnd_nonneg)

lemma fdiv_nonneg: "0 \<le> x \<Longrightarrow> 0 \<le> y \<Longrightarrow> 0 \<le> fdiv x y"
  by (simp add: fdiv_def f64.rnd_nonneg)

lemma ffromint_nonneg: "0 \<le> n \<Longrightarrow> 0 \<le> ffromint n"
  by (simp add: ffromint_def f64.rnd_nonneg)

text \<open>No award lowers a score below an integer it has reached.\<close>

lemma award_ge: "\<lbrakk>of_int m \<le> fst sf; 0 \<le> x; \<bar>m\<bar> \<le> 2 ^ 53\<rbrakk> \<Longrightarrow> of_int m \<le> fst (award b x f sf)"
  by (simp add: award_def fadd_ge)

lemma awards_ge:
  assumes "of_int m \<le> fst sf" "\<bar>m\<bar> \<le> 2 ^ 53"
  shows "of_int m \<le> fst (variant_award i d sf)" "of_int m \<le> fst (year_award iy dy db nb sf)"
    "of_int m \<le> fst (fuzzy_award ff input name ch sf)"
  using assms by (auto simp: variant_award_def year_award_def fuzzy_award_def Let_def fmul_nonneg fdiv_nonneg
    ffromint_nonneg intro!: award_ge fadd_ge split: list.split)

lemma version_score:
  fixes m :: int
  assumes "of_int m \<le> fst (award (Contains (ToLower (cd_Manufacturer d)) (extractManufacturer abbrs input)
      \<or> Contains (ToLower input) (ToLower (cd_Manufacturer d))) 20 ''manufacturer'' (0, []))" "\<bar>m\<bar> \<le> 100"
  shows "of_int m \<le> fst (calculateVersionMatch ff abbrs input d n nb iy iv)"
    "fst (calculateVersionMatch ff abbrs input d n nb iy iv) \<le> 100"
proof -
  have b: "\<bar>m\<bar> \<le> 2 ^ 53" "of_int m \<le> (100 :: rat)" using assms(2) by simp_all
  have s2: "of_int m \<le> fst (award (sim > lit 7 10) (fmul sim 30) ''model_similarity'' sf)" if "of_int m \<le> fst sf" for sim sf
  proof (cases "sim > lit 7 10")
    case True
    then have "0 \<le> sim" using f64.rnd_nonneg [of "7 / 10"] by (simp add: lit_def) 
    then show ?thesis using that b(1) by (intro award_ge fmul_nonneg) simp_all
  qed (use that in \<open>simp add: award_def\<close>)
  show "of_int m \<le> fst (calculateVersionMatch ff abbrs input d n nb iy iv)"
    unfolding calculateVersionMatch_def Let_def case_prod_beta fst_conv
    using awards_ge(3) [OF awards_ge(3) [OF awards_ge(2) [OF awards_ge(1) [OF s2 [OF assms(1)] b(1)] b(1)] b(1)] b(1)] b(2)
    by (auto simp del: of_int_le_iff)
  show "fst (calculateVersionMatch ff abbrs input d n nb iy iv) \<le> 100"
    by (simp add: calculateVersionMatch_def Let_def case_prod_beta)
qed

lemma match_one_range: "match_one ff abbrs name d = Some r \<Longrightarrow> 0 < fz_Score r \<and> fz_Score r \<le> 100 \<and> fz_Device r = d"
  by (auto simp: match_one_def Let_def case_prod_beta split: if_splits)

definition asked :: "int \<Rightarrow> int" where "asked limit = (if limit \<le> 0 then 10 else limit)"

text \<open>
  The results are at most as many as asked for, come from the candidates, have scores above zero and at most a hundred,
  and are in the order of their ranks, in which verification counts for one point.
\<close>

theorem match_results_bounded:
  "let rs = MatchDevice ff abbrs name pform limit db in
    int (length rs) \<le> asked limit \<and> sorted (map match_rank rs) \<and>
    list_all (\<lambda>r. 0 < fz_Score r \<and> fz_Score r \<le> 100 \<and> fz_Device r \<in> set (candidates pform db)) rs"
proof -
  let ?all = "sort_key match_rank (List.map_filter (match_one ff abbrs name) (candidates pform db))"
  have r: "MatchDevice ff abbrs name pform limit db = take (nat (asked limit)) ?all"
    by (simp add: MatchDevice_def asked_def Let_def)
  have "0 \<le> asked limit" by (simp add: asked_def)
  moreover have "sorted (map match_rank ?all)" by simp
  moreover have "\<forall>r \<in> set ?all. 0 < fz_Score r \<and> fz_Score r \<le> 100 \<and> fz_Device r \<in> set (candidates pform db)"
    using match_one_range by (fastforce simp: List.map_filter_def)
  ultimately show ?thesis unfolding r Let_def
    by (auto simp: list_all_iff take_map [symmetric] intro: sorted_wrt_take dest: in_set_takeD)
qed

lemma contains_empty: "Contains s []"
  by (cases s) (simp_all add: HasPrefix_def)

lemma unknown_score:
  assumes "extractManufacturer abbrs name = []"
  shows "\<exists>r. match_one ff abbrs name d = Some r \<and> 20 \<le> fz_Score r"
proof -
  have "of_int 20 \<le> fst (award (Contains (ToLower (cd_Manufacturer d)) (extractManufacturer abbrs name)
      \<or> Contains (ToLower name) (ToLower (cd_Manufacturer d))) 20 ''manufacturer'' (0, []))"
    using fadd_ge [of 20 20 0] by (simp add: assms contains_empty award_def fadd_def)
  note v = version_score [OF this]
  have "20 \<le> fst (calculateVersionMatch ff abbrs name d n nb iy iv)" for n nb iy iv
    using v(1) [of ff n nb iy iv] by simp
  then show ?thesis
    by (simp add: match_one_def Let_def case_prod_beta order.strict_trans2 [of 0 20])
qed

text \<open>
  C24. A name without a known manufacturer, in full or abbreviated, matches every device: \<^verbatim>\<open>extractManufacturer\<close> gives the
  empty text, which every manufacturer contains. So a search over all platforms returns as many devices as it may, each
  with twenty points or more, however little the names have in common.
\<close>

theorem unknown_names_match_every_device:
  assumes "extractManufacturer abbrs name = []"
  shows "let rs = MatchDevice ff abbrs name [] limit db in
    int (length rs) = min (asked limit) (Count db) \<and> list_all (\<lambda>r. 20 \<le> fz_Score r) rs"
proof -
  let ?ms = "List.map_filter (match_one ff abbrs name) (candidates [] db)"
  have some: "match_one ff abbrs name d \<noteq> None" "match_one ff abbrs name d = Some r \<Longrightarrow> 20 \<le> fz_Score r" for d r
    using unknown_score [OF assms, of ff d] by auto
  have "length ?ms = length (candidates [] db)"
    using some(1) by (simp add: List.map_filter_def)
  moreover have "\<forall>r \<in> set ?ms. 20 \<le> fz_Score r"
    using some(2) by (auto simp: List.map_filter_def) 
  moreover have "0 \<le> asked limit" by (simp add: asked_def)
  moreover have "MatchDevice ff abbrs name [] limit db = take (nat (asked limit)) (sort_key match_rank ?ms)"
    by (simp add: MatchDevice_def asked_def Let_def)
  ultimately show ?thesis
    by (auto simp: Let_def list_all_iff candidates_def Count_def min_def dest: in_set_takeD)
qed

theorem unknown_names_match_every_device_witness:
  "let rs = MatchDevice (\<lambda>p names. []) manufacturerAbbreviations ''xyz'' [] 5
        (NewCuratedDatabase\<lparr>devices := [(''d'', sample_device)]\<rparr>) in
    int (length rs) = 1 \<and> list_all (\<lambda>r. 20 \<le> fz_Score r) rs"
proof -
  have "extractManufacturer manufacturerAbbreviations ''xyz'' = []" by code_simp
  from unknown_names_match_every_device [OF this, of "\<lambda>p names. []" 5 "NewCuratedDatabase\<lparr>devices := [(''d'', sample_device)]\<rparr>"]
  show ?thesis by (simp add: asked_def Count_def)
qed

text \<open>
  The similarity counts common bigrams with their multiplicity and divides by the number of \<^emph>\<open>different\<close> bigrams, so it
  is no share: a text of one repeated letter is three times as similar to itself as it should be. A text of one letter
  has no bigram and is not similar to itself at all.
\<close>

lemma similarity_exceeds_one:
  "calculateStringSimilarity ''aaaa'' ''aaaa'' = 3" "calculateStringSimilarity ''a'' ''a'' = 0"
proof -
  have t: "tally (bigrams ''aaaa'') = [(''aa'', 3)]" "tally (bigrams ''a'') = []" by code_simp+
  have "ffromint 3 = 3" "ffromint 2 = 2" "fmul 2 3 = 6" "fdiv 6 2 = 3"
    using f64.rnd_int [of 3] f64.rnd_int [of 2] f64.rnd_int [of 6] by (simp_all add: ffromint_def fmul_def fdiv_def)
  then show "calculateStringSimilarity ''aaaa'' ''aaaa'' = 3"
    unfolding calculateStringSimilarity_def Let_def t by (simp add: gget_def)
  show "calculateStringSimilarity ''a'' ''a'' = 0"
    unfolding calculateStringSimilarity_def Let_def t by simp
qed

end
