(* ===== verification/DecisionLog.thy ===== *)
theory DecisionLog
  imports Transcode
begin

text \<open>
  The log of playback decisions, \<^verbatim>\<open>internal/transcode/logger.go\<close>: a bounded list in memory, updated with the outcome of
  a playback, queried newest first and summed up. A log entry is a value here; the pointer that \<^verbatim>\<open>Log\<close> returns shows the
  later \<^verbatim>\<open>UpdateOutcome\<close>, which a caller reads through \<open>DL_GetByID\<close>. The sequence number is kept in 64 bits.
\<close>

record PlaybackDecisionLog =
  pl_ID :: string
  pl_Timestamp :: time
  pl_DeviceID :: string
  pl_MediaItemID :: string
  pl_DecisionType :: string
  pl_Reasons :: "string list"
  pl_SourceVideoCodec :: string
  pl_SourceAudioCodec :: string
  pl_SourceContainer :: string
  pl_SourceWidth :: int
  pl_SourceHeight :: int
  pl_SourceBitrate :: int
  pl_TargetVideoCodec :: string
  pl_TargetAudioCodec :: string
  pl_TargetContainer :: string
  pl_HDRPreserved :: bool
  pl_ToneMapped :: bool
  pl_BitDepthPreserved :: bool
  pl_AudioChannelsPreserved :: bool
  pl_EncoderUsed :: string
  pl_HardwareAccelUsed :: bool
  pl_DeviceCapabilityTrust :: float64
  pl_CapabilitySources :: "string list"
  pl_DecisionDurationMs :: int
  PlaybackSucceeded :: "bool option"
  FailureReason :: string

record DecisionStats =
  TotalDecisions :: int
  DirectPlayCount :: int
  DirectPlayPercent :: float64
  RemuxCount :: int
  RemuxPercent :: float64
  TranscodeCount :: int
  TranscodePercent :: float64
  FallbackCount :: int
  FallbackPercent :: float64
  HDRPreservedPercent :: float64
  ToneMappedPercent :: float64
  AvgTrust :: float64
  AvgDecisionMs :: float64
  HWAccelPercent :: float64
  ds_SuccessRate :: float64
  ds_FailureRate :: float64

record DecisionQuery =
  dq_DeviceID :: string
  dq_From :: time
  dq_To :: time
  dq_Limit :: int
  dq_Offset :: int

record DecisionLogger =
  logged :: "PlaybackDecisionLog list"
  maxSize :: int
  idSeq :: int

definition NewDecisionLogger :: DecisionLogger where
  "NewDecisionLogger = \<lparr>logged = [], maxSize = 10000, idSeq = 0\<rparr>"

definition nextID :: "time \<Rightarrow> DecisionLogger \<Rightarrow> string \<times> DecisionLogger" where
  "nextID now dl =
     (let n = i64 (idSeq dl + 1) in (''dec-'' @ Itoa (now div 1000000) @ ''-'' @ Itoa n, dl\<lparr>idSeq := n\<rparr>))"

definition DL_store :: "PlaybackDecisionLog \<Rightarrow> DecisionLogger \<Rightarrow> DecisionLogger" where
  "DL_store entry dl =
     (let es = logged dl @ [entry]
      in dl\<lparr>logged := (if int (length es) > maxSize dl then drop (nat (int (length es) - maxSize dl)) es else es)\<rparr>)"

definition log_entry :: "string \<Rightarrow> time \<Rightarrow> PlaybackDecision \<Rightarrow> string \<Rightarrow> string \<Rightarrow> PlaybackDecisionLog" where
  "log_entry i now d deviceID mediaItemID =
     \<lparr>pl_ID = i, pl_Timestamp = now, pl_DeviceID = deviceID, pl_MediaItemID = mediaItemID,
      pl_DecisionType = DecisionType_String (d_Type d), pl_Reasons = Reasons d,
      pl_SourceVideoCodec = SourceVideoCodec d, pl_SourceAudioCodec = SourceAudioCodec d,
      pl_SourceContainer = SourceContainer d, pl_SourceWidth = SourceWidth d, pl_SourceHeight = SourceHeight d,
      pl_SourceBitrate = SourceBitrate d, pl_TargetVideoCodec = TargetVideoCodec d,
      pl_TargetAudioCodec = TargetAudioCodec d, pl_TargetContainer = TargetContainer d,
      pl_HDRPreserved = HDRPreserved d, pl_ToneMapped = ToneMapped d, pl_BitDepthPreserved = BitDepthPreserved d,
      pl_AudioChannelsPreserved = AudioChannelsPreserved d, pl_EncoderUsed = EncoderUsed d,
      pl_HardwareAccelUsed = HardwareAccelUsed d, pl_DeviceCapabilityTrust = DeviceCapabilityTrust d,
      pl_CapabilitySources = CapabilitySources d, pl_DecisionDurationMs = DecisionDurationMs d,
      PlaybackSucceeded = None, FailureReason = []\<rparr>"

definition DL_Log ::
  "time \<Rightarrow> PlaybackDecision \<Rightarrow> string \<Rightarrow> string \<Rightarrow> DecisionLogger \<Rightarrow> PlaybackDecisionLog \<times> DecisionLogger" where
  "DL_Log now decision deviceID mediaItemID dl =
     (let (i, dl1) = nextID now dl; e = log_entry i now decision deviceID mediaItemID in (e, DL_store e dl1))"

text \<open>The first entry with the identifier is updated.\<close>

fun update_first :: "string \<Rightarrow> (PlaybackDecisionLog \<Rightarrow> PlaybackDecisionLog) \<Rightarrow> PlaybackDecisionLog list \<Rightarrow> bool \<times> PlaybackDecisionLog list" where
  "update_first i f [] = (False, [])"
| "update_first i f (e # es) =
     (if pl_ID e = i then (True, f e # es) else (let (b, es') = update_first i f es in (b, e # es')))"

definition UpdateOutcome :: "string \<Rightarrow> bool \<Rightarrow> string \<Rightarrow> DecisionLogger \<Rightarrow> bool \<times> DecisionLogger" where
  "UpdateOutcome i succeeded failureReason dl =
     (let (found, es) = update_first i (\<lambda>e. e\<lparr>PlaybackSucceeded := Some succeeded, FailureReason := failureReason\<rparr>) (logged dl)
      in (found, dl\<lparr>logged := es\<rparr>))"

definition matches :: "DecisionQuery \<Rightarrow> PlaybackDecisionLog \<Rightarrow> bool" where
  "matches q e \<longleftrightarrow> \<not> (dq_DeviceID q \<noteq> [] \<and> pl_DeviceID e \<noteq> dq_DeviceID q)
     \<and> \<not> (\<not> IsZero (dq_From q) \<and> Before (pl_Timestamp e) (dq_From q))
     \<and> \<not> (\<not> IsZero (dq_To q) \<and> After (pl_Timestamp e) (dq_To q))"

definition DL_Query :: "DecisionQuery \<Rightarrow> DecisionLogger \<Rightarrow> PlaybackDecisionLog list" where
  "DL_Query q dl =
     (let r0 = filter (matches q) (rev (logged dl)); n = int (length r0)
      in if dq_Offset q \<ge> n then []
         else let r1 = (if dq_Offset q > 0 then drop (nat (dq_Offset q)) r0 else r0)
              in if dq_Limit q > 0 \<and> dq_Limit q < int (length r1) then take (nat (dq_Limit q)) r1 else r1)"

definition DL_GetByID :: "string \<Rightarrow> DecisionLogger \<Rightarrow> PlaybackDecisionLog option" where
  "DL_GetByID i dl = find (\<lambda>e. pl_ID e = i) (logged dl)"

definition zeroDecisionStats :: DecisionStats where
  "zeroDecisionStats = \<lparr>TotalDecisions = 0, DirectPlayCount = 0, DirectPlayPercent = 0, RemuxCount = 0, RemuxPercent = 0,
     TranscodeCount = 0, TranscodePercent = 0, FallbackCount = 0, FallbackPercent = 0, HDRPreservedPercent = 0,
     ToneMappedPercent = 0, AvgTrust = 0, AvgDecisionMs = 0, HWAccelPercent = 0, ds_SuccessRate = 0, ds_FailureRate = 0\<rparr>"

definition number :: "(PlaybackDecisionLog \<Rightarrow> bool) \<Rightarrow> PlaybackDecisionLog list \<Rightarrow> int" where
  "number p es = int (length (filter p es))"

definition share :: "int \<Rightarrow> int \<Rightarrow> float64" where
  "share k n = fmul (fdiv (ffromint k) (ffromint n)) 100"

definition DL_Stats :: "DecisionLogger \<Rightarrow> DecisionStats" where
  "DL_Stats dl =
     (let es = logged dl; n = int (length es)
      in if n = 0 then zeroDecisionStats
         else let kind = (\<lambda>t. number (\<lambda>e. pl_DecisionType e = t) es);
                  ok = number (\<lambda>e. PlaybackSucceeded e = Some True) es;
                  bad = number (\<lambda>e. PlaybackSucceeded e = Some False) es;
                  heard = number (\<lambda>e. PlaybackSucceeded e \<noteq> None) es
              in \<lparr>TotalDecisions = n,
                  DirectPlayCount = kind ''direct_play'', DirectPlayPercent = share (kind ''direct_play'') n,
                  RemuxCount = kind ''remux'', RemuxPercent = share (kind ''remux'') n,
                  TranscodeCount = kind ''transcode'', TranscodePercent = share (kind ''transcode'') n,
                  FallbackCount = kind ''fallback'', FallbackPercent = share (kind ''fallback'') n,
                  HDRPreservedPercent = share (number pl_HDRPreserved es) n,
                  ToneMappedPercent = share (number pl_ToneMapped es) n,
                  AvgTrust = fdiv (foldl fadd 0 (map pl_DeviceCapabilityTrust es)) (ffromint n),
                  AvgDecisionMs = fdiv (ffromint (foldl (\<lambda>a e. i64 (a + pl_DecisionDurationMs e)) 0 es)) (ffromint n),
                  HWAccelPercent = share (number pl_HardwareAccelUsed es) n,
                  ds_SuccessRate = (if heard > 0 then share ok heard else 0),
                  ds_FailureRate = (if heard > 0 then share bad heard else 0)\<rparr>)"

section \<open>Reachable logs\<close>

datatype log_call = AddEntry time PlaybackDecision string string | SetOutcome string bool string

fun log_step :: "DecisionLogger \<Rightarrow> log_call \<Rightarrow> DecisionLogger" where
  "log_step dl (AddEntry now d dev item) = snd (DL_Log now d dev item dl)"
| "log_step dl (SetOutcome i b r) = snd (UpdateOutcome i b r dl)"

definition log_run :: "log_call list \<Rightarrow> DecisionLogger" where
  "log_run cs = foldl log_step NewDecisionLogger cs"

text \<open>The identifiers: what follows the last hyphen is the sequence number.\<close>

definition last_part :: "string \<Rightarrow> string" where
  "last_part s = rev (takeWhile (\<lambda>c. c \<noteq> CHR ''-'') (rev s))"

lemma no_hyphen: "0 \<le> n \<Longrightarrow> CHR ''-'' \<notin> set (Itoa n)"
proof -
  assume "0 \<le> n"
  then have "list_all is_digit (Itoa n)" using digits_ok by (simp add: Itoa_def)
  then show ?thesis by (auto simp: list_all_iff is_digit_def)
qed

lemma last_part_id: "0 \<le> n \<Longrightarrow> last_part (p @ ''-'' @ Itoa n) = Itoa n"
proof -
  assume "0 \<le> n"
  then have "\<And>x. x \<in> set (rev (Itoa n)) \<Longrightarrow> x \<noteq> CHR ''-''" using no_hyphen by force
  then have "takeWhile (\<lambda>c. c \<noteq> CHR ''-'') (rev (Itoa n) @ CHR ''-'' # rev p) = rev (Itoa n)"
    by (subst takeWhile_append2) auto
  then show ?thesis by (simp add: last_part_def)
qed

lemma Itoa_inj: "\<lbrakk>0 \<le> a; a < 2 ^ 63; 0 \<le> b; b < 2 ^ 63; Itoa a = Itoa b\<rbrakk> \<Longrightarrow> a = b"
proof -
  assume a: "0 \<le> a" "a < 2 ^ 63" and b: "0 \<le> b" "b < 2 ^ 63" and e: "Itoa a = Itoa b"
  have z: "- (2 ^ 63) \<le> (0 :: int)" by simp
  have "Some a = Atoi (Itoa a)" by (rule Atoi_Itoa [OF order_trans [OF z a(1)] a(2), symmetric])
  also have "\<dots> = Atoi (Itoa b)" by (simp only: e)
  also have "\<dots> = Some b" by (rule Atoi_Itoa [OF order_trans [OF z b(1)] b(2)])
  finally show "a = b" by (simp only: option.inject)
qed

text \<open>
  The specification: a log that forgets nothing. Its entries are numbered from one, and an outcome reaches every entry
  with its identifier.
\<close>

fun full_step :: "PlaybackDecisionLog list \<Rightarrow> log_call \<Rightarrow> PlaybackDecisionLog list" where
  "full_step h (AddEntry now d dev item) =
     h @ [log_entry (''dec-'' @ Itoa (now div 1000000) @ ''-'' @ Itoa (int (length h) + 1)) now d dev item]"
| "full_step h (SetOutcome i b r) =
     map (\<lambda>e. if pl_ID e = i then e\<lparr>PlaybackSucceeded := Some b, FailureReason := r\<rparr> else e) h"

definition full_log :: "log_call list \<Rightarrow> PlaybackDecisionLog list" where
  "full_log cs = foldl full_step [] cs"

text \<open>The log in memory is the end of the specification's, whose entries carry their numbers.\<close>

definition log_refines :: "DecisionLogger \<Rightarrow> PlaybackDecisionLog list \<Rightarrow> bool" where
  "log_refines dl h \<longleftrightarrow> maxSize dl = 10000 \<and> idSeq dl = int (length h) \<and> logged dl = drop (length h - 10000) h
     \<and> map (\<lambda>e. last_part (pl_ID e)) h = map Itoa [1..int (length h)]"

lemma update_first_map:
  "distinct (map pl_ID es) \<Longrightarrow> snd (update_first i f es) = map (\<lambda>e. if pl_ID e = i then f e else e) es"
proof (induction es)
  case (Cons e es)
  have "map (\<lambda>x. if pl_ID x = i then f x else x) es = es" if "pl_ID e = i"
    proof (rule map_idI)
    fix x assume "x \<in> set es"
    then have "pl_ID x \<noteq> pl_ID e" using Cons.prems by (metis distinct.simps(2) image_eqI list.set_map list.simps(9))
    then show "(if pl_ID x = i then f x else x) = x" using that by simp
  qed
  then show ?case using Cons by (auto simp: case_prod_beta)
qed simp

lemma DL_Log_parts:
  "logged (snd (DL_Log now d dev item dl)) =
     (let es = logged dl @ [fst (DL_Log now d dev item dl)]
      in if int (length es) > maxSize dl then drop (nat (int (length es) - maxSize dl)) es else es)"
  "maxSize (snd (DL_Log now d dev item dl)) = maxSize dl"
  "idSeq (snd (DL_Log now d dev item dl)) = i64 (idSeq dl + 1)"
  "fst (DL_Log now d dev item dl) = log_entry (''dec-'' @ Itoa (now div 1000000) @ ''-'' @ Itoa (i64 (idSeq dl + 1))) now d dev item"
  by (simp_all add: DL_Log_def DL_store_def nextID_def Let_def case_prod_beta)

lemma log_refines_distinct:
  assumes "log_refines dl h" and "int (length h) < 2 ^ 63"
  shows "distinct (map pl_ID h)"
proof -
  have "inj_on Itoa {1..int (length h)}"
    using assms(2) by (intro inj_onI) (rule Itoa_inj; auto)
  then have "distinct (map Itoa [1..int (length h)])" by (simp add: distinct_map)
  then have "distinct (map last_part (map pl_ID h))" using assms(1) by (simp add: log_refines_def comp_def)
  then show ?thesis unfolding distinct_map [of last_part] by blast
qed

lemma log_refines_add:
  assumes "log_refines dl h" and "int (length h) + 1 < 2 ^ 63"
  shows "log_refines (log_step dl (AddEntry now d dev item)) (full_step h (AddEntry now d dev item))"
proof -
  let ?e = "log_entry (''dec-'' @ Itoa (now div 1000000) @ ''-'' @ Itoa (int (length h) + 1)) now d dev item"
  have r: "maxSize dl = 10000" "idSeq dl = int (length h)" "logged dl = drop (length h - 10000) h"
    "map (\<lambda>e. last_part (pl_ID e)) h = map Itoa [1..int (length h)]"
    using assms(1) by (simp_all add: log_refines_def)
  have i: "i64 (int (length h) + 1) = int (length h) + 1" using assms(2) by (intro i64_id) linarith+
  have "last_part (pl_ID ?e) = Itoa (int (length h) + 1)"
    using last_part_id [of "int (length h) + 1" "''dec-'' @ Itoa (now div 1000000)"] by (simp add: log_entry_def)
  then have "map (\<lambda>e. last_part (pl_ID e)) (h @ [?e]) = map Itoa [1..int (length (h @ [?e]))]"
    using r(4) by (simp add: upto_rec2 add.commute)
  moreover have "logged (log_step dl (AddEntry now d dev item)) = drop (length (h @ [?e]) - 10000) (h @ [?e])"
  proof (cases "length h < 10000")
    case False
    then have "length h - (length h - 10000) = 10000" "Suc (length h - 10000) = length h - 9999" by simp_all
    then show ?thesis using False by (simp add: DL_Log_parts r i Let_def)
  qed (simp add: DL_Log_parts r i Let_def)
  ultimately show ?thesis unfolding log_refines_def by (simp add: DL_Log_parts r i)
qed

lemma log_refines_outcome:
  assumes "log_refines dl h" and "int (length h) < 2 ^ 63"
  shows "log_refines (log_step dl (SetOutcome i b r)) (full_step h (SetOutcome i b r))"
proof -
  have "distinct (map pl_ID (logged dl))"
    using log_refines_distinct [OF assms] assms(1) by (simp add: log_refines_def drop_map [symmetric])
  then show ?thesis using assms(1)
    by (simp add: log_refines_def UpdateOutcome_def case_prod_beta update_first_map drop_map comp_def if_distrib cong: if_cong)
qed

definition additions :: "log_call list \<Rightarrow> int" where
  "additions cs = int (length (filter (\<lambda>c. case c of AddEntry _ _ _ _ \<Rightarrow> True | SetOutcome _ _ _ \<Rightarrow> False) cs))"

lemma additions_simps [simp]:
  "additions [] = 0" "additions (AddEntry t d dev item # cs) = additions cs + 1"
  "additions (SetOutcome i b r # cs) = additions cs"
  by (simp_all add: additions_def)

lemma additions_nonneg: "0 \<le> additions cs"
  by (simp add: additions_def)

lemma log_refines_run:
  "log_refines dl h \<Longrightarrow> int (length h) + additions cs < 2 ^ 63 \<Longrightarrow>
     log_refines (foldl log_step dl cs) (foldl full_step h cs)
     \<and> int (length (foldl full_step h cs)) = int (length h) + additions cs"
proof (induction cs arbitrary: dl h)
  case (Cons c cs)
  show ?case
  proof (cases c)
    case (AddEntry t d dev item)
    then have "int (length h) + 1 < 2 ^ 63" using Cons.prems(2) additions_nonneg [of cs] by simp
    from log_refines_add [OF Cons.prems(1) this] Cons.IH [of "log_step dl c" "full_step h c"] Cons.prems(2) AddEntry show ?thesis by simp
  next
    case (SetOutcome i b r)
    then have "int (length h) < 2 ^ 63" using Cons.prems(2) additions_nonneg [of cs] by simp
    from log_refines_outcome [OF Cons.prems(1) this] Cons.IH [of "log_step dl c" "full_step h c"] Cons.prems(2) SetOutcome show ?thesis by simp
  qed
qed simp

lemma log_refines_new: "log_refines NewDecisionLogger []"
  by (simp add: log_refines_def NewDecisionLogger_def)

text \<open>
  C36. The log refines one that forgets nothing: however many decisions are logged and outcomes reported, it holds the
  latest ten thousand entries of the specification, in their order and with the same outcomes. The identifiers of all decisions
  ever logged are distinct, although the clock may stand still.
\<close>

theorem log_is_latest_of_history:
  assumes "additions cs < 2 ^ 63"
  shows "logged (log_run cs) = drop (length (full_log cs) - 10000) (full_log cs)
    \<and> int (length (full_log cs)) = additions cs \<and> distinct (map pl_ID (full_log cs))"
proof -
  have "log_refines (log_run cs) (full_log cs)" "int (length (full_log cs)) = additions cs"
    using log_refines_run [OF log_refines_new, of cs] assms by (simp_all add: log_run_def full_log_def)
  then show ?thesis using log_refines_distinct [of "log_run cs" "full_log cs"] assms by (simp add: log_refines_def)
qed

theorem log_is_latest_of_history_witness:
  "\<forall>d. map (\<lambda>e. (pl_ID e, PlaybackSucceeded e))
      (logged (log_run [AddEntry 0 d ''tv'' ''m'', AddEntry 0 d ''tv'' ''m'', SetOutcome ''dec-0-2'' True []]))
    = [(''dec-0-1'', None), (''dec-0-2'', Some True)]"
proof
  fix d
  let ?cs = "[AddEntry 0 d ''tv'' ''m'', AddEntry 0 d ''tv'' ''m'', SetOutcome ''dec-0-2'' True []]"
  have i: "Itoa 0 = ''0''" "Itoa 1 = ''1''" "Itoa 2 = ''2''" by code_simp+
  have "logged (log_run ?cs) = drop (length (full_log ?cs) - 10000) (full_log ?cs)"
    using log_is_latest_of_history [of ?cs] by (simp add: additions_def)
  then show "map (\<lambda>e. (pl_ID e, PlaybackSucceeded e)) (logged (log_run ?cs)) = [(''dec-0-1'', None), (''dec-0-2'', Some True)]"
    by (simp add: full_log_def log_entry_def i)
qed

section \<open>Queries\<close>

text \<open>
  The pages of a query, of \<open>l\<close> entries each, are together the entries that match it, newest first, each of them once.
\<close>

theorem query_pages_cover_log:
  assumes "0 < l"
  shows "concat (map (\<lambda>k. DL_Query (q\<lparr>dq_Limit := int l, dq_Offset := int (k * l)\<rparr>) dl) [0..<n])
    = take (n * l) (filter (matches q) (rev (logged dl)))"
proof -
  have m: "matches (q\<lparr>dq_Limit := x, dq_Offset := y\<rparr>) = matches q" for x y
    by (simp add: matches_def fun_eq_iff)
  have "DL_Query (q\<lparr>dq_Limit := int l, dq_Offset := int (k * l)\<rparr>) dl
      = take l (drop (k * l) (filter (matches q) (rev (logged dl))))" for k
    using assms by (auto simp: DL_Query_def Let_def m of_nat_mult [symmetric] simp del: of_nat_mult)
  then show ?thesis by (simp only: take_pages)
qed

definition all_decisions :: DecisionQuery where
  "all_decisions = \<lparr>dq_DeviceID = [], dq_From = zeroTime, dq_To = zeroTime, dq_Limit = 0, dq_Offset = 0\<rparr>"

theorem query_pages_cover_log_witness:
  "concat (map (\<lambda>k. DL_Query (all_decisions\<lparr>dq_Limit := int 2, dq_Offset := int (k * 2)\<rparr>) NewDecisionLogger) [0..<3])
    = take (3 * 2) (filter (matches all_decisions) (rev (logged NewDecisionLogger)))"
  by (rule query_pages_cover_log) simp

text \<open>
  An outcome is recorded exactly when the log still holds the decision, and shows there and nowhere else.
\<close>

lemma find_update_first:
  assumes "\<And>e. pl_ID (f e) = pl_ID e"
  shows "fst (update_first i f es) = (find (\<lambda>e. pl_ID e = i) es \<noteq> None)"
    "find (\<lambda>e. pl_ID e = j) (snd (update_first i f es)) =
       (if j = i then map_option f (find (\<lambda>e. pl_ID e = i) es) else find (\<lambda>e. pl_ID e = j) es)"
  by (induction es) (auto simp: assms case_prod_beta)

theorem outcome_reaches_its_decision:
  "(case UpdateOutcome i b r dl of (found, dl') \<Rightarrow> (found = (DL_GetByID i dl \<noteq> None)) \<and>
     (\<forall>j. DL_GetByID j dl' = (if j = i then map_option (\<lambda>e. e\<lparr>PlaybackSucceeded := Some b, FailureReason := r\<rparr>) (DL_GetByID i dl)
        else DL_GetByID j dl)))"
  by (simp add: UpdateOutcome_def DL_GetByID_def case_prod_beta find_update_first)

section \<open>Statistics\<close>

lemma number_bounds: "0 \<le> number p es" "number p es \<le> int (length es)"
  by (simp_all add: number_def)

lemma number_mono: "(\<And>e. p e \<Longrightarrow> q e) \<Longrightarrow> number p es \<le> number q es"
  by (induction es) (auto simp: number_def)

lemma percent_range: "0 \<le> k \<Longrightarrow> k \<le> n \<Longrightarrow> n \<le> 2 ^ 53 \<Longrightarrow> 0 \<le> share k n \<and> share k n \<le> 100"
proof -
  assume a: "0 \<le> k" "k \<le> n" "n \<le> 2 ^ 53"
  have r: "0 \<le> fdiv (ffromint k) (ffromint n)" "fdiv (ffromint k) (ffromint n) \<le> 1" using rate_unit [OF a] by simp_all
  have "0 \<le> fl (fdiv (ffromint k) (ffromint n) * 100)"
    using r(1) by (intro f64.rnd_nonneg) simp
  moreover have "fl (fdiv (ffromint k) (ffromint n) * 100) \<le> fl 100"
    using r(2) by (intro fl_mono) simp
  moreover have "fl 100 = 100" using f64.rnd_int [of 100] by simp
  ultimately show ?thesis unfolding share_def fmul_def by simp
qed

text \<open>The type of a logged decision is the text of one of the four constructors.\<close>

definition typed :: "DecisionLogger \<Rightarrow> bool" where
  "typed dl \<longleftrightarrow> (\<forall>e \<in> set (logged dl). pl_DecisionType e \<in> {''direct_play'', ''remux'', ''transcode'', ''fallback''})"

lemma DecisionType_String_range: "DecisionType_String t \<in> {''direct_play'', ''remux'', ''transcode'', ''fallback''}"
  by (cases t) simp_all

lemma update_first_types: "(\<And>e. pl_DecisionType (f e) = pl_DecisionType e) \<Longrightarrow>
    pl_DecisionType ` set (snd (update_first i f es)) = pl_DecisionType ` set es"
  by (induction es) (auto simp: case_prod_beta)

lemma drop_if_subset: "set (if b then drop n xs else xs) \<subseteq> set xs"
  by (simp add: set_drop_subset)

lemma typed_types: "typed dl \<longleftrightarrow> pl_DecisionType ` set (logged dl) \<subseteq> {''direct_play'', ''remux'', ''transcode'', ''fallback''}"
  unfolding typed_def image_subset_iff by (rule HOL.refl)

lemma typed_step:
  assumes "typed dl"
  shows "typed (log_step dl c)"
proof (cases c)
  case (AddEntry t d dev item)
  let ?e = "fst (DL_Log t d dev item dl)"
  have e: "pl_DecisionType ?e = DecisionType_String (d_Type d)"
    by (simp add: DL_Log_def log_entry_def case_prod_beta Let_def)
  have "set (logged (log_step dl c)) \<subseteq> set (logged dl @ [?e])"
    unfolding AddEntry log_step.simps DL_Log_parts Let_def by (rule drop_if_subset)
  then have "pl_DecisionType ` set (logged (log_step dl c)) \<subseteq> pl_DecisionType ` set (logged dl @ [?e])"
    by (rule image_mono)
  also have "\<dots> \<subseteq> {''direct_play'', ''remux'', ''transcode'', ''fallback''}"
    using assms DecisionType_String_range [of "d_Type d"] unfolding typed_types e [symmetric] set_append image_Un by simp
  finally show ?thesis unfolding typed_types .
next
  case (SetOutcome i b r)
  have "pl_DecisionType ` set (logged (log_step dl c)) = pl_DecisionType ` set (logged dl)"
    by (simp add: SetOutcome UpdateOutcome_def case_prod_beta update_first_types)
  then show ?thesis using assms unfolding typed_types by (simp only:)
qed

lemma typed_run: "typed dl \<Longrightarrow> typed (foldl log_step dl cs)"
  by (induction cs arbitrary: dl) (simp_all add: typed_step)

lemma kinds_add_up:
  "(\<forall>e \<in> set es. pl_DecisionType e \<in> {''direct_play'', ''remux'', ''transcode'', ''fallback''}) \<Longrightarrow>
     number (\<lambda>e. pl_DecisionType e = ''direct_play'') es + number (\<lambda>e. pl_DecisionType e = ''remux'') es
     + number (\<lambda>e. pl_DecisionType e = ''transcode'') es + number (\<lambda>e. pl_DecisionType e = ''fallback'') es = int (length es)"
  by (induction es) (auto simp: number_def)

text \<open>
  The statistics of a reachable log: the four kinds of decision add up to their total, and every share lies between
  zero and a hundred per cent.
\<close>

theorem decision_stats_add_up:
  assumes "additions cs < 2 ^ 63"
  shows "let st = DL_Stats (log_run cs) in
    DirectPlayCount st + RemuxCount st + TranscodeCount st + FallbackCount st = TotalDecisions st
    \<and> list_all (\<lambda>x. 0 \<le> x \<and> x \<le> 100) [DirectPlayPercent st, RemuxPercent st, TranscodePercent st, FallbackPercent st,
        HDRPreservedPercent st, ToneMappedPercent st, HWAccelPercent st, ds_SuccessRate st, ds_FailureRate st]"
proof -
  let ?es = "logged (log_run cs)"
  have t: "typed (log_run cs)"
    using typed_run [of NewDecisionLogger cs] by (simp add: log_run_def typed_def NewDecisionLogger_def)
  have "log_refines (log_run cs) (full_log cs)" using log_refines_run [OF log_refines_new, of cs] assms by (simp add: log_run_def full_log_def)
  then have len: "int (length ?es) \<le> 10000" by (simp add: log_refines_def)
  have p: "0 \<le> share (number q ?es) (int (length ?es)) \<and> share (number q ?es) (int (length ?es)) \<le> 100" for q
    using number_bounds [of q ?es] len by (intro percent_range) simp_all
  have h: "0 \<le> share (number (\<lambda>e. PlaybackSucceeded e = Some b) ?es) (number (\<lambda>e. PlaybackSucceeded e \<noteq> None) ?es)
      \<and> share (number (\<lambda>e. PlaybackSucceeded e = Some b) ?es) (number (\<lambda>e. PlaybackSucceeded e \<noteq> None) ?es) \<le> 100" for b
    using number_bounds [of "\<lambda>e. PlaybackSucceeded e = Some b" ?es] number_bounds [of "\<lambda>e. PlaybackSucceeded e \<noteq> None" ?es] len
    by (intro percent_range number_mono) auto
  have k: "number (\<lambda>e. pl_DecisionType e = ''direct_play'') ?es + number (\<lambda>e. pl_DecisionType e = ''remux'') ?es
     + number (\<lambda>e. pl_DecisionType e = ''transcode'') ?es + number (\<lambda>e. pl_DecisionType e = ''fallback'') ?es = int (length ?es)"
    using t unfolding typed_def by (rule kinds_add_up)
  show ?thesis
  proof (cases "int (length ?es) = 0")
    case True
    then show ?thesis by (simp add: DL_Stats_def Let_def zeroDecisionStats_def)
  next
    case False
    then show ?thesis using k p h [of True] h [of False] by (simp add: DL_Stats_def Let_def)
  qed
qed

theorem decision_stats_add_up_witness:
  "DirectPlayCount (DL_Stats (log_run [AddEntry 0 d ''tv'' ''m''])) + RemuxCount (DL_Stats (log_run [AddEntry 0 d ''tv'' ''m'']))
    + TranscodeCount (DL_Stats (log_run [AddEntry 0 d ''tv'' ''m''])) + FallbackCount (DL_Stats (log_run [AddEntry 0 d ''tv'' ''m'']))
    = TotalDecisions (DL_Stats (log_run [AddEntry 0 d ''tv'' ''m'']))"
  using decision_stats_add_up [of "[AddEntry 0 d ''tv'' ''m'']"] by (simp add: Let_def)

end
