(* ===== verification/Admin.thy ===== *)
theory Admin
  imports Devices Fuzzy DecisionLog
begin

text \<open>
  The administration handlers, \<^verbatim>\<open>internal/api/admin.go\<close>. \<^verbatim>\<open>GetByID\<close> of the curated database returns a pointer into it, so
  a handler that assigns to the fields of a device changes the database before it calls \<^verbatim>\<open>UpdateDevice\<close>; here the
  changed record is put back under its key first. The embedded loader, the SQL outcomes, the clock, the parsers of
  dates and the texts of times are arguments. The details of a refusal (the errors of the validator) are left out, and so
  is that \<^verbatim>\<open>AddDevice\<close> writes into the devices of the embedded loader when they are synchronised.
\<close>

record AdminHandlers =
  ah_validator :: Validator
  ah_cache :: CapabilityCache
  ah_curated :: CuratedDatabase
  decisionLogger :: "DecisionLogger option"

definition NewAdminHandlers :: "Validator \<Rightarrow> CapabilityCache \<Rightarrow> CuratedDatabase \<Rightarrow> AdminHandlers" where
  "NewAdminHandlers v c d = \<lparr>ah_validator = v, ah_cache = c, ah_curated = d, decisionLogger = None\<rparr>"

definition SetDecisionLogger :: "DecisionLogger option \<Rightarrow> AdminHandlers \<Rightarrow> AdminHandlers" where
  "SetDecisionLogger dl h = h\<lparr>decisionLogger := dl\<rparr>"

section \<open>Requests and responses\<close>

record SystemInfoResponse =
  sy_Version :: string
  GoVersion :: string
  sy_OS :: string
  sy_Arch :: string
  NumCPU :: int
  StartTime :: time
  Uptime :: string
  Environment :: string

record CacheStatsResponse =
  cs_Hits :: int
  cs_Misses :: int
  cs_MemorySize :: int
  cs_SQLiteSize :: int
  cs_Evictions :: int
  HitRate :: float64

record DatabaseStatsResponse =
  db_Stats :: DatabaseStats
  db_Platforms :: "string list"

record ValidatorStatsResponse =
  TotalValidations :: int
  ValidCount :: int
  InvalidCount :: int
  AnomalyCount :: int
  ValidationRate :: float64

record CacheCleanupRequest =
  ClearMemory :: bool
  ClearSQLite :: bool
  ExpiredOnly :: bool

record CacheCleanupResponse =
  cl_Success :: bool
  MemoryCleared :: int
  SQLiteCleared :: int
  cl_Message :: string

record CuratedDeviceUpdateRequest =
  cu_DeviceID :: string
  cu_Name :: string
  cu_Manufacturer :: string
  cu_Model :: string
  cu_Capabilities :: "DeviceCapabilities option"
  cu_Verified :: bool
  cu_Notes :: string

record CuratedDeviceUpdateResponse =
  cv_Success :: bool
  cv_DeviceID :: string
  cv_Message :: string

record AnomalySummary =
  an_DeviceID :: string
  an_AnomalyType :: string
  an_Count :: int
  an_LastSeen :: time
  an_Severity :: string

record AnomalyReport =
  TotalAnomalies :: int
  AnomaliesByType :: "(string, int) gomap"
  RecentAnomalies :: "AnomalySummary list"

record CreateCuratedDeviceRequest =
  cq_ID :: string
  cq_DeviceHash :: string
  cq_Name :: string
  cq_Manufacturer :: string
  cq_Model :: string
  cq_Platform :: string
  cq_OSVersions :: "string list"
  cq_Capabilities :: "DeviceCapabilities option"
  cq_RecommendedProfile :: string
  cq_KnownIssues :: "KnownIssue list"
  cq_Source :: string
  cq_Notes :: string

record FuzzyMatchRequest =
  fq_DeviceName :: string
  fq_Platform :: string
  fq_Limit :: int

record FuzzyMatchResponse =
  fs_Query :: string
  fs_Results :: "FuzzyMatchResult list"
  TotalFound :: int

record EmbeddedBundleInfo =
  eb_Platform :: string
  eb_Manufacturer :: string
  eb_Version :: string
  eb_LastUpdated :: string
  eb_Source :: string
  eb_DeviceCount :: int
  VerifiedCount :: int

record EmbeddedStatsResponse =
  es_Version :: string
  es_TotalDevices :: int
  es_Platforms :: "string list"
  LoadedAt :: string
  PlatformsInfo :: "(string, EmbeddedBundleInfo) gomap"

record importRequest =
  im_Devices :: "CuratedDevice option list"
  MergeStrategy :: string

section \<open>Statistics and maintenance\<close>

definition handleGetSystemInfo :: "string \<Rightarrow> string \<Rightarrow> string \<Rightarrow> int \<Rightarrow> time \<Rightarrow> SystemInfoResponse http_reply" where
  "handleGetSystemInfo goVersion os arch cpus now =
     Replied \<lparr>sy_Version = ''1.0.0'', GoVersion = goVersion, sy_OS = os, sy_Arch = arch, NumCPU = cpus, StartTime = now,
       Uptime = ''0s'', Environment = ''production''\<rparr>"

definition handleGetCacheStats :: "bool \<Rightarrow> AdminHandlers \<Rightarrow> CacheStatsResponse http_reply" where
  "handleGetCacheStats ok h =
     (let s = CC_GetStats ok (ah_cache h); n = Hits s + Misses s
      in Replied \<lparr>cs_Hits = Hits s, cs_Misses = Misses s, cs_MemorySize = MemorySize s, cs_SQLiteSize = SQLiteSize s,
           cs_Evictions = Evictions s, HitRate = (if n > 0 then fmul (fdiv (ffromint (Hits s)) (ffromint n)) 100 else 0)\<rparr>)"

definition handleGetDatabaseStats :: "AdminHandlers \<Rightarrow> DatabaseStatsResponse http_reply" where
  "handleGetDatabaseStats h =
     Replied \<lparr>db_Stats = CuratedDatabase.stats (ah_curated h),
       db_Platforms = [''ios'', ''android'', ''windows'', ''macos'', ''linux'', ''tvos'', ''chromecast'', ''roku'', ''firetv'',
         ''xbox'', ''playstation'', ''apple_tv'', ''web'', ''chromeos'']\<rparr>"

definition handleGetValidatorStats :: "AdminHandlers \<Rightarrow> ValidatorStatsResponse http_reply" where
  "handleGetValidatorStats h =
     Replied \<lparr>TotalValidations = 0, ValidCount = 0, InvalidCount = 0, AnomalyCount = 0, ValidationRate = 0\<rparr>"

definition handleCacheCleanup ::
  "bool \<Rightarrow> time \<Rightarrow> CacheCleanupRequest option \<Rightarrow> AdminHandlers \<Rightarrow> CacheCleanupResponse http_reply \<times> AdminHandlers" where
  "handleCacheCleanup ok now bd h =
     (let expiredOnly = (case bd of None \<Rightarrow> True | Some req \<Rightarrow> ExpiredOnly req);
          (cleared, ca) = DeleteExpired ok now (ah_cache h)
      in (Replied \<lparr>cl_Success = True, MemoryCleared = 0, SQLiteCleared = cleared,
            cl_Message = (if expiredOnly then ''Expired entries removed'' else ''All cache cleared'')\<rparr>,
          h\<lparr>ah_cache := ca\<rparr>))"

definition handleGetMemoryCache ::
  "bool \<Rightarrow> bool \<Rightarrow> time \<Rightarrow> AdminHandlers \<Rightarrow> (int \<times> CacheStats \<times> int \<times> (string \<times> string \<times> int \<times> time) list) http_reply" where
  "handleGetMemoryCache ok1 ok2 now h =
     (let top = (case GetMostAccessed ok2 now 10 (ah_cache h) of Inl _ \<Rightarrow> [] | Inr es \<Rightarrow> es)
      in Replied (GetMemorySize (ah_cache h), CC_GetStats ok1 (ah_cache h), int (length top),
           map (\<lambda>e. (''hidden'', cc_Source e, AccessCount e, LastAccessed e)) top))"

definition handleGetAnomalies :: "AdminHandlers \<Rightarrow> AnomalyReport http_reply" where
  "handleGetAnomalies h = Replied \<lparr>TotalAnomalies = 0, AnomaliesByType = [], RecentAnomalies = []\<rparr>"

definition handleHealthCheck :: "AdminHandlers \<Rightarrow> (string \<times> bool \<times> (string \<times> bool) list) http_reply" where
  "handleHealthCheck h =
     Replied (''healthy'', True, [(''cache'', True), (''database'', True), (''validator'', True)])"

section \<open>Curated devices\<close>

definition missing_id :: "'b http_reply" where
  "missing_id = Refused 400 ''missing_device_id'' ''Device ID is required''"

definition no_device :: "'b http_reply" where
  "no_device = Refused 404 ''device_not_found'' ''Device not found''"

definition edited :: "CuratedDeviceUpdateRequest \<Rightarrow> CuratedDevice \<Rightarrow> CuratedDevice" where
  "edited req d0 =
     (let d1 = (if cu_Name req \<noteq> [] then d0\<lparr>cd_Name := cu_Name req\<rparr> else d0);
          d2 = (if cu_Manufacturer req \<noteq> [] then d1\<lparr>cd_Manufacturer := cu_Manufacturer req\<rparr> else d1);
          d3 = (if cu_Model req \<noteq> [] then d2\<lparr>cd_Model := cu_Model req\<rparr> else d2);
          d4 = (if cu_Capabilities req \<noteq> None then d3\<lparr>CuratedDevice.Capabilities := cu_Capabilities req\<rparr> else d3);
          d5 = (if cu_Verified req then d4\<lparr>Verified := True\<rparr> else d4)
      in if cu_Notes req \<noteq> [] then d5\<lparr>Notes := cu_Notes req\<rparr> else d5)"

text \<open>The device under its key is changed in place, then saved.\<close>

definition change_device ::
  "time \<Rightarrow> string \<Rightarrow> (CuratedDevice \<Rightarrow> CuratedDevice) \<Rightarrow> string \<Rightarrow> AdminHandlers \<Rightarrow>
     CuratedDeviceUpdateResponse http_reply \<times> AdminHandlers" where
  "change_device now i f msg h =
     (case GetByID i (ah_curated h) of
        None \<Rightarrow> (no_device, h)
      | Some d0 \<Rightarrow>
          let d = f d0; db1 = (ah_curated h)\<lparr>devices := gput (devices (ah_curated h)) i d\<rparr>
          in case UpdateDevice now d db1 of
               (Some _, db2) \<Rightarrow> (Refused 500 ''update_failed'' ''Failed to update device'', h\<lparr>ah_curated := db2\<rparr>)
             | (None, db2) \<Rightarrow> (Replied \<lparr>cv_Success = True, cv_DeviceID = i, cv_Message = msg\<rparr>, h\<lparr>ah_curated := db2\<rparr>))"

definition handleUpdateCuratedDevice ::
  "time \<Rightarrow> CuratedDeviceUpdateRequest option \<Rightarrow> AdminHandlers \<Rightarrow> CuratedDeviceUpdateResponse http_reply \<times> AdminHandlers" where
  "handleUpdateCuratedDevice now bd h =
     (case bd of
        None \<Rightarrow> (bad_body, h)
      | Some req \<Rightarrow>
          if cu_DeviceID req = [] then (missing_id, h)
          else change_device now (cu_DeviceID req) (edited req) ''Device updated successfully'' h)"

definition handleVerifyDevice ::
  "time \<Rightarrow> string \<Rightarrow> AdminHandlers \<Rightarrow> CuratedDeviceUpdateResponse http_reply \<times> AdminHandlers" where
  "handleVerifyDevice now deviceID h =
     (if deviceID = [] then (missing_id, h)
      else change_device now deviceID (\<lambda>d. d\<lparr>Verified := True, cd_LastUpdated := now\<rparr>) ''Device verified successfully'' h)"

definition remove_device ::
  "bool \<Rightarrow> string \<Rightarrow> string \<Rightarrow> AdminHandlers \<Rightarrow> CuratedDeviceUpdateResponse http_reply \<times> AdminHandlers" where
  "remove_device ok i msg h =
     (case RemoveDevice i (ah_curated h) of
        (Some _, cdb) \<Rightarrow> (Refused 500 ''delete_failed'' ''Failed to remove device'', h)
      | (None, cdb) \<Rightarrow> (Replied \<lparr>cv_Success = True, cv_DeviceID = i, cv_Message = msg\<rparr>,
          h\<lparr>ah_curated := cdb, ah_cache := CC_Delete ok i (ah_cache h)\<rparr>))"

definition handleRemoveCuratedDevice ::
  "bool \<Rightarrow> string \<Rightarrow> AdminHandlers \<Rightarrow> CuratedDeviceUpdateResponse http_reply \<times> AdminHandlers" where
  "handleRemoveCuratedDevice ok deviceID h =
     (if deviceID = [] then (missing_id, h) else remove_device ok deviceID ''Device removed successfully'' h)"

definition handleDeleteCuratedDevice ::
  "bool \<Rightarrow> string \<Rightarrow> AdminHandlers \<Rightarrow> CuratedDeviceUpdateResponse http_reply \<times> AdminHandlers" where
  "handleDeleteCuratedDevice ok deviceID h =
     (if deviceID = [] then (missing_id, h)
      else case GetByID deviceID (ah_curated h) of
        None \<Rightarrow> (no_device, h)
      | Some d \<Rightarrow>
          if Verified d \<and> cd_Source d = ''official''
          then (Refused 403 ''protected_device'' ''Cannot delete verified official devices. Unverify first.'', h)
          else remove_device ok deviceID ''Device deleted successfully'' h)"

definition incomplete :: "CreateCuratedDeviceRequest \<Rightarrow> bool" where
  "incomplete req \<longleftrightarrow> cq_Name req = [] \<or> cq_Manufacturer req = [] \<or> cq_Model req = [] \<or> cq_Platform req = []"

definition missing_fields :: "'b http_reply" where
  "missing_fields = Refused 400 ''missing_required_fields'' ''name, manufacturer, model, and platform are required''"

definition device_of :: "time \<Rightarrow> CreateCuratedDeviceRequest \<Rightarrow> CuratedDevice" where
  "device_of now req =
     \<lparr>cd_ID = cq_ID req, DeviceHash = cq_DeviceHash req, cd_Name = cq_Name req, cd_Manufacturer = cq_Manufacturer req,
      cd_Model = cq_Model req, cd_Platform = cq_Platform req, DeviceClass = [], Year = 0, SoC = [], SoCAliases = [],
      OSVersions = cq_OSVersions req, Capabilities = cq_Capabilities req, RecommendedProfile = cq_RecommendedProfile req,
      KnownIssues = cq_KnownIssues req, cd_Source = cq_Source req, VotesUp = 0, VotesDown = 0, Verified = False,
      Notes = cq_Notes req, cd_LastUpdated = now, CreatedAt = now\<rparr>"

text \<open>The capabilities of a request, if it has any, are validated; the validator remembers anomalies.\<close>

definition validated ::
  "slice_view \<Rightarrow> (duration \<Rightarrow> string) \<Rightarrow> time \<Rightarrow> DeviceCapabilities option \<Rightarrow> AdminHandlers \<Rightarrow> bool \<times> AdminHandlers" where
  "validated view showd now caps h =
     (case caps of
        None \<Rightarrow> (True, h)
      | Some c \<Rightarrow> (let (r, v) = ValidateCapabilities view showd now (Some c) (ah_validator h)
                   in (IsValid r, h\<lparr>ah_validator := v\<rparr>)))"

definition invalid_caps :: "'b http_reply" where
  "invalid_caps = Refused 400 ''invalid_capabilities'' ''Capabilities validation failed''"

text \<open>The device as \<^verbatim>\<open>AddDevice\<close> leaves it.\<close>

definition added :: "time \<Rightarrow> CuratedDevice \<Rightarrow> CuratedDevice" where
  "added now d0 =
     (let d1 = d0\<lparr>cd_ID := generateDeviceID now d0\<rparr>
      in d1\<lparr>DeviceHash := generateDeviceHash d1, CreatedAt := now, cd_LastUpdated := now\<rparr>)"

definition handleCreateCuratedDevice ::
  "slice_view \<Rightarrow> (duration \<Rightarrow> string) \<Rightarrow> time \<Rightarrow> CreateCuratedDeviceRequest option \<Rightarrow> AdminHandlers \<Rightarrow>
     CuratedDevice http_reply \<times> AdminHandlers" where
  "handleCreateCuratedDevice view showd now bd h0 =
     (case bd of
        None \<Rightarrow> (bad_body, h0)
      | Some req \<Rightarrow>
          if incomplete req then (missing_fields, h0)
          else let (ok, h) = validated view showd now (cq_Capabilities req) h0
               in if \<not> ok then (invalid_caps, h)
                  else let d0 = device_of now req;
                           d1 = (if cd_Source d0 = [] then d0\<lparr>cd_Source := ''community''\<rparr> else d0)
                       in (Replied (added now d1), h\<lparr>ah_curated := AddDevice now d1 (ah_curated h)\<rparr>))"

definition handlePutCuratedDevice ::
  "slice_view \<Rightarrow> (duration \<Rightarrow> string) \<Rightarrow> time \<Rightarrow> string \<Rightarrow> CreateCuratedDeviceRequest option \<Rightarrow> AdminHandlers \<Rightarrow>
     CuratedDevice http_reply \<times> AdminHandlers" where
  "handlePutCuratedDevice view showd now deviceID bd h0 =
     (if deviceID = [] then (missing_id, h0)
      else case bd of
        None \<Rightarrow> (bad_body, h0)
      | Some req \<Rightarrow>
          if incomplete req then (missing_fields, h0)
          else case GetByID deviceID (ah_curated h0) of
            None \<Rightarrow> (no_device, h0)
          | Some old \<Rightarrow>
              let d = (device_of now req)\<lparr>cd_ID := deviceID, Verified := Verified old, CreatedAt := CreatedAt old,
                        VotesUp := VotesUp old, VotesDown := VotesDown old\<rparr>;
                  (ok, h) = validated view showd now (cq_Capabilities req) h0
              in if \<not> ok then (invalid_caps, h)
                 else case UpdateDevice now d (ah_curated h) of
                   (Some _, cdb) \<Rightarrow> (Refused 500 ''update_failed'' ''Failed to update device'', h\<lparr>ah_curated := cdb\<rparr>)
                 | (None, cdb) \<Rightarrow> (Replied (d\<lparr>cd_LastUpdated := now\<rparr>), h\<lparr>ah_curated := cdb\<rparr>))"

definition handleVoteCuratedDevice ::
  "time \<Rightarrow> string \<Rightarrow> bool option \<Rightarrow> AdminHandlers \<Rightarrow> (string \<times> (int \<times> int) option) http_reply \<times> AdminHandlers" where
  "handleVoteCuratedDevice now deviceID bd h =
     (if deviceID = [] then (missing_id, h)
      else let up = (case bd of None \<Rightarrow> True | Some b \<Rightarrow> b)
           in case Vote now deviceID up (ah_curated h) of
                (Some _, cdb) \<Rightarrow> (Refused 500 ''vote_failed'' ''Failed to vote on device'', h)
              | (None, cdb) \<Rightarrow>
                  (Replied (deviceID, map_option (\<lambda>d. (VotesUp d, VotesDown d)) (GetByID deviceID cdb)),
                   h\<lparr>ah_curated := cdb\<rparr>))"

definition handleFuzzySearchCuratedDevices ::
  "fuzzy_find \<Rightarrow> (string, string) gomap \<Rightarrow> FuzzyMatchRequest option \<Rightarrow> AdminHandlers \<Rightarrow> FuzzyMatchResponse http_reply" where
  "handleFuzzySearchCuratedDevices ff abbrs bd h =
     (case bd of
        None \<Rightarrow> bad_body
      | Some req \<Rightarrow>
          if fq_DeviceName req = [] then Refused 400 ''missing_device_name'' ''device_name is required''
          else let rs = MatchDevice ff abbrs (fq_DeviceName req) (fq_Platform req)
                      (if fq_Limit req \<le> 0 then 10 else fq_Limit req) (ah_curated h)
               in Replied \<lparr>fs_Query = fq_DeviceName req, fs_Results = rs, TotalFound = int (length rs)\<rparr>)"

definition handleVersionMatch ::
  "fuzzy_find \<Rightarrow> (string, string) gomap \<Rightarrow> (string \<times> string) option \<Rightarrow> AdminHandlers \<Rightarrow> VersionMatchResult http_reply" where
  "handleVersionMatch ff abbrs bd h =
     (case bd of
        None \<Rightarrow> bad_body
      | Some (name, pform) \<Rightarrow>
          if name = [] then Refused 400 ''missing_device_name'' ''device_name is required''
          else Replied ((VersionAwareMatch ff abbrs name pform (ah_curated h))\<lparr>AllMatches := []\<rparr>))"

section \<open>Embedded data, export and import\<close>

definition bundle_info :: "EmbeddedDeviceBundle \<Rightarrow> EmbeddedBundleInfo" where
  "bundle_info b =
     (let m = Metadata b
      in \<lparr>eb_Platform = [], eb_Manufacturer = bm_Manufacturer m, eb_Version = Version m, eb_LastUpdated = bm_LastUpdated m,
          eb_Source = bm_Source m, eb_DeviceCount = int (length (Curated.Devices b)),
          VerifiedCount = int (length (filter Verified (Curated.Devices b)))\<rparr>)"

definition handleGetEmbeddedStats :: "(time \<Rightarrow> string) \<Rightarrow> EmbeddedLoader \<Rightarrow> EmbeddedStatsResponse http_reply" where
  "handleGetEmbeddedStats rfc3339 el =
     Replied \<lparr>es_Version = version el, es_TotalDevices = (\<Sum>(p, b)\<leftarrow>platforms el. eb_DeviceCount (bundle_info b)),
       es_Platforms = GetPlatforms el, LoadedAt = rfc3339 (loadedAt el),
       PlatformsInfo = map (\<lambda>(p, b). (p, bundle_info b)) (platforms el)\<rparr>"

text \<open>The clock moves from one device to the next.\<close>

fun add_all :: "(nat \<Rightarrow> time) \<Rightarrow> nat \<Rightarrow> CuratedDevice list \<Rightarrow> CuratedDatabase \<Rightarrow> CuratedDatabase" where
  "add_all clock k [] cdb = cdb"
| "add_all clock k (d # ds) cdb = add_all clock (Suc k) ds (AddDevice (clock k) d cdb)"

definition handleSyncEmbeddedToCuratedDB ::
  "(nat \<Rightarrow> time) \<Rightarrow> EmbeddedLoader \<Rightarrow> string option \<Rightarrow> AdminHandlers \<Rightarrow> (int \<times> string) http_reply \<times> AdminHandlers" where
  "handleSyncEmbeddedToCuratedDB clock el bd h =
     (let pform = (case bd of None \<Rightarrow> [] | Some p \<Rightarrow> p)
      in if pform \<noteq> []
         then (case gget (platforms el) pform of
                 None \<Rightarrow> (Refused 404 ''platform_not_found'' ''Platform not found in embedded data'', h)
               | Some b \<Rightarrow> (Replied (int (length (Curated.Devices b)), pform),
                   h\<lparr>ah_curated := add_all clock 0 (Curated.Devices b) (ah_curated h)\<rparr>))
         else (Replied (GetTotalCount el, []), h\<lparr>ah_curated := LoadIntoCuratedDB (clock 0) el (ah_curated h)\<rparr>))"

definition handleExportCuratedDevices ::
  "string \<Rightarrow> string \<Rightarrow> AdminHandlers \<Rightarrow> (string \<times> string \<times> CuratedDevice list) http_reply" where
  "handleExportCuratedDevices pform fmt h =
     (if fmt = [] \<or> fmt = ''json''
      then let ds = (if pform \<noteq> [] then GetByPlatform pform (ah_curated h) else GetAll (ah_curated h))
           in Replied (pform, Itoa (int (length ds)), ds)
      else Refused 400 ''unsupported_format'' ''Only JSON format is supported'')"

record import_counts =
  imported :: int
  skipped :: int
  import_errors :: int
  errorDetails :: "string list"

definition keep_votes :: "time \<Rightarrow> CuratedDevice \<Rightarrow> CuratedDevice \<Rightarrow> CuratedDevice" where
  "keep_votes now old d = d\<lparr>cd_ID := cd_ID old, CreatedAt := CreatedAt old, cd_LastUpdated := now,
     VotesUp := VotesUp old, VotesDown := VotesDown old\<rparr>"

text \<open>What the strategy makes of a device: \<open>None\<close> skips it.\<close>

definition merged :: "string \<Rightarrow> time \<Rightarrow> CuratedDevice option \<Rightarrow> CuratedDevice \<Rightarrow> CuratedDevice option" where
  "merged strategy now old d =
     (case old of
        None \<Rightarrow> Some d
      | Some e \<Rightarrow>
          if strategy = ''skip'' then None
          else if strategy = ''overwrite'' then Some (keep_votes now e d)
          else if strategy = ''upsert''
               then (if VotesUp d \<le> VotesUp e \<and> \<not> Verified d then None else Some (keep_votes now e d))
          else Some d)"

definition with_times :: "time \<Rightarrow> CuratedDevice \<Rightarrow> CuratedDevice" where
  "with_times now d0 =
     (let d = (if IsZero (CreatedAt d0) then d0\<lparr>CreatedAt := now\<rparr> else d0)
      in if IsZero (cd_LastUpdated d) then d\<lparr>cd_LastUpdated := now\<rparr> else d)"

text \<open>A null device in the list is dereferenced: what was imported before it stays, and the handler panics.\<close>

fun import_all ::
  "string \<Rightarrow> (nat \<Rightarrow> time) \<Rightarrow> nat \<Rightarrow> CuratedDevice option list \<Rightarrow> import_counts \<Rightarrow> CuratedDatabase \<Rightarrow>
     import_counts option \<times> CuratedDatabase" where
  "import_all strategy clock k [] n cdb = (Some n, cdb)"
| "import_all strategy clock k (None # ds) n cdb = (None, cdb)"
| "import_all strategy clock k (Some d # ds) n cdb =
     (if cd_Name d = [] \<or> cd_Manufacturer d = [] \<or> cd_Model d = [] \<or> cd_Platform d = []
      then import_all strategy clock (Suc k) ds (n\<lparr>import_errors := import_errors n + 1,
             errorDetails := errorDetails n @ [''validation: missing required fields'']\<rparr>) cdb
      else case merged strategy (clock k) (GetByID (cd_ID d) cdb) d of
        None \<Rightarrow> import_all strategy clock (Suc k) ds (n\<lparr>skipped := skipped n + 1\<rparr>) cdb
      | Some d' \<Rightarrow> import_all strategy clock (Suc k) ds (n\<lparr>imported := imported n + 1\<rparr>)
          (AddDevice (clock k) (with_times (clock k) d') cdb))"

definition handleImportCuratedDevices ::
  "(nat \<Rightarrow> time) \<Rightarrow> importRequest option \<Rightarrow> AdminHandlers \<Rightarrow> (import_counts \<times> int) http_reply \<times> AdminHandlers" where
  "handleImportCuratedDevices clock bd h =
     (case bd of
        None \<Rightarrow> (bad_body, h)
      | Some req \<Rightarrow>
          if im_Devices req = [] then (Refused 400 ''no_devices'' ''No devices to import'', h)
          else let strategy = (if MergeStrategy req = [] then ''upsert'' else MergeStrategy req);
                   (n, cdb) = import_all strategy clock 0 (im_Devices req)
                     \<lparr>imported = 0, skipped = 0, import_errors = 0, errorDetails = []\<rparr> (ah_curated h)
               in (case n of None \<Rightarrow> Panicked | Some c \<Rightarrow> Replied (c, int (length (im_Devices req))), h\<lparr>ah_curated := cdb\<rparr>))"

section \<open>The decision log\<close>

definition positive_param :: "int \<Rightarrow> int \<Rightarrow> string \<Rightarrow> int" where
  "positive_param lo dflt s =
     (if s = [] then dflt else case Atoi s of Some v \<Rightarrow> if v \<ge> lo then v else dflt | None \<Rightarrow> dflt)"

definition decision_query ::
  "(string \<Rightarrow> time option) \<Rightarrow> (string \<Rightarrow> time option) \<Rightarrow> string \<Rightarrow> string \<Rightarrow> string \<Rightarrow> string \<Rightarrow> string \<Rightarrow> DecisionQuery" where
  "decision_query parse3339 parseDate deviceId limit offset from_date to_date =
     (let f = (case parse3339 from_date of Some t \<Rightarrow> t | None \<Rightarrow> (case parseDate from_date of Some t \<Rightarrow> t | None \<Rightarrow> zeroTime));
          u = (case parse3339 to_date of Some t \<Rightarrow> t
                 | None \<Rightarrow> (case parseDate to_date of Some t \<Rightarrow> Add t (24 * Hour - 1) | None \<Rightarrow> zeroTime))
      in \<lparr>dq_DeviceID = deviceId, dq_From = (if from_date = [] then zeroTime else f),
          dq_To = (if to_date = [] then zeroTime else u), dq_Limit = min 1000 (positive_param 1 100 limit),
          dq_Offset = positive_param 0 0 offset\<rparr>)"

definition handleGetDecisions ::
  "(string \<Rightarrow> time option) \<Rightarrow> (string \<Rightarrow> time option) \<Rightarrow> string \<Rightarrow> string \<Rightarrow> string \<Rightarrow> string \<Rightarrow> string \<Rightarrow> AdminHandlers \<Rightarrow>
     (PlaybackDecisionLog list \<times> int) http_reply" where
  "handleGetDecisions parse3339 parseDate deviceId limit offset from_date to_date h =
     (case decisionLogger h of
        None \<Rightarrow> Refused 503 ''not_available'' ''Decision logger not configured''
      | Some dl \<Rightarrow> let rs = DL_Query (decision_query parse3339 parseDate deviceId limit offset from_date to_date) dl
                    in Replied (rs, int (length rs)))"

definition handleGetDecisionStats :: "AdminHandlers \<Rightarrow> DecisionStats http_reply" where
  "handleGetDecisionStats h =
     (case decisionLogger h of
        None \<Rightarrow> Refused 503 ''not_available'' ''Decision logger not configured''
      | Some dl \<Rightarrow> Replied (DL_Stats dl))"

section \<open>Adding and importing\<close>

lemma AddDevice_devices:
  "gget (devices (AddDevice now d cdb)) i = (if i = generateDeviceID now d then Some (added now d) else gget (devices cdb) i)"
  by (simp add: AddDevice_def added_def Let_def calculateStats_def store_def updateIndexes_def gget_gput)

lemma added_id [simp]: "cd_ID (added now d) = generateDeviceID now d"
  by (simp add: added_def Let_def)

lemma generated_id [simp]:
  "generateDeviceID now (with_times t d) = generateDeviceID now d" "generateDeviceID now (keep_votes t e d) = generateDeviceID now d"
  by (simp_all add: generateDeviceID_def with_times_def keep_votes_def Let_def)

text \<open>An import adds devices under new identifiers; what is under another identifier stays.\<close>

lemma import_all_keeps:
  assumes "\<And>k d. generateDeviceID (clock k) d \<noteq> i"
  shows "gget (devices (snd (import_all strategy clock k ds n cdb))) i = gget (devices cdb) i"
  using assms
proof (induction strategy clock k ds n cdb rule: import_all.induct)
qed (auto simp: AddDevice_devices split: option.split)

text \<open>
  C27. The strategy \<^verbatim>\<open>overwrite\<close> does not overwrite: \<^verbatim>\<open>AddDevice\<close> gives every device a new identifier, so the device that was to be
  replaced stays as it was and the imported one stands beside it.
\<close>

theorem overwrite_adds_a_copy:
  assumes "GetByID (cd_ID d) (ah_curated h) = Some e"
    "cd_Name d \<noteq> []" "cd_Manufacturer d \<noteq> []" "cd_Model d \<noteq> []" "cd_Platform d \<noteq> []"
    "generateDeviceID (clock 0) d \<noteq> cd_ID d"
  shows "\<exists>n h' c. handleImportCuratedDevices clock (Some \<lparr>im_Devices = [Some d], MergeStrategy = ''overwrite''\<rparr>) h
        = (Replied (n, 1), h')
    \<and> imported n = 1 \<and> GetByID (cd_ID d) (ah_curated h') = Some e
    \<and> GetByID (generateDeviceID (clock 0) d) (ah_curated h') = Some c \<and> cd_Name c = cd_Name d"
proof -
  have "cd_Name (added t (with_times t (keep_votes t e d))) = cd_Name d" for t
    by (simp add: added_def with_times_def keep_votes_def Let_def)
  then show ?thesis
    using assms by (simp add: handleImportCuratedDevices_def merged_def GetByID_def AddDevice_devices)
qed

definition one_curated :: AdminHandlers where
  "one_curated = NewAdminHandlers NewValidator empty_cache
     (NewCuratedDatabase\<lparr>devices := [(''tv1'', sample_device\<lparr>cd_ID := ''tv1'', cd_Name := ''TV'', cd_Manufacturer := ''Acme'',
        cd_Model := ''M'', cd_Platform := ''web'', Verified := True, cd_Source := ''official''\<rparr>)]\<rparr>)"

definition newer_tv :: CuratedDevice where
  "newer_tv = sample_device\<lparr>cd_ID := ''tv1'', cd_Name := ''New TV'', cd_Manufacturer := ''Acme'', cd_Model := ''M'',
     cd_Platform := ''web''\<rparr>"

theorem overwrite_adds_a_copy_witness:
  "\<exists>e n h' c. handleImportCuratedDevices (\<lambda>k. int k) (Some \<lparr>im_Devices = [Some newer_tv], MergeStrategy = ''overwrite''\<rparr>) one_curated
        = (Replied (n, 1), h')
    \<and> imported n = 1 \<and> GetByID ''tv1'' (ah_curated h') = Some e \<and> cd_Name e = ''TV''
    \<and> GetByID ''acme-m-web-0'' (ah_curated h') = Some c \<and> cd_Name c = ''New TV''"
proof -
  have id: "generateDeviceID (int 0) newer_tv = ''acme-m-web-0''"
    unfolding newer_tv_def generateDeviceID_def by simp code_simp
  obtain e where e: "GetByID (cd_ID newer_tv) (ah_curated one_curated) = Some e" "cd_Name e = ''TV''"
    by (simp add: newer_tv_def one_curated_def NewAdminHandlers_def GetByID_def gget_def)
  have "generateDeviceID (int 0) newer_tv \<noteq> cd_ID newer_tv" unfolding id by (simp add: newer_tv_def)
  from overwrite_adds_a_copy [where clock = "\<lambda>k. int k", OF e(1) _ _ _ _ this]
  have "\<exists>n h' c. handleImportCuratedDevices (\<lambda>k. int k) (Some \<lparr>im_Devices = [Some newer_tv], MergeStrategy = ''overwrite''\<rparr>) one_curated
        = (Replied (n, 1), h')
    \<and> imported n = 1 \<and> GetByID ''tv1'' (ah_curated h') = Some e
    \<and> GetByID ''acme-m-web-0'' (ah_curated h') = Some c \<and> cd_Name c = ''New TV''"
    unfolding id by (simp add: newer_tv_def)
  then show ?thesis using e(2) by blast
qed

text \<open>
  A device is created unverified, under the identifier that the answer names, and only when the request is complete and
  its capabilities, if it has any, are valid; a refusal leaves the database as it was.
\<close>

theorem created_devices_are_unverified:
  "case handleCreateCuratedDevice view showd now bd h of
     (Replied d, h') \<Rightarrow> GetByID (cd_ID d) (ah_curated h') = Some d \<and> \<not> Verified d \<and> cd_Name d \<noteq> []
       \<and> (\<exists>req. bd = Some req \<and> fst (validated view showd now (cq_Capabilities req) h))
   | (_, h') \<Rightarrow> ah_curated h' = ah_curated h"
proof (cases bd)
  case (Some req)
  define d1 where "d1 = (let d0 = device_of now req in if cd_Source d0 = [] then d0\<lparr>cd_Source := ''community''\<rparr> else d0)"
  obtain ok h1 where v: "validated view showd now (cq_Capabilities req) h = (ok, h1)" by fastforce
  then have c: "ah_curated h1 = ah_curated h" by (auto simp: validated_def case_prod_beta split: option.splits)
  have e: "handleCreateCuratedDevice view showd now bd h =
      (if incomplete req then (missing_fields, h) else if \<not> ok then (invalid_caps, h1)
       else (Replied (added now d1), h1\<lparr>ah_curated := AddDevice now d1 (ah_curated h1)\<rparr>))"
    by (simp add: handleCreateCuratedDevice_def Some v d1_def Let_def)
  have d: "\<not> Verified (added now d1)" "cd_Name (added now d1) = cq_Name req"
    by (simp_all add: added_def device_of_def d1_def Let_def)
  show ?thesis
    unfolding e using c d v Some
    by (simp add: missing_fields_def invalid_caps_def incomplete_def GetByID_def AddDevice_devices)
qed (simp add: handleCreateCuratedDevice_def bad_body_def)

text \<open>
  Replacing a device keeps its votes, its verification and the time of its creation, and changes no other device; a
  refusal leaves the database as it was.
\<close>

lemma UpdateDevice_found:
  assumes "gget (devices cdb) (cd_ID d) \<noteq> None" "cd_ID d \<noteq> []"
  shows "UpdateDevice now d cdb = (None, cdb\<lparr>devices := gput (devices cdb) (cd_ID d) (d\<lparr>cd_LastUpdated := now\<rparr>)\<rparr>)"
  using assms by (auto simp: UpdateDevice_def)

theorem replacing_keeps_votes:
  "case handlePutCuratedDevice view showd now i bd h of
     (Replied d, h') \<Rightarrow> (\<exists>old. GetByID i (ah_curated h) = Some old \<and> (VotesUp d, VotesDown d) = (VotesUp old, VotesDown old)
         \<and> Verified d = Verified old \<and> CreatedAt d = CreatedAt old)
       \<and> (\<forall>j. GetByID j (ah_curated h') = (if j = i then Some d else GetByID j (ah_curated h)))
   | (_, h') \<Rightarrow> ah_curated h' = ah_curated h"
proof (cases bd)
  case (Some req)
  obtain ok h1 where v: "validated view showd now (cq_Capabilities req) h = (ok, h1)" by fastforce
  then have c: "ah_curated h1 = ah_curated h" by (auto simp: validated_def case_prod_beta split: option.splits)
  show ?thesis
  proof (cases "i = [] \<or> incomplete req \<or> GetByID i (ah_curated h) = None \<or> \<not> ok")
    case True
    then show ?thesis
      by (auto simp: handlePutCuratedDevice_def Some v c missing_id_def missing_fields_def no_device_def invalid_caps_def Let_def
        split: option.split)
  next
    case False
    then obtain old where old: "GetByID i (ah_curated h) = Some old" and f: "i \<noteq> []" "\<not> incomplete req" "ok" by auto
    let ?d = "(device_of now req)\<lparr>cd_ID := i, Verified := Verified old, CreatedAt := CreatedAt old,
      VotesUp := VotesUp old, VotesDown := VotesDown old\<rparr>"
    have "UpdateDevice now ?d (ah_curated h) =
        (None, (ah_curated h)\<lparr>devices := gput (devices (ah_curated h)) i (?d\<lparr>cd_LastUpdated := now\<rparr>)\<rparr>)"
      using old f(1) UpdateDevice_found [of "ah_curated h" ?d now] by (simp add: GetByID_def)
    then show ?thesis
      using old f by (simp add: handlePutCuratedDevice_def Some v c Let_def GetByID_def gget_gput)
  qed
qed (simp add: handlePutCuratedDevice_def bad_body_def missing_id_def)

section \<open>Removing\<close>

lemma RemoveDevice_devices:
  "RemoveDevice i cdb = (None, cdb') \<Longrightarrow> gget (devices cdb') i = None"
  by (auto simp: RemoveDevice_def calculateStats_def Let_def gget_gdel split: option.splits)

text \<open>
  C20. A verified official device is protected by one of the two routes that delete devices and not by the other: the same
  request succeeds there.
\<close>

theorem protection_has_a_way_round:
  assumes "GetByID i (ah_curated h) = Some d" "Verified d" "cd_Source d = ''official''" "i \<noteq> []"
  shows "handleDeleteCuratedDevice ok i h =
      (Refused 403 ''protected_device'' ''Cannot delete verified official devices. Unverify first.'', h)
    \<and> (\<exists>resp h'. handleRemoveCuratedDevice ok i h = (Replied resp, h') \<and> cv_Success resp \<and> GetByID i (ah_curated h') = None)"
proof -
  obtain cdb where r: "RemoveDevice i (ah_curated h) = (None, cdb)"
    using assms(1) by (simp add: RemoveDevice_def GetByID_def)
  then have "GetByID i cdb = None" using RemoveDevice_devices by (simp add: GetByID_def)
  then show ?thesis
    using assms r by (simp add: handleDeleteCuratedDevice_def handleRemoveCuratedDevice_def remove_device_def)
qed

theorem protection_has_a_way_round_witness:
  "\<exists>h'. snd (handleRemoveCuratedDevice True ''tv1'' one_curated) = h' \<and> GetByID ''tv1'' (ah_curated h') = None"
proof -
  obtain d where "GetByID ''tv1'' (ah_curated one_curated) = Some d" "Verified d" "cd_Source d = ''official''"
    by (simp add: one_curated_def NewAdminHandlers_def GetByID_def gget_def)
  from protection_has_a_way_round [OF this, of True] show ?thesis by auto
qed

section \<open>The cache and the log\<close>

text \<open>
  A request to clear the whole cache only removes what has expired: every live entry of the memory stays, and the answer
  says that all was cleared.
\<close>

theorem clearing_keeps_live_entries:
  assumes "\<not> ExpiredOnly req" "gget (memoryCache (ah_cache h)) i = Some e" "\<not> isExpired now e"
    "gwf (memoryCache (ah_cache h))"
  shows "\<exists>resp h'. handleCacheCleanup ok now (Some req) h = (Replied resp, h') \<and> cl_Message resp = ''All cache cleared''
    \<and> gget (memoryCache (ah_cache h')) i = Some e"
proof -
  have "memoryCache (snd (DeleteExpired ok now c)) = gfilter (\<lambda>_ e. \<not> isExpired now e) (memoryCache c)" for c
    by (simp add: DeleteExpired_def Let_def case_prod_beta)
  then have "gget (memoryCache (snd (DeleteExpired ok now (ah_cache h)))) i = Some e"
    using assms(2-4) by (simp add: gomap_simps)
  then show ?thesis
    using assms(1) by (simp add: handleCacheCleanup_def case_prod_beta)
qed

theorem clearing_keeps_live_entries_witness:
  "\<exists>resp h' e. handleCacheCleanup True 5 (Some \<lparr>ClearMemory = True, ClearSQLite = True, ExpiredOnly = False\<rparr>)
        (one_curated\<lparr>ah_cache := snd (CC_Set True 0 ''tv'' (Some zeroCapabilities) ''probe'' empty_cache)\<rparr>) = (Replied resp, h')
    \<and> cl_Message resp = ''All cache cleared'' \<and> gget (memoryCache (ah_cache h')) ''tv'' = Some e \<and> cc_Source e = ''probe''"
proof -
  let ?h = "one_curated\<lparr>ah_cache := snd (CC_Set True 0 ''tv'' (Some zeroCapabilities) ''probe'' empty_cache)\<rparr>"
  let ?req = "\<lparr>ClearMemory = True, ClearSQLite = True, ExpiredOnly = False\<rparr>"
  obtain e where m: "memoryCache (ah_cache ?h) = [(''tv'', e)]" and e: "\<not> isExpired 5 e" "cc_Source e = ''probe''"
    by (simp add: CC_Set_def Let_def empty_cache_def uses_db_def gput_def Add_def isExpired_def After_def)
  then have "gget (memoryCache (ah_cache ?h)) ''tv'' = Some e" "gwf (memoryCache (ah_cache ?h))" "\<not> ExpiredOnly ?req"
    by (simp_all add: gget_def gwf_def)
  from clearing_keeps_live_entries [OF this(3,1) e(1) this(2)] e(2) show ?thesis by blast
qed

text \<open>A query of the decision log returns at most a thousand entries, whatever its parameters, and only entries that the log holds.\<close>

theorem decision_query_bounded:
  "case handleGetDecisions parse3339 parseDate dev limit offset f t h of
     Replied (rs, n) \<Rightarrow> n = int (length rs) \<and> n \<le> 1000
       \<and> (\<exists>dl. decisionLogger h = Some dl \<and> set rs \<subseteq> set (logged dl))
   | _ \<Rightarrow> decisionLogger h = None"
proof (cases "decisionLogger h")
  case (Some dl)
  define q where "q = decision_query parse3339 parseDate dev limit offset f t"
  have q: "handleGetDecisions parse3339 parseDate dev limit offset f t h =
      Replied (DL_Query q dl, int (length (DL_Query q dl)))" "dq_Limit q = min 1000 (positive_param 1 100 limit)"
    by (simp_all add: handleGetDecisions_def Some q_def decision_query_def Let_def)
  have "0 < dq_Limit q" unfolding q(2) by (auto simp: positive_param_def split: option.split)
  then have "int (length (DL_Query q dl)) \<le> dq_Limit q" by (auto simp: DL_Query_def Let_def)
  then have "int (length (DL_Query q dl)) \<le> 1000" unfolding q(2) by simp
  moreover have "set (DL_Query q dl) \<subseteq> set (logged dl)"
    by (auto simp: DL_Query_def Let_def dest!: in_set_takeD in_set_dropD split: if_splits)
  ultimately show ?thesis unfolding q(1) by (simp add: Some)
qed (simp add: handleGetDecisions_def)

end
