(* ===== verification/Health.thy ===== *)
theory Health
  imports Media
begin

text \<open>
  The health checks of \<^verbatim>\<open>internal/metrics/health.go\<close>. The answers of the database, of the programs, of the file system
  and of the Go runtime are the parameter of a check, and so is the text of a latency. The free space of a file system
  and the memory of the machine are not asked for: \<^verbatim>\<open>unixStat\<close> and \<^verbatim>\<open>readMemInfo\<close> answer constants.
\<close>

section \<open>Data\<close>

record HealthChecker =
  hc_db :: bool
  mediaPaths :: "string list"
  ffmpegPath :: string
  ffprobePath :: string

record CheckResult =
  cr_Status :: string
  cr_Message :: string
  cr_Latency :: string

record HealthStatus =
  hs_Status :: string
  hs_Timestamp :: time
  hs_Checks :: "(string, CheckResult) gomap"

text \<open>What \<^verbatim>\<open>os.Stat\<close> answers.\<close>

datatype stat_answer = NotExist | Inaccessible | PlainFile | Directory

record HealthEnv =
  he_now :: time
  he_ping :: "string option"
  he_select :: "string option"
  he_version :: "string \<Rightarrow> string option"
  he_stat :: "string \<Rightarrow> stat_answer"
  he_tempDir :: string
  he_sys :: int
  he_alloc :: int
  he_goroutines :: int
  he_latency :: "string \<Rightarrow> string"

definition NewHealthChecker :: "bool \<Rightarrow> string list \<Rightarrow> string \<Rightarrow> string \<Rightarrow> HealthChecker" where
  "NewHealthChecker have_db paths ffmpeg ffprobe =
     \<lparr>hc_db = have_db, mediaPaths = paths, ffmpegPath = (if ffmpeg = [] then ''ffmpeg'' else ffmpeg),
      ffprobePath = (if ffprobe = [] then ''ffprobe'' else ffprobe)\<rparr>"

definition verdict :: "string \<Rightarrow> string \<Rightarrow> string \<Rightarrow> CheckResult" where
  "verdict st msg lat = \<lparr>cr_Status = st, cr_Message = msg, cr_Latency = lat\<rparr>"

section \<open>The checks\<close>

definition checkDatabase :: "HealthEnv \<Rightarrow> HealthChecker \<Rightarrow> CheckResult" where
  "checkDatabase e hc =
     (if \<not> hc_db hc then verdict ''fail'' ''database not configured'' []
      else case he_ping e of
        Some x \<Rightarrow> verdict ''fail'' (''database ping failed: '' @ x) []
      | None \<Rightarrow>
     (case he_select e of
        Some x \<Rightarrow> verdict ''fail'' (''query failed: '' @ x) []
      | None \<Rightarrow> verdict ''pass'' ''database healthy'' (he_latency e ''database'')))"

definition checkFFmpeg :: "HealthEnv \<Rightarrow> HealthChecker \<Rightarrow> CheckResult" where
  "checkFFmpeg e hc =
     (case he_version e (ffmpegPath hc) of
        Some x \<Rightarrow> verdict ''fail'' (''ffmpeg not available: '' @ x) []
      | None \<Rightarrow>
     (case he_version e (ffprobePath hc) of
        Some x \<Rightarrow> verdict ''fail'' (''ffprobe not available: '' @ x) []
      | None \<Rightarrow> verdict ''pass'' ''ffmpeg/ffprobe available'' (he_latency e ''ffmpeg'')))"

text \<open>Free and all bytes of the file system of a path.\<close>

definition unixStat :: "string \<Rightarrow> int \<times> int" where "unixStat path = (2 ^ 30, 10 * 2 ^ 30)"
definition getDiskSpace :: "string \<Rightarrow> int \<times> int" where "getDiskSpace path = unixStat path"

definition percent_of :: "int \<Rightarrow> int \<Rightarrow> float64" where
  "percent_of n d = fmul (fdiv (ffromint n) (ffromint d)) 100"

definition free_percent :: "string \<Rightarrow> float64" where
  "free_percent path = (case getDiskSpace path of (free, all) \<Rightarrow> percent_of free all)"

text \<open>What is said about a path, as pairs of whether it is an error and the text.\<close>

definition space_note :: "string \<Rightarrow> string \<Rightarrow> (bool \<times> string) list" where
  "space_note name path =
     (let p = free_percent path; msg = name @ '' only '' @ Fmt1 p @ ''% free''
      in if p < 5 then [(True, msg)] else if p < 10 then [(False, msg)] else [])"

definition path_note :: "HealthEnv \<Rightarrow> string \<Rightarrow> (bool \<times> string) list" where
  "path_note e path =
     (case he_stat e path of
        NotExist \<Rightarrow> [(False, ''media path does not exist: '' @ path)]
      | Inaccessible \<Rightarrow> [(True, ''cannot access media path: '' @ path)]
      | PlainFile \<Rightarrow> [(False, ''media path is not a directory: '' @ path)]
      | Directory \<Rightarrow> space_note path path)"

definition checkDiskSpace :: "HealthEnv \<Rightarrow> HealthChecker \<Rightarrow> CheckResult" where
  "checkDiskSpace e hc =
     (let notes = space_note ''temp dir'' (he_tempDir e) @ concat (map (path_note e) (mediaPaths hc));
          errors = [msg. (bad, msg) \<leftarrow> notes, bad]; warnings = [msg. (bad, msg) \<leftarrow> notes, \<not> bad]
      in case errors of
           x # _ \<Rightarrow> verdict ''fail'' (''critical: '' @ x) (he_latency e ''disk_space'')
         | [] \<Rightarrow> (case warnings of
             x # _ \<Rightarrow> verdict ''warn'' (''warnings: '' @ x) (he_latency e ''disk_space'')
           | [] \<Rightarrow> verdict ''pass'' ''disk space adequate'' (he_latency e ''disk_space'')))"

text \<open>All and free bytes of the machine's memory.\<close>

definition readMemInfo :: "int \<times> int" where "readMemInfo = (16 * 2 ^ 30, 8 * 2 ^ 30)"

definition checkMemory :: "HealthEnv \<Rightarrow> HealthChecker \<Rightarrow> CheckResult" where
  "checkMemory e hc =
     (case readMemInfo of (all, free) \<Rightarrow>
      let used = percent_of (all - free) all; lat = he_latency e ''memory'';
          heap = fdiv (ffromint (he_alloc e)) (ffromint (he_sys e))
      in if all > 0 \<and> used > 95 then verdict ''fail'' (''system memory critical: '' @ Fmt1 used @ ''% used'') lat
         else if all > 0 \<and> used > 85 then verdict ''warn'' (''system memory high: '' @ Fmt1 used @ ''% used'') lat
         else if heap > lit 8 10 then verdict ''warn'' (''Go heap usage high: '' @ Fmt1 (fmul heap 100) @ ''% of sys memory'') lat
         else verdict ''pass'' (''memory: Go '' @ Fmt1 (fdiv (ffromint (he_alloc e)) 1000000) @ ''MB'') lat)"

definition checkGoroutines :: "HealthEnv \<Rightarrow> HealthChecker \<Rightarrow> CheckResult" where
  "checkGoroutines e hc =
     (let n = he_goroutines e; lat = he_latency e ''goroutines''
      in if n > 1000 then verdict ''fail'' (''excessive goroutines: '' @ Itoa n) lat
         else if n > 500 then verdict ''warn'' (''high goroutine count: '' @ Itoa n) lat
         else verdict ''pass'' (''goroutines: '' @ Itoa n) lat)"

definition health_checks :: "HealthEnv \<Rightarrow> HealthChecker \<Rightarrow> (string \<times> CheckResult) list" where
  "health_checks e hc = [(''database'', checkDatabase e hc), (''ffmpeg'', checkFFmpeg e hc), (''disk_space'', checkDiskSpace e hc),
     (''memory'', checkMemory e hc), (''goroutines'', checkGoroutines e hc)]"

definition Check :: "HealthEnv \<Rightarrow> HealthChecker \<Rightarrow> HealthStatus" where
  "Check e hc =
     (let rs = health_checks e hc; says = (\<lambda>st. list_ex (\<lambda>(_, r). cr_Status r = st) rs)
      in \<lparr>hs_Status = (if says ''fail'' then ''unhealthy'' else if says ''warn'' then ''degraded'' else ''healthy''),
          hs_Timestamp = he_now e, hs_Checks = fold (\<lambda>(n, r) m. gput m n r) rs []\<rparr>)"

definition LivenessCheck :: "HealthChecker \<Rightarrow> bool" where "LivenessCheck hc \<longleftrightarrow> True"

definition ReadinessCheck :: "HealthEnv \<Rightarrow> HealthChecker \<Rightarrow> bool" where
  "ReadinessCheck e hc \<longleftrightarrow> \<not> (hc_db hc \<and> he_ping e \<noteq> None)"

section \<open>What decides the verdict\<close>

lemma disk_never_full: "10 \<le> free_percent path"
proof -
  have "ffromint (2 ^ 30) = 2 ^ 30" "ffromint (10 * 2 ^ 30) = 10 * 2 ^ 30"
    using fl_of_int [of "2 ^ 30"] fl_of_int [of "10 * 2 ^ 30"] by (simp_all add: ffromint_def)
  then have p: "free_percent path = fl (fl (1 / 10) * 100)"
    by (simp add: free_percent_def getDiskSpace_def unixStat_def percent_of_def fmul_def fdiv_def)
  have "(10 :: rat) \<le> fl (1 / 10) * 100" by code_simp
  then have "fl 10 \<le> fl (fl (1 / 10) * 100)" by (rule fl_mono)
  moreover have "fl 10 = 10" using fl_of_int [of 10] by simp
  ultimately show ?thesis using p by simp
qed

lemma memory_never_short: "percent_of (fst readMemInfo - snd readMemInfo) (fst readMemInfo) = 50"
  by code_simp


lemma space_silent: "space_note name path = []"
proof -
  have "\<not> free_percent path < 10" "\<not> free_percent path < 5" using disk_never_full [of path] by linarith+
  then show ?thesis by (simp add: space_note_def Let_def)
qed

lemma disk_verdict: "cr_Status (checkDiskSpace e hc) =
    (if list_ex (\<lambda>p. he_stat e p = Inaccessible) (mediaPaths hc) then ''fail''
     else if list_ex (\<lambda>p. he_stat e p \<noteq> Directory) (mediaPaths hc) then ''warn'' else ''pass'')"
proof -
  let ?notes = "concat (map (path_note e) (mediaPaths hc))"
  have b: "[msg. (bad, msg) \<leftarrow> ?notes, bad] = [] \<longleftrightarrow> \<not> list_ex (\<lambda>p. he_stat e p = Inaccessible) (mediaPaths hc)"
    by (induction "mediaPaths hc") (auto simp: path_note_def space_silent list_ex_iff split: stat_answer.splits)
  have w: "[msg. (bad, msg) \<leftarrow> ?notes, \<not> bad] = [] \<longleftrightarrow> \<not> list_ex (\<lambda>p. he_stat e p \<in> {NotExist, PlainFile}) (mediaPaths hc)"
    by (auto simp: path_note_def space_silent list_ex_iff split: stat_answer.splits)
  have o: "he_stat e p \<noteq> Directory \<longleftrightarrow> he_stat e p = Inaccessible \<or> he_stat e p \<in> {NotExist, PlainFile}" for p
    by (cases "he_stat e p") simp_all
  have "cr_Status (checkDiskSpace e hc) = (if [msg. (bad, msg) \<leftarrow> ?notes, bad] \<noteq> [] then ''fail''
      else if [msg. (bad, msg) \<leftarrow> ?notes, \<not> bad] \<noteq> [] then ''warn'' else ''pass'')"
    unfolding checkDiskSpace_def Let_def space_silent append_Nil verdict_def
    by (cases "[msg. (bad, msg) \<leftarrow> ?notes, bad]"; cases "[msg. (bad, msg) \<leftarrow> ?notes, \<not> bad]") (simp_all only: list.case list.distinct simp_thms if_True if_False CheckResult.simps)
  then show ?thesis unfolding b w o by (simp add: list_ex_iff)
qed

lemma memory_verdict: "cr_Status (checkMemory e hc) =
    (if fdiv (ffromint (he_alloc e)) (ffromint (he_sys e)) > lit 8 10 then ''warn'' else ''pass'')"
  using memory_never_short by (simp add: checkMemory_def verdict_def Let_def case_prod_beta)

text \<open>
  The verdict depends on the database, the two programs, the state of the media paths, the number of goroutines and the
  share of the heap only: full disks and exhausted memory are never reported.
\<close>

theorem health_verdict:
  "hs_Status (Check e hc) =
    (if \<not> hc_db hc \<or> he_ping e \<noteq> None \<or> he_select e \<noteq> None \<or> he_version e (ffmpegPath hc) \<noteq> None
        \<or> he_version e (ffprobePath hc) \<noteq> None \<or> list_ex (\<lambda>p. he_stat e p = Inaccessible) (mediaPaths hc)
        \<or> 1000 < he_goroutines e
     then ''unhealthy''
     else if list_ex (\<lambda>p. he_stat e p \<noteq> Directory) (mediaPaths hc) \<or> 500 < he_goroutines e
        \<or> lit 8 10 < fdiv (ffromint (he_alloc e)) (ffromint (he_sys e))
     then ''degraded'' else ''healthy'')"
proof -
  have d: "cr_Status (checkDatabase e hc) = (if \<not> hc_db hc \<or> he_ping e \<noteq> None \<or> he_select e \<noteq> None then ''fail'' else ''pass'')"
    by (auto simp: checkDatabase_def verdict_def split: option.splits)
  have f: "cr_Status (checkFFmpeg e hc)
      = (if he_version e (ffmpegPath hc) \<noteq> None \<or> he_version e (ffprobePath hc) \<noteq> None then ''fail'' else ''pass'')"
    by (auto simp: checkFFmpeg_def verdict_def split: option.splits)
  have g: "cr_Status (checkGoroutines e hc)
      = (if 1000 < he_goroutines e then ''fail'' else if 500 < he_goroutines e then ''warn'' else ''pass'')"
    by (simp add: checkGoroutines_def verdict_def Let_def)
  show ?thesis unfolding Check_def health_checks_def Let_def by (simp add: d f g disk_verdict memory_verdict)
qed

text \<open>A server without a database is unhealthy, and ready.\<close>

theorem ready_without_database:
  "hs_Status (Check e (NewHealthChecker False paths ffmpeg ffprobe)) = ''unhealthy''
    \<and> ReadinessCheck e (NewHealthChecker False paths ffmpeg ffprobe)"
  by (simp add: Check_def health_checks_def checkDatabase_def verdict_def NewHealthChecker_def ReadinessCheck_def)

end
