(* ===== verification/Configuration.thy ===== *)
theory Configuration
  imports Users Codec Events
begin

text \<open>
  The configuration of \<^verbatim>\<open>internal/config/config.go\<close>: the structure of the file, the defaults, the secret that
  \<^verbatim>\<open>GenerateJWTSecret\<close> makes. The reader of files, the YAML decoder, which sets the fields that the
  file mentions of the value it is given, the random bytes and the hash \<^verbatim>\<open>xxh3\<close> are arguments. The part \<open>AuthConfig\<close> that the router reads is
  in Users and is extended here.
\<close>

section \<open>Data\<close>

record TLSConfig =
  tls_Enabled :: bool
  tls_CertPath :: string
  tls_KeyPath :: string

record ServerConfig =
  sv_Host :: string
  sv_Port :: int
  sv_ReadTimeout :: duration
  sv_WriteTimeout :: duration
  sv_IdleTimeout :: duration
  sv_ShutdownTimeout :: duration
  sv_TLS :: TLSConfig

record DatabaseConfig =
  dbc_Driver :: string
  dbc_DSN :: string
  dbc_MaxOpenConns :: int
  dbc_MaxIdleConns :: int
  dbc_ConnMaxLifetime :: duration

record LibraryConfig =
  lc_Name :: string
  lc_Path :: string
  lc_Type :: string
  lc_RefreshInterval :: duration

record TranscodingConfig =
  tr_Enabled :: bool
  tr_TempDir :: string
  tr_MaxConcurrent :: int
  tr_MaxBitrate :: int
  tr_VideoCodecs :: "string list"
  tr_AudioCodecs :: "string list"
  tr_Containers :: "string list"

record ProbeConfig =
  prc_Enabled :: bool
  prc_Timeout :: duration
  prc_MaxRetries :: int
  prc_ScenarioDelay :: duration

record QualityPreset =
  qp_Name :: string
  qp_MaxWidth :: int
  qp_MaxHeight :: int
  qp_MaxBitrate :: int

record QualityConfig =
  qc_Profiles :: "QualityPreset list"

record AuthSettings = AuthConfig +
  JWTExpiry :: duration
  RefreshExpiry :: duration
  RequireAuth :: "string list"
  PublicPaths :: "string list"
  AllowedOrigins :: "string list"
  ProductionMode :: bool

record LoggingConfig =
  lg_Level :: string
  lg_Format :: string
  lg_Output :: string
  lg_IncludeTimestamp :: bool
  lg_IncludeCaller :: bool

record SecurityConfig =
  EnableHeaders :: bool
  CSP :: string
  HSTSEnabled :: bool
  HSTSMaxAge :: int
  XFrameOptions :: string
  XContentTypeOptions :: string
  XXSSProtection :: string
  ReferrerPolicy :: string
  PermissionsPolicy :: string
  AdditionalHeaders :: "(string, string) gomap"

record AppConfig =
  cf_Server :: ServerConfig
  cf_Database :: DatabaseConfig
  cf_Libraries :: "LibraryConfig list"
  cf_Transcoding :: TranscodingConfig
  cf_Probe :: ProbeConfig
  cf_Quality :: QualityConfig
  cf_Auth :: AuthSettings
  cf_Logging :: LoggingConfig
  cf_Security :: SecurityConfig

text \<open>The zero value, into which the file is decoded.\<close>

definition zeroConfig :: AppConfig where
  "zeroConfig = \<lparr>
     cf_Server = \<lparr>sv_Host = [], sv_Port = 0, sv_ReadTimeout = 0, sv_WriteTimeout = 0, sv_IdleTimeout = 0, sv_ShutdownTimeout = 0,
       sv_TLS = \<lparr>tls_Enabled = False, tls_CertPath = [], tls_KeyPath = []\<rparr>\<rparr>,
     cf_Database = \<lparr>dbc_Driver = [], dbc_DSN = [], dbc_MaxOpenConns = 0, dbc_MaxIdleConns = 0, dbc_ConnMaxLifetime = 0\<rparr>,
     cf_Libraries = [],
     cf_Transcoding = \<lparr>tr_Enabled = False, tr_TempDir = [], tr_MaxConcurrent = 0, tr_MaxBitrate = 0, tr_VideoCodecs = [],
       tr_AudioCodecs = [], tr_Containers = []\<rparr>,
     cf_Probe = \<lparr>prc_Enabled = False, prc_Timeout = 0, prc_MaxRetries = 0, prc_ScenarioDelay = 0\<rparr>,
     cf_Quality = \<lparr>qc_Profiles = []\<rparr>,
     cf_Auth = \<lparr>APIKey = [], APIKeyHeader = [], JWTSecret = [], JWTExpiry = 0, RefreshExpiry = 0, RequireAuth = [], PublicPaths = [],
       AllowedOrigins = [], ProductionMode = False\<rparr>,
     cf_Logging = \<lparr>lg_Level = [], lg_Format = [], lg_Output = [], lg_IncludeTimestamp = False, lg_IncludeCaller = False\<rparr>,
     cf_Security = \<lparr>EnableHeaders = False, CSP = [], HSTSEnabled = False, HSTSMaxAge = 0, XFrameOptions = [], XContentTypeOptions = [],
       XXSSProtection = [], ReferrerPolicy = [], PermissionsPolicy = [], AdditionalHeaders = []\<rparr>\<rparr>"

section \<open>Defaults\<close>

text \<open>The value of a field, or the default where it is the zero value.\<close>

definition or_str :: "string \<Rightarrow> string \<Rightarrow> string" where "or_str d v = (if v = [] then d else v)"
definition or_int :: "int \<Rightarrow> int \<Rightarrow> int" where "or_int d v = (if v = 0 then d else v)"

definition dev_origins :: "string list" where
  "dev_origins = [''http://localhost:*'', ''http://127.0.0.1:*'']"

definition prod_csp :: string where
  "prod_csp = ''default-src 'self'; script-src 'self'; style-src 'self' 'unsafe-inline'; img-src 'self' data: blob:; '' @
     ''media-src 'self'; connect-src 'self'; frame-ancestors 'none';''"

definition dev_csp :: string where
  "dev_csp = ''default-src 'self' 'unsafe-inline' 'unsafe-eval'; script-src 'self' 'unsafe-inline' 'unsafe-eval'; '' @
     ''style-src 'self' 'unsafe-inline'; img-src 'self' data: blob:; media-src 'self' blob:; '' @
     ''connect-src 'self' ws://localhost:* http://localhost:*; frame-ancestors 'self';''"

definition security_defaults :: "bool \<Rightarrow> SecurityConfig \<Rightarrow> SecurityConfig" where
  "security_defaults production s = s\<lparr>
     CSP := or_str (if production then prod_csp else dev_csp) (CSP s),
     HSTSMaxAge := or_int (if production then 31536000 else 86400) (HSTSMaxAge s),
     XFrameOptions := or_str (if production then ''DENY'' else ''SAMEORIGIN'') (XFrameOptions s),
     XContentTypeOptions := or_str ''nosniff'' (XContentTypeOptions s),
     XXSSProtection := or_str ''1; mode=block'' (XXSSProtection s),
     ReferrerPolicy := or_str (if production then ''strict-origin-when-cross-origin'' else ''no-referrer-when-downgrade'') (ReferrerPolicy s),
     PermissionsPolicy := or_str ''geolocation=(), microphone=(), camera=(), payment=()'' (PermissionsPolicy s)\<rparr>"

definition applySecurityDefaults :: "AppConfig \<Rightarrow> AppConfig" where
  "applySecurityDefaults c = c\<lparr>cf_Security := security_defaults (ProductionMode (cf_Auth c)) (cf_Security c)\<rparr>"

definition server_defaults :: "ServerConfig \<Rightarrow> ServerConfig" where
  "server_defaults v = v\<lparr>sv_Host := or_str ''0.0.0.0'' (sv_Host v), sv_Port := or_int 8765 (sv_Port v),
     sv_ReadTimeout := or_int (30 * Second) (sv_ReadTimeout v), sv_WriteTimeout := or_int (30 * Second) (sv_WriteTimeout v),
     sv_IdleTimeout := or_int (120 * Second) (sv_IdleTimeout v), sv_ShutdownTimeout := or_int (30 * Second) (sv_ShutdownTimeout v)\<rparr>"

definition database_defaults :: "DatabaseConfig \<Rightarrow> DatabaseConfig" where
  "database_defaults d = d\<lparr>dbc_Driver := or_str ''sqlite'' (dbc_Driver d), dbc_DSN := or_str ''./data/tenkile.db'' (dbc_DSN d),
     dbc_MaxOpenConns := or_int 25 (dbc_MaxOpenConns d), dbc_MaxIdleConns := or_int 5 (dbc_MaxIdleConns d)\<rparr>"

definition logging_defaults :: "LoggingConfig \<Rightarrow> LoggingConfig" where
  "logging_defaults l = l\<lparr>lg_Level := or_str ''info'' (lg_Level l), lg_Format := or_str ''json'' (lg_Format l)\<rparr>"

definition auth_defaults :: "AuthSettings \<Rightarrow> AuthSettings" where
  "auth_defaults a = a\<lparr>APIKeyHeader := or_str ''X-API-Key'' (APIKeyHeader a), JWTExpiry := or_int (24 * Hour) (JWTExpiry a),
     RefreshExpiry := or_int (24 * Hour * 7) (RefreshExpiry a),
     AllowedOrigins := (if AllowedOrigins a = [] then if ProductionMode a then [] else dev_origins else AllowedOrigins a)\<rparr>"

definition applyDefaults :: "AppConfig \<Rightarrow> AppConfig" where
  "applyDefaults c = applySecurityDefaults (c\<lparr>cf_Server := server_defaults (cf_Server c), cf_Database := database_defaults (cf_Database c),
     cf_Logging := logging_defaults (cf_Logging c), cf_Auth := auth_defaults (cf_Auth c)\<rparr>)"

definition LoadConfig :: "(string \<Rightarrow> string + string) \<Rightarrow> (string \<Rightarrow> AppConfig \<Rightarrow> string + AppConfig) \<Rightarrow> string \<Rightarrow> string + AppConfig" where
  "LoadConfig readFile unmarshal path =
     (case readFile path of
        Inl e \<Rightarrow> Inl e
      | Inr data \<Rightarrow> (case unmarshal data zeroConfig of Inl e \<Rightarrow> Inl e | Inr c \<Rightarrow> Inr (applyDefaults c)))"

text \<open>Nothing is left at the zero value that has a default.\<close>

definition server_set :: "ServerConfig \<Rightarrow> bool" where
  "server_set v \<longleftrightarrow> sv_Host v \<noteq> []
     \<and> 0 \<notin> {sv_Port v, sv_ReadTimeout v, sv_WriteTimeout v, sv_IdleTimeout v, sv_ShutdownTimeout v}"

definition database_set :: "DatabaseConfig \<Rightarrow> bool" where
  "database_set d \<longleftrightarrow> dbc_Driver d \<noteq> [] \<and> dbc_DSN d \<noteq> [] \<and> dbc_MaxOpenConns d \<noteq> 0 \<and> dbc_MaxIdleConns d \<noteq> 0"

definition logging_set :: "LoggingConfig \<Rightarrow> bool" where "logging_set l \<longleftrightarrow> lg_Level l \<noteq> [] \<and> lg_Format l \<noteq> []"

definition auth_set :: "AuthSettings \<Rightarrow> bool" where
  "auth_set a \<longleftrightarrow> APIKeyHeader a \<noteq> [] \<and> JWTExpiry a \<noteq> 0 \<and> RefreshExpiry a \<noteq> 0 \<and> (AllowedOrigins a \<noteq> [] \<or> ProductionMode a)"

definition security_set :: "SecurityConfig \<Rightarrow> bool" where
  "security_set s \<longleftrightarrow> HSTSMaxAge s \<noteq> 0
     \<and> [] \<notin> {CSP s, XFrameOptions s, XContentTypeOptions s, XXSSProtection s, ReferrerPolicy s, PermissionsPolicy s}"

definition configured :: "AppConfig \<Rightarrow> bool" where
  "configured c \<longleftrightarrow> server_set (cf_Server c) \<and> database_set (cf_Database c) \<and> logging_set (cf_Logging c)
     \<and> auth_set (cf_Auth c) \<and> security_set (cf_Security c)"

lemma or_default [simp]: "v \<noteq> [] \<Longrightarrow> or_str d v = v" "n \<noteq> 0 \<Longrightarrow> or_int k n = n"
  "d \<noteq> [] \<Longrightarrow> or_str d v \<noteq> []" "k \<noteq> 0 \<Longrightarrow> or_int k n \<noteq> 0" "d \<noteq> [] \<Longrightarrow> [] \<noteq> or_str d v" "k \<noteq> 0 \<Longrightarrow> 0 \<noteq> or_int k n"
  by (simp_all add: or_str_def or_int_def)

lemma parts_set:
  "server_set (server_defaults v)" "database_set (database_defaults d)" "logging_set (logging_defaults l)"
  "auth_set (auth_defaults a)" "security_set (security_defaults p s)"
  by (simp_all add: server_set_def server_defaults_def database_set_def database_defaults_def logging_set_def logging_defaults_def
    auth_set_def auth_defaults_def dev_origins_def security_set_def security_defaults_def prod_csp_def dev_csp_def)

lemma parts_kept:
  "server_set v \<Longrightarrow> server_defaults v = v" "database_set d \<Longrightarrow> database_defaults d = d" "logging_set l \<Longrightarrow> logging_defaults l = l"
  "auth_set a \<Longrightarrow> auth_defaults a = a" "security_set s \<Longrightarrow> security_defaults p s = s"
  by (auto simp: server_set_def server_defaults_def database_set_def database_defaults_def logging_set_def logging_defaults_def
    auth_set_def auth_defaults_def security_set_def security_defaults_def)

text \<open>
  The defaults fill exactly what is missing: their result has everything configured, and they change a configuration
  exactly when something was missing, so applying them twice is applying them once. A timeout of zero, which switches
  it off in \<^verbatim>\<open>net/http\<close>, cannot be configured.
\<close>

theorem defaults_fill_what_is_missing:
  "configured (applyDefaults c) \<and> (applyDefaults c = c \<longleftrightarrow> configured c) \<and> applyDefaults (applyDefaults c) = applyDefaults c"
proof -
  have f: "configured (applyDefaults c)" for c
    by (simp add: configured_def applyDefaults_def applySecurityDefaults_def parts_set)
  have k: "applyDefaults c = c" if "configured c" for c
    using that by (simp add: configured_def applyDefaults_def applySecurityDefaults_def parts_kept)
  show ?thesis using f k by metis
qed

section \<open>Secrets, hashes, codecs\<close>

definition b64_code :: "nat \<Rightarrow> nat" where
  "b64_code i = (if i < 26 then 65 + i else if i < 52 then 97 + (i - 26) else if i < 62 then 48 + (i - 52) else if i = 62 then 43 else 47)"

definition b64_char :: "nat \<Rightarrow> char" where "b64_char i = char_of (b64_code i)"

text \<open>\<^verbatim>\<open>base64.StdEncoding\<close>, with padding.\<close>

fun EncodeToString :: "nat list \<Rightarrow> string" where
  "EncodeToString [] = []"
| "EncodeToString [a] = [b64_char (a div 4), b64_char (a mod 4 * 16), CHR ''='', CHR ''='']"
| "EncodeToString [a, b] = [b64_char (a div 4), b64_char (a mod 4 * 16 + b div 16), b64_char (b mod 16 * 4), CHR ''='']"
| "EncodeToString (a # b # c # bs) =
     [b64_char (a div 4), b64_char (a mod 4 * 16 + b div 16), b64_char (b mod 16 * 4 + c div 64), b64_char (c mod 64)] @ EncodeToString bs"

definition GenerateJWTSecret :: "(nat \<Rightarrow> string + nat list) \<Rightarrow> string + string" where
  "GenerateJWTSecret rnd = (case rnd 32 of Inl e \<Rightarrow> Inl e | Inr b \<Rightarrow> Inr (EncodeToString b))"

lemma b64_inj:
  assumes b: "i < 64" "j < 64" and "b64_char i = b64_char j"
  shows "i = j"
proof -
  from assms(3) have "(of_char (b64_char i) :: nat) = of_char (b64_char j)" by simp
  then have "b64_code i mod 256 = b64_code j mod 256" by (simp add: b64_char_def)
  moreover have "b64_code k < 256" if "k < 64" for k using that by (auto simp: b64_code_def)
  ultimately have "b64_code i = b64_code j" using b by simp
  then show "i = j" using b by (simp add: b64_code_def split: if_splits)
qed

lemma b64_pad: "i < 64 \<Longrightarrow> b64_char i \<noteq> CHR ''=''"
proof
  assume b: "i < 64" and "b64_char i = CHR ''=''"
  then have "(of_char (b64_char i) :: nat) = of_char (CHR ''='')" by simp
  then have "b64_code i mod 256 = 61" by (simp add: b64_char_def)
  then show False using b by (simp add: b64_code_def split: if_splits)
qed

lemma digit_split:
  fixes m :: nat
  assumes "x < m" and "y < m" and "p * m + x = q * m + y"
  shows "p = q \<and> x = y"
proof -
  have "(p * m + x) div m = p" "(q * m + y) div m = q" using assms(1,2) by simp_all
  then show ?thesis using assms(3) by simp
qed

lemma same_parts: "(a :: nat) div m = b div m \<Longrightarrow> a mod m = b mod m \<Longrightarrow> a = b"
  by (metis div_mult_mod_eq)

lemma first_byte:
  assumes "a < 256" "a' < 256" "x < 16" "y < 16"
    and "b64_char (a div 4) = b64_char (a' div 4)" and "b64_char (a mod 4 * 16 + x) = b64_char (a' mod 4 * 16 + y)"
  shows "a = a' \<and> x = y"
proof -
  have "a mod 4 * 16 + x < 64" "a' mod 4 * 16 + y < 64" "a div 4 < 64" "a' div 4 < 64" using assms(1-4) by linarith+
  then have "a div 4 = a' div 4" "a mod 4 * 16 + x = a' mod 4 * 16 + y" using assms(5,6) b64_inj by blast+
  then show ?thesis using digit_split [OF assms(3,4)] same_parts by blast
qed

lemma second_byte:
  assumes "x < 4" "y < 4" and "b div 16 = b' div 16" and "b64_char (b mod 16 * 4 + x) = b64_char (b' mod 16 * 4 + y)"
  shows "b = b' \<and> x = y"
proof -
  have "b mod 16 * 4 + x < 64" "b' mod 16 * 4 + y < 64" using assms(1,2) by linarith+
  then have "b mod 16 * 4 + x = b' mod 16 * 4 + y" using assms(4) b64_inj by blast
  then show ?thesis using digit_split [OF assms(1,2)] same_parts assms(3) by blast
qed

lemma third_byte:
  assumes "c div 64 = c' div 64" and "b64_char (c mod 64) = b64_char (c' mod 64)"
  shows "c = c'"
proof -
  have "c mod 64 < 64" "c' mod 64 < 64" by simp_all
  then have "c mod 64 = c' mod 64" using assms(2) b64_inj by blast
  then show ?thesis using same_parts assms(1) by blast
qed

lemma pads: "x < 64 \<Longrightarrow> b64_char x \<noteq> CHR ''=''" "x < 64 \<Longrightarrow> CHR ''='' \<noteq> b64_char x"
  using b64_pad by metis+

text \<open>Different bytes are written differently, so different random bytes give different secrets.\<close>

lemma EncodeToString_inj:
  "\<forall>b \<in> set xs. b < 256 \<Longrightarrow> \<forall>b \<in> set ys. b < 256 \<Longrightarrow> EncodeToString xs = EncodeToString ys \<Longrightarrow> xs = ys"
proof (induction xs arbitrary: ys rule: EncodeToString.induct)
  case 1
  then show ?case by (cases ys rule: EncodeToString.cases) simp_all
next
  case (2 a)
  consider "ys = []" | a' where "ys = [a']" | a' b' where "ys = [a', b']" | a' b' c' r where "ys = a' # b' # c' # r"
    by (cases ys rule: EncodeToString.cases)
  then show ?case
  proof cases
    case (2 a')
    then show ?thesis using "2.prems" first_byte [of a a' 0 0] by simp
  next
    case (3 a' b')
    have "b' mod 16 * 4 < 64" by simp
    then show ?thesis using "2.prems" 3 pads by simp
  next
    case (4 a' b' c' r)
    have "c' mod 64 < 64" by simp
    then show ?thesis using "2.prems" 4 pads by simp
  qed (use "2.prems" in simp)
next
  case (3 a b)
  consider "ys = []" | a' where "ys = [a']" | a' b' where "ys = [a', b']" | a' b' c' r where "ys = a' # b' # c' # r"
    by (cases ys rule: EncodeToString.cases)
  then show ?case
  proof cases
    case (2 a')
    have "b mod 16 * 4 < 64" by simp
    then show ?thesis using "3.prems" 2 pads by simp
  next
    case (3 a' b')
    have "b < 256" "b' < 256" using "3.prems" 3 by simp_all
    then have "b div 16 < 16" "b' div 16 < 16" by linarith+
    then have "a = a' \<and> b div 16 = b' div 16" using "3.prems" 3 first_byte [of a a' "b div 16" "b' div 16"] by simp
    then show ?thesis using "3.prems" 3 second_byte [of 0 0 b b'] by simp
  next
    case (4 a' b' c' r)
    have "c' mod 64 < 64" by simp
    then show ?thesis using "3.prems" 4 pads by simp
  qed (use "3.prems" in simp)
next
  case (4 a b c bs)
  have c: "c mod 64 < 64" by simp
  consider "ys = []" | a' where "ys = [a']" | a' b' where "ys = [a', b']" | a' b' c' r where "ys = a' # b' # c' # r"
    by (cases ys rule: EncodeToString.cases)
  then show ?case
  proof cases
    case (4 a' b' c' r)
    have "b < 256" "b' < 256" "c < 256" "c' < 256" using "4.prems" 4 by simp_all
    then have d: "b div 16 < 16" "b' div 16 < 16" "c div 64 < 4" "c' div 64 < 4" by linarith+
    have e: "b64_char (b mod 16 * 4 + c div 64) = b64_char (b' mod 16 * 4 + c' div 64)"
      "b64_char (c mod 64) = b64_char (c' mod 64)" "EncodeToString bs = EncodeToString r" using "4.prems" 4 by simp_all
    have ab: "a = a' \<and> b div 16 = b' div 16" using "4.prems" 4 d first_byte [of a a' "b div 16" "b' div 16"] by simp
    then have "b = b' \<and> c div 64 = c' div 64" using second_byte [OF d(3,4) _ e(1)] by blast
    moreover have "bs = r" using "4.IH" [OF _ _ e(3)] "4.prems" 4 by simp
    ultimately show ?thesis using ab third_byte [OF _ e(2)] 4 by blast
  qed (use "4.prems" c pads in simp_all)
qed

definition HashDeviceID :: "(string \<Rightarrow> nat list) \<Rightarrow> string \<Rightarrow> string" where
  "HashDeviceID xxh3 deviceID = hex_bytes (xxh3 deviceID)"

definition GetCodecInfo :: "string \<Rightarrow> Codec option" where "GetCodecInfo name = GetByName name"
definition ValidateCodec :: "string \<Rightarrow> bool" where "ValidateCodec name \<longleftrightarrow> GetByName name \<noteq> None"

end
