(* ===== verification/Migrations.thy ===== *)
theory Migrations
  imports Media Configuration
begin

text \<open>
  The database of \<^verbatim>\<open>internal/database/sqlite.go\<close>: opening the pool, and the migrations. A connection of the pool is
  represented by whether it enforces foreign keys. What a new connection to a data source enforces, what a statement does
  to its connection and how the pool gives out connections are the driver's and \<^verbatim>\<open>database/sql\<close>'s, and arguments here. Of
  the contents of the database, of type \<open>'d\<close>, only the table of applied versions is known. The file system and the failures
  of the engine are arguments too.
\<close>

section \<open>The pool\<close>

record SQLite =
  dataSource :: string
  maxOpenConns :: int
  maxIdleConns :: int
  connMaxLifetime :: duration
  conns :: "bool list"

text \<open>Whether a new connection to a data source enforces foreign keys, and a statement run on a connection.\<close>

record driver =
  connect :: "string \<Rightarrow> bool"
  exec_on :: "string \<Rightarrow> bool \<Rightarrow> string + bool"

text \<open>The text before the last slash, if there is one.\<close>

definition dir_of :: "string \<Rightarrow> string option" where
  "dir_of dsn = (if CHR ''/'' \<in> set dsn then Some (rev (tl (dropWhile (\<lambda>c. c \<noteq> CHR ''/'') (rev dsn)))) else None)"

text \<open>
  \<^verbatim>\<open>sql.Open\<close> opens no connection; the first statement does, and gives it back to the pool, where the second finds it. The
  pool is not used by others yet.
\<close>

definition OpenSQLite ::
  "(string \<Rightarrow> string option) \<Rightarrow> (string \<Rightarrow> string option) \<Rightarrow> driver \<Rightarrow> string \<Rightarrow> int \<Rightarrow> int \<Rightarrow> duration \<Rightarrow> string + SQLite" where
  "OpenSQLite mkdir sqlOpen drv dsn maxOpen maxIdle lifetime =
     (case (case dir_of dsn of None \<Rightarrow> None | Some d \<Rightarrow> mkdir d) of
        Some e \<Rightarrow> Inl (''failed to create data directory: '' @ e)
      | None \<Rightarrow>
     (case sqlOpen dsn of
        Some e \<Rightarrow> Inl (''failed to open database: '' @ e)
      | None \<Rightarrow>
     (case exec_on drv ''PRAGMA foreign_keys = ON'' (connect drv dsn) of
        Inl e \<Rightarrow> Inl (''failed to enable foreign keys: '' @ e)
      | Inr c1 \<Rightarrow>
     (case exec_on drv ''PRAGMA journal_mode = WAL'' c1 of
        Inl e \<Rightarrow> Inl (''failed to enable WAL mode: '' @ e)
      | Inr c2 \<Rightarrow> Inr \<lparr>dataSource = dsn, maxOpenConns = maxOpen, maxIdleConns = maxIdle, connMaxLifetime = lifetime, conns = [c2]\<rparr>))))"

section \<open>Migrations\<close>

record Migration =
  mg_Version :: string
  mg_SQL :: string

record 'd schema =
  versions :: "string list"
  contents :: 'd

definition migration_of :: "string \<Rightarrow> string \<Rightarrow> Migration" where
  "migration_of path sql = \<lparr>mg_Version = TrimSuffix (PathBase path) ''.sql'', mg_SQL = sql\<rparr>"

fun read_files :: "(string \<Rightarrow> string + string) \<Rightarrow> (string \<times> bool) list \<Rightarrow> string + Migration list" where
  "read_files readFile [] = Inr []"
| "read_files readFile ((path, dir) # fs) =
     (if dir \<or> \<not> HasSuffix path ''.sql'' then read_files readFile fs
      else case readFile path of
        Inl e \<Rightarrow> Inl (''failed to read migration '' @ path @ '': '' @ e)
      | Inr sql \<Rightarrow> (case read_files readFile fs of Inl e \<Rightarrow> Inl e | Inr ms \<Rightarrow> Inr (migration_of path sql # ms)))"

definition readMigrations :: "(string \<Rightarrow> string + string) \<Rightarrow> (string \<times> bool) list \<Rightarrow> string + Migration list" where
  "readMigrations readFile walk =
     (case read_files readFile walk of Inl e \<Rightarrow> Inl e | Inr ms \<Rightarrow> Inr (sort_key mg_Version ms))"

text \<open>What the engine answers: the statements of a migration, and the start and the end of transaction \<open>k\<close>.\<close>

record 'd engine =
  run_sql :: "string \<Rightarrow> 'd \<Rightarrow> string + 'd"
  begin_tx :: "nat \<Rightarrow> string option"
  commit_tx :: "nat \<Rightarrow> string option"

definition migrate :: "'d engine \<Rightarrow> nat \<Rightarrow> Migration \<Rightarrow> 'd schema \<Rightarrow> string + 'd schema" where
  "migrate en k m s =
     (case begin_tx en k of
        Some e \<Rightarrow> Inl (''failed to begin transaction: '' @ e)
      | None \<Rightarrow>
     (case run_sql en (mg_SQL m) (contents s) of
        Inl e \<Rightarrow> Inl (''failed to apply migration '' @ mg_Version m @ '': '' @ e)
      | Inr d \<Rightarrow>
     if mg_Version m \<in> set (versions s) then Inl (''failed to record migration '' @ mg_Version m @ '': UNIQUE constraint failed'')
     else case commit_tx en k of
        Some e \<Rightarrow> Inl (''failed to commit migration '' @ mg_Version m @ '': '' @ e)
      | None \<Rightarrow> Inr \<lparr>versions = versions s @ [mg_Version m], contents = d\<rparr>))"

fun migrate_all :: "'d engine \<Rightarrow> string list \<Rightarrow> nat \<Rightarrow> Migration list \<Rightarrow> 'd schema \<Rightarrow> string option \<times> 'd schema" where
  "migrate_all en applied k [] s = (None, s)"
| "migrate_all en applied k (m # ms) s =
     (if mg_Version m \<in> set applied then migrate_all en applied k ms s
      else case migrate en k m s of
        Inl e \<Rightarrow> (Some e, s)
      | Inr s' \<Rightarrow> migrate_all en applied (Suc k) ms s')"

definition getAppliedMigrations :: "string option \<Rightarrow> 'd schema \<Rightarrow> string + string list" where
  "getAppliedMigrations query s =
     (case query of Some e \<Rightarrow> Inl (''failed to query migrations: '' @ e) | None \<Rightarrow> Inr (versions s))"

text \<open>Whether the table of versions can be created and queried is the engine's answer.\<close>

definition RunMigrations ::
  "'d engine \<Rightarrow> string option \<Rightarrow> string option \<Rightarrow> (string \<Rightarrow> string + string) \<Rightarrow> (string \<times> bool) list \<Rightarrow> 'd schema \<Rightarrow>
     string option \<times> 'd schema" where
  "RunMigrations en mkTable query readFile walk s =
     (case mkTable of
        Some e \<Rightarrow> (Some (''failed to create migrations table: '' @ e), s)
      | None \<Rightarrow>
     (case getAppliedMigrations query s of
        Inl e \<Rightarrow> (Some e, s)
      | Inr applied \<Rightarrow>
     (case readMigrations readFile walk of
        Inl e \<Rightarrow> (Some e, s)
      | Inr ms \<Rightarrow> migrate_all en applied 0 ms s)))"


section \<open>Each migration runs once\<close>

fun replay :: "'d engine \<Rightarrow> Migration list \<Rightarrow> 'd \<Rightarrow> string + 'd" where
  "replay en [] d = Inr d"
| "replay en (m # ms) d = (case run_sql en (mg_SQL m) d of Inl e \<Rightarrow> Inl e | Inr d' \<Rightarrow> replay en ms d')"

lemma migrate_Inr:
  "migrate en k m s = Inr s' \<Longrightarrow> versions s' = versions s @ [mg_Version m] \<and> run_sql en (mg_SQL m) (contents s) = Inr (contents s')"
  by (auto simp: migrate_def split: option.splits sum.splits if_splits)

lemma migrate_all_prefix:
  "migrate_all en applied k ms s = (err, s') \<Longrightarrow>
    \<exists>ran rest. filter (\<lambda>m. mg_Version m \<notin> set applied) ms = ran @ rest \<and> versions s' = versions s @ map mg_Version ran
      \<and> replay en ran (contents s) = Inr (contents s') \<and> (err = None \<longleftrightarrow> rest = [])"
proof (induction ms arbitrary: k s)
  case (Cons m ms)
  show ?case
  proof (cases "mg_Version m \<in> set applied")
    case True
    then show ?thesis using Cons by simp
  next
    case new: False
    show ?thesis
    proof (cases "migrate en k m s")
      case (Inl e)
      then have "err \<noteq> None" "s' = s" using Cons.prems new by auto
      then show ?thesis using new
        by (intro exI [of _ "[]"] exI [of _ "m # filter (\<lambda>m. mg_Version m \<notin> set applied) ms"]) simp
    next
      case (Inr t)
      then have r: "migrate_all en applied (Suc k) ms t = (err, s')" using Cons.prems new by simp
      obtain ran rest where d: "filter (\<lambda>m. mg_Version m \<notin> set applied) ms = ran @ rest"
        "versions s' = versions t @ map mg_Version ran" "replay en ran (contents t) = Inr (contents s')" "err = None \<longleftrightarrow> rest = []"
        using Cons.IH [OF r] by blast
      show ?thesis using new d migrate_Inr [OF Inr] by (intro exI [of _ "m # ran"] exI [of _ rest]) simp
    qed
  qed
qed simp

lemma migrate_all_nothing: "\<forall>m \<in> set ms. mg_Version m \<in> set applied \<Longrightarrow> migrate_all en applied k ms s = (None, s)"
  by (induction ms) simp_all


definition demo_engine :: "string list engine" where
  "demo_engine = \<lparr>run_sql = (\<lambda>q d. if q = ''bad'' then Inl ''syntax error'' else Inr (d @ [q])), begin_tx = (\<lambda>_. None), commit_tx = (\<lambda>_. None)\<rparr>"


section \<open>Foreign keys hold on one connection\<close>

text \<open>
  What the packages document: SQLite's foreign keys are switched for one connection by the statement, are left alone by the
  other one, and are off on a new connection unless its data source asks for them; a pool whose connections are all in use
  opens a new one to its data source while it may grow. \<open>take\<close> gives the number of the connection for the next statement.
\<close>

definition keys_per_connection :: "driver \<Rightarrow> bool" where
  "keys_per_connection drv \<longleftrightarrow> (\<forall>b c. exec_on drv ''PRAGMA foreign_keys = ON'' b = Inr c \<longrightarrow> c)
     \<and> (\<forall>b c. exec_on drv ''PRAGMA journal_mode = WAL'' b = Inr c \<longrightarrow> c = b)
     \<and> (\<forall>dsn. \<not> Contains dsn ''foreign_keys'' \<longrightarrow> \<not> connect drv dsn)"

definition opens_when_busy :: "driver \<Rightarrow> (nat set \<Rightarrow> SQLite \<Rightarrow> (nat \<times> SQLite) option) \<Rightarrow> bool" where
  "opens_when_busy drv acquire \<longleftrightarrow> (\<forall>busy p. {..<length (conns p)} \<subseteq> busy
      \<longrightarrow> maxOpenConns p \<le> 0 \<or> int (length (conns p)) < maxOpenConns p
      \<longrightarrow> acquire busy p = Some (length (conns p), p\<lparr>conns := conns p @ [connect drv (dataSource p)]\<rparr>))"


definition demo_driver :: driver where
  "demo_driver = \<lparr>connect = (\<lambda>dsn. Contains dsn ''foreign_keys''),
     exec_on = (\<lambda>q b. Inr (if q = ''PRAGMA foreign_keys = ON'' then True else b))\<rparr>"

definition demo_acquire :: "nat set \<Rightarrow> SQLite \<Rightarrow> (nat \<times> SQLite) option" where
  "demo_acquire busy p =
     (case find (\<lambda>i. i \<notin> busy) [0..<length (conns p)] of
        Some i \<Rightarrow> Some (i, p)
      | None \<Rightarrow> if maxOpenConns p \<le> 0 \<or> int (length (conns p)) < maxOpenConns p
                then Some (length (conns p), p\<lparr>conns := conns p @ [connect demo_driver (dataSource p)]\<rparr>) else None)"


end
