(* ===== verification/Benchmark.thy ===== *)
theory Benchmark
  imports Media Server PlaybackMetrics
begin

text \<open>
  The encoder benchmark of \<^verbatim>\<open>internal/server/benchmark.go\<close>. A run of ffmpeg gives an error or what it wrote to its
  standard error, and the time it took, which is positive.
\<close>

section \<open>Model\<close>

record BenchmarkResult =
  br_EncoderName :: string
  br_Codec :: string
  br_Width :: int
  br_Height :: int
  br_FPS :: float64
  br_SpeedFactor :: float64
  br_Duration :: duration
  br_RealtimeCapable :: bool

type_synonym bench_runner = "string \<Rightarrow> string list \<Rightarrow> (string + string) \<times> duration"

text \<open>What the pattern for a report of the speed captures at the start of a text, and what follows the match.\<close>

definition speed_at :: "string \<Rightarrow> (string \<times> string) option" where
  "speed_at s =
     (if \<not> HasPrefix s ''speed='' then None
      else let r = dropWhile re_space (drop 6 s); ds = takeWhile (\<lambda>c. is_digit c \<or> c = CHR ''.'') r
           in (case drop (length ds) r of
                 c # rest \<Rightarrow> if ds \<noteq> [] \<and> c = CHR ''x'' then Some (ds, rest) else None
               | [] \<Rightarrow> None))"

text \<open>The captures of all matches, from left to right.\<close>

function speeds :: "string \<Rightarrow> string list" where
  "speeds s = (case s of [] \<Rightarrow> [] | c # t \<Rightarrow> (case speed_at s of None \<Rightarrow> speeds t | Some (ds, rest) \<Rightarrow> ds # speeds rest))"
  by pat_completeness auto

lemma speed_at_shorter: "speed_at s = Some (ds, rest) \<Longrightarrow> length rest < length s"
proof -
  assume m: "speed_at s = Some (ds, rest)"
  let ?r = "dropWhile re_space (drop 6 s)"
  obtain n c where "drop n ?r = c # rest"
    using m by (auto simp: speed_at_def Let_def split: if_splits list.splits)
  then have "length (drop n ?r) = Suc (length rest)" by simp
  then have "length rest < length ?r" by simp
  moreover have "length ?r \<le> length s" using length_dropWhile_le [of re_space "drop 6 s"] by simp
  ultimately show ?thesis by simp
qed

termination speeds
  by (relation "measure length") (auto dest: speed_at_shorter)

declare speeds.simps [simp del]

definition parseFFmpegSpeed :: "string \<Rightarrow> float64" where
  "parseFFmpegSpeed err = (case speeds err of [] \<Rightarrow> 0 | ms \<Rightarrow> ParseFloat (last ms))"

definition bench_pixfmt :: "string list \<Rightarrow> string list" where
  "bench_pixfmt fmts = (case fmts of [] \<Rightarrow> [] | f # _ \<Rightarrow> [''-pix_fmt'', if ''yuv420p'' \<in> set fmts then ''yuv420p'' else f])"

definition bench_preset :: "string \<Rightarrow> string list" where
  "bench_preset name =
     (if Contains name ''nvenc'' then [''-preset'', ''p1'']
      else if Contains name ''qsv'' then [''-preset'', ''veryfast'']
      else if name = ''libx264'' \<or> name = ''libx265'' then [''-preset'', ''ultrafast'']
      else if name = ''libsvtav1'' then [''-preset'', ''12''] else [])"

definition bench_args :: "EncoderCapability \<Rightarrow> string list" where
  "bench_args enc =
     [''-f'', ''lavfi'', ''-i'', ''testsrc2=duration='' @ Itoa 5 @ '':size='' @ Itoa 1920 @ ''x'' @ Itoa 1080 @ '':rate='' @ Itoa 30,
      ''-c:v'', EncoderName enc] @ bench_pixfmt (SupportedPixelFormats enc) @ bench_preset (EncoderName enc) @ [''-f'', ''null'', ''-'']"

definition BenchmarkEncoder :: "bench_runner \<Rightarrow> string \<Rightarrow> EncoderCapability \<Rightarrow> string + BenchmarkResult" where
  "BenchmarkEncoder run ffmpeg enc =
     (case run ffmpeg (bench_args enc) of
        (Inl e, _) \<Rightarrow> Inl (''benchmark failed for '' @ EncoderName enc @ '': '' @ e)
      | (Inr err, elapsed) \<Rightarrow>
          let p = parseFFmpegSpeed err; speed = (if p \<le> 0 then fdiv 5 (Seconds elapsed) else p)
          in Inr \<lparr>br_EncoderName = EncoderName enc, br_Codec = e_Codec enc, br_Width = 1920, br_Height = 1080, br_FPS = 30,
               br_SpeedFactor = speed, br_Duration = elapsed, br_RealtimeCapable = (speed \<ge> 1)\<rparr>)"

definition benchmarked :: "bench_runner \<Rightarrow> string \<Rightarrow> EncoderCapability \<Rightarrow> EncoderCapability" where
  "benchmarked run ffmpeg enc =
     (case BenchmarkEncoder run ffmpeg enc of
        Inl _ \<Rightarrow> enc
      | Inr r \<Rightarrow> enc\<lparr>Performance := (Performance enc)\<lparr>RealtimeAt1080p := br_RealtimeCapable r, RealtimeAt4K := (br_SpeedFactor r \<ge> 4)\<rparr>\<rparr>)"

definition BenchmarkAll :: "bench_runner \<Rightarrow> string \<Rightarrow> ServerCapabilities \<Rightarrow> BenchmarkResult list \<times> ServerCapabilities" where
  "BenchmarkAll run ffmpeg caps =
     (concat (map (\<lambda>enc. case BenchmarkEncoder run ffmpeg enc of Inl _ \<Rightarrow> [] | Inr r \<Rightarrow> [r]) (EncoderDetails caps)),
      caps\<lparr>EncoderDetails := map (benchmarked run ffmpeg) (EncoderDetails caps)\<rparr>)"

section \<open>What a benchmark changes\<close>

lemma speeds_skip: "speed_at (c # t) = None \<Longrightarrow> speeds (c # t) = speeds t"
  by (simp add: speeds.simps [of "c # t"])

lemma speed_reports:
  "parseFFmpegSpeed ''frame=10 speed=2.5x frame=90 speed= 1.25x'' = 5 / 4"
  "parseFFmpegSpeed ''speed=N/A'' = 0" "parseFFmpegSpeed ''speed=1.2.3x'' = 0"
  by code_simp+

text \<open>
  A benchmark keeps every encoder in its place with everything but its estimates, and one that could not be run keeps
  these too: the encoder that does not work is still taken to be as fast as was guessed. Where it ran, one that is
  fast enough for 4K is fast enough for 1080p.
\<close>

theorem benchmark_changes_estimates_only:
  "list_all2 (\<lambda>enc enc'. case BenchmarkEncoder run ffmpeg enc of
      Inl _ \<Rightarrow> enc' = enc
    | Inr r \<Rightarrow> enc'\<lparr>Performance := Performance enc\<rparr> = enc \<and> SpeedRank (Performance enc') = SpeedRank (Performance enc)
        \<and> RealtimeAt1080p (Performance enc') = (1 \<le> br_SpeedFactor r) \<and> RealtimeAt4K (Performance enc') = (4 \<le> br_SpeedFactor r)
        \<and> \<not> (RealtimeAt4K (Performance enc') \<and> \<not> RealtimeAt1080p (Performance enc')))
    (EncoderDetails caps) (EncoderDetails (snd (BenchmarkAll run ffmpeg caps)))"
  by (auto simp: BenchmarkAll_def list_all2_map2 list_all2_same benchmarked_def BenchmarkEncoder_def Let_def
    split: sum.split prod.split)

end
