(* ===== verification/AuditLog.thy ===== *)
theory AuditLog
  imports Accounts
begin

text \<open>
  The audit log of \<^verbatim>\<open>internal/api/auth/audit.go\<close>: its table, what is written to the structured log, and the queries. The
  login handlers log through it (Accounts). Which table definitions the engine accepts, the JSON encoder and decoder of
  the metadata and whether a query fails are arguments.
\<close>

section \<open>The table\<close>

text \<open>The items of a \<^verbatim>\<open>CREATE TABLE\<close> statement: a column with its type and constraints, or an index.\<close>

datatype table_item = Column string string | Index string string

definition audit_table :: "table_item list" where
  "audit_table = [
     Column ''id'' ''INTEGER PRIMARY KEY AUTOINCREMENT'',
     Column ''event_type'' ''TEXT NOT NULL'',
     Column ''ip_address'' ''TEXT'',
     Column ''user_agent'' ''TEXT'',
     Column ''username'' ''TEXT'',
     Column ''user_id'' ''TEXT'',
     Column ''success'' ''INTEGER NOT NULL DEFAULT 1'',
     Column ''failure_reason'' ''TEXT'',
     Column ''metadata'' ''TEXT'',
     Column ''timestamp'' ''DATETIME DEFAULT CURRENT_TIMESTAMP'',
     Index ''idx_audit_timestamp'' ''timestamp'',
     Index ''idx_audit_username'' ''username'',
     Index ''idx_audit_event_type'' ''event_type'',
     Index ''idx_audit_ip'' ''ip_address'']"

record audit_row =
  au_id :: int
  au_event_type :: string
  au_ip_address :: string
  au_user_agent :: string
  au_username :: string
  au_user_id :: string
  au_success :: int
  au_failure_reason :: string
  au_metadata :: string
  au_timestamp :: time

text \<open>A line of the structured log: whether it is a warning, its message, its attributes.\<close>

type_synonym log_line = "bool \<times> string \<times> (string \<times> string) list"

record AuditLogger =
  al_db :: bool
  al_table :: "audit_row list option"
  al_lines :: "log_line list"

definition initTable :: "(table_item list \<Rightarrow> bool) \<Rightarrow> AuditLogger \<Rightarrow> AuditLogger" where
  "initTable accepts_table al =
     (if \<not> al_db al then al
      else if accepts_table audit_table then al\<lparr>al_table := Some (case al_table al of None \<Rightarrow> [] | Some rs \<Rightarrow> rs)\<rparr>
      else al\<lparr>al_lines := al_lines al @ [(True, ''Failed to create audit_events table'', [])]\<rparr>)"

text \<open>\<open>existing\<close> is the table that the database has already.\<close>

definition NewAuditLogger :: "(table_item list \<Rightarrow> bool) \<Rightarrow> bool \<Rightarrow> audit_row list option \<Rightarrow> AuditLogger" where
  "NewAuditLogger accepts_table have_db existing = initTable accepts_table \<lparr>al_db = have_db, al_table = existing, al_lines = []\<rparr>"

section \<open>Logging\<close>

definition show_bool :: "bool \<Rightarrow> string" where "show_bool b = (if b then ''true'' else ''false'')"

definition opt_attr :: "string \<Rightarrow> string \<Rightarrow> (string \<times> string) list" where
  "opt_attr k v = (if v \<noteq> [] then [(k, v)] else [])"

definition logToSlogger :: "AuditEvent \<Rightarrow> log_line" where
  "logToSlogger e =
     (let args = [(''event_type'', ae_EventType e), (''ip'', ae_IPAddress e), (''success'', show_bool (ae_Success e))]
            @ opt_attr ''username'' (ae_Username e) @ opt_attr ''user_id'' (ae_UserID e)
            @ opt_attr ''reason'' (ae_FailureReason e) @ opt_attr ''user_agent'' (ae_UserAgent e);
          ty = ae_EventType e
      in if ty = ''login_success'' then (False, ''Login successful'', args)
         else if ty = ''login_failure'' then (True, ''Login failed'', args)
         else if ty = ''account_locked'' then (True, ''Account locked'', args)
         else if ty = ''account_unlocked'' then (False, ''Account unlocked'', args)
         else if ty = ''brute_force_attempt'' then (True, ''Brute force attempt detected'', args)
         else (False, ''Auth event'', args))"

type_synonym metadata = "(string \<times> string) list"

definition row_of :: "(metadata \<Rightarrow> string option) \<Rightarrow> int \<Rightarrow> AuditEvent \<Rightarrow> audit_row" where
  "row_of marshal i e = \<lparr>au_id = i, au_event_type = ae_EventType e, au_ip_address = ae_IPAddress e, au_user_agent = ae_UserAgent e,
     au_username = ae_Username e, au_user_id = ae_UserID e, au_success = (if ae_Success e then 1 else 0),
     au_failure_reason = ae_FailureReason e,
     au_metadata = (if ae_Metadata e = [] then [] else case marshal (ae_Metadata e) of Some t \<Rightarrow> t | None \<Rightarrow> []),
     au_timestamp = ae_Timestamp e\<rparr>"

text \<open>Rows are never deleted, so the next identifier is one more than their number.\<close>

definition storeInDB :: "(metadata \<Rightarrow> string option) \<Rightarrow> AuditEvent \<Rightarrow> AuditLogger \<Rightarrow> string option \<times> AuditLogger" where
  "storeInDB marshal e al =
     (case al_table al of
        None \<Rightarrow> (Some ''no such table: audit_events'', al)
      | Some rs \<Rightarrow> (None, al\<lparr>al_table := Some (rs @ [row_of marshal (int (length rs) + 1) e])\<rparr>))"

definition AL_Log :: "(metadata \<Rightarrow> string option) \<Rightarrow> time \<Rightarrow> AuditEvent \<Rightarrow> AuditLogger \<Rightarrow> string option \<times> AuditLogger" where
  "AL_Log marshal now e0 al =
     (let e = e0\<lparr>ae_Timestamp := now\<rparr>; al' = al\<lparr>al_lines := al_lines al @ [logToSlogger e]\<rparr>
      in if al_db al' then storeInDB marshal e al' else (None, al'))"

definition LogAccountUnlocked :: "(metadata \<Rightarrow> string option) \<Rightarrow> time \<Rightarrow> string \<Rightarrow> AuditLogger \<Rightarrow> AuditLogger" where
  "LogAccountUnlocked marshal now ip al = snd (AL_Log marshal now ((audit_event ''account_unlocked'' ip)\<lparr>ae_Success := True\<rparr>) al)"

section \<open>Queries\<close>

definition audit_event_of :: "(string \<Rightarrow> metadata) \<Rightarrow> audit_row \<Rightarrow> int \<times> AuditEvent" where
  "audit_event_of unmarshal r = (au_id r, \<lparr>ae_EventType = au_event_type r, ae_IPAddress = au_ip_address r, ae_UserAgent = au_user_agent r,
     ae_Username = au_username r, ae_UserID = au_user_id r, ae_Success = (au_success r = 1), ae_FailureReason = au_failure_reason r,
     ae_Metadata = (if au_metadata r = [] then [] else unmarshal (au_metadata r)), ae_Timestamp = au_timestamp r\<rparr>)"

definition AL_GetRecentEvents :: "(string \<Rightarrow> metadata) \<Rightarrow> int \<Rightarrow> AuditLogger \<Rightarrow> string + (int \<times> AuditEvent) list" where
  "AL_GetRecentEvents unmarshal limit al =
     (if \<not> al_db al then Inl ''database not available''
      else case al_table al of
        None \<Rightarrow> Inl ''no such table: audit_events''
      | Some rs \<Rightarrow> Inr (map (audit_event_of unmarshal)
          (take (nat (if limit \<le> 0 then 100 else limit)) (sort_key (\<lambda>r. - au_timestamp r) rs))))"

definition GetFailedAttemptsByIP :: "string \<Rightarrow> time \<Rightarrow> AuditLogger \<Rightarrow> string + int" where
  "GetFailedAttemptsByIP ip since al =
     (if \<not> al_db al then Inl ''database not available''
      else case al_table al of
        None \<Rightarrow> Inl ''no such table: audit_events''
      | Some rs \<Rightarrow> Inr (int (length (filter (\<lambda>r. au_event_type r = ''login_failure'' \<and> au_ip_address r = ip \<and> au_success r = 0
          \<and> since \<le> au_timestamp r) rs))))"

section \<open>Nothing is stored\<close>

definition log_all :: "(metadata \<Rightarrow> string option) \<Rightarrow> (time \<times> AuditEvent) list \<Rightarrow> AuditLogger \<Rightarrow> AuditLogger" where
  "log_all marshal es al = fold (\<lambda>(t, e) al. snd (AL_Log marshal t e al)) es al"

lemma log_no_table: "al_table al = None \<Longrightarrow> al_table (snd (AL_Log marshal t e al)) = None \<and> al_db (snd (AL_Log marshal t e al)) = al_db al"
  by (simp add: AL_Log_def storeInDB_def Let_def)

lemma log_all_no_table: "al_table al = None \<Longrightarrow> al_table (log_all marshal es al) = None \<and> al_db (log_all marshal es al) = al_db al"
  unfolding log_all_def
  by (induction es arbitrary: al) (auto simp: log_no_table)

text \<open>
  C16. The statement that creates the table declares indexes inside it, which SQLite's grammar does not have. An engine that
  accepts no such statement never gets the table: no event is ever stored, and every query of the audit log fails.
\<close>

theorem audit_events_are_never_stored:
  assumes "\<And>items. list_ex (\<lambda>x. case x of Index n c \<Rightarrow> True | Column n c \<Rightarrow> False) items \<Longrightarrow> \<not> accepts_table items"
  shows "al_table (log_all marshal es (NewAuditLogger accepts_table True None)) = None
    \<and> AL_GetRecentEvents unmarshal limit (log_all marshal es (NewAuditLogger accepts_table True None)) = Inl ''no such table: audit_events''
    \<and> GetFailedAttemptsByIP ip since (log_all marshal es (NewAuditLogger accepts_table True None)) = Inl ''no such table: audit_events''"
proof -
  have "\<not> accepts_table audit_table" using assms [of audit_table] by (simp add: audit_table_def)
  then have "al_table (NewAuditLogger accepts_table True None) = None" "al_db (NewAuditLogger accepts_table True None)"
    by (simp_all add: NewAuditLogger_def initTable_def)
  then show ?thesis using log_all_no_table [of "NewAuditLogger accepts_table True None" marshal es]
    by (simp add: AL_GetRecentEvents_def GetFailedAttemptsByIP_def)
qed

theorem audit_events_are_never_stored_witness:
  "GetFailedAttemptsByIP ''1.2.3.4'' 0 (log_all (\<lambda>_. Some []) [(1, audit_event ''login_failure'' ''1.2.3.4'')]
    (NewAuditLogger (\<lambda>items. \<not> list_ex (\<lambda>x. case x of Index n c \<Rightarrow> True | Column n c \<Rightarrow> False) items) True None))
    = Inl ''no such table: audit_events''"
  using audit_events_are_never_stored [of "\<lambda>items. \<not> list_ex (\<lambda>x. case x of Index n c \<Rightarrow> True | Column n c \<Rightarrow> False) items"
      "\<lambda>_. Some []" "[(1, audit_event ''login_failure'' ''1.2.3.4'')]" "\<lambda>_. []" 1 "''1.2.3.4''" 0] by simp

lemma sort_key_snoc_least:
  fixes f :: "'a \<Rightarrow> 'b::linorder"
  assumes "\<forall>y \<in> set xs. f x < f y"
  shows "sort_key f (xs @ [x]) = x # sort_key f xs"
proof -
  have "foldr (insort_key f) xs [x] = x # foldr (insort_key f) xs []" using assms by (induction xs) auto
  then show ?thesis by (simp add: sort_key_def)
qed

text \<open>
  With the table there, the latest event is read back as it was logged, with the time of logging and the next identifier.
\<close>

theorem latest_event_read_back:
  assumes "al_db al" and "al_table al = Some rs" and "list_all (\<lambda>r. au_timestamp r < now) rs"
    and "ae_Metadata e = [] \<or> (\<exists>t. marshal (ae_Metadata e) = Some t \<and> t \<noteq> [] \<and> unmarshal t = ae_Metadata e)"
  shows "AL_GetRecentEvents unmarshal 1 (snd (AL_Log marshal now e al)) = Inr [(int (length rs) + 1, e\<lparr>ae_Timestamp := now\<rparr>)]"
proof -
  let ?e = "e\<lparr>ae_Timestamp := now\<rparr>" and ?n = "int (length rs) + 1"
  let ?r = "row_of marshal ?n ?e"
  have "\<forall>y \<in> set rs. - au_timestamp ?r < - au_timestamp y" using assms(3) by (simp add: list_all_iff row_of_def)
  then have s: "sort_key (\<lambda>r. - au_timestamp r) (rs @ [?r]) = ?r # sort_key (\<lambda>r. - au_timestamp r) rs"
    by (rule sort_key_snoc_least)
  have "audit_event_of unmarshal ?r = (?n, ?e)"
    using assms(4) by (cases "ae_Metadata e = []") (auto simp: audit_event_of_def row_of_def)
  then show ?thesis using assms(1,2) s by (simp add: AL_Log_def storeInDB_def AL_GetRecentEvents_def Let_def)
qed


theorem latest_event_read_back_witness:
  "AL_GetRecentEvents (\<lambda>t. [(t, t)]) 1 (snd (AL_Log (\<lambda>m. Some (fst (hd m))) 5 ((audit_event ''logout'' ''1.2.3.4'')\<lparr>ae_Metadata := [(''k'', ''k'')]\<rparr>)
    \<lparr>al_db = True, al_table = Some [], al_lines = []\<rparr>))
    = Inr [(1, (audit_event ''logout'' ''1.2.3.4'')\<lparr>ae_Metadata := [(''k'', ''k'')], ae_Timestamp := 5\<rparr>)]"
  by (subst latest_event_read_back [where rs = "[]"]) simp_all

end
