(* ===== verification/AppMetrics.thy ===== *)
theory AppMetrics
  imports PlaybackMetrics
begin

text \<open>
  The application metrics of \<^verbatim>\<open>internal/metrics/metrics.go\<close>: counters, histograms and their families by label. The
  loop of \<^verbatim>\<open>Observe\<close> that swaps the sum until no other goroutine has changed it is one addition. The global instance
  is the state that is passed on.
\<close>

section \<open>Counters and histograms\<close>

type_synonym Counter = int

record CounterVec =
  counters :: "(string, Counter) gomap"

record HistogramConfig =
  hc_Name :: string
  hc_Help :: string
  hc_Buckets :: "float64 list"

record Histogram =
  hg_count :: int
  hg_sum :: float64
  hg_buckets :: "(float64, int) gomap"
  hg_config :: HistogramConfig

record HistogramVec =
  histograms :: "(string, Histogram) gomap"
  hv_config :: HistogramConfig

definition NewCounterVec :: CounterVec where "NewCounterVec = \<lparr>counters = []\<rparr>"
definition NewHistogramVec :: "HistogramConfig \<Rightarrow> HistogramVec" where "NewHistogramVec c = \<lparr>histograms = [], hv_config = c\<rparr>"

definition NewHistogram :: "HistogramConfig \<Rightarrow> Histogram" where
  "NewHistogram c = \<lparr>hg_count = 0, hg_sum = 0, hg_buckets = fold (\<lambda>b m. gput m b 0) (hc_Buckets c) [], hg_config = c\<rparr>"

definition joinLabels :: "string list \<Rightarrow> string" where
  "joinLabels labels = Join labels ''|''"

definition Counter_Add :: "int \<Rightarrow> Counter \<Rightarrow> Counter" where "Counter_Add v c = c + v"
definition Counter_Inc :: "Counter \<Rightarrow> Counter" where "Counter_Inc c = Counter_Add 1 c"

definition Observe :: "float64 \<Rightarrow> Histogram \<Rightarrow> Histogram" where
  "Observe v h = h\<lparr>hg_count := hg_count h + 1, hg_sum := fadd (hg_sum h) v,
     hg_buckets := map (\<lambda>(b, n). (b, if v \<le> b then n + 1 else n)) (hg_buckets h)\<rparr>"

definition Bucket :: "float64 \<Rightarrow> Histogram \<Rightarrow> int" where
  "Bucket le h = (case gget (hg_buckets h) le of Some n \<Rightarrow> n | None \<Rightarrow> 0)"

text \<open>\<^verbatim>\<open>WithLabelValues\<close> gives a pointer; here it gives the value, and what is done to it is put back under its key.\<close>

definition counter_for :: "string list \<Rightarrow> CounterVec \<Rightarrow> Counter" where
  "counter_for labels cv = (case gget (counters cv) (joinLabels labels) of Some c \<Rightarrow> c | None \<Rightarrow> 0)"

definition histogram_for :: "string list \<Rightarrow> HistogramVec \<Rightarrow> Histogram" where
  "histogram_for labels hv = (case gget (histograms hv) (joinLabels labels) of Some h \<Rightarrow> h | None \<Rightarrow> NewHistogram (hv_config hv))"

definition inc_labelled :: "string list \<Rightarrow> CounterVec \<Rightarrow> CounterVec" where
  "inc_labelled labels cv = cv\<lparr>counters := gput (counters cv) (joinLabels labels) (Counter_Inc (counter_for labels cv))\<rparr>"

definition observe_labelled :: "string list \<Rightarrow> float64 \<Rightarrow> HistogramVec \<Rightarrow> HistogramVec" where
  "observe_labelled labels v hv = hv\<lparr>histograms := gput (histograms hv) (joinLabels labels) (Observe v (histogram_for labels hv))\<rparr>"

definition statusCodeToString :: "int \<Rightarrow> string" where
  "statusCodeToString code =
     (if 200 \<le> code \<and> code < 300 then ''2xx'' else if 300 \<le> code \<and> code < 400 then ''3xx''
      else if 400 \<le> code \<and> code < 500 then ''4xx'' else if 500 \<le> code then ''5xx'' else ''unknown'')"

section \<open>The metrics of the application\<close>

record Metrics =
  requestDuration :: HistogramVec
  requestCount :: CounterVec
  activeStreams :: int
  streamBytes :: int
  streamDuration :: Histogram
  cacheHits :: int
  cacheMisses :: int
  cacheSize :: int
  transcodeDuration :: Histogram
  transcodeCount :: int
  transcodeErrors :: int
  devicesRegistered :: int
  devicesActive :: int
  wsConnections :: int
  wsMessagesSent :: int
  wsMessagesRecv :: int

definition NewMetrics :: Metrics where
  "NewMetrics = \<lparr>
     requestDuration = NewHistogramVec \<lparr>hc_Name = ''http_request_duration_seconds'', hc_Help = ''HTTP request duration in seconds'',
       hc_Buckets = [lit 1 1000, lit 5 1000, lit 1 100, lit 25 1000, lit 5 100, lit 1 10, lit 25 100, lit 5 10, 1, lit 25 10, 5, 10]\<rparr>,
     requestCount = NewCounterVec, activeStreams = 0, streamBytes = 0,
     streamDuration = NewHistogram \<lparr>hc_Name = ''stream_duration_seconds'', hc_Help = ''Stream duration in seconds'',
       hc_Buckets = [1, 5, 10, 30, 60, 120, 300, 600, 1800, 3600]\<rparr>,
     cacheHits = 0, cacheMisses = 0, cacheSize = 0,
     transcodeDuration = NewHistogram \<lparr>hc_Name = ''transcode_duration_seconds'', hc_Help = ''Transcode duration in seconds'',
       hc_Buckets = [lit 1 10, lit 5 10, 1, 2, 5, 10, 30, 60, 120, 300]\<rparr>,
     transcodeCount = 0, transcodeErrors = 0, devicesRegistered = 0, devicesActive = 0,
     wsConnections = 0, wsMessagesSent = 0, wsMessagesRecv = 0\<rparr>"

definition RecordRequest :: "string \<Rightarrow> string \<Rightarrow> int \<Rightarrow> duration \<Rightarrow> Metrics \<Rightarrow> Metrics" where
  "RecordRequest endpoint mthd status d m =
     (let labels = [endpoint, mthd, statusCodeToString status]
      in m\<lparr>requestDuration := observe_labelled labels (Seconds d) (requestDuration m),
           requestCount := inc_labelled labels (requestCount m)\<rparr>)"

definition RecordStreamStart :: "Metrics \<Rightarrow> Metrics" where "RecordStreamStart m = m\<lparr>activeStreams := activeStreams m + 1\<rparr>"

definition RecordStreamEnd :: "duration \<Rightarrow> int \<Rightarrow> Metrics \<Rightarrow> Metrics" where
  "RecordStreamEnd d bytes m = m\<lparr>activeStreams := activeStreams m - 1, streamDuration := Observe (Seconds d) (streamDuration m),
     streamBytes := streamBytes m + bytes\<rparr>"

definition App_RecordCacheHit :: "Metrics \<Rightarrow> Metrics" where "App_RecordCacheHit m = m\<lparr>cacheHits := cacheHits m + 1\<rparr>"
definition App_RecordCacheMiss :: "Metrics \<Rightarrow> Metrics" where "App_RecordCacheMiss m = m\<lparr>cacheMisses := cacheMisses m + 1\<rparr>"
definition SetCacheSize :: "int \<Rightarrow> Metrics \<Rightarrow> Metrics" where "SetCacheSize n m = m\<lparr>cacheSize := n\<rparr>"
definition RecordTranscodeStart :: "Metrics \<Rightarrow> Metrics" where "RecordTranscodeStart m = m\<lparr>transcodeCount := transcodeCount m + 1\<rparr>"

definition RecordTranscodeEnd :: "duration \<Rightarrow> bool \<Rightarrow> Metrics \<Rightarrow> Metrics" where
  "RecordTranscodeEnd d success m = m\<lparr>transcodeDuration := Observe (Seconds d) (transcodeDuration m),
     transcodeErrors := (if success then transcodeErrors m else transcodeErrors m + 1)\<rparr>"

definition RecordDeviceRegistered :: "Metrics \<Rightarrow> Metrics" where
  "RecordDeviceRegistered m = m\<lparr>devicesRegistered := devicesRegistered m + 1\<rparr>"
definition RecordDeviceActive :: "Metrics \<Rightarrow> Metrics" where "RecordDeviceActive m = m\<lparr>devicesActive := devicesActive m + 1\<rparr>"
definition RecordWSConnect :: "Metrics \<Rightarrow> Metrics" where "RecordWSConnect m = m\<lparr>wsConnections := wsConnections m + 1\<rparr>"
definition RecordWSDisconnect :: "Metrics \<Rightarrow> Metrics" where "RecordWSDisconnect m = m\<lparr>wsConnections := wsConnections m - 1\<rparr>"

definition RecordWSMessage :: "bool \<Rightarrow> Metrics \<Rightarrow> Metrics" where
  "RecordWSMessage sent m =
     (if sent then m\<lparr>wsMessagesSent := wsMessagesSent m + 1\<rparr> else m\<lparr>wsMessagesRecv := wsMessagesRecv m + 1\<rparr>)"

definition GetCacheHitRate :: "Metrics \<Rightarrow> float64" where
  "GetCacheHitRate m = (let n = cacheHits m + cacheMisses m in if n = 0 then 0 else fdiv (ffromint (cacheHits m)) (ffromint n))"

record MetricsSnapshot =
  sn_ActiveStreams :: int
  sn_StreamBytes :: int
  sn_CacheHits :: int
  sn_CacheMisses :: int
  sn_CacheSize :: int
  sn_CacheHitRate :: float64
  sn_TranscodeCount :: int
  sn_TranscodeErrors :: int
  sn_DevicesRegistered :: int
  sn_DevicesActive :: int
  sn_WSConnections :: int
  sn_WSMessagesSent :: int
  sn_WSMessagesRecv :: int

definition Snapshot :: "Metrics \<Rightarrow> MetricsSnapshot" where
  "Snapshot m = \<lparr>sn_ActiveStreams = activeStreams m, sn_StreamBytes = streamBytes m, sn_CacheHits = cacheHits m,
     sn_CacheMisses = cacheMisses m, sn_CacheSize = cacheSize m, sn_CacheHitRate = GetCacheHitRate m,
     sn_TranscodeCount = transcodeCount m, sn_TranscodeErrors = transcodeErrors m, sn_DevicesRegistered = devicesRegistered m,
     sn_DevicesActive = devicesActive m, sn_WSConnections = wsConnections m, sn_WSMessagesSent = wsMessagesSent m,
     sn_WSMessagesRecv = wsMessagesRecv m\<rparr>"


section \<open>What a histogram counts\<close>

lemma bucket_map:
  "gget (map (\<lambda>(b, n). (b, if v \<le> b then n + 1 else n)) m) b = map_option (\<lambda>n. if v \<le> b then n + 1 else n) (gget m b :: int option)"
  by (induction m) (auto simp: gget_def)

lemma new_buckets: "gget (fold (\<lambda>b m. gput m b (0 :: int)) bs m) b = (if b \<in> set bs then Some 0 else gget m b)"
  by (induction bs arbitrary: m) (auto simp: gomap_simps)

text \<open>
  After any observations a histogram holds their number and their sum, added up in their order, and each of its buckets
  the number of those at most its bound; other bounds have no bucket.
\<close>

theorem histogram_counts_observations:
  "let h = fold Observe vs (NewHistogram c) in
    hg_count h = int (length vs) \<and> hg_sum h = foldl fadd 0 vs
    \<and> (\<forall>le. Bucket le h = (if le \<in> set (hc_Buckets c) then int (length (filter (\<lambda>v. v \<le> le) vs)) else 0))"
proof -
  have g: "hg_count (fold Observe vs h) = hg_count h + int (length vs) \<and> hg_sum (fold Observe vs h) = foldl fadd (hg_sum h) vs
      \<and> (\<forall>le. gget (hg_buckets (fold Observe vs h)) le
          = map_option (\<lambda>n. n + int (length (filter (\<lambda>v. v \<le> le) vs))) (gget (hg_buckets h) le))" for h
  proof (induction vs arbitrary: h)
    case (Cons v vs)
    then show ?case by (simp add: Observe_def bucket_map option.map_comp o_def add.assoc)
  qed (simp add: option.map_ident)
  have n: "gget (hg_buckets (NewHistogram c)) le = (if le \<in> set (hc_Buckets c) then Some 0 else None)" for le
    by (simp add: NewHistogram_def new_buckets)
  show ?thesis using g [of "NewHistogram c"] n by (simp add: Let_def Bucket_def) (simp add: NewHistogram_def)
qed

text \<open>The label values of different requests can be joined to one key, as a path and a method may hold the separator.\<close>

lemma labels_collide: "joinLabels [''/a'', ''b|GET'', ''4xx''] = joinLabels [''/a|b'', ''GET'', ''4xx'']"
  by (simp add: joinLabels_def)

lemma requests_are_not_exported: "Snapshot (RecordRequest endpoint mthd status d m) = Snapshot m"
  by (simp add: Snapshot_def RecordRequest_def GetCacheHitRate_def Let_def)

end
