(* ===== verification/LibraryAPI.thy ===== *)
theory LibraryAPI
  imports Scanner Accounts
begin

text \<open>
  The library and media handlers, \<^verbatim>\<open>internal/api/library.go\<close> and \<^verbatim>\<open>media.go\<close>. The handler and its scanner work on one
  store, which is the scanner's here. \<open>sql\<close> says whether the statement of a handler that reads or deletes succeeds; what
  saving refuses is in Media. A scan runs on a goroutine: the handler gives the library that is to be scanned, and
  \<open>scan_task\<close> is what the goroutine does, at any later time.
\<close>

section \<open>Requests and replies\<close>

record LibraryHandler =
  scanner :: Scanner

abbreviation lib_store :: "LibraryHandler \<Rightarrow> Store" where "lib_store h \<equiv> media_store (scanner h)"

definition set_store :: "Store \<Rightarrow> LibraryHandler \<Rightarrow> LibraryHandler" where
  "set_store st h = h\<lparr>scanner := (scanner h)\<lparr>media_store := st\<rparr>\<rparr>"

definition NewLibraryHandler :: "Scanner \<Rightarrow> LibraryHandler" where "NewLibraryHandler s = \<lparr>scanner = s\<rparr>"

text \<open>\<^verbatim>\<open>WriteError\<close> writes a status and a message, \<^verbatim>\<open>WriteJSON\<close> a status and a value.\<close>

datatype 'b json_reply = WriteError int string | WriteJSON int 'b

record CreateLibraryRequest =
  cl_Name :: string
  cl_Path :: string
  cl_LibraryType :: string
  cl_Enabled :: bool
  cl_RefreshIntervalMinutes :: int

record UpdateLibraryRequest =
  ul_Name :: string
  ul_Path :: string
  ul_LibraryType :: string
  ul_Enabled :: "bool option"
  ul_RefreshIntervalMinutes :: int

section \<open>Library handlers\<close>

definition Library_List :: "bool \<Rightarrow> LibraryHandler \<Rightarrow> (Library list \<times> int) json_reply" where
  "Library_List sql h =
     (if \<not> sql then WriteError 500 ''Failed to get libraries''
      else let libs = GetAllLibraries (lib_store h) in WriteJSON 200 (libs, int (length libs)))"

text \<open>What \<^verbatim>\<open>SaveLibrary\<close> writes into the library that it is given.\<close>

definition library_times :: "time \<Rightarrow> Library \<Rightarrow> Library" where
  "library_times now l = l\<lparr>lib_CreatedAt := (if IsZero (lib_CreatedAt l) then now else lib_CreatedAt l), lib_UpdatedAt := now\<rparr>"

definition save_library :: "time \<Rightarrow> int \<Rightarrow> string \<Rightarrow> Library \<Rightarrow> LibraryHandler \<Rightarrow> Library json_reply \<times> LibraryHandler" where
  "save_library now status failure l h =
     (case SaveLibrary now l (lib_store h) of
        (Some e, _) \<Rightarrow> (WriteError 500 failure, h)
      | (None, st) \<Rightarrow> (WriteJSON status (library_times now l), set_store st h))"

definition Library_Create ::
  "string \<Rightarrow> time \<Rightarrow> CreateLibraryRequest option \<Rightarrow> LibraryHandler \<Rightarrow> Library json_reply \<times> LibraryHandler" where
  "Library_Create now_text now req h =
     (case req of
        None \<Rightarrow> (WriteError 400 ''Invalid request body'', h)
      | Some q \<Rightarrow>
          if cl_Name q = [] \<or> cl_Path q = [] \<or> cl_LibraryType q = []
          then (WriteError 400 ''name, path, and library_type are required'', h)
          else if cl_RefreshIntervalMinutes q < 0 then (WriteError 400 ''refresh_interval_minutes must be non-negative'', h)
          else save_library now 201 ''Failed to create library''
            \<lparr>lib_ID = Accounts.generateID (cl_Path q @ now_text), lib_Name = cl_Name q, lib_Path = cl_Path q,
             lib_LibraryType = cl_LibraryType q, lib_Enabled = cl_Enabled q,
             lib_RefreshIntervalMinutes = (if cl_RefreshIntervalMinutes q = 0 then 60 else cl_RefreshIntervalMinutes q),
             lib_CreatedAt = zeroTime, lib_UpdatedAt = zeroTime, lib_LastScanAt = None\<rparr> h)"

definition Library_Get :: "bool \<Rightarrow> string \<Rightarrow> LibraryHandler \<Rightarrow> Library json_reply" where
  "Library_Get sql i h =
     (if \<not> sql then WriteError 500 ''Failed to get library''
      else case GetLibrary i (lib_store h) of
        None \<Rightarrow> WriteError 404 ''Library not found''
      | Some l \<Rightarrow> WriteJSON 200 l)"

definition updated :: "UpdateLibraryRequest \<Rightarrow> Library \<Rightarrow> Library" where
  "updated q l = l\<lparr>lib_Name := (if ul_Name q \<noteq> [] then ul_Name q else lib_Name l),
     lib_Path := (if ul_Path q \<noteq> [] then ul_Path q else lib_Path l),
     lib_LibraryType := (if ul_LibraryType q \<noteq> [] then ul_LibraryType q else lib_LibraryType l),
     lib_Enabled := (case ul_Enabled q of None \<Rightarrow> lib_Enabled l | Some b \<Rightarrow> b),
     lib_RefreshIntervalMinutes := (if ul_RefreshIntervalMinutes q > 0 then ul_RefreshIntervalMinutes q else lib_RefreshIntervalMinutes l)\<rparr>"

definition Library_Update ::
  "bool \<Rightarrow> time \<Rightarrow> string \<Rightarrow> UpdateLibraryRequest option \<Rightarrow> LibraryHandler \<Rightarrow> Library json_reply \<times> LibraryHandler" where
  "Library_Update sql now i req h =
     (if \<not> sql then (WriteError 500 ''Failed to get library'', h)
      else case GetLibrary i (lib_store h) of
        None \<Rightarrow> (WriteError 404 ''Library not found'', h)
      | Some l \<Rightarrow>
          (case req of
             None \<Rightarrow> (WriteError 400 ''Invalid request body'', h)
           | Some q \<Rightarrow> save_library now 200 ''Failed to update library'' (updated q l) h))"

text \<open>The answer 204 has no body.\<close>

definition Library_Delete :: "bool \<Rightarrow> string \<Rightarrow> LibraryHandler \<Rightarrow> unit json_reply \<times> LibraryHandler" where
  "Library_Delete sql i h =
     (if \<not> sql then (WriteError 500 ''Failed to delete library'', h)
      else (WriteJSON 204 (), set_store (DeleteLibrary i (lib_store h)) h))"

definition Library_Scan :: "bool \<Rightarrow> string \<Rightarrow> LibraryHandler \<Rightarrow> string json_reply \<times> Library option" where
  "Library_Scan sql i h =
     (case (if sql then GetLibrary i (lib_store h) else None) of
        None \<Rightarrow> (WriteError 404 ''Library not found'', None)
      | Some l \<Rightarrow> (WriteJSON 202 ''Scan started'', Some l))"

definition scan_task :: "ScanEnv \<Rightarrow> time \<Rightarrow> time \<Rightarrow> Library \<Rightarrow> LibraryHandler \<Rightarrow> LibraryHandler" where
  "scan_task env start end_time l h =
     (case ScanLibrary env start l (scanner h) of
        (_, s) \<Rightarrow> \<lparr>scanner = s\<lparr>media_store := UpdateLibraryScanTime (lib_ID l) end_time (media_store s)\<rparr>\<rparr>)"

text \<open>Without a status the answer is \<open>idle\<close>.\<close>

definition ScanStatus :: "string \<Rightarrow> LibraryHandler \<Rightarrow> (string + LibraryScanStatus) json_reply" where
  "ScanStatus i h =
     (case Scanner.GetStatus i (scanner h) of
        None \<Rightarrow> WriteJSON 200 (Inl ''idle'')
      | Some st \<Rightarrow> WriteJSON 200 (Inr st))"

text \<open>A number from the query within bounds, or the default for an empty one.\<close>

definition page_param :: "int \<Rightarrow> int \<Rightarrow> int \<Rightarrow> string \<Rightarrow> int option" where
  "page_param lo hi dflt s =
     (if s = [] then Some dflt else case Atoi s of Some v \<Rightarrow> if lo \<le> v \<and> v \<le> hi then Some v else None | None \<Rightarrow> None)"

text \<open>The page, the number of all items, and the offset and the limit of the page.\<close>

definition ListItems :: "bool \<Rightarrow> string \<Rightarrow> string \<Rightarrow> string \<Rightarrow> LibraryHandler \<Rightarrow> (MediaItem list \<times> int \<times> int \<times> int) json_reply" where
  "ListItems sql i offset limit h =
     (case page_param 0 (2 ^ 63 - 1) 0 offset of
        None \<Rightarrow> WriteError 400 ''Invalid offset parameter: must be a non-negative integer''
      | Some off \<Rightarrow>
     (case page_param 1 200 50 limit of
        None \<Rightarrow> WriteError 400 ''Invalid limit parameter: must be between 1 and 200''
      | Some lmt \<Rightarrow>
          if \<not> sql then WriteError 500 ''Failed to get items''
          else case GetLibraryItems i off lmt (lib_store h) of (items, n) \<Rightarrow> WriteJSON 200 (items, n, off, lmt)))"

section \<open>Media handlers\<close>

definition Media_Get :: "bool \<Rightarrow> string \<Rightarrow> Store \<Rightarrow> MediaItem json_reply" where
  "Media_Get sql i st =
     (if \<not> sql then WriteError 500 ''Failed to get media item''
      else case GetMediaItem i st of
        None \<Rightarrow> WriteError 404 ''Media not found''
      | Some item \<Rightarrow> WriteJSON 200 item)"

record stream_info =
  si_id :: string
  si_title :: string
  si_duration :: float64
  si_container :: string
  si_video :: "(string \<times> int \<times> int \<times> int \<times> string) option"
  si_audio_tracks :: "AudioStream list"
  si_subtitle_tracks :: "SubtitleStream list"

definition Media_StreamInfo :: "bool \<Rightarrow> string \<Rightarrow> Store \<Rightarrow> stream_info json_reply" where
  "Media_StreamInfo sql i st =
     (case (if sql then GetMediaItem i st else None) of
        None \<Rightarrow> WriteError 404 ''Media not found''
      | Some m \<Rightarrow> WriteJSON 200 \<lparr>si_id = mi_ID m, si_title = mi_Title m, si_duration = mi_Duration m, si_container = mi_Container m,
          si_video = map_option (\<lambda>v. (vs_Codec v, vs_Width v, vs_Height v, vs_Bitrate v, vs_HDRType v)) (mi_VideoStream m),
          si_audio_tracks = mi_AudioStreams m, si_subtitle_tracks = mi_SubtitleStreams m\<rparr>)"

text \<open>The address that a client is told to play.\<close>

definition play_url :: "string \<Rightarrow> string" where "play_url i = ''/api/v1/stream/hls/'' @ i"

record play_info =
  pi_id :: string
  pi_title :: string
  pi_duration :: float64
  pi_direct_play :: "string \<times> string \<times> string"

definition Media_Play :: "bool \<Rightarrow> string \<Rightarrow> Store \<Rightarrow> play_info json_reply" where
  "Media_Play sql i st =
     (case (if sql then GetMediaItem i st else None) of
        None \<Rightarrow> WriteError 404 ''Media not found''
      | Some m \<Rightarrow> WriteJSON 200 \<lparr>pi_id = mi_ID m, pi_title = mi_Title m, pi_duration = mi_Duration m,
          pi_direct_play = (play_url (mi_ID m), ''hls'', ''application/x-mpegURL'')\<rparr>)"


section \<open>The tables under the handlers\<close>

datatype lib_call =
    CallCreate string time "CreateLibraryRequest option"
  | CallUpdate bool time string "UpdateLibraryRequest option"
  | CallDelete bool string
  | ScanRuns ScanEnv time time Library

fun lib_step :: "lib_call \<Rightarrow> LibraryHandler \<Rightarrow> LibraryHandler" where
  "lib_step (CallCreate stamp now req) h = snd (Library_Create stamp now req h)"
| "lib_step (CallUpdate sql now i req) h = snd (Library_Update sql now i req h)"
| "lib_step (CallDelete sql i) h = snd (Library_Delete sql i h)"
| "lib_step (ScanRuns env start end_time l) h = scan_task env start end_time l h"

definition tables_ok :: "Store \<Rightarrow> bool" where "tables_ok st \<longleftrightarrow> store_ok st \<and> foreign_keys st"

lemma store_op_ok: "tables_ok st \<Longrightarrow> tables_ok (apply_op p st)"
proof -
  assume t: "tables_ok st"
  then have "store_ok (apply_op p st)" by (cases p) (simp_all add: tables_ok_def SaveMediaItem_ok SaveLibrary_ok deletes_ok)
  moreover have "foreign_keys (apply_op p st)" using t by (simp only: foreign_keys_kept tables_ok_def)
  ultimately show ?thesis by (simp add: tables_ok_def)
qed

lemma set_store_sel [simp]: "lib_store (set_store st h) = st" by (simp add: set_store_def)

lemma save_library_ok: "tables_ok (lib_store h) \<Longrightarrow> tables_ok (lib_store (snd (save_library now c m l h)))"
  using store_op_ok [of "lib_store h" "OpSaveLibrary now l"] by (auto simp: save_library_def split: option.split prod.split)

lemma process_files_ok: "tables_ok (media_store s) \<Longrightarrow> tables_ok (media_store (snd (process_files env l n i paths s)))"
proof (induction paths arbitrary: i s)
  case (Cons p ps)
  have "tables_ok (media_store (process_file env l n i p s))"
    unfolding process_store using store_op_ok [OF Cons.prems, of "OpSaveItem _ _"] by simp
  then show ?case using Cons by (simp split: option.split)
qed simp

lemma scan_store: "media_store (snd (ScanLibrary env start l s))
    = media_store (snd (process_files env l (int (length (files_of env l))) 0 (files_of env l) (scan_start start l (int (length (files_of env l))) s)))"
  by (simp add: ScanLibrary_def Let_def case_prod_beta updateStatus_def publish_def split: option.split)

lemma scan_start_store [simp]: "media_store (scan_start start l n s) = media_store s"
  by (simp add: scan_start_def updateStatus_def publish_def)

lemma scan_task_store: "lib_store (scan_task env start t l h) = UpdateLibraryScanTime (lib_ID l) t (media_store (snd (ScanLibrary env start l (scanner h))))"
  by (simp add: scan_task_def case_prod_beta)

text \<open>
  With foreign keys enforced the tables stay well-formed under any sequence of handler calls and finished scans, scans
  of libraries deleted or changed since among them.
\<close>

theorem library_calls_keep_tables:
  assumes "tables_ok (lib_store h)"
  shows "tables_ok (lib_store (fold lib_step cs h))"
  using assms
proof (induction cs arbitrary: h)
  case (Cons c cs)
  have "tables_ok (lib_store (lib_step c h))"
  proof (cases c)
    case (CallCreate stamp now req)
    then show ?thesis using Cons.prems save_library_ok by (auto simp: Library_Create_def Let_def split: option.split)
  next
    case (CallUpdate sql now i req)
    then show ?thesis using Cons.prems save_library_ok by (auto simp: Library_Update_def split: option.split)
  next
    case (CallDelete sql i)
    then show ?thesis using Cons.prems store_op_ok [of "lib_store h" "OpDeleteLibrary i"] by (simp add: Library_Delete_def)
  next
    case (ScanRuns env start t l)
    then show ?thesis using Cons.prems store_op_ok [OF process_files_ok, of _ "OpScanTime (lib_ID l) t"]
      by (simp add: scan_task_store scan_store)
  qed
  then show ?case using Cons.IH by simp
qed simp

theorem library_calls_keep_tables_witness:
  "tables_ok (lib_store (fold lib_step [CallDelete True ''L'', ScanRuns demo_env 0 1 demo_library] \<lparr>scanner = NewScanner demo_store\<rparr>))"
  by (rule library_calls_keep_tables) (simp add: NewScanner_def tables_ok_def demo_store_ok)

lemma save_item_libraries: "libraries (snd (SaveMediaItem now i st)) = libraries st"
  by (simp add: SaveMediaItem_def Let_def split: option.split)

lemma process_files_libraries: "libraries (media_store (snd (process_files env l n i paths s))) = libraries (media_store s)"
  by (induction paths arbitrary: i s) (simp_all add: process_store save_item_libraries split: option.split)

text \<open>
  A finished scan is recorded as the last scan of its library, also when it was cancelled before the first file; nothing
  else of any library changes.
\<close>

theorem scans_are_recorded_whatever_happens:
  "GetLibrary j (lib_store (scan_task env start t l h))
    = map_option (\<lambda>x. if j = lib_ID l then x\<lparr>lib_LastScanAt := Some t\<rparr> else x) (GetLibrary j (lib_store h))"
  by (cases "j = lib_ID l"; cases "gget (libraries (lib_store h)) j")
    (auto simp: scan_task_store scan_store GetLibrary_def UpdateLibraryScanTime_def process_files_libraries gomap_simps split: option.split)

section \<open>What is answered\<close>

text \<open>
  A created library is answered with the status 201 and read back under its identifier, with one of the three types and a
  positive interval; every refusal, an unknown type and a path in use among them, changes nothing.
\<close>

theorem created_library_is_read_back:
  "case Library_Create stamp now req h of
     (WriteError c m, h') \<Rightarrow> h' = h \<and> (c = 400 \<or> c = 500)
   | (WriteJSON c l, h') \<Rightarrow> c = 201 \<and> 1 \<le> lib_RefreshIntervalMinutes l
       \<and> lib_LibraryType l \<in> {LibraryTypeMovie, LibraryTypeTV, LibraryTypeMusic}
       \<and> (\<exists>t. Library_Get True (lib_ID l) h' = WriteJSON 200 (l\<lparr>lib_CreatedAt := t\<rparr>))"
proof (cases req)
  case (Some q)
  show ?thesis
    by (auto simp: Some Library_Create_def save_library_def SaveLibrary_def Let_def library_times_def Library_Get_def GetLibrary_def gomap_simps
      split: option.split if_splits)
qed (simp add: Library_Create_def)

text \<open>
  A page of items has at most as many as its limit, which is between 1 and 200 whatever is asked for, and the limit
  and the offset answered are those of the page; a number out of bounds is refused.
\<close>

theorem item_pages_bounded:
  "case ListItems sql i offset limit h of
     WriteError c m \<Rightarrow> c = 400 \<or> c = 500 \<and> \<not> sql
   | WriteJSON c (items, n, off, lmt) \<Rightarrow> c = 200 \<and> 0 \<le> off \<and> 1 \<le> lmt \<and> lmt \<le> 200 \<and> int (length items) \<le> lmt
       \<and> n = int (length (library_rows i (lib_store h)))
       \<and> items = map (\<lambda>x. x\<lparr>mi_MetadataFetchedAt := None\<rparr>) (take (nat lmt) (drop (nat off) (library_rows i (lib_store h))))"
proof -
  have p: "lo \<le> v \<and> v \<le> hi" if "page_param lo hi d s = Some v" "lo \<le> d" "d \<le> hi" for lo hi d s v
    using that by (auto simp: page_param_def split: if_splits option.splits)
  show ?thesis
  proof (cases "page_param 0 (2 ^ 63 - 1) 0 offset")
    case o0: (Some off)
    show ?thesis
    proof (cases "page_param 1 200 50 limit")
      case (Some lmt)
      have l: "1 \<le> lmt" "lmt \<le> 200" using p [OF Some] by simp_all
      have o: "0 \<le> off" using p [OF o0] by simp
      have m: "int (min k (nat lmt)) \<le> lmt" for k using l by linarith
      show ?thesis using l o m o0 Some
        by (simp add: ListItems_def GetLibraryItems_def page_limit_def Let_def)
    qed (use o0 in \<open>simp add: ListItems_def\<close>)
  qed (simp add: ListItems_def)
qed

end
