(* ===== verification/Router.thy ===== *)
theory Router
  imports Configuration AppMetrics LibraryAPI Streaming WebSocketHub RateLimit Admin
begin

text \<open>
  The server's routes and middlewares, \<^verbatim>\<open>internal/api/router.go\<close>: what \<^verbatim>\<open>NewRouter\<close> builds and registers, the security
  headers, the request metrics and their export. A route is a row of a table: the pattern with the patterns of the
  enclosing \<^verbatim>\<open>Route\<close> calls before it, the handler, and the middlewares of its groups from the outermost. How chi chooses
  among rows that match one request is left open; a request that no row matches is not found.

  The components that the handlers share through pointers are kept once, and the handlers are views of them. Not
  modelled are the global middlewares of chi and cors, which the sources only list.
\<close>

section \<open>Security headers\<close>

text \<open>\<^verbatim>\<open>http.Header.Set\<close> writes a key of token characters in its canonical form and leaves others as they are.\<close>

definition token_char :: "char \<Rightarrow> bool" where
  "token_char c \<longleftrightarrow> is_digit c \<or> lower_char c \<in> set ''abcdefghijklmnopqrstuvwxyz'' \<or> c \<in> set ''!#$%&'*+-.^_|~'' \<or> of_char c = (96 :: nat)"

fun canonical_key :: "bool \<Rightarrow> string \<Rightarrow> string" where
  "canonical_key up [] = []"
| "canonical_key up (c # s) = (if up then upper_char c else lower_char c) # canonical_key (c = CHR ''-'') s"

definition CanonicalKey :: "string \<Rightarrow> string" where
  "CanonicalKey k = (if list_all token_char k then canonical_key True k else k)"

type_synonym headers = "(string, string) gomap"

definition SetHeader :: "string \<Rightarrow> string \<Rightarrow> headers \<Rightarrow> headers" where
  "SetHeader k v h = gput h (CanonicalKey k) v"

text \<open>The configured value, or the default without a configuration or with an empty value.\<close>

definition configured_or :: "string \<Rightarrow> (SecurityConfig \<Rightarrow> string) \<Rightarrow> SecurityConfig option \<Rightarrow> string" where
  "configured_or d f cfg = (case cfg of None \<Rightarrow> d | Some c \<Rightarrow> if f c \<noteq> [] then f c else d)"

definition default_csp :: string where "default_csp = ''default-src 'self'' @ [CHR 0x27]"

definition hsts_value :: "SecurityConfig \<Rightarrow> string" where
  "hsts_value c = ''max-age='' @ Itoa (HSTSMaxAge c) @ (if HSTSMaxAge c > 0 then ''; includeSubDomains'' else [])"

text \<open>What the middleware does to the headers before the next handler runs; \<open>AdditionalHeaders\<close> is in the order of a run.\<close>

definition securityHeadersMiddleware :: "SecurityConfig option \<Rightarrow> headers \<Rightarrow> headers" where
  "securityHeadersMiddleware cfg h0 =
     (if (case cfg of Some c \<Rightarrow> \<not> EnableHeaders c | None \<Rightarrow> False) then h0
      else
        let h1 = SetHeader ''Content-Security-Policy'' (configured_or default_csp CSP cfg) h0;
            h2 = SetHeader ''X-Frame-Options'' (configured_or ''DENY'' XFrameOptions cfg) h1;
            h3 = SetHeader ''X-Content-Type-Options'' (configured_or ''nosniff'' XContentTypeOptions cfg) h2;
            h4 = (case cfg of Some c \<Rightarrow> if HSTSEnabled c then SetHeader ''Strict-Transport-Security'' (hsts_value c) h3 else h3 | None \<Rightarrow> h3);
            h5 = SetHeader ''X-XSS-Protection'' (configured_or ''1; mode=block'' XXSSProtection cfg) h4;
            h6 = SetHeader ''Referrer-Policy'' (configured_or ''strict-origin-when-cross-origin'' ReferrerPolicy cfg) h5;
            h7 = (case cfg of Some c \<Rightarrow> if PermissionsPolicy c \<noteq> [] then SetHeader ''Permissions-Policy'' (PermissionsPolicy c) h6 else h6 | None \<Rightarrow> h6);
            h8 = (case cfg of Some c \<Rightarrow> fold (\<lambda>(k, v) h. SetHeader k v h) (AdditionalHeaders c) h7 | None \<Rightarrow> h7)
        in SetHeader ''X-Permitted-Cross-Domain-Policies'' ''none'' h8)"

section \<open>The route table\<close>

definition MaxRequestBodySize :: int where "MaxRequestBodySize = 2 ^ 20"
definition MaxProbeReportSize :: int where "MaxProbeReportSize = 2 ^ 20"

datatype middleware = RateLimited | BodyLimit int | AuthRequired | AdminOnly

record Route =
  ro_method :: string
  ro_path :: string
  ro_handler :: string
  ro_mw :: "middleware list"

definition route :: "middleware list \<Rightarrow> string \<times> string \<times> string \<Rightarrow> Route" where
  "route ms = (\<lambda>(m, p, h). \<lparr>ro_method = m, ro_path = p, ro_handler = h, ro_mw = ms\<rparr>)"

definition authenticated :: "middleware list" where
  "authenticated = [AuthRequired, BodyLimit MaxRequestBodySize]"

text \<open>The endpoints beside the API.\<close>

definition global_routes :: "Route list" where
  "global_routes = map (route []) [
     (''GET'', ''/health'', ''r.healthCheckHandler''),
     (''GET'', ''/metrics'', ''r.metricsHandler''),
     (''GET'', ''/ws'', ''r.wsHub.ServeWS'')]"

text \<open>Open to all, without a limit.\<close>

definition public_routes :: "Route list" where
  "public_routes = map (route []) [
     (''GET'', ''/api/v1/openapi.yaml'', ''r.openAPIHandler''),
     (''POST'', ''/api/v1/auth/login'', ''r.auth.Login''),
     (''POST'', ''/api/v1/auth/refresh'', ''r.auth.Refresh''),
     (''POST'', ''/api/v1/auth/validate-password'', ''r.auth.ValidatePassword'')]"

text \<open>Open to all, with a limit on requests and bodies.\<close>

definition probe_routes :: "Route list" where
  "probe_routes = map (route [RateLimited, BodyLimit MaxProbeReportSize]) [
     (''POST'', ''/api/v1/probe/report'', ''r.devices.handleProbeReport''),
     (''GET'', ''/api/v1/probe/scenarios'', ''r.probeScenariosHandler'')]"

text \<open>Open to all.\<close>

definition capability_routes :: "Route list" where
  "capability_routes = map (route []) [
     (''GET'', ''/api/v1/capabilities'', ''r.devices.handleGetCapabilities''),
     (''POST'', ''/api/v1/capabilities'', ''r.devices.handleValidateCapabilities'')]"

definition device_routes :: "Route list" where
  "device_routes = map (route authenticated) [
     (''GET'', ''/api/v1/devices'', ''r.devices.handleSearchDevices''),
     (''GET'', ''/api/v1/devices/curated'', ''r.devices.handleGetCuratedDevices''),
     (''GET'', ''/api/v1/devices/platform/{platform}'', ''r.devices.handleGetDevicesByPlatform''),
     (''GET'', ''/api/v1/devices/codecs/{codec}'', ''r.devices.handleGetDevicesByCodec''),
     (''GET'', ''/api/v1/device/{id}/profile'', ''r.devices.handleGetDeviceProfile''),
     (''POST'', ''/api/v1/devices/{id}/feedback'', ''r.devices.handlePlaybackFeedback''),
     (''GET'', ''/api/v1/devices/{id}/feedback/stats'', ''r.devices.handleGetPlaybackStats''),
     (''GET'', ''/api/v1/devices/{id}/reliable-codecs'', ''r.devices.handleGetReliableCodecs''),
     (''POST'', ''/api/v1/devices/{id}/reprobe'', ''r.devices.handleReProbeDevice''),
     (''GET'', ''/api/v1/devices/{id}/trust'', ''r.devices.handleGetTrustReport''),
     (''GET'', ''/api/v1/feedback/metrics'', ''r.devices.handleGetFeedbackMetrics'')]"

definition playback_routes :: "Route list" where
  "playback_routes = map (route authenticated) [
     (''POST'', ''/api/v1/playback/decision'', ''r.playback.handlePlaybackDecision''),
     (''POST'', ''/api/v1/playback/feedback'', ''r.playback.handlePlaybackFeedback''),
     (''POST'', ''/api/v1/playback/transcode'', ''r.playback.handleTranscodeRecommendation''),
     (''GET'', ''/api/v1/playback/profiles'', ''r.playback.handleGetProfiles''),
     (''POST'', ''/api/v1/playback/validate'', ''r.playback.handleValidateStream''),
     (''GET'', ''/api/v1/playback/history'', ''r.playbackHistoryHandler'')]"

definition library_routes :: "Route list" where
  "library_routes = map (route authenticated) [
     (''GET'', ''/api/v1/libraries/'', ''r.library.List''),
     (''POST'', ''/api/v1/libraries/'', ''r.library.Create''),
     (''GET'', ''/api/v1/libraries/{id}'', ''r.library.Get''),
     (''PUT'', ''/api/v1/libraries/{id}'', ''r.library.Update''),
     (''DELETE'', ''/api/v1/libraries/{id}'', ''r.library.Delete''),
     (''POST'', ''/api/v1/libraries/{id}/scan'', ''r.library.Scan''),
     (''GET'', ''/api/v1/libraries/{id}/scan/status'', ''r.library.ScanStatus''),
     (''GET'', ''/api/v1/libraries/{libraryId}/items'', ''r.library.ListItems'')]"

definition media_routes :: "Route list" where
  "media_routes = map (route authenticated) [
     (''GET'', ''/api/v1/media/{id}'', ''r.media.Get''),
     (''GET'', ''/api/v1/media/{id}/stream'', ''r.media.StreamInfo''),
     (''GET'', ''/api/v1/media/{id}/play'', ''r.media.Play'')]"

definition stream_routes :: "Route list" where
  "stream_routes = map (route authenticated) [
     (''GET'', ''/api/v1/stream/hls/{id}'', ''r.stream.ServeHLS''),
     (''GET'', ''/api/v1/stream/hls/playlist'', ''r.stream.ServeHLSManifest''),
     (''GET'', ''/api/v1/stream/hls/segment'', ''r.stream.ServeHLSSegment'')]"

definition user_routes :: "Route list" where
  "user_routes = map (route authenticated) [
     (''GET'', ''/api/v1/users/me'', ''r.user.GetCurrentUserProfile''),
     (''POST'', ''/api/v1/users/me/change-password'', ''r.user.ChangePassword''),
     (''GET'', ''/api/v1/users'', ''r.user.ListUsers''),
     (''POST'', ''/api/v1/users'', ''r.user.CreateUser''),
     (''GET'', ''/api/v1/users/{id}'', ''r.user.GetUser''),
     (''PATCH'', ''/api/v1/users/{id}'', ''r.user.UpdateUser''),
     (''DELETE'', ''/api/v1/users/{id}'', ''r.user.DeleteUser''),
     (''POST'', ''/api/v1/users/{id}/lock'', ''r.user.LockUser''),
     (''POST'', ''/api/v1/users/{id}/unlock'', ''r.user.UnlockUser''),
     (''POST'', ''/api/v1/users/{id}/reset-password'', ''r.user.ChangePassword'')]"

text \<open>Registered after the handlers above, partly on the same patterns.\<close>

definition legacy_routes :: "Route list" where
  "legacy_routes = map (route authenticated) [
     (''GET'', ''/api/v1/devices/'', ''r.listDevicesHandler''),
     (''GET'', ''/api/v1/devices/{deviceID}'', ''r.getDeviceHandler''),
     (''GET'', ''/api/v1/devices/{deviceID}/capabilities'', ''r.getDeviceCapabilitiesHandler''),
     (''PATCH'', ''/api/v1/devices/{deviceID}'', ''r.updateDeviceHandler''),
     (''GET'', ''/api/v1/users/'', ''r.listUsersHandler''),
     (''POST'', ''/api/v1/users/'', ''r.createUserHandler''),
     (''GET'', ''/api/v1/users/{userID}'', ''r.getUserHandler''),
     (''PUT'', ''/api/v1/users/{userID}'', ''r.updateUserHandler''),
     (''DELETE'', ''/api/v1/users/{userID}'', ''r.deleteUserHandler'')]"

definition admin_routes :: "Route list" where
  "admin_routes = map (route (authenticated @ [AdminOnly])) [
     (''GET'', ''/api/v1/admin/system'', ''r.admin.handleGetSystemInfo''),
     (''GET'', ''/api/v1/admin/health'', ''r.admin.handleHealthCheck''),
     (''GET'', ''/api/v1/admin/stats/cache'', ''r.admin.handleGetCacheStats''),
     (''GET'', ''/api/v1/admin/stats/database'', ''r.admin.handleGetDatabaseStats''),
     (''GET'', ''/api/v1/admin/stats/validator'', ''r.admin.handleGetValidatorStats''),
     (''POST'', ''/api/v1/admin/cache/cleanup'', ''r.admin.handleCacheCleanup''),
     (''GET'', ''/api/v1/admin/cache/memory'', ''r.admin.handleGetMemoryCache''),
     (''GET'', ''/api/v1/admin/anomalies'', ''r.admin.handleGetAnomalies''),
     (''GET'', ''/api/v1/admin/decisions'', ''r.admin.handleGetDecisions''),
     (''GET'', ''/api/v1/admin/decisions/stats'', ''r.admin.handleGetDecisionStats''),
     (''POST'', ''/api/v1/admin/curated/device'', ''r.admin.handleUpdateCuratedDevice''),
     (''POST'', ''/api/v1/admin/curated/device/{id}/verify'', ''r.admin.handleVerifyDevice''),
     (''DELETE'', ''/api/v1/admin/curated/device/{id}'', ''r.admin.handleRemoveCuratedDevice''),
     (''PUT'', ''/api/v1/admin/curated/devices'', ''r.admin.handleCreateCuratedDevice''),
     (''PUT'', ''/api/v1/admin/curated/devices/{id}'', ''r.admin.handlePutCuratedDevice''),
     (''DELETE'', ''/api/v1/admin/curated/devices/{id}'', ''r.admin.handleDeleteCuratedDevice''),
     (''POST'', ''/api/v1/admin/curated/devices/{id}/vote'', ''r.admin.handleVoteCuratedDevice''),
     (''POST'', ''/api/v1/admin/curated/search'', ''r.admin.handleFuzzySearchCuratedDevices''),
     (''POST'', ''/api/v1/admin/curated/version-match'', ''r.admin.handleVersionMatch''),
     (''GET'', ''/api/v1/admin/curated/embedded/stats'', ''r.admin.handleGetEmbeddedStats''),
     (''POST'', ''/api/v1/admin/curated/embedded/sync'', ''r.admin.handleSyncEmbeddedToCuratedDB''),
     (''GET'', ''/api/v1/admin/curated/export'', ''r.admin.handleExportCuratedDevices''),
     (''POST'', ''/api/v1/admin/curated/import'', ''r.admin.handleImportCuratedDevices''),
     (''GET'', ''/api/v1/admin/stats'', ''r.adminStatsHandler''),
     (''POST'', ''/api/v1/admin/migrations'', ''r.runMigrationsHandler''),
     (''GET'', ''/api/v1/admin/curated-devices'', ''r.listCuratedDevicesHandler''),
     (''POST'', ''/api/v1/admin/curated-devices'', ''r.createCuratedDeviceHandler'')]"

text \<open>The routes of the library, the media items and the streams are registered for handlers that are there.\<close>

definition routes :: "bool \<Rightarrow> bool \<Rightarrow> bool \<Rightarrow> Route list" where
  "routes has_library has_media has_stream =
     global_routes @ public_routes @ probe_routes @ capability_routes @ device_routes @ playback_routes
     @ (if has_library then library_routes else []) @ (if has_media then media_routes else [])
     @ (if has_stream then stream_routes else []) @ user_routes @ legacy_routes @ admin_routes"

section \<open>The router\<close>

record ('k, 'p) Router =
  r_cfg :: AppConfig
  r_hub :: "('k, 'p) Hub"
  r_validator :: Validator
  r_cache :: CapabilityCache
  r_curatedDB :: CuratedDatabase
  r_feedback :: FeedbackManager
  r_orchestrator :: "Orchestrator option"
  r_decisionLog :: "DecisionLogger option"
  r_user :: UserHandler
  r_rateLimiter :: rateLimiter
  r_library :: "LibraryHandler option"
  r_media :: "Store option"
  r_stream :: "Handler option"
  r_routes :: "Route list"

text \<open>The secret that tokens are signed with.\<close>

definition jwt_secret :: "AppConfig \<Rightarrow> string" where
  "jwt_secret cfg = (if JWTSecret (cf_Auth cfg) = [] then ''development-secret-change-in-production'' else JWTSecret (cf_Auth cfg))"

text \<open>The origins that the cors package is given.\<close>

definition cors_origins :: "AppConfig \<Rightarrow> string list" where
  "cors_origins cfg =
     (let os = AllowedOrigins (cf_Auth cfg)
      in if os = [] then if ProductionMode (cf_Auth cfg) then [] else dev_origins else os)"

definition router_cache_config :: CacheConfig where
  "router_cache_config = \<lparr>MemoryTTL = 24 * Hour, SQLiteTTL = 30 * 24 * Hour, EnableSQLite = False, MaxMemoryItems = 10000\<rparr>"

text \<open>
  The cache without a database cannot fail to open; \<^verbatim>\<open>NewRouter\<close> would try once more with the same settings. \<open>files\<close>
  holds the curated devices read from the data directory, or nothing if it cannot be read. No library, media or stream
  handler is set when the routes are registered.
\<close>

definition register_routes :: "('k, 'p) Router \<Rightarrow> ('k, 'p) Router" where
  "register_routes r = r\<lparr>r_routes := routes (r_library r \<noteq> None) (r_media r \<noteq> None) (r_stream r \<noteq> None)\<rparr>"

definition NewRouter ::
  "(string \<Rightarrow> (string \<Rightarrow> bool) option) \<Rightarrow> time \<Rightarrow> CuratedDevice list list option \<Rightarrow> AppConfig \<Rightarrow> database \<Rightarrow>
     Orchestrator option \<Rightarrow> DecisionLogger option \<Rightarrow> (cache_error, ('k, 'p) Router) sum" where
  "NewRouter compile now files cfg d orch dlog =
     (case NewCapabilityCache True [] (Some router_cache_config) of
        Inl e \<Rightarrow> Inl e
      | Inr c \<Rightarrow> Inr (register_routes \<lparr>r_cfg = cfg, r_hub = NewWebSocketHub compile (AllowedOrigins (cf_Auth cfg)), r_validator = NewValidator,
          r_cache = c, r_curatedDB = Load now files NewCuratedDatabase, r_feedback = NewFeedbackManager, r_orchestrator = orch,
          r_decisionLog = dlog, r_user = NewUserHandler (NewAuthHandler d (jwt_secret cfg)), r_rateLimiter = newRateLimiter 100 Minute,
          r_library = None, r_media = None, r_stream = None, r_routes = []\<rparr>))"

definition r_devices :: "PlaybackMetrics \<Rightarrow> ('k, 'p) Router \<Rightarrow> DeviceHandlers" where
  "r_devices m r = SetFeedbackManager (Some (r_feedback r)) (NewDeviceHandlers (r_validator r) (r_cache r) (r_curatedDB r) m)"

definition r_playback :: "('k, 'p) Router \<Rightarrow> PlaybackHandlers" where
  "r_playback r = \<lparr>ph_cache = r_cache r, ph_orchestrator = r_orchestrator r\<rparr>"

definition r_admin :: "('k, 'p) Router \<Rightarrow> AdminHandlers" where
  "r_admin r = SetDecisionLogger (r_decisionLog r) (NewAdminHandlers (r_validator r) (r_cache r) (r_curatedDB r))"

definition SetLibraryHandler :: "LibraryHandler option \<Rightarrow> ('k, 'p) Router \<Rightarrow> ('k, 'p) Router" where
  "SetLibraryHandler h r = r\<lparr>r_library := h\<rparr>"
definition SetMediaHandler :: "Store option \<Rightarrow> ('k, 'p) Router \<Rightarrow> ('k, 'p) Router" where
  "SetMediaHandler h r = r\<lparr>r_media := h\<rparr>"
definition SetStreamHandler :: "Handler option \<Rightarrow> ('k, 'p) Router \<Rightarrow> ('k, 'p) Router" where
  "SetStreamHandler h r = r\<lparr>r_stream := h\<rparr>"

section \<open>Answers of the router itself\<close>

text \<open>A status and the text of the body.\<close>

type_synonym stub = "int \<times> string"

definition not_implemented :: stub where "not_implemented = (501, ''{\"error\":\"not implemented\"}'')"

definition probeScenariosHandler :: stub where "probeScenariosHandler = not_implemented"
definition playbackHistoryHandler :: stub where "playbackHistoryHandler = not_implemented"
definition listLibrariesHandler :: stub where "listLibrariesHandler = not_implemented"
definition getLibraryHandler :: stub where "getLibraryHandler = not_implemented"
definition listLibraryItemsHandler :: stub where "listLibraryItemsHandler = not_implemented"
definition getLibraryItemHandler :: stub where "getLibraryItemHandler = not_implemented"
definition listDevicesHandler :: stub where "listDevicesHandler = not_implemented"
definition getDeviceHandler :: stub where "getDeviceHandler = not_implemented"
definition getDeviceCapabilitiesHandler :: stub where "getDeviceCapabilitiesHandler = not_implemented"
definition updateDeviceHandler :: stub where "updateDeviceHandler = not_implemented"
definition listUsersHandler :: stub where "listUsersHandler = not_implemented"
definition createUserHandler :: stub where "createUserHandler = not_implemented"
definition getUserHandler :: stub where "getUserHandler = not_implemented"
definition updateUserHandler :: stub where "updateUserHandler = not_implemented"
definition deleteUserHandler :: stub where "deleteUserHandler = not_implemented"
definition adminStatsHandler :: stub where "adminStatsHandler = not_implemented"
definition runMigrationsHandler :: stub where "runMigrationsHandler = not_implemented"
definition listCuratedDevicesHandler :: stub where "listCuratedDevicesHandler = not_implemented"
definition createCuratedDeviceHandler :: stub where "createCuratedDeviceHandler = not_implemented"

definition healthCheckHandler :: "string option \<Rightarrow> int \<times> string" where
  "healthCheckHandler ping =
     (case ping of
        Some e \<Rightarrow> (503, ''{\"status\":\"unhealthy\",\"error\":\"database connection failed\"}'')
      | None \<Rightarrow> (200, ''{\"status\":\"ok\"}''))"

definition openAPIHandler :: "string option \<Rightarrow> int \<times> string \<times> string" where
  "openAPIHandler spec =
     (case spec of
        None \<Rightarrow> (500, ''application/json'', ''{\"error\":\"OpenAPI spec not found\"}'')
      | Some s \<Rightarrow> (200, ''application/yaml'', s))"

section \<open>Request metrics\<close>

definition getEndpointKey :: "string \<Rightarrow> string" where
  "getEndpointKey path =
     (if path \<in> set [''/health'', ''/metrics'', ''/ws''] then path
      else if path \<in> set [''/api/v1/capabilities'', ''/api/v1/devices/capabilities''] then ''/api/v1/capabilities''
      else if path = ''/api/v1/probe/report'' then ''/api/v1/probe/report''
      else if path = ''/api/v1/probe/scenarios'' then ''/api/v1/probe/scenarios''
      else if length path > 4 \<and> take 4 path = ''/api'' then ''/api/v1/*'' else path)"

text \<open>
  What the middleware records once the next handler has answered, which may itself have recorded something. A handler that
  panics is not counted.
\<close>

definition metricsMiddleware ::
  "string \<Rightarrow> string \<Rightarrow> duration \<Rightarrow> ('b, 'r \<times> Metrics \<times> 's) handler \<Rightarrow> ('b, 'r \<times> Metrics \<times> 's) handler" where
  "metricsMiddleware path mthd elapsed nxt q s0 =
     (case nxt q s0 of
        ((status, out), (rl, m, s)) \<Rightarrow> ((status, out), (rl, RecordRequest (getEndpointKey path) mthd status elapsed m, s)))"

text \<open>The verb \<^verbatim>\<open>%.4f\<close> for numbers that are not negative.\<close>

definition Fmt4 :: "float64 \<Rightarrow> string" where
  "Fmt4 x = (let n = nat (rne (x * 10000))
     in digits (n div 10000) @ ''.'' @ map (\<lambda>k. digit_char (n div 10 ^ k mod 10)) [3, 2, 1, 0])"

definition metric_text :: "string \<Rightarrow> string \<Rightarrow> string \<Rightarrow> string \<Rightarrow> string" where
  "metric_text name help kind v =
     ''# HELP '' @ name @ '' '' @ help @ [CHR 0x0A] @ ''# TYPE '' @ name @ '' '' @ kind @ [CHR 0x0A] @ name @ '' '' @ v @ [CHR 0x0A]"

definition metricsHandler :: "Metrics \<Rightarrow> string" where
  "metricsHandler m =
     (let s = Snapshot m
      in Join [
        metric_text ''tenkile_active_streams'' ''Active streaming sessions'' ''gauge'' (Itoa (sn_ActiveStreams s)),
        metric_text ''tenkile_cache_hit_total'' ''Cache hits'' ''counter'' (Itoa (sn_CacheHits s)),
        metric_text ''tenkile_cache_miss_total'' ''Cache misses'' ''counter'' (Itoa (sn_CacheMisses s)),
        metric_text ''tenkile_cache_hit_rate'' ''Cache hit rate'' ''gauge'' (Fmt4 (sn_CacheHitRate s)),
        metric_text ''tenkile_transcode_count'' ''Total transcodes'' ''counter'' (Itoa (sn_TranscodeCount s)),
        metric_text ''tenkile_transcode_errors'' ''Transcode errors'' ''counter'' (Itoa (sn_TranscodeErrors s)),
        metric_text ''tenkile_devices_registered'' ''Registered devices'' ''gauge'' (Itoa (sn_DevicesRegistered s)),
        metric_text ''tenkile_devices_active'' ''Active devices'' ''gauge'' (Itoa (sn_DevicesActive s)),
        metric_text ''tenkile_ws_connections'' ''WebSocket connections'' ''gauge'' (Itoa (sn_WSConnections s)),
        metric_text ''tenkile_ws_messages_sent'' ''WebSocket messages sent'' ''counter'' (Itoa (sn_WSMessagesSent s)),
        metric_text ''tenkile_ws_messages_recv'' ''WebSocket messages received'' ''counter'' (Itoa (sn_WSMessagesRecv s))] [CHR 0x0A])"

section \<open>A request through the middlewares of its route\<close>

text \<open>The state is that of the rate limiter and of the handler. \<open>len\<close> is the declared length of the body, \<open>bytes\<close> its length.\<close>

fun guarded :: "AuthConfig \<Rightarrow> time \<Rightarrow> int \<Rightarrow> int \<Rightarrow> middleware list \<Rightarrow> ('b, rateLimiter \<times> 's) handler \<Rightarrow> ('b, rateLimiter \<times> 's) handler" where
  "guarded cfg now len bytes [] nxt = nxt"
| "guarded cfg now len bytes (AuthRequired # ms) nxt = authMiddleware cfg (guarded cfg now len bytes ms nxt)"
| "guarded cfg now len bytes (AdminOnly # ms) nxt = adminOnlyMiddleware (guarded cfg now len bytes ms nxt)"
| "guarded cfg now len bytes (BodyLimit n # ms) nxt = bodySizeLimitMiddleware n len bytes (guarded cfg now len bytes ms nxt)"
| "guarded cfg now len bytes (RateLimited # ms) nxt =
     (\<lambda>r (rl, s). case rateLimitMiddleware now (remoteAddr r) (header r ''X-Forwarded-For'') rl of
        (Some c, rl') \<Rightarrow> ((c, Refusal ''rate_limit_exceeded'' ''Too many requests, please try again later''), (rl', s))
      | (None, rl') \<Rightarrow> guarded cfg now len bytes ms nxt r (rl', s))"


section \<open>Who passes\<close>

text \<open>The endpoints that need no credentials.\<close>

definition public_endpoints :: "string list" where
  "public_endpoints = [''/health'', ''/metrics'', ''/ws'', ''/api/v1/openapi.yaml'', ''/api/v1/auth/login'', ''/api/v1/auth/refresh'',
     ''/api/v1/auth/validate-password'', ''/api/v1/probe/report'', ''/api/v1/probe/scenarios'', ''/api/v1/capabilities'']"

lemma routes_guarded: "list_all (\<lambda>rt. ro_path rt \<in> set public_endpoints
    \<or> ro_mw rt = (if HasPrefix (ro_path rt) ''/api/v1/admin/'' then authenticated @ [AdminOnly] else authenticated)) (routes False False False)"
  by code_simp

lemma auth_without_key:
  assumes "header q (if APIKeyHeader cfg = [] then ''X-API-Key'' else APIKeyHeader cfg) = []"
  shows "authMiddleware cfg nxt q s =
    (if \<not> hasJWT (header q ''Authorization'') then ((401, Refusal ''authentication_required'' ''Authentication required''), s)
     else if JWTSecret cfg \<noteq> [] then
       nxt (q\<lparr>ctxUser := Some \<lparr>u_ID = ''jwt-user'', u_Username = ''jwt-user'', u_PasswordHash = [], u_Role = ''user''\<rparr>\<rparr>) s
     else ((401, Refusal ''authentication_failed'' ''Authentication failed''), s))"
  unfolding authMiddleware_def Let_def assms by simp

lemma new_router: "NewRouter compile now files cfg d orch dlog = Inr r \<Longrightarrow> r_routes r = routes False False False \<and> r_cfg r = cfg"
  by (auto simp: NewRouter_def register_routes_def split: sum.splits)

text \<open>What a handler sees of a request with a bearer token.\<close>

definition as_jwt_user :: "int \<Rightarrow> int \<Rightarrow> 'b request \<Rightarrow> 'b request" where
  "as_jwt_user len bytes q =
     (let u = q\<lparr>ctxUser := Some \<lparr>u_ID = ''jwt-user'', u_Username = ''jwt-user'', u_PasswordHash = [], u_Role = ''user''\<rparr>\<rparr>
      in if len = -1 \<and> bytes > MaxRequestBodySize then u\<lparr>body := None\<rparr> else u)"

text \<open>
  C11. Without an API key a request to any registered endpoint that is not public is refused without a bearer token, and the
  administrators' endpoints refuse it with one; every other handler runs whatever the token is, as the user
  \<open>jwt-user\<close>.
\<close>

theorem requests_without_key:
  assumes "NewRouter compile now0 files cfg d orch dlog = Inr r" and "rt \<in> set (r_routes r)" and "ro_path rt \<notin> set public_endpoints"
    and "header q (if APIKeyHeader (cf_Auth cfg) = [] then ''X-API-Key'' else APIKeyHeader (cf_Auth cfg)) = []"
    and "JWTSecret (cf_Auth cfg) \<noteq> []" and "len \<le> MaxRequestBodySize"
  shows "guarded (AuthConfig.truncate (cf_Auth cfg)) now len bytes (ro_mw rt) nxt q s =
    (if \<not> hasJWT (header q ''Authorization'') then ((401, Refusal ''authentication_required'' ''Authentication required''), s)
     else if HasPrefix (ro_path rt) ''/api/v1/admin/'' then ((403, Refusal ''forbidden'' ''Admin access required''), s)
     else nxt (as_jwt_user len bytes q) s)"
proof -
  have rt: "rt \<in> set (routes False False False)" using new_router [OF assms(1)] assms(2) by simp
  have m: "ro_mw rt = (if HasPrefix (ro_path rt) ''/api/v1/admin/'' then authenticated @ [AdminOnly] else authenticated)"
    using routes_guarded assms(3) rt unfolding list_all_iff by blast
  have t: "APIKeyHeader (AuthConfig.truncate (cf_Auth cfg)) = APIKeyHeader (cf_Auth cfg)"
    "JWTSecret (AuthConfig.truncate (cf_Auth cfg)) = JWTSecret (cf_Auth cfg)"
    by (simp_all add: AuthConfig.defs)
  have k: "header q (if APIKeyHeader (AuthConfig.truncate (cf_Auth cfg)) = [] then ''X-API-Key'' else APIKeyHeader (AuthConfig.truncate (cf_Auth cfg))) = []"
    using assms(4) by (simp only: t)
  show ?thesis
  proof (cases "HasPrefix (ro_path rt) ''/api/v1/admin/''")
    case True
    then show ?thesis using assms(5,6)
      by (simp add: m authenticated_def auth_without_key [OF k] t adminOnlyMiddleware_def bodySizeLimitMiddleware_def)
  next
    case False
    then show ?thesis using assms(5,6)
      by (simp add: m authenticated_def auth_without_key [OF k] t bodySizeLimitMiddleware_def as_jwt_user_def Let_def)
  qed
qed

text \<open>A server whose configuration only has a secret.\<close>

definition demo_config :: AppConfig where
  "demo_config = zeroConfig\<lparr>cf_Auth := (cf_Auth zeroConfig)\<lparr>JWTSecret := ''s''\<rparr>\<rparr>"

definition demo_router :: "(nat, unit) Router" where
  "demo_router = (case NewRouter (\<lambda>_. None) 0 None demo_config (users two_users) None None of Inr r \<Rightarrow> r | Inl e \<Rightarrow> undefined)"

lemma demo_router: "NewRouter (\<lambda>_. None) 0 None demo_config (users two_users) None None = Inr demo_router"
  by (simp add: demo_router_def NewRouter_def NewCapabilityCache_def router_cache_config_def Let_def)

theorem requests_without_key_witness:
  "guarded (AuthConfig.truncate (cf_Auth demo_config)) 0 0 0 authenticated (\<lambda>q s. ((204, NoBody), s))
      \<lparr>remoteAddr = ''1.2.3.4:5'', header = (\<lambda>k. if k = ''Authorization'' then ''Bearer x'' else []), body = (None :: unit option), ctxUser = None\<rparr>
      (newRateLimiter 100 Minute, ()) = ((204, NoBody), (newRateLimiter 100 Minute, ()))"
proof -
  let ?rt = "route authenticated (''DELETE'', ''/api/v1/users/{id}'', ''r.user.DeleteUser'')"
  have "?rt \<in> set user_routes" unfolding user_routes_def set_map by (rule imageI) simp
  then have r: "?rt \<in> set (r_routes demo_router)" using new_router [OF demo_router] by (simp add: routes_def)
  have p: "ro_path ?rt \<notin> set public_endpoints" "ro_mw ?rt = authenticated" "\<not> HasPrefix (ro_path ?rt) ''/api/v1/admin/''"
    by (simp_all add: route_def public_endpoints_def HasPrefix_def)
  have c: "APIKeyHeader (cf_Auth demo_config) = []" "JWTSecret (cf_Auth demo_config) \<noteq> []"
    by (simp_all add: demo_config_def zeroConfig_def)
  show ?thesis
    using requests_without_key [OF demo_router r p(1), of "\<lparr>remoteAddr = ''1.2.3.4:5'',
        header = (\<lambda>k. if k = ''Authorization'' then ''Bearer x'' else []), body = (None :: unit option), ctxUser = None\<rparr>"
        0 0 0 "\<lambda>q s. ((204, NoBody), s)" "(newRateLimiter 100 Minute, ())"]
    by (simp add: c p MaxRequestBodySize_def hasJWT_def)
qed

section \<open>Content that cannot be reached\<close>

text \<open>A pattern against a path, segment by segment; a name in braces stands for any segment that is not empty.\<close>

fun seg_match :: "string list \<Rightarrow> string list \<Rightarrow> bool" where
  "seg_match [] ss \<longleftrightarrow> ss = []"
| "seg_match (p # ps) [] \<longleftrightarrow> False"
| "seg_match (p # ps) (s # ss) \<longleftrightarrow> (if take 1 p = ''{'' then s \<noteq> [] else p = s) \<and> seg_match ps ss"

definition pattern_matches :: "string \<Rightarrow> string \<Rightarrow> bool" where
  "pattern_matches pattern path \<longleftrightarrow> seg_match (SplitAt (CHR ''/'') pattern) (SplitAt (CHR ''/'') path)"

lemma seg_match_take: "seg_match ps ss \<Longrightarrow> seg_match (take n ps) (take n ss)"
proof (induction ps ss arbitrary: n rule: seg_match.induct)
  case (3 p ps s ss)
  then show ?case by (cases n) auto
qed simp_all

lemma no_stream_route:
  "list_all (\<lambda>rt. \<not> seg_match (take 4 (SplitAt (CHR ''/'') (ro_path rt))) [[], ''api'', ''v1'', ''stream'']) (routes False False False)"
  by code_simp

lemma play_segments: "take 4 (SplitAt (CHR ''/'') (play_url i)) = [[], ''api'', ''v1'', ''stream'']"
  by (simp add: play_url_def)

text \<open>
  C10. The routes of libraries, media items and streams are registered only for handlers that are set when the router is built,
  and they can be set only afterwards: the address that a client is told to play matches no route.
\<close>

theorem play_leads_nowhere:
  assumes "NewRouter compile now files cfg d orch dlog = Inr r" and "Media_Play sql i st = WriteJSON c p"
  shows "\<not> list_ex (\<lambda>rt. pattern_matches (ro_path rt) (fst (pi_direct_play p)))
    (r_routes (SetStreamHandler hs (SetMediaHandler hm (SetLibraryHandler hl r))))"
proof -
  obtain i' where i': "fst (pi_direct_play p) = play_url i'"
    using assms(2) by (auto simp: Media_Play_def split: option.splits)
  have "\<not> pattern_matches (ro_path rt) (play_url i')" if "rt \<in> set (routes False False False)" for rt
    using that no_stream_route seg_match_take [of _ _ 4] unfolding pattern_matches_def list_all_iff
    by (metis play_segments)
  then show ?thesis using new_router [OF assms(1)]
    by (simp add: i' list_ex_iff SetStreamHandler_def SetMediaHandler_def SetLibraryHandler_def)
qed

theorem play_leads_nowhere_witness:
  "\<not> list_ex (\<lambda>rt. pattern_matches (ro_path rt) ''/api/v1/stream/hls/F'')
    (r_routes (SetStreamHandler (Some (NewHandler [])) (SetMediaHandler (Some film_store) (SetLibraryHandler None demo_router))))"
proof -
  have i: "Media.MediaItem.mi_ID film = ''F''" by code_simp
  have m: "\<exists>p. Media_Play True ''F'' film_store = WriteJSON 200 p \<and> fst (pi_direct_play p) = ''/api/v1/stream/hls/F''"
    using film_found(1) by (simp add: Media_Play_def play_url_def i)
  then obtain p where "Media_Play True ''F'' film_store = WriteJSON 200 p" and f: "fst (pi_direct_play p) = ''/api/v1/stream/hls/F''" by blast
  from play_leads_nowhere [OF demo_router this(1)] show ?thesis unfolding f .
qed

text \<open>
  The users and the devices are listed, and users created, by two handlers each; the one registered last answers that it
  is not implemented.
\<close>

lemma registered_twice:
  "map ro_handler (filter (\<lambda>rt. ro_method rt = ''GET'' \<and> ro_path rt \<in> {''/api/v1/users'', ''/api/v1/users/''}) (routes False False False))
    = [''r.user.ListUsers'', ''r.listUsersHandler'']"
  "map ro_handler (filter (\<lambda>rt. ro_method rt = ''POST'' \<and> ro_path rt \<in> {''/api/v1/users'', ''/api/v1/users/''}) (routes False False False))
    = [''r.user.CreateUser'', ''r.createUserHandler'']"
  "map ro_handler (filter (\<lambda>rt. ro_method rt = ''GET'' \<and> ro_path rt \<in> {''/api/v1/devices'', ''/api/v1/devices/''}) (routes False False False))
    = [''r.devices.handleSearchDevices'', ''r.listDevicesHandler'']"
  by code_simp+

section \<open>Origins and headers after loading\<close>

text \<open>
  C14. In production without configured origins the server refuses every web socket with an origin, and gives the cors package
  the empty list, which is documented to admit every origin.
\<close>

theorem production_admits_every_origin:
  assumes "readFile path = Inr data" and "unmarshal data zeroConfig = Inr c" and "ProductionMode (cf_Auth c)"
    and "AllowedOrigins (cf_Auth c) = []" and "\<And>og. cors_admits [] og" and "origin \<noteq> []"
  shows "\<exists>cfg. LoadConfig readFile unmarshal path = Inr cfg \<and> cors_admits (cors_origins cfg) origin
    \<and> \<not> CheckOrigin origin (NewWebSocketHub compile (AllowedOrigins (cf_Auth cfg)))"
proof -
  let ?cfg = "applyDefaults c"
  have "LoadConfig readFile unmarshal path = Inr ?cfg" using assms(1,2) by (simp add: LoadConfig_def)
  moreover have "AllowedOrigins (cf_Auth ?cfg) = []" "ProductionMode (cf_Auth ?cfg)"
    using assms(3,4) by (simp_all add: applyDefaults_def applySecurityDefaults_def auth_defaults_def)
  ultimately show ?thesis using assms(5,6)
    by (simp add: cors_origins_def CheckOrigin_def NewWebSocketHub_def originPatterns_def)
qed

theorem production_admits_every_origin_witness:
  "\<exists>cfg. LoadConfig Inr (\<lambda>_ c. Inr (c\<lparr>cf_Auth := (cf_Auth c)\<lparr>ProductionMode := True\<rparr>\<rparr>)) ''config.yaml'' = Inr cfg
    \<and> (\<lambda>os og. os = [] \<or> og \<in> set os) (cors_origins cfg) ''https://evil.example''
    \<and> \<not> CheckOrigin ''https://evil.example'' (NewWebSocketHub (\<lambda>_. None) (AllowedOrigins (cf_Auth cfg)) :: (nat, unit) Hub)"
  by (rule production_admits_every_origin [where data = "''config.yaml''" and c = "zeroConfig\<lparr>cf_Auth := (cf_Auth zeroConfig)\<lparr>ProductionMode := True\<rparr>\<rparr>"])
    (simp_all add: zeroConfig_def)

text \<open>
  C15. Security headers are on by default in the comments of the configuration. A file that does not mention them leaves them
  off: no response gets one, although all their values are set.
\<close>

theorem headers_are_off_by_default:
  assumes "readFile path = Inr data" and "unmarshal data zeroConfig = Inr c"
    and "EnableHeaders (cf_Security c) = EnableHeaders (cf_Security zeroConfig)"
  shows "\<exists>cfg. LoadConfig readFile unmarshal path = Inr cfg \<and> security_set (cf_Security cfg)
    \<and> securityHeadersMiddleware (Some (cf_Security cfg)) h = h"
proof -
  let ?cfg = "applyDefaults c"
  have "LoadConfig readFile unmarshal path = Inr ?cfg" using assms(1,2) by (simp add: LoadConfig_def)
  moreover have "security_set (cf_Security ?cfg)" by (simp add: applyDefaults_def applySecurityDefaults_def parts_set)
  moreover have "\<not> EnableHeaders (cf_Security ?cfg)"
    using assms(3) by (simp add: applyDefaults_def applySecurityDefaults_def security_defaults_def zeroConfig_def)
  ultimately show ?thesis by (simp add: securityHeadersMiddleware_def)
qed

theorem headers_are_off_by_default_witness:
  "\<exists>cfg. LoadConfig Inr (\<lambda>_. Inr) ''config.yaml'' = Inr cfg \<and> security_set (cf_Security cfg)
    \<and> securityHeadersMiddleware (Some (cf_Security cfg)) [] = []"
  by (rule headers_are_off_by_default) simp_all

section \<open>The metrics of a running server\<close>

text \<open>A request as the server sees it: the route's middlewares and handler, none and \<open>NotFound\<close> without a route.\<close>

record ('b, 's) exchange =
  ex_path :: string
  ex_method :: string
  ex_elapsed :: duration
  ex_now :: time
  ex_len :: int
  ex_bytes :: int
  ex_mw :: "middleware list"
  ex_request :: "'b request"
  ex_handler :: "('b, rateLimiter \<times> Metrics \<times> 's) handler"

definition answer :: "AuthConfig \<Rightarrow> ('b, 's) exchange \<Rightarrow> rateLimiter \<times> Metrics \<times> 's \<Rightarrow> response \<times> rateLimiter \<times> Metrics \<times> 's" where
  "answer cfg x = metricsMiddleware (ex_path x) (ex_method x) (ex_elapsed x)
     (guarded cfg (ex_now x) (ex_len x) (ex_bytes x) (ex_mw x) (ex_handler x)) (ex_request x)"

text \<open>Requests in a row, and what each was: the endpoint, the method and the class of the status.\<close>

fun serve_all :: "AuthConfig \<Rightarrow> ('b, 's) exchange list \<Rightarrow> rateLimiter \<times> Metrics \<times> 's
    \<Rightarrow> (string \<times> string \<times> string) list \<times> rateLimiter \<times> Metrics \<times> 's" where
  "serve_all cfg [] s = ([], s)"
| "serve_all cfg (x # xs) s =
     (case answer cfg x s of ((status, _), s1) \<Rightarrow>
        (case serve_all cfg xs s1 of (rs, s2) \<Rightarrow> ((getEndpointKey (ex_path x), ex_method x, statusCodeToString status) # rs, s2)))"

text \<open>
  The segment cache alone records anything in the metrics outside \<^verbatim>\<open>internal/metrics/metrics.go\<close>: a hit, a miss or its size.
\<close>

datatype recording = CacheHit | CacheMiss | CacheSize int

fun record_one :: "recording \<Rightarrow> Metrics \<Rightarrow> Metrics" where
  "record_one CacheHit = App_RecordCacheHit"
| "record_one CacheMiss = App_RecordCacheMiss"
| "record_one (CacheSize n) = SetCacheSize n"

definition records_cache_only :: "('b, 'r \<times> Metrics \<times> 's) handler \<Rightarrow> bool" where
  "records_cache_only h \<longleftrightarrow> (\<forall>q rl m s. \<exists>rs. fst (snd (snd (h q (rl, m, s)))) = fold record_one rs m)"

lemma recordings_frame:
  "requestDuration (fold record_one rs m) = requestDuration m" "requestCount (fold record_one rs m) = requestCount m"
  "\<exists>h k z. fold record_one rs m = m\<lparr>cacheHits := h, cacheMisses := k, cacheSize := z\<rparr>"
proof -
  have "\<exists>h k z. record_one r m = m\<lparr>cacheHits := h, cacheMisses := k, cacheSize := z\<rparr>" for r m
    by (cases r; cases m) (auto simp: App_RecordCacheHit_def App_RecordCacheMiss_def SetCacheSize_def)
  note one = this
  show all: "\<exists>h k z. fold record_one rs m = m\<lparr>cacheHits := h, cacheMisses := k, cacheSize := z\<rparr>"
  proof (induction rs arbitrary: m)
    case Nil
    show ?case by (cases m) auto
  next
    case (Cons r rs)
    obtain h k z where "record_one r m = m\<lparr>cacheHits := h, cacheMisses := k, cacheSize := z\<rparr>" using one by blast
    then show ?case using Cons [of "record_one r m"] by auto
  qed
  then show "requestDuration (fold record_one rs m) = requestDuration m" "requestCount (fold record_one rs m) = requestCount m" by auto
qed

lemma guarded_cache_only: "records_cache_only nxt \<Longrightarrow> records_cache_only (guarded cfg now len bytes ms nxt)"
proof (induction ms)
  case (Cons a ms)
  then have g: "\<exists>rs. fst (snd (snd (guarded cfg now len bytes ms nxt q (rl, m, s)))) = fold record_one rs m" for q rl m s
    by (simp add: records_cache_only_def)
  have n: "\<exists>rs. m = fold record_one rs m" for m by (rule exI [of _ "[]"]) simp
  show ?case
  proof (cases a)
    case RateLimited
    then show ?thesis using g n by (auto simp: records_cache_only_def split: prod.split option.split)
  qed (use g n in \<open>auto simp: records_cache_only_def authMiddleware_def adminOnlyMiddleware_def bodySizeLimitMiddleware_def Let_def
      split: option.split\<close>)
qed simp

text \<open>Joined labels can be told apart when the method and the class hold no separator.\<close>

definition no_bar :: "string \<Rightarrow> bool" where "no_bar s \<longleftrightarrow> CHR ''|'' \<notin> set s"

lemma bar_split: "a @ CHR ''|'' # b = c @ CHR ''|'' # d \<Longrightarrow> no_bar b \<Longrightarrow> no_bar d \<Longrightarrow> a = c \<and> b = d"
  by (auto simp: no_bar_def append_eq_append_conv2 append_eq_Cons_conv Cons_eq_append_conv)

lemma key_inj:
  assumes "no_bar me" "no_bar st" "no_bar me'" "no_bar st'"
  shows "joinLabels [e, me, st] = joinLabels [e', me', st'] \<longleftrightarrow> e = e' \<and> me = me' \<and> st = st'"
proof
  assume "joinLabels [e, me, st] = joinLabels [e', me', st']"
  then have "(e @ CHR ''|'' # me) @ CHR ''|'' # st = (e' @ CHR ''|'' # me') @ CHR ''|'' # st'" by (simp add: joinLabels_def)
  from bar_split [OF this assms(2,4)] bar_split [of e me e' me'] assms(1,3) show "e = e' \<and> me = me' \<and> st = st'" by blast
qed simp

lemma class_plain: "no_bar (statusCodeToString c)"
  by (simp add: no_bar_def statusCodeToString_def)

text \<open>One request more.\<close>

definition key_of :: "string \<times> string \<times> string \<Rightarrow> string" where
  "key_of = (\<lambda>(e, me, st). joinLabels [e, me, st])"

definition tally :: "Metrics \<Rightarrow> string \<Rightarrow> int \<times> int" where
  "tally m k = (case gget (counters (requestCount m)) k of Some c \<Rightarrow> c | None \<Rightarrow> 0,
     case gget (histograms (requestDuration m)) k of Some h \<Rightarrow> hg_count h | None \<Rightarrow> 0)"

definition metric_keys :: "Metrics \<Rightarrow> string set \<times> string set" where
  "metric_keys m = (fst ` set (counters (requestCount m)), fst ` set (histograms (requestDuration m)))"

definition metrics_wf :: "Metrics \<Rightarrow> bool" where
  "metrics_wf m \<longleftrightarrow> gwf (counters (requestCount m)) \<and> gwf (histograms (requestDuration m))"

lemma put_keys: "fst ` set (gput m k v) = insert k (fst ` set m)"
proof (rule set_eqI)
  fix j
  have "j \<in> fst ` set n \<longleftrightarrow> gget n j \<noteq> None" for n :: "('a, 'b) gomap" using gget_None_iff by metis
  then show "j \<in> fst ` set (gput m k v) \<longleftrightarrow> j \<in> insert k (fst ` set m)" by (simp add: gomap_simps)
qed

lemma RecordRequest_tally:
  "tally (RecordRequest e me c d m) k =
     (fst (tally m k) + (if k = joinLabels [e, me, statusCodeToString c] then 1 else 0),
      snd (tally m k) + (if k = joinLabels [e, me, statusCodeToString c] then 1 else 0))"
  by (auto simp: tally_def RecordRequest_def inc_labelled_def observe_labelled_def counter_for_def histogram_for_def Counter_Inc_def
    Counter_Add_def Observe_def NewHistogram_def gomap_simps Let_def split: option.split)

lemma RecordRequest_keys:
  "metric_keys (RecordRequest e me c d m) =
     (insert (joinLabels [e, me, statusCodeToString c]) (fst (metric_keys m)), insert (joinLabels [e, me, statusCodeToString c]) (snd (metric_keys m)))"
  by (simp add: metric_keys_def RecordRequest_def inc_labelled_def observe_labelled_def put_keys Let_def)

lemma RecordRequest_wf: "metrics_wf m \<Longrightarrow> metrics_wf (RecordRequest e me c d m)"
  by (simp add: metrics_wf_def RecordRequest_def inc_labelled_def observe_labelled_def gomap_simps Let_def)

text \<open>Many requests.\<close>

lemma answer_recorded:
  assumes "records_cache_only (ex_handler x)" and "answer cfg x (rl, m, s) = ((status, out), (rl', m', s'))"
  obtains rs where "m' = RecordRequest (getEndpointKey (ex_path x)) (ex_method x) status (ex_elapsed x) (fold record_one rs m)"
proof -
  let ?g = "guarded cfg (ex_now x) (ex_len x) (ex_bytes x) (ex_mw x) (ex_handler x)"
  obtain st o' r1 m1 s1 where g: "?g (ex_request x) (rl, m, s) = ((st, o'), (r1, m1, s1))" by (metis surj_pair)
  obtain rs where "m1 = fold record_one rs m"
    using guarded_cache_only [OF assms(1)] g unfolding records_cache_only_def by (metis fst_conv snd_conv)
  then show ?thesis using assms(2) that [of rs] by (auto simp: answer_def metricsMiddleware_def g)
qed

lemma run_recorded:
  assumes "list_all (records_cache_only \<circ> ex_handler) xs" and "serve_all cfg xs (rl, m, s) = (rs, (rl', m', s'))"
  shows "tally m' k = (fst (tally m k) + int (count_list (map key_of rs) k), snd (tally m k) + int (count_list (map key_of rs) k))
    \<and> metric_keys m' = (fst (metric_keys m) \<union> key_of ` set rs, snd (metric_keys m) \<union> key_of ` set rs) \<and> (metrics_wf m \<longrightarrow> metrics_wf m')
    \<and> (\<exists>h j z. Snapshot m' = Snapshot (m\<lparr>cacheHits := h, cacheMisses := j, cacheSize := z\<rparr>))
    \<and> map fst rs = map (getEndpointKey \<circ> ex_path) xs
    \<and> list_all2 (\<lambda>x r. fst (snd r) = ex_method x \<and> no_bar (snd (snd r))) xs rs"
  using assms
proof (induction xs arbitrary: rl m s rs)
  case Nil
  then show ?case by (cases m') (auto intro!: exI)
next
  case (Cons x xs)
  obtain status out r1 m1 s1 where a: "answer cfg x (rl, m, s) = ((status, out), (r1, m1, s1))" by (metis surj_pair)
  obtain rs1 where r: "serve_all cfg xs (r1, m1, s1) = (rs1, (rl', m', s'))"
      "rs = (getEndpointKey (ex_path x), ex_method x, statusCodeToString status) # rs1"
    using Cons.prems(2) by (auto simp: a split: prod.splits)
  obtain cs where m1: "m1 = RecordRequest (getEndpointKey (ex_path x)) (ex_method x) status (ex_elapsed x) (fold record_one cs m)"
    using Cons.prems(1) by (auto intro: answer_recorded [OF _ a])
  have f: "tally (fold record_one cs m) = tally m" "metric_keys (fold record_one cs m) = metric_keys m" "metrics_wf (fold record_one cs m) = metrics_wf m"
    by (simp_all add: fun_eq_iff tally_def metric_keys_def metrics_wf_def recordings_frame(1,2))
  obtain h0 k0 z0 where c: "fold record_one cs m = m\<lparr>cacheHits := h0, cacheMisses := k0, cacheSize := z0\<rparr>"
    using recordings_frame(3) by blast
  have "list_all (records_cache_only \<circ> ex_handler) xs" using Cons.prems(1) by (simp add: comp_def)
  note IH = Cons.IH [OF this r(1)]
  have s1: "Snapshot (m1\<lparr>cacheHits := h, cacheMisses := j, cacheSize := z\<rparr>) = Snapshot (m\<lparr>cacheHits := h, cacheMisses := j, cacheSize := z\<rparr>)" for h j z
    by (simp add: m1 c Snapshot_def RecordRequest_def GetCacheHitRate_def Let_def)
  show ?case using IH by (auto simp: r(2) m1 RecordRequest_tally RecordRequest_keys RecordRequest_wf f key_of_def class_plain s1 [unfolded m1])
qed

lemma served_no_bar:
  "list_all2 (\<lambda>x r. fst (snd r) = ex_method x \<and> no_bar (snd (snd r))) xs rs \<Longrightarrow> list_all (no_bar \<circ> ex_method) xs
    \<Longrightarrow> a \<in> set rs \<Longrightarrow> no_bar (fst (snd a)) \<and> no_bar (snd (snd a))"
  by (auto simp: list_all2_conv_all_nth list_all_length in_set_conv_nth)

lemma new_metrics: "tally NewMetrics k = (0, 0)" "metric_keys NewMetrics = ({}, {})" "metrics_wf NewMetrics"
  by (simp_all add: tally_def metric_keys_def metrics_wf_def NewMetrics_def NewCounterVec_def NewHistogramVec_def gwf_def gget_def)


text \<open>A request for a page that does not exist, answered after a miss in the cache.\<close>

definition lost :: "string \<Rightarrow> (unit, unit) exchange" where
  "lost p = \<lparr>ex_path = p, ex_method = ''GET'', ex_elapsed = 0, ex_now = 0, ex_len = 0, ex_bytes = 0, ex_mw = [],
     ex_request = \<lparr>remoteAddr = ''1.2.3.4:5'', header = (\<lambda>_. []), body = None, ctxUser = None\<rparr>,
     ex_handler = (\<lambda>q (rl, m, s). ((404, NoBody), (rl, App_RecordCacheMiss m, s)))\<rparr>"

lemma lost_cache_only: "records_cache_only (ex_handler (lost p))"
  unfolding records_cache_only_def lost_def by (auto intro: exI [of _ "[CacheMiss]"])

lemma lost_fields: "ex_path (lost p) = p" "ex_method (lost p) = ''GET''" "no_bar ''GET''" "no_bar ''4xx''"
  by (simp_all add: lost_def no_bar_def)




end
