(* ===== verification/Spec2Isabelle.thy ===== *)
theory Spec2Isabelle
  imports Float64 Breaker SegmentCache CapabilityCache Trust Feedback FFmpeg Users RateLimit VendorRules Validator WebSocketHub Scanner Streaming SoC Clients Integration Devices Admin Health Migrations Benchmark AuditLog Router
begin

text \<open>
  Tenkile is a media server: it learns what a device can play, decides for every request whether a file is
  played directly, remuxed or transcoded, builds the ffmpeg command, streams the segments and keeps the
  accounts. This library models the Go code under \<^verbatim>\<open>src/internal\<close> and \<^verbatim>\<open>src/pkg\<close> as HOL functions and
  proves what the parts promise, or where they break the promise. The root theory holds this overview; the
  properties stand with the components they are about, in the theory of the last component they use.

  \<^bold>\<open>Conventions.\<close> A method is a function from the clock, the other inputs and the record of its receiver to
  its result and the new record; a handler is a function from the request and the world's answers to the
  response and the new state. A Go \<^verbatim>\<open>int\<close> is the integer it denotes, wrapped (\<open>i32\<close>, \<open>i64\<close>) where an
  operation can leave its range; \<^verbatim>\<open>float64\<close> is the rational it denotes with every operation rounded to
  nearest even (theory Float64). A \<^verbatim>\<open>map\<close> is an association list (\<open>gomap\<close>) whose order stands for the order
  in which \<^verbatim>\<open>range\<close> visits it, so a statement about all lists covers all orders; where the order matters to
  the result it is a parameter. Errors are \<open>None\<close>, \<open>Inl\<close> or a value of an error type; a panic is a value too.
  Code that is not in the repository (SQL engines, bcrypt, ffmpeg, fuzzy search, regular expressions, JSON
  decoding) and the operating system are parameters, with what the proofs need of them as assumptions of the
  theorem that needs it.

  \<^bold>\<open>Shared theories.\<close>
  \<^item> Prelude: fixed-width integers, instants, Go maps; the locale \<open>keyed_store\<close>, interpreted on Go maps.
  \<^item> Float64: IEEE doubles; the locale \<open>rounding\<close> of the rounding laws, interpreted on \<open>fl\<close>.
  \<^item> Strings, Files: the functions of \<^verbatim>\<open>strings\<close>, \<^verbatim>\<open>strconv\<close>, \<^verbatim>\<open>path/filepath\<close> and \<^verbatim>\<open>os\<close> that the code
    calls; a disk is a map from paths to entries.
  \<^item> Caching: the locale \<open>ttl_cache\<close> of a cache with a time to live and its client lemmas; interpreted on the
    segment cache, the memory level of the capability cache and the trust scores.
  \<^item> DeviceTypes: the device data of \<^verbatim>\<open>probes/types.go\<close>.

  \<^bold>\<open>Components.\<close>
  \<^item> Breaker (\<^verbatim>\<open>circuitbreaker/breaker.go\<close>): states, admission, recording; when it opens, that it lets nothing
    through before its timeout, and that the default configuration starves once half-open. Scanner, Streaming
    and Strategy call it.
  \<^item> BruteForce, PasswordPolicy, RateLimit, Accounts, Users (\<^verbatim>\<open>api/auth\<close>, \<^verbatim>\<open>api/auth.go\<close>, \<^verbatim>\<open>api/users.go\<close>,
    \<^verbatim>\<open>api/middleware.go\<close> and the authentication part of \<^verbatim>\<open>api/router.go\<close>): lockout after failed logins, the
    strength of passwords, the sliding window of the limiter, login and first administrator, user management.
  \<^item> SegmentCache (\<^verbatim>\<open>metrics/segment_cache.go\<close>), CapabilityCache (\<^verbatim>\<open>probes/cache.go\<close>): both levels, eviction
    and invalidation; hits return the value stored last and the bounds hold.
  \<^item> Probe, Validator (\<^verbatim>\<open>probes/parser.go\<close>, \<^verbatim>\<open>drm.go\<close>, \<^verbatim>\<open>validator.go\<close>): from a probe to capabilities and to
    the verdict on them; the anomaly history.
  \<^item> Trust, Feedback, Curated, VendorRules (\<^verbatim>\<open>probes/trust.go\<close>, \<^verbatim>\<open>feedback.go\<close>, \<^verbatim>\<open>curated.go\<close>,
    \<^verbatim>\<open>embedded.go\<close>): trust scores, playback statistics, the curated device database with its indexes, and
    the rules for vendors.
  \<^item> Codec (\<^verbatim>\<open>pkg/codec\<close>), Server (\<^verbatim>\<open>server/inventory.go\<close>, \<^verbatim>\<open>encoder.go\<close>), Transcode, Strategy, FFmpeg
    (\<^verbatim>\<open>transcode\<close>): codec tables, the encoders of the server, ladders and quality, the decision of the
    orchestrator as a refinement of an abstract strategy, and the ffmpeg command, equal to a reference read
    off the decision argument by argument.
  \<^item> Events, WebSocketHub (\<^verbatim>\<open>events\<close>): the bus over explicit channels; the hub as a step relation.
  \<^item> Media, Scanner (\<^verbatim>\<open>media\<close>): ffprobe's output, the tables of the library, and a scan composed with the
    breaker and the store.
  \<^item> Segmenter, Streaming (\<^verbatim>\<open>stream\<close>): HLS generation on an explicit disk, sessions, cleanup and the request
    handlers, composed with the breaker and the store.
  \<^item> SoC (\<^verbatim>\<open>probes/soc_inference.go\<close>): what is known of a system on a chip; the lookup does not depend on the
    order of Go's map.
  \<^item> Adapter, Android, Apple, WebClient, Clients (\<^verbatim>\<open>clients\<close>): the platform of a request, the adapters that
    read its headers and body, and the registry that composes them.
  \<^item> PlaybackMetrics, Integration (\<^verbatim>\<open>probes/feedback_metrics.go\<close>, \<^verbatim>\<open>feedback_integration.go\<close>): the counters
    and their exports; feedback, trust and capability cache composed as a step relation with pending goroutines.
  \<^item> CacheQueries, Playback, Devices (\<^verbatim>\<open>probes/cache.go\<close>, \<^verbatim>\<open>api/playback.go\<close>, \<^verbatim>\<open>api/devices.go\<close>): the SQL
    searches of the cache and the handlers that compose cache, validator, curated database, feedback and orchestrator.
  \<^item> DecisionLog, Fuzzy, Admin (\<^verbatim>\<open>transcode/logger.go\<close>, \<^verbatim>\<open>probes/curated_fuzzy.go\<close>, \<^verbatim>\<open>api/admin.go\<close>): the log of the
    last ten thousand decisions, a refinement of one that forgets nothing, the matching of device names, and the administration handlers over them, the cache,
    the validator and the curated database.
  \<^item> Configuration, Migrations, AuditLog (\<^verbatim>\<open>config/config.go\<close>, \<^verbatim>\<open>database/sqlite.go\<close>, \<^verbatim>\<open>api/auth/audit.go\<close>): the
    configuration file and its defaults; the pool of connections, whose driver and management are parameters, and
    the migrations; the audit table and its queries.
  \<^item> AppMetrics, Health, Benchmark (\<^verbatim>\<open>metrics/metrics.go\<close>, \<^verbatim>\<open>metrics/health.go\<close>, \<^verbatim>\<open>server/benchmark.go\<close>): counters and
    histograms, health checks, and the benchmark that corrects the estimates of the encoders.
  \<^item> LibraryAPI, Router (\<^verbatim>\<open>api/library.go\<close>, \<^verbatim>\<open>media.go\<close>, \<^verbatim>\<open>router.go\<close>): the handlers of libraries and media items on the
    store and the scanner; the table of routes with the middlewares of each, and what \<^verbatim>\<open>NewRouter\<close> builds. The theorems
    of Router join configuration, middlewares, routes and handlers; requests in a row are followed through the metrics
    middleware, the middlewares of their routes and handlers that record hits and misses of the segment cache.
  \<^bold>\<open>What the lemmas show.\<close> Each theory proves an invariant of its state kept by every operation, the result of
  the operations on every branch the properties need, and then the properties: refinement of an abstract
  description (breaker runs, caches, limiter, strategy, vendor rules, the decision log), round trips (tokens, segments on disk,
  HLS sessions), bounds, and the compositions in which two correct-looking parts fail together, such as the
  scanner and the breaker, or the fallback session and the session cleanup.

  \<^bold>\<open>Bounds and fuel.\<close> No definition uses fuel: every loop of the modelled code is structural or has a measure.
  Counters are bounded only by their width. Rational floats leave out infinities and NaN, which the modelled
  code does not reach from finite inputs, divisions being guarded.

  \<^bold>\<open>Not modelled.\<close> Third-party code is a parameter where the code relies on it and left out otherwise: how chi chooses among routes
  that match, its own middlewares, the cors package, the SQL and web socket drivers, YAML, JWT and hash packages. So are
  the program ffmpeg, the file system and the clock. Left out are the text logs except the audit lines, the loops that
  call a modelled step on a ticker, \<^verbatim>\<open>Close\<close> methods that only stop such loops, getters that return a field, and
  locking: an operation that holds its mutex is one step, and the schedules of goroutines that matter are the step
  relations of Breaker, Integration and WebSocketHub. The program's entry point is not in the repository. The web front
  end, the data files and the SQL of the migrations are not Go code.
\<close>

end
